(* ===== verification/ZF_Prelude.thy ===== *)
theory ZF_Prelude
  imports Main "HOL-Library.Word" "HOL-Library.Monad_Syntax"
begin

text \<open>
  Shared vocabulary of the ZeroFIDO development: machine integers and byte strings, the CTAP status
  codes of \<^verbatim>\<open>zerofido_types.h\<close>, memory writes into a byte buffer, the short-circuit chaining
  of C's \<open>&&\<close> over a state, the collections of rewrite rules the component theories use, and the
  arithmetic facts on bytes that the codecs share.
\<close>

unbundle bit_operations_syntax

section \<open>Machine integers and byte strings\<close>

type_synonym byte = "8 word"
type_synonym u16 = "16 word"
type_synonym u32 = "32 word"
type_synonym u64 = "64 word"
type_synonym bytes = "byte list"

text \<open>
  The collections used by the component proofs: \<open>zf_defs\<close> holds the definitions of small
  operations that are unfolded freely, \<open>zf_bytes\<close> the arithmetic of bytes and big-endian fields.
\<close>

named_theorems zf_defs \<open>definitions of the small operations that proofs unfold\<close>
named_theorems zf_bytes \<open>arithmetic of bytes, words and big-endian fields\<close>

text \<open>On the target (Cortex-M4) \<open>size_t\<close> has 32 bits; sizes are naturals below this bound.\<close>

definition SIZE_MAX :: nat where
  "SIZE_MAX = 2 ^ 32 - 1"

section \<open>CTAP status codes\<close>

datatype ctap_status =
    ZF_CTAP_SUCCESS
  | ZF_CTAP_ERR_INVALID_COMMAND
  | ZF_CTAP_ERR_INVALID_PARAMETER
  | ZF_CTAP_ERR_INVALID_LENGTH
  | ZF_CTAP_ERR_INVALID_CHANNEL
  | ZF_CTAP_ERR_CBOR_UNEXPECTED_TYPE
  | ZF_CTAP_ERR_INVALID_CBOR
  | ZF_CTAP_ERR_MISSING_PARAMETER
  | ZF_CTAP_ERR_CREDENTIAL_EXCLUDED
  | ZF_CTAP_ERR_UNSUPPORTED_ALGORITHM
  | ZF_CTAP_ERR_OPERATION_DENIED
  | ZF_CTAP_ERR_KEY_STORE_FULL
  | ZF_CTAP_ERR_UNSUPPORTED_OPTION
  | ZF_CTAP_ERR_INVALID_OPTION
  | ZF_CTAP_ERR_KEEPALIVE_CANCEL
  | ZF_CTAP_ERR_NO_CREDENTIALS
  | ZF_CTAP_ERR_USER_ACTION_TIMEOUT
  | ZF_CTAP_ERR_NOT_ALLOWED
  | ZF_CTAP_ERR_PIN_INVALID
  | ZF_CTAP_ERR_PIN_BLOCKED
  | ZF_CTAP_ERR_PIN_AUTH_INVALID
  | ZF_CTAP_ERR_PIN_AUTH_BLOCKED
  | ZF_CTAP_ERR_PIN_NOT_SET
  | ZF_CTAP_ERR_PIN_REQUIRED
  | ZF_CTAP_ERR_PIN_POLICY_VIOLATION
  | ZF_CTAP_ERR_PIN_TOKEN_EXPIRED
  | ZF_CTAP_ERR_INVALID_SUBCOMMAND
  | ZF_CTAP_ERR_UNAUTHORIZED_PERMISSION
  | ZF_CTAP_ERR_OTHER

text \<open>The value each status has on the wire.\<close>

fun ctap_status_byte :: "ctap_status \<Rightarrow> byte" where
  "ctap_status_byte ZF_CTAP_SUCCESS = 0x00"
| "ctap_status_byte ZF_CTAP_ERR_INVALID_COMMAND = 0x01"
| "ctap_status_byte ZF_CTAP_ERR_INVALID_PARAMETER = 0x02"
| "ctap_status_byte ZF_CTAP_ERR_INVALID_LENGTH = 0x03"
| "ctap_status_byte ZF_CTAP_ERR_INVALID_CHANNEL = 0x0B"
| "ctap_status_byte ZF_CTAP_ERR_CBOR_UNEXPECTED_TYPE = 0x11"
| "ctap_status_byte ZF_CTAP_ERR_INVALID_CBOR = 0x12"
| "ctap_status_byte ZF_CTAP_ERR_MISSING_PARAMETER = 0x14"
| "ctap_status_byte ZF_CTAP_ERR_CREDENTIAL_EXCLUDED = 0x19"
| "ctap_status_byte ZF_CTAP_ERR_UNSUPPORTED_ALGORITHM = 0x26"
| "ctap_status_byte ZF_CTAP_ERR_OPERATION_DENIED = 0x27"
| "ctap_status_byte ZF_CTAP_ERR_KEY_STORE_FULL = 0x28"
| "ctap_status_byte ZF_CTAP_ERR_UNSUPPORTED_OPTION = 0x2B"
| "ctap_status_byte ZF_CTAP_ERR_INVALID_OPTION = 0x2C"
| "ctap_status_byte ZF_CTAP_ERR_KEEPALIVE_CANCEL = 0x2D"
| "ctap_status_byte ZF_CTAP_ERR_NO_CREDENTIALS = 0x2E"
| "ctap_status_byte ZF_CTAP_ERR_USER_ACTION_TIMEOUT = 0x2F"
| "ctap_status_byte ZF_CTAP_ERR_NOT_ALLOWED = 0x30"
| "ctap_status_byte ZF_CTAP_ERR_PIN_INVALID = 0x31"
| "ctap_status_byte ZF_CTAP_ERR_PIN_BLOCKED = 0x32"
| "ctap_status_byte ZF_CTAP_ERR_PIN_AUTH_INVALID = 0x33"
| "ctap_status_byte ZF_CTAP_ERR_PIN_AUTH_BLOCKED = 0x34"
| "ctap_status_byte ZF_CTAP_ERR_PIN_NOT_SET = 0x35"
| "ctap_status_byte ZF_CTAP_ERR_PIN_REQUIRED = 0x36"
| "ctap_status_byte ZF_CTAP_ERR_PIN_POLICY_VIOLATION = 0x37"
| "ctap_status_byte ZF_CTAP_ERR_PIN_TOKEN_EXPIRED = 0x38"
| "ctap_status_byte ZF_CTAP_ERR_INVALID_SUBCOMMAND = 0x3E"
| "ctap_status_byte ZF_CTAP_ERR_UNAUTHORIZED_PERMISSION = 0x40"
| "ctap_status_byte ZF_CTAP_ERR_OTHER = 0x7F"

text \<open>A fallible computation: the error status, or the value it produces on \<open>ZF_CTAP_SUCCESS\<close>.\<close>

type_synonym 'a ctap_result = "ctap_status + 'a"

lemma inj_ctap_status_byte: "inj ctap_status_byte"
proof (rule injI)
  fix s t :: ctap_status
  assume "ctap_status_byte s = ctap_status_byte t"
  then show "s = t" by (cases s; cases t; simp)
qed

section \<open>Memory writes and short-circuit chaining\<close>

text \<open>\<^verbatim>\<open>memcpy(buf + off, data, n)\<close>: the bytes at \<open>[off, off + n)\<close> are replaced.\<close>

definition write_at :: "bytes \<Rightarrow> nat \<Rightarrow> bytes \<Rightarrow> bytes" where
  "write_at buf off data = take off buf @ data @ drop (off + length data) buf"

lemma length_write_at [simp]:
  "off + length data \<le> length buf \<Longrightarrow> length (write_at buf off data) = length buf"
  by (simp add: write_at_def)

lemma take_write_at:
  "off + length data \<le> length buf \<Longrightarrow>
     take (off + length data) (write_at buf off data) = take off buf @ data"
  by (simp add: write_at_def)

lemma take_write_at_before [simp]:
  "off \<le> length buf \<Longrightarrow> n \<le> off \<Longrightarrow> take n (write_at buf off data) = take n buf"
  by (simp add: write_at_def min_def)

lemma drop_write_at_after [simp]:
  "off + length data \<le> length buf \<Longrightarrow> off + length data \<le> n \<Longrightarrow>
     drop n (write_at buf off data) = drop n buf"
  by (simp add: write_at_def)

text \<open>
  \<open>f(s) && g(s)\<close> over a state the calls mutate: the second call runs in the state the first one
  left behind, and only when the first one returned true.
\<close>

definition and_then :: "bool \<times> 's \<Rightarrow> ('s \<Rightarrow> bool \<times> 's) \<Rightarrow> bool \<times> 's" where
  "and_then r g = (if fst r then g (snd r) else r)"

lemma and_then_simps [simp]:
  "and_then (True, s) g = g s"
  "and_then (False, s) g = (False, s)"
  by (simp_all add: and_then_def)

section \<open>Arithmetic of bytes\<close>

lemma unat_byte_less [simp]: "unat (b :: byte) < 256"
  using unsigned_less [of b, where ?'a = nat] by simp

lemma unat_byte_le [simp]: "unat (b :: byte) \<le> 255"
  using unat_byte_less [of b] by linarith

lemma unat_of_nat_byte: "n < 256 \<Longrightarrow> unat (word_of_nat n :: byte) = n"
  by (simp add: unat_of_nat)

lemma byte_eq_iff: "(a :: byte) = b \<longleftrightarrow> unat a = unat b"
  by (rule word_unat_eq_iff)

text \<open>The test \<open>(b & 0xC0) == 0x80\<close> for a UTF-8 continuation byte, as a range.\<close>

lemma continuation_mask_iff [zf_bytes]:
  "(b :: byte) AND 0xC0 = 0x80 \<longleftrightarrow> 0x80 \<le> unat b \<and> unat b < 0xC0"
proof -
  have high: "(0xC0 :: byte) = NOT (mask 6)"
    by (simp add: mask_eq_exp_minus_1)
  have mask: "b AND 0xC0 = push_bit 6 (drop_bit 6 b)"
    unfolding high by (auto intro!: bit_word_eqI simp: bit_simps)
  have "unat (push_bit 6 (drop_bit 6 b)) = (unat b div 64 * 64) mod 256"
    by (simp add: push_bit_eq_mult drop_bit_eq_div unat_word_ariths unat_div mod_mult_left_eq)
  moreover have "unat b div 64 * 64 < 256"
    using unat_byte_less [of b] by linarith
  ultimately have "unat (b AND 0xC0) = unat b div 64 * 64"
    by (simp add: mask)
  then have "b AND 0xC0 = 0x80 \<longleftrightarrow> unat b div 64 * 64 = 128"
    by (simp add: byte_eq_iff)
  also have "\<dots> \<longleftrightarrow> 0x80 \<le> unat b \<and> unat b < 0xC0"
    by auto
  finally show ?thesis .
qed

section \<open>Big-endian fields\<close>

text \<open>
  The value of a big-endian byte string and the big-endian bytes of a value. The sources spell both
  out with shifts for two, four and eight bytes; \<open>be_value_2\<close>, \<open>be_value_4\<close> and
  \<open>be_value_8\<close> connect the two styles.
\<close>

definition be_value :: "bytes \<Rightarrow> 'a::len word" where
  "be_value bs = foldl (\<lambda>acc b. push_bit 8 acc OR ucast b) 0 bs"

fun be_bytes :: "nat \<Rightarrow> 'a::len word \<Rightarrow> bytes" where
  "be_bytes 0 v = []"
| "be_bytes (Suc n) v = be_bytes n (drop_bit 8 v) @ [ucast v]"

lemma be_value_Nil [simp]: "be_value [] = 0"
  by (simp add: be_value_def)

lemma be_value_snoc [simp]: "be_value (bs @ [b]) = push_bit 8 (be_value bs) OR ucast b"
  by (simp add: be_value_def)

lemma length_be_bytes [simp]: "length (be_bytes n v) = n"
  by (induction n arbitrary: v) simp_all

lemma be_value_2:
  "be_value [a, b] = push_bit 8 (ucast a) OR (ucast b :: 'a::len word)"
  by (simp add: be_value_def)

lemma be_value_4:
  "be_value [a, b, c, d] =
     push_bit 24 (ucast a) OR push_bit 16 (ucast b) OR push_bit 8 (ucast c) OR
     (ucast d :: 'a::len word)"
  by (simp add: be_value_def push_bit_or push_bit_push_bit or.assoc)

lemma be_value_8:
  "be_value [a, b, c, d, e, f, g, h] =
     push_bit 56 (ucast a) OR push_bit 48 (ucast b) OR push_bit 40 (ucast c) OR
     push_bit 32 (ucast d) OR push_bit 24 (ucast e) OR push_bit 16 (ucast f) OR
     push_bit 8 (ucast g) OR (ucast h :: 'a::len word)"
  by (simp add: be_value_def push_bit_or push_bit_push_bit or.assoc)

lemma be_value_be_bytes: "be_value (be_bytes n v) = take_bit (8 * n) (v :: 'a::len word)"
proof (induction n arbitrary: v)
  case 0
  then show ?case by simp
next
  case (Suc n)
  have "push_bit 8 (take_bit (8 * n) (drop_bit 8 v)) OR ucast (ucast v :: byte)
        = take_bit (8 * Suc n) v"
    by (rule bit_word_eqI) (auto simp: bit_simps)
  then show ?case by (simp add: Suc)
qed

lemma take_bit_be_value:
  "take_bit (8 * length bs) (be_value bs :: 'a::len word) = be_value bs"
proof (induction bs rule: rev_induct)
  case Nil
  then show ?case by simp
next
  case (snoc b bs)
  have "take_bit (8 + 8 * length bs) (push_bit 8 x OR ucast b) = push_bit 8 x OR ucast b"
    if "take_bit (8 * length bs) x = x" for x :: "'a word"
  proof (rule bit_word_eqI)
    fix n
    assume "n < LENGTH('a)"
    have "bit x k \<Longrightarrow> k < 8 * length bs" for k
      using that by (metis bit_take_bit_iff)
    then show "bit (take_bit (8 + 8 * length bs) (push_bit 8 x OR ucast b)) n =
          bit (push_bit 8 x OR ucast b) n"
      by (fastforce simp: bit_simps dest: bit_imp_le_length)
  qed
  with snoc show ?case by simp
qed

lemma be_bytes_be_value:
  "8 * length bs \<le> LENGTH('a) \<Longrightarrow> be_bytes (length bs) (be_value bs :: 'a::len word) = bs"
proof (induction bs rule: rev_induct)
  case Nil
  then show ?case by simp
next
  case (snoc b bs)
  let ?x = "be_value bs :: 'a word"
  have low: "ucast (push_bit 8 ?x OR ucast b) = b"
    using snoc.prems by (auto intro!: bit_word_eqI simp: bit_simps)
  have high: "drop_bit 8 (push_bit 8 ?x OR ucast b) = ?x"
  proof (rule bit_word_eqI)
    fix n
    have "bit ?x n \<Longrightarrow> n < 8 * length bs"
      using take_bit_be_value [of bs, where ?'a = 'a] by (metis bit_take_bit_iff)
    then show "bit (drop_bit 8 (push_bit 8 ?x OR ucast b)) n = bit ?x n"
      using snoc.prems by (auto simp: bit_simps dest: bit_imp_le_length)
  qed
  show ?case using snoc by (simp add: low high del: drop_bit_or)
qed

lemma be_value_less:
  "8 * length bs < LENGTH('a) \<Longrightarrow> unat (be_value bs :: 'a::len word) < 2 ^ (8 * length bs)"
  by (metis take_bit_be_value unsigned_take_bit_eq take_bit_nat_less_exp)

end
