(* ===== verification/Utf8.thy ===== *)
theory Utf8
  imports ZF_Prelude
begin

text \<open>
  Two components validate UTF-8 by hand: the CBOR text reader (\<^verbatim>\<open>zerofido_cbor.c\<close>) and the PIN
  policy (\<^verbatim>\<open>pin/core/plaintext.c\<close>). This theory has both loops and the abstract specification they
  share: the encoding of Unicode scalar values. The index \<open>i\<close> of the C loops is the position
  where the remaining list starts; \<open>i + k >= size\<close> says that fewer than \<open>k\<close> bytes follow the lead.
\<close>

section \<open>The validators of the code\<close>

fun zf_cbor_utf8_is_valid :: "bytes \<Rightarrow> bool" where
  "zf_cbor_utf8_is_valid [] = True"
| "zf_cbor_utf8_is_valid (lead # p) =
    (if lead \<le> 0x7F then zf_cbor_utf8_is_valid p
     else if lead \<ge> 0xC2 \<and> lead \<le> 0xDF then
       (if length p < 1 \<or> p ! 0 AND 0xC0 \<noteq> 0x80 then False
        else zf_cbor_utf8_is_valid (drop 1 p))
     else if lead = 0xE0 then
       (if length p < 2 \<or> p ! 0 < 0xA0 \<or> p ! 0 > 0xBF \<or> p ! 1 AND 0xC0 \<noteq> 0x80 then False
        else zf_cbor_utf8_is_valid (drop 2 p))
     else if (lead \<ge> 0xE1 \<and> lead \<le> 0xEC) \<or> (lead \<ge> 0xEE \<and> lead \<le> 0xEF) then
       (if length p < 2 \<or> p ! 0 AND 0xC0 \<noteq> 0x80 \<or> p ! 1 AND 0xC0 \<noteq> 0x80 then False
        else zf_cbor_utf8_is_valid (drop 2 p))
     else if lead = 0xED then
       (if length p < 2 \<or> p ! 0 < 0x80 \<or> p ! 0 > 0x9F \<or> p ! 1 AND 0xC0 \<noteq> 0x80 then False
        else zf_cbor_utf8_is_valid (drop 2 p))
     else if lead = 0xF0 then
       (if length p < 3 \<or> p ! 0 < 0x90 \<or> p ! 0 > 0xBF \<or> p ! 1 AND 0xC0 \<noteq> 0x80 \<or>
           p ! 2 AND 0xC0 \<noteq> 0x80 then False
        else zf_cbor_utf8_is_valid (drop 3 p))
     else if lead \<ge> 0xF1 \<and> lead \<le> 0xF3 then
       (if length p < 3 \<or> p ! 0 AND 0xC0 \<noteq> 0x80 \<or> p ! 1 AND 0xC0 \<noteq> 0x80 \<or>
           p ! 2 AND 0xC0 \<noteq> 0x80 then False
        else zf_cbor_utf8_is_valid (drop 3 p))
     else if lead = 0xF4 then
       (if length p < 3 \<or> p ! 0 < 0x80 \<or> p ! 0 > 0x8F \<or> p ! 1 AND 0xC0 \<noteq> 0x80 \<or>
           p ! 2 AND 0xC0 \<noteq> 0x80 then False
        else zf_cbor_utf8_is_valid (drop 3 p))
     else False)"

text \<open>The PIN policy's copy of the loop also counts the code points.\<close>

fun zf_pin_validate_utf8_from :: "nat \<Rightarrow> bytes \<Rightarrow> nat option" where
  "zf_pin_validate_utf8_from count [] = Some count"
| "zf_pin_validate_utf8_from count (lead # p) =
    (if lead \<le> 0x7F then zf_pin_validate_utf8_from (Suc count) p
     else if lead \<ge> 0xC2 \<and> lead \<le> 0xDF then
       (if length p < 1 \<or> p ! 0 AND 0xC0 \<noteq> 0x80 then None
        else zf_pin_validate_utf8_from (Suc count) (drop 1 p))
     else if lead = 0xE0 then
       (if length p < 2 \<or> p ! 0 < 0xA0 \<or> p ! 0 > 0xBF \<or> p ! 1 AND 0xC0 \<noteq> 0x80 then None
        else zf_pin_validate_utf8_from (Suc count) (drop 2 p))
     else if (lead \<ge> 0xE1 \<and> lead \<le> 0xEC) \<or> (lead \<ge> 0xEE \<and> lead \<le> 0xEF) then
       (if length p < 2 \<or> p ! 0 AND 0xC0 \<noteq> 0x80 \<or> p ! 1 AND 0xC0 \<noteq> 0x80 then None
        else zf_pin_validate_utf8_from (Suc count) (drop 2 p))
     else if lead = 0xED then
       (if length p < 2 \<or> p ! 0 < 0x80 \<or> p ! 0 > 0x9F \<or> p ! 1 AND 0xC0 \<noteq> 0x80 then None
        else zf_pin_validate_utf8_from (Suc count) (drop 2 p))
     else if lead = 0xF0 then
       (if length p < 3 \<or> p ! 0 < 0x90 \<or> p ! 0 > 0xBF \<or> p ! 1 AND 0xC0 \<noteq> 0x80 \<or>
           p ! 2 AND 0xC0 \<noteq> 0x80 then None
        else zf_pin_validate_utf8_from (Suc count) (drop 3 p))
     else if lead \<ge> 0xF1 \<and> lead \<le> 0xF3 then
       (if length p < 3 \<or> p ! 0 AND 0xC0 \<noteq> 0x80 \<or> p ! 1 AND 0xC0 \<noteq> 0x80 \<or>
           p ! 2 AND 0xC0 \<noteq> 0x80 then None
        else zf_pin_validate_utf8_from (Suc count) (drop 3 p))
     else if lead = 0xF4 then
       (if length p < 3 \<or> p ! 0 < 0x80 \<or> p ! 0 > 0x8F \<or> p ! 1 AND 0xC0 \<noteq> 0x80 \<or>
           p ! 2 AND 0xC0 \<noteq> 0x80 then None
        else zf_pin_validate_utf8_from (Suc count) (drop 3 p))
     else None)"

definition zf_pin_validate_utf8 :: "bytes \<Rightarrow> nat option" where
  "zf_pin_validate_utf8 pin = zf_pin_validate_utf8_from 0 pin"

section \<open>The specification: encodings of Unicode scalar values\<close>

definition unicode_scalar :: "nat \<Rightarrow> bool" where
  "unicode_scalar cp \<longleftrightarrow> cp < 0xD800 \<or> (0xE000 \<le> cp \<and> cp \<le> 0x10FFFF)"

definition utf8_encode :: "nat \<Rightarrow> bytes" where
  "utf8_encode cp =
    (if cp < 0x80 then [word_of_nat cp]
     else if cp < 0x800 then
       [word_of_nat (0xC0 + cp div 64), word_of_nat (0x80 + cp mod 64)]
     else if cp < 0x10000 then
       [word_of_nat (0xE0 + cp div 4096), word_of_nat (0x80 + cp div 64 mod 64),
        word_of_nat (0x80 + cp mod 64)]
     else
       [word_of_nat (0xF0 + cp div 262144), word_of_nat (0x80 + cp div 4096 mod 64),
        word_of_nat (0x80 + cp div 64 mod 64), word_of_nat (0x80 + cp mod 64)])"

definition utf8_text :: "nat list \<Rightarrow> bytes" where
  "utf8_text cps = concat (map utf8_encode cps)"

text \<open>
  The byte patterns of the Unicode standard's table of well-formed sequences, as a predicate on one
  encoded scalar value. It is the pivot of the proofs: the validators follow the table, and the
  table is exactly the set of encodings.
\<close>

definition utf8_cont :: "byte \<Rightarrow> bool" where
  "utf8_cont b \<longleftrightarrow> 0x80 \<le> unat b \<and> unat b < 0xC0"

definition utf8_lead3 :: "byte \<Rightarrow> byte \<Rightarrow> bool" where
  "utf8_lead3 a b \<longleftrightarrow> 0xE0 \<le> unat a \<and> unat a \<le> 0xEF \<and> utf8_cont b \<and>
     (unat a = 0xE0 \<longrightarrow> 0xA0 \<le> unat b) \<and> (unat a = 0xED \<longrightarrow> unat b < 0xA0)"

definition utf8_lead4 :: "byte \<Rightarrow> byte \<Rightarrow> bool" where
  "utf8_lead4 a b \<longleftrightarrow> 0xF0 \<le> unat a \<and> unat a \<le> 0xF4 \<and> utf8_cont b \<and>
     (unat a = 0xF0 \<longrightarrow> 0x90 \<le> unat b) \<and> (unat a = 0xF4 \<longrightarrow> unat b < 0x90)"

inductive utf8_seq :: "bytes \<Rightarrow> bool" where
  seq1: "unat a < 0x80 \<Longrightarrow> utf8_seq [a]"
| seq2: "0xC2 \<le> unat a \<Longrightarrow> unat a \<le> 0xDF \<Longrightarrow> utf8_cont b \<Longrightarrow> utf8_seq [a, b]"
| seq3: "utf8_lead3 a b \<Longrightarrow> utf8_cont c \<Longrightarrow> utf8_seq [a, b, c]"
| seq4: "utf8_lead4 a b \<Longrightarrow> utf8_cont c \<Longrightarrow> utf8_cont d \<Longrightarrow> utf8_seq [a, b, c, d]"

lemma mask_is_cont [simp]: "(b AND 0xC0 = 0x80) = utf8_cont b"
  by (simp add: utf8_cont_def continuation_mask_iff)

subsection \<open>The table is the set of encodings\<close>

lemma div_mod_digit:
  fixes h l m :: nat
  assumes "l < m"
  shows "(h * m + l) div m = h" and "(h * m + l) mod m = l"
  using assms by simp_all

lemma utf8_encode_2:
  "2 \<le> a \<Longrightarrow> a < 32 \<Longrightarrow> b < 64 \<Longrightarrow>
     utf8_encode (a * 64 + b) = [word_of_nat (0xC0 + a), word_of_nat (0x80 + b)]"
  by (simp add: utf8_encode_def)

lemma utf8_encode_3:
  assumes "a < 16" "b < 64" "c < 64" "a = 0 \<Longrightarrow> 32 \<le> b"
  shows "utf8_encode (a * 4096 + b * 64 + c) =
           [word_of_nat (0xE0 + a), word_of_nat (0x80 + b), word_of_nat (0x80 + c)]"
proof -
  have shape: "a * 4096 + b * 64 + c = (a * 64 + b) * 64 + c" by simp
  have "(a * 4096 + b * 64 + c) div 64 = a * 64 + b" "(a * 4096 + b * 64 + c) mod 64 = c"
    unfolding shape using assms by (subst div_mod_digit; simp)+
  moreover have "(a * 4096 + b * 64 + c) div 4096 = a"
    using assms by (intro div_nat_eqI) simp_all
  moreover have "0x800 \<le> a * 4096 + b * 64 + c" "a * 4096 + b * 64 + c < 0x10000"
    using assms by (cases a; simp)+
  ultimately show ?thesis using assms by (simp add: utf8_encode_def)
qed

lemma utf8_encode_4:
  assumes "a < 5" "b < 64" "c < 64" "d < 64" "a = 0 \<Longrightarrow> 16 \<le> b"
  shows "utf8_encode (a * 262144 + b * 4096 + c * 64 + d) =
           [word_of_nat (0xF0 + a), word_of_nat (0x80 + b), word_of_nat (0x80 + c),
            word_of_nat (0x80 + d)]"
proof -
  let ?n = "a * 262144 + b * 4096 + c * 64 + d"
  have shape: "?n = (a * 4096 + b * 64 + c) * 64 + d" by simp
  have "?n div 64 = (a * 64 + b) * 64 + c" "?n mod 64 = d"
    unfolding shape using assms by (subst div_mod_digit; simp)+
  then have "?n div 64 mod 64 = c" "?n mod 64 = d"
    using assms by (simp_all only: div_mod_digit)
  moreover have "?n div 4096 = a * 64 + b" using assms by (intro div_nat_eqI) simp_all
  moreover have "?n div 262144 = a" using assms by (intro div_nat_eqI) simp_all
  moreover have "0x10000 \<le> ?n" using assms by (cases a; simp)
  ultimately show ?thesis using assms by (simp add: utf8_encode_def)
qed

lemma digits2:
  fixes cp :: nat
  obtains a b where "cp = a * 64 + b" "b < 64"
  by (metis div_mult_mod_eq mod_less_divisor zero_less_numeral)

lemma digits3:
  fixes cp :: nat
  obtains a b c where "cp = a * 4096 + b * 64 + c" "b < 64" "c < 64"
proof -
  obtain x c where "cp = x * 64 + c" "c < 64" by (rule digits2)
  moreover obtain a b where "x = a * 64 + b" "b < 64" by (rule digits2)
  ultimately show thesis by (intro that [of a b c]) simp_all
qed

lemma digits4:
  fixes cp :: nat
  obtains a b c d where "cp = a * 262144 + b * 4096 + c * 64 + d" "b < 64" "c < 64" "d < 64"
proof -
  obtain x c d where "cp = x * 4096 + c * 64 + d" "c < 64" "d < 64" by (rule digits3)
  moreover obtain a b where "x = a * 64 + b" "b < 64" by (rule digits2)
  ultimately show thesis by (intro that [of a b c d]) simp_all
qed

lemma utf8_seq_encode:
  assumes "unicode_scalar cp"
  shows "utf8_seq (utf8_encode cp)"
proof -
  consider "cp < 0x80" | "0x80 \<le> cp" "cp < 0x800" | "0x800 \<le> cp" "cp < 0x10000" | "0x10000 \<le> cp"
    by linarith
  then show ?thesis
  proof cases
    case 1
    then show ?thesis by (simp add: utf8_encode_def seq1 unat_of_nat_byte)
  next
    case 2
    obtain a b where cp: "cp = a * 64 + b" "b < 64" by (rule digits2)
    with 2 have "2 \<le> a" "a < 32" by linarith+
    with cp show ?thesis
      by (simp add: utf8_encode_2 del: of_nat_add, intro seq2) (simp_all add: unat_of_nat_byte utf8_cont_def del: of_nat_add)
  next
    case 3
    obtain a b c where cp: "cp = a * 4096 + b * 64 + c" "b < 64" "c < 64" by (rule digits3)
    have "a < 16" "a = 0 \<Longrightarrow> 32 \<le> b" "a = 13 \<Longrightarrow> b < 32"
      using 3 cp assms by (auto simp: unicode_scalar_def)
    with cp show ?thesis
      by (simp add: utf8_encode_3 del: of_nat_add, intro seq3)
        (auto simp add: unat_of_nat_byte utf8_cont_def utf8_lead3_def simp del: of_nat_add)
  next
    case 4
    obtain a b c d where
      cp: "cp = a * 262144 + b * 4096 + c * 64 + d" "b < 64" "c < 64" "d < 64"
      by (rule digits4)
    have "a < 5" "a = 0 \<Longrightarrow> 16 \<le> b" "a = 4 \<Longrightarrow> b < 16"
      using 4 cp assms by (auto simp: unicode_scalar_def)
    with cp show ?thesis
      by (simp add: utf8_encode_4 del: of_nat_add, intro seq4)
        (auto simp add: unat_of_nat_byte utf8_cont_def utf8_lead4_def simp del: of_nat_add)
  qed
qed

lemma encode_utf8_seq:
  assumes "utf8_seq s"
  shows "\<exists>cp. unicode_scalar cp \<and> s = utf8_encode cp"
  using assms
proof cases
  case (seq1 a)
  then have "unicode_scalar (unat a) \<and> s = utf8_encode (unat a)"
    by (simp add: unicode_scalar_def utf8_encode_def)
  then show ?thesis ..
next
  case (seq2 a b)
  then obtain x y where ab: "unat a = 0xC0 + x" "unat b = 0x80 + y" "2 \<le> x" "x < 32" "y < 64"
    by (intro that [of "unat a - 0xC0" "unat b - 0x80"]) (auto simp: utf8_cont_def)
  then have "utf8_encode (x * 64 + y) = [word_of_nat (unat a), word_of_nat (unat b)]"
    by (simp only: utf8_encode_2)
  moreover have "unicode_scalar (x * 64 + y)"
    using ab by (simp add: unicode_scalar_def)
  ultimately have "unicode_scalar (x * 64 + y) \<and> s = utf8_encode (x * 64 + y)"
    using seq2 by simp
  then show ?thesis ..
next
  case (seq3 a b c)
  then obtain x y z where abc: "unat a = 0xE0 + x" "unat b = 0x80 + y" "unat c = 0x80 + z"
    "x < 16" "y < 64" "z < 64" "x = 0 \<Longrightarrow> 32 \<le> y" "x = 13 \<Longrightarrow> y < 32"
    by (intro that [of "unat a - 0xE0" "unat b - 0x80" "unat c - 0x80"])
      (auto simp: utf8_cont_def utf8_lead3_def)
  then have "utf8_encode (x * 4096 + y * 64 + z) =
      [word_of_nat (unat a), word_of_nat (unat b), word_of_nat (unat c)]"
    by (simp only: utf8_encode_3)
  moreover have "unicode_scalar (x * 4096 + y * 64 + z)"
    using abc by (cases "x = 13") (auto simp: unicode_scalar_def)
  ultimately have "unicode_scalar (x * 4096 + y * 64 + z) \<and> s = utf8_encode (x * 4096 + y * 64 + z)"
    using seq3 by simp
  then show ?thesis ..
next
  case (seq4 a b c d)
  then obtain x y z w where abcd:
    "unat a = 0xF0 + x" "unat b = 0x80 + y" "unat c = 0x80 + z" "unat d = 0x80 + w"
    "x < 5" "y < 64" "z < 64" "w < 64" "x = 0 \<Longrightarrow> 16 \<le> y" "x = 4 \<Longrightarrow> y < 16"
    by (intro that [of "unat a - 0xF0" "unat b - 0x80" "unat c - 0x80" "unat d - 0x80"])
      (auto simp: utf8_cont_def utf8_lead4_def)
  let ?cp = "x * 262144 + y * 4096 + z * 64 + w"
  from abcd have "utf8_encode ?cp =
      [word_of_nat (unat a), word_of_nat (unat b), word_of_nat (unat c), word_of_nat (unat d)]"
    by (simp only: utf8_encode_4)
  moreover have "unicode_scalar ?cp"
    using abcd by (cases "x = 0"; cases "x = 4") (auto simp: unicode_scalar_def)
  ultimately have "unicode_scalar ?cp \<and> s = utf8_encode ?cp"
    using seq4 by simp
  then show ?thesis ..
qed

subsection \<open>The validators follow the table\<close>

lemma lead_byte_eq:
  "((a :: byte) = 0xE0) = (unat a = 0xE0)" "(a = 0xED) = (unat a = 0xED)"
  "(a = 0xF0) = (unat a = 0xF0)" "(a = 0xF4) = (unat a = 0xF4)"
  by (simp_all add: byte_eq_iff)

lemmas byte_order_simps = word_le_nat_alt word_less_nat_alt lead_byte_eq

lemma valid_seq:
  assumes "utf8_seq s"
  shows "zf_cbor_utf8_is_valid (s @ r) = zf_cbor_utf8_is_valid r"
  using assms
proof cases
  case (seq3 a b c)
  then show ?thesis by (auto simp: byte_order_simps utf8_lead3_def utf8_cont_def)
next
  case (seq4 a b c d)
  then show ?thesis by (auto simp: byte_order_simps utf8_lead4_def utf8_cont_def)
qed (simp_all add: byte_order_simps)

lemma count_seq:
  assumes "utf8_seq s"
  shows "zf_pin_validate_utf8_from n (s @ r) = zf_pin_validate_utf8_from (Suc n) r"
  using assms
proof cases
  case (seq3 a b c)
  then show ?thesis by (auto simp: byte_order_simps utf8_lead3_def utf8_cont_def)
next
  case (seq4 a b c d)
  then show ?thesis by (auto simp: byte_order_simps utf8_lead4_def utf8_cont_def)
qed (simp_all add: byte_order_simps)

lemma valid_Cons_table:
  assumes "zf_cbor_utf8_is_valid (lead # p)"
  shows "(unat lead < 0x80 \<and> zf_cbor_utf8_is_valid p) \<or>
    (p \<noteq> [] \<and> 0xC2 \<le> unat lead \<and> unat lead \<le> 0xDF \<and> utf8_cont (p ! 0) \<and>
      zf_cbor_utf8_is_valid (drop 1 p)) \<or>
    (2 \<le> length p \<and> utf8_lead3 lead (p ! 0) \<and> utf8_cont (p ! 1) \<and>
      zf_cbor_utf8_is_valid (drop 2 p)) \<or>
    (3 \<le> length p \<and> utf8_lead4 lead (p ! 0) \<and> utf8_cont (p ! 1) \<and> utf8_cont (p ! 2) \<and>
      zf_cbor_utf8_is_valid (drop 3 p))"
  using assms
  by (auto simp: byte_order_simps utf8_lead3_def utf8_lead4_def utf8_cont_def not_less
      split: if_splits)

lemma valid_Cons:
  assumes "zf_cbor_utf8_is_valid (lead # p)"
  shows "\<exists>s r. lead # p = s @ r \<and> utf8_seq s \<and> zf_cbor_utf8_is_valid r"
  using valid_Cons_table [OF assms]
proof (elim disjE conjE)
  assume "unat lead < 0x80" "zf_cbor_utf8_is_valid p"
  then show ?thesis by (intro exI [of _ "[lead]"] exI [of _ p]) (simp add: seq1)
next
  assume *: "0xC2 \<le> unat lead" "unat lead \<le> 0xDF" "utf8_cont (p ! 0)"
    "zf_cbor_utf8_is_valid (drop 1 p)" and "p \<noteq> []"
  then obtain b r where "p = b # r" by (cases p) auto
  with * show ?thesis by (intro exI [of _ "[lead, b]"] exI [of _ r]) (simp add: seq2)
next
  assume *: "utf8_lead3 lead (p ! 0)" "utf8_cont (p ! 1)" "zf_cbor_utf8_is_valid (drop 2 p)"
    and "2 \<le> length p"
  then obtain b c r where p: "p = b # c # r" by (auto simp: Suc_le_length_iff numeral_eq_Suc)
  from * have "utf8_seq [lead, b, c]" "zf_cbor_utf8_is_valid r" unfolding p by (auto intro: seq3)
  moreover have "lead # p = [lead, b, c] @ r" by (simp add: p)
  ultimately show ?thesis by blast
next
  assume *: "utf8_lead4 lead (p ! 0)" "utf8_cont (p ! 1)" "utf8_cont (p ! 2)"
    "zf_cbor_utf8_is_valid (drop 3 p)" and "3 \<le> length p"
  then obtain b c d r where p: "p = b # c # d # r"
    by (auto simp: Suc_le_length_iff numeral_eq_Suc)
  from * have "utf8_seq [lead, b, c, d]" "zf_cbor_utf8_is_valid r"
    unfolding p by (auto intro: seq4)
  moreover have "lead # p = [lead, b, c, d] @ r" by (simp add: p)
  ultimately show ?thesis by blast
qed

subsection \<open>Exactness\<close>

lemma utf8_text_Cons [simp]: "utf8_text (cp # cps) = utf8_encode cp @ utf8_text cps"
  by (simp add: utf8_text_def)

lemma utf8_text_Nil [simp]: "utf8_text [] = []"
  by (simp add: utf8_text_def)

lemma valid_utf8_text: "list_all unicode_scalar cps \<Longrightarrow> zf_cbor_utf8_is_valid (utf8_text cps)"
  by (induction cps) (simp_all add: valid_seq utf8_seq_encode)

lemma count_utf8_text:
  "list_all unicode_scalar cps \<Longrightarrow>
     zf_pin_validate_utf8_from n (utf8_text cps) = Some (n + length cps)"
  by (induction cps arbitrary: n) (simp_all add: count_seq utf8_seq_encode)

lemma utf8_seq_nonempty: "utf8_seq s \<Longrightarrow> s \<noteq> []"
  by (auto elim: utf8_seq.cases)

lemma utf8_text_of_valid:
  "zf_cbor_utf8_is_valid bs \<Longrightarrow> \<exists>cps. list_all unicode_scalar cps \<and> bs = utf8_text cps"
proof (induction "length bs" arbitrary: bs rule: less_induct)
  case less
  show ?case
  proof (cases bs)
    case Nil
    then have "list_all unicode_scalar [] \<and> bs = utf8_text []" by simp
    then show ?thesis by blast
  next
    case (Cons lead p)
    then obtain s r where sr: "bs = s @ r" "utf8_seq s" "zf_cbor_utf8_is_valid r"
      using valid_Cons less.prems by blast
    with less.hyps [of r] utf8_seq_nonempty [of s]
    obtain cps where "list_all unicode_scalar cps" "r = utf8_text cps" by auto
    moreover obtain cp where "unicode_scalar cp" "s = utf8_encode cp"
      using encode_utf8_seq [OF sr(2)] by blast
    ultimately have "list_all unicode_scalar (cp # cps) \<and> bs = utf8_text (cp # cps)"
      using sr by simp
    then show ?thesis by blast
  qed
qed

lemma cbor_utf8_valid_iff:
  "zf_cbor_utf8_is_valid bs \<longleftrightarrow> (\<exists>cps. list_all unicode_scalar cps \<and> bs = utf8_text cps)"
  using utf8_text_of_valid valid_utf8_text by blast

text \<open>The PIN copy of the loop accepts the same strings.\<close>

lemma if_not_None_iff:
  assumes "c \<Longrightarrow> a \<noteq> None \<longleftrightarrow> P" and "\<not> c \<Longrightarrow> b \<noteq> None \<longleftrightarrow> Q"
  shows "(if c then a else b) \<noteq> None \<longleftrightarrow> (if c then P else Q)"
  using assms by simp

lemma pin_utf8_accepts:
  "zf_pin_validate_utf8_from n bs \<noteq> None \<longleftrightarrow> zf_cbor_utf8_is_valid bs"
proof (induction n bs rule: zf_pin_validate_utf8_from.induct)
  case (1 count)
  then show ?case by simp
next
  case (2 count lead p)
  show ?case
    unfolding zf_pin_validate_utf8_from.simps zf_cbor_utf8_is_valid.simps
    by (intro if_not_None_iff; ((rule 2; assumption) | simp only: simp_thms))
qed

end
