(* ===== verification/Cbor.thy ===== *)
theory Cbor
  imports Utf8
begin

text \<open>
  The definite-length CBOR encoder and decoder of \<^verbatim>\<open>zerofido_cbor.c\<close>. The encoder writes into a
  caller-owned buffer at an offset (record \<open>zf_cbor_encoder\<close>); its operations return the C boolean
  and the encoder they leave behind, also when they fail half way. A decoder cursor is the list of
  bytes between \<open>ptr\<close> and \<open>end\<close>; a reader returns \<open>None\<close> when the C function returns false
  (every caller gives the cursor up then) and otherwise the value with the advanced cursor.
  Null-pointer guards have no counterpart: buffers are values.
\<close>

section \<open>Encoder\<close>

record zf_cbor_encoder =
  enc_buf :: bytes
  enc_capacity :: nat
  enc_offset :: nat

definition ZF_CBOR_MAJOR_UINT :: byte where "ZF_CBOR_MAJOR_UINT = 0"
definition ZF_CBOR_MAJOR_NEGINT :: byte where "ZF_CBOR_MAJOR_NEGINT = 1"
definition ZF_CBOR_MAJOR_BYTES :: byte where "ZF_CBOR_MAJOR_BYTES = 2"
definition ZF_CBOR_MAJOR_TEXT :: byte where "ZF_CBOR_MAJOR_TEXT = 3"
definition ZF_CBOR_MAJOR_ARRAY :: byte where "ZF_CBOR_MAJOR_ARRAY = 4"
definition ZF_CBOR_MAJOR_MAP :: byte where "ZF_CBOR_MAJOR_MAP = 5"
definition ZF_CBOR_MAJOR_SIMPLE :: byte where "ZF_CBOR_MAJOR_SIMPLE = 7"

lemmas cbor_majors = ZF_CBOR_MAJOR_UINT_def ZF_CBOR_MAJOR_NEGINT_def ZF_CBOR_MAJOR_BYTES_def
  ZF_CBOR_MAJOR_TEXT_def ZF_CBOR_MAJOR_ARRAY_def ZF_CBOR_MAJOR_MAP_def ZF_CBOR_MAJOR_SIMPLE_def

definition zf_cbor_append :: "zf_cbor_encoder \<Rightarrow> bytes \<Rightarrow> bool \<times> zf_cbor_encoder" where
  "zf_cbor_append enc data =
    (if enc_offset enc > enc_capacity enc \<or>
        length data > enc_capacity enc - enc_offset enc
     then (False, enc)
     else (True, enc\<lparr>enc_buf := write_at (enc_buf enc) (enc_offset enc) data,
                     enc_offset := enc_offset enc + length data\<rparr>))"

text \<open>The local array \<open>head\<close> of \<^verbatim>\<open>zf_cbor_encode_head\<close>, up to \<open>head_len\<close>.\<close>

definition zf_cbor_head :: "byte \<Rightarrow> u64 \<Rightarrow> bytes" where
  "zf_cbor_head major value =
    (if value < 24 then [push_bit 5 major OR ucast value]
     else if value \<le> 0xFF then [push_bit 5 major OR 24, ucast value]
     else if value \<le> 0xFFFF then
       [push_bit 5 major OR 25, ucast (drop_bit 8 value), ucast value]
     else if value \<le> 0xFFFFFFFF then
       [push_bit 5 major OR 26, ucast (drop_bit 24 value), ucast (drop_bit 16 value),
        ucast (drop_bit 8 value), ucast value]
     else (push_bit 5 major OR 27) # map (\<lambda>i. ucast (drop_bit ((7 - i) * 8) value)) [0..<8])"

definition zf_cbor_encode_head :: "zf_cbor_encoder \<Rightarrow> byte \<Rightarrow> u64 \<Rightarrow> bool \<times> zf_cbor_encoder" where
  "zf_cbor_encode_head enc major value = zf_cbor_append enc (zf_cbor_head major value)"

text \<open>The caller's buffer of at least \<open>capacity\<close> bytes is part of the initial encoder.\<close>

definition zf_cbor_encoder_init :: "bytes \<Rightarrow> nat \<Rightarrow> zf_cbor_encoder option" where
  "zf_cbor_encoder_init buf capacity =
    (if capacity = 0 then None
     else Some \<lparr>enc_buf = buf, enc_capacity = capacity, enc_offset = 0\<rparr>)"

definition zf_cbor_encoder_size :: "zf_cbor_encoder \<Rightarrow> nat" where
  "zf_cbor_encoder_size enc = enc_offset enc"

definition zf_cbor_encode_uint :: "zf_cbor_encoder \<Rightarrow> u64 \<Rightarrow> bool \<times> zf_cbor_encoder" where
  "zf_cbor_encode_uint enc value = zf_cbor_encode_head enc ZF_CBOR_MAJOR_UINT value"

text \<open>The value of an \<open>int64_t\<close> is an integer; the cast to \<open>uint64_t\<close> is \<open>word_of_int\<close>.\<close>

definition zf_cbor_encode_int :: "zf_cbor_encoder \<Rightarrow> int \<Rightarrow> bool \<times> zf_cbor_encoder" where
  "zf_cbor_encode_int enc value =
    (if value \<ge> 0 then zf_cbor_encode_head enc ZF_CBOR_MAJOR_UINT (word_of_int value)
     else zf_cbor_encode_head enc ZF_CBOR_MAJOR_NEGINT (word_of_int (- 1 - value)))"

definition zf_cbor_encode_bool :: "zf_cbor_encoder \<Rightarrow> bool \<Rightarrow> bool \<times> zf_cbor_encoder" where
  "zf_cbor_encode_bool enc value =
    zf_cbor_append enc [push_bit 5 ZF_CBOR_MAJOR_SIMPLE OR (if value then 21 else 20)]"

definition zf_cbor_encode_bytes :: "zf_cbor_encoder \<Rightarrow> bytes \<Rightarrow> bool \<times> zf_cbor_encoder" where
  "zf_cbor_encode_bytes enc data =
    and_then (zf_cbor_encode_head enc ZF_CBOR_MAJOR_BYTES (word_of_nat (length data)))
      (\<lambda>enc. if length data = 0 then (True, enc) else zf_cbor_append enc data)"

text \<open>
  \<^verbatim>\<open>zf_cbor_reserve_bytes\<close> hands out the address \<open>enc->buf + enc->offset\<close>; the model returns the
  offset. When the payload does not fit, the offset is restored but the head bytes stay written.
\<close>

definition zf_cbor_reserve_bytes ::
  "zf_cbor_encoder \<Rightarrow> nat \<Rightarrow> nat option \<times> zf_cbor_encoder" where
  "zf_cbor_reserve_bytes enc n =
    (let old_offset = enc_offset enc;
         r = zf_cbor_encode_head enc ZF_CBOR_MAJOR_BYTES (word_of_nat n);
         enc' = snd r
     in if \<not> fst r then (None, enc')
        else if enc_offset enc' > enc_capacity enc' \<or>
                n > enc_capacity enc' - enc_offset enc'
        then (None, enc'\<lparr>enc_offset := old_offset\<rparr>)
        else (Some (enc_offset enc'), enc'\<lparr>enc_offset := enc_offset enc' + n\<rparr>))"

definition zf_cbor_encode_text_n :: "zf_cbor_encoder \<Rightarrow> bytes \<Rightarrow> bool \<times> zf_cbor_encoder" where
  "zf_cbor_encode_text_n enc text =
    and_then (zf_cbor_encode_head enc ZF_CBOR_MAJOR_TEXT (word_of_nat (length text)))
      (\<lambda>enc. if length text = 0 then (True, enc) else zf_cbor_append enc text)"

text \<open>A C string is the list of its bytes before the terminator, so \<open>strlen\<close> is the length.\<close>

definition zf_cbor_encode_text :: "zf_cbor_encoder \<Rightarrow> bytes \<Rightarrow> bool \<times> zf_cbor_encoder" where
  "zf_cbor_encode_text enc text = zf_cbor_encode_text_n enc text"

definition zf_cbor_encode_map :: "zf_cbor_encoder \<Rightarrow> nat \<Rightarrow> bool \<times> zf_cbor_encoder" where
  "zf_cbor_encode_map enc pairs = zf_cbor_encode_head enc ZF_CBOR_MAJOR_MAP (word_of_nat pairs)"

definition zf_cbor_encode_array :: "zf_cbor_encoder \<Rightarrow> nat \<Rightarrow> bool \<times> zf_cbor_encoder" where
  "zf_cbor_encode_array enc items = zf_cbor_encode_head enc ZF_CBOR_MAJOR_ARRAY (word_of_nat items)"

definition zf_cbor_encode_p256_cose_key ::
  "zf_cbor_encoder \<Rightarrow> int \<Rightarrow> bytes \<Rightarrow> bytes \<Rightarrow> bool \<times> zf_cbor_encoder" where
  "zf_cbor_encode_p256_cose_key enc alg x y =
    and_then (zf_cbor_encode_map enc 5) (\<lambda>enc.
    and_then (zf_cbor_encode_int enc 1) (\<lambda>enc.
    and_then (zf_cbor_encode_int enc 2) (\<lambda>enc.
    and_then (zf_cbor_encode_int enc 3) (\<lambda>enc.
    and_then (zf_cbor_encode_int enc alg) (\<lambda>enc.
    and_then (zf_cbor_encode_int enc (- 1)) (\<lambda>enc.
    and_then (zf_cbor_encode_int enc 1) (\<lambda>enc.
    and_then (zf_cbor_encode_int enc (- 2)) (\<lambda>enc.
    and_then (zf_cbor_encode_bytes enc x) (\<lambda>enc.
    and_then (zf_cbor_encode_int enc (- 3)) (\<lambda>enc.
    zf_cbor_encode_bytes enc y))))))))))"

section \<open>Decoder\<close>

type_synonym cursor = bytes
type_synonym 'a reader = "cursor \<Rightarrow> ('a \<times> cursor) option"

definition zf_cbor_read_head :: "(byte \<times> u64) reader" where
  "zf_cbor_read_head cursor =
    (case cursor of
       [] \<Rightarrow> None
     | b # p \<Rightarrow>
        let major = drop_bit 5 b; info = b AND 0x1F in
        if info < 24 then Some ((major, ucast info), p)
        else if info = 24 then
          (if length p < 1 then None
           else let value = ucast (p ! 0) in
             if value \<ge> 24 then Some ((major, value), drop 1 p) else None)
        else if info = 25 then
          (if length p < 2 then None
           else let value = push_bit 8 (ucast (p ! 0)) OR ucast (p ! 1) in
             if value > 0xFF then Some ((major, value), drop 2 p) else None)
        else if info = 26 then
          (if length p < 4 then None
           else let value = push_bit 24 (ucast (p ! 0)) OR push_bit 16 (ucast (p ! 1)) OR
                  push_bit 8 (ucast (p ! 2)) OR ucast (p ! 3) in
             if value > 0xFFFF then Some ((major, value), drop 4 p) else None)
        else if info = 27 then
          (if length p < 8 then None
           else let value = push_bit 56 (ucast (p ! 0)) OR push_bit 48 (ucast (p ! 1)) OR
                  push_bit 40 (ucast (p ! 2)) OR push_bit 32 (ucast (p ! 3)) OR
                  push_bit 24 (ucast (p ! 4)) OR push_bit 16 (ucast (p ! 5)) OR
                  push_bit 8 (ucast (p ! 6)) OR ucast (p ! 7) in
             if value > 0xFFFFFFFF then Some ((major, value), drop 8 p) else None)
        else None)"

definition zf_cbor_read_uint :: "u64 reader" where
  "zf_cbor_read_uint cursor =
    (case zf_cbor_read_head cursor of
       None \<Rightarrow> None
     | Some ((major, value), p) \<Rightarrow>
        if major = ZF_CBOR_MAJOR_UINT then Some (value, p) else None)"

text \<open>The test \<open>raw > INT64_MAX\<close> bounds both signs.\<close>

definition zf_cbor_read_int :: "int reader" where
  "zf_cbor_read_int cursor =
    (case zf_cbor_read_head cursor of
       None \<Rightarrow> None
     | Some ((major, raw), p) \<Rightarrow>
        if major = ZF_CBOR_MAJOR_UINT then
          (if uint raw > 2 ^ 63 - 1 then None else Some (uint raw, p))
        else if major = ZF_CBOR_MAJOR_NEGINT then
          (if uint raw > 2 ^ 63 - 1 then None else Some (- 1 - uint raw, p))
        else None)"

definition zf_cbor_read_bool :: "bool reader" where
  "zf_cbor_read_bool cursor =
    (case cursor of
       [] \<Rightarrow> None
     | b # p \<Rightarrow>
        if b = push_bit 5 ZF_CBOR_MAJOR_SIMPLE OR 20 then Some (False, p)
        else if b = push_bit 5 ZF_CBOR_MAJOR_SIMPLE OR 21 then Some (True, p)
        else None)"

definition zf_cbor_read_bytes_ptr :: "bytes reader" where
  "zf_cbor_read_bytes_ptr cursor =
    (case zf_cbor_read_head cursor of
       None \<Rightarrow> None
     | Some ((major, raw), p) \<Rightarrow>
        if major \<noteq> ZF_CBOR_MAJOR_BYTES then None
        else if unat raw > length p then None
        else Some (take (unat raw) p, drop (unat raw) p))"

definition zf_cbor_read_text_ptr :: "bytes reader" where
  "zf_cbor_read_text_ptr cursor =
    (case zf_cbor_read_head cursor of
       None \<Rightarrow> None
     | Some ((major, raw), p) \<Rightarrow>
        if major \<noteq> ZF_CBOR_MAJOR_TEXT then None
        else if unat raw > length p then None
        else if \<not> zf_cbor_utf8_is_valid (take (unat raw) p) then None
        else Some (take (unat raw) p, drop (unat raw) p))"

definition zf_cbor_read_map_start :: "nat reader" where
  "zf_cbor_read_map_start cursor =
    (case zf_cbor_read_head cursor of
       None \<Rightarrow> None
     | Some ((major, raw), p) \<Rightarrow>
        if major \<noteq> ZF_CBOR_MAJOR_MAP then None
        else if unat raw > SIZE_MAX then None
        else Some (unat raw, p))"

definition zf_cbor_read_array_start :: "nat reader" where
  "zf_cbor_read_array_start cursor =
    (case zf_cbor_read_head cursor of
       None \<Rightarrow> None
     | Some ((major, raw), p) \<Rightarrow>
        if major \<noteq> ZF_CBOR_MAJOR_ARRAY then None
        else if unat raw > SIZE_MAX then None
        else Some (unat raw, p))"

definition zf_cbor_skip_read_head :: "(byte \<times> u64) reader" where
  "zf_cbor_skip_read_head cursor =
    (case cursor of
       [] \<Rightarrow> None
     | b # p \<Rightarrow>
        let info = b AND 0x1F; major = drop_bit 5 b in
        if info < 24 then Some ((major, ucast info), p)
        else if info = 24 then
          (if length p < 1 then None else Some ((major, ucast (p ! 0)), drop 1 p))
        else if info = 25 then
          (if length p < 2 then None
           else Some ((major, push_bit 8 (ucast (p ! 0)) OR ucast (p ! 1)), drop 2 p))
        else if info = 26 then
          (if length p < 4 then None
           else Some ((major, push_bit 24 (ucast (p ! 0)) OR push_bit 16 (ucast (p ! 1)) OR
                  push_bit 8 (ucast (p ! 2)) OR ucast (p ! 3)), drop 4 p))
        else if info = 27 then
          (if length p < 8 then None
           else Some ((major, push_bit 56 (ucast (p ! 0)) OR push_bit 48 (ucast (p ! 1)) OR
                  push_bit 40 (ucast (p ! 2)) OR push_bit 32 (ucast (p ! 3)) OR
                  push_bit 24 (ucast (p ! 4)) OR push_bit 16 (ucast (p ! 5)) OR
                  push_bit 8 (ucast (p ! 6)) OR ucast (p ! 7)), drop 8 p))
        else None)"

definition ZF_CBOR_SKIP_DEPTH_LIMIT :: nat where
  "ZF_CBOR_SKIP_DEPTH_LIMIT = 16"

text \<open>
  \<^verbatim>\<open>zf_cbor_skip_inner\<close> and its two loops. The recursion carries the depth upwards, so the
  termination measure is the distance to the limit, then the number of iterations left.
\<close>

function (sequential) zf_cbor_skip_inner :: "nat \<Rightarrow> cursor \<Rightarrow> cursor option"
  and zf_cbor_skip_array_loop :: "nat \<Rightarrow> nat \<Rightarrow> cursor \<Rightarrow> cursor option"
  and zf_cbor_skip_map_loop :: "nat \<Rightarrow> nat \<Rightarrow> cursor \<Rightarrow> cursor option" where
  "zf_cbor_skip_inner depth cursor =
    (if depth > ZF_CBOR_SKIP_DEPTH_LIMIT then None
     else case zf_cbor_skip_read_head cursor of
       None \<Rightarrow> None
     | Some ((major, raw), p) \<Rightarrow>
        if major = ZF_CBOR_MAJOR_UINT \<or> major = ZF_CBOR_MAJOR_NEGINT then Some p
        else if major = ZF_CBOR_MAJOR_SIMPLE then (if raw \<noteq> 31 then Some p else None)
        else if major = ZF_CBOR_MAJOR_BYTES \<or> major = ZF_CBOR_MAJOR_TEXT then
          (if unat raw > length p then None else Some (drop (unat raw) p))
        else if major = ZF_CBOR_MAJOR_ARRAY then
          zf_cbor_skip_array_loop (Suc depth) (unat raw) p
        else if major = ZF_CBOR_MAJOR_MAP then
          zf_cbor_skip_map_loop (Suc depth) (unat raw) p
        else None)"
| "zf_cbor_skip_array_loop depth 0 cursor = Some cursor"
| "zf_cbor_skip_array_loop depth (Suc n) cursor =
    (case zf_cbor_skip_inner depth cursor of
       None \<Rightarrow> None
     | Some p \<Rightarrow> zf_cbor_skip_array_loop depth n p)"
| "zf_cbor_skip_map_loop depth 0 cursor = Some cursor"
| "zf_cbor_skip_map_loop depth (Suc n) cursor =
    (case zf_cbor_skip_inner depth cursor of
       None \<Rightarrow> None
     | Some p \<Rightarrow>
        (case zf_cbor_skip_inner depth p of
           None \<Rightarrow> None
         | Some q \<Rightarrow> zf_cbor_skip_map_loop depth n q))"
  by pat_completeness auto
termination
  by (relation "inv_image (less_than <*lex*> less_than)
        (\<lambda>arg. case arg of
            Inl (d, c) \<Rightarrow> (17 - d, 0 :: nat)
          | Inr (Inl (d, n, c)) \<Rightarrow> (17 - d, Suc n)
          | Inr (Inr (d, n, c)) \<Rightarrow> (17 - d, Suc n))")
    (auto simp: ZF_CBOR_SKIP_DEPTH_LIMIT_def)

definition zf_cbor_skip :: "cursor \<Rightarrow> cursor option" where
  "zf_cbor_skip cursor = zf_cbor_skip_inner 0 cursor"

end
