(* ===== verification/Cbor_Exact.thy ===== *)
theory Cbor_Exact
  imports Cbor
begin

text \<open>
  Exactness of the CBOR codec. Every reader accepts exactly the canonical encoding its encoder
  counterpart emits, and consumes nothing else; every encoder operation either appends exactly that
  encoding or reports failure, and never writes outside its buffer; skipping consumes one item.
\<close>

section \<open>Heads\<close>

lemma take_bit_word_self: "unat (w :: 'a::len word) < 2 ^ n \<Longrightarrow> take_bit n w = w"
  by (simp add: word_unat_eq_iff unsigned_take_bit_eq take_bit_nat_eq_self)

lemma head_lead_major:
  assumes "m < 8" "k < 32"
  shows "drop_bit 5 (push_bit 5 m OR k :: byte) = m"
proof -
  have m: "take_bit 3 m = m" using assms(1) by (intro take_bit_word_self) (simp add: word_less_nat_alt)
  have "drop_bit 5 (push_bit 5 m) = take_bit 3 m"
    by (auto intro!: bit_word_eqI simp: bit_simps dest: bit_imp_le_length)
  moreover have "drop_bit 5 k = 0"
    using assms(2) by (simp add: drop_bit_eq_div word_unat_eq_iff unat_div word_less_nat_alt)
  ultimately show ?thesis using m by simp
qed

lemma and_31: "(b :: byte) AND 0x1F = take_bit 5 b"
proof -
  have "(0x1F :: byte) = mask 5" by (simp add: mask_eq_exp_minus_1)
  then show ?thesis by (simp add: take_bit_eq_mask)
qed

lemma head_lead_info:
  assumes "k < 32"
  shows "(push_bit 5 m OR k) AND 0x1F = (k :: byte)"
proof -
  have "take_bit 5 k = k" using assms by (intro take_bit_word_self) (simp add: word_less_nat_alt)
  moreover have "take_bit 5 (push_bit 5 m) = 0"
    by (auto intro!: bit_word_eqI simp: bit_simps)
  ultimately show ?thesis by (simp add: and_31 take_bit_or)
qed

lemma head_lead_split: "push_bit 5 (drop_bit 5 b) OR (b AND 0x1F) = (b :: byte)"
  by (auto intro!: bit_word_eqI simp: and_31 bit_simps)

lemma head_major_less: "drop_bit 5 (b :: byte) < 8"
  by (simp add: drop_bit_eq_div word_less_nat_alt unat_div less_mult_imp_div_less)

text \<open>The heads in terms of big-endian fields.\<close>

lemma zf_cbor_head_be:
  "zf_cbor_head major value =
    (if value < 24 then [push_bit 5 major OR ucast value]
     else if value \<le> 0xFF then (push_bit 5 major OR 24) # be_bytes 1 value
     else if value \<le> 0xFFFF then (push_bit 5 major OR 25) # be_bytes 2 value
     else if value \<le> 0xFFFFFFFF then (push_bit 5 major OR 26) # be_bytes 4 value
     else (push_bit 5 major OR 27) # be_bytes 8 value)"
  by (simp add: zf_cbor_head_def numeral_eq_Suc upt_rec drop_bit_drop_bit)

definition head_body :: "nat \<Rightarrow> u64 \<Rightarrow> cursor \<Rightarrow> (u64 \<times> cursor) option" where
  "head_body n lo p =
    (if length p < n then None
     else let value = be_value (take n p) in if value > lo then Some (value, drop n p) else None)"

lemma take_nth_simps:
  "p \<noteq> [] \<Longrightarrow> take 1 p = [p ! 0]"
  "2 \<le> length p \<Longrightarrow> take 2 p = [p ! 0, p ! 1]"
  "4 \<le> length p \<Longrightarrow> take 4 p = [p ! 0, p ! 1, p ! 2, p ! 3]"
  "8 \<le> length p \<Longrightarrow> take 8 p = [p ! 0, p ! 1, p ! 2, p ! 3, p ! 4, p ! 5, p ! 6, p ! 7]"
  by (auto simp: Suc_le_length_iff numeral_eq_Suc neq_Nil_conv)

lemma read_head_body:
  "zf_cbor_read_head (b # p) =
    (let major = drop_bit 5 b; info = b AND 0x1F in
     if info < 24 then Some ((major, ucast info), p)
     else if info = 24 then map_option (\<lambda>(v, q). ((major, v), q)) (head_body 1 23 p)
     else if info = 25 then map_option (\<lambda>(v, q). ((major, v), q)) (head_body 2 0xFF p)
     else if info = 26 then map_option (\<lambda>(v, q). ((major, v), q)) (head_body 4 0xFFFF p)
     else if info = 27 then map_option (\<lambda>(v, q). ((major, v), q)) (head_body 8 0xFFFFFFFF p)
     else None)"
proof -
  have ge: "w \<ge> 24 \<longleftrightarrow> w > 23" for w :: u64
    unfolding word_less_nat_alt word_le_nat_alt by auto
  have 1: "be_value [x] = (ucast x :: u64)" for x by (simp add: be_value_def)
  show ?thesis
    unfolding zf_cbor_read_head_def head_body_def Let_def list.case
    by (intro if_cong refl)
      (auto simp: take_nth_simps be_value_2 be_value_4 be_value_8 1 ge not_less
        simp del: One_nat_def)
qed

lemma head_body_iff:
  assumes "8 * n < 64 \<or> n = 8"
  shows "head_body n lo p = Some (v, r) \<longleftrightarrow> lo < v \<and> take_bit (8 * n) v = v \<and> p = be_bytes n v @ r"
proof -
  have "take_bit (8 * n) (be_value (take n p) :: u64) = be_value (take n p)" if "n \<le> length p"
    using take_bit_be_value [of "take n p", where ?'a = 64] that by (simp add: min_absorb2)
  moreover have "p = be_bytes n (be_value (take n p) :: u64) @ drop n p" if "n \<le> length p"
    using be_bytes_be_value [of "take n p", where ?'a = 64] that assms
    by (auto simp: min_absorb2)
  ultimately show ?thesis
    by (auto simp: head_body_def Let_def be_value_be_bytes not_less split: if_splits)
qed

lemma take_bit_self_bounds:
  "take_bit 8 v = v \<longleftrightarrow> v \<le> (0xFF :: u64)"
  "take_bit 16 v = v \<longleftrightarrow> v \<le> (0xFFFF :: u64)"
  "take_bit 32 v = v \<longleftrightarrow> v \<le> (0xFFFFFFFF :: u64)"
  by (simp_all add: word_unat_eq_iff unsigned_take_bit_eq take_bit_nat_eq_self_iff
      word_le_nat_alt less_Suc_eq_le [symmetric])

lemma ucast_byte_u64 [simp]: "ucast (ucast b :: u64) = (b :: byte)"
  by (auto intro!: bit_word_eqI simp: bit_simps dest: bit_imp_le_length)

lemma ucast_small [simp]:
  "info < 24 \<Longrightarrow> ucast (info :: byte) < (24 :: u64)"
  by (simp add: word_less_nat_alt unsigned_ucast_eq le_less_trans [OF take_bit_nat_less_eq_self])

lemma read_head_sound:
  assumes "zf_cbor_read_head c = Some ((m, v), r)"
  shows "m < 8 \<and> c = zf_cbor_head m v @ r"
proof -
  obtain b p where c: "c = b # p" using assms by (cases c) (auto simp: zf_cbor_read_head_def)
  have b: "push_bit 5 (drop_bit 5 b) OR (b AND 0x1F) = b" by (rule head_lead_split)
  consider (small) "b AND 0x1F < 24" "m = drop_bit 5 b" "v = ucast (b AND 0x1F)" "r = p"
    | (n1) "b AND 0x1F = 24" "m = drop_bit 5 b" "head_body 1 23 p = Some (v, r)"
    | (n2) "b AND 0x1F = 25" "m = drop_bit 5 b" "head_body 2 0xFF p = Some (v, r)"
    | (n4) "b AND 0x1F = 26" "m = drop_bit 5 b" "head_body 4 0xFFFF p = Some (v, r)"
    | (n8) "b AND 0x1F = 27" "m = drop_bit 5 b" "head_body 8 0xFFFFFFFF p = Some (v, r)"
    using assms unfolding c read_head_body Let_def by (auto split: if_splits)
  then show ?thesis
  proof cases
    case small
    with b show ?thesis by (simp add: c zf_cbor_head_be head_major_less)
  next
    case n1
    with b show ?thesis
      by (auto simp: c zf_cbor_head_be head_major_less head_body_iff take_bit_self_bounds
          head_major_less [unfolded word_less_nat_alt, simplified] word_less_nat_alt word_le_nat_alt)
  next
    case n2
    with b show ?thesis
      by (auto simp: c zf_cbor_head_be head_major_less head_body_iff take_bit_self_bounds
          head_major_less [unfolded word_less_nat_alt, simplified] word_less_nat_alt word_le_nat_alt)
  next
    case n4
    with b show ?thesis
      by (auto simp: c zf_cbor_head_be head_major_less head_body_iff take_bit_self_bounds
          head_major_less [unfolded word_less_nat_alt, simplified] word_less_nat_alt word_le_nat_alt)
  next
    case n8
    with b show ?thesis
      by (auto simp: c zf_cbor_head_be head_major_less head_body_iff
          head_major_less [unfolded word_less_nat_alt, simplified] word_less_nat_alt word_le_nat_alt)
  qed
qed

lemma read_head_complete:
  assumes "m < 8"
  shows "zf_cbor_read_head (zf_cbor_head m v @ r) = Some ((m, v), r)"
proof -
  have full: "take_bit 64 v = v" by (rule take_bit_word_eq_self) simp
  have ge: "24 \<le> v \<Longrightarrow> 23 < v" by (simp add: word_less_nat_alt word_le_nat_alt)
  have body: "head_body 1 23 (be_bytes 1 v @ r) = Some (v, r)" if "24 \<le> v" "v \<le> 0xFF"
    using that by (subst head_body_iff) (auto simp: take_bit_self_bounds word_less_nat_alt word_le_nat_alt)
  have lt: "v < 24 \<Longrightarrow> ucast v < (24 :: byte)" "v < 24 \<Longrightarrow> ucast v < (32 :: byte)"
    by (simp_all add: word_less_nat_alt unsigned_ucast_eq take_bit_nat_eq_self)
  have "ucast (ucast v :: byte) = take_bit 8 v" by (auto intro!: bit_word_eqI simp: bit_simps)
  then have id: "v < 24 \<Longrightarrow> ucast (ucast v :: byte) = v"
    by (simp add: word_less_nat_alt take_bit_word_self)
  show ?thesis
    using assms
    by (auto simp: zf_cbor_head_be read_head_body head_lead_major head_lead_info Let_def lt id
        head_body_iff take_bit_self_bounds body not_less not_le ge full
        simp del: be_bytes.simps drop_bit_or bit.conj_disj_distrib2)
qed

lemma read_head_iff:
  "zf_cbor_read_head c = Some ((m, v), r) \<longleftrightarrow> m < 8 \<and> c = zf_cbor_head m v @ r"
  using read_head_sound read_head_complete by blast

lemma zf_cbor_head_not_Nil [simp]: "zf_cbor_head m v \<noteq> []"
  by (simp add: zf_cbor_head_def)

lemma zf_cbor_head_append_inject [simp]:
  "m < 8 \<Longrightarrow> m' < 8 \<Longrightarrow>
    zf_cbor_head m v @ r = zf_cbor_head m' v' @ r' \<longleftrightarrow> m = m' \<and> v = v' \<and> r = r'"
  by (metis option.inject prod.inject read_head_complete)

section \<open>The canonical encodings and their readers\<close>

definition cbor_uint :: "u64 \<Rightarrow> bytes" where
  "cbor_uint v = zf_cbor_head ZF_CBOR_MAJOR_UINT v"

definition cbor_int :: "int \<Rightarrow> bytes" where
  "cbor_int i =
    (if i \<ge> 0 then zf_cbor_head ZF_CBOR_MAJOR_UINT (word_of_int i)
     else zf_cbor_head ZF_CBOR_MAJOR_NEGINT (word_of_int (- 1 - i)))"

definition cbor_bool :: "bool \<Rightarrow> bytes" where
  "cbor_bool b = [if b then 0xF5 else 0xF4]"

definition cbor_bytes :: "bytes \<Rightarrow> bytes" where
  "cbor_bytes d = zf_cbor_head ZF_CBOR_MAJOR_BYTES (word_of_nat (length d)) @ d"

definition cbor_text :: "bytes \<Rightarrow> bytes" where
  "cbor_text t = zf_cbor_head ZF_CBOR_MAJOR_TEXT (word_of_nat (length t)) @ t"

definition cbor_map :: "nat \<Rightarrow> bytes" where
  "cbor_map n = zf_cbor_head ZF_CBOR_MAJOR_MAP (word_of_nat n)"

definition cbor_array :: "nat \<Rightarrow> bytes" where
  "cbor_array n = zf_cbor_head ZF_CBOR_MAJOR_ARRAY (word_of_nat n)"

lemmas cbor_encodings = cbor_uint_def cbor_int_def cbor_bool_def cbor_bytes_def cbor_text_def
  cbor_map_def cbor_array_def

lemma read_head_case:
  "(case zf_cbor_read_head c of None \<Rightarrow> None | Some ((m, v), p) \<Rightarrow> f m v p) = Some x \<longleftrightarrow>
    (\<exists>m v p. m < 8 \<and> c = zf_cbor_head m v @ p \<and> f m v p = Some x)"
  by (cases "zf_cbor_read_head c") (auto simp: read_head_iff read_head_complete)

lemma read_uint_iff: "zf_cbor_read_uint c = Some (v, r) \<longleftrightarrow> c = cbor_uint v @ r"
  by (auto simp: zf_cbor_read_uint_def read_head_case cbor_uint_def cbor_majors
      word_less_nat_alt split: if_splits)

lemma uint_not_negative: "\<not> uint (v :: u64) \<le> - 1"
  using unsigned_greater_eq [of v, where ?'a = int] by linarith

lemma read_int_iff:
  "zf_cbor_read_int c = Some (i, r) \<longleftrightarrow> - (2 ^ 63) \<le> i \<and> i < 2 ^ 63 \<and> c = cbor_int i @ r"
proof
  assume "zf_cbor_read_int c = Some (i, r)"
  then show "- (2 ^ 63) \<le> i \<and> i < 2 ^ 63 \<and> c = cbor_int i @ r"
    by (auto simp: uint_not_negative zf_cbor_read_int_def read_head_case cbor_int_def cbor_majors not_less
        split: if_splits intro: order_trans [of _ 0])
next
  assume *: "- (2 ^ 63) \<le> i \<and> i < 2 ^ 63 \<and> c = cbor_int i @ r"
  show "zf_cbor_read_int c = Some (i, r)"
  proof (cases "i \<ge> 0")
    case True
    with * have "uint (word_of_int i :: u64) = i" by (simp add: uint_word_of_int)
    with True * show ?thesis
      by (simp add: zf_cbor_read_int_def cbor_int_def read_head_complete cbor_majors)
  next
    case False
    with * have "uint (word_of_int (- 1 - i) :: u64) = - 1 - i"
      unfolding uint_word_of_int by (intro mod_pos_pos_trivial) simp_all
    with False * show ?thesis
      by (simp add: zf_cbor_read_int_def cbor_int_def read_head_complete cbor_majors
          word_less_nat_alt)
  qed
qed

lemma read_bool_iff: "zf_cbor_read_bool c = Some (b, r) \<longleftrightarrow> c = cbor_bool b @ r"
  by (auto simp: zf_cbor_read_bool_def cbor_bool_def cbor_majors split: list.splits if_splits)

lemma counted_iff:
  assumes "\<And>n p. f n p = (if n \<le> length p then Some (take n p, drop n p) else None)"
  shows "(\<exists>v :: u64. \<exists>p. c = zf_cbor_head m v @ p \<and> f (unat v) p = Some (d, r)) \<longleftrightarrow>
    length d < 2 ^ 64 \<and> c = zf_cbor_head m (word_of_nat (length d)) @ d @ r"
proof
  assume "\<exists>v :: u64. \<exists>p. c = zf_cbor_head m v @ p \<and> f (unat v) p = Some (d, r)"
  then obtain v :: u64 and p where "c = zf_cbor_head m v @ p" "unat v \<le> length p"
    "d = take (unat v) p" "r = drop (unat v) p"
    using assms by (auto split: if_splits)
  moreover from this have "length d = unat v" by simp
  ultimately show "length d < 2 ^ 64 \<and> c = zf_cbor_head m (word_of_nat (length d)) @ d @ r"
    using unsigned_less [of v, where ?'a = nat] by simp
next
  assume "length d < 2 ^ 64 \<and> c = zf_cbor_head m (word_of_nat (length d)) @ d @ r"
  then show "\<exists>v :: u64. \<exists>p. c = zf_cbor_head m v @ p \<and> f (unat v) p = Some (d, r)"
    using assms by (intro exI [of _ "word_of_nat (length d)"] exI [of _ "d @ r"])
      (simp add: unat_of_nat)
qed

lemma read_bytes_iff:
  "zf_cbor_read_bytes_ptr c = Some (d, r) \<longleftrightarrow> length d < 2 ^ 64 \<and> c = cbor_bytes d @ r"
proof -
  have "zf_cbor_read_bytes_ptr c = Some (d, r) \<longleftrightarrow>
    (\<exists>v p. c = zf_cbor_head 2 v @ p \<and>
      (if unat v \<le> length p then Some (take (unat v) p, drop (unat v) p) else None) = Some (d, r))"
    by (auto simp: zf_cbor_read_bytes_ptr_def read_head_case cbor_majors word_less_nat_alt not_less
        split: if_splits)
  also have "\<dots> \<longleftrightarrow> length d < 2 ^ 64 \<and> c = zf_cbor_head 2 (word_of_nat (length d)) @ d @ r"
    by (rule counted_iff) simp
  finally show ?thesis by (simp add: cbor_bytes_def cbor_majors)
qed

lemma read_text_iff:
  "zf_cbor_read_text_ptr c = Some (t, r) \<longleftrightarrow>
     length t < 2 ^ 64 \<and> zf_cbor_utf8_is_valid t \<and> c = cbor_text t @ r"
proof -
  have "zf_cbor_read_text_ptr c = Some (t, r) \<longleftrightarrow> zf_cbor_utf8_is_valid t \<and>
    (\<exists>v p. c = zf_cbor_head 3 v @ p \<and>
      (if unat v \<le> length p then Some (take (unat v) p, drop (unat v) p) else None) = Some (t, r))"
    by (auto simp: zf_cbor_read_text_ptr_def read_head_case cbor_majors word_less_nat_alt not_less
        split: if_splits)
  also have "\<dots> \<longleftrightarrow> zf_cbor_utf8_is_valid t \<and>
      length t < 2 ^ 64 \<and> c = zf_cbor_head 3 (word_of_nat (length t)) @ t @ r"
    by (subst counted_iff) simp_all
  finally show ?thesis by (auto simp: cbor_text_def cbor_majors)
qed

lemma read_map_start_iff:
  "zf_cbor_read_map_start c = Some (n, r) \<longleftrightarrow> n \<le> SIZE_MAX \<and> c = cbor_map n @ r"
proof
  assume "zf_cbor_read_map_start c = Some (n, r)"
  then show "n \<le> SIZE_MAX \<and> c = cbor_map n @ r"
    by (auto simp: zf_cbor_read_map_start_def read_head_case cbor_map_def cbor_majors
        split: if_splits)
qed (simp add: zf_cbor_read_map_start_def cbor_map_def cbor_majors read_head_complete SIZE_MAX_def
    word_less_nat_alt unat_of_nat)

lemma read_array_start_iff:
  "zf_cbor_read_array_start c = Some (n, r) \<longleftrightarrow> n \<le> SIZE_MAX \<and> c = cbor_array n @ r"
proof
  assume "zf_cbor_read_array_start c = Some (n, r)"
  then show "n \<le> SIZE_MAX \<and> c = cbor_array n @ r"
    by (auto simp: zf_cbor_read_array_start_def read_head_case cbor_array_def cbor_majors
        split: if_splits)
qed (simp add: zf_cbor_read_array_start_def cbor_array_def cbor_majors read_head_complete SIZE_MAX_def
    word_less_nat_alt unat_of_nat)

lemmas reader_iffs = read_uint_iff read_int_iff read_bool_iff read_bytes_iff read_text_iff
  read_map_start_iff read_array_start_iff

section \<open>Emitters\<close>

text \<open>
  The encoder between two operations: the offset is inside the capacity and the capacity inside the
  buffer. \<open>enc_put\<close> is what a successful operation does with its output.
\<close>

definition enc_wf :: "zf_cbor_encoder \<Rightarrow> bool" where
  "enc_wf e \<longleftrightarrow> enc_offset e \<le> enc_capacity e \<and> enc_capacity e \<le> length (enc_buf e)"

definition enc_room :: "zf_cbor_encoder \<Rightarrow> nat" where
  "enc_room e = enc_capacity e - enc_offset e"

definition enc_put :: "zf_cbor_encoder \<Rightarrow> bytes \<Rightarrow> zf_cbor_encoder" where
  "enc_put e d = e\<lparr>enc_buf := write_at (enc_buf e) (enc_offset e) d,
                   enc_offset := enc_offset e + length d\<rparr>"

lemma enc_put_wf: "enc_wf e \<Longrightarrow> length d \<le> enc_room e \<Longrightarrow> enc_wf (enc_put e d)"
  by (auto simp: enc_wf_def enc_room_def enc_put_def)

lemma enc_room_put: "enc_room (enc_put e d) = enc_room e - length d"
  by (simp add: enc_room_def enc_put_def)

lemma enc_put_put:
  "enc_wf e \<Longrightarrow> length a + length b \<le> enc_room e \<Longrightarrow> enc_put (enc_put e a) b = enc_put e (a @ b)"
  by (simp add: enc_wf_def enc_room_def enc_put_def write_at_def min_def ac_simps)

lemma enc_put_Nil [simp]: "enc_put e [] = e"
  by (simp add: enc_put_def write_at_def)

lemma append_put:
  "enc_wf e \<Longrightarrow>
    zf_cbor_append e d = (if length d \<le> enc_room e then (True, enc_put e d) else (False, e))"
  by (auto simp: zf_cbor_append_def enc_wf_def enc_room_def enc_put_def)

text \<open>
  The contract of an encoder operation: it emits \<open>out\<close> when there is room and reports failure
  otherwise, leaving at most a prefix of \<open>out\<close> behind.
\<close>

locale cbor_emitter =
  fixes op :: "zf_cbor_encoder \<Rightarrow> bool \<times> zf_cbor_encoder"
    and out :: bytes
  assumes emits: "enc_wf e \<Longrightarrow> length out \<le> enc_room e \<Longrightarrow> op e = (True, enc_put e out)"
    and fails: "enc_wf e \<Longrightarrow> enc_room e < length out \<Longrightarrow>
      \<exists>k \<le> enc_room e. op e = (False, enc_put e (take k out))"
begin

lemma result_cases:
  assumes "enc_wf e"
  obtains (ok) "length out \<le> enc_room e" "op e = (True, enc_put e out)"
  | (full) k where "enc_room e < length out" "k \<le> enc_room e"
      "op e = (False, enc_put e (take k out))"
proof (cases "length out \<le> enc_room e")
  case True
  with assms show thesis by (intro ok emits)
next
  case False
  with fails [OF assms] obtain k where "k \<le> enc_room e" "op e = (False, enc_put e (take k out))"
    by auto
  with False show thesis by (intro full) simp_all
qed

lemma succeeds_iff: "enc_wf e \<Longrightarrow> fst (op e) \<longleftrightarrow> length out \<le> enc_room e"
  by (cases e rule: result_cases) simp_all

lemma keeps_wf: "enc_wf e \<Longrightarrow> enc_wf (snd (op e))"
  by (cases e rule: result_cases) (simp_all add: enc_put_wf min_def)

lemma keeps_capacity: "enc_wf e \<Longrightarrow> enc_capacity (snd (op e)) = enc_capacity e"
  by (cases e rule: result_cases) (simp_all add: enc_put_def)

lemma keeps_written:
  "enc_wf e \<Longrightarrow> take (enc_offset e) (enc_buf (snd (op e))) = take (enc_offset e) (enc_buf e)"
  by (cases e rule: result_cases) (auto simp: enc_put_def enc_wf_def)

lemma keeps_outside:
  "enc_wf e \<Longrightarrow> drop (enc_capacity e) (enc_buf (snd (op e))) = drop (enc_capacity e) (enc_buf e)"
  by (cases e rule: result_cases) (auto simp: enc_put_def enc_wf_def enc_room_def min_def)

lemma written:
  "enc_wf e \<Longrightarrow> fst (op e) \<Longrightarrow>
    take (enc_offset (snd (op e))) (enc_buf (snd (op e))) = take (enc_offset e) (enc_buf e) @ out"
  by (cases e rule: result_cases) (auto simp: enc_put_def enc_wf_def enc_room_def take_write_at)

end

lemma emitter_seq:
  assumes "cbor_emitter f a" and "cbor_emitter g b"
  shows "cbor_emitter (\<lambda>e. and_then (f e) g) (a @ b)"
proof
  fix e
  assume wf: "enc_wf e" and "length (a @ b) \<le> enc_room e"
  then show "and_then (f e) g = (True, enc_put e (a @ b))"
    using cbor_emitter.emits [OF assms(1) wf] cbor_emitter.emits [OF assms(2), of "enc_put e a"]
    by (simp add: enc_put_wf enc_room_put enc_put_put)
next
  fix e
  assume wf: "enc_wf e" and less: "enc_room e < length (a @ b)"
  show "\<exists>k \<le> enc_room e. and_then (f e) g = (False, enc_put e (take k (a @ b)))"
  proof (rule cbor_emitter.result_cases [OF assms(1) wf])
    assume a: "length a \<le> enc_room e" "f e = (True, enc_put e a)"
    with less have "enc_room (enc_put e a) < length b" by (simp add: enc_room_put)
    with cbor_emitter.fails [OF assms(2) enc_put_wf [OF wf a(1)]]
    obtain k where k: "k \<le> enc_room e - length a"
      "g (enc_put e a) = (False, enc_put (enc_put e a) (take k b))"
      by (auto simp: enc_room_put)
    with a wf have "and_then (f e) g = (False, enc_put e (take (length a + k) (a @ b)))"
      using enc_put_put [OF wf, of a "take k b"] by (simp add: min_le_iff_disj)
    with k a show ?thesis by (intro exI [of _ "length a + k"]) auto
  next
    fix k
    assume "enc_room e < length a" "k \<le> enc_room e" "f e = (False, enc_put e (take k a))"
    then show ?thesis by (intro exI [of _ k]) simp
  qed
qed

lemma append_emitter: "cbor_emitter (\<lambda>e. zf_cbor_append e d) d"
  by unfold_locales (auto simp: append_put intro!: exI [of _ 0])

lemma head_emitter: "cbor_emitter (\<lambda>e. zf_cbor_encode_head e m v) (zf_cbor_head m v)"
  unfolding zf_cbor_encode_head_def by (rule append_emitter)

lemma payload_emitter: "cbor_emitter (\<lambda>e. if length d = 0 then (True, e) else zf_cbor_append e d) d"
  by (cases "d = []") (simp_all add: append_emitter cbor_emitter_def)

interpretation enc_uint: cbor_emitter "\<lambda>e. zf_cbor_encode_uint e v" "cbor_uint v" for v
  unfolding zf_cbor_encode_uint_def cbor_uint_def by (rule head_emitter)

interpretation enc_int: cbor_emitter "\<lambda>e. zf_cbor_encode_int e i" "cbor_int i" for i
  unfolding zf_cbor_encode_int_def cbor_int_def by (cases "i \<ge> 0") (simp_all add: head_emitter)

interpretation enc_bool: cbor_emitter "\<lambda>e. zf_cbor_encode_bool e b" "cbor_bool b" for b
proof -
  have "cbor_bool b = [push_bit 5 ZF_CBOR_MAJOR_SIMPLE OR (if b then 21 else 20)]"
    by (simp add: cbor_bool_def cbor_majors)
  then show "cbor_emitter (\<lambda>e. zf_cbor_encode_bool e b) (cbor_bool b)"
    by (simp add: zf_cbor_encode_bool_def append_emitter)
qed

interpretation enc_bytes: cbor_emitter "\<lambda>e. zf_cbor_encode_bytes e d" "cbor_bytes d" for d
  unfolding zf_cbor_encode_bytes_def cbor_bytes_def
  by (intro emitter_seq head_emitter payload_emitter)

interpretation enc_text_n: cbor_emitter "\<lambda>e. zf_cbor_encode_text_n e t" "cbor_text t" for t
  unfolding zf_cbor_encode_text_n_def cbor_text_def
  by (intro emitter_seq head_emitter payload_emitter)

interpretation enc_text: cbor_emitter "\<lambda>e. zf_cbor_encode_text e t" "cbor_text t" for t
  unfolding zf_cbor_encode_text_def by (rule enc_text_n.cbor_emitter_axioms)

interpretation enc_map: cbor_emitter "\<lambda>e. zf_cbor_encode_map e n" "cbor_map n" for n
  unfolding zf_cbor_encode_map_def cbor_map_def by (rule head_emitter)

interpretation enc_array: cbor_emitter "\<lambda>e. zf_cbor_encode_array e n" "cbor_array n" for n
  unfolding zf_cbor_encode_array_def cbor_array_def by (rule head_emitter)

lemmas emitters = enc_uint.cbor_emitter_axioms enc_int.cbor_emitter_axioms
  enc_bool.cbor_emitter_axioms enc_bytes.cbor_emitter_axioms enc_text.cbor_emitter_axioms
  enc_text_n.cbor_emitter_axioms enc_map.cbor_emitter_axioms enc_array.cbor_emitter_axioms

definition cbor_cose_key :: "int \<Rightarrow> bytes \<Rightarrow> bytes \<Rightarrow> bytes" where
  "cbor_cose_key alg x y =
    cbor_map 5 @ cbor_int 1 @ cbor_int 2 @ cbor_int 3 @ cbor_int alg @ cbor_int (- 1) @
    cbor_int 1 @ cbor_int (- 2) @ cbor_bytes x @ cbor_int (- 3) @ cbor_bytes y"

interpretation enc_cose: cbor_emitter "\<lambda>e. zf_cbor_encode_p256_cose_key e alg x y"
  "cbor_cose_key alg x y" for alg x y
  unfolding zf_cbor_encode_p256_cose_key_def cbor_cose_key_def
  by (intro emitter_seq emitters)
end
