(* ===== verification/Cbor_Items.thy ===== *)
theory Cbor_Items
  imports Cbor_Exact
begin

text \<open>
  Whole CBOR items. A reader that succeeds consumes a non-empty prefix of its input, so a loop over
  \<open>n\<close> items needs at least \<open>n\<close> bytes whatever count a map or array head announces; and
  \<^verbatim>\<open>zf_cbor_skip\<close> passes over exactly one item when it nests at most
  \<open>ZF_CBOR_SKIP_DEPTH_LIMIT\<close> deep and refuses every deeper one. Skipped text is not validated.
\<close>

section \<open>Readers consume input\<close>

locale consuming_reader =
  fixes rd :: "cursor \<Rightarrow> ('a \<times> cursor) option"
  assumes consumes: "rd c = Some (x, r) \<Longrightarrow> \<exists>p. p \<noteq> [] \<and> c = p @ r"
begin

lemma shrinks: "rd c = Some (x, r) \<Longrightarrow> length r < length c"
  using consumes by fastforce

text \<open>Reading \<open>n\<close> items one after the other, as the parsers' loops do.\<close>

fun items :: "nat \<Rightarrow> cursor \<Rightarrow> ('a list \<times> cursor) option" where
  "items 0 c = Some ([], c)"
| "items (Suc n) c =
    (case rd c of
       None \<Rightarrow> None
     | Some (x, c') \<Rightarrow> map_option (\<lambda>(xs, r). (x # xs, r)) (items n c'))"

lemma items_consume: "items n c = Some (xs, r) \<Longrightarrow> \<exists>p. c = p @ r \<and> n \<le> length p \<and> length xs = n"
proof (induction n arbitrary: c xs)
  case 0
  then show ?case by simp
next
  case (Suc n)
  then obtain x c' ys where "rd c = Some (x, c')" "items n c' = Some (ys, r)" "xs = x # ys"
    by (auto split: option.splits)
  with Suc.IH [of c' ys] consumes [of c x c'] obtain p q where
    "c' = p @ r" "n \<le> length p" "length ys = n" "c = q @ c'" "q \<noteq> []" by auto
  moreover from this have "Suc n \<le> length (q @ p)" by (cases q) simp_all
  ultimately show ?case using \<open>xs = x # ys\<close> by (intro exI [of _ "q @ p"]) simp
qed

lemma items_bound: "items n c = Some (xs, r) \<Longrightarrow> n \<le> length c"
  using items_consume by fastforce

end

lemma cbor_encodings_not_Nil [simp]:
  "cbor_uint v \<noteq> []" "cbor_int i \<noteq> []" "cbor_bool b \<noteq> []" "cbor_bytes d \<noteq> []"
  "cbor_text d \<noteq> []" "cbor_map n \<noteq> []" "cbor_array n \<noteq> []"
  by (simp_all add: cbor_encodings)

interpretation rd_uint: consuming_reader zf_cbor_read_uint
  by unfold_locales (auto simp: read_uint_iff)
interpretation rd_int: consuming_reader zf_cbor_read_int
  by unfold_locales (auto simp: read_int_iff)
interpretation rd_bool: consuming_reader zf_cbor_read_bool
  by unfold_locales (auto simp: read_bool_iff)
interpretation rd_bytes: consuming_reader zf_cbor_read_bytes_ptr
  by unfold_locales (auto simp: read_bytes_iff simp del: append_assoc)
interpretation rd_text: consuming_reader zf_cbor_read_text_ptr
  by unfold_locales (auto simp: read_text_iff simp del: append_assoc)
interpretation rd_map: consuming_reader zf_cbor_read_map_start
  by unfold_locales (auto simp: read_map_start_iff)
interpretation rd_array: consuming_reader zf_cbor_read_array_start
  by unfold_locales (auto simp: read_array_start_iff)

section \<open>Skipping\<close>

declare zf_cbor_skip_inner.simps [simp del]
lemmas skip_inner_unfold = zf_cbor_skip_inner.simps

lemma drop_suffix: "\<exists>s. p = s @ drop n p"
  by (metis append_take_drop_id)

lemma skip_head_suffix:
  "zf_cbor_skip_read_head c = Some ((m, v), r) \<Longrightarrow> \<exists>p. p \<noteq> [] \<and> c = p @ r"
proof -
  assume "zf_cbor_skip_read_head c = Some ((m, v), r)"
  then have "\<exists>b p k. c = b # p \<and> r = drop k p"
    unfolding zf_cbor_skip_read_head_def Let_def
    by (auto split: list.splits if_splits intro: exI [of _ 0])
  then obtain b p k where "c = b # p" "r = drop k p" by blast
  then show ?thesis by (intro exI [of _ "b # take k p"]) simp
qed

lemma skip_head_canonical:
  "zf_cbor_read_head c = Some x \<Longrightarrow> zf_cbor_skip_read_head c = Some x"
  unfolding zf_cbor_read_head_def zf_cbor_skip_read_head_def Let_def
  by (auto split: list.splits if_splits)

lemma skip_suffix:
  "zf_cbor_skip_inner d c = Some r \<Longrightarrow> \<exists>p. p \<noteq> [] \<and> c = p @ r"
  "zf_cbor_skip_array_loop d n c = Some r \<Longrightarrow> \<exists>p. c = p @ r"
  "zf_cbor_skip_map_loop d n c = Some r \<Longrightarrow> \<exists>p. c = p @ r"
proof (induction d c and d n c and d n c arbitrary: r and r and r
    rule: zf_cbor_skip_inner_zf_cbor_skip_array_loop_zf_cbor_skip_map_loop.induct)
  case (1 d c)
  then obtain m v p where h: "zf_cbor_skip_read_head c = Some ((m, v), p)"
    by (auto simp: skip_inner_unfold split: if_splits option.splits)
  then obtain q where q: "q \<noteq> []" "c = q @ p" using skip_head_suffix by blast
  consider "r = p" | "r = drop (unat v) p"
    | "m = ZF_CBOR_MAJOR_ARRAY" "zf_cbor_skip_array_loop (Suc d) (unat v) p = Some r"
    | "m = ZF_CBOR_MAJOR_MAP" "zf_cbor_skip_map_loop (Suc d) (unat v) p = Some r"
    using 1(3) h unfolding skip_inner_unfold [of d c] by (auto split: if_splits)
  then have "\<exists>s. p = s @ r"
  proof cases
    case 2
    then show ?thesis by (simp add: drop_suffix)
  next
    case 3
    with 1(3) h show ?thesis
      by (intro 1(1) [of "((m, v), p)" "(m, v)" p m v]) (auto simp: skip_inner_unfold cbor_majors split: if_splits)
  next
    case 4
    with 1(3) h show ?thesis
      by (intro 1(2) [of "((m, v), p)" "(m, v)" p m v]) (auto simp: skip_inner_unfold cbor_majors split: if_splits)
  qed simp
  then obtain s where "p = s @ r" by blast
  with q have "q @ s \<noteq> [] \<and> c = (q @ s) @ r" by simp
  then show ?case by blast
next
  case (3 d n c)
  then obtain p where "zf_cbor_skip_inner d c = Some p" "zf_cbor_skip_array_loop d n p = Some r"
    by (auto split: option.splits)
  moreover from this have "\<exists>s. c = s @ p" using 3(1) by blast
  ultimately show ?case using 3(2) by fastforce
next
  case (5 d n c)
  then obtain p q where "zf_cbor_skip_inner d c = Some p" "zf_cbor_skip_inner d p = Some q"
    "zf_cbor_skip_map_loop d n q = Some r"
    by (auto split: option.splits)
  moreover from this have "\<exists>s. c = s @ p" "\<exists>s. p = s @ q" using 5(1,2) by blast+
  ultimately show ?case using 5(3) by fastforce
qed simp_all

interpretation rd_skip: consuming_reader "\<lambda>c. map_option (Pair ()) (zf_cbor_skip c)"
  by unfold_locales (auto simp: zf_cbor_skip_def dest: skip_suffix(1))

text \<open>
  The items the encoder can produce. A simple value is one byte of major type 7 with its value below
  24, which covers \<open>false\<close>, \<open>true\<close> and \<open>null\<close>.
\<close>

datatype cbor_item =
    CUint u64
  | CNegint u64
  | CBytes bytes
  | CText bytes
  | CArray "cbor_item list"
  | CMap "(cbor_item \<times> cbor_item) list"
  | CSimple byte

fun item_bytes :: "cbor_item \<Rightarrow> bytes" where
  "item_bytes (CUint v) = zf_cbor_head ZF_CBOR_MAJOR_UINT v"
| "item_bytes (CNegint v) = zf_cbor_head ZF_CBOR_MAJOR_NEGINT v"
| "item_bytes (CBytes d) = cbor_bytes d"
| "item_bytes (CText t) = cbor_text t"
| "item_bytes (CArray xs) = cbor_array (length xs) @ concat (map item_bytes xs)"
| "item_bytes (CMap kvs) =
    cbor_map (length kvs) @ concat (map (\<lambda>(k, v). item_bytes k @ item_bytes v) kvs)"
| "item_bytes (CSimple v) = zf_cbor_head ZF_CBOR_MAJOR_SIMPLE (ucast v)"

text \<open>The item, met at nesting depth \<open>d\<close>, stays within the limit; its sizes fit their heads.\<close>

fun item_depth_ok :: "nat \<Rightarrow> cbor_item \<Rightarrow> bool" where
  "item_depth_ok d (CArray xs) \<longleftrightarrow> d \<le> 16 \<and> list_all (item_depth_ok (Suc d)) xs"
| "item_depth_ok d (CMap kvs) \<longleftrightarrow>
    d \<le> 16 \<and> list_all (\<lambda>(k, v). item_depth_ok (Suc d) k \<and> item_depth_ok (Suc d) v) kvs"
| "item_depth_ok d _ \<longleftrightarrow> d \<le> 16"

fun item_sizes_ok :: "cbor_item \<Rightarrow> bool" where
  "item_sizes_ok (CBytes d) \<longleftrightarrow> length d < 2 ^ 64"
| "item_sizes_ok (CText t) \<longleftrightarrow> length t < 2 ^ 64"
| "item_sizes_ok (CArray xs) \<longleftrightarrow> length xs < 2 ^ 64 \<and> list_all item_sizes_ok xs"
| "item_sizes_ok (CMap kvs) \<longleftrightarrow>
    length kvs < 2 ^ 64 \<and> list_all (\<lambda>(k, v). item_sizes_ok k \<and> item_sizes_ok v) kvs"
| "item_sizes_ok (CSimple v) \<longleftrightarrow> v < 24"
| "item_sizes_ok _ \<longleftrightarrow> True"

lemma skip_read_head_complete:
  "m < 8 \<Longrightarrow> zf_cbor_skip_read_head (zf_cbor_head m v @ r) = Some ((m, v), r)"
  by (intro skip_head_canonical read_head_complete)

lemma skip_array_items:
  assumes "\<And>x r. x \<in> set xs \<Longrightarrow>
      zf_cbor_skip_inner d (item_bytes x @ r) = (if item_depth_ok d x then Some r else None)"
  shows "zf_cbor_skip_array_loop d (length xs) (concat (map item_bytes xs) @ r) =
    (if list_all (item_depth_ok d) xs then Some r else None)"
  using assms by (induction xs) simp_all

lemma skip_map_items:
  assumes "\<And>k v r. (k, v) \<in> set kvs \<Longrightarrow>
      zf_cbor_skip_inner d (item_bytes k @ r) = (if item_depth_ok d k then Some r else None)"
    and "\<And>k v r. (k, v) \<in> set kvs \<Longrightarrow>
      zf_cbor_skip_inner d (item_bytes v @ r) = (if item_depth_ok d v then Some r else None)"
  shows "zf_cbor_skip_map_loop d (length kvs)
      (concat (map (\<lambda>(k, v). item_bytes k @ item_bytes v) kvs) @ r) =
    (if list_all (\<lambda>(k, v). item_depth_ok d k \<and> item_depth_ok d v) kvs then Some r else None)"
  using assms
proof (induction kvs)
  case (Cons kv kvs)
  obtain k v where kv: "kv = (k, v)" by (cases kv)
  have "zf_cbor_skip_inner d (item_bytes k @ p) = (if item_depth_ok d k then Some p else None)"
    "zf_cbor_skip_inner d (item_bytes v @ p) = (if item_depth_ok d v then Some p else None)" for p
    using Cons.prems(1) [of k v p] Cons.prems(2) [of k v p] kv by simp_all
  moreover have "zf_cbor_skip_map_loop d (length kvs)
      (concat (map (\<lambda>(k, v). item_bytes k @ item_bytes v) kvs) @ r) =
    (if list_all (\<lambda>(k, v). item_depth_ok d k \<and> item_depth_ok d v) kvs then Some r else None)"
    by (intro Cons.IH Cons.prems) auto
  ultimately show ?case by (simp add: kv)
qed simp

lemma item_depth_limit: "\<not> d \<le> 16 \<Longrightarrow> \<not> item_depth_ok d x"
  by (cases x) auto

lemma skip_inner_item:
  "item_sizes_ok x \<Longrightarrow>
    zf_cbor_skip_inner d (item_bytes x @ r) = (if item_depth_ok d x then Some r else None)"
proof (induction x arbitrary: d r)
  case (CArray xs)
  then have "zf_cbor_skip_array_loop (Suc d) (length xs) (concat (map item_bytes xs) @ r) =
    (if list_all (item_depth_ok (Suc d)) xs then Some r else None)"
    by (intro skip_array_items) (auto simp: list_all_iff)
  with CArray.prems show ?case
    by (simp add: skip_inner_unfold cbor_array_def cbor_majors skip_read_head_complete word_less_nat_alt
        ZF_CBOR_SKIP_DEPTH_LIMIT_def unat_of_nat)
next
  case (CMap kvs)
  have "zf_cbor_skip_inner d (item_bytes k @ r) = (if item_depth_ok d k then Some r else None)"
    if "(k, v) \<in> set kvs" for k v d r
    using CMap.IH(1) [OF that, of k] CMap.prems that by (auto simp: list_all_iff)
  moreover have "zf_cbor_skip_inner d (item_bytes v @ r) = (if item_depth_ok d v then Some r else None)"
    if "(k, v) \<in> set kvs" for k v d r
    using CMap.IH(2) [OF that, of v] CMap.prems that by (auto simp: list_all_iff)
  ultimately have "zf_cbor_skip_map_loop (Suc d) (length kvs)
      (concat (map (\<lambda>(k, v). item_bytes k @ item_bytes v) kvs) @ r) =
    (if list_all (\<lambda>(k, v). item_depth_ok (Suc d) k \<and> item_depth_ok (Suc d) v) kvs
     then Some r else None)"
    by (intro skip_map_items)
  with CMap.prems show ?case
    by (simp add: skip_inner_unfold cbor_map_def cbor_majors skip_read_head_complete word_less_nat_alt
        ZF_CBOR_SKIP_DEPTH_LIMIT_def unat_of_nat)
next
  case (CSimple v)
  then have "(ucast v :: u64) < 24" by simp
  moreover have "\<not> (31 :: u64) < 24" by simp
  ultimately have "(ucast v :: u64) \<noteq> 31" by metis
  then show ?case
    by (simp add: skip_inner_unfold cbor_majors skip_read_head_complete word_less_nat_alt ZF_CBOR_SKIP_DEPTH_LIMIT_def)
qed (simp_all add: skip_inner_unfold cbor_encodings cbor_majors skip_read_head_complete word_less_nat_alt
    ZF_CBOR_SKIP_DEPTH_LIMIT_def unat_of_nat)

lemma skip_item:
  "item_sizes_ok x \<Longrightarrow> zf_cbor_skip (item_bytes x @ r) = (if item_depth_ok 0 x then Some r else None)"
  unfolding zf_cbor_skip_def by (rule skip_inner_item)

end
