(* ===== verification/Sha256_Exact.thy ===== *)
theory Sha256_Exact
  imports Sha256
begin

text \<open>
  The streaming SHA-256 computes the reference digest of the padded message, however the input is
  cut into updates; HMAC over two parts is HMAC of their concatenation.
\<close>

function sha256_blocks :: "sha_state \<Rightarrow> bytes \<Rightarrow> sha_state" where
  "sha256_blocks st msg =
    (if length msg < 64 then st
     else sha256_blocks (zf_sha256_transform st (take 64 msg)) (drop 64 msg))"
  by pat_completeness auto
termination by (relation "measure (\<lambda>(st, msg). length msg)") auto

function sha256_rest :: "bytes \<Rightarrow> bytes" where
  "sha256_rest msg = (if length msg < 64 then msg else sha256_rest (drop 64 msg))"
  by pat_completeness auto
termination by (relation "measure length") auto

declare sha256_blocks.simps [simp del] sha256_rest.simps [simp del] sha256_absorb.simps [simp del]

lemma sha256_blocks_short [simp]: "length msg < 64 \<Longrightarrow> sha256_blocks st msg = st"
  by (simp add: sha256_blocks.simps)

lemma sha256_rest_short [simp]: "length msg < 64 \<Longrightarrow> sha256_rest msg = msg"
  by (simp add: sha256_rest.simps)

lemma sha256_block [simp]:
  "length blk = 64 \<Longrightarrow> sha256_blocks st (blk @ msg) = sha256_blocks (zf_sha256_transform st blk) msg"
  "length blk = 64 \<Longrightarrow> sha256_rest (blk @ msg) = sha256_rest msg"
  by (simp_all add: sha256_blocks.simps [of st] sha256_rest.simps [of "blk @ msg"])

lemma length_sha256_rest: "length (sha256_rest msg) = length msg mod 64"
  by (induction msg rule: sha256_rest.induct)
    (subst sha256_rest.simps, auto simp: le_mod_geq)

lemma length_sha256_rest_less [simp]: "length (sha256_rest msg) < 64"
  by (simp add: length_sha256_rest)

lemma sha256_append:
  "sha256_blocks st (a @ b) = sha256_blocks (sha256_blocks st a) (sha256_rest a @ b) \<and>
   sha256_rest (a @ b) = sha256_rest (sha256_rest a @ b)"
proof (induction st a rule: sha256_blocks.induct)
  case (1 st a)
  show ?case
  proof (cases "length a < 64")
    case False
    then have a: "length (take 64 a) = 64" by simp
    have "a @ b = take 64 a @ (drop 64 a @ b)" by simp
    with 1 [OF False] a show ?thesis
      by (metis append_take_drop_id sha256_block)
  qed simp
qed

lemma sha256_absorb_Nil [simp]: "sha256_absorb ctx [] = ctx"
  by (simp add: sha256_absorb.simps)

lemma sha256_absorb_blocks:
  "length (sha_buffer ctx) < 64 \<Longrightarrow>
    sha256_absorb ctx data =
      ctx\<lparr>sha_state := sha256_blocks (sha_state ctx) (sha_buffer ctx @ data),
          sha_buffer := sha256_rest (sha_buffer ctx @ data)\<rparr>"
proof (induction ctx data rule: sha256_absorb.induct)
  case (1 ctx data)
  let ?n = "64 - length (sha_buffer ctx)"
  show ?case
  proof (cases "length data < ?n")
    case True
    then have "sha256_absorb ctx data = ctx\<lparr>sha_buffer := sha_buffer ctx @ data\<rparr>"
      by (cases "data = []") (simp, subst sha256_absorb.simps, auto simp: Let_def min_def)
    with True show ?thesis using 1 by (cases ctx) simp
  next
    case False
    with 1(2) have len: "length (sha_buffer ctx @ take ?n data) = 64" and m: "min ?n (length data) = ?n"
      and ne: "data \<noteq> []"
      by auto
    let ?ctx = "ctx\<lparr>sha_state := zf_sha256_transform (sha_state ctx) (sha_buffer ctx @ take ?n data),
        sha_buffer := []\<rparr>"
    have step: "sha256_absorb ctx data = sha256_absorb ?ctx (drop ?n data)"
      using 1(2) ne len m by (subst sha256_absorb.simps) (simp add: Let_def del: length_append)
    have "sha256_absorb ?ctx (drop ?n data) = ?ctx\<lparr>
        sha_state := sha256_blocks (sha_state ?ctx) (sha_buffer ?ctx @ drop ?n data),
        sha_buffer := sha256_rest (sha_buffer ?ctx @ drop ?n data)\<rparr>"
      using 1(1) [OF _ refl refl] 1(2) ne len m by (simp del: length_append)
    moreover have "sha256_blocks (sha_state ctx) (sha_buffer ctx @ data) =
        sha256_blocks (sha_state ?ctx) (drop ?n data)"
      using sha256_block(1) [OF len, of "sha_state ctx" "drop ?n data"] by simp
    moreover have "sha256_rest (sha_buffer ctx @ data) = sha256_rest (drop ?n data)"
      using sha256_block(2) [OF len, of "drop ?n data"] by simp
    ultimately show ?thesis using step by simp
  qed
qed

section \<open>Updates compose\<close>

text \<open>The context after the bytes \<open>m\<close> have been fed to a fresh one.\<close>

definition sha256_ctx :: "bytes \<Rightarrow> ZfSha256Context" where
  "sha256_ctx m =
    \<lparr>sha_state = sha256_blocks (sha_state zf_sha256_init) m,
     sha_bit_count = word_of_nat (length m) * 8, sha_buffer = sha256_rest m\<rparr>"

lemma sha256_init_ctx: "zf_sha256_init = sha256_ctx []"
  by (simp add: sha256_ctx_def zf_sha256_init_def)

lemma sha256_update_ctx [simp]: "zf_sha256_update (sha256_ctx a) b = sha256_ctx (a @ b)"
  using sha256_append [of "sha_state zf_sha256_init" a b]
  by (simp add: zf_sha256_update_def sha256_absorb_blocks sha256_ctx_def algebra_simps)

lemma sha256_update_init [simp]: "zf_sha256_update zf_sha256_init m = sha256_ctx m"
  by (simp add: sha256_init_ctx)

section \<open>The reference digest\<close>

text \<open>FIPS 180-4 padding: a one bit, zeros up to 56 modulo 64 bytes, the bit length.\<close>

definition sha256_pad :: "bytes \<Rightarrow> bytes" where
  "sha256_pad m =
    m @ [0x80] @ replicate ((119 - length m mod 64) mod 64) 0 @
    be_bytes 8 (word_of_nat (8 * length m) :: u64)"

definition sha256_reference :: "bytes \<Rightarrow> bytes" where
  "sha256_reference m =
    concat (map zf_sha256_store_be32 (sha256_blocks (sha_state zf_sha256_init) (sha256_pad m)))"

lemma store_be64_bytes: "zf_sha256_store_be64 v = be_bytes 8 v"
  by (simp add: zf_sha256_store_be64_def numeral_eq_Suc upt_rec drop_bit_drop_bit)

lemma sha256_finish_ctx: "zf_sha256_finish (sha256_ctx m) = sha256_reference m"
proof -
  let ?n = "length m mod 64" and ?bits = "word_of_nat (length m) * 8 :: u64"
  have bits: "?bits = word_of_nat (8 * length m)" by (simp add: mult.commute)
  have n: "length (sha256_rest m) = ?n" by (rule length_sha256_rest)
  have pad: "sha256_blocks st (sha256_pad m) =
      zf_sha256_transform (sha256_blocks st (m @ p)) (sha256_rest (m @ p) @ be_bytes 8 ?bits)"
    if "p = 0x80 # replicate ((119 - ?n) mod 64) 0" "length (sha256_rest (m @ p)) = 56" for st p
  proof -
    have "sha256_pad m = (m @ p) @ be_bytes 8 ?bits"
      using that(1) by (simp only: sha256_pad_def bits) simp
    then have "sha256_blocks st (sha256_pad m) =
        sha256_blocks (sha256_blocks st (m @ p)) (sha256_rest (m @ p) @ be_bytes 8 ?bits)"
      using sha256_append by simp
    then show ?thesis using that(2) sha256_block(1) [of "sha256_rest (m @ p) @ be_bytes 8 ?bits" _ "[]"]
      by simp
  qed
  show ?thesis
  proof (cases "?n > 55")
    case True
    let ?p1 = "0x80 # replicate (63 - ?n) 0" and ?p2 = "replicate 56 0"
    have p1: "take (64 - ?n) (0x80 # replicate 63 0) = (?p1 :: bytes)"
      using True by (cases "64 - ?n") (auto simp: min_def)
    have r1: "sha256_rest (m @ ?p1) = []"
    proof -
      have "length (m @ ?p1) = length m + (64 - ?n)"
        using mod_less_divisor [of 64 "length m"] by simp
      also have "\<dots> = 64 * Suc (length m div 64)"
        using mod_less_divisor [of 64 "length m", OF zero_less_numeral]
          mult_div_mod_eq [of 64 "length m"] by arith
      finally show ?thesis
        using length_sha256_rest [of "m @ ?p1"] by simp
    qed
    have p: "?p1 @ ?p2 = 0x80 # replicate ((119 - ?n) mod 64) (0 :: byte)"
    proof -
      have "(119 - ?n) mod 64 = (63 - ?n) + 56"
        using True mod_less_divisor [of 64 "length m", OF zero_less_numeral] by simp
      then show ?thesis by (simp only: replicate_add append_Cons)
    qed
    have len: "length (sha256_rest (m @ ?p1 @ ?p2)) = 56"
      using sha256_append [of undefined "m @ ?p1" ?p2] r1 by simp
    have "zf_sha256_finish (sha256_ctx m) = concat (map zf_sha256_store_be32
        (zf_sha256_transform (sha256_blocks (sha_state zf_sha256_init) (m @ ?p1 @ ?p2))
          (sha256_rest (m @ ?p1 @ ?p2) @ be_bytes 8 ?bits)))"
      using True n len r1 p1
      by (simp add: zf_sha256_finish_def Let_def store_be64_bytes) (simp add: sha256_ctx_def)
    then show ?thesis using pad [OF p] len by (simp add: sha256_reference_def)
  next
    case False
    let ?p = "0x80 # replicate (55 - ?n) 0"
    have p: "take (56 - ?n) (0x80 # replicate 63 0) = (?p :: bytes)"
      using False by (cases "56 - ?n") (auto simp: min_def)
    have q: "?p = 0x80 # replicate ((119 - ?n) mod 64) (0 :: byte)"
    proof -
      have "119 - ?n = 55 - ?n + 64" using False by simp
      also have "\<dots> mod 64 = 55 - ?n" by (simp only: mod_add_self2) simp
      finally show ?thesis by simp
    qed
    have len: "length (sha256_rest (m @ ?p)) = 56"
    proof -
      have "length (m @ ?p) = length m + (56 - ?n)" using False by simp
      also have "\<dots> = 56 + 64 * (length m div 64)"
        using False mult_div_mod_eq [of 64 "length m"] by arith
      finally show ?thesis using length_sha256_rest [of "m @ ?p"] by simp
    qed
    have "zf_sha256_finish (sha256_ctx m) = concat (map zf_sha256_store_be32
        (zf_sha256_transform (sha256_blocks (sha_state zf_sha256_init) (m @ ?p))
          (sha256_rest (m @ ?p) @ be_bytes 8 ?bits)))"
      using False n len p
      by (simp add: zf_sha256_finish_def Let_def store_be64_bytes) (simp add: sha256_ctx_def)
    then show ?thesis using pad [OF q] len by (simp add: sha256_reference_def)
  qed
qed

lemma sha256_correct: "zf_crypto_sha256 m = sha256_reference m"
  by (simp add: zf_crypto_sha256_def sha256_finish_ctx)

lemma sha256_concat_correct: "zf_crypto_sha256_concat a b = zf_crypto_sha256 (a @ b)"
  by (simp add: zf_crypto_sha256_concat_def zf_crypto_sha256_def sha256_init_ctx Let_def)

lemma length_sha256_transform [simp]: "length (zf_sha256_transform st blk) = 8"
  by (simp add: zf_sha256_transform_def split: prod.split)

lemma length_sha256 [simp]: "length (zf_crypto_sha256 m) = 32"
proof -
  have "length (concat (map zf_sha256_store_be32 st)) = 4 * length st" for st
    by (induction st) (simp_all add: zf_sha256_store_be32_def)
  then show ?thesis
    by (simp add: zf_crypto_sha256_def zf_sha256_finish_def Let_def)
qed

section \<open>HMAC\<close>

definition hmac_key_block :: "bytes \<Rightarrow> bytes" where
  "hmac_key_block key =
    (let k = (if length key > 64 then zf_crypto_sha256 key else key)
     in k @ replicate (64 - length k) 0)"

definition hmac_reference :: "bytes \<Rightarrow> bytes \<Rightarrow> bytes" where
  "hmac_reference key m =
    zf_crypto_sha256 (map (\<lambda>k. k XOR 0x5C) (hmac_key_block key) @
      zf_crypto_sha256 (map (\<lambda>k. k XOR 0x36) (hmac_key_block key) @ m))"

lemma hmac_parts_correct: "zf_hmac_sha256_parts key a b = hmac_reference key (a @ b)"
proof -
  have key: "(if length key > 64 then zf_sha256_finish (zf_sha256_update zf_sha256_init key) @ replicate 32 0
      else key @ replicate (64 - length key) 0) = hmac_key_block key"
    using length_sha256 [of key]
    by (simp add: hmac_key_block_def zf_crypto_sha256_def del: length_sha256 sha256_update_init)
  show ?thesis
    unfolding zf_hmac_sha256_parts_def key Let_def
    by (auto simp: hmac_reference_def zf_crypto_sha256_def)
qed

lemma length_hmac [simp]: "length (zf_hmac_sha256_parts key a b) = 32"
  by (simp add: hmac_parts_correct hmac_reference_def)

lemma constant_time_equal_iff:
  "length a = length b \<Longrightarrow> zf_crypto_constant_time_equal a b \<longleftrightarrow> a = b"
proof -
  have or0: "(x OR y = 0) \<longleftrightarrow> x = 0 \<and> y = 0" for x y :: byte
    by (rule or_eq_0_iff)
  have xor0: "x XOR y = 0 \<longleftrightarrow> x = y" for x y :: byte
    by (metis xor.assoc xor.left_neutral xor_self_eq)
  have acc: "foldl (\<lambda>diff (l, r). diff OR (l XOR r)) d (zip a b) = 0 \<longleftrightarrow> d = 0 \<and> a = b"
    if "length a = length b" for d :: byte and a b :: bytes
    using that
  proof (induction a b arbitrary: d rule: list_induct2)
    case (Cons x xs y ys)
    then show ?case by (simp add: or0 xor0 conj_assoc)
  qed simp
  show "length a = length b \<Longrightarrow> ?thesis"
    by (simp add: zf_crypto_constant_time_equal_def acc)
qed

end
