(* ===== verification/Ctap_Parse.thy ===== *)
theory Ctap_Parse
  imports Cbor_Items Sha256_Exact
begin

text \<open>
  The request parsers: \<^verbatim>\<open>ctap/parse/shared.c\<close>, \<^verbatim>\<open>ctap/parse/make_credential.c\<close>,
  \<^verbatim>\<open>ctap/parse/get_assertion.c\<close>, the input half of \<^verbatim>\<open>ctap/extensions/hmac_secret.c\<close>,
  \<^verbatim>\<open>ctap/extensions/cred_protect.c\<close> and \<^verbatim>\<open>pin/client_pin/parse.c\<close>. A fixed array with a length
  field is the list of its used bytes, a C string the list of its bytes before the terminator. A
  parser returns the status it fails with, or the filled request and the cursor behind it; a request
  that failed to parse is never looked at. The build modelled has packed attestation enabled.
\<close>

section \<open>Requests\<close>

record ZfCredentialDescriptorList =
  dl_entries :: "bytes list"
  dl_capacity :: nat

datatype ZfAttestationMode = ZfAttestationModePacked | ZfAttestationModeNone

record ZfMakeCredentialRequest =
  mc_client_data_hash :: bytes
  mc_has_client_data_hash :: bool
  mc_rp_id :: bytes
  mc_user_name :: bytes
  mc_user_display_name :: bytes
  mc_user_id :: bytes
  mc_exclude_list :: ZfCredentialDescriptorList
  mc_up :: bool
  mc_uv :: bool
  mc_rk :: bool
  mc_has_up :: bool
  mc_has_uv :: bool
  mc_has_rk :: bool
  mc_has_user_id :: bool
  mc_has_pubkey_cred_params :: bool
  mc_es256_supported :: bool
  mc_has_cred_protect :: bool
  mc_cred_protect :: byte
  mc_pin_auth :: bytes
  mc_pin_protocol :: u64
  mc_has_pin_auth :: bool
  mc_has_pin_protocol :: bool
  mc_hmac_secret_requested :: bool
  mc_has_attestation_format_preference :: bool
  mc_preferred_attestation_mode :: ZfAttestationMode

record ZfAssertionRequestData =
  ar_client_data_hash :: bytes
  ar_has_client_data_hash :: bool
  ar_rp_id :: bytes
  ar_has_hmac_secret :: bool
  ar_hmac_secret_has_pin_protocol :: bool
  ar_hmac_secret_pin_protocol :: u64
  ar_hmac_secret_platform_x :: bytes
  ar_hmac_secret_platform_y :: bytes
  ar_hmac_secret_salt_enc :: bytes
  ar_hmac_secret_salt_auth :: bytes

record ZfGetAssertionRequest =
  ga_assertion :: ZfAssertionRequestData
  ga_allow_list :: ZfCredentialDescriptorList
  ga_up :: bool
  ga_has_up :: bool
  ga_uv :: bool
  ga_has_uv :: bool
  ga_rk :: bool
  ga_has_rk :: bool
  ga_pin_auth :: bytes
  ga_pin_protocol :: u64
  ga_has_pin_auth :: bool
  ga_has_pin_protocol :: bool

record ZfClientPinRequest =
  cp_pin_protocol :: u64
  cp_subcommand :: u64
  cp_has_pin_protocol :: bool
  cp_has_subcommand :: bool
  cp_has_key_agreement :: bool
  cp_platform_x :: bytes
  cp_platform_y :: bytes
  cp_pin_auth :: bytes
  cp_has_pin_auth :: bool
  cp_new_pin_enc :: bytes
  cp_has_new_pin_enc :: bool
  cp_pin_hash_enc :: bytes
  cp_has_pin_hash_enc :: bool
  cp_permissions :: u64
  cp_has_permissions :: bool
  cp_rp_id :: bytes
  cp_has_rp_id :: bool

definition ZF_MAX_RP_ID_LEN :: nat where "ZF_MAX_RP_ID_LEN = 256"
definition ZF_MAX_USER_ID_LEN :: nat where "ZF_MAX_USER_ID_LEN = 64"
definition ZF_MAX_USER_NAME_LEN :: nat where "ZF_MAX_USER_NAME_LEN = 65"
definition ZF_MAX_DISPLAY_NAME_LEN :: nat where "ZF_MAX_DISPLAY_NAME_LEN = 65"
definition ZF_CLIENT_DATA_HASH_LEN :: nat where "ZF_CLIENT_DATA_HASH_LEN = 32"
definition ZF_PUBLIC_KEY_LEN :: nat where "ZF_PUBLIC_KEY_LEN = 32"
definition ZF_MAX_CREDENTIALS :: nat where "ZF_MAX_CREDENTIALS = 32"
definition ZF_COUNTER_RESERVATION_WINDOW :: u32 where "ZF_COUNTER_RESERVATION_WINDOW = 32"
definition ZF_PIN_AUTH_MAX_LEN :: nat where "ZF_PIN_AUTH_MAX_LEN = 32"
definition ZF_MAX_DESCRIPTOR_ID_LEN :: nat where "ZF_MAX_DESCRIPTOR_ID_LEN = 1023"
definition ZF_CREDENTIAL_ID_LEN :: nat where "ZF_CREDENTIAL_ID_LEN = 32"
definition ZF_HMAC_SECRET_ENC_MAX_LEN :: nat where "ZF_HMAC_SECRET_ENC_MAX_LEN = 80"
definition ZF_HMAC_SECRET_AUTH_MAX_LEN :: nat where "ZF_HMAC_SECRET_AUTH_MAX_LEN = 32"
definition ZF_PIN_ENCRYPTED_NEW_PIN_MAX_LEN :: nat where "ZF_PIN_ENCRYPTED_NEW_PIN_MAX_LEN = 80"
definition ZF_PIN_ENCRYPTED_HASH_MAX_LEN :: nat where "ZF_PIN_ENCRYPTED_HASH_MAX_LEN = 32"
definition ZF_PIN_PROTOCOL_V1 :: u64 where "ZF_PIN_PROTOCOL_V1 = 1"
definition ZF_PIN_PROTOCOL_V2 :: u64 where "ZF_PIN_PROTOCOL_V2 = 2"

lemmas size_limits = ZF_MAX_RP_ID_LEN_def ZF_MAX_USER_ID_LEN_def ZF_MAX_USER_NAME_LEN_def
  ZF_MAX_DISPLAY_NAME_LEN_def ZF_CLIENT_DATA_HASH_LEN_def ZF_PUBLIC_KEY_LEN_def
  ZF_PIN_AUTH_MAX_LEN_def ZF_MAX_DESCRIPTOR_ID_LEN_def ZF_CREDENTIAL_ID_LEN_def
  ZF_HMAC_SECRET_ENC_MAX_LEN_def ZF_HMAC_SECRET_AUTH_MAX_LEN_def
  ZF_PIN_ENCRYPTED_NEW_PIN_MAX_LEN_def ZF_PIN_ENCRYPTED_HASH_MAX_LEN_def

section \<open>Control flow of the parsers\<close>

text \<open>
  A failed read is \<open>ZF_CTAP_ERR_INVALID_CBOR\<close>. \<open>for_items\<close> is the counted loop every map and
  array parser runs: the body gets the cursor and the loop-carried variables.
\<close>

definition cbor_or :: "'a option \<Rightarrow> ('a \<Rightarrow> 'b ctap_result) \<Rightarrow> 'b ctap_result" where
  "cbor_or r f = (case r of None \<Rightarrow> Inl ZF_CTAP_ERR_INVALID_CBOR | Some x \<Rightarrow> f x)"

definition then_status :: "'a ctap_result \<Rightarrow> ('a \<Rightarrow> 'b ctap_result) \<Rightarrow> 'b ctap_result" where
  "then_status r f = (case r of Inl e \<Rightarrow> Inl e | Inr x \<Rightarrow> f x)"

fun for_items ::
  "nat \<Rightarrow> (cursor \<Rightarrow> 's \<Rightarrow> ('s \<times> cursor) ctap_result) \<Rightarrow> cursor \<Rightarrow> 's \<Rightarrow> ('s \<times> cursor) ctap_result"
where
  "for_items 0 body c s = Inr (s, c)"
| "for_items (Suc n) body c s = then_status (body c s) (\<lambda>(s', c'). for_items n body c' s')"

section \<open>Shared helpers\<close>

datatype ZfCtapTextKey =
    ZfCtapTextKeyUnknown
  | ZfCtapTextKeyAlg
  | ZfCtapTextKeyCredProtect
  | ZfCtapTextKeyDisplayName
  | ZfCtapTextKeyHmacSecret
  | ZfCtapTextKeyIcon
  | ZfCtapTextKeyId
  | ZfCtapTextKeyName
  | ZfCtapTextKeyPublicKey
  | ZfCtapTextKeyRk
  | ZfCtapTextKeyType
  | ZfCtapTextKeyUp
  | ZfCtapTextKeyUv

definition ascii :: "string \<Rightarrow> bytes" where
  "ascii s = map of_char s"

definition text_keys :: "(bytes \<times> ZfCtapTextKey) list" where
  "text_keys =
    [(ascii ''alg'', ZfCtapTextKeyAlg),
     (ascii ''credProtect'', ZfCtapTextKeyCredProtect),
     (ascii ''displayName'', ZfCtapTextKeyDisplayName),
     (ascii ''hmac-secret'', ZfCtapTextKeyHmacSecret),
     (ascii ''icon'', ZfCtapTextKeyIcon),
     (ascii ''id'', ZfCtapTextKeyId),
     (ascii ''name'', ZfCtapTextKeyName),
     (ascii ''public-key'', ZfCtapTextKeyPublicKey),
     (ascii ''rk'', ZfCtapTextKeyRk),
     (ascii ''type'', ZfCtapTextKeyType),
     (ascii ''up'', ZfCtapTextKeyUp),
     (ascii ''uv'', ZfCtapTextKeyUv)]"

definition zf_ctap_classify_text_key :: "bytes \<Rightarrow> ZfCtapTextKey" where
  "zf_ctap_classify_text_key text =
    (case map_of text_keys text of Some k \<Rightarrow> k | None \<Rightarrow> ZfCtapTextKeyUnknown)"

text \<open>\<open>None\<close> when a key below 16 was seen before; keys from 16 on are not tracked.\<close>

definition zf_ctap_mark_seen_key :: "u16 \<Rightarrow> u64 \<Rightarrow> u16 option" where
  "zf_ctap_mark_seen_key seen_keys key =
    (if key \<ge> 16 then Some seen_keys
     else let mask = push_bit (unat key) 1
          in if seen_keys AND mask \<noteq> 0 then None else Some (seen_keys OR mask))"

definition zf_ctap_cbor_read_text_copy :: "nat \<Rightarrow> bytes reader" where
  "zf_ctap_cbor_read_text_copy out_size cursor =
    (case zf_cbor_read_text_ptr cursor of
       None \<Rightarrow> None
     | Some (text, c) \<Rightarrow>
        if length text \<ge> out_size \<or> 0 \<in> set text then None else Some (text, c))"

definition zf_ctap_cbor_read_text_discard :: "cursor \<Rightarrow> cursor option" where
  "zf_ctap_cbor_read_text_discard cursor =
    (case zf_cbor_read_text_ptr cursor of
       None \<Rightarrow> None
     | Some (text, c) \<Rightarrow> if 0 \<in> set text then None else Some c)"

definition zf_ctap_cbor_read_bytes_copy :: "nat \<Rightarrow> bytes reader" where
  "zf_ctap_cbor_read_bytes_copy out_capacity cursor =
    (case zf_cbor_read_bytes_ptr cursor of
       None \<Rightarrow> None
     | Some (data, c) \<Rightarrow> if length data > out_capacity then None else Some (data, c))"

section \<open>COSE key agreement key\<close>

record cose_state =
  saw_kty :: bool
  saw_alg :: bool
  saw_crv :: bool
  cose_x :: "bytes option"
  cose_y :: "bytes option"

text \<open>One pair of the key map; \<open>cose_x\<close> is \<open>Some\<close> exactly when \<open>saw_x\<close> is set.\<close>

definition cose_pair :: "cursor \<Rightarrow> cose_state \<Rightarrow> (cose_state \<times> cursor) ctap_result" where
  "cose_pair c s =
    cbor_or (zf_cbor_read_int c) (\<lambda>(key, c).
      if key = 1 then
        (if saw_kty s then Inl ZF_CTAP_ERR_INVALID_CBOR
         else cbor_or (zf_cbor_read_int c) (\<lambda>(kty, c).
           if kty \<noteq> 2 then Inl ZF_CTAP_ERR_INVALID_CBOR else Inr (s\<lparr>saw_kty := True\<rparr>, c)))
      else if key = 3 then
        (if saw_alg s then Inl ZF_CTAP_ERR_INVALID_CBOR
         else cbor_or (zf_cbor_read_int c) (\<lambda>(alg, c).
           if alg \<noteq> - 25 then Inl ZF_CTAP_ERR_INVALID_CBOR else Inr (s\<lparr>saw_alg := True\<rparr>, c)))
      else if key = - 1 then
        (if saw_crv s then Inl ZF_CTAP_ERR_INVALID_CBOR
         else cbor_or (zf_cbor_read_int c) (\<lambda>(crv, c).
           if crv \<noteq> 1 then Inl ZF_CTAP_ERR_INVALID_CBOR else Inr (s\<lparr>saw_crv := True\<rparr>, c)))
      else if key = - 2 then
        (if cose_x s \<noteq> None then Inl ZF_CTAP_ERR_INVALID_CBOR
         else cbor_or (zf_ctap_cbor_read_bytes_copy ZF_PUBLIC_KEY_LEN c) (\<lambda>(x, c).
           if length x \<noteq> ZF_PUBLIC_KEY_LEN then Inl ZF_CTAP_ERR_INVALID_CBOR
           else Inr (s\<lparr>cose_x := Some x\<rparr>, c)))
      else if key = - 3 then
        (if cose_y s \<noteq> None then Inl ZF_CTAP_ERR_INVALID_CBOR
         else cbor_or (zf_ctap_cbor_read_bytes_copy ZF_PUBLIC_KEY_LEN c) (\<lambda>(y, c).
           if length y \<noteq> ZF_PUBLIC_KEY_LEN then Inl ZF_CTAP_ERR_INVALID_CBOR
           else Inr (s\<lparr>cose_y := Some y\<rparr>, c)))
      else Inl ZF_CTAP_ERR_INVALID_CBOR)"

definition zf_ctap_parse_cose_p256_key_agreement :: "(bytes \<times> bytes) reader" where
  "zf_ctap_parse_cose_p256_key_agreement cursor =
    (case zf_cbor_read_map_start cursor of
       None \<Rightarrow> None
     | Some (pairs, c) \<Rightarrow>
        (case for_items pairs cose_pair c
            \<lparr>saw_kty = False, saw_alg = False, saw_crv = False, cose_x = None, cose_y = None\<rparr> of
           Inl e \<Rightarrow> None
         | Inr (s, c) \<Rightarrow>
            (case (cose_x s, cose_y s) of
               (Some x, Some y) \<Rightarrow>
                 if saw_kty s \<and> saw_alg s \<and> saw_crv s then Some ((x, y), c) else None
             | _ \<Rightarrow> None)))"

section \<open>Options, extensions, descriptors\<close>

text \<open>The three options as they are passed by reference: the value and whether it was given.\<close>

record option_vars =
  opt_up :: bool
  opt_has_up :: bool
  opt_uv :: bool
  opt_has_uv :: bool
  opt_rk :: bool
  opt_has_rk :: bool

definition options_pair ::
  "cursor \<Rightarrow> (bool \<times> bool \<times> bool) \<times> option_vars \<Rightarrow>
    (((bool \<times> bool \<times> bool) \<times> option_vars) \<times> cursor) ctap_result" where
  "options_pair c = (\<lambda>((saw_up, saw_uv, saw_rk), o').
    cbor_or (zf_cbor_read_text_ptr c) (\<lambda>(key, c).
    cbor_or (zf_cbor_read_bool c) (\<lambda>(v, c).
    (case zf_ctap_classify_text_key key of
       ZfCtapTextKeyUp \<Rightarrow>
         if saw_up then Inl ZF_CTAP_ERR_INVALID_CBOR
         else Inr (((True, saw_uv, saw_rk), o'\<lparr>opt_up := v, opt_has_up := True\<rparr>), c)
     | ZfCtapTextKeyUv \<Rightarrow>
         if saw_uv then Inl ZF_CTAP_ERR_INVALID_CBOR
         else Inr (((saw_up, True, saw_rk), o'\<lparr>opt_uv := v, opt_has_uv := True\<rparr>), c)
     | ZfCtapTextKeyRk \<Rightarrow>
         if saw_rk then Inl ZF_CTAP_ERR_INVALID_CBOR
         else Inr (((saw_up, saw_uv, True), o'\<lparr>opt_rk := v, opt_has_rk := True\<rparr>), c)
     | _ \<Rightarrow> Inr (((saw_up, saw_uv, saw_rk), o'), c)))))"

definition zf_ctap_parse_options_map ::
  "cursor \<Rightarrow> option_vars \<Rightarrow> (option_vars \<times> cursor) ctap_result" where
  "zf_ctap_parse_options_map cursor o' =
    cbor_or (zf_cbor_read_map_start cursor) (\<lambda>(pairs, c).
    then_status (for_items pairs options_pair c ((False, False, False), o')) (\<lambda>((_, o'), c).
    Inr (o', c)))"

definition zf_ctap_cred_protect_effective :: "byte \<Rightarrow> byte" where
  "zf_ctap_cred_protect_effective cred_protect = (if cred_protect = 0 then 1 else cred_protect)"

definition zf_ctap_cred_protect_value_is_valid :: "u64 \<Rightarrow> bool" where
  "zf_ctap_cred_protect_value_is_valid cred_protect \<longleftrightarrow> cred_protect \<ge> 1 \<and> cred_protect \<le> 3"

definition zf_ctap_cred_protect_allows_assertion :: "byte \<Rightarrow> bool \<Rightarrow> bool \<Rightarrow> bool" where
  "zf_ctap_cred_protect_allows_assertion cred_protect uv_verified uses_allow_list =
    (let level = zf_ctap_cred_protect_effective cred_protect in
     if level = 1 then True
     else if level = 2 then uv_verified \<or> uses_allow_list
     else if level = 3 then uv_verified
     else False)"

definition zf_ctap_hmac_secret_parse_make_credential_request :: "bool reader" where
  "zf_ctap_hmac_secret_parse_make_credential_request cursor = zf_cbor_read_bool cursor"

text \<open>The extension outputs: \<open>has_cred_protect\<close>, \<open>cred_protect\<close>, \<open>hmac_secret_requested\<close>.\<close>

definition mc_extension_pair ::
  "cursor \<Rightarrow> (bool \<times> bool) \<times> (bool \<times> byte \<times> bool) \<Rightarrow>
    (((bool \<times> bool) \<times> (bool \<times> byte \<times> bool)) \<times> cursor) ctap_result" where
  "mc_extension_pair c = (\<lambda>((saw_cred_protect, saw_hmac_secret), (has_cp, cp, hmac)).
    cbor_or (zf_cbor_read_text_ptr c) (\<lambda>(key, c).
    (case zf_ctap_classify_text_key key of
       ZfCtapTextKeyCredProtect \<Rightarrow>
         if saw_cred_protect then Inl ZF_CTAP_ERR_INVALID_CBOR
         else cbor_or (zf_cbor_read_uint c) (\<lambda>(raw, c).
           if \<not> zf_ctap_cred_protect_value_is_valid raw then Inl ZF_CTAP_ERR_INVALID_OPTION
           else Inr (((True, saw_hmac_secret), (True, ucast raw, hmac)), c))
     | ZfCtapTextKeyHmacSecret \<Rightarrow>
         if saw_hmac_secret then Inl ZF_CTAP_ERR_INVALID_CBOR
         else cbor_or (zf_ctap_hmac_secret_parse_make_credential_request c) (\<lambda>(v, c).
           Inr (((saw_cred_protect, True), (has_cp, cp, v)), c))
     | _ \<Rightarrow> cbor_or (zf_cbor_skip c) (\<lambda>c.
           Inr (((saw_cred_protect, saw_hmac_secret), (has_cp, cp, hmac)), c)))))"

definition zf_ctap_parse_make_credential_extensions_map ::
  "cursor \<Rightarrow> bool \<times> byte \<times> bool \<Rightarrow> ((bool \<times> byte \<times> bool) \<times> cursor) ctap_result" where
  "zf_ctap_parse_make_credential_extensions_map cursor vars =
    cbor_or (zf_cbor_read_map_start cursor) (\<lambda>(pairs, c).
    then_status (for_items pairs mc_extension_pair c ((False, False), vars)) (\<lambda>((_, vars), c).
    Inr (vars, c)))"

text \<open>
  A credential descriptor: the digest of its id (\<open>Some\<close> once \<open>saw_id\<close>) and its type
  (\<open>Some public_key\<close> once \<open>saw_type\<close>).
\<close>

definition descriptor_pair ::
  "cursor \<Rightarrow> bytes option \<times> bool option \<Rightarrow> ((bytes option \<times> bool option) \<times> cursor) ctap_result" where
  "descriptor_pair c = (\<lambda>(digest, public_key).
    cbor_or (zf_cbor_read_text_ptr c) (\<lambda>(key, c).
    (case zf_ctap_classify_text_key key of
       ZfCtapTextKeyId \<Rightarrow>
         if digest \<noteq> None then Inl ZF_CTAP_ERR_INVALID_CBOR
         else cbor_or (zf_cbor_read_bytes_ptr c) (\<lambda>(ident, c).
           if length ident = 0 \<or> length ident > ZF_MAX_DESCRIPTOR_ID_LEN
           then Inl ZF_CTAP_ERR_INVALID_CBOR
           else Inr ((Some (zf_crypto_sha256 ident), public_key), c))
     | ZfCtapTextKeyType \<Rightarrow>
         if public_key \<noteq> None then Inl ZF_CTAP_ERR_INVALID_CBOR
         else cbor_or (zf_cbor_read_text_ptr c) (\<lambda>(type, c).
           Inr ((digest, Some (zf_ctap_classify_text_key type = ZfCtapTextKeyPublicKey)), c))
     | _ \<Rightarrow> cbor_or (zf_cbor_skip c) (\<lambda>c. Inr ((digest, public_key), c)))))"

definition zf_ctap_parse_credential_descriptor :: "(bytes \<times> bool) reader" where
  "zf_ctap_parse_credential_descriptor cursor =
    (case zf_cbor_read_map_start cursor of
       None \<Rightarrow> None
     | Some (pairs, c) \<Rightarrow>
        (case for_items pairs descriptor_pair c (None, None) of
           Inr ((Some digest, Some public_key), c) \<Rightarrow> Some ((digest, public_key), c)
         | _ \<Rightarrow> None))"

definition cred_param_pair ::
  "cursor \<Rightarrow> int option \<times> bool option \<Rightarrow> ((int option \<times> bool option) \<times> cursor) ctap_result" where
  "cred_param_pair c = (\<lambda>(alg, public_key).
    cbor_or (zf_cbor_read_text_ptr c) (\<lambda>(key, c).
    (case zf_ctap_classify_text_key key of
       ZfCtapTextKeyAlg \<Rightarrow>
         if alg \<noteq> None then Inl ZF_CTAP_ERR_INVALID_CBOR
         else cbor_or (zf_cbor_read_int c) (\<lambda>(v, c). Inr ((Some v, public_key), c))
     | ZfCtapTextKeyType \<Rightarrow>
         if public_key \<noteq> None then Inl ZF_CTAP_ERR_INVALID_CBOR
         else cbor_or (zf_cbor_read_text_ptr c) (\<lambda>(v, c).
           Inr ((alg, Some (zf_ctap_classify_text_key v = ZfCtapTextKeyPublicKey)), c))
     | _ \<Rightarrow> cbor_or (zf_cbor_skip c) (\<lambda>c. Inr ((alg, public_key), c)))))"

definition cred_param_item :: "cursor \<Rightarrow> bool \<Rightarrow> (bool \<times> cursor) ctap_result" where
  "cred_param_item c es256_supported =
    cbor_or (zf_cbor_read_map_start c) (\<lambda>(pairs, c).
    then_status (for_items pairs cred_param_pair c (None, None)) (\<lambda>((alg, public_key), c).
    (case (alg, public_key) of
       (Some a, Some pk) \<Rightarrow> Inr (es256_supported \<or> (pk \<and> a = - 7), c)
     | _ \<Rightarrow> Inl ZF_CTAP_ERR_INVALID_CBOR)))"

definition zf_ctap_parse_pubkey_cred_params :: "cursor \<Rightarrow> bool \<Rightarrow> (bool \<times> cursor) ctap_result" where
  "zf_ctap_parse_pubkey_cred_params cursor es256_supported =
    cbor_or (zf_cbor_read_array_start cursor) (\<lambda>(items, c).
    for_items items cred_param_item c es256_supported)"

definition descriptor_item ::
  "cursor \<Rightarrow> ZfCredentialDescriptorList \<Rightarrow> (ZfCredentialDescriptorList \<times> cursor) ctap_result" where
  "descriptor_item c list =
    cbor_or (zf_ctap_parse_credential_descriptor c) (\<lambda>((digest, include_entry), c).
      if \<not> include_entry then Inr (list, c)
      else if length (dl_entries list) \<ge> dl_capacity list then Inl ZF_CTAP_ERR_INVALID_PARAMETER
      else if digest \<in> set (dl_entries list) then Inl ZF_CTAP_ERR_INVALID_PARAMETER
      else Inr (list\<lparr>dl_entries := dl_entries list @ [digest]\<rparr>, c))"

definition zf_ctap_parse_descriptor_array ::
  "cursor \<Rightarrow> ZfCredentialDescriptorList \<Rightarrow> (ZfCredentialDescriptorList \<times> cursor) ctap_result" where
  "zf_ctap_parse_descriptor_array cursor list =
    cbor_or (zf_cbor_read_array_start cursor) (\<lambda>(items, c).
    for_items items descriptor_item c (list\<lparr>dl_entries := []\<rparr>))"

definition zf_ctap_descriptor_list_contains_id :: "ZfCredentialDescriptorList \<Rightarrow> bytes \<Rightarrow> bool" where
  "zf_ctap_descriptor_list_contains_id list credential_id =
    (if dl_entries list = [] \<or> length credential_id = 0 \<or>
        length credential_id > ZF_CREDENTIAL_ID_LEN
     then False
     else zf_crypto_sha256 credential_id \<in> set (dl_entries list))"

section \<open>The numbered request maps\<close>

text \<open>The loop head shared by the request maps: read the key, refuse a repeated one.\<close>

definition keyed_pair ::
  "(u64 \<Rightarrow> cursor \<Rightarrow> 'r \<Rightarrow> ('r \<times> cursor) ctap_result) \<Rightarrow>
    cursor \<Rightarrow> u16 \<times> 'r \<Rightarrow> ((u16 \<times> 'r) \<times> cursor) ctap_result" where
  "keyed_pair field c = (\<lambda>(seen_keys, req).
    cbor_or (zf_cbor_read_uint c) (\<lambda>(key, c).
    cbor_or (zf_ctap_mark_seen_key seen_keys key) (\<lambda>seen_keys.
    then_status (field key c req) (\<lambda>(req, c). Inr ((seen_keys, req), c)))))"

definition skip_field :: "cursor \<Rightarrow> 'r \<Rightarrow> ('r \<times> cursor) ctap_result" where
  "skip_field c req = cbor_or (zf_cbor_skip c) (\<lambda>c. Inr (req, c))"

section \<open>makeCredential\<close>

definition zf_parse_make_credential_client_data_hash ::
  "cursor \<Rightarrow> ZfMakeCredentialRequest \<Rightarrow> (ZfMakeCredentialRequest \<times> cursor) ctap_result" where
  "zf_parse_make_credential_client_data_hash c req =
    cbor_or (zf_ctap_cbor_read_bytes_copy ZF_CLIENT_DATA_HASH_LEN c) (\<lambda>(hash, c).
      if length hash \<noteq> ZF_CLIENT_DATA_HASH_LEN then Inl ZF_CTAP_ERR_INVALID_CBOR
      else Inr (req\<lparr>mc_client_data_hash := hash, mc_has_client_data_hash := True\<rparr>, c))"

definition rp_pair ::
  "cursor \<Rightarrow> (bool \<times> bool \<times> bool) \<times> ZfMakeCredentialRequest \<Rightarrow>
    (((bool \<times> bool \<times> bool) \<times> ZfMakeCredentialRequest) \<times> cursor) ctap_result" where
  "rp_pair c = (\<lambda>((saw_id, saw_name, saw_icon), req).
    cbor_or (zf_cbor_read_text_ptr c) (\<lambda>(key, c).
    (case zf_ctap_classify_text_key key of
       ZfCtapTextKeyName \<Rightarrow>
         if saw_name then Inl ZF_CTAP_ERR_INVALID_CBOR
         else cbor_or (zf_ctap_cbor_read_text_discard c) (\<lambda>c.
           Inr (((saw_id, True, saw_icon), req), c))
     | ZfCtapTextKeyIcon \<Rightarrow>
         if saw_icon then Inl ZF_CTAP_ERR_INVALID_CBOR
         else cbor_or (zf_ctap_cbor_read_text_discard c) (\<lambda>c.
           Inr (((saw_id, saw_name, True), req), c))
     | ZfCtapTextKeyId \<Rightarrow>
         if saw_id then Inl ZF_CTAP_ERR_INVALID_CBOR
         else cbor_or (zf_ctap_cbor_read_text_copy ZF_MAX_RP_ID_LEN c) (\<lambda>(ident, c).
           Inr (((True, saw_name, saw_icon), req\<lparr>mc_rp_id := ident\<rparr>), c))
     | _ \<Rightarrow> cbor_or (zf_cbor_skip c) (\<lambda>c. Inr (((saw_id, saw_name, saw_icon), req), c)))))"

definition zf_parse_make_credential_rp ::
  "cursor \<Rightarrow> ZfMakeCredentialRequest \<Rightarrow> (ZfMakeCredentialRequest \<times> cursor) ctap_result" where
  "zf_parse_make_credential_rp c req =
    cbor_or (zf_cbor_read_map_start c) (\<lambda>(pairs, c).
    then_status (for_items pairs rp_pair c ((False, False, False), req)) (\<lambda>((_, req), c).
    Inr (req, c)))"

definition user_pair ::
  "cursor \<Rightarrow> (bool \<times> bool \<times> bool \<times> bool) \<times> ZfMakeCredentialRequest \<Rightarrow>
    (((bool \<times> bool \<times> bool \<times> bool) \<times> ZfMakeCredentialRequest) \<times> cursor) ctap_result" where
  "user_pair c = (\<lambda>((saw_id, saw_name, saw_display_name, saw_icon), req).
    cbor_or (zf_cbor_read_text_ptr c) (\<lambda>(key, c).
    (case zf_ctap_classify_text_key key of
       ZfCtapTextKeyId \<Rightarrow>
         if saw_id then Inl ZF_CTAP_ERR_INVALID_CBOR
         else cbor_or (zf_ctap_cbor_read_bytes_copy ZF_MAX_USER_ID_LEN c) (\<lambda>(ident, c).
           Inr (((True, saw_name, saw_display_name, saw_icon),
                 req\<lparr>mc_user_id := ident, mc_has_user_id := True\<rparr>), c))
     | ZfCtapTextKeyName \<Rightarrow>
         if saw_name then Inl ZF_CTAP_ERR_INVALID_CBOR
         else cbor_or (zf_ctap_cbor_read_text_copy ZF_MAX_USER_NAME_LEN c) (\<lambda>(name, c).
           Inr (((saw_id, True, saw_display_name, saw_icon), req\<lparr>mc_user_name := name\<rparr>), c))
     | ZfCtapTextKeyDisplayName \<Rightarrow>
         if saw_display_name then Inl ZF_CTAP_ERR_INVALID_CBOR
         else cbor_or (zf_ctap_cbor_read_text_copy ZF_MAX_DISPLAY_NAME_LEN c) (\<lambda>(name, c).
           Inr (((saw_id, saw_name, True, saw_icon), req\<lparr>mc_user_display_name := name\<rparr>), c))
     | ZfCtapTextKeyIcon \<Rightarrow>
         if saw_icon then Inl ZF_CTAP_ERR_INVALID_CBOR
         else cbor_or (zf_ctap_cbor_read_text_discard c) (\<lambda>c.
           Inr (((saw_id, saw_name, saw_display_name, True), req), c))
     | _ \<Rightarrow> cbor_or (zf_cbor_skip c) (\<lambda>c.
           Inr (((saw_id, saw_name, saw_display_name, saw_icon), req), c)))))"

definition zf_parse_make_credential_user ::
  "cursor \<Rightarrow> ZfMakeCredentialRequest \<Rightarrow> (ZfMakeCredentialRequest \<times> cursor) ctap_result" where
  "zf_parse_make_credential_user c req =
    cbor_or (zf_cbor_read_map_start c) (\<lambda>(pairs, c).
    then_status (for_items pairs user_pair c ((False, False, False, False), req)) (\<lambda>((_, req), c).
    Inr (req, c)))"

definition zf_parse_make_credential_pubkey_cred_params ::
  "cursor \<Rightarrow> ZfMakeCredentialRequest \<Rightarrow> (ZfMakeCredentialRequest \<times> cursor) ctap_result" where
  "zf_parse_make_credential_pubkey_cred_params c req =
    then_status (zf_ctap_parse_pubkey_cred_params c (mc_es256_supported req)) (\<lambda>(es256, c).
    Inr (req\<lparr>mc_has_pubkey_cred_params := True, mc_es256_supported := es256\<rparr>, c))"

definition zf_parse_make_credential_exclude_list ::
  "cursor \<Rightarrow> ZfMakeCredentialRequest \<Rightarrow> (ZfMakeCredentialRequest \<times> cursor) ctap_result" where
  "zf_parse_make_credential_exclude_list c req =
    then_status (zf_ctap_parse_descriptor_array c (mc_exclude_list req)) (\<lambda>(list, c).
    Inr (req\<lparr>mc_exclude_list := list\<rparr>, c))"

definition zf_parse_make_credential_extensions ::
  "cursor \<Rightarrow> ZfMakeCredentialRequest \<Rightarrow> (ZfMakeCredentialRequest \<times> cursor) ctap_result" where
  "zf_parse_make_credential_extensions c req =
    then_status (zf_ctap_parse_make_credential_extensions_map c
      (mc_has_cred_protect req, mc_cred_protect req, mc_hmac_secret_requested req))
      (\<lambda>((has_cp, cp, hmac), c).
        Inr (req\<lparr>mc_has_cred_protect := has_cp, mc_cred_protect := cp,
                 mc_hmac_secret_requested := hmac\<rparr>, c))"

definition zf_parse_make_credential_options ::
  "cursor \<Rightarrow> ZfMakeCredentialRequest \<Rightarrow> (ZfMakeCredentialRequest \<times> cursor) ctap_result" where
  "zf_parse_make_credential_options c req =
    then_status (zf_ctap_parse_options_map c
      \<lparr>opt_up = mc_up req, opt_has_up = mc_has_up req, opt_uv = mc_uv req,
       opt_has_uv = mc_has_uv req, opt_rk = mc_rk req, opt_has_rk = mc_has_rk req\<rparr>)
      (\<lambda>(o', c). Inr (req\<lparr>mc_up := opt_up o', mc_has_up := opt_has_up o', mc_uv := opt_uv o',
         mc_has_uv := opt_has_uv o', mc_rk := opt_rk o', mc_has_rk := opt_has_rk o'\<rparr>, c))"

definition zf_parse_make_credential_pin_auth ::
  "cursor \<Rightarrow> ZfMakeCredentialRequest \<Rightarrow> (ZfMakeCredentialRequest \<times> cursor) ctap_result" where
  "zf_parse_make_credential_pin_auth c req =
    cbor_or (zf_ctap_cbor_read_bytes_copy ZF_PIN_AUTH_MAX_LEN c) (\<lambda>(auth, c).
      Inr (req\<lparr>mc_pin_auth := auth, mc_has_pin_auth := True\<rparr>, c))"

definition zf_parse_make_credential_pin_protocol ::
  "cursor \<Rightarrow> ZfMakeCredentialRequest \<Rightarrow> (ZfMakeCredentialRequest \<times> cursor) ctap_result" where
  "zf_parse_make_credential_pin_protocol c req =
    cbor_or (zf_cbor_read_uint c) (\<lambda>(v, c).
      Inr (req\<lparr>mc_pin_protocol := v, mc_has_pin_protocol := True\<rparr>, c))"

definition attestation_format_item ::
  "cursor \<Rightarrow> ZfMakeCredentialRequest \<Rightarrow> (ZfMakeCredentialRequest \<times> cursor) ctap_result" where
  "attestation_format_item c req =
    cbor_or (zf_cbor_read_text_ptr c) (\<lambda>(format, c).
      if 0 \<in> set format then Inl ZF_CTAP_ERR_INVALID_CBOR
      else if mc_has_attestation_format_preference req then Inr (req, c)
      else if format = ascii ''none'' then
        Inr (req\<lparr>mc_preferred_attestation_mode := ZfAttestationModeNone,
                 mc_has_attestation_format_preference := True\<rparr>, c)
      else if format = ascii ''packed'' then
        Inr (req\<lparr>mc_preferred_attestation_mode := ZfAttestationModePacked,
                 mc_has_attestation_format_preference := True\<rparr>, c)
      else Inr (req, c))"

definition zf_parse_make_credential_attestation_formats ::
  "cursor \<Rightarrow> ZfMakeCredentialRequest \<Rightarrow> (ZfMakeCredentialRequest \<times> cursor) ctap_result" where
  "zf_parse_make_credential_attestation_formats c req =
    cbor_or (zf_cbor_read_array_start c) (\<lambda>(count, c).
    for_items count attestation_format_item c req)"

definition zf_parse_make_credential_field ::
  "u64 \<Rightarrow> cursor \<Rightarrow> ZfMakeCredentialRequest \<Rightarrow> (ZfMakeCredentialRequest \<times> cursor) ctap_result" where
  "zf_parse_make_credential_field key c req =
    (if key = 1 then zf_parse_make_credential_client_data_hash c req
     else if key = 2 then zf_parse_make_credential_rp c req
     else if key = 3 then zf_parse_make_credential_user c req
     else if key = 4 then zf_parse_make_credential_pubkey_cred_params c req
     else if key = 5 then zf_parse_make_credential_exclude_list c req
     else if key = 6 then zf_parse_make_credential_extensions c req
     else if key = 7 then zf_parse_make_credential_options c req
     else if key = 8 then zf_parse_make_credential_pin_auth c req
     else if key = 9 then zf_parse_make_credential_pin_protocol c req
     else if key = 11 then zf_parse_make_credential_attestation_formats c req
     else skip_field c req)"

definition zf_validate_make_credential_request ::
  "cursor \<Rightarrow> ZfMakeCredentialRequest \<Rightarrow> ctap_status" where
  "zf_validate_make_credential_request c req =
    (if \<not> mc_has_client_data_hash req \<or> mc_rp_id req = [] \<or> \<not> mc_has_user_id req
     then ZF_CTAP_ERR_MISSING_PARAMETER
     else if length (mc_user_id req) = 0 then ZF_CTAP_ERR_INVALID_PARAMETER
     else if \<not> mc_has_pubkey_cred_params req then ZF_CTAP_ERR_MISSING_PARAMETER
     else if \<not> mc_es256_supported req then ZF_CTAP_ERR_UNSUPPORTED_ALGORITHM
     else if mc_has_up req \<and> \<not> mc_up req then ZF_CTAP_ERR_INVALID_OPTION
     else if c \<noteq> [] then ZF_CTAP_ERR_INVALID_CBOR
     else ZF_CTAP_SUCCESS)"

text \<open>
  The cleared request: only the caller's exclude list storage survives, and \<open>up\<close> is preset. A
  cleared attestation mode is the enumeration's zero, packed.
\<close>

definition mc_cleared :: "ZfCredentialDescriptorList \<Rightarrow> ZfMakeCredentialRequest" where
  "mc_cleared exclude_list =
    \<lparr>mc_client_data_hash = replicate 32 0, mc_has_client_data_hash = False, mc_rp_id = [],
     mc_user_name = [], mc_user_display_name = [], mc_user_id = [],
     mc_exclude_list = exclude_list, mc_up = True, mc_uv = False, mc_rk = False,
     mc_has_up = False, mc_has_uv = False, mc_has_rk = False, mc_has_user_id = False,
     mc_has_pubkey_cred_params = False, mc_es256_supported = False, mc_has_cred_protect = False,
     mc_cred_protect = 0, mc_pin_auth = [], mc_pin_protocol = 0, mc_has_pin_auth = False,
     mc_has_pin_protocol = False, mc_hmac_secret_requested = False,
     mc_has_attestation_format_preference = False,
     mc_preferred_attestation_mode = ZfAttestationModePacked\<rparr>"

definition zf_ctap_parse_make_credential ::
  "bytes \<Rightarrow> ZfMakeCredentialRequest \<Rightarrow> ZfMakeCredentialRequest ctap_result" where
  "zf_ctap_parse_make_credential data req =
    cbor_or (zf_cbor_read_map_start data) (\<lambda>(pairs, c).
    then_status (for_items pairs (keyed_pair zf_parse_make_credential_field) c
        (0, mc_cleared (mc_exclude_list req))) (\<lambda>((_, req), c).
    (case zf_validate_make_credential_request c req of
       ZF_CTAP_SUCCESS \<Rightarrow> Inr req
     | status \<Rightarrow> Inl status)))"

section \<open>getAssertion\<close>

text \<open>The loop of the hmac-secret input carries \<open>saw_key_agreement\<close>, \<open>saw_salt_enc\<close>, \<open>saw_salt_auth\<close>.\<close>

definition hmac_secret_field ::
  "u64 \<Rightarrow> cursor \<Rightarrow> (bool \<times> bool \<times> bool) \<times> ZfAssertionRequestData \<Rightarrow>
    (((bool \<times> bool \<times> bool) \<times> ZfAssertionRequestData) \<times> cursor) ctap_result" where
  "hmac_secret_field key c = (\<lambda>((saw_ka, saw_enc, saw_auth), a).
    if key = 1 then
      cbor_or (zf_ctap_parse_cose_p256_key_agreement c) (\<lambda>((x, y), c).
        Inr (((True, saw_enc, saw_auth),
              a\<lparr>ar_hmac_secret_platform_x := x, ar_hmac_secret_platform_y := y\<rparr>), c))
    else if key = 2 then
      cbor_or (zf_ctap_cbor_read_bytes_copy ZF_HMAC_SECRET_ENC_MAX_LEN c) (\<lambda>(d, c).
        Inr (((saw_ka, True, saw_auth), a\<lparr>ar_hmac_secret_salt_enc := d\<rparr>), c))
    else if key = 3 then
      cbor_or (zf_ctap_cbor_read_bytes_copy ZF_HMAC_SECRET_AUTH_MAX_LEN c) (\<lambda>(d, c).
        Inr (((saw_ka, saw_enc, True), a\<lparr>ar_hmac_secret_salt_auth := d\<rparr>), c))
    else if key = 4 then
      cbor_or (zf_cbor_read_uint c) (\<lambda>(v, c).
        Inr (((saw_ka, saw_enc, saw_auth),
              a\<lparr>ar_hmac_secret_pin_protocol := v, ar_hmac_secret_has_pin_protocol := True\<rparr>), c))
    else skip_field c ((saw_ka, saw_enc, saw_auth), a))"

definition zf_ctap_hmac_secret_parse_get_assertion_input ::
  "cursor \<Rightarrow> ZfGetAssertionRequest \<Rightarrow> (ZfGetAssertionRequest \<times> cursor) ctap_result" where
  "zf_ctap_hmac_secret_parse_get_assertion_input c req =
    cbor_or (zf_cbor_read_map_start c) (\<lambda>(pairs, c).
    then_status (for_items pairs (keyed_pair hmac_secret_field) c
        (0, (False, False, False),
         (ga_assertion req)\<lparr>ar_hmac_secret_pin_protocol := ZF_PIN_PROTOCOL_V1\<rparr>))
      (\<lambda>((_, (saw_ka, saw_enc, saw_auth), a), c).
        if \<not> saw_ka \<or> \<not> saw_enc \<or> \<not> saw_auth then Inl ZF_CTAP_ERR_MISSING_PARAMETER
        else Inr (req\<lparr>ga_assertion := a\<lparr>ar_has_hmac_secret := True\<rparr>\<rparr>, c)))"

definition ga_extension_pair ::
  "cursor \<Rightarrow> bool \<times> ZfGetAssertionRequest \<Rightarrow> ((bool \<times> ZfGetAssertionRequest) \<times> cursor) ctap_result" where
  "ga_extension_pair c = (\<lambda>(saw_hmac_secret, req).
    cbor_or (zf_cbor_read_text_ptr c) (\<lambda>(key, c).
      if zf_ctap_classify_text_key key = ZfCtapTextKeyHmacSecret then
        (if saw_hmac_secret then Inl ZF_CTAP_ERR_INVALID_CBOR
         else then_status (zf_ctap_hmac_secret_parse_get_assertion_input c req) (\<lambda>(req, c).
           Inr ((True, req), c)))
      else cbor_or (zf_cbor_skip c) (\<lambda>c. Inr ((saw_hmac_secret, req), c))))"

definition zf_parse_get_assertion_extensions ::
  "cursor \<Rightarrow> ZfGetAssertionRequest \<Rightarrow> (ZfGetAssertionRequest \<times> cursor) ctap_result" where
  "zf_parse_get_assertion_extensions c req =
    cbor_or (zf_cbor_read_map_start c) (\<lambda>(pairs, c).
    then_status (for_items pairs ga_extension_pair c (False, req)) (\<lambda>((_, req), c).
    Inr (req, c)))"

definition ga_field ::
  "u64 \<Rightarrow> cursor \<Rightarrow> ZfGetAssertionRequest \<Rightarrow> (ZfGetAssertionRequest \<times> cursor) ctap_result" where
  "ga_field key c req =
    (if key = 1 then
       cbor_or (zf_ctap_cbor_read_text_copy ZF_MAX_RP_ID_LEN c) (\<lambda>(ident, c).
         Inr (req\<lparr>ga_assertion := (ga_assertion req)\<lparr>ar_rp_id := ident\<rparr>\<rparr>, c))
     else if key = 2 then
       cbor_or (zf_ctap_cbor_read_bytes_copy ZF_CLIENT_DATA_HASH_LEN c) (\<lambda>(hash, c).
         if length hash \<noteq> ZF_CLIENT_DATA_HASH_LEN then Inl ZF_CTAP_ERR_INVALID_CBOR
         else Inr (req\<lparr>ga_assertion := (ga_assertion req)
                \<lparr>ar_client_data_hash := hash, ar_has_client_data_hash := True\<rparr>\<rparr>, c))
     else if key = 3 then
       then_status (zf_ctap_parse_descriptor_array c (ga_allow_list req)) (\<lambda>(list, c).
         Inr (req\<lparr>ga_allow_list := list\<rparr>, c))
     else if key = 4 then zf_parse_get_assertion_extensions c req
     else if key = 5 then
       then_status (zf_ctap_parse_options_map c
         \<lparr>opt_up = ga_up req, opt_has_up = ga_has_up req, opt_uv = ga_uv req,
          opt_has_uv = ga_has_uv req, opt_rk = ga_rk req, opt_has_rk = ga_has_rk req\<rparr>)
         (\<lambda>(o', c). Inr (req\<lparr>ga_up := opt_up o', ga_has_up := opt_has_up o', ga_uv := opt_uv o',
            ga_has_uv := opt_has_uv o', ga_rk := opt_rk o', ga_has_rk := opt_has_rk o'\<rparr>, c))
     else if key = 6 then
       cbor_or (zf_ctap_cbor_read_bytes_copy ZF_PIN_AUTH_MAX_LEN c) (\<lambda>(auth, c).
         Inr (req\<lparr>ga_pin_auth := auth, ga_has_pin_auth := True\<rparr>, c))
     else if key = 7 then
       cbor_or (zf_cbor_read_uint c) (\<lambda>(v, c).
         Inr (req\<lparr>ga_pin_protocol := v, ga_has_pin_protocol := True\<rparr>, c))
     else skip_field c req)"

definition assertion_cleared :: ZfAssertionRequestData where
  "assertion_cleared =
    \<lparr>ar_client_data_hash = replicate 32 0, ar_has_client_data_hash = False, ar_rp_id = [],
     ar_has_hmac_secret = False, ar_hmac_secret_has_pin_protocol = False,
     ar_hmac_secret_pin_protocol = 0, ar_hmac_secret_platform_x = replicate 32 0,
     ar_hmac_secret_platform_y = replicate 32 0, ar_hmac_secret_salt_enc = [],
     ar_hmac_secret_salt_auth = []\<rparr>"

definition ga_cleared :: "ZfCredentialDescriptorList \<Rightarrow> ZfGetAssertionRequest" where
  "ga_cleared allow_list =
    \<lparr>ga_assertion = assertion_cleared, ga_allow_list = allow_list, ga_up = True,
     ga_has_up = False, ga_uv = False, ga_has_uv = False, ga_rk = False, ga_has_rk = False,
     ga_pin_auth = [], ga_pin_protocol = 0, ga_has_pin_auth = False, ga_has_pin_protocol = False\<rparr>"

definition zf_ctap_parse_get_assertion ::
  "bytes \<Rightarrow> ZfGetAssertionRequest \<Rightarrow> ZfGetAssertionRequest ctap_result" where
  "zf_ctap_parse_get_assertion data req =
    cbor_or (zf_cbor_read_map_start data) (\<lambda>(pairs, c).
    then_status (for_items pairs (keyed_pair ga_field) c (0, ga_cleared (ga_allow_list req)))
      (\<lambda>((_, req), c).
        if ar_rp_id (ga_assertion req) = [] \<or> \<not> ar_has_client_data_hash (ga_assertion req)
        then Inl ZF_CTAP_ERR_MISSING_PARAMETER
        else if ga_has_rk req \<and> ga_rk req then Inl ZF_CTAP_ERR_UNSUPPORTED_OPTION
        else if c \<noteq> [] then Inl ZF_CTAP_ERR_INVALID_CBOR
        else Inr req))"

section \<open>clientPIN\<close>

definition ZF_CLIENT_PIN_SUBCMD_GET_RETRIES :: u64 where "ZF_CLIENT_PIN_SUBCMD_GET_RETRIES = 1"
definition ZF_CLIENT_PIN_SUBCMD_GET_KEY_AGREEMENT :: u64
  where "ZF_CLIENT_PIN_SUBCMD_GET_KEY_AGREEMENT = 2"
definition ZF_CLIENT_PIN_SUBCMD_SET_PIN :: u64 where "ZF_CLIENT_PIN_SUBCMD_SET_PIN = 3"
definition ZF_CLIENT_PIN_SUBCMD_CHANGE_PIN :: u64 where "ZF_CLIENT_PIN_SUBCMD_CHANGE_PIN = 4"
definition ZF_CLIENT_PIN_SUBCMD_GET_PIN_TOKEN :: u64 where "ZF_CLIENT_PIN_SUBCMD_GET_PIN_TOKEN = 5"
definition ZF_CLIENT_PIN_SUBCMD_GET_PIN_UV_AUTH_TOKEN_USING_PIN_WITH_PERMISSIONS :: u64
  where "ZF_CLIENT_PIN_SUBCMD_GET_PIN_UV_AUTH_TOKEN_USING_PIN_WITH_PERMISSIONS = 9"

lemmas subcommands = ZF_CLIENT_PIN_SUBCMD_GET_RETRIES_def ZF_CLIENT_PIN_SUBCMD_GET_KEY_AGREEMENT_def
  ZF_CLIENT_PIN_SUBCMD_SET_PIN_def ZF_CLIENT_PIN_SUBCMD_CHANGE_PIN_def
  ZF_CLIENT_PIN_SUBCMD_GET_PIN_TOKEN_def
  ZF_CLIENT_PIN_SUBCMD_GET_PIN_UV_AUTH_TOKEN_USING_PIN_WITH_PERMISSIONS_def

definition zf_client_pin_subcommand_requires_pin_protocol :: "u64 \<Rightarrow> bool" where
  "zf_client_pin_subcommand_requires_pin_protocol subcommand \<longleftrightarrow>
    subcommand \<in> {ZF_CLIENT_PIN_SUBCMD_GET_KEY_AGREEMENT, ZF_CLIENT_PIN_SUBCMD_SET_PIN,
      ZF_CLIENT_PIN_SUBCMD_CHANGE_PIN, ZF_CLIENT_PIN_SUBCMD_GET_PIN_TOKEN,
      ZF_CLIENT_PIN_SUBCMD_GET_PIN_UV_AUTH_TOKEN_USING_PIN_WITH_PERMISSIONS}"

definition cp_field ::
  "u64 \<Rightarrow> cursor \<Rightarrow> ZfClientPinRequest \<Rightarrow> (ZfClientPinRequest \<times> cursor) ctap_result" where
  "cp_field key c req =
    (if key = 1 then cbor_or (zf_cbor_read_uint c) (\<lambda>(v, c).
       Inr (req\<lparr>cp_pin_protocol := v, cp_has_pin_protocol := True\<rparr>, c))
     else if key = 2 then cbor_or (zf_cbor_read_uint c) (\<lambda>(v, c).
       Inr (req\<lparr>cp_subcommand := v, cp_has_subcommand := True\<rparr>, c))
     else if key = 3 then cbor_or (zf_ctap_parse_cose_p256_key_agreement c) (\<lambda>((x, y), c).
       Inr (req\<lparr>cp_platform_x := x, cp_platform_y := y, cp_has_key_agreement := True\<rparr>, c))
     else if key = 4 then cbor_or (zf_ctap_cbor_read_bytes_copy ZF_PIN_AUTH_MAX_LEN c) (\<lambda>(d, c).
       Inr (req\<lparr>cp_pin_auth := d, cp_has_pin_auth := True\<rparr>, c))
     else if key = 5 then
       cbor_or (zf_ctap_cbor_read_bytes_copy ZF_PIN_ENCRYPTED_NEW_PIN_MAX_LEN c) (\<lambda>(d, c).
       Inr (req\<lparr>cp_new_pin_enc := d, cp_has_new_pin_enc := True\<rparr>, c))
     else if key = 6 then
       cbor_or (zf_ctap_cbor_read_bytes_copy ZF_PIN_ENCRYPTED_HASH_MAX_LEN c) (\<lambda>(d, c).
       Inr (req\<lparr>cp_pin_hash_enc := d, cp_has_pin_hash_enc := True\<rparr>, c))
     else if key = 9 then cbor_or (zf_cbor_read_uint c) (\<lambda>(v, c).
       Inr (req\<lparr>cp_permissions := v, cp_has_permissions := True\<rparr>, c))
     else if key = 10 then cbor_or (zf_ctap_cbor_read_text_copy ZF_MAX_RP_ID_LEN c) (\<lambda>(t, c).
       Inr (req\<lparr>cp_rp_id := t, cp_has_rp_id := True\<rparr>, c))
     else skip_field c req)"

definition cp_cleared :: ZfClientPinRequest where
  "cp_cleared =
    \<lparr>cp_pin_protocol = 0, cp_subcommand = 0, cp_has_pin_protocol = False,
     cp_has_subcommand = False, cp_has_key_agreement = False,
     cp_platform_x = replicate 32 0, cp_platform_y = replicate 32 0, cp_pin_auth = [],
     cp_has_pin_auth = False, cp_new_pin_enc = [], cp_has_new_pin_enc = False,
     cp_pin_hash_enc = [], cp_has_pin_hash_enc = False, cp_permissions = 0,
     cp_has_permissions = False, cp_rp_id = [], cp_has_rp_id = False\<rparr>"

definition zf_client_pin_parse_request :: "bytes \<Rightarrow> ZfClientPinRequest ctap_result" where
  "zf_client_pin_parse_request data =
    cbor_or (zf_cbor_read_map_start data) (\<lambda>(pairs, c).
    then_status (for_items pairs (keyed_pair cp_field) c (0, cp_cleared)) (\<lambda>((_, req), c).
      if \<not> cp_has_subcommand req then Inl ZF_CTAP_ERR_MISSING_PARAMETER
      else if cp_has_pin_protocol req \<and> cp_pin_protocol req \<noteq> ZF_PIN_PROTOCOL_V1 \<and>
              cp_pin_protocol req \<noteq> ZF_PIN_PROTOCOL_V2
      then Inl ZF_CTAP_ERR_INVALID_PARAMETER
      else if zf_client_pin_subcommand_requires_pin_protocol (cp_subcommand req) \<and>
              \<not> cp_has_pin_protocol req
      then Inl ZF_CTAP_ERR_MISSING_PARAMETER
      else if c \<noteq> [] then Inl ZF_CTAP_ERR_INVALID_CBOR
      else Inr req))"

end
