(* ===== verification/Ctap_Parse_Exact.thy ===== *)
theory Ctap_Parse_Exact
  imports Ctap_Parse
begin

text \<open>
  What an accepted request guarantees. Three layers: generic facts on the counted loop and on the
  numbered maps (accepted exactly when every field parses and no key below 16 repeats), the
  well-formedness every accepted request has, and completeness on canonical encodings.
\<close>

section \<open>Control flow\<close>

lemma cbor_or_Inr [simp]: "cbor_or r f = Inr y \<longleftrightarrow> (\<exists>x. r = Some x \<and> f x = Inr y)"
  by (simp add: cbor_or_def split: option.split)

lemma cbor_or_Some [simp]: "cbor_or (Some x) f = f x"
  by (simp add: cbor_or_def)

lemma then_status_Inr [simp]: "then_status r f = Inr y \<longleftrightarrow> (\<exists>x. r = Inr x \<and> f x = Inr y)"
  by (simp add: then_status_def split: sum.split)

lemma then_status_simps [simp]:
  "then_status (Inr x) f = f x"
  "then_status (Inl e) f = Inl e"
  by (simp_all add: then_status_def)

lemma for_items_numeral [simp]:
  "for_items (numeral k) body c s =
    then_status (body c s) (\<lambda>(s', c'). for_items (pred_numeral k) body c' s')"
  by (simp add: numeral_eq_Suc)

lemma for_items_invariant:
  assumes "for_items n body c s = Inr (s', c')" and "P s"
    and "\<And>c s s' c'. P s \<Longrightarrow> body c s = Inr (s', c') \<Longrightarrow> P s'"
  shows "P s'"
  using assms(1,2)
proof (induction n arbitrary: c s)
  case (Suc n)
  then obtain s1 c1 where "body c s = Inr (s1, c1)" "for_items n body c1 s1 = Inr (s', c')"
    by auto
  with Suc assms(3) show ?case by blast
qed simp

section \<open>Numbered maps\<close>

lemma mark_seen_key:
  "zf_ctap_mark_seen_key seen key =
    (if key \<ge> 16 then Some seen
     else if bit seen (unat key) then None else Some (set_bit (unat key) seen))"
  by (simp add: zf_ctap_mark_seen_key_def Let_def bit_iff_and_push_bit_not_eq_0 set_bit_eq_or)

text \<open>A run of the map: the keys in order, each encoded canonically and followed by its field.\<close>

inductive keyed_run ::
  "(u64 \<Rightarrow> cursor \<Rightarrow> 'r \<Rightarrow> ('r \<times> cursor) ctap_result) \<Rightarrow> u64 list \<Rightarrow>
    cursor \<Rightarrow> 'r \<Rightarrow> cursor \<Rightarrow> 'r \<Rightarrow> bool"
  for field where
  run_done: "keyed_run field [] c r c r"
| run_pair: "field k c r = Inr (r', c') \<Longrightarrow> keyed_run field ks c' r' c'' r'' \<Longrightarrow>
    keyed_run field (k # ks) (cbor_uint k @ c) r c'' r''"

inductive_simps keyed_run_Nil [simp]: "keyed_run field [] c r c' r'"
inductive_simps keyed_run_Cons: "keyed_run field (k # ks) c r c' r'"

definition fresh_keys :: "u16 \<Rightarrow> u64 list \<Rightarrow> bool" where
  "fresh_keys seen ks \<longleftrightarrow>
    distinct (filter (\<lambda>k. k < 16) ks) \<and> (\<forall>k \<in> set ks. k < 16 \<longrightarrow> \<not> bit seen (unat k))"

lemma fresh_keys_0: "fresh_keys 0 ks \<longleftrightarrow> distinct (filter (\<lambda>k. k < 16) ks)"
  by (simp add: fresh_keys_def)

lemma fresh_keys_Cons:
  "fresh_keys seen (k # ks) \<longleftrightarrow>
    (\<exists>seen'. zf_ctap_mark_seen_key seen k = Some seen' \<and> fresh_keys seen' ks)"
proof (cases "k < 16")
  case True
  then have "unat k < 16" by (simp add: word_less_nat_alt)
  then have "bit (set_bit (unat k) seen) (unat j) \<longleftrightarrow> j = k \<or> bit seen (unat j)" for j
    by (auto simp: bit_set_bit_iff word_unat_eq_iff)
  with True show ?thesis
    by (auto simp: mark_seen_key fresh_keys_def not_le [symmetric])
qed (auto simp: mark_seen_key fresh_keys_def)

lemma keyed_loop_run:
  "(\<exists>seen'. for_items n (keyed_pair field) c (seen, r) = Inr ((seen', r'), c')) \<longleftrightarrow>
    (\<exists>ks. length ks = n \<and> fresh_keys seen ks \<and> keyed_run field ks c r c' r')"
proof (induction n arbitrary: c seen r)
  case 0
  then show ?case by (auto simp: fresh_keys_def)
next
  case (Suc n)
  have "(\<exists>seen'. for_items (Suc n) (keyed_pair field) c (seen, r) = Inr ((seen', r'), c')) \<longleftrightarrow>
    (\<exists>k seen1 c1 r1 c2. c = cbor_uint k @ c1 \<and> zf_ctap_mark_seen_key seen k = Some seen1 \<and>
      field k c1 r = Inr (r1, c2) \<and>
      (\<exists>seen'. for_items n (keyed_pair field) c2 (seen1, r1) = Inr ((seen', r'), c')))"
    by (force simp: keyed_pair_def read_uint_iff)
  also have "\<dots> \<longleftrightarrow> (\<exists>k ks. length ks = n \<and> fresh_keys seen (k # ks) \<and>
      keyed_run field (k # ks) c r c' r')"
    unfolding Suc.IH keyed_run_Cons fresh_keys_Cons by blast
  also have "\<dots> \<longleftrightarrow> (\<exists>ks. length ks = Suc n \<and> fresh_keys seen ks \<and> keyed_run field ks c r c' r')"
    by (auto simp: length_Suc_conv)
  finally show ?case .
qed

lemma keyed_run_invariant:
  assumes "keyed_run field ks c r c' r'" and "P r"
    and "\<And>k c r r' c'. P r \<Longrightarrow> field k c r = Inr (r', c') \<Longrightarrow> P r'"
  shows "P r'"
  using assms by (induction rule: keyed_run.induct) blast+

text \<open>A whole numbered map: head, run, and nothing before the end of the run.\<close>

lemma keyed_map_iff:
  "(\<exists>pairs c seen'. zf_cbor_read_map_start data = Some (pairs, c) \<and>
      for_items pairs (keyed_pair field) c (0, r) = Inr ((seen', r'), c')) \<longleftrightarrow>
    (\<exists>ks c. length ks \<le> SIZE_MAX \<and> data = cbor_map (length ks) @ c \<and>
      distinct (filter (\<lambda>k. k < 16) ks) \<and> keyed_run field ks c r c' r')"
  by (auto simp: read_map_start_iff keyed_loop_run fresh_keys_0)

section \<open>Readers with bounds\<close>

lemma text_switchE:
  assumes "cbor_or (zf_cbor_read_text_ptr c) (\<lambda>(key, c). G key c) = Inr y"
  obtains key c1 where "zf_cbor_read_text_ptr c = Some (key, c1)" "G key c1 = Inr y"
  using assms by auto

lemma guarded_reader_iff:
  "(case rd of None \<Rightarrow> None | Some (x, c) \<Rightarrow> if P x then None else Some (x, c)) = Some (y, r) \<longleftrightarrow>
    \<not> P y \<and> rd = Some (y, r)"
  by (auto split: option.split)

lemma read_text_copy_iff:
  "zf_ctap_cbor_read_text_copy n c = Some (t, r) \<longleftrightarrow>
    length t < n \<and> length t < 2 ^ 64 \<and> 0 \<notin> set t \<and> zf_cbor_utf8_is_valid t \<and> c = cbor_text t @ r"
  unfolding zf_ctap_cbor_read_text_copy_def guarded_reader_iff read_text_iff by auto

lemma read_bytes_copy_iff:
  "zf_ctap_cbor_read_bytes_copy n c = Some (d, r) \<longleftrightarrow>
    length d \<le> n \<and> length d < 2 ^ 64 \<and> c = cbor_bytes d @ r"
  unfolding zf_ctap_cbor_read_bytes_copy_def guarded_reader_iff read_bytes_iff by auto

text \<open>The same facts as rewrite rules on encoded input.\<close>

lemma readers_complete [simp]:
  "zf_cbor_read_uint (cbor_uint v @ r) = Some (v, r)"
  "- (2 ^ 63) \<le> i \<Longrightarrow> i < 2 ^ 63 \<Longrightarrow> zf_cbor_read_int (cbor_int i @ r) = Some (i, r)"
  "zf_cbor_read_bool (cbor_bool b @ r) = Some (b, r)"
  "length d < 2 ^ 64 \<Longrightarrow> zf_cbor_read_bytes_ptr (cbor_bytes d @ r) = Some (d, r)"
  "length t < 2 ^ 64 \<Longrightarrow> zf_cbor_utf8_is_valid t \<Longrightarrow>
     zf_cbor_read_text_ptr (cbor_text t @ r) = Some (t, r)"
  "n \<le> SIZE_MAX \<Longrightarrow> zf_cbor_read_map_start (cbor_map n @ r) = Some (n, r)"
  "n \<le> SIZE_MAX \<Longrightarrow> zf_cbor_read_array_start (cbor_array n @ r) = Some (n, r)"
  by (simp_all add: reader_iffs)

lemma copies_complete [simp]:
  "length d \<le> n \<Longrightarrow> length d < 2 ^ 64 \<Longrightarrow>
     zf_ctap_cbor_read_bytes_copy n (cbor_bytes d @ r) = Some (d, r)"
  "length t < n \<Longrightarrow> length t < 2 ^ 64 \<Longrightarrow> 0 \<notin> set t \<Longrightarrow> zf_cbor_utf8_is_valid t \<Longrightarrow>
     zf_ctap_cbor_read_text_copy n (cbor_text t @ r) = Some (t, r)"
  by (simp_all add: read_bytes_copy_iff read_text_copy_iff)

section \<open>COSE keys\<close>

lemma cose_key_roundtrip:
  assumes "length x = 32" and "length y = 32"
  shows "zf_ctap_parse_cose_p256_key_agreement (cbor_cose_key (- 25) x y @ r) = Some ((x, y), r)"
  using assms
  by (simp add: zf_ctap_parse_cose_p256_key_agreement_def cbor_cose_key_def SIZE_MAX_def
      cose_pair_def ZF_PUBLIC_KEY_LEN_def)

definition cose_wf :: "cose_state \<Rightarrow> bool" where
  "cose_wf s \<longleftrightarrow> (\<forall>x. cose_x s = Some x \<longrightarrow> length x = 32) \<and> (\<forall>y. cose_y s = Some y \<longrightarrow> length y = 32)"

lemma cose_pair_wf: "cose_wf s \<Longrightarrow> cose_pair c s = Inr (s', c') \<Longrightarrow> cose_wf s'"
  by (auto simp: cose_pair_def cose_wf_def ZF_PUBLIC_KEY_LEN_def split: if_splits)

lemma cose_key_lengths:
  "zf_ctap_parse_cose_p256_key_agreement c = Some ((x, y), r) \<Longrightarrow> length x = 32 \<and> length y = 32"
proof -
  assume "zf_ctap_parse_cose_p256_key_agreement c = Some ((x, y), r)"
  then obtain n c1 s where "for_items n cose_pair c1
      \<lparr>saw_kty = False, saw_alg = False, saw_crv = False, cose_x = None, cose_y = None\<rparr> = Inr (s, r)"
    "cose_x s = Some x" "cose_y s = Some y"
    by (auto simp: zf_ctap_parse_cose_p256_key_agreement_def split: option.splits sum.splits if_splits)
  moreover from this(1) have "cose_wf s"
    by (rule for_items_invariant [where P = cose_wf]) (simp add: cose_wf_def, rule cose_pair_wf)
  ultimately show ?thesis by (auto simp: cose_wf_def)
qed

section \<open>Well-formed requests\<close>

definition text_ok :: "nat \<Rightarrow> bytes \<Rightarrow> bool" where
  "text_ok n t \<longleftrightarrow> length t < n \<and> 0 \<notin> set t \<and> zf_cbor_utf8_is_valid t"

definition dl_wf :: "ZfCredentialDescriptorList \<Rightarrow> bool" where
  "dl_wf l \<longleftrightarrow> distinct (dl_entries l) \<and> length (dl_entries l) \<le> dl_capacity l \<and>
    (\<forall>d \<in> set (dl_entries l). length d = 32)"

definition mc_wf :: "ZfMakeCredentialRequest \<Rightarrow> bool" where
  "mc_wf r \<longleftrightarrow>
    length (mc_client_data_hash r) = 32 \<and> text_ok 256 (mc_rp_id r) \<and>
    text_ok 65 (mc_user_name r) \<and> text_ok 65 (mc_user_display_name r) \<and>
    length (mc_user_id r) \<le> 64 \<and> dl_wf (mc_exclude_list r) \<and> length (mc_pin_auth r) \<le> 32 \<and>
    (mc_has_cred_protect r \<longrightarrow> mc_cred_protect r \<in> {1, 2, 3})"

abbreviation digest_wf :: "bytes option \<times> bool option \<Rightarrow> bool" where
  "digest_wf s \<equiv> (\<forall>d. fst s = Some d \<longrightarrow> length d = 32)"

lemma descriptor_pair_inv:
  assumes "digest_wf s" and "descriptor_pair c s = Inr (s', c')"
  shows "digest_wf s'"
proof -
  obtain d p where s: "s = (d, p)" by (cases s) auto
  from assms(2) [unfolded descriptor_pair_def s prod.case] show ?thesis
  proof (rule text_switchE, goal_cases)
    case (1 key c1)
    with assms(1) s show ?case
      by (cases "zf_ctap_classify_text_key key") (auto split: if_splits)
  qed
qed

lemma descriptor_digest:
  "zf_ctap_parse_credential_descriptor c = Some ((d, inc), r) \<Longrightarrow> length d = 32"
proof -
  assume "zf_ctap_parse_credential_descriptor c = Some ((d, inc), r)"
  then obtain n c1 where "for_items n descriptor_pair c1 (None, None) = Inr ((Some d, Some inc), r)"
    by (auto simp: zf_ctap_parse_credential_descriptor_def split: option.splits sum.splits)
  then have "digest_wf (Some d, Some inc)"
    by (rule for_items_invariant [where P = digest_wf]) (simp, rule descriptor_pair_inv)
  then show ?thesis by simp
qed

lemma descriptor_array_wf:
  assumes "zf_ctap_parse_descriptor_array c l = Inr (l', c')"
  shows "dl_wf l' \<and> dl_capacity l' = dl_capacity l"
proof -
  from assms obtain n c1 where "for_items n descriptor_item c1 (l\<lparr>dl_entries := []\<rparr>) = Inr (l', c')"
    by (auto simp: zf_ctap_parse_descriptor_array_def)
  then show ?thesis
    by (rule for_items_invariant [where P = "\<lambda>s. dl_wf s \<and> dl_capacity s = dl_capacity l"])
      (auto simp: descriptor_item_def dl_wf_def dest: descriptor_digest split: if_splits)
qed

lemma text_copy_ok: "zf_ctap_cbor_read_text_copy n c = Some (t, r) \<Longrightarrow> text_ok n t"
  by (simp only: read_text_copy_iff text_ok_def) blast

lemma bytes_copy_ok: "zf_ctap_cbor_read_bytes_copy n c = Some (d, r) \<Longrightarrow> length d \<le> n"
  by (simp only: read_bytes_copy_iff)

lemma mc_wf_updates:
  "mc_wf r \<Longrightarrow> text_ok ZF_MAX_RP_ID_LEN t \<Longrightarrow> mc_wf (r\<lparr>mc_rp_id := t\<rparr>)"
  "mc_wf r \<Longrightarrow> text_ok ZF_MAX_USER_NAME_LEN t \<Longrightarrow> mc_wf (r\<lparr>mc_user_name := t\<rparr>)"
  "mc_wf r \<Longrightarrow> text_ok ZF_MAX_DISPLAY_NAME_LEN t \<Longrightarrow> mc_wf (r\<lparr>mc_user_display_name := t\<rparr>)"
  "mc_wf r \<Longrightarrow> length d \<le> ZF_MAX_USER_ID_LEN \<Longrightarrow> mc_wf (r\<lparr>mc_user_id := d, mc_has_user_id := b\<rparr>)"
  by (simp_all add: mc_wf_def size_limits)

abbreviation mc_wf_snd :: "'a \<times> ZfMakeCredentialRequest \<Rightarrow> bool" where
  "mc_wf_snd s \<equiv> mc_wf (snd s)"

lemma rp_pair_inv:
  assumes "mc_wf_snd s" and "rp_pair c s = Inr (s', c')"
  shows "mc_wf_snd s'"
proof -
  obtain a b d r where s: "s = ((a, b, d), r)" by (cases s) auto
  from assms(2) [unfolded rp_pair_def s prod.case] show ?thesis
  proof (rule text_switchE, goal_cases)
    case (1 key c1)
    with assms(1) s show ?case
      by (cases "zf_ctap_classify_text_key key") (auto split: if_splits
        intro!: mc_wf_updates dest: text_copy_ok)
  qed
qed

lemma user_pair_inv:
  assumes "mc_wf_snd s" and "user_pair c s = Inr (s', c')"
  shows "mc_wf_snd s'"
proof -
  obtain a b d e r where s: "s = ((a, b, d, e), r)" by (cases s) auto
  from assms(2) [unfolded user_pair_def s prod.case] show ?thesis
  proof (rule text_switchE, goal_cases)
    case (1 key c1)
    with assms(1) s show ?case
      by (cases "zf_ctap_classify_text_key key") (auto split: if_splits
        intro!: mc_wf_updates dest: text_copy_ok bytes_copy_ok)
  qed
qed

lemma rp_wf:
  assumes "zf_parse_make_credential_rp c r = Inr (r', c')" "mc_wf r"
  shows "mc_wf r'"
proof -
  from assms obtain n c1 saw where
    "for_items n rp_pair c1 ((False, False, False), r) = Inr ((saw, r'), c')"
    by (auto simp: zf_parse_make_credential_rp_def)
  then have "mc_wf (snd (saw, r'))"
    by (rule for_items_invariant [where P = mc_wf_snd]) (simp add: assms(2), rule rp_pair_inv)
  then show ?thesis by simp
qed

lemma user_wf:
  assumes "zf_parse_make_credential_user c r = Inr (r', c')" "mc_wf r"
  shows "mc_wf r'"
proof -
  from assms obtain n c1 saw where
    "for_items n user_pair c1 ((False, False, False, False), r) = Inr ((saw, r'), c')"
    by (auto simp: zf_parse_make_credential_user_def)
  then have "mc_wf (snd (saw, r'))"
    by (rule for_items_invariant [where P = mc_wf_snd]) (simp add: assms(2), rule user_pair_inv)
  then show ?thesis by simp
qed

lemma ucast_cred_protect:
  "zf_ctap_cred_protect_value_is_valid raw \<Longrightarrow> (ucast raw :: byte) \<in> {1, 2, 3}"
proof -
  assume "zf_ctap_cred_protect_value_is_valid raw"
  then have "unat raw \<in> {1, 2, 3}"
    by (auto simp: zf_ctap_cred_protect_value_is_valid_def word_le_nat_alt)
  then have "raw = 1 \<or> raw = 2 \<or> raw = 3" by (auto simp: word_unat_eq_iff)
  then show ?thesis by auto
qed

abbreviation mc_ext_wf :: "'a \<times> bool \<times> byte \<times> bool \<Rightarrow> bool" where
  "mc_ext_wf s \<equiv> (fst (snd s) \<longrightarrow> fst (snd (snd s)) \<in> {1, 2, 3})"

lemma mc_extension_pair_inv:
  assumes "mc_ext_wf s" and "mc_extension_pair c s = Inr (s', c')"
  shows "mc_ext_wf s'"
proof -
  obtain a b has cp h where s: "s = ((a, b), (has, cp, h))" by (cases s) auto
  from assms(2) [unfolded mc_extension_pair_def s prod.case] show ?thesis
  proof (rule text_switchE, goal_cases)
    case (1 key c1)
    with assms(1) s show ?case
      by (cases "zf_ctap_classify_text_key key") (auto split: if_splits dest: ucast_cred_protect)
  qed
qed

lemma mc_extensions_wf:
  assumes "zf_ctap_parse_make_credential_extensions_map c (has, cp, h) = Inr ((has', cp', h'), c')"
    and "has \<longrightarrow> cp \<in> {1, 2, 3}"
  shows "has' \<longrightarrow> cp' \<in> {1, 2, 3}"
proof -
  from assms obtain n c1 saw where
    "for_items n mc_extension_pair c1 ((False, False), has, cp, h) = Inr ((saw, has', cp', h'), c')"
    by (auto simp: zf_ctap_parse_make_credential_extensions_map_def)
  then have "mc_ext_wf (saw, has', cp', h')"
    by (rule for_items_invariant [where P = mc_ext_wf])
      (use assms(2) in simp, rule mc_extension_pair_inv)
  then show ?thesis by simp
qed

lemma attestation_formats_wf:
  assumes "zf_parse_make_credential_attestation_formats c r = Inr (r', c')" "mc_wf r"
  shows "mc_wf r'"
proof -
  from assms obtain n c1 where "for_items n attestation_format_item c1 r = Inr (r', c')"
    by (auto simp: zf_parse_make_credential_attestation_formats_def)
  then show ?thesis
    by (rule for_items_invariant [where P = mc_wf])
      (use assms(2) in \<open>auto simp: attestation_format_item_def mc_wf_def split: if_splits\<close>)
qed

lemma mc_field_wf:
  assumes "mc_wf r" and "zf_parse_make_credential_field k c r = Inr (r', c')"
  shows "mc_wf r'"
  using assms
  by (auto simp: zf_parse_make_credential_field_def skip_field_def
      zf_parse_make_credential_client_data_hash_def zf_parse_make_credential_pubkey_cred_params_def
      zf_parse_make_credential_exclude_list_def zf_parse_make_credential_extensions_def
      zf_parse_make_credential_options_def zf_parse_make_credential_pin_auth_def
      zf_parse_make_credential_pin_protocol_def read_bytes_copy_iff ZF_CLIENT_DATA_HASH_LEN_def
      ZF_PIN_AUTH_MAX_LEN_def mc_wf_def
      dest: rp_wf user_wf attestation_formats_wf descriptor_array_wf mc_extensions_wf
      split: if_splits)

lemma mc_cleared_wf: "dl_wf l \<Longrightarrow> mc_wf (mc_cleared l)"
  by (simp add: mc_wf_def mc_cleared_def text_ok_def)

lemma status_case:
  "(case st of ZF_CTAP_SUCCESS \<Rightarrow> Inr x | e \<Rightarrow> Inl e) = Inr y \<longleftrightarrow> st = ZF_CTAP_SUCCESS \<and> x = y"
  by (cases st) auto

lemma validate_success:
  "zf_validate_make_credential_request c req = ZF_CTAP_SUCCESS \<longleftrightarrow>
    mc_has_client_data_hash req \<and> mc_rp_id req \<noteq> [] \<and> mc_has_user_id req \<and>
    mc_user_id req \<noteq> [] \<and> mc_has_pubkey_cred_params req \<and> mc_es256_supported req \<and>
    (mc_has_up req \<longrightarrow> mc_up req) \<and> c = []"
  by (auto simp: zf_validate_make_credential_request_def)

lemma make_credential_runs:
  "zf_ctap_parse_make_credential data req0 = Inr req \<longleftrightarrow>
    (\<exists>ks body. length ks \<le> SIZE_MAX \<and> data = cbor_map (length ks) @ body \<and>
      distinct (filter (\<lambda>k. k < 16) ks) \<and>
      keyed_run zf_parse_make_credential_field ks body (mc_cleared (mc_exclude_list req0)) [] req \<and>
      zf_validate_make_credential_request [] req = ZF_CTAP_SUCCESS)"
proof -
  have "zf_ctap_parse_make_credential data req0 = Inr req \<longleftrightarrow>
    (\<exists>pairs c seen'. zf_cbor_read_map_start data = Some (pairs, c) \<and>
      for_items pairs (keyed_pair zf_parse_make_credential_field) c
        (0, mc_cleared (mc_exclude_list req0)) = Inr ((seen', req), [])) \<and>
    zf_validate_make_credential_request [] req = ZF_CTAP_SUCCESS"
    by (auto simp: zf_ctap_parse_make_credential_def status_case validate_success)
  then show ?thesis unfolding keyed_map_iff by blast
qed

section \<open>getAssertion and clientPIN requests\<close>

definition ar_wf :: "ZfAssertionRequestData \<Rightarrow> bool" where
  "ar_wf a \<longleftrightarrow>
    length (ar_client_data_hash a) = 32 \<and> text_ok 256 (ar_rp_id a) \<and>
    length (ar_hmac_secret_platform_x a) = 32 \<and> length (ar_hmac_secret_platform_y a) = 32 \<and>
    length (ar_hmac_secret_salt_enc a) \<le> 80 \<and> length (ar_hmac_secret_salt_auth a) \<le> 32"

definition ga_wf :: "ZfGetAssertionRequest \<Rightarrow> bool" where
  "ga_wf r \<longleftrightarrow> ar_wf (ga_assertion r) \<and> dl_wf (ga_allow_list r) \<and> length (ga_pin_auth r) \<le> 32"

lemma ar_wf_updates:
  "ar_wf a \<Longrightarrow> length x = 32 \<Longrightarrow> length y = 32 \<Longrightarrow>
    ar_wf (a\<lparr>ar_hmac_secret_platform_x := x, ar_hmac_secret_platform_y := y\<rparr>)"
  "ar_wf a \<Longrightarrow> length d \<le> ZF_HMAC_SECRET_ENC_MAX_LEN \<Longrightarrow> ar_wf (a\<lparr>ar_hmac_secret_salt_enc := d\<rparr>)"
  "ar_wf a \<Longrightarrow> length d \<le> ZF_HMAC_SECRET_AUTH_MAX_LEN \<Longrightarrow> ar_wf (a\<lparr>ar_hmac_secret_salt_auth := d\<rparr>)"
  "ar_wf a \<Longrightarrow> ar_wf (a\<lparr>ar_hmac_secret_pin_protocol := v, ar_hmac_secret_has_pin_protocol := b\<rparr>)"
  "ar_wf a \<Longrightarrow> ar_wf (a\<lparr>ar_hmac_secret_pin_protocol := v\<rparr>)"
  "ar_wf a \<Longrightarrow> ar_wf (a\<lparr>ar_has_hmac_secret := b\<rparr>)"
  "ar_wf a \<Longrightarrow> text_ok ZF_MAX_RP_ID_LEN t \<Longrightarrow> ar_wf (a\<lparr>ar_rp_id := t\<rparr>)"
  "ar_wf a \<Longrightarrow> length h = ZF_CLIENT_DATA_HASH_LEN \<Longrightarrow>
    ar_wf (a\<lparr>ar_client_data_hash := h, ar_has_client_data_hash := b\<rparr>)"
  by (simp_all add: ar_wf_def size_limits)

lemma hmac_secret_field_wf:
  "ar_wf (snd r) \<Longrightarrow> hmac_secret_field k c r = Inr (r', c') \<Longrightarrow> ar_wf (snd r')"
  by (cases r) (auto simp: hmac_secret_field_def skip_field_def intro!: ar_wf_updates
      dest!: bytes_copy_ok cose_key_lengths split: if_splits)

lemma keyed_map_invariant:
  assumes "for_items n (keyed_pair field) c (0, r) = Inr ((seen, r'), c')" and "P r"
    and "\<And>k c r r' c'. P r \<Longrightarrow> field k c r = Inr (r', c') \<Longrightarrow> P r'"
  shows "P r'"
proof -
  from assms(1) obtain ks where "keyed_run field ks c r c' r'"
    using keyed_loop_run [of n field c 0 r r' c'] by blast
  then show ?thesis by (rule keyed_run_invariant) (use assms(2,3) in blast)+
qed

lemma hmac_secret_input_wf:
  assumes "zf_ctap_hmac_secret_parse_get_assertion_input c r = Inr (r', c')" "ga_wf r"
  shows "ga_wf r' \<and> ar_has_hmac_secret (ga_assertion r')"
proof -
  from assms(1) obtain n c1 seen a saw where
    run: "for_items n (keyed_pair hmac_secret_field) c1 (0, (False, False, False),
      (ga_assertion r)\<lparr>ar_hmac_secret_pin_protocol := ZF_PIN_PROTOCOL_V1\<rparr>) = Inr ((seen, saw, a), c')"
    and r': "r' = r\<lparr>ga_assertion := a\<lparr>ar_has_hmac_secret := True\<rparr>\<rparr>"
    by (auto simp: zf_ctap_hmac_secret_parse_get_assertion_input_def split: if_splits)
  have "ar_wf (snd (saw, a))"
    using run by (rule keyed_map_invariant [where P = "\<lambda>r. ar_wf (snd r)"])
      (use assms(2) in \<open>simp add: ga_wf_def ar_wf_updates\<close>, rule hmac_secret_field_wf)
  then show ?thesis using assms(2) r' by (simp add: ga_wf_def ar_wf_updates)
qed

lemma ga_extension_pair_wf:
  "ga_wf (snd s) \<Longrightarrow> ga_extension_pair c s = Inr (s', c') \<Longrightarrow> ga_wf (snd s')"
  by (cases s) (auto simp: ga_extension_pair_def dest: hmac_secret_input_wf split: if_splits)

lemma ga_extensions_wf:
  assumes "zf_parse_get_assertion_extensions c r = Inr (r', c')" "ga_wf r"
  shows "ga_wf r'"
proof -
  from assms obtain n c1 saw where
    "for_items n ga_extension_pair c1 (False, r) = Inr ((saw, r'), c')"
    by (auto simp: zf_parse_get_assertion_extensions_def)
  then have "ga_wf (snd (saw, r'))"
    by (rule for_items_invariant [where P = "\<lambda>s. ga_wf (snd s)"])
      (simp add: assms(2), rule ga_extension_pair_wf)
  then show ?thesis by simp
qed

lemma ga_wf_updates:
  "ga_wf r \<Longrightarrow> ar_wf a \<Longrightarrow> ga_wf (r\<lparr>ga_assertion := a\<rparr>)"
  "ga_wf r \<Longrightarrow> dl_wf l \<Longrightarrow> ga_wf (r\<lparr>ga_allow_list := l\<rparr>)"
  "ga_wf r \<Longrightarrow> length d \<le> ZF_PIN_AUTH_MAX_LEN \<Longrightarrow> ga_wf (r\<lparr>ga_pin_auth := d, ga_has_pin_auth := b\<rparr>)"
  "ga_wf r \<Longrightarrow> ga_wf (r\<lparr>ga_pin_protocol := v, ga_has_pin_protocol := b\<rparr>)"
  "ga_wf r \<Longrightarrow> ga_wf (r\<lparr>ga_up := b1, ga_has_up := b2, ga_uv := b3, ga_has_uv := b4, ga_rk := b5,
     ga_has_rk := b6\<rparr>)"
  "ga_wf r \<Longrightarrow> ar_wf (ga_assertion r)"
  by (simp_all add: ga_wf_def size_limits)

lemma ga_field_wf: "ga_wf r \<Longrightarrow> ga_field k c r = Inr (r', c') \<Longrightarrow> ga_wf r'"
  by (auto simp: ga_field_def skip_field_def intro!: ga_wf_updates ar_wf_updates
      dest: bytes_copy_ok text_copy_ok descriptor_array_wf ga_extensions_wf split: if_splits)

lemma get_assertion_runs:
  "zf_ctap_parse_get_assertion data req0 = Inr req \<longleftrightarrow>
    (\<exists>ks body. length ks \<le> SIZE_MAX \<and> data = cbor_map (length ks) @ body \<and>
      distinct (filter (\<lambda>k. k < 16) ks) \<and>
      keyed_run ga_field ks body (ga_cleared (ga_allow_list req0)) [] req \<and>
      ar_rp_id (ga_assertion req) \<noteq> [] \<and> ar_has_client_data_hash (ga_assertion req) \<and>
      \<not> (ga_has_rk req \<and> ga_rk req))"
proof -
  have "zf_ctap_parse_get_assertion data req0 = Inr req \<longleftrightarrow>
    (\<exists>pairs c seen'. zf_cbor_read_map_start data = Some (pairs, c) \<and>
      for_items pairs (keyed_pair ga_field) c (0, ga_cleared (ga_allow_list req0)) =
        Inr ((seen', req), [])) \<and>
    ar_rp_id (ga_assertion req) \<noteq> [] \<and> ar_has_client_data_hash (ga_assertion req) \<and>
    \<not> (ga_has_rk req \<and> ga_rk req)"
    by (auto simp: zf_ctap_parse_get_assertion_def split: if_splits)
  then show ?thesis unfolding keyed_map_iff by blast
qed

lemma ga_cleared_wf: "dl_wf l \<Longrightarrow> ga_wf (ga_cleared l)"
  by (simp add: ga_wf_def ga_cleared_def ar_wf_def assertion_cleared_def text_ok_def)

definition cp_wf :: "ZfClientPinRequest \<Rightarrow> bool" where
  "cp_wf r \<longleftrightarrow>
    length (cp_platform_x r) = 32 \<and> length (cp_platform_y r) = 32 \<and> length (cp_pin_auth r) \<le> 32 \<and>
    length (cp_new_pin_enc r) \<le> 80 \<and> length (cp_pin_hash_enc r) \<le> 32 \<and> text_ok 256 (cp_rp_id r)"

lemma cp_field_wf: "cp_wf r \<Longrightarrow> cp_field k c r = Inr (r', c') \<Longrightarrow> cp_wf r'"
  by (auto simp: cp_field_def skip_field_def cp_wf_def size_limits
      dest: bytes_copy_ok text_copy_ok cose_key_lengths split: if_splits)

lemma client_pin_runs:
  "zf_client_pin_parse_request data = Inr req \<longleftrightarrow>
    (\<exists>ks body. length ks \<le> SIZE_MAX \<and> data = cbor_map (length ks) @ body \<and>
      distinct (filter (\<lambda>k. k < 16) ks) \<and> keyed_run cp_field ks body cp_cleared [] req \<and>
      cp_has_subcommand req \<and>
      (cp_has_pin_protocol req \<longrightarrow> cp_pin_protocol req \<in> {ZF_PIN_PROTOCOL_V1, ZF_PIN_PROTOCOL_V2}) \<and>
      (zf_client_pin_subcommand_requires_pin_protocol (cp_subcommand req) \<longrightarrow>
        cp_has_pin_protocol req))"
proof -
  have "zf_client_pin_parse_request data = Inr req \<longleftrightarrow>
    (\<exists>pairs c seen'. zf_cbor_read_map_start data = Some (pairs, c) \<and>
      for_items pairs (keyed_pair cp_field) c (0, cp_cleared) = Inr ((seen', req), [])) \<and>
      cp_has_subcommand req \<and>
      (cp_has_pin_protocol req \<longrightarrow> cp_pin_protocol req \<in> {ZF_PIN_PROTOCOL_V1, ZF_PIN_PROTOCOL_V2}) \<and>
      (zf_client_pin_subcommand_requires_pin_protocol (cp_subcommand req) \<longrightarrow>
        cp_has_pin_protocol req)"
    by (auto simp: zf_client_pin_parse_request_def split: if_splits)
  then show ?thesis unfolding keyed_map_iff by blast
qed

section \<open>A canonical request is accepted\<close>


lemma classify_text_keys [simp]:
  "zf_ctap_classify_text_key (ascii ''id'') = ZfCtapTextKeyId"
  "zf_ctap_classify_text_key (ascii ''alg'') = ZfCtapTextKeyAlg"
  "zf_ctap_classify_text_key (ascii ''type'') = ZfCtapTextKeyType"
  "zf_ctap_classify_text_key (ascii ''public-key'') = ZfCtapTextKeyPublicKey"
  by (simp_all add: zf_ctap_classify_text_key_def text_keys_def ascii_def)

lemma ascii_valid [simp]:
  "zf_cbor_utf8_is_valid (ascii ''id'')" "zf_cbor_utf8_is_valid (ascii ''alg'')"
  "zf_cbor_utf8_is_valid (ascii ''type'')" "zf_cbor_utf8_is_valid (ascii ''public-key'')"
  by (simp_all add: ascii_def)

lemma length_ascii [simp]: "length (ascii s) = length s"
  by (simp add: ascii_def)

text \<open>The minimal makeCredential request a platform sends.\<close>

definition mc_request_bytes :: "bytes \<Rightarrow> bytes \<Rightarrow> bytes \<Rightarrow> bytes" where
  "mc_request_bytes hash rp_id user_id =
    cbor_map 4 @
    cbor_uint 1 @ cbor_bytes hash @
    cbor_uint 2 @ cbor_map 1 @ cbor_text (ascii ''id'') @ cbor_text rp_id @
    cbor_uint 3 @ cbor_map 1 @ cbor_text (ascii ''id'') @ cbor_bytes user_id @
    cbor_uint 4 @ cbor_array 1 @ cbor_map 2 @ cbor_text (ascii ''alg'') @ cbor_int (- 7) @
      cbor_text (ascii ''type'') @ cbor_text (ascii ''public-key'')"

lemma cbor_text_end [simp]:
  "length t < 2 ^ 64 \<Longrightarrow> zf_cbor_utf8_is_valid t \<Longrightarrow>
     zf_cbor_read_text_ptr (cbor_text t) = Some (t, [])"
  using readers_complete(5) [of t "[]"] by simp

lemma mark_seen_small:
  "k < 16 \<Longrightarrow> \<not> bit seen (unat k) \<Longrightarrow> zf_ctap_mark_seen_key seen k = Some (set_bit (unat k) seen)"
  by (auto simp: mark_seen_key)

lemma make_credential_minimal:
  assumes "length hash = 32" "text_ok 256 rp_id" "rp_id \<noteq> []" "length user_id \<le> 64" "user_id \<noteq> []"
  shows "zf_ctap_parse_make_credential (mc_request_bytes hash rp_id user_id) req0 =
    Inr ((mc_cleared (mc_exclude_list req0))
      \<lparr>mc_client_data_hash := hash, mc_has_client_data_hash := True, mc_rp_id := rp_id,
       mc_user_id := user_id, mc_has_user_id := True, mc_has_pubkey_cred_params := True,
       mc_es256_supported := True\<rparr>)"
proof -
  let ?r = "mc_cleared (mc_exclude_list req0)"
  have seen: "keyed_pair field (cbor_uint k @ c) (seen, r) =
      then_status (field k c r) (\<lambda>(r, c). Inr ((set_bit (unat k) seen, r), c))"
    if "k < 16" "\<not> bit seen (unat k)" for field k c seen and r :: ZfMakeCredentialRequest
    using that by (simp add: keyed_pair_def mark_seen_small)
  have f1: "zf_parse_make_credential_field 1 (cbor_bytes hash @ c) r =
      Inr (r\<lparr>mc_client_data_hash := hash, mc_has_client_data_hash := True\<rparr>, c)" for r c
    using assms by (simp add: zf_parse_make_credential_field_def
        zf_parse_make_credential_client_data_hash_def size_limits)
  have f2: "zf_parse_make_credential_field 2
        (cbor_map 1 @ cbor_text (ascii ''id'') @ cbor_text rp_id @ c) r =
      Inr (r\<lparr>mc_rp_id := rp_id\<rparr>, c)" for r c
    using assms by (simp add: zf_parse_make_credential_field_def zf_parse_make_credential_rp_def
        rp_pair_def size_limits text_ok_def SIZE_MAX_def)
  have f3: "zf_parse_make_credential_field 3
        (cbor_map 1 @ cbor_text (ascii ''id'') @ cbor_bytes user_id @ c) r =
      Inr (r\<lparr>mc_user_id := user_id, mc_has_user_id := True\<rparr>, c)" for r c
    using assms by (simp add: zf_parse_make_credential_field_def zf_parse_make_credential_user_def
        user_pair_def size_limits SIZE_MAX_def)
  have f4: "zf_parse_make_credential_field 4
        (cbor_array 1 @ cbor_map 2 @ cbor_text (ascii ''alg'') @ cbor_int (- 7) @
          cbor_text (ascii ''type'') @ cbor_text (ascii ''public-key'')) r =
      Inr (r\<lparr>mc_has_pubkey_cred_params := True, mc_es256_supported := True\<rparr>, [])" for r
    by (simp add: zf_parse_make_credential_field_def SIZE_MAX_def cred_param_item_def cred_param_pair_def
        zf_parse_make_credential_pubkey_cred_params_def zf_ctap_parse_pubkey_cred_params_def)
  have one: "for_items 1 body c s = then_status (body c s) Inr" for body c and s :: "u16 \<times> ZfMakeCredentialRequest"
    by (simp add: then_status_def split: sum.split)
  have "for_items 4 (keyed_pair zf_parse_make_credential_field)
      (cbor_uint 1 @ cbor_bytes hash @
       cbor_uint 2 @ cbor_map 1 @ cbor_text (ascii ''id'') @ cbor_text rp_id @
       cbor_uint 3 @ cbor_map 1 @ cbor_text (ascii ''id'') @ cbor_bytes user_id @
       cbor_uint 4 @ cbor_array 1 @ cbor_map 2 @ cbor_text (ascii ''alg'') @ cbor_int (- 7) @
         cbor_text (ascii ''type'') @ cbor_text (ascii ''public-key'')) (0, ?r) =
    Inr ((set_bit 4 (set_bit 3 (set_bit 2 (set_bit 1 0))), ?r
      \<lparr>mc_client_data_hash := hash, mc_has_client_data_hash := True, mc_rp_id := rp_id,
       mc_user_id := user_id, mc_has_user_id := True, mc_has_pubkey_cred_params := True,
       mc_es256_supported := True\<rparr>), [])"
    by (simp add: seen f1 f2 f3 f4 one bit_iff_odd
        del: readers_complete then_status_Inr One_nat_def)
  then show ?thesis
    using assms by (simp add: zf_ctap_parse_make_credential_def mc_request_bytes_def SIZE_MAX_def
        zf_validate_make_credential_request_def mc_cleared_def del: for_items_numeral)
qed
end
