(* ===== verification/Codec_Properties.thy ===== *)
theory Codec_Properties
  imports Cbor_Items Ctap_Parse_Exact Sha256_Exact
begin

text \<open>
  The properties of the codecs: the CBOR readers, the encoder, the skipper, the two UTF-8 validators,
  the hash functions and the CTAP request parsers.
\<close>

section \<open>CBOR\<close>

text \<open>
  C21. Each strict CBOR reader of \<open>zerofido_cbor.c\<close> accepts exactly the canonical encodings: it
  returns a value and a rest of the input if and only if the input is the shortest encoding of that
  value followed by that rest. So no input has two readings, no value has two accepted encodings, and
  a reader never looks behind the end of its input.
\<close>

theorem readers_accept_canonical:
  "(zf_cbor_read_uint c = Some (v, r) \<longleftrightarrow> c = cbor_uint v @ r) \<and>
   (zf_cbor_read_int c = Some (i, r) \<longleftrightarrow> - (2 ^ 63) \<le> i \<and> i < 2 ^ 63 \<and> c = cbor_int i @ r) \<and>
   (zf_cbor_read_bool c = Some (b, r) \<longleftrightarrow> c = cbor_bool b @ r) \<and>
   (zf_cbor_read_bytes_ptr c = Some (d, r) \<longleftrightarrow> length d < 2 ^ 64 \<and> c = cbor_bytes d @ r) \<and>
   (zf_cbor_read_text_ptr c = Some (t, r) \<longleftrightarrow>
      length t < 2 ^ 64 \<and> zf_cbor_utf8_is_valid t \<and> c = cbor_text t @ r) \<and>
   (zf_cbor_read_map_start c = Some (n, r) \<longleftrightarrow> n \<le> SIZE_MAX \<and> c = cbor_map n @ r) \<and>
   (zf_cbor_read_array_start c = Some (n, r) \<longleftrightarrow> n \<le> SIZE_MAX \<and> c = cbor_array n @ r)"
  by (intro conjI reader_iffs)

text \<open>
  C22. Every encoder operation of \<open>zerofido_cbor.c\<close>, the COSE key included, succeeds exactly when
  its encoding fits the room left; it never writes outside the capacity, never changes what was
  written before, keeps the encoder well formed, and when it succeeds the written prefix grows by
  exactly the encoding.
\<close>

theorem encoder_contract:
  assumes "enc_wf e"
    and "(op, out) \<in> set
      [(\<lambda>e. zf_cbor_encode_uint e v, cbor_uint v), (\<lambda>e. zf_cbor_encode_int e i, cbor_int i),
       (\<lambda>e. zf_cbor_encode_bool e b, cbor_bool b), (\<lambda>e. zf_cbor_encode_bytes e d, cbor_bytes d),
       (\<lambda>e. zf_cbor_encode_text e t, cbor_text t), (\<lambda>e. zf_cbor_encode_text_n e t, cbor_text t),
       (\<lambda>e. zf_cbor_encode_map e n, cbor_map n), (\<lambda>e. zf_cbor_encode_array e n, cbor_array n),
       (\<lambda>e. zf_cbor_encode_p256_cose_key e alg x y, cbor_cose_key alg x y)]"
  shows "(fst (op e) \<longleftrightarrow> length out \<le> enc_capacity e - enc_offset e) \<and>
    enc_wf (snd (op e)) \<and> enc_capacity (snd (op e)) = enc_capacity e \<and>
    take (enc_offset e) (enc_buf (snd (op e))) = take (enc_offset e) (enc_buf e) \<and>
    drop (enc_capacity e) (enc_buf (snd (op e))) = drop (enc_capacity e) (enc_buf e) \<and>
    (fst (op e) \<longrightarrow> take (zf_cbor_encoder_size (snd (op e))) (enc_buf (snd (op e))) =
      take (zf_cbor_encoder_size e) (enc_buf e) @ out)"
proof -
  have "cbor_emitter op out"
    using assms(2) by (auto intro: emitters enc_cose.cbor_emitter_axioms)
  then show ?thesis
    using assms(1)
    by (simp add: zf_cbor_encoder_size_def cbor_emitter.succeeds_iff [unfolded enc_room_def]
        cbor_emitter.keeps_wf cbor_emitter.keeps_capacity cbor_emitter.keeps_written
        cbor_emitter.keeps_outside cbor_emitter.written)
qed

theorem encoder_contract_witness:
  "let e = \<lparr>enc_buf = replicate 4 0, enc_capacity = 3, enc_offset = 1\<rparr>;
       op = \<lambda>e. zf_cbor_encode_uint e 500 in
   enc_wf e \<and> \<not> fst (op e) \<and> enc_wf (snd (op e))"
  using encoder_contract [of "\<lparr>enc_buf = replicate 4 0, enc_capacity = 3, enc_offset = 1\<rparr>"
      "\<lambda>e. zf_cbor_encode_uint e 500" "cbor_uint 500" 500]
  by (simp add: enc_wf_def cbor_uint_def zf_cbor_head_def)

text \<open>
  C31. The UTF-8 validator of the CBOR reader accepts exactly the concatenations of encoded Unicode
  scalar values (no surrogates, no overlong forms, nothing above U+10FFFF), and the validator of the
  PIN policy accepts the same texts and returns the number of their code points.
\<close>

theorem utf8_validators:
  "(zf_cbor_utf8_is_valid bs \<longleftrightarrow> (\<exists>cps. list_all unicode_scalar cps \<and> bs = utf8_text cps)) \<and>
   (zf_pin_validate_utf8 bs = Some n \<longleftrightarrow>
     (\<exists>cps. list_all unicode_scalar cps \<and> bs = utf8_text cps \<and> n = length cps))"
proof (intro conjI iffI)
  assume "zf_pin_validate_utf8 bs = Some n"
  moreover from this obtain cps where "list_all unicode_scalar cps" "bs = utf8_text cps"
    using pin_utf8_accepts [of 0 bs] cbor_utf8_valid_iff [of bs]
    by (auto simp: zf_pin_validate_utf8_def)
  ultimately show "\<exists>cps. list_all unicode_scalar cps \<and> bs = utf8_text cps \<and> n = length cps"
    using count_utf8_text [of cps 0] by (auto simp: zf_pin_validate_utf8_def)
qed (auto simp: zf_pin_validate_utf8_def count_utf8_text cbor_utf8_valid_iff)

section \<open>Hashes\<close>

text \<open>
  C29. The incremental SHA-256 of \<open>crypto/sha256.c\<close> (a buffer of 64 bytes, a bit counter, padding
  written in place) computes, however the message was cut into pieces, the hash that the definition by
  padding and whole blocks gives, and the HMAC with its two message parts computes the HMAC of their
  concatenation, with a long key hashed first.
\<close>

theorem hashes_correct:
  "zf_crypto_sha256 m = sha256_reference m \<and>
   zf_crypto_sha256_concat a b = sha256_reference (a @ b) \<and>
   zf_hmac_sha256_parts key a b = hmac_reference key (a @ b)"
  by (simp add: sha256_correct sha256_concat_correct hmac_parts_correct)

section \<open>Requests\<close>

text \<open>
  C30. What any of the three request parsers accepts is well formed for the fixed buffers of the
  program: every hash has 32 bytes, every text is NUL free, valid UTF-8 and leaves room for its
  terminator, every byte field fits its array, the descriptor lists hold at most their capacity of
  pairwise different digests, and credProtect is one of its three levels.
\<close>

theorem parsed_requests_wf:
  "(dl_wf (mc_exclude_list mc0) \<longrightarrow> zf_ctap_parse_make_credential data mc0 = Inr mc \<longrightarrow> mc_wf mc) \<and>
   (dl_wf (ga_allow_list ga0) \<longrightarrow> zf_ctap_parse_get_assertion data ga0 = Inr ga \<longrightarrow> ga_wf ga) \<and>
   (zf_client_pin_parse_request data = Inr cp \<longrightarrow> cp_wf cp)"
proof (intro conjI impI)
  show "mc_wf mc" if "dl_wf (mc_exclude_list mc0)" "zf_ctap_parse_make_credential data mc0 = Inr mc"
    using that by (auto simp: make_credential_runs
        intro: keyed_run_invariant [where P = mc_wf] mc_cleared_wf mc_field_wf)
  show "ga_wf ga" if "dl_wf (ga_allow_list ga0)" "zf_ctap_parse_get_assertion data ga0 = Inr ga"
    using that by (auto simp: get_assertion_runs
        intro: keyed_run_invariant [where P = ga_wf] ga_cleared_wf ga_field_wf)
  have "cp_wf cp_cleared"
    by (simp add: cp_cleared_def cp_wf_def text_ok_def)
  moreover assume "zf_client_pin_parse_request data = Inr cp"
  then obtain ks body where "keyed_run cp_field ks body cp_cleared [] cp"
    unfolding client_pin_runs by blast
  ultimately show "cp_wf cp"
    by (auto intro: keyed_run_invariant [where P = cp_wf] cp_field_wf)
qed

theorem parsed_requests_wf_witness:
  "\<exists>mc. zf_ctap_parse_make_credential (mc_request_bytes (replicate 32 1) [97] [7])
      (mc_cleared \<lparr>dl_entries = [], dl_capacity = 0\<rparr>) = Inr mc \<and> mc_wf mc"
proof -
  let ?mc0 = "mc_cleared \<lparr>dl_entries = [], dl_capacity = 0\<rparr>"
  have wf: "dl_wf (mc_exclude_list ?mc0)"
    by (simp add: mc_cleared_def dl_wf_def)
  obtain mc where mc: "zf_ctap_parse_make_credential (mc_request_bytes (replicate 32 1) [97] [7])
      ?mc0 = Inr mc"
    using make_credential_minimal [of "replicate 32 1" "[97]" "[7]" ?mc0]
    by (simp add: text_ok_def)
  then show ?thesis
    using parsed_requests_wf [of ?mc0] wf by blast
qed

text \<open>
  Round trip of the key agreement key: the COSE key that the encoder writes is the one that the
  parser of \<open>ctap/parse/shared.c\<close> reads back, whatever follows it.
\<close>

theorem cose_key_read_back:
  assumes "length x = 32" "length y = 32" "enc_wf e"
    and "zf_cbor_encode_p256_cose_key e (- 25) x y = (True, e')"
  shows "zf_ctap_parse_cose_p256_key_agreement
      (drop (enc_offset e) (take (enc_offset e') (enc_buf e')) @ r) = Some ((x, y), r)"
proof -
  have "take (enc_offset e') (enc_buf e') = take (enc_offset e) (enc_buf e) @ cbor_cose_key (- 25) x y"
    using enc_cose.written [of e "- 25" x y] assms(3,4) by simp
  moreover have "enc_offset e \<le> length (enc_buf e)"
    using assms(3) by (simp add: enc_wf_def)
  ultimately show ?thesis
    using cose_key_roundtrip [OF assms(1,2)] by simp
qed

theorem cose_key_read_back_witness:
  "\<exists>e'. zf_cbor_encode_p256_cose_key \<lparr>enc_buf = replicate 100 0, enc_capacity = 100, enc_offset = 0\<rparr>
      (- 25) (replicate 32 1) (replicate 32 2) = (True, e') \<and>
    zf_ctap_parse_cose_p256_key_agreement (take (enc_offset e') (enc_buf e')) =
      Some ((replicate 32 1, replicate 32 2), [])"
proof -
  let ?e = "\<lparr>enc_buf = replicate 100 0, enc_capacity = 100, enc_offset = 0\<rparr>"
  have wf: "enc_wf ?e" by (simp add: enc_wf_def)
  have "fst (zf_cbor_encode_p256_cose_key ?e (- 25) (replicate 32 1) (replicate 32 2))"
    using enc_cose.succeeds_iff [OF wf]
    by (simp add: enc_room_def cbor_cose_key_def cbor_encodings zf_cbor_head_def)
  then obtain e' where e': "zf_cbor_encode_p256_cose_key ?e (- 25) (replicate 32 1) (replicate 32 2)
      = (True, e')"
    by (metis prod.collapse)
  show ?thesis
    using e' cose_key_read_back [OF _ _ wf e', of "[]"] by simp
qed

end
