(* ===== verification/Hal.thy ===== *)
theory Hal
  imports Sha256_Exact
begin

text \<open>
  The firmware and the vendored micro-ecc library, which the repository calls but does not implement,
  as a record of functions over an abstract world \<open>'w\<close> (storage medium, random generator, clock,
  secure enclave). An operation that can change or observe changing hardware returns the next world.
  What the code relies on is stated as predicates on the record (\<open>enclave_lawful\<close> here,
  \<open>storage_lawful\<close> in the storage theory); they are hypotheses where a theorem needs them. Above
  the record: the AES and P-256 adapters \<^verbatim>\<open>crypto/aes256.c\<close>, \<^verbatim>\<open>crypto/p256.c\<close> and the key
  wrapping of \<^verbatim>\<open>zerofido_crypto.c\<close>.
\<close>

type_synonym path = string

datatype FS_Error = FSE_OK | FSE_NOT_EXIST | FSE_FAILED

text \<open>
  \<open>fs_write\<close> is open for writing (create always), write, close: \<open>None\<close> when the file cannot be
  opened, otherwise the number of bytes written. \<open>fs_read\<close> is open, size, read, close. The enclave
  operations are load key, transform, unload key, and \<open>None\<close> when loading or the transform fails.
  \<open>fs_dir\<close> opens and reads a directory: its entries with the flag that marks a subdirectory. The
  FlipperFormat library writes a header and keyed fields as text (\<open>ff_text\<close>) and reads them back
  by key from the text of a file.
\<close>

datatype ff_value = FFUint32 u32 | FFHex bytes

record 'w hal =
  fs_exists :: "path \<Rightarrow> 'w \<Rightarrow> bool"
  fs_dir_exists :: "path \<Rightarrow> 'w \<Rightarrow> bool"
  fs_mkdir :: "path \<Rightarrow> 'w \<Rightarrow> bool \<times> 'w"
  fs_remove :: "path \<Rightarrow> 'w \<Rightarrow> FS_Error \<times> 'w"
  fs_rename :: "path \<Rightarrow> path \<Rightarrow> 'w \<Rightarrow> FS_Error \<times> 'w"
  fs_copy :: "path \<Rightarrow> path \<Rightarrow> 'w \<Rightarrow> FS_Error \<times> 'w"
  fs_write :: "path \<Rightarrow> bytes \<Rightarrow> 'w \<Rightarrow> nat option \<times> 'w"
  fs_read :: "path \<Rightarrow> 'w \<Rightarrow> bytes option \<times> 'w"
  fs_dir :: "path \<Rightarrow> 'w \<Rightarrow> (path \<times> bool) list option"
  ff_text :: "string \<Rightarrow> u32 \<Rightarrow> (string \<times> ff_value) list \<Rightarrow> bytes"
  ff_read_header :: "bytes \<Rightarrow> (string \<times> u32) option"
  ff_read_uint32 :: "bytes \<Rightarrow> string \<Rightarrow> u32 option"
  ff_read_hex :: "bytes \<Rightarrow> string \<Rightarrow> nat \<Rightarrow> bytes option"
  furi_get_tick :: "'w \<Rightarrow> u32"
  random_fill :: "nat \<Rightarrow> 'w \<Rightarrow> bytes \<times> 'w"
  enclave_ensure_key :: "'w \<Rightarrow> bool \<times> 'w"
  enclave_encrypt :: "bytes \<Rightarrow> bytes \<Rightarrow> 'w \<Rightarrow> bytes option \<times> 'w"
  enclave_decrypt :: "bytes \<Rightarrow> bytes \<Rightarrow> 'w \<Rightarrow> bytes option \<times> 'w"
  hal_aes_encrypt :: "bytes \<Rightarrow> bytes \<Rightarrow> bytes \<Rightarrow> 'w \<Rightarrow> bytes option \<times> 'w"
  hal_aes_decrypt :: "bytes \<Rightarrow> bytes \<Rightarrow> bytes \<Rightarrow> 'w \<Rightarrow> bytes option \<times> 'w"
  uECC_make_key :: "'w \<Rightarrow> (bytes \<times> bytes) option \<times> 'w"
  uECC_valid_public_key :: "bytes \<Rightarrow> bool"
  uECC_shared_secret :: "bytes \<Rightarrow> bytes \<Rightarrow> 'w \<Rightarrow> bytes option \<times> 'w"
  uECC_sign :: "bytes \<Rightarrow> bytes \<Rightarrow> 'w \<Rightarrow> bytes option \<times> 'w"
  uECC_compute_public_key :: "bytes \<Rightarrow> bytes option"
  uECC_verify :: "bytes \<Rightarrow> bytes \<Rightarrow> bytes \<Rightarrow> bool"

text \<open>Decryption in the enclave inverts encryption under the same initialization vector.\<close>

definition enclave_lawful :: "'w hal \<Rightarrow> bool" where
  "enclave_lawful hal \<longleftrightarrow>
    (\<forall>n w. length (fst (random_fill hal n w)) = n) \<and>
    (\<forall>iv d w c. fst (enclave_encrypt hal iv d w) = Some c \<longrightarrow>
      length c = length d \<and> (\<forall>w'. fst (enclave_decrypt hal iv c w') = Some d))"

text \<open>What FlipperFormat writes under distinct keys it reads back under the same keys.\<close>

definition format_lawful :: "'w hal \<Rightarrow> bool" where
  "format_lawful hal \<longleftrightarrow>
    (\<forall>ft ver fs. distinct (map fst fs) \<longrightarrow>
      ff_text hal ft ver fs \<noteq> [] \<and>
      ff_read_header hal (ff_text hal ft ver fs) = Some (ft, ver) \<and>
      (\<forall>k v. (k, FFUint32 v) \<in> set fs \<longrightarrow> ff_read_uint32 hal (ff_text hal ft ver fs) k = Some v) \<and>
      (\<forall>k d. (k, FFHex d) \<in> set fs \<longrightarrow>
        ff_read_hex hal (ff_text hal ft ver fs) k (length d) = Some d))"

section \<open>AES-256-CBC adapter\<close>

text \<open>The AES engine takes little-endian words; the adapter swaps the bytes of every word.\<close>

fun zf_aes_bswap_words :: "bytes \<Rightarrow> bytes" where
  "zf_aes_bswap_words (a # b # c # d # rest) = d # c # b # a # zf_aes_bswap_words rest"
| "zf_aes_bswap_words rest = rest"

definition zf_aes256_cbc_crypt ::
  "'w hal \<Rightarrow> bytes \<Rightarrow> bytes \<Rightarrow> bytes \<Rightarrow> bool \<Rightarrow> 'w \<Rightarrow> bytes option \<times> 'w" where
  "zf_aes256_cbc_crypt hal key iv input decrypt w =
    (if length input = 0 \<or> length input > 128 \<or> length input mod 16 \<noteq> 0 then (None, w)
     else let r = (if decrypt then hal_aes_decrypt hal else hal_aes_encrypt hal)
                (zf_aes_bswap_words key) (zf_aes_bswap_words iv) (zf_aes_bswap_words input) w
          in (map_option zf_aes_bswap_words (fst r), snd r))"

definition zf_aes256_cbc_encrypt ::
  "'w hal \<Rightarrow> bytes \<Rightarrow> bytes \<Rightarrow> bytes \<Rightarrow> 'w \<Rightarrow> bytes option \<times> 'w" where
  "zf_aes256_cbc_encrypt hal key iv input w = zf_aes256_cbc_crypt hal key iv input False w"

definition zf_aes256_cbc_decrypt ::
  "'w hal \<Rightarrow> bytes \<Rightarrow> bytes \<Rightarrow> bytes \<Rightarrow> 'w \<Rightarrow> bytes option \<times> 'w" where
  "zf_aes256_cbc_decrypt hal key iv input w = zf_aes256_cbc_crypt hal key iv input True w"

definition zf_aes256_cbc_zero_iv_encrypt ::
  "'w hal \<Rightarrow> bytes \<Rightarrow> bytes \<Rightarrow> 'w \<Rightarrow> bytes option \<times> 'w" where
  "zf_aes256_cbc_zero_iv_encrypt hal key input w =
    zf_aes256_cbc_encrypt hal key (replicate 16 0) input w"

definition zf_aes256_cbc_zero_iv_decrypt ::
  "'w hal \<Rightarrow> bytes \<Rightarrow> bytes \<Rightarrow> 'w \<Rightarrow> bytes option \<times> 'w" where
  "zf_aes256_cbc_zero_iv_decrypt hal key input w =
    zf_aes256_cbc_decrypt hal key (replicate 16 0) input w"

section \<open>P-256 adapter\<close>

record ZfP256KeyAgreementKey =
  ka_private_key :: bytes
  ka_public_x :: bytes
  ka_public_y :: bytes

definition zf_p256_order :: bytes where
  "zf_p256_order =
    [0xFF, 0xFF, 0xFF, 0xFF, 0x00, 0x00, 0x00, 0x00, 0xFF, 0xFF, 0xFF, 0xFF, 0xFF, 0xFF, 0xFF, 0xFF,
     0xBC, 0xE6, 0xFA, 0xAD, 0xA7, 0x17, 0x9E, 0x84, 0xF3, 0xB9, 0xCA, 0xC2, 0xFC, 0x63, 0x25, 0x51]"

text \<open>\<open>memcmp(a, b, n) < 0\<close> on equally long byte strings.\<close>

fun memcmp_less :: "bytes \<Rightarrow> bytes \<Rightarrow> bool" where
  "memcmp_less (a # as) (b # bs) \<longleftrightarrow> a < b \<or> (a = b \<and> memcmp_less as bs)"
| "memcmp_less _ _ \<longleftrightarrow> False"

definition zf_p256_private_key_valid :: "bytes \<Rightarrow> bool" where
  "zf_p256_private_key_valid private_key =
    (if list_all (\<lambda>b. b = 0) private_key then False else memcmp_less private_key zf_p256_order)"

definition zf_p256_generate_keypair ::
  "'w hal \<Rightarrow> 'w \<Rightarrow> (bytes \<times> bytes \<times> bytes) option \<times> 'w" where
  "zf_p256_generate_keypair hal w =
    (case uECC_make_key hal w of
       (None, w) \<Rightarrow> (None, w)
     | (Some (public_key, private_key), w) \<Rightarrow>
        (Some (private_key, take 32 public_key, drop 32 public_key), w))"

definition zf_p256_public_key_valid :: "'w hal \<Rightarrow> bytes \<Rightarrow> bytes \<Rightarrow> bool" where
  "zf_p256_public_key_valid hal x y = uECC_valid_public_key hal (x @ y)"

definition zf_p256_ecdh_raw_secret ::
  "'w hal \<Rightarrow> ZfP256KeyAgreementKey \<Rightarrow> bytes \<Rightarrow> bytes \<Rightarrow> 'w \<Rightarrow> bytes option \<times> 'w" where
  "zf_p256_ecdh_raw_secret hal key peer_x peer_y w =
    (if \<not> zf_p256_private_key_valid (ka_private_key key) then (None, w)
     else if \<not> uECC_valid_public_key hal (peer_x @ peer_y) then (None, w)
     else uECC_shared_secret hal (peer_x @ peer_y) (ka_private_key key) w)"

definition zf_p256_sign_hash_raw :: "'w hal \<Rightarrow> bytes \<Rightarrow> bytes \<Rightarrow> 'w \<Rightarrow> bytes option \<times> 'w" where
  "zf_p256_sign_hash_raw hal private_key hash w =
    (if \<not> zf_p256_private_key_valid private_key then (None, w)
     else uECC_sign hal private_key hash w)"

definition zf_p256_compute_public_key :: "'w hal \<Rightarrow> bytes \<Rightarrow> (bytes \<times> bytes) option" where
  "zf_p256_compute_public_key hal private_key =
    (if \<not> zf_p256_private_key_valid private_key then None
     else map_option (\<lambda>public_key. (take 32 public_key, drop 32 public_key))
       (uECC_compute_public_key hal private_key))"

definition zf_p256_verify_hash_raw ::
  "'w hal \<Rightarrow> bytes \<Rightarrow> bytes \<Rightarrow> bytes \<Rightarrow> bytes \<Rightarrow> bool" where
  "zf_p256_verify_hash_raw hal public_x public_y hash raw_signature \<longleftrightarrow>
    uECC_valid_public_key hal (public_x @ public_y) \<and>
    uECC_verify hal (public_x @ public_y) hash raw_signature"

definition zf_crypto_generate_key_agreement_key ::
  "'w hal \<Rightarrow> 'w \<Rightarrow> ZfP256KeyAgreementKey option \<times> 'w" where
  "zf_crypto_generate_key_agreement_key hal w =
    (case zf_p256_generate_keypair hal w of
       (None, w) \<Rightarrow> (None, w)
     | (Some (priv, x, y), w) \<Rightarrow>
        (Some \<lparr>ka_private_key = priv, ka_public_x = x, ka_public_y = y\<rparr>, w))"

definition zf_crypto_ecdh_shared_secret ::
  "'w hal \<Rightarrow> ZfP256KeyAgreementKey \<Rightarrow> bytes \<Rightarrow> bytes \<Rightarrow> 'w \<Rightarrow> bytes option \<times> 'w" where
  "zf_crypto_ecdh_shared_secret hal key peer_x peer_y w =
    (case zf_p256_ecdh_raw_secret hal key peer_x peer_y w of
       (None, w) \<Rightarrow> (None, w)
     | (Some secret_x, w) \<Rightarrow> (Some (zf_crypto_sha256 secret_x), w))"

section \<open>Facts\<close>

lemma bswap_length [simp]: "length (zf_aes_bswap_words d) = length d"
  by (induction d rule: zf_aes_bswap_words.induct) simp_all

lemma bswap_bswap: "length d mod 4 = 0 \<Longrightarrow> zf_aes_bswap_words (zf_aes_bswap_words d) = d"
  by (induction d rule: zf_aes_bswap_words.induct) simp_all

text \<open>The adapter is inverse to itself whenever the engine is.\<close>

lemma aes_roundtrip:
  assumes "\<And>key iv d w c. fst (hal_aes_encrypt hal key iv d w) = Some c \<Longrightarrow>
      length c = length d \<and> (\<forall>w'. fst (hal_aes_decrypt hal key iv c w') = Some d)"
    and "fst (zf_aes256_cbc_encrypt hal key iv d w) = Some c"
  shows "fst (zf_aes256_cbc_decrypt hal key iv c w') = Some d"
proof -
  let ?d = "zf_aes_bswap_words d"
  from assms(2) obtain c0 where c0: "fst (hal_aes_encrypt hal (zf_aes_bswap_words key)
      (zf_aes_bswap_words iv) ?d w) = Some c0" "c = zf_aes_bswap_words c0"
    and len: "length d \<noteq> 0" "length d \<le> 128" "length d mod 16 = 0"
    by (auto simp: zf_aes256_cbc_encrypt_def zf_aes256_cbc_crypt_def Let_def split: if_splits)
  from assms(1) [OF c0(1)] have c0': "length c0 = length d"
    "fst (hal_aes_decrypt hal (zf_aes_bswap_words key) (zf_aes_bswap_words iv) c0 w') = Some ?d"
    by auto
  have m4: "length d mod 4 = 0" using len(3) by presburger
  with c0' c0 len show ?thesis
    by (simp add: zf_aes256_cbc_decrypt_def zf_aes256_cbc_crypt_def Let_def bswap_bswap)
qed

end
