(* ===== verification/Storage.thy ===== *)
theory Storage
  imports Hal
begin

text \<open>
  \<^verbatim>\<open>zerofido_storage.c\<close>: path helpers, whole-file reads, and the atomic replacement of a file
  through a temporary file and a backup copy. Allocating a file handle does not fail in this
  firmware, so it has no counterpart. The main result is that a replacement is atomic on every medium
  that obeys \<open>storage_lawful\<close>, whatever subset of the file operations fails: after it the file,
  as recovery sees it, holds the old or the new contents, and the new ones when it reports success.
  Losing power after any operation is the case in which all later operations fail.
\<close>

section \<open>Operations\<close>

definition ZF_APP_DATA_ROOT :: path where "ZF_APP_DATA_ROOT = ''/ext/apps_data''"
definition ZF_APP_DATA_DIR :: path where "ZF_APP_DATA_DIR = ''/ext/apps_data/zerofido''"
definition ZF_STORAGE_PATH_BUFFER_SIZE :: nat where "ZF_STORAGE_PATH_BUFFER_SIZE = 192"
definition ZF_STORAGE_BACKUP_SUFFIX :: path where "ZF_STORAGE_BACKUP_SUFFIX = ''.bak''"

definition zf_storage_ensure_dir :: "'w hal \<Rightarrow> path \<Rightarrow> 'w \<Rightarrow> bool \<times> 'w" where
  "zf_storage_ensure_dir hal p w =
    (if fs_dir_exists hal p w then (True, w) else fs_mkdir hal p w)"

definition zf_storage_ensure_app_data_dir :: "'w hal \<Rightarrow> 'w \<Rightarrow> bool \<times> 'w" where
  "zf_storage_ensure_app_data_dir hal w =
    and_then (zf_storage_ensure_dir hal ZF_APP_DATA_ROOT w) (zf_storage_ensure_dir hal ZF_APP_DATA_DIR)"

definition zf_storage_remove_optional :: "'w hal \<Rightarrow> path \<Rightarrow> 'w \<Rightarrow> bool \<times> 'w" where
  "zf_storage_remove_optional hal p w =
    (let r = fs_remove hal p w in (fst r = FSE_OK \<or> fst r = FSE_NOT_EXIST, snd r))"

fun zf_storage_remove_optional_paths :: "'w hal \<Rightarrow> path list \<Rightarrow> 'w \<Rightarrow> bool \<times> 'w" where
  "zf_storage_remove_optional_paths hal [] w = (True, w)"
| "zf_storage_remove_optional_paths hal (p # ps) w =
    and_then (zf_storage_remove_optional hal p w) (zf_storage_remove_optional_paths hal ps)"

definition zf_storage_build_child_path :: "path \<Rightarrow> path \<Rightarrow> nat \<Rightarrow> path option" where
  "zf_storage_build_child_path dir_path name path_size =
    (if path_size = 0 then None
     else let needs_separator = dir_path \<noteq> [] \<and> last dir_path \<noteq> CHR ''/'' in
       if length dir_path + (if needs_separator then 1 else 0) + length name + 1 > path_size then None
       else Some (dir_path @ (if needs_separator then ''/'' else []) @ name))"

definition zf_storage_read_file :: "'w hal \<Rightarrow> path \<Rightarrow> nat \<Rightarrow> 'w \<Rightarrow> bytes option \<times> 'w" where
  "zf_storage_read_file hal p capacity w =
    (if capacity = 0 then (None, w)
     else case fs_read hal p w of
       (None, w) \<Rightarrow> (None, w)
     | (Some data, w) \<Rightarrow>
        if length data > 0 \<and> length data \<le> capacity then (Some data, w) else (None, w))"

definition zf_storage_build_suffixed_path :: "path \<Rightarrow> path \<Rightarrow> nat \<Rightarrow> path option" where
  "zf_storage_build_suffixed_path p suffix out_size =
    (if out_size = 0 then None
     else if length p = 0 \<or> length suffix \<ge> out_size \<or> length p > out_size - length suffix - 1
     then None
     else Some (p @ suffix))"

definition zf_storage_backup_path :: "path \<Rightarrow> path option" where
  "zf_storage_backup_path p =
    zf_storage_build_suffixed_path p ZF_STORAGE_BACKUP_SUFFIX ZF_STORAGE_PATH_BUFFER_SIZE"

definition zf_storage_recover_atomic_file :: "'w hal \<Rightarrow> path \<Rightarrow> path \<Rightarrow> 'w \<Rightarrow> bool \<times> 'w" where
  "zf_storage_recover_atomic_file hal p temp_path w =
    (case zf_storage_backup_path p of
       None \<Rightarrow> (False, w)
     | Some backup_path \<Rightarrow>
        let primary_exists = fs_exists hal p w;
            backup_exists = fs_exists hal backup_path w
        in if \<not> primary_exists \<and> backup_exists then
             (let r = fs_rename hal backup_path p w in
              if fst r \<noteq> FSE_OK then (False, snd (zf_storage_remove_optional hal temp_path (snd r)))
              else let w = snd (zf_storage_remove_optional hal backup_path (snd r));
                       w = snd (zf_storage_remove_optional hal temp_path w)
                   in (True, w))
           else let w = (if primary_exists then snd (zf_storage_remove_optional hal backup_path w)
                         else w);
                    w = snd (zf_storage_remove_optional hal temp_path w)
                in (True, w))"

definition zf_storage_remove_atomic_file :: "'w hal \<Rightarrow> path \<Rightarrow> path \<Rightarrow> 'w \<Rightarrow> bool \<times> 'w" where
  "zf_storage_remove_atomic_file hal p temp_path w =
    (case zf_storage_backup_path p of
       None \<Rightarrow> (False, w)
     | Some backup_path \<Rightarrow>
        and_then (zf_storage_remove_optional hal temp_path w) (\<lambda>w.
        and_then (zf_storage_remove_optional hal backup_path w) (\<lambda>w.
        zf_storage_remove_optional hal p w)))"

text \<open>The result carries the out parameter \<open>backup_active\<close>.\<close>

definition zf_storage_prepare_atomic_backup ::
  "'w hal \<Rightarrow> path \<Rightarrow> path \<Rightarrow> 'w \<Rightarrow> (bool \<times> bool) \<times> 'w" where
  "zf_storage_prepare_atomic_backup hal p backup_path w =
    (if \<not> fs_exists hal p w then ((True, False), w)
     else let r = zf_storage_remove_optional hal backup_path w in
       if \<not> fst r then ((False, False), snd r)
       else let r = fs_copy hal p backup_path (snd r) in
         if fst r \<noteq> FSE_OK then ((False, False), snd r) else ((True, True), snd r))"

definition zf_storage_publish_atomic_temp :: "'w hal \<Rightarrow> path \<Rightarrow> path \<Rightarrow> 'w \<Rightarrow> bool \<times> 'w" where
  "zf_storage_publish_atomic_temp hal p temp_path w =
    (case zf_storage_backup_path p of
       None \<Rightarrow> (False, snd (zf_storage_remove_optional hal temp_path w))
     | Some backup_path \<Rightarrow>
        (case zf_storage_prepare_atomic_backup hal p backup_path w of
           ((False, _), w) \<Rightarrow> (False, snd (zf_storage_remove_optional hal temp_path w))
         | ((True, backup_active), w) \<Rightarrow>
            let r = fs_rename hal temp_path p w in
            if fst r = FSE_OK then
              let w = (if backup_active then snd (zf_storage_remove_optional hal backup_path (snd r))
                       else snd r)
              in (True, snd (fs_remove hal temp_path w))
            else (False, snd (zf_storage_recover_atomic_file hal p temp_path (snd r)))))"

definition zf_storage_write_file_atomic ::
  "'w hal \<Rightarrow> path \<Rightarrow> path \<Rightarrow> bytes \<Rightarrow> 'w \<Rightarrow> bool \<times> 'w" where
  "zf_storage_write_file_atomic hal p temp_path data w =
    (if length data = 0 then (False, w)
     else let r = zf_storage_recover_atomic_file hal p temp_path w in
       if \<not> fst r then (False, snd r)
       else let w = snd (fs_remove hal temp_path (snd r));
                wr = fs_write hal temp_path data w;
                r = (if fst wr = Some (length data)
                     then zf_storage_publish_atomic_temp hal p temp_path (snd wr)
                     else (False, snd wr))
            in (fst r, snd (fs_remove hal temp_path (snd r))))"

section \<open>Lawful media\<close>

text \<open>
  What the code relies on, with \<open>content\<close> the files of a medium. A removal that fails leaves the
  medium alone; a rename is atomic; a write or a copy that fails may leave anything in its target
  (a torn file), but nowhere else. Whether an operation fails is up to the medium.
\<close>

definition storage_lawful :: "'w hal \<Rightarrow> ('w \<Rightarrow> path \<rightharpoonup> bytes) \<Rightarrow> bool" where
  "storage_lawful hal content \<longleftrightarrow>
    (\<forall>p w. fs_exists hal p w \<longleftrightarrow> content w p \<noteq> None) \<and>
    (\<forall>p w. content (snd (fs_mkdir hal p w)) = content w) \<and>
    (\<forall>p w. content (snd (fs_read hal p w)) = content w \<and>
      (\<forall>d. fst (fs_read hal p w) = Some d \<longrightarrow> content w p = Some d)) \<and>
    (\<forall>p w. (fst (fs_remove hal p w) = FSE_OK \<longrightarrow>
        content (snd (fs_remove hal p w)) = (content w)(p := None)) \<and>
      (fst (fs_remove hal p w) \<noteq> FSE_OK \<longrightarrow> content (snd (fs_remove hal p w)) = content w) \<and>
      (fst (fs_remove hal p w) = FSE_NOT_EXIST \<longrightarrow> content w p = None)) \<and>
    (\<forall>p q w. (fst (fs_rename hal p q w) = FSE_OK \<longrightarrow>
        content w p \<noteq> None \<and>
        content (snd (fs_rename hal p q w)) = (content w)(q := content w p, p := None)) \<and>
      (fst (fs_rename hal p q w) \<noteq> FSE_OK \<longrightarrow> content (snd (fs_rename hal p q w)) = content w)) \<and>
    (\<forall>p q w. (fst (fs_copy hal p q w) = FSE_OK \<longrightarrow>
        content (snd (fs_copy hal p q w)) = (content w)(q := content w p)) \<and>
      (\<exists>d. content (snd (fs_copy hal p q w)) = (content w)(q := d))) \<and>
    (\<forall>p data w. (fst (fs_write hal p data w) = Some (length data) \<longrightarrow>
        content (snd (fs_write hal p data w)) = (content w)(p := Some data)) \<and>
      (\<exists>d. content (snd (fs_write hal p data w)) = (content w)(p := d)))"

lemma lawful_remove:
  assumes "storage_lawful hal content"
  shows "content (snd (fs_remove hal p w)) = (content w)(p := None) \<or>
      content (snd (fs_remove hal p w)) = content w \<and> fst (fs_remove hal p w) = FSE_FAILED"
  using assms unfolding storage_lawful_def
  by (cases "fst (fs_remove hal p w)") (auto simp: fun_upd_idem)

lemma lawful_remove_optional:
  assumes "storage_lawful hal content"
  shows "content (snd (zf_storage_remove_optional hal p w)) = (content w)(p := None) \<or>
      content (snd (zf_storage_remove_optional hal p w)) = content w \<and>
      \<not> fst (zf_storage_remove_optional hal p w)"
  using lawful_remove [OF assms, of p w] by (auto simp: zf_storage_remove_optional_def Let_def)

lemma lawful_write:
  assumes "storage_lawful hal content"
  shows "fst (fs_write hal p data w) = Some (length data) \<Longrightarrow>
      content (snd (fs_write hal p data w)) = (content w)(p := Some data)"
    and "\<exists>d. content (snd (fs_write hal p data w)) = (content w)(p := d)"
  using assms by (simp_all add: storage_lawful_def)

text \<open>A removal changes at most the removed path.\<close>

lemma lawful_remove_other:
  assumes "storage_lawful hal content" and "q \<noteq> p"
  shows "content (snd (fs_remove hal p w)) q = content w q"
    and "content (snd (zf_storage_remove_optional hal p w)) q = content w q"
  using lawful_remove [OF assms(1), of p w] lawful_remove_optional [OF assms(1), of p w] assms(2)
  by auto

text \<open>The contents recovery would restore: the file itself, or else its backup.\<close>

definition recovered :: "(path \<rightharpoonup> bytes) \<Rightarrow> path \<Rightarrow> path \<Rightarrow> bytes option" where
  "recovered files p backup = (case files p of Some d \<Rightarrow> Some d | None \<Rightarrow> files backup)"

lemma recovered_other:
  "q \<noteq> p \<Longrightarrow> q \<noteq> b \<Longrightarrow> recovered (files(q := d)) p b = recovered files p b"
  by (simp add: recovered_def split: option.split)

lemma recover_keeps:
  assumes lawful: "storage_lawful hal content" and bak: "zf_storage_backup_path p = Some b"
    and distinct: "distinct [p, temp, b]"
    and r: "zf_storage_recover_atomic_file hal p temp w = (ok, w')"
  shows "recovered (content w') p b = recovered (content w) p b"
    and "ok \<Longrightarrow> content w' p = recovered (content w) p b"
    and "ok \<Longrightarrow> content w p = None \<Longrightarrow> content w b = None \<Longrightarrow> content w' b = None"
proof -
  have ex: "fs_exists hal q v \<longleftrightarrow> content v q \<noteq> None" for q v
    using lawful by (simp add: storage_lawful_def)
  have rename: "fst (fs_rename hal b p w) = FSE_OK \<Longrightarrow>
      content (snd (fs_rename hal b p w)) = (content w)(p := content w b, b := None)"
    "fst (fs_rename hal b p w) \<noteq> FSE_OK \<Longrightarrow> content (snd (fs_rename hal b p w)) = content w"
    using lawful by (simp_all add: storage_lawful_def)
  note other = lawful_remove_other [OF lawful]
  have ne: "p \<noteq> temp" "p \<noteq> b" "b \<noteq> p" "b \<noteq> temp" "temp \<noteq> p" "temp \<noteq> b" using distinct by auto
  have p': "content (snd (zf_storage_remove_optional hal b v)) p = content v p"
    "content (snd (zf_storage_remove_optional hal temp v)) p = content v p"
    "content (snd (zf_storage_remove_optional hal temp v)) b = content v b" for v
    using other ne by auto
  show "recovered (content w') p b = recovered (content w) p b"
    using r bak rename ne
    by (auto simp: zf_storage_recover_atomic_file_def Let_def ex recovered_def p'
        split: if_splits option.splits)
  show "ok \<Longrightarrow> content w' p = recovered (content w) p b"
    using r bak rename ne
    by (auto simp: zf_storage_recover_atomic_file_def Let_def ex recovered_def p'
        split: if_splits option.splits)
  show "ok \<Longrightarrow> content w p = None \<Longrightarrow> content w b = None \<Longrightarrow> content w' b = None"
    using r bak ne
    by (auto simp: zf_storage_recover_atomic_file_def Let_def ex p' split: if_splits option.splits)
qed

section \<open>Atomic replacement\<close>

lemma prepare_keeps:
  assumes lawful: "storage_lawful hal content" and ne: "p \<noteq> b" "temp \<noteq> b" "temp \<noteq> p"
    and r: "zf_storage_prepare_atomic_backup hal p b w = ((ok, active), w')"
  shows "recovered (content w') p b = recovered (content w) p b \<and> content w' temp = content w temp"
proof -
  have ex: "fs_exists hal q v \<longleftrightarrow> content v q \<noteq> None" for q v
    using lawful by (simp add: storage_lawful_def)
  have copy: "\<exists>d. content (snd (fs_copy hal p b v)) = (content v)(b := d)" for v
    using lawful by (simp add: storage_lawful_def)
  have rem: "content (snd (zf_storage_remove_optional hal b w)) q = content w q" if "q \<noteq> b" for q
    using lawful_remove_other(2) [OF lawful that] .
  show ?thesis
  proof (cases "content w p")
    case None
    with r show ?thesis by (auto simp: zf_storage_prepare_atomic_backup_def ex)
  next
    case (Some a)
    have "content w' q = content w q" if "q \<noteq> b" for q
      using r Some rem [OF that] copy [of "snd (zf_storage_remove_optional hal b w)"] that
      by (auto simp: zf_storage_prepare_atomic_backup_def ex Let_def split: if_splits)
    with ne Some show ?thesis by (simp add: recovered_def)
  qed
qed

lemma publish_atomic:
  assumes lawful: "storage_lawful hal content" and bak: "zf_storage_backup_path p = Some b"
    and distinct: "distinct [p, temp, b]" and temp: "content w temp = Some data"
    and r: "zf_storage_publish_atomic_temp hal p temp w = (ok, w')"
  shows "recovered (content w') p b \<in> {recovered (content w) p b, Some data} \<and>
    (ok \<longrightarrow> content w' p = Some data)"
proof -
  have ne: "p \<noteq> temp" "p \<noteq> b" "b \<noteq> p" "b \<noteq> temp" "temp \<noteq> p" "temp \<noteq> b" using distinct by auto
  note other = lawful_remove_other [OF lawful]
  obtain prepared active w1 where
    prep: "zf_storage_prepare_atomic_backup hal p b w = ((prepared, active), w1)"
    by (metis surj_pair)
  from prepare_keeps [OF lawful _ _ _ prep, of temp] ne temp
  have kept: "recovered (content w1) p b = recovered (content w) p b" "content w1 temp = Some data"
    by auto
  show ?thesis
  proof (cases "prepared \<and> fst (fs_rename hal temp p w1) = FSE_OK")
    case True
    then have "content (snd (fs_rename hal temp p w1)) = (content w1)(p := Some data, temp := None)"
      using lawful kept by (simp add: storage_lawful_def)
    moreover have "ok" "content w' p = content (snd (fs_rename hal temp p w1)) p"
      using r bak prep True ne other
      by (auto simp: zf_storage_publish_atomic_temp_def Let_def split: if_splits)
    ultimately show ?thesis using ne by (simp add: recovered_def)
  next
    case False
    have same: "prepared \<Longrightarrow> content (snd (fs_rename hal temp p w1)) = content w1"
      using lawful False by (simp add: storage_lawful_def)
    have "\<not> ok \<and> recovered (content w') p b = recovered (content w1) p b"
    proof (cases prepared)
      case True
      with r bak prep False have "\<not> ok" "zf_storage_recover_atomic_file hal p temp
          (snd (fs_rename hal temp p w1)) = (fst (zf_storage_recover_atomic_file hal p temp
          (snd (fs_rename hal temp p w1))), w')"
        by (auto simp: zf_storage_publish_atomic_temp_def Let_def split: if_splits)
      with recover_keeps(1) [OF lawful bak distinct this(2)] same [OF True] show ?thesis by simp
    next
      case False
      with r bak prep have "\<not> ok" "w' = snd (zf_storage_remove_optional hal temp w1)"
        by (auto simp: zf_storage_publish_atomic_temp_def)
      then show ?thesis using other(2) [OF ne(1)] other(2) [OF ne(4)] by (simp add: recovered_def split: option.split)
    qed
    with kept show ?thesis by simp
  qed
qed

lemma write_atomic:
  assumes lawful: "storage_lawful hal content" and bak: "zf_storage_backup_path p = Some b"
    and distinct: "distinct [p, temp, b]"
    and r: "zf_storage_write_file_atomic hal p temp data w = (ok, w')"
  shows "recovered (content w') p b \<in> {recovered (content w) p b, Some data} \<and>
    (ok \<longrightarrow> content w' p = Some data)"
proof -
  have ne: "p \<noteq> temp" "p \<noteq> b" "b \<noteq> p" "b \<noteq> temp" "temp \<noteq> p" "temp \<noteq> b" using distinct by auto
  have clean: "recovered (content (snd (fs_remove hal temp v))) p b = recovered (content v) p b"
    "content (snd (fs_remove hal temp v)) p = content v p" for v
    using lawful_remove_other(1) [OF lawful ne(1)] lawful_remove_other(1) [OF lawful ne(4)]
    by (simp_all add: recovered_def split: option.split)
  obtain ok1 w1 where rec: "zf_storage_recover_atomic_file hal p temp w = (ok1, w1)"
    by (metis surj_pair)
  note rec1 = recover_keeps(1) [OF lawful bak distinct rec]
  let ?w2 = "snd (fs_remove hal temp w1)"
  let ?wr = "fs_write hal temp data ?w2"
  obtain d where wr1: "content (snd ?wr) = (content ?w2)(temp := d)"
    using lawful_write(2) [OF lawful] by blast
  note wr = wr1 lawful_write(1) [OF lawful, of temp data ?w2]
  have keep: "recovered (content (snd ?wr)) p b = recovered (content w) p b"
    using wr(1) ne clean(1) [of w1] rec1 by (simp add: recovered_other)
  show ?thesis
  proof (cases "data = [] \<or> \<not> ok1 \<or> fst ?wr \<noteq> Some (length data)")
    case True
    with r rec rec1 keep clean(1) [of "snd ?wr"] show ?thesis
      by (auto simp: zf_storage_write_file_atomic_def Let_def split: if_splits)
  next
    case False
    obtain ok3 w3 where pub: "zf_storage_publish_atomic_temp hal p temp (snd ?wr) = (ok3, w3)"
      by (metis surj_pair)
    have "ok = ok3" "w' = snd (fs_remove hal temp w3)"
      using r rec pub False by (auto simp: zf_storage_write_file_atomic_def Let_def)
    with publish_atomic [OF lawful bak distinct _ pub, of data] wr(2) False keep clean [of w3]
    show ?thesis by simp
  qed
qed

lemma remove_atomic_gone:
  assumes lawful: "storage_lawful hal content" and bak: "zf_storage_backup_path p = Some b"
    and distinct: "distinct [p, temp, b]"
    and r: "zf_storage_remove_atomic_file hal p temp w = (True, w')"
  shows "content w' p = None \<and> content w' b = None \<and> content w' temp = None"
proof -
  have gone: "content (snd (zf_storage_remove_optional hal q v)) q = None"
    if "fst (zf_storage_remove_optional hal q v)" for q v
    using lawful_remove_optional [OF lawful, of q v] that by auto
  note other = lawful_remove_other(2) [OF lawful]
  from r bak have
    "fst (zf_storage_remove_optional hal temp w)"
    "fst (zf_storage_remove_optional hal b (snd (zf_storage_remove_optional hal temp w)))"
    "zf_storage_remove_optional hal p (snd (zf_storage_remove_optional hal b
      (snd (zf_storage_remove_optional hal temp w)))) = (True, w')"
    by (auto simp: zf_storage_remove_atomic_file_def and_then_def split: if_splits)
  with gone other distinct show ?thesis
    by (metis distinct_length_2_or_more distinct_singleton fst_conv snd_conv)
qed

section \<open>Atomic files\<close>

text \<open>
  The contract of a file that is only ever written through its temporary file. The client modules (the
  PIN file, the runtime configuration) provide the two paths; what survives a write, an interrupted
  write and a recovery is proved here once.
\<close>

locale atomic_file =
  fixes p temp :: path
  assumes paths: "\<exists>b. zf_storage_backup_path p = Some b \<and> distinct [p, temp, b]"
begin

lemma recover_present:
  assumes lawful: "storage_lawful hal content" and d: "content w p = Some d"
  shows "fst (zf_storage_recover_atomic_file hal p temp w) \<and>
    content (snd (zf_storage_recover_atomic_file hal p temp w)) p = Some d"
proof -
  obtain b where b: "zf_storage_backup_path p = Some b" "distinct [p, temp, b]"
    using paths by blast
  have "fs_exists hal p w" using lawful d by (simp add: storage_lawful_def)
  then obtain w' where rec: "zf_storage_recover_atomic_file hal p temp w = (True, w')"
    using b by (auto simp: zf_storage_recover_atomic_file_def Let_def)
  show ?thesis
    using recover_keeps(2) [OF lawful b rec] rec d by (simp add: recovered_def)
qed

lemma written_present:
  assumes "storage_lawful hal content" and "zf_storage_write_file_atomic hal p temp data w = (True, w')"
  shows "content w' p = Some data"
  using write_atomic [OF assms(1) _ _ assms(2)] paths by blast

lemma write_all_or_nothing:
  assumes "storage_lawful hal content" and "zf_storage_write_file_atomic hal p temp data w = (ok, w')"
    and "zf_storage_recover_atomic_file hal p temp w' = (True, w'')"
  shows "\<exists>b. zf_storage_backup_path p = Some b \<and>
    content w'' p \<in> {recovered (content w) p b, Some data}"
proof -
  obtain b where b: "zf_storage_backup_path p = Some b" "distinct [p, temp, b]"
    using paths by blast
  then show ?thesis
    using write_atomic [OF assms(1) b assms(2)] recover_keeps(2) [OF assms(1) b assms(3)] by auto
qed

lemma removed_absent:
  assumes "storage_lawful hal content" and "zf_storage_remove_atomic_file hal p temp w = (True, w')"
    and "zf_storage_recover_atomic_file hal p temp w' = (ok, w'')"
  shows "content w'' p = None"
proof -
  obtain b where b: "zf_storage_backup_path p = Some b" "distinct [p, temp, b]"
    using paths by blast
  have gone: "content w' p = None" "content w' b = None"
    using remove_atomic_gone [OF assms(1) b assms(2)] by simp_all
  then have "recovered (content w'') p b = None"
    using recover_keeps(1) [OF assms(1) b assms(3)] by (simp add: recovered_def)
  then show ?thesis by (simp add: recovered_def split: option.splits)
qed

end

end
