(* ===== verification/Pin.thy ===== *)
theory Pin
  imports Storage Ctap_Parse_Exact
begin

text \<open>
  The client PIN state of \<^verbatim>\<open>zerofido_pin.h\<close> and the modules that own it: the sealed PIN file
  (\<^verbatim>\<open>pin/store/state_store.c\<close>), retry and block accounting (\<^verbatim>\<open>pin/core/retry.c\<close>), the token and the
  authorization check (\<^verbatim>\<open>pin/core/token.c\<close>), PIN policy (\<^verbatim>\<open>pin/core/plaintext.c\<close>), start-up and
  reset (\<^verbatim>\<open>pin/core/lifecycle.c\<close>) and the two PIN protocols (\<^verbatim>\<open>pin/protocol.c\<close>). Every operation
  takes the state and the world and returns its status with the state and world it leaves behind.
  Erasing locals has no counterpart. Diagnostics are compiled out.
\<close>

section \<open>State\<close>

record ZfClientPinState =
  pin_set :: bool
  pin_hash :: bytes
  pin_token :: bytes
  pin_token_active :: bool
  pin_token_issued_at :: u32
  pin_token_permissions :: u64
  pin_token_permissions_scoped :: bool
  pin_token_permissions_managed :: bool
  pin_token_permissions_rp_id_set :: bool
  pin_token_permissions_rp_id_hash :: bytes
  pin_retries :: byte
  pin_consecutive_mismatches :: byte
  pin_auth_blocked :: bool
  key_agreement :: ZfP256KeyAgreementKey

definition ZF_PIN_RETRIES_MAX :: byte where "ZF_PIN_RETRIES_MAX = 8"
definition ZF_PIN_HASH_LEN :: nat where "ZF_PIN_HASH_LEN = 16"
definition ZF_PIN_TOKEN_LEN :: nat where "ZF_PIN_TOKEN_LEN = 32"
definition ZF_PIN_AUTH_LEN :: nat where "ZF_PIN_AUTH_LEN = 16"
definition ZF_PIN_TOKEN_TIMEOUT_MS :: int where "ZF_PIN_TOKEN_TIMEOUT_MS = 30000"
definition ZF_WRAP_IV_LEN :: nat where "ZF_WRAP_IV_LEN = 16"
definition ZF_PIN_PERMISSION_MC :: u64 where "ZF_PIN_PERMISSION_MC = 0x01"
definition ZF_PIN_PERMISSION_GA :: u64 where "ZF_PIN_PERMISSION_GA = 0x02"

section \<open>The PIN file\<close>

definition ZF_PIN_FILE_PATH :: path
  where "ZF_PIN_FILE_PATH = ''/ext/apps_data/zerofido/client_pin_v2.bin''"
definition ZF_PIN_FILE_TEMP_PATH :: path
  where "ZF_PIN_FILE_TEMP_PATH = ''/ext/apps_data/zerofido/client_pin_v2.tmp''"
definition ZF_PIN_FILE_MAGIC :: u32 where "ZF_PIN_FILE_MAGIC = 0x50494E31"
definition ZF_PIN_FILE_VERSION :: byte where "ZF_PIN_FILE_VERSION = 1"
definition ZF_PIN_FILE_FLAG_AUTH_BLOCKED :: byte where "ZF_PIN_FILE_FLAG_AUTH_BLOCKED = 1"
definition ZF_PIN_RETRY_SEAL_MAGIC :: u32 where "ZF_PIN_RETRY_SEAL_MAGIC = 0x504E5231"

text \<open>Integers are stored little-endian; the structs have no padding (88 and 32 bytes).\<close>

definition le_bytes :: "nat \<Rightarrow> 'a::len word \<Rightarrow> bytes" where
  "le_bytes n v = rev (be_bytes n v)"

definition pin_file_record ::
  "byte \<Rightarrow> byte \<Rightarrow> byte \<Rightarrow> byte \<Rightarrow> bytes \<Rightarrow> bytes \<Rightarrow> bytes \<Rightarrow> bytes \<Rightarrow> bytes" where
  "pin_file_record version retries mismatches flags iv encrypted_pin_hash seal_iv encrypted_seal =
    le_bytes 4 ZF_PIN_FILE_MAGIC @ [version, retries, mismatches, flags] @ iv @ encrypted_pin_hash @
    seal_iv @ encrypted_seal"

definition zf_pin_compute_retry_state_digest :: "bytes \<Rightarrow> byte \<Rightarrow> byte \<Rightarrow> byte \<Rightarrow> bytes" where
  "zf_pin_compute_retry_state_digest hash retries mismatches flags =
    zf_crypto_sha256 (take ZF_PIN_HASH_LEN hash @ [retries, mismatches, flags])"

definition zf_pin_invalidate_persisted_state :: "'w hal \<Rightarrow> 'w \<Rightarrow> bool \<times> 'w" where
  "zf_pin_invalidate_persisted_state hal w =
    (let invalid_record = pin_file_record 0xFF 0 0 0 (replicate 16 0) (replicate 16 0)
           (replicate 16 0) (replicate 32 0);
         r = fs_write hal ZF_PIN_FILE_PATH invalid_record w
     in (fst r = Some (length invalid_record), snd r))"

definition zf_pin_seal_retry_state ::
  "'w hal \<Rightarrow> bytes \<Rightarrow> byte \<Rightarrow> byte \<Rightarrow> byte \<Rightarrow> 'w \<Rightarrow> (bytes \<times> bytes) option \<times> 'w" where
  "zf_pin_seal_retry_state hal hash retries mismatches flags w =
    (let digest = zf_pin_compute_retry_state_digest hash retries mismatches flags;
         plain = le_bytes 4 ZF_PIN_RETRY_SEAL_MAGIC @ [retries, mismatches, flags, 0] @ take 24 digest
     in case random_fill hal ZF_WRAP_IV_LEN w of (iv, w) \<Rightarrow>
        (case enclave_encrypt hal iv plain w of
           (None, w) \<Rightarrow> (None, w)
         | (Some sealed, w) \<Rightarrow> (Some (iv, sealed), w)))"

definition zf_pin_verify_retry_state ::
  "'w hal \<Rightarrow> bytes \<Rightarrow> byte \<Rightarrow> byte \<Rightarrow> byte \<Rightarrow> bytes \<Rightarrow> bytes \<Rightarrow> 'w \<Rightarrow> bool \<times> 'w" where
  "zf_pin_verify_retry_state hal hash retries mismatches flags iv sealed w =
    (case enclave_decrypt hal iv sealed w of
       (None, w) \<Rightarrow> (False, w)
     | (Some plain, w) \<Rightarrow>
        if take 4 plain \<noteq> le_bytes 4 ZF_PIN_RETRY_SEAL_MAGIC \<or> plain ! 4 \<noteq> retries \<or>
           plain ! 5 \<noteq> mismatches \<or> plain ! 6 \<noteq> flags \<or> plain ! 7 \<noteq> 0
        then (False, w)
        else (zf_crypto_constant_time_equal (take 24 (drop 8 plain))
               (take 24 (zf_pin_compute_retry_state_digest hash retries mismatches flags)), w))"

definition zf_pin_state_store_cleanup_temp :: "'w hal \<Rightarrow> 'w \<Rightarrow> 'w" where
  "zf_pin_state_store_cleanup_temp hal w =
    snd (zf_storage_recover_atomic_file hal ZF_PIN_FILE_PATH ZF_PIN_FILE_TEMP_PATH w)"

datatype ZfPinLoadStatus = ZfPinLoadMissing | ZfPinLoadOk | ZfPinLoadInvalid

text \<open>The out parameters: PIN hash, retries, consecutive mismatches, auth-blocked flag.\<close>

type_synonym pin_vars = "bytes \<times> byte \<times> byte \<times> bool"

definition zf_pin_state_store_load ::
  "'w hal \<Rightarrow> pin_vars \<Rightarrow> 'w \<Rightarrow> (ZfPinLoadStatus \<times> pin_vars) \<times> 'w" where
  "zf_pin_state_store_load hal vars w =
    (case zf_storage_read_file hal ZF_PIN_FILE_PATH 88 w of
       (None, w) \<Rightarrow>
         ((if fs_exists hal ZF_PIN_FILE_PATH w then ZfPinLoadInvalid else ZfPinLoadMissing, vars), w)
     | (Some raw, w) \<Rightarrow>
        let version = raw ! 4; retries = raw ! 5; mismatches = raw ! 6; flags = raw ! 7 in
        if length raw \<noteq> 88 then ((ZfPinLoadInvalid, vars), w)
        else if take 4 raw \<noteq> le_bytes 4 ZF_PIN_FILE_MAGIC then ((ZfPinLoadInvalid, vars), w)
        else if version \<noteq> ZF_PIN_FILE_VERSION \<or> retries > ZF_PIN_RETRIES_MAX \<or> mismatches > 3 \<or>
                flags AND NOT ZF_PIN_FILE_FLAG_AUTH_BLOCKED \<noteq> 0
        then ((ZfPinLoadInvalid, vars), w)
        else
          let blocked = flags AND ZF_PIN_FILE_FLAG_AUTH_BLOCKED \<noteq> 0 in
          (case enclave_decrypt hal (take 16 (drop 8 raw)) (take 16 (drop 24 raw)) w of
             (None, w) \<Rightarrow> ((ZfPinLoadInvalid, fst vars, retries, mismatches, blocked), w)
           | (Some hash, w) \<Rightarrow>
              (case zf_pin_verify_retry_state hal hash retries mismatches flags
                  (take 16 (drop 40 raw)) (take 32 (drop 56 raw)) w of
                 (ok, w) \<Rightarrow>
                   ((if ok then ZfPinLoadOk else ZfPinLoadInvalid, hash, retries, mismatches, blocked), w))))"

definition zf_pin_state_store_persist :: "'w hal \<Rightarrow> ZfClientPinState \<Rightarrow> 'w \<Rightarrow> bool \<times> 'w" where
  "zf_pin_state_store_persist hal state w =
    (let flags = (if pin_auth_blocked state then ZF_PIN_FILE_FLAG_AUTH_BLOCKED else 0) in
     if \<not> pin_set state then (True, w)
     else and_then (zf_storage_ensure_app_data_dir hal w) (\<lambda>w.
       case random_fill hal ZF_WRAP_IV_LEN w of (iv, w) \<Rightarrow>
       (case enclave_encrypt hal iv (pin_hash state) w of
          (None, w) \<Rightarrow> (False, w)
        | (Some encrypted, w) \<Rightarrow>
           (case zf_pin_seal_retry_state hal (pin_hash state) (pin_retries state)
               (pin_consecutive_mismatches state) flags w of
              (None, w) \<Rightarrow> (False, w)
            | (Some (seal_iv, sealed), w) \<Rightarrow>
               zf_storage_write_file_atomic hal ZF_PIN_FILE_PATH ZF_PIN_FILE_TEMP_PATH
                 (pin_file_record ZF_PIN_FILE_VERSION (pin_retries state)
                   (pin_consecutive_mismatches state) flags iv encrypted seal_iv sealed) w))))"

definition zf_pin_state_store_clear :: "'w hal \<Rightarrow> 'w \<Rightarrow> bool \<times> 'w" where
  "zf_pin_state_store_clear hal w =
    zf_storage_remove_atomic_file hal ZF_PIN_FILE_PATH ZF_PIN_FILE_TEMP_PATH w"

definition zf_pin_state_store_fail_closed :: "'w hal \<Rightarrow> ZfClientPinState \<Rightarrow> 'w \<Rightarrow> bool \<times> 'w" where
  "zf_pin_state_store_fail_closed hal state w =
    (if \<not> pin_set state then (True, w)
     else let r = zf_pin_invalidate_persisted_state hal w in
       if fst r then (True, snd r)
       else zf_storage_remove_atomic_file hal ZF_PIN_FILE_PATH ZF_PIN_FILE_TEMP_PATH (snd r))"

section \<open>Token\<close>

definition zf_pin_hash_rp_id :: "bytes \<Rightarrow> bytes option" where
  "zf_pin_hash_rp_id rp_id = (if rp_id = [] then None else Some (zf_crypto_sha256 rp_id))"

definition zf_pin_refresh_pin_token :: "'w hal \<Rightarrow> 'w \<Rightarrow> bytes \<times> 'w" where
  "zf_pin_refresh_pin_token hal w = random_fill hal ZF_PIN_TOKEN_LEN w"

definition zf_pin_reset_token_metadata :: "ZfClientPinState \<Rightarrow> ZfClientPinState" where
  "zf_pin_reset_token_metadata s =
    s\<lparr>pin_token_active := False, pin_token_issued_at := 0, pin_token_permissions := 0,
      pin_token_permissions_scoped := False, pin_token_permissions_managed := False,
      pin_token_permissions_rp_id_set := False,
      pin_token_permissions_rp_id_hash := replicate 32 0\<rparr>"

definition zf_pin_invalidate_token_state :: "ZfClientPinState \<Rightarrow> ZfClientPinState" where
  "zf_pin_invalidate_token_state s =
    zf_pin_reset_token_metadata (s\<lparr>pin_token := replicate ZF_PIN_TOKEN_LEN 0\<rparr>)"

definition zf_pin_note_pin_token_issued :: "'w hal \<Rightarrow> 'w \<Rightarrow> ZfClientPinState \<Rightarrow> ZfClientPinState" where
  "zf_pin_note_pin_token_issued hal w s =
    s\<lparr>pin_token_active := True, pin_token_issued_at := furi_get_tick hal w\<rparr>"

text \<open>A missing RP id (a null pointer) is the empty string: both leave the token unscoped.\<close>

definition zf_pin_set_token_permissions ::
  "ZfClientPinState \<Rightarrow> u64 \<Rightarrow> bool \<Rightarrow> bool \<Rightarrow> bytes \<Rightarrow> ZfClientPinState" where
  "zf_pin_set_token_permissions s permissions permission_scoped permission_managed rp_id =
    s\<lparr>pin_token_permissions := permissions, pin_token_permissions_scoped := permission_scoped,
      pin_token_permissions_managed := permission_managed,
      pin_token_permissions_rp_id_set := (zf_pin_hash_rp_id rp_id \<noteq> None),
      pin_token_permissions_rp_id_hash :=
        (case zf_pin_hash_rp_id rp_id of Some h \<Rightarrow> h | None \<Rightarrow> replicate 32 0)\<rparr>"

definition zf_pin_token_rp_id_matches :: "ZfClientPinState \<Rightarrow> bytes \<Rightarrow> bool" where
  "zf_pin_token_rp_id_matches s rp_id =
    (case zf_pin_hash_rp_id rp_id of
       None \<Rightarrow> False
     | Some h \<Rightarrow>
        if pin_token_permissions_rp_id_set s
        then zf_crypto_constant_time_equal (pin_token_permissions_rp_id_hash s) h
        else True)"

text \<open>The tick difference wraps around and is read as a signed 32-bit number.\<close>

definition zf_pin_token_is_expired :: "'w hal \<Rightarrow> 'w \<Rightarrow> ZfClientPinState \<Rightarrow> bool" where
  "zf_pin_token_is_expired hal w s \<longleftrightarrow>
    sint (furi_get_tick hal w - pin_token_issued_at s) \<ge> ZF_PIN_TOKEN_TIMEOUT_MS"

definition zf_pin_uv_auth_param_len :: "u64 \<Rightarrow> nat" where
  "zf_pin_uv_auth_param_len pin_protocol =
    (if pin_protocol = ZF_PIN_PROTOCOL_V2 then ZF_PIN_AUTH_MAX_LEN else ZF_PIN_AUTH_LEN)"

definition zf_pin_consume_up_tested_permissions ::
  "ZfClientPinState \<Rightarrow> u64 \<Rightarrow> ZfClientPinState" where
  "zf_pin_consume_up_tested_permissions s required_permissions =
    (let up_tested = ZF_PIN_PERMISSION_MC OR ZF_PIN_PERMISSION_GA in
     if required_permissions AND up_tested = 0 then s
     else let s = s\<lparr>pin_token_permissions := pin_token_permissions s AND NOT up_tested\<rparr> in
       if pin_token_permissions s AND up_tested = 0 then
         s\<lparr>pin_token_permissions_scoped := False, pin_token_permissions_managed := False,
           pin_token_permissions_rp_id_set := False,
           pin_token_permissions_rp_id_hash := replicate 32 0\<rparr>
       else s)"

section \<open>Retry accounting\<close>

definition zf_pin_persist_state :: "'w hal \<Rightarrow> ZfClientPinState \<Rightarrow> 'w \<Rightarrow> bool \<times> 'w" where
  "zf_pin_persist_state hal state w = zf_pin_state_store_persist hal state w"

definition zf_pin_refresh_key_agreement :: "'w hal \<Rightarrow> 'w \<Rightarrow> ZfP256KeyAgreementKey option \<times> 'w" where
  "zf_pin_refresh_key_agreement hal w = zf_crypto_generate_key_agreement_key hal w"

definition zf_pin_clear_auth_block_state :: "ZfClientPinState \<Rightarrow> ZfClientPinState" where
  "zf_pin_clear_auth_block_state s = s\<lparr>pin_consecutive_mismatches := 0, pin_auth_blocked := False\<rparr>"

definition zf_pin_force_runtime_block :: "ZfClientPinState \<Rightarrow> ZfClientPinState" where
  "zf_pin_force_runtime_block s =
    zf_pin_invalidate_token_state
      (s\<lparr>pin_retries := 0, pin_consecutive_mismatches := 3, pin_auth_blocked := True\<rparr>)"

text \<open>Counting a mismatch, as both failure paths do.\<close>

definition count_mismatch :: "ZfClientPinState \<Rightarrow> ZfClientPinState" where
  "count_mismatch s =
    (let s = (if pin_consecutive_mismatches s < 0xFF
              then s\<lparr>pin_consecutive_mismatches := pin_consecutive_mismatches s + 1\<rparr> else s)
     in if pin_consecutive_mismatches s \<ge> 3 then s\<lparr>pin_auth_blocked := True\<rparr> else s)"

text \<open>Persisting the stricter state, or else poisoning the file, or else blocking at run time.\<close>

definition persist_or_block :: "'w hal \<Rightarrow> ZfClientPinState \<Rightarrow> 'w \<Rightarrow> ZfClientPinState \<times> 'w" where
  "persist_or_block hal s w =
    (let r = zf_pin_persist_state hal s w in
     if fst r then (s, snd r)
     else let r = zf_pin_state_store_fail_closed hal s (snd r) in
       if fst r then (s, snd r) else (zf_pin_force_runtime_block s, snd r))"

definition zf_pin_note_pin_auth_mismatch ::
  "'w hal \<Rightarrow> ZfClientPinState \<Rightarrow> 'w \<Rightarrow> ctap_status \<times> ZfClientPinState \<times> 'w" where
  "zf_pin_note_pin_auth_mismatch hal s w =
    (case persist_or_block hal (count_mismatch s) w of (s, w) \<Rightarrow>
      (if pin_auth_blocked s then ZF_CTAP_ERR_PIN_AUTH_BLOCKED else ZF_CTAP_ERR_PIN_AUTH_INVALID, s, w))"

definition zf_pin_auth_failure ::
  "'w hal \<Rightarrow> ZfClientPinState \<Rightarrow> 'w \<Rightarrow> ctap_status \<times> ZfClientPinState \<times> 'w" where
  "zf_pin_auth_failure hal s w =
    (if pin_auth_blocked s then (ZF_CTAP_ERR_PIN_AUTH_BLOCKED, s, w)
     else case zf_pin_refresh_key_agreement hal w of
       (None, w) \<Rightarrow> (ZF_CTAP_ERR_OTHER, s, w)
     | (Some key, w) \<Rightarrow>
        let s = s\<lparr>key_agreement := key\<rparr>;
            s = (if pin_retries s > 0 then s\<lparr>pin_retries := pin_retries s - 1\<rparr> else s)
        in case persist_or_block hal (count_mismatch s) w of (s, w) \<Rightarrow>
          (if pin_retries s = 0 then ZF_CTAP_ERR_PIN_BLOCKED
           else if pin_auth_blocked s then ZF_CTAP_ERR_PIN_AUTH_BLOCKED
           else ZF_CTAP_ERR_PIN_INVALID, s, w))"

definition zf_pin_auth_success ::
  "'w hal \<Rightarrow> ZfClientPinState \<Rightarrow> 'w \<Rightarrow> ctap_status \<times> ZfClientPinState \<times> 'w" where
  "zf_pin_auth_success hal s w =
    (let s' = zf_pin_clear_auth_block_state (s\<lparr>pin_retries := ZF_PIN_RETRIES_MAX\<rparr>);
         r = zf_pin_persist_state hal s' w
     in if fst r then (ZF_CTAP_SUCCESS, s', snd r)
        else (ZF_CTAP_ERR_OTHER,
              s'\<lparr>pin_retries := pin_retries s,
                 pin_consecutive_mismatches := pin_consecutive_mismatches s,
                 pin_auth_blocked := pin_auth_blocked s\<rparr>, snd r))"

definition zf_pin_verify_hash ::
  "'w hal \<Rightarrow> ZfClientPinState \<Rightarrow> bytes \<Rightarrow> 'w \<Rightarrow> ctap_status \<times> ZfClientPinState \<times> 'w" where
  "zf_pin_verify_hash hal s hash w =
    (if \<not> pin_set s then (ZF_CTAP_ERR_PIN_NOT_SET, s, w)
     else if pin_auth_blocked s then (ZF_CTAP_ERR_PIN_AUTH_BLOCKED, s, w)
     else if pin_retries s = 0 then (ZF_CTAP_ERR_PIN_BLOCKED, s, w)
     else if \<not> zf_crypto_constant_time_equal (take ZF_PIN_HASH_LEN hash) (take ZF_PIN_HASH_LEN (pin_hash s))
     then zf_pin_auth_failure hal s w
     else zf_pin_auth_success hal s w)"

definition zerofido_pin_resume_auth_attempts ::
  "'w hal \<Rightarrow> ZfClientPinState \<Rightarrow> 'w \<Rightarrow> bool \<times> ZfClientPinState \<times> 'w" where
  "zerofido_pin_resume_auth_attempts hal s w =
    (if \<not> pin_set s then (False, s, w)
     else if \<not> pin_auth_blocked s \<and> pin_consecutive_mismatches s = 0 then (True, s, w)
     else let s' = zf_pin_clear_auth_block_state s; r = zf_pin_persist_state hal s' w in
       if fst r then (True, s', snd r)
       else (False, s'\<lparr>pin_consecutive_mismatches := pin_consecutive_mismatches s,
                       pin_auth_blocked := pin_auth_blocked s\<rparr>, snd r))"

section \<open>Authorization of makeCredential and getAssertion\<close>

text \<open>The result: status, \<open>uv_verified\<close>, state, world.\<close>

definition zerofido_pin_require_auth ::
  "'w hal \<Rightarrow> ZfClientPinState \<Rightarrow> bool \<Rightarrow> bool \<Rightarrow> bytes \<Rightarrow> bytes \<Rightarrow> bool \<Rightarrow> u64 \<Rightarrow> bytes \<Rightarrow> u64 \<Rightarrow> 'w \<Rightarrow>
    ctap_status \<times> bool \<times> ZfClientPinState \<times> 'w" where
  "zerofido_pin_require_auth hal s uv_requested has_pin_auth client_data_hash pin_auth
      has_pin_protocol pin_protocol rp_id required_permissions w =
    (if has_pin_auth then
       (if \<not> has_pin_protocol then (ZF_CTAP_ERR_MISSING_PARAMETER, False, s, w)
        else if pin_protocol \<noteq> ZF_PIN_PROTOCOL_V1 \<and> pin_protocol \<noteq> ZF_PIN_PROTOCOL_V2
        then (ZF_CTAP_ERR_INVALID_PARAMETER, False, s, w)
        else if length pin_auth \<noteq> zf_pin_uv_auth_param_len pin_protocol
        then (ZF_CTAP_ERR_PIN_AUTH_INVALID, False, s, w)
        else if pin_auth_blocked s then (ZF_CTAP_ERR_PIN_AUTH_BLOCKED, False, s, w)
        else if \<not> pin_set s then (ZF_CTAP_ERR_PIN_NOT_SET, False, s, w)
        else if \<not> pin_token_active s then (ZF_CTAP_ERR_PIN_AUTH_INVALID, False, s, w)
        else if zf_pin_token_is_expired hal w s
        then (ZF_CTAP_ERR_PIN_TOKEN_EXPIRED, False, zf_pin_invalidate_token_state s, w)
        else
          let expected = zf_hmac_sha256 (pin_token s) client_data_hash in
          if \<not> zf_crypto_constant_time_equal
                (take (zf_pin_uv_auth_param_len pin_protocol) expected) pin_auth
          then (case zf_pin_note_pin_auth_mismatch hal s w of (status, s, w) \<Rightarrow> (status, False, s, w))
          else if pin_token_permissions s AND required_permissions \<noteq> required_permissions
          then (ZF_CTAP_ERR_PIN_AUTH_INVALID, False, s, w)
          else
            let scope = pin_token_permissions_scoped s \<and>
                  required_permissions AND (ZF_PIN_PERMISSION_MC OR ZF_PIN_PERMISSION_GA) \<noteq> 0 in
            if scope \<and> rp_id = [] then (ZF_CTAP_ERR_PIN_AUTH_INVALID, False, s, w)
            else if scope \<and> \<not> zf_pin_token_rp_id_matches s rp_id
            then (ZF_CTAP_ERR_PIN_AUTH_INVALID, False, s, w)
            else
              let s1 = (if scope \<and> \<not> pin_token_permissions_rp_id_set s
                        then zf_pin_set_token_permissions s (pin_token_permissions s)
                               (pin_token_permissions_scoped s) (pin_token_permissions_managed s) rp_id
                        else s);
                  s2 = zf_pin_clear_auth_block_state s1;
                  r = zf_pin_persist_state hal s2 w
              in if \<not> fst r then
                   (ZF_CTAP_ERR_OTHER, False,
                    s2\<lparr>pin_consecutive_mismatches := pin_consecutive_mismatches s1,
                       pin_auth_blocked := pin_auth_blocked s1\<rparr>, snd r)
                 else (ZF_CTAP_SUCCESS, True,
                       (if pin_token_permissions_managed s2
                        then zf_pin_consume_up_tested_permissions s2 required_permissions else s2),
                       snd r))
     else if \<not> pin_set s
     then (if uv_requested then ZF_CTAP_ERR_PIN_NOT_SET else ZF_CTAP_SUCCESS, False, s, w)
     else if \<not> uv_requested then (ZF_CTAP_SUCCESS, False, s, w)
     else (ZF_CTAP_ERR_PIN_REQUIRED, False, s, w))"

section \<open>PIN policy\<close>

definition ZF_MIN_PIN_LENGTH :: nat where "ZF_MIN_PIN_LENGTH = 4"
definition ZF_PIN_NEW_PIN_BLOCK_MAX_LEN :: nat where "ZF_PIN_NEW_PIN_BLOCK_MAX_LEN = 64"
definition ZF_MAX_PIN_UTF8_BYTES :: nat where "ZF_MAX_PIN_UTF8_BYTES = ZF_PIN_NEW_PIN_BLOCK_MAX_LEN - 1"

definition zf_pin_new_pin_enc_length_is_valid :: "nat \<Rightarrow> bool" where
  "zf_pin_new_pin_enc_length_is_valid n \<longleftrightarrow>
    n \<ge> 64 \<and> n \<le> ZF_PIN_NEW_PIN_BLOCK_MAX_LEN \<and> n mod 16 = 0"

definition zf_pin_validate_plaintext_length :: "nat \<Rightarrow> ctap_status" where
  "zf_pin_validate_plaintext_length pin_len =
    (if pin_len < ZF_MIN_PIN_LENGTH \<or> pin_len > ZF_MAX_PIN_UTF8_BYTES
     then ZF_CTAP_ERR_PIN_POLICY_VIOLATION else ZF_CTAP_SUCCESS)"

definition zf_pin_validate_plaintext_policy :: "bytes \<Rightarrow> ctap_status" where
  "zf_pin_validate_plaintext_policy pin =
    (if length pin > ZF_MAX_PIN_UTF8_BYTES then ZF_CTAP_ERR_PIN_POLICY_VIOLATION
     else case zf_pin_validate_utf8 pin of
       None \<Rightarrow> ZF_CTAP_ERR_PIN_POLICY_VIOLATION
     | Some count \<Rightarrow> zf_pin_validate_plaintext_length count)"

definition zf_pin_unpadded_length :: "bytes \<Rightarrow> nat" where
  "zf_pin_unpadded_length data = length (takeWhile (\<lambda>b. b \<noteq> 0) data)"

definition zf_pin_validate_plaintext_block :: "bytes \<Rightarrow> nat option" where
  "zf_pin_validate_plaintext_block data =
    (let pin_len = zf_pin_unpadded_length data in
     if pin_len = length data then None
     else if pin_len > ZF_MAX_PIN_UTF8_BYTES then None
     else if list_ex (\<lambda>b. b \<noteq> 0) (drop pin_len data) then None
     else Some pin_len)"

definition zf_pin_apply_plaintext ::
  "'w hal \<Rightarrow> ZfClientPinState \<Rightarrow> bytes \<Rightarrow> bool \<Rightarrow> 'w \<Rightarrow> ctap_status \<times> ZfClientPinState \<times> 'w" where
  "zf_pin_apply_plaintext hal s pin require_unset w =
    (let status = zf_pin_validate_plaintext_policy pin in
     if status \<noteq> ZF_CTAP_SUCCESS then (status, s, w)
     else if require_unset \<and> pin_set s then (ZF_CTAP_ERR_PIN_AUTH_INVALID, s, w)
     else case zf_pin_refresh_pin_token hal w of (next_pin_token, w) \<Rightarrow>
       let s' = (zf_pin_clear_auth_block_state (s\<lparr>pin_set := True, pin_retries := ZF_PIN_RETRIES_MAX\<rparr>))
                 \<lparr>pin_hash := take ZF_PIN_HASH_LEN (zf_crypto_sha256 pin)\<rparr>;
           r = zf_pin_persist_state hal s' w
       in if \<not> fst r then
            (ZF_CTAP_ERR_OTHER,
             s'\<lparr>pin_hash := pin_hash s, pin_set := pin_set s, pin_retries := pin_retries s,
                pin_consecutive_mismatches := pin_consecutive_mismatches s,
                pin_auth_blocked := pin_auth_blocked s\<rparr>, snd r)
          else (ZF_CTAP_SUCCESS,
                (zf_pin_invalidate_token_state s')\<lparr>pin_token := next_pin_token\<rparr>, snd r))"

definition zerofido_pin_verify_plaintext ::
  "'w hal \<Rightarrow> ZfClientPinState \<Rightarrow> bytes \<Rightarrow> 'w \<Rightarrow> ctap_status \<times> ZfClientPinState \<times> 'w" where
  "zerofido_pin_verify_plaintext hal s pin w =
    (let status = zf_pin_validate_plaintext_policy pin in
     if status \<noteq> ZF_CTAP_SUCCESS then (status, s, w)
     else zf_pin_verify_hash hal s (zf_crypto_sha256 pin) w)"

definition zerofido_pin_set_plaintext ::
  "'w hal \<Rightarrow> ZfClientPinState \<Rightarrow> bytes \<Rightarrow> 'w \<Rightarrow> ctap_status \<times> ZfClientPinState \<times> 'w" where
  "zerofido_pin_set_plaintext hal s pin w = zf_pin_apply_plaintext hal s pin True w"

definition zerofido_pin_replace_plaintext ::
  "'w hal \<Rightarrow> ZfClientPinState \<Rightarrow> bytes \<Rightarrow> 'w \<Rightarrow> ctap_status \<times> ZfClientPinState \<times> 'w" where
  "zerofido_pin_replace_plaintext hal s pin w = zf_pin_apply_plaintext hal s pin False w"

section \<open>Start-up and reset\<close>

definition zf_pin_refresh_runtime_secrets ::
  "'w hal \<Rightarrow> 'w \<Rightarrow> (bytes \<times> ZfP256KeyAgreementKey option) \<times> 'w" where
  "zf_pin_refresh_runtime_secrets hal w =
    (case random_fill hal ZF_PIN_TOKEN_LEN w of (token, w) \<Rightarrow>
     case zf_crypto_generate_key_agreement_key hal w of (key, w) \<Rightarrow> ((token, key), w))"

datatype ZfPinInitResult = ZfPinInitOk | ZfPinInitInvalidPersistedState | ZfPinInitStorageError

definition zero_key :: ZfP256KeyAgreementKey where
  "zero_key = \<lparr>ka_private_key = replicate 32 0, ka_public_x = replicate 32 0, ka_public_y = replicate 32 0\<rparr>"

definition zero_pin_state :: ZfClientPinState where
  "zero_pin_state =
    \<lparr>pin_set = False, pin_hash = replicate 16 0, pin_token = replicate 32 0, pin_token_active = False,
     pin_token_issued_at = 0, pin_token_permissions = 0, pin_token_permissions_scoped = False,
     pin_token_permissions_managed = False, pin_token_permissions_rp_id_set = False,
     pin_token_permissions_rp_id_hash = replicate 32 0, pin_retries = 0,
     pin_consecutive_mismatches = 0, pin_auth_blocked = False, key_agreement = zero_key\<rparr>"

definition zerofido_pin_init_with_result ::
  "'w hal \<Rightarrow> 'w \<Rightarrow> ZfPinInitResult \<times> ZfClientPinState \<times> 'w" where
  "zerofido_pin_init_with_result hal w =
    (let w = zf_pin_state_store_cleanup_temp hal w;
         s = zero_pin_state\<lparr>pin_retries := ZF_PIN_RETRIES_MAX\<rparr>
     in case zf_pin_state_store_load hal
          (pin_hash s, pin_retries s, pin_consecutive_mismatches s, pin_auth_blocked s) w of
       ((load_status, hash, retries, mismatches, blocked), w) \<Rightarrow>
        let s = s\<lparr>pin_hash := hash, pin_retries := retries,
                  pin_consecutive_mismatches := mismatches, pin_auth_blocked := blocked\<rparr> in
        if load_status = ZfPinLoadInvalid
        then (ZfPinInitInvalidPersistedState, s\<lparr>pin_hash := replicate 16 0\<rparr>, w)
        else
          let s = (if load_status = ZfPinLoadOk
                   then zf_pin_clear_auth_block_state (s\<lparr>pin_set := True\<rparr>) else s) in
          (case zf_pin_refresh_runtime_secrets hal w of ((token, key), w) \<Rightarrow>
            (case key of
               None \<Rightarrow> (ZfPinInitStorageError, s\<lparr>pin_token := token, key_agreement := zero_key\<rparr>, w)
             | Some k \<Rightarrow>
                (ZfPinInitOk,
                 zf_pin_reset_token_metadata (s\<lparr>pin_token := token, key_agreement := k\<rparr>), w))))"

definition zerofido_pin_clear ::
  "'w hal \<Rightarrow> ZfClientPinState \<Rightarrow> 'w \<Rightarrow> bool \<times> ZfClientPinState \<times> 'w" where
  "zerofido_pin_clear hal s w =
    (case zf_pin_refresh_runtime_secrets hal w of
       ((token, None), w) \<Rightarrow> (False, s, w)
     | ((token, Some key), w) \<Rightarrow>
        let r = zf_pin_state_store_clear hal w in
        if \<not> fst r then (False, s, snd r)
        else (True,
              (zf_pin_invalidate_token_state (zf_pin_clear_auth_block_state
                (s\<lparr>pin_hash := replicate ZF_PIN_HASH_LEN 0, pin_set := False,
                   pin_retries := ZF_PIN_RETRIES_MAX\<rparr>)))
              \<lparr>pin_token := token, key_agreement := key\<rparr>, snd r))"

section \<open>PIN protocols\<close>

text \<open>The two derived keys: HMAC key and AES key.\<close>

definition zf_pin_protocol_supported :: "u64 \<Rightarrow> bool" where
  "zf_pin_protocol_supported pin_protocol \<longleftrightarrow>
    pin_protocol = ZF_PIN_PROTOCOL_V1 \<or> pin_protocol = ZF_PIN_PROTOCOL_V2"

definition zf_pin_protocol_auth_len :: "u64 \<Rightarrow> nat" where
  "zf_pin_protocol_auth_len pin_protocol =
    (if pin_protocol = ZF_PIN_PROTOCOL_V2 then ZF_PIN_AUTH_MAX_LEN else ZF_PIN_AUTH_LEN)"

definition zf_pin_protocol_derive_keys ::
  "'w hal \<Rightarrow> ZfClientPinState \<Rightarrow> u64 \<Rightarrow> bytes \<Rightarrow> bytes \<Rightarrow> 'w \<Rightarrow> (bytes \<times> bytes) option \<times> 'w" where
  "zf_pin_protocol_derive_keys hal s pin_protocol x y w =
    (if pin_protocol = ZF_PIN_PROTOCOL_V1 then
       (case zf_crypto_ecdh_shared_secret hal (key_agreement s) x y w of
          (None, w) \<Rightarrow> (None, w)
        | (Some k, w) \<Rightarrow> (Some (k, k), w))
     else if pin_protocol \<noteq> ZF_PIN_PROTOCOL_V2 then (None, w)
     else case zf_p256_ecdh_raw_secret hal (key_agreement s) x y w of
       (None, w) \<Rightarrow> (None, w)
     | (Some raw, w) \<Rightarrow>
        (case (zf_hkdf_sha256 (replicate 32 0) raw (ascii ''CTAP2 HMAC key''),
               zf_hkdf_sha256 (replicate 32 0) raw (ascii ''CTAP2 AES key'')) of
           (Some hk, Some ak) \<Rightarrow> (Some (hk, ak), w)
         | _ \<Rightarrow> (None, w)))"

definition zf_pin_protocol_decrypt ::
  "'w hal \<Rightarrow> u64 \<Rightarrow> bytes \<times> bytes \<Rightarrow> bytes \<Rightarrow> 'w \<Rightarrow> bytes option \<times> 'w" where
  "zf_pin_protocol_decrypt hal pin_protocol keys ciphertext w =
    (if pin_protocol = ZF_PIN_PROTOCOL_V1
     then zf_aes256_cbc_zero_iv_decrypt hal (snd keys) ciphertext w
     else if pin_protocol \<noteq> ZF_PIN_PROTOCOL_V2 \<or> length ciphertext \<le> 16 \<or>
             (length ciphertext - 16) mod 16 \<noteq> 0
     then (None, w)
     else zf_aes256_cbc_decrypt hal (snd keys) (take 16 ciphertext) (drop 16 ciphertext) w)"

definition zf_pin_protocol_encrypt ::
  "'w hal \<Rightarrow> u64 \<Rightarrow> bytes \<times> bytes \<Rightarrow> bytes \<Rightarrow> nat \<Rightarrow> 'w \<Rightarrow> bytes option \<times> 'w" where
  "zf_pin_protocol_encrypt hal pin_protocol keys plaintext out_capacity w =
    (if length plaintext = 0 \<or> length plaintext mod 16 \<noteq> 0 then (None, w)
     else if pin_protocol = ZF_PIN_PROTOCOL_V1 then
       (if out_capacity < length plaintext then (None, w)
        else zf_aes256_cbc_zero_iv_encrypt hal (snd keys) plaintext w)
     else if pin_protocol \<noteq> ZF_PIN_PROTOCOL_V2 \<or> out_capacity < 16 + length plaintext then (None, w)
     else case random_fill hal 16 w of (iv, w) \<Rightarrow>
       (case zf_aes256_cbc_encrypt hal (snd keys) iv plaintext w of
          (None, w) \<Rightarrow> (None, w)
        | (Some c, w) \<Rightarrow> (Some (iv @ c), w)))"

definition zf_pin_protocol_hmac_matches :: "u64 \<Rightarrow> bytes \<Rightarrow> bytes \<Rightarrow> bytes \<Rightarrow> bytes \<Rightarrow> bool" where
  "zf_pin_protocol_hmac_matches pin_protocol key a b expected \<longleftrightarrow>
    length expected = zf_pin_protocol_auth_len pin_protocol \<and>
    zf_crypto_constant_time_equal
      (take (zf_pin_protocol_auth_len pin_protocol) (zf_hmac_sha256_parts key a b)) expected"

end
