(* ===== verification/Pin_Exact.thy ===== *)
theory Pin_Exact
  imports Pin
begin

text \<open>
  Correctness of the PIN core: the invariant of the retry state, what each accounting operation does
  on every branch, when an authorization succeeds, which PINs the policy admits, and that the PIN
  file restores the state it was written from.
\<close>

section \<open>The retry invariant\<close>

definition retry_wf :: "ZfClientPinState \<Rightarrow> bool" where
  "retry_wf s \<longleftrightarrow> pin_retries s \<le> 8 \<and> pin_consecutive_mismatches s \<le> 3 \<and>
    (pin_auth_blocked s \<longleftrightarrow> pin_consecutive_mismatches s = 3)"

lemmas pin_simps [zf_defs] = zf_pin_clear_auth_block_state_def zf_pin_invalidate_token_state_def
  zf_pin_reset_token_metadata_def zf_pin_force_runtime_block_def zf_pin_note_pin_token_issued_def
  zf_pin_set_token_permissions_def ZF_PIN_RETRIES_MAX_def

lemma retry_wf_force [simp]: "retry_wf (zf_pin_force_runtime_block s)"
  by (simp add: retry_wf_def zf_defs)

lemma retry_wf_clear [simp]: "pin_retries s \<le> 8 \<Longrightarrow> retry_wf (zf_pin_clear_auth_block_state s)"
  by (simp add: retry_wf_def zf_defs)

lemma count_mismatch_wf:
  assumes "retry_wf s" and "\<not> pin_auth_blocked s"
  shows "retry_wf (count_mismatch s)"
    and "pin_consecutive_mismatches (count_mismatch s) = pin_consecutive_mismatches s + 1"
    and "pin_auth_blocked (count_mismatch s) \<longleftrightarrow> pin_consecutive_mismatches s = 2"
proof -
  let ?m = "pin_consecutive_mismatches s"
  from assms have "unat ?m < 3"
    by (auto simp: retry_wf_def word_le_nat_alt word_unat_eq_iff)
  then have "?m = 0 \<or> ?m = 1 \<or> ?m = 2"
    by (auto simp: word_unat_eq_iff)
  then show "retry_wf (count_mismatch s)"
    "pin_consecutive_mismatches (count_mismatch s) = ?m + 1"
    "pin_auth_blocked (count_mismatch s) \<longleftrightarrow> ?m = 2"
    using assms by (auto simp: retry_wf_def count_mismatch_def Let_def word_le_nat_alt word_less_nat_alt)
qed

lemma count_mismatch_keeps [simp]:
  "pin_retries (count_mismatch s) = pin_retries s"
  "pin_set (count_mismatch s) = pin_set s"
  "pin_hash (count_mismatch s) = pin_hash s"
  by (simp_all add: count_mismatch_def Let_def)

text \<open>Persisting either leaves the state alone or blocks it.\<close>

lemma persist_or_block_disj:
  "fst (persist_or_block hal s w) = s \<or>
   fst (persist_or_block hal s w) = zf_pin_force_runtime_block s"
  by (simp add: persist_or_block_def Let_def)

lemma persist_or_block_cases:
  obtains "fst (persist_or_block hal s w) = s"
  | "fst (persist_or_block hal s w) = zf_pin_force_runtime_block s"
  using persist_or_block_disj [of hal s w] by blast

lemma persist_or_block_wf: "retry_wf s \<Longrightarrow> retry_wf (fst (persist_or_block hal s w))"
  by (cases rule: persist_or_block_cases [of hal s w]) simp_all

lemma force_block_fields [simp]:
  "pin_retries (zf_pin_force_runtime_block s) = 0"
  "pin_auth_blocked (zf_pin_force_runtime_block s)"
  "pin_set (zf_pin_force_runtime_block s) = pin_set s"
  "pin_hash (zf_pin_force_runtime_block s) = pin_hash s"
  "pin_token_active (zf_pin_force_runtime_block s) = False"
  by (simp_all add: zf_defs)

text \<open>The state in which a failed verification is recorded.\<close>

definition failed_state :: "ZfClientPinState \<Rightarrow> ZfP256KeyAgreementKey \<Rightarrow> ZfClientPinState" where
  "failed_state s key =
    count_mismatch (if pin_retries s > 0 then s\<lparr>key_agreement := key, pin_retries := pin_retries s - 1\<rparr>
      else s\<lparr>key_agreement := key\<rparr>)"

lemma auth_failure_unfold:
  assumes "\<not> pin_auth_blocked s" and "zf_pin_refresh_key_agreement hal w = (Some key, w1)"
  shows "zf_pin_auth_failure hal s w =
    (case persist_or_block hal (failed_state s key) w1 of (s', w') \<Rightarrow>
      (if pin_retries s' = 0 then ZF_CTAP_ERR_PIN_BLOCKED
       else if pin_auth_blocked s' then ZF_CTAP_ERR_PIN_AUTH_BLOCKED
       else ZF_CTAP_ERR_PIN_INVALID, s', w'))"
  using assms by (simp add: zf_pin_auth_failure_def failed_state_def Let_def)

lemma dec_le: "(x :: byte) > 0 \<Longrightarrow> x - 1 < x"
  by (metis unat_minus_one diff_less unat_gt_0 word_less_nat_alt word_not_simps(1) zero_less_one)

lemma failed_state_wf:
  assumes "retry_wf s" and "\<not> pin_auth_blocked s"
  shows "retry_wf (failed_state s key)"
    and "pin_retries s > 0 \<Longrightarrow> pin_retries (failed_state s key) = pin_retries s - 1"
    and "pin_consecutive_mismatches (failed_state s key) = pin_consecutive_mismatches s + 1"
    and "pin_auth_blocked (failed_state s key) \<longleftrightarrow> pin_consecutive_mismatches s = 2"
proof -
  let ?t = "if pin_retries s > 0 then s\<lparr>key_agreement := key, pin_retries := pin_retries s - 1\<rparr>
      else s\<lparr>key_agreement := key\<rparr>"
  have t: "retry_wf ?t" "\<not> pin_auth_blocked ?t"
    "pin_consecutive_mismatches ?t = pin_consecutive_mismatches s"
    using assms dec_le [of "pin_retries s"] by (auto simp: retry_wf_def)
  from count_mismatch_wf [OF t(1,2)] t(3) show
    "retry_wf (failed_state s key)"
    "pin_retries s > 0 \<Longrightarrow> pin_retries (failed_state s key) = pin_retries s - 1"
    "pin_consecutive_mismatches (failed_state s key) = pin_consecutive_mismatches s + 1"
    "pin_auth_blocked (failed_state s key) \<longleftrightarrow> pin_consecutive_mismatches s = 2"
    unfolding failed_state_def by auto
qed

section \<open>Every operation keeps the invariant\<close>

lemma note_mismatch_wf:
  assumes "retry_wf s" "\<not> pin_auth_blocked s" "zf_pin_note_pin_auth_mismatch hal s w = (st, s', w')"
  shows "retry_wf s'"
  using assms persist_or_block_wf [OF count_mismatch_wf(1) [OF assms(1,2)], of hal w]
  by (auto simp: zf_pin_note_pin_auth_mismatch_def split: prod.splits)

lemma auth_failure_cases:
  assumes "zf_pin_auth_failure hal s w = (st, s', w')"
  obtains (blocked) "pin_auth_blocked s" "s' = s" "st = ZF_CTAP_ERR_PIN_AUTH_BLOCKED"
  | (no_key) "\<not> pin_auth_blocked s" "fst (uECC_make_key hal w) = None" "s' = s" "st = ZF_CTAP_ERR_OTHER"
  | (counted) key where "\<not> pin_auth_blocked s" "s' = failed_state s key"
      "st = (if pin_retries s' = 0 then ZF_CTAP_ERR_PIN_BLOCKED
        else if pin_auth_blocked s' then ZF_CTAP_ERR_PIN_AUTH_BLOCKED else ZF_CTAP_ERR_PIN_INVALID)"
  | (forced) key where "\<not> pin_auth_blocked s" "s' = zf_pin_force_runtime_block (failed_state s key)"
      "st = ZF_CTAP_ERR_PIN_BLOCKED"
proof (cases "pin_auth_blocked s")
  case True
  with assms show thesis by (intro blocked) (auto simp: zf_pin_auth_failure_def)
next
  case False
  show thesis
  proof (cases "zf_pin_refresh_key_agreement hal w")
    case (Pair key w1)
    show thesis
    proof (cases key)
      case None
      then have "fst (uECC_make_key hal w) = None"
        using Pair by (auto simp: zf_pin_refresh_key_agreement_def
            zf_crypto_generate_key_agreement_key_def zf_p256_generate_keypair_def
            split: prod.splits option.splits)
      with None False assms Pair show thesis
        by (intro no_key) (auto simp: zf_pin_auth_failure_def)
    next
      case (Some k)
      note eq = assms [unfolded auth_failure_unfold [OF False Pair [unfolded Some]]]
      show thesis
      proof (cases rule: persist_or_block_cases [of hal "failed_state s k" w1])
        case 1
        with eq False show thesis by (intro counted [of k]) (auto split: prod.splits)
      next
        case 2
        with eq False show thesis by (intro forced [of k]) (auto split: prod.splits)
      qed
    qed
  qed
qed

lemma auth_failure_wf:
  assumes "retry_wf s" "zf_pin_auth_failure hal s w = (st, s', w')"
  shows "retry_wf s'"
  using assms(2) by (cases rule: auth_failure_cases) (use assms(1) failed_state_wf(1) in auto)

lemma auth_success_wf:
  assumes "retry_wf s" "zf_pin_auth_success hal s w = (st, s', w')"
  shows "retry_wf s'"
  using assms by (auto simp: zf_pin_auth_success_def Let_def retry_wf_def zf_defs split: if_splits)

lemma verify_hash_wf:
  assumes "retry_wf s" "zf_pin_verify_hash hal s h w = (st, s', w')"
  shows "retry_wf s'"
  using assms auth_failure_wf auth_success_wf
  by (auto simp: zf_pin_verify_hash_def split: if_splits)

lemma resume_wf:
  assumes "retry_wf s" "zerofido_pin_resume_auth_attempts hal s w = (ok, s', w')"
  shows "retry_wf s'"
  using assms by (auto simp: zerofido_pin_resume_auth_attempts_def Let_def retry_wf_def zf_defs
      split: if_splits)

lemma apply_plaintext_wf:
  assumes "retry_wf s" "zf_pin_apply_plaintext hal s pin unset w = (st, s', w')"
  shows "retry_wf s'"
  using assms by (auto simp: zf_pin_apply_plaintext_def Let_def retry_wf_def zf_defs
      split: if_splits prod.splits)

lemma pin_clear_wf:
  assumes "retry_wf s" "zerofido_pin_clear hal s w = (ok, s', w')"
  shows "retry_wf s'"
  using assms by (auto simp: zerofido_pin_clear_def Let_def retry_wf_def zf_defs
      split: if_splits prod.splits option.splits)

lemma consume_keeps [simp]:
  "pin_retries (zf_pin_consume_up_tested_permissions s p) = pin_retries s"
  "pin_consecutive_mismatches (zf_pin_consume_up_tested_permissions s p) = pin_consecutive_mismatches s"
  "pin_auth_blocked (zf_pin_consume_up_tested_permissions s p) = pin_auth_blocked s"
  "pin_set (zf_pin_consume_up_tested_permissions s p) = pin_set s"
  "pin_hash (zf_pin_consume_up_tested_permissions s p) = pin_hash s"
  by (simp_all add: zf_pin_consume_up_tested_permissions_def Let_def)

lemma retry_wf_updates [simp]:
  "retry_wf (zf_pin_invalidate_token_state s) = retry_wf s"
  "retry_wf (zf_pin_consume_up_tested_permissions s p) = retry_wf s"
  "retry_wf (zf_pin_set_token_permissions s p a b rp) = retry_wf s"
  "retry_wf ((zf_pin_clear_auth_block_state s)
     \<lparr>pin_consecutive_mismatches := pin_consecutive_mismatches s,
      pin_auth_blocked := pin_auth_blocked s\<rparr>) = retry_wf s"
  "retry_wf s \<Longrightarrow> retry_wf (zf_pin_clear_auth_block_state s)"
  by (simp_all add: retry_wf_def zf_defs)

text \<open>The outcomes of an authorization check, with the token state after RP binding as \<open>s1\<close>.\<close>

definition bound_state :: "ZfClientPinState \<Rightarrow> bytes \<Rightarrow> u64 \<Rightarrow> ZfClientPinState" where
  "bound_state s rp_id perm =
    (if pin_token_permissions_scoped s \<and> perm AND (ZF_PIN_PERMISSION_MC OR ZF_PIN_PERMISSION_GA) \<noteq> 0 \<and>
        \<not> pin_token_permissions_rp_id_set s
     then zf_pin_set_token_permissions s (pin_token_permissions s)
       (pin_token_permissions_scoped s) (pin_token_permissions_managed s) rp_id
     else s)"

lemma require_auth_result:
  assumes "zerofido_pin_require_auth hal s uv has cdh auth hasp proto rp perm w = (st, v, s', w')"
  shows "\<not> v \<and> s' = s \<or>
    \<not> v \<and> st = ZF_CTAP_ERR_PIN_TOKEN_EXPIRED \<and> s' = zf_pin_invalidate_token_state s \<or>
    \<not> v \<and> \<not> pin_auth_blocked s \<and> zf_pin_note_pin_auth_mismatch hal s w = (st, s', w') \<or>
    \<not> v \<and> st = ZF_CTAP_ERR_OTHER \<and>
      s' = (zf_pin_clear_auth_block_state (bound_state s rp perm))
        \<lparr>pin_consecutive_mismatches := pin_consecutive_mismatches (bound_state s rp perm),
         pin_auth_blocked := pin_auth_blocked (bound_state s rp perm)\<rparr> \<or>
    v \<and> st = ZF_CTAP_SUCCESS \<and> (s' = zf_pin_clear_auth_block_state (bound_state s rp perm) \<or>
      s' = zf_pin_consume_up_tested_permissions
        (zf_pin_clear_auth_block_state (bound_state s rp perm)) perm)"
proof -
  define s1 where "s1 = bound_state s rp perm"
  have s1: "(if (pin_token_permissions_scoped s \<and>
        perm AND (ZF_PIN_PERMISSION_MC OR ZF_PIN_PERMISSION_GA) \<noteq> 0) \<and>
        \<not> pin_token_permissions_rp_id_set s
      then zf_pin_set_token_permissions s (pin_token_permissions s)
        (pin_token_permissions_scoped s) (pin_token_permissions_managed s) rp else s) = s1"
    by (simp add: s1_def bound_state_def)
  show ?thesis
    using assms unfolding zerofido_pin_require_auth_def Let_def s1 s1_def [symmetric]
    by (simp split: if_split_asm prod.split_asm)
qed

lemma require_auth_wf:
  assumes wf: "retry_wf s"
    and r: "zerofido_pin_require_auth hal s uv has cdh auth hasp proto rp perm w = (st, v, s', w')"
  shows "retry_wf s'"
proof -
  have "retry_wf (bound_state s rp perm)" using wf by (simp add: bound_state_def)
  with require_auth_result [OF r] note_mismatch_wf [OF wf, of hal w st s' w'] wf show ?thesis
    by (elim disjE conjE) simp_all
qed

lemma load_bounds:
  "zf_pin_state_store_load hal vars w = ((ZfPinLoadOk, h, retries, mism, blocked), w') \<Longrightarrow>
    retries \<le> 8 \<and> mism \<le> 3"
  by (auto simp: zf_pin_state_store_load_def Let_def ZF_PIN_RETRIES_MAX_def not_less
      split: prod.splits option.splits if_splits)

lemma load_missing:
  "zf_pin_state_store_load hal vars w = ((ZfPinLoadMissing, vars'), w') \<Longrightarrow> vars' = vars"
  by (auto simp: zf_pin_state_store_load_def Let_def split: prod.splits option.splits if_splits)

lemma init_wf:
  assumes "zerofido_pin_init_with_result hal w = (ZfPinInitOk, s, w')"
  shows "retry_wf s \<and> \<not> pin_auth_blocked s"
proof -
  let ?w = "zf_pin_state_store_cleanup_temp hal w"
  let ?vars = "(replicate 16 0, 8, 0, False)"
  obtain st h r m b w1 where load: "zf_pin_state_store_load hal ?vars ?w = ((st, h, r, m, b), w1)"
    by (metis surj_pair)
  then have ok: "st \<noteq> ZfPinLoadInvalid"
    "pin_retries s = r" "st = ZfPinLoadOk \<Longrightarrow> pin_consecutive_mismatches s = 0 \<and> \<not> pin_auth_blocked s"
    "st = ZfPinLoadMissing \<Longrightarrow> pin_consecutive_mismatches s = m \<and> pin_auth_blocked s = b"
    using assms by (auto simp: zerofido_pin_init_with_result_def Let_def zf_defs zero_pin_state_def
        split: if_splits prod.splits option.splits)
  show ?thesis
  proof (cases st)
    case ZfPinLoadMissing
    with load_missing [OF load [unfolded ZfPinLoadMissing]] ok show ?thesis
      by (simp add: retry_wf_def)
  next
    case ZfPinLoadOk
    with load_bounds [OF load [unfolded ZfPinLoadOk]] ok show ?thesis
      by (simp add: retry_wf_def)
  qed (use ok in simp)
qed

section \<open>When authorization succeeds\<close>

lemma require_auth_uv_guards:
  assumes "zerofido_pin_require_auth hal s uv has cdh auth hasp proto rp perm w = (st, True, s', w')"
  shows "has \<and> hasp \<and> (proto = ZF_PIN_PROTOCOL_V1 \<or> proto = ZF_PIN_PROTOCOL_V2) \<and>
    length auth = zf_pin_uv_auth_param_len proto \<and> \<not> pin_auth_blocked s \<and> pin_set s \<and>
    pin_token_active s \<and> \<not> zf_pin_token_is_expired hal w s \<and>
    zf_crypto_constant_time_equal
      (take (zf_pin_uv_auth_param_len proto) (zf_hmac_sha256 (pin_token s) cdh)) auth \<and>
    pin_token_permissions s AND perm = perm \<and>
    (pin_token_permissions_scoped s \<and> perm AND (ZF_PIN_PERMISSION_MC OR ZF_PIN_PERMISSION_GA) \<noteq> 0 \<longrightarrow>
      rp \<noteq> [] \<and> zf_pin_token_rp_id_matches s rp)"
  using assms unfolding zerofido_pin_require_auth_def Let_def
  by (simp split: if_split_asm prod.split_asm) blast+

lemma param_len_le: "zf_pin_uv_auth_param_len proto \<le> 32"
  by (simp add: zf_pin_uv_auth_param_len_def ZF_PIN_AUTH_MAX_LEN_def ZF_PIN_AUTH_LEN_def)

lemma require_auth_uv_mac:
  assumes "zerofido_pin_require_auth hal s uv has cdh auth hasp proto rp perm w = (st, True, s', w')"
  shows "auth = take (zf_pin_uv_auth_param_len proto) (hmac_reference (pin_token s) cdh)"
proof -
  let ?mac = "take (zf_pin_uv_auth_param_len proto) (zf_hmac_sha256 (pin_token s) cdh)"
  have "length ?mac = zf_pin_uv_auth_param_len proto"
    using param_len_le [of proto] by (simp add: zf_hmac_sha256_def)
  with require_auth_uv_guards [OF assms] have "length ?mac = length auth"
    "zf_crypto_constant_time_equal ?mac auth"
    by simp_all
  then have "?mac = auth" by (simp only: constant_time_equal_iff)
  then show ?thesis by (simp add: zf_hmac_sha256_def hmac_parts_correct)
qed

lemma rp_matches_bound:
  assumes "zf_pin_token_rp_id_matches s rp" "pin_token_permissions_rp_id_set s"
    "length (pin_token_permissions_rp_id_hash s) = 32"
  shows "pin_token_permissions_rp_id_hash s = zf_crypto_sha256 rp"
  using assms by (auto simp: zf_pin_token_rp_id_matches_def zf_pin_hash_rp_id_def
      constant_time_equal_iff split: if_splits)

text \<open>Once a managed token has been used, it authorizes neither operation again.\<close>

lemma consumed_permissions:
  assumes "perm AND (ZF_PIN_PERMISSION_MC OR ZF_PIN_PERMISSION_GA) \<noteq> 0"
  shows "pin_token_permissions (zf_pin_consume_up_tested_permissions s perm) AND
      (ZF_PIN_PERMISSION_MC OR ZF_PIN_PERMISSION_GA) = 0"
proof -
  have "(x AND NOT y AND NOT z) AND (y OR z) = (0 :: u64)" for x y z
    by (rule bit_word_eqI) (auto simp: bit_simps)
  with assms show ?thesis by (simp add: zf_pin_consume_up_tested_permissions_def Let_def)
qed

section \<open>Verification of a PIN hash\<close>

lemma verify_hash_success:
  assumes "zf_pin_verify_hash hal s h w = (ZF_CTAP_SUCCESS, s', w')"
    and "length h \<ge> 16" and "length (pin_hash s) = 16"
  shows "pin_set s \<and> \<not> pin_auth_blocked s \<and> pin_retries s \<noteq> 0 \<and> take 16 h = pin_hash s \<and>
    s' = s\<lparr>pin_retries := 8, pin_consecutive_mismatches := 0, pin_auth_blocked := False\<rparr>"
proof -
  have fail: "zf_pin_auth_failure hal s w \<noteq> (ZF_CTAP_SUCCESS, s', w')"
  proof
    assume "zf_pin_auth_failure hal s w = (ZF_CTAP_SUCCESS, s', w')"
    then show False by (cases rule: auth_failure_cases) (simp_all split: if_splits)
  qed
  have "zf_crypto_constant_time_equal (take 16 h) (take 16 (pin_hash s)) \<longleftrightarrow> take 16 h = pin_hash s"
    using assms(2,3) by (subst constant_time_equal_iff) simp_all
  with assms(1) fail show ?thesis
    by (auto simp: zf_pin_verify_hash_def zf_pin_auth_success_def Let_def zf_defs ZF_PIN_HASH_LEN_def
        split: if_splits)
qed

text \<open>A wrong hash is counted: either one retry is gone, or the state is blocked for good.\<close>

lemma verify_hash_wrong:
  assumes "zf_pin_verify_hash hal s h w = (st, s', w')"
    and "pin_set s" "\<not> pin_auth_blocked s" "pin_retries s \<noteq> 0" "retry_wf s"
    and "take 16 h \<noteq> pin_hash s" "length h \<ge> 16" "length (pin_hash s) = 16"
    and key: "fst (uECC_make_key hal w) \<noteq> None"
  shows "pin_retries s' < pin_retries s \<and> st \<noteq> ZF_CTAP_SUCCESS \<and>
    (pin_auth_blocked s' \<or> pin_consecutive_mismatches s' = pin_consecutive_mismatches s + 1) \<and>
    (pin_consecutive_mismatches s = 2 \<longrightarrow> pin_auth_blocked s')"
proof -
  have pos: "pin_retries s > 0" using assms(4) by (simp add: word_neq_0_conv)
  have "zf_pin_auth_failure hal s w = (st, s', w')"
    using assms by (simp add: zf_pin_verify_hash_def ZF_PIN_HASH_LEN_def constant_time_equal_iff)
  then show ?thesis
  proof (cases rule: auth_failure_cases)
    case blocked
    with assms show ?thesis by simp
  next
    case no_key
    with key show ?thesis by simp
  next
    case (counted k)
    with failed_state_wf [OF assms(5,3), of k] pos dec_le [OF pos] show ?thesis by auto
  next
    case (forced k)
    with pos show ?thesis by simp
  qed
qed

text \<open>Without fresh key material the failure is reported but not counted.\<close>

lemma auth_failure_uncounted:
  assumes "\<not> pin_auth_blocked s" "uECC_make_key hal w = (None, w1)"
  shows "zf_pin_auth_failure hal s w = (ZF_CTAP_ERR_OTHER, s, w1)"
  using assms by (simp add: zf_pin_auth_failure_def zf_pin_refresh_key_agreement_def
      zf_crypto_generate_key_agreement_key_def zf_p256_generate_keypair_def)

section \<open>PIN policy\<close>

lemma policy_iff:
  "zf_pin_validate_plaintext_policy pin = ZF_CTAP_SUCCESS \<longleftrightarrow>
    (\<exists>cps. list_all unicode_scalar cps \<and> pin = utf8_text cps \<and> 4 \<le> length cps \<and> length pin \<le> 63)"
proof -
  have count: "zf_pin_validate_utf8 (utf8_text cps) = Some (length cps)"
    if "list_all unicode_scalar cps" for cps
    using count_utf8_text [OF that, of 0] by (simp add: zf_pin_validate_utf8_def)
  have le: "length cps \<le> length (utf8_text cps)" for cps
    by (induction cps) (auto simp: utf8_encode_def)
  have "zf_pin_validate_utf8 pin \<noteq> None \<longleftrightarrow> (\<exists>cps. list_all unicode_scalar cps \<and> pin = utf8_text cps)"
    unfolding zf_pin_validate_utf8_def pin_utf8_accepts cbor_utf8_valid_iff ..
  then consider (bad) "zf_pin_validate_utf8 pin = None"
      "\<not> (\<exists>cps. list_all unicode_scalar cps \<and> pin = utf8_text cps)"
    | (good) cps where "list_all unicode_scalar cps" "pin = utf8_text cps"
    by blast
  then show ?thesis
  proof cases
    case bad
    then show ?thesis by (auto simp: zf_pin_validate_plaintext_policy_def)
  next
    case (good cps)
    have uniq: "length cps' = length cps"
      if "list_all unicode_scalar cps'" "utf8_text cps' = utf8_text cps" for cps'
      using count [OF that(1)] count [OF good(1)] that(2) by simp
    have "zf_pin_validate_plaintext_policy pin = ZF_CTAP_SUCCESS \<longleftrightarrow> 4 \<le> length cps \<and> length pin \<le> 63"
      using count [OF good(1)] le [of cps] good(2)
      by (auto simp: zf_pin_validate_plaintext_policy_def ZF_MAX_PIN_UTF8_BYTES_def
          ZF_PIN_NEW_PIN_BLOCK_MAX_LEN_def zf_pin_validate_plaintext_length_def ZF_MIN_PIN_LENGTH_def)
    with good uniq show ?thesis by metis
  qed
qed

lemma plaintext_block_iff:
  "zf_pin_validate_plaintext_block data = Some n \<longleftrightarrow>
    (\<exists>pin k. data = pin @ replicate (Suc k) 0 \<and> 0 \<notin> set pin \<and> length pin = n \<and> n \<le> 63)"
proof
  assume r: "zf_pin_validate_plaintext_block data = Some n"
  let ?pin = "takeWhile (\<lambda>b. b \<noteq> 0) data"
  have gen: "(if L = N then None else if M < L then None else if E L then None else Some L) = Some m \<Longrightarrow>
      m = L \<and> m \<noteq> N \<and> m \<le> M \<and> \<not> E m" for L N M m :: nat and E
    by (simp split: if_split_asm)
  note r' = r [unfolded zf_pin_validate_plaintext_block_def zf_pin_unpadded_length_def Let_def
      ZF_MAX_PIN_UTF8_BYTES_def ZF_PIN_NEW_PIN_BLOCK_MAX_LEN_def]
  have "n = length ?pin \<and> n \<noteq> length data \<and> n \<le> 64 - 1 \<and> \<not> list_ex (\<lambda>b. b \<noteq> 0) (drop n data)"
    by (rule gen [of _ _ _ "\<lambda>m. list_ex (\<lambda>b. b \<noteq> 0) (drop m data)", OF r'])
  then have raw: "n = length ?pin" "n \<noteq> length data" "n \<le> 64 - 1" "\<not> list_ex (\<lambda>b. b \<noteq> 0) (drop n data)"
    by - (elim conjE, assumption)+
  have n3: "n \<le> 63" using raw(3) by simp
  have n4: "\<forall>b \<in> set (drop n data). b = 0" using raw(4) unfolding list_ex_iff by blast
  note n = raw(1,2) n3 n4
  have "n < length data" using n length_takeWhile_le [of "\<lambda>b. b \<noteq> 0" data] by linarith
  moreover have "drop n data = replicate (length data - n) 0"
    using n(4) by (simp add: replicate_eqI)
  moreover from calculation(1) have "Suc (length data - n - 1) = length data - n" by simp
  ultimately have tail: "drop n data = replicate (Suc (length data - n - 1)) 0"
    by (simp del: replicate_Suc)
  have "data = ?pin @ drop n data"
    unfolding n(1) by (metis dropWhile_eq_drop takeWhile_dropWhile_id)
  also have "\<dots> = ?pin @ replicate (Suc (length data - n - 1)) 0" by (simp only: tail)
  finally have split: "data = ?pin @ replicate (Suc (length data - n - 1)) 0" .
  have nul: "0 \<notin> set ?pin" using set_takeWhileD [of 0 "\<lambda>b. b \<noteq> 0" data] by blast
  show "\<exists>pin k. data = pin @ replicate (Suc k) 0 \<and> 0 \<notin> set pin \<and> length pin = n \<and> n \<le> 63"
    by (rule exI [of _ ?pin], rule exI [of _ "length data - n - 1"], intro conjI)
      (fact split, fact nul, fact n(1) [symmetric], fact n(3))
next
  assume "\<exists>pin k. data = pin @ replicate (Suc k) 0 \<and> 0 \<notin> set pin \<and> length pin = n \<and> n \<le> 63"
  then obtain pin k where d: "data = pin @ replicate (Suc k) 0" "0 \<notin> set pin" "length pin = n" "n \<le> 63"
    by blast
  then have "takeWhile (\<lambda>b. b \<noteq> 0) data = pin"
    unfolding d(1) by (subst takeWhile_append2) auto
  with d show "zf_pin_validate_plaintext_block data = Some n"
    by (simp add: zf_pin_validate_plaintext_block_def zf_pin_unpadded_length_def Let_def list_ex_iff
        ZF_MAX_PIN_UTF8_BYTES_def ZF_PIN_NEW_PIN_BLOCK_MAX_LEN_def)
qed

section \<open>The PIN file restores the state\<close>

text \<open>
  On a medium that obeys the laws, whose reads succeed, and with an enclave and a random generator
  that do not touch the files.
\<close>

definition pin_platform :: "'w hal \<Rightarrow> ('w \<Rightarrow> path \<rightharpoonup> bytes) \<Rightarrow> bool" where
  "pin_platform hal content \<longleftrightarrow>
    storage_lawful hal content \<and> enclave_lawful hal \<and>
    (\<forall>p w. fst (fs_read hal p w) = content w p) \<and>
    (\<forall>n w. content (snd (random_fill hal n w)) = content w) \<and>
    (\<forall>iv d w. content (snd (enclave_encrypt hal iv d w)) = content w) \<and>
    (\<forall>iv d w. content (snd (enclave_decrypt hal iv d w)) = content w)"

lemma length_le_bytes [simp]: "length (le_bytes n v) = n"
  by (simp add: le_bytes_def)

lemma pin_file_fields:
  assumes "length iv = 16" "length enc = 16" "length siv = 16" "length seal = 32"
  shows "length (pin_file_record v r m f iv enc siv seal) = 88"
    "take 4 (pin_file_record v r m f iv enc siv seal) = le_bytes 4 ZF_PIN_FILE_MAGIC"
    "pin_file_record v r m f iv enc siv seal ! 4 = v"
    "pin_file_record v r m f iv enc siv seal ! 5 = r"
    "pin_file_record v r m f iv enc siv seal ! 6 = m"
    "pin_file_record v r m f iv enc siv seal ! 7 = f"
    "take 16 (drop 8 (pin_file_record v r m f iv enc siv seal)) = iv"
    "take 16 (drop 24 (pin_file_record v r m f iv enc siv seal)) = enc"
    "take 16 (drop 40 (pin_file_record v r m f iv enc siv seal)) = siv"
    "take 32 (drop 56 (pin_file_record v r m f iv enc siv seal)) = seal"
  using assms by (simp_all add: pin_file_record_def nth_append)

lemma pin_paths:
  "\<exists>b. zf_storage_backup_path ZF_PIN_FILE_PATH = Some b \<and>
    distinct [ZF_PIN_FILE_PATH, ZF_PIN_FILE_TEMP_PATH, b]"
  by (simp add: zf_storage_backup_path_def zf_storage_build_suffixed_path_def ZF_PIN_FILE_PATH_def
      ZF_PIN_FILE_TEMP_PATH_def ZF_STORAGE_BACKUP_SUFFIX_def ZF_STORAGE_PATH_BUFFER_SIZE_def)

interpretation pin_file: atomic_file ZF_PIN_FILE_PATH ZF_PIN_FILE_TEMP_PATH
  by unfold_locales (rule pin_paths)

definition pin_flags :: "ZfClientPinState \<Rightarrow> byte" where
  "pin_flags s = (if pin_auth_blocked s then 1 else 0)"

lemma persist_writes:
  assumes plat: "pin_platform hal content" and set: "pin_set s" and len: "length (pin_hash s) = 16"
    and r: "zf_pin_state_store_persist hal s w = (True, w')"
  obtains iv enc siv seal where
    "content w' ZF_PIN_FILE_PATH = Some (pin_file_record 1 (pin_retries s)
      (pin_consecutive_mismatches s) (pin_flags s) iv enc siv seal)"
    "length iv = 16" "length enc = 16" "length siv = 16" "length seal = 32"
    "\<And>v. fst (enclave_decrypt hal iv enc v) = Some (pin_hash s)"
    "\<And>v. fst (enclave_decrypt hal siv seal v) = Some (le_bytes 4 ZF_PIN_RETRY_SEAL_MAGIC @
      [pin_retries s, pin_consecutive_mismatches s, pin_flags s, 0] @
      take 24 (zf_pin_compute_retry_state_digest (pin_hash s) (pin_retries s)
        (pin_consecutive_mismatches s) (pin_flags s)))"
proof -
  have rnd: "length (fst (random_fill hal n v)) = n" for n v
    using plat by (simp add: pin_platform_def enclave_lawful_def)
  have enc: "fst (enclave_encrypt hal iv d v) = Some c \<Longrightarrow>
      length c = length d \<and> (\<forall>u. fst (enclave_decrypt hal iv c u) = Some d)" for iv d v c
    using plat by (simp add: pin_platform_def enclave_lawful_def)
  have flags: "(if pin_auth_blocked s then ZF_PIN_FILE_FLAG_AUTH_BLOCKED else 0) = pin_flags s"
    by (simp add: pin_flags_def ZF_PIN_FILE_FLAG_AUTH_BLOCKED_def)
  let ?plain = "le_bytes 4 ZF_PIN_RETRY_SEAL_MAGIC @
      [pin_retries s, pin_consecutive_mismatches s, pin_flags s, 0] @
      take 24 (zf_pin_compute_retry_state_digest (pin_hash s) (pin_retries s)
        (pin_consecutive_mismatches s) (pin_flags s))"
  from r set obtain w1 iv w2 c w3 siv w4 sealed w5 where steps:
    "random_fill hal 16 w1 = (iv, w2)" "enclave_encrypt hal iv (pin_hash s) w2 = (Some c, w3)"
    "random_fill hal 16 w3 = (siv, w4)" "enclave_encrypt hal siv ?plain w4 = (Some sealed, w5)"
    "zf_storage_write_file_atomic hal ZF_PIN_FILE_PATH ZF_PIN_FILE_TEMP_PATH
       (pin_file_record 1 (pin_retries s) (pin_consecutive_mismatches s) (pin_flags s)
         iv c siv sealed) w5 = (True, w')"
    by (auto simp: zf_pin_state_store_persist_def zf_pin_seal_retry_state_def flags Let_def
        and_then_def ZF_WRAP_IV_LEN_def ZF_PIN_FILE_VERSION_def
        split: prod.splits option.splits if_splits)
  obtain b where b: "zf_storage_backup_path ZF_PIN_FILE_PATH = Some b"
    "distinct [ZF_PIN_FILE_PATH, ZF_PIN_FILE_TEMP_PATH, b]"
    using pin_paths by blast
  have lawful: "storage_lawful hal content" using plat by (simp add: pin_platform_def)
  show thesis
  proof (rule that [of iv c siv sealed])
    show "content w' ZF_PIN_FILE_PATH = Some (pin_file_record 1 (pin_retries s)
        (pin_consecutive_mismatches s) (pin_flags s) iv c siv sealed)"
      using write_atomic [OF lawful b steps(5)] by simp
    show "length iv = 16" "length siv = 16"
      using rnd [of 16 w1] rnd [of 16 w3] steps(1,3) by simp_all
    show "length c = 16" "\<And>v. fst (enclave_decrypt hal iv c v) = Some (pin_hash s)"
      using enc [of iv "pin_hash s" w2 c] steps(2) len by simp_all
    show "length sealed = 32" "\<And>v. fst (enclave_decrypt hal siv sealed v) = Some ?plain"
      using enc [of siv ?plain w4 sealed] steps(4) by (simp_all add: zf_pin_compute_retry_state_digest_def)
  qed
qed

lemma load_persisted:
  assumes plat: "pin_platform hal content" and set: "pin_set s" and len: "length (pin_hash s) = 16"
    and wf: "retry_wf s" and r: "zf_pin_state_store_persist hal s w = (True, w')"
    and same: "content v ZF_PIN_FILE_PATH = content w' ZF_PIN_FILE_PATH"
  shows "fst (zf_pin_state_store_load hal vars v) =
    (ZfPinLoadOk, pin_hash s, pin_retries s, pin_consecutive_mismatches s, pin_auth_blocked s)"
proof -
  obtain iv enc siv seal where rec:
    "content w' ZF_PIN_FILE_PATH = Some (pin_file_record 1 (pin_retries s)
      (pin_consecutive_mismatches s) (pin_flags s) iv enc siv seal)"
    "length iv = 16" "length enc = 16" "length siv = 16" "length seal = 32"
    and dec: "\<And>v. fst (enclave_decrypt hal iv enc v) = Some (pin_hash s)"
    "\<And>v. fst (enclave_decrypt hal siv seal v) = Some (le_bytes 4 ZF_PIN_RETRY_SEAL_MAGIC @
      [pin_retries s, pin_consecutive_mismatches s, pin_flags s, 0] @
      take 24 (zf_pin_compute_retry_state_digest (pin_hash s) (pin_retries s)
        (pin_consecutive_mismatches s) (pin_flags s)))"
    using persist_writes [OF plat set len r] by metis
  let ?raw = "pin_file_record 1 (pin_retries s) (pin_consecutive_mismatches s) (pin_flags s)
      iv enc siv seal"
  note fields = pin_file_fields [OF rec(2-5), of 1 "pin_retries s" "pin_consecutive_mismatches s"
      "pin_flags s"]
  obtain v1 where read: "zf_storage_read_file hal ZF_PIN_FILE_PATH 88 v = (Some ?raw, v1)"
  proof -
    have "fst (fs_read hal ZF_PIN_FILE_PATH v) = Some ?raw"
      using plat rec(1) same by (simp add: pin_platform_def)
    with that fields(1) show thesis
      by (cases "fs_read hal ZF_PIN_FILE_PATH v") (simp add: zf_storage_read_file_def)
  qed
  obtain v2 where dec1: "enclave_decrypt hal iv enc v1 = (Some (pin_hash s), v2)"
    using dec(1) [of v1] by (cases "enclave_decrypt hal iv enc v1") simp
  have flag: "pin_flags s AND NOT 1 = 0" "pin_flags s AND 1 \<noteq> 0 \<longleftrightarrow> pin_auth_blocked s"
    by (simp_all add: pin_flags_def)
  have seal_ok: "fst (zf_pin_verify_retry_state hal (pin_hash s) (pin_retries s)
      (pin_consecutive_mismatches s) (pin_flags s) siv seal v2)"
    using dec(2) [of v2]
    by (cases "enclave_decrypt hal siv seal v2")
      (simp add: zf_pin_verify_retry_state_def nth_append constant_time_equal_iff)
  have bounds: "\<not> pin_retries s > 8" "\<not> pin_consecutive_mismatches s > 3"
    using wf by (simp_all add: retry_wf_def not_less)
  obtain v3 where "zf_pin_verify_retry_state hal (pin_hash s) (pin_retries s)
      (pin_consecutive_mismatches s) (pin_flags s) siv seal v2 = (True, v3)"
    using seal_ok by (metis prod.collapse)
  then show ?thesis
    using read fields dec1 flag bounds rec(5)
    by (simp add: zf_pin_state_store_load_def Let_def ZF_PIN_FILE_VERSION_def
        ZF_PIN_RETRIES_MAX_def ZF_PIN_FILE_FLAG_AUTH_BLOCKED_def split: prod.split)
qed

lemma cleanup_keeps:
  assumes plat: "pin_platform hal content" and d: "content w ZF_PIN_FILE_PATH = Some d"
  shows "content (zf_pin_state_store_cleanup_temp hal w) ZF_PIN_FILE_PATH = Some d"
  using pin_file.recover_present [of hal content w d] d plat
  by (simp add: pin_platform_def zf_pin_state_store_cleanup_temp_def)

lemma restart_restores:
  assumes plat: "pin_platform hal content" and set: "pin_set s" and len: "length (pin_hash s) = 16"
    and wf: "retry_wf s" and r: "zf_pin_state_store_persist hal s w = (True, w')"
    and init: "zerofido_pin_init_with_result hal w' = (res, s', w'')"
  shows "res \<noteq> ZfPinInitInvalidPersistedState \<and> pin_set s' \<and> pin_hash s' = pin_hash s \<and>
    pin_retries s' = pin_retries s \<and> pin_consecutive_mismatches s' = 0 \<and> \<not> pin_auth_blocked s' \<and>
    \<not> pin_token_active s'"
proof -
  let ?v = "zf_pin_state_store_cleanup_temp hal w'"
  obtain iv enc siv seal where "content w' ZF_PIN_FILE_PATH = Some (pin_file_record 1 (pin_retries s)
      (pin_consecutive_mismatches s) (pin_flags s) iv enc siv seal)"
    using persist_writes [OF plat set len r] by metis
  with cleanup_keeps [OF plat] have same: "content ?v ZF_PIN_FILE_PATH = content w' ZF_PIN_FILE_PATH"
    by simp
  obtain v1 where load: "zf_pin_state_store_load hal (replicate 16 0, 8, 0, False) ?v =
    ((ZfPinLoadOk, pin_hash s, pin_retries s, pin_consecutive_mismatches s, pin_auth_blocked s), v1)"
    using load_persisted [OF plat set len wf r same] by (metis prod.collapse)
  with init show ?thesis
    by (auto simp: zerofido_pin_init_with_result_def Let_def zf_defs zero_pin_state_def
        split: prod.splits option.splits)
qed

end
