(* ===== verification/Runtime_Config.thy ===== *)
theory Runtime_Config
  imports Pin_Exact
begin

text \<open>
  \<^verbatim>\<open>zerofido_runtime_config.c\<close>: the persisted user preferences, the capabilities they resolve to, and
  the part of the application record (\<^verbatim>\<open>zerofido_app_i.h\<close>) that the CTAP layer shares between its
  threads. The preprocessor flags of the build are a record, so that every variant is covered;
  \<^verbatim>\<open>ZF_USB_ONLY\<close> takes precedence over \<^verbatim>\<open>ZF_NFC_ONLY\<close> as in the source.
\<close>

section \<open>Types\<close>

record zf_build =
  ZF_DEV_FIDO2_1 :: bool
  ZF_AUTO_ACCEPT_REQUESTS :: bool
  ZF_PACKED_ATTESTATION :: bool
  ZF_USB_ONLY :: bool
  ZF_NFC_ONLY :: bool

datatype ZfTransportMode = ZfTransportModeUsbHid | ZfTransportModeNfc
datatype ZfFido2Profile = ZfFido2ProfileCtap2_0 | ZfFido2ProfileCtap2_1Experimental

record ZfRuntimeConfig =
  rc_transport_mode :: ZfTransportMode
  rc_fido2_enabled :: bool
  rc_fido2_profile :: ZfFido2Profile
  rc_u2f_enabled :: bool
  rc_auto_accept_requests :: bool
  rc_attestation_mode :: ZfAttestationMode

record ZfResolvedCapabilities =
  usb_hid_enabled :: bool
  nfc_enabled :: bool
  fido2_enabled :: bool
  u2f_enabled :: bool
  client_pin_enabled :: bool
  selection_enabled :: bool
  transport_keepalive_enabled :: bool
  transport_cancel_enabled :: bool
  transport_wink_enabled :: bool
  fido2_profile :: ZfFido2Profile
  advertise_fido_2_1 :: bool
  advertise_fido_2_0 :: bool
  advertise_u2f_v2 :: bool
  pin_uv_auth_token_enabled :: bool
  pin_uv_auth_protocol_2_enabled :: bool
  client_pin_token_requires_consent :: bool
  make_cred_uv_not_required :: bool
  advertise_usb_transport :: bool
  advertise_nfc_transport :: bool
  auto_accept_requests :: bool
  attestation_mode :: ZfAttestationMode

text \<open>The shared state of the application that the PIN and CTAP commands read and write.\<close>

datatype ZfApprovalState = ZfApprovalIdle | ZfApprovalPending | ZfApprovalApproved
  | ZfApprovalDenied | ZfApprovalCanceled | ZfApprovalTimedOut

datatype ZfInteractionKind = ZfInteractionKindApproval | ZfInteractionKindAssertionSelection
datatype ZfUiProtocol = ZfUiProtocolFido2 | ZfUiProtocolU2f

text \<open>The union of the two prompts; \<open>selected_menu_index\<close> belongs to the view and is left out.\<close>

datatype approval_details =
    ApprovalPrompt (prompt_protocol: ZfUiProtocol) (prompt_operation: bytes) (prompt_user_text: bytes)
  | SelectionPrompt (sel_indices: "u16 list") (sel_record_index: u16)

record ZfApprovalRequest =
  ap_state :: ZfApprovalState
  ap_kind :: ZfInteractionKind
  ap_target_id :: bytes
  ap_generation :: u32
  ap_pending_hide_generation :: u32
  ap_deadline :: u32
  ap_done :: nat
  ap_details :: approval_details

record ZerofidoApp =
  app_pin_state :: ZfClientPinState
  app_runtime_config :: ZfRuntimeConfig
  app_capabilities :: ZfResolvedCapabilities
  app_capabilities_resolved :: bool
  app_maintenance_busy :: bool
  app_running :: bool
  app_ui_events_enabled :: bool
  app_transport_auto_accept_transaction :: bool
  app_approval :: ZfApprovalRequest

section \<open>Build constraints\<close>

text \<open>Enumeration values as stored: USB HID, CTAP 2.0 and packed attestation are zero.\<close>

definition transport_mode_of :: "byte \<Rightarrow> ZfTransportMode" where
  "transport_mode_of b = (if b = 0 then ZfTransportModeUsbHid else ZfTransportModeNfc)"
definition transport_mode_byte :: "ZfTransportMode \<Rightarrow> byte" where
  "transport_mode_byte m = (case m of ZfTransportModeUsbHid \<Rightarrow> 0 | ZfTransportModeNfc \<Rightarrow> 1)"
definition fido2_profile_of :: "byte \<Rightarrow> ZfFido2Profile" where
  "fido2_profile_of b = (if b = 0 then ZfFido2ProfileCtap2_0 else ZfFido2ProfileCtap2_1Experimental)"
definition fido2_profile_byte :: "ZfFido2Profile \<Rightarrow> byte" where
  "fido2_profile_byte p =
    (case p of ZfFido2ProfileCtap2_0 \<Rightarrow> 0 | ZfFido2ProfileCtap2_1Experimental \<Rightarrow> 1)"
definition attestation_mode_of :: "byte \<Rightarrow> ZfAttestationMode" where
  "attestation_mode_of b = (if b = 0 then ZfAttestationModePacked else ZfAttestationModeNone)"
definition attestation_mode_byte :: "ZfAttestationMode \<Rightarrow> byte" where
  "attestation_mode_byte m = (case m of ZfAttestationModePacked \<Rightarrow> 0 | ZfAttestationModeNone \<Rightarrow> 1)"

definition zf_transport_mode_is_valid :: "zf_build \<Rightarrow> byte \<Rightarrow> bool" where
  "zf_transport_mode_is_valid b mode \<longleftrightarrow>
    (if ZF_USB_ONLY b then mode = 0 else if ZF_NFC_ONLY b then mode = 1 else mode = 0 \<or> mode = 1)"

definition zf_runtime_config_default_transport_mode :: "zf_build \<Rightarrow> ZfTransportMode" where
  "zf_runtime_config_default_transport_mode b =
    (if ZF_NFC_ONLY b then ZfTransportModeNfc else ZfTransportModeUsbHid)"

definition zf_fido2_profile_is_valid :: "byte \<Rightarrow> bool" where
  "zf_fido2_profile_is_valid profile \<longleftrightarrow> profile = 0 \<or> profile = 1"

definition zf_fido2_profile_for_build :: "zf_build \<Rightarrow> ZfFido2Profile \<Rightarrow> ZfFido2Profile" where
  "zf_fido2_profile_for_build b profile =
    (if ZF_DEV_FIDO2_1 b then profile else ZfFido2ProfileCtap2_0)"

definition zf_attestation_mode_is_valid :: "byte \<Rightarrow> bool" where
  "zf_attestation_mode_is_valid mode \<longleftrightarrow> mode = 0 \<or> mode = 1"

definition zf_attestation_mode_for_build :: "zf_build \<Rightarrow> ZfAttestationMode \<Rightarrow> ZfAttestationMode" where
  "zf_attestation_mode_for_build b mode =
    (if ZF_PACKED_ATTESTATION b then mode else ZfAttestationModeNone)"

definition zf_attestation_mode_is_settable :: "zf_build \<Rightarrow> ZfAttestationMode \<Rightarrow> bool" where
  "zf_attestation_mode_is_settable b mode \<longleftrightarrow>
    (if ZF_PACKED_ATTESTATION b then True else mode = ZfAttestationModeNone)"

section \<open>The configuration file\<close>

definition ZF_RUNTIME_CONFIG_FILE_PATH :: path
  where "ZF_RUNTIME_CONFIG_FILE_PATH = ''/ext/apps_data/zerofido/runtime_config.bin''"
definition ZF_RUNTIME_CONFIG_FILE_TEMP_PATH :: path
  where "ZF_RUNTIME_CONFIG_FILE_TEMP_PATH = ''/ext/apps_data/zerofido/runtime_config.tmp''"
definition ZF_RUNTIME_CONFIG_FILE_MAGIC :: u32 where "ZF_RUNTIME_CONFIG_FILE_MAGIC = 0x5A465243"
definition ZF_RUNTIME_CONFIG_FILE_VERSION :: byte where "ZF_RUNTIME_CONFIG_FILE_VERSION = 4"
definition ZF_RUNTIME_CONFIG_FILE_VERSION_3_SIZE :: nat
  where "ZF_RUNTIME_CONFIG_FILE_VERSION_3_SIZE = 8"
definition ZF_RUNTIME_CONFIG_FLAG_AUTO_ACCEPT_REQUESTS :: byte
  where "ZF_RUNTIME_CONFIG_FLAG_AUTO_ACCEPT_REQUESTS = 1"
definition ZF_RUNTIME_CONFIG_FLAG_FIDO2_ENABLED :: byte
  where "ZF_RUNTIME_CONFIG_FLAG_FIDO2_ENABLED = 2"

text \<open>Nine bytes of fields, padded to the alignment of the magic number.\<close>

definition runtime_config_record_size :: nat where "runtime_config_record_size = 12"

definition runtime_config_record :: "byte \<Rightarrow> byte \<Rightarrow> byte \<Rightarrow> byte \<Rightarrow> byte \<Rightarrow> bytes" where
  "runtime_config_record version flags transport profile attestation =
    le_bytes 4 ZF_RUNTIME_CONFIG_FILE_MAGIC @ [version, flags, transport, profile, attestation, 0, 0, 0]"

definition zf_runtime_config_load_defaults :: "zf_build \<Rightarrow> ZfRuntimeConfig" where
  "zf_runtime_config_load_defaults b =
    \<lparr>rc_transport_mode = zf_runtime_config_default_transport_mode b, rc_fido2_enabled = True,
     rc_fido2_profile = ZfFido2ProfileCtap2_0, rc_u2f_enabled = True,
     rc_auto_accept_requests = False, rc_attestation_mode = ZfAttestationModeNone\<rparr>"

text \<open>
  The checks of the version: the configuration so far, and whether the load went on to its end. A
  file shorter than the record leaves the remaining fields zero.
\<close>

definition runtime_config_version ::
  "zf_build \<Rightarrow> nat \<Rightarrow> bytes \<Rightarrow> ZfRuntimeConfig \<Rightarrow> bool \<times> ZfRuntimeConfig" where
  "runtime_config_version b len record config =
    (let version = record ! 4; transport = record ! 6; profile = record ! 7; attestation = record ! 8 in
     if version = 1 then
       (True, config\<lparr>rc_transport_mode := zf_runtime_config_default_transport_mode b,
                     rc_fido2_profile := ZfFido2ProfileCtap2_0,
                     rc_attestation_mode := ZfAttestationModeNone\<rparr>)
     else if version = 2 then
       (if \<not> zf_transport_mode_is_valid b transport then (False, config)
        else let config = config\<lparr>rc_transport_mode := transport_mode_of transport\<rparr> in
          if profile \<noteq> 0 then (False, config)
          else (True, config\<lparr>rc_fido2_profile := ZfFido2ProfileCtap2_0,
                             rc_attestation_mode := ZfAttestationModeNone\<rparr>))
     else if version = 3 \<or> version = ZF_RUNTIME_CONFIG_FILE_VERSION then
       (if \<not> zf_transport_mode_is_valid b transport \<or> \<not> zf_fido2_profile_is_valid profile
        then (False, config)
        else let config = config\<lparr>rc_transport_mode := transport_mode_of transport,
                                 rc_fido2_profile := fido2_profile_of profile\<rparr> in
          if version = ZF_RUNTIME_CONFIG_FILE_VERSION then
            (if len \<noteq> runtime_config_record_size \<or> \<not> zf_attestation_mode_is_valid attestation
             then (False, config)
             else (True, config\<lparr>rc_attestation_mode := attestation_mode_of attestation\<rparr>))
          else (True, config\<lparr>rc_attestation_mode := ZfAttestationModeNone\<rparr>))
     else (False, config))"

definition zf_runtime_config_load :: "zf_build \<Rightarrow> 'w hal \<Rightarrow> 'w \<Rightarrow> ZfRuntimeConfig \<times> 'w" where
  "zf_runtime_config_load b hal w =
    (let config = zf_runtime_config_load_defaults b;
         w = snd (zf_storage_recover_atomic_file hal ZF_RUNTIME_CONFIG_FILE_PATH
                    ZF_RUNTIME_CONFIG_FILE_TEMP_PATH w)
     in case zf_storage_read_file hal ZF_RUNTIME_CONFIG_FILE_PATH runtime_config_record_size w of
       (None, w) \<Rightarrow> (config, w)
     | (Some data, w) \<Rightarrow>
        (let len = length data;
             record = data @ replicate (runtime_config_record_size - len) 0
         in if len \<noteq> ZF_RUNTIME_CONFIG_FILE_VERSION_3_SIZE \<and> len \<noteq> runtime_config_record_size
            then (config, w)
            else if take 4 record \<noteq> le_bytes 4 ZF_RUNTIME_CONFIG_FILE_MAGIC then (config, w)
            else if record ! 5 AND NOT (ZF_RUNTIME_CONFIG_FLAG_AUTO_ACCEPT_REQUESTS OR
                      ZF_RUNTIME_CONFIG_FLAG_FIDO2_ENABLED) \<noteq> 0
            then (config, w)
            else case runtime_config_version b len record config of
              (False, config) \<Rightarrow> (config, w)
            | (True, config) \<Rightarrow>
               (config\<lparr>rc_fido2_profile := zf_fido2_profile_for_build b (rc_fido2_profile config),
                       rc_attestation_mode := zf_attestation_mode_for_build b (rc_attestation_mode config),
                       rc_auto_accept_requests :=
                         ZF_AUTO_ACCEPT_REQUESTS b \<and>
                         record ! 5 AND ZF_RUNTIME_CONFIG_FLAG_AUTO_ACCEPT_REQUESTS \<noteq> 0,
                       rc_fido2_enabled := True\<rparr>, w)))"

definition zf_runtime_config_persist ::
  "zf_build \<Rightarrow> 'w hal \<Rightarrow> ZfRuntimeConfig \<Rightarrow> 'w \<Rightarrow> bool \<times> 'w" where
  "zf_runtime_config_persist b hal config w =
    (let record = runtime_config_record ZF_RUNTIME_CONFIG_FILE_VERSION
           ((if ZF_AUTO_ACCEPT_REQUESTS b \<and> rc_auto_accept_requests config
             then ZF_RUNTIME_CONFIG_FLAG_AUTO_ACCEPT_REQUESTS else 0) OR
            ZF_RUNTIME_CONFIG_FLAG_FIDO2_ENABLED)
           (transport_mode_byte (rc_transport_mode config))
           (fido2_profile_byte (zf_fido2_profile_for_build b (rc_fido2_profile config)))
           (attestation_mode_byte (zf_attestation_mode_for_build b (rc_attestation_mode config)))
     in if \<not> zf_fido2_profile_is_valid (fido2_profile_byte (rc_fido2_profile config)) \<or>
           \<not> zf_attestation_mode_is_valid (attestation_mode_byte (rc_attestation_mode config))
        then (False, w)
        else case zf_storage_ensure_app_data_dir hal w of
          (False, w) \<Rightarrow> (False, w)
        | (True, w) \<Rightarrow>
           zf_storage_write_file_atomic hal ZF_RUNTIME_CONFIG_FILE_PATH
             ZF_RUNTIME_CONFIG_FILE_TEMP_PATH record w)"

section \<open>Capabilities\<close>

definition zf_runtime_config_resolve_capabilities ::
  "zf_build \<Rightarrow> ZfRuntimeConfig \<Rightarrow> ZfResolvedCapabilities" where
  "zf_runtime_config_resolve_capabilities b config =
    (let usb = (if ZF_USB_ONLY b then True else if ZF_NFC_ONLY b then False
                else rc_transport_mode config = ZfTransportModeUsbHid);
         nfc = (if ZF_USB_ONLY b then False else if ZF_NFC_ONLY b then True
                else rc_transport_mode config = ZfTransportModeNfc);
         profile = zf_fido2_profile_for_build b (rc_fido2_profile config);
         adv = (if \<not> ZF_DEV_FIDO2_1 b then False else profile = ZfFido2ProfileCtap2_1Experimental)
     in \<lparr>usb_hid_enabled = usb, nfc_enabled = nfc, fido2_enabled = True,
         u2f_enabled = rc_u2f_enabled config, client_pin_enabled = True, selection_enabled = adv,
         transport_keepalive_enabled = usb, transport_cancel_enabled = usb,
         transport_wink_enabled = (usb \<and> rc_u2f_enabled config), fido2_profile = profile,
         advertise_fido_2_1 = adv, advertise_fido_2_0 = True,
         advertise_u2f_v2 = rc_u2f_enabled config, pin_uv_auth_token_enabled = adv,
         pin_uv_auth_protocol_2_enabled = adv, client_pin_token_requires_consent = adv,
         make_cred_uv_not_required = adv, advertise_usb_transport = usb,
         advertise_nfc_transport = nfc,
         auto_accept_requests = (ZF_AUTO_ACCEPT_REQUESTS b \<and> rc_auto_accept_requests config),
         attestation_mode = zf_attestation_mode_for_build b (rc_attestation_mode config)\<rparr>)"

definition zf_runtime_config_resolve_app_capabilities ::
  "zf_build \<Rightarrow> 'a ZerofidoApp_scheme \<Rightarrow> ZfRuntimeConfig \<Rightarrow> 'a ZerofidoApp_scheme" where
  "zf_runtime_config_resolve_app_capabilities b app config =
    (let effective = config\<lparr>rc_auto_accept_requests :=
                              ZF_AUTO_ACCEPT_REQUESTS b \<and> rc_auto_accept_requests config,
                            rc_fido2_profile := zf_fido2_profile_for_build b (rc_fido2_profile config)\<rparr>;
         effective = (if rc_fido2_profile effective = ZfFido2ProfileCtap2_1Experimental \<and>
                         \<not> pin_set (app_pin_state app)
                      then effective\<lparr>rc_fido2_profile := ZfFido2ProfileCtap2_0\<rparr> else effective)
     in app\<lparr>app_capabilities := zf_runtime_config_resolve_capabilities b effective,
            app_capabilities_resolved := True\<rparr>)"

definition zf_runtime_config_apply ::
  "zf_build \<Rightarrow> 'a ZerofidoApp_scheme \<Rightarrow> ZfRuntimeConfig \<Rightarrow> 'a ZerofidoApp_scheme" where
  "zf_runtime_config_apply b app config =
    (let config = config\<lparr>rc_auto_accept_requests :=
                           ZF_AUTO_ACCEPT_REQUESTS b \<and> rc_auto_accept_requests config,
                         rc_fido2_profile := zf_fido2_profile_for_build b (rc_fido2_profile config),
                         rc_attestation_mode := zf_attestation_mode_for_build b (rc_attestation_mode config)\<rparr>
     in zf_runtime_config_resolve_app_capabilities b (app\<lparr>app_runtime_config := config\<rparr>) config)"

definition zf_runtime_config_refresh_capabilities ::
  "zf_build \<Rightarrow> 'a ZerofidoApp_scheme \<Rightarrow> 'a ZerofidoApp_scheme" where
  "zf_runtime_config_refresh_capabilities b app =
    zf_runtime_config_resolve_app_capabilities b app (app_runtime_config app)"

definition zf_runtime_get_effective_capabilities ::
  "zf_build \<Rightarrow> 'a ZerofidoApp_scheme \<Rightarrow> ZfResolvedCapabilities" where
  "zf_runtime_get_effective_capabilities b app =
    (if app_capabilities_resolved app then app_capabilities app
     else zf_runtime_config_resolve_capabilities b (zf_runtime_config_load_defaults b))"

section \<open>Setters\<close>

text \<open>Every setter persists the new configuration first and applies it only when that worked.\<close>

definition persist_then_apply ::
  "zf_build \<Rightarrow> 'w hal \<Rightarrow> 'a ZerofidoApp_scheme \<Rightarrow> ZfRuntimeConfig \<Rightarrow> 'w \<Rightarrow>
    bool \<times> 'a ZerofidoApp_scheme \<times> 'w" where
  "persist_then_apply b hal app config w =
    (let r = zf_runtime_config_persist b hal config w in
     if fst r then (True, zf_runtime_config_apply b app config, snd r) else (False, app, snd r))"

definition zf_runtime_config_set_auto_accept_requests ::
  "zf_build \<Rightarrow> 'w hal \<Rightarrow> 'a ZerofidoApp_scheme \<Rightarrow> bool \<Rightarrow> 'w \<Rightarrow> bool \<times> 'a ZerofidoApp_scheme \<times> 'w" where
  "zf_runtime_config_set_auto_accept_requests b hal app enabled w =
    (if \<not> ZF_AUTO_ACCEPT_REQUESTS b then (False, app, w)
     else persist_then_apply b hal app
       ((app_runtime_config app)\<lparr>rc_auto_accept_requests := enabled\<rparr>) w)"

definition zf_runtime_config_set_fido2_enabled ::
  "zf_build \<Rightarrow> 'w hal \<Rightarrow> 'a ZerofidoApp_scheme \<Rightarrow> bool \<Rightarrow> 'w \<Rightarrow> bool \<times> 'a ZerofidoApp_scheme \<times> 'w" where
  "zf_runtime_config_set_fido2_enabled b hal app enabled w =
    persist_then_apply b hal app ((app_runtime_config app)\<lparr>rc_fido2_enabled := True\<rparr>) w"

definition zf_runtime_config_set_fido2_profile ::
  "zf_build \<Rightarrow> 'w hal \<Rightarrow> 'a ZerofidoApp_scheme \<Rightarrow> ZfFido2Profile \<Rightarrow> 'w \<Rightarrow>
    bool \<times> 'a ZerofidoApp_scheme \<times> 'w" where
  "zf_runtime_config_set_fido2_profile b hal app profile w =
    (if \<not> ZF_DEV_FIDO2_1 b \<and> profile = ZfFido2ProfileCtap2_1Experimental then (False, app, w)
     else if profile = ZfFido2ProfileCtap2_1Experimental \<and> \<not> pin_set (app_pin_state app)
     then (False, app, w)
     else persist_then_apply b hal app ((app_runtime_config app)\<lparr>rc_fido2_profile := profile\<rparr>) w)"

definition zf_runtime_config_set_attestation_mode ::
  "zf_build \<Rightarrow> 'w hal \<Rightarrow> 'a ZerofidoApp_scheme \<Rightarrow> ZfAttestationMode \<Rightarrow> 'w \<Rightarrow>
    bool \<times> 'a ZerofidoApp_scheme \<times> 'w" where
  "zf_runtime_config_set_attestation_mode b hal app mode w =
    (if \<not> zf_attestation_mode_is_settable b mode then (False, app, w)
     else persist_then_apply b hal app ((app_runtime_config app)\<lparr>rc_attestation_mode := mode\<rparr>) w)"

definition zf_runtime_config_set_transport_mode ::
  "zf_build \<Rightarrow> 'w hal \<Rightarrow> 'a ZerofidoApp_scheme \<Rightarrow> ZfTransportMode \<Rightarrow> 'w \<Rightarrow>
    bool \<times> 'a ZerofidoApp_scheme \<times> 'w" where
  "zf_runtime_config_set_transport_mode b hal app mode w =
    (if \<not> zf_transport_mode_is_valid b (transport_mode_byte mode) then (False, app, w)
     else persist_then_apply b hal app ((app_runtime_config app)\<lparr>rc_transport_mode := mode\<rparr>) w)"

section \<open>Commands\<close>

definition ZfCtapeCmdMakeCredential :: byte where "ZfCtapeCmdMakeCredential = 0x01"
definition ZfCtapeCmdGetAssertion :: byte where "ZfCtapeCmdGetAssertion = 0x02"
definition ZfCtapeCmdGetInfo :: byte where "ZfCtapeCmdGetInfo = 0x04"
definition ZfCtapeCmdClientPin :: byte where "ZfCtapeCmdClientPin = 0x06"
definition ZfCtapeCmdReset :: byte where "ZfCtapeCmdReset = 0x07"
definition ZfCtapeCmdGetNextAssertion :: byte where "ZfCtapeCmdGetNextAssertion = 0x08"
definition ZfCtapeCmdSelection :: byte where "ZfCtapeCmdSelection = 0x0B"

definition zf_runtime_ctap_command_enabled :: "zf_build \<Rightarrow> 'a ZerofidoApp_scheme \<Rightarrow> byte \<Rightarrow> bool" where
  "zf_runtime_ctap_command_enabled b app cmd =
    (let capabilities = zf_runtime_get_effective_capabilities b app in
     if cmd \<in> {ZfCtapeCmdGetInfo, ZfCtapeCmdMakeCredential, ZfCtapeCmdGetAssertion, ZfCtapeCmdReset,
               ZfCtapeCmdGetNextAssertion}
     then fido2_enabled capabilities
     else if cmd = ZfCtapeCmdClientPin then client_pin_enabled capabilities
     else if cmd = ZfCtapeCmdSelection then selection_enabled capabilities
     else False)"

section \<open>Lemmas\<close>

lemmas config_bytes = transport_mode_of_def transport_mode_byte_def fido2_profile_of_def
  fido2_profile_byte_def attestation_mode_of_def attestation_mode_byte_def
  zf_fido2_profile_is_valid_def zf_attestation_mode_is_valid_def

lemma config_bytes_inverse [simp]:
  "transport_mode_of (transport_mode_byte m) = m"
  "fido2_profile_of (fido2_profile_byte p) = p"
  "attestation_mode_of (attestation_mode_byte a) = a"
  "zf_fido2_profile_is_valid (fido2_profile_byte p)"
  "zf_attestation_mode_is_valid (attestation_mode_byte a)"
  by (cases m; cases p; cases a; simp add: config_bytes)+

interpretation config_file: atomic_file ZF_RUNTIME_CONFIG_FILE_PATH ZF_RUNTIME_CONFIG_FILE_TEMP_PATH
  by unfold_locales
    (simp add: zf_storage_backup_path_def zf_storage_build_suffixed_path_def
      ZF_RUNTIME_CONFIG_FILE_PATH_def ZF_RUNTIME_CONFIG_FILE_TEMP_PATH_def
      ZF_STORAGE_BACKUP_SUFFIX_def ZF_STORAGE_PATH_BUFFER_SIZE_def)

text \<open>What a configuration becomes in a build.\<close>

definition config_for_build :: "zf_build \<Rightarrow> ZfRuntimeConfig \<Rightarrow> ZfRuntimeConfig" where
  "config_for_build b config =
    config\<lparr>rc_fido2_enabled := True, rc_u2f_enabled := True,
           rc_fido2_profile := zf_fido2_profile_for_build b (rc_fido2_profile config),
           rc_attestation_mode := zf_attestation_mode_for_build b (rc_attestation_mode config),
           rc_auto_accept_requests := ZF_AUTO_ACCEPT_REQUESTS b \<and> rc_auto_accept_requests config\<rparr>"

lemma for_build_idem [simp]:
  "zf_fido2_profile_for_build b (zf_fido2_profile_for_build b p) = zf_fido2_profile_for_build b p"
  "zf_attestation_mode_for_build b (zf_attestation_mode_for_build b a) = zf_attestation_mode_for_build b a"
  by (simp_all add: zf_fido2_profile_for_build_def zf_attestation_mode_for_build_def)

lemma runtime_config_record_fields [simp]:
  "length (runtime_config_record v f t p a) = 12"
  "take 4 (runtime_config_record v f t p a) = le_bytes 4 ZF_RUNTIME_CONFIG_FILE_MAGIC"
  "runtime_config_record v f t p a ! 4 = v"
  "runtime_config_record v f t p a ! 5 = f"
  "runtime_config_record v f t p a ! 6 = t"
  "runtime_config_record v f t p a ! 7 = p"
  "runtime_config_record v f t p a ! 8 = a"
  by (simp_all add: runtime_config_record_def nth_append)

lemma config_roundtrip:
  assumes lawful: "storage_lawful hal content" and reads: "\<And>p w. fst (fs_read hal p w) = content w p"
    and ok: "zf_runtime_config_persist b hal config w = (True, w')"
    and mode: "zf_transport_mode_is_valid b (transport_mode_byte (rc_transport_mode config))"
  shows "fst (zf_runtime_config_load b hal w') = config_for_build b config"
proof -
  let ?p = ZF_RUNTIME_CONFIG_FILE_PATH and ?t = ZF_RUNTIME_CONFIG_FILE_TEMP_PATH
  let ?rec = "runtime_config_record ZF_RUNTIME_CONFIG_FILE_VERSION
     ((if ZF_AUTO_ACCEPT_REQUESTS b \<and> rc_auto_accept_requests config
       then ZF_RUNTIME_CONFIG_FLAG_AUTO_ACCEPT_REQUESTS else 0) OR
      ZF_RUNTIME_CONFIG_FLAG_FIDO2_ENABLED)
     (transport_mode_byte (rc_transport_mode config))
     (fido2_profile_byte (zf_fido2_profile_for_build b (rc_fido2_profile config)))
     (attestation_mode_byte (zf_attestation_mode_for_build b (rc_attestation_mode config)))"
  obtain w1 where "zf_storage_write_file_atomic hal ?p ?t ?rec w1 = (True, w')"
    using ok by (auto simp: zf_runtime_config_persist_def Let_def split: prod.splits bool.splits)
  from config_file.written_present [OF lawful this]
  have "content (snd (zf_storage_recover_atomic_file hal ?p ?t w')) ?p = Some ?rec"
    using config_file.recover_present [OF lawful] by blast
  then obtain w2 where "fs_read hal ?p (snd (zf_storage_recover_atomic_file hal ?p ?t w')) =
      (Some ?rec, w2)"
    using reads by (metis prod.collapse)
  then show ?thesis
    using mode
    by (simp add: zf_runtime_config_load_def zf_storage_read_file_def runtime_config_record_size_def
        runtime_config_version_def ZF_RUNTIME_CONFIG_FILE_VERSION_def config_for_build_def
        zf_runtime_config_load_defaults_def Let_def ZF_RUNTIME_CONFIG_FLAG_AUTO_ACCEPT_REQUESTS_def
        ZF_RUNTIME_CONFIG_FLAG_FIDO2_ENABLED_def)
qed

lemma capabilities_one_transport:
  "usb_hid_enabled (zf_runtime_config_resolve_capabilities b config) \<longleftrightarrow>
    \<not> nfc_enabled (zf_runtime_config_resolve_capabilities b config)"
  by (cases "rc_transport_mode config") (simp_all add: zf_runtime_config_resolve_capabilities_def Let_def)

lemma advertised_2_1:
  assumes "app' = zf_runtime_config_resolve_app_capabilities b app config"
    and "advertise_fido_2_1 (app_capabilities app')"
  shows "ZF_DEV_FIDO2_1 b \<and> pin_set (app_pin_state app) \<and>
    rc_fido2_profile config = ZfFido2ProfileCtap2_1Experimental"
  using assms
  by (simp add: zf_runtime_config_resolve_app_capabilities_def Let_def
      zf_runtime_config_resolve_capabilities_def zf_fido2_profile_for_build_def split: if_splits)

lemma resolve_keeps [simp]:
  "app_pin_state (zf_runtime_config_resolve_app_capabilities b app config) = app_pin_state app"
  "app_maintenance_busy (zf_runtime_config_resolve_app_capabilities b app config) =
    app_maintenance_busy app"
  by (simp_all add: zf_runtime_config_resolve_app_capabilities_def Let_def)

end
