(* ===== verification/Approval.thy ===== *)
theory Approval
  imports Runtime_Config
begin

text \<open>
  \<^verbatim>\<open>ui/approval_state.c\<close> and \<^verbatim>\<open>ctap/core/approval.c\<close>: the interaction with the user that every
  sensitive command waits for. A prompt is prepared under the mutex, shown, and completed by exactly
  one of: the dialog, a denial, the deadline, a cancellation by the host. Drawing, notifications and
  the wake-up of the transport have no counterpart. \<open>zf_transport_wait_for_interaction\<close> blocks while
  other threads run; it is the parameter \<open>wait\<close>, which maps the application to what those threads
  leave behind.
\<close>

type_synonym ('a, 'w) waiting = "u32 \<Rightarrow> 'a ZerofidoApp_scheme \<Rightarrow> 'w \<Rightarrow> bool \<times> 'a ZerofidoApp_scheme \<times> 'w"

section \<open>The interaction\<close>

definition ZF_APPROVAL_TIMEOUT_MS :: u32 where "ZF_APPROVAL_TIMEOUT_MS = 30000"

text \<open>The semaphore \<open>done\<close> has one slot.\<close>

definition zerofido_ui_finish_interaction_locked ::
  "'a ZerofidoApp_scheme \<Rightarrow> ZfApprovalState \<Rightarrow> bool \<times> 'a ZerofidoApp_scheme" where
  "zerofido_ui_finish_interaction_locked app state =
    (let ap = app_approval app in
     if ap_state ap \<noteq> ZfApprovalPending then (False, app)
     else (True, app\<lparr>app_approval := ap\<lparr>ap_state := state,
             ap_pending_hide_generation := ap_generation ap, ap_done := 1\<rparr>\<rparr>))"

definition zerofido_dialog_result_callback ::
  "'a ZerofidoApp_scheme \<Rightarrow> bool \<Rightarrow> 'a ZerofidoApp_scheme" where
  "zerofido_dialog_result_callback app right =
    snd (zerofido_ui_finish_interaction_locked app
      (if right then ZfApprovalApproved else ZfApprovalDenied))"

definition zf_ui_format_approval_header :: "nat \<Rightarrow> ZfUiProtocol \<Rightarrow> bytes \<Rightarrow> bytes" where
  "zf_ui_format_approval_header out_size protocol operation =
    take (out_size - 1)
     (if protocol = ZfUiProtocolFido2 then
        if operation = ascii ''Register'' then ascii ''Create passkey''
        else if operation = ascii ''Authenticate'' then ascii ''Use passkey''
        else if operation = ascii ''Reset'' then ascii ''Reset ZeroFIDO''
        else operation
      else ascii ''U2F '' @ operation)"

definition zerofido_ui_prepare_interaction_locked ::
  "'w hal \<Rightarrow> 'a ZerofidoApp_scheme \<Rightarrow> ZfInteractionKind \<Rightarrow> ZfUiProtocol \<Rightarrow> bytes \<Rightarrow> bytes \<Rightarrow> bytes \<Rightarrow>
    'w \<Rightarrow> 'a ZerofidoApp_scheme" where
  "zerofido_ui_prepare_interaction_locked hal app kind protocol operation target_id user_text w =
    app\<lparr>app_approval := (app_approval app)
      \<lparr>ap_generation := ap_generation (app_approval app) + 1, ap_pending_hide_generation := 0,
       ap_state := ZfApprovalPending, ap_kind := kind,
       ap_deadline := furi_get_tick hal w + ZF_APPROVAL_TIMEOUT_MS,
       ap_target_id := take (ZF_MAX_RP_ID_LEN - 1) target_id,
       ap_details := (case kind of
           ZfInteractionKindApproval \<Rightarrow>
             ApprovalPrompt protocol (zf_ui_format_approval_header 24 protocol operation)
               (take (ZF_MAX_USER_NAME_LEN + ZF_MAX_DISPLAY_NAME_LEN + 8 - 1) user_text)
         | ZfInteractionKindAssertionSelection \<Rightarrow> SelectionPrompt [] 0xFFFF)\<rparr>\<rparr>"

definition zerofido_ui_clear_interaction_signal :: "'a ZerofidoApp_scheme \<Rightarrow> 'a ZerofidoApp_scheme" where
  "zerofido_ui_clear_interaction_signal app = app\<lparr>app_approval := (app_approval app)\<lparr>ap_done := 0\<rparr>\<rparr>"

definition zerofido_ui_wait_for_interaction_result ::
  "('a, 'w) waiting \<Rightarrow> u32 \<Rightarrow> 'a ZerofidoApp_scheme \<Rightarrow> 'w \<Rightarrow> (bool \<times> bool) \<times> 'a ZerofidoApp_scheme \<times> 'w" where
  "zerofido_ui_wait_for_interaction_result wait session_id app w =
    (case wait session_id app w of
       (False, app, w) \<Rightarrow> ((False, False), app, w)
     | (True, app, w) \<Rightarrow>
        (let st = ap_state (app_approval app) in
         ((st \<in> {ZfApprovalApproved, ZfApprovalDenied, ZfApprovalCanceled, ZfApprovalTimedOut},
           st = ZfApprovalApproved), app, w)))"

text \<open>The result: whether a terminal state was reached, and whether it was an approval.\<close>

definition zerofido_ui_request_approval ::
  "zf_build \<Rightarrow> 'w hal \<Rightarrow> ('a, 'w) waiting \<Rightarrow> 'a ZerofidoApp_scheme \<Rightarrow> ZfUiProtocol \<Rightarrow> bytes \<Rightarrow> bytes \<Rightarrow>
    bytes \<Rightarrow> u32 \<Rightarrow> 'w \<Rightarrow> (bool \<times> bool) \<times> 'a ZerofidoApp_scheme \<times> 'w" where
  "zerofido_ui_request_approval b hal wait app protocol operation target_id user_text session_id w =
    (if \<not> app_ui_events_enabled app \<or> \<not> app_running app \<or> app_maintenance_busy app
     then ((False, False), app, w)
     else if ZF_AUTO_ACCEPT_REQUESTS b \<and>
               auto_accept_requests (zf_runtime_get_effective_capabilities b app) \<or>
             app_transport_auto_accept_transaction app
     then ((True, True), app, w)
     else
       let app = zerofido_ui_prepare_interaction_locked hal app ZfInteractionKindApproval protocol
                   operation target_id user_text w;
           app = zerofido_ui_clear_interaction_signal app
       in zerofido_ui_wait_for_interaction_result wait session_id app w)"

definition zerofido_ui_request_assertion_selection ::
  "'w hal \<Rightarrow> ('a, 'w) waiting \<Rightarrow> 'a ZerofidoApp_scheme \<Rightarrow> bytes \<Rightarrow> u16 list \<Rightarrow> u32 \<Rightarrow> 'w \<Rightarrow>
    u16 option \<times> 'a ZerofidoApp_scheme \<times> 'w" where
  "zerofido_ui_request_assertion_selection hal wait app rp_id match_indices session_id w =
    (if length match_indices = 0 \<or> length match_indices > ZF_MAX_CREDENTIALS then (None, app, w)
     else if \<not> app_ui_events_enabled app \<or> \<not> app_running app \<or> app_maintenance_busy app
     then (None, app, w)
     else
       let app = zerofido_ui_prepare_interaction_locked hal app ZfInteractionKindAssertionSelection
                   ZfUiProtocolFido2 (ascii ''Select account'') rp_id (ascii ''Choose account'') w;
           app = app\<lparr>app_approval := (app_approval app)
                   \<lparr>ap_details := SelectionPrompt match_indices 0xFFFF\<rparr>\<rparr>;
           app = zerofido_ui_clear_interaction_signal app
       in case zerofido_ui_wait_for_interaction_result wait session_id app w of
            ((ok, approved), app, w) \<Rightarrow>
              if \<not> ok \<or> \<not> approved then (None, app, w)
              else (case ap_details (app_approval app) of
                  SelectionPrompt _ record \<Rightarrow> (if record \<noteq> 0xFFFF then Some record else None, app, w)
                | ApprovalPrompt _ _ _ \<Rightarrow> (None, app, w)))"

text \<open>Hiding the prompt: whether it is still the prompt that was completed.\<close>

definition zerofido_ui_hide_interaction :: "'a ZerofidoApp_scheme \<Rightarrow> bool \<times> 'a ZerofidoApp_scheme" where
  "zerofido_ui_hide_interaction app =
    (let ap = app_approval app in
     if ap_pending_hide_generation ap = ap_generation ap \<and> ap_state ap \<noteq> ZfApprovalPending
     then (True, app\<lparr>app_approval := ap\<lparr>ap_pending_hide_generation := 0\<rparr>\<rparr>)
     else (False, app))"

definition zerofido_ui_deny_pending_interaction ::
  "'a ZerofidoApp_scheme \<Rightarrow> bool \<times> 'a ZerofidoApp_scheme" where
  "zerofido_ui_deny_pending_interaction app =
    zerofido_ui_finish_interaction_locked app ZfApprovalDenied"

definition zerofido_ui_expire_pending_interaction ::
  "u32 \<Rightarrow> 'a ZerofidoApp_scheme \<Rightarrow> bool \<times> 'a ZerofidoApp_scheme" where
  "zerofido_ui_expire_pending_interaction tick app =
    (if ap_state (app_approval app) = ZfApprovalPending \<and>
        sint (tick - ap_deadline (app_approval app)) \<ge> 0
     then zerofido_ui_finish_interaction_locked app ZfApprovalTimedOut else (False, app))"

definition zerofido_ui_cancel_pending_interaction_locked ::
  "'a ZerofidoApp_scheme \<Rightarrow> bool \<times> 'a ZerofidoApp_scheme" where
  "zerofido_ui_cancel_pending_interaction_locked app =
    zerofido_ui_finish_interaction_locked app ZfApprovalCanceled"

definition zerofido_ui_cancel_pending_interaction ::
  "'a ZerofidoApp_scheme \<Rightarrow> bool \<times> 'a ZerofidoApp_scheme" where
  "zerofido_ui_cancel_pending_interaction app = zerofido_ui_cancel_pending_interaction_locked app"

definition zerofido_ui_get_interaction_state :: "'a ZerofidoApp_scheme \<Rightarrow> ZfApprovalState" where
  "zerofido_ui_get_interaction_state app = ap_state (app_approval app)"

section \<open>CTAP statuses\<close>

definition zf_ctap_status_from_interaction_state :: "ZfApprovalState \<Rightarrow> bool \<Rightarrow> ctap_status" where
  "zf_ctap_status_from_interaction_state state timeout_is_denied =
    (case state of
       ZfApprovalTimedOut \<Rightarrow>
         (if timeout_is_denied then ZF_CTAP_ERR_OPERATION_DENIED else ZF_CTAP_ERR_USER_ACTION_TIMEOUT)
     | ZfApprovalCanceled \<Rightarrow> ZF_CTAP_ERR_KEEPALIVE_CANCEL
     | _ \<Rightarrow> ZF_CTAP_ERR_OPERATION_DENIED)"

definition zf_ctap_request_approval ::
  "zf_build \<Rightarrow> 'w hal \<Rightarrow> ('a, 'w) waiting \<Rightarrow> 'a ZerofidoApp_scheme \<Rightarrow> bytes \<Rightarrow> bytes \<Rightarrow> bytes \<Rightarrow> u32 \<Rightarrow>
    'w \<Rightarrow> ctap_status \<times> 'a ZerofidoApp_scheme \<times> 'w" where
  "zf_ctap_request_approval b hal wait app operation rp_id user_text session_id w =
    (case zerofido_ui_request_approval b hal wait app ZfUiProtocolFido2 operation rp_id user_text
        session_id w of
       ((ok, approved), app, w) \<Rightarrow>
         (if \<not> ok then ZF_CTAP_ERR_USER_ACTION_TIMEOUT
          else if approved then ZF_CTAP_SUCCESS
          else zf_ctap_status_from_interaction_state (zerofido_ui_get_interaction_state app) False,
          app, w))"

definition zf_ctap_request_assertion_selection ::
  "'w hal \<Rightarrow> ('a, 'w) waiting \<Rightarrow> 'a ZerofidoApp_scheme \<Rightarrow> bytes \<Rightarrow> u16 list \<Rightarrow> u32 \<Rightarrow> 'w \<Rightarrow>
    u16 ctap_result \<times> 'a ZerofidoApp_scheme \<times> 'w" where
  "zf_ctap_request_assertion_selection hal wait app rp_id match_indices session_id w =
    (case zerofido_ui_request_assertion_selection hal wait app rp_id match_indices session_id w of
       (Some record, app, w) \<Rightarrow> (Inr record, app, w)
     | (None, app, w) \<Rightarrow>
        (Inl (zf_ctap_status_from_interaction_state (zerofido_ui_get_interaction_state app) True),
         app, w))"

definition zf_ctap_pin_is_set :: "'a ZerofidoApp_scheme \<Rightarrow> bool" where
  "zf_ctap_pin_is_set app \<longleftrightarrow> pin_set (app_pin_state app)"

definition zf_ctap_handle_empty_pin_auth_probe ::
  "zf_build \<Rightarrow> 'w hal \<Rightarrow> ('a, 'w) waiting \<Rightarrow> 'a ZerofidoApp_scheme \<Rightarrow> u32 \<Rightarrow> bytes \<Rightarrow> bytes \<Rightarrow> bytes \<Rightarrow>
    'w \<Rightarrow> ctap_status \<times> 'a ZerofidoApp_scheme \<times> 'w" where
  "zf_ctap_handle_empty_pin_auth_probe b hal wait app session_id operation rp_id user_text w =
    (case zf_ctap_request_approval b hal wait app operation rp_id user_text session_id w of
       (status, app, w) \<Rightarrow>
         (if status \<noteq> ZF_CTAP_SUCCESS then status
          else if zf_ctap_pin_is_set app then ZF_CTAP_ERR_PIN_INVALID else ZF_CTAP_ERR_PIN_NOT_SET,
          app, w))"

section \<open>Interleavings\<close>

text \<open>
  What other threads may do to a prompt, as events. The first event that decides a pending prompt
  wins; \<open>decision\<close> reads it off the sequence without any state.
\<close>

datatype ui_event = DialogResult bool | DenyPending | Tick u32 | CancelPending | HideEvent

fun ui_event_step :: "ui_event \<Rightarrow> 'a ZerofidoApp_scheme \<Rightarrow> 'a ZerofidoApp_scheme" where
  "ui_event_step (DialogResult right) app = zerofido_dialog_result_callback app right"
| "ui_event_step DenyPending app = snd (zerofido_ui_deny_pending_interaction app)"
| "ui_event_step (Tick t) app = snd (zerofido_ui_expire_pending_interaction t app)"
| "ui_event_step CancelPending app = snd (zerofido_ui_cancel_pending_interaction app)"
| "ui_event_step HideEvent app = snd (zerofido_ui_hide_interaction app)"

fun decides :: "u32 \<Rightarrow> ui_event \<Rightarrow> ZfApprovalState option" where
  "decides deadline (DialogResult right) =
    Some (if right then ZfApprovalApproved else ZfApprovalDenied)"
| "decides deadline DenyPending = Some ZfApprovalDenied"
| "decides deadline (Tick t) = (if sint (t - deadline) \<ge> 0 then Some ZfApprovalTimedOut else None)"
| "decides deadline CancelPending = Some ZfApprovalCanceled"
| "decides deadline HideEvent = None"

fun decision :: "u32 \<Rightarrow> ui_event list \<Rightarrow> ZfApprovalState" where
  "decision deadline [] = ZfApprovalPending"
| "decision deadline (e # es) =
    (case decides deadline e of Some state \<Rightarrow> state | None \<Rightarrow> decision deadline es)"

definition ui_run :: "ui_event list \<Rightarrow> 'a ZerofidoApp_scheme \<Rightarrow> 'a ZerofidoApp_scheme" where
  "ui_run es app = fold ui_event_step es app"

lemmas approval_defs = zerofido_ui_finish_interaction_locked_def zerofido_dialog_result_callback_def
  zerofido_ui_deny_pending_interaction_def zerofido_ui_expire_pending_interaction_def
  zerofido_ui_cancel_pending_interaction_def zerofido_ui_cancel_pending_interaction_locked_def
  zerofido_ui_hide_interaction_def

lemma decided_stays:
  assumes "ap_state (app_approval app) \<noteq> ZfApprovalPending"
  shows "ap_state (app_approval (ui_run es app)) = ap_state (app_approval app) \<and>
    ap_done (app_approval (ui_run es app)) = ap_done (app_approval app)"
  using assms
proof (induction es arbitrary: app)
  case (Cons e es)
  have step: "ap_state (app_approval (ui_event_step e app)) = ap_state (app_approval app) \<and>
    ap_done (app_approval (ui_event_step e app)) = ap_done (app_approval app)"
    using Cons.prems by (cases e) (auto simp: approval_defs Let_def)
  show ?case using Cons.IH [of "ui_event_step e app"] Cons.prems step by (simp add: ui_run_def)
qed (simp add: ui_run_def)

lemma decides_terminal: "decides deadline e = Some state \<Longrightarrow> state \<noteq> ZfApprovalPending"
  by (cases e) (auto split: if_splits)

lemma decides_not_idle: "decides deadline e \<noteq> Some ZfApprovalIdle"
  by (cases e) auto

lemma pending_event_step:
  assumes "ap_state (app_approval app) = ZfApprovalPending"
  shows "ui_event_step e app =
    (case decides (ap_deadline (app_approval app)) e of
       None \<Rightarrow> app
     | Some state \<Rightarrow> snd (zerofido_ui_finish_interaction_locked app state))"
  using assms by (cases e) (simp_all add: approval_defs)

lemma first_event_decides:
  assumes "ap_state (app_approval app) = ZfApprovalPending" and "ap_done (app_approval app) = 0"
  shows "ap_state (app_approval (ui_run es app)) = decision (ap_deadline (app_approval app)) es \<and>
    ap_done (app_approval (ui_run es app)) =
      (if decision (ap_deadline (app_approval app)) es = ZfApprovalPending then 0 else 1)"
  using assms
proof (induction es arbitrary: app)
  case (Cons e es)
  have run: "ui_run (e # es) app = ui_run es (ui_event_step e app)" by (simp add: ui_run_def)
  show ?case
  proof (cases "decides (ap_deadline (app_approval app)) e")
    case None
    then show ?thesis using Cons by (simp add: run pending_event_step)
  next
    case (Some state)
    let ?app' = "snd (zerofido_ui_finish_interaction_locked app state)"
    have "ap_state (app_approval ?app') = state" "ap_done (app_approval ?app') = 1"
      using Cons.prems by (simp_all add: zerofido_ui_finish_interaction_locked_def Let_def)
    then show ?thesis
      using Cons.prems Some decides_terminal [OF Some] decided_stays [of ?app' es]
      by (simp add: run pending_event_step)
  qed
qed (simp add: ui_run_def)

lemma prepared_prompt [simp]:
  "ap_state (app_approval (zerofido_ui_clear_interaction_signal
     (zerofido_ui_prepare_interaction_locked hal app k pr op t u w))) = ZfApprovalPending"
  "ap_done (app_approval (zerofido_ui_clear_interaction_signal
     (zerofido_ui_prepare_interaction_locked hal app k pr op t u w))) = 0"
  "ap_deadline (app_approval (zerofido_ui_clear_interaction_signal
     (zerofido_ui_prepare_interaction_locked hal app k pr op t u w))) =
     furi_get_tick hal w + ZF_APPROVAL_TIMEOUT_MS"
  by (simp_all add: zerofido_ui_clear_interaction_signal_def zerofido_ui_prepare_interaction_locked_def)

text \<open>A hide event that is delivered late does not touch a newer prompt.\<close>

lemma late_hide_ignored:
  assumes "ap_state (app_approval app) = ZfApprovalPending"
  shows "zerofido_ui_hide_interaction app = (False, app)"
  using assms by (simp add: zerofido_ui_hide_interaction_def Let_def)

end
