(* ===== verification/Pin_Command.thy ===== *)
theory Pin_Command
  imports Approval
begin

text \<open>
  The clientPIN command: \<^verbatim>\<open>pin/client_pin/response.c\<close>, \<^verbatim>\<open>pin/client_pin/operations.c\<close> and
  \<^verbatim>\<open>pin/command.c\<close>. A handler works on a private copy of the PIN state, which the dispatcher
  publishes under the mutex. While the handler of the token waits for consent, other threads may run:
  they see the published copy and the handler reads their version back. The command scratch memory is
  the argument \<open>scratch_ok\<close> (whether it could be acquired).
\<close>

section \<open>Responses\<close>

text \<open>
  An encoder over the response buffer: what it wrote when every step succeeded, \<open>ZF_CTAP_ERR_OTHER\<close>
  otherwise.
\<close>

definition run_encoder ::
  "bytes \<Rightarrow> nat \<Rightarrow> (zf_cbor_encoder \<Rightarrow> bool \<times> zf_cbor_encoder) \<Rightarrow> bytes ctap_result" where
  "run_encoder out out_capacity steps =
    (case zf_cbor_encoder_init out out_capacity of
       None \<Rightarrow> Inl ZF_CTAP_ERR_OTHER
     | Some enc \<Rightarrow>
        let r = steps enc in
        if fst r then Inr (take (zf_cbor_encoder_size (snd r)) (enc_buf (snd r)))
        else Inl ZF_CTAP_ERR_OTHER)"

definition zf_client_pin_response_single_uint :: "u64 \<Rightarrow> u64 \<Rightarrow> bytes \<Rightarrow> nat \<Rightarrow> bytes ctap_result" where
  "zf_client_pin_response_single_uint key v out out_capacity =
    run_encoder out out_capacity
      (\<lambda>enc. and_then (zf_cbor_encode_map enc 1) (\<lambda>enc.
        and_then (zf_cbor_encode_uint enc key) (\<lambda>enc. zf_cbor_encode_uint enc v)))"

definition zf_client_pin_response_single_bytes ::
  "u64 \<Rightarrow> bytes \<Rightarrow> bytes \<Rightarrow> nat \<Rightarrow> bytes ctap_result" where
  "zf_client_pin_response_single_bytes key v out out_capacity =
    (if length v = 0 then Inl ZF_CTAP_ERR_OTHER
     else run_encoder out out_capacity
      (\<lambda>enc. and_then (zf_cbor_encode_map enc 1) (\<lambda>enc.
        and_then (zf_cbor_encode_uint enc key) (\<lambda>enc. zf_cbor_encode_bytes enc v))))"

definition zf_client_pin_response_retries :: "ZfClientPinState \<Rightarrow> bytes \<Rightarrow> nat \<Rightarrow> bytes ctap_result" where
  "zf_client_pin_response_retries state out out_capacity =
    zf_client_pin_response_single_uint 3 (ucast (pin_retries state)) out out_capacity"

definition zf_client_pin_response_key_agreement ::
  "ZfClientPinState \<Rightarrow> bytes \<Rightarrow> nat \<Rightarrow> bytes ctap_result" where
  "zf_client_pin_response_key_agreement state out out_capacity =
    run_encoder out out_capacity
      (\<lambda>enc. and_then (zf_cbor_encode_map enc 1) (\<lambda>enc.
        and_then (zf_cbor_encode_uint enc 1) (\<lambda>enc.
          zf_cbor_encode_p256_cose_key enc (- 25) (ka_public_x (key_agreement state))
            (ka_public_y (key_agreement state)))))"

definition zf_client_pin_response_token :: "bytes \<Rightarrow> bytes \<Rightarrow> nat \<Rightarrow> bytes ctap_result" where
  "zf_client_pin_response_token token out out_capacity =
    zf_client_pin_response_single_bytes 2 token out out_capacity"

section \<open>Operations\<close>

definition ZF_PIN_PROTOCOL2_IV_LEN :: nat where "ZF_PIN_PROTOCOL2_IV_LEN = 16"
definition ZF_PIN_ENCRYPTED_TOKEN_MAX_LEN :: nat where
  "ZF_PIN_ENCRYPTED_TOKEN_MAX_LEN = ZF_PIN_TOKEN_LEN + ZF_PIN_PROTOCOL2_IV_LEN"
definition ZF_PIN_PERMISSION_CM :: u64 where "ZF_PIN_PERMISSION_CM = 0x04"
definition ZF_PIN_PERMISSION_BE :: u64 where "ZF_PIN_PERMISSION_BE = 0x08"
definition ZF_PIN_PERMISSION_LBW :: u64 where "ZF_PIN_PERMISSION_LBW = 0x10"
definition ZF_PIN_PERMISSION_ACFG :: u64 where "ZF_PIN_PERMISSION_ACFG = 0x20"

definition zf_pin_protocol_encrypted_pin_hash_len :: "u64 \<Rightarrow> nat" where
  "zf_pin_protocol_encrypted_pin_hash_len pin_protocol =
    (if pin_protocol = ZF_PIN_PROTOCOL_V2 then ZF_PIN_ENCRYPTED_HASH_MAX_LEN else ZF_PIN_HASH_LEN)"

definition zf_client_pin_new_pin_ciphertext_len_is_valid :: "u64 \<Rightarrow> nat \<Rightarrow> nat option" where
  "zf_client_pin_new_pin_ciphertext_len_is_valid pin_protocol ciphertext_len =
    (if pin_protocol = ZF_PIN_PROTOCOL_V2 \<and> ciphertext_len \<le> ZF_PIN_PROTOCOL2_IV_LEN then None
     else let len = (if pin_protocol = ZF_PIN_PROTOCOL_V2 then ciphertext_len - ZF_PIN_PROTOCOL2_IV_LEN
                     else ciphertext_len)
       in if \<not> zf_pin_new_pin_enc_length_is_valid len then None else Some len)"

definition zf_client_pin_status_from_interaction_state :: "ZfApprovalState \<Rightarrow> ctap_status" where
  "zf_client_pin_status_from_interaction_state state =
    (case state of
       ZfApprovalTimedOut \<Rightarrow> ZF_CTAP_ERR_USER_ACTION_TIMEOUT
     | ZfApprovalCanceled \<Rightarrow> ZF_CTAP_ERR_KEEPALIVE_CANCEL
     | _ \<Rightarrow> ZF_CTAP_ERR_OPERATION_DENIED)"

text \<open>Status, the private state, the application, the world.\<close>

definition zf_client_pin_request_permission_token_consent ::
  "zf_build \<Rightarrow> 'w hal \<Rightarrow> ('a, 'w) waiting \<Rightarrow> 'a ZerofidoApp_scheme \<Rightarrow> ZfClientPinState \<Rightarrow>
    ZfClientPinRequest \<Rightarrow> bytes \<Rightarrow> u32 \<Rightarrow> 'w \<Rightarrow>
    ctap_status \<times> ZfClientPinState \<times> 'a ZerofidoApp_scheme \<times> 'w" where
  "zf_client_pin_request_permission_token_consent b hal wait app state request pin_hash_plain
      session_id w =
    (let target_id = (if cp_has_rp_id request then cp_rp_id request else ascii ''PIN token'');
         app = app\<lparr>app_pin_state := state\<rparr>;
         held_maintenance = app_maintenance_busy app;
         app = (if held_maintenance then app\<lparr>app_maintenance_busy := False\<rparr> else app)
     in case zerofido_ui_request_approval b hal wait app ZfUiProtocolFido2 (ascii ''Authorize'')
               target_id (ascii ''Approve PIN use'') session_id w of
       ((ok, approved), app, w) \<Rightarrow>
        let status = (if \<not> ok then ZF_CTAP_ERR_USER_ACTION_TIMEOUT
                      else if \<not> approved then zf_client_pin_status_from_interaction_state
                                                (zerofido_ui_get_interaction_state app)
                      else ZF_CTAP_SUCCESS)
        in if held_maintenance \<and> app_maintenance_busy app
           then (if status = ZF_CTAP_SUCCESS then ZF_CTAP_ERR_NOT_ALLOWED else status, state, app, w)
           else let app = (if held_maintenance then app\<lparr>app_maintenance_busy := True\<rparr> else app);
                    state = app_pin_state app
             in if status \<noteq> ZF_CTAP_SUCCESS then (status, state, app, w)
                else if \<not> pin_set state \<or>
                        \<not> zf_crypto_constant_time_equal (take ZF_PIN_HASH_LEN pin_hash_plain)
                            (take ZF_PIN_HASH_LEN (pin_hash state))
                then (ZF_CTAP_ERR_PIN_AUTH_INVALID, state, app, w)
                else (ZF_CTAP_SUCCESS, state, app, w))"

definition zf_client_pin_require_existing_pin :: "ZfClientPinState \<Rightarrow> ctap_status" where
  "zf_client_pin_require_existing_pin state =
    (if \<not> pin_set state then ZF_CTAP_ERR_PIN_NOT_SET
     else if pin_auth_blocked state then ZF_CTAP_ERR_PIN_AUTH_BLOCKED
     else if pin_retries state = 0 then ZF_CTAP_ERR_PIN_BLOCKED
     else ZF_CTAP_SUCCESS)"

text \<open>The decrypted block and the length of the PIN in it, or the error.\<close>

definition zf_client_pin_decrypt_new_pin ::
  "'w hal \<Rightarrow> ZfClientPinRequest \<Rightarrow> bytes \<times> bytes \<Rightarrow> nat \<Rightarrow> 'w \<Rightarrow> (bytes \<times> nat) ctap_result \<times> 'w" where
  "zf_client_pin_decrypt_new_pin hal request protocol_keys new_pin_plain_len w =
    (case zf_pin_protocol_decrypt hal (cp_pin_protocol request) protocol_keys
        (cp_new_pin_enc request) w of
       (None, w) \<Rightarrow> (Inl ZF_CTAP_ERR_PIN_AUTH_INVALID, w)
     | (Some plain, w) \<Rightarrow>
        (if length plain \<noteq> new_pin_plain_len then (Inl ZF_CTAP_ERR_PIN_AUTH_INVALID, w)
         else case zf_pin_validate_plaintext_block plain of
           None \<Rightarrow> (Inl ZF_CTAP_ERR_PIN_POLICY_VIOLATION, w)
         | Some pin_len \<Rightarrow> (Inr (plain, pin_len), w)))"

definition zf_client_pin_handle_set_pin ::
  "'w hal \<Rightarrow> ZfClientPinState \<Rightarrow> ZfClientPinRequest \<Rightarrow> 'w \<Rightarrow> ctap_status \<times> ZfClientPinState \<times> 'w" where
  "zf_client_pin_handle_set_pin hal state request w =
    (if pin_set state then (ZF_CTAP_ERR_PIN_AUTH_INVALID, state, w)
     else if \<not> cp_has_key_agreement request \<or> \<not> cp_has_new_pin_enc request \<or> \<not> cp_has_pin_auth request
     then (ZF_CTAP_ERR_MISSING_PARAMETER, state, w)
     else if \<not> zf_pin_protocol_supported (cp_pin_protocol request)
     then (ZF_CTAP_ERR_INVALID_PARAMETER, state, w)
     else case zf_client_pin_new_pin_ciphertext_len_is_valid (cp_pin_protocol request)
                 (length (cp_new_pin_enc request)) of
       None \<Rightarrow> (ZF_CTAP_ERR_INVALID_PARAMETER, state, w)
     | Some new_pin_plain_len \<Rightarrow>
        (case zf_pin_protocol_derive_keys hal state (cp_pin_protocol request) (cp_platform_x request)
            (cp_platform_y request) w of
           (None, w) \<Rightarrow> (ZF_CTAP_ERR_INVALID_PARAMETER, state, w)
         | (Some keys, w) \<Rightarrow>
            (if \<not> zf_pin_protocol_hmac_matches (cp_pin_protocol request) (fst keys)
                   (cp_new_pin_enc request) [] (cp_pin_auth request)
             then (ZF_CTAP_ERR_PIN_AUTH_INVALID, state, w)
             else case zf_client_pin_decrypt_new_pin hal request keys new_pin_plain_len w of
               (Inl status, w) \<Rightarrow> (status, state, w)
             | (Inr (plain, pin_len), w) \<Rightarrow>
                zf_pin_apply_plaintext hal state (take pin_len plain) True w)))"

definition zf_client_pin_handle_change_pin ::
  "'w hal \<Rightarrow> ZfClientPinState \<Rightarrow> ZfClientPinRequest \<Rightarrow> 'w \<Rightarrow> ctap_status \<times> ZfClientPinState \<times> 'w" where
  "zf_client_pin_handle_change_pin hal state request w =
    (let status = zf_client_pin_require_existing_pin state in
     if status \<noteq> ZF_CTAP_SUCCESS then (status, state, w)
     else if \<not> cp_has_key_agreement request \<or> \<not> cp_has_new_pin_enc request \<or>
             \<not> cp_has_pin_hash_enc request \<or> \<not> cp_has_pin_auth request
     then (ZF_CTAP_ERR_MISSING_PARAMETER, state, w)
     else if \<not> zf_pin_protocol_supported (cp_pin_protocol request)
     then (ZF_CTAP_ERR_INVALID_PARAMETER, state, w)
     else case zf_client_pin_new_pin_ciphertext_len_is_valid (cp_pin_protocol request)
                 (length (cp_new_pin_enc request)) of
       None \<Rightarrow> (ZF_CTAP_ERR_INVALID_PARAMETER, state, w)
     | Some new_pin_plain_len \<Rightarrow>
        (if length (cp_pin_hash_enc request) \<noteq>
              zf_pin_protocol_encrypted_pin_hash_len (cp_pin_protocol request)
         then (ZF_CTAP_ERR_INVALID_PARAMETER, state, w)
         else case zf_pin_protocol_derive_keys hal state (cp_pin_protocol request)
             (cp_platform_x request) (cp_platform_y request) w of
           (None, w) \<Rightarrow> (ZF_CTAP_ERR_INVALID_PARAMETER, state, w)
         | (Some keys, w) \<Rightarrow>
            (if \<not> zf_pin_protocol_hmac_matches (cp_pin_protocol request) (fst keys)
                   (cp_new_pin_enc request) (cp_pin_hash_enc request) (cp_pin_auth request)
             then (ZF_CTAP_ERR_PIN_AUTH_INVALID, state, w)
             else case zf_pin_protocol_decrypt hal (cp_pin_protocol request) keys
                 (cp_pin_hash_enc request) w of
               (None, w) \<Rightarrow> zf_pin_auth_failure hal state w
             | (Some current_pin_hash, w) \<Rightarrow>
                (if length current_pin_hash \<noteq> ZF_PIN_HASH_LEN then zf_pin_auth_failure hal state w
                 else case zf_pin_verify_hash hal state current_pin_hash w of
                   (status, state, w) \<Rightarrow>
                    (if status \<noteq> ZF_CTAP_SUCCESS then (status, state, w)
                     else case zf_client_pin_decrypt_new_pin hal request keys new_pin_plain_len w of
                       (Inl status, w) \<Rightarrow> (status, state, w)
                     | (Inr (plain, pin_len), w) \<Rightarrow>
                        zf_pin_apply_plaintext hal state (take pin_len plain) False w)))))"

text \<open>The checks of the permissions before any key is derived.\<close>

definition token_permission_checks :: "ZfClientPinRequest \<Rightarrow> bool \<Rightarrow> ctap_status" where
  "token_permission_checks request permissions_mode =
    (let supported = ZF_PIN_PERMISSION_MC OR ZF_PIN_PERMISSION_GA;
         recognized = supported OR ZF_PIN_PERMISSION_CM OR ZF_PIN_PERMISSION_BE OR
           ZF_PIN_PERMISSION_LBW OR ZF_PIN_PERMISSION_ACFG
     in if \<not> permissions_mode \<and> (cp_has_permissions request \<or> cp_has_rp_id request)
        then ZF_CTAP_ERR_INVALID_PARAMETER
        else if permissions_mode \<and> \<not> cp_has_permissions request then ZF_CTAP_ERR_MISSING_PARAMETER
        else if permissions_mode \<and> cp_permissions request = 0 then ZF_CTAP_ERR_INVALID_PARAMETER
        else if permissions_mode \<and> cp_permissions request AND NOT recognized \<noteq> 0
        then ZF_CTAP_ERR_INVALID_PARAMETER
        else if permissions_mode \<and> cp_permissions request AND NOT supported \<noteq> 0
        then ZF_CTAP_ERR_UNAUTHORIZED_PERMISSION
        else if permissions_mode \<and>
                cp_permissions request AND (ZF_PIN_PERMISSION_MC OR ZF_PIN_PERMISSION_GA) \<noteq> 0 \<and>
                \<not> cp_has_rp_id request
        then ZF_CTAP_ERR_MISSING_PARAMETER
        else ZF_CTAP_SUCCESS)"

text \<open>The end of the handler: draw the token, encrypt it, answer, and only then install it.\<close>

definition issue_pin_token ::
  "'w hal \<Rightarrow> ZfClientPinState \<Rightarrow> ZfClientPinRequest \<Rightarrow> bytes \<times> bytes \<Rightarrow> bool \<Rightarrow> bool \<Rightarrow> bytes \<Rightarrow> nat \<Rightarrow> 'w \<Rightarrow>
    bytes ctap_result \<times> ZfClientPinState \<times> 'w" where
  "issue_pin_token hal state request keys permissions_mode require_local_consent out out_capacity w =
    (case zf_pin_refresh_pin_token hal w of (next_pin_token, w) \<Rightarrow>
     case zf_pin_protocol_encrypt hal (cp_pin_protocol request) keys next_pin_token
         ZF_PIN_ENCRYPTED_TOKEN_MAX_LEN w of
       (None, w) \<Rightarrow> (Inl ZF_CTAP_ERR_OTHER, state, w)
     | (Some encrypted_token, w) \<Rightarrow>
        (case zf_client_pin_response_token encrypted_token out out_capacity of
           Inl status \<Rightarrow> (Inl status, state, w)
         | Inr response \<Rightarrow>
            let state = state\<lparr>pin_token := next_pin_token\<rparr>;
                state = zf_pin_set_token_permissions state
                  (if permissions_mode then cp_permissions request
                   else ZF_PIN_PERMISSION_MC OR ZF_PIN_PERMISSION_GA)
                  permissions_mode require_local_consent
                  (if permissions_mode then cp_rp_id request else [])
            in (Inr response, zf_pin_note_pin_token_issued hal w state, w)))"

definition zf_client_pin_handle_get_pin_token ::
  "zf_build \<Rightarrow> 'w hal \<Rightarrow> ('a, 'w) waiting \<Rightarrow> 'a ZerofidoApp_scheme \<Rightarrow> ZfClientPinState \<Rightarrow>
    ZfClientPinRequest \<Rightarrow> bool \<Rightarrow> bool \<Rightarrow> u32 \<Rightarrow> bytes \<Rightarrow> nat \<Rightarrow> 'w \<Rightarrow>
    bytes ctap_result \<times> ZfClientPinState \<times> 'a ZerofidoApp_scheme \<times> 'w" where
  "zf_client_pin_handle_get_pin_token b hal wait app state request permissions_mode
      require_local_consent session_id out out_capacity w =
    (let status = zf_client_pin_require_existing_pin state in
     if status \<noteq> ZF_CTAP_SUCCESS then (Inl status, state, app, w)
     else if \<not> cp_has_key_agreement request \<or> \<not> cp_has_pin_hash_enc request
     then (Inl ZF_CTAP_ERR_MISSING_PARAMETER, state, app, w)
     else let status = token_permission_checks request permissions_mode in
       if status \<noteq> ZF_CTAP_SUCCESS then (Inl status, state, app, w)
       else if \<not> zf_pin_protocol_supported (cp_pin_protocol request) \<or>
               length (cp_pin_hash_enc request) \<noteq>
                 zf_pin_protocol_encrypted_pin_hash_len (cp_pin_protocol request)
       then (Inl ZF_CTAP_ERR_INVALID_PARAMETER, state, app, w)
       else case zf_pin_protocol_derive_keys hal state (cp_pin_protocol request)
           (cp_platform_x request) (cp_platform_y request) w of
         (None, w) \<Rightarrow> (Inl ZF_CTAP_ERR_INVALID_PARAMETER, state, app, w)
       | (Some keys, w) \<Rightarrow>
          (case zf_pin_protocol_decrypt hal (cp_pin_protocol request) keys
              (cp_pin_hash_enc request) w of
             (None, w) \<Rightarrow>
              (case zf_pin_auth_failure hal state w of (status, state, w) \<Rightarrow> (Inl status, state, app, w))
           | (Some pin_hash_plain, w) \<Rightarrow>
              (if length pin_hash_plain \<noteq> ZF_PIN_HASH_LEN \<or>
                  \<not> zf_crypto_constant_time_equal (take ZF_PIN_HASH_LEN pin_hash_plain)
                      (take ZF_PIN_HASH_LEN (pin_hash state))
               then (case zf_pin_auth_failure hal state w of (status, state, w) \<Rightarrow>
                       (Inl status, state, app, w))
               else case zf_pin_auth_success hal state w of (status, state, w) \<Rightarrow>
                 (if status \<noteq> ZF_CTAP_SUCCESS then (Inl ZF_CTAP_ERR_OTHER, state, app, w)
                  else case (if require_local_consent
                             then zf_client_pin_request_permission_token_consent b hal wait app state
                                    request pin_hash_plain session_id w
                             else (ZF_CTAP_SUCCESS, state, app, w)) of
                    (status, state, app, w) \<Rightarrow>
                      (if status \<noteq> ZF_CTAP_SUCCESS then (Inl status, state, app, w)
                       else case issue_pin_token hal state request keys permissions_mode
                                   require_local_consent out out_capacity w of
                         (r, state, w) \<Rightarrow> (r, state, app, w))))))"

section \<open>The command\<close>

definition zf_pin_snapshot_state :: "'a ZerofidoApp_scheme \<Rightarrow> ZfClientPinState" where
  "zf_pin_snapshot_state app = app_pin_state app"

definition zf_pin_publish_state :: "'a ZerofidoApp_scheme \<Rightarrow> ZfClientPinState \<Rightarrow> 'a ZerofidoApp_scheme" where
  "zf_pin_publish_state app state = app\<lparr>app_pin_state := state\<rparr>"

definition no_response :: "ctap_status \<times> ZfClientPinState \<times> 'w \<Rightarrow> bytes ctap_result \<times> ZfClientPinState \<times> 'w" where
  "no_response r = (case r of (status, state, w) \<Rightarrow>
    (if status = ZF_CTAP_SUCCESS then Inr [] else Inl status, state, w))"

text \<open>The switch over the subcommand.\<close>

definition client_pin_subcommand ::
  "zf_build \<Rightarrow> 'w hal \<Rightarrow> ('a, 'w) waiting \<Rightarrow> 'a ZerofidoApp_scheme \<Rightarrow> ZfResolvedCapabilities \<Rightarrow>
    ZfClientPinState \<Rightarrow> ZfClientPinRequest \<Rightarrow> u32 \<Rightarrow> bytes \<Rightarrow> nat \<Rightarrow> 'w \<Rightarrow>
    bytes ctap_result \<times> ZfClientPinState \<times> 'a ZerofidoApp_scheme \<times> 'w" where
  "client_pin_subcommand b hal wait app capabilities state parsed session_id out out_capacity w =
    (let sub = cp_subcommand parsed in
     if sub = ZF_CLIENT_PIN_SUBCMD_GET_RETRIES
     then (zf_client_pin_response_retries state out out_capacity, state, app, w)
     else if sub = ZF_CLIENT_PIN_SUBCMD_GET_KEY_AGREEMENT
     then (zf_client_pin_response_key_agreement state out out_capacity, state, app, w)
     else if sub = ZF_CLIENT_PIN_SUBCMD_SET_PIN
     then (case no_response (zf_client_pin_handle_set_pin hal state parsed w) of
             (r, state, w) \<Rightarrow> (r, state, app, w))
     else if sub = ZF_CLIENT_PIN_SUBCMD_GET_PIN_TOKEN
     then zf_client_pin_handle_get_pin_token b hal wait app state parsed False
            (client_pin_token_requires_consent capabilities) session_id out out_capacity w
     else if sub = ZF_CLIENT_PIN_SUBCMD_GET_PIN_UV_AUTH_TOKEN_USING_PIN_WITH_PERMISSIONS
     then (if \<not> pin_uv_auth_token_enabled capabilities
           then (Inl ZF_CTAP_ERR_INVALID_SUBCOMMAND, state, app, w)
           else zf_client_pin_handle_get_pin_token b hal wait app state parsed True True session_id
                  out out_capacity w)
     else if sub = ZF_CLIENT_PIN_SUBCMD_CHANGE_PIN
     then (case no_response (zf_client_pin_handle_change_pin hal state parsed w) of
             (r, state, w) \<Rightarrow> (r, state, app, w))
     else (Inl ZF_CTAP_ERR_INVALID_SUBCOMMAND, state, app, w))"

definition zerofido_pin_handle_command_with_session ::
  "zf_build \<Rightarrow> 'w hal \<Rightarrow> ('a, 'w) waiting \<Rightarrow> bool \<Rightarrow> 'a ZerofidoApp_scheme \<Rightarrow> u32 \<Rightarrow> bytes \<Rightarrow> bytes \<Rightarrow> nat \<Rightarrow>
    'w \<Rightarrow> bytes ctap_result \<times> 'a ZerofidoApp_scheme \<times> 'w" where
  "zerofido_pin_handle_command_with_session b hal wait scratch_ok app session_id request out
      out_capacity w =
    (if \<not> scratch_ok then (Inl ZF_CTAP_ERR_OTHER, app, w)
     else case zf_client_pin_parse_request request of
       Inl status \<Rightarrow> (Inl status, app, w)
     | Inr parsed \<Rightarrow>
        (let state = zf_pin_snapshot_state app;
             capabilities = zf_runtime_get_effective_capabilities b app
         in if cp_has_pin_protocol parsed \<and> cp_pin_protocol parsed = ZF_PIN_PROTOCOL_V2 \<and>
               \<not> pin_uv_auth_protocol_2_enabled capabilities
            then (Inl ZF_CTAP_ERR_INVALID_PARAMETER, app, w)
            else case client_pin_subcommand b hal wait app capabilities state parsed session_id out
                        out_capacity w of
              (r, state', app, w) \<Rightarrow>
                (let app = zf_pin_publish_state app state' in
                 (r, (if (\<exists>out. r = Inr out) \<and> pin_set state \<noteq> pin_set state'
                      then zf_runtime_config_refresh_capabilities b app else app), w))))"

definition zerofido_pin_handle_command ::
  "zf_build \<Rightarrow> 'w hal \<Rightarrow> ('a, 'w) waiting \<Rightarrow> bool \<Rightarrow> 'a ZerofidoApp_scheme \<Rightarrow> bytes \<Rightarrow> bytes \<Rightarrow> nat \<Rightarrow> 'w \<Rightarrow>
    bytes ctap_result \<times> 'a ZerofidoApp_scheme \<times> 'w" where
  "zerofido_pin_handle_command b hal wait scratch_ok app request out out_capacity w =
    zerofido_pin_handle_command_with_session b hal wait scratch_ok app 0 request out out_capacity w"

end
