(* ===== verification/Pin_Command_Exact.thy ===== *)
theory Pin_Command_Exact
  imports Pin_Command
begin

text \<open>
  What the clientPIN subcommands guarantee: the responses byte for byte, who gets a token and what it
  may do, and the retry accounting across every path of every handler.
\<close>

section \<open>Responses\<close>

lemma run_encoder_emitter:
  assumes "cbor_emitter steps bs" and "cap \<le> length out" and "0 < length bs"
  shows "run_encoder out cap steps = (if length bs \<le> cap then Inr bs else Inl ZF_CTAP_ERR_OTHER)"
proof (cases "cap = 0")
  case True
  then show ?thesis using assms(3) by (simp add: run_encoder_def zf_cbor_encoder_init_def)
next
  case False
  let ?e = "\<lparr>enc_buf = out, enc_capacity = cap, enc_offset = 0\<rparr>"
  have wf: "enc_wf ?e" using assms(2) by (simp add: enc_wf_def)
  show ?thesis
    using False cbor_emitter.succeeds_iff [OF assms(1) wf] cbor_emitter.written [OF assms(1) wf]
    by (simp add: run_encoder_def zf_cbor_encoder_init_def enc_room_def zf_cbor_encoder_size_def)
qed

lemma retries_response:
  assumes "cap \<le> length out"
  shows "zf_client_pin_response_retries s out cap =
    (let bs = cbor_map 1 @ cbor_uint 3 @ cbor_uint (ucast (pin_retries s)) in
     if length bs \<le> cap then Inr bs else Inl ZF_CTAP_ERR_OTHER)"
  unfolding zf_client_pin_response_retries_def zf_client_pin_response_single_uint_def Let_def
  by (rule run_encoder_emitter [OF _ assms]) (auto intro!: emitter_seq emitters)

lemma key_agreement_response:
  assumes "cap \<le> length out"
  shows "zf_client_pin_response_key_agreement s out cap =
    (let bs = cbor_map 1 @ cbor_uint 1 @ cbor_cose_key (- 25) (ka_public_x (key_agreement s))
           (ka_public_y (key_agreement s)) in
     if length bs \<le> cap then Inr bs else Inl ZF_CTAP_ERR_OTHER)"
  unfolding zf_client_pin_response_key_agreement_def Let_def
  by (rule run_encoder_emitter [OF _ assms])
    (auto intro!: emitter_seq emitters enc_cose.cbor_emitter_axioms)

lemma token_response:
  assumes "cap \<le> length out" and "t \<noteq> []"
  shows "zf_client_pin_response_token t out cap =
    (let bs = cbor_map 1 @ cbor_uint 2 @ cbor_bytes t in
     if length bs \<le> cap then Inr bs else Inl ZF_CTAP_ERR_OTHER)"
proof -
  have "cbor_emitter (\<lambda>enc. and_then (zf_cbor_encode_map enc 1) (\<lambda>enc.
      and_then (zf_cbor_encode_uint enc 2) (\<lambda>enc. zf_cbor_encode_bytes enc t)))
    (cbor_map 1 @ cbor_uint 2 @ cbor_bytes t)"
    by (auto intro!: emitter_seq emitters)
  from run_encoder_emitter [OF this assms(1)] assms(2) show ?thesis
    by (simp add: zf_client_pin_response_token_def zf_client_pin_response_single_bytes_def Let_def)
qed

section \<open>Message authentication\<close>

lemma hmac_matches_iff:
  "zf_pin_protocol_hmac_matches proto key a b mac \<longleftrightarrow>
    mac = take (zf_pin_protocol_auth_len proto) (hmac_reference key (a @ b))"
proof -
  let ?n = "zf_pin_protocol_auth_len proto"
  have len: "length (take ?n (zf_hmac_sha256_parts key a b)) = ?n"
    by (simp add: zf_pin_protocol_auth_len_def ZF_PIN_AUTH_MAX_LEN_def ZF_PIN_AUTH_LEN_def)
  show ?thesis
  proof (cases "length mac = ?n")
    case True
    then show ?thesis
      using constant_time_equal_iff [of "take ?n (zf_hmac_sha256_parts key a b)" mac] len
      by (auto simp: zf_pin_protocol_hmac_matches_def hmac_parts_correct)
  next
    case False
    then show ?thesis
      using len by (auto simp: zf_pin_protocol_hmac_matches_def hmac_parts_correct)
  qed
qed

section \<open>Setting and changing the PIN\<close>

lemma existing_pin_iff:
  "zf_client_pin_require_existing_pin s = ZF_CTAP_SUCCESS \<longleftrightarrow>
    pin_set s \<and> \<not> pin_auth_blocked s \<and> pin_retries s \<noteq> 0"
  by (simp add: zf_client_pin_require_existing_pin_def)

lemma decrypt_new_pin_Inr:
  assumes "zf_client_pin_decrypt_new_pin hal req keys n w = (Inr (plain, pin_len), w')"
  shows "zf_pin_protocol_decrypt hal (cp_pin_protocol req) keys (cp_new_pin_enc req) w = (Some plain, w') \<and>
    length plain = n \<and> zf_pin_validate_plaintext_block plain = Some pin_len"
  using assms
  by (simp add: zf_client_pin_decrypt_new_pin_def split: prod.splits option.splits if_splits)

lemma decrypt_new_pin_Inl:
  "zf_client_pin_decrypt_new_pin hal req keys n w = (Inl st, w') \<Longrightarrow> st \<noteq> ZF_CTAP_SUCCESS"
  by (auto simp: zf_client_pin_decrypt_new_pin_def split: prod.splits option.splits if_splits)

lemma apply_plaintext_success:
  assumes "zf_pin_apply_plaintext hal s pin u w = (ZF_CTAP_SUCCESS, s', w')"
  shows "zf_pin_validate_plaintext_policy pin = ZF_CTAP_SUCCESS \<and> pin_set s' \<and>
    pin_hash s' = take 16 (zf_crypto_sha256 pin) \<and> pin_retries s' = 8 \<and>
    pin_consecutive_mismatches s' = 0 \<and> \<not> pin_auth_blocked s' \<and> \<not> pin_token_active s' \<and>
    (u \<longrightarrow> \<not> pin_set s)"
  using assms
  by (simp add: zf_pin_apply_plaintext_def Let_def pin_simps ZF_PIN_HASH_LEN_def
      split: if_split_asm prod.split_asm) auto

lemma apply_plaintext_error:
  assumes "zf_pin_apply_plaintext hal s pin u w = (st, s', w')" "st \<noteq> ZF_CTAP_SUCCESS"
  shows "s' = s"
  using assms
  by (auto simp: zf_pin_apply_plaintext_def Let_def pin_simps split: if_split_asm prod.split_asm)

lemma set_pin_success:
  assumes "zf_client_pin_handle_set_pin hal s req w = (ZF_CTAP_SUCCESS, s', w')"
  shows "\<not> pin_set s \<and>
    (\<exists>keys w1 w2 w3 plain n. zf_pin_protocol_derive_keys hal s (cp_pin_protocol req) (cp_platform_x req)
        (cp_platform_y req) w = (Some keys, w1) \<and>
      zf_pin_protocol_hmac_matches (cp_pin_protocol req) (fst keys) (cp_new_pin_enc req) []
        (cp_pin_auth req) \<and>
      zf_pin_protocol_decrypt hal (cp_pin_protocol req) keys (cp_new_pin_enc req) w1 = (Some plain, w2) \<and>
      zf_pin_validate_plaintext_block plain = Some n \<and>
      zf_pin_apply_plaintext hal s (take n plain) True w2 = (ZF_CTAP_SUCCESS, s', w3))"
  using assms
  by (auto simp: zf_client_pin_handle_set_pin_def dest!: decrypt_new_pin_Inr dest: decrypt_new_pin_Inl
      split: if_split_asm prod.split_asm option.split_asm sum.split_asm)

lemma set_pin_wf:
  assumes "retry_wf s" "zf_client_pin_handle_set_pin hal s req w = (st, s', w')"
  shows "retry_wf s'"
  using assms
  by (auto simp: zf_client_pin_handle_set_pin_def dest: apply_plaintext_wf
      split: if_split_asm prod.split_asm option.split_asm sum.split_asm)

lemma change_pin_wf:
  assumes "retry_wf s" "zf_client_pin_handle_change_pin hal s req w = (st, s', w')"
  shows "retry_wf s'"
  using assms
  by (auto simp: zf_client_pin_handle_change_pin_def Let_def
      dest: apply_plaintext_wf auth_failure_wf verify_hash_wf
      split: if_split_asm prod.split_asm option.split_asm sum.split_asm)

section \<open>Tokens\<close>

lemma constant_time_hash:
  "length h = 16 \<Longrightarrow> length (pin_hash s) = 16 \<Longrightarrow>
    zf_crypto_constant_time_equal (take ZF_PIN_HASH_LEN h) (take ZF_PIN_HASH_LEN (pin_hash s)) \<longleftrightarrow>
      h = pin_hash s"
  by (simp add: ZF_PIN_HASH_LEN_def constant_time_equal_iff)

lemma permission_checks_iff:
  "token_permission_checks req True = ZF_CTAP_SUCCESS \<longleftrightarrow>
    cp_has_permissions req \<and> cp_has_rp_id req \<and> cp_permissions req \<in> {1, 2, 3}"
proof -
  have mask: "x AND NOT 3 = 0 \<longleftrightarrow> x \<in> {0, 1, 2, 3}" for x :: u64
  proof
    assume "x AND NOT 3 = 0"
    moreover have "x = x AND 3 OR x AND NOT 3" by (rule bit_eqI) (auto simp: bit_simps)
    ultimately have "x = take_bit 2 x" by (simp add: take_bit_eq_mask mask_eq_exp_minus_1)
    then have "unat x < 2 ^ 2" by (metis take_bit_nat_less_exp unsigned_take_bit_eq)
    then consider "unat x = 0" | "unat x = 1" | "unat x = 2" | "unat x = 3" by fastforce
    moreover have of_nat: "x = word_of_nat n" if "unat x = n" for n
      using that by auto
    ultimately show "x \<in> {0, 1, 2, 3}" by cases (auto dest: of_nat)
  qed auto
  show ?thesis
    using mask [of "cp_permissions req"]
    by (auto simp: token_permission_checks_def Let_def ZF_PIN_PERMISSION_MC_def
        ZF_PIN_PERMISSION_GA_def ZF_PIN_PERMISSION_CM_def ZF_PIN_PERMISSION_BE_def
        ZF_PIN_PERMISSION_LBW_def ZF_PIN_PERMISSION_ACFG_def)
qed

lemma auth_success_keeps:
  assumes "zf_pin_auth_success hal s w = (ZF_CTAP_SUCCESS, s', w')"
  shows "s' = s\<lparr>pin_retries := 8, pin_consecutive_mismatches := 0, pin_auth_blocked := False\<rparr>"
  using assms by (auto simp: zf_pin_auth_success_def Let_def pin_simps split: if_splits)

lemma issue_token_Inr:
  assumes "issue_pin_token hal s req keys pm consent out cap w = (Inr resp, s', w')"
  shows "pin_token_active s' \<and> pin_token s' = fst (random_fill hal 32 w) \<and>
    pin_token_permissions s' =
      (if pm then cp_permissions req else ZF_PIN_PERMISSION_MC OR ZF_PIN_PERMISSION_GA) \<and>
    pin_token_permissions_scoped s' = pm \<and> pin_token_permissions_managed s' = consent \<and>
    (pm \<and> cp_rp_id req \<noteq> [] \<longrightarrow> pin_token_permissions_rp_id_set s' \<and>
      pin_token_permissions_rp_id_hash s' = zf_crypto_sha256 (cp_rp_id req)) \<and>
    pin_set s' = pin_set s \<and> pin_hash s' = pin_hash s \<and> pin_retries s' = pin_retries s \<and>
    pin_consecutive_mismatches s' = pin_consecutive_mismatches s \<and>
    pin_auth_blocked s' = pin_auth_blocked s"
  using assms
  by (auto simp: issue_pin_token_def Let_def zf_pin_refresh_pin_token_def pin_simps ZF_PIN_TOKEN_LEN_def
      zf_pin_hash_rp_id_def split: prod.splits option.splits sum.splits)

lemma issue_token_Inl:
  assumes "issue_pin_token hal s req keys pm consent out cap w = (Inl st, s', w')"
  shows "s' = s"
  using assms
  by (auto simp: issue_pin_token_def Let_def split: prod.splits option.splits sum.splits)

lemma issue_token_wf:
  assumes "retry_wf s" "issue_pin_token hal s req keys pm consent out cap w = (r, s', w')"
  shows "retry_wf s'"
proof (cases r)
  case (Inl st)
  then show ?thesis using assms issue_token_Inl [of hal s req keys pm consent out cap w st s' w'] by simp
next
  case (Inr resp)
  then show ?thesis using assms issue_token_Inr [of hal s req keys pm consent out cap w resp s' w']
    by (simp add: retry_wf_def)
qed

text \<open>What the handler asks of the threads that run while it waits: they keep the accounting sound.\<close>

definition waiting_keeps_retries :: "('a, 'w) waiting \<Rightarrow> bool" where
  "waiting_keeps_retries wait \<longleftrightarrow>
    (\<forall>sid app w. retry_wf (app_pin_state app) \<longrightarrow> retry_wf (app_pin_state (fst (snd (wait sid app w)))))"

lemma request_approval_wf:
  assumes "waiting_keeps_retries wait" "retry_wf (app_pin_state app)"
    and "zerofido_ui_request_approval b hal wait app pr op t u sid w = (r, app', w')"
  shows "retry_wf (app_pin_state app')"
proof -
  let ?app = "zerofido_ui_clear_interaction_signal (zerofido_ui_prepare_interaction_locked hal app
      ZfInteractionKindApproval pr op t u w)"
  have "retry_wf (app_pin_state ?app)"
    using assms(2)
    by (simp add: zerofido_ui_clear_interaction_signal_def zerofido_ui_prepare_interaction_locked_def)
  then have "retry_wf (app_pin_state (fst (snd (wait sid ?app w))))"
    using assms(1) by (simp add: waiting_keeps_retries_def)
  then show ?thesis
    using assms(2,3)
    by (auto simp: zerofido_ui_request_approval_def zerofido_ui_wait_for_interaction_result_def Let_def
        split: if_split_asm prod.split_asm bool.split_asm)
qed

lemma consent_wf:
  assumes "waiting_keeps_retries wait" "retry_wf s" "retry_wf (app_pin_state app)"
    and "zf_client_pin_request_permission_token_consent b hal wait app s req h sid w = (st, s', app', w')"
  shows "retry_wf s' \<and> retry_wf (app_pin_state app')"
proof -
  let ?app = "(if app_maintenance_busy app then app\<lparr>app_pin_state := s, app_maintenance_busy := False\<rparr>
     else app\<lparr>app_pin_state := s\<rparr>)"
  obtain r app1 w1 where req: "zerofido_ui_request_approval b hal wait ?app ZfUiProtocolFido2
      (ascii ''Authorize'') (if cp_has_rp_id req then cp_rp_id req else ascii ''PIN token'')
      (ascii ''Approve PIN use'') sid w = (r, app1, w1)"
    by (metis prod_cases3)
  have "retry_wf (app_pin_state app1)"
    using request_approval_wf [OF assms(1) _ req] assms(2) by simp
  then show ?thesis
    using assms(2,4) req
    by (auto simp: zf_client_pin_request_permission_token_consent_def Let_def
        split: if_split_asm prod.split_asm)
qed

lemma get_token_wf:
  assumes "waiting_keeps_retries wait" "retry_wf s" "retry_wf (app_pin_state app)"
    and "zf_client_pin_handle_get_pin_token b hal wait app s req pm consent sid out cap w =
      (r, s', app', w')"
  shows "retry_wf s' \<and> retry_wf (app_pin_state app')"
  using assms(2-)
  by (auto simp: zf_client_pin_handle_get_pin_token_def Let_def
      split: if_split_asm prod.split_asm option.split_asm)
    (metis (no_types, lifting) assms(1) auth_failure_wf auth_success_wf issue_token_wf consent_wf)+

lemma get_token_success:
  assumes "zf_client_pin_handle_get_pin_token b hal wait app s req pm consent sid out cap w =
      (Inr resp, s', app', w')"
  obtains keys w1 plain w2 s1 w3 where
    "zf_client_pin_require_existing_pin s = ZF_CTAP_SUCCESS"
    "token_permission_checks req pm = ZF_CTAP_SUCCESS"
    "zf_pin_protocol_derive_keys hal s (cp_pin_protocol req) (cp_platform_x req) (cp_platform_y req) w =
      (Some keys, w1)"
    "zf_pin_protocol_decrypt hal (cp_pin_protocol req) keys (cp_pin_hash_enc req) w1 = (Some plain, w2)"
    "length plain = 16"
    "zf_crypto_constant_time_equal (take ZF_PIN_HASH_LEN plain) (take ZF_PIN_HASH_LEN (pin_hash s))"
    "issue_pin_token hal s1 req keys pm consent out cap w3 = (Inr resp, s', w')"
    "consent \<Longrightarrow> pin_set s1 \<and>
      zf_crypto_constant_time_equal (take ZF_PIN_HASH_LEN plain) (take ZF_PIN_HASH_LEN (pin_hash s1))"
  using assms
  by (auto simp: zf_client_pin_handle_get_pin_token_def Let_def ZF_PIN_HASH_LEN_def
      zf_client_pin_request_permission_token_consent_def
      split: if_split_asm prod.split_asm option.split_asm)

section \<open>The command\<close>

lemma subcommand_wf:
  assumes "waiting_keeps_retries wait" "retry_wf s" "retry_wf (app_pin_state app)"
    and "client_pin_subcommand b hal wait app caps s req sid out cap w = (r, s', app', w')"
  shows "retry_wf s' \<and> retry_wf (app_pin_state app')"
  using assms(2-)
  by (auto simp: client_pin_subcommand_def Let_def no_response_def
      dest: set_pin_wf change_pin_wf get_token_wf [OF assms(1)]
      split: if_split_asm prod.split_asm)

lemma command_wf:
  assumes wait: "waiting_keeps_retries wait" and wf: "retry_wf (app_pin_state app)"
    and r: "zerofido_pin_handle_command_with_session b hal wait ok app sid request out cap w = (r, app', w')"
  shows "retry_wf (app_pin_state app')"
proof (cases "zf_client_pin_parse_request request")
  case (Inl st)
  then show ?thesis using r wf
    by (simp add: zerofido_pin_handle_command_with_session_def split: if_split_asm)
next
  case (Inr parsed)
  obtain r1 s1 app1 w1 where sub: "client_pin_subcommand b hal wait app
      (zf_runtime_get_effective_capabilities b app) (app_pin_state app) parsed sid out cap w =
      (r1, s1, app1, w1)"
    by (metis prod_cases4)
  show ?thesis
    using r wf Inr sub subcommand_wf [OF wait wf wf sub]
    by (auto simp: zerofido_pin_handle_command_with_session_def Let_def zf_pin_snapshot_state_def
        zf_pin_publish_state_def zf_runtime_config_refresh_capabilities_def split: if_split_asm)
qed

end
