(* ===== verification/Sim_Platform.thy ===== *)
theory Sim_Platform
  imports Pin_Exact Approval
begin

text \<open>
  A platform that satisfies the laws which the properties assume of the firmware: a file system in
  memory, a toy enclave and engine, fixed randomness. It shows that the laws can hold together and
  serves the concrete runs.
\<close>

type_synonym sim = "path \<rightharpoonup> bytes"

definition sim_xor :: "byte \<Rightarrow> bytes \<Rightarrow> bytes" where
  "sim_xor k d = map (\<lambda>b. b XOR k) d"

text \<open>A rendering of keyed fields: strings and data are preceded by their length in unary.\<close>

definition sim_enc :: "bytes \<Rightarrow> bytes" where
  "sim_enc d = replicate (length d) 1 @ 0 # d"

definition sim_dec :: "bytes \<Rightarrow> bytes \<times> bytes" where
  "sim_dec t = (let n = length (takeWhile (\<lambda>b. b = 1) t) in (take n (drop (Suc n) t), drop (n + Suc n) t))"

lemma sim_dec_enc [simp]: "sim_dec (sim_enc d @ t) = (d, t)"
proof -
  have "takeWhile (\<lambda>b. b = 1) (replicate (length d) (1 :: byte) @ 0 # d @ t) = replicate (length d) 1"
    by (simp add: takeWhile_append)
  then show ?thesis by (simp add: sim_dec_def sim_enc_def Let_def)
qed

fun sim_field :: "string \<times> ff_value \<Rightarrow> bytes" where
  "sim_field (k, FFUint32 v) = 3 # sim_enc (ascii k) @ be_bytes 4 v"
| "sim_field (k, FFHex d) = 2 # sim_enc (ascii k) @ sim_enc d"

fun sim_fields :: "nat \<Rightarrow> bytes \<Rightarrow> (bytes \<times> ff_value) list" where
  "sim_fields (Suc n) (tag # t) =
    (let (k, t) = sim_dec t in
     if tag = 3 then (k, FFUint32 (be_value (take 4 t))) # sim_fields n (drop 4 t)
     else let (d, t) = sim_dec t in (k, FFHex d) # sim_fields n t)"
| "sim_fields _ _ = []"

definition sim_text :: "string \<Rightarrow> u32 \<Rightarrow> (string \<times> ff_value) list \<Rightarrow> bytes" where
  "sim_text ft ver fs = sim_enc (ascii ft) @ be_bytes 4 ver @ concat (map sim_field fs)"

definition sim_body :: "bytes \<Rightarrow> (bytes \<times> ff_value) list" where
  "sim_body t = (let (ft, t) = sim_dec t in sim_fields (length t) (drop 4 t))"

definition sim_header :: "bytes \<Rightarrow> string \<times> u32" where
  "sim_header t = (let (ft, t) = sim_dec t in (map (\<lambda>b. char_of (unat b)) ft, be_value (take 4 t)))"

definition sim_hal :: "sim hal" where
  "sim_hal =
    \<lparr>fs_exists = (\<lambda>p w. w p \<noteq> None),
     fs_dir_exists = (\<lambda>p w. True),
     fs_mkdir = (\<lambda>p w. (True, w)),
     fs_remove = (\<lambda>p w. (if w p = None then FSE_NOT_EXIST else FSE_OK, w(p := None))),
     fs_rename = (\<lambda>p q w. if w p = None then (FSE_FAILED, w) else (FSE_OK, w(q := w p, p := None))),
     fs_copy = (\<lambda>p q w. (FSE_OK, w(q := w p))),
     fs_write = (\<lambda>p d w. (Some (length d), w(p := Some d))),
     fs_read = (\<lambda>p w. (w p, w)),
     fs_dir = (\<lambda>p w. Some []),
     ff_text = sim_text,
     ff_read_header = (\<lambda>t. Some (sim_header t)),
     ff_read_uint32 = (\<lambda>t k. case map_of (sim_body t) (ascii k) of Some (FFUint32 v) \<Rightarrow> Some v | _ \<Rightarrow> None),
     ff_read_hex = (\<lambda>t k n. case map_of (sim_body t) (ascii k) of
        Some (FFHex d) \<Rightarrow> if length d = n then Some d else None | _ \<Rightarrow> None),
     furi_get_tick = (\<lambda>w. 1000),
     random_fill = (\<lambda>n w. (replicate n 7, w)),
     enclave_ensure_key = (\<lambda>w. (True, w)),
     enclave_encrypt = (\<lambda>iv d w. (Some (sim_xor 0x5A d), w)),
     enclave_decrypt = (\<lambda>iv d w. (Some (sim_xor 0x5A d), w)),
     hal_aes_encrypt = (\<lambda>k iv d w. (Some (sim_xor 0x33 d), w)),
     hal_aes_decrypt = (\<lambda>k iv d w. (Some (sim_xor 0x33 d), w)),
     uECC_make_key = (\<lambda>w. (Some (replicate 64 2, replicate 32 1), w)),
     uECC_valid_public_key = (\<lambda>k. True),
     uECC_shared_secret = (\<lambda>k p w. (Some (replicate 32 9), w)),
     uECC_sign = (\<lambda>k h w. (Some (replicate 64 3), w)),
     uECC_compute_public_key = (\<lambda>k. Some (k @ k)),
     uECC_verify = (\<lambda>k h s. True)\<rparr>"

lemma sim_xor_xor [simp]: "sim_xor k (sim_xor k d) = d"
  by (simp add: sim_xor_def o_def xor.assoc)

lemma length_sim_xor [simp]: "length (sim_xor k d) = length d"
  by (simp add: sim_xor_def)

lemma sim_storage_lawful: "storage_lawful sim_hal (\<lambda>w. w)"
  by (auto simp: storage_lawful_def sim_hal_def fun_upd_idem)

lemma sim_enclave_lawful: "enclave_lawful sim_hal"
  by (auto simp: enclave_lawful_def sim_hal_def)

lemma sim_pin_platform: "pin_platform sim_hal (\<lambda>w. w)"
  using sim_storage_lawful sim_enclave_lawful
  by (simp add: pin_platform_def) (simp add: sim_hal_def)

lemma sim_ensure_dir [simp]: "zf_storage_ensure_app_data_dir sim_hal w = (True, w)"
  by (simp add: zf_storage_ensure_app_data_dir_def zf_storage_ensure_dir_def and_then_def)
    (simp add: sim_hal_def)

lemma sim_files [simp]:
  "fs_exists sim_hal p w \<longleftrightarrow> w p \<noteq> None"
  "fs_remove sim_hal p w = (if w p = None then FSE_NOT_EXIST else FSE_OK, w(p := None))"
  "fs_rename sim_hal p q w = (if w p = None then (FSE_FAILED, w) else (FSE_OK, w(q := w p, p := None)))"
  "fs_copy sim_hal p q w = (FSE_OK, w(q := w p))"
  "fs_write sim_hal p d w = (Some (length d), w(p := Some d))"
  "fs_read sim_hal p w = (w p, w)"
  by (simp_all add: sim_hal_def)

lemma sim_remove_optional [simp]: "zf_storage_remove_optional sim_hal p w = (True, w(p := None))"
  by (simp add: zf_storage_remove_optional_def)

lemma sim_recover:
  "zf_storage_backup_path p = Some b \<Longrightarrow> fst (zf_storage_recover_atomic_file sim_hal p t w)"
  by (simp add: zf_storage_recover_atomic_file_def Let_def)

lemma sim_publish:
  "zf_storage_backup_path p = Some b \<Longrightarrow> t \<noteq> b \<Longrightarrow> w t \<noteq> None \<Longrightarrow>
    fst (zf_storage_publish_atomic_temp sim_hal p t w)"
  by (auto simp: zf_storage_publish_atomic_temp_def zf_storage_prepare_atomic_backup_def Let_def)

lemma sim_write_atomic:
  assumes "d \<noteq> []" "zf_storage_backup_path p = Some b" "distinct [p, t, b]"
  shows "\<exists>w'. zf_storage_write_file_atomic sim_hal p t d w = (True, w')"
  using assms sim_recover [OF assms(2)] sim_publish [OF assms(2)]
  by (simp add: zf_storage_write_file_atomic_def Let_def)

lemma sim_persist: "\<exists>w'. zf_pin_state_store_persist sim_hal s w = (True, w')"
proof (cases "pin_set s")
  case True
  obtain b where b: "zf_storage_backup_path ZF_PIN_FILE_PATH = Some b"
    "distinct [ZF_PIN_FILE_PATH, ZF_PIN_FILE_TEMP_PATH, b]"
    using pin_paths by blast
  have enc: "enclave_encrypt sim_hal iv d w = (Some (sim_xor 0x5A d), w)"
    and rnd: "random_fill sim_hal n w = (replicate n 7, w)" for iv d n w
    by (simp_all add: sim_hal_def)
  have ne: "pin_file_record v r m f iv e si sl \<noteq> []" for v r m f iv e si sl
    by (simp add: pin_file_record_def)
  show ?thesis
    using True sim_write_atomic [OF ne b]
    by (simp add: zf_pin_state_store_persist_def Let_def and_then_def enc rnd
        zf_pin_seal_retry_state_def)
qed (simp add: zf_pin_state_store_persist_def)

lemma sim_make_key [simp]: "uECC_make_key sim_hal w = (Some (replicate 64 2, replicate 32 1), w)"
  by (simp add: sim_hal_def)

text \<open>A device with the PIN hash \<open>1, 1, \<dots>\<close>.\<close>

definition sim_pin :: ZfClientPinState where
  "sim_pin = zero_pin_state\<lparr>pin_set := True, pin_hash := replicate 16 1, pin_retries := 8\<rparr>"

lemma sim_pin_wf [simp]:
  "retry_wf sim_pin" "pin_set sim_pin" "length (pin_hash sim_pin) = 16" "\<not> pin_auth_blocked sim_pin"
  "pin_retries sim_pin = 8" "pin_hash sim_pin = replicate 16 1"
  by (simp_all add: sim_pin_def retry_wf_def zero_pin_state_def)

lemma sim_aes [simp]:
  "hal_aes_encrypt sim_hal k iv d w = (Some (sim_xor 0x33 d), w)"
  "hal_aes_decrypt sim_hal k iv d w = (Some (sim_xor 0x33 d), w)"
  "uECC_valid_public_key sim_hal q"
  "uECC_shared_secret sim_hal k q w = (Some (replicate 32 9), w)"
  "random_fill sim_hal n w = (replicate n 7, w)"
  "furi_get_tick sim_hal w = 1000"
  by (simp_all add: sim_hal_def)

lemma constant_time_equal_refl [simp]: "zf_crypto_constant_time_equal d d"
  by (simp add: constant_time_equal_iff)

text \<open>A device with an active token of both permissions.\<close>

definition sim_token :: ZfClientPinState where
  "sim_token = sim_pin\<lparr>pin_token_active := True, pin_token := replicate 32 7,
    pin_token_issued_at := 1000, pin_token_permissions := 3, pin_token_permissions_scoped := True,
    pin_token_permissions_managed := True\<rparr>"

lemma sim_require_auth:
  assumes "rp \<noteq> []" "perm \<in> {1, 2}"
  shows "\<exists>s' w'. zerofido_pin_require_auth sim_hal sim_token False True cdh
      (take 16 (zf_hmac_sha256 (pin_token sim_token) cdh)) True 1 rp perm w =
    (ZF_CTAP_SUCCESS, True, s', w')"
proof -
  have len: "length (take 16 (zf_hmac_sha256 (pin_token sim_token) cdh)) = 16"
    by (simp add: zf_hmac_sha256_def)
  have persist: "fst (zf_pin_persist_state sim_hal s v)" for s v
    using sim_persist [of s v] by (auto simp: zf_pin_persist_state_def)
  show ?thesis
    using assms len persist
    by (auto simp: zerofido_pin_require_auth_def Let_def ZF_PIN_PROTOCOL_V1_def ZF_PIN_PROTOCOL_V2_def
        zf_pin_uv_auth_param_len_def ZF_PIN_AUTH_LEN_def sim_token_def zf_pin_token_is_expired_def
        ZF_PIN_TOKEN_TIMEOUT_MS_def zf_pin_token_rp_id_matches_def zf_pin_hash_rp_id_def
        sim_pin_def zero_pin_state_def)
qed

section \<open>An application\<close>

definition sim_build :: zf_build where
  "sim_build = \<lparr>ZF_DEV_FIDO2_1 = True, ZF_AUTO_ACCEPT_REQUESTS = False, ZF_PACKED_ATTESTATION = True,
    ZF_USB_ONLY = False, ZF_NFC_ONLY = False\<rparr>"

definition sim_config :: ZfRuntimeConfig where
  "sim_config = zf_runtime_config_load_defaults sim_build"

definition sim_app :: ZerofidoApp where
  "sim_app =
    \<lparr>app_pin_state = sim_pin, app_runtime_config = sim_config,
     app_capabilities = zf_runtime_config_resolve_capabilities sim_build sim_config,
     app_capabilities_resolved = True, app_maintenance_busy = False, app_running = True,
     app_ui_events_enabled = True, app_transport_auto_accept_transaction = False,
     app_approval = \<lparr>ap_state = ZfApprovalIdle, ap_kind = ZfInteractionKindApproval,
       ap_target_id = [], ap_generation = 0, ap_pending_hide_generation = 0, ap_deadline = 0,
       ap_done = 0, ap_details = SelectionPrompt [] 0\<rparr>\<rparr>"

end
