(* ===== verification/Pin_Properties.thy ===== *)
theory Pin_Properties
  imports Pin_Command_Exact Sim_Platform
begin

text \<open>
  The properties of the storage layer, the PIN core, the clientPIN command, the runtime configuration
  and the approval prompt.
\<close>

section \<open>Storage\<close>

text \<open>
  C18. An atomic write of the PIN file is all or nothing: whatever operation of the medium fails and
  wherever power is lost, the recovery that runs at the next start finds either the old contents or the
  new ones, and a write that reports success leaves the new ones.
\<close>

theorem pin_file_write_atomic:
  assumes "storage_lawful hal content"
    and "zf_storage_write_file_atomic hal ZF_PIN_FILE_PATH ZF_PIN_FILE_TEMP_PATH data w = (ok, w')"
    and "zf_storage_recover_atomic_file hal ZF_PIN_FILE_PATH ZF_PIN_FILE_TEMP_PATH w' = (True, w'')"
  shows "(\<exists>b. zf_storage_backup_path ZF_PIN_FILE_PATH = Some b \<and>
      content w'' ZF_PIN_FILE_PATH \<in> {recovered (content w) ZF_PIN_FILE_PATH b, Some data}) \<and>
    (ok \<longrightarrow> content w' ZF_PIN_FILE_PATH = Some data)"
  using pin_file.write_all_or_nothing [OF assms]
    pin_file.written_present [OF assms(1), of data w w'] assms(2)
  by (cases ok) simp_all

theorem pin_file_write_atomic_witness:
  "\<exists>w' w''. zf_storage_write_file_atomic sim_hal ZF_PIN_FILE_PATH ZF_PIN_FILE_TEMP_PATH [1, 2] Map.empty
      = (True, w') \<and>
    zf_storage_recover_atomic_file sim_hal ZF_PIN_FILE_PATH ZF_PIN_FILE_TEMP_PATH w' = (True, w'') \<and>
    w' ZF_PIN_FILE_PATH = Some [1, 2]"
proof -
  obtain b where b: "zf_storage_backup_path ZF_PIN_FILE_PATH = Some b"
    "distinct [ZF_PIN_FILE_PATH, ZF_PIN_FILE_TEMP_PATH, b]"
    using pin_paths by blast
  obtain w' where w': "zf_storage_write_file_atomic sim_hal ZF_PIN_FILE_PATH ZF_PIN_FILE_TEMP_PATH
      [1, 2] Map.empty = (True, w')"
    using sim_write_atomic [OF _ b] by blast
  obtain w'' where "zf_storage_recover_atomic_file sim_hal ZF_PIN_FILE_PATH ZF_PIN_FILE_TEMP_PATH w'
      = (True, w'')"
    using sim_recover [OF b(1)] by (metis (full_types) prod.collapse)
  with w' pin_file_write_atomic [OF sim_storage_lawful w'] show ?thesis by blast
qed

text \<open>
  C25. A PIN that was persisted survives a restart: loading the PIN file gives back the hash and the
  retry counter, sealed against rollback of single fields, while the token and the temporary
  authentication block are gone.
\<close>

theorem restart_keeps_pin:
  assumes "pin_platform hal content" "pin_set s" "length (pin_hash s) = 16" "retry_wf s"
    and "zf_pin_state_store_persist hal s w = (True, w')"
    and "zerofido_pin_init_with_result hal w' = (res, s', w'')"
  shows "res \<noteq> ZfPinInitInvalidPersistedState \<and> pin_set s' \<and> pin_hash s' = pin_hash s \<and>
    pin_retries s' = pin_retries s \<and> pin_consecutive_mismatches s' = 0 \<and> \<not> pin_auth_blocked s' \<and>
    \<not> pin_token_active s'"
  by (rule restart_restores [OF assms])

theorem restart_keeps_pin_witness:
  "\<exists>w' res s' w''. zf_pin_state_store_persist sim_hal (sim_pin\<lparr>pin_retries := 5\<rparr>) Map.empty = (True, w') \<and>
    zerofido_pin_init_with_result sim_hal w' = (res, s', w'') \<and> pin_set s' \<and> pin_retries s' = 5"
proof -
  let ?s = "sim_pin\<lparr>pin_retries := 5\<rparr>"
  obtain w' where w': "zf_pin_state_store_persist sim_hal ?s Map.empty = (True, w')"
    using sim_persist by blast
  obtain res s' w'' where init: "zerofido_pin_init_with_result sim_hal w' = (res, s', w'')"
    by (metis prod_cases3)
  have "retry_wf ?s" by (simp add: sim_pin_def retry_wf_def zero_pin_state_def)
  from restart_keeps_pin [OF sim_pin_platform _ _ this w' init] w' init show ?thesis
    by (auto simp: sim_pin_def)
qed

section \<open>Retries\<close>

text \<open>
  The operations that change the PIN state, as a step relation on the state and the world: host
  commands, authorization checks, the actions of the local menu, and a restart.
\<close>

inductive pin_step :: "zf_build \<Rightarrow> 'w hal \<Rightarrow> ZfClientPinState \<times> 'w \<Rightarrow> ZfClientPinState \<times> 'w \<Rightarrow> bool"
  for b :: zf_build and hal :: "'w hal" where
  step_command: "zerofido_pin_handle_command_with_session b hal wait ok app sid request out cap w =
      (r, app', w') \<Longrightarrow> waiting_keeps_retries (wait :: (unit, 'w) waiting) \<Longrightarrow>
    pin_step b hal (app_pin_state app, w) (app_pin_state app', w')"
| step_auth: "zerofido_pin_require_auth hal s uv has cdh auth hasp proto rp perm w = (st, v, s', w') \<Longrightarrow>
    pin_step b hal (s, w) (s', w')"
| step_verify: "zerofido_pin_verify_plaintext hal s pin w = (st, s', w') \<Longrightarrow>
    pin_step b hal (s, w) (s', w')"
| step_set: "zerofido_pin_set_plaintext hal s pin w = (st, s', w') \<Longrightarrow>
    pin_step b hal (s, w) (s', w')"
| step_replace: "zerofido_pin_replace_plaintext hal s pin w = (st, s', w') \<Longrightarrow>
    pin_step b hal (s, w) (s', w')"
| step_resume: "zerofido_pin_resume_auth_attempts hal s w = (resumed, s', w') \<Longrightarrow>
    pin_step b hal (s, w) (s', w')"
| step_clear: "zerofido_pin_clear hal s w = (cleared, s', w') \<Longrightarrow>
    pin_step b hal (s, w) (s', w')"
| step_restart: "zerofido_pin_init_with_result hal w = (ZfPinInitOk, s', w') \<Longrightarrow>
    pin_step b hal (s, w) (s', w')"

inductive pin_reachable :: "zf_build \<Rightarrow> 'w hal \<Rightarrow> ZfClientPinState \<times> 'w \<Rightarrow> bool"
  for b :: zf_build and hal :: "'w hal" where
  reach_init: "zerofido_pin_init_with_result hal w = (ZfPinInitOk, s, w') \<Longrightarrow> pin_reachable b hal (s, w')"
| reach_step: "pin_reachable b hal c \<Longrightarrow> pin_step b hal c c' \<Longrightarrow> pin_reachable b hal c'"

lemma pin_step_wf: "pin_step b hal c c' \<Longrightarrow> retry_wf (fst c) \<Longrightarrow> retry_wf (fst c')"
proof (induction rule: pin_step.induct)
  case (step_verify s pin w st s' w')
  then show ?case
    by (auto simp: zerofido_pin_verify_plaintext_def Let_def dest: verify_hash_wf split: if_splits)
qed (auto simp: zerofido_pin_set_plaintext_def zerofido_pin_replace_plaintext_def
    dest: command_wf require_auth_wf apply_plaintext_wf resume_wf pin_clear_wf init_wf)

text \<open>
  C19. In every reachable state of the PIN, the retry counter is at most eight, the mismatches of the
  power cycle at most three, and the temporary block holds exactly when they are three. The steps are
  every clientPIN command with any interleaving at its consent prompt, every authorization check, the
  actions of the local menu and restarts, on any platform, with any failure of storage or randomness.
\<close>

theorem reachable_retries_wf:
  assumes "pin_reachable b hal (s, w)"
  shows "pin_retries s \<le> 8 \<and> pin_consecutive_mismatches s \<le> 3 \<and>
    (pin_auth_blocked s \<longleftrightarrow> pin_consecutive_mismatches s = 3)"
proof -
  from assms have "retry_wf (fst (s, w))"
    by (induction rule: pin_reachable.induct) (auto dest: init_wf pin_step_wf)
  then show ?thesis by (simp add: retry_wf_def)
qed

theorem reachable_retries_wf_witness:
  "\<exists>s w. pin_reachable sim_build sim_hal (s, w) \<and> pin_retries s \<le> 8"
proof -
  obtain s w where "zerofido_pin_init_with_result sim_hal Map.empty = (ZfPinInitOk, s, w)"
  proof -
    have "fst (zerofido_pin_init_with_result sim_hal Map.empty) = ZfPinInitOk"
      by (simp add: zerofido_pin_init_with_result_def zf_pin_state_store_cleanup_temp_def Let_def
          zf_storage_recover_atomic_file_def zf_pin_state_store_load_def zf_storage_read_file_def
          zf_pin_refresh_runtime_secrets_def zf_crypto_generate_key_agreement_key_def
          zf_p256_generate_keypair_def split: option.split prod.split)
    then show ?thesis using that by (metis prod.collapse)
  qed
  then have "pin_reachable sim_build sim_hal (s, w)" by (rule reach_init)
  then show ?thesis using reachable_retries_wf [of sim_build sim_hal s w] by blast
qed

text \<open>
  Guessing: a list of candidate hashes is tried one after the other; the answers are collected. A guess
  counts unless it was answered with the error of a failed key generation.
\<close>

primrec guesses ::
  "'w hal \<Rightarrow> bytes list \<Rightarrow> ZfClientPinState \<times> 'w \<Rightarrow> ctap_status list \<times> ZfClientPinState \<times> 'w" where
  "guesses hal [] c = ([], c)"
| "guesses hal (h # hs) c =
    (case zf_pin_verify_hash hal (fst c) h (snd c) of (st, c1) \<Rightarrow>
      case guesses hal hs c1 of (sts, c2) \<Rightarrow> (st # sts, c2))"

definition charged :: "ctap_status list \<Rightarrow> nat" where
  "charged sts = length (filter (\<lambda>st. st \<noteq> ZF_CTAP_ERR_OTHER) sts)"

lemma charged_simps [simp]:
  "charged [] = 0"
  "charged (st # sts) = (if st = ZF_CTAP_ERR_OTHER then charged sts else Suc (charged sts))"
  by (simp_all add: charged_def)

lemma guess_stuck:
  "pin_auth_blocked (fst c) \<or> pin_retries (fst c) = 0 \<Longrightarrow> pin_set (fst c) \<Longrightarrow> snd (guesses hal hs c) = c"
  by (induction hs) (auto simp: zf_pin_verify_hash_def split: prod.split)

lemma guess_step:
  assumes "pin_set s" "retry_wf s" "length (pin_hash s) = 16" "length h = 16" "h \<noteq> pin_hash s"
    and "zf_pin_verify_hash hal s h w = (st, s', w')"
  shows "pin_set s' \<and> retry_wf s' \<and> pin_hash s' = pin_hash s \<and> pin_retries s' \<le> pin_retries s \<and>
    st \<noteq> ZF_CTAP_SUCCESS \<and>
    (st = ZF_CTAP_ERR_OTHER \<and> s' = s \<and> fst (uECC_make_key hal w) = None \<or>
     st \<noteq> ZF_CTAP_ERR_OTHER \<and> (pin_auth_blocked s' \<or> pin_retries s' = 0) \<or>
     st \<noteq> ZF_CTAP_ERR_OTHER \<and> unat (pin_retries s) = Suc (unat (pin_retries s')) \<and>
     unat (pin_consecutive_mismatches s') = Suc (unat (pin_consecutive_mismatches s)))"
proof (cases "pin_auth_blocked s \<or> pin_retries s = 0")
  case True
  then show ?thesis using assms by (auto simp: zf_pin_verify_hash_def zf_defs split: if_split_asm)
next
  case False
  with assms have fail: "zf_pin_auth_failure hal s w = (st, s', w')"
    by (simp add: zf_pin_verify_hash_def constant_time_hash)
  have wf: "retry_wf s'" by (rule auth_failure_wf [OF assms(2) fail])
  have keeps: "pin_set (failed_state s key) = pin_set s" "pin_hash (failed_state s key) = pin_hash s"
    for key by (simp_all add: failed_state_def)
  have less: "pin_retries s - 1 < pin_retries s" using False by (simp add: dec_le word_neq_0_conv)
  have dec: "unat (pin_retries s) = Suc (unat (pin_retries s - 1))"
    using False by (simp add: unat_minus_one Suc_pred' unat_gt_0)
  have "pin_consecutive_mismatches s < 3"
    using False assms(2) by (auto simp: retry_wf_def order.order_iff_strict)
  then have inc: "unat (pin_consecutive_mismatches s + 1) = Suc (unat (pin_consecutive_mismatches s))"
    by (simp add: word_less_nat_alt unat_word_ariths)
  from fail show ?thesis
  proof (cases rule: auth_failure_cases)
    case blocked
    then show ?thesis using False by simp
  next
    case no_key
    then show ?thesis using assms(1-3) by (simp add: zf_defs)
  next
    case (counted key)
    then show ?thesis
      using assms(1) wf keeps [of key] failed_state_wf [OF assms(2), of key] False less dec inc
      by (auto simp: word_neq_0_conv zf_defs)
  next
    case (forced key)
    then show ?thesis using assms(1) wf keeps [of key] by (simp add: zf_defs)
  qed
qed

lemma guesses_run:
  assumes "pin_set s" "retry_wf s" "length (pin_hash s) = 16"
    and "\<forall>h \<in> set hs. length h = 16 \<and> h \<noteq> pin_hash s"
    and "guesses hal hs (s, w) = (sts, s', w')"
  shows "pin_set s' \<and> retry_wf s' \<and> pin_hash s' = pin_hash s \<and> pin_retries s' \<le> pin_retries s \<and>
    ZF_CTAP_SUCCESS \<notin> set sts \<and>
    (pin_auth_blocked s' \<or> pin_retries s' = 0 \<or>
     unat (pin_consecutive_mismatches s') = unat (pin_consecutive_mismatches s) + charged sts \<and>
     unat (pin_retries s) = unat (pin_retries s') + charged sts) \<and>
    ((\<forall>w. fst (uECC_make_key hal w) \<noteq> None) \<longrightarrow> charged sts = length hs)"
  using assms
proof (induction hs arbitrary: s w sts)
  case (Cons h hs)
  obtain st s1 w1 where v: "zf_pin_verify_hash hal s h w = (st, s1, w1)" by (metis prod_cases3)
  obtain sts1 where g: "guesses hal hs (s1, w1) = (sts1, s', w')" "sts = st # sts1"
    using Cons.prems(5) v by (auto split: prod.splits)
  have step: "pin_set s1" "retry_wf s1" "pin_hash s1 = pin_hash s" "pin_retries s1 \<le> pin_retries s"
    "st \<noteq> ZF_CTAP_SUCCESS"
    and alt: "st = ZF_CTAP_ERR_OTHER \<and> s1 = s \<and> fst (uECC_make_key hal w) = None \<or>
     st \<noteq> ZF_CTAP_ERR_OTHER \<and> (pin_auth_blocked s1 \<or> pin_retries s1 = 0) \<or>
     st \<noteq> ZF_CTAP_ERR_OTHER \<and> unat (pin_retries s) = Suc (unat (pin_retries s1)) \<and>
     unat (pin_consecutive_mismatches s1) = Suc (unat (pin_consecutive_mismatches s))"
    using guess_step [OF Cons.prems(1-3) _ _ v] Cons.prems(4) by auto
  note IH = Cons.IH [OF step(1,2) _ _ g(1)]
  have run: "pin_set s' \<and> retry_wf s' \<and> pin_hash s' = pin_hash s1 \<and> pin_retries s' \<le> pin_retries s1 \<and>
    ZF_CTAP_SUCCESS \<notin> set sts1 \<and>
    (pin_auth_blocked s' \<or> pin_retries s' = 0 \<or>
     unat (pin_consecutive_mismatches s') = unat (pin_consecutive_mismatches s1) + charged sts1 \<and>
     unat (pin_retries s1) = unat (pin_retries s') + charged sts1) \<and>
    ((\<forall>w. fst (uECC_make_key hal w) \<noteq> None) \<longrightarrow> charged sts1 = length hs)"
    using IH step(3) Cons.prems(3,4) by simp
  have stuck: "pin_auth_blocked s1 \<or> pin_retries s1 = 0 \<Longrightarrow> s' = s1"
    using guess_stuck [of "(s1, w1)" hal hs] step(1) g(1) by simp
  have keyed: "st \<noteq> ZF_CTAP_ERR_OTHER" if "\<forall>w. fst (uECC_make_key hal w) \<noteq> None"
    using alt that by blast
  have keeps: "pin_set s' \<and> retry_wf s' \<and> pin_hash s' = pin_hash s \<and> pin_retries s' \<le> pin_retries s \<and>
    ZF_CTAP_SUCCESS \<notin> set sts"
    using run step g(2) by (auto intro: order.trans)
  have counts: "pin_auth_blocked s' \<or> pin_retries s' = 0 \<or>
     unat (pin_consecutive_mismatches s') = unat (pin_consecutive_mismatches s) + charged sts \<and>
     unat (pin_retries s) = unat (pin_retries s') + charged sts"
    using alt run stuck g(2) by auto
  have all: "(\<forall>w. fst (uECC_make_key hal w) \<noteq> None) \<longrightarrow> charged sts = length (h # hs)"
    using keyed run g(2) by simp
  show ?case using keeps counts all by blast
qed simp

text \<open>
  C12. Guessing is bounded. Whatever wrong candidates for the PIN hash are tried one after the other
  without a restart, on any platform, none is accepted, the PIN stays the same and the retry counter
  never grows. Every guess counts, save those for which no fresh key agreement key could be generated
  (the handler answers them with an error before it counts; where key generation never fails there are
  none): as long as the device is not blocked both counters have moved by exactly the number of counted
  guesses, after three counted guesses it is blocked, and then every further guess, the right one too, is
  refused and changes nothing.
\<close>

theorem three_guesses_block:
  assumes "pin_set s" "retry_wf s" "length (pin_hash s) = 16"
    and "\<forall>h \<in> set hs. length h = 16 \<and> h \<noteq> pin_hash s"
    and "guesses hal hs (s, w) = (sts, s', w')"
  shows "ZF_CTAP_SUCCESS \<notin> set sts \<and> pin_hash s' = pin_hash s \<and> pin_retries s' \<le> pin_retries s \<and>
    ((\<forall>w. fst (uECC_make_key hal w) \<noteq> None) \<longrightarrow> charged sts = length hs) \<and>
    (pin_auth_blocked s' \<or> pin_retries s' = 0 \<or>
     unat (pin_consecutive_mismatches s') = unat (pin_consecutive_mismatches s) + charged sts \<and>
     unat (pin_retries s) = unat (pin_retries s') + charged sts) \<and>
    (3 \<le> charged sts \<longrightarrow> (pin_auth_blocked s' \<or> pin_retries s' = 0) \<and>
      (\<exists>st \<in> {ZF_CTAP_ERR_PIN_AUTH_BLOCKED, ZF_CTAP_ERR_PIN_BLOCKED}.
        zf_pin_verify_hash hal s' h w' = (st, s', w')))"
proof -
  note run = guesses_run [OF assms]
  have "pin_auth_blocked s' \<or> pin_retries s' = 0" if "3 \<le> charged sts"
  proof (rule ccontr)
    assume not: "\<not> (pin_auth_blocked s' \<or> pin_retries s' = 0)"
    then have "3 \<le> unat (pin_consecutive_mismatches s')" using run that by simp
    moreover have "unat (pin_consecutive_mismatches s') \<le> 3"
      using run by (simp add: retry_wf_def word_le_nat_alt)
    ultimately have "pin_consecutive_mismatches s' = 3"
      by (simp add: word_unat_eq_iff)
    then show False using run not by (simp add: retry_wf_def)
  qed
  then show ?thesis using run by (auto simp: zf_pin_verify_hash_def)
qed

theorem three_guesses_block_witness:
  "\<exists>sts s' w'. guesses sim_hal [replicate 16 5, replicate 16 6, replicate 16 7] (sim_pin, Map.empty) =
      (sts, s', w') \<and> charged sts = 3 \<and> (pin_auth_blocked s' \<or> pin_retries s' = 0)"
proof -
  obtain sts s' w' where g: "guesses sim_hal [replicate 16 5, replicate 16 6, replicate 16 7]
      (sim_pin, Map.empty) = (sts, s', w')"
    by (metis prod.collapse)
  have ne: "replicate 16 x = replicate 16 y \<longleftrightarrow> x = (y :: byte)" for x y
    using replicate_eq_replicate [of 16 x 16 y] by simp
  from three_guesses_block [OF _ _ _ _ g] g show ?thesis by (simp add: ne)
qed

section \<open>Tokens\<close>

text \<open>
  C2. A PIN token is only given to a platform that knows the PIN: when the handler of getPinToken, in
  either mode, answers with a token, a PIN is set, neither of the two blocks holds, the encrypted hash
  of the request decrypts under the shared secret to the stored PIN hash, and the token that becomes
  active is the fresh random one, limited to the permissions and the relying party of the request.
\<close>

theorem token_needs_pin:
  assumes "zf_client_pin_handle_get_pin_token b hal wait app s req pm consent sid out cap w =
      (Inr resp, s', app', w')" and "length (pin_hash s) = 16"
  shows "pin_set s \<and> \<not> pin_auth_blocked s \<and> pin_retries s \<noteq> 0 \<and>
    (\<exists>keys w1 w2. zf_pin_protocol_derive_keys hal s (cp_pin_protocol req) (cp_platform_x req)
        (cp_platform_y req) w = (Some keys, w1) \<and>
      zf_pin_protocol_decrypt hal (cp_pin_protocol req) keys (cp_pin_hash_enc req) w1 =
        (Some (pin_hash s), w2)) \<and>
    pin_token_active s' \<and> (\<exists>w3. pin_token s' = fst (random_fill hal 32 w3)) \<and>
    pin_token_permissions_scoped s' = pm \<and> pin_token_permissions_managed s' = consent \<and>
    (pm \<longrightarrow> pin_token_permissions s' = cp_permissions req \<and> cp_permissions req \<in> {1, 2, 3} \<and>
      (cp_rp_id req \<noteq> [] \<longrightarrow>
        pin_token_permissions_rp_id_hash s' = zf_crypto_sha256 (cp_rp_id req)))"
proof -
  obtain keys w1 plain w2 s1 w3 where t:
    "zf_client_pin_require_existing_pin s = ZF_CTAP_SUCCESS"
    "token_permission_checks req pm = ZF_CTAP_SUCCESS"
    "zf_pin_protocol_derive_keys hal s (cp_pin_protocol req) (cp_platform_x req) (cp_platform_y req) w =
      (Some keys, w1)"
    "zf_pin_protocol_decrypt hal (cp_pin_protocol req) keys (cp_pin_hash_enc req) w1 = (Some plain, w2)"
    "length plain = 16"
    "zf_crypto_constant_time_equal (take ZF_PIN_HASH_LEN plain) (take ZF_PIN_HASH_LEN (pin_hash s))"
    "issue_pin_token hal s1 req keys pm consent out cap w3 = (Inr resp, s', w')"
    using get_token_success [OF assms(1)] by metis
  have "plain = pin_hash s" using t(5,6) assms(2) constant_time_hash by blast
  then show ?thesis
    using t(1-4) issue_token_Inr [OF t(7)] permission_checks_iff [of req]
    by (auto simp: existing_pin_iff)
qed

definition sim_token_request :: ZfClientPinRequest where
  "sim_token_request = cp_cleared\<lparr>cp_pin_protocol := 1, cp_has_pin_protocol := True,
    cp_subcommand := 5, cp_has_subcommand := True, cp_has_key_agreement := True,
    cp_pin_hash_enc := replicate 16 0x32, cp_has_pin_hash_enc := True\<rparr>"

definition sim_keyed :: ZfClientPinState where
  "sim_keyed = sim_pin\<lparr>key_agreement := \<lparr>ka_private_key = replicate 31 0 @ [1],
    ka_public_x = replicate 32 2, ka_public_y = replicate 32 2\<rparr>\<rparr>"

lemma sim_derive:
  assumes "key_agreement s = key_agreement sim_keyed"
  shows "zf_pin_protocol_derive_keys sim_hal s 1 x y w =
    (Some (zf_crypto_sha256 (replicate 32 9), zf_crypto_sha256 (replicate 32 9)), w)"
proof -
  have "zf_p256_private_key_valid (replicate 31 0 @ [1])"
    by code_simp
  then show ?thesis
    by (simp add: zf_pin_protocol_derive_keys_def ZF_PIN_PROTOCOL_V1_def zf_crypto_ecdh_shared_secret_def
        zf_p256_ecdh_raw_secret_def assms) (simp add: sim_keyed_def)
qed

lemma sim_decrypt:
  "zf_pin_protocol_decrypt sim_hal 1 keys (replicate 16 0x32) w = (Some (replicate 16 1), w)"
  by (simp add: zf_pin_protocol_decrypt_def ZF_PIN_PROTOCOL_V1_def zf_aes256_cbc_zero_iv_decrypt_def
      zf_aes256_cbc_decrypt_def zf_aes256_cbc_crypt_def Let_def sim_xor_def numeral_eq_Suc)

lemma sim_encrypt:
  "\<exists>c. length c = 32 \<and> zf_pin_protocol_encrypt sim_hal 1 keys (replicate 32 7) 48 w = (Some c, w)"
  by (simp add: zf_pin_protocol_encrypt_def ZF_PIN_PROTOCOL_V1_def zf_aes256_cbc_zero_iv_encrypt_def
      zf_aes256_cbc_encrypt_def zf_aes256_cbc_crypt_def Let_def)

lemma sim_get_token:
  "\<exists>resp s' app' w'. zf_client_pin_handle_get_pin_token sim_build sim_hal wait app sim_keyed
      sim_token_request False False 1 (replicate 100 0) 100 Map.empty = (Inr resp, s', app', w')"
proof -
  obtain w1 where auth: "zf_pin_auth_success sim_hal sim_keyed Map.empty =
      (ZF_CTAP_SUCCESS, sim_keyed\<lparr>pin_retries := 8, pin_consecutive_mismatches := 0,
        pin_auth_blocked := False\<rparr>, w1)"
    using sim_persist [of "zf_pin_clear_auth_block_state (sim_keyed\<lparr>pin_retries := ZF_PIN_RETRIES_MAX\<rparr>)"
        Map.empty]
    by (auto simp: zf_pin_auth_success_def Let_def zf_pin_persist_state_def pin_simps)
  obtain c where c: "length c = 32" "zf_pin_protocol_encrypt sim_hal 1
      (zf_crypto_sha256 (replicate 32 9), zf_crypto_sha256 (replicate 32 9)) (replicate 32 7) 48 w1 =
      (Some c, w1)"
    using sim_encrypt by blast
  have resp: "zf_client_pin_response_token c (replicate 100 0) 100 =
      Inr (cbor_map 1 @ cbor_uint 2 @ cbor_bytes c)"
  proof -
    have "c \<noteq> []" using c(1) by auto
    from token_response [OF _ this, of 100 "replicate 100 0"] c(1) show ?thesis
      by (simp add: Let_def cbor_encodings zf_cbor_head_def)
  qed
  show ?thesis
    using sim_derive sim_decrypt auth c resp
    by (simp add: zf_client_pin_handle_get_pin_token_def Let_def sim_token_request_def cp_cleared_def
        zf_client_pin_require_existing_pin_def sim_keyed_def token_permission_checks_def
        zf_pin_protocol_supported_def ZF_PIN_PROTOCOL_V1_def ZF_PIN_PROTOCOL_V2_def
        zf_pin_protocol_encrypted_pin_hash_len_def ZF_PIN_HASH_LEN_def issue_pin_token_def
        zf_pin_refresh_pin_token_def ZF_PIN_TOKEN_LEN_def ZF_PIN_ENCRYPTED_TOKEN_MAX_LEN_def
        ZF_PIN_PROTOCOL2_IV_LEN_def)
qed

theorem token_needs_pin_witness:
  "\<exists>resp s' app' w'. zf_client_pin_handle_get_pin_token sim_build sim_hal
      (\<lambda>_ (a :: ZerofidoApp) w. (False, a, w)) sim_app sim_keyed
      sim_token_request False False 1 (replicate 100 0) 100 Map.empty = (Inr resp, s', app', w') \<and>
    pin_token_active s'"
proof -
  obtain resp s' app' w' where r: "zf_client_pin_handle_get_pin_token sim_build sim_hal
      (\<lambda>_ (a :: ZerofidoApp) w. (False, a, w)) sim_app sim_keyed
      sim_token_request False False 1 (replicate 100 0) 100 Map.empty = (Inr resp, s', app', w')"
    using sim_get_token by blast
  show ?thesis using r token_needs_pin [OF r] by (simp add: sim_keyed_def)
qed

text \<open>
  C3. User verification is only reported for a request that carries the right message authentication
  code: the check of makeCredential and getAssertion sets \<open>uv_verified\<close> only when a PIN is set, the token
  is active and younger than its lifetime, authentication is not blocked, the parameter has exactly the
  length of its protocol and equals the (truncated) HMAC of the client data hash under the token, and
  the token has every permission the command requires.
\<close>

theorem uv_needs_mac:
  assumes "zerofido_pin_require_auth hal s uv has cdh auth hasp proto rp perm w = (st, True, s', w')"
  shows "has \<and> hasp \<and> pin_set s \<and> \<not> pin_auth_blocked s \<and> pin_token_active s \<and>
    sint (furi_get_tick hal w - pin_token_issued_at s) < 30000 \<and>
    auth = take (if proto = ZF_PIN_PROTOCOL_V2 then 32 else 16) (hmac_reference (pin_token s) cdh) \<and>
    pin_token_permissions s AND perm = perm \<and> st = ZF_CTAP_SUCCESS"
  using require_auth_uv_guards [OF assms] require_auth_uv_mac [OF assms] require_auth_result [OF assms]
  by (auto simp: zf_pin_token_is_expired_def ZF_PIN_TOKEN_TIMEOUT_MS_def zf_pin_uv_auth_param_len_def
      ZF_PIN_AUTH_MAX_LEN_def ZF_PIN_AUTH_LEN_def)

theorem uv_needs_mac_witness:
  "\<exists>s' w'. zerofido_pin_require_auth sim_hal sim_token False True (replicate 32 1)
      (take 16 (zf_hmac_sha256 (replicate 32 7) (replicate 32 1))) True 1 [97] 2 Map.empty =
      (ZF_CTAP_SUCCESS, True, s', w') \<and>
    take 16 (zf_hmac_sha256 (replicate 32 7) (replicate 32 1)) =
      take 16 (hmac_reference (replicate 32 7) (replicate 32 1))"
proof -
  obtain s' w' where r: "zerofido_pin_require_auth sim_hal sim_token False True (replicate 32 1)
      (take 16 (zf_hmac_sha256 (replicate 32 7) (replicate 32 1))) True 1 [97] 2 Map.empty =
      (ZF_CTAP_SUCCESS, True, s', w')"
    using sim_require_auth [of "[97]" 2 "replicate 32 1" Map.empty] by (auto simp: sim_token_def)
  show ?thesis using r uv_needs_mac [OF r] by (simp add: ZF_PIN_PROTOCOL_V2_def sim_token_def)
qed

text \<open>
  C13. A token with permissions serves one relying party and one request. When a token of the profile
  with consent verifies a makeCredential or a getAssertion request, the request names a relying party,
  and if the token is bound to one, it is this one. Afterwards the token verifies no further request of
  either command, whatever permissions it was issued with.
\<close>

theorem scoped_token_single_use:
  assumes "zerofido_pin_require_auth hal s uv has cdh auth hasp proto rp perm w = (st, True, s', w')"
    and "pin_token_permissions_scoped s" "pin_token_permissions_managed s" "perm \<in> {1, 2}"
    and "length (pin_token_permissions_rp_id_hash s) = 32"
  shows "rp \<noteq> [] \<and>
    (pin_token_permissions_rp_id_set s \<longrightarrow> pin_token_permissions_rp_id_hash s = zf_crypto_sha256 rp) \<and>
    (\<forall>perm2 \<in> {ZF_PIN_PERMISSION_MC, ZF_PIN_PERMISSION_GA}.
      fst (snd (zerofido_pin_require_auth hal2 s' uv2 has2 cdh2 auth2 hasp2 proto2 rp2 perm2 w2)) = False)"
proof -
  have perm: "perm AND (ZF_PIN_PERMISSION_MC OR ZF_PIN_PERMISSION_GA) \<noteq> 0"
    using assms(4) by (auto simp: ZF_PIN_PERMISSION_MC_def ZF_PIN_PERMISSION_GA_def)
  have both: "p AND (ZF_PIN_PERMISSION_MC OR ZF_PIN_PERMISSION_GA) = p \<and> p \<noteq> 0"
    if "p \<in> {ZF_PIN_PERMISSION_MC, ZF_PIN_PERMISSION_GA}" for p
    using that by (auto simp: ZF_PIN_PERMISSION_MC_def ZF_PIN_PERMISSION_GA_def)
  note g = require_auth_uv_guards [OF assms(1)]
  have rp: "rp \<noteq> []" "zf_pin_token_rp_id_matches s rp" using g perm assms(2) by auto
  have managed: "pin_token_permissions_managed (bound_state s rp perm)"
    using assms(3) by (simp add: bound_state_def pin_simps)
  have "s' = zf_pin_consume_up_tested_permissions
      (zf_pin_clear_auth_block_state (bound_state s rp perm)) perm"
    using assms(1,2,3) g perm rp
    by (auto simp: zerofido_pin_require_auth_def Let_def bound_state_def pin_simps
        split: if_split_asm prod.split_asm)
  then have used: "pin_token_permissions s' AND (ZF_PIN_PERMISSION_MC OR ZF_PIN_PERMISSION_GA) = 0"
    using consumed_permissions [OF perm] by simp
  have "\<not> fst (snd (zerofido_pin_require_auth hal2 s' uv2 has2 cdh2 auth2 hasp2 proto2 rp2 perm2 w2))"
    if "perm2 \<in> {ZF_PIN_PERMISSION_MC, ZF_PIN_PERMISSION_GA}" for perm2
  proof -
    have "pin_token_permissions s' AND perm2 \<noteq> perm2"
      using used both [OF that] by (metis and.assoc and.commute and_zero_eq)
    then show ?thesis
      using require_auth_uv_guards [of hal2 s' uv2 has2 cdh2 auth2 hasp2 proto2 rp2 perm2 w2]
      by (metis prod.collapse)
  qed
  then show ?thesis using rp rp_matches_bound [OF rp(2) _ assms(5)] by auto
qed

theorem scoped_token_single_use_witness:
  "\<exists>s' w'. zerofido_pin_require_auth sim_hal sim_token False True (replicate 32 1)
      (take 16 (zf_hmac_sha256 (replicate 32 7) (replicate 32 1))) True 1 [97] 2 Map.empty =
      (ZF_CTAP_SUCCESS, True, s', w') \<and>
    \<not> fst (snd (zerofido_pin_require_auth sim_hal s' False True (replicate 32 1)
      (take 16 (zf_hmac_sha256 (replicate 32 7) (replicate 32 1))) True 1 [97] 1 w'))"
proof -
  obtain s' w' where r: "zerofido_pin_require_auth sim_hal sim_token False True (replicate 32 1)
      (take 16 (zf_hmac_sha256 (replicate 32 7) (replicate 32 1))) True 1 [97] 2 Map.empty =
      (ZF_CTAP_SUCCESS, True, s', w')"
    using sim_require_auth [of "[97]" 2 "replicate 32 1" Map.empty] by (auto simp: sim_token_def)
  have tok: "pin_token_permissions_scoped sim_token" "pin_token_permissions_managed sim_token"
    "length (pin_token_permissions_rp_id_hash sim_token) = 32"
    by (simp_all add: sim_token_def sim_pin_def zero_pin_state_def)
  have "1 \<in> {ZF_PIN_PERMISSION_MC, ZF_PIN_PERMISSION_GA}" by (simp add: ZF_PIN_PERMISSION_MC_def)
  with r scoped_token_single_use [OF r tok(1,2) _ tok(3), of sim_hal] show ?thesis by blast
qed

text \<open>
  C35. Exactly what setPIN installs: only when no PIN was set, for a request authenticated with the
  shared secret, the text that newPinEnc decrypts to under that secret, without its zero padding. The
  text is valid UTF-8 of at least four code points and at most 63 bytes and has no NUL; the state keeps
  the left half of its SHA-256, a full retry counter and no active token.
\<close>

theorem set_pin_policy:
  assumes "zf_client_pin_handle_set_pin hal s req w = (ZF_CTAP_SUCCESS, s', w')"
  shows "\<not> pin_set s \<and> pin_set s' \<and> pin_retries s' = 8 \<and> \<not> pin_token_active s' \<and>
    (\<exists>keys w1 w2 cps k.
      zf_pin_protocol_derive_keys hal s (cp_pin_protocol req) (cp_platform_x req)
        (cp_platform_y req) w = (Some keys, w1) \<and>
      cp_pin_auth req = take (zf_pin_protocol_auth_len (cp_pin_protocol req))
        (hmac_reference (fst keys) (cp_new_pin_enc req)) \<and>
      zf_pin_protocol_decrypt hal (cp_pin_protocol req) keys (cp_new_pin_enc req) w1 =
        (Some (utf8_text cps @ replicate (Suc k) 0), w2) \<and>
      list_all unicode_scalar cps \<and> 4 \<le> length cps \<and> length (utf8_text cps) \<le> 63 \<and>
      0 \<notin> set (utf8_text cps) \<and> pin_hash s' = take 16 (sha256_reference (utf8_text cps)))"
proof -
  obtain keys w1 w2 w3 plain n where p: "\<not> pin_set s"
    "zf_pin_protocol_derive_keys hal s (cp_pin_protocol req) (cp_platform_x req)
        (cp_platform_y req) w = (Some keys, w1)"
    "zf_pin_protocol_hmac_matches (cp_pin_protocol req) (fst keys) (cp_new_pin_enc req) []
        (cp_pin_auth req)"
    "zf_pin_protocol_decrypt hal (cp_pin_protocol req) keys (cp_new_pin_enc req) w1 = (Some plain, w2)"
    "zf_pin_validate_plaintext_block plain = Some n"
    "zf_pin_apply_plaintext hal s (take n plain) True w2 = (ZF_CTAP_SUCCESS, s', w3)"
    using set_pin_success [OF assms] by blast
  obtain pin k where pin: "plain = pin @ replicate (Suc k) 0" "0 \<notin> set pin" "length pin = n" "n \<le> 63"
    using p(5) unfolding plaintext_block_iff by blast
  have take: "take n plain = pin" using pin by simp
  note a = apply_plaintext_success [OF p(6), unfolded take]
  obtain cps where c: "list_all unicode_scalar cps" "pin = utf8_text cps" "4 \<le> length cps"
    "length pin \<le> 63"
    using a policy_iff by blast
  have auth: "cp_pin_auth req = take (zf_pin_protocol_auth_len (cp_pin_protocol req))
      (hmac_reference (fst keys) (cp_new_pin_enc req))"
    using p(3) by (simp add: hmac_matches_iff)
  have hash: "pin_hash s' = take 16 (sha256_reference (utf8_text cps))"
    using a c(2) by (simp add: sha256_correct)
  show ?thesis
    using a p(1,2) p(4) [unfolded pin(1) c(2)] auth hash c(1,3) c(4) [unfolded c(2)]
      pin(2) [unfolded c(2)]
    by blast
qed

definition sim_set_request :: ZfClientPinRequest where
  "sim_set_request = cp_cleared\<lparr>cp_pin_protocol := 1, cp_has_pin_protocol := True,
    cp_subcommand := 3, cp_has_subcommand := True, cp_has_key_agreement := True,
    cp_new_pin_enc := [2, 1, 0, 7] @ replicate 60 0x33, cp_has_new_pin_enc := True,
    cp_pin_auth := take 16 (zf_hmac_sha256_parts (zf_crypto_sha256 (replicate 32 9))
      ([2, 1, 0, 7] @ replicate 60 0x33) []), cp_has_pin_auth := True\<rparr>"

lemma sim_decrypt_new_pin:
  "zf_pin_protocol_decrypt sim_hal 1 keys ([2, 1, 0, 7] @ replicate 60 0x33) w =
    (Some ([49, 50, 51, 52] @ replicate 60 0), w)"
proof -
  have "zf_aes_bswap_words (sim_xor 0x33 (zf_aes_bswap_words ([2, 1, 0, 7] @ replicate 60 0x33))) =
      [49, 50, 51, 52] @ replicate 60 0"
    by code_simp
  then show ?thesis
    by (simp del: zf_aes_bswap_words.simps add: zf_pin_protocol_decrypt_def
        ZF_PIN_PROTOCOL_V1_def zf_aes256_cbc_zero_iv_decrypt_def zf_aes256_cbc_decrypt_def
        zf_aes256_cbc_crypt_def Let_def)
qed

lemma sim_apply_plaintext:
  assumes "\<not> pin_set s"
  shows "\<exists>s' w'. zf_pin_apply_plaintext sim_hal s [49, 50, 51, 52] True w = (ZF_CTAP_SUCCESS, s', w')"
proof -
  have "zf_pin_validate_plaintext_policy [49, 50, 51, 52] = ZF_CTAP_SUCCESS" by code_simp
  moreover have "fst (zf_pin_persist_state sim_hal s v)" for s v
    using sim_persist [of s v] by (auto simp: zf_pin_persist_state_def)
  ultimately show ?thesis using assms by (simp add: zf_pin_apply_plaintext_def Let_def split: prod.split)
qed

theorem set_pin_policy_witness:
  "\<exists>s' w'. zf_client_pin_handle_set_pin sim_hal (sim_keyed\<lparr>pin_set := False\<rparr>) sim_set_request Map.empty =
      (ZF_CTAP_SUCCESS, s', w') \<and> pin_set s'"
proof -
  let ?s = "sim_keyed\<lparr>pin_set := False\<rparr>"
  have derive: "zf_pin_protocol_derive_keys sim_hal ?s 1 x y w =
    (Some (zf_crypto_sha256 (replicate 32 9), zf_crypto_sha256 (replicate 32 9)), w)" for x y w
    by (rule sim_derive) simp
  have block: "zf_pin_validate_plaintext_block ([49, 50, 51, 52] @ replicate 60 0) = Some 4"
    unfolding plaintext_block_iff
    by (intro exI [of _ "[49, 50, 51, 52]"] exI [of _ 59]) simp
  obtain s' w' where apply': "zf_pin_apply_plaintext sim_hal ?s [49, 50, 51, 52] True Map.empty =
      (ZF_CTAP_SUCCESS, s', w')"
    using sim_apply_plaintext [of ?s Map.empty] by auto
  have r: "zf_client_pin_handle_set_pin sim_hal ?s sim_set_request Map.empty = (ZF_CTAP_SUCCESS, s', w')"
    using derive block apply' sim_decrypt_new_pin
    by (simp add: zf_client_pin_handle_set_pin_def sim_set_request_def cp_cleared_def
        zf_pin_protocol_supported_def ZF_PIN_PROTOCOL_V1_def ZF_PIN_PROTOCOL_V2_def
        zf_client_pin_new_pin_ciphertext_len_is_valid_def zf_pin_new_pin_enc_length_is_valid_def
        ZF_PIN_NEW_PIN_BLOCK_MAX_LEN_def zf_pin_protocol_hmac_matches_def zf_pin_protocol_auth_len_def
        ZF_PIN_AUTH_LEN_def zf_client_pin_decrypt_new_pin_def)
  show ?thesis using r set_pin_policy [OF r] by blast
qed

text \<open>
  C40. When another owner takes the maintenance gate while the token handler waits for consent, the
  handler refuses to issue a token, but it keeps the copy of the PIN state that it took before the wait:
  what the dispatcher publishes afterwards is the old state, whatever the other owner made of it.
\<close>

theorem consent_conflict_publishes_snapshot:
  assumes "app_maintenance_busy app"
    and "zerofido_ui_request_approval b hal wait (app\<lparr>app_pin_state := s, app_maintenance_busy := False\<rparr>)
      ZfUiProtocolFido2 (ascii ''Authorize'')
      (if cp_has_rp_id req then cp_rp_id req else ascii ''PIN token'') (ascii ''Approve PIN use'') sid w =
      (r, app1, w1)"
    and "app_maintenance_busy app1"
    and "zf_client_pin_request_permission_token_consent b hal wait app s req h sid w = (st, s', app', w')"
  shows "st \<noteq> ZF_CTAP_SUCCESS \<and> s' = s \<and> app' = app1 \<and>
    app_pin_state (zf_pin_publish_state app' s') = s"
  using assms
  by (auto simp: zf_client_pin_request_permission_token_consent_def Let_def zf_pin_publish_state_def
      zf_client_pin_status_from_interaction_state_def
      split: prod.split_asm if_split_asm ZfApprovalState.split_asm)

text \<open>Another thread that clears the PIN and takes the gate while the prompt is open.\<close>

definition sim_rival :: "(unit, sim) waiting" where
  "sim_rival sid app w = (True, (snd (zerofido_ui_deny_pending_interaction app))
    \<lparr>app_pin_state := zero_pin_state, app_maintenance_busy := True\<rparr>, w)"

theorem consent_conflict_publishes_snapshot_witness:
  "\<exists>st s' app' w'. zf_client_pin_request_permission_token_consent sim_build sim_hal sim_rival
      (sim_app\<lparr>app_maintenance_busy := True\<rparr>) sim_keyed sim_token_request (replicate 16 1) 1 Map.empty =
      (st, s', app', w') \<and>
    \<not> pin_set (app_pin_state app') \<and> pin_set (app_pin_state (zf_pin_publish_state app' s'))"
proof -
  let ?app = "sim_app\<lparr>app_maintenance_busy := True\<rparr>"
  let ?req = "zerofido_ui_request_approval sim_build sim_hal sim_rival
      (?app\<lparr>app_pin_state := sim_keyed, app_maintenance_busy := False\<rparr>)
      ZfUiProtocolFido2 (ascii ''Authorize'')
      (if cp_has_rp_id sim_token_request then cp_rp_id sim_token_request else ascii ''PIN token'')
      (ascii ''Approve PIN use'') 1 Map.empty"
  obtain r app1 w1 where req: "?req = (r, app1, w1)" by (metis prod_cases3)
  have rival: "app_maintenance_busy app1" "\<not> pin_set (app_pin_state app1)"
    using req
    by (auto simp: zerofido_ui_request_approval_def zerofido_ui_wait_for_interaction_result_def Let_def
        sim_rival_def sim_app_def sim_build_def zero_pin_state_def)
  obtain st s' app' w' where c: "zf_client_pin_request_permission_token_consent sim_build sim_hal
      sim_rival ?app sim_keyed sim_token_request (replicate 16 1) 1 Map.empty = (st, s', app', w')"
    by (metis prod_cases4)
  from consent_conflict_publishes_snapshot [OF _ req rival(1) c] c rival(2) show ?thesis
    by (simp add: sim_keyed_def zf_pin_publish_state_def)
qed

section \<open>Configuration and prompts\<close>

text \<open>
  The runtime configuration survives a restart: what a successful persist wrote is what the next
  load returns, with the profile, the attestation mode and the automatic approval cut down to what the
  build supports.
\<close>

theorem config_survives:
  assumes "storage_lawful hal content" "\<forall>p w. fst (fs_read hal p w) = content w p"
    and "zf_runtime_config_persist b hal config w = (True, w')"
    and "zf_transport_mode_is_valid b (transport_mode_byte (rc_transport_mode config))"
  shows "fst (zf_runtime_config_load b hal w') = config_for_build b config"
  using config_roundtrip [OF assms(1) _ assms(3,4)] assms(2) by blast

theorem config_survives_witness:
  "\<exists>w'. zf_runtime_config_persist sim_build sim_hal (sim_config\<lparr>rc_transport_mode := ZfTransportModeNfc\<rparr>)
      Map.empty = (True, w') \<and>
    rc_transport_mode (fst (zf_runtime_config_load sim_build sim_hal w')) = ZfTransportModeNfc"
proof -
  let ?c = "sim_config\<lparr>rc_transport_mode := ZfTransportModeNfc\<rparr>"
  obtain b where b: "zf_storage_backup_path ZF_RUNTIME_CONFIG_FILE_PATH = Some b"
    "distinct [ZF_RUNTIME_CONFIG_FILE_PATH, ZF_RUNTIME_CONFIG_FILE_TEMP_PATH, b]"
    using config_file.paths by blast
  have "runtime_config_record v f t p a \<noteq> []" for v f t p a
    by (simp add: runtime_config_record_def)
  from sim_write_atomic [OF this b] obtain w' where
    w': "zf_runtime_config_persist sim_build sim_hal ?c Map.empty = (True, w')"
    unfolding zf_runtime_config_persist_def Let_def by (simp, meson)
  have "zf_transport_mode_is_valid sim_build (transport_mode_byte (rc_transport_mode ?c))"
    by (simp add: zf_transport_mode_is_valid_def transport_mode_byte_def sim_build_def)
  from config_survives [OF sim_storage_lawful _ w' this] w' show ?thesis
    by (simp add: config_for_build_def)
qed

text \<open>
  C37. CTAP 2.1 and all that comes with it (the selection command, tokens with permissions, the second
  PIN protocol, the consent prompt for tokens, makeCredential without user verification) is switched by
  one gate: available only in developer builds, only when the user chose the profile, and only while a
  PIN is set at the time the capabilities are resolved; and exactly one transport is enabled.
\<close>

theorem capabilities_gate_2_1:
  assumes "app' = zf_runtime_config_apply b app config"
  shows "(advertise_fido_2_1 (app_capabilities app') \<longrightarrow> ZF_DEV_FIDO2_1 b \<and>
      pin_set (app_pin_state app') \<and> rc_fido2_profile config = ZfFido2ProfileCtap2_1Experimental) \<and>
    (\<forall>gated \<in> {selection_enabled, pin_uv_auth_token_enabled, pin_uv_auth_protocol_2_enabled,
        client_pin_token_requires_consent, make_cred_uv_not_required}.
      gated (app_capabilities app') \<longleftrightarrow> advertise_fido_2_1 (app_capabilities app')) \<and>
    (zf_runtime_ctap_command_enabled b app' ZfCtapeCmdSelection \<longleftrightarrow>
      advertise_fido_2_1 (app_capabilities app')) \<and>
    (usb_hid_enabled (app_capabilities app') \<longleftrightarrow> \<not> nfc_enabled (app_capabilities app'))"
proof -
  let ?c = "config\<lparr>rc_auto_accept_requests :=
      ZF_AUTO_ACCEPT_REQUESTS b \<and> rc_auto_accept_requests config,
     rc_fido2_profile := zf_fido2_profile_for_build b (rc_fido2_profile config),
     rc_attestation_mode := zf_attestation_mode_for_build b (rc_attestation_mode config)\<rparr>"
  have app': "app' = zf_runtime_config_resolve_app_capabilities b (app\<lparr>app_runtime_config := ?c\<rparr>) ?c"
    using assms by (simp add: zf_runtime_config_apply_def Let_def)
  have caps: "app_capabilities_resolved app'"
    "\<exists>c. app_capabilities app' = zf_runtime_config_resolve_capabilities b c"
    unfolding app' by (auto simp: zf_runtime_config_resolve_app_capabilities_def Let_def)
  then obtain c where c: "app_capabilities app' = zf_runtime_config_resolve_capabilities b c" by blast
  have gates: "\<forall>gated \<in> {selection_enabled, pin_uv_auth_token_enabled, pin_uv_auth_protocol_2_enabled,
        client_pin_token_requires_consent, make_cred_uv_not_required}.
      gated (app_capabilities app') \<longleftrightarrow> advertise_fido_2_1 (app_capabilities app')"
    unfolding c by (simp add: zf_runtime_config_resolve_capabilities_def Let_def)
  have pin: "app_pin_state app' = app_pin_state app" unfolding app' by simp
  show ?thesis
    using advertised_2_1 [OF app'] caps(1) gates capabilities_one_transport [of b c] c pin
    by (auto simp: zf_runtime_ctap_command_enabled_def Let_def zf_runtime_get_effective_capabilities_def
        ZfCtapeCmdSelection_def ZfCtapeCmdGetInfo_def ZfCtapeCmdMakeCredential_def
        ZfCtapeCmdGetAssertion_def ZfCtapeCmdReset_def ZfCtapeCmdGetNextAssertion_def
        ZfCtapeCmdClientPin_def zf_fido2_profile_for_build_def)
qed

theorem capabilities_gate_2_1_witness:
  "advertise_fido_2_1 (app_capabilities (zf_runtime_config_apply sim_build sim_app
      (sim_config\<lparr>rc_fido2_profile := ZfFido2ProfileCtap2_1Experimental\<rparr>))) \<and>
   zf_runtime_ctap_command_enabled sim_build (zf_runtime_config_apply sim_build sim_app
      (sim_config\<lparr>rc_fido2_profile := ZfFido2ProfileCtap2_1Experimental\<rparr>)) ZfCtapeCmdSelection"
proof -
  let ?a = "zf_runtime_config_apply sim_build sim_app
      (sim_config\<lparr>rc_fido2_profile := ZfFido2ProfileCtap2_1Experimental\<rparr>)"
  have "advertise_fido_2_1 (app_capabilities ?a)"
    by (simp add: zf_runtime_config_apply_def zf_runtime_config_resolve_app_capabilities_def Let_def
        zf_runtime_config_resolve_capabilities_def zf_fido2_profile_for_build_def sim_build_def
        sim_app_def)
  then show ?thesis using capabilities_gate_2_1 [OF refl] by blast
qed

text \<open>
  C36. A prompt is decided once. Whatever events of the dialog, the clock, the host and the view are
  delivered while a request waits, in any order and number, the first one that decides settles the
  prompt and the rest change nothing: the request is approved exactly when that event is the press of
  the approving button, and the waiting thread is woken exactly once.
\<close>

theorem approval_first_event_wins:
  assumes "app_ui_events_enabled app" "app_running app" "\<not> app_maintenance_busy app"
    "\<not> app_transport_auto_accept_transaction app" "\<not> ZF_AUTO_ACCEPT_REQUESTS b"
    and "decision (furi_get_tick hal w + ZF_APPROVAL_TIMEOUT_MS) es \<noteq> ZfApprovalPending"
  shows "\<exists>app'. zerofido_ui_request_approval b hal (\<lambda>sid app w. (True, ui_run es app, w)) app pr op t u sid w =
      ((True, decision (furi_get_tick hal w + ZF_APPROVAL_TIMEOUT_MS) es = ZfApprovalApproved), app', w) \<and>
    zerofido_ui_get_interaction_state app' = decision (furi_get_tick hal w + ZF_APPROVAL_TIMEOUT_MS) es \<and>
    ap_done (app_approval app') = 1"
proof -
  let ?app = "zerofido_ui_clear_interaction_signal (zerofido_ui_prepare_interaction_locked hal app
      ZfInteractionKindApproval pr op t u w)"
  let ?d = "decision (furi_get_tick hal w + ZF_APPROVAL_TIMEOUT_MS) es"
  have run: "ap_state (app_approval (ui_run es ?app)) = ?d" "ap_done (app_approval (ui_run es ?app)) = 1"
    using first_event_decides [of ?app es] assms(6) by simp_all
  have "?d \<noteq> ZfApprovalIdle"
    by (induction es) (auto simp: decides_not_idle split: option.split)
  then have "?d \<in> {ZfApprovalApproved, ZfApprovalDenied, ZfApprovalCanceled, ZfApprovalTimedOut}"
    using assms(6) by (cases ?d) auto
  then show ?thesis
    using assms(1-5) run
    by (simp add: zerofido_ui_request_approval_def zerofido_ui_wait_for_interaction_result_def Let_def
        zerofido_ui_get_interaction_state_def)
qed

theorem approval_first_event_wins_witness:
  "\<exists>app'. zerofido_ui_request_approval
      (sim_build\<lparr>ZF_AUTO_ACCEPT_REQUESTS := False\<rparr>) sim_hal
      (\<lambda>sid app w. (True, ui_run [HideEvent, Tick 2000, DialogResult True, CancelPending] app, w))
      sim_app ZfUiProtocolFido2 [] [] [] 1 Map.empty = ((True, True), app', Map.empty)"
proof -
  let ?es = "[HideEvent, Tick 2000, DialogResult True, CancelPending]"
  have d: "decision (furi_get_tick sim_hal Map.empty + ZF_APPROVAL_TIMEOUT_MS) ?es = ZfApprovalApproved"
    by (simp add: ZF_APPROVAL_TIMEOUT_MS_def)
  from approval_first_event_wins [of sim_app "sim_build\<lparr>ZF_AUTO_ACCEPT_REQUESTS := False\<rparr>" sim_hal
      Map.empty ?es ZfUiProtocolFido2 "[]" "[]" "[]" 1]
  show ?thesis unfolding d by (auto simp: sim_app_def)
qed

end
