(* ===== verification/U2f_Apdu.thy ===== *)
theory U2f_Apdu
  imports Ctap_Parse_Exact
begin

text \<open>
  \<^verbatim>\<open>u2f/apdu.c\<close>, \<^verbatim>\<open>u2f/status.h\<close> and the constants of \<^verbatim>\<open>u2f/common.h\<close>: the envelope of the legacy
  U2F commands. A request is the byte string of its declared length. The second half specifies the
  accepted requests by the encodings of an APDU and proves the validator exact.
\<close>

definition U2F_CMD_REGISTER :: byte where "U2F_CMD_REGISTER = 0x01"
definition U2F_CMD_AUTHENTICATE :: byte where "U2F_CMD_AUTHENTICATE = 0x02"
definition U2F_CMD_VERSION :: byte where "U2F_CMD_VERSION = 0x03"

definition U2fCheckOnly :: byte where "U2fCheckOnly = 0x07"
definition U2fEnforce :: byte where "U2fEnforce = 0x03"
definition U2fDontEnforce :: byte where "U2fDontEnforce = 0x08"

definition U2F_CHALLENGE_SIZE :: nat where "U2F_CHALLENGE_SIZE = 32"
definition U2F_APP_ID_SIZE :: nat where "U2F_APP_ID_SIZE = 32"
definition U2F_HASH_SIZE :: nat where "U2F_HASH_SIZE = 32"
definition U2F_NONCE_SIZE :: nat where "U2F_NONCE_SIZE = 32"

definition ZF_U2F_SW_NO_ERROR :: u16 where "ZF_U2F_SW_NO_ERROR = 0x9000"
definition ZF_U2F_SW_WRONG_LENGTH :: u16 where "ZF_U2F_SW_WRONG_LENGTH = 0x6700"
definition ZF_U2F_SW_CONDITIONS_NOT_SATISFIED :: u16 where "ZF_U2F_SW_CONDITIONS_NOT_SATISFIED = 0x6985"
definition ZF_U2F_SW_WRONG_DATA :: u16 where "ZF_U2F_SW_WRONG_DATA = 0x6A80"
definition ZF_U2F_SW_INS_NOT_SUPPORTED :: u16 where "ZF_U2F_SW_INS_NOT_SUPPORTED = 0x6D00"
definition ZF_U2F_SW_CLA_NOT_SUPPORTED :: u16 where "ZF_U2F_SW_CLA_NOT_SUPPORTED = 0x6E00"

lemmas u2f_consts = U2F_CMD_REGISTER_def U2F_CMD_AUTHENTICATE_def U2F_CMD_VERSION_def
  U2fCheckOnly_def U2fEnforce_def U2fDontEnforce_def U2F_CHALLENGE_SIZE_def U2F_APP_ID_SIZE_def
  U2F_HASH_SIZE_def U2F_NONCE_SIZE_def

lemmas u2f_status_words = ZF_U2F_SW_NO_ERROR_def ZF_U2F_SW_WRONG_LENGTH_def
  ZF_U2F_SW_CONDITIONS_NOT_SATISFIED_def ZF_U2F_SW_WRONG_DATA_def ZF_U2F_SW_INS_NOT_SUPPORTED_def
  ZF_U2F_SW_CLA_NOT_SUPPORTED_def

text \<open>The two bytes written to the start of a response.\<close>

definition zf_u2f_write_status :: "u16 \<Rightarrow> bytes" where
  "zf_u2f_write_status status = [ucast (drop_bit 8 status), ucast status]"

text \<open>\<open>apdu_data\<close> is what the pointer into the request sees; \<open>None\<close> is the null pointer.\<close>

record U2fParsedApdu =
  apdu_cla :: byte
  apdu_ins :: byte
  apdu_p1 :: byte
  apdu_p2 :: byte
  apdu_data :: "bytes option"
  apdu_lc :: nat

text \<open>
  A four-byte request that is not a short one reaches the read of \<open>buf[4]\<close> behind its end; whatever
  that byte is, neither \<open>4 = 5 + lc\<close> nor \<open>4 = 6 + lc\<close> holds and the parse fails.
\<close>

definition u2f_parse_apdu_header :: "bytes \<Rightarrow> bool \<Rightarrow> U2fParsedApdu option" where
  "u2f_parse_apdu_header buf allow_short =
    (let len = length buf in
     if len < 4 then None
     else
       let apdu = \<lparr>apdu_cla = buf ! 0, apdu_ins = buf ! 1, apdu_p1 = buf ! 2, apdu_p2 = buf ! 3,
                   apdu_data = None, apdu_lc = 0\<rparr>
       in if allow_short \<and> len = 5 then Some apdu
          else if len \<ge> 7 \<and> buf ! 4 = 0x00 then
            let lc = unat (be_value [buf ! 5, buf ! 6] :: u32)
            in if len \<noteq> 7 + lc \<and> len \<noteq> 9 + lc then None
               else Some (apdu\<lparr>apdu_data := Some (drop 7 buf), apdu_lc := lc\<rparr>)
          else if len = 4 then None
          else
            let lc = unat (buf ! 4)
            in if len \<noteq> 5 + lc \<and> len \<noteq> 6 + lc then None
               else Some (apdu\<lparr>apdu_data := Some (drop 5 buf), apdu_lc := lc\<rparr>))"

definition u2f_validate_apdu_status :: "bytes \<Rightarrow> byte \<Rightarrow> nat \<Rightarrow> bool \<Rightarrow> u16" where
  "u2f_validate_apdu_status buf ins expected_lc allow_short =
    (case u2f_parse_apdu_header buf allow_short of
       None \<Rightarrow> ZF_U2F_SW_WRONG_LENGTH
     | Some apdu \<Rightarrow>
        if apdu_cla apdu \<noteq> 0x00 then ZF_U2F_SW_CLA_NOT_SUPPORTED
        else if apdu_ins apdu \<noteq> ins then ZF_U2F_SW_INS_NOT_SUPPORTED
        else if apdu_lc apdu \<noteq> expected_lc then ZF_U2F_SW_WRONG_LENGTH
        else 0)"

definition u2f_validate_request_status :: "bytes \<Rightarrow> u16" where
  "u2f_validate_request_status buf =
    (let request_len = length buf in
     if request_len < 4 then ZF_U2F_SW_WRONG_LENGTH
     else if buf ! 0 \<noteq> 0x00 then ZF_U2F_SW_CLA_NOT_SUPPORTED
     else if buf ! 1 = U2F_CMD_VERSION then
       if request_len = 4 then 0 else u2f_validate_apdu_status buf U2F_CMD_VERSION 0 True
     else if request_len < 5 then ZF_U2F_SW_WRONG_LENGTH
     else if request_len < 7 then ZF_U2F_SW_WRONG_LENGTH
     else if buf ! 1 = U2F_CMD_REGISTER then
       u2f_validate_apdu_status buf U2F_CMD_REGISTER (U2F_CHALLENGE_SIZE + U2F_APP_ID_SIZE) False
     else if buf ! 1 = U2F_CMD_AUTHENTICATE then
       (case u2f_parse_apdu_header buf False of
          None \<Rightarrow> ZF_U2F_SW_WRONG_LENGTH
        | Some apdu \<Rightarrow>
           if apdu_p1 apdu \<noteq> U2fCheckOnly \<and> apdu_p1 apdu \<noteq> U2fEnforce \<and>
              apdu_p1 apdu \<noteq> U2fDontEnforce then ZF_U2F_SW_WRONG_DATA
           else if apdu_lc apdu < U2F_CHALLENGE_SIZE + U2F_APP_ID_SIZE + 1
           then ZF_U2F_SW_WRONG_LENGTH
           else (case apdu_data apdu of
               None \<Rightarrow> ZF_U2F_SW_WRONG_LENGTH
             | Some data \<Rightarrow>
                let key_handle_len = unat (data ! (U2F_CHALLENGE_SIZE + U2F_APP_ID_SIZE))
                in if apdu_lc apdu \<noteq> U2F_CHALLENGE_SIZE + U2F_APP_ID_SIZE + 1 + key_handle_len
                   then ZF_U2F_SW_WRONG_LENGTH else 0))
     else ZF_U2F_SW_INS_NOT_SUPPORTED)"

text \<open>The status written over the request, or \<open>None\<close> when the request is accepted.\<close>

definition u2f_validate_request :: "bytes \<Rightarrow> bytes option" where
  "u2f_validate_request buf =
    (let status = u2f_validate_request_status buf
     in if status \<noteq> 0 then Some (zf_u2f_write_status status) else None)"

text \<open>With no request buffer, or no room for a status, nothing is validated.\<close>

definition u2f_validate_request_into_response :: "bytes option \<Rightarrow> nat \<Rightarrow> bytes option" where
  "u2f_validate_request_into_response request response_capacity =
    (case request of
       None \<Rightarrow> None
     | Some request \<Rightarrow>
        if response_capacity < 2 then None
        else let status = u2f_validate_request_status request
             in if status \<noteq> 0 then Some (zf_u2f_write_status status) else None)"

text \<open>The operation shown to the user when the request needs a touch.\<close>

definition u2f_request_needs_user_presence :: "bytes \<Rightarrow> bytes option" where
  "u2f_request_needs_user_presence buf =
    (if length buf < 2 then None
     else if buf ! 1 = U2F_CMD_REGISTER then Some (ascii ''Register'')
     else if buf ! 1 = U2F_CMD_AUTHENTICATE then
       if length buf < 3 then None
       else if buf ! 2 \<noteq> U2fEnforce then None
       else Some (ascii ''Authenticate'')
     else None)"

section \<open>Encodings of an APDU\<close>

text \<open>
  ISO 7816: a four-byte header, then a one-byte length, the data and an optional one-byte response
  length, or a zero, a two-byte length, the data and an optional two-byte response length.
\<close>

definition apdu_short :: "bytes \<Rightarrow> bytes \<Rightarrow> bytes \<Rightarrow> bool" where
  "apdu_short hdr d buf \<longleftrightarrow>
    (\<exists>le. length le \<le> 1 \<and> length d < 256 \<and> buf = hdr @ word_of_nat (length d) # d @ le)"

definition apdu_extended :: "bytes \<Rightarrow> bytes \<Rightarrow> bytes \<Rightarrow> bool" where
  "apdu_extended hdr d buf \<longleftrightarrow>
    (\<exists>le. (length le = 0 \<or> length le = 2) \<and> length d < 65536 \<and>
      buf = hdr @ 0 # be_bytes 2 (word_of_nat (length d) :: u32) @ d @ le)"

definition apdu_encodes :: "bytes \<Rightarrow> bytes \<Rightarrow> bytes \<Rightarrow> bool" where
  "apdu_encodes hdr d buf \<longleftrightarrow> apdu_short hdr d buf \<or> apdu_extended hdr d buf"

definition u2f_request_ok :: "bytes \<Rightarrow> bool" where
  "u2f_request_ok buf \<longleftrightarrow>
    (\<exists>p1 p2.
      buf = [0, U2F_CMD_VERSION, p1, p2] \<or>
      (\<exists>le. buf = [0, U2F_CMD_VERSION, p1, p2, le]) \<or>
      apdu_encodes [0, U2F_CMD_VERSION, p1, p2] [] buf \<or>
      (\<exists>challenge app_id. length challenge = 32 \<and> length app_id = 32 \<and>
        apdu_encodes [0, U2F_CMD_REGISTER, p1, p2] (challenge @ app_id) buf) \<or>
      (\<exists>challenge app_id key_handle. length challenge = 32 \<and> length app_id = 32 \<and>
        length key_handle < 256 \<and> p1 \<in> {U2fCheckOnly, U2fEnforce, U2fDontEnforce} \<and>
        apdu_encodes [0, U2F_CMD_AUTHENTICATE, p1, p2]
          (challenge @ app_id @ word_of_nat (length key_handle) # key_handle) buf))"

lemma be_value_be_bytes_2: "n < 65536 \<Longrightarrow> unat (be_value (be_bytes 2 (word_of_nat n :: u32)) :: u32) = n"
  by (simp add: be_value_be_bytes unsigned_take_bit_eq unat_of_nat take_bit_nat_eq_self)

lemma be_bytes_2: "be_bytes 2 (v :: u32) = [ucast (drop_bit 8 v), ucast v]"
  by (simp add: numeral_2_eq_2)

lemma be_value_2_less: "unat (be_value [a, b] :: u32) < 65536"
  using be_value_less [of "[a, b]", where ?'a = 32] by simp

lemma be_bytes_be_value_2: "be_bytes 2 (be_value [a, b] :: u32) = [a, b]"
  using be_bytes_be_value [of "[a, b]", where ?'a = 32] by (simp add: numeral_2_eq_2)

text \<open>What the header parser accepts, with the data cut to the declared length.\<close>

lemma parse_apdu_encoded:
  assumes "length hdr = 4" and "apdu_encodes hdr d buf" and "length buf \<noteq> 5 \<or> \<not> allow_short"
  shows "\<exists>rest. u2f_parse_apdu_header buf allow_short =
    Some \<lparr>apdu_cla = hdr ! 0, apdu_ins = hdr ! 1, apdu_p1 = hdr ! 2, apdu_p2 = hdr ! 3,
      apdu_data = Some (d @ rest), apdu_lc = length d\<rparr>"
  using assms(2) unfolding apdu_encodes_def
proof
  assume "apdu_short hdr d buf"
  then obtain le where le: "length le \<le> 1" "length d < 256" "buf = hdr @ word_of_nat (length d) # d @ le"
    by (auto simp: apdu_short_def)
  have nz: "length buf \<ge> 7 \<Longrightarrow> buf ! 4 \<noteq> 0"
  proof
    assume "7 \<le> length buf" "buf ! 4 = 0"
    then have "word_of_nat (length d) = (0 :: byte)" "d \<noteq> []" using assms(1) le by (auto simp: nth_append)
    with le(2) show False using unat_of_nat_byte [of "length d"] by simp
  qed
  then have cond: "\<not> (7 \<le> length buf \<and> buf ! 4 = 0)" by blast
  have b: "buf ! 0 = hdr ! 0" "buf ! 1 = hdr ! 1" "buf ! 2 = hdr ! 2" "buf ! 3 = hdr ! 3"
    "unat (buf ! 4) = length d" "drop 5 buf = d @ le" "length buf = 5 + length d + length le"
    using le assms(1) by (simp_all add: nth_append unat_of_nat_byte)
  then have "length buf = 5 + length d \<or> length buf = 6 + length d" using le(1) by linarith
  with b cond assms(3) show ?thesis
    by (intro exI [of _ le]) (auto simp: u2f_parse_apdu_header_def Let_def)
next
  assume "apdu_extended hdr d buf"
  then obtain le where le: "length le = 0 \<or> length le = 2" "length d < 65536"
    "buf = hdr @ 0 # be_bytes 2 (word_of_nat (length d) :: u32) @ d @ le"
    by (auto simp: apdu_extended_def)
  have lc: "unat (be_value [buf ! 5, buf ! 6] :: u32) = length d"
    using be_value_be_bytes_2 [OF le(2)] le(3) assms(1) by (simp add: be_bytes_2 nth_append)
  have b: "buf ! 0 = hdr ! 0" "buf ! 1 = hdr ! 1" "buf ! 2 = hdr ! 2" "buf ! 3 = hdr ! 3"
    "buf ! 4 = 0" "drop 7 buf = d @ le" "length buf = 7 + length d + length le"
    using le(3) assms(1) by (simp_all add: nth_append be_bytes_2)
  then have "length buf = 7 + length d \<or> length buf = 9 + length d" "7 \<le> length buf"
    using le(1) by linarith+
  with b lc assms(3) show ?thesis
    by (intro exI [of _ le]) (auto simp: u2f_parse_apdu_header_def Let_def)
qed

lemma header_split:
  assumes "5 \<le> length (buf :: bytes)"
  shows "buf = [buf ! 0, buf ! 1, buf ! 2, buf ! 3] @ buf ! 4 # drop 5 buf"
proof -
  have "buf \<noteq> []" using assms by auto
  then show ?thesis
    using assms Cons_nth_drop_Suc [of 0 buf] Cons_nth_drop_Suc [of 1 buf] Cons_nth_drop_Suc [of 2 buf]
      Cons_nth_drop_Suc [of 3 buf] Cons_nth_drop_Suc [of 4 buf] by (simp add: numeral_eq_Suc)
qed

lemma parse_apdu_sound:
  assumes "u2f_parse_apdu_header buf allow_short = Some a" and "length buf \<noteq> 5 \<or> \<not> allow_short"
  shows "\<exists>d rest. length d = apdu_lc a \<and> apdu_data a = Some (d @ rest) \<and>
    apdu_encodes [buf ! 0, buf ! 1, buf ! 2, buf ! 3] d buf \<and>
    apdu_cla a = buf ! 0 \<and> apdu_ins a = buf ! 1 \<and> apdu_p1 a = buf ! 2 \<and> apdu_p2 a = buf ! 3"
proof (cases "length buf \<ge> 7 \<and> buf ! 4 = 0")
  case True
  let ?lc = "unat (be_value [buf ! 5, buf ! 6] :: u32)"
  let ?d = "take ?lc (drop 7 buf)" and ?rest = "drop ?lc (drop 7 buf)"
  have a: "length buf = 7 + ?lc \<or> length buf = 9 + ?lc" "apdu_data a = Some (drop 7 buf)"
    "apdu_lc a = ?lc" "apdu_cla a = buf ! 0 \<and> apdu_ins a = buf ! 1 \<and> apdu_p1 a = buf ! 2 \<and> apdu_p2 a = buf ! 3"
    using assms True by (auto simp: u2f_parse_apdu_header_def Let_def split: if_split_asm)
  have "be_bytes 2 (word_of_nat ?lc :: u32) = [buf ! 5, buf ! 6]"
    by (simp add: be_bytes_be_value_2)
  moreover have "buf = [buf ! 0, buf ! 1, buf ! 2, buf ! 3] @ 0 # [buf ! 5, buf ! 6] @ ?d @ ?rest"
    unfolding append_take_drop_id
    using header_split [of buf] True Cons_nth_drop_Suc [of 5 buf] Cons_nth_drop_Suc [of 6 buf] by simp
  ultimately have "apdu_extended [buf ! 0, buf ! 1, buf ! 2, buf ! 3] ?d buf"
    unfolding apdu_extended_def using a(1) be_value_2_less [of "buf ! 5" "buf ! 6"]
    by (intro exI [of _ ?rest]) auto
  with a show ?thesis
    by - (rule exI [of _ ?d], rule exI [of _ ?rest], auto simp: apdu_encodes_def simp del: drop_drop)
next
  case False
  let ?lc = "unat (buf ! 4)"
  let ?d = "take ?lc (drop 5 buf)" and ?rest = "drop ?lc (drop 5 buf)"
  have a: "length buf = 5 + ?lc \<or> length buf = 6 + ?lc" "apdu_data a = Some (drop 5 buf)"
    "apdu_lc a = ?lc" "apdu_cla a = buf ! 0 \<and> apdu_ins a = buf ! 1 \<and> apdu_p1 a = buf ! 2 \<and> apdu_p2 a = buf ! 3"
    using assms False by (auto simp: u2f_parse_apdu_header_def Let_def split: if_split_asm)
  then have "apdu_short [buf ! 0, buf ! 1, buf ! 2, buf ! 3] ?d buf"
    unfolding apdu_short_def using header_split [of buf]
    by (intro exI [of _ ?rest]) (auto simp del: drop_drop)
  with a show ?thesis
    by - (rule exI [of _ ?d], rule exI [of _ ?rest], auto simp: apdu_encodes_def simp del: drop_drop)
qed

section \<open>The validator accepts exactly the U2F requests\<close>

lemma status_words_nonzero [simp]:
  "ZF_U2F_SW_WRONG_LENGTH \<noteq> 0" "ZF_U2F_SW_WRONG_DATA \<noteq> 0" "ZF_U2F_SW_INS_NOT_SUPPORTED \<noteq> 0"
  "ZF_U2F_SW_CLA_NOT_SUPPORTED \<noteq> 0" "ZF_U2F_SW_CONDITIONS_NOT_SATISFIED \<noteq> 0"
  by (simp_all add: u2f_status_words)

lemma apdu_encodes_length: "length hdr = 4 \<Longrightarrow> apdu_encodes hdr d buf \<Longrightarrow> 5 + length d \<le> length buf"
  by (auto simp: apdu_encodes_def apdu_short_def apdu_extended_def)

lemma apdu_encodes_header:
  "apdu_encodes [a, b, c, d] x buf \<Longrightarrow> buf ! 0 = a \<and> buf ! 1 = b \<and> buf ! 2 = c \<and> buf ! 3 = d"
  by (auto simp: apdu_encodes_def apdu_short_def apdu_extended_def)

lemma ok_imp_accepted: "u2f_request_ok buf \<Longrightarrow> u2f_validate_request_status buf = 0"
  unfolding u2f_request_ok_def
proof (elim exE disjE conjE)
  fix p1 p2
  assume enc: "apdu_encodes [0, U2F_CMD_VERSION, p1, p2] [] buf"
  show ?thesis
  proof (cases "length buf = 5")
    case True
    with apdu_encodes_header [OF enc] show ?thesis
      by (simp add: u2f_validate_request_status_def u2f_validate_apdu_status_def
          u2f_parse_apdu_header_def Let_def)
  next
    case False
    with parse_apdu_encoded [OF _ enc, of True] apdu_encodes_header [OF enc]
      apdu_encodes_length [OF _ enc] show ?thesis
      by (auto simp: u2f_validate_request_status_def u2f_validate_apdu_status_def Let_def)
  qed
next
  fix p1 p2 challenge app_id :: bytes
  fix q1 q2
  assume enc: "apdu_encodes [0, U2F_CMD_REGISTER, q1, q2] (challenge @ app_id) buf"
    and "length challenge = 32" "length app_id = 32"
  with parse_apdu_encoded [OF _ enc, of False] apdu_encodes_header [OF enc]
    apdu_encodes_length [OF _ enc] show ?thesis
    by (auto simp: u2f_validate_request_status_def u2f_validate_apdu_status_def Let_def u2f_consts)
next
  fix p1 p2 challenge app_id key_handle
  let ?d = "challenge @ app_id @ (word_of_nat (length (key_handle :: bytes)) :: byte) # key_handle"
  assume enc: "apdu_encodes [0, U2F_CMD_AUTHENTICATE, p1, p2] ?d buf"
    and "length challenge = 32" "length app_id = 32" "length key_handle < 256"
    "p1 \<in> {U2fCheckOnly, U2fEnforce, U2fDontEnforce}"
  with parse_apdu_encoded [OF _ enc, of False] apdu_encodes_header [OF enc]
    apdu_encodes_length [OF _ enc] show ?thesis
    by (auto simp: u2f_validate_request_status_def Let_def u2f_consts nth_append unat_of_nat_byte)
qed (auto simp: u2f_validate_request_status_def u2f_validate_apdu_status_def
      u2f_parse_apdu_header_def Let_def u2f_consts)

lemma version_accepted:
  assumes "u2f_validate_request_status buf = 0" and "buf ! 1 = U2F_CMD_VERSION"
  shows "u2f_request_ok buf"
proof -
  let ?h = "[buf ! 0, buf ! 1, buf ! 2, buf ! 3]"
  have z: "4 \<le> length buf" "buf ! 0 = 0"
    using assms by (auto simp: u2f_validate_request_status_def Let_def split: if_split_asm)
  consider "length buf = 4" | "length buf = 5" | "5 < length buf" using z by linarith
  then show ?thesis
  proof cases
    case 1
    then have "buf = ?h" using header_split [of "buf @ [0]"] by (simp add: nth_append)
    with z assms(2) show ?thesis unfolding u2f_request_ok_def by metis
  next
    case 2
    with header_split [of buf] have "buf = ?h @ [buf ! 4]" by simp
    with z assms(2) show ?thesis unfolding u2f_request_ok_def
      by (metis append_Cons append_Nil)
  next
    case 3
    with assms z obtain a where a: "u2f_parse_apdu_header buf True = Some a" "apdu_lc a = 0"
      by (auto simp: u2f_validate_request_status_def u2f_validate_apdu_status_def Let_def
          split: if_split_asm option.split_asm)
    from parse_apdu_sound [OF a(1)] 3 a(2) have "apdu_encodes ?h [] buf" by auto
    with z assms(2) show ?thesis unfolding u2f_request_ok_def by metis
  qed
qed

lemma register_accepted:
  assumes "u2f_validate_request_status buf = 0" and "buf ! 1 = U2F_CMD_REGISTER"
  shows "u2f_request_ok buf"
proof -
  from assms obtain a where a: "u2f_parse_apdu_header buf False = Some a" "apdu_lc a = 64" "buf ! 0 = 0"
    by (auto simp: u2f_validate_request_status_def u2f_validate_apdu_status_def Let_def u2f_consts
        split: if_split_asm option.split_asm)
  from parse_apdu_sound [OF a(1)] obtain d where d: "length d = 64"
    "apdu_encodes [buf ! 0, buf ! 1, buf ! 2, buf ! 3] d buf" using a(2) by auto
  have "length (take 32 d) = 32" "length (drop 32 d) = 32" "d = take 32 d @ drop 32 d"
    using d(1) by simp_all
  with d a(3) assms(2) show ?thesis unfolding u2f_request_ok_def by metis
qed

lemma authenticate_ok:
  assumes "length challenge = 32" "length app_id = 32" "length key_handle < 256"
    "p1 \<in> {U2fCheckOnly, U2fEnforce, U2fDontEnforce}"
    "apdu_encodes [0, U2F_CMD_AUTHENTICATE, p1, p2]
      (challenge @ app_id @ word_of_nat (length key_handle) # key_handle) buf"
  shows "u2f_request_ok buf"
  unfolding u2f_request_ok_def
  by (rule exI [of _ p1], rule exI [of _ p2], (rule disjI2)+, rule exI [of _ challenge],
      rule exI [of _ app_id], rule exI [of _ key_handle]) (use assms in simp)

lemma authenticate_accepted:
  assumes "u2f_validate_request_status buf = 0" and "buf ! 1 = U2F_CMD_AUTHENTICATE"
  shows "u2f_request_ok buf"
proof -
  from assms obtain a x where a: "u2f_parse_apdu_header buf False = Some a" "buf ! 0 = 0"
    "apdu_p1 a \<in> {U2fCheckOnly, U2fEnforce, U2fDontEnforce}" "apdu_data a = Some x"
    "apdu_lc a = 65 + unat (x ! 64)"
    by (auto simp: u2f_validate_request_status_def Let_def u2f_consts
        split: if_split_asm option.split_asm)
  from parse_apdu_sound [OF a(1)] obtain d rest where d: "length d = apdu_lc a" "x = d @ rest"
    "apdu_encodes [buf ! 0, buf ! 1, buf ! 2, buf ! 3] d buf" "apdu_p1 a = buf ! 2"
    using a(4) by auto
  let ?c = "take 32 d" and ?i = "take 32 (drop 32 d)" and ?k = "drop 65 d"
  have x: "x ! 64 = d ! 64" "64 < length d" using d a(5) by (auto simp: nth_append)
  have len: "length ?c = 32" "length ?i = 32" "length ?k = unat (d ! 64)" using d a(5) x by simp_all
  have "drop 64 d = word_of_nat (length ?k) # ?k"
    using Cons_nth_drop_Suc [OF x(2)] len(3) by simp
  then have "?i @ word_of_nat (length ?k) # ?k = drop 32 d"
    using append_take_drop_id [of 32 "drop 32 d"] by simp
  then have eq: "?c @ ?i @ word_of_nat (length ?k) # ?k = d"
    using append_take_drop_id [of 32 d] by simp
  have "length ?k < 256" using len(3) by simp
  moreover have "apdu_encodes [0, U2F_CMD_AUTHENTICATE, buf ! 2, buf ! 3]
      (?c @ ?i @ word_of_nat (length ?k) # ?k) buf"
    unfolding eq using d(3) a(2) assms(2) by simp
  ultimately show ?thesis
    using authenticate_ok [of ?c ?i ?k] len(1,2) a(3) d(4) by metis
qed

text \<open>A registration with a one-byte length is accepted although short requests are not allowed.\<close>

lemma short_register_accepted:
  assumes "length challenge = 32" "length app_id = 32"
  shows "u2f_validate_request_status ([0, U2F_CMD_REGISTER, 0, 0, 64] @ challenge @ app_id) = 0"
proof (rule ok_imp_accepted)
  have "apdu_encodes [0, U2F_CMD_REGISTER, 0, 0] (challenge @ app_id)
      ([0, U2F_CMD_REGISTER, 0, 0, 64] @ challenge @ app_id)"
    using assms by (auto simp: apdu_encodes_def apdu_short_def)
  with assms show "u2f_request_ok ([0, U2F_CMD_REGISTER, 0, 0, 64] @ challenge @ app_id)"
    unfolding u2f_request_ok_def by blast
qed

text \<open>
  C28. The validator of U2F requests accepts exactly the encodings of a VERSION, a REGISTER and an
  AUTHENTICATE command, in short and extended form, with 32-byte challenge and application id, a known
  control byte and a key handle of the announced length.
\<close>

theorem validate_request_exact: "u2f_validate_request_status buf = 0 \<longleftrightarrow> u2f_request_ok buf"
proof
  assume ok: "u2f_validate_request_status buf = 0"
  then have "buf ! 1 = U2F_CMD_VERSION \<or> buf ! 1 = U2F_CMD_REGISTER \<or> buf ! 1 = U2F_CMD_AUTHENTICATE"
    by (auto simp: u2f_validate_request_status_def Let_def split: if_split_asm)
  with ok show "u2f_request_ok buf"
    using version_accepted register_accepted authenticate_accepted by blast
qed (rule ok_imp_accepted)

end
