(* ===== verification/Usb_Hid.thy ===== *)
theory Usb_Hid
  imports Approval U2f_Apdu
begin

text \<open>
  \<^verbatim>\<open>transport/usb_hid_session.c\<close> and \<^verbatim>\<open>transport/dispatch.c\<close>: the CTAPHID session. Reports of at
  most 64 bytes are assembled into one message, channels are allocated and locked, and a complete
  message is handed to its protocol. The state \<open>usb\<close> holds the transport, the arena it shares with the
  application (the message is assembled in it and the response written over it), the application and
  the reports sent so far, oldest first. The protocol handlers, which run while control reports are
  polled and may therefore change all of this, are fields of the environment \<open>usb_env\<close>.
\<close>

section \<open>Constants and state\<close>

definition ZF_CTAPHID_TYPE_INIT :: byte where "ZF_CTAPHID_TYPE_INIT = 0x80"
definition ZF_CTAPHID_PING :: byte where "ZF_CTAPHID_PING = 0x81"
definition ZF_CTAPHID_MSG :: byte where "ZF_CTAPHID_MSG = 0x83"
definition ZF_CTAPHID_LOCK :: byte where "ZF_CTAPHID_LOCK = 0x84"
definition ZF_CTAPHID_INIT :: byte where "ZF_CTAPHID_INIT = 0x86"
definition ZF_CTAPHID_WINK :: byte where "ZF_CTAPHID_WINK = 0x88"
definition ZF_CTAPHID_CBOR :: byte where "ZF_CTAPHID_CBOR = 0x90"
definition ZF_CTAPHID_CANCEL :: byte where "ZF_CTAPHID_CANCEL = 0x91"
definition ZF_CTAPHID_KEEPALIVE :: byte where "ZF_CTAPHID_KEEPALIVE = 0xBB"
definition ZF_CTAPHID_ERROR :: byte where "ZF_CTAPHID_ERROR = 0xBF"

definition ZF_HID_ERR_INVALID_CMD :: byte where "ZF_HID_ERR_INVALID_CMD = 0x01"
definition ZF_HID_ERR_INVALID_PAR :: byte where "ZF_HID_ERR_INVALID_PAR = 0x02"
definition ZF_HID_ERR_INVALID_LEN :: byte where "ZF_HID_ERR_INVALID_LEN = 0x03"
definition ZF_HID_ERR_INVALID_SEQ :: byte where "ZF_HID_ERR_INVALID_SEQ = 0x04"
definition ZF_HID_ERR_MSG_TIMEOUT :: byte where "ZF_HID_ERR_MSG_TIMEOUT = 0x05"
definition ZF_HID_ERR_CHANNEL_BUSY :: byte where "ZF_HID_ERR_CHANNEL_BUSY = 0x06"
definition ZF_HID_ERR_INVALID_CHANNEL :: byte where "ZF_HID_ERR_INVALID_CHANNEL = 0x0B"
definition ZF_HID_ERR_OTHER :: byte where "ZF_HID_ERR_OTHER = 0x7F"

definition ZF_CAPABILITY_WINK :: byte where "ZF_CAPABILITY_WINK = 0x01"
definition ZF_CAPABILITY_CBOR :: byte where "ZF_CAPABILITY_CBOR = 0x04"
definition ZF_BROADCAST_CID :: u32 where "ZF_BROADCAST_CID = 0xFFFFFFFF"
definition ZF_RESERVED_CID :: u32 where "ZF_RESERVED_CID = 0x00000000"
definition ZF_MAX_ALLOCATED_CIDS :: nat where "ZF_MAX_ALLOCATED_CIDS = 32"

definition ZF_CTAPHID_PACKET_SIZE :: nat where "ZF_CTAPHID_PACKET_SIZE = 64"
definition ZF_MAX_MSG_SIZE :: nat where "ZF_MAX_MSG_SIZE = 1024"
definition ZF_TRANSPORT_ARENA_SIZE :: nat where "ZF_TRANSPORT_ARENA_SIZE = ZF_MAX_MSG_SIZE + 2"
definition ZF_ASSEMBLY_TIMEOUT_MS :: u32 where "ZF_ASSEMBLY_TIMEOUT_MS = 3000"

definition ZF_TRANSPORT_ACTION_CANCEL_PENDING_INTERACTION :: u32 where
  "ZF_TRANSPORT_ACTION_CANCEL_PENDING_INTERACTION = 1"

lemmas hid_consts = ZF_CTAPHID_TYPE_INIT_def ZF_CTAPHID_PING_def ZF_CTAPHID_MSG_def
  ZF_CTAPHID_LOCK_def ZF_CTAPHID_INIT_def ZF_CTAPHID_WINK_def ZF_CTAPHID_CBOR_def
  ZF_CTAPHID_CANCEL_def ZF_CTAPHID_KEEPALIVE_def ZF_CTAPHID_ERROR_def

lemmas hid_sizes = ZF_CTAPHID_PACKET_SIZE_def ZF_MAX_MSG_SIZE_def ZF_TRANSPORT_ARENA_SIZE_def
  ZF_MAX_ALLOCATED_CIDS_def

record ZfAllocatedCid =
  ac_cid :: u32
  ac_last_used :: u32

text \<open>
  \<open>tr_payload\<close> tells whether the payload pointer is attached; what it points to is the arena. The
  table of channels is the list of its used entries. The 16-bit lengths never exceed the 16-bit
  length field of the request, so they are naturals.
\<close>

record ZfTransportState =
  tr_active :: bool
  tr_processing :: bool
  tr_processing_resync :: bool
  tr_processing_cancel_requested :: bool
  tr_stopping :: bool
  tr_processing_generation :: u32
  tr_cid :: u32
  tr_cmd :: byte
  tr_total_len :: nat
  tr_received_len :: nat
  tr_next_seq :: byte
  tr_last_activity :: u32
  tr_lock_cid :: u32
  tr_lock_expires_at :: u32
  tr_payload :: bool
  tr_payload_capacity :: nat
  tr_allocated_cids :: "ZfAllocatedCid list"

record ('a, 'w) usb =
  usb_tr :: ZfTransportState
  usb_arena :: "bytes option"
  usb_app :: "'a ZerofidoApp_scheme"
  usb_sent :: "bytes list"
  usb_world :: 'w

text \<open>
  A protocol handler gets the channel, the request and the capacity of the response and returns the
  bytes of the response. \<open>env_malloc\<close> tells whether an allocation succeeds.
\<close>

type_synonym ('a, 'w) protocol_handler =
  "u32 \<Rightarrow> bytes \<Rightarrow> nat \<Rightarrow> ('a, 'w) usb \<Rightarrow> bytes \<times> ('a, 'w) usb"

record ('a, 'w) usb_env =
  env_build :: zf_build
  env_hal :: "'w hal"
  env_malloc :: "'w \<Rightarrow> bool"
  env_u2f :: "('a, 'w) protocol_handler"
  env_ctap2 :: "('a, 'w) protocol_handler"
  env_wink :: "('a, 'w) usb \<Rightarrow> ('a, 'w) usb"

definition upd_tr :: "(ZfTransportState \<Rightarrow> ZfTransportState) \<Rightarrow> ('a, 'w) usb \<Rightarrow> ('a, 'w) usb" where
  "upd_tr f s = s\<lparr>usb_tr := f (usb_tr s)\<rparr>"

definition usb_tick :: "('a, 'w) usb_env \<Rightarrow> ('a, 'w) usb \<Rightarrow> u32" where
  "usb_tick env s = furi_get_tick (env_hal env) (usb_world s)"

definition usb_capabilities :: "('a, 'w) usb_env \<Rightarrow> ('a, 'w) usb \<Rightarrow> ZfResolvedCapabilities" where
  "usb_capabilities env s = zf_runtime_get_effective_capabilities (env_build env) (usb_app s)"

section \<open>The arena\<close>

definition zf_app_transport_arena_acquire ::
  "('a, 'w) usb_env \<Rightarrow> ('a, 'w) usb \<Rightarrow> bool \<times> ('a, 'w) usb" where
  "zf_app_transport_arena_acquire env s =
    (case usb_arena s of
       Some arena \<Rightarrow> (length arena \<ge> ZF_TRANSPORT_ARENA_SIZE, s)
     | None \<Rightarrow>
        if \<not> env_malloc env (usb_world s) then (False, s)
        else (True, s\<lparr>usb_arena := Some (replicate ZF_TRANSPORT_ARENA_SIZE 0)\<rparr>))"

definition zf_app_transport_arena_wipe :: "('a, 'w) usb \<Rightarrow> ('a, 'w) usb" where
  "zf_app_transport_arena_wipe s =
    s\<lparr>usb_arena := map_option (\<lambda>arena. replicate (length arena) 0) (usb_arena s)\<rparr>"

definition zf_app_transport_arena_release :: "('a, 'w) usb \<Rightarrow> ('a, 'w) usb" where
  "zf_app_transport_arena_release s = s\<lparr>usb_arena := None\<rparr>"

text \<open>\<open>memcpy\<close> into the payload at an offset.\<close>

definition payload_write :: "nat \<Rightarrow> bytes \<Rightarrow> ('a, 'w) usb \<Rightarrow> ('a, 'w) usb" where
  "payload_write off d s = s\<lparr>usb_arena := map_option (\<lambda>arena. write_at arena off d) (usb_arena s)\<rparr>"

definition zf_transport_session_attach_arena :: "nat \<Rightarrow> ('a, 'w) usb \<Rightarrow> ('a, 'w) usb" where
  "zf_transport_session_attach_arena capacity s =
    upd_tr (\<lambda>t. t\<lparr>tr_payload := usb_arena s \<noteq> None, tr_payload_capacity := capacity\<rparr>) s"

definition zf_transport_ensure_payload ::
  "('a, 'w) usb_env \<Rightarrow> ('a, 'w) usb \<Rightarrow> bool \<times> ('a, 'w) usb" where
  "zf_transport_ensure_payload env s =
    (let (ok, s) =
       (if tr_payload (usb_tr s) then (True, s)
        else case zf_app_transport_arena_acquire env s of
            (False, s) \<Rightarrow> (False, s)
          | (True, s) \<Rightarrow> (True, zf_transport_session_attach_arena ZF_MAX_MSG_SIZE s))
     in (ok \<and> tr_payload (usb_tr s) \<and> tr_payload_capacity (usb_tr s) \<ge> ZF_MAX_MSG_SIZE, s))"

section \<open>Frames\<close>

definition hid_pad :: "bytes \<Rightarrow> bytes" where
  "hid_pad d = d @ replicate (ZF_CTAPHID_PACKET_SIZE - length d) 0"

text \<open>The loop of continuation frames: the data that is left, in pieces of 59 bytes.\<close>

function hid_continuations :: "u32 \<Rightarrow> byte \<Rightarrow> bytes \<Rightarrow> bytes list" where
  "hid_continuations cid seq d =
    (if d = [] then []
     else hid_pad (le_bytes 4 cid @ [seq] @ take (ZF_CTAPHID_PACKET_SIZE - 5) d) #
       hid_continuations cid (seq + 1) (drop (ZF_CTAPHID_PACKET_SIZE - 5) d))"
  by pat_completeness auto
termination by (relation "measure (\<lambda>(_, _, d). length d)") (auto simp: hid_sizes)

declare hid_continuations.simps [simp del]

definition hid_frames :: "u32 \<Rightarrow> byte \<Rightarrow> bytes \<Rightarrow> bytes list" where
  "hid_frames cid cmd d =
    hid_pad (le_bytes 4 cid @ [cmd] @ be_bytes 2 (word_of_nat (length d) :: u16) @
      take (ZF_CTAPHID_PACKET_SIZE - 7) d) #
    hid_continuations cid 0 (drop (ZF_CTAPHID_PACKET_SIZE - 7) d)"

definition zf_transport_session_send_frames ::
  "u32 \<Rightarrow> byte \<Rightarrow> bytes \<Rightarrow> ('a, 'w) usb \<Rightarrow> ('a, 'w) usb" where
  "zf_transport_session_send_frames cid cmd d s = s\<lparr>usb_sent := usb_sent s @ hid_frames cid cmd d\<rparr>"

definition zf_transport_session_send_error :: "u32 \<Rightarrow> byte \<Rightarrow> ('a, 'w) usb \<Rightarrow> ('a, 'w) usb" where
  "zf_transport_session_send_error cid hid_error s =
    zf_transport_session_send_frames cid ZF_CTAPHID_ERROR [hid_error] s"

definition zf_transport_send_lock_response :: "u32 \<Rightarrow> ('a, 'w) usb \<Rightarrow> ('a, 'w) usb" where
  "zf_transport_send_lock_response cid s = zf_transport_session_send_frames cid ZF_CTAPHID_LOCK [] s"

section \<open>Channels\<close>

definition zf_transport_cid_is_reserved :: "u32 \<Rightarrow> bool" where
  "zf_transport_cid_is_reserved cid \<longleftrightarrow> cid = ZF_RESERVED_CID \<or> cid = ZF_BROADCAST_CID"

definition zf_transport_cid_is_allocated :: "ZfTransportState \<Rightarrow> u32 \<Rightarrow> bool" where
  "zf_transport_cid_is_allocated t cid =
    (if zf_transport_cid_is_reserved cid then False
     else list_ex (\<lambda>e. ac_cid e = cid) (tr_allocated_cids t))"

definition zf_transport_refresh_lock :: "('a, 'w) usb_env \<Rightarrow> ('a, 'w) usb \<Rightarrow> ('a, 'w) usb" where
  "zf_transport_refresh_lock env s =
    (let t = usb_tr s in
     if tr_lock_cid t = 0 then s
     else if sint (usb_tick env s - tr_lock_expires_at t) \<ge> 0
     then upd_tr (\<lambda>t. t\<lparr>tr_lock_cid := 0, tr_lock_expires_at := 0\<rparr>) s
     else s)"

definition zf_transport_lock_blocks_cid ::
  "('a, 'w) usb_env \<Rightarrow> u32 \<Rightarrow> ('a, 'w) usb \<Rightarrow> bool \<times> ('a, 'w) usb" where
  "zf_transport_lock_blocks_cid env cid s =
    (let s = zf_transport_refresh_lock env s
     in (tr_lock_cid (usb_tr s) \<noteq> 0 \<and> cid \<noteq> tr_lock_cid (usb_tr s), s))"

text \<open>The scan for the least recently used channel; \<open>best\<close> is the best index so far and its age.\<close>

fun lru_scan :: "u32 \<Rightarrow> u32 \<Rightarrow> nat \<Rightarrow> (nat \<times> u32) option \<Rightarrow> ZfAllocatedCid list \<Rightarrow> nat option" where
  "lru_scan cid lock i best [] = map_option fst best"
| "lru_scan cid lock i best (e # es) =
    (if ac_cid e = cid \<or> ac_cid e = lock then lru_scan cid lock (Suc i) best es
     else lru_scan cid lock (Suc i)
       (case best of
          None \<Rightarrow> Some (i, ac_last_used e)
        | Some (j, best_last_used) \<Rightarrow>
           if ac_last_used e < best_last_used then Some (i, ac_last_used e) else best) es)"

definition zf_transport_find_lru_reclaim_index ::
  "('a, 'w) usb_env \<Rightarrow> ('a, 'w) usb \<Rightarrow> nat option \<times> ('a, 'w) usb" where
  "zf_transport_find_lru_reclaim_index env s =
    (let s = zf_transport_refresh_lock env s; t = usb_tr s
     in (lru_scan (tr_cid t) (tr_lock_cid t) 0 None (tr_allocated_cids t), s))"

fun touch_entry :: "u32 \<Rightarrow> u32 \<Rightarrow> ZfAllocatedCid list \<Rightarrow> ZfAllocatedCid list" where
  "touch_entry cid now [] = []"
| "touch_entry cid now (e # es) =
    (if ac_cid e = cid then e\<lparr>ac_last_used := now\<rparr> # es else e # touch_entry cid now es)"

definition zf_transport_touch_cid :: "('a, 'w) usb_env \<Rightarrow> u32 \<Rightarrow> ('a, 'w) usb \<Rightarrow> ('a, 'w) usb" where
  "zf_transport_touch_cid env cid s =
    (if zf_transport_cid_is_reserved cid then s
     else upd_tr (\<lambda>t. t\<lparr>tr_allocated_cids := touch_entry cid (usb_tick env s) (tr_allocated_cids t)\<rparr>) s)"

definition zf_transport_remember_cid ::
  "('a, 'w) usb_env \<Rightarrow> u32 \<Rightarrow> ('a, 'w) usb \<Rightarrow> bool \<times> ('a, 'w) usb" where
  "zf_transport_remember_cid env cid s =
    (let now = usb_tick env s; fresh = \<lparr>ac_cid = cid, ac_last_used = now\<rparr>; t = usb_tr s in
     if zf_transport_cid_is_reserved cid then (False, s)
     else if list_ex (\<lambda>e. ac_cid e = cid) (tr_allocated_cids t) then
       (True, upd_tr (\<lambda>t. t\<lparr>tr_allocated_cids := touch_entry cid now (tr_allocated_cids t)\<rparr>) s)
     else if length (tr_allocated_cids t) < ZF_MAX_ALLOCATED_CIDS then
       (True, upd_tr (\<lambda>t. t\<lparr>tr_allocated_cids := tr_allocated_cids t @ [fresh]\<rparr>) s)
     else case zf_transport_find_lru_reclaim_index env s of
         (Some i, s) \<Rightarrow>
           (True, upd_tr (\<lambda>t. t\<lparr>tr_allocated_cids := (tr_allocated_cids t)[i := fresh]\<rparr>) s)
       | (None, s) \<Rightarrow> (False, s))"

text \<open>\<open>furi_hal_random_get\<close>: four bytes of the generator as a little-endian word.\<close>

definition furi_hal_random_get :: "('a, 'w) usb_env \<Rightarrow> ('a, 'w) usb \<Rightarrow> u32 \<times> ('a, 'w) usb" where
  "furi_hal_random_get env s =
    (let (bs, w) = random_fill (env_hal env) 4 (usb_world s) in (be_value (rev bs), s\<lparr>usb_world := w\<rparr>))"

fun allocate_attempts ::
  "nat \<Rightarrow> ('a, 'w) usb_env \<Rightarrow> ('a, 'w) usb \<Rightarrow> u32 option \<times> ('a, 'w) usb" where
  "allocate_attempts 0 env s = (None, s)"
| "allocate_attempts (Suc n) env s =
    (let (cid, s) = furi_hal_random_get env s in
     if zf_transport_cid_is_reserved cid \<or> zf_transport_cid_is_allocated (usb_tr s) cid
     then allocate_attempts n env s
     else case zf_transport_remember_cid env cid s of
         (False, s) \<Rightarrow> (None, s)
       | (True, s) \<Rightarrow> (Some cid, s))"

definition zf_transport_allocate_cid ::
  "('a, 'w) usb_env \<Rightarrow> ('a, 'w) usb \<Rightarrow> u32 option \<times> ('a, 'w) usb" where
  "zf_transport_allocate_cid env s = allocate_attempts 32 env s"

section \<open>Session operations\<close>

definition zf_transport_session_reset :: "('a, 'w) usb \<Rightarrow> ('a, 'w) usb" where
  "zf_transport_session_reset s =
    (let t = usb_tr s;
         used = min (max (tr_total_len t) (tr_received_len t)) (tr_payload_capacity t);
         s = (if tr_payload t \<and> used > 0 then payload_write 0 (replicate used 0) s else s)
     in upd_tr (\<lambda>t. t\<lparr>tr_active := False, tr_processing := False, tr_processing_resync := False,
          tr_processing_cancel_requested := False, tr_stopping := False,
          tr_processing_generation := 0, tr_cid := 0, tr_cmd := 0, tr_total_len := 0,
          tr_received_len := 0, tr_next_seq := 0, tr_last_activity := 0\<rparr>) s)"

definition zf_transport_add_action :: "u32 \<Rightarrow> u32 \<Rightarrow> u32" where
  "zf_transport_add_action actions action = actions OR action"

definition zf_transport_handle_init ::
  "u32 \<Rightarrow> u32 \<Rightarrow> bytes \<Rightarrow> ZfResolvedCapabilities \<Rightarrow> ('a, 'w) usb \<Rightarrow> ('a, 'w) usb" where
  "zf_transport_handle_init response_cid assigned_cid payload capabilities s =
    (let nonce = take 8 payload;
         capability_flags =
           (if transport_wink_enabled capabilities then ZF_CAPABILITY_WINK else 0) OR
           (if fido2_enabled capabilities then ZF_CAPABILITY_CBOR else 0);
         response = nonce @ replicate (8 - length nonce) 0 @ le_bytes 4 assigned_cid @
           [2, 1, 4, 3, capability_flags]
     in zf_transport_session_send_frames response_cid ZF_CTAPHID_INIT response s)"

definition zf_transport_is_busy_for_cid :: "ZfTransportState \<Rightarrow> u32 \<Rightarrow> bool" where
  "zf_transport_is_busy_for_cid t cid \<longleftrightarrow> tr_active t \<and> cid \<noteq> tr_cid t"

definition zf_transport_send_busy_or_invalid_len :: "u32 \<Rightarrow> ('a, 'w) usb \<Rightarrow> ('a, 'w) usb" where
  "zf_transport_send_busy_or_invalid_len cid s =
    (if cid \<noteq> tr_cid (usb_tr s) then zf_transport_session_send_error cid ZF_HID_ERR_CHANNEL_BUSY s
     else zf_transport_session_send_error cid ZF_HID_ERR_INVALID_LEN s)"

definition zf_transport_send_busy_or_invalid_seq :: "u32 \<Rightarrow> ('a, 'w) usb \<Rightarrow> ('a, 'w) usb" where
  "zf_transport_send_busy_or_invalid_seq cid s =
    (if cid \<noteq> tr_cid (usb_tr s) then zf_transport_session_send_error cid ZF_HID_ERR_CHANNEL_BUSY s
     else zf_transport_session_send_error cid ZF_HID_ERR_INVALID_SEQ s)"

text \<open>The fields of a report.\<close>

definition packet_cid :: "bytes \<Rightarrow> u32" where
  "packet_cid packet = be_value (rev (take 4 packet))"

definition packet_msg_len :: "bytes \<Rightarrow> nat" where
  "packet_msg_len packet = unat (be_value [packet ! 5, packet ! 6] :: u16)"

definition zf_transport_resync_processing ::
  "('a, 'w) usb_env \<Rightarrow> u32 \<Rightarrow> bytes \<Rightarrow> nat \<Rightarrow> u32 \<Rightarrow> ('a, 'w) usb \<Rightarrow>
    ctap_status \<times> u32 \<times> ('a, 'w) usb" where
  "zf_transport_resync_processing env cid packet msg_len actions s =
    (if msg_len \<noteq> 8 \<or> length packet - 7 < msg_len then
       (ZF_CTAP_SUCCESS, actions, zf_transport_session_send_error cid ZF_HID_ERR_INVALID_LEN s)
     else if \<not> zf_transport_cid_is_allocated (usb_tr s) cid then
       (ZF_CTAP_SUCCESS, actions, zf_transport_session_send_error cid ZF_HID_ERR_INVALID_CHANNEL s)
     else
       let s = upd_tr (\<lambda>t. t\<lparr>tr_processing_resync := True, tr_processing := False,
                 tr_processing_generation := tr_processing_generation t + 1\<rparr>) s;
           actions = zf_transport_add_action actions ZF_TRANSPORT_ACTION_CANCEL_PENDING_INTERACTION;
           s = zf_transport_touch_cid env cid s
       in (ZF_CTAP_ERR_KEEPALIVE_CANCEL, actions,
           zf_transport_handle_init cid cid (take msg_len (drop 7 packet)) (usb_capabilities env s) s))"

definition zf_transport_recover_processing_with_broadcast_init ::
  "('a, 'w) usb_env \<Rightarrow> bytes \<Rightarrow> nat \<Rightarrow> u32 \<Rightarrow> ('a, 'w) usb \<Rightarrow> ctap_status \<times> u32 \<times> ('a, 'w) usb" where
  "zf_transport_recover_processing_with_broadcast_init env packet msg_len actions s =
    (if msg_len \<noteq> 8 \<or> length packet - 7 < msg_len then
       (ZF_CTAP_SUCCESS, actions,
        zf_transport_session_send_error ZF_BROADCAST_CID ZF_HID_ERR_INVALID_LEN s)
     else case zf_transport_allocate_cid env s of
         (None, s) \<Rightarrow> (ZF_CTAP_SUCCESS, actions,
           zf_transport_session_send_error ZF_BROADCAST_CID ZF_HID_ERR_OTHER s)
       | (Some assigned_cid, s) \<Rightarrow>
          let s = upd_tr (\<lambda>t. t\<lparr>tr_processing_resync := True, tr_processing := False,
                    tr_processing_cancel_requested := True,
                    tr_processing_generation := tr_processing_generation t + 1\<rparr>) s;
              actions = zf_transport_add_action actions ZF_TRANSPORT_ACTION_CANCEL_PENDING_INTERACTION
          in (ZF_CTAP_ERR_KEEPALIVE_CANCEL, actions,
              zf_transport_handle_init ZF_BROADCAST_CID assigned_cid (take msg_len (drop 7 packet))
                (usb_capabilities env s) s))"

definition zf_transport_session_handle_processing_control ::
  "('a, 'w) usb_env \<Rightarrow> bytes \<Rightarrow> u32 \<Rightarrow> ('a, 'w) usb \<Rightarrow> ctap_status \<times> u32 \<times> ('a, 'w) usb" where
  "zf_transport_session_handle_processing_control env packet actions s =
    (if length packet < 5 then (ZF_CTAP_SUCCESS, actions, s)
     else
       let cid = packet_cid packet; t = usb_tr s in
       if packet ! 4 AND ZF_CTAPHID_TYPE_INIT = 0 then (ZF_CTAP_SUCCESS, actions, s)
       else if length packet < 7 then
         (ZF_CTAP_SUCCESS, actions, zf_transport_send_busy_or_invalid_len cid s)
       else
         let cmd = packet ! 4; msg_len = packet_msg_len packet in
         if cmd = ZF_CTAPHID_CANCEL then
           if msg_len \<noteq> 0 then
             (ZF_CTAP_SUCCESS, actions, zf_transport_session_send_error cid ZF_HID_ERR_INVALID_LEN s)
           else if tr_processing t \<and> tr_cmd t = ZF_CTAPHID_CBOR \<and> cid = tr_cid t then
             (ZF_CTAP_ERR_KEEPALIVE_CANCEL,
              zf_transport_add_action actions ZF_TRANSPORT_ACTION_CANCEL_PENDING_INTERACTION,
              upd_tr (\<lambda>t. t\<lparr>tr_processing_cancel_requested := True\<rparr>) s)
           else (ZF_CTAP_SUCCESS, actions, s)
         else if cmd = ZF_CTAPHID_INIT \<and> cid = tr_cid t then
           zf_transport_resync_processing env cid packet msg_len actions s
         else if cmd = ZF_CTAPHID_INIT \<and> cid = ZF_BROADCAST_CID then
           zf_transport_recover_processing_with_broadcast_init env packet msg_len actions s
         else if cid \<noteq> tr_cid t then
           (ZF_CTAP_SUCCESS, actions, zf_transport_session_send_error cid ZF_HID_ERR_CHANNEL_BUSY s)
         else (ZF_CTAP_SUCCESS, actions, s))"

section \<open>Dispatch of a complete message\<close>

datatype ZfTransportProtocolKind =
    ZfTransportProtocolKindPing
  | ZfTransportProtocolKindU2f
  | ZfTransportProtocolKindCtap2
  | ZfTransportProtocolKindWink

text \<open>The response is the prefix of the arena that \<open>response_len\<close> delimits, as bytes.\<close>

record ZfProtocolDispatchResult =
  res_response :: bytes
  res_send_transport_error :: bool
  res_transport_error :: byte

definition zf_transport_dispatch_was_interrupted :: "ZfTransportState \<Rightarrow> u32 \<Rightarrow> bool" where
  "zf_transport_dispatch_was_interrupted t generation \<longleftrightarrow> generation \<noteq> tr_processing_generation t"

definition zf_transport_dispatch_error :: "byte \<Rightarrow> ZfProtocolDispatchResult" where
  "zf_transport_dispatch_error hid_error =
    \<lparr>res_response = [], res_send_transport_error = True, res_transport_error = hid_error\<rparr>"

definition zf_transport_dispatch_begin :: "bytes \<Rightarrow> ZfProtocolDispatchResult" where
  "zf_transport_dispatch_begin response =
    \<lparr>res_response = response, res_send_transport_error = False, res_transport_error = 0\<rparr>"

definition zf_transport_dispatch_reject_unsupported :: ZfProtocolDispatchResult where
  "zf_transport_dispatch_reject_unsupported = zf_transport_dispatch_error ZF_HID_ERR_INVALID_CMD"

text \<open>The ping leaves its payload where it is: the response buffer is the request buffer.\<close>

definition zf_transport_dispatch_ping :: "bytes \<Rightarrow> ZfProtocolDispatchResult" where
  "zf_transport_dispatch_ping payload = zf_transport_dispatch_begin payload"

definition zf_transport_dispatch_u2f ::
  "('a, 'w) usb_env \<Rightarrow> u32 \<Rightarrow> bytes \<Rightarrow> ('a, 'w) usb \<Rightarrow> ZfProtocolDispatchResult \<times> ('a, 'w) usb" where
  "zf_transport_dispatch_u2f env session_id payload s =
    (let (response, s) = env_u2f env session_id payload ZF_MAX_MSG_SIZE s
     in (zf_transport_dispatch_begin response, payload_write 0 response s))"

definition zf_transport_dispatch_cbor ::
  "('a, 'w) usb_env \<Rightarrow> u32 \<Rightarrow> bytes \<Rightarrow> ('a, 'w) usb \<Rightarrow> ZfProtocolDispatchResult \<times> ('a, 'w) usb" where
  "zf_transport_dispatch_cbor env session_id payload s =
    (let (response, s) = env_ctap2 env session_id payload ZF_MAX_MSG_SIZE s
     in (zf_transport_dispatch_begin response, payload_write 0 response s))"

definition zf_transport_dispatch_wink ::
  "('a, 'w) usb_env \<Rightarrow> ('a, 'w) usb \<Rightarrow> ZfProtocolDispatchResult \<times> ('a, 'w) usb" where
  "zf_transport_dispatch_wink env s = (zf_transport_dispatch_begin [], env_wink env s)"

definition zf_transport_dispatch_abort_if_interrupted :: "u32 \<Rightarrow> ('a, 'w) usb \<Rightarrow> ('a, 'w) usb" where
  "zf_transport_dispatch_abort_if_interrupted generation s =
    (if zf_transport_dispatch_was_interrupted (usb_tr s) generation then s
     else upd_tr (\<lambda>t. t\<lparr>tr_processing := False\<rparr>) s)"

fun response_command :: "ZfTransportProtocolKind \<Rightarrow> byte" where
  "response_command ZfTransportProtocolKindPing = ZF_CTAPHID_PING"
| "response_command ZfTransportProtocolKindU2f = ZF_CTAPHID_MSG"
| "response_command ZfTransportProtocolKindCtap2 = ZF_CTAPHID_CBOR"
| "response_command ZfTransportProtocolKindWink = ZF_CTAPHID_WINK"

definition zf_transport_usb_hid_send_dispatch_result ::
  "u32 \<Rightarrow> ZfTransportProtocolKind \<Rightarrow> ZfProtocolDispatchResult \<Rightarrow> ('a, 'w) usb \<Rightarrow> ('a, 'w) usb" where
  "zf_transport_usb_hid_send_dispatch_result session_id protocol result s =
    zf_app_transport_arena_wipe
     (if res_send_transport_error result
      then zf_transport_session_send_error session_id (res_transport_error result) s
      else if length (res_response result) = 0 \<and> protocol \<noteq> ZfTransportProtocolKindWink
      then zf_transport_session_send_error session_id ZF_HID_ERR_OTHER s
      else zf_transport_session_send_frames session_id (response_command protocol)
        (res_response result) s)"

definition run_protocol ::
  "('a, 'w) usb_env \<Rightarrow> u32 \<Rightarrow> ZfTransportProtocolKind \<Rightarrow> bytes \<Rightarrow> ('a, 'w) usb \<Rightarrow>
    ZfProtocolDispatchResult \<times> ('a, 'w) usb" where
  "run_protocol env session_id protocol payload s =
    (let capabilities = usb_capabilities env s in
     case protocol of
       ZfTransportProtocolKindPing \<Rightarrow> (zf_transport_dispatch_ping payload, s)
     | ZfTransportProtocolKindU2f \<Rightarrow>
        if \<not> u2f_enabled capabilities then (zf_transport_dispatch_reject_unsupported, s)
        else zf_transport_dispatch_u2f env session_id payload s
     | ZfTransportProtocolKindWink \<Rightarrow>
        if \<not> transport_wink_enabled capabilities then (zf_transport_dispatch_reject_unsupported, s)
        else zf_transport_dispatch_wink env s
     | ZfTransportProtocolKindCtap2 \<Rightarrow>
        if \<not> fido2_enabled capabilities then (zf_transport_dispatch_reject_unsupported, s)
        else zf_transport_dispatch_cbor env session_id payload s)"

definition zf_transport_dispatch_complete_message ::
  "('a, 'w) usb_env \<Rightarrow> u32 \<Rightarrow> ZfTransportProtocolKind \<Rightarrow> bytes \<Rightarrow> ('a, 'w) usb \<Rightarrow> ('a, 'w) usb" where
  "zf_transport_dispatch_complete_message env session_id protocol payload s =
    (let generation = tr_processing_generation (usb_tr s) + 1 in
     case zf_app_transport_arena_acquire env s of
       (False, s) \<Rightarrow> zf_transport_session_send_error session_id ZF_HID_ERR_OTHER s
     | (True, s) \<Rightarrow>
        let s = upd_tr (\<lambda>t. t\<lparr>tr_processing_generation := generation, tr_processing := True,
                  tr_processing_resync := False\<rparr>) s;
            (result, s) = run_protocol env session_id protocol payload s
        in if zf_transport_dispatch_was_interrupted (usb_tr s) generation then s
           else
             let (result, s) =
               (if protocol = ZfTransportProtocolKindCtap2 \<and>
                   tr_processing_cancel_requested (usb_tr s)
                then (result\<lparr>res_send_transport_error := False,
                        res_response := [ctap_status_byte ZF_CTAP_ERR_KEEPALIVE_CANCEL]\<rparr>,
                      payload_write 0 [ctap_status_byte ZF_CTAP_ERR_KEEPALIVE_CANCEL] s)
                else (result, s));
               s = zf_transport_usb_hid_send_dispatch_result session_id protocol result s
             in zf_transport_dispatch_abort_if_interrupted generation s)"

section \<open>Assembly\<close>

definition payload_bytes :: "nat \<Rightarrow> ('a, 'w) usb \<Rightarrow> bytes" where
  "payload_bytes n s = (case usb_arena s of None \<Rightarrow> [] | Some arena \<Rightarrow> take n arena)"

definition zf_transport_try_send_u2f_validation_error ::
  "('a, 'w) usb_env \<Rightarrow> ('a, 'w) usb \<Rightarrow> bool \<times> ('a, 'w) usb" where
  "zf_transport_try_send_u2f_validation_error env s =
    (let t = usb_tr s in
     if tr_cmd t \<noteq> ZF_CTAPHID_MSG then (False, s)
     else if \<not> u2f_enabled (usb_capabilities env s) then (False, s)
     else case u2f_validate_request_into_response
            (if tr_payload t then Some (payload_bytes (tr_total_len t) s) else None) 2 of
         None \<Rightarrow> (False, s)
       | Some status \<Rightarrow>
          (True, zf_transport_session_reset
             (zf_transport_session_send_frames (tr_cid t) ZF_CTAPHID_MSG status s)))"

definition zf_transport_complete_if_ready :: "('a, 'w) usb_env \<Rightarrow> ('a, 'w) usb \<Rightarrow> ('a, 'w) usb" where
  "zf_transport_complete_if_ready env s =
    (if tr_received_len (usb_tr s) \<noteq> tr_total_len (usb_tr s) then s
     else
       let s = upd_tr (\<lambda>t. t\<lparr>tr_active := False\<rparr>) s in
       case zf_transport_try_send_u2f_validation_error env s of
         (True, s) \<Rightarrow> s
       | (False, s) \<Rightarrow>
          let cmd = tr_cmd (usb_tr s);
              protocol =
                (if cmd = ZF_CTAPHID_PING then Some ZfTransportProtocolKindPing
                 else if cmd = ZF_CTAPHID_MSG then Some ZfTransportProtocolKindU2f
                 else if cmd = ZF_CTAPHID_WINK then Some ZfTransportProtocolKindWink
                 else if cmd = ZF_CTAPHID_CBOR then Some ZfTransportProtocolKindCtap2
                 else None)
          in case protocol of
               None \<Rightarrow> zf_transport_session_send_error (tr_cid (usb_tr s)) ZF_HID_ERR_INVALID_CMD s
             | Some protocol \<Rightarrow>
                (case zf_transport_ensure_payload env s of
                   (False, s) \<Rightarrow> zf_transport_session_send_error (tr_cid (usb_tr s)) ZF_HID_ERR_OTHER s
                 | (True, s) \<Rightarrow>
                    zf_transport_dispatch_complete_message env (tr_cid (usb_tr s)) protocol
                      (payload_bytes (tr_total_len (usb_tr s)) s) s))"

definition zf_transport_validate_command_length ::
  "u32 \<Rightarrow> byte \<Rightarrow> nat \<Rightarrow> ('a, 'w) usb \<Rightarrow> bool \<times> ('a, 'w) usb" where
  "zf_transport_validate_command_length cid cmd msg_len s =
    (let valid =
       (if cmd = ZF_CTAPHID_MSG \<or> cmd = ZF_CTAPHID_CBOR then msg_len > 0
        else if cmd = ZF_CTAPHID_LOCK then msg_len = 1
        else if cmd = ZF_CTAPHID_WINK then msg_len = 0
        else True)
     in (valid, if valid then s else zf_transport_session_send_error cid ZF_HID_ERR_INVALID_LEN s))"

definition zf_transport_begin_message ::
  "('a, 'w) usb_env \<Rightarrow> u32 \<Rightarrow> byte \<Rightarrow> nat \<Rightarrow> ('a, 'w) usb \<Rightarrow> bool \<times> ('a, 'w) usb" where
  "zf_transport_begin_message env cid cmd msg_len s =
    (if \<not> tr_payload (usb_tr s) \<or> msg_len > tr_payload_capacity (usb_tr s) \<or> msg_len > ZF_MAX_MSG_SIZE
     then (False, zf_transport_session_reset
             (zf_transport_session_send_error cid ZF_HID_ERR_INVALID_LEN s))
     else case zf_transport_validate_command_length cid cmd msg_len s of
         (False, s) \<Rightarrow> (False, zf_transport_session_reset s)
       | (True, s) \<Rightarrow>
          let s = zf_transport_session_reset s
          in (True, upd_tr (\<lambda>t. t\<lparr>tr_active := True, tr_cid := cid, tr_cmd := cmd,
                tr_total_len := msg_len, tr_next_seq := 0, tr_last_activity := usb_tick env s\<rparr>) s))"

definition zf_transport_copy_init_payload :: "bytes \<Rightarrow> ('a, 'w) usb \<Rightarrow> ('a, 'w) usb" where
  "zf_transport_copy_init_payload packet s =
    (let chunk = min (length packet - 7) (tr_total_len (usb_tr s)) in
     if chunk = 0 then s
     else upd_tr (\<lambda>t. t\<lparr>tr_received_len := chunk\<rparr>) (payload_write 0 (take chunk (drop 7 packet)) s))"

text \<open>The first component of the result: whether the command has been dealt with.\<close>

definition zf_transport_handle_init_command ::
  "('a, 'w) usb_env \<Rightarrow> u32 \<Rightarrow> byte \<Rightarrow> nat \<Rightarrow> bytes \<Rightarrow> u32 \<Rightarrow> ('a, 'w) usb \<Rightarrow>
    bool \<times> u32 \<times> ('a, 'w) usb" where
  "zf_transport_handle_init_command env cid cmd msg_len packet actions s =
    (let capabilities = usb_capabilities env s; t = usb_tr s;
         fail = (\<lambda>e s. (True, actions, zf_transport_session_send_error cid e s)) in
     if cmd = ZF_CTAPHID_CANCEL then
       if msg_len \<noteq> 0 then fail ZF_HID_ERR_INVALID_LEN s
       else if tr_processing t \<and> tr_cmd t = ZF_CTAPHID_CBOR \<and> cid = tr_cid t then
         (True, zf_transport_add_action actions ZF_TRANSPORT_ACTION_CANCEL_PENDING_INTERACTION,
          upd_tr (\<lambda>t. t\<lparr>tr_processing_cancel_requested := True\<rparr>) s)
       else (True, actions, s)
     else if cmd = ZF_CTAPHID_LOCK then
       if msg_len \<noteq> 1 \<or> length packet - 7 < msg_len then fail ZF_HID_ERR_INVALID_LEN s
       else if \<not> zf_transport_cid_is_allocated t cid then fail ZF_HID_ERR_INVALID_CHANNEL s
       else
         let lock_seconds = packet ! 7 in
         if lock_seconds > 10 then fail ZF_HID_ERR_INVALID_PAR s
         else
           let s = zf_transport_touch_cid env cid s;
               s = (if lock_seconds = 0 then
                      if tr_lock_cid (usb_tr s) = cid
                      then upd_tr (\<lambda>t. t\<lparr>tr_lock_cid := 0, tr_lock_expires_at := 0\<rparr>) s else s
                    else upd_tr (\<lambda>t. t\<lparr>tr_lock_cid := cid,
                           tr_lock_expires_at := usb_tick env s + ucast lock_seconds * 1000\<rparr>) s)
           in (True, actions, zf_transport_send_lock_response cid s)
     else if cmd = ZF_CTAPHID_INIT then
       if msg_len \<noteq> 8 then fail ZF_HID_ERR_INVALID_LEN s
       else if length packet - 7 < msg_len then fail ZF_HID_ERR_INVALID_LEN s
       else if tr_active t \<and> cid \<noteq> tr_cid t then fail ZF_HID_ERR_CHANNEL_BUSY s
       else
         let answer = (\<lambda>assigned_cid s. (True, actions,
               zf_transport_handle_init cid assigned_cid (take msg_len (drop 7 packet)) capabilities
                 (zf_transport_session_reset s))) in
         if cid = ZF_BROADCAST_CID then
           (case zf_transport_allocate_cid env s of
              (None, s) \<Rightarrow> fail ZF_HID_ERR_OTHER s
            | (Some assigned_cid, s) \<Rightarrow> answer assigned_cid s)
         else if \<not> zf_transport_cid_is_allocated t cid then fail ZF_HID_ERR_INVALID_CHANNEL s
         else answer cid (zf_transport_touch_cid env cid s)
     else if tr_active t then
       let s' = zf_transport_send_busy_or_invalid_seq cid s
       in (True, actions, if cid = tr_cid t then zf_transport_session_reset s' else s')
     else (False, actions, s))"

definition zf_transport_handle_init_packet ::
  "('a, 'w) usb_env \<Rightarrow> bytes \<Rightarrow> u32 \<Rightarrow> ('a, 'w) usb \<Rightarrow> u32 \<times> ('a, 'w) usb" where
  "zf_transport_handle_init_packet env packet actions s =
    (let cid = packet_cid packet in
     if length packet < 7 then
       (actions, zf_transport_session_send_error cid
          (if length packet \<ge> 5 \<and> zf_transport_is_busy_for_cid (usb_tr s) cid
           then ZF_HID_ERR_CHANNEL_BUSY else ZF_HID_ERR_INVALID_LEN) s)
     else
       let cmd = packet ! 4 in
       if cmd \<noteq> ZF_CTAPHID_CANCEL \<and> zf_transport_is_busy_for_cid (usb_tr s) cid
       then (actions, zf_transport_session_send_error cid ZF_HID_ERR_CHANNEL_BUSY s)
       else
         let msg_len = packet_msg_len packet in
         case zf_transport_handle_init_command env cid cmd msg_len packet actions s of
           (True, actions, s) \<Rightarrow> (actions, s)
         | (False, actions, s) \<Rightarrow>
            if \<not> zf_transport_cid_is_allocated (usb_tr s) cid
            then (actions, zf_transport_session_send_error cid ZF_HID_ERR_INVALID_CHANNEL s)
            else
              let s = zf_transport_touch_cid env cid s in
              case zf_transport_ensure_payload env s of
                (False, s) \<Rightarrow> (actions, zf_transport_session_send_error cid ZF_HID_ERR_OTHER s)
              | (True, s) \<Rightarrow>
                 (case zf_transport_begin_message env cid cmd msg_len s of
                    (False, s) \<Rightarrow> (actions, s)
                  | (True, s) \<Rightarrow>
                     (actions, zf_transport_complete_if_ready env
                        (zf_transport_copy_init_payload packet s))))"

definition zf_transport_handle_processing_packet ::
  "('a, 'w) usb_env \<Rightarrow> bytes \<Rightarrow> u32 \<Rightarrow> ('a, 'w) usb \<Rightarrow> u32 \<times> ('a, 'w) usb" where
  "zf_transport_handle_processing_packet env packet actions s =
    (let cid = packet_cid packet in
     if length packet < 7 then (actions, zf_transport_send_busy_or_invalid_len cid s)
     else if packet ! 4 AND ZF_CTAPHID_TYPE_INIT = 0
     then (actions, zf_transport_session_send_error cid ZF_HID_ERR_INVALID_SEQ s)
     else if packet ! 4 = ZF_CTAPHID_CANCEL then
       zf_transport_handle_init_packet env packet actions s
     else if packet ! 4 = ZF_CTAPHID_INIT \<and> cid = tr_cid (usb_tr s) then
       snd (zf_transport_resync_processing env cid packet (packet_msg_len packet) actions s)
     else if packet ! 4 = ZF_CTAPHID_INIT \<and> cid = ZF_BROADCAST_CID then
       snd (zf_transport_recover_processing_with_broadcast_init env packet (packet_msg_len packet)
             actions s)
     else (actions, zf_transport_send_busy_or_invalid_seq cid s))"

definition zf_transport_validate_continuation ::
  "u32 \<Rightarrow> byte \<Rightarrow> ('a, 'w) usb \<Rightarrow> bool \<times> ('a, 'w) usb" where
  "zf_transport_validate_continuation cid seq s =
    (let t = usb_tr s in
     if \<not> tr_active t then (False, s)
     else if seq \<noteq> tr_next_seq t \<or> cid \<noteq> tr_cid t
     then (False, zf_transport_session_send_error cid ZF_HID_ERR_INVALID_SEQ s)
     else (True, s))"

definition zf_transport_copy_continuation_payload :: "bytes \<Rightarrow> ('a, 'w) usb \<Rightarrow> ('a, 'w) usb" where
  "zf_transport_copy_continuation_payload packet s =
    (let t = usb_tr s; chunk = min (length packet - 5) (tr_total_len t - tr_received_len t) in
     if chunk = 0 then s
     else upd_tr (\<lambda>t. t\<lparr>tr_received_len := tr_received_len t + chunk\<rparr>)
       (payload_write (tr_received_len t) (take chunk (drop 5 packet)) s))"

definition zf_transport_handle_cont_packet ::
  "('a, 'w) usb_env \<Rightarrow> bytes \<Rightarrow> ('a, 'w) usb \<Rightarrow> ('a, 'w) usb" where
  "zf_transport_handle_cont_packet env packet s =
    (let cid = packet_cid packet; seq = packet ! 4; t = usb_tr s;
         invalid_seq = tr_active t \<and> (seq \<noteq> tr_next_seq t \<or> cid \<noteq> tr_cid t) in
     case zf_transport_validate_continuation cid seq s of
       (False, s) \<Rightarrow> (if invalid_seq then zf_transport_session_reset s else s)
     | (True, s) \<Rightarrow>
        let s = zf_transport_touch_cid env cid s;
            s = upd_tr (\<lambda>t. t\<lparr>tr_next_seq := tr_next_seq t + 1, tr_last_activity := usb_tick env s\<rparr>) s;
            s = zf_transport_copy_continuation_payload packet s
        in zf_transport_complete_if_ready env s)"

definition zf_transport_handle_idle_packet ::
  "('a, 'w) usb_env \<Rightarrow> bytes \<Rightarrow> u32 \<Rightarrow> ('a, 'w) usb \<Rightarrow> u32 \<times> ('a, 'w) usb" where
  "zf_transport_handle_idle_packet env packet actions s =
    (if packet ! 4 AND ZF_CTAPHID_TYPE_INIT \<noteq> 0
     then zf_transport_handle_init_packet env packet actions s
     else (actions, zf_transport_handle_cont_packet env packet s))"

definition zf_transport_session_handle_packet ::
  "('a, 'w) usb_env \<Rightarrow> bytes \<Rightarrow> u32 \<Rightarrow> ('a, 'w) usb \<Rightarrow> u32 \<times> ('a, 'w) usb" where
  "zf_transport_session_handle_packet env packet actions s =
    (if length packet < 5 then (actions, s)
     else
       let cid = packet_cid packet in
       case zf_transport_lock_blocks_cid env cid s of
         (True, s) \<Rightarrow> (actions, zf_transport_session_send_error cid ZF_HID_ERR_CHANNEL_BUSY s)
       | (False, s) \<Rightarrow>
          if tr_processing (usb_tr s) then zf_transport_handle_processing_packet env packet actions s
          else if \<not> tr_active (usb_tr s) \<and> zf_transport_is_busy_for_cid (usb_tr s) cid
          then (actions, zf_transport_session_send_error cid ZF_HID_ERR_CHANNEL_BUSY s)
          else zf_transport_handle_idle_packet env packet actions s)"

definition zf_transport_session_expire_lock :: "('a, 'w) usb \<Rightarrow> ('a, 'w) usb" where
  "zf_transport_session_expire_lock s =
    upd_tr (\<lambda>t. t\<lparr>tr_lock_cid := 0, tr_lock_expires_at := 0\<rparr>) s"

definition zf_transport_session_tick :: "u32 \<Rightarrow> ('a, 'w) usb \<Rightarrow> ('a, 'w) usb" where
  "zf_transport_session_tick now s =
    (let t = usb_tr s;
         s = (if tr_active t \<and> now - tr_last_activity t \<ge> ZF_ASSEMBLY_TIMEOUT_MS
              then zf_transport_session_reset
                (zf_transport_session_send_error (tr_cid t) ZF_HID_ERR_MSG_TIMEOUT s)
              else s);
         t = usb_tr s
     in if tr_lock_cid t \<noteq> 0 \<and> tr_lock_expires_at t \<noteq> 0 \<and> sint (now - tr_lock_expires_at t) \<ge> 0
        then zf_transport_session_expire_lock s else s)"

end
