(* ===== verification/Usb_Hid_Exact.thy ===== *)
theory Usb_Hid_Exact
  imports Usb_Hid
begin

text \<open>
  Facts about the CTAPHID session: the invariant of the transport state and that every operation keeps
  it, the reaction to reports of other channels, and the reassembly of a fragmented message.
\<close>

section \<open>What each operation leaves alone\<close>

lemma upd_tr_sel [simp]:
  "usb_tr (upd_tr f s) = f (usb_tr s)" "usb_arena (upd_tr f s) = usb_arena s"
  "usb_app (upd_tr f s) = usb_app s" "usb_sent (upd_tr f s) = usb_sent s"
  "usb_world (upd_tr f s) = usb_world s"
  by (simp_all add: upd_tr_def)

lemma payload_write_sel [simp]:
  "usb_tr (payload_write i d s) = usb_tr s" "usb_app (payload_write i d s) = usb_app s"
  "usb_sent (payload_write i d s) = usb_sent s" "usb_world (payload_write i d s) = usb_world s"
  by (simp_all add: payload_write_def)

lemma send_frames_sel [simp]:
  "usb_tr (zf_transport_session_send_frames cid cmd d s) = usb_tr s"
  "usb_arena (zf_transport_session_send_frames cid cmd d s) = usb_arena s"
  "usb_app (zf_transport_session_send_frames cid cmd d s) = usb_app s"
  "usb_world (zf_transport_session_send_frames cid cmd d s) = usb_world s"
  "usb_sent (zf_transport_session_send_frames cid cmd d s) = usb_sent s @ hid_frames cid cmd d"
  by (simp_all add: zf_transport_session_send_frames_def)

lemma send_error_sel [simp]:
  "usb_tr (zf_transport_session_send_error cid e s) = usb_tr s"
  "usb_arena (zf_transport_session_send_error cid e s) = usb_arena s"
  "usb_app (zf_transport_session_send_error cid e s) = usb_app s"
  "usb_world (zf_transport_session_send_error cid e s) = usb_world s"
  "usb_sent (zf_transport_session_send_error cid e s) = usb_sent s @ hid_frames cid ZF_CTAPHID_ERROR [e]"
  by (simp_all add: zf_transport_session_send_error_def)

lemma handle_init_sel [simp]:
  "usb_tr (zf_transport_handle_init r c p cap s) = usb_tr s"
  "usb_arena (zf_transport_handle_init r c p cap s) = usb_arena s"
  by (simp_all add: zf_transport_handle_init_def Let_def)

lemma busy_or_invalid_sel [simp]:
  "usb_tr (zf_transport_send_busy_or_invalid_len cid s) = usb_tr s"
  "usb_arena (zf_transport_send_busy_or_invalid_len cid s) = usb_arena s"
  "usb_tr (zf_transport_send_busy_or_invalid_seq cid s) = usb_tr s"
  "usb_arena (zf_transport_send_busy_or_invalid_seq cid s) = usb_arena s"
  by (simp_all add: zf_transport_send_busy_or_invalid_len_def zf_transport_send_busy_or_invalid_seq_def)

lemma random_get_sel:
  assumes "furi_hal_random_get env s = (cid, s')"
  shows "usb_tr s' = usb_tr s" "usb_arena s' = usb_arena s" "usb_app s' = usb_app s" "usb_sent s' = usb_sent s"
  using assms by (auto simp: furi_hal_random_get_def split: prod.splits)

section \<open>The invariant\<close>

definition channels :: "ZfTransportState \<Rightarrow> u32 list" where
  "channels t = map ac_cid (tr_allocated_cids t)"

text \<open>At most 32 channels, all different, none reserved; the current and the locking one among them.\<close>

definition channels_wf :: "ZfTransportState \<Rightarrow> bool" where
  "channels_wf t \<longleftrightarrow>
    distinct (channels t) \<and> list_all (\<lambda>c. \<not> zf_transport_cid_is_reserved c) (channels t) \<and>
    length (channels t) \<le> ZF_MAX_ALLOCATED_CIDS \<and>
    (tr_cid t \<noteq> 0 \<longrightarrow> tr_cid t \<in> set (channels t)) \<and>
    (tr_lock_cid t \<noteq> 0 \<longrightarrow> tr_lock_cid t \<in> set (channels t))"

text \<open>What has been received fits what was announced, and that fits the buffer.\<close>

definition buffer_wf :: "('a, 'w) usb \<Rightarrow> bool" where
  "buffer_wf s \<longleftrightarrow>
    (\<forall>arena. usb_arena s = Some arena \<longrightarrow> length arena = ZF_TRANSPORT_ARENA_SIZE) \<and>
    (tr_payload (usb_tr s) \<longrightarrow> usb_arena s \<noteq> None \<and> tr_payload_capacity (usb_tr s) = ZF_MAX_MSG_SIZE) \<and>
    tr_received_len (usb_tr s) \<le> tr_total_len (usb_tr s) \<and>
    tr_total_len (usb_tr s) \<le> ZF_MAX_MSG_SIZE"

text \<open>A message is being assembled only while it is incomplete and nothing is being processed.\<close>

definition assembly_wf :: "('a, 'w) usb \<Rightarrow> bool" where
  "assembly_wf s \<longleftrightarrow>
    (tr_active (usb_tr s) \<longrightarrow> tr_payload (usb_tr s) \<and> \<not> tr_processing (usb_tr s) \<and>
      tr_cid (usb_tr s) \<noteq> 0 \<and> tr_received_len (usb_tr s) < tr_total_len (usb_tr s))"

definition usb_wf :: "('a, 'w) usb \<Rightarrow> bool" where
  "usb_wf s \<longleftrightarrow> channels_wf (usb_tr s) \<and> buffer_wf s \<and> assembly_wf s"

lemma usb_wf_cong:
  "usb_tr s' = usb_tr s \<Longrightarrow> usb_arena s' = usb_arena s \<Longrightarrow> usb_wf s' = usb_wf s"
  by (simp add: usb_wf_def buffer_wf_def assembly_wf_def)

lemma usb_wf_send [simp]:
  "usb_wf (zf_transport_session_send_frames cid cmd d s) = usb_wf s"
  "usb_wf (zf_transport_session_send_error cid e s) = usb_wf s"
  "usb_wf (zf_transport_handle_init r c p cap s) = usb_wf s"
  "usb_wf (zf_transport_send_busy_or_invalid_len cid s) = usb_wf s"
  "usb_wf (zf_transport_send_busy_or_invalid_seq cid s) = usb_wf s"
  by (rule usb_wf_cong; simp)+

lemma touch_entry_channels [simp]: "map ac_cid (touch_entry cid now es) = map ac_cid es"
  by (induction es) simp_all

lemma touch_entry_set [simp]: "ac_cid ` set (touch_entry cid now es) = ac_cid ` set es"
  by (metis set_map touch_entry_channels)

lemma touch_entry_length [simp]: "length (touch_entry cid now es) = length es"
  by (metis length_map touch_entry_channels)

lemma touch_wf [simp]: "usb_wf (zf_transport_touch_cid env cid s) = usb_wf s"
  by (simp add: zf_transport_touch_cid_def usb_wf_def channels_wf_def channels_def buffer_wf_def
      assembly_wf_def)

lemma touch_sel [simp]:
  "tr_cid (usb_tr (zf_transport_touch_cid env cid s)) = tr_cid (usb_tr s)"
  "tr_active (usb_tr (zf_transport_touch_cid env cid s)) = tr_active (usb_tr s)"
  "tr_processing (usb_tr (zf_transport_touch_cid env cid s)) = tr_processing (usb_tr s)"
  "channels (usb_tr (zf_transport_touch_cid env cid s)) = channels (usb_tr s)"
  "tr_lock_cid (usb_tr (zf_transport_touch_cid env cid s)) = tr_lock_cid (usb_tr s)"
  "tr_lock_expires_at (usb_tr (zf_transport_touch_cid env cid s)) = tr_lock_expires_at (usb_tr s)"
  "tr_payload (usb_tr (zf_transport_touch_cid env cid s)) = tr_payload (usb_tr s)"
  "tr_payload_capacity (usb_tr (zf_transport_touch_cid env cid s)) = tr_payload_capacity (usb_tr s)"
  "tr_cmd (usb_tr (zf_transport_touch_cid env cid s)) = tr_cmd (usb_tr s)"
  "tr_total_len (usb_tr (zf_transport_touch_cid env cid s)) = tr_total_len (usb_tr s)"
  "tr_received_len (usb_tr (zf_transport_touch_cid env cid s)) = tr_received_len (usb_tr s)"
  "tr_next_seq (usb_tr (zf_transport_touch_cid env cid s)) = tr_next_seq (usb_tr s)"
  "tr_processing_generation (usb_tr (zf_transport_touch_cid env cid s)) = tr_processing_generation (usb_tr s)"
  "usb_arena (zf_transport_touch_cid env cid s) = usb_arena s"
  "usb_app (zf_transport_touch_cid env cid s) = usb_app s"
  "usb_sent (zf_transport_touch_cid env cid s) = usb_sent s"
  "usb_world (zf_transport_touch_cid env cid s) = usb_world s"
  by (simp_all add: zf_transport_touch_cid_def channels_def)

lemma refresh_lock_cases:
  "zf_transport_refresh_lock env s = s \<or>
   zf_transport_refresh_lock env s = upd_tr (\<lambda>t. t\<lparr>tr_lock_cid := 0, tr_lock_expires_at := 0\<rparr>) s"
  by (simp add: zf_transport_refresh_lock_def Let_def)

lemma unlock_wf: "usb_wf s \<Longrightarrow> usb_wf (upd_tr (\<lambda>t. t\<lparr>tr_lock_cid := 0, tr_lock_expires_at := 0\<rparr>) s)"
  by (auto simp: usb_wf_def channels_wf_def channels_def buffer_wf_def assembly_wf_def)

lemma refresh_lock_wf: "usb_wf s \<Longrightarrow> usb_wf (zf_transport_refresh_lock env s)"
  using refresh_lock_cases [of env s] unlock_wf [of s] by auto

lemma refresh_lock_sel [simp]:
  "tr_allocated_cids (usb_tr (zf_transport_refresh_lock env s)) = tr_allocated_cids (usb_tr s)"
  "tr_cid (usb_tr (zf_transport_refresh_lock env s)) = tr_cid (usb_tr s)"
  "tr_active (usb_tr (zf_transport_refresh_lock env s)) = tr_active (usb_tr s)"
  "tr_processing (usb_tr (zf_transport_refresh_lock env s)) = tr_processing (usb_tr s)"
  "channels (usb_tr (zf_transport_refresh_lock env s)) = channels (usb_tr s)"
  "usb_arena (zf_transport_refresh_lock env s) = usb_arena s"
  "usb_app (zf_transport_refresh_lock env s) = usb_app s"
  "usb_sent (zf_transport_refresh_lock env s) = usb_sent s"
  "usb_world (zf_transport_refresh_lock env s) = usb_world s"
  by (simp_all add: zf_transport_refresh_lock_def Let_def channels_def)

text \<open>The reclaimed entry belongs neither to the current channel nor to the locking one.\<close>

lemma lru_scan_index:
  assumes "lru_scan cid lock i best es = Some k" and "pre = take i all" "i + length es = length all"
    "es = drop i all"
    and "\<And>j u. best = Some (j, u) \<Longrightarrow> j < length all \<and> ac_cid (all ! j) \<noteq> cid \<and> ac_cid (all ! j) \<noteq> lock"
  shows "k < length all \<and> ac_cid (all ! k) \<noteq> cid \<and> ac_cid (all ! k) \<noteq> lock"
  using assms
proof (induction es arbitrary: i best pre)
  case Nil
  then show ?case by (cases best) auto
next
  case (Cons e es)
  have lt: "i < length all" using Cons.prems(3) by simp
  have i: "i < length all" "all ! i = e" "es = drop (Suc i) all"
    using Cons.prems(4) lt Cons_nth_drop_Suc [OF lt] by simp_all (metis list.inject)+
  show ?case
  proof (cases "ac_cid e = cid \<or> ac_cid e = lock")
    case True
    then show ?thesis using Cons.IH [of "Suc i" best "take (Suc i) all"] Cons.prems i by auto
  next
    case False
    let ?b = "case best of None \<Rightarrow> Some (i, ac_last_used e)
      | Some (j, u) \<Rightarrow> if ac_last_used e < u then Some (i, ac_last_used e) else best"
    have "\<And>j u. ?b = Some (j, u) \<Longrightarrow> j < length all \<and> ac_cid (all ! j) \<noteq> cid \<and> ac_cid (all ! j) \<noteq> lock"
      using False i Cons.prems(5) by (auto split: option.split_asm if_split_asm)
    then show ?thesis using Cons.IH [of "Suc i" ?b "take (Suc i) all"] Cons.prems i False by auto
  qed
qed

lemma allocated_iff: "channels_wf t \<Longrightarrow> zf_transport_cid_is_allocated t c \<longleftrightarrow> c \<in> set (channels t)"
  by (auto simp: zf_transport_cid_is_allocated_def channels_wf_def channels_def list_ex_iff list_all_iff)

text \<open>Remembering a fresh channel keeps the invariant and makes the channel known.\<close>

lemma remember_wf:
  assumes wf: "usb_wf s" and r: "zf_transport_remember_cid env cid s = (ok, s')"
    and fresh: "cid \<notin> set (channels (usb_tr s))"
  shows "usb_wf s' \<and> (ok \<longrightarrow> cid \<in> set (channels (usb_tr s')) \<and> \<not> zf_transport_cid_is_reserved cid) \<and>
    tr_active (usb_tr s') = tr_active (usb_tr s)"
proof -
  let ?es = "tr_allocated_cids (usb_tr s)" and ?new = "\<lparr>ac_cid = cid, ac_last_used = usb_tick env s\<rparr>"
  have nex: "\<not> list_ex (\<lambda>e. ac_cid e = cid) ?es"
    using fresh by (auto simp: channels_def list_ex_iff)
  consider (reserved) "zf_transport_cid_is_reserved cid" "ok = False" "s' = s"
    | (room) "\<not> zf_transport_cid_is_reserved cid" "length ?es < ZF_MAX_ALLOCATED_CIDS" "ok = True"
      "s' = upd_tr (\<lambda>t. t\<lparr>tr_allocated_cids := tr_allocated_cids t @ [?new]\<rparr>) s"
    | (reclaim) i where "\<not> zf_transport_cid_is_reserved cid"
      "lru_scan (tr_cid (usb_tr s)) (tr_lock_cid (usb_tr (zf_transport_refresh_lock env s))) 0 None ?es = Some i"
      "s' = upd_tr (\<lambda>t. t\<lparr>tr_allocated_cids := (tr_allocated_cids t)[i := ?new]\<rparr>)
        (zf_transport_refresh_lock env s)"
    | (none) "ok = False" "s' = zf_transport_refresh_lock env s"
    using r nex by (auto simp: zf_transport_remember_cid_def Let_def
        zf_transport_find_lru_reclaim_index_def split: if_split_asm option.split_asm)
  then show ?thesis
  proof cases
    case reserved
    with wf show ?thesis by simp
  next
    case room
    with wf fresh show ?thesis
      by (auto simp: usb_wf_def channels_wf_def channels_def buffer_wf_def assembly_wf_def)
  next
    case (reclaim i)
    let ?s = "zf_transport_refresh_lock env s"
    have wf': "usb_wf ?s" using wf by (rule refresh_lock_wf)
    have i: "i < length ?es" "ac_cid (?es ! i) \<noteq> tr_cid (usb_tr ?s)" "ac_cid (?es ! i) \<noteq> tr_lock_cid (usb_tr ?s)"
      using lru_scan_index [OF reclaim(2), where all = ?es] by auto
    have keep: "c \<in> set (map ac_cid ?es) \<Longrightarrow> c \<noteq> ac_cid (?es ! i) \<Longrightarrow> c \<in> set (map ac_cid (?es[i := ?new]))" for c
      using map_update [of ac_cid ?es i ?new] i(1)
      by (auto simp: set_conv_nth nth_list_update)
    have "distinct (map ac_cid (?es[i := ?new]))"
      using wf fresh i(1) by (auto simp: usb_wf_def channels_wf_def channels_def map_update distinct_list_update)
    moreover have "cid \<in> set (map ac_cid (?es[i := ?new]))"
      using i(1) set_update_memI [of i ?es ?new] by force
    moreover have "list_all (\<lambda>c. \<not> zf_transport_cid_is_reserved c) (map ac_cid (?es[i := ?new]))"
      using wf reclaim(1) set_update_subset_insert [of ?es i ?new]
      by (fastforce simp: usb_wf_def channels_wf_def channels_def list_all_iff)
    ultimately show ?thesis
      using wf' reclaim(1,3) i keep
      by (auto simp: usb_wf_def channels_wf_def channels_def buffer_wf_def assembly_wf_def)
  next
    case none
    with wf show ?thesis by (simp add: refresh_lock_wf)
  qed
qed

lemma allocate_wf:
  assumes "usb_wf s" and "allocate_attempts n env s = (r, s')"
  shows "usb_wf s' \<and> tr_active (usb_tr s') = tr_active (usb_tr s) \<and>
    (\<forall>cid. r = Some cid \<longrightarrow> cid \<in> set (channels (usb_tr s')) \<and> cid \<notin> set (channels (usb_tr s)))"
  using assms
proof (induction n arbitrary: s)
  case (Suc n)
  obtain cid s1 where g: "furi_hal_random_get env s = (cid, s1)" by fastforce
  note sel = random_get_sel [OF g]
  have wf1: "usb_wf s1" using Suc.prems(1) usb_wf_cong [of s1 s] sel by simp
  show ?case
  proof (cases "zf_transport_cid_is_reserved cid \<or> zf_transport_cid_is_allocated (usb_tr s1) cid")
    case True
    with Suc.prems g have "allocate_attempts n env s1 = (r, s')" by simp
    from Suc.IH [OF wf1 this] show ?thesis using sel by simp
  next
    case False
    obtain ok s2 where rem: "zf_transport_remember_cid env cid s1 = (ok, s2)" by fastforce
    have fresh: "cid \<notin> set (channels (usb_tr s1))"
      using False wf1 by (auto simp: usb_wf_def allocated_iff)
    have "r = (if ok then Some cid else None)" "s' = s2"
      using Suc.prems(2) g False rem by (auto split: bool.split_asm)
    with remember_wf [OF wf1 rem fresh] fresh sel show ?thesis by auto
  qed
qed simp

section \<open>Every operation keeps the invariant\<close>

lemma buffer_wf_tr:
  "buffer_wf s \<Longrightarrow> tr_payload t = tr_payload (usb_tr s) \<Longrightarrow>
   tr_payload_capacity t = tr_payload_capacity (usb_tr s) \<Longrightarrow>
   tr_received_len t \<le> tr_total_len t \<Longrightarrow> tr_total_len t \<le> ZF_MAX_MSG_SIZE \<Longrightarrow>
   buffer_wf (s\<lparr>usb_tr := t\<rparr>)"
  by (simp add: buffer_wf_def)

lemma payload_write_wf:
  "buffer_wf s \<Longrightarrow> i + length d \<le> ZF_TRANSPORT_ARENA_SIZE \<Longrightarrow> buffer_wf (payload_write i d s)"
  by (auto simp: buffer_wf_def payload_write_def)

lemma reset_wf:
  assumes "channels_wf (usb_tr s)" and "buffer_wf s"
  shows "usb_wf (zf_transport_session_reset s)"
proof -
  have len: "length (write_at y 0 (replicate n 0)) = ZF_TRANSPORT_ARENA_SIZE"
    if "length y = ZF_TRANSPORT_ARENA_SIZE" "n \<le> ZF_MAX_MSG_SIZE" for n y
    using that by (simp add: hid_sizes)
  from assms show ?thesis
    by (auto simp: zf_transport_session_reset_def Let_def usb_wf_def channels_wf_def channels_def
        buffer_wf_def assembly_wf_def payload_write_def len)
qed

lemma reset_sel [simp]:
  "tr_active (usb_tr (zf_transport_session_reset s)) = False"
  "tr_processing (usb_tr (zf_transport_session_reset s)) = False"
  "tr_processing_generation (usb_tr (zf_transport_session_reset s)) = 0"
  "tr_cid (usb_tr (zf_transport_session_reset s)) = 0"
  "tr_total_len (usb_tr (zf_transport_session_reset s)) = 0"
  "tr_received_len (usb_tr (zf_transport_session_reset s)) = 0"
  "tr_processing_cancel_requested (usb_tr (zf_transport_session_reset s)) = False"
  "tr_lock_cid (usb_tr (zf_transport_session_reset s)) = tr_lock_cid (usb_tr s)"
  "tr_lock_expires_at (usb_tr (zf_transport_session_reset s)) = tr_lock_expires_at (usb_tr s)"
  "tr_payload (usb_tr (zf_transport_session_reset s)) = tr_payload (usb_tr s)"
  "tr_payload_capacity (usb_tr (zf_transport_session_reset s)) = tr_payload_capacity (usb_tr s)"
  "tr_allocated_cids (usb_tr (zf_transport_session_reset s)) = tr_allocated_cids (usb_tr s)"
  "channels (usb_tr (zf_transport_session_reset s)) = channels (usb_tr s)"
  "usb_app (zf_transport_session_reset s) = usb_app s"
  "usb_sent (zf_transport_session_reset s) = usb_sent s"
  "usb_world (zf_transport_session_reset s) = usb_world s"
  by (simp_all add: zf_transport_session_reset_def Let_def channels_def)

lemma usb_wfD: "usb_wf s \<Longrightarrow> channels_wf (usb_tr s) \<and> buffer_wf s"
  by (simp add: usb_wf_def)

lemma reset_wf': "usb_wf s \<Longrightarrow> usb_wf (zf_transport_session_reset s)"
  using reset_wf usb_wfD by blast

text \<open>Flags and generations are not part of the invariant.\<close>

lemma control_flags_wf:
  assumes "usb_wf s"
  shows "usb_wf (upd_tr (\<lambda>t. t\<lparr>tr_processing_resync := a, tr_processing := False,
      tr_processing_generation := g t\<rparr>) s)"
    "usb_wf (upd_tr (\<lambda>t. t\<lparr>tr_processing_resync := a, tr_processing := False,
      tr_processing_cancel_requested := c, tr_processing_generation := g t\<rparr>) s)"
    "usb_wf (upd_tr (\<lambda>t. t\<lparr>tr_processing_cancel_requested := c\<rparr>) s)"
    "usb_wf (upd_tr (\<lambda>t. t\<lparr>tr_processing := False\<rparr>) s)"
    "usb_wf (upd_tr (\<lambda>t. t\<lparr>tr_active := False\<rparr>) s)"
  using assms
  by (simp_all add: usb_wf_def channels_wf_def channels_def buffer_wf_def assembly_wf_def)

lemma resync_wf:
  assumes "usb_wf s" and "zf_transport_resync_processing env cid packet n actions s = (st, a, s')"
  shows "usb_wf s'"
  using assms control_flags_wf(1) [OF assms(1), where a = True and g = "\<lambda>t. tr_processing_generation t + 1"]
  by (auto simp: zf_transport_resync_processing_def Let_def split: if_split_asm)

lemma recover_wf:
  assumes "usb_wf s"
    and "zf_transport_recover_processing_with_broadcast_init env packet n actions s = (st, a, s')"
  shows "usb_wf s'"
proof (cases "n \<noteq> 8 \<or> length packet - 7 < n")
  case True
  with assms show ?thesis by (auto simp: zf_transport_recover_processing_with_broadcast_init_def)
next
  case False
  obtain r s1 where al: "zf_transport_allocate_cid env s = (r, s1)" by fastforce
  then have "usb_wf s1" using allocate_wf [OF assms(1)] by (auto simp: zf_transport_allocate_cid_def)
  from control_flags_wf(2) [OF this, where a = True and c = True and g = "\<lambda>t. tr_processing_generation t + 1"] this
  show ?thesis using assms(2) False al
    by (cases r) (auto simp: zf_transport_recover_processing_with_broadcast_init_def Let_def)
qed

lemma processing_control_wf:
  assumes "usb_wf s" and "zf_transport_session_handle_processing_control env packet actions s = (st, a, s')"
  shows "usb_wf s'"
  using assms(2) resync_wf [OF assms(1)] recover_wf [OF assms(1)] control_flags_wf(3) [OF assms(1)] assms(1)
  by (auto simp: zf_transport_session_handle_processing_control_def Let_def split: if_split_asm)

lemma lock_blocks_wf:
  "usb_wf s \<Longrightarrow> zf_transport_lock_blocks_cid env cid s = (r, s') \<Longrightarrow> usb_wf s'"
  by (auto simp: zf_transport_lock_blocks_cid_def Let_def refresh_lock_wf)

lemma init_command_wf:
  assumes wf: "usb_wf s" and r: "zf_transport_handle_init_command env cid cmd n packet actions s = (b, a, s')"
  shows "usb_wf s' \<and> (\<not> b \<longrightarrow> s' = s \<and> \<not> tr_active (usb_tr s))"
proof -
  have alloc: "zf_transport_allocate_cid env s = (c, x) \<Longrightarrow> usb_wf x" for c x
    using allocate_wf [OF wf] by (auto simp: zf_transport_allocate_cid_def)
  have lock: "zf_transport_cid_is_allocated (usb_tr s) cid \<Longrightarrow>
      usb_wf (upd_tr (\<lambda>t. t\<lparr>tr_lock_cid := cid, tr_lock_expires_at := e\<rparr>) (zf_transport_touch_cid env cid s))" for e
    using wf touch_wf [of env cid s] allocated_iff [of "usb_tr s" cid]
    by (auto simp: usb_wf_def channels_wf_def channels_def buffer_wf_def assembly_wf_def
        zf_transport_touch_cid_def)
  show ?thesis
    using r wf alloc lock control_flags_wf(3) [OF wf, where c = True] unlock_wf [of "zf_transport_touch_cid env cid s"]
    by (auto intro!: reset_wf' simp: zf_transport_handle_init_command_def Let_def
        zf_transport_send_lock_response_def
        split: if_split_asm prod.split_asm option.split_asm)
qed

lemma arena_acquire_wf:
  "usb_wf s \<Longrightarrow> zf_app_transport_arena_acquire env s = (ok, s') \<Longrightarrow>
     usb_wf s' \<and> usb_tr s' = usb_tr s \<and> (ok \<longrightarrow> usb_arena s' \<noteq> None)"
  by (auto simp: zf_app_transport_arena_acquire_def usb_wf_def buffer_wf_def assembly_wf_def
      split: option.split_asm if_split_asm)

lemma ensure_payload_wf:
  assumes wf: "usb_wf s" and r: "zf_transport_ensure_payload env s = (ok, s')"
  shows "usb_wf s' \<and> channels (usb_tr s') = channels (usb_tr s) \<and>
    tr_active (usb_tr s') = tr_active (usb_tr s) \<and> tr_cid (usb_tr s') = tr_cid (usb_tr s) \<and>
    (ok \<longrightarrow> tr_payload (usb_tr s'))"
proof (cases "tr_payload (usb_tr s)")
  case True
  with assms show ?thesis by (auto simp: zf_transport_ensure_payload_def)
next
  case False
  obtain b s1 where aq: "zf_app_transport_arena_acquire env s = (b, s1)" by fastforce
  have "b \<Longrightarrow> usb_wf (zf_transport_session_attach_arena ZF_MAX_MSG_SIZE s1)"
    using arena_acquire_wf [OF wf aq] False
    by (auto simp: zf_transport_session_attach_arena_def usb_wf_def channels_wf_def channels_def
        buffer_wf_def assembly_wf_def)
  with arena_acquire_wf [OF wf aq] r False aq show ?thesis
    by (cases b) (auto simp: zf_transport_ensure_payload_def zf_transport_session_attach_arena_def channels_def)
qed

text \<open>
  The protocol handlers run while control reports are polled. They are trusted to leave a well-formed
  transport and to return no more than the capacity they were given.
\<close>

definition handler_wf :: "('a, 'w) protocol_handler \<Rightarrow> bool" where
  "handler_wf h \<longleftrightarrow> (\<forall>session_id request capacity s.
    usb_wf s \<longrightarrow> usb_wf (snd (h session_id request capacity s)) \<and>
      length (fst (h session_id request capacity s)) \<le> capacity)"

definition env_wf :: "('a, 'w) usb_env \<Rightarrow> bool" where
  "env_wf env \<longleftrightarrow> handler_wf (env_u2f env) \<and> handler_wf (env_ctap2 env) \<and>
    (\<forall>s. usb_wf s \<longrightarrow> usb_wf (env_wink env s))"

lemma payload_write_usb_wf:
  "usb_wf s \<Longrightarrow> i + length d \<le> ZF_TRANSPORT_ARENA_SIZE \<Longrightarrow> usb_wf (payload_write i d s)"
  using payload_write_wf [of s i d] by (simp add: usb_wf_def assembly_wf_def)

lemma handler_wfD:
  assumes "handler_wf h" "usb_wf s" "h session_id request ZF_MAX_MSG_SIZE s = (response, s')"
  shows "usb_wf (payload_write 0 response s') \<and> length response \<le> ZF_MAX_MSG_SIZE"
proof -
  have "usb_wf s'" "length response \<le> ZF_MAX_MSG_SIZE"
    using assms unfolding handler_wf_def by (metis fst_conv snd_conv)+
  then show ?thesis by (auto intro!: payload_write_usb_wf simp: hid_sizes)
qed

lemma run_protocol_wf:
  assumes env: "env_wf env" and wf: "usb_wf s"
    and r: "run_protocol env session_id protocol payload s = (result, s')"
  shows "usb_wf s'"
proof (cases protocol)
  case ZfTransportProtocolKindU2f
  obtain response s1 where h: "env_u2f env session_id payload ZF_MAX_MSG_SIZE s = (response, s1)" by fastforce
  have "handler_wf (env_u2f env)" using env by (simp add: env_wf_def)
  from handler_wfD [OF this wf h] r wf h ZfTransportProtocolKindU2f show ?thesis
    by (auto simp: run_protocol_def Let_def zf_transport_dispatch_u2f_def split: if_split_asm)
next
  case ZfTransportProtocolKindCtap2
  obtain response s1 where h: "env_ctap2 env session_id payload ZF_MAX_MSG_SIZE s = (response, s1)" by fastforce
  have "handler_wf (env_ctap2 env)" using env by (simp add: env_wf_def)
  from handler_wfD [OF this wf h] r wf h ZfTransportProtocolKindCtap2 show ?thesis
    by (auto simp: run_protocol_def Let_def zf_transport_dispatch_cbor_def split: if_split_asm)
next
  case ZfTransportProtocolKindWink
  with assms show ?thesis
    by (auto simp: run_protocol_def Let_def zf_transport_dispatch_wink_def env_wf_def split: if_split_asm)
qed (use assms in \<open>auto simp: run_protocol_def Let_def\<close>)

lemma wipe_wf [simp]: "usb_wf s \<Longrightarrow> usb_wf (zf_app_transport_arena_wipe s)"
  by (auto simp: zf_app_transport_arena_wipe_def usb_wf_def buffer_wf_def assembly_wf_def)

lemma send_result_wf:
  "usb_wf s \<Longrightarrow> usb_wf (zf_transport_usb_hid_send_dispatch_result session_id protocol result s)"
  by (simp add: zf_transport_usb_hid_send_dispatch_result_def)

lemma abort_wf: "usb_wf s \<Longrightarrow> usb_wf (zf_transport_dispatch_abort_if_interrupted g s)"
  using control_flags_wf(4) by (auto simp: zf_transport_dispatch_abort_if_interrupted_def)

lemma dispatch_wf:
  assumes env: "env_wf env" and wf: "usb_wf s" and idle: "\<not> tr_active (usb_tr s)"
  shows "usb_wf (zf_transport_dispatch_complete_message env session_id protocol payload s)"
proof -
  let ?f = "\<lambda>g. upd_tr (\<lambda>t. t\<lparr>tr_processing_generation := g, tr_processing := True, tr_processing_resync := False\<rparr>)"
  obtain ok s1 where aq: "zf_app_transport_arena_acquire env s = (ok, s1)" by fastforce
  note s1 = arena_acquire_wf [OF wf aq]
  have "\<not> tr_active (usb_tr s1)" "usb_wf s1" using s1 idle by simp_all
  then have "usb_wf (?f g s1)" for g
    by (simp add: usb_wf_def channels_wf_def channels_def buffer_wf_def assembly_wf_def)
  moreover obtain result s2 where run: "run_protocol env session_id protocol payload
      (?f (tr_processing_generation (usb_tr s) + 1) s1) = (result, s2)" by fastforce
  ultimately have s2: "usb_wf s2" using run_protocol_wf [OF env] by blast
  have "usb_wf (payload_write 0 [b] s2)" for b
    using s2 by (auto intro!: payload_write_usb_wf simp: hid_sizes)
  with s1 s2 aq run show ?thesis
    by (cases ok) (auto simp: zf_transport_dispatch_complete_message_def Let_def
        intro!: send_result_wf abort_wf)
qed

text \<open>Inside a report the message may already be complete.\<close>

definition assembling :: "('a, 'w) usb \<Rightarrow> bool" where
  "assembling s \<longleftrightarrow> channels_wf (usb_tr s) \<and> buffer_wf s \<and> tr_payload (usb_tr s) \<and>
    \<not> tr_processing (usb_tr s) \<and> tr_cid (usb_tr s) \<noteq> 0"

lemma u2f_validation_wf:
  "usb_wf s \<Longrightarrow> zf_transport_try_send_u2f_validation_error env s = (ok, s') \<Longrightarrow>
     usb_wf s' \<and> (\<not> ok \<longrightarrow> s' = s)"
  by (auto intro!: reset_wf' simp: zf_transport_try_send_u2f_validation_error_def Let_def
      split: if_split_asm option.split_asm)

lemma complete_wf:
  assumes env: "env_wf env" and as: "assembling s"
  shows "usb_wf (zf_transport_complete_if_ready env s)"
proof (cases "tr_received_len (usb_tr s) = tr_total_len (usb_tr s)")
  case False
  with as show ?thesis
    by (auto simp: zf_transport_complete_if_ready_def assembling_def usb_wf_def assembly_wf_def buffer_wf_def)
next
  case True
  let ?s = "upd_tr (\<lambda>t. t\<lparr>tr_active := False\<rparr>) s"
  have wf: "usb_wf ?s" "\<not> tr_active (usb_tr ?s)"
    using as by (simp_all add: assembling_def usb_wf_def channels_wf_def channels_def buffer_wf_def assembly_wf_def)
  obtain b s1 where v: "zf_transport_try_send_u2f_validation_error env ?s = (b, s1)" by fastforce
  obtain ok s2 where p: "zf_transport_ensure_payload env ?s = (ok, s2)" by fastforce
  note s2 = ensure_payload_wf [OF wf(1) p]
  have "usb_wf (zf_transport_dispatch_complete_message env i k d s2)" for i k d
    using dispatch_wf [OF env, of s2] s2 wf(2) by blast
  with True u2f_validation_wf [OF wf(1) v] s2 v p wf(1) show ?thesis
    by (cases b; cases ok) (auto simp: zf_transport_complete_if_ready_def Let_def)
qed

lemma begin_message_wf:
  assumes "usb_wf s" "zf_transport_begin_message env cid cmd n s = (ok, s')"
    "cid \<in> set (channels (usb_tr s))" "cid \<noteq> 0"
  shows "if ok then assembling s' \<and> tr_received_len (usb_tr s') = 0 \<and> tr_total_len (usb_tr s') = n
    else usb_wf s'"
proof -
  have "assembling (upd_tr (\<lambda>t. t\<lparr>tr_active := True, tr_cid := cid, tr_cmd := cmd,
      tr_total_len := n, tr_next_seq := 0, tr_last_activity := now\<rparr>) (zf_transport_session_reset s))"
    if "n \<le> ZF_MAX_MSG_SIZE" "tr_payload (usb_tr s)" for now
    using reset_wf' [OF assms(1)] assms(3,4) that
    by (auto simp: assembling_def usb_wf_def channels_wf_def channels_def buffer_wf_def)
  with assms(1,2) show ?thesis
    by (auto intro!: reset_wf' simp: zf_transport_begin_message_def zf_transport_validate_command_length_def
        Let_def usb_tick_def split: if_split_asm)
qed

lemma received_assembling:
  assumes "assembling s" "buffer_wf s'" "usb_tr s' = usb_tr s" "n (usb_tr s) \<le> tr_total_len (usb_tr s)"
  shows "assembling (upd_tr (\<lambda>t. t\<lparr>tr_received_len := n t\<rparr>) s')"
  using assms by (simp add: assembling_def buffer_wf_def channels_wf_def channels_def)

lemma copy_init_assembling:
  assumes "assembling s"
  shows "assembling (zf_transport_copy_init_payload packet s)"
proof -
  let ?n = "min (length packet - 7) (tr_total_len (usb_tr s))"
  have "0 + length (take ?n (drop 7 packet)) \<le> ZF_TRANSPORT_ARENA_SIZE"
    using assms by (auto simp: assembling_def buffer_wf_def hid_sizes)
  with assms have "buffer_wf (payload_write 0 (take ?n (drop 7 packet)) s)"
    by (intro payload_write_wf) (simp_all add: assembling_def)
  from received_assembling [OF assms this, of "\<lambda>_. ?n"] assms show ?thesis
    by (simp add: zf_transport_copy_init_payload_def Let_def)
qed

lemma copy_continuation_assembling:
  assumes "assembling s"
  shows "assembling (zf_transport_copy_continuation_payload packet s)"
proof -
  let ?n = "min (length packet - 5) (tr_total_len (usb_tr s) - tr_received_len (usb_tr s))"
  have "tr_received_len (usb_tr s) + length (take ?n (drop 5 packet)) \<le> ZF_TRANSPORT_ARENA_SIZE"
    using assms by (auto simp: assembling_def buffer_wf_def hid_sizes)
  with assms have buf: "buffer_wf (payload_write (tr_received_len (usb_tr s)) (take ?n (drop 5 packet)) s)"
    by (intro payload_write_wf) (simp_all add: assembling_def)
  have "tr_received_len (usb_tr s) + ?n \<le> tr_total_len (usb_tr s)"
    using assms by (auto simp: assembling_def buffer_wf_def)
  with received_assembling [OF assms buf, of "\<lambda>t. tr_received_len t + ?n"] assms show ?thesis
    by (simp add: zf_transport_copy_continuation_payload_def Let_def)
qed

lemma init_packet_wf:
  assumes env: "env_wf env" and wf: "usb_wf s"
    and r: "zf_transport_handle_init_packet env packet actions s = (a, s')"
  shows "usb_wf s'"
proof -
  let ?cid = "packet_cid packet" and ?cmd = "packet ! 4" and ?n = "packet_msg_len packet"
  obtain b a1 s1 where c: "zf_transport_handle_init_command env ?cid ?cmd ?n packet actions s = (b, a1, s1)"
    by (metis surj_pair)
  obtain ok s2 where p: "zf_transport_ensure_payload env (zf_transport_touch_cid env ?cid s1) = (ok, s2)"
    by fastforce
  obtain ok2 s3 where m: "zf_transport_begin_message env ?cid ?cmd ?n s2 = (ok2, s3)" by fastforce
  note s1 = init_command_wf [OF wf c]
  then have s2: "usb_wf s2" "channels (usb_tr s2) = channels (usb_tr s1)"
    using ensure_payload_wf [OF _ p] by auto
  have s3: "if ok2 then assembling s3 else usb_wf s3" if al: "zf_transport_cid_is_allocated (usb_tr s1) ?cid"
  proof -
    have "?cid \<in> set (channels (usb_tr s2))" "?cid \<noteq> 0"
      using al s1 s2 allocated_iff [of "usb_tr s1" ?cid]
      by (auto simp: usb_wf_def zf_transport_cid_is_allocated_def zf_transport_cid_is_reserved_def
          ZF_RESERVED_CID_def split: if_split_asm)
    from begin_message_wf [OF s2(1) m this] show ?thesis by (auto split: if_split_asm)
  qed
  have "usb_wf (zf_transport_complete_if_ready env (zf_transport_copy_init_payload packet s3))"
    if "zf_transport_cid_is_allocated (usb_tr s1) ?cid" ok2
    using complete_wf [OF env copy_init_assembling] s3 [OF that(1)] that(2) by simp
  with r wf s1 s2 s3 c p m show ?thesis
    by (auto simp: zf_transport_handle_init_packet_def Let_def split: if_split_asm bool.split_asm)
qed

lemma cont_packet_wf:
  assumes env: "env_wf env" and wf: "usb_wf s"
  shows "usb_wf (zf_transport_handle_cont_packet env packet s)"
proof -
  let ?s = "\<lambda>now. upd_tr (\<lambda>t. t\<lparr>tr_next_seq := tr_next_seq t + 1, tr_last_activity := now\<rparr>)
    (zf_transport_touch_cid env (packet_cid packet) s)"
  have "assembling (?s now)" if "tr_active (usb_tr s)" for now
    using touch_wf [of env "packet_cid packet" s] wf that
    by (simp add: usb_wf_def assembly_wf_def assembling_def channels_wf_def channels_def buffer_wf_def)
  from complete_wf [OF env copy_continuation_assembling [OF this]] wf show ?thesis
    by (auto intro!: reset_wf' simp: zf_transport_handle_cont_packet_def Let_def zf_transport_validate_continuation_def)
qed

text \<open>The reaction to any report keeps the invariant, and so does the passing of time.\<close>

lemma handle_packet_wf:
  assumes env: "env_wf env" and wf: "usb_wf s"
    and r: "zf_transport_session_handle_packet env packet actions s = (a, s')"
  shows "usb_wf s'"
proof -
  obtain b s1 where l: "zf_transport_lock_blocks_cid env (packet_cid packet) s = (b, s1)" by fastforce
  have wf1: "usb_wf s1" using lock_blocks_wf [OF wf l] .
  have proc: "usb_wf x" if "zf_transport_handle_processing_packet env packet actions s1 = (y, x)" for y x
    using that init_packet_wf [OF env wf1] resync_wf [OF wf1] recover_wf [OF wf1] wf1
    by (auto simp: zf_transport_handle_processing_packet_def Let_def split: if_split_asm)
      (metis prod.collapse)+
  have idle: "usb_wf x" if "zf_transport_handle_idle_packet env packet actions s1 = (y, x)" for y x
    using that init_packet_wf [OF env wf1] cont_packet_wf [OF env wf1]
    by (auto simp: zf_transport_handle_idle_packet_def split: if_split_asm)
  show ?thesis
    using r l wf wf1 proc idle
    by (auto simp: zf_transport_session_handle_packet_def Let_def split: if_split_asm bool.split_asm)
qed

lemma expire_lock_wf: "usb_wf s \<Longrightarrow> usb_wf (zf_transport_session_expire_lock s)"
  unfolding zf_transport_session_expire_lock_def by (rule unlock_wf)

lemma tick_wf: "usb_wf s \<Longrightarrow> usb_wf (zf_transport_session_tick now s)"
  by (auto intro!: expire_lock_wf reset_wf' simp: zf_transport_session_tick_def Let_def)

section \<open>Reassembly\<close>

text \<open>A sequence of reports, each handled to completion.\<close>

definition feed :: "('a, 'w) usb_env \<Rightarrow> bytes list \<Rightarrow> ('a, 'w) usb \<Rightarrow> ('a, 'w) usb" where
  "feed env packets s = fold (\<lambda>packet s. snd (zf_transport_session_handle_packet env packet 0 s)) packets s"

lemma feed_Nil [simp]: "feed env [] s = s"
  by (simp add: feed_def)

lemma feed_Cons [simp]:
  "feed env (p # ps) s = feed env ps (snd (zf_transport_session_handle_packet env p 0 s))"
  by (simp add: feed_def)

text \<open>The first \<open>k\<close> bytes of the message \<open>d\<close> are in the arena and nothing else has happened.\<close>

definition receiving :: "u32 \<Rightarrow> byte \<Rightarrow> bytes \<Rightarrow> nat \<Rightarrow> byte \<Rightarrow> ('a, 'w) usb \<Rightarrow> bool" where
  "receiving cid cmd d k seq s \<longleftrightarrow>
    (let t = usb_tr s in
     tr_active t \<and> \<not> tr_processing t \<and> tr_cid t = cid \<and> tr_cmd t = cmd \<and>
     tr_total_len t = length d \<and> tr_received_len t = k \<and> k \<le> length d \<and> tr_next_seq t = seq \<and>
     tr_payload t \<and> tr_payload_capacity t = ZF_MAX_MSG_SIZE \<and> tr_processing_generation t = 0 \<and>
     \<not> tr_processing_cancel_requested t \<and> tr_lock_cid t \<in> {0, cid}) \<and>
    (\<exists>arena. usb_arena s = Some arena \<and> length arena = ZF_TRANSPORT_ARENA_SIZE \<and> take k arena = take k d)"

definition same_host :: "('a, 'w) usb \<Rightarrow> ('a, 'w) usb \<Rightarrow> bool" where
  "same_host s s' \<longleftrightarrow> usb_sent s' = usb_sent s \<and> usb_app s' = usb_app s \<and> usb_world s' = usb_world s \<and>
    channels (usb_tr s') = channels (usb_tr s)"

lemma same_host_refl [simp]: "same_host s s"
  by (simp add: same_host_def)

lemma same_host_trans: "same_host s s' \<Longrightarrow> same_host s' s'' \<Longrightarrow> same_host s s''"
  by (simp add: same_host_def)

lemma same_host_steps [simp]:
  "same_host s (zf_transport_touch_cid env cid s)" "same_host s (zf_transport_session_reset s)"
  "same_host s (payload_write i d s)" "same_host s (zf_transport_refresh_lock env s)"
  by (simp_all add: same_host_def)

lemma packet_cid_frame [simp]: "packet_cid (le_bytes 4 cid @ rest) = cid"
  by (simp add: packet_cid_def le_bytes_def be_value_be_bytes take_bit_word_eq_self)

lemma packet_nth [simp]:
  "(le_bytes 4 cid @ x # rest) ! 4 = x"
  "(le_bytes 4 cid @ x # y # rest) ! 5 = y"
  "(le_bytes 4 cid @ x # y # z # rest) ! 6 = z"
  by (simp_all add: nth_append le_bytes_def)

lemma drop_frame [simp]:
  "drop 5 (le_bytes 4 cid @ x # rest) = rest"
  "drop 7 (le_bytes 4 cid @ x # y # z # rest) = rest"
  by (simp_all add: le_bytes_def)

lemma packet_msg_len_frame:
  "n < 65536 \<Longrightarrow> packet_msg_len (le_bytes 4 cid @ cmd # be_bytes 2 (word_of_nat n :: u16) @ rest) = n"
proof -
  assume n: "n < 65536"
  let ?v = "word_of_nat n :: u16"
  have two: "be_bytes 2 ?v = [ucast (drop_bit 8 ?v), ucast ?v]"
    by (simp add: numeral_2_eq_2)
  have "be_value (be_bytes 2 ?v) = (?v :: u16)"
    by (simp add: be_value_be_bytes take_bit_word_eq_self)
  with n show ?thesis
    unfolding two by (simp add: packet_msg_len_def unat_of_nat)
qed

lemma lock_free:
  assumes "tr_lock_cid (usb_tr s) \<in> {0, cid}"
  shows "zf_transport_lock_blocks_cid env cid s = (False, zf_transport_refresh_lock env s)"
    "tr_lock_cid (usb_tr (zf_transport_refresh_lock env s)) \<in> {0, cid}"
  using assms by (auto simp: zf_transport_lock_blocks_cid_def Let_def zf_transport_refresh_lock_def)

lemma receiving_refresh:
  "receiving cid cmd d k seq s \<Longrightarrow> receiving cid cmd d k seq (zf_transport_refresh_lock env s)"
  by (auto simp: receiving_def Let_def zf_transport_refresh_lock_def)

lemma receiving_touch:
  "receiving cid cmd d k seq s \<Longrightarrow> receiving cid cmd d k seq (zf_transport_touch_cid env c s)"
  by (auto simp: receiving_def Let_def zf_transport_touch_cid_def)

text \<open>One continuation report adds its piece of the message.\<close>

text \<open>Writing the next piece of the message into the arena.\<close>

lemma receiving_write:
  assumes rec: "receiving cid cmd d k seq s" and len: "length d \<le> ZF_MAX_MSG_SIZE"
    and piece: "k + n \<le> length d" "piece = take n (drop k d)"
  shows "receiving cid cmd d (k + n) seq (upd_tr (\<lambda>t. t\<lparr>tr_received_len := k + n\<rparr>) (payload_write k piece s))"
proof -
  have l: "length piece = n" using piece by simp
  obtain arena where a: "usb_arena s = Some arena" "length arena = ZF_TRANSPORT_ARENA_SIZE"
    "take k arena = take k d" using rec by (auto simp: receiving_def)
  have room: "k + length piece \<le> length arena" using a(2) len piece(1) l by (simp add: hid_sizes)
  have "take (k + n) (write_at arena k piece) = take (k + n) d"
    using take_write_at [OF room] l piece(2) a(3) by (simp add: take_add)
  with rec a room piece(1) show ?thesis
    by (auto simp: receiving_def Let_def payload_write_def)
qed

lemma continuation_step:
  assumes rec: "receiving cid cmd d k seq s" and k: "k < length d" and len: "length d \<le> ZF_MAX_MSG_SIZE"
    and seq: "seq AND ZF_CTAPHID_TYPE_INIT = 0"
  shows "\<exists>s'. snd (zf_transport_session_handle_packet env
      (hid_pad (le_bytes 4 cid @ [seq] @ take 59 (drop k d))) 0 s) = zf_transport_complete_if_ready env s' \<and>
    receiving cid cmd d (min (k + 59) (length d)) (seq + 1) s' \<and> same_host s s'"
proof -
  let ?p = "hid_pad (le_bytes 4 cid @ [seq] @ take 59 (drop k d))"
  let ?n = "min 59 (length d - k)"
  define s1 where "s1 = zf_transport_touch_cid env cid (zf_transport_refresh_lock env s)"
  define s2 where "s2 = upd_tr (\<lambda>t. t\<lparr>tr_next_seq := tr_next_seq t + 1, tr_last_activity := usb_tick env s1\<rparr>) s1"
  define s3 where "s3 = zf_transport_copy_continuation_payload ?p s2"
  have p: "length ?p = 64" "packet_cid ?p = cid" "?p ! 4 = seq" "take ?n (drop 5 ?p) = take ?n (drop k d)"
    by (simp_all add: hid_pad_def ZF_CTAPHID_PACKET_SIZE_def)
  have rec1: "receiving cid cmd d k seq s1"
    unfolding s1_def using rec by (intro receiving_touch receiving_refresh)
  then have rec2: "receiving cid cmd d k (seq + 1) s2"
    by (simp add: s2_def receiving_def Let_def)
  then have s2: "tr_total_len (usb_tr s2) = length d" "tr_received_len (usb_tr s2) = k"
    by (simp_all add: receiving_def Let_def)
  have n: "min (length ?p - 5) (length d - k) = ?n" "?n \<noteq> 0" using p(1) k by simp_all
  have "upd_tr (\<lambda>t. t\<lparr>tr_received_len := tr_received_len t + ?n\<rparr>) (payload_write k x s2) =
      upd_tr (\<lambda>t. t\<lparr>tr_received_len := k + ?n\<rparr>) (payload_write k x s2)" for x
    using s2(2) by (simp add: upd_tr_def)
  with n s2 p(4) have s3: "s3 = upd_tr (\<lambda>t. t\<lparr>tr_received_len := k + ?n\<rparr>) (payload_write k (take ?n (drop k d)) s2)"
    unfolding s3_def zf_transport_copy_continuation_payload_def Let_def by metis
  have kl: "k + ?n = min (k + 59) (length d)" using k by simp
  have "receiving cid cmd d (min (k + 59) (length d)) (seq + 1) s3"
    using receiving_write [OF rec2 len _ refl, of ?n] k s3 kl by simp
  moreover have "same_host s s3"
    by (simp add: s3 s2_def s1_def same_host_def channels_def) (simp add: zf_transport_touch_cid_def)
  moreover have "snd (zf_transport_session_handle_packet env ?p 0 s) = zf_transport_complete_if_ready env s3"
  proof -
    have lock: "tr_lock_cid (usb_tr s) \<in> {0, cid}" using rec by (simp add: receiving_def Let_def)
    have t: "tr_active (usb_tr s)" "\<not> tr_processing (usb_tr s)" "tr_cid (usb_tr s) = cid"
      "tr_next_seq (usb_tr (zf_transport_refresh_lock env s)) = seq"
      using rec receiving_refresh [OF rec, of env] by (auto simp: receiving_def Let_def)
    show ?thesis
      using t seq p(1-3) lock_free(1) [OF lock, of env] unfolding s3_def s2_def s1_def
      by (simp add: zf_transport_session_handle_packet_def Let_def zf_transport_handle_idle_packet_def
          zf_transport_handle_cont_packet_def zf_transport_validate_continuation_def)
  qed
  ultimately show ?thesis by blast
qed

lemma small_seq: "unat (seq :: byte) < 128 \<Longrightarrow> seq AND 0x80 = 0"
proof (rule bit_word_eqI)
  fix n
  assume "unat seq < 128" "n < LENGTH(8)"
  then have "take_bit 7 seq = seq"
    by (simp add: word_unat_eq_iff unsigned_take_bit_eq take_bit_nat_eq_self)
  then have "\<not> bit seq 7" by (metis bit_take_bit_iff less_irrefl)
  moreover have "bit (0x80 :: byte) n \<longleftrightarrow> n = 7"
    using \<open>n < LENGTH(8)\<close> by (auto simp: bit_simps less_Suc_eq numeral_eq_Suc)
  ultimately show "bit (seq AND 0x80) n = bit 0 n" by (auto simp: bit_simps)
qed

lemma incomplete: "receiving cid cmd d k seq s \<Longrightarrow> k < length d \<Longrightarrow> zf_transport_complete_if_ready env s = s"
  by (simp add: receiving_def Let_def zf_transport_complete_if_ready_def)

text \<open>The continuation reports bring the rest of the message, and the last one completes it.\<close>

lemma continuations_received:
  assumes "receiving cid cmd d k seq s" "k < length d" "length d \<le> ZF_MAX_MSG_SIZE"
    "59 * unat seq + (length d - k) \<le> ZF_MAX_MSG_SIZE"
  shows "\<exists>s' seq'. feed env (hid_continuations cid seq (drop k d)) s = zf_transport_complete_if_ready env s' \<and>
    receiving cid cmd d (length d) seq' s' \<and> same_host s s'"
  using assms
proof (induction "length d - k" arbitrary: k seq s rule: less_induct)
  case less
  have seq: "unat seq < 128" using less.prems(4) by (simp add: hid_sizes)
  from continuation_step [OF less.prems(1-3), of env] small_seq [OF seq]
  obtain s1 where s1: "snd (zf_transport_session_handle_packet env
      (hid_pad (le_bytes 4 cid @ [seq] @ take 59 (drop k d))) 0 s) = zf_transport_complete_if_ready env s1"
    "receiving cid cmd d (min (k + 59) (length d)) (seq + 1) s1" "same_host s s1"
    by (auto simp: ZF_CTAPHID_TYPE_INIT_def)
  have frames: "hid_continuations cid seq (drop k d) =
      hid_pad (le_bytes 4 cid @ [seq] @ take 59 (drop k d)) # hid_continuations cid (seq + 1) (drop (k + 59) d)"
    using less.prems(2) by (subst hid_continuations.simps) (simp add: hid_sizes add.commute)
  show ?case
  proof (cases "k + 59 < length d")
    case True
    have "unat (seq + 1) = unat seq + 1"
      using seq by (simp add: unat_word_ariths)
    then have "\<exists>s' seq'. feed env (hid_continuations cid (seq + 1) (drop (k + 59) d)) s1 =
        zf_transport_complete_if_ready env s' \<and> receiving cid cmd d (length d) seq' s' \<and> same_host s1 s'"
      using less.hyps [of "k + 59" "seq + 1" s1] s1(2) True less.prems(3,4) by simp
    with s1 True incomplete [of cid cmd d "k + 59" "seq + 1" s1] show ?thesis
      by (auto simp: frames dest: same_host_trans)
  next
    case False
    with s1 frames show ?thesis
      by (auto simp: hid_continuations.simps)
  qed
qed

text \<open>The transport is ready for a message on the channel.\<close>

definition ready_for :: "u32 \<Rightarrow> ('a, 'w) usb \<Rightarrow> bool" where
  "ready_for cid s \<longleftrightarrow> usb_wf s \<and> \<not> tr_active (usb_tr s) \<and> \<not> tr_processing (usb_tr s) \<and>
    tr_payload (usb_tr s) \<and> cid \<in> set (channels (usb_tr s)) \<and> tr_lock_cid (usb_tr s) \<in> {0, cid}"

lemma first_report:
  assumes ready: "ready_for cid s" and cmd: "cmd \<in> {ZF_CTAPHID_PING, ZF_CTAPHID_MSG, ZF_CTAPHID_CBOR}"
    and len: "length d \<le> ZF_MAX_MSG_SIZE" "d \<noteq> []"
  shows "\<exists>s'. snd (zf_transport_session_handle_packet env (hd (hid_frames cid cmd d)) 0 s) =
      zf_transport_complete_if_ready env s' \<and> receiving cid cmd d (min 57 (length d)) 0 s' \<and> same_host s s'"
proof -
  let ?n = "min 57 (length d)"
  define p where "p = hd (hid_frames cid cmd d)"
  have p: "length p = 64" "packet_cid p = cid" "p ! 4 = cmd" "packet_msg_len p = length d"
    "take ?n (drop 7 p) = take ?n (drop 0 d)"
    using len packet_msg_len_frame [of "length d" cid cmd]
    by (simp_all add: p_def hid_frames_def hid_pad_def hid_sizes packet_msg_len_def numeral_2_eq_2)
  define s0 where "s0 = zf_transport_touch_cid env cid (zf_transport_refresh_lock env s)"
  define s1 where "s1 = upd_tr (\<lambda>t. t\<lparr>tr_active := True, tr_cid := cid, tr_cmd := cmd,
      tr_total_len := length d, tr_next_seq := 0,
      tr_last_activity := usb_tick env (zf_transport_session_reset s0)\<rparr>) (zf_transport_session_reset s0)"
  have lock: "tr_lock_cid (usb_tr s) \<in> {0, cid}" using ready by (simp add: ready_for_def)
  have wf0: "usb_wf s0" "tr_payload (usb_tr s0)"
    using ready refresh_lock_wf [of s env] by (simp_all add: s0_def ready_for_def zf_transport_refresh_lock_def Let_def)
  from reset_wf' [OF wf0(1)] wf0(2) have "\<exists>arena. usb_arena s1 = Some arena \<and> length arena = ZF_TRANSPORT_ARENA_SIZE"
    "tr_payload_capacity (usb_tr (zf_transport_session_reset s0)) = ZF_MAX_MSG_SIZE"
    by (auto simp: s1_def usb_wf_def buffer_wf_def)
  then have rec1: "receiving cid cmd d 0 0 s1"
    using lock_free(2) [OF lock, of env] wf0(2) by (simp add: receiving_def Let_def s1_def) (simp add: s0_def)
  define s2 where "s2 = upd_tr (\<lambda>t. t\<lparr>tr_received_len := ?n\<rparr>) (payload_write 0 (take ?n (drop 0 d)) s1)"
  have "min (length p - 7) (tr_total_len (usb_tr s1)) = ?n" "?n \<noteq> 0"
    using p(1) len(2) rec1 by (simp_all add: receiving_def Let_def)
  with p(5) have "zf_transport_copy_init_payload p s1 = s2"
    unfolding zf_transport_copy_init_payload_def s2_def Let_def by presburger
  moreover have "receiving cid cmd d ?n 0 s2"
    using receiving_write [OF rec1 len(1) _ refl, of ?n] by (simp add: s2_def)
  moreover have "same_host s s2"
    by (simp add: s2_def s1_def same_host_def channels_def) (simp add: s0_def zf_transport_touch_cid_def)
  moreover have "snd (zf_transport_session_handle_packet env p 0 s) =
      zf_transport_complete_if_ready env (zf_transport_copy_init_payload p s1)"
  proof -
    let ?r = "zf_transport_refresh_lock env s"
    have t: "\<not> tr_active (usb_tr s)" "\<not> tr_processing (usb_tr s)" using ready by (simp_all add: ready_for_def)
    have al: "zf_transport_cid_is_allocated (usb_tr ?r) cid"
      using ready refresh_lock_wf [of s env] allocated_iff [of "usb_tr ?r" cid] by (simp add: ready_for_def usb_wf_def)
    have c: "cmd \<noteq> ZF_CTAPHID_CANCEL" "cmd \<noteq> ZF_CTAPHID_LOCK" "cmd \<noteq> ZF_CTAPHID_INIT" "cmd \<noteq> ZF_CTAPHID_WINK"
      "cmd AND ZF_CTAPHID_TYPE_INIT \<noteq> 0"
      using cmd by (auto simp: hid_consts)
    have cap: "tr_payload_capacity (usb_tr s0) = ZF_MAX_MSG_SIZE" using wf0 by (simp add: usb_wf_def buffer_wf_def)
    have bm: "zf_transport_begin_message env cid cmd (length d) s0 = (True, s1)"
      using wf0 cap len c by (simp add: zf_transport_begin_message_def zf_transport_validate_command_length_def
          Let_def s1_def)
    have "zf_transport_ensure_payload env s0 = (True, s0)"
      using wf0 cap by (simp add: zf_transport_ensure_payload_def)
    with t al c bm p(1-4) lock_free(1) [OF lock, of env] show ?thesis
      by (simp add: zf_transport_session_handle_packet_def Let_def zf_transport_handle_idle_packet_def
          zf_transport_handle_init_packet_def zf_transport_is_busy_for_cid_def
          zf_transport_handle_init_command_def flip: s0_def)
  qed
  ultimately show ?thesis unfolding p_def by metis
qed

text \<open>Fragmenting a message and feeding the reports assembles the message.\<close>

lemma message_assembled:
  assumes "ready_for cid s" "cmd \<in> {ZF_CTAPHID_PING, ZF_CTAPHID_MSG, ZF_CTAPHID_CBOR}"
    "length d \<le> ZF_MAX_MSG_SIZE" "d \<noteq> []"
  shows "\<exists>s' seq. feed env (hid_frames cid cmd d) s = zf_transport_complete_if_ready env s' \<and>
    receiving cid cmd d (length d) seq s' \<and> same_host s s'"
proof -
  obtain s1 where s1: "snd (zf_transport_session_handle_packet env (hd (hid_frames cid cmd d)) 0 s) =
      zf_transport_complete_if_ready env s1" "receiving cid cmd d (min 57 (length d)) 0 s1" "same_host s s1"
    using first_report [OF assms] by blast
  have frames: "hid_frames cid cmd d = hd (hid_frames cid cmd d) # hid_continuations cid 0 (drop 57 d)"
    by (simp add: hid_frames_def hid_sizes)
  show ?thesis
  proof (cases "57 < length d")
    case True
    then have rec: "receiving cid cmd d 57 0 s1" using s1(2) by simp
    have "59 * unat (0 :: byte) + (length d - 57) \<le> ZF_MAX_MSG_SIZE" using assms(3) by simp
    from continuations_received [OF rec True assms(3) this]
    obtain s' seq where "feed env (hid_continuations cid 0 (drop 57 d)) s1 = zf_transport_complete_if_ready env s'"
      "receiving cid cmd d (length d) seq s'" "same_host s1 s'" by blast
    moreover have "feed env (hid_frames cid cmd d) s = feed env (hid_continuations cid 0 (drop 57 d)) s1"
      by (subst frames) (simp add: s1(1) incomplete [OF rec True])
    ultimately show ?thesis using same_host_trans [OF s1(3)] by metis
  next
    case False
    with s1 show ?thesis by (subst frames) (auto simp: hid_continuations.simps)
  qed
qed

end
