(* ===== verification/Usb_Worker.thy ===== *)
theory Usb_Worker
  imports Usb_Hid_Exact
begin

text \<open>
  \<^verbatim>\<open>transport/usb_hid_worker.c\<close>: the thread that owns the CTAPHID session. Thread flags arrive from
  the USB callbacks and the user interface; what \<open>furi_thread_flags_wait\<close> returns, what other threads
  do meanwhile and which reports the HAL then delivers are given as a list of wake-ups. The list of
  reports of a wake-up ends where \<open>furi_hal_hid_u2f_get_request\<close> returns zero.
\<close>

definition ZF_WORKER_EVT_STOP :: u32 where "ZF_WORKER_EVT_STOP = 1"
definition ZF_WORKER_EVT_CONNECT :: u32 where "ZF_WORKER_EVT_CONNECT = 2"
definition ZF_WORKER_EVT_DISCONNECT :: u32 where "ZF_WORKER_EVT_DISCONNECT = 4"
definition ZF_WORKER_EVT_REQUEST :: u32 where "ZF_WORKER_EVT_REQUEST = 8"
definition ZF_WORKER_EVT_APPROVAL :: u32 where "ZF_WORKER_EVT_APPROVAL = 16"
definition ZF_KEEPALIVE_UPNEEDED :: byte where "ZF_KEEPALIVE_UPNEEDED = 0x02"

lemmas worker_flags = ZF_WORKER_EVT_STOP_def ZF_WORKER_EVT_CONNECT_def ZF_WORKER_EVT_DISCONNECT_def
  ZF_WORKER_EVT_REQUEST_def ZF_WORKER_EVT_APPROVAL_def

text \<open>\<open>wk_connected\<close> is \<open>app->transport_connected\<close>, \<open>wk_stop\<close> a pending stop flag of the thread.\<close>

record ('a, 'w) worker =
  wk_usb :: "('a, 'w) usb"
  wk_connected :: bool
  wk_stop :: bool

text \<open>The environment of the worker: the session's, and \<open>zf_u2f_adapter_set_connected\<close>.\<close>

type_synonym ('a, 'w) worker_env = "('a, 'w) usb_env \<times> (bool \<Rightarrow> ('a, 'w) usb \<Rightarrow> ('a, 'w) usb)"

datatype wait_result = WaitTimeout | WaitError | WaitFlags u32

type_synonym ('a, 'w) wake_up = "(('a, 'w) worker \<Rightarrow> ('a, 'w) worker) \<times> wait_result \<times> bytes list"

definition upd_usb :: "(('a, 'w) usb \<Rightarrow> ('a, 'w) usb) \<Rightarrow> ('a, 'w) worker \<Rightarrow> ('a, 'w) worker" where
  "upd_usb f wk = wk\<lparr>wk_usb := f (wk_usb wk)\<rparr>"

definition request_cancel :: "('a, 'w) worker \<Rightarrow> ('a, 'w) worker" where
  "request_cancel wk = upd_usb (upd_tr (\<lambda>t. t\<lparr>tr_processing_cancel_requested := True\<rparr>)) wk"

definition zf_transport_stop_requested :: "('a, 'w) worker \<Rightarrow> bool" where
  "zf_transport_stop_requested wk \<longleftrightarrow> tr_stopping (usb_tr (wk_usb wk)) \<or> wk_stop wk"

definition zf_transport_worker_apply_actions :: "u32 \<Rightarrow> ('a, 'w) usb \<Rightarrow> ('a, 'w) usb" where
  "zf_transport_worker_apply_actions actions s =
    (if actions AND ZF_TRANSPORT_ACTION_CANCEL_PENDING_INTERACTION = 0 then s
     else s\<lparr>usb_app := snd (zerofido_ui_cancel_pending_interaction (usb_app s))\<rparr>)"

definition zf_transport_worker_on_connect ::
  "('a, 'w) worker_env \<Rightarrow> ('a, 'w) worker \<Rightarrow> ('a, 'w) worker" where
  "zf_transport_worker_on_connect env wk =
    (if wk_connected wk then wk
     else (upd_usb (\<lambda>s. snd env True (zf_transport_session_expire_lock (zf_transport_session_reset s))) wk)
       \<lparr>wk_connected := True\<rparr>)"

definition zf_transport_worker_on_disconnect ::
  "('a, 'w) worker_env \<Rightarrow> ('a, 'w) worker \<Rightarrow> ('a, 'w) worker" where
  "zf_transport_worker_on_disconnect env wk =
    (upd_usb (\<lambda>s.
       let s = s\<lparr>usb_app := snd (zerofido_ui_cancel_pending_interaction (usb_app s))\<rparr>
       in snd env False (zf_transport_session_expire_lock (zf_transport_session_reset s))) wk)
     \<lparr>wk_connected := False\<rparr>"

definition zf_transport_handle_worker_flags ::
  "('a, 'w) worker_env \<Rightarrow> u32 \<Rightarrow> ('a, 'w) worker \<Rightarrow> ('a, 'w) worker" where
  "zf_transport_handle_worker_flags env flags wk =
    (let wk = (if flags AND ZF_WORKER_EVT_CONNECT \<noteq> 0 then zf_transport_worker_on_connect env wk else wk)
     in if flags AND ZF_WORKER_EVT_DISCONNECT \<noteq> 0 then zf_transport_worker_on_disconnect env wk else wk)"

definition zf_transport_tick :: "('a, 'w) worker_env \<Rightarrow> ('a, 'w) usb \<Rightarrow> ('a, 'w) usb" where
  "zf_transport_tick env s = zf_transport_session_tick (usb_tick (fst env) s) s"

text \<open>The control reports read while a command runs; \<open>False\<close> when the command has to stop.\<close>

fun zf_transport_drain_processing_control_requests ::
  "('a, 'w) worker_env \<Rightarrow> bytes list \<Rightarrow> ('a, 'w) worker \<Rightarrow> bool \<times> ('a, 'w) worker" where
  "zf_transport_drain_processing_control_requests env reads wk =
    (if zf_transport_stop_requested wk then (False, request_cancel wk)
     else case reads of
         [] \<Rightarrow> (True, wk)
       | packet # reads \<Rightarrow>
          (case zf_transport_session_handle_processing_control (fst env) packet 0 (wk_usb wk) of
             (status, actions, s) \<Rightarrow>
               let wk = wk\<lparr>wk_usb := zf_transport_worker_apply_actions actions s\<rparr>
               in if status \<noteq> ZF_CTAP_SUCCESS then (False, wk)
                  else zf_transport_drain_processing_control_requests env reads wk))"

text \<open>One transaction: reports are read until the session is no longer assembling.\<close>

fun handle_request_loop ::
  "('a, 'w) worker_env \<Rightarrow> u32 \<Rightarrow> bytes list \<Rightarrow> ('a, 'w) worker \<Rightarrow> ('a, 'w) worker" where
  "handle_request_loop env actions reads wk =
    (if zf_transport_stop_requested wk then request_cancel wk
     else case reads of
         [] \<Rightarrow> wk
       | packet # reads \<Rightarrow>
          let wk = zf_transport_worker_on_connect env wk;
              (actions, s) = zf_transport_session_handle_packet (fst env) packet actions (wk_usb wk);
              wk = wk\<lparr>wk_usb := zf_transport_worker_apply_actions actions s\<rparr>
          in if \<not> tr_active (usb_tr (wk_usb wk)) then wk
             else handle_request_loop env actions reads wk)"

text \<open>
  Without the request flag one report is read before the loop, with it inside the loop; either way the
  reports are handled in the order in which they are read.
\<close>

definition zf_transport_handle_request ::
  "('a, 'w) worker_env \<Rightarrow> u32 \<Rightarrow> bytes list \<Rightarrow> ('a, 'w) worker \<Rightarrow> ('a, 'w) worker" where
  "zf_transport_handle_request env flags reads wk =
    (if zf_transport_stop_requested wk then request_cancel wk
     else if flags AND ZF_WORKER_EVT_REQUEST = 0 \<and> reads = [] then wk
     else handle_request_loop env 0 reads wk)"

definition zf_transport_usb_hid_poll_cbor_control ::
  "('a, 'w) worker_env \<Rightarrow> u32 \<Rightarrow> bytes list \<Rightarrow> ('a, 'w) worker \<Rightarrow> ctap_status \<times> ('a, 'w) worker" where
  "zf_transport_usb_hid_poll_cbor_control env current_session_id reads wk =
    (let t = usb_tr (wk_usb wk); canceled = (\<lambda>wk. (ZF_CTAP_ERR_KEEPALIVE_CANCEL, request_cancel wk)) in
     if \<not> tr_processing t \<or> tr_cmd t \<noteq> ZF_CTAPHID_CBOR \<or> tr_cid t \<noteq> current_session_id
     then (ZF_CTAP_SUCCESS, wk)
     else if zf_transport_stop_requested wk \<or> tr_processing_cancel_requested t then canceled wk
     else case zf_transport_drain_processing_control_requests env reads wk of
         (False, wk) \<Rightarrow> canceled wk
       | (True, wk) \<Rightarrow>
          if zf_transport_stop_requested wk \<or> tr_processing_cancel_requested (usb_tr (wk_usb wk))
          then canceled wk
          else (ZF_CTAP_SUCCESS, upd_usb (zf_transport_tick env) wk))"

definition send_keepalive :: "u32 \<Rightarrow> ('a, 'w) worker \<Rightarrow> ('a, 'w) worker" where
  "send_keepalive session_id wk =
    upd_usb (zf_transport_session_send_frames session_id ZF_CTAPHID_KEEPALIVE [ZF_KEEPALIVE_UPNEEDED]) wk"

definition must_stop :: "('a, 'w) worker \<Rightarrow> bool" where
  "must_stop wk \<longleftrightarrow> zf_transport_stop_requested wk \<or> tr_processing_cancel_requested (usb_tr (wk_usb wk))"

text \<open>
  The wait for the user. \<open>None\<close>: it has not returned when the wake-ups are used up; \<open>Some None\<close>: it
  returned \<open>false\<close>; \<open>Some (Some approved)\<close>: the prompt was completed.
\<close>

fun wait_loop ::
  "('a, 'w) worker_env \<Rightarrow> u32 \<Rightarrow> bool \<Rightarrow> bool \<Rightarrow> ('a, 'w) wake_up list \<Rightarrow> ('a, 'w) worker \<Rightarrow>
    (bool option \<times> ('a, 'w) worker) option" where
  "wait_loop env session_id keepalive sent wakes wk =
    (let app = usb_app (wk_usb wk); ap = app_approval app in
     if ap_done ap > 0 then
       Some (Some (ap_state ap = ZfApprovalApproved),
         upd_usb (\<lambda>s. s\<lparr>usb_app := app\<lparr>app_approval := ap\<lparr>ap_done := ap_done ap - 1\<rparr>\<rparr>\<rparr>) wk)
     else
       let wk = (if keepalive \<and> \<not> sent then send_keepalive session_id wk else wk) in
       case wakes of
         [] \<Rightarrow> None
       | (others, result, reads) # wakes \<Rightarrow>
          let wk = others wk in
          (case result of
             WaitError \<Rightarrow> Some (None, wk)
           | WaitTimeout \<Rightarrow>
              let wk = zf_transport_handle_request env 0 reads wk in
              if must_stop wk then Some (None, request_cancel wk)
              else
                let wk = (if keepalive then send_keepalive session_id wk else wk)
                in wait_loop env session_id keepalive (sent \<or> keepalive) wakes
                     (upd_usb (zf_transport_tick env) wk)
           | WaitFlags flags \<Rightarrow>
              if flags AND ZF_WORKER_EVT_STOP \<noteq> 0 then Some (None, wk)
              else
                let wk = zf_transport_handle_worker_flags env flags wk;
                    wk = zf_transport_handle_request env flags reads wk in
                if must_stop wk then Some (None, request_cancel wk)
                else wait_loop env session_id keepalive (sent \<or> keepalive) wakes
                  (upd_usb (zf_transport_tick env) wk)))"

definition zf_transport_usb_hid_wait_for_interaction ::
  "('a, 'w) worker_env \<Rightarrow> u32 \<Rightarrow> ('a, 'w) wake_up list \<Rightarrow> ('a, 'w) worker \<Rightarrow>
    (bool option \<times> ('a, 'w) worker) option" where
  "zf_transport_usb_hid_wait_for_interaction env current_session_id wakes wk =
    wait_loop env current_session_id (tr_cmd (usb_tr (wk_usb wk)) = ZF_CTAPHID_CBOR) False wakes wk"

text \<open>The main loop: whether it has ended, and the worker it leaves.\<close>

fun worker_loop ::
  "('a, 'w) worker_env \<Rightarrow> ('a, 'w) wake_up list \<Rightarrow> ('a, 'w) worker \<Rightarrow> bool \<times> ('a, 'w) worker" where
  "worker_loop env [] wk = (False, wk)"
| "worker_loop env ((others, result, reads) # wakes) wk =
    (let wk = others wk in
     case result of
       WaitError \<Rightarrow> (True, wk)
     | _ \<Rightarrow>
        let flags = (case result of WaitFlags flags \<Rightarrow> flags | _ \<Rightarrow> 0) in
        if flags AND ZF_WORKER_EVT_STOP \<noteq> 0 then (True, wk)
        else
          let wk = zf_transport_handle_worker_flags env flags wk;
              wk = zf_transport_handle_request env flags reads wk in
          if zf_transport_stop_requested wk then (True, wk)
          else worker_loop env wakes (upd_usb (zf_transport_tick env) wk))"

definition transport_zero :: ZfTransportState where
  "transport_zero =
    \<lparr>tr_active = False, tr_processing = False, tr_processing_resync = False,
     tr_processing_cancel_requested = False, tr_stopping = False, tr_processing_generation = 0,
     tr_cid = 0, tr_cmd = 0, tr_total_len = 0, tr_received_len = 0, tr_next_seq = 0,
     tr_last_activity = 0, tr_lock_cid = 0, tr_lock_expires_at = 0, tr_payload = False,
     tr_payload_capacity = 0, tr_allocated_cids = []\<rparr>"

text \<open>
  The thread from start to shutdown. \<open>usb_claimed\<close> is whether the U2F interface could be configured,
  \<open>connected\<close> what \<open>furi_hal_hid_u2f_is_connected\<close> reports at the start.
\<close>

definition zf_transport_usb_hid_worker ::
  "('a, 'w) worker_env \<Rightarrow> bool \<Rightarrow> bool \<Rightarrow> ('a, 'w) wake_up list \<Rightarrow> ('a, 'w) worker \<Rightarrow>
    bool \<times> ('a, 'w) worker" where
  "zf_transport_usb_hid_worker env usb_claimed connected wakes wk =
    (let wk = upd_usb (upd_tr (\<lambda>_. transport_zero)) wk in
     case zf_app_transport_arena_acquire (fst env) (wk_usb wk) of
       (False, s) \<Rightarrow> (True, wk\<lparr>wk_usb := s, wk_connected := False\<rparr>)
     | (True, s) \<Rightarrow>
        let wk = wk\<lparr>wk_usb := zf_transport_session_attach_arena ZF_MAX_MSG_SIZE s\<rparr> in
        if \<not> usb_claimed
        then (True, upd_usb zf_app_transport_arena_release (wk\<lparr>wk_connected := False\<rparr>))
        else
          let wk = (if connected then zf_transport_worker_on_connect env wk else wk) in
          case worker_loop env wakes wk of
            (False, wk) \<Rightarrow> (False, wk)
          | (True, wk) \<Rightarrow>
             (True, upd_usb (\<lambda>s. zf_app_transport_arena_release (zf_transport_session_reset s))
                (zf_transport_worker_on_disconnect env wk)))"

definition zf_transport_usb_hid_stop :: "('a, 'w) worker \<Rightarrow> ('a, 'w) worker" where
  "zf_transport_usb_hid_stop wk =
    (upd_usb (\<lambda>s. upd_tr (\<lambda>t. t\<lparr>tr_stopping := True, tr_processing_cancel_requested := True\<rparr>)
       (s\<lparr>usb_app := (usb_app s)\<lparr>app_approval := (app_approval (usb_app s))\<lparr>ap_done := 1\<rparr>\<rparr>\<rparr>)) wk)
     \<lparr>wk_stop := True\<rparr>"

declare zf_transport_drain_processing_control_requests.simps [simp del]
declare handle_request_loop.simps [simp del]
declare wait_loop.simps [simp del]

section \<open>The worker keeps the session well formed\<close>

definition worker_env_wf :: "('a, 'w) worker_env \<Rightarrow> bool" where
  "worker_env_wf env \<longleftrightarrow> env_wf (fst env) \<and> (\<forall>b s. usb_wf s \<longrightarrow> usb_wf (snd env b s))"

text \<open>Other threads do not touch the session, up to the flags that ask it to stop.\<close>

definition wake_ups_wf :: "('a, 'w) wake_up list \<Rightarrow> bool" where
  "wake_ups_wf wakes \<longleftrightarrow> (\<forall>(others, result, reads) \<in> set wakes.
    \<forall>wk. usb_wf (wk_usb wk) \<longrightarrow> usb_wf (wk_usb (others wk)))"

lemma upd_usb_sel [simp]:
  "wk_usb (upd_usb f wk) = f (wk_usb wk)" "wk_connected (upd_usb f wk) = wk_connected wk"
  "wk_stop (upd_usb f wk) = wk_stop wk"
  by (simp_all add: upd_usb_def)

lemma usb_wf_app [simp]: "usb_wf (s\<lparr>usb_app := a\<rparr>) = usb_wf s"
  by (rule usb_wf_cong) simp_all

lemma apply_actions_wf [simp]: "usb_wf (zf_transport_worker_apply_actions actions s) = usb_wf s"
  by (simp add: zf_transport_worker_apply_actions_def)

lemma request_cancel_wf: "usb_wf (wk_usb wk) \<Longrightarrow> usb_wf (wk_usb (request_cancel wk))"
  by (simp add: request_cancel_def control_flags_wf(3))

lemma on_connect_wf:
  "worker_env_wf env \<Longrightarrow> usb_wf (wk_usb wk) \<Longrightarrow> usb_wf (wk_usb (zf_transport_worker_on_connect env wk))"
  by (simp add: zf_transport_worker_on_connect_def worker_env_wf_def expire_lock_wf reset_wf')

lemma on_disconnect_wf:
  "worker_env_wf env \<Longrightarrow> usb_wf (wk_usb wk) \<Longrightarrow> usb_wf (wk_usb (zf_transport_worker_on_disconnect env wk))"
  by (simp add: zf_transport_worker_on_disconnect_def worker_env_wf_def expire_lock_wf reset_wf')

lemma worker_flags_wf:
  "worker_env_wf env \<Longrightarrow> usb_wf (wk_usb wk) \<Longrightarrow>
     usb_wf (wk_usb (zf_transport_handle_worker_flags env flags wk))"
  by (simp add: zf_transport_handle_worker_flags_def Let_def on_connect_wf on_disconnect_wf)

lemma request_loop_wf:
  assumes "worker_env_wf env" "usb_wf (wk_usb wk)"
  shows "usb_wf (wk_usb (handle_request_loop env actions reads wk))"
  using assms(2)
proof (induction reads arbitrary: actions wk)
  case Nil
  then show ?case by (simp add: handle_request_loop.simps request_cancel_wf)
next
  case (Cons packet reads)
  let ?wk = "zf_transport_worker_on_connect env wk"
  obtain a s where h: "zf_transport_session_handle_packet (fst env) packet actions (wk_usb ?wk) = (a, s)"
    by fastforce
  have "usb_wf s"
    using handle_packet_wf [OF _ on_connect_wf [OF assms(1) Cons.prems] h] assms(1)
    by (simp add: worker_env_wf_def)
  with Cons h show ?case
    by (simp add: handle_request_loop.simps [of env actions "packet # reads"] request_cancel_wf Let_def)
qed

lemma handle_request_wf:
  "worker_env_wf env \<Longrightarrow> usb_wf (wk_usb wk) \<Longrightarrow> usb_wf (wk_usb (zf_transport_handle_request env flags reads wk))"
  by (simp add: zf_transport_handle_request_def request_cancel_wf request_loop_wf)

lemma worker_loop_wf:
  assumes env: "worker_env_wf env" and "wake_ups_wf wakes" "usb_wf (wk_usb wk)"
  shows "usb_wf (wk_usb (snd (worker_loop env wakes wk)))"
  using assms(2,3)
proof (induction wakes arbitrary: wk)
  case (Cons wake wakes)
  obtain others result reads where wake: "wake = (others, result, reads)" by (metis prod_cases3)
  have wk: "usb_wf (wk_usb (others wk))" and rest: "wake_ups_wf wakes"
    using Cons.prems wake by (auto simp: wake_ups_wf_def)
  have step: "usb_wf (wk_usb (zf_transport_handle_request env flags reads
      (zf_transport_handle_worker_flags env flags (others wk))))" for flags
    using handle_request_wf [OF env worker_flags_wf [OF env wk]] .
  then have "usb_wf (wk_usb (upd_usb (zf_transport_tick env) (zf_transport_handle_request env flags reads
      (zf_transport_handle_worker_flags env flags (others wk)))))" for flags
    by (simp add: zf_transport_tick_def tick_wf)
  from Cons.IH [OF rest this] step wk show ?case
    by (simp add: wake Let_def split: wait_result.split)
qed simp

lemma transport_zero_wf: "usb_arena s = Some arena \<Longrightarrow> length arena = ZF_TRANSPORT_ARENA_SIZE \<Longrightarrow>
    usb_tr s = transport_zero\<lparr>tr_payload := True, tr_payload_capacity := ZF_MAX_MSG_SIZE\<rparr> \<Longrightarrow> usb_wf s"
  by (simp add: usb_wf_def channels_wf_def channels_def buffer_wf_def assembly_wf_def transport_zero_def)

section \<open>Cancellation by the host\<close>

text \<open>A CANCEL report of a channel.\<close>

definition cancel_report :: "u32 \<Rightarrow> bytes" where
  "cancel_report cid = hid_pad (le_bytes 4 cid @ [ZF_CTAPHID_CANCEL, 0, 0])"

lemma cancel_report_fields:
  "length (cancel_report cid) = 64" "packet_cid (cancel_report cid) = cid"
  "cancel_report cid ! 4 = ZF_CTAPHID_CANCEL" "packet_msg_len (cancel_report cid) = 0"
  by (simp_all add: cancel_report_def hid_pad_def ZF_CTAPHID_PACKET_SIZE_def packet_msg_len_def be_value_def)

text \<open>The command that is being processed is canceled by the report of its channel.\<close>

lemma cancel_handled:
  assumes "tr_processing (usb_tr s)" "tr_cmd (usb_tr s) = ZF_CTAPHID_CBOR" "tr_cid (usb_tr s) = cid"
    "tr_lock_cid (usb_tr s) \<in> {0, cid}" "\<not> tr_active (usb_tr s)"
  shows "\<exists>s'. zf_transport_session_handle_packet env (cancel_report cid) 0 s =
      (ZF_TRANSPORT_ACTION_CANCEL_PENDING_INTERACTION, s') \<and>
    tr_processing_cancel_requested (usb_tr s') \<and> \<not> tr_active (usb_tr s') \<and> usb_sent s' = usb_sent s \<and>
    usb_app s' = usb_app s"
proof -
  let ?s = "zf_transport_refresh_lock env s"
  have t: "tr_processing (usb_tr ?s)" "tr_cmd (usb_tr ?s) = ZF_CTAPHID_CBOR" "tr_cid (usb_tr ?s) = cid"
    "\<not> tr_active (usb_tr ?s)"
    using assms by (simp_all add: zf_transport_refresh_lock_def Let_def)
  have "zf_transport_session_handle_packet env (cancel_report cid) 0 s =
      (ZF_TRANSPORT_ACTION_CANCEL_PENDING_INTERACTION,
       upd_tr (\<lambda>t. t\<lparr>tr_processing_cancel_requested := True\<rparr>) ?s)"
    using t lock_free(1) [OF assms(4), of env] cancel_report_fields [of cid]
    by (simp add: zf_transport_session_handle_packet_def Let_def zf_transport_handle_processing_packet_def
        zf_transport_handle_init_packet_def zf_transport_is_busy_for_cid_def zf_transport_add_action_def
        zf_transport_handle_init_command_def ZF_CTAPHID_CANCEL_def ZF_CTAPHID_TYPE_INIT_def)
  with assms show ?thesis by simp
qed

lemma cancel_ends_wait_loop:
  assumes t: "tr_processing (usb_tr (wk_usb wk))" "tr_cmd (usb_tr (wk_usb wk)) = ZF_CTAPHID_CBOR"
    "tr_cid (usb_tr (wk_usb wk)) = cid" "tr_lock_cid (usb_tr (wk_usb wk)) \<in> {0, cid}"
    "\<not> tr_active (usb_tr (wk_usb wk))"
    and run: "\<not> zf_transport_stop_requested wk" "wk_connected wk"
    and pending: "ap_done (app_approval (usb_app (wk_usb wk))) = 0"
      "ap_state (app_approval (usb_app (wk_usb wk))) = ZfApprovalPending"
    and result: "result = WaitTimeout \<or> result = WaitFlags ZF_WORKER_EVT_REQUEST"
  shows "\<exists>wk'. wait_loop env cid ka sent ((id, result, cancel_report cid # reads) # wakes) wk = Some (None, wk') \<and>
    tr_processing_cancel_requested (usb_tr (wk_usb wk')) \<and>
    ap_state (app_approval (usb_app (wk_usb wk'))) = ZfApprovalCanceled"
proof -
  define wk1 where "wk1 = (if ka \<and> \<not> sent then send_keepalive cid wk else wk)"
  have t1: "tr_processing (usb_tr (wk_usb wk1))" "tr_cmd (usb_tr (wk_usb wk1)) = ZF_CTAPHID_CBOR"
    "tr_cid (usb_tr (wk_usb wk1)) = cid" "tr_lock_cid (usb_tr (wk_usb wk1)) \<in> {0, cid}"
    "\<not> tr_active (usb_tr (wk_usb wk1))" "usb_app (wk_usb wk1) = usb_app (wk_usb wk)"
    "\<not> zf_transport_stop_requested wk1" "wk_connected wk1"
    using t run by (simp_all add: wk1_def send_keepalive_def zf_transport_stop_requested_def)
  obtain s' where s': "zf_transport_session_handle_packet (fst env) (cancel_report cid) 0 (wk_usb wk1) =
      (ZF_TRANSPORT_ACTION_CANCEL_PENDING_INTERACTION, s')"
    "tr_processing_cancel_requested (usb_tr s')" "\<not> tr_active (usb_tr s')" "usb_app s' = usb_app (wk_usb wk)"
    using cancel_handled [OF t1(1-5), of "fst env"] t1(6) by auto
  define wk2 where "wk2 = wk1\<lparr>wk_usb := zf_transport_worker_apply_actions
      ZF_TRANSPORT_ACTION_CANCEL_PENDING_INTERACTION s'\<rparr>"
  have loop: "handle_request_loop env 0 (cancel_report cid # reads) wk1 = wk2"
    using t1(7,8) s' by (simp add: handle_request_loop.simps Let_def zf_transport_worker_on_connect_def wk2_def
        zf_transport_worker_apply_actions_def ZF_TRANSPORT_ACTION_CANCEL_PENDING_INTERACTION_def)
  then have req: "zf_transport_handle_request env flags (cancel_report cid # reads) wk1 = wk2" for flags
    using t1(7) by (simp add: zf_transport_handle_request_def)
  have stop: "must_stop wk2" "tr_processing_cancel_requested (usb_tr (wk_usb (request_cancel wk2)))"
    "ap_state (app_approval (usb_app (wk_usb (request_cancel wk2)))) = ZfApprovalCanceled"
    using s' pending by (simp_all add: must_stop_def wk2_def zf_transport_worker_apply_actions_def request_cancel_def
        ZF_TRANSPORT_ACTION_CANCEL_PENDING_INTERACTION_def approval_defs Let_def)
  have flags: "zf_transport_handle_worker_flags env ZF_WORKER_EVT_REQUEST wk1 = wk1"
    by (simp add: zf_transport_handle_worker_flags_def worker_flags)
  have "wait_loop env cid ka sent ((id, result, cancel_report cid # reads) # wakes) wk = Some (None, request_cancel wk2)"
    using result pending(1) req stop(1) flags
    by (auto simp: wait_loop.simps [of env cid ka sent "_ # _"] Let_def worker_flags simp flip: wk1_def)
  with stop(2,3) show ?thesis by blast
qed

end
