(* ===== verification/Usb_Properties.thy ===== *)
theory Usb_Properties
  imports Usb_Worker Sim_Platform
begin

text \<open>The properties of the CTAPHID session and its worker thread.\<close>

section \<open>A session for the concrete runs\<close>

definition sim_usb_env :: "(unit, sim) usb_env" where
  "sim_usb_env = \<lparr>env_build = sim_build, env_hal = sim_hal, env_malloc = (\<lambda>w. True),
    env_u2f = (\<lambda>cid request capacity s. (take capacity [0x90, 0x00], s)),
    env_ctap2 = (\<lambda>cid request capacity s. (take capacity [0x00], s)), env_wink = (\<lambda>s. s)\<rparr>"

definition sim_usb :: "(unit, sim) usb" where
  "sim_usb = \<lparr>usb_tr = transport_zero\<lparr>tr_payload := True, tr_payload_capacity := ZF_MAX_MSG_SIZE,
      tr_allocated_cids := [\<lparr>ac_cid = 5, ac_last_used = 0\<rparr>, \<lparr>ac_cid = 6, ac_last_used = 0\<rparr>]\<rparr>,
    usb_arena = Some (replicate ZF_TRANSPORT_ARENA_SIZE 0), usb_app = sim_app, usb_sent = [],
    usb_world = Map.empty\<rparr>"

lemma sim_usb_wf: "usb_wf sim_usb"
  by (simp add: usb_wf_def channels_wf_def channels_def buffer_wf_def assembly_wf_def sim_usb_def
      transport_zero_def zf_transport_cid_is_reserved_def ZF_RESERVED_CID_def ZF_BROADCAST_CID_def hid_sizes)

lemma sim_usb_ready: "ready_for 5 sim_usb"
  using sim_usb_wf by (simp add: ready_for_def) (simp add: sim_usb_def transport_zero_def channels_def)

lemma sim_usb_env_wf: "env_wf sim_usb_env"
  by (auto simp: env_wf_def handler_wf_def sim_usb_env_def)

section \<open>Messages\<close>

lemma complete_message:
  assumes rec: "receiving cid cmd d (length d) seq s" and "d \<noteq> []"
    and cmd: "cmd = ZF_CTAPHID_PING \<and> protocol = ZfTransportProtocolKindPing \<or>
      cmd = ZF_CTAPHID_CBOR \<and> protocol = ZfTransportProtocolKindCtap2"
  shows "\<exists>s1. zf_transport_complete_if_ready env s = zf_transport_dispatch_complete_message env cid protocol d s1 \<and>
    same_host s s1 \<and> tr_processing_generation (usb_tr s1) = 0 \<and> \<not> tr_processing_cancel_requested (usb_tr s1) \<and>
    \<not> tr_active (usb_tr s1) \<and> (\<exists>arena. usb_arena s1 = Some arena \<and> length arena = ZF_TRANSPORT_ARENA_SIZE)"
proof -
  define s1 where "s1 = upd_tr (\<lambda>t. t\<lparr>tr_active := False\<rparr>) s"
  have t: "tr_received_len (usb_tr s) = tr_total_len (usb_tr s)" "tr_total_len (usb_tr s1) = length d"
    "tr_cmd (usb_tr s1) = cmd" "tr_cid (usb_tr s1) = cid" "tr_payload (usb_tr s1)"
    "tr_payload_capacity (usb_tr s1) = ZF_MAX_MSG_SIZE"
    using rec by (simp_all add: receiving_def Let_def s1_def)
  have bytes: "payload_bytes (length d) s1 = d"
    using rec by (auto simp: receiving_def payload_bytes_def s1_def)
  have "zf_transport_ensure_payload env s1 = (True, s1)"
    using t by (simp add: zf_transport_ensure_payload_def)
  with t cmd bytes have "zf_transport_complete_if_ready env s =
      zf_transport_dispatch_complete_message env cid protocol d s1"
    by (auto simp: zf_transport_complete_if_ready_def zf_transport_try_send_u2f_validation_error_def
        Let_def hid_consts simp flip: s1_def)
  moreover have "same_host s s1" by (simp add: s1_def same_host_def channels_def)
  moreover have "tr_processing_generation (usb_tr s1) = 0 \<and> \<not> tr_processing_cancel_requested (usb_tr s1) \<and>
    \<not> tr_active (usb_tr s1) \<and> (\<exists>arena. usb_arena s1 = Some arena \<and> length arena = ZF_TRANSPORT_ARENA_SIZE)"
    using rec by (auto simp: receiving_def Let_def s1_def)
  ultimately show ?thesis by blast
qed

lemma dispatch_ping_quiet:
  assumes "usb_arena s = Some arena" "length arena = ZF_TRANSPORT_ARENA_SIZE"
    "tr_processing_generation (usb_tr s) = 0" "\<not> tr_processing_cancel_requested (usb_tr s)" "d \<noteq> []"
  shows "let s' = zf_transport_dispatch_complete_message env cid ZfTransportProtocolKindPing d s in
    usb_sent s' = usb_sent s @ hid_frames cid ZF_CTAPHID_PING d \<and>
    tr_active (usb_tr s') = tr_active (usb_tr s) \<and> \<not> tr_processing (usb_tr s') \<and>
    tr_processing_generation (usb_tr s') = 1"
  using assms
  by (auto simp: zf_transport_dispatch_complete_message_def Let_def zf_app_transport_arena_acquire_def
      run_protocol_def zf_transport_dispatch_ping_def
      zf_transport_dispatch_begin_def zf_transport_dispatch_was_interrupted_def
      zf_transport_usb_hid_send_dispatch_result_def zf_transport_dispatch_abort_if_interrupted_def
      zf_app_transport_arena_wipe_def zf_transport_session_send_frames_def payload_write_def upd_tr_def)

text \<open>
  C20. A ping of any length up to the message size is echoed: the reports into which the message is
  fragmented, received one by one, make the device send exactly the same reports back, after which the
  session is idle again.
\<close>

theorem ping_echo:
  assumes "ready_for cid s" and "d \<noteq> []" and "length d \<le> ZF_MAX_MSG_SIZE"
  shows "usb_sent (feed env (hid_frames cid ZF_CTAPHID_PING d) s) =
      usb_sent s @ hid_frames cid ZF_CTAPHID_PING d \<and>
    \<not> tr_active (usb_tr (feed env (hid_frames cid ZF_CTAPHID_PING d) s)) \<and>
    \<not> tr_processing (usb_tr (feed env (hid_frames cid ZF_CTAPHID_PING d) s))"
proof -
  obtain s1 seq where s1: "feed env (hid_frames cid ZF_CTAPHID_PING d) s = zf_transport_complete_if_ready env s1"
    "receiving cid ZF_CTAPHID_PING d (length d) seq s1" "same_host s s1"
    using message_assembled [OF assms(1) _ assms(3,2), of ZF_CTAPHID_PING] by blast
  from complete_message [OF s1(2) assms(2), of ZfTransportProtocolKindPing env]
  obtain s2 arena where s2: "zf_transport_complete_if_ready env s1 =
      zf_transport_dispatch_complete_message env cid ZfTransportProtocolKindPing d s2" "same_host s1 s2"
    "tr_processing_generation (usb_tr s2) = 0" "\<not> tr_processing_cancel_requested (usb_tr s2)"
    "\<not> tr_active (usb_tr s2)" "usb_arena s2 = Some arena" "length arena = ZF_TRANSPORT_ARENA_SIZE"
    by blast
  from dispatch_ping_quiet [OF s2(6,7,3,4) assms(2), of env cid] s1 s2
  show ?thesis by (simp add: Let_def same_host_def)
qed

theorem ping_echo_witness:
  "usb_sent (feed sim_usb_env (hid_frames 5 ZF_CTAPHID_PING (replicate 200 7)) sim_usb) =
      hid_frames 5 ZF_CTAPHID_PING (replicate 200 7) \<and>
   \<not> tr_processing (usb_tr (feed sim_usb_env (hid_frames 5 ZF_CTAPHID_PING (replicate 200 7)) sim_usb))"
  using ping_echo [OF sim_usb_ready, of "replicate 200 7" sim_usb_env]
  by (simp add: hid_sizes) (simp add: sim_usb_def)

section \<open>The state of the session\<close>

text \<open>
  C32. From its start on, whatever reports arrive in whatever order, whatever other threads do and
  whenever the bus connects and disconnects, the worker keeps its session well formed: at most 32
  channels, all different and none reserved, the current and the locking channel among them; what has
  been received never exceeds what was announced, nor that the 1024 bytes of the buffer.
\<close>

theorem worker_session_invariant:
  assumes "worker_env_wf env" and "wake_ups_wf wakes" and "usb_arena (wk_usb wk) = None"
    and "zf_transport_usb_hid_worker env True connected wakes wk = (False, wk')"
  shows "usb_wf (wk_usb wk')"
proof -
  let ?wk = "upd_usb (upd_tr (\<lambda>_. transport_zero)) wk"
  obtain ok s where aq: "zf_app_transport_arena_acquire (fst env) (wk_usb ?wk) = (ok, s)" by fastforce
  with assms(4) have ok: "ok" by (auto simp: zf_transport_usb_hid_worker_def Let_def split: bool.split_asm)
  let ?s = "zf_transport_session_attach_arena ZF_MAX_MSG_SIZE s"
  have wf: "usb_wf ?s"
    by (rule transport_zero_wf [of _ "replicate ZF_TRANSPORT_ARENA_SIZE 0"])
      (use aq ok assms(3) in \<open>auto simp: zf_app_transport_arena_acquire_def
        zf_transport_session_attach_arena_def split: if_split_asm option.split_asm\<close>)
  let ?w1 = "?wk\<lparr>wk_usb := ?s\<rparr>"
  let ?w2 = "if connected then zf_transport_worker_on_connect env ?w1 else ?w1"
  have "usb_wf (wk_usb ?w2)" using on_connect_wf [OF assms(1), of ?w1] wf by simp
  from worker_loop_wf [OF assms(1,2) this] assms(4) aq ok show ?thesis
    by (auto simp: zf_transport_usb_hid_worker_def Let_def split: prod.split_asm bool.split_asm)
qed

definition sim_worker :: "(unit, sim) worker" where
  "sim_worker = \<lparr>wk_usb = sim_usb\<lparr>usb_arena := None\<rparr>, wk_connected = False, wk_stop = False\<rparr>"

definition sim_worker_env :: "(unit, sim) worker_env" where
  "sim_worker_env = (sim_usb_env, \<lambda>b s. s)"

definition sim_wakes :: "(unit, sim) wake_up list" where
  "sim_wakes = [(id, WaitFlags ZF_WORKER_EVT_REQUEST, [replicate 64 1]), (id, WaitTimeout, [])]"

theorem worker_session_invariant_witness:
  "\<exists>wk'. zf_transport_usb_hid_worker sim_worker_env True True sim_wakes sim_worker = (False, wk') \<and>
    usb_wf (wk_usb wk')"
proof -
  have "fst (zf_transport_usb_hid_worker sim_worker_env True True sim_wakes sim_worker) = False"
    by code_simp
  then obtain wk' where r: "zf_transport_usb_hid_worker sim_worker_env True True sim_wakes sim_worker = (False, wk')"
    by (metis prod.collapse)
  have "worker_env_wf sim_worker_env"
    using sim_usb_env_wf by (simp add: worker_env_wf_def sim_worker_env_def)
  moreover have "wake_ups_wf sim_wakes" by (auto simp: wake_ups_wf_def sim_wakes_def)
  ultimately show ?thesis
    using worker_session_invariant [OF _ _ _ r] r by (simp add: sim_worker_def)
qed

text \<open>
  C33. While a message of one channel is being assembled, no initial report of another channel can
  disturb it: the transport and the buffer stay as they are, and the other channel is told that the
  device is busy (a CANCEL, which has no answer, is ignored).
\<close>

theorem busy_channel_isolated:
  assumes "usb_wf s" and "tr_active (usb_tr s)" and "packet_cid packet \<noteq> tr_cid (usb_tr s)"
    and "5 \<le> length packet" and "packet ! 4 AND ZF_CTAPHID_TYPE_INIT \<noteq> 0"
    and "zf_transport_session_handle_packet env packet actions s = (actions', s')"
  shows "usb_tr s' = usb_tr (zf_transport_refresh_lock env s) \<and> usb_arena s' = usb_arena s \<and> actions' = actions \<and>
    (packet ! 4 \<noteq> ZF_CTAPHID_CANCEL \<longrightarrow>
      usb_sent s' = usb_sent s @ hid_frames (packet_cid packet) ZF_CTAPHID_ERROR [ZF_HID_ERR_CHANNEL_BUSY])"
proof -
  let ?s = "zf_transport_refresh_lock env s" and ?cid = "packet_cid packet"
  have t: "tr_active (usb_tr ?s)" "\<not> tr_processing (usb_tr ?s)" "?cid \<noteq> tr_cid (usb_tr ?s)"
    using assms(1-3) by (simp_all add: usb_wf_def assembly_wf_def)
  have idle: "\<not> (tr_lock_cid (usb_tr ?s) \<noteq> 0 \<and> ?cid \<noteq> tr_lock_cid (usb_tr ?s)) \<Longrightarrow>
      zf_transport_handle_init_packet env packet actions ?s = (actions', s')"
    using assms t by (auto simp: zf_transport_session_handle_packet_def Let_def zf_transport_lock_blocks_cid_def
        zf_transport_handle_idle_packet_def)
  show ?thesis
  proof (cases "tr_lock_cid (usb_tr ?s) \<noteq> 0 \<and> ?cid \<noteq> tr_lock_cid (usb_tr ?s)")
    case True
    with assms(4,6) show ?thesis
      by (auto simp: zf_transport_session_handle_packet_def Let_def zf_transport_lock_blocks_cid_def)
  next
    case False
    from idle [OF False] t assms(4) show ?thesis
      by (auto simp: zf_transport_handle_init_packet_def Let_def zf_transport_is_busy_for_cid_def
          zf_transport_handle_init_command_def split: if_split_asm)
  qed
qed

definition sim_usb_active :: "(unit, sim) usb" where
  "sim_usb_active = upd_tr (\<lambda>t. t\<lparr>tr_active := True, tr_cid := 5, tr_cmd := ZF_CTAPHID_CBOR,
    tr_total_len := 100, tr_received_len := 57\<rparr>) sim_usb"

theorem busy_channel_isolated_witness:
  "\<exists>s'. zf_transport_session_handle_packet sim_usb_env (hid_pad (le_bytes 4 (6 :: u32) @ [ZF_CTAPHID_PING, 0, 1, 1])) 0
      sim_usb_active = (0, s') \<and> usb_arena s' = usb_arena sim_usb_active \<and>
    usb_sent s' = hid_frames 6 ZF_CTAPHID_ERROR [ZF_HID_ERR_CHANNEL_BUSY]"
proof -
  let ?p = "hid_pad (le_bytes 4 (6 :: u32) @ [ZF_CTAPHID_PING, 0, 1, 1])"
  have p: "packet_cid ?p = 6" "5 \<le> length ?p" "?p ! 4 = ZF_CTAPHID_PING"
    by (simp_all add: hid_pad_def hid_sizes)
  obtain a s' where r: "zf_transport_session_handle_packet sim_usb_env ?p 0 sim_usb_active = (a, s')" by fastforce
  have wf: "usb_wf sim_usb_active"
    using sim_usb_wf by (simp add: usb_wf_def channels_wf_def channels_def buffer_wf_def assembly_wf_def
        sim_usb_active_def sim_usb_def transport_zero_def hid_sizes)
  have act: "tr_active (usb_tr sim_usb_active)" "packet_cid ?p \<noteq> tr_cid (usb_tr sim_usb_active)"
    "usb_sent sim_usb_active = []"
    using p(1) by (simp_all add: sim_usb_active_def sim_usb_def)
  have "?p ! 4 AND ZF_CTAPHID_TYPE_INIT \<noteq> 0" "?p ! 4 \<noteq> ZF_CTAPHID_CANCEL" using p(3) by (simp_all add: hid_consts)
  from busy_channel_isolated [OF wf act(1,2) p(2) this(1) r] this(2) r p act show ?thesis by auto
qed

text \<open>
  Between messages the lock holds: while a channel has it and its time has not run out, a report of any
  other channel, the broadcast channel included, changes nothing and is answered by "channel busy".
\<close>

lemma lock_excludes_others:
  assumes "tr_lock_cid (usb_tr s) \<noteq> 0" and "sint (usb_tick env s - tr_lock_expires_at (usb_tr s)) < 0"
    and "packet_cid packet \<noteq> tr_lock_cid (usb_tr s)" and "5 \<le> length packet"
  shows "zf_transport_session_handle_packet env packet actions s =
    (actions, zf_transport_session_send_error (packet_cid packet) ZF_HID_ERR_CHANNEL_BUSY s)"
  using assms
  by (simp add: zf_transport_session_handle_packet_def Let_def zf_transport_lock_blocks_cid_def
      zf_transport_refresh_lock_def)

section \<open>Cancellation and timeouts\<close>

text \<open>
  C34. The wait for the user ends when the host cancels: while a CTAP2 command of a channel waits for the
  prompt, a CANCEL report of that channel, read at the next wake-up, makes the wait return without an
  approval, marks the request canceled and completes the prompt as canceled.
\<close>

theorem cancel_ends_wait:
  assumes "tr_processing (usb_tr (wk_usb wk))" and "tr_cmd (usb_tr (wk_usb wk)) = ZF_CTAPHID_CBOR"
    and "tr_cid (usb_tr (wk_usb wk)) = cid" and "tr_lock_cid (usb_tr (wk_usb wk)) \<in> {0, cid}"
    and "\<not> tr_active (usb_tr (wk_usb wk))"
    and "\<not> zf_transport_stop_requested wk" and "wk_connected wk"
    and "ap_done (app_approval (usb_app (wk_usb wk))) = 0"
    and "ap_state (app_approval (usb_app (wk_usb wk))) = ZfApprovalPending"
    and "result = WaitTimeout \<or> result = WaitFlags ZF_WORKER_EVT_REQUEST"
  shows "\<exists>wk'. zf_transport_usb_hid_wait_for_interaction env cid
      ((id, result, cancel_report cid # reads) # wakes) wk = Some (None, wk') \<and>
    tr_processing_cancel_requested (usb_tr (wk_usb wk')) \<and>
    ap_state (app_approval (usb_app (wk_usb wk'))) = ZfApprovalCanceled"
  unfolding zf_transport_usb_hid_wait_for_interaction_def
  by (rule cancel_ends_wait_loop [OF assms])

definition sim_waiting :: "(unit, sim) worker" where
  "sim_waiting = \<lparr>wk_usb = (upd_tr (\<lambda>t. t\<lparr>tr_processing := True, tr_cid := 5, tr_cmd := ZF_CTAPHID_CBOR\<rparr>) sim_usb)
      \<lparr>usb_app := sim_app\<lparr>app_approval := (app_approval sim_app)\<lparr>ap_state := ZfApprovalPending\<rparr>\<rparr>\<rparr>,
    wk_connected = True, wk_stop = False\<rparr>"

theorem cancel_ends_wait_witness:
  "\<exists>wk'. zf_transport_usb_hid_wait_for_interaction sim_worker_env 5
      [(id, WaitTimeout, [cancel_report 5])] sim_waiting = Some (None, wk') \<and>
    ap_state (app_approval (usb_app (wk_usb wk'))) = ZfApprovalCanceled"
proof -
  have "tr_processing (usb_tr (wk_usb sim_waiting))" "tr_cmd (usb_tr (wk_usb sim_waiting)) = ZF_CTAPHID_CBOR"
    "tr_cid (usb_tr (wk_usb sim_waiting)) = 5" "tr_lock_cid (usb_tr (wk_usb sim_waiting)) \<in> {0, 5}"
    "\<not> tr_active (usb_tr (wk_usb sim_waiting))" "\<not> zf_transport_stop_requested sim_waiting"
    "wk_connected sim_waiting" "ap_done (app_approval (usb_app (wk_usb sim_waiting))) = 0"
    "ap_state (app_approval (usb_app (wk_usb sim_waiting))) = ZfApprovalPending"
    by (simp_all add: sim_waiting_def sim_usb_def transport_zero_def zf_transport_stop_requested_def sim_app_def)
  from cancel_ends_wait [OF this, of WaitTimeout sim_worker_env "[]" "[]"] show ?thesis by auto
qed

definition processing_started :: "('a, 'w) usb \<Rightarrow> ('a, 'w) usb" where
  "processing_started s = upd_tr (\<lambda>t. t\<lparr>tr_processing_generation := tr_processing_generation (usb_tr s) + 1,
    tr_processing := True, tr_processing_resync := False\<rparr>) s"

text \<open>
  A response that comes too late is not sent: when the processing generation moved on while the handler
  ran, whatever else the handler did, the only reports that leave the device are those sent meanwhile.
\<close>

lemma late_response_dropped:
  assumes "env_ctap2 env cid d ZF_MAX_MSG_SIZE (processing_started s) = (response, s2)"
    and "tr_processing_generation (usb_tr s2) \<noteq> tr_processing_generation (usb_tr s) + 1"
    and "usb_arena s = Some arena" and "length arena = ZF_TRANSPORT_ARENA_SIZE"
    and "fido2_enabled (usb_capabilities env s)"
  shows "usb_sent (zf_transport_dispatch_complete_message env cid ZfTransportProtocolKindCtap2 d s) = usb_sent s2"
proof -
  have "usb_capabilities env (processing_started s) = usb_capabilities env s"
    by (simp add: usb_capabilities_def processing_started_def)
  then show ?thesis
    using assms
    by (simp add: zf_transport_dispatch_complete_message_def Let_def zf_app_transport_arena_acquire_def
        run_protocol_def zf_transport_dispatch_cbor_def zf_transport_dispatch_was_interrupted_def
        flip: processing_started_def)
qed

text \<open>
  A message that stops arriving does not block the device: three seconds after the last report the
  tick tells its channel "timeout", forgets the message and clears what was received of it, and the
  session accepts messages of other channels again.
\<close>

theorem stale_assembly_expires:
  assumes "usb_wf s" and "tr_active (usb_tr s)" and "now - tr_last_activity (usb_tr s) \<ge> ZF_ASSEMBLY_TIMEOUT_MS"
    and "cid \<in> set (channels (usb_tr s))" and "tr_lock_cid (usb_tr s) = 0"
  shows "ready_for cid (zf_transport_session_tick now s) \<and>
    usb_sent (zf_transport_session_tick now s) =
      usb_sent s @ hid_frames (tr_cid (usb_tr s)) ZF_CTAPHID_ERROR [ZF_HID_ERR_MSG_TIMEOUT] \<and>
    payload_bytes (tr_total_len (usb_tr s)) (zf_transport_session_tick now s) =
      replicate (tr_total_len (usb_tr s)) 0"
proof -
  let ?s = "zf_transport_session_send_error (tr_cid (usb_tr s)) ZF_HID_ERR_MSG_TIMEOUT s"
  have tick: "zf_transport_session_tick now s = zf_transport_session_reset ?s"
    using assms(2,3,5) by (simp add: zf_transport_session_tick_def Let_def)
  have pay: "tr_payload (usb_tr s)" using assms(1,2) by (simp add: usb_wf_def assembly_wf_def)
  have "ready_for cid (zf_transport_session_reset ?s)"
    using assms(1,4,5) pay reset_wf' [of ?s] by (simp add: ready_for_def)
  moreover obtain arena where a: "usb_arena s = Some arena" "length arena = ZF_TRANSPORT_ARENA_SIZE"
    "tr_payload_capacity (usb_tr s) = ZF_MAX_MSG_SIZE" "tr_received_len (usb_tr s) < tr_total_len (usb_tr s)"
    "tr_total_len (usb_tr s) \<le> ZF_MAX_MSG_SIZE"
    using assms(1,2) pay by (auto simp: usb_wf_def buffer_wf_def assembly_wf_def)
  have "payload_bytes (tr_total_len (usb_tr s)) (zf_transport_session_reset ?s) = replicate (tr_total_len (usb_tr s)) 0"
    using a pay by (simp add: zf_transport_session_reset_def Let_def payload_bytes_def payload_write_def
        write_at_def hid_sizes)
  ultimately show ?thesis by (simp add: tick)
qed

theorem stale_assembly_expires_witness:
  "ready_for 6 (zf_transport_session_tick 4000 sim_usb_active)"
proof -
  have wf: "usb_wf sim_usb_active"
    using sim_usb_wf by (simp add: usb_wf_def channels_wf_def channels_def buffer_wf_def assembly_wf_def
        sim_usb_active_def sim_usb_def transport_zero_def hid_sizes)
  have "tr_active (usb_tr sim_usb_active)" "tr_lock_cid (usb_tr sim_usb_active) = 0"
    "4000 - tr_last_activity (usb_tr sim_usb_active) \<ge> ZF_ASSEMBLY_TIMEOUT_MS"
    "6 \<in> set (channels (usb_tr sim_usb_active))"
    by (simp_all add: sim_usb_active_def sim_usb_def transport_zero_def ZF_ASSEMBLY_TIMEOUT_MS_def channels_def)
  with stale_assembly_expires [OF wf, of 4000 6] show ?thesis by simp
qed

section \<open>Facts behind the findings\<close>

text \<open>A continuation report of a foreign channel discards the message another channel is sending.\<close>

lemma foreign_continuation_resets:
  assumes "tr_active (usb_tr s)" "\<not> tr_processing (usb_tr s)" "packet_cid packet \<noteq> tr_cid (usb_tr s)"
    "tr_lock_cid (usb_tr s) = 0" "5 \<le> length packet" "packet ! 4 AND ZF_CTAPHID_TYPE_INIT = 0"
  shows "zf_transport_session_handle_packet env packet actions s =
    (actions, zf_transport_session_reset
      (zf_transport_session_send_error (packet_cid packet) ZF_HID_ERR_INVALID_SEQ s))"
  using assms
  by (simp add: zf_transport_session_handle_packet_def Let_def zf_transport_lock_blocks_cid_def
      zf_transport_refresh_lock_def zf_transport_handle_idle_packet_def zf_transport_handle_cont_packet_def
      zf_transport_validate_continuation_def)

text \<open>
  The lock does not protect a request that is being processed: the control reports polled meanwhile are
  not checked against it, so an INIT on the broadcast channel cancels the request of the lock's owner.
\<close>

lemma broadcast_init_ignores_lock:
  assumes "packet_cid packet = ZF_BROADCAST_CID" and "tr_cid (usb_tr s) \<noteq> ZF_BROADCAST_CID"
    and "length packet = 64" and "packet ! 4 = ZF_CTAPHID_INIT" and "packet_msg_len packet = 8"
    and "zf_transport_allocate_cid env s = (Some cid, s1)"
    and "zf_transport_session_handle_processing_control env packet actions s = (status, actions', s')"
  shows "status = ZF_CTAP_ERR_KEEPALIVE_CANCEL \<and> \<not> tr_processing (usb_tr s') \<and>
    tr_processing_cancel_requested (usb_tr s')"
  using assms
  by (auto simp: zf_transport_session_handle_processing_control_def Let_def hid_consts
      zf_transport_recover_processing_with_broadcast_init_def zf_transport_handle_init_def)

text \<open>
  Every message is dispatched with generation one, whatever was processed before: the counter restarts
  with each message.
\<close>

lemma generation_restarts:
  assumes "ready_for cid s" "d \<noteq> []" "length d \<le> ZF_MAX_MSG_SIZE"
  shows "tr_processing_generation (usb_tr (feed env (hid_frames cid ZF_CTAPHID_PING d) s)) = 1"
proof -
  obtain s1 seq where s1: "feed env (hid_frames cid ZF_CTAPHID_PING d) s = zf_transport_complete_if_ready env s1"
    "receiving cid ZF_CTAPHID_PING d (length d) seq s1" "same_host s s1"
    using message_assembled [OF assms(1) _ assms(3,2), of ZF_CTAPHID_PING] by blast
  from complete_message [OF s1(2) assms(2), of ZfTransportProtocolKindPing env]
  obtain s2 arena where s2: "zf_transport_complete_if_ready env s1 =
      zf_transport_dispatch_complete_message env cid ZfTransportProtocolKindPing d s2"
    "tr_processing_generation (usb_tr s2) = 0" "\<not> tr_processing_cancel_requested (usb_tr s2)"
    "usb_arena s2 = Some arena" "length arena = ZF_TRANSPORT_ARENA_SIZE"
    by blast
  from dispatch_ping_quiet [OF s2(4,5,2,3) assms(2), of env cid] s1 s2
  show ?thesis by (simp add: Let_def)
qed

end
