(* ===== verification/Encrypted_Blob.thy ===== *)
theory Encrypted_Blob
  imports Pin_Exact
begin

text \<open>
  The remaining operations of \<^verbatim>\<open>zerofido_storage.c\<close>: directory iteration and removal by suffix, files
  written with FlipperFormat, and the encrypted blobs in which the U2F keys and counters are kept. A
  blob is a header, an optional type, an initialization vector, the ciphertext (filled up with zeros)
  and an optional MAC computed by the caller.
\<close>

definition ZF_STORAGE_BLOB_MAX_DATA_SIZE :: nat where "ZF_STORAGE_BLOB_MAX_DATA_SIZE = 64"
definition ZF_STORAGE_BLOB_MAX_MAC_SIZE :: nat where "ZF_STORAGE_BLOB_MAX_MAC_SIZE = 64"
definition ZF_STORAGE_TEMP_SUFFIX :: path where "ZF_STORAGE_TEMP_SUFFIX = ''.tmp''"

section \<open>Directories\<close>

text \<open>A visitor returns whether the iteration goes on; the name is cut to the name buffer.\<close>

fun visit_entries ::
  "(path \<Rightarrow> bool \<Rightarrow> 'w \<Rightarrow> bool \<times> 'w) \<Rightarrow> nat \<Rightarrow> (path \<times> bool) list \<Rightarrow> 'w \<Rightarrow> bool \<times> 'w" where
  "visit_entries visitor name_buffer_size [] w = (True, w)"
| "visit_entries visitor name_buffer_size ((name, is_dir) # entries) w =
    and_then (visitor (take (name_buffer_size - 1) name) is_dir w)
      (visit_entries visitor name_buffer_size entries)"

definition zf_storage_for_each_dir_entry ::
  "'w hal \<Rightarrow> path \<Rightarrow> nat \<Rightarrow> (path \<Rightarrow> bool \<Rightarrow> 'w \<Rightarrow> bool \<times> 'w) \<Rightarrow> 'w \<Rightarrow> bool \<times> 'w" where
  "zf_storage_for_each_dir_entry hal dir_path name_buffer_size visitor w =
    (if name_buffer_size = 0 then (False, w)
     else case fs_dir hal dir_path w of
         None \<Rightarrow> (False, w)
       | Some entries \<Rightarrow> visit_entries visitor name_buffer_size entries w)"

definition zf_storage_remove_suffix_visitor ::
  "'w hal \<Rightarrow> path \<Rightarrow> path \<Rightarrow> nat \<Rightarrow> path \<Rightarrow> bool \<Rightarrow> 'w \<Rightarrow> bool \<times> 'w" where
  "zf_storage_remove_suffix_visitor hal dir_path suffix path_buffer_size name is_dir w =
    (if is_dir then (True, w)
     else if length name < length suffix \<or> drop (length name - length suffix) name \<noteq> suffix
     then (True, w)
     else case zf_storage_build_child_path dir_path name path_buffer_size of
         None \<Rightarrow> (False, w)
       | Some p \<Rightarrow> zf_storage_remove_optional hal p w)"

definition zf_storage_remove_dir_entries_with_suffix ::
  "'w hal \<Rightarrow> path \<Rightarrow> path \<Rightarrow> nat \<Rightarrow> nat \<Rightarrow> 'w \<Rightarrow> bool \<times> 'w" where
  "zf_storage_remove_dir_entries_with_suffix hal dir_path suffix name_buffer_size path_buffer_size w =
    (if suffix = [] \<or> path_buffer_size = 0 then (False, w)
     else zf_storage_for_each_dir_entry hal dir_path name_buffer_size
       (zf_storage_remove_suffix_visitor hal dir_path suffix path_buffer_size) w)"

section \<open>FlipperFormat files\<close>

text \<open>The writer is given by the text it renders.\<close>

definition zf_storage_write_format_atomic ::
  "'w hal \<Rightarrow> path \<Rightarrow> path \<Rightarrow> bytes \<Rightarrow> 'w \<Rightarrow> bool \<times> 'w" where
  "zf_storage_write_format_atomic hal p temp_path text w =
    (let r = zf_storage_recover_atomic_file hal p temp_path w in
     if \<not> fst r then (False, snd r)
     else let w = snd (fs_remove hal temp_path (snd r));
              wr = fs_write hal temp_path text w;
              r = (if fst wr = Some (length text)
                   then zf_storage_publish_atomic_temp hal p temp_path (snd wr)
                   else (False, snd wr))
          in (fst r, snd (fs_remove hal temp_path (snd r))))"

section \<open>Encrypted blobs\<close>

text \<open>The MAC callbacks get the plaintext, the initialization vector and the ciphertext.\<close>

record ZfStorageEncryptedBlobWriteSpec =
  ws_file_type :: string
  ws_version :: u32
  ws_type :: "u32 option"
  ws_plaintext :: bytes
  ws_encrypted_len :: nat
  ws_write_mac :: "(bytes \<Rightarrow> bytes \<Rightarrow> bytes \<Rightarrow> bytes option) option"

record ZfStorageEncryptedBlobReadSpec =
  rs_file_type :: string
  rs_accepted_versions :: "u32 list"
  rs_has_type :: bool
  rs_accept_any_type :: bool
  rs_expected_type :: u32
  rs_plaintext_len :: nat
  rs_encrypted_len :: nat
  rs_has_mac :: bool
  rs_mac_len :: nat
  rs_verify_mac :: "(bytes \<Rightarrow> bytes \<Rightarrow> bytes \<Rightarrow> bytes \<Rightarrow> bool) option"

definition zf_storage_version_allowed :: "ZfStorageEncryptedBlobReadSpec \<Rightarrow> u32 \<Rightarrow> bool" where
  "zf_storage_version_allowed spec version \<longleftrightarrow> version \<in> set (rs_accepted_versions spec)"

definition zf_storage_write_encrypted_blob_fields ::
  "'w hal \<Rightarrow> ZfStorageEncryptedBlobWriteSpec \<Rightarrow> bytes \<Rightarrow> bytes \<Rightarrow> bytes option \<Rightarrow> bytes" where
  "zf_storage_write_encrypted_blob_fields hal spec iv encrypted mac =
    ff_text hal (ws_file_type spec) (ws_version spec)
      ((case ws_type spec of None \<Rightarrow> [] | Some type \<Rightarrow> [(''Type'', FFUint32 type)]) @
       [(''IV'', FFHex iv), (''Data'', FFHex encrypted)] @
       (case mac of None \<Rightarrow> [] | Some mac \<Rightarrow> [(''Mac'', FFHex mac)]))"

definition zf_storage_write_encrypted_blob_atomic ::
  "'w hal \<Rightarrow> path \<Rightarrow> path \<Rightarrow> ZfStorageEncryptedBlobWriteSpec \<Rightarrow> 'w \<Rightarrow> bool \<times> 'w" where
  "zf_storage_write_encrypted_blob_atomic hal p temp_path spec w =
    (if length (ws_plaintext spec) = 0 \<or> length (ws_plaintext spec) > ws_encrypted_len spec \<or>
        ws_encrypted_len spec > ZF_STORAGE_BLOB_MAX_DATA_SIZE then (False, w)
     else case enclave_ensure_key hal w of
         (False, w) \<Rightarrow> (False, w)
       | (True, w) \<Rightarrow>
          let (iv, w) = random_fill hal 16 w in
          case enclave_encrypt hal iv (ws_plaintext spec) w of
            (None, w) \<Rightarrow> (False, w)
          | (Some sealed, w) \<Rightarrow>
             let encrypted = sealed @ replicate (ws_encrypted_len spec - length sealed) 0;
                 publish = (\<lambda>mac. zf_storage_write_format_atomic hal p temp_path
                   (zf_storage_write_encrypted_blob_fields hal spec iv encrypted mac) w)
             in (case ws_write_mac spec of
                   None \<Rightarrow> publish None
                 | Some write_mac \<Rightarrow>
                    (case write_mac (ws_plaintext spec) iv encrypted of
                       None \<Rightarrow> (False, w)
                     | Some mac \<Rightarrow>
                        if length mac = 0 \<or> length mac > ZF_STORAGE_BLOB_MAX_MAC_SIZE then (False, w)
                        else publish (Some mac))))"

text \<open>The fields of a blob as they are read: \<open>None\<close> when one is missing or not acceptable.\<close>

definition blob_fields ::
  "'w hal \<Rightarrow> ZfStorageEncryptedBlobReadSpec \<Rightarrow> bytes \<Rightarrow> (bytes \<times> bytes \<times> bytes) option" where
  "blob_fields hal spec text =
    (case ff_read_header hal text of
       None \<Rightarrow> None
     | Some (file_type, version) \<Rightarrow>
        if file_type \<noteq> rs_file_type spec \<or> \<not> zf_storage_version_allowed spec version then None
        else if rs_has_type spec \<and> ff_read_uint32 hal text ''Type'' = None then None
        else if rs_has_type spec \<and> \<not> rs_accept_any_type spec \<and>
                ff_read_uint32 hal text ''Type'' \<noteq> Some (rs_expected_type spec) then None
        else case ff_read_hex hal text ''IV'' 16 of
            None \<Rightarrow> None
          | Some iv \<Rightarrow>
             (case ff_read_hex hal text ''Data'' (rs_encrypted_len spec) of
                None \<Rightarrow> None
              | Some encrypted \<Rightarrow>
                 if \<not> rs_has_mac spec then Some (iv, encrypted, [])
                 else (case ff_read_hex hal text ''Mac'' (rs_mac_len spec) of
                     None \<Rightarrow> None
                   | Some mac \<Rightarrow> Some (iv, encrypted, mac))))"

text \<open>The plaintext; the buffer is zeroed on every failure.\<close>

definition zf_storage_read_encrypted_blob ::
  "'w hal \<Rightarrow> path \<Rightarrow> ZfStorageEncryptedBlobReadSpec \<Rightarrow> 'w \<Rightarrow> bytes option \<times> 'w" where
  "zf_storage_read_encrypted_blob hal p spec w =
    (if rs_accepted_versions spec = [] \<or> rs_plaintext_len spec = 0 \<or>
        rs_plaintext_len spec > rs_encrypted_len spec \<or>
        rs_encrypted_len spec > ZF_STORAGE_BLOB_MAX_DATA_SIZE \<or>
        rs_has_mac spec \<and> (rs_mac_len spec = 0 \<or> rs_mac_len spec > ZF_STORAGE_BLOB_MAX_MAC_SIZE)
     then (None, w)
     else case enclave_ensure_key hal w of
         (False, w) \<Rightarrow> (None, w)
       | (True, w) \<Rightarrow>
          (case zf_storage_build_suffixed_path p ZF_STORAGE_TEMP_SUFFIX ZF_STORAGE_PATH_BUFFER_SIZE of
             None \<Rightarrow> (None, w)
           | Some temp_path \<Rightarrow>
              (case zf_storage_recover_atomic_file hal p temp_path w of
                 (False, w) \<Rightarrow> (None, w)
               | (True, w) \<Rightarrow>
                  (case fs_read hal p w of
                     (None, w) \<Rightarrow> (None, w)
                   | (Some text, w) \<Rightarrow>
                      (case blob_fields hal spec text of
                         None \<Rightarrow> (None, w)
                       | Some (iv, encrypted, mac) \<Rightarrow>
                          (case enclave_decrypt hal iv (take (rs_plaintext_len spec) encrypted) w of
                             (None, w) \<Rightarrow> (None, w)
                           | (Some plaintext, w) \<Rightarrow>
                              (case rs_verify_mac spec of
                                 None \<Rightarrow> (Some plaintext, w)
                               | Some verify_mac \<Rightarrow>
                                  (if verify_mac plaintext iv encrypted mac then Some plaintext
                                   else None, w))))))))"

section \<open>What a write publishes\<close>

lemma write_format_is_write_file:
  "body \<noteq> [] \<Longrightarrow> zf_storage_write_format_atomic hal p temp body w = zf_storage_write_file_atomic hal p temp body w"
  by (simp add: zf_storage_write_format_atomic_def zf_storage_write_file_atomic_def)

text \<open>The platform of the PIN file, whose enclave has its key and whose FlipperFormat obeys its law.\<close>

definition blob_platform :: "'w hal \<Rightarrow> ('w \<Rightarrow> path \<rightharpoonup> bytes) \<Rightarrow> bool" where
  "blob_platform hal content \<longleftrightarrow> pin_platform hal content \<and> format_lawful hal \<and>
    (\<forall>w. fst (enclave_ensure_key hal w) \<and> content (snd (enclave_ensure_key hal w)) = content w)"

definition blob_specs_match ::
  "ZfStorageEncryptedBlobWriteSpec \<Rightarrow> ZfStorageEncryptedBlobReadSpec \<Rightarrow> bool" where
  "blob_specs_match ws rs \<longleftrightarrow>
    rs_file_type rs = ws_file_type ws \<and> ws_version ws \<in> set (rs_accepted_versions rs) \<and>
    (if rs_has_type rs then \<exists>t. ws_type ws = Some t \<and> (rs_accept_any_type rs \<or> t = rs_expected_type rs) else True) \<and>
    rs_plaintext_len rs = length (ws_plaintext ws) \<and> rs_encrypted_len rs = ws_encrypted_len ws \<and>
    (case ws_write_mac ws of
       None \<Rightarrow> \<not> rs_has_mac rs \<and> rs_verify_mac rs = None
     | Some write_mac \<Rightarrow> rs_has_mac rs \<and> (\<forall>iv e mac. write_mac (ws_plaintext ws) iv e = Some mac \<longrightarrow>
         length mac = rs_mac_len rs \<and>
         (\<forall>verify. rs_verify_mac rs = Some verify \<longrightarrow> verify (ws_plaintext ws) iv e mac)))"

lemma blob_text_read:
  assumes "format_lawful hal" and body: "body = zf_storage_write_encrypted_blob_fields hal ws iv encrypted mac"
  shows "body \<noteq> []" "ff_read_header hal body = Some (ws_file_type ws, ws_version ws)"
    "ws_type ws = Some t \<Longrightarrow> ff_read_uint32 hal body ''Type'' = Some t"
    "ff_read_hex hal body ''IV'' (length iv) = Some iv"
    "ff_read_hex hal body ''Data'' (length encrypted) = Some encrypted"
    "mac = Some m \<Longrightarrow> ff_read_hex hal body ''Mac'' (length m) = Some m"
proof -
  let ?fs = "(case ws_type ws of None \<Rightarrow> [] | Some t \<Rightarrow> [(''Type'', FFUint32 t)]) @
       [(''IV'', FFHex iv), (''Data'', FFHex encrypted)] @
       (case mac of None \<Rightarrow> [] | Some mac \<Rightarrow> [(''Mac'', FFHex mac)])"
  have t: "body = ff_text hal (ws_file_type ws) (ws_version ws) ?fs"
    using body by (simp add: zf_storage_write_encrypted_blob_fields_def)
  have "distinct (map fst ?fs)" by (auto split: option.split)
  then have law: "body \<noteq> [] \<and> ff_read_header hal body = Some (ws_file_type ws, ws_version ws) \<and>
      (\<forall>k v. (k, FFUint32 v) \<in> set ?fs \<longrightarrow> ff_read_uint32 hal body k = Some v) \<and>
      (\<forall>k d. (k, FFHex d) \<in> set ?fs \<longrightarrow> ff_read_hex hal body k (length d) = Some d)"
    using assms(1) unfolding t format_lawful_def by blast
  then show "body \<noteq> []" "ff_read_header hal body = Some (ws_file_type ws, ws_version ws)"
    "ff_read_hex hal body ''IV'' (length iv) = Some iv"
    "ff_read_hex hal body ''Data'' (length encrypted) = Some encrypted" by auto
  show "ws_type ws = Some t \<Longrightarrow> ff_read_uint32 hal body ''Type'' = Some t"
    "mac = Some m \<Longrightarrow> ff_read_hex hal body ''Mac'' (length m) = Some m" using law by auto
qed

text \<open>What a successful write published.\<close>

lemma blob_written:
  assumes plat: "blob_platform hal content"
    and wr: "zf_storage_write_encrypted_blob_atomic hal p temp ws w = (True, w')"
  obtains iv sealed mac v where "length iv = 16" "length sealed = length (ws_plaintext ws)"
    "\<And>u. fst (enclave_decrypt hal iv sealed u) = Some (ws_plaintext ws)"
    "0 < length (ws_plaintext ws)" "length (ws_plaintext ws) \<le> ws_encrypted_len ws" "ws_encrypted_len ws \<le> 64"
    "case ws_write_mac ws of None \<Rightarrow> mac = None
      | Some f \<Rightarrow> mac \<noteq> None \<and> f (ws_plaintext ws) iv (sealed @ replicate (ws_encrypted_len ws - length sealed) 0) = mac \<and>
        0 < length (the mac) \<and> length (the mac) \<le> 64"
    "zf_storage_write_format_atomic hal p temp (zf_storage_write_encrypted_blob_fields hal ws iv
      (sealed @ replicate (ws_encrypted_len ws - length sealed) 0) mac) v = (True, w')" "content v = content w"
proof -
  obtain k w1 where k: "enclave_ensure_key hal w = (k, w1)" by fastforce
  obtain iv w2 where iv: "random_fill hal 16 w1 = (iv, w2)" by fastforce
  obtain c w3 where c: "enclave_encrypt hal iv (ws_plaintext ws) w2 = (c, w3)" by fastforce
  have pin: "pin_platform hal content" "content w1 = content w" "k"
    using plat k by (auto simp: blob_platform_def) (metis fst_conv snd_conv)+
  have laws: "length iv = 16" "content w2 = content w1" "content w3 = content w2"
    using pin(1) iv c unfolding pin_platform_def enclave_lawful_def by (metis fst_conv snd_conv)+
  from wr k pin(3) iv c obtain sealed where s: "c = Some sealed"
    by (auto simp: zf_storage_write_encrypted_blob_atomic_def Let_def split: if_split_asm option.split_asm)
  have enc: "length sealed = length (ws_plaintext ws)" "\<And>u. fst (enclave_decrypt hal iv sealed u) = Some (ws_plaintext ws)"
    using pin(1) c s unfolding pin_platform_def enclave_lawful_def by (metis fst_conv)+
  let ?e = "sealed @ replicate (ws_encrypted_len ws - length sealed) 0"
  show ?thesis
  proof (cases "ws_write_mac ws")
    case None
    with wr k pin(3) iv c s show ?thesis
      by (intro that [of iv sealed None w3]) (use laws pin(2) enc in \<open>auto simp: zf_storage_write_encrypted_blob_atomic_def
        ZF_STORAGE_BLOB_MAX_DATA_SIZE_def Let_def split: if_split_asm\<close>)
  next
    case (Some f)
    with wr k pin(3) iv c s obtain m where "f (ws_plaintext ws) iv ?e = Some m"
      by (auto simp: zf_storage_write_encrypted_blob_atomic_def Let_def split: if_split_asm option.split_asm)
    with wr k pin(3) iv c s Some show ?thesis
      by (intro that [of iv sealed "Some m" w3]) (use laws pin(2) enc in \<open>auto simp: zf_storage_write_encrypted_blob_atomic_def
        ZF_STORAGE_BLOB_MAX_DATA_SIZE_def ZF_STORAGE_BLOB_MAX_MAC_SIZE_def Let_def split: if_split_asm\<close>)
  qed
qed

text \<open>A blob file: an atomic file whose temporary name is the path with the suffix \<open>.tmp\<close>.\<close>

locale blob_file = atomic_file +
  assumes temp_path: "zf_storage_build_suffixed_path p ZF_STORAGE_TEMP_SUFFIX ZF_STORAGE_PATH_BUFFER_SIZE = Some temp"

end
