(* ===== verification/Ecdsa_Der.thy ===== *)
theory Ecdsa_Der
  imports Hal Ctap_Parse
begin

text \<open>
  \<^verbatim>\<open>crypto/ecdsa_der.c\<close>: the DER form of a P-256 signature, and the signing and verifying functions
  of \<^verbatim>\<open>zerofido_crypto.c\<close> that use it. \<open>size_t\<close> has four bytes on the target.
\<close>


text \<open>The bytes from the first one that is not zero, or the last byte.\<close>

fun der_strip :: "bytes \<Rightarrow> bytes" where
  "der_strip (a # b # rest) = (if a = 0 then der_strip (b # rest) else a # b # rest)"
| "der_strip v = v"

definition zf_der_encode_int :: "bytes \<Rightarrow> bytes" where
  "zf_der_encode_int v =
    (let v = der_strip v in
     if hd v AND 0x80 \<noteq> 0 then 0x02 # word_of_nat (length v + 1) # 0 # v
     else 0x02 # word_of_nat (length v) # v)"

text \<open>The empty list stands for the returned length zero.\<close>

definition zf_ecdsa_der_encode_signature :: "bytes \<Rightarrow> bytes \<Rightarrow> nat \<Rightarrow> bytes" where
  "zf_ecdsa_der_encode_signature r s capacity =
    (let tmp = zf_der_encode_int r @ zf_der_encode_int s in
     if 2 + length tmp > capacity then [] else 0x30 # word_of_nat (length tmp) # tmp)"

text \<open>The result: the length of the header and the length of the value.\<close>

definition zf_der_decode_length :: "bytes \<Rightarrow> (nat \<times> nat) option" where
  "zf_der_decode_length input =
    (if length input < 2 then None
     else if input ! 1 AND 0x80 = 0 then
       let value_len = unat (input ! 1)
       in if value_len \<le> length input - 2 then Some (2, value_len) else None
     else
       let length_octets = unat (input ! 1 AND 0x7F) in
       if length_octets = 0 \<or> length_octets > 4 \<or> length_octets > length input - 2 then None
       else
         let value_len = unat (be_value (take length_octets (drop 2 input)) :: u32);
             header_len = 2 + length_octets
         in if value_len \<le> length input - header_len then Some (header_len, value_len) else None)"

fun der_trim :: "bytes \<Rightarrow> bytes" where
  "der_trim (a # v) = (if length (a # v) > ZF_PUBLIC_KEY_LEN \<and> a = 0 then der_trim v else a # v)"
| "der_trim [] = []"

text \<open>The result: how many bytes were consumed, and the number in 32 bytes.\<close>

definition zf_der_decode_int_fixed :: "bytes \<Rightarrow> (nat \<times> bytes) option" where
  "zf_der_decode_int_fixed input =
    (if length input < 2 \<or> input ! 0 \<noteq> 0x02 then None
     else case zf_der_decode_length input of
         None \<Rightarrow> None
       | Some (header_len, value_len) \<Rightarrow>
          if value_len = 0 \<or> header_len > length input \<or> value_len > length input - header_len then None
          else
            let v = der_trim (take value_len (drop header_len input)) in
            if length v > ZF_PUBLIC_KEY_LEN then None
            else Some (header_len + value_len, replicate (ZF_PUBLIC_KEY_LEN - length v) 0 @ v))"

definition zf_ecdsa_der_decode_signature :: "bytes \<Rightarrow> bytes option" where
  "zf_ecdsa_der_decode_signature signature =
    (if length signature < 2 \<or> signature ! 0 \<noteq> 0x30 then None
     else case zf_der_decode_length signature of
         None \<Rightarrow> None
       | Some (seq_header_len, seq_len) \<Rightarrow>
          (case zf_der_decode_int_fixed (drop seq_header_len signature) of
             None \<Rightarrow> None
           | Some (consumed_r, r) \<Rightarrow>
              (case zf_der_decode_int_fixed (drop (seq_header_len + consumed_r) signature) of
                 None \<Rightarrow> None
               | Some (consumed_s, s) \<Rightarrow>
                  if seq_header_len + consumed_r + consumed_s = seq_header_len + seq_len
                  then Some (r @ s) else None)))"

section \<open>Signatures\<close>

definition zf_crypto_compute_public_key_from_private :: "'w hal \<Rightarrow> bytes \<Rightarrow> (bytes \<times> bytes) option" where
  "zf_crypto_compute_public_key_from_private hal private_key = zf_p256_compute_public_key hal private_key"

definition zf_crypto_sign_hash_with_private_key ::
  "'w hal \<Rightarrow> bytes \<Rightarrow> bytes \<Rightarrow> nat \<Rightarrow> 'w \<Rightarrow> bytes option \<times> 'w" where
  "zf_crypto_sign_hash_with_private_key hal private_key hash out_capacity w =
    (case zf_p256_sign_hash_raw hal private_key hash w of
       (None, w) \<Rightarrow> (None, w)
     | (Some signature, w) \<Rightarrow>
        let out = zf_ecdsa_der_encode_signature (take 32 signature) (drop 32 signature) out_capacity
        in (if length out > 0 then Some out else None, w))"

definition zf_crypto_verify_hash_with_public_key ::
  "'w hal \<Rightarrow> bytes \<Rightarrow> bytes \<Rightarrow> bytes \<Rightarrow> bytes \<Rightarrow> bool" where
  "zf_crypto_verify_hash_with_public_key hal public_x public_y hash signature =
    (case zf_ecdsa_der_decode_signature signature of
       None \<Rightarrow> False
     | Some raw_signature \<Rightarrow> zf_p256_verify_hash_raw hal public_x public_y hash raw_signature)"

section \<open>Decoding inverts encoding\<close>

lemma der_strip_length: "length (der_strip v) \<le> length v"
  by (induction v rule: der_strip.induct) auto

lemma der_strip_nonempty: "v \<noteq> [] \<Longrightarrow> der_strip v \<noteq> []"
  by (induction v rule: der_strip.induct) auto

lemma der_strip_pad: "replicate (length v - length (der_strip v)) 0 @ der_strip v = v"
proof (induction v rule: der_strip.induct)
  case (1 a b rest)
  show ?case
  proof (cases "a = 0")
    case True
    have "length (a # b # rest) - length (der_strip (b # rest)) =
        Suc (length (b # rest) - length (der_strip (b # rest)))"
      using der_strip_length [of "b # rest"] by simp
    with 1 True show ?thesis by simp
  qed simp
qed simp_all

text \<open>The content octets: the stripped number, behind a zero when its first bit is set.\<close>

definition der_content :: "bytes \<Rightarrow> bytes" where
  "der_content v = (if hd (der_strip v) AND 0x80 \<noteq> 0 then 0 # der_strip v else der_strip v)"

lemma encode_int_content: "zf_der_encode_int v = 0x02 # word_of_nat (length (der_content v)) # der_content v"
  by (simp add: zf_der_encode_int_def der_content_def Let_def)

lemma der_content_length:
  "length v = 32 \<Longrightarrow> 1 \<le> length (der_content v) \<and> length (der_content v) \<le> 33"
proof -
  assume v: "length v = 32"
  then have "der_strip v \<noteq> []" by (metis der_strip_nonempty list.size(3) zero_neq_numeral)
  then have "1 \<le> length (der_strip v)" by (cases "der_strip v") auto
  with v der_strip_length [of v] show ?thesis by (simp add: der_content_def)
qed

lemma der_trim_short: "length v \<le> 32 \<Longrightarrow> der_trim v = v"
  by (cases v) (simp_all add: ZF_PUBLIC_KEY_LEN_def)

lemma byte_7bit: "n < 128 \<Longrightarrow> (word_of_nat n :: byte) AND 0x80 = 0"
proof (rule bit_word_eqI)
  fix k
  assume n: "n < 128" and k: "k < LENGTH(8)"
  have "take_bit 7 (word_of_nat n :: byte) = word_of_nat n"
    using n by (simp add: word_unat_eq_iff unsigned_take_bit_eq take_bit_nat_eq_self unat_of_nat)
  then have "\<not> bit (word_of_nat n :: byte) 7" by (metis bit_take_bit_iff less_irrefl)
  moreover have "bit (0x80 :: byte) k \<longleftrightarrow> k = 7"
    using k by (auto simp: bit_simps less_Suc_eq numeral_eq_Suc)
  ultimately show "bit ((word_of_nat n :: byte) AND 0x80) k = bit 0 k" by (auto simp: bit_simps)
qed

lemma decode_length_short:
  "length d < 128 \<Longrightarrow> zf_der_decode_length (t # word_of_nat (length d) # d @ rest) = Some (2, length d)"
  using byte_7bit [of "length d"] by (simp add: zf_der_decode_length_def Let_def unat_of_nat_byte)

lemma decode_encode_int:
  assumes "length v = 32"
  shows "zf_der_decode_int_fixed (zf_der_encode_int v @ rest) = Some (length (zf_der_encode_int v), v)"
proof -
  let ?c = "der_content v" and ?s = "der_strip v"
  note len = der_content_length [OF assms]
  have trim: "der_trim ?c = ?s \<and> length ?s \<le> 32 \<or> der_trim ?c = 0 # ?s \<and> length ?s \<le> 31"
    using der_strip_length [of v] assms
    by (auto simp: der_content_def der_trim_short ZF_PUBLIC_KEY_LEN_def)
  have pad: "replicate (32 - length ?s) 0 @ ?s = v" using der_strip_pad [of v] assms by simp
  have "replicate (32 - length (der_trim ?c)) 0 @ der_trim ?c = v"
  proof (cases "der_trim ?c = ?s")
    case False
    with trim have t: "der_trim ?c = 0 # ?s" "length ?s \<le> 31" by auto
    have "replicate (Suc (31 - length ?s)) 0 @ ?s = v" using pad t(2) by (simp add: Suc_diff_le numeral_eq_Suc)
    then show ?thesis using t replicate_app_Cons_same [of "31 - length ?s" 0 ?s] by simp
  qed (use pad in simp)
  moreover have "length (der_trim ?c) \<le> 32" using trim by auto
  moreover have "zf_der_decode_length (0x02 # word_of_nat (length ?c) # ?c @ rest) = Some (2, length ?c)"
    using len by (intro decode_length_short) simp
  ultimately show ?thesis
    using len by (auto simp: zf_der_decode_int_fixed_def encode_int_content ZF_PUBLIC_KEY_LEN_def)
qed

lemma decode_encode_signature:
  assumes "length r = 32" "length s = 32" "zf_ecdsa_der_encode_signature r s capacity \<noteq> []"
  shows "zf_ecdsa_der_decode_signature (zf_ecdsa_der_encode_signature r s capacity) = Some (r @ s)"
proof -
  let ?tmp = "zf_der_encode_int r @ zf_der_encode_int s"
  let ?sig = "0x30 # word_of_nat (length ?tmp) # ?tmp"
  have sig: "zf_ecdsa_der_encode_signature r s capacity = ?sig"
    using assms(3) by (simp add: zf_ecdsa_der_encode_signature_def Let_def split: if_split_asm)
  have "length ?tmp < 128"
    using der_content_length [OF assms(1)] der_content_length [OF assms(2)] by (simp add: encode_int_content)
  from decode_length_short [OF this, of "0x30" "[]"]
  have len: "zf_der_decode_length ?sig = Some (2, length ?tmp)" by simp
  have r: "zf_der_decode_int_fixed ?tmp = Some (length (zf_der_encode_int r), r)"
    by (rule decode_encode_int [OF assms(1)])
  have s: "zf_der_decode_int_fixed (zf_der_encode_int s) = Some (length (zf_der_encode_int s), s)"
    using decode_encode_int [OF assms(2), of "[]"] by simp
  have "drop 2 ?sig = ?tmp" "drop (2 + length (zf_der_encode_int r)) ?sig = zf_der_encode_int s"
    by simp_all
  with len r s show ?thesis
    unfolding sig by (simp add: zf_ecdsa_der_decode_signature_def)
qed

lemma encode_signature_length:
  assumes "length r = 32" "length s = 32"
  shows "length (zf_ecdsa_der_encode_signature r s capacity) \<le> min 72 capacity"
    "72 \<le> capacity \<Longrightarrow> zf_ecdsa_der_encode_signature r s capacity \<noteq> []"
  using der_content_length [OF assms(1)] der_content_length [OF assms(2)]
  by (auto simp: zf_ecdsa_der_encode_signature_def Let_def encode_int_content)

end
