(* ===== verification/Attestation.thy ===== *)
theory Attestation
  imports Encrypted_Blob Ecdsa_Der
begin

text \<open>
  \<^verbatim>\<open>attestation/local.c\<close>: the attestation certificate of the device, written in DER by a small
  bounded writer and read back by a small parser, and the pair of files that hold it and its private
  key. Allocation is taken to succeed, as the firmware stops when it does not.
\<close>

definition ZF_ATTESTATION_CERT_MAX_SIZE :: nat where "ZF_ATTESTATION_CERT_MAX_SIZE = 768"
definition ZF_LOCAL_ATTESTATION_KEY_FILE_VERSION :: u32 where "ZF_LOCAL_ATTESTATION_KEY_FILE_VERSION = 1"
definition ZF_LOCAL_ATTESTATION_KEY_TYPE_USER :: u32 where "ZF_LOCAL_ATTESTATION_KEY_TYPE_USER = 1"
definition ZF_LOCAL_ATTESTATION_TBS_MAX_SIZE :: nat where "ZF_LOCAL_ATTESTATION_TBS_MAX_SIZE = 512"
definition ZF_LOCAL_ATTESTATION_SIGNATURE_MAX_SIZE :: nat where "ZF_LOCAL_ATTESTATION_SIGNATURE_MAX_SIZE = 80"
definition ZF_LOCAL_ATTESTATION_BIT_STRING_MAX_SIZE :: nat where
  "ZF_LOCAL_ATTESTATION_BIT_STRING_MAX_SIZE = ZF_LOCAL_ATTESTATION_SIGNATURE_MAX_SIZE + 1"
definition ZF_LOCAL_ATTESTATION_EC_POINT_SIZE :: nat where "ZF_LOCAL_ATTESTATION_EC_POINT_SIZE = 65"
definition ZF_PRIVATE_KEY_LEN :: nat where "ZF_PRIVATE_KEY_LEN = 32"

record ZfLocalAttestationProfile =
  pf_data_dir :: path
  pf_assets_dir :: path
  pf_cert_file :: path
  pf_cert_temp_file :: path
  pf_key_file :: path
  pf_key_temp_file :: path
  pf_key_file_type :: string
  pf_subject_der :: bytes
  pf_extensions_der :: bytes
  pf_identity :: bytes

section \<open>The DER writer\<close>

text \<open>A buffer: what has been written, and the capacity. An operation that fails ends the build.\<close>

record ZfDerBuffer =
  der_data :: bytes
  der_capacity :: nat

definition zf_der_append :: "ZfDerBuffer \<Rightarrow> bytes \<Rightarrow> ZfDerBuffer option" where
  "zf_der_append buffer d =
    (if length (der_data buffer) > der_capacity buffer \<or>
        length d > der_capacity buffer - length (der_data buffer) then None
     else Some (buffer\<lparr>der_data := der_data buffer @ d\<rparr>))"

definition zf_der_length_size :: "nat \<Rightarrow> nat" where
  "zf_der_length_size value_len = (if value_len < 0x80 then 1 else if value_len \<le> 0xFF then 2 else 3)"

text \<open>The length octets; a length above 65535 is cut, and no buffer is that large.\<close>

definition der_length_bytes :: "nat \<Rightarrow> bytes" where
  "der_length_bytes value_len =
    (if zf_der_length_size value_len = 1 then [word_of_nat value_len]
     else if zf_der_length_size value_len = 2 then [0x81, word_of_nat value_len]
     else [0x82, word_of_nat (value_len div 256), word_of_nat value_len])"

definition zf_der_append_length :: "ZfDerBuffer \<Rightarrow> nat \<Rightarrow> ZfDerBuffer option" where
  "zf_der_append_length buffer value_len = zf_der_append buffer (der_length_bytes value_len)"

definition zf_der_write_length :: "nat \<Rightarrow> nat \<Rightarrow> bytes option" where
  "zf_der_write_length out_capacity value_len =
    (if zf_der_length_size value_len > out_capacity \<or> zf_der_length_size value_len > 3 then None
     else Some (der_length_bytes value_len))"

definition zf_der_wrap_tlv_in_place :: "ZfDerBuffer \<Rightarrow> byte \<Rightarrow> ZfDerBuffer option" where
  "zf_der_wrap_tlv_in_place buffer tag =
    (let n = length (der_data buffer);
         length_len = zf_der_length_size n;
         header_len = 1 + length_len in
     if n > der_capacity buffer then None
     else if header_len > der_capacity buffer \<or> n > der_capacity buffer - header_len then None
     else case zf_der_write_length length_len n of
         None \<Rightarrow> None
       | Some l \<Rightarrow> Some (buffer\<lparr>der_data := tag # l @ der_data buffer\<rparr>))"

definition zf_der_append_tlv :: "ZfDerBuffer \<Rightarrow> byte \<Rightarrow> bytes \<Rightarrow> ZfDerBuffer option" where
  "zf_der_append_tlv buffer tag v =
    Option.bind (zf_der_append buffer [tag]) (\<lambda>buffer.
    Option.bind (zf_der_append_length buffer (length v)) (\<lambda>buffer.
    zf_der_append buffer v))"

definition zf_der_append_integer :: "ZfDerBuffer \<Rightarrow> bytes \<Rightarrow> ZfDerBuffer option" where
  "zf_der_append_integer buffer v =
    (if length v = 0 \<or> length v > ZF_PRIVATE_KEY_LEN then None
     else
       let v = der_strip v
       in zf_der_append_tlv buffer 0x02 ((if hd v AND 0x80 \<noteq> 0 then [0] else []) @ v))"

definition zf_der_append_bit_string :: "ZfDerBuffer \<Rightarrow> bytes \<Rightarrow> nat \<Rightarrow> ZfDerBuffer option" where
  "zf_der_append_bit_string buffer v scratch_capacity =
    (if scratch_capacity = 0 \<or> length v > scratch_capacity - 1 then None
     else zf_der_append_tlv buffer 0x03 (0 # v))"

section \<open>The DER reader\<close>

text \<open>The same length decoder as for signatures.\<close>

definition zf_der_parse_length :: "bytes \<Rightarrow> (nat \<times> nat) option" where
  "zf_der_parse_length input =
    (if length input < 2 then None
     else if input ! 1 AND 0x80 = 0 then
       let value_len = unat (input ! 1)
       in if value_len \<le> length input - 2 then Some (2, value_len) else None
     else
       let length_octets = unat (input ! 1 AND 0x7F) in
       if length_octets = 0 \<or> length_octets > 4 \<or> length_octets > length input - 2 then None
       else
         let value_len = unat (be_value (take length_octets (drop 2 input)) :: u32);
             header_len = 2 + length_octets
         in if value_len \<le> length input - header_len then Some (header_len, value_len) else None)"

text \<open>The value of the element and its total length.\<close>

definition zf_der_read_element :: "bytes \<Rightarrow> byte \<Rightarrow> (bytes \<times> nat) option" where
  "zf_der_read_element input expected_tag =
    (if length input < 2 \<or> input ! 0 \<noteq> expected_tag then None
     else case zf_der_parse_length input of
         None \<Rightarrow> None
       | Some (header_len, value_len) \<Rightarrow>
          if value_len > SIZE_MAX - header_len then None
          else Some (take value_len (drop header_len input), header_len + value_len))"

definition zf_contains :: "bytes \<Rightarrow> bytes \<Rightarrow> bool" where
  "zf_contains haystack needle =
    (if length needle = 0 \<or> length haystack < length needle then False
     else list_ex (\<lambda>i. take (length needle) (drop i haystack) = needle)
       [0..<length haystack - length needle + 1])"

text \<open>Skip the elements with the given tags.\<close>

fun der_skip :: "byte list \<Rightarrow> bytes \<Rightarrow> bytes option" where
  "der_skip [] input = Some input"
| "der_skip (tag # tags) input =
    (case zf_der_read_element input tag of
       None \<Rightarrow> None
     | Some (_, element_len) \<Rightarrow> der_skip tags (drop element_len input))"

text \<open>
  The certificate is three elements; the first holds, behind an optional version, a serial number and
  four sequences, then the key info and optional extensions; the key info ends with a bit string that
  is the uncompressed point.
\<close>

definition zf_local_attestation_extract_cert_public_key :: "bytes \<Rightarrow> bytes option" where
  "zf_local_attestation_extract_cert_public_key cert =
    Option.bind (zf_der_read_element cert 0x30) (\<lambda>(certificate_value, element_len).
     if element_len \<noteq> length cert then None
     else
    Option.bind (zf_der_read_element certificate_value 0x30) (\<lambda>(tbs_value, element_len).
    Option.bind (der_skip [0x30, 0x03] (drop element_len certificate_value)) (\<lambda>rest.
     if rest \<noteq> [] then None
     else
    Option.bind (if tbs_value \<noteq> [] \<and> tbs_value ! 0 = 0xA0 then der_skip [0xA0] tbs_value
                 else Some tbs_value) (\<lambda>tbs.
    Option.bind (der_skip [0x02, 0x30, 0x30, 0x30, 0x30] tbs) (\<lambda>tbs.
    Option.bind (zf_der_read_element tbs 0x30) (\<lambda>(spki_value, element_len).
    Option.bind (let tbs = drop element_len tbs in if tbs \<noteq> [] then der_skip [0xA3] tbs else Some tbs) (\<lambda>tbs.
     if tbs \<noteq> [] then None
     else
    Option.bind (der_skip [0x30] spki_value) (\<lambda>spki.
    Option.bind (zf_der_read_element spki 0x03) (\<lambda>(bit_string_value, element_len).
     if drop element_len spki \<noteq> [] \<or>
        length bit_string_value \<noteq> ZF_LOCAL_ATTESTATION_EC_POINT_SIZE + 1 \<or>
        bit_string_value ! 0 \<noteq> 0x00 \<or> bit_string_value ! 1 \<noteq> 0x04 then None
     else Some (take ZF_LOCAL_ATTESTATION_EC_POINT_SIZE (drop 1 bit_string_value)))))))))))"

definition zf_local_attestation_private_key_matches_cert ::
  "'w hal \<Rightarrow> bytes \<Rightarrow> bytes \<Rightarrow> bytes \<Rightarrow> bool" where
  "zf_local_attestation_private_key_matches_cert hal private_key cert identity =
    (if length cert = 0 then False
     else case zf_local_attestation_extract_cert_public_key cert of
         None \<Rightarrow> False
       | Some cert_public_key \<Rightarrow>
          (case zf_crypto_compute_public_key_from_private hal private_key of
             None \<Rightarrow> False
           | Some (public_x, public_y) \<Rightarrow>
              cert_public_key ! 0 = 0x04 \<and> take 32 (drop 1 cert_public_key) = public_x \<and>
              take 32 (drop 33 cert_public_key) = public_y \<and>
              (length identity = 0 \<or> zf_contains cert identity)))"

section \<open>Building the certificate\<close>

definition cert_version :: bytes where "cert_version = [0x02, 0x01, 0x02]"
definition ecdsa_sha256_alg :: bytes where
  "ecdsa_sha256_alg = [0x30, 0x0A, 0x06, 0x08, 0x2A, 0x86, 0x48, 0xCE, 0x3D, 0x04, 0x03, 0x02]"
definition cert_validity :: bytes where
  "cert_validity = [0x30, 0x1E, 0x17, 0x0D] @ ascii ''260101000000Z'' @ [0x17, 0x0D] @ ascii ''360101000000Z''"
definition public_key_alg :: bytes where
  "public_key_alg = [0x30, 0x13, 0x06, 0x07, 0x2A, 0x86, 0x48, 0xCE, 0x3D, 0x02, 0x01,
    0x06, 0x08, 0x2A, 0x86, 0x48, 0xCE, 0x3D, 0x03, 0x01, 0x07]"

definition zf_generate_keypair :: "'w hal \<Rightarrow> 'w \<Rightarrow> (bytes \<times> bytes) option \<times> 'w" where
  "zf_generate_keypair hal w =
    (case zf_crypto_generate_key_agreement_key hal w of
       (None, w) \<Rightarrow> (None, w)
     | (Some key, w) \<Rightarrow> (Some (ka_private_key key, 0x04 # ka_public_x key @ ka_public_y key), w))"

definition zf_profile_is_valid :: "ZfLocalAttestationProfile \<Rightarrow> bool" where
  "zf_profile_is_valid profile \<longleftrightarrow> pf_subject_der profile \<noteq> [] \<and> pf_extensions_der profile \<noteq> []"

text \<open>The serial number is positive and has no leading zero.\<close>

definition zf_build_tbs ::
  "'w hal \<Rightarrow> ZfLocalAttestationProfile \<Rightarrow> bytes \<Rightarrow> nat \<Rightarrow> 'w \<Rightarrow> bytes option \<times> 'w" where
  "zf_build_tbs hal profile public_key tbs_capacity w =
    (if \<not> zf_profile_is_valid profile then (None, w)
     else
       let (serial, w) = random_fill hal 16 w;
           serial = serial[0 := serial ! 0 AND 0x7F];
           serial = (if serial ! 0 = 0 then serial[0 := 1] else serial);
           body = \<lparr>der_data = [], der_capacity = tbs_capacity\<rparr>;
           spki = \<lparr>der_data = [], der_capacity = 128\<rparr>
       in (Option.bind (zf_der_append_tlv body 0xA0 cert_version) (\<lambda>body.
           Option.bind (zf_der_append_integer body serial) (\<lambda>body.
           Option.bind (zf_der_append body ecdsa_sha256_alg) (\<lambda>body.
           Option.bind (zf_der_append body (pf_subject_der profile)) (\<lambda>body.
           Option.bind (zf_der_append body cert_validity) (\<lambda>body.
           Option.bind (zf_der_append body (pf_subject_der profile)) (\<lambda>body.
           Option.bind (zf_der_append spki public_key_alg) (\<lambda>spki.
           Option.bind (zf_der_append_bit_string spki public_key
             ZF_LOCAL_ATTESTATION_BIT_STRING_MAX_SIZE) (\<lambda>spki.
           Option.bind (zf_der_append_tlv body 0x30 (der_data spki)) (\<lambda>body.
           Option.bind (zf_der_append_tlv body 0xA3 (pf_extensions_der profile)) (\<lambda>body.
           Option.bind (zf_der_wrap_tlv_in_place body 0x30) (\<lambda>body.
             Some (der_data body)))))))))))), w))"

definition zf_build_cert ::
  "'w hal \<Rightarrow> ZfLocalAttestationProfile \<Rightarrow> bytes \<Rightarrow> bytes \<Rightarrow> nat \<Rightarrow> 'w \<Rightarrow> bytes option \<times> 'w" where
  "zf_build_cert hal profile private_key public_key cert_capacity w =
    (case zf_build_tbs hal profile public_key ZF_LOCAL_ATTESTATION_TBS_MAX_SIZE w of
       (None, w) \<Rightarrow> (None, w)
     | (Some tbs, w) \<Rightarrow>
        (case zf_crypto_sign_hash_with_private_key hal private_key (zf_crypto_sha256 tbs)
            ZF_LOCAL_ATTESTATION_SIGNATURE_MAX_SIZE w of
           (None, w) \<Rightarrow> (None, w)
         | (Some signature, w) \<Rightarrow>
            (Option.bind (zf_der_append \<lparr>der_data = [], der_capacity = cert_capacity\<rparr> tbs) (\<lambda>body.
             Option.bind (zf_der_append body ecdsa_sha256_alg) (\<lambda>body.
             Option.bind (zf_der_append_bit_string body signature
               ZF_LOCAL_ATTESTATION_BIT_STRING_MAX_SIZE) (\<lambda>body.
             Option.bind (zf_der_wrap_tlv_in_place body 0x30) (\<lambda>body. Some (der_data body))))), w)))"

section \<open>The pair of files\<close>

definition zf_local_attestation_ensure_directories ::
  "'w hal \<Rightarrow> ZfLocalAttestationProfile \<Rightarrow> 'w \<Rightarrow> bool \<times> 'w" where
  "zf_local_attestation_ensure_directories hal profile w =
    (if \<not> zf_profile_is_valid profile then (False, w)
     else and_then (zf_storage_ensure_app_data_dir hal w) (\<lambda>w.
          and_then (zf_storage_ensure_dir hal (pf_data_dir profile) w) (\<lambda>w.
          zf_storage_ensure_dir hal (pf_assets_dir profile) w)))"

definition zf_local_attestation_remove_paths ::
  "'w hal \<Rightarrow> ZfLocalAttestationProfile \<Rightarrow> bool \<Rightarrow> 'w \<Rightarrow> bool \<times> 'w" where
  "zf_local_attestation_remove_paths hal profile remove_committed w =
    (if \<not> zf_profile_is_valid profile then (False, w)
     else if remove_committed then
       and_then (zf_storage_remove_atomic_file hal (pf_cert_file profile) (pf_cert_temp_file profile) w)
         (zf_storage_remove_atomic_file hal (pf_key_file profile) (pf_key_temp_file profile))
     else zf_storage_remove_optional_paths hal [pf_cert_temp_file profile, pf_key_temp_file profile] w)"

definition zf_local_attestation_cleanup_temps :: "'w hal \<Rightarrow> ZfLocalAttestationProfile \<Rightarrow> 'w \<Rightarrow> 'w" where
  "zf_local_attestation_cleanup_temps hal profile w =
    (let w = snd (zf_storage_recover_atomic_file hal (pf_cert_file profile) (pf_cert_temp_file profile) w);
         w = snd (zf_storage_recover_atomic_file hal (pf_key_file profile) (pf_key_temp_file profile) w)
     in snd (zf_local_attestation_remove_paths hal profile False w))"

definition zf_local_attestation_cleanup_pair :: "'w hal \<Rightarrow> ZfLocalAttestationProfile \<Rightarrow> 'w \<Rightarrow> 'w" where
  "zf_local_attestation_cleanup_pair hal profile w =
    snd (zf_local_attestation_remove_paths hal profile True w)"

definition zf_local_attestation_cleanup_storage ::
  "'w hal \<Rightarrow> ZfLocalAttestationProfile \<Rightarrow> bool \<Rightarrow> 'w \<Rightarrow> 'w" where
  "zf_local_attestation_cleanup_storage hal profile remove_committed w =
    (if \<not> zf_profile_is_valid profile then w
     else if remove_committed then zf_local_attestation_cleanup_pair hal profile w
     else zf_local_attestation_cleanup_temps hal profile w)"

definition zf_local_attestation_get_cert_size ::
  "'w hal \<Rightarrow> ZfLocalAttestationProfile \<Rightarrow> 'w \<Rightarrow> nat option \<times> 'w" where
  "zf_local_attestation_get_cert_size hal profile w =
    (if \<not> zf_profile_is_valid profile then (None, w)
     else case fs_read hal (pf_cert_file profile) w of
         (None, w) \<Rightarrow> (None, w)
       | (Some d, w) \<Rightarrow>
          (if length d > 0 \<and> length d \<le> ZF_ATTESTATION_CERT_MAX_SIZE then Some (length d) else None, w))"

definition zf_local_attestation_load_cert ::
  "'w hal \<Rightarrow> ZfLocalAttestationProfile \<Rightarrow> nat \<Rightarrow> 'w \<Rightarrow> bytes option \<times> 'w" where
  "zf_local_attestation_load_cert hal profile out_capacity w =
    (if \<not> zf_profile_is_valid profile then (None, w)
     else zf_storage_read_file hal (pf_cert_file profile) out_capacity w)"

definition attestation_key_write_spec :: "ZfLocalAttestationProfile \<Rightarrow> bytes \<Rightarrow> ZfStorageEncryptedBlobWriteSpec" where
  "attestation_key_write_spec profile private_key =
    \<lparr>ws_file_type = pf_key_file_type profile, ws_version = ZF_LOCAL_ATTESTATION_KEY_FILE_VERSION,
     ws_type = Some ZF_LOCAL_ATTESTATION_KEY_TYPE_USER, ws_plaintext = private_key,
     ws_encrypted_len = 48, ws_write_mac = None\<rparr>"

definition attestation_key_read_spec :: "ZfLocalAttestationProfile \<Rightarrow> ZfStorageEncryptedBlobReadSpec" where
  "attestation_key_read_spec profile =
    \<lparr>rs_file_type = pf_key_file_type profile, rs_accepted_versions = [ZF_LOCAL_ATTESTATION_KEY_FILE_VERSION],
     rs_has_type = True, rs_accept_any_type = False, rs_expected_type = ZF_LOCAL_ATTESTATION_KEY_TYPE_USER,
     rs_plaintext_len = ZF_PRIVATE_KEY_LEN, rs_encrypted_len = 48, rs_has_mac = False, rs_mac_len = 0,
     rs_verify_mac = None\<rparr>"

definition zf_encrypt_private_key ::
  "'w hal \<Rightarrow> ZfLocalAttestationProfile \<Rightarrow> bytes \<Rightarrow> 'w \<Rightarrow> bool \<times> 'w" where
  "zf_encrypt_private_key hal profile private_key w =
    (if \<not> zf_profile_is_valid profile then (False, w)
     else zf_storage_write_encrypted_blob_atomic hal (pf_key_file profile) (pf_key_temp_file profile)
       (attestation_key_write_spec profile private_key) w)"

definition zf_local_attestation_load_private_key ::
  "'w hal \<Rightarrow> ZfLocalAttestationProfile \<Rightarrow> 'w \<Rightarrow> bytes option \<times> 'w" where
  "zf_local_attestation_load_private_key hal profile w =
    (if \<not> zf_profile_is_valid profile then (None, w)
     else zf_storage_read_encrypted_blob hal (pf_key_file profile) (attestation_key_read_spec profile) w)"

definition zf_private_key_matches_cert ::
  "'w hal \<Rightarrow> ZfLocalAttestationProfile \<Rightarrow> bytes \<Rightarrow> nat \<Rightarrow> 'w \<Rightarrow> bool \<times> 'w" where
  "zf_private_key_matches_cert hal profile private_key cert_capacity w =
    (if cert_capacity = 0 \<or> cert_capacity > ZF_ATTESTATION_CERT_MAX_SIZE then (False, w)
     else case zf_local_attestation_load_cert hal profile cert_capacity w of
         (None, w) \<Rightarrow> (False, w)
       | (Some cert, w) \<Rightarrow>
          (zf_local_attestation_private_key_matches_cert hal private_key cert (pf_identity profile), w))"

text \<open>The certificate is written first; a failure anywhere removes the pair.\<close>

definition zf_bootstrap_assets ::
  "'w hal \<Rightarrow> ZfLocalAttestationProfile \<Rightarrow> bytes \<Rightarrow> bytes \<Rightarrow> 'w \<Rightarrow> bool \<times> 'w" where
  "zf_bootstrap_assets hal profile cert private_key w =
    (if \<not> zf_profile_is_valid profile \<or> length cert = 0 \<or> length cert > ZF_ATTESTATION_CERT_MAX_SIZE
     then (False, w)
     else
       let fail = (\<lambda>w. (False, zf_local_attestation_cleanup_pair hal profile w)) in
       case zf_local_attestation_ensure_directories hal profile w of
         (False, w) \<Rightarrow> fail w
       | (True, w) \<Rightarrow>
          let w = zf_local_attestation_cleanup_temps hal profile w in
          (case zf_storage_write_file_atomic hal (pf_cert_file profile) (pf_cert_temp_file profile) cert w of
             (False, w) \<Rightarrow> fail w
           | (True, w) \<Rightarrow>
              (case zf_encrypt_private_key hal profile private_key w of
                 (False, w) \<Rightarrow> fail w
               | (True, w) \<Rightarrow> (True, w))))"

definition zf_generate_assets :: "'w hal \<Rightarrow> ZfLocalAttestationProfile \<Rightarrow> 'w \<Rightarrow> bool \<times> 'w" where
  "zf_generate_assets hal profile w =
    (case zf_generate_keypair hal w of
       (None, w) \<Rightarrow> (False, w)
     | (Some (private_key, public_key), w) \<Rightarrow>
        (case zf_build_cert hal profile private_key public_key ZF_ATTESTATION_CERT_MAX_SIZE w of
           (None, w) \<Rightarrow> (False, w)
         | (Some cert, w) \<Rightarrow> zf_bootstrap_assets hal profile cert private_key w))"

definition zf_assets_ready :: "'w hal \<Rightarrow> ZfLocalAttestationProfile \<Rightarrow> 'w \<Rightarrow> bool \<times> 'w" where
  "zf_assets_ready hal profile w =
    (case zf_local_attestation_load_private_key hal profile w of
       (None, w) \<Rightarrow> (False, w)
     | (Some private_key, w) \<Rightarrow>
        zf_private_key_matches_cert hal profile private_key ZF_ATTESTATION_CERT_MAX_SIZE w)"

definition zf_local_attestation_ensure_assets ::
  "'w hal \<Rightarrow> ZfLocalAttestationProfile \<Rightarrow> 'w \<Rightarrow> bool \<times> 'w" where
  "zf_local_attestation_ensure_assets hal profile w =
    (let w = zf_local_attestation_cleanup_storage hal profile False w in
     case zf_assets_ready hal profile w of
       (True, w) \<Rightarrow> (True, w)
     | (False, w) \<Rightarrow>
        let w = zf_local_attestation_cleanup_storage hal profile True w in
        (case and_then (zf_generate_assets hal profile w) (zf_assets_ready hal profile) of
           (True, w) \<Rightarrow> (True, zf_local_attestation_cleanup_storage hal profile False w)
         | (False, w) \<Rightarrow> (False, zf_local_attestation_cleanup_storage hal profile True w)))"

section \<open>The certificate is read back\<close>

definition der_tlv :: "byte \<Rightarrow> bytes \<Rightarrow> bytes" where
  "der_tlv tag v = tag # der_length_bytes (length v) @ v"

lemma der_append_data:
  "zf_der_append b d = Some b' \<Longrightarrow> der_data b' = der_data b @ d"
  by (auto simp: zf_der_append_def split: if_split_asm)

lemma der_append_tlv_data:
  "zf_der_append_tlv b tag v = Some b' \<Longrightarrow> der_data b' = der_data b @ der_tlv tag v"
  by (auto simp: zf_der_append_tlv_def zf_der_append_length_def der_tlv_def bind_eq_Some_conv
      dest!: der_append_data)

lemma der_append_bit_string_data:
  "zf_der_append_bit_string b v c = Some b' \<Longrightarrow> der_data b' = der_data b @ der_tlv 0x03 (0 # v)"
  by (auto simp: zf_der_append_bit_string_def dest!: der_append_tlv_data split: if_split_asm)

lemma der_append_integer_data:
  "zf_der_append_integer b v = Some b' \<Longrightarrow> \<exists>x. der_data b' = der_data b @ der_tlv 0x02 x"
  by (auto simp: zf_der_append_integer_def Let_def dest!: der_append_tlv_data split: if_split_asm)

lemma der_wrap_data:
  "zf_der_wrap_tlv_in_place b tag = Some b' \<Longrightarrow> der_data b' = der_tlv tag (der_data b)"
  by (auto simp: zf_der_wrap_tlv_in_place_def zf_der_write_length_def der_tlv_def Let_def
      split: if_split_asm option.split_asm)

lemma der_length_bytes_size: "length (der_length_bytes n) = zf_der_length_size n"
  by (simp add: der_length_bytes_def zf_der_length_size_def)

lemma der_capacity_kept:
  "zf_der_append b d = Some b' \<Longrightarrow> der_capacity b' = der_capacity b"
  "zf_der_append_tlv b tag v = Some b' \<Longrightarrow> der_capacity b' = der_capacity b"
  "zf_der_append_bit_string b v c = Some b' \<Longrightarrow> der_capacity b' = der_capacity b"
  by (auto simp: zf_der_append_bit_string_def zf_der_append_tlv_def zf_der_append_length_def zf_der_append_def
      bind_eq_Some_conv split: if_split_asm)

lemma der_wrap_capacity:
  "zf_der_wrap_tlv_in_place b tag = Some b' \<Longrightarrow> length (der_data b') \<le> der_capacity b"
  by (auto simp: zf_der_wrap_tlv_in_place_def zf_der_write_length_def der_length_bytes_size Let_def
      split: if_split_asm)

text \<open>An element is read back with whatever follows it.\<close>

lemma der_parse_length_tlv:
  assumes "length v < 65536"
  shows "zf_der_parse_length (der_tlv tag v @ rest) = Some (1 + length (der_length_bytes (length v)), length v)"
proof -
  let ?n = "length v"
  consider "?n < 128" | "128 \<le> ?n" "?n < 256" | "256 \<le> ?n" by linarith
  then show ?thesis
  proof cases
    case 1
    then have "(word_of_nat ?n :: byte) AND 0x80 = 0" by (rule byte_7bit)
    with 1 show ?thesis
      by (simp add: zf_der_parse_length_def der_tlv_def der_length_bytes_def zf_der_length_size_def Let_def
          unat_of_nat_byte)
  next
    case 2
    then have "unat (be_value [word_of_nat ?n :: byte] :: u32) = ?n"
      by (simp add: be_value_def unat_of_nat unsigned_ucast_eq take_bit_nat_eq_self)
    with 2 show ?thesis
      by (simp add: zf_der_parse_length_def der_tlv_def der_length_bytes_def zf_der_length_size_def Let_def)
  next
    case 3
    have "be_bytes 2 (word_of_nat ?n :: u32) = [word_of_nat (?n div 256), word_of_nat ?n]"
      using assms by (simp add: numeral_2_eq_2 drop_bit_eq_div)
        (simp add: word_unat_eq_iff unat_div unat_of_nat unsigned_ucast_eq take_bit_eq_mod)
    then have "unat (be_value [word_of_nat (?n div 256) :: byte, word_of_nat ?n] :: u32) = ?n"
      using be_value_be_bytes [of 2 "word_of_nat ?n :: u32"] assms
      by (simp add: unsigned_take_bit_eq unat_of_nat take_bit_nat_eq_self)
    with 3 show ?thesis
      by (simp add: zf_der_parse_length_def der_tlv_def der_length_bytes_def zf_der_length_size_def Let_def)
  qed
qed

lemma read_element_tlv:
  assumes "length v < 65536"
  shows "zf_der_read_element (der_tlv tag v @ rest) tag = Some (v, length (der_tlv tag v))"
proof -
  let ?h = "length (der_length_bytes (length v))"
  have h: "1 \<le> ?h" "?h \<le> 3" by (auto simp: der_length_bytes_size zf_der_length_size_def)
  have "\<not> length v > SIZE_MAX - (1 + ?h)" using assms h by (simp add: SIZE_MAX_def)
  moreover have "2 \<le> length (der_tlv tag v @ rest)" "(der_tlv tag v @ rest) ! 0 = tag"
    "take (length v) (drop (1 + ?h) (der_tlv tag v @ rest)) = v" "length (der_tlv tag v) = 1 + ?h + length v"
    using h(1) by (simp_all add: der_tlv_def)
  ultimately show ?thesis
    using der_parse_length_tlv [OF assms, of tag rest] h(1)
    by (auto simp: zf_der_read_element_def der_length_bytes_def)
qed

lemma skip_tlv:
  "length v < 65536 \<Longrightarrow> der_skip (tag # tags) (der_tlv tag v @ rest) = der_skip tags rest"
  using read_element_tlv [of v tag rest] by simp

lemma fixed_elements:
  "ecdsa_sha256_alg = der_tlv 0x30 (drop 2 ecdsa_sha256_alg)"
  "cert_validity = der_tlv 0x30 (drop 2 cert_validity)"
  "public_key_alg = der_tlv 0x30 (drop 2 public_key_alg)"
  by (simp_all add: der_tlv_def der_length_bytes_def zf_der_length_size_def ecdsa_sha256_alg_def
      cert_validity_def public_key_alg_def ascii_def)

text \<open>The subject of a profile is one element, as its certificates need.\<close>

definition profile_wf :: "ZfLocalAttestationProfile \<Rightarrow> bool" where
  "profile_wf profile \<longleftrightarrow> (\<exists>x. pf_subject_der profile = der_tlv 0x30 x) \<and> pf_extensions_der profile \<noteq> []"

definition tbs_content :: "bytes \<Rightarrow> ZfLocalAttestationProfile \<Rightarrow> bytes \<Rightarrow> bytes" where
  "tbs_content serial profile public_key =
    der_tlv 0xA0 cert_version @ der_tlv 0x02 serial @ ecdsa_sha256_alg @ pf_subject_der profile @
    cert_validity @ pf_subject_der profile @
    der_tlv 0x30 (public_key_alg @ der_tlv 0x03 (0 # public_key)) @ der_tlv 0xA3 (pf_extensions_der profile)"

lemma build_tbs_content:
  assumes "zf_build_tbs hal profile public_key capacity w = (Some tbs, w')"
  shows "\<exists>serial. tbs = der_tlv 0x30 (tbs_content serial profile public_key)"
  using assms
  by (auto simp: zf_build_tbs_def Let_def tbs_content_def bind_eq_Some_conv split: if_split_asm prod.split_asm
      dest!: der_append_data der_append_tlv_data der_append_integer_data der_append_bit_string_data der_wrap_data)

lemma build_cert_content:
  assumes "zf_build_cert hal profile private_key public_key capacity w = (Some cert, w')"
  shows "\<exists>serial signature. cert = der_tlv 0x30 (der_tlv 0x30 (tbs_content serial profile public_key) @
      ecdsa_sha256_alg @ der_tlv 0x03 (0 # signature)) \<and> length cert \<le> capacity"
proof -
  obtain t w1 where t: "zf_build_tbs hal profile public_key ZF_LOCAL_ATTESTATION_TBS_MAX_SIZE w = (t, w1)" by fastforce
  from assms t obtain tbs signature b1 b2 b3 b4 where "t = Some tbs"
    "zf_der_append \<lparr>der_data = [], der_capacity = capacity\<rparr> tbs = Some b1"
    "zf_der_append b1 ecdsa_sha256_alg = Some b2"
    "zf_der_append_bit_string b2 signature ZF_LOCAL_ATTESTATION_BIT_STRING_MAX_SIZE = Some b3"
    "zf_der_wrap_tlv_in_place b3 0x30 = Some b4" "cert = der_data b4"
    by (auto simp: zf_build_cert_def bind_eq_Some_conv split: option.split_asm prod.split_asm)
  moreover from this(2-5) have "length (der_data b4) \<le> capacity"
    using der_wrap_capacity [of b3] der_capacity_kept [of b1] der_capacity_kept [of b2]
      der_capacity_kept(1) [of "\<lparr>der_data = [], der_capacity = capacity\<rparr>"] by (metis ZfDerBuffer.select_convs(2))
  moreover obtain serial where "tbs = der_tlv 0x30 (tbs_content serial profile public_key)"
    using build_tbs_content [of hal profile public_key _ w tbs] t calculation(1) by blast
  ultimately show ?thesis
    by - (rule exI [of _ serial], rule exI [of _ signature],
        auto dest!: der_append_data der_append_bit_string_data der_wrap_data)
qed

lemma length_der_tlv: "length v < length (der_tlv tag v)"
  by (simp add: der_tlv_def)

lemma skip_fixed:
  "der_skip (0x30 # tags) (ecdsa_sha256_alg @ rest) = der_skip tags rest"
  "der_skip (0x30 # tags) (cert_validity @ rest) = der_skip tags rest"
  "der_skip (0x30 # tags) (public_key_alg @ rest) = der_skip tags rest"
proof -
  have "length ecdsa_sha256_alg < 1000" "length cert_validity < 1000" "length public_key_alg < 1000"
    by (simp_all add: ecdsa_sha256_alg_def cert_validity_def public_key_alg_def ascii_def)
  then show "der_skip (0x30 # tags) (ecdsa_sha256_alg @ rest) = der_skip tags rest"
    "der_skip (0x30 # tags) (cert_validity @ rest) = der_skip tags rest"
    "der_skip (0x30 # tags) (public_key_alg @ rest) = der_skip tags rest"
    using skip_tlv [of "drop 2 ecdsa_sha256_alg" "0x30" tags rest] skip_tlv [of "drop 2 cert_validity" "0x30" tags rest]
      skip_tlv [of "drop 2 public_key_alg" "0x30" tags rest]
    by (simp_all flip: fixed_elements)
qed

lemma extract_content:
  assumes wf: "profile_wf profile" and key: "length public_key = 65" "public_key ! 0 = 0x04"
    and cert: "cert = der_tlv 0x30 (der_tlv 0x30 (tbs_content serial profile public_key) @
      ecdsa_sha256_alg @ der_tlv 0x03 (0 # signature))" and len: "length cert < 65536"
  shows "zf_local_attestation_extract_cert_public_key cert = Some public_key"
proof -
  obtain x where x: "pf_subject_der profile = der_tlv 0x30 x" using wf by (auto simp: profile_wf_def)
  let ?tbs = "tbs_content serial profile public_key"
  let ?bits = "0 # public_key" and ?spki = "public_key_alg @ der_tlv 0x03 (0 # public_key)"
  let ?body = "der_tlv 0x30 ?tbs @ ecdsa_sha256_alg @ der_tlv 0x03 (0 # signature)"
  have sizes: "length ?body < 65536" "length ?tbs < 65536" "length (0 # signature) < 65536"
    "length serial < 65536" "length cert_version < 65536" "length x < 65536" "length ?spki < 65536"
    "length (pf_extensions_der profile) < 65536" "length ?bits < 65536"
    using len x unfolding cert tbs_content_def by (simp_all add: der_tlv_def)
  have 1: "zf_der_read_element cert 0x30 = Some (?body, length cert)"
    using read_element_tlv [OF sizes(1), of "0x30" "[]"] by (simp add: cert)
  have 2: "zf_der_read_element ?body 0x30 = Some (?tbs, length (der_tlv 0x30 ?tbs))"
    by (rule read_element_tlv [OF sizes(2)])
  have 3: "der_skip [0x30, 0x03] (ecdsa_sha256_alg @ der_tlv 0x03 (0 # signature)) = Some []"
    using skip_tlv [OF sizes(3), of "0x03" "[]" "[]"]
      skip_fixed(1) [of "[0x03]" "der_tlv 0x03 (0 # signature)"] by simp
  define rest1 where "rest1 = der_tlv 0x02 serial @ ecdsa_sha256_alg @ pf_subject_der profile @ cert_validity @
    pf_subject_der profile @ der_tlv 0x30 ?spki @ der_tlv 0xA3 (pf_extensions_der profile)"
  have tbs: "?tbs = der_tlv 0xA0 cert_version @ rest1" "?tbs \<noteq> []" "?tbs ! 0 = 0xA0"
    by (simp_all add: tbs_content_def rest1_def der_tlv_def)
  have 4: "der_skip [0xA0] ?tbs = Some rest1"
    unfolding tbs(1) using skip_tlv [OF sizes(5), of "0xA0" "[]" rest1] by simp
  have 5: "der_skip [0x02, 0x30, 0x30, 0x30, 0x30] rest1 =
      Some (der_tlv 0x30 ?spki @ der_tlv 0xA3 (pf_extensions_der profile))"
    unfolding rest1_def x by (simp only: skip_tlv [OF sizes(4)] skip_tlv [OF sizes(6)] skip_fixed der_skip.simps(1))
  have 6: "zf_der_read_element (der_tlv 0x30 ?spki @ der_tlv 0xA3 (pf_extensions_der profile)) 0x30 =
      Some (?spki, length (der_tlv 0x30 ?spki))"
    by (rule read_element_tlv [OF sizes(7)])
  have 7: "der_skip [0xA3] (der_tlv 0xA3 (pf_extensions_der profile)) = Some []"
    using skip_tlv [OF sizes(8), of "0xA3" "[]" "[]"] by simp
  have 8: "der_skip [0x30] ?spki = Some (der_tlv 0x03 ?bits)" by (simp only: skip_fixed der_skip.simps(1))
  have 9: "zf_der_read_element (der_tlv 0x03 ?bits) 0x03 = Some (?bits, length (der_tlv 0x03 ?bits))"
    using read_element_tlv [OF sizes(9), of "0x03" "[]"] by simp
  have ne: "der_tlv 0xA3 y \<noteq> []" for y by (simp add: der_tlv_def)
  show ?thesis
    unfolding zf_local_attestation_extract_cert_public_key_def
    using key by (simp add: 1 2 3 4 5 6 7 8 9 tbs(2,3) ne Let_def ZF_LOCAL_ATTESTATION_EC_POINT_SIZE_def
        del: der_skip.simps)
qed

end
