(* ===== verification/U2f.thy ===== *)
theory U2f
  imports Attestation Approval U2f_Apdu
begin

text \<open>
  The U2F authenticator: \<^verbatim>\<open>u2f/persistence.c\<close> (device key, counter and certificate files),
  \<^verbatim>\<open>u2f/session.c\<close> (start-up, one-shot user presence, command dispatch), \<^verbatim>\<open>u2f/response_encode.c\<close>
  (registration and authentication) and \<^verbatim>\<open>u2f/adapter.c\<close> (the bridge to the application). Request
  and response share one buffer in the program; here a command maps the bytes of the request to the
  bytes of the response. Notifications to the user interface have no counterpart.
\<close>

section \<open>Files\<close>

definition U2F_DATA_FOLDER :: path where "U2F_DATA_FOLDER = ZF_APP_DATA_DIR @ ''/u2f''"
definition U2F_ASSETS_FOLDER :: path where "U2F_ASSETS_FOLDER = U2F_DATA_FOLDER @ ''/assets''"
definition U2F_CERT_FILE :: path where "U2F_CERT_FILE = U2F_DATA_FOLDER @ ''/assets/cert.der''"
definition U2F_CERT_FILE_TMP :: path where "U2F_CERT_FILE_TMP = U2F_DATA_FOLDER @ ''/assets/cert.der.tmp''"
definition U2F_CERT_KEY_FILE :: path where "U2F_CERT_KEY_FILE = U2F_DATA_FOLDER @ ''/assets/cert_key.u2f''"
definition U2F_CERT_KEY_FILE_TMP :: path where
  "U2F_CERT_KEY_FILE_TMP = U2F_DATA_FOLDER @ ''/assets/cert_key.u2f.tmp''"
definition U2F_KEY_FILE :: path where "U2F_KEY_FILE = U2F_DATA_FOLDER @ ''/key.u2f''"
definition U2F_KEY_FILE_TMP :: path where "U2F_KEY_FILE_TMP = U2F_DATA_FOLDER @ ''/key.u2f.tmp''"
definition U2F_CNT_FILE :: path where "U2F_CNT_FILE = U2F_DATA_FOLDER @ ''/cnt.u2f''"
definition U2F_CNT_FILE_TMP :: path where "U2F_CNT_FILE_TMP = U2F_DATA_FOLDER @ ''/cnt.u2f.tmp''"

definition U2F_CERT_USER :: u32 where "U2F_CERT_USER = 1"
definition U2F_CERT_KEY_FILE_TYPE :: string where "U2F_CERT_KEY_FILE_TYPE = ''Flipper U2F Certificate Key File''"
definition U2F_CERT_KEY_VERSION :: u32 where "U2F_CERT_KEY_VERSION = 1"
definition U2F_DEVICE_KEY_FILE_TYPE :: string where "U2F_DEVICE_KEY_FILE_TYPE = ''Flipper U2F Device Key File''"
definition U2F_DEVICE_KEY_VERSION :: u32 where "U2F_DEVICE_KEY_VERSION = 1"
definition U2F_DEVICE_KEY_MAC_DOMAIN :: string where
  "U2F_DEVICE_KEY_MAC_DOMAIN = ''ZeroFIDO U2F device key file v1''"
definition U2F_COUNTER_FILE_TYPE :: string where "U2F_COUNTER_FILE_TYPE = ''Flipper U2F Counter File''"
definition U2F_COUNTER_VERSION :: u32 where "U2F_COUNTER_VERSION = 2"
definition U2F_COUNTER_CONTROL_VAL :: u32 where "U2F_COUNTER_CONTROL_VAL = 0xAA5500FF"
definition U2F_CERT_MAX_SIZE :: nat where "U2F_CERT_MAX_SIZE = 1024"

text \<open>The packed structure of the counter file: counter, salt, control value.\<close>

definition U2fCounterData :: "u32 \<Rightarrow> bytes \<Rightarrow> bytes" where
  "U2fCounterData counter random_salt = le_bytes 4 counter @ random_salt @ le_bytes 4 U2F_COUNTER_CONTROL_VAL"

definition u2f_generated_attestation_subject :: bytes where
  "u2f_generated_attestation_subject =
    [0x30, 0x49, 0x31, 0x0B, 0x30, 0x09, 0x06, 0x03, 0x55, 0x04, 0x06, 0x13, 0x02] @ ascii ''BG'' @
    [0x31, 0x11, 0x30, 0x0F, 0x06, 0x03, 0x55, 0x04, 0x0A, 0x0C, 0x08] @ ascii ''ZeroFIDO'' @
    [0x31, 0x27, 0x30, 0x25, 0x06, 0x03, 0x55, 0x04, 0x03, 0x0C, 0x1E] @
    ascii ''ZeroFIDO Local U2F Attestation''"

definition u2f_generated_attestation_extensions :: bytes where
  "u2f_generated_attestation_extensions =
    [0x30, 0x33, 0x30, 0x0C, 0x06, 0x03, 0x55, 0x1D, 0x13, 0x01, 0x01, 0xFF, 0x04, 0x02,
     0x30, 0x00, 0x30, 0x0E, 0x06, 0x03, 0x55, 0x1D, 0x0F, 0x01, 0x01, 0xFF, 0x04, 0x04,
     0x03, 0x02, 0x07, 0x80, 0x30, 0x13, 0x06, 0x0B, 0x2B, 0x06, 0x01, 0x04, 0x01, 0x82,
     0xE5, 0x1C, 0x02, 0x01, 0x01, 0x04, 0x04, 0x03, 0x02, 0x05, 0x20]"

definition u2f_generated_attestation_profile :: ZfLocalAttestationProfile where
  "u2f_generated_attestation_profile =
    \<lparr>pf_data_dir = U2F_DATA_FOLDER, pf_assets_dir = U2F_ASSETS_FOLDER, pf_cert_file = U2F_CERT_FILE,
     pf_cert_temp_file = U2F_CERT_FILE_TMP, pf_key_file = U2F_CERT_KEY_FILE,
     pf_key_temp_file = U2F_CERT_KEY_FILE_TMP, pf_key_file_type = U2F_CERT_KEY_FILE_TYPE,
     pf_subject_der = u2f_generated_attestation_subject,
     pf_extensions_der = u2f_generated_attestation_extensions, pf_identity = []\<rparr>"

definition u2f_data_counter_high_water :: "u32 \<Rightarrow> u32" where
  "u2f_data_counter_high_water counter =
    (let available = 0xFFFFFFFF - counter
     in if available < ZF_COUNTER_RESERVATION_WINDOW then 0xFFFFFFFF
        else counter + ZF_COUNTER_RESERVATION_WINDOW)"

definition u2f_data_recover_atomic_files :: "'w hal \<Rightarrow> 'w \<Rightarrow> 'w" where
  "u2f_data_recover_atomic_files hal w =
    (let w = snd (zf_storage_recover_atomic_file hal U2F_CERT_FILE U2F_CERT_FILE_TMP w);
         w = snd (zf_storage_recover_atomic_file hal U2F_CERT_KEY_FILE U2F_CERT_KEY_FILE_TMP w);
         w = snd (zf_storage_recover_atomic_file hal U2F_KEY_FILE U2F_KEY_FILE_TMP w)
     in snd (zf_storage_recover_atomic_file hal U2F_CNT_FILE U2F_CNT_FILE_TMP w))"

definition u2f_data_file_exists :: "'w hal \<Rightarrow> path \<Rightarrow> 'w \<Rightarrow> bool \<times> 'w" where
  "u2f_data_file_exists hal p w =
    (let w = u2f_data_recover_atomic_files hal w in (fs_exists hal p w, w))"

definition u2f_data_ensure_directories :: "'w hal \<Rightarrow> 'w \<Rightarrow> bool \<times> 'w" where
  "u2f_data_ensure_directories hal w =
    and_then (zf_storage_ensure_app_data_dir hal w) (\<lambda>w.
    and_then (zf_storage_ensure_dir hal U2F_DATA_FOLDER w) (\<lambda>w.
    zf_storage_ensure_dir hal U2F_ASSETS_FOLDER w))"

definition u2f_data_key_exists :: "'w hal \<Rightarrow> 'w \<Rightarrow> bool \<times> 'w" where
  "u2f_data_key_exists hal w = u2f_data_file_exists hal U2F_KEY_FILE w"

definition u2f_data_cnt_exists :: "'w hal \<Rightarrow> 'w \<Rightarrow> bool \<times> 'w" where
  "u2f_data_cnt_exists hal w = u2f_data_file_exists hal U2F_CNT_FILE w"

definition u2f_data_check :: "'w hal \<Rightarrow> bool \<Rightarrow> 'w \<Rightarrow> bool \<times> 'w" where
  "u2f_data_check hal cert_only w =
    (let w = u2f_data_recover_atomic_files hal w
     in (fs_exists hal U2F_CERT_FILE w \<and> fs_exists hal U2F_CERT_KEY_FILE w \<and>
         (cert_only \<or> fs_exists hal U2F_KEY_FILE w \<and> fs_exists hal U2F_CNT_FILE w), w))"

text \<open>The certificate; the empty list when there is none that fits.\<close>

definition u2f_data_cert_load :: "'w hal \<Rightarrow> nat \<Rightarrow> 'w \<Rightarrow> bytes \<times> 'w" where
  "u2f_data_cert_load hal capacity w =
    (let w = u2f_data_recover_atomic_files hal w in
     case zf_storage_read_file hal U2F_CERT_FILE capacity w of
       (None, w) \<Rightarrow> ([], w)
     | (Some cert, w) \<Rightarrow> (cert, w))"

definition u2f_data_cert_public_key_load :: "'w hal \<Rightarrow> 'w \<Rightarrow> bytes option \<times> 'w" where
  "u2f_data_cert_public_key_load hal w =
    (let (cert, w) = u2f_data_cert_load hal U2F_CERT_MAX_SIZE w
     in (if length cert > 0 then zf_local_attestation_extract_cert_public_key cert else None, w))"

definition u2f_data_cert_check :: "'w hal \<Rightarrow> 'w \<Rightarrow> bool \<times> 'w" where
  "u2f_data_cert_check hal w = (let (k, w) = u2f_data_cert_public_key_load hal w in (k \<noteq> None, w))"

definition u2f_data_cert_key_encrypt :: "'w hal \<Rightarrow> bytes \<Rightarrow> 'w \<Rightarrow> bool \<times> 'w" where
  "u2f_data_cert_key_encrypt hal cert_key w =
    and_then (u2f_data_ensure_directories hal w)
      (zf_storage_write_encrypted_blob_atomic hal U2F_CERT_KEY_FILE U2F_CERT_KEY_FILE_TMP
        \<lparr>ws_file_type = U2F_CERT_KEY_FILE_TYPE, ws_version = U2F_CERT_KEY_VERSION,
         ws_type = Some U2F_CERT_USER, ws_plaintext = cert_key, ws_encrypted_len = 48,
         ws_write_mac = None\<rparr>)"

definition u2f_data_cert_key_load :: "'w hal \<Rightarrow> 'w \<Rightarrow> bytes option \<times> 'w" where
  "u2f_data_cert_key_load hal w =
    zf_storage_read_encrypted_blob hal U2F_CERT_KEY_FILE
      \<lparr>rs_file_type = U2F_CERT_KEY_FILE_TYPE, rs_accepted_versions = [U2F_CERT_KEY_VERSION],
       rs_has_type = True, rs_accept_any_type = False, rs_expected_type = U2F_CERT_USER,
       rs_plaintext_len = 32, rs_encrypted_len = 48, rs_has_mac = False, rs_mac_len = 0,
       rs_verify_mac = None\<rparr> w"

definition u2f_data_cert_key_matches :: "'w hal \<Rightarrow> bytes \<Rightarrow> 'w \<Rightarrow> bool \<times> 'w" where
  "u2f_data_cert_key_matches hal cert_key w =
    (let (cert, w) = u2f_data_cert_load hal U2F_CERT_MAX_SIZE w
     in (length cert > 0 \<and> zf_local_attestation_private_key_matches_cert hal cert_key cert [], w))"

text \<open>Importing a certificate and its key: the certificate is withdrawn when the key cannot be stored.\<close>

definition u2f_data_bootstrap_attestation_assets :: "'w hal \<Rightarrow> bytes \<Rightarrow> bytes \<Rightarrow> 'w \<Rightarrow> bool \<times> 'w" where
  "u2f_data_bootstrap_attestation_assets hal cert cert_key w =
    (if length cert = 0 \<or> length cert > U2F_CERT_MAX_SIZE \<or> length cert_key \<noteq> 32 then (False, w)
     else and_then (u2f_data_ensure_directories hal w) (\<lambda>w.
          and_then (zf_storage_write_file_atomic hal U2F_CERT_FILE U2F_CERT_FILE_TMP cert w) (\<lambda>w.
          case u2f_data_cert_key_encrypt hal cert_key w of
            (False, w) \<Rightarrow> (False, snd (zf_storage_remove_optional hal U2F_CERT_FILE w))
          | (True, w) \<Rightarrow> (True, w))))"

definition u2f_data_generate_attestation_assets :: "'w hal \<Rightarrow> 'w \<Rightarrow> bool \<times> 'w" where
  "u2f_data_generate_attestation_assets hal w =
    zf_local_attestation_ensure_assets hal u2f_generated_attestation_profile w"

section \<open>Device key\<close>

definition u2f_data_device_key_compute_mac :: "bytes \<Rightarrow> bytes \<Rightarrow> bytes \<Rightarrow> bytes" where
  "u2f_data_device_key_compute_mac device_key iv key_encrypted =
    zf_hmac_sha256_parts device_key (ascii U2F_DEVICE_KEY_MAC_DOMAIN) (iv @ key_encrypted)"

definition u2f_data_device_key_write_mac :: "bytes \<Rightarrow> bytes \<Rightarrow> bytes \<Rightarrow> bytes option" where
  "u2f_data_device_key_write_mac plaintext iv encrypted =
    (if length plaintext \<noteq> 32 \<or> length encrypted \<noteq> 48 then None
     else Some (u2f_data_device_key_compute_mac plaintext iv encrypted))"

definition u2f_data_device_key_verify_mac :: "bytes \<Rightarrow> bytes \<Rightarrow> bytes \<Rightarrow> bytes \<Rightarrow> bool" where
  "u2f_data_device_key_verify_mac plaintext iv encrypted mac =
    (if length plaintext \<noteq> 32 \<or> length encrypted \<noteq> 48 \<or> length mac \<noteq> 32 then False
     else zf_crypto_constant_time_equal mac (u2f_data_device_key_compute_mac plaintext iv encrypted))"

definition device_key_write_spec :: "bytes \<Rightarrow> ZfStorageEncryptedBlobWriteSpec" where
  "device_key_write_spec key =
    \<lparr>ws_file_type = U2F_DEVICE_KEY_FILE_TYPE, ws_version = U2F_DEVICE_KEY_VERSION, ws_type = None,
     ws_plaintext = key, ws_encrypted_len = 48, ws_write_mac = Some u2f_data_device_key_write_mac\<rparr>"

definition device_key_read_spec :: ZfStorageEncryptedBlobReadSpec where
  "device_key_read_spec =
    \<lparr>rs_file_type = U2F_DEVICE_KEY_FILE_TYPE, rs_accepted_versions = [U2F_DEVICE_KEY_VERSION],
     rs_has_type = False, rs_accept_any_type = False, rs_expected_type = 0, rs_plaintext_len = 32,
     rs_encrypted_len = 48, rs_has_mac = True, rs_mac_len = 32,
     rs_verify_mac = Some u2f_data_device_key_verify_mac\<rparr>"

definition u2f_data_key_store_plaintext :: "'w hal \<Rightarrow> bytes \<Rightarrow> 'w \<Rightarrow> bool \<times> 'w" where
  "u2f_data_key_store_plaintext hal key w =
    and_then (u2f_data_ensure_directories hal w)
      (zf_storage_write_encrypted_blob_atomic hal U2F_KEY_FILE U2F_KEY_FILE_TMP (device_key_write_spec key))"

definition u2f_data_key_load :: "'w hal \<Rightarrow> 'w \<Rightarrow> bytes option \<times> 'w" where
  "u2f_data_key_load hal w = zf_storage_read_encrypted_blob hal U2F_KEY_FILE device_key_read_spec w"

definition u2f_data_key_generate :: "'w hal \<Rightarrow> 'w \<Rightarrow> bytes option \<times> 'w" where
  "u2f_data_key_generate hal w =
    (case enclave_ensure_key hal w of
       (False, w) \<Rightarrow> (None, w)
     | (True, w) \<Rightarrow>
        let (key, w) = random_fill hal 32 w in
        case u2f_data_key_store_plaintext hal key w of
          (False, w) \<Rightarrow> (None, w)
        | (True, w) \<Rightarrow> (Some key, w))"

section \<open>Counter\<close>

definition counter_read_spec :: ZfStorageEncryptedBlobReadSpec where
  "counter_read_spec =
    \<lparr>rs_file_type = U2F_COUNTER_FILE_TYPE, rs_accepted_versions = [U2F_COUNTER_VERSION],
     rs_has_type = False, rs_accept_any_type = False, rs_expected_type = 0, rs_plaintext_len = 32,
     rs_encrypted_len = 48, rs_has_mac = False, rs_mac_len = 0, rs_verify_mac = None\<rparr>"

definition counter_write_spec :: "bytes \<Rightarrow> ZfStorageEncryptedBlobWriteSpec" where
  "counter_write_spec cnt =
    \<lparr>ws_file_type = U2F_COUNTER_FILE_TYPE, ws_version = U2F_COUNTER_VERSION, ws_type = None,
     ws_plaintext = cnt, ws_encrypted_len = 48, ws_write_mac = None\<rparr>"

definition u2f_data_cnt_read :: "'w hal \<Rightarrow> 'w \<Rightarrow> u32 option \<times> 'w" where
  "u2f_data_cnt_read hal w =
    (case zf_storage_read_encrypted_blob hal U2F_CNT_FILE counter_read_spec w of
       (None, w) \<Rightarrow> (None, w)
     | (Some cnt, w) \<Rightarrow>
        (if drop 28 cnt = le_bytes 4 U2F_COUNTER_CONTROL_VAL
         then Some (be_value (rev (take 4 cnt))) else None, w))"

definition u2f_data_cnt_write :: "'w hal \<Rightarrow> u32 \<Rightarrow> 'w \<Rightarrow> bool \<times> 'w" where
  "u2f_data_cnt_write hal cnt_val w =
    (let (random_salt, w) = random_fill hal 24 w
     in and_then (u2f_data_ensure_directories hal w)
          (zf_storage_write_encrypted_blob_atomic hal U2F_CNT_FILE U2F_CNT_FILE_TMP
            (counter_write_spec (U2fCounterData cnt_val random_salt))))"

definition u2f_data_cnt_reserve :: "'w hal \<Rightarrow> u32 \<Rightarrow> 'w \<Rightarrow> u32 option \<times> 'w" where
  "u2f_data_cnt_reserve hal cnt_val w =
    (let high_water = u2f_data_counter_high_water cnt_val in
     case u2f_data_cnt_write hal high_water w of
       (False, w) \<Rightarrow> (None, w)
     | (True, w) \<Rightarrow> (Some high_water, w))"

definition u2f_data_wipe :: "'w hal \<Rightarrow> 'w \<Rightarrow> bool \<times> 'w" where
  "u2f_data_wipe hal w =
    and_then (zf_storage_remove_atomic_file hal U2F_KEY_FILE U2F_KEY_FILE_TMP w)
      (zf_storage_remove_atomic_file hal U2F_CNT_FILE U2F_CNT_FILE_TMP)"

section \<open>Session\<close>

record U2fData =
  u2_device_key :: bytes
  u2_cert_key :: bytes
  u2_counter :: u32
  u2_counter_high_water :: u32
  u2_ready :: bool
  u2_cert_ready :: bool
  u2_user_present :: bool

definition u2f_alloc :: U2fData where
  "u2f_alloc = \<lparr>u2_device_key = replicate 32 0, u2_cert_key = replicate 32 0, u2_counter = 0,
    u2_counter_high_water = 0, u2_ready = False, u2_cert_ready = False, u2_user_present = False\<rparr>"

text \<open>The attestation assets: the private key when certificate and key belong together.\<close>

definition load_cert_key :: "'w hal \<Rightarrow> 'w \<Rightarrow> bytes option \<times> 'w" where
  "load_cert_key hal w =
    (case u2f_data_cert_check hal w of
       (False, w) \<Rightarrow> (None, w)
     | (True, w) \<Rightarrow>
        (case u2f_data_cert_key_load hal w of
           (None, w) \<Rightarrow> (None, w)
         | (Some cert_key, w) \<Rightarrow>
            (case u2f_data_cert_key_matches hal cert_key w of
               (False, w) \<Rightarrow> (None, w)
             | (True, w) \<Rightarrow> (Some cert_key, w))))"

definition load_device_key :: "'w hal \<Rightarrow> 'w \<Rightarrow> bytes option \<times> 'w" where
  "load_device_key hal w =
    (case u2f_data_key_load hal w of
       (Some key, w) \<Rightarrow> (Some key, w)
     | (None, w) \<Rightarrow>
        (case u2f_data_key_exists hal w of
           (True, w) \<Rightarrow> (None, w)
         | (False, w) \<Rightarrow> u2f_data_key_generate hal w))"

definition load_counter :: "'w hal \<Rightarrow> 'w \<Rightarrow> u32 option \<times> 'w" where
  "load_counter hal w =
    (case u2f_data_cnt_read hal w of
       (Some counter, w) \<Rightarrow> (Some counter, w)
     | (None, w) \<Rightarrow>
        (case u2f_data_cnt_exists hal w of
           (True, w) \<Rightarrow> (None, w)
         | (False, w) \<Rightarrow>
            (case u2f_data_cnt_write hal 0 w of
               (False, w) \<Rightarrow> (None, w)
             | (True, w) \<Rightarrow> (Some 0, w))))"

definition u2f_init :: "'w hal \<Rightarrow> U2fData \<Rightarrow> 'w \<Rightarrow> (bool \<times> U2fData) \<times> 'w" where
  "u2f_init hal U2F w =
    (case load_cert_key hal w of
       (cert_key, w) \<Rightarrow>
        let U2F = U2F\<lparr>u2_cert_ready := cert_key \<noteq> None,
              u2_cert_key := (case cert_key of None \<Rightarrow> replicate 32 0 | Some key \<Rightarrow> key)\<rparr>
        in (case load_device_key hal w of
              (None, w) \<Rightarrow> ((False, U2F), w)
            | (Some key, w) \<Rightarrow>
               let U2F = U2F\<lparr>u2_device_key := key\<rparr>
               in (case load_counter hal w of
                     (None, w) \<Rightarrow> ((False, U2F), w)
                   | (Some counter, w) \<Rightarrow>
                      ((True, U2F\<lparr>u2_counter := counter, u2_counter_high_water := counter,
                         u2_ready := True\<rparr>), w))))"

definition u2f_confirm_user_present :: "U2fData \<Rightarrow> U2fData" where
  "u2f_confirm_user_present U2F = U2F\<lparr>u2_user_present := True\<rparr>"

definition u2f_consume_user_present :: "U2fData \<Rightarrow> bool \<times> U2fData" where
  "u2f_consume_user_present U2F = (u2_user_present U2F, U2F\<lparr>u2_user_present := False\<rparr>)"

definition u2f_clear_user_present :: "U2fData \<Rightarrow> U2fData" where
  "u2f_clear_user_present U2F = U2F\<lparr>u2_user_present := False\<rparr>"

definition u2f_set_state :: "U2fData \<Rightarrow> U2fData" where
  "u2f_set_state U2F = U2F\<lparr>u2_user_present := False\<rparr>"

section \<open>Responses\<close>

definition U2F_EC_KEY_SIZE :: nat where "U2F_EC_KEY_SIZE = 32"
definition ZF_U2F_STATUS_SIZE :: nat where "ZF_U2F_STATUS_SIZE = 2"
definition ZF_U2F_DERIVE_PRIVATE_KEY_MAX_ATTEMPTS :: nat where
  "ZF_U2F_DERIVE_PRIVATE_KEY_MAX_ATTEMPTS = 8"

text \<open>The packed structures of \<^verbatim>\<open>u2f/common.h\<close> as the bytes they occupy.\<close>

definition U2fPubKey :: "bytes \<Rightarrow> bytes \<Rightarrow> bytes" where
  "U2fPubKey x y = 0x04 # x @ y"

definition U2fKeyHandle :: "bytes \<Rightarrow> bytes \<Rightarrow> bytes" where
  "U2fKeyHandle hash nonce = 64 # hash @ nonce"

definition U2fRegisterResp :: "bytes \<Rightarrow> bytes \<Rightarrow> bytes" where
  "U2fRegisterResp pub_key key_handle = 0x05 # pub_key @ key_handle"

definition sizeof_U2fRegisterResp :: nat where "sizeof_U2fRegisterResp = 131"

definition U2fAuthResp :: "byte \<Rightarrow> bytes \<Rightarrow> bytes" where
  "U2fAuthResp user_present counter = user_present # counter"

definition sizeof_U2fAuthResp :: nat where "sizeof_U2fAuthResp = 5"

fun zf_u2f_difference :: "bytes \<Rightarrow> bytes \<Rightarrow> byte \<Rightarrow> byte" where
  "zf_u2f_difference (a # left) (b # right) diff = zf_u2f_difference left right (diff OR (a XOR b))"
| "zf_u2f_difference _ _ diff = diff"

definition zf_u2f_constant_time_equal :: "bytes \<Rightarrow> bytes \<Rightarrow> nat \<Rightarrow> bool" where
  "zf_u2f_constant_time_equal left right n \<longleftrightarrow> zf_u2f_difference (take n left) (take n right) 0 = 0"

definition zf_u2f_derive_private_key :: "U2fData \<Rightarrow> bytes \<Rightarrow> bytes \<Rightarrow> bytes option" where
  "zf_u2f_derive_private_key U2F app_id nonce =
    (let private_key = zf_hmac_sha256_parts (u2_device_key U2F) app_id nonce
     in if zf_p256_private_key_valid private_key then Some private_key else None)"

definition zf_u2f_compute_handle_mac :: "U2fData \<Rightarrow> bytes \<Rightarrow> bytes \<Rightarrow> bytes" where
  "zf_u2f_compute_handle_mac U2F private_key app_id =
    zf_hmac_sha256_parts (u2_device_key U2F) private_key app_id"

text \<open>The swapped counter as it lies in memory.\<close>

definition zf_u2f_to_big_endian :: "u32 \<Rightarrow> bytes" where
  "zf_u2f_to_big_endian v = be_bytes 4 v"

fun derive_new_key ::
  "'w hal \<Rightarrow> U2fData \<Rightarrow> bytes \<Rightarrow> nat \<Rightarrow> 'w \<Rightarrow> (bytes \<times> bytes) option \<times> 'w" where
  "derive_new_key hal U2F app_id 0 w = (None, w)"
| "derive_new_key hal U2F app_id (Suc attempts) w =
    (case random_fill hal U2F_NONCE_SIZE w of
       (nonce, w) \<Rightarrow>
        (case zf_u2f_derive_private_key U2F app_id nonce of
           Some private_key \<Rightarrow> (Some (nonce, private_key), w)
         | None \<Rightarrow> derive_new_key hal U2F app_id attempts w))"

text \<open>The data the two signatures cover.\<close>

definition register_preimage :: "bytes \<Rightarrow> bytes \<Rightarrow> bytes \<Rightarrow> bytes \<Rightarrow> bytes" where
  "register_preimage app_id challenge hash_nonce public_key =
    0x00 # app_id @ challenge @ hash_nonce @ public_key"

definition authenticate_preimage :: "bytes \<Rightarrow> byte \<Rightarrow> bytes \<Rightarrow> bytes \<Rightarrow> bytes" where
  "authenticate_preimage app_id flags counter challenge = app_id @ flags # counter @ challenge"

definition apdu_bytes :: "U2fParsedApdu \<Rightarrow> bytes" where
  "apdu_bytes apdu = (case apdu_data apdu of None \<Rightarrow> [] | Some data \<Rightarrow> data)"

definition zf_u2f_encode_register_response ::
  "'w hal \<Rightarrow> U2fData \<Rightarrow> bytes \<Rightarrow> nat \<Rightarrow> 'w \<Rightarrow> bytes \<times> U2fData \<times> 'w" where
  "zf_u2f_encode_register_response hal U2F buf response_capacity w =
    (case u2f_parse_apdu_header buf False of
       None \<Rightarrow> (zf_u2f_write_status ZF_U2F_SW_WRONG_LENGTH, U2F, w)
     | Some apdu \<Rightarrow>
        if apdu_lc apdu \<noteq> U2F_CHALLENGE_SIZE + U2F_APP_ID_SIZE
        then (zf_u2f_write_status ZF_U2F_SW_WRONG_LENGTH, U2F, w)
        else
          let challenge = take U2F_CHALLENGE_SIZE (apdu_bytes apdu);
              app_id = take U2F_APP_ID_SIZE (drop U2F_CHALLENGE_SIZE (apdu_bytes apdu));
              cert_capacity = response_capacity - sizeof_U2fRegisterResp;
              failed = zf_u2f_write_status ZF_U2F_SW_INS_NOT_SUPPORTED
          in if \<not> u2_cert_ready U2F then (failed, U2F, w)
             else case u2f_consume_user_present U2F of
                 (False, U2F) \<Rightarrow> (zf_u2f_write_status ZF_U2F_SW_CONDITIONS_NOT_SATISFIED, U2F, w)
               | (True, U2F) \<Rightarrow>
                  (case derive_new_key hal U2F app_id ZF_U2F_DERIVE_PRIVATE_KEY_MAX_ATTEMPTS w of
                     (None, w) \<Rightarrow> (failed, U2F, w)
                   | (Some (nonce, private_key), w) \<Rightarrow>
                      let hash = zf_u2f_compute_handle_mac U2F private_key app_id in
                      (case zf_crypto_compute_public_key_from_private hal private_key of
                         None \<Rightarrow> (failed, U2F, w)
                       | Some (x, y) \<Rightarrow>
                          let digest = zf_crypto_sha256 (register_preimage app_id challenge (hash @ nonce)
                                         (U2fPubKey x y)) in
                          (case u2f_data_cert_load hal cert_capacity w of
                             (cert, w) \<Rightarrow>
                              if length cert = 0 \<or> length cert > cert_capacity then (failed, U2F, w)
                              else (case zf_crypto_sign_hash_with_private_key hal (u2_cert_key U2F) digest
                                      (cert_capacity - length cert) w of
                                  (None, w) \<Rightarrow> (failed, U2F, w)
                                | (Some signature, w) \<Rightarrow>
                                   if length cert + length signature + ZF_U2F_STATUS_SIZE > cert_capacity
                                   then (failed, U2F, w)
                                   else (U2fRegisterResp (U2fPubKey x y) (U2fKeyHandle hash nonce) @ cert @
                                           signature @ zf_u2f_write_status ZF_U2F_SW_NO_ERROR, U2F, w))))))"

text \<open>
  Signing and counting, once the key handle has been accepted: the counter is reserved on the medium
  before it is advanced in memory. A response that does not fit leaves the counter alone.
\<close>

definition sign_assertion ::
  "'w hal \<Rightarrow> U2fData \<Rightarrow> bytes \<Rightarrow> bytes \<Rightarrow> byte \<Rightarrow> bytes \<Rightarrow> nat \<Rightarrow> 'w \<Rightarrow> bytes \<times> U2fData \<times> 'w" where
  "sign_assertion hal U2F private_key app_id flags challenge response_capacity w =
    (let next_counter = u2_counter U2F + 1;
         be_u2f_counter = zf_u2f_to_big_endian next_counter;
         digest = zf_crypto_sha256 (authenticate_preimage app_id flags be_u2f_counter challenge);
         failed = zf_u2f_write_status ZF_U2F_SW_INS_NOT_SUPPORTED
     in if response_capacity \<le> sizeof_U2fAuthResp then (failed, U2F, w)
        else case zf_crypto_sign_hash_with_private_key hal private_key digest
               (response_capacity - sizeof_U2fAuthResp) w of
            (None, w) \<Rightarrow> (failed, U2F, w)
          | (Some signature, w) \<Rightarrow>
             if sizeof_U2fAuthResp + length signature + ZF_U2F_STATUS_SIZE > response_capacity
             then (failed, U2F, w)
             else
               let response = U2fAuthResp flags be_u2f_counter @ signature @ zf_u2f_write_status ZF_U2F_SW_NO_ERROR
               in if next_counter > u2_counter_high_water U2F then
                    (case u2f_data_cnt_reserve hal next_counter w of
                       (None, w) \<Rightarrow> (failed, U2F, w)
                     | (Some high_water, w) \<Rightarrow>
                        (response, U2F\<lparr>u2_counter_high_water := high_water, u2_counter := next_counter\<rparr>, w))
                  else (response, U2F\<lparr>u2_counter := next_counter\<rparr>, w))"

definition zf_u2f_encode_authenticate_response ::
  "'w hal \<Rightarrow> U2fData \<Rightarrow> bytes \<Rightarrow> nat \<Rightarrow> 'w \<Rightarrow> bytes \<times> U2fData \<times> 'w" where
  "zf_u2f_encode_authenticate_response hal U2F buf response_capacity w =
    (case u2f_parse_apdu_header buf False of
       None \<Rightarrow> (zf_u2f_write_status ZF_U2F_SW_WRONG_LENGTH, U2F, w)
     | Some apdu \<Rightarrow>
        if apdu_lc apdu < U2F_CHALLENGE_SIZE + U2F_APP_ID_SIZE + 1
        then (zf_u2f_write_status ZF_U2F_SW_WRONG_LENGTH, U2F, w)
        else
          let data = apdu_bytes apdu;
              challenge = take U2F_CHALLENGE_SIZE data;
              app_id = take U2F_APP_ID_SIZE (drop U2F_CHALLENGE_SIZE data);
              key_handle_len = unat (data ! (U2F_CHALLENGE_SIZE + U2F_APP_ID_SIZE));
              key_handle = drop (U2F_CHALLENGE_SIZE + U2F_APP_ID_SIZE + 1) data;
              failed = zf_u2f_write_status ZF_U2F_SW_INS_NOT_SUPPORTED;
              wrong_handle = (zf_u2f_write_status ZF_U2F_SW_WRONG_DATA,
                if apdu_p1 apdu = U2fEnforce then u2f_clear_user_present U2F else U2F, w)
          in if u2_counter U2F = 0xFFFFFFFF then (failed, U2F, w)
             else if key_handle_len \<noteq> U2F_HASH_SIZE * 2 then wrong_handle
             else case zf_u2f_derive_private_key U2F app_id
                    (take U2F_NONCE_SIZE (drop U2F_HASH_SIZE key_handle)) of
                 None \<Rightarrow> (failed, U2F, w)
               | Some private_key \<Rightarrow>
                  let mac_control = zf_u2f_compute_handle_mac U2F private_key app_id in
                  if \<not> zf_u2f_constant_time_equal key_handle mac_control 32 then wrong_handle
                  else if apdu_p1 apdu = U2fCheckOnly
                  then (zf_u2f_write_status ZF_U2F_SW_CONDITIONS_NOT_SATISFIED, U2F, w)
                  else case u2f_consume_user_present U2F of
                      (user_present, U2F) \<Rightarrow>
                       if \<not> user_present \<and> apdu_p1 apdu = U2fEnforce
                       then (zf_u2f_write_status ZF_U2F_SW_CONDITIONS_NOT_SATISFIED, U2F, w)
                       else sign_assertion hal U2F private_key app_id (if user_present then 1 else 0)
                              challenge response_capacity w)"

definition ver_str :: bytes where "ver_str = ascii ''U2F_V2''"

definition u2f_msg_parse :: "'w hal \<Rightarrow> U2fData \<Rightarrow> bytes \<Rightarrow> nat \<Rightarrow> 'w \<Rightarrow> bytes \<times> U2fData \<times> 'w" where
  "u2f_msg_parse hal U2F buf response_capacity w =
    (if \<not> u2_ready U2F then ([], U2F, w)
     else if response_capacity < 2 then (zf_u2f_write_status ZF_U2F_SW_WRONG_LENGTH, U2F, w)
     else case u2f_validate_request buf of
         Some status \<Rightarrow> (status, U2F, w)
       | None \<Rightarrow>
          if buf ! 1 = U2F_CMD_REGISTER then zf_u2f_encode_register_response hal U2F buf response_capacity w
          else if buf ! 1 = U2F_CMD_AUTHENTICATE
          then zf_u2f_encode_authenticate_response hal U2F buf response_capacity w
          else if buf ! 1 = U2F_CMD_VERSION then
            (if response_capacity < 6 + ZF_U2F_STATUS_SIZE then zf_u2f_write_status ZF_U2F_SW_WRONG_LENGTH
             else ver_str @ zf_u2f_write_status ZF_U2F_SW_NO_ERROR, U2F, w)
          else (zf_u2f_write_status ZF_U2F_SW_INS_NOT_SUPPORTED, U2F, w))"

section \<open>Bridge to the application\<close>

text \<open>
  The field \<open>u2f\<close> of the application is the separate state \<open>U2fData option\<close>; only the worker that
  serves the request touches it.
\<close>

definition ZF_U2F_VERSION_RESPONSE_LEN :: nat where "ZF_U2F_VERSION_RESPONSE_LEN = 8"

definition zf_u2f_adapter_version_response :: bytes where
  "zf_u2f_adapter_version_response = ascii ''U2F_V2'' @ [0x90, 0x00]"

definition zf_u2f_adapter_reply_version :: "nat \<Rightarrow> bytes" where
  "zf_u2f_adapter_reply_version response_capacity =
    (if response_capacity < ZF_U2F_VERSION_RESPONSE_LEN then zf_u2f_write_status ZF_U2F_SW_WRONG_LENGTH
     else zf_u2f_adapter_version_response)"

definition zf_u2f_adapter_ensure_attestation_assets :: "'w hal \<Rightarrow> 'w \<Rightarrow> bool \<times> 'w" where
  "zf_u2f_adapter_ensure_attestation_assets hal w =
    (case u2f_data_check hal True w of
       (False, w) \<Rightarrow> u2f_data_generate_attestation_assets hal w
     | (True, w) \<Rightarrow>
        (case load_cert_key hal w of
           (None, w) \<Rightarrow> u2f_data_generate_attestation_assets hal w
         | (Some _, w) \<Rightarrow> (True, w)))"

text \<open>The conversion \<open>%02x\<close>.\<close>

definition hex_digit :: "byte \<Rightarrow> byte" where
  "hex_digit n = (if n < 10 then 0x30 + n else 0x57 + n)"

definition hex_byte :: "byte \<Rightarrow> bytes" where
  "hex_byte b = [hex_digit (drop_bit 4 b), hex_digit (b AND 0xF)]"

definition zf_u2f_format_app_id :: "bytes \<Rightarrow> nat \<Rightarrow> bytes" where
  "zf_u2f_format_app_id request out_len =
    (let fallback = take (out_len - 1) (ascii ''U2F'') in
     if out_len < 3 \<or> length request > 0xFFFF then fallback
     else case u2f_parse_apdu_header request False of
         None \<Rightarrow> fallback
       | Some apdu \<Rightarrow>
          (case apdu_data apdu of
             None \<Rightarrow> fallback
           | Some data \<Rightarrow>
              if apdu_lc apdu < U2F_CHALLENGE_SIZE + U2F_APP_ID_SIZE then fallback
              else take (out_len - 1)
                (ascii ''app '' @ concat (map hex_byte (take 8 (drop U2F_CHALLENGE_SIZE data))) @ ascii ''...'')))"

definition zf_u2f_adapter_is_available :: "U2fData option \<Rightarrow> bool" where
  "zf_u2f_adapter_is_available u2f \<longleftrightarrow> u2f \<noteq> None"

definition zf_u2f_request_approval ::
  "zf_build \<Rightarrow> 'w hal \<Rightarrow> ('a, 'w) waiting \<Rightarrow> 'a ZerofidoApp_scheme \<Rightarrow> U2fData option \<Rightarrow> u32 \<Rightarrow> bytes \<Rightarrow> 'w \<Rightarrow>
    bool \<times> 'a ZerofidoApp_scheme \<times> U2fData option \<times> 'w" where
  "zf_u2f_request_approval b hal wait app u2f session_id request w =
    (if \<not> zf_u2f_adapter_is_available u2f then (False, app, u2f, w)
     else case u2f_request_needs_user_presence request of
         None \<Rightarrow> (True, app, u2f, w)
       | Some operation \<Rightarrow>
          (case zerofido_ui_request_approval b hal wait app ZfUiProtocolU2f operation
              (zf_u2f_format_app_id request 48) (ascii ''Touch required'') session_id w of
             ((ok, approved), app, w) \<Rightarrow>
               if \<not> ok \<or> \<not> approved then (False, app, u2f, w)
               else (True, app, map_option u2f_confirm_user_present u2f, w)))"

definition zf_u2f_adapter_init ::
  "zf_build \<Rightarrow> 'w hal \<Rightarrow> 'a ZerofidoApp_scheme \<Rightarrow> U2fData option \<Rightarrow> 'w \<Rightarrow> bool \<times> U2fData option \<times> 'w" where
  "zf_u2f_adapter_init b hal app u2f w =
    (if u2f \<noteq> None then (True, u2f, w)
     else if \<not> u2f_enabled (zf_runtime_get_effective_capabilities b app) then (True, None, w)
     else let w = snd (zf_u2f_adapter_ensure_attestation_assets hal w) in
          case u2f_init hal u2f_alloc w of
            ((False, _), w) \<Rightarrow> (False, None, w)
          | ((True, U2F), w) \<Rightarrow> (True, Some U2F, w))"

definition zf_u2f_adapter_ensure_init ::
  "zf_build \<Rightarrow> 'w hal \<Rightarrow> 'a ZerofidoApp_scheme \<Rightarrow> U2fData option \<Rightarrow> 'w \<Rightarrow> bool \<times> U2fData option \<times> 'w" where
  "zf_u2f_adapter_ensure_init b hal app u2f w =
    (if u2f \<noteq> None then (True, u2f, w) else zf_u2f_adapter_init b hal app u2f w)"

definition zf_u2f_adapter_deinit :: "U2fData option \<Rightarrow> U2fData option" where
  "zf_u2f_adapter_deinit u2f = None"

definition zf_u2f_adapter_set_connected :: "U2fData option \<Rightarrow> U2fData option" where
  "zf_u2f_adapter_set_connected u2f = map_option u2f_set_state u2f"

text \<open>The empty response stands for the returned length zero.\<close>

definition zf_u2f_adapter_handle_msg ::
  "zf_build \<Rightarrow> 'w hal \<Rightarrow> ('a, 'w) waiting \<Rightarrow> 'a ZerofidoApp_scheme \<Rightarrow> U2fData option \<Rightarrow> u32 \<Rightarrow> bytes \<Rightarrow>
    nat \<Rightarrow> 'w \<Rightarrow> bytes \<times> 'a ZerofidoApp_scheme \<times> U2fData option \<times> 'w" where
  "zf_u2f_adapter_handle_msg b hal wait app u2f session_id request response_capacity w =
    (if \<not> u2f_enabled (zf_runtime_get_effective_capabilities b app) \<or> length request = 0 \<or>
        response_capacity < 2 then ([], app, u2f, w)
     else if length request > 0xFFFF then (zf_u2f_write_status ZF_U2F_SW_WRONG_LENGTH, app, u2f, w)
     else case u2f_validate_request_into_response (Some request) (response_capacity mod 0x10000) of
         Some status \<Rightarrow> (status, app, u2f, w)
       | None \<Rightarrow>
          if length request > response_capacity
          then (zf_u2f_write_status ZF_U2F_SW_WRONG_LENGTH, app, u2f, w)
          else if request ! 1 = U2F_CMD_VERSION \<and> \<not> zf_u2f_adapter_is_available u2f
          then (zf_u2f_adapter_reply_version response_capacity, app, u2f, w)
          else case zf_u2f_adapter_ensure_init b hal app u2f w of
              (False, u2f, w) \<Rightarrow> (zf_u2f_write_status ZF_U2F_SW_INS_NOT_SUPPORTED, app, u2f, w)
            | (True, u2f, w) \<Rightarrow>
               if response_capacity < ZF_U2F_VERSION_RESPONSE_LEN then ([], app, u2f, w)
               else (case zf_u2f_request_approval b hal wait app u2f session_id request w of
                   (False, app, u2f, w) \<Rightarrow>
                     (zf_u2f_write_status ZF_U2F_SW_CONDITIONS_NOT_SATISFIED, app, u2f, w)
                 | (True, app, u2f, w) \<Rightarrow>
                    (case u2f of
                       None \<Rightarrow> ([], app, u2f, w)
                     | Some U2F \<Rightarrow>
                        (case u2f_msg_parse hal U2F request (response_capacity mod 0x10000) w of
                           (response, U2F, w) \<Rightarrow>
                            (response, app, Some (u2f_clear_user_present U2F), w)))))"

definition zf_u2f_adapter_wink ::
  "zf_build \<Rightarrow> 'w hal \<Rightarrow> 'a ZerofidoApp_scheme \<Rightarrow> U2fData option \<Rightarrow> 'w \<Rightarrow> U2fData option \<times> 'w" where
  "zf_u2f_adapter_wink b hal app u2f w = snd (zf_u2f_adapter_ensure_init b hal app u2f w)"

end
