(* ===== verification/Storage_Frame.thy ===== *)
theory Storage_Frame
  imports Encrypted_Blob
begin

text \<open>
  Which files an operation of \<^verbatim>\<open>zerofido_storage.c\<close> leaves alone, and what is left of a file whose
  replacement fails. The rules of the collection \<open>frame\<close> rewrite the contents of an untouched path
  through a sequence of operations. The second half splits the reading of an encrypted blob from its
  writing: \<open>blob_holds\<close> is what the text of a file keeps for good.
\<close>

named_theorems frame \<open>contents of paths that an operation does not touch\<close>

lemma frame_mkdir [frame]: "storage_lawful hal content \<Longrightarrow> content (snd (fs_mkdir hal p w)) q = content w q"
  by (simp add: storage_lawful_def)

lemma frame_read [frame]: "storage_lawful hal content \<Longrightarrow> content (snd (fs_read hal p w)) q = content w q"
  by (simp add: storage_lawful_def)

lemma frame_remove [frame]:
  "storage_lawful hal content \<Longrightarrow> q \<noteq> p \<Longrightarrow> content (snd (fs_remove hal p w)) q = content w q"
  by (rule lawful_remove_other(1))

lemma frame_remove_optional [frame]:
  "storage_lawful hal content \<Longrightarrow> q \<noteq> p \<Longrightarrow>
    content (snd (zf_storage_remove_optional hal p w)) q = content w q"
  by (rule lawful_remove_other(2))

lemma frame_rename [frame]:
  assumes "storage_lawful hal content" "q \<noteq> p" "q \<noteq> p'"
  shows "content (snd (fs_rename hal p p' w)) q = content w q"
  using assms unfolding storage_lawful_def by (metis fun_upd_other)

lemma frame_copy [frame]:
  assumes "storage_lawful hal content" "q \<noteq> p'"
  shows "content (snd (fs_copy hal p p' w)) q = content w q"
  using assms unfolding storage_lawful_def by (metis fun_upd_other)

lemma frame_write [frame]:
  assumes "storage_lawful hal content" "q \<noteq> p"
  shows "content (snd (fs_write hal p d w)) q = content w q"
  using lawful_write(2) [OF assms(1), of p d w] assms(2) by auto

lemma frame_ensure_dir [frame]:
  "storage_lawful hal content \<Longrightarrow> content (snd (zf_storage_ensure_dir hal p w)) q = content w q"
  by (simp add: zf_storage_ensure_dir_def frame)

lemma frame_ensure_app_data_dir [frame]:
  "storage_lawful hal content \<Longrightarrow> content (snd (zf_storage_ensure_app_data_dir hal w)) q = content w q"
  by (simp add: zf_storage_ensure_app_data_dir_def and_then_def frame)

lemma frame_recover [frame]:
  assumes "storage_lawful hal content" "q \<noteq> p" "q \<noteq> t" "zf_storage_backup_path p \<noteq> Some q"
  shows "content (snd (zf_storage_recover_atomic_file hal p t w)) q = content w q"
  using assms by (auto simp: zf_storage_recover_atomic_file_def Let_def frame split: option.split)

lemma frame_remove_atomic [frame]:
  assumes "storage_lawful hal content" "q \<noteq> p" "q \<noteq> t" "zf_storage_backup_path p \<noteq> Some q"
  shows "content (snd (zf_storage_remove_atomic_file hal p t w)) q = content w q"
  using assms by (auto simp: zf_storage_remove_atomic_file_def and_then_def frame split: option.split)

lemma frame_prepare [frame]:
  assumes "storage_lawful hal content" "q \<noteq> b"
  shows "content (snd (zf_storage_prepare_atomic_backup hal p b w)) q = content w q"
  using assms by (auto simp: zf_storage_prepare_atomic_backup_def Let_def frame)

lemma frame_publish [frame]:
  assumes "storage_lawful hal content" "q \<noteq> p" "q \<noteq> t" "zf_storage_backup_path p \<noteq> Some q"
  shows "content (snd (zf_storage_publish_atomic_temp hal p t w)) q = content w q"
proof (cases "zf_storage_backup_path p")
  case None
  with assms show ?thesis by (simp add: zf_storage_publish_atomic_temp_def frame)
next
  case (Some b)
  obtain ok active w1 where "zf_storage_prepare_atomic_backup hal p b w = ((ok, active), w1)"
    by (metis surj_pair)
  moreover from this have "content w1 q = content w q"
    using frame_prepare [OF assms(1), of q b p w] assms(4) Some by auto
  ultimately show ?thesis
    using assms Some by (cases ok) (auto simp: zf_storage_publish_atomic_temp_def Let_def frame)
qed

lemma frame_write_file [frame]:
  assumes "storage_lawful hal content" "q \<noteq> p" "q \<noteq> t" "zf_storage_backup_path p \<noteq> Some q"
  shows "content (snd (zf_storage_write_file_atomic hal p t d w)) q = content w q"
  using assms by (simp add: zf_storage_write_file_atomic_def Let_def frame)

lemma frame_write_format [frame]:
  assumes "storage_lawful hal content" "q \<noteq> p" "q \<noteq> t" "zf_storage_backup_path p \<noteq> Some q"
  shows "content (snd (zf_storage_write_format_atomic hal p t d w)) q = content w q"
  using assms by (simp add: zf_storage_write_format_atomic_def Let_def frame)

lemma frame_read_file [frame]:
  assumes "storage_lawful hal content"
  shows "content (snd (zf_storage_read_file hal p n w)) q = content w q"
  using frame_read [OF assms, of p w q] by (simp add: zf_storage_read_file_def split_def split: option.split)

lemma frame_platform [frame]:
  assumes "blob_platform hal content"
  shows "content (snd (random_fill hal n w)) = content w"
    "content (snd (enclave_encrypt hal iv d w)) = content w"
    "content (snd (enclave_decrypt hal iv d w)) = content w"
    "content (snd (enclave_ensure_key hal w)) = content w"
  using assms by (simp_all add: blob_platform_def pin_platform_def)

lemma blob_platform_lawful: "blob_platform hal content \<Longrightarrow> storage_lawful hal content"
  by (simp add: blob_platform_def pin_platform_def)

text \<open>A blob is written after computations that leave the files alone, or not at all.\<close>

lemma write_blob_cases:
  assumes "blob_platform hal content"
  obtains (unwritten) v where "zf_storage_write_encrypted_blob_atomic hal p t ws w = (False, v)" "content v = content w"
  | (written) body v where "content v = content w"
    "zf_storage_write_encrypted_blob_atomic hal p t ws w = zf_storage_write_format_atomic hal p t body v"
proof -
  obtain k w1 where k: "enclave_ensure_key hal w = (k, w1)" by fastforce
  obtain iv w2 where iv: "random_fill hal 16 w1 = (iv, w2)" by fastforce
  obtain c w3 where c: "enclave_encrypt hal iv (ws_plaintext ws) w2 = (c, w3)" by fastforce
  have same: "content w1 = content w" "content w3 = content w"
    using frame_platform [OF assms] k iv c by (metis snd_conv)+
  let ?e = "\<lambda>sealed. sealed @ replicate (ws_encrypted_len ws - length sealed) 0"
  let ?op = "zf_storage_write_encrypted_blob_atomic hal p t ws w"
  have "(\<exists>v. ?op = (False, v) \<and> content v = content w) \<or>
      (\<exists>body. ?op = zf_storage_write_format_atomic hal p t body w3)"
  proof (cases "length (ws_plaintext ws) = 0 \<or> length (ws_plaintext ws) > ws_encrypted_len ws \<or>
        ws_encrypted_len ws > ZF_STORAGE_BLOB_MAX_DATA_SIZE \<or> \<not> k \<or> c = None")
    case True
    then show ?thesis using k iv c same
      by (intro disjI1) (auto simp: zf_storage_write_encrypted_blob_atomic_def Let_def split: bool.split)
  next
    case False
    then obtain sealed where s: "c = Some sealed" "k" by auto
    show ?thesis
    proof (cases "ws_write_mac ws")
      case None
      then show ?thesis using False s k iv c
        by (intro disjI2 exI [of _ "zf_storage_write_encrypted_blob_fields hal ws iv (?e sealed) None"])
          (auto simp: zf_storage_write_encrypted_blob_atomic_def Let_def)
    next
      case (Some f)
      show ?thesis
      proof (cases "case f (ws_plaintext ws) iv (?e sealed) of None \<Rightarrow> True
          | Some mac \<Rightarrow> length mac = 0 \<or> length mac > ZF_STORAGE_BLOB_MAX_MAC_SIZE")
        case True
        then show ?thesis using False s k iv c Some same
          by (intro disjI1) (auto simp: zf_storage_write_encrypted_blob_atomic_def Let_def split: option.split)
      next
        case mac: False
        then show ?thesis using False s k iv c Some
          by (intro disjI2 exI [of _ "zf_storage_write_encrypted_blob_fields hal ws iv (?e sealed)
              (f (ws_plaintext ws) iv (?e sealed))"])
            (auto simp: zf_storage_write_encrypted_blob_atomic_def Let_def split: option.split)
      qed
    qed
  qed
  then show thesis using that same(2) by blast
qed

lemma frame_write_blob [frame]:
  assumes "blob_platform hal content" "q \<noteq> p" "q \<noteq> t" "zf_storage_backup_path p \<noteq> Some q"
  shows "content (snd (zf_storage_write_encrypted_blob_atomic hal p t ws w)) q = content w q"
  using write_blob_cases [OF assms(1), of p t ws w]
  by cases (use assms(2-) frame_write_format [OF blob_platform_lawful [OF assms(1)]] in auto)

lemma frame_read_blob [frame]:
  assumes plat: "blob_platform hal content" and q: "q \<noteq> p" "q \<noteq> p @ ZF_STORAGE_TEMP_SUFFIX"
    "zf_storage_backup_path p \<noteq> Some q"
  shows "content (snd (zf_storage_read_encrypted_blob hal p rs w)) q = content w q"
proof -
  have temp: "zf_storage_build_suffixed_path p ZF_STORAGE_TEMP_SUFFIX ZF_STORAGE_PATH_BUFFER_SIZE = Some t \<Longrightarrow>
      q \<noteq> t" for t
    using q(2) by (auto simp: zf_storage_build_suffixed_path_def split: if_split_asm)
  show ?thesis
    using plat q temp
    by (auto simp: zf_storage_read_encrypted_blob_def split_def frame blob_platform_lawful [OF plat]
        split: bool.split option.split)
qed

section \<open>A replacement that fails\<close>

context atomic_file
begin

lemma recover_other_state:
  assumes lawful: "storage_lawful hal content" and gone: "content w p = None"
    and b: "zf_storage_backup_path p = Some b" "content w b = None"
  shows "fst (zf_storage_recover_atomic_file hal p temp w) \<and>
    content (snd (zf_storage_recover_atomic_file hal p temp w)) p = None \<and>
    content (snd (zf_storage_recover_atomic_file hal p temp w)) b = None"
proof -
  have ex: "fs_exists hal q v \<longleftrightarrow> content v q \<noteq> None" for q v
    using lawful by (simp add: storage_lawful_def)
  have ne: "p \<noteq> temp" "b \<noteq> temp" using paths b(1) by auto
  show ?thesis
    using gone b ne lawful by (auto simp: zf_storage_recover_atomic_file_def Let_def ex frame)
qed

lemma publish_failed:
  assumes lawful: "storage_lawful hal content"
    and r: "zf_storage_publish_atomic_temp hal p temp w = (False, w')"
  shows "content w p = Some d \<Longrightarrow> content w' p = Some d"
    and "zf_storage_backup_path p = Some b \<Longrightarrow> content w p = None \<Longrightarrow> content w b = None \<Longrightarrow>
      content w' p = None \<and> content w' b = None"
proof -
  obtain b' where b': "zf_storage_backup_path p = Some b'" "distinct [p, temp, b']" using paths by blast
  have ne: "p \<noteq> temp" "p \<noteq> b'" "b' \<noteq> temp" using b' by auto
  have ex: "fs_exists hal q v \<longleftrightarrow> content v q \<noteq> None" for q v
    using lawful by (simp add: storage_lawful_def)
  obtain ok active w1 where prep: "zf_storage_prepare_atomic_backup hal p b' w = ((ok, active), w1)"
    by (metis surj_pair)
  have p1: "content w1 p = content w p"
    using frame_prepare [OF lawful ne(2), of p w] prep by simp
  have same: "content w p = None \<Longrightarrow> ok \<and> w1 = w" using prep by (simp add: zf_storage_prepare_atomic_backup_def ex)
  let ?rn = "fs_rename hal temp p w1"
  have fail: "ok \<Longrightarrow> fst ?rn \<noteq> FSE_OK \<and> content (snd ?rn) = content w1 \<and>
      w' = snd (zf_storage_recover_atomic_file hal p temp (snd ?rn))"
    using r b'(1) prep lawful
    by (auto simp: zf_storage_publish_atomic_temp_def storage_lawful_def Let_def split: if_split_asm)
  have nok: "\<not> ok \<Longrightarrow> w' = snd (zf_storage_remove_optional hal temp w1)"
    using r b'(1) prep by (simp add: zf_storage_publish_atomic_temp_def)
  show "content w' p = Some d" if "content w p = Some d"
  proof (cases ok)
    case True
    then show ?thesis using fail recover_present [OF lawful, of "snd ?rn" d] p1 that by simp
  next
    case False
    then show ?thesis using nok frame_remove_optional [OF lawful ne(1)] p1 that by simp
  qed
  show "content w' p = None \<and> content w' b = None"
    if "zf_storage_backup_path p = Some b" "content w p = None" "content w b = None"
    using fail same recover_other_state [OF lawful _ that(1), of "snd ?rn"] that by simp
qed

lemma write_failed:
  assumes lawful: "storage_lawful hal content"
    and r: "zf_storage_write_format_atomic hal p temp body w = (False, w')"
  shows "content w p = Some d \<Longrightarrow> content w' p = Some d"
    and "zf_storage_backup_path p = Some b \<Longrightarrow> content w p = None \<Longrightarrow> content w b = None \<Longrightarrow>
      content w' p = None \<and> content w' b = None"
proof -
  obtain b' where b': "zf_storage_backup_path p = Some b'" "distinct [p, temp, b']" using paths by blast
  have ne: "p \<noteq> temp" "b' \<noteq> temp" using b' by auto
  obtain ok w1 where rec: "zf_storage_recover_atomic_file hal p temp w = (ok, w1)" by fastforce
  define w2 where "w2 = snd (fs_remove hal temp w1)"
  define wr where "wr = fs_write hal temp body w2"
  have c: "content (snd wr) q = content w1 q" if "q \<noteq> temp" for q
    using that lawful by (simp add: wr_def w2_def frame)
  obtain ok3 w3 where pub: "zf_storage_publish_atomic_temp hal p temp (snd wr) = (ok3, w3)" by fastforce
  have cases: "\<not> ok \<and> w' = w1 \<or> ok \<and> fst wr \<noteq> Some (length body) \<and> w' = snd (fs_remove hal temp (snd wr)) \<or>
      ok \<and> \<not> ok3 \<and> w' = snd (fs_remove hal temp w3)"
    using r rec pub unfolding zf_storage_write_format_atomic_def Let_def wr_def w2_def by (auto split: if_split_asm)
  have last: "content (snd (fs_remove hal temp v)) q = content v q" if "q \<noteq> temp" for q v
    using that lawful by (simp add: frame)
  show "content w' p = Some d" if d: "content w p = Some d"
  proof -
    have "content w1 p = Some d" using recover_present [OF lawful d] rec by simp
    then show ?thesis
      using cases c [OF ne(1)] last [OF ne(1)] publish_failed(1) [OF lawful, of "snd wr" w3 d] pub by auto
  qed
  show "content w' p = None \<and> content w' b = None"
    if b: "zf_storage_backup_path p = Some b" and gone: "content w p = None" "content w b = None"
  proof -
    have "content w1 p = None" "content w1 b = None" "b \<noteq> temp"
      using recover_other_state [OF lawful gone(1) b gone(2)] rec b b' ne by auto
    then show ?thesis
      using cases c last ne publish_failed(2) [OF lawful _ b, of "snd wr" w3] pub by auto
  qed
qed

end

section \<open>What a blob keeps\<close>

definition blob_holds :: "'w hal \<Rightarrow> ZfStorageEncryptedBlobReadSpec \<Rightarrow> bytes \<Rightarrow> bytes \<Rightarrow> bool" where
  "blob_holds hal rs body plaintext \<longleftrightarrow>
    (\<exists>iv e mac. blob_fields hal rs body = Some (iv, e, mac) \<and>
      (\<forall>u. fst (enclave_decrypt hal iv (take (rs_plaintext_len rs) e) u) = Some plaintext) \<and>
      (\<forall>verify. rs_verify_mac rs = Some verify \<longrightarrow> verify plaintext iv e mac))"

text \<open>The constraints on a specification that every read checks first.\<close>

definition read_spec_ok :: "ZfStorageEncryptedBlobReadSpec \<Rightarrow> bool" where
  "read_spec_ok rs \<longleftrightarrow> rs_accepted_versions rs \<noteq> [] \<and> 0 < rs_plaintext_len rs \<and>
    rs_plaintext_len rs \<le> rs_encrypted_len rs \<and> rs_encrypted_len rs \<le> ZF_STORAGE_BLOB_MAX_DATA_SIZE \<and>
    (rs_has_mac rs \<longrightarrow> 0 < rs_mac_len rs \<and> rs_mac_len rs \<le> ZF_STORAGE_BLOB_MAX_MAC_SIZE)"

context blob_file
begin

lemma blob_published:
  assumes plat: "blob_platform hal content" and match: "blob_specs_match ws rs"
    and wr: "zf_storage_write_encrypted_blob_atomic hal p temp ws w = (True, w')"
  shows "\<exists>body. content w' p = Some body \<and> blob_holds hal rs body (ws_plaintext ws)"
proof -
  obtain iv sealed mac x where b: "length iv = 16" "length sealed = length (ws_plaintext ws)"
    "\<And>u. fst (enclave_decrypt hal iv sealed u) = Some (ws_plaintext ws)"
    "0 < length (ws_plaintext ws)" "length (ws_plaintext ws) \<le> ws_encrypted_len ws" "ws_encrypted_len ws \<le> 64"
    "case ws_write_mac ws of None \<Rightarrow> mac = None
      | Some f \<Rightarrow> mac \<noteq> None \<and> f (ws_plaintext ws) iv (sealed @ replicate (ws_encrypted_len ws - length sealed) 0) = mac \<and>
        0 < length (the mac) \<and> length (the mac) \<le> 64"
    "zf_storage_write_format_atomic hal p temp (zf_storage_write_encrypted_blob_fields hal ws iv
      (sealed @ replicate (ws_encrypted_len ws - length sealed) 0) mac) x = (True, w')" "content x = content w"
    by (rule blob_written [OF plat wr]) (rule that)
  define e where "e = sealed @ replicate (ws_encrypted_len ws - length sealed) 0"
  define body where "body = zf_storage_write_encrypted_blob_fields hal ws iv e mac"
  have laws: "storage_lawful hal content" "format_lawful hal" using plat by (auto simp: blob_platform_def pin_platform_def)
  note rd = blob_text_read [OF laws(2) body_def]
  have c: "content w' p = Some body"
    using written_present [OF laws(1)] b(8) rd(1) write_format_is_write_file [of body] by (metis e_def body_def)
  have fields: "blob_fields hal rs body = Some (iv, e, case mac of None \<Rightarrow> [] | Some m \<Rightarrow> m)"
    using match rd b by (auto simp: blob_fields_def blob_specs_match_def zf_storage_version_allowed_def e_def
        split: option.split_asm if_split_asm)
  have "rs_plaintext_len rs = length (ws_plaintext ws)" "take (length (ws_plaintext ws)) e = sealed"
    using match b(2) by (simp_all add: blob_specs_match_def e_def)
  moreover have "verify (ws_plaintext ws) iv e (case mac of None \<Rightarrow> [] | Some m \<Rightarrow> m)"
    if "rs_verify_mac rs = Some verify" for verify
    using match b(7) that by (auto simp: blob_specs_match_def e_def split: option.split_asm)
  ultimately have "blob_holds hal rs body (ws_plaintext ws)"
    unfolding blob_holds_def using fields b(3)
    by - (rule exI [of _ iv], rule exI [of _ e], rule exI [of _ "case mac of None \<Rightarrow> [] | Some m \<Rightarrow> m"], auto)
  with c show ?thesis by blast
qed

lemma blob_held_read:
  assumes plat: "blob_platform hal content" and ok: "read_spec_ok rs"
    and held: "content v p = Some body" "blob_holds hal rs body plaintext"
  shows "\<exists>v'. zf_storage_read_encrypted_blob hal p rs v = (Some plaintext, v') \<and> content v' p = Some body"
proof -
  have laws: "storage_lawful hal content" "\<And>q u. fst (fs_read hal q u) = content u q"
    using plat by (auto simp: blob_platform_def pin_platform_def)
  obtain iv e mac where h: "blob_fields hal rs body = Some (iv, e, mac)"
    "\<And>u. fst (enclave_decrypt hal iv (take (rs_plaintext_len rs) e) u) = Some plaintext"
    "\<And>verify. rs_verify_mac rs = Some verify \<Longrightarrow> verify plaintext iv e mac"
    using held(2) unfolding blob_holds_def by blast
  obtain k v1 where k: "enclave_ensure_key hal v = (k, v1)" by fastforce
  have v1: "k" "content v1 p = Some body"
    using plat k held(1) unfolding blob_platform_def by (metis fst_conv snd_conv)+
  obtain v2 where rec: "zf_storage_recover_atomic_file hal p temp v1 = (True, v2)" "content v2 p = Some body"
    using recover_present [OF laws(1) v1(2)] by (metis prod.collapse)
  obtain t v3 where read: "fs_read hal p v2 = (t, v3)" by fastforce
  have v3: "t = Some body" "content v3 p = Some body"
    using laws read rec(2) unfolding storage_lawful_def by (metis fst_conv snd_conv)+
  obtain d v4 where dec: "enclave_decrypt hal iv (take (rs_plaintext_len rs) e) v3 = (d, v4)" by fastforce
  then have v4: "d = Some plaintext" "content v4 p = Some body"
    using h(2) [of v3] frame_platform(3) [OF plat, of iv "take (rs_plaintext_len rs) e" v3] v3(2) by simp_all
  have "zf_storage_read_encrypted_blob hal p rs v = (Some plaintext, v4)"
    using ok k v1 temp_path rec read v3 h(1,3) dec v4
    by (auto simp: zf_storage_read_encrypted_blob_def read_spec_ok_def split: option.split)
  with v4 show ?thesis by blast
qed

lemma blob_absent_read:
  assumes plat: "blob_platform hal content" and b: "zf_storage_backup_path p = Some b"
    and gone: "content v p = None" "content v b = None"
    and r: "zf_storage_read_encrypted_blob hal p rs v = (d, v')"
  shows "d = None \<and> content v' p = None \<and> content v' b = None"
proof -
  have laws: "storage_lawful hal content" "\<And>q u. fst (fs_read hal q u) = content u q"
    using plat by (auto simp: blob_platform_def pin_platform_def)
  obtain k v1 where k: "enclave_ensure_key hal v = (k, v1)" by fastforce
  have v1: "k" "content v1 = content v" using plat k unfolding blob_platform_def by (metis fst_conv snd_conv)+
  obtain v2 where rec: "zf_storage_recover_atomic_file hal p temp v1 = (True, v2)"
    "content v2 p = None" "content v2 b = None"
    using recover_other_state [OF laws(1) _ b, of v1] gone v1(2) by (metis prod.collapse)
  obtain t v3 where read: "fs_read hal p v2 = (t, v3)" by fastforce
  have v3: "t = None" "content v3 = content v2"
    using laws read rec(2) unfolding storage_lawful_def by (metis fst_conv snd_conv)+
  show ?thesis
    using r k v1 temp_path rec read v3 gone
    by (auto simp: zf_storage_read_encrypted_blob_def split: if_split_asm)
qed

text \<open>Writing a blob: it is published, or the file stays as it was.\<close>

lemma blob_write_failed:
  assumes plat: "blob_platform hal content"
    and wr: "zf_storage_write_encrypted_blob_atomic hal p temp ws w = (False, w')"
  shows "content w p = Some d \<Longrightarrow> content w' p = Some d"
    and "zf_storage_backup_path p = Some b \<Longrightarrow> content w p = None \<Longrightarrow> content w b = None \<Longrightarrow>
      content w' p = None \<and> content w' b = None"
proof -
  note lawful = blob_platform_lawful [OF plat]
  show "content w p = Some d \<Longrightarrow> content w' p = Some d"
    using write_blob_cases [OF plat, of p temp ws w]
    by cases (use wr write_failed(1) [OF lawful] in auto)
  show "zf_storage_backup_path p = Some b \<Longrightarrow> content w p = None \<Longrightarrow> content w b = None \<Longrightarrow>
      content w' p = None \<and> content w' b = None"
    using write_blob_cases [OF plat, of p temp ws w]
    by cases (use wr write_failed(2) [OF lawful] in auto)
qed

end

end
