(* ===== verification/Attestation_Exact.thy ===== *)
theory Attestation_Exact
  imports Attestation Storage_Frame
begin

text \<open>
  Attestation assets and the other files: creating, checking and repairing a pair of certificate and
  key writes only the paths of its profile.
\<close>

text \<open>Blobs work, and computing keys and signatures leaves the files alone.\<close>

definition signing_platform :: "'w hal \<Rightarrow> ('w \<Rightarrow> path \<rightharpoonup> bytes) \<Rightarrow> bool" where
  "signing_platform hal content \<longleftrightarrow> blob_platform hal content \<and>
    (\<forall>k h w. content (snd (uECC_sign hal k h w)) = content w) \<and>
    (\<forall>w. content (snd (uECC_make_key hal w)) = content w)"

lemma signing_platform_laws:
  assumes "signing_platform hal content"
  shows "blob_platform hal content" "storage_lawful hal content"
  using assms blob_platform_lawful by (auto simp: signing_platform_def)

lemma frame_sign:
  assumes "signing_platform hal content"
  shows "content (snd (zf_crypto_sign_hash_with_private_key hal k h n w)) = content w"
  using assms by (simp add: zf_crypto_sign_hash_with_private_key_def zf_p256_sign_hash_raw_def signing_platform_def
      split_def Let_def split: option.split)

lemma frame_generate_keypair:
  assumes "signing_platform hal content"
  shows "content (snd (zf_generate_keypair hal w)) = content w"
  using assms by (simp add: zf_generate_keypair_def zf_crypto_generate_key_agreement_key_def
      zf_p256_generate_keypair_def signing_platform_def split_def split: option.split)

lemma frame_build_cert:
  assumes "signing_platform hal content"
  shows "content (snd (zf_build_cert hal profile k pk n w)) = content w"
proof -
  have "content (snd (zf_build_tbs hal profile pk c v)) = content v" for c v
    using frame_platform(1) [OF signing_platform_laws(1) [OF assms]]
    by (simp add: zf_build_tbs_def Let_def split_def)
  then show ?thesis using frame_sign [OF assms]
    by (simp add: zf_build_cert_def split_def split: option.split)
qed

definition profile_paths :: "ZfLocalAttestationProfile \<Rightarrow> path set" where
  "profile_paths profile =
    {pf_cert_file profile, pf_cert_temp_file profile, pf_key_file profile, pf_key_temp_file profile,
     pf_key_file profile @ ZF_STORAGE_TEMP_SUFFIX} \<union>
    {q. zf_storage_backup_path (pf_cert_file profile) = Some q} \<union>
    {q. zf_storage_backup_path (pf_key_file profile) = Some q}"

lemma profile_frame:
  assumes "signing_platform hal content" "q \<notin> profile_paths profile"
  shows "content (snd (zf_storage_recover_atomic_file hal (pf_cert_file profile) (pf_cert_temp_file profile) w)) q = content w q"
    "content (snd (zf_storage_recover_atomic_file hal (pf_key_file profile) (pf_key_temp_file profile) w)) q = content w q"
    "content (snd (zf_storage_remove_atomic_file hal (pf_cert_file profile) (pf_cert_temp_file profile) w)) q = content w q"
    "content (snd (zf_storage_remove_atomic_file hal (pf_key_file profile) (pf_key_temp_file profile) w)) q = content w q"
    "content (snd (zf_storage_write_file_atomic hal (pf_cert_file profile) (pf_cert_temp_file profile) d w)) q = content w q"
    "content (snd (zf_storage_remove_optional hal (pf_cert_file profile) w)) q = content w q"
    "content (snd (zf_storage_remove_optional hal (pf_cert_temp_file profile) w)) q = content w q"
    "content (snd (zf_storage_remove_optional hal (pf_key_temp_file profile) w)) q = content w q"
    "content (snd (zf_storage_read_encrypted_blob hal (pf_key_file profile) rs w)) q = content w q"
    "content (snd (zf_storage_write_encrypted_blob_atomic hal (pf_key_file profile) (pf_key_temp_file profile) ws w)) q = content w q"
  using assms(2) signing_platform_laws [OF assms(1)]
  by (simp_all add: profile_paths_def frame_recover frame_remove_atomic frame_write_file frame_remove_optional
      frame_read_blob frame_write_blob)

lemma frame_cleanup:
  assumes "signing_platform hal content" "q \<notin> profile_paths profile"
  shows "content (zf_local_attestation_cleanup_temps hal profile w) q = content w q"
    "content (zf_local_attestation_cleanup_pair hal profile w) q = content w q"
    "content (zf_local_attestation_cleanup_storage hal profile r w) q = content w q"
proof -
  have paths: "content (snd (zf_local_attestation_remove_paths hal profile r v)) q = content v q" for r v
    by (simp add: zf_local_attestation_remove_paths_def and_then_def profile_frame [OF assms])
  then show t: "content (zf_local_attestation_cleanup_temps hal profile w) q = content w q"
    by (simp add: zf_local_attestation_cleanup_temps_def Let_def profile_frame [OF assms])
  show p: "content (zf_local_attestation_cleanup_pair hal profile w) q = content w q"
    using paths by (simp add: zf_local_attestation_cleanup_pair_def)
  show "content (zf_local_attestation_cleanup_storage hal profile r w) q = content w q"
    using t p by (simp add: zf_local_attestation_cleanup_storage_def)
qed

lemma frame_assets_ready:
  assumes "signing_platform hal content" "q \<notin> profile_paths profile"
  shows "content (snd (zf_assets_ready hal profile w)) q = content w q"
  by (simp add: zf_assets_ready_def zf_local_attestation_load_private_key_def zf_private_key_matches_cert_def
      zf_local_attestation_load_cert_def split_def profile_frame [OF assms]
      frame_read_file [OF signing_platform_laws(2) [OF assms(1)]] split: option.split)

lemma frame_bootstrap:
  assumes "signing_platform hal content" "q \<notin> profile_paths profile"
  shows "content (snd (zf_bootstrap_assets hal profile cert k w)) q = content w q"
proof -
  have dirs: "content (snd (zf_local_attestation_ensure_directories hal profile v)) q = content v q" for v
    using signing_platform_laws(2) [OF assms(1)]
    by (simp add: zf_local_attestation_ensure_directories_def and_then_def frame_ensure_dir frame_ensure_app_data_dir)
  show ?thesis
    by (simp add: zf_bootstrap_assets_def zf_encrypt_private_key_def split_def Let_def dirs profile_frame [OF assms]
        frame_cleanup [OF assms] split: bool.split)
qed

lemma frame_ensure_assets:
  assumes "signing_platform hal content" "q \<notin> profile_paths profile"
  shows "content (snd (zf_local_attestation_ensure_assets hal profile w)) q = content w q"
proof -
  have "content (snd (zf_generate_assets hal profile v)) q = content v q" for v
    by (simp add: zf_generate_assets_def split_def frame_generate_keypair [OF assms(1)] frame_build_cert [OF assms(1)]
        frame_bootstrap [OF assms] split: option.split)
  then show ?thesis
    by (simp add: zf_local_attestation_ensure_assets_def split_def Let_def and_then_def frame_cleanup [OF assms]
        frame_assets_ready [OF assms] split: bool.split)
qed

section \<open>Assets that are announced\<close>

text \<open>Assets are announced only after the pair on the medium has been read back and matched.\<close>

lemma assets_ready_matches:
  assumes lawful: "storage_lawful hal content"
    and "zf_assets_ready hal profile w = (True, w')"
  shows "\<exists>private_key cert. content w' (pf_cert_file profile) = Some cert \<and>
    zf_local_attestation_private_key_matches_cert hal private_key cert (pf_identity profile)"
proof -
  obtain k w1 where k: "zf_local_attestation_load_private_key hal profile w = (k, w1)" by fastforce
  obtain c w2 where c: "zf_local_attestation_load_cert hal profile ZF_ATTESTATION_CERT_MAX_SIZE w1 = (c, w2)" by fastforce
  have rd: "fs_read hal p v = (Some d, v') \<Longrightarrow> content v' p = Some d" for p v d v'
    using lawful unfolding storage_lawful_def by (metis fst_conv snd_conv)
  from assms(2) k c obtain key cert where "k = Some key" "c = Some cert"
    "zf_local_attestation_private_key_matches_cert hal key cert (pf_identity profile)" "w' = w2"
    by (auto simp: zf_assets_ready_def zf_private_key_matches_cert_def split: option.split_asm if_split_asm)
  moreover have "content w2 (pf_cert_file profile) = Some cert"
    using c \<open>c = Some cert\<close> rd
    by (auto simp: zf_local_attestation_load_cert_def zf_storage_read_file_def
        split: if_split_asm option.split_asm prod.split_asm)
  ultimately show ?thesis by blast
qed

end
