(* ===== verification/U2f_Exact.thy ===== *)
theory U2f_Exact
  imports U2f Attestation_Exact
begin

text \<open>
  The laws of the U2F authenticator over the storage and crypto contracts: the files it keeps are
  blob files, the device key and the counter are read back as written, a start-up never replaces a
  device key, signed counters only grow (also across restarts), presence is used up by one request,
  and a key handle is accepted exactly when this device made it for this application.
\<close>

section \<open>Files\<close>

lemmas u2f_paths = U2F_CERT_FILE_def U2F_CERT_FILE_TMP_def U2F_CERT_KEY_FILE_def U2F_CERT_KEY_FILE_TMP_def
  U2F_KEY_FILE_def U2F_KEY_FILE_TMP_def U2F_CNT_FILE_def U2F_CNT_FILE_TMP_def U2F_DATA_FOLDER_def
  U2F_ASSETS_FOLDER_def ZF_APP_DATA_DIR_def

lemmas path_defs = zf_storage_backup_path_def zf_storage_build_suffixed_path_def
  ZF_STORAGE_BACKUP_SUFFIX_def ZF_STORAGE_TEMP_SUFFIX_def ZF_STORAGE_PATH_BUFFER_SIZE_def

interpretation counter_file: blob_file U2F_CNT_FILE U2F_CNT_FILE_TMP
  by unfold_locales (simp_all add: u2f_paths path_defs)

interpretation key_file: blob_file U2F_KEY_FILE U2F_KEY_FILE_TMP
  by unfold_locales (simp_all add: u2f_paths path_defs)

interpretation cert_key_file: blob_file U2F_CERT_KEY_FILE U2F_CERT_KEY_FILE_TMP
  by unfold_locales (simp_all add: u2f_paths path_defs)

definition U2F_CNT_FILE_BAK :: path where "U2F_CNT_FILE_BAK = U2F_CNT_FILE @ ZF_STORAGE_BACKUP_SUFFIX"
definition U2F_KEY_FILE_BAK :: path where "U2F_KEY_FILE_BAK = U2F_KEY_FILE @ ZF_STORAGE_BACKUP_SUFFIX"

lemma u2f_backups:
  "zf_storage_backup_path U2F_CNT_FILE = Some U2F_CNT_FILE_BAK"
  "zf_storage_backup_path U2F_KEY_FILE = Some U2F_KEY_FILE_BAK"
  "zf_storage_backup_path U2F_CERT_FILE = Some (U2F_CERT_FILE @ ''.bak'')"
  "zf_storage_backup_path U2F_CERT_KEY_FILE = Some (U2F_CERT_KEY_FILE @ ''.bak'')"
  by (simp_all add: u2f_paths path_defs U2F_CNT_FILE_BAK_def U2F_KEY_FILE_BAK_def)

text \<open>The paths of the attestation assets, which start-up may write.\<close>

abbreviation asset_paths :: "path set" where
  "asset_paths \<equiv> profile_paths u2f_generated_attestation_profile"

lemma not_asset:
  "U2F_CNT_FILE \<notin> asset_paths" "U2F_CNT_FILE_BAK \<notin> asset_paths"
  "U2F_KEY_FILE \<notin> asset_paths" "U2F_KEY_FILE_BAK \<notin> asset_paths"
  by (simp_all add: profile_paths_def u2f_generated_attestation_profile_def u2f_backups)
    (simp_all add: u2f_paths U2F_CNT_FILE_BAK_def U2F_KEY_FILE_BAK_def path_defs)

lemma asset_frame:
  assumes "signing_platform hal content" "q \<notin> asset_paths"
  shows "content (snd (zf_storage_recover_atomic_file hal U2F_CERT_FILE U2F_CERT_FILE_TMP w)) q = content w q"
    "content (snd (zf_storage_recover_atomic_file hal U2F_CERT_KEY_FILE U2F_CERT_KEY_FILE_TMP w)) q = content w q"
    "content (snd (zf_storage_read_encrypted_blob hal U2F_CERT_KEY_FILE rs w)) q = content w q"
    "content (snd (u2f_data_generate_attestation_assets hal w)) q = content w q"
  using profile_frame(1,2,9) [OF assms] frame_ensure_assets [OF assms]
  by (simp_all add: u2f_generated_attestation_profile_def u2f_data_generate_attestation_assets_def)

text \<open>A file of the authenticator under recovery of all its files.\<close>

definition kept_or_absent :: "(path \<rightharpoonup> bytes) \<Rightarrow> path \<Rightarrow> path \<Rightarrow> (path \<rightharpoonup> bytes) \<Rightarrow> bool" where
  "kept_or_absent c p b c' \<longleftrightarrow> (\<forall>d. c p = Some d \<longrightarrow> c' p = Some d) \<and>
    (c p = None \<and> c b = None \<longrightarrow> c' p = None \<and> c' b = None)"

lemma kept_or_absent_same: "c' p = c p \<Longrightarrow> c' b = c b \<Longrightarrow> kept_or_absent c p b c'"
  by (simp add: kept_or_absent_def)

lemma kept_or_absent_trans:
  "kept_or_absent c p b c' \<Longrightarrow> kept_or_absent c' p b c'' \<Longrightarrow> kept_or_absent c p b c''"
  by (auto simp: kept_or_absent_def)

text \<open>The two files whose loss would matter, with their backups.\<close>

definition precious :: "path \<Rightarrow> path \<Rightarrow> bool" where
  "precious p b \<longleftrightarrow> (p, b) \<in> {(U2F_CNT_FILE, U2F_CNT_FILE_BAK), (U2F_KEY_FILE, U2F_KEY_FILE_BAK)}"

abbreviation keeps :: "('w \<Rightarrow> path \<rightharpoonup> bytes) \<Rightarrow> path \<Rightarrow> path \<Rightarrow> 'w \<Rightarrow> 'w \<Rightarrow> bool" where
  "keeps content p b w w' \<equiv> kept_or_absent (content w) p b (content w')"

lemma keeps_untouched:
  "content w' p = content w p \<Longrightarrow> content w' b = content w b \<Longrightarrow> keeps content p b w w'"
  by (rule kept_or_absent_same)

lemma precious_paths:
  assumes "precious p b"
  shows "p \<notin> asset_paths" "b \<notin> asset_paths" "zf_storage_backup_path p = Some b"
  using assms not_asset u2f_backups by (auto simp: precious_def)

lemma u2f_file_names [simp]:
  "U2F_CNT_FILE \<noteq> U2F_KEY_FILE" "U2F_CNT_FILE \<noteq> U2F_KEY_FILE_TMP" "U2F_CNT_FILE \<noteq> U2F_KEY_FILE_BAK"
  "U2F_CNT_FILE_BAK \<noteq> U2F_KEY_FILE" "U2F_CNT_FILE_BAK \<noteq> U2F_KEY_FILE_TMP" "U2F_CNT_FILE_BAK \<noteq> U2F_KEY_FILE_BAK"
  "U2F_KEY_FILE \<noteq> U2F_CNT_FILE" "U2F_KEY_FILE \<noteq> U2F_CNT_FILE_TMP" "U2F_KEY_FILE \<noteq> U2F_CNT_FILE_BAK"
  "U2F_KEY_FILE_BAK \<noteq> U2F_CNT_FILE" "U2F_KEY_FILE_BAK \<noteq> U2F_CNT_FILE_TMP" "U2F_KEY_FILE_BAK \<noteq> U2F_CNT_FILE_BAK"
  "U2F_CNT_FILE @ ZF_STORAGE_TEMP_SUFFIX = U2F_CNT_FILE_TMP" "U2F_KEY_FILE @ ZF_STORAGE_TEMP_SUFFIX = U2F_KEY_FILE_TMP"
  by (simp_all add: u2f_paths U2F_CNT_FILE_BAK_def U2F_KEY_FILE_BAK_def path_defs)

lemma keeps_recover:
  assumes "storage_lawful hal content" "precious p b"
  shows "keeps content p b w (snd (zf_storage_recover_atomic_file hal U2F_CNT_FILE U2F_CNT_FILE_TMP w))"
    "keeps content p b w (snd (zf_storage_recover_atomic_file hal U2F_KEY_FILE U2F_KEY_FILE_TMP w))"
proof -
  have own: "keeps content U2F_CNT_FILE U2F_CNT_FILE_BAK w
      (snd (zf_storage_recover_atomic_file hal U2F_CNT_FILE U2F_CNT_FILE_TMP w))"
    "keeps content U2F_KEY_FILE U2F_KEY_FILE_BAK w
      (snd (zf_storage_recover_atomic_file hal U2F_KEY_FILE U2F_KEY_FILE_TMP w))"
    using counter_file.recover_present [OF assms(1)] counter_file.recover_other_state [OF assms(1) _ u2f_backups(1)]
      key_file.recover_present [OF assms(1)] key_file.recover_other_state [OF assms(1) _ u2f_backups(2)]
    by (auto simp: kept_or_absent_def)
  have other: "keeps content U2F_KEY_FILE U2F_KEY_FILE_BAK w
      (snd (zf_storage_recover_atomic_file hal U2F_CNT_FILE U2F_CNT_FILE_TMP w))"
    "keeps content U2F_CNT_FILE U2F_CNT_FILE_BAK w
      (snd (zf_storage_recover_atomic_file hal U2F_KEY_FILE U2F_KEY_FILE_TMP w))"
    by (auto intro!: keeps_untouched frame_recover [OF assms(1)] simp: u2f_backups)
  show "keeps content p b w (snd (zf_storage_recover_atomic_file hal U2F_CNT_FILE U2F_CNT_FILE_TMP w))"
    "keeps content p b w (snd (zf_storage_recover_atomic_file hal U2F_KEY_FILE U2F_KEY_FILE_TMP w))"
    using assms(2) own other by (auto simp: precious_def)
qed

lemma keeps_recover_files:
  assumes "signing_platform hal content" "precious p b"
  shows "keeps content p b w (u2f_data_recover_atomic_files hal w)"
proof -
  note pb = precious_paths [OF assms(2)]
  have "keeps content p b v (snd (zf_storage_recover_atomic_file hal U2F_CERT_FILE U2F_CERT_FILE_TMP v))"
    "keeps content p b v (snd (zf_storage_recover_atomic_file hal U2F_CERT_KEY_FILE U2F_CERT_KEY_FILE_TMP v))" for v
    using asset_frame [OF assms(1) pb(1)] asset_frame [OF assms(1) pb(2)] by (simp_all add: keeps_untouched)
  with keeps_recover [OF signing_platform_laws(2) [OF assms(1)] assms(2)] show ?thesis
    unfolding u2f_data_recover_atomic_files_def Let_def by (meson kept_or_absent_trans)
qed

text \<open>Reading a blob, whatever comes of it, does what recovery of its file does.\<close>

lemma keeps_read_blob:
  assumes plat: "signing_platform hal content" and pb: "precious p b"
  shows "keeps content p b w (snd (zf_storage_read_encrypted_blob hal U2F_CNT_FILE rs w))"
    "keeps content p b w (snd (zf_storage_read_encrypted_blob hal U2F_KEY_FILE rs w))"
proof -
  note laws = signing_platform_laws [OF plat]
  have rd: "content (snd (fs_read hal q v)) = content v" for q v using laws(2) by (simp add: storage_lawful_def)
  have *: "keeps content p b w (snd (zf_storage_read_encrypted_blob hal f rs w))"
    if temp: "zf_storage_build_suffixed_path f ZF_STORAGE_TEMP_SUFFIX ZF_STORAGE_PATH_BUFFER_SIZE = Some t"
      and rec: "\<And>v. keeps content p b v (snd (zf_storage_recover_atomic_file hal f t v))" for f t
  proof -
    obtain k v1 where k: "enclave_ensure_key hal w = (k, v1)" by fastforce
    obtain ok v2 where r: "zf_storage_recover_atomic_file hal f t v1 = (ok, v2)" by fastforce
    have c: "content v1 = content w" using frame_platform(4) [OF laws(1), of w] k by simp
    have "content (snd (zf_storage_read_encrypted_blob hal f rs w)) \<in> {content w, content v2}"
      using k r c frame_platform(3) [OF laws(1)] rd
      by (auto simp: zf_storage_read_encrypted_blob_def temp split_def split: bool.split option.split)
    with rec [of v1] r c show ?thesis by (auto simp: kept_or_absent_def)
  qed
  show "keeps content p b w (snd (zf_storage_read_encrypted_blob hal U2F_CNT_FILE rs w))"
    "keeps content p b w (snd (zf_storage_read_encrypted_blob hal U2F_KEY_FILE rs w))"
    using keeps_recover [OF laws(2) pb] by (blast intro: * counter_file.temp_path key_file.temp_path)+
qed

lemma keeps_cert:
  assumes plat: "signing_platform hal content" and pb: "precious p b"
  shows "keeps content p b w (snd (u2f_data_cert_load hal n w))"
    "keeps content p b w (snd (load_cert_key hal w))"
proof -
  note laws = signing_platform_laws [OF plat] and paths = precious_paths [OF pb]
  have load: "keeps content p b v (snd (u2f_data_cert_load hal m v))" for m v
  proof -
    have "content (snd (u2f_data_cert_load hal m v)) q = content (u2f_data_recover_atomic_files hal v) q" for q
      using frame_read_file [OF laws(2)]
      by (simp add: u2f_data_cert_load_def Let_def split_def split: option.split)
    then show ?thesis using keeps_recover_files [OF plat pb, of v] by (simp add: kept_or_absent_def)
  qed
  show "keeps content p b w (snd (u2f_data_cert_load hal n w))" by (rule load)
  have check: "keeps content p b v (snd (u2f_data_cert_check hal v))"
    "keeps content p b v (snd (u2f_data_cert_key_matches hal k v))" for k v
    using load by (simp_all add: u2f_data_cert_check_def u2f_data_cert_public_key_load_def
        u2f_data_cert_key_matches_def split_def Let_def)
  have key: "keeps content p b v (snd (u2f_data_cert_key_load hal v))" for v
    using asset_frame(3) [OF plat paths(1)] asset_frame(3) [OF plat paths(2)]
    by (simp add: u2f_data_cert_key_load_def keeps_untouched)
  show "keeps content p b w (snd (load_cert_key hal w))"
    using check key
    by (auto simp: load_cert_key_def split_def split: bool.split option.split)
      (meson kept_or_absent_trans)+
qed

lemma keeps_dirs:
  assumes "storage_lawful hal content"
  shows "content (snd (u2f_data_ensure_directories hal w)) q = content w q"
  using assms by (simp add: u2f_data_ensure_directories_def and_then_def frame_ensure_dir frame_ensure_app_data_dir)

section \<open>The counter on the medium\<close>

definition counter_stored :: "'w hal \<Rightarrow> ('w \<Rightarrow> path \<rightharpoonup> bytes) \<Rightarrow> 'w \<Rightarrow> u32 \<Rightarrow> bool" where
  "counter_stored hal content w F \<longleftrightarrow>
    (\<exists>body random_salt. content w U2F_CNT_FILE = Some body \<and> length random_salt = 24 \<and>
      blob_holds hal counter_read_spec body (U2fCounterData F random_salt))"

definition counter_absent :: "('w \<Rightarrow> path \<rightharpoonup> bytes) \<Rightarrow> 'w \<Rightarrow> bool" where
  "counter_absent content w \<longleftrightarrow> content w U2F_CNT_FILE = None \<and> content w U2F_CNT_FILE_BAK = None"

lemma counter_kept:
  assumes "keeps content U2F_CNT_FILE U2F_CNT_FILE_BAK w w'"
  shows "counter_stored hal content w F \<Longrightarrow> counter_stored hal content w' F"
    and "counter_absent content w \<Longrightarrow> counter_absent content w'"
  using assms by (auto simp: kept_or_absent_def counter_stored_def counter_absent_def)

lemma counter_data:
  assumes "length random_salt = 24"
  shows "drop 28 (U2fCounterData F random_salt) = le_bytes 4 U2F_COUNTER_CONTROL_VAL"
    "be_value (rev (take 4 (U2fCounterData F random_salt))) = F" "length (U2fCounterData F random_salt) = 32"
  using assms be_value_be_bytes [of 4 F]
  by (simp_all add: U2fCounterData_def le_bytes_def take_bit_word_eq_self)

lemma counter_specs: "read_spec_ok counter_read_spec"
  "length cnt = 32 \<Longrightarrow> blob_specs_match (counter_write_spec cnt) counter_read_spec"
  by (simp_all add: read_spec_ok_def counter_read_spec_def counter_write_spec_def blob_specs_match_def
      ZF_STORAGE_BLOB_MAX_DATA_SIZE_def)

lemma cnt_precious: "precious U2F_CNT_FILE U2F_CNT_FILE_BAK" and key_precious: "precious U2F_KEY_FILE U2F_KEY_FILE_BAK"
  by (simp_all add: precious_def)

lemma cnt_read_stored:
  assumes "signing_platform hal content" "counter_stored hal content w F"
  shows "\<exists>w'. u2f_data_cnt_read hal w = (Some F, w') \<and> counter_stored hal content w' F"
proof -
  obtain body salt where b: "content w U2F_CNT_FILE = Some body" "length salt = 24"
    "blob_holds hal counter_read_spec body (U2fCounterData F salt)"
    using assms(2) by (auto simp: counter_stored_def)
  obtain w' where "zf_storage_read_encrypted_blob hal U2F_CNT_FILE counter_read_spec w =
      (Some (U2fCounterData F salt), w')" "content w' U2F_CNT_FILE = Some body"
    using counter_file.blob_held_read [OF signing_platform_laws(1) [OF assms(1)] counter_specs(1) b(1,3)] by blast
  then show ?thesis
    using b counter_data [OF b(2)] by (auto simp: u2f_data_cnt_read_def counter_stored_def)
qed

lemma cnt_read_absent:
  assumes "signing_platform hal content" "counter_absent content w"
  shows "\<exists>w'. u2f_data_cnt_read hal w = (None, w') \<and> counter_absent content w'"
proof -
  obtain d w' where r: "zf_storage_read_encrypted_blob hal U2F_CNT_FILE counter_read_spec w = (d, w')" by fastforce
  with counter_file.blob_absent_read [OF signing_platform_laws(1) [OF assms(1)] u2f_backups(1) _ _ r] assms(2)
  show ?thesis by (auto simp: u2f_data_cnt_read_def counter_absent_def)
qed

lemma cnt_write:
  assumes plat: "signing_platform hal content" and wr: "u2f_data_cnt_write hal v w = (ok, w')"
  shows "ok \<Longrightarrow> counter_stored hal content w' v"
    and "\<not> ok \<Longrightarrow> keeps content U2F_CNT_FILE U2F_CNT_FILE_BAK w w'"
    and "content w' U2F_KEY_FILE = content w U2F_KEY_FILE"
proof -
  note laws = signing_platform_laws [OF plat]
  obtain salt w1 where salt: "random_fill hal 24 w = (salt, w1)" by fastforce
  have len: "length salt = 24" and c1: "content w1 = content w"
    using laws(1) salt frame_platform(1) [OF laws(1), of 24 w]
    unfolding blob_platform_def pin_platform_def enclave_lawful_def by (metis fst_conv snd_conv)+
  obtain d w2 where dirs: "u2f_data_ensure_directories hal w1 = (d, w2)" by fastforce
  have c2: "content w2 q = content w q" for q using keeps_dirs [OF laws(2), of w1 q] dirs c1 by simp
  let ?spec = "counter_write_spec (U2fCounterData v salt)"
  let ?wr = "zf_storage_write_encrypted_blob_atomic hal U2F_CNT_FILE U2F_CNT_FILE_TMP ?spec w2"
  have cases: "(ok, w') = (if d then ?wr else (False, w2))"
    using wr salt dirs by (cases d) (auto simp: u2f_data_cnt_write_def)
  show "counter_stored hal content w' v" if ok
  proof -
    have "?wr = (True, w')" using cases that by (auto split: if_split_asm)
    from counter_file.blob_published [OF laws(1) counter_specs(2) this] counter_data(3) [OF len] len
    show ?thesis by (auto simp: counter_stored_def counter_write_spec_def)
  qed
  show "keeps content U2F_CNT_FILE U2F_CNT_FILE_BAK w w'" if "\<not> ok"
  proof (cases d)
    case True
    then have "?wr = (False, w')" using cases that by auto
    with counter_file.blob_write_failed [OF laws(1) this] c2 u2f_backups(1)
    show ?thesis by (auto simp: kept_or_absent_def)
  next
    case False
    then show ?thesis using cases c2 by (simp add: kept_or_absent_same)
  qed
  show "content w' U2F_KEY_FILE = content w U2F_KEY_FILE"
    using cases c2 frame_write_blob [OF laws(1), of U2F_KEY_FILE U2F_CNT_FILE U2F_CNT_FILE_TMP ?spec w2]
    by (cases d) (auto simp: u2f_backups dest: sym)
qed

section \<open>Start-up\<close>

lemma key_store:
  assumes plat: "signing_platform hal content"
  shows "keeps content U2F_CNT_FILE U2F_CNT_FILE_BAK w (snd (u2f_data_key_store_plaintext hal k w))"
proof -
  note laws = signing_platform_laws [OF plat]
  have "content (snd (u2f_data_key_store_plaintext hal k w)) q = content w q"
    if "q = U2F_CNT_FILE \<or> q = U2F_CNT_FILE_BAK" for q
    using that keeps_dirs [OF laws(2)] frame_write_blob [OF laws(1), of q U2F_KEY_FILE U2F_KEY_FILE_TMP]
    by (auto simp: u2f_data_key_store_plaintext_def and_then_def u2f_backups)
  then show ?thesis by (simp add: keeps_untouched)
qed

lemma load_device_key_keeps:
  assumes plat: "signing_platform hal content"
  shows "keeps content U2F_CNT_FILE U2F_CNT_FILE_BAK w (snd (load_device_key hal w))"
    and "content w U2F_KEY_FILE = Some d \<Longrightarrow> content (snd (load_device_key hal w)) U2F_KEY_FILE = Some d"
proof -
  note laws = signing_platform_laws [OF plat]
  obtain k w1 where k: "u2f_data_key_load hal w = (k, w1)" by fastforce
  obtain e w2 where e: "u2f_data_key_exists hal w1 = (e, w2)" by fastforce
  have w1: "keeps content p b w w1" and w2: "keeps content p b w1 w2" if "precious p b" for p b
    using keeps_read_blob(2) [OF plat that, of w device_key_read_spec] keeps_recover_files [OF plat that, of w1] k e
    by (auto simp: u2f_data_key_load_def u2f_data_key_exists_def u2f_data_file_exists_def Let_def)
  have gen: "keeps content U2F_CNT_FILE U2F_CNT_FILE_BAK w2 (snd (u2f_data_key_generate hal w2))"
  proof -
    obtain x w3 where x: "enclave_ensure_key hal w2 = (x, w3)" by fastforce
    obtain key w4 where key: "random_fill hal 32 w3 = (key, w4)" by fastforce
    have "content w4 = content w2" "content w3 = content w2"
      using frame_platform(1) [OF laws(1), of 32 w3] frame_platform(4) [OF laws(1), of w2] x key by simp_all
    then show ?thesis
      using key_store [OF plat, of w4 key] x key
      by (auto simp: u2f_data_key_generate_def kept_or_absent_def split_def Let_def split: bool.split)
  qed
  show "keeps content U2F_CNT_FILE U2F_CNT_FILE_BAK w (snd (load_device_key hal w))"
    using k e gen w1 [OF cnt_precious] w2 [OF cnt_precious]
    by (auto simp: load_device_key_def split: option.split bool.split) (meson kept_or_absent_trans)+
  show "content (snd (load_device_key hal w)) U2F_KEY_FILE = Some d" if "content w U2F_KEY_FILE = Some d"
  proof -
    have c: "content w1 U2F_KEY_FILE = Some d" "content w2 U2F_KEY_FILE = Some d"
      using that w1 [OF key_precious] w2 [OF key_precious] by (auto simp: kept_or_absent_def)
    moreover have "e"
      using e c(2) laws(2) by (auto simp: u2f_data_key_exists_def u2f_data_file_exists_def storage_lawful_def Let_def)
    ultimately show ?thesis using k e by (auto simp: load_device_key_def split: option.split)
  qed
qed

lemma load_counter_stored:
  assumes "signing_platform hal content" "counter_stored hal content w F"
  shows "\<exists>w'. load_counter hal w = (Some F, w') \<and> counter_stored hal content w' F"
  using cnt_read_stored [OF assms] by (auto simp: load_counter_def)

lemma load_counter_absent:
  assumes plat: "signing_platform hal content" and "counter_absent content w" "load_counter hal w = (r, w')"
  shows "case r of None \<Rightarrow> counter_absent content w' | Some c \<Rightarrow> c = 0 \<and> counter_stored hal content w' 0"
proof -
  obtain w1 where r: "u2f_data_cnt_read hal w = (None, w1)" "counter_absent content w1"
    using cnt_read_absent [OF assms(1,2)] by blast
  obtain e w2 where e: "u2f_data_cnt_exists hal w1 = (e, w2)" by fastforce
  have "keeps content U2F_CNT_FILE U2F_CNT_FILE_BAK w1 w2"
    using keeps_recover_files [OF plat cnt_precious, of w1] e
    by (auto simp: u2f_data_cnt_exists_def u2f_data_file_exists_def Let_def)
  from counter_kept(2) [OF this r(2)] have w2: "counter_absent content w2" .
  then have "\<not> e" using e signing_platform_laws(2) [OF plat]
    by (auto simp: u2f_data_cnt_exists_def u2f_data_file_exists_def storage_lawful_def counter_absent_def Let_def)
  obtain ok w3 where wr: "u2f_data_cnt_write hal 0 w2 = (ok, w3)" by fastforce
  then have "load_counter hal w = (if ok then Some 0 else None, w3)"
    using r e \<open>\<not> e\<close> by (cases ok) (simp_all add: load_counter_def)
  then show ?thesis
    using assms(3) cnt_write(1) [OF plat wr] counter_kept(2) [OF cnt_write(2) [OF plat wr] w2] by (cases ok) auto
qed

lemma load_counter_keeps_key:
  assumes plat: "signing_platform hal content" and d: "content w U2F_KEY_FILE = Some d" and r: "load_counter hal w = (r, w')"
  shows "content w' U2F_KEY_FILE = Some d"
proof -
  obtain n v1 where n: "u2f_data_cnt_read hal w = (n, v1)" by fastforce
  obtain e v2 where e: "u2f_data_cnt_exists hal v1 = (e, v2)" by fastforce
  obtain x v3 where x: "u2f_data_cnt_write hal 0 v2 = (x, v3)" by fastforce
  have "keeps content U2F_KEY_FILE U2F_KEY_FILE_BAK w v1"
    using keeps_read_blob(1) [OF plat key_precious, of w counter_read_spec] n
    by (auto simp: u2f_data_cnt_read_def split_def split: option.split_asm)
  moreover have "keeps content U2F_KEY_FILE U2F_KEY_FILE_BAK v1 v2"
    using keeps_recover_files [OF plat key_precious, of v1] e
    by (auto simp: u2f_data_cnt_exists_def u2f_data_file_exists_def Let_def)
  ultimately have "content v1 U2F_KEY_FILE = Some d" "content v2 U2F_KEY_FILE = Some d"
    using d by (auto simp: kept_or_absent_def)
  then show ?thesis using r n e x cnt_write(3) [OF plat x]
    by (auto simp: load_counter_def split: option.split_asm bool.split_asm)
qed

text \<open>What a start-up makes of the counter, and that it never replaces a device key.\<close>

lemma u2f_init_counter:
  assumes plat: "signing_platform hal content" and init: "u2f_init hal U w = ((ok, U'), w')"
  shows "counter_stored hal content w F \<Longrightarrow> counter_stored hal content w' F \<and>
      (ok \<longrightarrow> u2_counter U' = F \<and> u2_counter_high_water U' = F)"
    and "counter_absent content w \<Longrightarrow> (if ok then counter_stored hal content w' 0 \<and> u2_counter U' = 0 \<and>
      u2_counter_high_water U' = 0 else counter_absent content w')"
    and "content w U2F_KEY_FILE = Some d \<Longrightarrow> content w' U2F_KEY_FILE = Some d"
    and "u2_user_present U' = u2_user_present U"
proof -
  obtain c w1 where c: "load_cert_key hal w = (c, w1)" by fastforce
  obtain k w2 where k: "load_device_key hal w1 = (k, w2)" by fastforce
  obtain r w3 where r: "load_counter hal w2 = (r, w3)" by fastforce
  have w1: "keeps content p b w w1" if "precious p b" for p b
    using keeps_cert(2) [OF plat that, of w] c by simp
  have w2: "keeps content U2F_CNT_FILE U2F_CNT_FILE_BAK w1 w2"
    using load_device_key_keeps(1) [OF plat, of w1] k by simp
  have fields: "ok \<longleftrightarrow> k \<noteq> None \<and> r \<noteq> None" "u2_user_present U' = u2_user_present U"
    "ok \<Longrightarrow> u2_counter U' = the r \<and> u2_counter_high_water U' = the r" "w' = (if k = None then w2 else w3)"
    using init c k r by (auto simp: u2f_init_def Let_def split: option.split_asm)
  show "counter_stored hal content w' F \<and> (ok \<longrightarrow> u2_counter U' = F \<and> u2_counter_high_water U' = F)"
    if "counter_stored hal content w F"
  proof -
    have "counter_stored hal content w2 F"
      using counter_kept(1) [OF w2 counter_kept(1) [OF w1 [OF cnt_precious] that]] .
    then show ?thesis using load_counter_stored [OF plat, of w2 F] r fields by auto
  qed
  show "if ok then counter_stored hal content w' 0 \<and> u2_counter U' = 0 \<and> u2_counter_high_water U' = 0
      else counter_absent content w'" if "counter_absent content w"
  proof -
    have "counter_absent content w2"
      using counter_kept(2) [OF w2 counter_kept(2) [OF w1 [OF cnt_precious] that]] .
    then show ?thesis using load_counter_absent [OF plat _ r] fields by (auto split: option.split_asm)
  qed
  show "content w' U2F_KEY_FILE = Some d" if d: "content w U2F_KEY_FILE = Some d"
  proof -
    have "content w1 U2F_KEY_FILE = Some d" using w1 [OF key_precious] d by (auto simp: kept_or_absent_def)
    then have c2: "content w2 U2F_KEY_FILE = Some d" using load_device_key_keeps(2) [OF plat] k by (metis snd_conv)
    moreover have "content w3 U2F_KEY_FILE = Some d" using load_counter_keeps_key [OF plat c2 r] .
    ultimately show ?thesis using fields(4) by simp
  qed
  show "u2_user_present U' = u2_user_present U" by (rule fields(2))
qed

lemma adapter_init_counter:
  assumes plat: "signing_platform hal content" and init: "zf_u2f_adapter_init b hal app None w = (ok, u2f, w')"
  shows "counter_stored hal content w F \<Longrightarrow> counter_stored hal content w' F \<and>
      (\<forall>U. u2f = Some U \<longrightarrow> u2_counter U = F \<and> u2_counter_high_water U = F)"
    and "counter_absent content w \<Longrightarrow> (case u2f of None \<Rightarrow> counter_absent content w'
      | Some U \<Rightarrow> counter_stored hal content w' 0 \<and> u2_counter U = 0 \<and> u2_counter_high_water U = 0)"
    and "content w U2F_KEY_FILE = Some d \<Longrightarrow> content w' U2F_KEY_FILE = Some d"
    and "u2f = Some U \<Longrightarrow> \<not> u2_user_present U"
proof -
  define w1 where "w1 = snd (zf_u2f_adapter_ensure_attestation_assets hal w)"
  have w1: "keeps content p q w w1" if pq: "precious p q" for p q
  proof -
    note paths = precious_paths [OF pq]
    have gen: "keeps content p q v (snd (u2f_data_generate_attestation_assets hal v))" for v
      using asset_frame(4) [OF plat paths(1)] asset_frame(4) [OF plat paths(2)] by (simp add: keeps_untouched)
    have check: "keeps content p q v (snd (u2f_data_check hal True v))" for v
      using keeps_recover_files [OF plat pq] by (simp add: u2f_data_check_def Let_def)
    show ?thesis
      unfolding w1_def using gen check keeps_cert(2) [OF plat pq]
      by (auto simp: zf_u2f_adapter_ensure_attestation_assets_def split_def split: bool.split option.split)
        (meson kept_or_absent_trans)+
  qed
  obtain i U' w2 where i: "u2f_init hal u2f_alloc w1 = ((i, U'), w2)" by (metis surj_pair)
  note c = u2f_init_counter [OF plat i]
  have cases: "u2f = None \<and> w' = w \<or> u2f = (if i then Some U' else None) \<and> w' = w2"
    using init i unfolding w1_def by (auto simp: zf_u2f_adapter_init_def Let_def split: if_split_asm bool.split_asm)
  show "counter_stored hal content w' F \<and> (\<forall>U. u2f = Some U \<longrightarrow> u2_counter U = F \<and> u2_counter_high_water U = F)"
    if "counter_stored hal content w F"
    using cases that c(1) [OF counter_kept(1) [OF w1 [OF cnt_precious] that]] by (auto split: if_split_asm)
  show "case u2f of None \<Rightarrow> counter_absent content w'
      | Some U \<Rightarrow> counter_stored hal content w' 0 \<and> u2_counter U = 0 \<and> u2_counter_high_water U = 0"
    if "counter_absent content w"
    using cases that c(2) [OF counter_kept(2) [OF w1 [OF cnt_precious] that]] by (auto split: if_split_asm)
  show "content w' U2F_KEY_FILE = Some d" if d: "content w U2F_KEY_FILE = Some d"
    using cases d c(3) [of d] w1 [OF key_precious] by (auto simp: kept_or_absent_def)
  show "\<not> u2_user_present U" if "u2f = Some U"
    using cases that c(4) by (auto simp: u2f_alloc_def split: if_split_asm)
qed

section \<open>Signed counters\<close>

lemma u32_le_max: "cnt \<le> (0xFFFFFFFF :: u32)"
proof -
  have "unat cnt < 2 ^ LENGTH(32)" by (rule unsigned_less)
  then show ?thesis by (simp add: word_le_nat_alt)
qed

lemma u32_less_next: "cnt \<noteq> (0xFFFFFFFF :: u32) \<Longrightarrow> cnt < cnt + 1"
  using u32_le_max [of cnt] by (simp add: word_less_nat_alt word_le_nat_alt word_unat_eq_iff unat_word_ariths)

lemma high_water_ge: "cnt \<le> u2f_data_counter_high_water cnt"
proof (cases "0xFFFFFFFF - cnt < ZF_COUNTER_RESERVATION_WINDOW")
  case True
  then show ?thesis using u32_le_max by (simp add: u2f_data_counter_high_water_def)
next
  case False
  then have "unat (0xFFFFFFFF - cnt) \<ge> 32"
    by (simp add: ZF_COUNTER_RESERVATION_WINDOW_def word_le_nat_alt not_less)
  moreover have "unat (0xFFFFFFFF - cnt) = 0xFFFFFFFF - unat cnt"
    using unat_sub [OF u32_le_max, of cnt] by simp
  ultimately have "unat (cnt + 32) = unat cnt + 32" by (simp add: unat_word_ariths)
  with False show ?thesis
    by (simp add: u2f_data_counter_high_water_def ZF_COUNTER_RESERVATION_WINDOW_def word_le_nat_alt)
qed

text \<open>The counter in memory is covered by the reservation, and the reservation by the file.\<close>

definition counter_covered :: "'w hal \<Rightarrow> ('w \<Rightarrow> path \<rightharpoonup> bytes) \<Rightarrow> 'w \<Rightarrow> U2fData \<Rightarrow> bool" where
  "counter_covered hal content w U \<longleftrightarrow>
    (\<exists>F. counter_stored hal content w F \<and> u2_counter U \<le> u2_counter_high_water U \<and> u2_counter_high_water U \<le> F)"

lemma counter_covered_kept:
  assumes "keeps content U2F_CNT_FILE U2F_CNT_FILE_BAK w w'" "counter_covered hal content w U"
    "u2_counter U' = u2_counter U" "u2_counter_high_water U' = u2_counter_high_water U"
  shows "counter_covered hal content w' U'"
  using assms counter_kept(1) [OF assms(1)] by (auto simp: counter_covered_def)

text \<open>One command: either the counter stands still, or one assertion carries the next value.\<close>

definition counts_once :: "U2fData \<Rightarrow> bytes \<Rightarrow> U2fData \<Rightarrow> bool" where
  "counts_once U response U' \<longleftrightarrow>
    u2_counter U' = u2_counter U \<and> length response \<le> 2 \<or>
    u2_counter U \<noteq> 0xFFFFFFFF \<and> u2_counter U' = u2_counter U + 1 \<and>
      (\<exists>flags rest. response = flags # be_bytes 4 (u2_counter U') @ rest)"

lemma length_status [simp]: "length (zf_u2f_write_status s) = 2"
  by (simp add: zf_u2f_write_status_def)

lemma sign_assertion_counts:
  assumes plat: "signing_platform hal content" and cov: "counter_covered hal content w U"
    and max: "u2_counter U \<noteq> 0xFFFFFFFF"
    and r: "sign_assertion hal U priv app_id flags challenge cap w = (response, U', w')"
  shows "counts_once U response U' \<and> counter_covered hal content w' U'"
proof -
  let ?next = "u2_counter U + 1"
  let ?digest = "zf_crypto_sha256 (authenticate_preimage app_id flags (zf_u2f_to_big_endian ?next) challenge)"
  obtain sg w1 where s: "zf_crypto_sign_hash_with_private_key hal priv ?digest (cap - sizeof_U2fAuthResp) w = (sg, w1)"
    by fastforce
  have c1: "content w1 = content w"
    using frame_sign [OF plat, of priv ?digest "cap - sizeof_U2fAuthResp" w] s by simp
  obtain h w2 where h: "u2f_data_cnt_reserve hal ?next w1 = (h, w2)" by fastforce
  obtain ok w3 where wr: "u2f_data_cnt_write hal (u2f_data_counter_high_water ?next) w1 = (ok, w3)" by fastforce
  have h': "h = (if ok then Some (u2f_data_counter_high_water ?next) else None)" "w2 = w3"
    using h wr by (auto simp: u2f_data_cnt_reserve_def split: bool.split_asm)
  note res = cnt_write(1) [OF plat wr] cnt_write(2) [OF plat wr]
  have same: "counter_covered hal content v U" if "content v = content w" for v
    using cov that by (auto simp: counter_covered_def counter_stored_def)
  show ?thesis
  proof (cases "length response \<le> 2")
    case True
    then have "U' = U" and "w' \<in> {w, w1} \<or> w' = w3 \<and> \<not> ok"
      using r s h h' by (auto simp: sign_assertion_def Let_def U2fAuthResp_def zf_u2f_to_big_endian_def
          split: if_split_asm option.split_asm)
    then show ?thesis
      using True same c1 counter_covered_kept [OF res(2) same [OF c1], of U] by (auto simp: counts_once_def)
  next
    case False
    then have resp: "\<exists>rest. response = flags # be_bytes 4 ?next @ rest" and u: "u2_counter U' = ?next"
      and cases: "w' = w1 \<and> ?next \<le> u2_counter_high_water U \<and> u2_counter_high_water U' = u2_counter_high_water U \<or>
        w' = w3 \<and> ok \<and> u2_counter_high_water U' = u2f_data_counter_high_water ?next"
      using r s h h' by (auto simp: sign_assertion_def Let_def U2fAuthResp_def zf_u2f_to_big_endian_def
          split: if_split_asm option.split_asm)
    have "counter_covered hal content w' U'"
      using cases
    proof
      assume "w' = w1 \<and> ?next \<le> u2_counter_high_water U \<and> u2_counter_high_water U' = u2_counter_high_water U"
      then show ?thesis using same [OF c1] u by (auto simp: counter_covered_def)
    next
      assume "w' = w3 \<and> ok \<and> u2_counter_high_water U' = u2f_data_counter_high_water ?next"
      then show ?thesis using res(1) u high_water_ge [of ?next] by (auto simp: counter_covered_def)
    qed
    then show ?thesis using resp u max by (auto simp: counts_once_def)
  qed
qed

lemma authenticate_counts:
  assumes plat: "signing_platform hal content" and cov: "counter_covered hal content w U"
    and r: "zf_u2f_encode_authenticate_response hal U buf cap w = (response, U', w')"
  shows "counts_once U response U' \<and> counter_covered hal content w' U'"
proof -
  have cov': "counter_covered hal content w (U\<lparr>u2_user_present := x\<rparr>)" for x
    using cov by (simp add: counter_covered_def)
  have once: "counts_once (U\<lparr>u2_user_present := x\<rparr>) response U' = counts_once U response U'" for x
    by (simp add: counts_once_def)
  have "(U' = U \<or> U' = U\<lparr>u2_user_present := False\<rparr>) \<and> w' = w \<and> length response \<le> 2 \<or>
      (u2_counter U \<noteq> 0xFFFFFFFF \<and> (\<exists>priv app_id flags challenge.
        sign_assertion hal (U\<lparr>u2_user_present := False\<rparr>) priv app_id flags challenge cap w = (response, U', w')))"
    using r by (auto simp: zf_u2f_encode_authenticate_response_def u2f_consume_user_present_def
        u2f_clear_user_present_def Let_def split: option.split_asm if_split_asm)
  then show ?thesis
  proof
    assume "(U' = U \<or> U' = U\<lparr>u2_user_present := False\<rparr>) \<and> w' = w \<and> length response \<le> 2"
    then show ?thesis using cov cov' [of False] by (auto simp: counts_once_def)
  next
    assume "u2_counter U \<noteq> 0xFFFFFFFF \<and> (\<exists>priv app_id flags challenge.
        sign_assertion hal (U\<lparr>u2_user_present := False\<rparr>) priv app_id flags challenge cap w = (response, U', w'))"
    then show ?thesis using sign_assertion_counts [OF plat cov' [of False]] once [of False] by auto
  qed
qed

lemma derive_new_key_files:
  assumes "signing_platform hal content"
  shows "content (snd (derive_new_key hal U app_id n w)) = content w"
  using frame_platform(1) [OF signing_platform_laws(1) [OF assms]]
  by (induction n arbitrary: w) (auto simp: split_def split: option.split)

lemma register_counter:
  assumes plat: "signing_platform hal content"
    and r: "zf_u2f_encode_register_response hal U buf cap w = (response, U', w')"
  shows "u2_counter U' = u2_counter U \<and> u2_counter_high_water U' = u2_counter_high_water U \<and>
    (precious p b \<longrightarrow> keeps content p b w w')"
proof -
  note fr = derive_new_key_files [OF plat] frame_sign [OF plat]
  have *: "keeps content p b w v'" if "precious p b" "content v = content w" "u2f_data_cert_load hal n v = (c, u)"
    "content v' = content u" for v c u v' n
    using keeps_cert(1) [OF plat that(1), of v n] that(2-4) by simp
  have same: "content v = content w \<Longrightarrow> keeps content p b w v" for v by (simp add: kept_or_absent_def)
  show ?thesis
    using r
    by (auto simp: zf_u2f_encode_register_response_def u2f_consume_user_present_def Let_def
        split: option.split_asm if_split_asm prod.split_asm bool.split_asm)
      (metis * same fr snd_conv)+
qed

text \<open>The counter of the assertion that a response carries.\<close>

definition signed_counters :: "bytes \<Rightarrow> bytes \<Rightarrow> u32 list" where
  "signed_counters request response =
    (if length request > 1 \<and> request ! 1 = U2F_CMD_AUTHENTICATE \<and> length response > 2
     then [be_value (take 4 (drop 1 response))] else [])"

lemma msg_parse_counts:
  assumes plat: "signing_platform hal content" and cov: "counter_covered hal content w U"
    and r: "u2f_msg_parse hal U buf cap w = (response, U', w')"
  shows "counter_covered hal content w' U' \<and>
    (if signed_counters buf response = [] then u2_counter U' = u2_counter U
     else u2_counter U < u2_counter U' \<and> signed_counters buf response = [u2_counter U'])"
proof -
  consider (quiet) "U' = U" "w' = w" "length response \<le> 2 \<or> buf ! 1 \<noteq> U2F_CMD_AUTHENTICATE"
    | (reg) "buf ! 1 = U2F_CMD_REGISTER" "zf_u2f_encode_register_response hal U buf cap w = (response, U', w')"
    | (auth) "length buf > 1" "buf ! 1 = U2F_CMD_AUTHENTICATE"
        "zf_u2f_encode_authenticate_response hal U buf cap w = (response, U', w')"
    using r by (auto simp: u2f_msg_parse_def u2f_validate_request_def u2f_validate_request_status_def u2f_consts
        u2f_status_words ZF_U2F_STATUS_SIZE_def ver_str_def Let_def split: if_split_asm option.split_asm)
  then show ?thesis
  proof cases
    case quiet
    then show ?thesis using cov by (auto simp: signed_counters_def)
  next
    case reg
    note k = register_counter [OF plat reg(2), of U2F_CNT_FILE U2F_CNT_FILE_BAK]
    have "counter_covered hal content w' U'" by (rule counter_covered_kept [OF _ cov]) (use k cnt_precious in simp_all)
    then show ?thesis using k reg(1) by (simp add: signed_counters_def u2f_consts)
  next
    case auth
    note k = authenticate_counts [OF plat cov auth(3)]
    show ?thesis
    proof (cases "length response > 2")
      case False
      then have "u2_counter U' = u2_counter U" using k by (auto simp: counts_once_def)
      then show ?thesis using k False by (simp add: signed_counters_def)
    next
      case True
      then obtain flags rest where c: "u2_counter U \<noteq> 0xFFFFFFFF" "u2_counter U' = u2_counter U + 1"
        "response = flags # be_bytes 4 (u2_counter U') @ rest"
        using k by (auto simp: counts_once_def)
      have "be_value (take 4 (drop 1 response)) = u2_counter U'"
        using c(3) be_value_be_bytes [of 4 "u2_counter U'"] by (simp add: take_bit_word_eq_self)
      then show ?thesis using k True auth c(2) u32_less_next [OF c(1)] by (simp add: signed_counters_def)
    qed
  qed
qed

text \<open>
  A life of the authenticator: requests, and anything that leaves the counter file alone (work of
  other components, disconnecting, a restart). The list collects the counters of all assertions.
\<close>

definition leaves_counter :: "('w \<Rightarrow> path \<rightharpoonup> bytes) \<Rightarrow> 'w \<Rightarrow> 'w \<Rightarrow> bool" where
  "leaves_counter content w w' \<longleftrightarrow>
    content w' U2F_CNT_FILE = content w U2F_CNT_FILE \<and> content w' U2F_CNT_FILE_BAK = content w U2F_CNT_FILE_BAK"

inductive u2f_run ::
  "zf_build \<Rightarrow> 'w hal \<Rightarrow> ('a, 'w) waiting \<Rightarrow> ('w \<Rightarrow> path \<rightharpoonup> bytes) \<Rightarrow> 'w \<Rightarrow> u32 list \<Rightarrow>
    U2fData option \<times> 'w \<Rightarrow> bool"
  for b hal wait content w0 where
  boot: "u2f_run b hal wait content w0 [] (None, w0)"
| request: "u2f_run b hal wait content w0 cs (u2f, w) \<Longrightarrow>
    zf_u2f_adapter_handle_msg b hal wait app u2f session_id request capacity w = (response, app', u2f', w') \<Longrightarrow>
    u2f_run b hal wait content w0 (cs @ signed_counters request response) (u2f', w')"
| elsewhere: "u2f_run b hal wait content w0 cs (u2f, w) \<Longrightarrow> leaves_counter content w w' \<Longrightarrow>
    u2f' \<in> {u2f, zf_u2f_adapter_set_connected u2f, zf_u2f_adapter_deinit u2f} \<Longrightarrow>
    u2f_run b hal wait content w0 cs (u2f', w')"

definition run_invariant :: "'w hal \<Rightarrow> ('w \<Rightarrow> path \<rightharpoonup> bytes) \<Rightarrow> u32 list \<Rightarrow> U2fData option \<times> 'w \<Rightarrow> bool" where
  "run_invariant hal content cs s \<longleftrightarrow> sorted_wrt (<) cs \<and>
    (case fst s of
       None \<Rightarrow> cs = [] \<and> counter_absent content (snd s) \<or>
         (\<exists>F. counter_stored hal content (snd s) F \<and> (\<forall>c\<in>set cs. c \<le> F))
     | Some U \<Rightarrow> counter_covered hal content (snd s) U \<and> (\<forall>c\<in>set cs. c \<le> u2_counter U))"

lemma leaves_counter_keeps: "leaves_counter content w w' \<Longrightarrow> keeps content U2F_CNT_FILE U2F_CNT_FILE_BAK w w'"
  by (simp add: leaves_counter_def kept_or_absent_same)

lemma run_invariant_kept:
  assumes "run_invariant hal content cs (u2f, w)" "keeps content U2F_CNT_FILE U2F_CNT_FILE_BAK w w'"
    and "u2f' = None \<or> (\<exists>U U'. u2f = Some U \<and> u2f' = Some U' \<and> u2_counter U' = u2_counter U \<and>
      u2_counter_high_water U' = u2_counter_high_water U)"
  shows "run_invariant hal content cs (u2f', w')"
proof (cases u2f)
  case None
  then show ?thesis using assms counter_kept [OF assms(2)] by (auto simp: run_invariant_def)
next
  case (Some U)
  then have inv: "sorted_wrt (<) cs" "counter_covered hal content w U" "\<forall>c\<in>set cs. c \<le> u2_counter U"
    using assms(1) by (simp_all add: run_invariant_def)
  then obtain F where F: "counter_stored hal content w' F" "u2_counter U \<le> u2_counter_high_water U"
    "u2_counter_high_water U \<le> F"
    using counter_kept(1) [OF assms(2)] by (auto simp: counter_covered_def)
  have "\<forall>c\<in>set cs. c \<le> F" using inv(3) F(2,3) by force
  with F inv assms(3) Some show ?thesis by (auto simp: run_invariant_def counter_covered_def)
qed

lemma init_invariant:
  assumes plat: "signing_platform hal content" and inv: "run_invariant hal content cs (u2f, w)"
    and r: "zf_u2f_adapter_ensure_init b hal app u2f w = (ok, u2f', w')"
  shows "run_invariant hal content cs (u2f', w')"
proof (cases u2f)
  case None
  then have r': "zf_u2f_adapter_init b hal app None w = (ok, u2f', w')"
    using r by (simp add: zf_u2f_adapter_ensure_init_def)
  note c = adapter_init_counter [OF plat r']
  have srt: "sorted_wrt (<) cs" using inv None by (simp add: run_invariant_def)
  from inv None consider "cs = []" "counter_absent content w"
    | F where "counter_stored hal content w F" "\<forall>c\<in>set cs. c \<le> F" by (auto simp: run_invariant_def)
  then show ?thesis
  proof cases
    case 1
    then show ?thesis using c(2) by (auto simp: run_invariant_def counter_covered_def split: option.split_asm)
  next
    case 2
    then have "counter_stored hal content w' F" using c(1) by blast
    then show ?thesis using srt 2 c(1) [OF 2(1)]
      by (cases u2f') (auto simp: run_invariant_def counter_covered_def intro!: exI [of _ F])
  qed
next
  case (Some U)
  then show ?thesis using r inv by (simp add: zf_u2f_adapter_ensure_init_def)
qed

lemma approval_leaves:
  assumes wait: "\<forall>i app w. leaves_counter content w (snd (snd (wait i app w)))"
    and r: "zf_u2f_request_approval b hal wait app u2f session_id request w = (ok, app', u2f', w')"
  shows "leaves_counter content w w' \<and> (u2f' = u2f \<or> ok \<and> u2f' = map_option u2f_confirm_user_present u2f) \<and>
    (ok \<longrightarrow> u2f \<noteq> None)"
proof -
  have wr: "leaves_counter content w v"
    if "zerofido_ui_wait_for_interaction_result wait session_id x w = (y, z, v)" for x y z v
    using that wait [rule_format, of w session_id x]
    by (auto simp: zerofido_ui_wait_for_interaction_result_def Let_def split: bool.split_asm prod.split_asm)
  have "leaves_counter content w v"
    if "zerofido_ui_request_approval b hal wait app pr op t u session_id w = (y, z, v)" for pr op t u y z v
    using that wr by (auto simp: zerofido_ui_request_approval_def leaves_counter_def Let_def split: if_split_asm)
  then show ?thesis
    using r by (auto simp: zf_u2f_request_approval_def zf_u2f_adapter_is_available_def leaves_counter_def
        split: if_split_asm option.split_asm prod.split_asm)
qed

lemma handle_msg_invariant:
  assumes plat: "signing_platform hal content"
    and wait: "\<forall>i app w. leaves_counter content w (snd (snd (wait i app w)))"
    and inv: "run_invariant hal content cs (u2f, w)"
    and r: "zf_u2f_adapter_handle_msg b hal wait app u2f session_id request capacity w = (response, app', u2f', w')"
  shows "run_invariant hal content (cs @ signed_counters request response) (u2f', w')"
proof -
  obtain i u1 w1 where init: "zf_u2f_adapter_ensure_init b hal app u2f w = (i, u1, w1)" by (metis surj_pair)
  note inv1 = init_invariant [OF plat inv init]
  obtain ok app2 u2 w2 where ap: "zf_u2f_request_approval b hal wait app u1 session_id request w1 = (ok, app2, u2, w2)"
    by (metis surj_pair)
  note l = approval_leaves [OF wait ap]
  have inv2: "run_invariant hal content cs (u2, w2)"
  proof (rule run_invariant_kept [OF inv1 leaves_counter_keeps [of content w1 w2]])
    show "leaves_counter content w1 w2" using l by blast
    show "u2 = None \<or> (\<exists>U U'. u1 = Some U \<and> u2 = Some U' \<and> u2_counter U' = u2_counter U \<and>
        u2_counter_high_water U' = u2_counter_high_water U)"
      using l by (cases u1) (auto simp: u2f_confirm_user_present_def)
  qed
  have quiet: "length x \<le> 2 \<Longrightarrow> signed_counters request x = []" for x by (simp add: signed_counters_def)
  have version: "signed_counters request (zf_u2f_adapter_reply_version capacity) = []" if "request ! 1 = U2F_CMD_VERSION"
    using that by (simp add: signed_counters_def u2f_consts)
  consider (early) "signed_counters request response = []" "(u2f', w') \<in> {(u2f, w), (u1, w1), (u2, w2)}"
    | (served) U U' where "u2 = Some U" "u2f' = Some (u2f_clear_user_present U')"
        "u2f_msg_parse hal U request (capacity mod 0x10000) w2 = (response, U', w')"
    using r init ap l quiet version
    by (auto simp: zf_u2f_adapter_handle_msg_def u2f_validate_request_into_response_def Let_def
        split: if_split_asm option.split_asm bool.split_asm prod.split_asm)
  then show ?thesis
  proof cases
    case early
    then show ?thesis using inv inv1 inv2 by auto
  next
    case served
    then have cov: "counter_covered hal content w2 U" and le: "\<forall>c\<in>set cs. c \<le> u2_counter U" and srt: "sorted_wrt (<) cs"
      using inv2 by (simp_all add: run_invariant_def)
    note m = msg_parse_counts [OF plat cov served(3)]
    have clear: "counter_covered hal content w' (u2f_clear_user_present U')" "u2_counter (u2f_clear_user_present U') = u2_counter U'"
      using m by (simp_all add: counter_covered_def u2f_clear_user_present_def)
    show ?thesis
    proof (cases "signed_counters request response = []")
      case True
      then show ?thesis using m clear le srt served by (simp add: run_invariant_def)
    next
      case False
      then have "u2_counter U < u2_counter U'" "signed_counters request response = [u2_counter U']" using m by auto
      then show ?thesis using clear le srt served by (auto simp: run_invariant_def sorted_wrt_append)
    qed
  qed
qed

lemma run_counters_increase:
  assumes plat: "signing_platform hal content"
    and wait: "\<forall>i app w. leaves_counter content w (snd (snd (wait i app w)))"
    and start: "counter_absent content w0 \<or> (\<exists>F. counter_stored hal content w0 F)"
    and run: "u2f_run b hal wait content w0 cs s"
  shows "run_invariant hal content cs s"
  using run
proof induction
  case boot
  then show ?case using start by (auto simp: run_invariant_def)
next
  case (request cs u2f w app session_id req cap response app' u2f' w')
  then show ?case using handle_msg_invariant [OF plat wait] by blast
next
  case (elsewhere cs u2f w w' u2f')
  show ?case
    by (rule run_invariant_kept [OF elsewhere.IH leaves_counter_keeps [OF elsewhere.hyps(2)]])
      (use elsewhere.hyps(3) in \<open>cases u2f;
        auto simp: zf_u2f_adapter_set_connected_def zf_u2f_adapter_deinit_def u2f_set_state_def\<close>)
qed

section \<open>Presence\<close>

text \<open>
  When a request starts with no presence noted, an answer that attests presence comes from an
  approval given during this very request, and nothing is left for the next one.
\<close>

definition no_presence :: "U2fData option \<Rightarrow> bool" where
  "no_presence u2f \<longleftrightarrow> (\<forall>U. u2f = Some U \<longrightarrow> \<not> u2_user_present U)"

text \<open>A registration, or an assertion with the flag for presence.\<close>

definition attests_presence :: "bytes \<Rightarrow> bytes \<Rightarrow> bool" where
  "attests_presence request response \<longleftrightarrow> length response > 2 \<and>
    (request ! 1 = U2F_CMD_REGISTER \<or> request ! 1 = U2F_CMD_AUTHENTICATE \<and> response ! 0 = 1)"

lemma sign_assertion_flags:
  "sign_assertion hal U priv app_id flags challenge cap w = (response, U', w') \<Longrightarrow>
    length response > 2 \<Longrightarrow> response ! 0 = flags"
  by (auto simp: sign_assertion_def Let_def U2fAuthResp_def split: if_split_asm option.split_asm prod.split_asm)

lemma msg_parse_presence:
  assumes "u2f_msg_parse hal U request cap w = (response, U', w')" "attests_presence request response"
  shows "u2_user_present U"
proof -
  have auth: "u2_user_present U"
    if a: "zf_u2f_encode_authenticate_response hal U request cap w = (response, U', w')" "length response > 2" "response ! 0 = 1"
  proof (rule ccontr)
    assume "\<not> u2_user_present U"
    then obtain priv app_id challenge where
      "sign_assertion hal (U\<lparr>u2_user_present := False\<rparr>) priv app_id 0 challenge cap w = (response, U', w')"
      using a(1,2) by (auto simp: zf_u2f_encode_authenticate_response_def u2f_consume_user_present_def
          u2f_clear_user_present_def Let_def split: option.split_asm if_split_asm)
    from sign_assertion_flags [OF this a(2)] a(3) show False by simp
  qed
  have "u2_user_present U"
    if "zf_u2f_encode_register_response hal U request cap w = (response, U', w')" "length response > 2"
    using that by (auto simp: zf_u2f_encode_register_response_def u2f_consume_user_present_def Let_def
        split: option.split_asm if_split_asm bool.split_asm)
  with auth assms show ?thesis
    by (auto simp: u2f_msg_parse_def attests_presence_def u2f_validate_request_def u2f_consts Let_def
        split: if_split_asm option.split_asm)
qed

lemma handle_msg_presence:
  assumes none: "no_presence u2f"
    and r: "zf_u2f_adapter_handle_msg b hal wait app u2f session_id request capacity w = (response, app', u2f', w')"
  shows "no_presence u2f'"
    and "attests_presence request response \<Longrightarrow> \<exists>operation v v'.
      zerofido_ui_request_approval b hal wait app ZfUiProtocolU2f operation (zf_u2f_format_app_id request 48)
        (ascii ''Touch required'') session_id v = ((True, True), app', v')"
proof -
  obtain i u1 w1 where init: "zf_u2f_adapter_ensure_init b hal app u2f w = (i, u1, w1)" by (metis surj_pair)
  have u1: "no_presence u1"
  proof (cases u2f)
    case None
    obtain j U v where j: "u2f_init hal u2f_alloc (snd (zf_u2f_adapter_ensure_attestation_assets hal w)) = ((j, U), v)"
      by (metis surj_pair)
    have "\<not> u2_user_present U"
      using j by (auto simp: u2f_init_def u2f_alloc_def Let_def split: prod.split_asm option.split_asm)
    then show ?thesis
      using init None j by (auto simp: zf_u2f_adapter_ensure_init_def zf_u2f_adapter_init_def no_presence_def Let_def
          split: if_split_asm bool.split_asm)
  qed (use init none in \<open>simp add: zf_u2f_adapter_ensure_init_def\<close>)
  obtain ok app2 u2 w2 where ap: "zf_u2f_request_approval b hal wait app u1 session_id request w1 = (ok, app2, u2, w2)"
    by (metis surj_pair)
  have approved: "(\<exists>operation. zerofido_ui_request_approval b hal wait app ZfUiProtocolU2f operation
      (zf_u2f_format_app_id request 48) (ascii ''Touch required'') session_id w1 = ((True, True), app2, w2)) \<or> no_presence u2"
    using ap u1 by (auto simp: zf_u2f_request_approval_def split: if_split_asm option.split_asm prod.split_asm)
  have denied: "no_presence u2" if "\<not> ok"
    using ap u1 that by (auto simp: zf_u2f_request_approval_def split: if_split_asm option.split_asm prod.split_asm)
  consider (early) "length response \<le> 2 \<or> request ! 1 = U2F_CMD_VERSION" "u2f' \<in> {u2f, u1} \<or> u2f' = u2 \<and> \<not> ok"
    | (unserved) "response = []" "u2 = None" "u2f' = None"
    | (served) U U' where "u2 = Some U" "u2f' = Some (u2f_clear_user_present U')" "app' = app2"
        "u2f_msg_parse hal U request (capacity mod 0x10000) w2 = (response, U', w')"
    using r init ap
    by (auto simp: zf_u2f_adapter_handle_msg_def u2f_validate_request_into_response_def Let_def
        split: if_split_asm option.split_asm bool.split_asm prod.split_asm)
  then have "no_presence u2f' \<and> (attests_presence request response \<longrightarrow> (\<exists>operation v v'.
      zerofido_ui_request_approval b hal wait app ZfUiProtocolU2f operation (zf_u2f_format_app_id request 48)
        (ascii ''Touch required'') session_id v = ((True, True), app', v')))"
  proof cases
    case early
    then show ?thesis using none u1 denied by (auto simp: attests_presence_def u2f_consts)
  next
    case unserved
    then show ?thesis by (simp add: no_presence_def attests_presence_def)
  next
    case served
    have "no_presence u2f'" using served(2) by (simp add: no_presence_def u2f_clear_user_present_def)
    moreover have "\<not> no_presence u2" if "attests_presence request response"
      using msg_parse_presence [OF served(4) that] served(1) by (simp add: no_presence_def)
    ultimately show ?thesis using approved served(3) by blast
  qed
  then show "no_presence u2f'" "attests_presence request response \<Longrightarrow> \<exists>operation v v'.
      zerofido_ui_request_approval b hal wait app ZfUiProtocolU2f operation (zf_u2f_format_app_id request 48)
        (ascii ''Touch required'') session_id v = ((True, True), app', v')" by blast+
qed

section \<open>Key handles\<close>

lemma difference_zero:
  "length a = length b \<Longrightarrow> zf_u2f_difference a b d = 0 \<longleftrightarrow> d = 0 \<and> a = b"
proof (induction a b d rule: zf_u2f_difference.induct)
  case (1 a left b right diff)
  have "diff OR (a XOR b) = 0 \<longleftrightarrow> diff = 0 \<and> a = b"
    by (auto simp: bit_eq_iff bit_or_iff bit_xor_iff)
  with 1 show ?case by auto
qed simp_all

lemma constant_time_equal_exact:
  "n \<le> length a \<Longrightarrow> n \<le> length b \<Longrightarrow> zf_u2f_constant_time_equal a b n \<longleftrightarrow> take n a = take n b"
  by (simp add: zf_u2f_constant_time_equal_def difference_zero)

text \<open>The handles this device makes for an application.\<close>

definition own_handle :: "U2fData \<Rightarrow> bytes \<Rightarrow> bytes \<Rightarrow> bytes \<Rightarrow> bytes \<Rightarrow> bool" where
  "own_handle U app_id hash nonce private_key \<longleftrightarrow>
    zf_u2f_derive_private_key U app_id nonce = Some private_key \<and>
    hash = zf_u2f_compute_handle_mac U private_key app_id"

text \<open>What a successful registration answers.\<close>

lemma derive_new_key_own:
  assumes "derive_new_key hal U app_id n w = (Some (nonce, private_key), w')" "enclave_lawful hal"
  shows "zf_u2f_derive_private_key U app_id nonce = Some private_key \<and> length nonce = 32"
  using assms(1)
proof (induction n arbitrary: w)
  case (Suc n)
  obtain x v where x: "random_fill hal U2F_NONCE_SIZE w = (x, v)" by fastforce
  have "length x = 32" using assms(2) x unfolding enclave_lawful_def U2F_NONCE_SIZE_def by (metis fst_conv)
  then show ?case
    using Suc.IH [of v] Suc.prems x by (auto split: option.split_asm)
qed simp

definition registration ::
  "U2fData \<Rightarrow> 'w hal \<Rightarrow> bytes \<Rightarrow> bytes \<Rightarrow> bytes \<Rightarrow> bytes \<Rightarrow> bytes \<Rightarrow> bytes \<Rightarrow> bytes \<Rightarrow> bool" where
  "registration U hal app_id x y hash nonce private_key response \<longleftrightarrow>
    own_handle U app_id hash nonce private_key \<and> length nonce = 32 \<and>
    zf_crypto_compute_public_key_from_private hal private_key = Some (x, y) \<and>
    (\<exists>cert signature. response = U2fRegisterResp (U2fPubKey x y) (U2fKeyHandle hash nonce) @ cert @ signature @
      zf_u2f_write_status ZF_U2F_SW_NO_ERROR)"

lemma own_handle_present [simp]:
  "own_handle (U\<lparr>u2_user_present := p\<rparr>) app_id hash nonce private_key = own_handle U app_id hash nonce private_key"
  by (simp add: own_handle_def zf_u2f_derive_private_key_def zf_u2f_compute_handle_mac_def)

lemma register_response:
  assumes enc: "apdu_encodes hdr (challenge @ app_id) buf" "length hdr = 4" "length challenge = 32" "length app_id = 32"
    and lawful: "enclave_lawful hal"
    and r: "zf_u2f_encode_register_response hal U buf cap w = (response, U', w')" and ok: "length response > 2"
  shows "\<exists>x y hash nonce private_key. registration U hal app_id x y hash nonce private_key response"
proof -
  obtain rest where p: "u2f_parse_apdu_header buf False = Some \<lparr>apdu_cla = hdr ! 0, apdu_ins = hdr ! 1,
      apdu_p1 = hdr ! 2, apdu_p2 = hdr ! 3, apdu_data = Some ((challenge @ app_id) @ rest), apdu_lc = length (challenge @ app_id)\<rparr>"
    using parse_apdu_encoded [OF enc(2,1), of False] by blast
  obtain d w1 where d: "derive_new_key hal (U\<lparr>u2_user_present := False\<rparr>) app_id
      ZF_U2F_DERIVE_PRIVATE_KEY_MAX_ATTEMPTS w = (d, w1)" by fastforce
  obtain cert w2 where c: "u2f_data_cert_load hal (cap - sizeof_U2fRegisterResp) w1 = (cert, w2)" by fastforce
  have up: "u2_cert_ready U" "u2_user_present U"
    using r ok p enc by (auto simp: zf_u2f_encode_register_response_def u2f_consume_user_present_def u2f_consts Let_def
        split: if_split_asm bool.split_asm)
  from r ok p enc up d obtain nonce private_key x y where
    k: "d = Some (nonce, private_key)" "zf_crypto_compute_public_key_from_private hal private_key = Some (x, y)"
    by (auto simp: zf_u2f_encode_register_response_def u2f_consume_user_present_def u2f_consts apdu_bytes_def Let_def
        split: option.split_asm)
  let ?hash = "zf_u2f_compute_handle_mac (U\<lparr>u2_user_present := False\<rparr>) private_key app_id"
  obtain sig where "response = U2fRegisterResp (U2fPubKey x y) (U2fKeyHandle ?hash nonce) @ cert @ sig @
      zf_u2f_write_status ZF_U2F_SW_NO_ERROR"
    using r ok p enc up d k c by (auto simp: zf_u2f_encode_register_response_def u2f_consume_user_present_def u2f_consts
        apdu_bytes_def Let_def split: option.split_asm if_split_asm prod.split_asm)
  moreover have "own_handle (U\<lparr>u2_user_present := False\<rparr>) app_id ?hash nonce private_key" "length nonce = 32"
    using derive_new_key_own [OF d [unfolded k(1)] lawful] by (simp_all add: own_handle_def)
  ultimately show ?thesis using k(2) unfolding registration_def own_handle_present by blast
qed

text \<open>
  Authentication with a well-formed request: the whole handler on each kind of handle. The challenge
  is signed only under an own handle.
\<close>

lemma authenticate_request:
  assumes enc: "apdu_encodes [cla, ins, p1, p2] (challenge @ app_id @ 64 # hash @ nonce) buf"
    and len: "length challenge = 32" "length app_id = 32" "length hash = 32" "length nonce = 32"
    and max: "u2_counter U \<noteq> 0xFFFFFFFF"
  shows "own_handle U app_id hash nonce private_key \<Longrightarrow>
      zf_u2f_encode_authenticate_response hal U buf cap w =
        (if p1 = U2fCheckOnly \<or> p1 = U2fEnforce \<and> \<not> u2_user_present U
         then (zf_u2f_write_status ZF_U2F_SW_CONDITIONS_NOT_SATISFIED,
           if p1 = U2fCheckOnly then U else U\<lparr>u2_user_present := False\<rparr>, w)
         else sign_assertion hal (U\<lparr>u2_user_present := False\<rparr>) private_key app_id
           (if u2_user_present U then 1 else 0) challenge cap w)"
    and "(\<And>private_key. \<not> own_handle U app_id hash nonce private_key) \<Longrightarrow>
      fst (zf_u2f_encode_authenticate_response hal U buf cap w) \<in>
        {zf_u2f_write_status ZF_U2F_SW_WRONG_DATA, zf_u2f_write_status ZF_U2F_SW_INS_NOT_SUPPORTED}"
proof -
  let ?d = "challenge @ app_id @ 64 # hash @ nonce"
  obtain rest where p: "u2f_parse_apdu_header buf False = Some \<lparr>apdu_cla = cla, apdu_ins = ins,
      apdu_p1 = p1, apdu_p2 = p2, apdu_data = Some (?d @ rest), apdu_lc = length ?d\<rparr>"
    using parse_apdu_encoded [OF _ enc, of False] by auto
  have f: "take 32 (?d @ rest) = challenge" "take 32 (drop 32 (?d @ rest)) = app_id"
    "(?d @ rest) ! 64 = 64" "drop 65 (?d @ rest) = hash @ nonce @ rest"
    using len by (simp_all add: nth_append)
  have nonce: "take 32 (drop 32 (hash @ nonce @ rest)) = nonce" using len by simp
  have mac: "zf_u2f_constant_time_equal (hash @ nonce @ rest) (zf_u2f_compute_handle_mac U k app_id) 32 \<longleftrightarrow>
      hash = zf_u2f_compute_handle_mac U k app_id" for k
    using len constant_time_equal_exact [of 32 "hash @ nonce @ rest" "zf_u2f_compute_handle_mac U k app_id"]
    by (simp add: zf_u2f_compute_handle_mac_def)
  have eq: "zf_u2f_encode_authenticate_response hal U buf cap w =
    (let wrong_handle = (zf_u2f_write_status ZF_U2F_SW_WRONG_DATA,
           if p1 = U2fEnforce then u2f_clear_user_present U else U, w)
     in case zf_u2f_derive_private_key U app_id nonce of
        None \<Rightarrow> (zf_u2f_write_status ZF_U2F_SW_INS_NOT_SUPPORTED, U, w)
      | Some private_key \<Rightarrow>
         if hash \<noteq> zf_u2f_compute_handle_mac U private_key app_id then wrong_handle
         else if p1 = U2fCheckOnly then (zf_u2f_write_status ZF_U2F_SW_CONDITIONS_NOT_SATISFIED, U, w)
         else if \<not> u2_user_present U \<and> p1 = U2fEnforce
         then (zf_u2f_write_status ZF_U2F_SW_CONDITIONS_NOT_SATISFIED, U\<lparr>u2_user_present := False\<rparr>, w)
         else sign_assertion hal (U\<lparr>u2_user_present := False\<rparr>) private_key app_id
           (if u2_user_present U then 1 else 0) challenge cap w)"
    using len max unfolding zf_u2f_encode_authenticate_response_def p
    by (simp add: apdu_bytes_def u2f_consts f nonce mac u2f_consume_user_present_def Let_def del: append_assoc drop_append take_append drop_drop
        cong: option.case_cong if_cong)
  show "zf_u2f_encode_authenticate_response hal U buf cap w =
        (if p1 = U2fCheckOnly \<or> p1 = U2fEnforce \<and> \<not> u2_user_present U
         then (zf_u2f_write_status ZF_U2F_SW_CONDITIONS_NOT_SATISFIED,
           if p1 = U2fCheckOnly then U else U\<lparr>u2_user_present := False\<rparr>, w)
         else sign_assertion hal (U\<lparr>u2_user_present := False\<rparr>) private_key app_id
           (if u2_user_present U then 1 else 0) challenge cap w)"
    if "own_handle U app_id hash nonce private_key"
    using that unfolding eq own_handle_def Let_def by simp
  show "fst (zf_u2f_encode_authenticate_response hal U buf cap w) \<in>
        {zf_u2f_write_status ZF_U2F_SW_WRONG_DATA, zf_u2f_write_status ZF_U2F_SW_INS_NOT_SUPPORTED}"
    if "\<And>private_key. \<not> own_handle U app_id hash nonce private_key"
    using that unfolding eq own_handle_def Let_def by (auto split: option.split)
qed

section \<open>The device key\<close>

definition key_stored :: "'w hal \<Rightarrow> ('w \<Rightarrow> path \<rightharpoonup> bytes) \<Rightarrow> 'w \<Rightarrow> bytes \<Rightarrow> bool" where
  "key_stored hal content w key \<longleftrightarrow> (\<exists>body. content w U2F_KEY_FILE = Some body \<and>
    blob_holds hal device_key_read_spec body key)"

definition key_absent :: "('w \<Rightarrow> path \<rightharpoonup> bytes) \<Rightarrow> 'w \<Rightarrow> bool" where
  "key_absent content w \<longleftrightarrow> content w U2F_KEY_FILE = None \<and> content w U2F_KEY_FILE_BAK = None"

lemma device_key_specs: "read_spec_ok device_key_read_spec"
  "length key = 32 \<Longrightarrow> blob_specs_match (device_key_write_spec key) device_key_read_spec"
  by (auto simp: read_spec_ok_def device_key_read_spec_def device_key_write_spec_def blob_specs_match_def
      ZF_STORAGE_BLOB_MAX_DATA_SIZE_def ZF_STORAGE_BLOB_MAX_MAC_SIZE_def u2f_data_device_key_write_mac_def
      u2f_data_device_key_verify_mac_def u2f_data_device_key_compute_mac_def constant_time_equal_iff split: if_split_asm)

lemma load_device_key_stored:
  assumes "signing_platform hal content" "key_stored hal content w key"
  shows "\<exists>w'. load_device_key hal w = (Some key, w') \<and> key_stored hal content w' key"
  using assms(2) key_file.blob_held_read [OF signing_platform_laws(1) [OF assms(1)] device_key_specs(1)]
  unfolding key_stored_def load_device_key_def u2f_data_key_load_def by fastforce

lemma key_generate_stores:
  assumes plat: "signing_platform hal content" and g: "u2f_data_key_generate hal w = (Some key, w')"
  shows "key_stored hal content w' key"
proof -
  note laws = signing_platform_laws [OF plat]
  obtain x v where x: "enclave_ensure_key hal w = (x, v)" by fastforce
  obtain k v2 where k: "random_fill hal 32 v = (k, v2)" by fastforce
  have "length k = 32"
    using laws(1) k unfolding blob_platform_def pin_platform_def enclave_lawful_def by (metis fst_conv)
  obtain d v3 where d: "u2f_data_ensure_directories hal v2 = (d, v3)" by fastforce
  have "k = key" "u2f_data_key_store_plaintext hal k v2 = (True, w')"
    using g x k by (auto simp: u2f_data_key_generate_def split: bool.split_asm prod.split_asm)
  then have "zf_storage_write_encrypted_blob_atomic hal U2F_KEY_FILE U2F_KEY_FILE_TMP (device_key_write_spec key) v3 =
      (True, w')"
    using d by (cases d) (simp_all add: u2f_data_key_store_plaintext_def)
  from key_file.blob_published [OF laws(1) device_key_specs(2) this] \<open>length k = 32\<close> \<open>k = key\<close>
  show ?thesis by (simp add: key_stored_def device_key_write_spec_def)
qed

text \<open>Without a key file, a key that start-up returns is a new one and is on the medium.\<close>

lemma load_device_key_absent:
  assumes plat: "signing_platform hal content" and gone: "key_absent content w"
    and r: "load_device_key hal w = (Some key, w')"
  shows "key_stored hal content w' key"
proof -
  obtain k w1 where k: "u2f_data_key_load hal w = (k, w1)" by fastforce
  have "k = None"
    using key_file.blob_absent_read [OF signing_platform_laws(1) [OF plat] u2f_backups(2)] gone k
    unfolding u2f_data_key_load_def key_absent_def by blast
  then obtain v where "u2f_data_key_generate hal v = (Some key, w')"
    using r k by (auto simp: load_device_key_def split: bool.split_asm prod.split_asm)
  then show ?thesis by (rule key_generate_stores [OF plat])
qed

lemma u2f_init_key:
  assumes plat: "signing_platform hal content" and init: "u2f_init hal U w = ((True, U'), w')"
  shows "key_stored hal content w key \<Longrightarrow> u2_device_key U' = key \<and> key_stored hal content w' key"
    and "key_absent content w \<Longrightarrow> key_stored hal content w' (u2_device_key U')"
proof -
  obtain c w1 where c: "load_cert_key hal w = (c, w1)" by fastforce
  obtain k w2 where k: "load_device_key hal w1 = (k, w2)" by fastforce
  obtain r w3 where r: "load_counter hal w2 = (r, w3)" by fastforce
  have w1: "keeps content U2F_KEY_FILE U2F_KEY_FILE_BAK w w1"
    using keeps_cert(2) [OF plat key_precious, of w] c by simp
  have f: "k = Some (u2_device_key U')" "w' = w3"
    using init c k r by (auto simp: u2f_init_def Let_def split: option.split_asm)
  have later: "key_stored hal content w2 x \<Longrightarrow> key_stored hal content w3 x" for x
    using load_counter_keeps_key [OF plat _ r] by (auto simp: key_stored_def)
  show "u2_device_key U' = key \<and> key_stored hal content w' key" if "key_stored hal content w key"
  proof -
    have "key_stored hal content w1 key" using that w1 by (auto simp: key_stored_def kept_or_absent_def)
    from load_device_key_stored [OF plat this] show ?thesis using k f later by auto
  qed
  show "key_stored hal content w' (u2_device_key U')" if "key_absent content w"
  proof -
    have "key_absent content w1" using that w1 by (auto simp: key_absent_def kept_or_absent_def)
    from load_device_key_absent [OF plat this] show ?thesis using k f later by simp
  qed
qed

end
