(* ===== verification/U2f_Properties.thy ===== *)
theory U2f_Properties
  imports U2f_Exact Sim_Platform
begin

text \<open>
  The properties of the legacy U2F authenticator and of its attestation assets, with witnesses on the
  simulated platform.
\<close>

section \<open>The simulated platform obeys the laws\<close>

lemma char_of_byte: "char_of (unat (of_char c :: byte)) = c"
proof -
  have "unat (of_char c :: byte) = of_char c"
    by (cases c) (simp add: of_char_def horner_sum_simps unsigned_of_nat unat_word_ariths of_bool_def split: if_splits)
  then show ?thesis by simp
qed

lemma ascii_chars: "map (\<lambda>b. char_of (unat b)) (ascii s) = s"
  by (induction s) (simp_all add: ascii_def char_of_byte)

lemma ascii_inj: "ascii s = ascii t \<longleftrightarrow> s = t"
  by (metis ascii_chars)

lemma sim_fields_decode:
  "length (concat (map sim_field fs)) \<le> n \<Longrightarrow>
    sim_fields n (concat (map sim_field fs)) = map (\<lambda>(k, v). (ascii k, v)) fs"
proof (induction fs arbitrary: n)
  case (Cons f fs)
  obtain k v where f: "f = (k, v)" by fastforce
  obtain m where m: "n = Suc m" "length (concat (map sim_field fs)) \<le> m"
    using Cons.prems f by (cases n; cases v) auto
  show ?case
    using Cons.IH [OF m(2)] f m(1) be_value_be_bytes [of 4 "_ :: u32"]
    by (cases v) (simp_all add: take_bit_word_eq_self)
qed simp

lemma sim_body_decode: "sim_body (sim_text ft ver fs) = map (\<lambda>(k, v). (ascii k, v)) fs"
  by (simp add: sim_body_def sim_text_def sim_fields_decode)

lemma sim_map_of:
  assumes "distinct (map fst fs)" "(k, v) \<in> set fs"
  shows "map_of (map (\<lambda>(k, v). (ascii k, v)) fs) (ascii k) = Some v"
proof -
  have "map fst (map (\<lambda>(k, v). (ascii k, v)) fs) = map ascii (map fst fs)" by (simp add: split_def)
  then have "distinct (map fst (map (\<lambda>(k, v). (ascii k, v)) fs))"
    using assms(1) by (simp add: distinct_map inj_on_def ascii_inj)
  moreover have "(ascii k, v) \<in> set (map (\<lambda>(k, v). (ascii k, v)) fs)" using assms(2) by force
  ultimately show ?thesis by (rule map_of_is_SomeI)
qed

lemma sim_format_lawful: "format_lawful sim_hal"
proof -
  have hdr: "sim_header (sim_text ft ver fs) = (ft, ver)" for ft ver fs
    using be_value_be_bytes [of 4 ver]
    by (simp add: sim_header_def sim_text_def ascii_chars take_bit_word_eq_self)
  have ne: "sim_text ft ver fs \<noteq> []" for ft ver fs by (simp add: sim_text_def sim_enc_def)
  have sel: "ff_text sim_hal = sim_text" "ff_read_header sim_hal = (\<lambda>t. Some (sim_header t))"
    "ff_read_uint32 sim_hal =
      (\<lambda>t k. case map_of (sim_body t) (ascii k) of Some (FFUint32 v) \<Rightarrow> Some v | _ \<Rightarrow> None)"
    "ff_read_hex sim_hal = (\<lambda>t k n. case map_of (sim_body t) (ascii k) of
        Some (FFHex d) \<Rightarrow> if length d = n then Some d else None | _ \<Rightarrow> None)"
    by (simp_all add: sim_hal_def)
  show ?thesis
    unfolding format_lawful_def sel using hdr ne by (simp add: sim_body_decode sim_map_of)
qed

lemma sim_signing_platform: "signing_platform sim_hal (\<lambda>w. w)"
proof -
  have "fst (enclave_ensure_key sim_hal w) \<and> snd (enclave_ensure_key sim_hal w) = w"
    "snd (uECC_sign sim_hal k h w) = w" for w k h
    by (simp_all add: sim_hal_def)
  then show ?thesis
    using sim_pin_platform sim_format_lawful by (simp add: signing_platform_def blob_platform_def)
qed

section \<open>Properties\<close>

text \<open>
  C11. The counters of all U2F assertions that a device ever signs are strictly increasing, over any
  sequence of requests, connects, disconnects, restarts and work of other components. A restart reads
  the reserved high-water mark back, never a value below an assertion already given. The medium may
  fail at any operation; the counter file is initially absent or one that the program wrote.
\<close>

theorem u2f_counters_increase:
  assumes "signing_platform hal content"
    and "\<forall>i app w. leaves_counter content w (snd (snd (wait i app w)))"
    and "counter_absent content w0 \<or> (\<exists>F. counter_stored hal content w0 F)"
    and "u2f_run b hal wait content w0 cs s"
  shows "sorted_wrt (<) cs"
  using run_counters_increase [OF assms] by (simp add: run_invariant_def)

definition sim_wait :: "(unit, sim) waiting" where
  "sim_wait i app w = (True, app, w)"

definition version_request :: bytes where "version_request = [0, 3, 0, 0]"

lemma sim_version:
  "zf_u2f_adapter_handle_msg sim_build sim_hal sim_wait sim_app None 0 version_request 1024 w =
    (zf_u2f_adapter_version_response, sim_app, None, w)"
proof -
  have "u2f_enabled (zf_runtime_get_effective_capabilities sim_build sim_app)" by code_simp
  then show ?thesis
    by (simp add: zf_u2f_adapter_handle_msg_def version_request_def u2f_validate_request_into_response_def
        u2f_validate_request_status_def u2f_consts zf_u2f_adapter_is_available_def zf_u2f_adapter_reply_version_def
        ZF_U2F_VERSION_RESPONSE_LEN_def)
qed

text \<open>Witness: a version request, then a restart that finds the medium as it was.\<close>

theorem u2f_counters_increase_witness:
  "u2f_run sim_build sim_hal sim_wait (\<lambda>w. w) Map.empty [] (None, Map.empty) \<and> sorted_wrt (<) ([] :: u32 list)"
proof -
  have boot: "u2f_run sim_build sim_hal sim_wait (\<lambda>w. w) Map.empty [] (None, Map.empty)" by (rule u2f_run.boot)
  have "signed_counters version_request zf_u2f_adapter_version_response = []"
    by (simp add: signed_counters_def version_request_def u2f_consts)
  with u2f_run.request [OF boot sim_version]
  have "u2f_run sim_build sim_hal sim_wait (\<lambda>w. w) Map.empty [] (None, Map.empty)" by simp
  from u2f_run.elsewhere [OF this, of Map.empty None]
  have run: "u2f_run sim_build sim_hal sim_wait (\<lambda>w. w) Map.empty [] (None, Map.empty)"
    by (simp add: leaves_counter_def)
  have "sorted_wrt (<) ([] :: u32 list)"
    by (rule u2f_counters_increase [OF sim_signing_platform _ _ run])
      (simp_all add: sim_wait_def leaves_counter_def counter_absent_def)
  with run show ?thesis by blast
qed

text \<open>
  C17. User presence is asked for and used up by one request. If no presence is noted when a request
  arrives, then none is noted after it, and a registration or an assertion with the presence flag was
  only answered after the user approved a prompt that was raised by this request.
\<close>

theorem u2f_presence_one_shot:
  assumes "no_presence u2f"
    and "zf_u2f_adapter_handle_msg b hal wait app u2f session_id request capacity w = (response, app', u2f', w')"
  shows "no_presence u2f' \<and> (attests_presence request response \<longrightarrow> (\<exists>operation v v'.
    zerofido_ui_request_approval b hal wait app ZfUiProtocolU2f operation (zf_u2f_format_app_id request 48)
      (ascii ''Touch required'') session_id v = ((True, True), app', v')))"
  using handle_msg_presence [OF assms] by blast

text \<open>Witness: a version request to a device that has not started U2F yet.\<close>

theorem u2f_presence_one_shot_witness:
  "no_presence None \<and> \<not> attests_presence version_request zf_u2f_adapter_version_response"
  using u2f_presence_one_shot [OF _ sim_version [of Map.empty]]
  by (simp add: no_presence_def attests_presence_def version_request_def u2f_consts)

text \<open>
  C26. Key handles. A check-only authentication request is answered with the status that means
  "known handle" exactly when the handle was made by this device key for this application: its nonce
  derives a valid private key whose MAC over the application is the first half of the handle. And
  whenever a registration succeeds, its response carries such a handle together with the public key
  that belongs to it.
\<close>

theorem key_handles_exact:
  assumes "apdu_encodes [0, U2F_CMD_AUTHENTICATE, U2fCheckOnly, p2] (challenge @ app_id @ 64 # hash @ nonce) auth"
    and "apdu_encodes [0, U2F_CMD_REGISTER, p1, p2] (challenge @ app_id) reg"
    and "length challenge = 32" "length app_id = 32" "length hash = 32" "length nonce = 32"
    and "u2_counter U \<noteq> 0xFFFFFFFF" and "enclave_lawful hal"
  shows "(fst (zf_u2f_encode_authenticate_response hal U auth cap w) =
      zf_u2f_write_status ZF_U2F_SW_CONDITIONS_NOT_SATISFIED \<longleftrightarrow>
      (\<exists>private_key. own_handle U app_id hash nonce private_key)) \<and>
    (length (fst (zf_u2f_encode_register_response hal U reg cap w)) > 2 \<longrightarrow>
      (\<exists>x y hash nonce private_key. registration U hal app_id x y hash nonce private_key
        (fst (zf_u2f_encode_register_response hal U reg cap w))))"
proof (rule conjI)
  obtain response U' w' where r: "zf_u2f_encode_register_response hal U reg cap w = (response, U', w')"
    by (metis surj_pair)
  note a = authenticate_request [OF assms(1,3-7)]
  have ne: "zf_u2f_write_status ZF_U2F_SW_CONDITIONS_NOT_SATISFIED \<notin>
      {zf_u2f_write_status ZF_U2F_SW_WRONG_DATA, zf_u2f_write_status ZF_U2F_SW_INS_NOT_SUPPORTED}"
    by (simp add: zf_u2f_write_status_def u2f_status_words)
  show "fst (zf_u2f_encode_authenticate_response hal U auth cap w) =
      zf_u2f_write_status ZF_U2F_SW_CONDITIONS_NOT_SATISFIED \<longleftrightarrow>
      (\<exists>private_key. own_handle U app_id hash nonce private_key)"
    using a(1) [of _ hal cap w] a(2) [of hal cap w] ne by force
  show "length (fst (zf_u2f_encode_register_response hal U reg cap w)) > 2 \<longrightarrow>
      (\<exists>x y hash nonce private_key. registration U hal app_id x y hash nonce private_key
        (fst (zf_u2f_encode_register_response hal U reg cap w)))"
    using register_response [OF assms(2) _ assms(3,4,8) r] r by simp
qed

text \<open>Witness: a device with an all-zero key asked for a handle of zeros.\<close>

theorem key_handles_exact_witness:
  "fst (zf_u2f_encode_authenticate_response sim_hal u2f_alloc
      ([0, 2, 7, 0] @ 129 # replicate 64 0 @ 64 # replicate 64 0) 1024 Map.empty) =
    zf_u2f_write_status ZF_U2F_SW_CONDITIONS_NOT_SATISFIED \<longleftrightarrow>
    (\<exists>private_key. own_handle u2f_alloc (replicate 32 0) (replicate 32 0) (replicate 32 0) private_key)"
proof -
  let ?z = "replicate 32 (0 :: byte)"
  have zz: "replicate 64 (0 :: byte) = ?z @ ?z" by (simp flip: replicate_add)
  have 1: "apdu_encodes [0, U2F_CMD_AUTHENTICATE, U2fCheckOnly, 0] (?z @ ?z @ 64 # ?z @ ?z)
      ([0, 2, 7, 0] @ 129 # replicate 64 0 @ 64 # replicate 64 0)"
    by (auto simp: apdu_encodes_def apdu_short_def u2f_consts zz intro!: disjI1 exI [of _ "[]"])
  have 2: "apdu_encodes [0, U2F_CMD_REGISTER, 0, 0] (?z @ ?z) ([0, 1, 0, 0] @ 64 # ?z @ ?z)"
    by (auto simp: apdu_encodes_def apdu_short_def u2f_consts intro!: disjI1 exI [of _ "[]"])
  show ?thesis
    using key_handles_exact [OF 1 2, of u2f_alloc sim_hal 1024 Map.empty] sim_enclave_lawful by (simp add: u2f_alloc_def)
qed

lemma sim_write_format:
  assumes "body \<noteq> []" "zf_storage_backup_path p = Some b" "distinct [p, t, b]"
  shows "\<exists>w'. zf_storage_write_format_atomic sim_hal p t body w = (True, w')"
  unfolding write_format_is_write_file [OF assms(1)] by (rule sim_write_atomic [OF assms])

lemma sim_enclave [simp]:
  "enclave_ensure_key sim_hal w = (True, w)" "enclave_encrypt sim_hal iv d w = (Some (sim_xor 0x5A d), w)"
  by (simp_all add: sim_hal_def)

lemma sim_blob_fields_nonempty: "zf_storage_write_encrypted_blob_fields sim_hal ws iv e mac \<noteq> []"
proof -
  have "ff_text sim_hal = sim_text" by (simp add: sim_hal_def)
  then show ?thesis by (simp add: zf_storage_write_encrypted_blob_fields_def sim_text_def sim_enc_def)
qed

lemma sim_u2f_directories [simp]: "u2f_data_ensure_directories sim_hal w = (True, w)"
proof -
  have "fs_dir_exists sim_hal p v" for p v by (simp add: sim_hal_def)
  then show ?thesis by (simp add: u2f_data_ensure_directories_def zf_storage_ensure_dir_def)
qed

lemma sim_counter_file: "\<exists>w'. u2f_data_cnt_write sim_hal v w = (True, w')"
  using sim_write_format [OF sim_blob_fields_nonempty u2f_backups(1)]
  by (simp add: u2f_data_cnt_write_def zf_storage_write_encrypted_blob_atomic_def counter_write_spec_def
      counter_data ZF_STORAGE_BLOB_MAX_DATA_SIZE_def Let_def)
    (simp add: u2f_paths U2F_CNT_FILE_BAK_def path_defs U2fCounterData_def)

lemma sim_key_file: "\<exists>w'. u2f_data_key_generate sim_hal w = (Some (replicate 32 7), w')"
proof -
  have "\<exists>w'. u2f_data_key_store_plaintext sim_hal (replicate 32 7) w = (True, w')"
    using sim_write_format [OF sim_blob_fields_nonempty u2f_backups(2)]
    by (simp add: u2f_data_key_store_plaintext_def zf_storage_write_encrypted_blob_atomic_def device_key_write_spec_def
        u2f_data_device_key_write_mac_def u2f_data_device_key_compute_mac_def ZF_STORAGE_BLOB_MAX_DATA_SIZE_def
        ZF_STORAGE_BLOB_MAX_MAC_SIZE_def Let_def)
      (simp add: u2f_paths U2F_KEY_FILE_BAK_def path_defs)
  then show ?thesis by (auto simp: u2f_data_key_generate_def)
qed

text \<open>On an empty medium the first start-up succeeds.\<close>

lemma sim_first_init: "\<exists>U w. u2f_init sim_hal u2f_alloc Map.empty = ((True, U), w)"
proof -
  note plat = sim_signing_platform
  obtain c w1 where c: "load_cert_key sim_hal Map.empty = (c, w1)" by fastforce
  have w1: "keeps (\<lambda>w. w) p b Map.empty w1" if "precious p b" for p b
    using keeps_cert(2) [OF plat that, of Map.empty] c by simp
  obtain k w2 where k: "u2f_data_key_load sim_hal w1 = (k, w2)" by fastforce
  have kn: "k = None \<and> w2 U2F_KEY_FILE = None \<and> w2 U2F_KEY_FILE_BAK = None"
    using key_file.blob_absent_read [OF signing_platform_laws(1) [OF plat] u2f_backups(2) _ _ k [unfolded u2f_data_key_load_def]]
      w1 [OF key_precious] by (simp add: kept_or_absent_def)
  obtain e w3 where e: "u2f_data_key_exists sim_hal w2 = (e, w3)" by fastforce
  have "keeps (\<lambda>w. w) U2F_KEY_FILE U2F_KEY_FILE_BAK w2 w3"
    using keeps_recover_files [OF plat key_precious, of w2] e
    by (auto simp: u2f_data_key_exists_def u2f_data_file_exists_def Let_def)
  then have "\<not> e" using e kn
    by (auto simp: u2f_data_key_exists_def u2f_data_file_exists_def kept_or_absent_def Let_def)
  moreover obtain w4 where "u2f_data_key_generate sim_hal w3 = (Some (replicate 32 7), w4)" using sim_key_file by blast
  ultimately have key: "load_device_key sim_hal w1 = (Some (replicate 32 7), w4)"
    using k kn e by (simp add: load_device_key_def)
  have "counter_absent (\<lambda>w. w) w4"
    using load_device_key_keeps(1) [OF plat, of w1] w1 [OF cnt_precious] key
    by (simp add: counter_absent_def kept_or_absent_def)
  then obtain w5 where r: "u2f_data_cnt_read sim_hal w4 = (None, w5)" "counter_absent (\<lambda>w. w) w5"
    using cnt_read_absent [OF plat] by blast
  obtain x w6 where x: "u2f_data_cnt_exists sim_hal w5 = (x, w6)" by fastforce
  have "keeps (\<lambda>w. w) U2F_CNT_FILE U2F_CNT_FILE_BAK w5 w6"
    using keeps_recover_files [OF plat cnt_precious, of w5] x
    by (auto simp: u2f_data_cnt_exists_def u2f_data_file_exists_def Let_def)
  then have "\<not> x" using x r(2)
    by (auto simp: u2f_data_cnt_exists_def u2f_data_file_exists_def kept_or_absent_def counter_absent_def Let_def)
  moreover obtain w7 where "u2f_data_cnt_write sim_hal 0 w6 = (True, w7)" using sim_counter_file by blast
  ultimately have "load_counter sim_hal w4 = (Some 0, w7)" using r x by (simp add: load_counter_def)
  with c key show ?thesis by (simp add: u2f_init_def Let_def)
qed

text \<open>
  C27. The device key, from which every credential is derived, survives restarts: after a successful
  start-up, every later successful start-up on a medium that still has the key file comes up with the
  same device key, and no start-up at all replaces an existing key file, not even an unreadable one.
\<close>

theorem device_key_survives:
  assumes plat: "signing_platform hal content"
    and start: "key_absent content w \<or> (\<exists>key. key_stored hal content w key)"
    and first: "u2f_init hal U w = ((True, U1), w1)"
    and same: "content w2 U2F_KEY_FILE = content w1 U2F_KEY_FILE"
    and again: "u2f_init hal V w2 = ((ok, U2), w3)"
  shows "(ok \<longrightarrow> u2_device_key U2 = u2_device_key U1) \<and> content w3 U2F_KEY_FILE = content w2 U2F_KEY_FILE"
proof -
  have stored: "key_stored hal content w1 (u2_device_key U1)"
    using start u2f_init_key [OF plat first] by blast
  then have "key_stored hal content w2 (u2_device_key U1)" using same by (simp add: key_stored_def)
  then have "ok \<longrightarrow> u2_device_key U2 = u2_device_key U1"
    using u2f_init_key(1) [OF plat, of V w2 U2 w3] again by (cases ok) auto
  moreover obtain d where "content w2 U2F_KEY_FILE = Some d" using stored same by (auto simp: key_stored_def)
  ultimately show ?thesis using u2f_init_counter(3) [OF plat again] by simp
qed

text \<open>Witness: the second start-up of a device that was switched on for the first time.\<close>

theorem device_key_survives_witness:
  "\<exists>U1 w1. u2f_init sim_hal u2f_alloc Map.empty = ((True, U1), w1) \<and>
    (\<forall>ok U2 w3. u2f_init sim_hal u2f_alloc w1 = ((ok, U2), w3) \<longrightarrow>
      (ok \<longrightarrow> u2_device_key U2 = u2_device_key U1) \<and> w3 U2F_KEY_FILE = w1 U2F_KEY_FILE)"
proof -
  obtain U1 w1 where init: "u2f_init sim_hal u2f_alloc Map.empty = ((True, U1), w1)" using sim_first_init by blast
  have "(ok \<longrightarrow> u2_device_key U2 = u2_device_key U1) \<and> w3 U2F_KEY_FILE = w1 U2F_KEY_FILE"
    if "u2f_init sim_hal u2f_alloc w1 = ((ok, U2), w3)" for ok U2 w3
    using device_key_survives [OF sim_signing_platform _ init _ that] by (simp add: key_absent_def)
  with init show ?thesis by blast
qed

text \<open>
  C38. The attestation certificate that the device builds for itself names its own key: whatever the
  serial number and the signature, the parser of the program extracts from a certificate that was
  built for a public key exactly this key, for every profile whose subject is one DER sequence.
\<close>

theorem certificate_names_key:
  assumes "profile_wf profile" and "length public_key = 65" "public_key ! 0 = 0x04"
    and "zf_build_cert hal profile private_key public_key capacity w = (Some cert, w')" "capacity < 65536"
  shows "zf_local_attestation_extract_cert_public_key cert = Some public_key \<and> length cert \<le> capacity"
proof -
  obtain serial signature where c: "cert = der_tlv 0x30 (der_tlv 0x30 (tbs_content serial profile public_key) @
      ecdsa_sha256_alg @ der_tlv 0x03 (0 # signature))" "length cert \<le> capacity"
    using build_cert_content [OF assms(4)] by blast
  have "length cert < 65536" using c(2) assms(5) by linarith
  from extract_content [OF assms(1-3) c(1) this] c(2) show ?thesis by blast
qed

lemma der_fits:
  "length (der_data b) + length d \<le> der_capacity b \<Longrightarrow> zf_der_append b d = Some (b\<lparr>der_data := der_data b @ d\<rparr>)"
  "length (der_data b) + length d + 4 \<le> der_capacity b \<Longrightarrow>
    zf_der_append_tlv b tag d = Some (b\<lparr>der_data := der_data b @ der_tlv tag d\<rparr>)"
  "length (der_data b) + 4 \<le> der_capacity b \<Longrightarrow>
    zf_der_wrap_tlv_in_place b tag = Some (b\<lparr>der_data := der_tlv tag (der_data b)\<rparr>)"
  by (auto simp: zf_der_append_def zf_der_append_tlv_def zf_der_append_length_def zf_der_wrap_tlv_in_place_def
      zf_der_write_length_def der_length_bytes_size zf_der_length_size_def der_tlv_def Let_def)

lemma length_der_tlv_le: "length (der_tlv tag d) \<le> length d + 4"
  by (simp add: der_tlv_def der_length_bytes_size zf_der_length_size_def)

text \<open>Witness: the U2F profile.\<close>

theorem certificate_names_key_witness:
  "\<exists>cert. fst (zf_build_cert sim_hal u2f_generated_attestation_profile (replicate 32 1) (0x04 # replicate 64 2)
      ZF_ATTESTATION_CERT_MAX_SIZE Map.empty) = Some cert \<and>
    zf_local_attestation_extract_cert_public_key cert = Some (0x04 # replicate 64 2)"
proof -
  let ?r = "zf_build_cert sim_hal u2f_generated_attestation_profile (replicate 32 1) (0x04 # replicate 64 2)
      ZF_ATTESTATION_CERT_MAX_SIZE Map.empty"
  let ?sig = "zf_ecdsa_der_encode_signature (replicate 32 3) (replicate 32 3) ZF_LOCAL_ATTESTATION_SIGNATURE_MAX_SIZE"
  have wf: "profile_wf u2f_generated_attestation_profile"
    by (auto simp: profile_wf_def u2f_generated_attestation_profile_def u2f_generated_attestation_subject_def
        u2f_generated_attestation_extensions_def der_tlv_def der_length_bytes_def zf_der_length_size_def ascii_def
        intro!: exI [of _ "drop 2 u2f_generated_attestation_subject"])
  have "case fst (zf_build_tbs sim_hal u2f_generated_attestation_profile (0x04 # replicate 64 2)
      ZF_LOCAL_ATTESTATION_TBS_MAX_SIZE Map.empty) of None \<Rightarrow> False | Some tbs \<Rightarrow> length tbs < 500" by code_simp
  then obtain tbs w1 where tbs: "zf_build_tbs sim_hal u2f_generated_attestation_profile (0x04 # replicate 64 2)
      ZF_LOCAL_ATTESTATION_TBS_MAX_SIZE Map.empty = (Some tbs, w1)" "length tbs < 500"
    by (cases "zf_build_tbs sim_hal u2f_generated_attestation_profile (0x04 # replicate 64 2)
      ZF_LOCAL_ATTESTATION_TBS_MAX_SIZE Map.empty") (auto split: option.split_asm)
  define sig where "sig = ?sig"
  have "zf_p256_private_key_valid (replicate 32 1)" "0 < length sig" "length sig \<le> 72"
    unfolding sig_def by code_simp+
  moreover have "length ecdsa_sha256_alg = 12" by (simp add: ecdsa_sha256_alg_def)
  moreover have "uECC_sign sim_hal k h w = (Some (replicate 64 3), w)" for k h w by (simp add: sim_hal_def)
  ultimately have sign: "zf_crypto_sign_hash_with_private_key sim_hal (replicate 32 1) h
      ZF_LOCAL_ATTESTATION_SIGNATURE_MAX_SIZE w = (Some sig, w)" and len: "length sig \<le> 72" "length ecdsa_sha256_alg = 12" for h w
    by (simp_all add: zf_crypto_sign_hash_with_private_key_def zf_p256_sign_hash_raw_def sig_def)
  have bits: "ZF_LOCAL_ATTESTATION_BIT_STRING_MAX_SIZE = 81"
    by (simp add: ZF_LOCAL_ATTESTATION_BIT_STRING_MAX_SIZE_def ZF_LOCAL_ATTESTATION_SIGNATURE_MAX_SIZE_def)
  obtain cert w' where c: "?r = (Some cert, w')"
    using tbs len length_der_tlv_le [of "0x03" "0 # sig"]
    by (simp add: zf_build_cert_def sign zf_der_append_bit_string_def der_fits ZF_ATTESTATION_CERT_MAX_SIZE_def bits)
  from certificate_names_key [OF wf _ _ c] c show ?thesis by (simp add: ZF_ATTESTATION_CERT_MAX_SIZE_def)
qed

end
