(* ===== verification/Store_Record.thy ===== *)
theory Store_Record
  imports Storage_Frame "HOL-Library.Char_ord"
begin

text \<open>
  \<^verbatim>\<open>store/record_format.c\<close>, \<^verbatim>\<open>store/internal.h\<close> and the credential types of
  \<^verbatim>\<open>zerofido_types.h\<close>: the CBOR record in which a credential is stored under the hexadecimal name of
  its identifier, the sealed counter floor inside the record and in the companion file
  \<^verbatim>\<open>.counter\<close>, and the loading, writing and counter reservation built from them. C strings are the
  bytes before the terminator, a byte array with its length field is the list of the used bytes, and
  the caller's I/O buffer is passed as a value: the functions fill it, use a prefix and wipe it. The
  production branch of \<^verbatim>\<open>#ifdef ZF_HOST_TEST\<close> is the one modelled.
\<close>

section \<open>Types and paths\<close>

definition ZF_HMAC_SECRET_LEN :: nat where "ZF_HMAC_SECRET_LEN = 32"
definition ZF_STORE_FORMAT_VERSION :: u32 where "ZF_STORE_FORMAT_VERSION = 1"
definition ZF_STORE_RECORD_MAX_SIZE :: nat where "ZF_STORE_RECORD_MAX_SIZE = 800"
definition ZF_STORE_RECORD_IO_SIZE :: nat where "ZF_STORE_RECORD_IO_SIZE = 800"
definition ZF_COUNTER_FLOOR_MAGIC :: u32 where "ZF_COUNTER_FLOOR_MAGIC = 0x53434632"
definition ZF_COUNTER_FLOOR_VERSION :: u32 where "ZF_COUNTER_FLOOR_VERSION = 1"
definition ZF_RECORD_HMAC_SECRET_STORAGE_LEN :: nat where "ZF_RECORD_HMAC_SECRET_STORAGE_LEN = 64"

record ZfCredentialRecord =
  cr_in_use :: bool
  cr_resident_key :: bool
  cr_file_name :: path
  cr_storage_version :: u32
  cr_credential_id :: bytes
  cr_rp_id :: bytes
  cr_user_id :: bytes
  cr_user_name :: bytes
  cr_user_display_name :: bytes
  cr_public_x :: bytes
  cr_public_y :: bytes
  cr_private_wrapped :: bytes
  cr_private_iv :: bytes
  cr_sign_count :: u32
  cr_created_at :: u32
  cr_cred_protect :: byte
  cr_hmac_secret :: bool
  cr_hmac_secret_without_uv :: bytes
  cr_hmac_secret_with_uv :: bytes

record ZfCredentialIndexEntry =
  ie_in_use :: bool
  ie_resident_key :: bool
  ie_credential_id :: bytes
  ie_rp_id_hash :: bytes
  ie_sign_count :: u32
  ie_counter_high_water :: u32
  ie_created_at :: u32
  ie_cred_protect :: byte

text \<open>\<^verbatim>\<open>memset(record, 0, sizeof(*record))\<close>; the identifier then gets its length of 32 bytes.\<close>

definition zero_record :: ZfCredentialRecord where
  "zero_record = \<lparr>cr_in_use = False, cr_resident_key = False, cr_file_name = [],
    cr_storage_version = 0, cr_credential_id = replicate 32 0, cr_rp_id = [], cr_user_id = [],
    cr_user_name = [], cr_user_display_name = [], cr_public_x = replicate 32 0,
    cr_public_y = replicate 32 0, cr_private_wrapped = replicate 32 0, cr_private_iv = replicate 16 0,
    cr_sign_count = 0, cr_created_at = 0, cr_cred_protect = 0, cr_hmac_secret = False,
    cr_hmac_secret_without_uv = replicate 32 0, cr_hmac_secret_with_uv = replicate 32 0\<rparr>"

definition zero_entry :: ZfCredentialIndexEntry where
  "zero_entry = \<lparr>ie_in_use = False, ie_resident_key = False, ie_credential_id = [],
    ie_rp_id_hash = replicate 32 0, ie_sign_count = 0, ie_counter_high_water = 0,
    ie_created_at = 0, ie_cred_protect = 0\<rparr>"

definition zf_store_has_suffix :: "path \<Rightarrow> path \<Rightarrow> bool" where
  "zf_store_has_suffix v suffix \<longleftrightarrow>
    length v \<ge> length suffix \<and> drop (length v - length suffix) v = suffix"

text \<open>\<^verbatim>\<open>snprintf\<close> cuts its output to the size of the buffer.\<close>

definition zf_store_build_record_path :: "path \<Rightarrow> nat \<Rightarrow> path" where
  "zf_store_build_record_path file_name path_size =
    take (path_size - 1) (ZF_APP_DATA_DIR @ ''/'' @ file_name)"

definition zf_store_build_temp_path :: "path \<Rightarrow> nat \<Rightarrow> path" where
  "zf_store_build_temp_path file_name path_size =
    take (path_size - 1) (ZF_APP_DATA_DIR @ ''/'' @ file_name @ ''.tmp'')"

definition zf_store_build_counter_floor_path :: "path \<Rightarrow> nat \<Rightarrow> path" where
  "zf_store_build_counter_floor_path file_name path_size =
    take (path_size - 1) (ZF_APP_DATA_DIR @ ''/'' @ file_name @ ''.counter'')"

definition zf_store_build_counter_floor_temp_path :: "path \<Rightarrow> nat \<Rightarrow> path" where
  "zf_store_build_counter_floor_temp_path file_name path_size =
    take (path_size - 1) (ZF_APP_DATA_DIR @ ''/'' @ file_name @ ''.counter.tmp'')"

section \<open>Counter floors\<close>

text \<open>The seal is \<open>magic, sign_count, binding\<close> (32 bytes), the file \<open>version, iv, sealed\<close> (52 bytes).\<close>

record ZfCounterFloorFile =
  cf_version :: u32
  cf_iv :: bytes
  cf_sealed :: bytes

definition le_value :: "bytes \<Rightarrow> u32" where
  "le_value bs = be_value (rev bs)"

definition counter_floor_seal :: "u32 \<Rightarrow> bytes \<Rightarrow> bytes" where
  "counter_floor_seal sign_count binding =
    le_bytes 4 ZF_COUNTER_FLOOR_MAGIC @ le_bytes 4 sign_count @ binding"

definition counter_floor_bytes :: "ZfCounterFloorFile \<Rightarrow> bytes" where
  "counter_floor_bytes f = le_bytes 4 (cf_version f) @ cf_iv f @ cf_sealed f"

definition counter_floor_of_bytes :: "bytes \<Rightarrow> ZfCounterFloorFile" where
  "counter_floor_of_bytes raw =
    \<lparr>cf_version = le_value (take 4 raw), cf_iv = take 16 (drop 4 raw), cf_sealed = take 32 (drop 20 raw)\<rparr>"

definition sizeof_ZfCounterFloorFile :: nat where "sizeof_ZfCounterFloorFile = 52"

definition zf_record_compute_counter_binding_fields :: "bytes \<Rightarrow> u32 \<Rightarrow> bytes" where
  "zf_record_compute_counter_binding_fields credential_id created_at =
    take 24 (zf_crypto_sha256 (credential_id @ le_bytes 4 created_at))"

definition zf_counter_reserved_high_water :: "u32 \<Rightarrow> u32" where
  "zf_counter_reserved_high_water sign_count =
    (let available = 0xFFFFFFFF - sign_count in
     if available < ZF_COUNTER_RESERVATION_WINDOW then 0xFFFFFFFF
     else sign_count + ZF_COUNTER_RESERVATION_WINDOW)"

definition zf_counter_floor_encode_fields ::
  "'w hal \<Rightarrow> bytes \<Rightarrow> u32 \<Rightarrow> u32 \<Rightarrow> 'w \<Rightarrow> ZfCounterFloorFile option \<times> 'w" where
  "zf_counter_floor_encode_fields hal credential_id created_at sign_count w =
    (let plain = counter_floor_seal sign_count
           (zf_record_compute_counter_binding_fields credential_id created_at)
     in case random_fill hal ZF_WRAP_IV_LEN w of (iv, w) \<Rightarrow>
        (case enclave_encrypt hal iv plain w of
           (None, w) \<Rightarrow> (None, w)
         | (Some sealed, w) \<Rightarrow>
            (Some \<lparr>cf_version = ZF_COUNTER_FLOOR_VERSION, cf_iv = iv, cf_sealed = sealed\<rparr>, w)))"

definition zf_counter_floor_decode_fields ::
  "'w hal \<Rightarrow> bytes \<Rightarrow> u32 \<Rightarrow> ZfCounterFloorFile \<Rightarrow> 'w \<Rightarrow> u32 option \<times> 'w" where
  "zf_counter_floor_decode_fields hal credential_id created_at counter_file w =
    (if cf_version counter_file \<noteq> ZF_COUNTER_FLOOR_VERSION then (None, w)
     else case enclave_decrypt hal (cf_iv counter_file) (cf_sealed counter_file) w of
         (None, w) \<Rightarrow> (None, w)
       | (Some plain, w) \<Rightarrow>
          if le_value (take 4 plain) \<noteq> ZF_COUNTER_FLOOR_MAGIC then (None, w)
          else if zf_crypto_constant_time_equal (take 24 (drop 8 plain))
               (zf_record_compute_counter_binding_fields credential_id created_at)
          then (Some (le_value (take 4 (drop 4 plain))), w)
          else (None, w))"

definition zf_store_counter_floor_write_value_fields ::
  "'w hal \<Rightarrow> path \<Rightarrow> bytes \<Rightarrow> u32 \<Rightarrow> u32 \<Rightarrow> 'w \<Rightarrow> bool \<times> 'w" where
  "zf_store_counter_floor_write_value_fields hal file_name credential_id created_at sign_count w =
    (case zf_counter_floor_encode_fields hal credential_id created_at sign_count w of
       (None, w) \<Rightarrow> (False, w)
     | (Some counter_file, w) \<Rightarrow>
        zf_storage_write_file_atomic hal (zf_store_build_counter_floor_path file_name 128)
          (zf_store_build_counter_floor_temp_path file_name 128) (counter_floor_bytes counter_file) w)"

definition zf_store_counter_floor_write_value ::
  "'w hal \<Rightarrow> ZfCredentialRecord \<Rightarrow> u32 \<Rightarrow> 'w \<Rightarrow> bool \<times> 'w" where
  "zf_store_counter_floor_write_value hal record sign_count w =
    zf_store_counter_floor_write_value_fields hal (cr_file_name record) (cr_credential_id record)
      (cr_created_at record) sign_count w"

text \<open>
  The result is the validated \<open>sign_count\<close> with the high-water mark. The embedded floor is an option:
  \<open>has_embedded_counter_floor\<close> with the floor.
\<close>

definition zf_store_counter_floor_validate_fields ::
  "'w hal \<Rightarrow> path \<Rightarrow> bytes \<Rightarrow> u32 \<Rightarrow> u32 \<Rightarrow> ZfCounterFloorFile option \<Rightarrow> 'w \<Rightarrow> (u32 \<times> u32) option \<times> 'w"
where
  "zf_store_counter_floor_validate_fields hal file_name credential_id created_at sign_count embedded w =
    (let p = zf_store_build_counter_floor_path file_name 128;
         write_floor = (\<lambda>w. case zf_store_counter_floor_write_value_fields hal file_name credential_id
             created_at sign_count w of
           (True, w) \<Rightarrow> (Some (sign_count, sign_count), w) | (False, w) \<Rightarrow> (None, w))
     in if \<not> fs_exists hal p w then
          (case embedded of
             Some floor \<Rightarrow>
              (case zf_counter_floor_decode_fields hal credential_id created_at floor w of
                 (None, w) \<Rightarrow> (None, w)
               | (Some stored, w) \<Rightarrow>
                  (if stored \<noteq> sign_count then None else Some (sign_count, stored), w))
           | None \<Rightarrow> write_floor w)
        else case zf_storage_read_file hal p sizeof_ZfCounterFloorFile w of
            (None, w) \<Rightarrow> (None, w)
          | (Some raw, w) \<Rightarrow>
             if length raw \<noteq> sizeof_ZfCounterFloorFile then (None, w)
             else case zf_counter_floor_decode_fields hal credential_id created_at
                 (counter_floor_of_bytes raw) w of
                 (None, w) \<Rightarrow> (None, w)
               | (Some stored, w) \<Rightarrow>
                  if stored > sign_count then (Some (stored, stored), w)
                  else if stored < sign_count then write_floor w
                  else (Some (sign_count, stored), w))"

definition zf_store_counter_floor_validate ::
  "'w hal \<Rightarrow> ZfCredentialRecord \<Rightarrow> ZfCounterFloorFile option \<Rightarrow> 'w \<Rightarrow>
    (ZfCredentialRecord \<times> u32) option \<times> 'w" where
  "zf_store_counter_floor_validate hal record embedded w =
    (case zf_store_counter_floor_validate_fields hal (cr_file_name record) (cr_credential_id record)
        (cr_created_at record) (cr_sign_count record) embedded w of
       (r, w) \<Rightarrow> (map_option (\<lambda>(sign_count, high_water).
         (record\<lparr>cr_sign_count := sign_count\<rparr>, high_water)) r, w))"

definition zf_store_counter_floor_validate_index ::
  "'w hal \<Rightarrow> path \<Rightarrow> ZfCredentialIndexEntry \<Rightarrow> ZfCounterFloorFile option \<Rightarrow> 'w \<Rightarrow>
    (ZfCredentialIndexEntry \<times> u32) option \<times> 'w" where
  "zf_store_counter_floor_validate_index hal file_name entry embedded w =
    (case zf_store_counter_floor_validate_fields hal file_name (ie_credential_id entry)
        (ie_created_at entry) (ie_sign_count entry) embedded w of
       (r, w) \<Rightarrow> (map_option (\<lambda>(sign_count, high_water).
         (entry\<lparr>ie_sign_count := sign_count\<rparr>, high_water)) r, w))"

section \<open>Record encoding\<close>

definition zf_record_wrap_hmac_secret ::
  "'w hal \<Rightarrow> ZfCredentialRecord \<Rightarrow> 'w \<Rightarrow> (bytes \<times> bytes) option \<times> 'w" where
  "zf_record_wrap_hmac_secret hal record w =
    (case random_fill hal ZF_WRAP_IV_LEN w of (iv, w) \<Rightarrow>
     (case enclave_encrypt hal iv
          (cr_hmac_secret_without_uv record @ cr_hmac_secret_with_uv record) w of
        (None, w) \<Rightarrow> (None, w)
      | (Some wrapped, w) \<Rightarrow> (Some (wrapped, iv), w)))"

definition zf_record_unwrap_hmac_secret ::
  "'w hal \<Rightarrow> ZfCredentialRecord \<Rightarrow> bytes \<Rightarrow> bytes \<Rightarrow> 'w \<Rightarrow> ZfCredentialRecord option \<times> 'w" where
  "zf_record_unwrap_hmac_secret hal record wrapped iv w =
    (case enclave_decrypt hal iv wrapped w of
       (None, w) \<Rightarrow> (None, w)
     | (Some plain, w) \<Rightarrow>
        (Some (record\<lparr>cr_hmac_secret_without_uv := take 32 plain,
                      cr_hmac_secret_with_uv := take 32 (drop 32 plain)\<rparr>), w))"

text \<open>The two chains of encoder calls of \<^verbatim>\<open>zf_store_record_format_encode\<close>.\<close>

definition encode_record_fields ::
  "ZfCredentialRecord \<Rightarrow> nat \<Rightarrow> ZfCounterFloorFile \<Rightarrow> zf_cbor_encoder \<Rightarrow> bool \<times> zf_cbor_encoder" where
  "encode_record_fields r pairs counter_floor enc =
    and_then (zf_cbor_encode_map enc pairs) (\<lambda>enc.
    and_then (zf_cbor_encode_uint enc 1) (\<lambda>enc.
    and_then (zf_cbor_encode_uint enc (ucast ZF_STORE_FORMAT_VERSION)) (\<lambda>enc.
    and_then (zf_cbor_encode_uint enc 2) (\<lambda>enc.
    and_then (zf_cbor_encode_bytes enc (cr_credential_id r)) (\<lambda>enc.
    and_then (zf_cbor_encode_uint enc 3) (\<lambda>enc.
    and_then (zf_cbor_encode_text enc (cr_rp_id r)) (\<lambda>enc.
    and_then (zf_cbor_encode_uint enc 4) (\<lambda>enc.
    and_then (zf_cbor_encode_bytes enc (cr_user_id r)) (\<lambda>enc.
    and_then (zf_cbor_encode_uint enc 5) (\<lambda>enc.
    and_then (zf_cbor_encode_text enc (cr_user_name r)) (\<lambda>enc.
    and_then (zf_cbor_encode_uint enc 6) (\<lambda>enc.
    and_then (zf_cbor_encode_text enc (cr_user_display_name r)) (\<lambda>enc.
    and_then (zf_cbor_encode_uint enc 7) (\<lambda>enc.
    and_then (zf_cbor_encode_bytes enc (cr_public_x r)) (\<lambda>enc.
    and_then (zf_cbor_encode_uint enc 8) (\<lambda>enc.
    and_then (zf_cbor_encode_bytes enc (cr_public_y r)) (\<lambda>enc.
    and_then (zf_cbor_encode_uint enc 9) (\<lambda>enc.
    and_then (zf_cbor_encode_bytes enc (cr_private_wrapped r)) (\<lambda>enc.
    and_then (zf_cbor_encode_uint enc 10) (\<lambda>enc.
    and_then (zf_cbor_encode_bytes enc (cr_private_iv r)) (\<lambda>enc.
    and_then (zf_cbor_encode_uint enc 11) (\<lambda>enc.
    and_then (zf_cbor_encode_uint enc (ucast (cr_sign_count r))) (\<lambda>enc.
    and_then (zf_cbor_encode_uint enc 12) (\<lambda>enc.
    and_then (zf_cbor_encode_uint enc (ucast (cr_created_at r))) (\<lambda>enc.
    and_then (zf_cbor_encode_uint enc 13) (\<lambda>enc.
    and_then (zf_cbor_encode_bool enc (cr_resident_key r)) (\<lambda>enc.
    and_then (zf_cbor_encode_uint enc 14) (\<lambda>enc.
    and_then (zf_cbor_encode_uint enc (ucast (zf_ctap_cred_protect_effective (cr_cred_protect r)))) (\<lambda>enc.
    and_then (zf_cbor_encode_uint enc 17) (\<lambda>enc.
    zf_cbor_encode_bytes enc (counter_floor_bytes counter_floor)))))))))))))))))))))))))))))))"

definition encode_hmac_fields :: "bytes \<Rightarrow> bytes \<Rightarrow> zf_cbor_encoder \<Rightarrow> bool \<times> zf_cbor_encoder" where
  "encode_hmac_fields wrapped iv enc =
    and_then (zf_cbor_encode_uint enc 15) (\<lambda>enc.
    and_then (zf_cbor_encode_bytes enc wrapped) (\<lambda>enc.
    and_then (zf_cbor_encode_uint enc 16) (\<lambda>enc.
    zf_cbor_encode_bytes enc iv)))"

definition zf_store_record_format_encode ::
  "'w hal \<Rightarrow> ZfCredentialRecord \<Rightarrow> bytes \<Rightarrow> 'w \<Rightarrow> bytes option \<times> 'w" where
  "zf_store_record_format_encode hal record out w =
    (case zf_cbor_encoder_init out ZF_STORE_RECORD_MAX_SIZE of
       None \<Rightarrow> (None, w)
     | Some enc \<Rightarrow>
        (case zf_counter_floor_encode_fields hal (cr_credential_id record) (cr_created_at record)
            (cr_sign_count record) w of
           (None, w) \<Rightarrow> (None, w)
         | (Some counter_floor, w) \<Rightarrow>
            let finish = (\<lambda>(ok, enc). if ok then Some (take (zf_cbor_encoder_size enc) (enc_buf enc))
                                     else None)
            in if \<not> cr_hmac_secret record
               then (finish (encode_record_fields record 15 counter_floor enc), w)
               else case zf_record_wrap_hmac_secret hal record w of
                   (None, w) \<Rightarrow> (None, w)
                 | (Some (wrapped, iv), w) \<Rightarrow>
                    (finish (and_then (encode_record_fields record 17 counter_floor enc)
                       (encode_hmac_fields wrapped iv)), w)))"

section \<open>Record decoding\<close>

definition zf_copy_text_field :: "nat \<Rightarrow> bytes \<Rightarrow> bytes option" where
  "zf_copy_text_field out_size data =
    (if length data \<ge> out_size \<or> 0 \<in> set data then None else Some data)"

definition hex_digits :: string where "hex_digits = ''0123456789abcdef''"

definition zf_store_record_format_hex_encode :: "bytes \<Rightarrow> path" where
  "zf_store_record_format_hex_encode data =
    concat (map (\<lambda>b. [hex_digits ! unat (drop_bit 4 b AND 0x0F), hex_digits ! unat (b AND 0x0F)]) data)"

definition zf_record_id_matches_file_name :: "bytes \<Rightarrow> path \<Rightarrow> bool" where
  "zf_record_id_matches_file_name credential_id file_name \<longleftrightarrow>
    length credential_id = ZF_CREDENTIAL_ID_LEN \<and>
    zf_store_record_format_hex_encode credential_id = file_name"

definition zf_record_decode_text :: "nat \<Rightarrow> bytes reader" where
  "zf_record_decode_text out_size cursor =
    (case zf_cbor_read_text_ptr cursor of
       None \<Rightarrow> None
     | Some (data, c) \<Rightarrow> map_option (\<lambda>text. (text, c)) (zf_copy_text_field out_size data))"

definition zf_record_decode_bytes :: "nat \<Rightarrow> bytes reader" where
  "zf_record_decode_bytes expected_size cursor =
    (case zf_cbor_read_bytes_ptr cursor of
       None \<Rightarrow> None
     | Some (data, c) \<Rightarrow> if length data \<noteq> expected_size then None else Some (data, c))"

definition zf_record_decode_version :: "u32 reader" where
  "zf_record_decode_version cursor =
    (case zf_cbor_read_uint cursor of
       None \<Rightarrow> None
     | Some (raw, c) \<Rightarrow> if raw > 0xFFFFFFFF then None else Some (ucast raw, c))"

definition zf_record_decode_user_id :: "bytes reader" where
  "zf_record_decode_user_id cursor =
    (case zf_cbor_read_bytes_ptr cursor of
       None \<Rightarrow> None
     | Some (data, c) \<Rightarrow> if length data > ZF_MAX_USER_ID_LEN then None else Some (data, c))"

definition zf_record_decode_counter :: "u32 reader" where
  "zf_record_decode_counter cursor =
    (case zf_cbor_read_uint cursor of
       None \<Rightarrow> None
     | Some (raw, c) \<Rightarrow> if raw > 0xFFFFFFFF then None else Some (ucast raw, c))"

text \<open>The loop variables of \<^verbatim>\<open>zf_record_decode\<close>; \<open>rd_seen\<close> holds the keys whose \<open>saw_\<close> flag is set.\<close>

record record_vars =
  rd_record :: ZfCredentialRecord
  rd_version :: u32
  rd_seen :: "u64 list"
  rd_hmac_secret_wrapped :: bytes
  rd_hmac_secret_iv :: bytes
  rd_counter_floor :: ZfCounterFloorFile

definition read_into :: "('a \<Rightarrow> 's \<Rightarrow> 's) \<Rightarrow> 'a reader \<Rightarrow> cursor \<Rightarrow> 's \<Rightarrow> ('s \<times> cursor) option" where
  "read_into store read c s = map_option (\<lambda>(x, c). (store x s, c)) (read c)"

definition zf_record_decode_field ::
  "cursor \<Rightarrow> u64 \<Rightarrow> ZfCredentialRecord \<times> u32 \<Rightarrow> ((ZfCredentialRecord \<times> u32) \<times> cursor) option" where
  "zf_record_decode_field c key rv =
    (if key = 1 then read_into (\<lambda>x (r, v). (r, x)) zf_record_decode_version c rv
     else if key = 2 then
       read_into (\<lambda>x (r, v). (r\<lparr>cr_credential_id := x\<rparr>, v)) (zf_record_decode_bytes ZF_CREDENTIAL_ID_LEN) c rv
     else if key = 3 then
       read_into (\<lambda>x (r, v). (r\<lparr>cr_rp_id := x\<rparr>, v)) (zf_record_decode_text ZF_MAX_RP_ID_LEN) c rv
     else if key = 4 then read_into (\<lambda>x (r, v). (r\<lparr>cr_user_id := x\<rparr>, v)) zf_record_decode_user_id c rv
     else if key = 5 then
       read_into (\<lambda>x (r, v). (r\<lparr>cr_user_name := x\<rparr>, v)) (zf_record_decode_text ZF_MAX_USER_NAME_LEN) c rv
     else if key = 6 then
       read_into (\<lambda>x (r, v). (r\<lparr>cr_user_display_name := x\<rparr>, v))
         (zf_record_decode_text ZF_MAX_DISPLAY_NAME_LEN) c rv
     else if key = 7 then
       read_into (\<lambda>x (r, v). (r\<lparr>cr_public_x := x\<rparr>, v)) (zf_record_decode_bytes ZF_PUBLIC_KEY_LEN) c rv
     else if key = 8 then
       read_into (\<lambda>x (r, v). (r\<lparr>cr_public_y := x\<rparr>, v)) (zf_record_decode_bytes ZF_PUBLIC_KEY_LEN) c rv
     else if key = 9 then read_into (\<lambda>x (r, v). (r\<lparr>cr_private_wrapped := x\<rparr>, v)) (zf_record_decode_bytes 32) c rv
     else if key = 10 then
       read_into (\<lambda>x (r, v). (r\<lparr>cr_private_iv := x\<rparr>, v)) (zf_record_decode_bytes ZF_WRAP_IV_LEN) c rv
     else if key = 11 then read_into (\<lambda>x (r, v). (r\<lparr>cr_sign_count := x\<rparr>, v)) zf_record_decode_counter c rv
     else if key = 12 then read_into (\<lambda>x (r, v). (r\<lparr>cr_created_at := x\<rparr>, v)) zf_record_decode_counter c rv
     else if key = 13 then read_into (\<lambda>x (r, v). (r\<lparr>cr_resident_key := x\<rparr>, v)) zf_cbor_read_bool c rv
     else if key = 14 then
       (case zf_cbor_read_uint c of
          None \<Rightarrow> None
        | Some (raw, c) \<Rightarrow>
           if \<not> zf_ctap_cred_protect_value_is_valid raw then None
           else Some (((fst rv)\<lparr>cr_cred_protect := ucast raw\<rparr>, snd rv), c))
     else map_option (\<lambda>c. (rv, c)) (zf_cbor_skip c))"

definition record_pair :: "cursor \<Rightarrow> record_vars \<Rightarrow> (record_vars \<times> cursor) option" where
  "record_pair c s =
    (case zf_cbor_read_uint c of
       None \<Rightarrow> None
     | Some (key, c) \<Rightarrow>
        map_option (\<lambda>(s, c). (s\<lparr>rd_seen := key # rd_seen s\<rparr>, c))
         (if key = 15 then
            (if key \<in> set (rd_seen s) then None
             else read_into (\<lambda>x s. s\<lparr>rd_hmac_secret_wrapped := x\<rparr>)
               (zf_record_decode_bytes ZF_RECORD_HMAC_SECRET_STORAGE_LEN) c s)
          else if key = 16 then
            (if key \<in> set (rd_seen s) then None
             else read_into (\<lambda>x s. s\<lparr>rd_hmac_secret_iv := x\<rparr>) (zf_record_decode_bytes ZF_WRAP_IV_LEN) c s)
          else if key = 17 then
            (if key \<in> set (rd_seen s) then None
             else read_into (\<lambda>x s. s\<lparr>rd_counter_floor := counter_floor_of_bytes x\<rparr>)
               (zf_record_decode_bytes sizeof_ZfCounterFloorFile) c s)
          else map_option (\<lambda>((r, v), c). (s\<lparr>rd_record := r, rd_version := v\<rparr>, c))
            (zf_record_decode_field c key (rd_record s, rd_version s))))"

fun record_pairs :: "nat \<Rightarrow> cursor \<Rightarrow> record_vars \<Rightarrow> (record_vars \<times> cursor) option" where
  "record_pairs 0 c s = Some (s, c)"
| "record_pairs (Suc n) c s =
    (case record_pair c s of None \<Rightarrow> None | Some (s, c) \<Rightarrow> record_pairs n c s)"

definition required_record_keys :: "u64 list" where
  "required_record_keys = [1, 2, 3, 4, 7, 8, 9, 10, 11, 12, 13, 14]"

text \<open>The result is the record with the embedded counter floor, when the record has one.\<close>

definition zf_record_decode ::
  "'w hal \<Rightarrow> bytes \<Rightarrow> path \<Rightarrow> 'w \<Rightarrow> (ZfCredentialRecord \<times> ZfCounterFloorFile option) option \<times> 'w" where
  "zf_record_decode hal data file_name w =
    (let start = \<lparr>rd_record = zero_record\<lparr>cr_file_name := take 79 file_name\<rparr>, rd_version = 0, rd_seen = [],
           rd_hmac_secret_wrapped = replicate 64 0, rd_hmac_secret_iv = replicate 16 0,
           rd_counter_floor = \<lparr>cf_version = 0, cf_iv = replicate 16 0, cf_sealed = replicate 32 0\<rparr>\<rparr>
     in case zf_cbor_read_map_start data of
          None \<Rightarrow> (None, w)
        | Some (pairs, c) \<Rightarrow>
           (case record_pairs pairs c start of
              None \<Rightarrow> (None, w)
            | Some (s, c) \<Rightarrow>
               let record = rd_record s; saw = (\<lambda>key. key \<in> set (rd_seen s));
                   finish = (\<lambda>record. (record\<lparr>cr_hmac_secret := saw 15, cr_storage_version := rd_version s,
                       cr_in_use := True\<rparr>, if saw 17 then Some (rd_counter_floor s) else None))
               in if c \<noteq> [] then (None, w)
                  else if \<not> list_all saw required_record_keys then (None, w)
                  else if saw 15 \<noteq> saw 16 then (None, w)
                  else if rd_version s \<noteq> ZF_STORE_FORMAT_VERSION \<or> cr_rp_id record = [] \<or>
                          \<not> zf_record_id_matches_file_name (cr_credential_id record) file_name
                  then (None, w)
                  else if saw 15 then
                    (case zf_record_unwrap_hmac_secret hal record (rd_hmac_secret_wrapped s)
                        (rd_hmac_secret_iv s) w of
                       (r, w) \<Rightarrow> (map_option finish r, w))
                  else (Some (finish record), w)))"

definition zf_store_record_format_is_record_name :: "path \<Rightarrow> bool" where
  "zf_store_record_format_is_record_name name \<longleftrightarrow>
    length name = 2 * ZF_CREDENTIAL_ID_LEN \<and>
    list_all (\<lambda>ch. CHR ''0'' \<le> ch \<and> ch \<le> CHR ''9'' \<or> CHR ''a'' \<le> ch \<and> ch \<le> CHR ''f'') name"

section \<open>Loading and writing\<close>

definition zf_store_record_format_load_record_internal_with_buffer ::
  "'w hal \<Rightarrow> path \<Rightarrow> bytes \<Rightarrow> bool \<Rightarrow> 'w \<Rightarrow> ZfCredentialRecord option \<times> 'w" where
  "zf_store_record_format_load_record_internal_with_buffer hal file_name buffer validate_counter_floor w =
    (if length buffer = 0 then (None, w)
     else case zf_storage_read_file hal (zf_store_build_record_path file_name 128) (length buffer) w of
         (None, w) \<Rightarrow> (None, w)
       | (Some data, w) \<Rightarrow>
          (case zf_record_decode hal data file_name w of
             (None, w) \<Rightarrow> (None, w)
           | (Some (record, embedded), w) \<Rightarrow>
              if \<not> validate_counter_floor then (Some record, w)
              else case zf_store_counter_floor_validate hal record embedded w of
                  (r, w) \<Rightarrow> (map_option fst r, w)))"

definition zf_store_record_format_load_record_with_buffer ::
  "'w hal \<Rightarrow> path \<Rightarrow> bytes \<Rightarrow> 'w \<Rightarrow> ZfCredentialRecord option \<times> 'w" where
  "zf_store_record_format_load_record_with_buffer hal file_name buffer w =
    zf_store_record_format_load_record_internal_with_buffer hal file_name buffer True w"

definition zf_store_record_format_load_record_for_display_with_buffer ::
  "'w hal \<Rightarrow> path \<Rightarrow> bytes \<Rightarrow> 'w \<Rightarrow> ZfCredentialRecord option \<times> 'w" where
  "zf_store_record_format_load_record_for_display_with_buffer hal file_name buffer w =
    zf_store_record_format_load_record_internal_with_buffer hal file_name buffer False w"

definition zf_store_index_entry_from_record :: "ZfCredentialRecord \<Rightarrow> ZfCredentialIndexEntry" where
  "zf_store_index_entry_from_record record =
    \<lparr>ie_in_use = cr_in_use record, ie_resident_key = cr_resident_key record,
     ie_credential_id = cr_credential_id record,
     ie_rp_id_hash = zf_crypto_sha256 (cr_rp_id record), ie_sign_count = cr_sign_count record,
     ie_counter_high_water = cr_sign_count record, ie_created_at = cr_created_at record,
     ie_cred_protect = zf_ctap_cred_protect_effective (cr_cred_protect record)\<rparr>"

definition zf_store_record_format_load_index_with_buffer ::
  "'w hal \<Rightarrow> path \<Rightarrow> bytes \<Rightarrow> 'w \<Rightarrow> ZfCredentialIndexEntry option \<times> 'w" where
  "zf_store_record_format_load_index_with_buffer hal file_name buffer w =
    (if length buffer = 0 then (None, w)
     else case zf_storage_read_file hal (zf_store_build_record_path file_name 128) (length buffer) w of
         (None, w) \<Rightarrow> (None, w)
       | (Some data, w) \<Rightarrow>
          (case zf_record_decode hal data file_name w of
             (None, w) \<Rightarrow> (None, w)
           | (Some (record, embedded), w) \<Rightarrow>
              (case zf_store_counter_floor_validate_index hal file_name
                  (zf_store_index_entry_from_record record) embedded w of
                 (None, w) \<Rightarrow> (None, w)
               | (Some (entry, high_water), w) \<Rightarrow>
                  (Some (entry\<lparr>ie_counter_high_water := high_water\<rparr>), w))))"

definition zf_store_record_format_write_record_with_buffer ::
  "'w hal \<Rightarrow> ZfCredentialRecord \<Rightarrow> bytes \<Rightarrow> 'w \<Rightarrow> bool \<times> 'w" where
  "zf_store_record_format_write_record_with_buffer hal record buffer w =
    (if length buffer < ZF_STORE_RECORD_MAX_SIZE then (False, w)
     else case zf_store_record_format_encode hal record buffer w of
         (None, w) \<Rightarrow> (False, w)
       | (Some encoded, w) \<Rightarrow>
          zf_storage_write_file_atomic hal (zf_store_build_record_path (cr_file_name record) 128)
            (zf_store_build_temp_path (cr_file_name record) 128) encoded w)"

definition zf_store_record_format_reserve_counter_with_buffer ::
  "'w hal \<Rightarrow> ZfCredentialRecord \<Rightarrow> bytes \<Rightarrow> 'w \<Rightarrow> u32 option \<times> 'w" where
  "zf_store_record_format_reserve_counter_with_buffer hal record buffer w =
    (if length buffer < ZF_STORE_RECORD_MAX_SIZE then (None, w)
     else let high_water = zf_counter_reserved_high_water (cr_sign_count record) in
       case zf_store_counter_floor_write_value hal record high_water w of
         (False, w) \<Rightarrow> (None, w)
       | (True, w) \<Rightarrow>
          (case zf_store_record_format_write_record_with_buffer hal
              (record\<lparr>cr_sign_count := high_water\<rparr>) buffer w of
             (False, w) \<Rightarrow> (None, w)
           | (True, w) \<Rightarrow> (Some high_water, w)))"

definition zf_store_record_format_reserve_counter ::
  "'w hal \<Rightarrow> ZfCredentialRecord \<Rightarrow> 'w \<Rightarrow> u32 option \<times> 'w" where
  "zf_store_record_format_reserve_counter hal record w =
    zf_store_record_format_reserve_counter_with_buffer hal record (replicate ZF_STORE_RECORD_MAX_SIZE 0) w"

end
