(* ===== verification/Store.thy ===== *)
theory Store
  imports Store_Record
begin

text \<open>
  The credential store: the index in memory and its operations (\<^verbatim>\<open>zerofido_store.c\<close>), the recovery
  of interrupted file replacements at start-up (\<^verbatim>\<open>store/recovery.c\<close>) and the rebuilding of the index
  from the record files (\<^verbatim>\<open>store/bootstrap.c\<close>). The array behind \<open>records\<close> is \<open>None\<close> for the
  null pointer and otherwise a list as long as the allocated array; entries at \<open>count\<close> and beyond are
  never read before they are overwritten. Whether \<^verbatim>\<open>realloc\<close> can deliver an array of \<open>n\<close>
  entries is the parameter \<open>heap\<close>, the clock the parameter \<open>rtc\<close>.
\<close>

record ZfCredentialStore =
  cs_records :: "ZfCredentialIndexEntry list option"
  cs_count :: nat
  cs_capacity :: nat

datatype ZfStoreDeleteResult = ZfStoreDeleteOk | ZfStoreDeleteNotFound | ZfStoreDeleteRemoveFailed

section \<open>Index\<close>

definition zf_store_index_entry_file_name :: "ZfCredentialIndexEntry \<Rightarrow> path" where
  "zf_store_index_entry_file_name entry = zf_store_record_format_hex_encode (ie_credential_id entry)"

definition zf_store_rp_matcher_init :: "bytes \<Rightarrow> bytes" where
  "zf_store_rp_matcher_init rp_id = zf_crypto_sha256 rp_id"

definition zf_store_index_entry_rp_hash_matches :: "ZfCredentialIndexEntry \<Rightarrow> bytes \<Rightarrow> bool" where
  "zf_store_index_entry_rp_hash_matches entry matcher =
    zf_crypto_constant_time_equal (ie_rp_id_hash entry) matcher"

definition zf_store_index_entry_matches_rp :: "ZfCredentialIndexEntry \<Rightarrow> bytes \<Rightarrow> bool" where
  "zf_store_index_entry_matches_rp entry matcher = zf_store_index_entry_rp_hash_matches entry matcher"

definition zf_store_index_is_newer :: "ZfCredentialIndexEntry \<Rightarrow> ZfCredentialIndexEntry \<Rightarrow> bool" where
  "zf_store_index_is_newer candidate other =
    (if ie_created_at candidate \<noteq> ie_created_at other then ie_created_at candidate > ie_created_at other
     else memcmp_less (ie_credential_id other) (ie_credential_id candidate))"

text \<open>The loop that shifts older indices up, from the end of the output array.\<close>

fun shift_older :: "(nat \<Rightarrow> bool) \<Rightarrow> nat \<Rightarrow> nat list \<Rightarrow> nat list" where
  "shift_older newer_than index [] = [index]"
| "shift_older newer_than index (j # js) =
    (if newer_than j then j # shift_older newer_than index js else index # j # js)"

definition zf_store_insert_sorted_index ::
  "nat list \<Rightarrow> nat \<Rightarrow> ZfCredentialIndexEntry list \<Rightarrow> nat \<Rightarrow> nat \<Rightarrow> nat list" where
  "zf_store_insert_sorted_index out max_out records count index =
    (if length out \<ge> max_out \<or> index \<ge> count then out
     else rev (shift_older (\<lambda>j. zf_store_index_is_newer (records ! index) (records ! j)) index (rev out)))"

definition zf_store_compact_after_delete :: "ZfCredentialStore \<Rightarrow> nat \<Rightarrow> ZfCredentialStore" where
  "zf_store_compact_after_delete store index =
    store\<lparr>cs_records := map_option (\<lambda>xs. take index xs @ take (cs_count store - 1 - index) (drop (index + 1) xs) @
        zero_entry # drop (cs_count store) xs) (cs_records store),
      cs_count := cs_count store - 1\<rparr>"

definition zf_store_effective_capacity :: "ZfCredentialStore \<Rightarrow> nat" where
  "zf_store_effective_capacity store =
    (if cs_records store = None then 0
     else if cs_capacity store > 0 then cs_capacity store else ZF_MAX_CREDENTIALS)"

text \<open>\<open>while (new_capacity < min_capacity && new_capacity < ZF_MAX_CREDENTIALS) new_capacity *= 2\<close>\<close>

function grow_capacity :: "nat \<Rightarrow> nat \<Rightarrow> nat" where
  "grow_capacity min_capacity new_capacity =
    (if 0 < new_capacity \<and> new_capacity < min_capacity \<and> new_capacity < ZF_MAX_CREDENTIALS
     then grow_capacity min_capacity (new_capacity * 2) else new_capacity)"
  by auto
termination by (relation "measure (\<lambda>(m, n). m - n)") auto

declare grow_capacity.simps [simp del]

definition zf_store_ensure_capacity ::
  "(nat \<Rightarrow> bool) \<Rightarrow> ZfCredentialStore \<Rightarrow> nat \<Rightarrow> bool \<times> ZfCredentialStore" where
  "zf_store_ensure_capacity heap store min_capacity =
    (let old_capacity = zf_store_effective_capacity store in
     if min_capacity > ZF_MAX_CREDENTIALS then (False, store)
     else if old_capacity > ZF_MAX_CREDENTIALS then (False, store)
     else if min_capacity \<le> old_capacity then (True, store)
     else if cs_records store \<noteq> None \<and> cs_capacity store = 0 then (False, store)
     else let new_capacity = min ZF_MAX_CREDENTIALS
                (grow_capacity min_capacity (if old_capacity > 0 then old_capacity else 1))
          in if new_capacity < min_capacity then (False, store)
             else if \<not> heap new_capacity then (False, store)
             else (True, store\<lparr>
               cs_records := Some ((case cs_records store of None \<Rightarrow> [] | Some xs \<Rightarrow> xs) @
                 replicate (new_capacity - old_capacity) zero_entry),
               cs_capacity := new_capacity\<rparr>))"

definition zf_store_clear :: "ZfCredentialStore \<Rightarrow> ZfCredentialStore" where
  "zf_store_clear store =
    store\<lparr>cs_records := map_option (\<lambda>_. replicate (zf_store_effective_capacity store) zero_entry)
        (cs_records store),
      cs_count := 0\<rparr>"

definition zf_store_deinit :: "ZfCredentialStore \<Rightarrow> ZfCredentialStore" where
  "zf_store_deinit store = zf_store_clear store"

text \<open>The entries in use by the index, and the first of them that satisfies a test.\<close>

definition cs_entries :: "ZfCredentialStore \<Rightarrow> ZfCredentialIndexEntry list" where
  "cs_entries store = (case cs_records store of None \<Rightarrow> [] | Some xs \<Rightarrow> take (cs_count store) xs)"

fun first_index :: "('a \<Rightarrow> bool) \<Rightarrow> 'a list \<Rightarrow> nat option" where
  "first_index P [] = None"
| "first_index P (x # xs) = (if P x then Some 0 else map_option Suc (first_index P xs))"

definition entry_has_id :: "bytes \<Rightarrow> ZfCredentialIndexEntry \<Rightarrow> bool" where
  "entry_has_id credential_id entry \<longleftrightarrow> ie_in_use entry \<and> ie_credential_id entry = credential_id"

definition cs_put :: "ZfCredentialStore \<Rightarrow> nat \<Rightarrow> ZfCredentialIndexEntry \<Rightarrow> ZfCredentialStore" where
  "cs_put store i entry = store\<lparr>cs_records := map_option (\<lambda>xs. xs[i := entry]) (cs_records store)\<rparr>"

definition zf_store_find_index_by_id :: "ZfCredentialStore \<Rightarrow> bytes \<Rightarrow> nat option" where
  "zf_store_find_index_by_id store credential_id = first_index (entry_has_id credential_id) (cs_entries store)"

definition zf_store_count_saved :: "ZfCredentialStore \<Rightarrow> nat" where
  "zf_store_count_saved store = length (filter ie_in_use (cs_entries store))"

definition zf_store_count_resident :: "ZfCredentialStore \<Rightarrow> nat" where
  "zf_store_count_resident store =
    length (filter (\<lambda>e. ie_in_use e \<and> ie_resident_key e) (cs_entries store))"

text \<open>The loop over the index shared by both lookups.\<close>

definition collect_sorted ::
  "(ZfCredentialIndexEntry \<Rightarrow> bool) \<Rightarrow> ZfCredentialStore \<Rightarrow> nat \<Rightarrow> nat list" where
  "collect_sorted selected store max_out =
    (case cs_records store of
       None \<Rightarrow> []
     | Some xs \<Rightarrow>
        foldl (\<lambda>out i. if selected (xs ! i)
                 then zf_store_insert_sorted_index out max_out xs (cs_count store) i else out)
          [] [0..<cs_count store])"

definition zf_store_find_by_rp :: "ZfCredentialStore \<Rightarrow> bytes \<Rightarrow> nat \<Rightarrow> nat list" where
  "zf_store_find_by_rp store rp_id max_out =
    (let matcher = zf_store_rp_matcher_init rp_id in
     collect_sorted (\<lambda>e. ie_in_use e \<and> ie_resident_key e \<and> zf_store_index_entry_matches_rp e matcher)
       store max_out)"

definition zf_store_find_by_rp_filtered ::
  "ZfCredentialStore \<Rightarrow> bytes \<Rightarrow> (ZfCredentialIndexEntry \<Rightarrow> bool) option \<Rightarrow> nat \<Rightarrow> nat list" where
  "zf_store_find_by_rp_filtered store rp_id filter_fn max_out =
    (let matcher = zf_store_rp_matcher_init rp_id in
     collect_sorted (\<lambda>e. ie_in_use e \<and> zf_store_index_entry_matches_rp e matcher \<and>
       (case filter_fn of None \<Rightarrow> True | Some f \<Rightarrow> f e)) store max_out)"

section \<open>Recovery of record files\<close>

definition zf_store_recovery_record_primary_is_valid :: "'w hal \<Rightarrow> bytes \<Rightarrow> path \<Rightarrow> 'w \<Rightarrow> bool \<times> 'w" where
  "zf_store_recovery_record_primary_is_valid hal buffer file_name w =
    (if length buffer = 0 then (False, w)
     else case zf_store_record_format_load_index_with_buffer hal file_name buffer w of
         (r, w) \<Rightarrow> (r \<noteq> None, w))"

definition zf_store_recovery_recover_record_backup ::
  "'w hal \<Rightarrow> bytes \<Rightarrow> path \<Rightarrow> path \<Rightarrow> 'w \<Rightarrow> bool \<times> 'w" where
  "zf_store_recovery_recover_record_backup hal buffer file_name backup_path w =
    (case zf_storage_build_child_path ZF_APP_DATA_DIR file_name 128 of
       None \<Rightarrow> (False, w)
     | Some record_path \<Rightarrow>
        (case (if fs_exists hal record_path w
               then zf_store_recovery_record_primary_is_valid hal buffer file_name w else (False, w)) of
           (True, w) \<Rightarrow> zf_storage_remove_optional hal backup_path w
         | (False, w) \<Rightarrow>
            and_then (zf_storage_remove_optional hal record_path w) (\<lambda>w.
              let r = fs_rename hal backup_path record_path w in (fst r = FSE_OK, snd r))))"

definition zf_store_recovery_recover_counter_backup :: "'w hal \<Rightarrow> path \<Rightarrow> 'w \<Rightarrow> bool \<times> 'w" where
  "zf_store_recovery_recover_counter_backup hal file_name w =
    zf_storage_recover_atomic_file hal (zf_store_build_counter_floor_path file_name 160)
      (zf_store_build_counter_floor_temp_path file_name 160) w"

definition zf_store_recovery_cleanup_visitor ::
  "'w hal \<Rightarrow> bytes \<Rightarrow> path \<Rightarrow> bool \<Rightarrow> 'w \<Rightarrow> bool \<times> 'w" where
  "zf_store_recovery_cleanup_visitor hal buffer name is_dir w =
    (if is_dir \<or> \<not> zf_store_has_suffix name ''.bak'' then (True, w)
     else let base_len = length name - 4; file_name = take base_len name in
       if base_len = 0 \<or> base_len \<ge> 96 then (True, w)
       else case zf_storage_build_child_path ZF_APP_DATA_DIR name 128 of
           None \<Rightarrow> (False, w)
         | Some backup_path \<Rightarrow>
            if zf_store_record_format_is_record_name file_name
            then zf_store_recovery_recover_record_backup hal buffer file_name backup_path w
            else if zf_store_has_suffix file_name ''.counter'' then
              (let record_name = take (length file_name - length ''.counter'') file_name in
               if record_name \<noteq> [] \<and> zf_store_record_format_is_record_name record_name
               then zf_store_recovery_recover_counter_backup hal record_name w
               else (True, w))
            else (True, w))"

definition zf_store_recovery_cleanup_temp_files_with_buffer :: "'w hal \<Rightarrow> bytes \<Rightarrow> 'w \<Rightarrow> 'w" where
  "zf_store_recovery_cleanup_temp_files_with_buffer hal buffer w =
    (let w = snd (zf_storage_remove_dir_entries_with_suffix hal ZF_APP_DATA_DIR ''.tmp'' 96 128 w)
     in snd (zf_storage_for_each_dir_entry hal ZF_APP_DATA_DIR 96
          (zf_store_recovery_cleanup_visitor hal buffer) w))"

definition zf_store_recovery_cleanup_temp_files :: "'w hal \<Rightarrow> 'w \<Rightarrow> 'w" where
  "zf_store_recovery_cleanup_temp_files hal w =
    zf_store_recovery_cleanup_temp_files_with_buffer hal (replicate ZF_STORE_RECORD_MAX_SIZE 0) w"

definition zf_store_recovery_remove_record_paths :: "'w hal \<Rightarrow> path \<Rightarrow> 'w \<Rightarrow> bool \<times> 'w" where
  "zf_store_recovery_remove_record_paths hal file_name w =
    and_then (zf_storage_remove_atomic_file hal (zf_store_build_record_path file_name 128)
        (zf_store_build_temp_path file_name 128) w)
      (zf_storage_remove_atomic_file hal (zf_store_build_counter_floor_path file_name 160)
        (zf_store_build_counter_floor_temp_path file_name 160))"

section \<open>Start-up\<close>

definition zf_store_bootstrap_ensure_app_data_dir :: "'w hal \<Rightarrow> 'w \<Rightarrow> bool \<times> 'w" where
  "zf_store_bootstrap_ensure_app_data_dir hal w = zf_storage_ensure_app_data_dir hal w"

definition zf_store_bootstrap_index_visitor ::
  "(nat \<Rightarrow> bool) \<Rightarrow> 'w hal \<Rightarrow> bytes \<Rightarrow> path \<Rightarrow> bool \<Rightarrow> ZfCredentialStore \<times> 'w \<Rightarrow>
    bool \<times> ZfCredentialStore \<times> 'w" where
  "zf_store_bootstrap_index_visitor heap hal buffer name is_dir sw =
    (case sw of (store, w) \<Rightarrow>
     if is_dir \<or> \<not> zf_store_record_format_is_record_name name then (True, store, w)
     else if cs_count store \<ge> ZF_MAX_CREDENTIALS then (True, store, w)
     else case zf_store_ensure_capacity heap store (cs_count store + 1) of
         (False, store) \<Rightarrow> (False, store, w)
       | (True, store) \<Rightarrow>
          (case zf_store_record_format_load_index_with_buffer hal name buffer w of
             (None, w) \<Rightarrow> (True, store, w)
           | (Some entry, w) \<Rightarrow>
              (True, (cs_put store (cs_count store) entry)\<lparr>cs_count := cs_count store + 1\<rparr>, w)))"

text \<open>\<^verbatim>\<open>zf_storage_for_each_dir_entry\<close> with a visitor that also changes the store.\<close>

definition zf_store_bootstrap_init_with_buffer ::
  "(nat \<Rightarrow> bool) \<Rightarrow> 'w hal \<Rightarrow> ZfCredentialStore \<Rightarrow> bytes \<Rightarrow> 'w \<Rightarrow> bool \<times> ZfCredentialStore \<times> 'w" where
  "zf_store_bootstrap_init_with_buffer heap hal store buffer w =
    (if length buffer < ZF_STORE_RECORD_MAX_SIZE then (False, store, w)
     else let store = zf_store_clear store in
       case zf_store_bootstrap_ensure_app_data_dir hal w of
         (False, w) \<Rightarrow> (False, store, w)
       | (True, w) \<Rightarrow>
          let w = zf_store_recovery_cleanup_temp_files_with_buffer hal buffer w in
          (case fs_dir hal ZF_APP_DATA_DIR w of
             None \<Rightarrow> (False, store, w)
           | Some entries \<Rightarrow>
              visit_entries (zf_store_bootstrap_index_visitor heap hal buffer) 96 entries (store, w)))"

definition zf_store_init_with_buffer ::
  "(nat \<Rightarrow> bool) \<Rightarrow> 'w hal \<Rightarrow> ZfCredentialStore \<Rightarrow> bytes \<Rightarrow> 'w \<Rightarrow> bool \<times> ZfCredentialStore \<times> 'w" where
  "zf_store_init_with_buffer heap hal store buffer w =
    (if length buffer < ZF_STORE_RECORD_IO_SIZE then (False, store, w)
     else zf_store_bootstrap_init_with_buffer heap hal store buffer w)"

definition zf_store_bootstrap_wipe_visitor :: "'w hal \<Rightarrow> path \<Rightarrow> bool \<Rightarrow> 'w \<Rightarrow> bool \<times> 'w" where
  "zf_store_bootstrap_wipe_visitor hal name is_dir w =
    (if is_dir then (True, w)
     else case zf_storage_build_child_path ZF_APP_DATA_DIR name 128 of
         None \<Rightarrow> (False, w)
       | Some p \<Rightarrow> zf_storage_remove_optional hal p w)"

definition wipe_pin_paths :: "path list" where
  "wipe_pin_paths = map (\<lambda>name. ZF_APP_DATA_DIR @ name)
    [''/client_pin.bin'', ''/client_pin.tmp'', ''/client_pin_v2.bin'', ''/client_pin_v2.tmp'']"

definition zf_store_bootstrap_wipe_app_data :: "'w hal \<Rightarrow> 'w \<Rightarrow> bool \<times> 'w" where
  "zf_store_bootstrap_wipe_app_data hal w =
    and_then (zf_store_bootstrap_ensure_app_data_dir hal w) (\<lambda>w.
    and_then (zf_storage_remove_optional_paths hal wipe_pin_paths w) (\<lambda>w.
    zf_storage_for_each_dir_entry hal ZF_APP_DATA_DIR 96 (zf_store_bootstrap_wipe_visitor hal) w))"

definition zf_store_wipe_app_data :: "'w hal \<Rightarrow> 'w \<Rightarrow> bool \<times> 'w" where
  "zf_store_wipe_app_data hal w = zf_store_bootstrap_wipe_app_data hal w"

section \<open>Creation and update\<close>

definition zf_store_prepare_credential ::
  "('w \<Rightarrow> u32) \<Rightarrow> 'w hal \<Rightarrow> bytes \<Rightarrow> bytes \<Rightarrow> bytes option \<Rightarrow> bytes option \<Rightarrow> bool \<Rightarrow> 'w \<Rightarrow>
    ZfCredentialRecord option \<times> 'w" where
  "zf_store_prepare_credential rtc hal rp_id user_id user_name user_display_name resident_key w =
    (if length user_id > ZF_MAX_USER_ID_LEN then (None, w)
     else case random_fill hal ZF_CREDENTIAL_ID_LEN w of (credential_id, w) \<Rightarrow>
       (case random_fill hal ZF_HMAC_SECRET_LEN w of (without_uv, w') \<Rightarrow>
        (case random_fill hal ZF_HMAC_SECRET_LEN w' of (with_uv, w') \<Rightarrow>
          (Some (zero_record\<lparr>cr_credential_id := credential_id,
             cr_storage_version := ZF_STORE_FORMAT_VERSION,
             cr_file_name := zf_store_record_format_hex_encode credential_id,
             cr_rp_id := take (ZF_MAX_RP_ID_LEN - 1) rp_id, cr_user_id := user_id,
             cr_user_name := (case user_name of None \<Rightarrow> [] | Some n \<Rightarrow> take (ZF_MAX_USER_NAME_LEN - 1) n),
             cr_user_display_name :=
               (case user_display_name of None \<Rightarrow> [] | Some n \<Rightarrow> take (ZF_MAX_DISPLAY_NAME_LEN - 1) n),
             cr_created_at := rtc w, cr_resident_key := resident_key, cr_cred_protect := 1,
             cr_hmac_secret := True, cr_hmac_secret_without_uv := without_uv,
             cr_hmac_secret_with_uv := with_uv, cr_in_use := True\<rparr>), w'))))"

definition zf_store_publish_added_record ::
  "(nat \<Rightarrow> bool) \<Rightarrow> ZfCredentialStore \<Rightarrow> ZfCredentialRecord \<Rightarrow> bool \<times> ZfCredentialStore" where
  "zf_store_publish_added_record heap store record =
    (if cs_count store \<ge> ZF_MAX_CREDENTIALS then (False, store)
     else case zf_store_ensure_capacity heap store (cs_count store + 1) of
         (False, store) \<Rightarrow> (False, store)
       | (True, store) \<Rightarrow>
          (True, (cs_put store (cs_count store) (zf_store_index_entry_from_record record))
            \<lparr>cs_count := cs_count store + 1\<rparr>))"

definition zf_store_add_record_with_buffer ::
  "(nat \<Rightarrow> bool) \<Rightarrow> 'w hal \<Rightarrow> ZfCredentialStore \<Rightarrow> ZfCredentialRecord \<Rightarrow> bytes \<Rightarrow> 'w \<Rightarrow>
    bool \<times> ZfCredentialStore \<times> 'w" where
  "zf_store_add_record_with_buffer heap hal store record buffer w =
    (if length buffer < ZF_STORE_RECORD_IO_SIZE \<or> cs_count store \<ge> ZF_MAX_CREDENTIALS then (False, store, w)
     else case zf_store_ensure_capacity heap store (cs_count store + 1) of
         (False, store) \<Rightarrow> (False, store, w)
       | (True, store) \<Rightarrow>
          (case zf_store_record_format_write_record_with_buffer hal record buffer w of
             (False, w) \<Rightarrow> (False, store, w)
           | (True, w) \<Rightarrow>
              (True, (cs_put store (cs_count store) (zf_store_index_entry_from_record record))
                \<lparr>cs_count := cs_count store + 1\<rparr>, w)))"

definition zf_store_write_record_file_with_buffer ::
  "'w hal \<Rightarrow> ZfCredentialRecord \<Rightarrow> bytes \<Rightarrow> 'w \<Rightarrow> bool \<times> 'w" where
  "zf_store_write_record_file_with_buffer hal record buffer w =
    zf_store_record_format_write_record_with_buffer hal record buffer w"

definition zf_store_remove_record_file :: "'w hal \<Rightarrow> ZfCredentialRecord \<Rightarrow> 'w \<Rightarrow> bool \<times> 'w" where
  "zf_store_remove_record_file hal record w =
    (if \<not> cr_in_use record then (False, w)
     else zf_store_recovery_remove_record_paths hal
       (if cr_file_name record \<noteq> [] then take 64 (cr_file_name record)
        else zf_store_record_format_hex_encode (cr_credential_id record)) w)"

definition zf_store_update_record_with_buffer ::
  "'w hal \<Rightarrow> ZfCredentialStore \<Rightarrow> ZfCredentialRecord \<Rightarrow> bytes \<Rightarrow> 'w \<Rightarrow> bool \<times> ZfCredentialStore \<times> 'w" where
  "zf_store_update_record_with_buffer hal store record buffer w =
    (if length buffer < ZF_STORE_RECORD_IO_SIZE then (False, store, w)
     else case first_index (entry_has_id (cr_credential_id record)) (cs_entries store) of
         None \<Rightarrow> (False, store, w)
       | Some i \<Rightarrow>
          let entry = cs_entries store ! i in
          if cr_sign_count record < ie_sign_count entry then (False, store, w)
          else case (if cr_sign_count record > ie_counter_high_water entry
                     then zf_store_record_format_reserve_counter_with_buffer hal record buffer w
                     else (Some (ie_counter_high_water entry), w)) of
              (None, w) \<Rightarrow> (False, store, w)
            | (Some high_water, w) \<Rightarrow>
               (case zf_store_record_format_write_record_with_buffer hal
                   (if high_water > cr_sign_count record then record\<lparr>cr_sign_count := high_water\<rparr> else record)
                   buffer w of
                  (False, w) \<Rightarrow> (False, store, w)
                | (True, w) \<Rightarrow>
                   (True, cs_put store i
                     ((zf_store_index_entry_from_record record)\<lparr>ie_counter_high_water := high_water\<rparr>), w)))"

section \<open>Loading\<close>

definition zf_store_load_record_internal_with_buffer ::
  "('w hal \<Rightarrow> path \<Rightarrow> bytes \<Rightarrow> 'w \<Rightarrow> ZfCredentialRecord option \<times> 'w) \<Rightarrow> 'w hal \<Rightarrow>
    ZfCredentialIndexEntry \<Rightarrow> bytes \<Rightarrow> 'w \<Rightarrow> ZfCredentialRecord option \<times> 'w" where
  "zf_store_load_record_internal_with_buffer loader hal entry buffer w =
    (if \<not> ie_in_use entry \<or> length buffer < ZF_STORE_RECORD_IO_SIZE then (None, w)
     else loader hal (zf_store_index_entry_file_name entry) buffer w)"

definition zf_store_load_record_with_buffer ::
  "'w hal \<Rightarrow> ZfCredentialIndexEntry \<Rightarrow> bytes \<Rightarrow> 'w \<Rightarrow> ZfCredentialRecord option \<times> 'w" where
  "zf_store_load_record_with_buffer =
    zf_store_load_record_internal_with_buffer zf_store_record_format_load_record_with_buffer"

definition zf_store_load_record_for_display_with_buffer ::
  "'w hal \<Rightarrow> ZfCredentialIndexEntry \<Rightarrow> bytes \<Rightarrow> 'w \<Rightarrow> ZfCredentialRecord option \<times> 'w" where
  "zf_store_load_record_for_display_with_buffer =
    zf_store_load_record_internal_with_buffer zf_store_record_format_load_record_for_display_with_buffer"

definition zf_store_load_record_by_index_with_buffer ::
  "'w hal \<Rightarrow> ZfCredentialStore \<Rightarrow> nat \<Rightarrow> bytes \<Rightarrow> 'w \<Rightarrow> ZfCredentialRecord option \<times> 'w" where
  "zf_store_load_record_by_index_with_buffer hal store index buffer w =
    (if index \<ge> length (cs_entries store) then (None, w)
     else case zf_store_load_record_with_buffer hal (cs_entries store ! index) buffer w of
         (r, w) \<Rightarrow> (map_option (\<lambda>record.
           record\<lparr>cr_sign_count := ie_sign_count (cs_entries store ! index)\<rparr>) r, w))"

definition zf_store_load_record_by_index_for_rp_with_buffer ::
  "'w hal \<Rightarrow> ZfCredentialStore \<Rightarrow> nat \<Rightarrow> bytes \<Rightarrow> bytes \<Rightarrow> 'w \<Rightarrow> ZfCredentialRecord option \<times> 'w" where
  "zf_store_load_record_by_index_for_rp_with_buffer hal store index rp_id buffer w =
    (case zf_store_load_record_by_index_with_buffer hal store index buffer w of
       (None, w) \<Rightarrow> (None, w)
     | (Some record, w) \<Rightarrow> (if cr_rp_id record \<noteq> rp_id then None else Some record, w))"

section \<open>Counters\<close>

definition zf_store_prepare_counter_advance ::
  "'w hal \<Rightarrow> ZfCredentialIndexEntry \<Rightarrow> ZfCredentialRecord \<Rightarrow> bytes \<Rightarrow> 'w \<Rightarrow> u32 option \<times> 'w" where
  "zf_store_prepare_counter_advance hal entry record buffer w =
    (if length buffer < ZF_STORE_RECORD_IO_SIZE \<or> cr_sign_count record < ie_sign_count entry then (None, w)
     else if cr_sign_count record > ie_counter_high_water entry
     then zf_store_record_format_reserve_counter_with_buffer hal record buffer w
     else (Some (ie_counter_high_water entry), w))"

definition zf_store_publish_counter_advance ::
  "ZfCredentialStore \<Rightarrow> ZfCredentialRecord \<Rightarrow> u32 \<Rightarrow> bool \<times> ZfCredentialStore" where
  "zf_store_publish_counter_advance store record counter_high_water =
    (if counter_high_water < cr_sign_count record then (False, store)
     else case first_index (entry_has_id (cr_credential_id record)) (cs_entries store) of
         None \<Rightarrow> (False, store)
       | Some i \<Rightarrow>
          let entry = cs_entries store ! i in
          if cr_sign_count record < ie_sign_count entry then (False, store)
          else (True, cs_put store i
            ((if cr_sign_count record > ie_counter_high_water entry
              then entry\<lparr>ie_counter_high_water := counter_high_water\<rparr> else entry)
             \<lparr>ie_sign_count := cr_sign_count record\<rparr>)))"

definition zf_store_advance_counter ::
  "'w hal \<Rightarrow> ZfCredentialStore \<Rightarrow> ZfCredentialRecord \<Rightarrow> 'w \<Rightarrow> bool \<times> ZfCredentialStore \<times> 'w" where
  "zf_store_advance_counter hal store record w =
    (case first_index (entry_has_id (cr_credential_id record)) (cs_entries store) of
       None \<Rightarrow> (False, store, w)
     | Some i \<Rightarrow>
        (case zf_store_prepare_counter_advance hal (cs_entries store ! i) record
            (replicate ZF_STORE_RECORD_IO_SIZE 0) w of
           (None, w) \<Rightarrow> (False, store, w)
         | (Some high_water, w) \<Rightarrow>
            (case zf_store_publish_counter_advance store record high_water of
               (ok, store) \<Rightarrow> (ok, store, w))))"

section \<open>Deletion\<close>

definition record_of_user :: "bytes \<Rightarrow> bytes \<Rightarrow> ZfCredentialRecord \<Rightarrow> bool" where
  "record_of_user rp_id user_id record \<longleftrightarrow> cr_rp_id record = rp_id \<and> cr_user_id record = user_id"

text \<open>Whether entry \<open>i\<close> is a resident credential of the user, from the index and then its record.\<close>

definition resident_of_user ::
  "'w hal \<Rightarrow> bytes \<Rightarrow> bytes \<Rightarrow> bytes \<Rightarrow> ZfCredentialIndexEntry \<Rightarrow> 'w \<Rightarrow> bool \<times> 'w" where
  "resident_of_user hal rp_id user_id buffer entry w =
    (if \<not> ie_in_use entry \<or> \<not> ie_resident_key entry \<or>
        \<not> zf_store_index_entry_rp_hash_matches entry (zf_store_rp_matcher_init rp_id) then (False, w)
     else case zf_store_load_record_with_buffer hal entry buffer w of
         (None, w) \<Rightarrow> (False, w)
       | (Some record, w) \<Rightarrow> (record_of_user rp_id user_id record, w))"

function delete_residents ::
  "'w hal \<Rightarrow> bytes \<Rightarrow> bytes \<Rightarrow> bytes \<Rightarrow> nat \<Rightarrow> nat \<Rightarrow> ZfCredentialStore \<Rightarrow> 'w \<Rightarrow>
    (bool \<times> nat option) \<times> ZfCredentialStore \<times> 'w" where
  "delete_residents hal rp_id user_id buffer i removed store w =
    (if i \<ge> cs_count store then ((True, Some removed), store, w)
     else case resident_of_user hal rp_id user_id buffer (the (cs_records store) ! i) w of
         (False, w) \<Rightarrow> delete_residents hal rp_id user_id buffer (i + 1) removed store w
       | (True, w) \<Rightarrow>
          (case zf_store_recovery_remove_record_paths hal
              (zf_store_index_entry_file_name (the (cs_records store) ! i)) w of
             (False, w) \<Rightarrow> ((False, None), store, w)
           | (True, w) \<Rightarrow>
              delete_residents hal rp_id user_id buffer i (removed + 1)
                (zf_store_compact_after_delete store i) w))"
  by pat_completeness auto
termination
  by (relation "measure (\<lambda>(hal, rp_id, user_id, buffer, i, removed, store, w). cs_count store - i)")
    (auto simp: zf_store_compact_after_delete_def)

declare delete_residents.simps [simp del]

text \<open>The second component is what \<open>deleted_count\<close> is set to, \<open>None\<close> when it is not written.\<close>

definition zf_store_delete_resident_credentials_for_user_with_buffer ::
  "'w hal \<Rightarrow> ZfCredentialStore \<Rightarrow> bytes \<Rightarrow> bytes \<Rightarrow> bytes \<Rightarrow> 'w \<Rightarrow>
    (bool \<times> nat option) \<times> ZfCredentialStore \<times> 'w" where
  "zf_store_delete_resident_credentials_for_user_with_buffer hal store rp_id user_id buffer w =
    (if cs_records store = None \<or> length buffer < ZF_STORE_RECORD_IO_SIZE
     then ((cs_records store = None, Some 0), store, w)
     else delete_residents hal rp_id user_id buffer 0 0 store w)"

fun find_residents ::
  "'w hal \<Rightarrow> bytes \<Rightarrow> bytes \<Rightarrow> nat \<Rightarrow> bytes \<Rightarrow> (nat \<times> ZfCredentialIndexEntry) list \<Rightarrow> nat list \<Rightarrow> 'w \<Rightarrow>
    (bool \<times> nat list) \<times> 'w" where
  "find_residents hal rp_id user_id max_deleted buffer [] found w = ((True, found), w)"
| "find_residents hal rp_id user_id max_deleted buffer ((i, entry) # rest) found w =
    (case resident_of_user hal rp_id user_id buffer entry w of
       (False, w) \<Rightarrow> find_residents hal rp_id user_id max_deleted buffer rest found w
     | (True, w) \<Rightarrow>
        if length found \<ge> max_deleted then ((False, found), w)
        else find_residents hal rp_id user_id max_deleted buffer rest (found @ [i]) w)"

definition zf_store_find_resident_credential_indices_for_user_with_buffer ::
  "'w hal \<Rightarrow> ZfCredentialStore \<Rightarrow> bytes \<Rightarrow> bytes \<Rightarrow> nat \<Rightarrow> bytes \<Rightarrow> 'w \<Rightarrow> (bool \<times> nat list) \<times> 'w" where
  "zf_store_find_resident_credential_indices_for_user_with_buffer hal store rp_id user_id max_deleted
      buffer w =
    (if cs_records store = None \<or> max_deleted = 0 then ((True, []), w)
     else if length buffer < ZF_STORE_RECORD_IO_SIZE then ((False, []), w)
     else find_residents hal rp_id user_id max_deleted buffer
       (zip [0..<cs_count store] (cs_entries store)) [] w)"

text \<open>The natural number is \<open>removed_count\<close>.\<close>

fun remove_files :: "'w hal \<Rightarrow> ZfCredentialStore \<Rightarrow> nat list \<Rightarrow> nat \<Rightarrow> 'w \<Rightarrow> (bool \<times> nat) \<times> 'w" where
  "remove_files hal store [] removed w = ((True, removed), w)"
| "remove_files hal store (index # rest) removed w =
    (if index \<ge> cs_count store \<or> \<not> ie_in_use (the (cs_records store) ! index) then ((False, removed), w)
     else case zf_store_recovery_remove_record_paths hal
         (zf_store_index_entry_file_name (the (cs_records store) ! index)) w of
         (False, w) \<Rightarrow> ((False, removed), w)
       | (True, w) \<Rightarrow> remove_files hal store rest (removed + 1) w)"

definition zf_store_remove_credential_files_by_indices ::
  "'w hal \<Rightarrow> ZfCredentialStore \<Rightarrow> nat list \<Rightarrow> 'w \<Rightarrow> (bool \<times> nat) \<times> 'w" where
  "zf_store_remove_credential_files_by_indices hal store deleted_indices w =
    (if cs_records store = None then ((deleted_indices = [], 0), w)
     else remove_files hal store deleted_indices 0 w)"

definition zf_store_remove_resident_credential_files_for_user_with_buffer ::
  "'w hal \<Rightarrow> ZfCredentialStore \<Rightarrow> bytes \<Rightarrow> bytes \<Rightarrow> nat \<Rightarrow> bytes \<Rightarrow> 'w \<Rightarrow>
    (bool \<times> nat list \<times> nat) \<times> 'w" where
  "zf_store_remove_resident_credential_files_for_user_with_buffer hal store rp_id user_id max_deleted
      buffer w =
    (case zf_store_find_resident_credential_indices_for_user_with_buffer hal store rp_id user_id
        max_deleted buffer w of
       ((False, found), w) \<Rightarrow> ((False, found, length found), w)
     | ((True, found), w) \<Rightarrow>
        (case zf_store_remove_credential_files_by_indices hal store found w of
           ((ok, removed), w) \<Rightarrow> ((ok, found, removed), w)))"

definition zf_store_publish_deleted_indices :: "ZfCredentialStore \<Rightarrow> nat list \<Rightarrow> ZfCredentialStore" where
  "zf_store_publish_deleted_indices store deleted_indices =
    (if cs_records store = None then store
     else foldl (\<lambda>store index. if index < cs_count store
            then zf_store_compact_after_delete store index else store) store (rev deleted_indices))"

definition zf_store_delete_record ::
  "'w hal \<Rightarrow> ZfCredentialStore \<Rightarrow> bytes \<Rightarrow> 'w \<Rightarrow> ZfStoreDeleteResult \<times> ZfCredentialStore \<times> 'w" where
  "zf_store_delete_record hal store credential_id w =
    (case first_index (entry_has_id credential_id) (cs_entries store) of
       None \<Rightarrow> (ZfStoreDeleteNotFound, store, w)
     | Some i \<Rightarrow>
        (case zf_store_recovery_remove_record_paths hal
            (zf_store_index_entry_file_name (cs_entries store ! i)) w of
           (False, w) \<Rightarrow> (ZfStoreDeleteRemoveFailed, store, w)
         | (True, w) \<Rightarrow> (ZfStoreDeleteOk, zf_store_compact_after_delete store i, w)))"

section \<open>Matching\<close>

text \<open>\<open>has_storage\<close> tells whether the caller passed a storage handle.\<close>

fun any_match ::
  "'w hal \<Rightarrow> bool \<Rightarrow> bytes \<Rightarrow> (ZfCredentialIndexEntry \<Rightarrow> bool) option \<Rightarrow> bytes \<Rightarrow>
    ZfCredentialIndexEntry list \<Rightarrow> 'w \<Rightarrow> bool \<times> 'w" where
  "any_match hal has_storage rp_id filter_fn buffer [] w = (False, w)"
| "any_match hal has_storage rp_id filter_fn buffer (entry # rest) w =
    (if \<not> ie_in_use entry \<or> \<not> zf_store_index_entry_matches_rp entry (zf_store_rp_matcher_init rp_id) \<or>
        (case filter_fn of None \<Rightarrow> False | Some f \<Rightarrow> \<not> f entry)
     then any_match hal has_storage rp_id filter_fn buffer rest w
     else if \<not> has_storage then (True, w)
     else case zf_store_load_record_with_buffer hal entry buffer w of
         (Some record, w) \<Rightarrow>
           if cr_rp_id record \<noteq> rp_id then any_match hal has_storage rp_id filter_fn buffer rest w
           else (True, w)
       | (None, w) \<Rightarrow> (True, w))"

definition zf_store_has_matching_credential_with_buffer ::
  "'w hal \<Rightarrow> bool \<Rightarrow> ZfCredentialStore \<Rightarrow> bytes \<Rightarrow> (ZfCredentialIndexEntry \<Rightarrow> bool) option \<Rightarrow> bytes \<Rightarrow>
    'w \<Rightarrow> bool \<times> 'w" where
  "zf_store_has_matching_credential_with_buffer hal has_storage store rp_id filter_fn buffer w =
    (if cs_records store = None \<or> has_storage \<and> length buffer < ZF_STORE_RECORD_IO_SIZE then (False, w)
     else any_match hal has_storage rp_id filter_fn buffer (cs_entries store) w)"

end
