(* ===== verification/Store_Record_Exact.thy ===== *)
theory Store_Record_Exact
  imports Store
begin

text \<open>
  What a credential record file holds. \<open>record_image\<close> is the CBOR text of a record; the encoder writes
  exactly it and the decoder reads every well-formed record back from it. A counter floor seals its
  value for the credential it was made for. From these follow what is loaded after a record was written,
  and that a load never reports a counter below the one in the record.
\<close>

section \<open>The bytes of a record\<close>

definition record_body :: "ZfCredentialRecord \<Rightarrow> ZfCounterFloorFile \<Rightarrow> bytes" where
  "record_body r floor =
    cbor_uint 1 @ cbor_uint (ucast ZF_STORE_FORMAT_VERSION) @
    cbor_uint 2 @ cbor_bytes (cr_credential_id r) @ cbor_uint 3 @ cbor_text (cr_rp_id r) @
    cbor_uint 4 @ cbor_bytes (cr_user_id r) @ cbor_uint 5 @ cbor_text (cr_user_name r) @
    cbor_uint 6 @ cbor_text (cr_user_display_name r) @ cbor_uint 7 @ cbor_bytes (cr_public_x r) @
    cbor_uint 8 @ cbor_bytes (cr_public_y r) @ cbor_uint 9 @ cbor_bytes (cr_private_wrapped r) @
    cbor_uint 10 @ cbor_bytes (cr_private_iv r) @ cbor_uint 11 @ cbor_uint (ucast (cr_sign_count r)) @
    cbor_uint 12 @ cbor_uint (ucast (cr_created_at r)) @ cbor_uint 13 @ cbor_bool (cr_resident_key r) @
    cbor_uint 14 @ cbor_uint (ucast (zf_ctap_cred_protect_effective (cr_cred_protect r))) @
    cbor_uint 17 @ cbor_bytes (counter_floor_bytes floor)"

definition record_image :: "ZfCredentialRecord \<Rightarrow> nat \<Rightarrow> ZfCounterFloorFile \<Rightarrow> bytes" where
  "record_image r pairs floor = cbor_map pairs @ record_body r floor"

definition hmac_image :: "bytes \<Rightarrow> bytes \<Rightarrow> bytes" where
  "hmac_image wrapped iv = cbor_uint 15 @ cbor_bytes wrapped @ cbor_uint 16 @ cbor_bytes iv"

interpretation enc_record: cbor_emitter "encode_record_fields r pairs floor" "record_image r pairs floor"
  for r pairs floor
  unfolding encode_record_fields_def record_image_def record_body_def by (intro emitter_seq emitters)

interpretation enc_hmac: cbor_emitter "encode_hmac_fields wrapped iv" "hmac_image wrapped iv"
  for wrapped iv
  unfolding encode_hmac_fields_def hmac_image_def by (intro emitter_seq emitters)

interpretation enc_record_hmac: cbor_emitter
  "\<lambda>e. and_then (encode_record_fields r pairs floor e) (encode_hmac_fields wrapped iv)"
  "record_image r pairs floor @ hmac_image wrapped iv" for r pairs floor wrapped iv
  by (intro emitter_seq enc_record.cbor_emitter_axioms enc_hmac.cbor_emitter_axioms)

text \<open>A stored text: shorter than its array, without a terminator, valid UTF-8.\<close>

definition text_field :: "nat \<Rightarrow> bytes \<Rightarrow> bool" where
  "text_field n t \<longleftrightarrow> length t < n \<and> 0 \<notin> set t \<and> zf_cbor_utf8_is_valid t"

definition record_wf :: "ZfCredentialRecord \<Rightarrow> bool" where
  "record_wf r \<longleftrightarrow> cr_in_use r \<and> cr_storage_version r = ZF_STORE_FORMAT_VERSION \<and>
    length (cr_credential_id r) = ZF_CREDENTIAL_ID_LEN \<and>
    cr_file_name r = zf_store_record_format_hex_encode (cr_credential_id r) \<and>
    cr_rp_id r \<noteq> [] \<and> text_field ZF_MAX_RP_ID_LEN (cr_rp_id r) \<and>
    length (cr_user_id r) \<le> ZF_MAX_USER_ID_LEN \<and>
    text_field ZF_MAX_USER_NAME_LEN (cr_user_name r) \<and>
    text_field ZF_MAX_DISPLAY_NAME_LEN (cr_user_display_name r) \<and>
    length (cr_public_x r) = 32 \<and> length (cr_public_y r) = 32 \<and>
    length (cr_private_wrapped r) = 32 \<and> length (cr_private_iv r) = 16 \<and>
    cr_cred_protect r \<in> {1, 2, 3} \<and>
    length (cr_hmac_secret_without_uv r) = 32 \<and> length (cr_hmac_secret_with_uv r) = 32 \<and>
    (\<not> cr_hmac_secret r \<longrightarrow>
      cr_hmac_secret_without_uv r = replicate 32 0 \<and> cr_hmac_secret_with_uv r = replicate 32 0)"

lemma record_wf_sign_count [simp]: "record_wf (r\<lparr>cr_sign_count := n\<rparr>) = record_wf r"
  by (simp add: record_wf_def)

section \<open>Hexadecimal names\<close>

lemma hex_encode_Cons:
  "zf_store_record_format_hex_encode (b # bs) =
    hex_digits ! unat (drop_bit 4 b AND 0x0F) # hex_digits ! unat (b AND 0x0F) #
    zf_store_record_format_hex_encode bs"
  by (simp add: zf_store_record_format_hex_encode_def)

lemma length_hex_encode [simp]: "length (zf_store_record_format_hex_encode bs) = 2 * length bs"
  by (induction bs) (simp_all add: hex_encode_Cons, simp add: zf_store_record_format_hex_encode_def)

lemma nibble_less: "unat (b AND 0x0F :: byte) < 16"
proof -
  have "b AND 0x0F = take_bit 4 b" by (simp add: take_bit_eq_mask mask_eq_exp_minus_1)
  then show ?thesis by (simp add: unsigned_take_bit_eq take_bit_nat_def)
qed

lemma nibbles: "b = push_bit 4 (drop_bit 4 b AND 0x0F) OR (b AND 0x0F :: byte)"
proof (rule bit_word_eqI)
  fix n :: nat
  have m: "(0x0F :: byte) = mask 4" by (simp add: mask_eq_exp_minus_1)
  assume "n < LENGTH(8)"
  then show "bit b n = bit (push_bit 4 (drop_bit 4 b AND 0x0F) OR (b AND 0x0F)) n"
    unfolding m by (auto simp: bit_simps)
qed

lemma hex_digits_nth:
  assumes "i < 16"
  shows "hex_digits ! i \<in> set hex_digits" "j < 16 \<Longrightarrow> hex_digits ! i = hex_digits ! j \<Longrightarrow> i = j"
proof -
  have d: "distinct hex_digits" "length hex_digits = 16" by (simp_all add: hex_digits_def)
  show "hex_digits ! i \<in> set hex_digits" using d assms by simp
  show "i = j" if "j < 16" "hex_digits ! i = hex_digits ! j"
    using d assms that by (simp add: nth_eq_iff_index_eq)
qed

lemma hex_encode_inject:
  "zf_store_record_format_hex_encode a = zf_store_record_format_hex_encode b \<longleftrightarrow> a = b"
proof (induction a arbitrary: b)
  case Nil
  then show ?case by (cases b) (simp_all add: hex_encode_Cons, simp add: zf_store_record_format_hex_encode_def)
next
  case (Cons x xs)
  show ?case
  proof (cases b)
    case Nil
    then show ?thesis by (simp add: hex_encode_Cons) (simp add: zf_store_record_format_hex_encode_def)
  next
    case b: (Cons y ys)
    have "x = y" if "hex_digits ! unat (drop_bit 4 x AND 0x0F) = hex_digits ! unat (drop_bit 4 y AND 0x0F)"
      "hex_digits ! unat (x AND 0x0F) = hex_digits ! unat (y AND 0x0F)"
      using that nibbles [of x] nibbles [of y] hex_digits_nth(2) [OF nibble_less nibble_less]
      by (metis word_unat_eq_iff)
    then show ?thesis using b Cons.IH by (auto simp: hex_encode_Cons)
  qed
qed

lemma hex_encode_chars: "set (zf_store_record_format_hex_encode bs) \<subseteq> set hex_digits"
  by (induction bs)
    (auto simp: hex_encode_Cons hex_digits_nth(1) nibble_less simp del: set_subset_Cons,
     auto simp: zf_store_record_format_hex_encode_def hex_digits_nth(1) nibble_less)

lemma hex_name: "length bs = 32 \<Longrightarrow> zf_store_record_format_is_record_name (zf_store_record_format_hex_encode bs)"
proof -
  have "list_all (\<lambda>ch. CHR ''0'' \<le> ch \<and> ch \<le> CHR ''9'' \<or> CHR ''a'' \<le> ch \<and> ch \<le> CHR ''f'') hex_digits"
    by (simp add: hex_digits_def less_eq_char_def)
  then show "length bs = 32 \<Longrightarrow> ?thesis"
    using hex_encode_chars [of bs]
    by (auto simp: zf_store_record_format_is_record_name_def ZF_CREDENTIAL_ID_LEN_def list_all_iff)
qed

section \<open>Counter floors\<close>

lemma le_value_le_bytes [simp]: "le_value (le_bytes 4 v) = v"
  using be_value_be_bytes [of 4 "v :: u32"] by (simp add: le_value_def le_bytes_def take_bit_word_eq_self)

lemma length_binding [simp]: "length (zf_record_compute_counter_binding_fields i c) = 24"
  by (simp add: zf_record_compute_counter_binding_fields_def)

text \<open>A floor that opens to \<open>n\<close> for the credential, whatever the enclave does in between.\<close>

definition floor_holds :: "'w hal \<Rightarrow> bytes \<Rightarrow> u32 \<Rightarrow> ZfCounterFloorFile \<Rightarrow> u32 \<Rightarrow> bool" where
  "floor_holds hal credential_id created_at f n \<longleftrightarrow>
    length (cf_iv f) = 16 \<and> length (cf_sealed f) = 32 \<and>
    (\<forall>w. fst (zf_counter_floor_decode_fields hal credential_id created_at f w) = Some n)"

lemma floor_bytes_inverse:
  assumes "length (cf_iv f) = 16" "length (cf_sealed f) = 32"
  shows "counter_floor_of_bytes (counter_floor_bytes f) = f" "length (counter_floor_bytes f) = 52"
  using assms by (simp_all add: counter_floor_of_bytes_def counter_floor_bytes_def)

lemma floor_encode:
  assumes lawful: "enclave_lawful hal"
    and enc: "zf_counter_floor_encode_fields hal i c n w = (Some f, w')"
  shows "floor_holds hal i c f n"
proof -
  obtain iv w1 where iv: "random_fill hal ZF_WRAP_IV_LEN w = (iv, w1)" by fastforce
  let ?plain = "counter_floor_seal n (zf_record_compute_counter_binding_fields i c)"
  obtain sealed where sealed: "enclave_encrypt hal iv ?plain w1 = (Some sealed, w')"
    and f: "f = \<lparr>cf_version = ZF_COUNTER_FLOOR_VERSION, cf_iv = iv, cf_sealed = sealed\<rparr>"
    using enc iv by (auto simp: zf_counter_floor_encode_fields_def split: prod.split_asm option.split_asm)
  have len: "length iv = 16"
    using lawful iv unfolding enclave_lawful_def ZF_WRAP_IV_LEN_def by (metis fst_conv)
  have dec: "length sealed = length ?plain" "\<And>v. fst (enclave_decrypt hal iv sealed v) = Some ?plain"
    using lawful sealed unfolding enclave_lawful_def by (metis fst_conv)+
  have "fst (zf_counter_floor_decode_fields hal i c f v) = Some n" for v
    using dec(2) [of v] f
    by (cases "enclave_decrypt hal iv sealed v")
      (simp add: zf_counter_floor_decode_fields_def counter_floor_seal_def constant_time_equal_iff)
  then show ?thesis using len dec(1) f by (simp add: floor_holds_def counter_floor_seal_def)
qed

section \<open>Decoding a record image\<close>

lemma read_back [simp]:
  "zf_cbor_read_uint (cbor_uint v @ c) = Some (v, c)"
  "zf_cbor_read_bool (cbor_bool b @ c) = Some (b, c)"
  "length d < 2 ^ 64 \<Longrightarrow> zf_cbor_read_bytes_ptr (cbor_bytes d @ c) = Some (d, c)"
  "length t < 2 ^ 64 \<Longrightarrow> zf_cbor_utf8_is_valid t \<Longrightarrow> zf_cbor_read_text_ptr (cbor_text t @ c) = Some (t, c)"
  "n \<le> SIZE_MAX \<Longrightarrow> zf_cbor_read_map_start (cbor_map n @ c) = Some (n, c)"
  by (simp_all add: reader_iffs)

lemma read_fixed [simp]:
  "length d = n \<Longrightarrow> n < 2 ^ 64 \<Longrightarrow> zf_record_decode_bytes n (cbor_bytes d @ c) = Some (d, c)"
  "length d \<le> 64 \<Longrightarrow> zf_record_decode_user_id (cbor_bytes d @ c) = Some (d, c)"
  "text_field n t \<Longrightarrow> n < 2 ^ 64 \<Longrightarrow> zf_record_decode_text n (cbor_text t @ c) = Some (t, c)"
  by (simp_all add: zf_record_decode_bytes_def zf_record_decode_user_id_def zf_record_decode_text_def
      zf_copy_text_field_def text_field_def ZF_MAX_USER_ID_LEN_def)

lemma read_u32 [simp]:
  "zf_record_decode_counter (cbor_uint (ucast (v :: u32)) @ c) = Some (v, c)"
  "zf_record_decode_version (cbor_uint (ucast (v :: u32)) @ c) = Some (v, c)"
proof -
  have less: "unat v < 2 ^ 32" using unsigned_less [of v, where ?'a = nat] by simp
  then have "unat (ucast v :: u64) = unat v" by (simp add: unsigned_ucast_eq take_bit_nat_eq_self)
  with less have small: "\<not> (ucast v :: u64) > 0xFFFFFFFF" by (simp add: word_less_nat_alt)
  moreover have "ucast (ucast v :: u64) = v" by (rule bit_word_eqI) (simp add: bit_simps)
  ultimately show "zf_record_decode_counter (cbor_uint (ucast (v :: u32)) @ c) = Some (v, c)"
    "zf_record_decode_version (cbor_uint (ucast (v :: u32)) @ c) = Some (v, c)"
    by (simp_all add: zf_record_decode_counter_def zf_record_decode_version_def)
qed

text \<open>One pair of the map with a plain field, and with one of the keys that may not repeat.\<close>

lemma pair_field:
  assumes "key \<notin> {15, 16, 17}" "zf_record_decode_field c key (rd_record s, rd_version s) = Some ((r, v), c')"
  shows "record_pair (cbor_uint key @ c) s =
    Some (s\<lparr>rd_record := r, rd_version := v, rd_seen := key # rd_seen s\<rparr>, c')"
  using assms by (simp add: record_pair_def)

definition image_vars :: "record_vars \<Rightarrow> ZfCredentialRecord \<Rightarrow> ZfCounterFloorFile \<Rightarrow> record_vars" where
  "image_vars s r floor = s\<lparr>rd_record := (rd_record s)\<lparr>cr_credential_id := cr_credential_id r,
      cr_rp_id := cr_rp_id r, cr_user_id := cr_user_id r, cr_user_name := cr_user_name r,
      cr_user_display_name := cr_user_display_name r, cr_public_x := cr_public_x r,
      cr_public_y := cr_public_y r, cr_private_wrapped := cr_private_wrapped r,
      cr_private_iv := cr_private_iv r, cr_sign_count := cr_sign_count r,
      cr_created_at := cr_created_at r, cr_resident_key := cr_resident_key r,
      cr_cred_protect := cr_cred_protect r\<rparr>,
    rd_version := ZF_STORE_FORMAT_VERSION,
    rd_seen := [17, 14, 13, 12, 11, 10, 9, 8, 7, 6, 5, 4, 3, 2, 1] @ rd_seen s,
    rd_counter_floor := floor\<rparr>"

lemma cred_protect_read:
  "v \<in> {1, 2, 3 :: byte} \<Longrightarrow> zf_ctap_cred_protect_value_is_valid (ucast v) \<and>
    zf_ctap_cred_protect_effective v = v \<and> ucast (ucast v :: u64) = v"
  by (auto simp: zf_ctap_cred_protect_value_is_valid_def zf_ctap_cred_protect_effective_def)

lemma record_pairs_add:
  "record_pairs (m + n) c s = (case record_pairs m c s of None \<Rightarrow> None | Some (s, c) \<Rightarrow> record_pairs n c s)"
  by (induction m arbitrary: c s) (simp_all split: option.split)

lemma image_pairs:
  assumes wf: "record_wf r" and floor: "length (cf_iv floor) = 16" "length (cf_sealed floor) = 32"
    and fresh: "17 \<notin> set (rd_seen s)"
  shows "record_pairs 15 (record_body r floor @ rest) s = Some (image_vars s r floor, rest)"
proof -
  note sizes = ZF_CREDENTIAL_ID_LEN_def ZF_MAX_RP_ID_LEN_def ZF_MAX_USER_NAME_LEN_def
    ZF_MAX_DISPLAY_NAME_LEN_def ZF_PUBLIC_KEY_LEN_def ZF_WRAP_IV_LEN_def ZF_MAX_USER_ID_LEN_def
    sizeof_ZfCounterFloorFile_def
  have fields: "length (cr_credential_id r) = 32" "text_field 256 (cr_rp_id r)" "length (cr_user_id r) \<le> 64"
    "text_field 65 (cr_user_name r)" "text_field 65 (cr_user_display_name r)" "length (cr_public_x r) = 32"
    "length (cr_public_y r) = 32" "length (cr_private_wrapped r) = 32" "length (cr_private_iv r) = 16"
    "cr_cred_protect r \<in> {1, 2, 3}"
    using wf unfolding record_wf_def sizes by blast+
  note protect = cred_protect_read [OF fields(10)]
  have steps: "record_pairs 15 c s = record_pairs (Suc (Suc (Suc (Suc (Suc (Suc (Suc (Suc (Suc (Suc (Suc (Suc
      (Suc (Suc (Suc 0))))))))))))))) c s" for c s
    by (simp add: eval_nat_numeral del: record_pairs.simps)
  show ?thesis
    unfolding steps
    using fields(1-9) protect floor fresh floor_bytes_inverse [OF floor]
    by (simp add: record_body_def record_pair_def zf_record_decode_field_def read_into_def sizes image_vars_def)
qed

lemma image_pairs_hmac:
  assumes wf: "record_wf r" and floor: "length (cf_iv floor) = 16" "length (cf_sealed floor) = 32"
    and fresh: "rd_seen s = []" and hmac: "length wrapped = 64" "length iv = 16"
  shows "record_pairs 17 (record_body r floor @ hmac_image wrapped iv) s =
    Some ((image_vars s r floor)\<lparr>rd_hmac_secret_wrapped := wrapped, rd_hmac_secret_iv := iv,
      rd_seen := 16 # 15 # rd_seen (image_vars s r floor)\<rparr>, [])"
proof -
  let ?s = "image_vars s r floor"
  have two: "record_pairs 2 c s = (case record_pair c s of None \<Rightarrow> None | Some (s, c) \<Rightarrow> record_pairs 1 c s)"
    "record_pairs 1 c s = record_pair c s" for c s
    by (simp_all add: eval_nat_numeral split: option.split)
  have "record_pairs 2 (hmac_image wrapped iv) ?s = Some (?s\<lparr>rd_hmac_secret_wrapped := wrapped,
      rd_hmac_secret_iv := iv, rd_seen := 16 # 15 # rd_seen ?s\<rparr>, [])"
    using hmac fresh read_fixed(1) [of iv 16 "[]"]
    by (simp add: two hmac_image_def record_pair_def read_into_def image_vars_def
        ZF_RECORD_HMAC_SECRET_STORAGE_LEN_def ZF_WRAP_IV_LEN_def)
  then show ?thesis
    using image_pairs [OF wf floor, of s "hmac_image wrapped iv"] fresh
      record_pairs_add [of 15 2 "record_body r floor @ hmac_image wrapped iv" s] by simp
qed

section \<open>Encoding then decoding\<close>

lemma head_sizes:
  "length (zf_cbor_head m v) \<le> 9"
  "v \<le> 0xFF \<Longrightarrow> length (zf_cbor_head m v) \<le> 2"
  "v \<le> 0xFFFF \<Longrightarrow> length (zf_cbor_head m v) \<le> 3"
  "v \<le> 0xFFFFFFFF \<Longrightarrow> length (zf_cbor_head m v) \<le> 5"
  by (simp_all add: zf_cbor_head_def)

lemma key_size [simp]: "v < 24 \<Longrightarrow> length (cbor_uint v) = 1"
  by (simp add: cbor_uint_def zf_cbor_head_def)

lemma small_sizes:
  "length d \<le> 0xFF \<Longrightarrow> length (cbor_bytes d) \<le> 2 + length d"
  "length t \<le> 0xFFFF \<Longrightarrow> length (cbor_text t) \<le> 3 + length t"
  "length (cbor_uint (ucast (n :: u32))) \<le> 5"
  "length (cbor_bool b) = 1"
proof -
  have small: "(word_of_nat k :: u64) \<le> word_of_nat n" if "k \<le> n" "n < 2 ^ 64" for k n
    using that by (simp add: word_le_nat_alt unat_of_nat)
  show "length d \<le> 0xFF \<Longrightarrow> length (cbor_bytes d) \<le> 2 + length d"
    using head_sizes(2) [of "word_of_nat (length d)"] small [of "length d" "0xFF"]
    by (simp add: cbor_bytes_def)
  show "length t \<le> 0xFFFF \<Longrightarrow> length (cbor_text t) \<le> 3 + length t"
    using head_sizes(3) [of "word_of_nat (length t)"] small [of "length t" "0xFFFF"]
    by (simp add: cbor_text_def)
  have "unat n < 2 ^ 32" using unsigned_less [of n, where ?'a = nat] by simp
  then have "(ucast n :: u64) \<le> 0xFFFFFFFF"
    by (simp add: word_le_nat_alt unsigned_ucast_eq take_bit_nat_eq_self)
  then show "length (cbor_uint (ucast n)) \<le> 5"
    using head_sizes(4) by (simp add: cbor_uint_def)
qed (simp add: cbor_bool_def)

lemma image_size:
  assumes wf: "record_wf r" and floor: "length (counter_floor_bytes floor) = 52" and "pairs < 24"
  shows "length (record_image r pairs floor) \<le> 700"
proof -
  have "length (cr_credential_id r) = 32" "length (cr_rp_id r) \<le> 255" "length (cr_user_id r) \<le> 64"
    "length (cr_user_name r) \<le> 64" "length (cr_user_display_name r) \<le> 64" "length (cr_public_x r) = 32"
    "length (cr_public_y r) = 32" "length (cr_private_wrapped r) = 32" "length (cr_private_iv r) = 16"
    using wf by (auto simp: record_wf_def text_field_def ZF_CREDENTIAL_ID_LEN_def ZF_MAX_RP_ID_LEN_def
        ZF_MAX_USER_NAME_LEN_def ZF_MAX_DISPLAY_NAME_LEN_def ZF_MAX_USER_ID_LEN_def)
  moreover have "length (cbor_uint (ucast (zf_ctap_cred_protect_effective (cr_cred_protect r)))) = 1"
    using wf by (auto simp: record_wf_def zf_ctap_cred_protect_effective_def)
  moreover have "length (cbor_map pairs) = 1"
    using \<open>pairs < 24\<close> by (simp add: cbor_map_def zf_cbor_head_def word_less_nat_alt unat_of_nat)
  ultimately show ?thesis
    using floor small_sizes(1) [of "cr_credential_id r"] small_sizes(1) [of "cr_user_id r"]
      small_sizes(1) [of "cr_public_x r"] small_sizes(1) [of "cr_public_y r"]
      small_sizes(1) [of "cr_private_wrapped r"] small_sizes(1) [of "cr_private_iv r"]
      small_sizes(1) [of "counter_floor_bytes floor"] small_sizes(2) [of "cr_rp_id r"]
      small_sizes(2) [of "cr_user_name r"] small_sizes(2) [of "cr_user_display_name r"]
      small_sizes(3) [of "cr_sign_count r"] small_sizes(3) [of "cr_created_at r"]
      small_sizes(3) [of "ZF_STORE_FORMAT_VERSION"]
    by (simp add: record_image_def record_body_def small_sizes(4))
qed

text \<open>\<open>e\<close> is the text of a file that decodes to \<open>r\<close>, with a floor that opens to its counter.\<close>

definition encodes :: "'w hal \<Rightarrow> bytes \<Rightarrow> ZfCredentialRecord \<Rightarrow> bool" where
  "encodes hal e r \<longleftrightarrow> e \<noteq> [] \<and> length e \<le> ZF_STORE_RECORD_MAX_SIZE \<and>
    (\<exists>floor. floor_holds hal (cr_credential_id r) (cr_created_at r) floor (cr_sign_count r) \<and>
      (\<forall>w. fst (zf_record_decode hal e (cr_file_name r) w) = Some (r, Some floor)))"

lemma encodesI:
  assumes "e \<noteq> []" "length e \<le> 800"
    "floor_holds hal (cr_credential_id r) (cr_created_at r) floor (cr_sign_count r)"
    "\<And>w. fst (zf_record_decode hal e (cr_file_name r) w) = Some (r, Some floor)"
  shows "encodes hal e r"
  using assms unfolding encodes_def ZF_STORE_RECORD_MAX_SIZE_def by blast

lemma finish_record:
  assumes "record_wf r"
  shows "(zero_record\<lparr>cr_file_name := take 79 (cr_file_name r), cr_credential_id := cr_credential_id r,
      cr_rp_id := cr_rp_id r, cr_user_id := cr_user_id r, cr_user_name := cr_user_name r,
      cr_user_display_name := cr_user_display_name r, cr_public_x := cr_public_x r,
      cr_public_y := cr_public_y r, cr_private_wrapped := cr_private_wrapped r,
      cr_private_iv := cr_private_iv r, cr_sign_count := cr_sign_count r,
      cr_created_at := cr_created_at r, cr_resident_key := cr_resident_key r,
      cr_cred_protect := cr_cred_protect r, cr_hmac_secret := cr_hmac_secret r,
      cr_hmac_secret_without_uv := cr_hmac_secret_without_uv r,
      cr_hmac_secret_with_uv := cr_hmac_secret_with_uv r,
      cr_storage_version := ZF_STORE_FORMAT_VERSION, cr_in_use := True\<rparr>) = r"
  using assms by (cases r) (simp add: record_wf_def zero_record_def ZF_CREDENTIAL_ID_LEN_def)

lemma decode_image:
  assumes wf: "record_wf r" and floor: "length (cf_iv floor) = 16" "length (cf_sealed floor) = 32"
  shows "\<not> cr_hmac_secret r \<Longrightarrow>
      zf_record_decode hal (record_image r 15 floor) (cr_file_name r) w = (Some (r, Some floor), w)"
    and "cr_hmac_secret r \<Longrightarrow> length wrapped = 64 \<Longrightarrow> length iv = 16 \<Longrightarrow>
      enclave_decrypt hal iv wrapped w =
        (Some (cr_hmac_secret_without_uv r @ cr_hmac_secret_with_uv r), w') \<Longrightarrow>
      zf_record_decode hal (record_image r 17 floor @ hmac_image wrapped iv) (cr_file_name r) w =
        (Some (r, Some floor), w')"
proof -
  have name: "zf_record_id_matches_file_name (cr_credential_id r) (cr_file_name r)" "cr_rp_id r \<noteq> []"
    "length (cr_hmac_secret_without_uv r) = 32" "length (cr_hmac_secret_with_uv r) = 32"
    using wf by (auto simp: record_wf_def zf_record_id_matches_file_name_def)
  note simps = zf_record_decode_def image_vars_def record_image_def required_record_keys_def
    SIZE_MAX_def name Let_def
  have zero: "\<not> cr_hmac_secret r \<Longrightarrow> cr_hmac_secret_without_uv r = replicate 32 0"
    "\<not> cr_hmac_secret r \<Longrightarrow> cr_hmac_secret_with_uv r = replicate 32 0"
    using wf by (simp_all add: record_wf_def)
  note fin = finish_record [OF wf]
  show "zf_record_decode hal (record_image r 15 floor) (cr_file_name r) w = (Some (r, Some floor), w)"
    if "\<not> cr_hmac_secret r"
    using image_pairs [OF wf floor, where rest = "[]"] that zero fin
    by (simp add: simps) (simp add: zero_record_def)
  show "zf_record_decode hal (record_image r 17 floor @ hmac_image wrapped iv) (cr_file_name r) w =
      (Some (r, Some floor), w')"
    if "cr_hmac_secret r" "length wrapped = 64" "length iv = 16" "enclave_decrypt hal iv wrapped w =
      (Some (cr_hmac_secret_without_uv r @ cr_hmac_secret_with_uv r), w')"
    using image_pairs_hmac [OF wf floor] that fin
    by (simp add: simps zf_record_unwrap_hmac_secret_def) (simp add: zero_record_def)
qed

lemma record_encoded:
  assumes lawful: "enclave_lawful hal" and wf: "record_wf r" and room: "ZF_STORE_RECORD_MAX_SIZE \<le> length out"
    and enc: "zf_store_record_format_encode hal r out w = (res, w')"
  shows "res = Some e \<Longrightarrow> encodes hal e r"
    and "(\<And>iv d w. fst (enclave_encrypt hal iv d w) \<noteq> None) \<Longrightarrow> res \<noteq> None"
proof -
  define e0 where "e0 = \<lparr>enc_buf = out, enc_capacity = ZF_STORE_RECORD_MAX_SIZE, enc_offset = 0\<rparr>"
  have e0: "enc_wf e0" "enc_room e0 = 800" "zf_cbor_encoder_init out ZF_STORE_RECORD_MAX_SIZE = Some e0"
    using room by (simp_all add: e0_def enc_wf_def enc_room_def zf_cbor_encoder_init_def ZF_STORE_RECORD_MAX_SIZE_def)
  have whole: "take (zf_cbor_encoder_size (enc_put e0 d)) (enc_buf (enc_put e0 d)) = d" if "length d \<le> 800" for d
    using that room by (simp add: e0_def enc_put_def zf_cbor_encoder_size_def write_at_def)
  obtain fl w1 where fl: "zf_counter_floor_encode_fields hal (cr_credential_id r) (cr_created_at r)
      (cr_sign_count r) w = (fl, w1)" by fastforce
  have secrets: "length (cr_hmac_secret_without_uv r @ cr_hmac_secret_with_uv r) = 64"
    using wf by (simp add: record_wf_def)
  have "(res = Some e \<longrightarrow> encodes hal e r) \<and>
    ((\<forall>iv d w. fst (enclave_encrypt hal iv d w) \<noteq> None) \<longrightarrow> res \<noteq> None)"
  proof (cases fl)
    case None
    then have "\<exists>iv d v. fst (enclave_encrypt hal iv d v) = None"
      using fl by (auto simp: zf_counter_floor_encode_fields_def split: prod.split_asm option.split_asm) (metis fst_conv)
    then show ?thesis using enc fl None e0(3) by (auto simp: zf_store_record_format_encode_def)
  next
    case (Some floor)
    have holds: "floor_holds hal (cr_credential_id r) (cr_created_at r) floor (cr_sign_count r)"
      using floor_encode [OF lawful] fl Some by blast
    then have len: "length (cf_iv floor) = 16" "length (cf_sealed floor) = 32" by (simp_all add: floor_holds_def)
    note size = image_size [OF wf floor_bytes_inverse(2) [OF len]]
    show ?thesis
    proof (cases "cr_hmac_secret r")
      case False
      let ?d = "record_image r 15 floor"
      have d: "length ?d \<le> 800" "?d \<noteq> []" using size [of 15] by (simp_all add: record_image_def cbor_map_def)
      have "res = Some ?d"
        using enc fl Some e0 False enc_record.emits [OF e0(1)] d(1) whole [OF d(1)]
        by (simp add: zf_store_record_format_encode_def)
      moreover have "fst (zf_record_decode hal ?d (cr_file_name r) v) = Some (r, Some floor)" for v
        by (simp add: decode_image(1) [OF wf len False])
      ultimately show ?thesis using encodesI [OF d(2,1) holds] by auto
    next
      case True
      obtain iv w2 where iv: "random_fill hal 16 w1 = (iv, w2)" by fastforce
      obtain c w3 where c: "enclave_encrypt hal iv (cr_hmac_secret_without_uv r @ cr_hmac_secret_with_uv r) w2 = (c, w3)"
        by fastforce
      show ?thesis
      proof (cases c)
        case None
        then have "\<exists>iv d v. fst (enclave_encrypt hal iv d v) = None" using c by (metis fst_conv)
        then show ?thesis using enc fl Some e0(3) True iv c None
          by (auto simp: zf_store_record_format_encode_def zf_record_wrap_hmac_secret_def ZF_WRAP_IV_LEN_def)
      next
        case wr: (Some wrapped)
        have iv16: "length iv = 16" using lawful iv unfolding enclave_lawful_def by (metis fst_conv)
        have op: "length wrapped = 64" "\<And>v. fst (enclave_decrypt hal iv wrapped v) =
            Some (cr_hmac_secret_without_uv r @ cr_hmac_secret_with_uv r)"
          using lawful c wr secrets unfolding enclave_lawful_def by (metis fst_conv)+
        let ?d = "record_image r 17 floor @ hmac_image wrapped iv"
        have "length (hmac_image wrapped iv) \<le> 86"
          using small_sizes(1) [of wrapped] small_sizes(1) [of iv] op(1) iv16 by (simp add: hmac_image_def)
        then have d: "length ?d \<le> 800" "?d \<noteq> []" using size [of 17] by (simp_all add: record_image_def cbor_map_def)
        have "res = Some ?d"
          using enc fl Some e0 True iv c wr enc_record_hmac.emits [OF e0(1)] d(1) whole [OF d(1)]
          by (simp add: zf_store_record_format_encode_def zf_record_wrap_hmac_secret_def ZF_WRAP_IV_LEN_def)
        moreover have "fst (zf_record_decode hal ?d (cr_file_name r) v) = Some (r, Some floor)" for v
          using decode_image(2) [OF wf len True op(1) iv16, of hal v] op(2) [of v]
          by (cases "enclave_decrypt hal iv wrapped v") simp
        ultimately show ?thesis using encodesI [OF d(2,1) holds] by auto
      qed
    qed
  qed
  then show "res = Some e \<Longrightarrow> encodes hal e r"
    and "(\<And>iv d w. fst (enclave_encrypt hal iv d w) \<noteq> None) \<Longrightarrow> res \<noteq> None" by blast+
qed

end
