(* ===== verification/Store_Files.thy ===== *)
theory Store_Files
  imports Store_Record_Exact
begin

text \<open>
  The files of one credential. Its six paths are distinct from each other and from those of every other
  credential. \<open>floor_at\<close> is the lower bound the companion file \<^verbatim>\<open>.counter\<close> gives for the sign
  counter and \<open>low\<close> the bound that a load will respect; the loading, writing and reserving operations
  never lower them, whatever file operations fail.
\<close>

section \<open>Paths\<close>

definition cred_path :: "bytes \<Rightarrow> path \<Rightarrow> path" where
  "cred_path i suffix = ZF_APP_DATA_DIR @ ''/'' @ zf_store_record_format_hex_encode i @ suffix"

lemma cred_path_inject [simp]:
  "length i = length j \<Longrightarrow> cred_path i s = cred_path j t \<longleftrightarrow> i = j \<and> s = t"
  by (simp add: cred_path_def append_eq_append_conv hex_encode_inject)

lemma length_cred_path [simp]: "length (cred_path i s) = 24 + 2 * length i + length s"
  by (simp add: cred_path_def ZF_APP_DATA_DIR_def)

lemma cred_paths:
  assumes "length i = 32"
  shows "zf_store_build_record_path (zf_store_record_format_hex_encode i) 128 = cred_path i []"
    "zf_store_build_temp_path (zf_store_record_format_hex_encode i) 128 = cred_path i ''.tmp''"
    "zf_store_build_counter_floor_path (zf_store_record_format_hex_encode i) 128 = cred_path i ''.counter''"
    "zf_store_build_counter_floor_temp_path (zf_store_record_format_hex_encode i) 128 = cred_path i ''.counter.tmp''"
    "zf_store_build_counter_floor_path (zf_store_record_format_hex_encode i) 160 = cred_path i ''.counter''"
    "zf_store_build_counter_floor_temp_path (zf_store_record_format_hex_encode i) 160 = cred_path i ''.counter.tmp''"
  using assms
  by (simp_all add: zf_store_build_record_path_def zf_store_build_temp_path_def cred_path_def
      zf_store_build_counter_floor_path_def zf_store_build_counter_floor_temp_path_def ZF_APP_DATA_DIR_def)

lemma backup_paths:
  assumes "length i = 32"
  shows "zf_storage_backup_path (cred_path i []) = Some (cred_path i ''.bak'')"
    "zf_storage_backup_path (cred_path i ''.counter'') = Some (cred_path i ''.counter.bak'')"
  using assms by (simp_all add: zf_storage_backup_path_def zf_storage_build_suffixed_path_def
      ZF_STORAGE_PATH_BUFFER_SIZE_def ZF_STORAGE_BACKUP_SUFFIX_def)
    (simp_all add: cred_path_def)

lemma record_file: "length i = 32 \<Longrightarrow> atomic_file (cred_path i []) (cred_path i ''.tmp'')"
  by unfold_locales (simp add: backup_paths)

lemma floor_file: "length i = 32 \<Longrightarrow> atomic_file (cred_path i ''.counter'') (cred_path i ''.counter.tmp'')"
  by unfold_locales (simp add: backup_paths)

section \<open>Platform\<close>

text \<open>
  What the store relies on: a lawful medium, an enclave whose decryption inverts encryption and depends on
  its input only, and neither it nor the random generator touches a file.
\<close>

definition store_platform :: "'w hal \<Rightarrow> ('w \<Rightarrow> path \<rightharpoonup> bytes) \<Rightarrow> bool" where
  "store_platform hal content \<longleftrightarrow> storage_lawful hal content \<and> enclave_lawful hal \<and>
    (\<forall>n w. content (snd (random_fill hal n w)) = content w) \<and>
    (\<forall>iv d w. content (snd (enclave_encrypt hal iv d w)) = content w) \<and>
    (\<forall>iv d w. content (snd (enclave_decrypt hal iv d w)) = content w) \<and>
    (\<forall>iv d w w' p p'. fst (enclave_decrypt hal iv d w) = Some p \<longrightarrow>
      fst (enclave_decrypt hal iv d w') = Some p' \<longrightarrow> p = p')"

lemma store_platform_lawful:
  "store_platform hal content \<Longrightarrow> storage_lawful hal content"
  "store_platform hal content \<Longrightarrow> enclave_lawful hal"
  by (simp_all add: store_platform_def)

lemma frame_enclave [frame]:
  assumes "store_platform hal content"
  shows "content (snd (random_fill hal n w)) = content w"
    "content (snd (enclave_encrypt hal iv d w)) = content w"
    "content (snd (enclave_decrypt hal iv d w)) = content w"
  using assms by (simp_all add: store_platform_def)

lemma frame_floor_decode [frame]:
  assumes "store_platform hal content"
  shows "content (snd (zf_counter_floor_decode_fields hal i c f w)) = content w"
  using frame_enclave(3) [OF assms]
  by (simp add: zf_counter_floor_decode_fields_def split_def split: option.split)

lemma frame_floor_encode [frame]:
  assumes "store_platform hal content"
  shows "content (snd (zf_counter_floor_encode_fields hal i c n w)) = content w"
  using frame_enclave [OF assms]
  by (simp add: zf_counter_floor_encode_fields_def split_def Let_def split: option.split)

lemma frame_record_encode [frame]:
  assumes "store_platform hal content"
  shows "content (snd (zf_store_record_format_encode hal r out w)) = content w"
  using frame_enclave [OF assms] frame_floor_encode [OF assms]
  by (simp add: zf_store_record_format_encode_def zf_record_wrap_hmac_secret_def split_def Let_def
      split: option.split)

lemma frame_record_decode [frame]:
  assumes "store_platform hal content"
  shows "content (snd (zf_record_decode hal d name w)) = content w"
  using frame_enclave(3) [OF assms]
  by (simp add: zf_record_decode_def zf_record_unwrap_hmac_secret_def split_def Let_def split: option.split)

text \<open>The contents of a whole-file read, and that it changes nothing.\<close>

lemma read_file_content:
  assumes "storage_lawful hal content" "zf_storage_read_file hal p n w = (r, w')"
  shows "content w' = content w" "r = Some d \<Longrightarrow> content w p = Some d"
  using assms unfolding storage_lawful_def
  by (auto simp: zf_storage_read_file_def split: if_split_asm prod.split_asm option.split_asm) (metis fst_conv snd_conv)+

section \<open>Lower bounds on the counter\<close>

definition floor_at :: "'w hal \<Rightarrow> (path \<rightharpoonup> bytes) \<Rightarrow> bytes \<Rightarrow> u32 \<Rightarrow> bool" where
  "floor_at hal files i N \<longleftrightarrow> (\<exists>d. files (cred_path i ''.counter'') = Some d \<and>
    (\<forall>j c v k. length d = 52 \<longrightarrow>
      fst (zf_counter_floor_decode_fields hal j c (counter_floor_of_bytes d) v) = Some k \<longrightarrow> N \<le> k))"

definition record_at :: "'w hal \<Rightarrow> (path \<rightharpoonup> bytes) \<Rightarrow> bytes \<Rightarrow> u32 \<Rightarrow> bool" where
  "record_at hal files i N \<longleftrightarrow> (\<forall>d v r e. files (cred_path i []) = Some d \<longrightarrow>
    fst (zf_record_decode hal d (zf_store_record_format_hex_encode i) v) = Some (r, e) \<longrightarrow>
    N \<le> cr_sign_count r)"

definition low :: "'w hal \<Rightarrow> (path \<rightharpoonup> bytes) \<Rightarrow> bytes \<Rightarrow> u32 \<Rightarrow> bool" where
  "low hal files i N \<longleftrightarrow> floor_at hal files i N \<or> record_at hal files i N"

lemma floor_at_cong:
  "files' (cred_path i ''.counter'') = files (cred_path i ''.counter'') \<Longrightarrow>
    floor_at hal files' i N = floor_at hal files i N"
  by (simp add: floor_at_def)

lemma record_at_cong:
  "files' (cred_path i []) = files (cred_path i []) \<Longrightarrow> record_at hal files' i N = record_at hal files i N"
  by (simp add: record_at_def)

lemma floor_at_mono: "floor_at hal files i N \<Longrightarrow> M \<le> N \<Longrightarrow> floor_at hal files i M"
  unfolding floor_at_def by (meson order_trans)

lemma low_mono: "low hal files i N \<Longrightarrow> M \<le> N \<Longrightarrow> low hal files i M"
  unfolding low_def record_at_def using floor_at_mono by (meson order_trans)

lemma floor_decode_cases:
  assumes "fst (zf_counter_floor_decode_fields hal i c f w) = Some k"
  obtains plain where "fst (enclave_decrypt hal (cf_iv f) (cf_sealed f) w) = Some plain"
    "k = le_value (take 4 (drop 4 plain))"
  using assms
  by (auto simp: zf_counter_floor_decode_fields_def split_def split: if_split_asm option.split_asm)

text \<open>What a floor opens to does not depend on the time or the credential it is opened for.\<close>

lemma floor_decode_unique:
  assumes "store_platform hal content"
    and "fst (zf_counter_floor_decode_fields hal i c f w) = Some k"
    and "fst (zf_counter_floor_decode_fields hal j c' f w') = Some k'"
  shows "k = k'"
proof -
  obtain plain where a: "fst (enclave_decrypt hal (cf_iv f) (cf_sealed f) w) = Some plain"
    "k = le_value (take 4 (drop 4 plain))" by (rule floor_decode_cases [OF assms(2)]) (rule that)
  obtain plain' where b: "fst (enclave_decrypt hal (cf_iv f) (cf_sealed f) w') = Some plain'"
    "k' = le_value (take 4 (drop 4 plain'))" by (rule floor_decode_cases [OF assms(3)]) (rule that)
  have "plain = plain'" using assms(1) a(1) b(1) unfolding store_platform_def by blast
  then show ?thesis using a(2) b(2) by simp
qed

lemma floor_at_exact:
  assumes "store_platform hal content" "files (cred_path i ''.counter'') = Some d"
    "fst (zf_counter_floor_decode_fields hal j c (counter_floor_of_bytes d) v) = Some k"
  shows "floor_at hal files i k"
  unfolding floor_at_def using assms floor_decode_unique [OF assms(1,3)] by (intro exI [of _ d]) auto

text \<open>The fields of a decoded record that the map determines.\<close>

lemma decode_fields:
  assumes "fst (zf_record_decode hal d name w) = Some (r, e)"
  obtains pairs c s where "zf_cbor_read_map_start d = Some (pairs, c)"
    "record_pairs pairs c \<lparr>rd_record = zero_record\<lparr>cr_file_name := take 79 name\<rparr>, rd_version = 0,
      rd_seen = [], rd_hmac_secret_wrapped = replicate 64 0, rd_hmac_secret_iv = replicate 16 0,
      rd_counter_floor = \<lparr>cf_version = 0, cf_iv = replicate 16 0, cf_sealed = replicate 32 0\<rparr>\<rparr> =
      Some (s, [])"
    "cr_sign_count r = cr_sign_count (rd_record s)" "cr_created_at r = cr_created_at (rd_record s)"
    "cr_credential_id r = cr_credential_id (rd_record s)" "cr_file_name r = cr_file_name (rd_record s)"
    "cr_rp_id r = cr_rp_id (rd_record s)" "cr_rp_id r \<noteq> []"
    "cr_in_use r" "zf_record_id_matches_file_name (cr_credential_id r) name"
  using assms
  by (auto simp: zf_record_decode_def zf_record_unwrap_hmac_secret_def Let_def split_def
      split: option.split_asm if_split_asm)

lemma decode_count_unique:
  assumes "fst (zf_record_decode hal d name w) = Some (r, e)" "fst (zf_record_decode hal d name w') = Some (r', e')"
  shows "cr_sign_count r = cr_sign_count r'"
  by (rule decode_fields [OF assms(1)], rule decode_fields [OF assms(2)]) simp

lemma pair_keeps_name:
  "record_pair c s = Some (s', c') \<Longrightarrow> cr_file_name (rd_record s') = cr_file_name (rd_record s)"
  by (auto simp: record_pair_def zf_record_decode_field_def read_into_def split: option.split_asm if_split_asm)

lemma pairs_keep_name:
  "record_pairs n c s = Some (s', c') \<Longrightarrow> cr_file_name (rd_record s') = cr_file_name (rd_record s)"
proof (induction n arbitrary: c s)
  case (Suc n)
  then show ?case by (auto split: option.split_asm) (metis pair_keeps_name)
qed simp

lemma decoded_identity:
  assumes "fst (zf_record_decode hal d (zf_store_record_format_hex_encode i) w) = Some (r, e)" "length i = 32"
  shows "cr_credential_id r = i" "cr_file_name r = zf_store_record_format_hex_encode i" "cr_in_use r"
  by (rule decode_fields [OF assms(1)], use assms(2) in
      \<open>auto simp: zf_record_id_matches_file_name_def hex_encode_inject dest!: pairs_keep_name\<close>)+

section \<open>Writing a floor\<close>

text \<open>The paths that one credential's floor occupies while it is replaced.\<close>

definition floor_paths :: "bytes \<Rightarrow> path set" where
  "floor_paths i = {cred_path i ''.counter'', cred_path i ''.counter.tmp'', cred_path i ''.counter.bak''}"

definition record_paths :: "bytes \<Rightarrow> path set" where
  "record_paths i = {cred_path i [], cred_path i ''.tmp'', cred_path i ''.bak''}"

lemma write_file_failed:
  assumes "atomic_file p t" "storage_lawful hal content"
    "zf_storage_write_file_atomic hal p t d w = (False, w')" "content w p = Some a"
  shows "content w' p = Some a"
proof (cases "d = []")
  case True
  then show ?thesis using assms(3,4) by (simp add: zf_storage_write_file_atomic_def)
next
  case False
  then show ?thesis
    using atomic_file.write_failed(1) [OF assms(1,2)] assms(3,4) write_format_is_write_file [of d] by metis
qed

lemma floor_write:
  assumes plat: "store_platform hal content" and i: "length i = 32"
    and wr: "zf_store_counter_floor_write_value_fields hal (zf_store_record_format_hex_encode i) i c n w = (ok, w')"
  shows "ok \<Longrightarrow> floor_at hal (content w') i n"
    and "\<not> ok \<Longrightarrow> content w (cred_path i ''.counter'') = Some d \<Longrightarrow> content w' (cred_path i ''.counter'') = Some d"
    and "q \<notin> floor_paths i \<Longrightarrow> content w' q = content w q"
proof -
  note lawful = store_platform_lawful [OF plat]
  obtain f w1 where f: "zf_counter_floor_encode_fields hal i c n w = (f, w1)" by fastforce
  have c1: "content w1 = content w" using frame_floor_encode [OF plat] f by (metis snd_conv)
  show "floor_at hal (content w') i n" if yes: ok
  proof -
    obtain g where g: "f = Some g" using wr f yes
      by (auto simp: zf_store_counter_floor_write_value_fields_def split: option.split_asm)
    have holds: "floor_holds hal i c g n" using floor_encode [OF lawful(2)] f g by blast
    have "content w' (cred_path i ''.counter'') = Some (counter_floor_bytes g)"
      using atomic_file.written_present [OF floor_file [OF i] lawful(1)] wr f g yes
      by (simp add: zf_store_counter_floor_write_value_fields_def cred_paths [OF i])
    moreover have "fst (zf_counter_floor_decode_fields hal i c (counter_floor_of_bytes (counter_floor_bytes g)) w) = Some n"
      using holds floor_bytes_inverse(1) [of g] by (simp add: floor_holds_def)
    ultimately show ?thesis by (rule floor_at_exact [OF plat])
  qed
  show "content w' (cred_path i ''.counter'') = Some d" if "\<not> ok" "content w (cred_path i ''.counter'') = Some d"
    using write_file_failed [OF floor_file [OF i] lawful(1)] wr f c1 that
    by (auto simp: zf_store_counter_floor_write_value_fields_def cred_paths [OF i] split: option.split_asm)
  show "content w' q = content w q" if "q \<notin> floor_paths i"
    using frame_write_file [OF lawful(1), of q "cred_path i ''.counter''" "cred_path i ''.counter.tmp''"]
      wr f c1 that backup_paths(2) [OF i]
    by (auto simp: zf_store_counter_floor_write_value_fields_def cred_paths [OF i] floor_paths_def
        split: option.split_asm) (metis snd_conv)
qed

lemma floor_write_keeps:
  assumes plat: "store_platform hal content" and i: "length i = 32"
    and wr: "zf_store_counter_floor_write_value_fields hal (zf_store_record_format_hex_encode i) i c n w = (ok, w')"
    and at: "floor_at hal (content w) i N" "N \<le> n"
  shows "floor_at hal (content w') i N"
proof (cases ok)
  case True
  then show ?thesis using floor_write(1) [OF plat i wr] floor_at_mono at(2) by blast
next
  case False
  with at(1) show ?thesis using floor_write(2) [OF plat i wr] by (auto simp: floor_at_def)
qed

section \<open>Validating a counter\<close>

lemma validate_spec:
  assumes plat: "store_platform hal content" and i: "length i = 32"
    and val: "zf_store_counter_floor_validate_fields hal (zf_store_record_format_hex_encode i) i c n emb w = (res, w')"
  shows "res = Some (m, h) \<Longrightarrow> h = m \<and> n \<le> m \<and> (m = n \<or> floor_at hal (content w') i m)"
    and "res = Some (m, h) \<Longrightarrow> floor_at hal (content w) i N \<Longrightarrow> N \<le> m"
    and "floor_at hal (content w) i N \<Longrightarrow> floor_at hal (content w') i N"
    and "q \<notin> floor_paths i \<Longrightarrow> content w' q = content w q"
proof -
  let ?p = "cred_path i ''.counter''" and ?wrote = "zf_store_counter_floor_write_value_fields hal
    (zf_store_record_format_hex_encode i) i c n"
  note lawful = store_platform_lawful(1) [OF plat]
  have ex: "fs_exists hal q v \<longleftrightarrow> content v q \<noteq> None" for q v using lawful by (simp add: storage_lawful_def)
  note val' = val [unfolded zf_store_counter_floor_validate_fields_def Let_def cred_paths [OF i] ex]
  have dec: "content v' = content v" if "zf_counter_floor_decode_fields hal i c f v = (k, v')" for f v k v'
    using frame_floor_decode [OF plat] that by (metis snd_conv)
  have "(res = Some (m, h) \<longrightarrow> h = m \<and> n \<le> m \<and> (m = n \<or> floor_at hal (content w') i m)) \<and>
    (res = Some (m, h) \<longrightarrow> floor_at hal (content w) i N \<longrightarrow> N \<le> m) \<and>
    (floor_at hal (content w) i N \<longrightarrow> floor_at hal (content w') i N) \<and>
    (q \<notin> floor_paths i \<longrightarrow> content w' q = content w q)"
  proof (cases "content w ?p")
    case None
    then have none: "\<not> floor_at hal (content w) i N" by (simp add: floor_at_def)
    show ?thesis
    proof (cases emb)
      case None
      obtain ok v where "?wrote w = (ok, v)" by fastforce
      with val' none \<open>content w ?p = None\<close> None floor_write(3) [OF plat i this]
      show ?thesis by (cases ok) auto
    next
      case (Some f)
      obtain k v where "zf_counter_floor_decode_fields hal i c f w = (k, v)" by fastforce
      with val' none \<open>content w ?p = None\<close> Some dec [OF this] show ?thesis by (cases k) (auto split: if_split_asm)
    qed
  next
    case (Some d)
    obtain rd w1 where rd: "zf_storage_read_file hal ?p sizeof_ZfCounterFloorFile w = (rd, w1)" by fastforce
    note c1 = read_file_content [OF lawful rd]
    have val1: "(case rd of None \<Rightarrow> (None, w1) | Some raw \<Rightarrow>
        if length raw \<noteq> sizeof_ZfCounterFloorFile then (None, w1)
        else case zf_counter_floor_decode_fields hal i c (counter_floor_of_bytes raw) w1 of
            (None, w) \<Rightarrow> (None, w)
          | (Some stored, w) \<Rightarrow> if stored > n then (Some (stored, stored), w)
             else if stored < n then
               (case ?wrote w of (True, w) \<Rightarrow> (Some (n, n), w) | (False, w) \<Rightarrow> (None, w))
             else (Some (n, stored), w)) = (res, w')"
      using val' Some rd by (simp add: ex)
    show ?thesis
    proof (cases "rd = None \<or> length (the rd) \<noteq> 52")
      case True
      then show ?thesis using val1 c1(1) by (auto simp: sizeof_ZfCounterFloorFile_def split: option.split_asm)
    next
      case False
      then obtain raw where raw: "rd = Some raw" "length raw = 52" by auto
      have d: "d = raw" using c1(2) [OF raw(1)] Some by simp
      obtain k w2 where k: "zf_counter_floor_decode_fields hal i c (counter_floor_of_bytes raw) w1 = (k, w2)" by fastforce
      have c2: "content w2 = content w" using dec [OF k] c1(1) by simp
      show ?thesis
      proof (cases k)
        case None
        then show ?thesis using val1 raw k c2 by (simp add: sizeof_ZfCounterFloorFile_def)
      next
        case stored: (Some x)
        have x: "fst (zf_counter_floor_decode_fields hal i c (counter_floor_of_bytes d) w1) = Some x"
          using k stored d by simp
        have bound: "N \<le> x" if "floor_at hal (content w) i N"
          using that Some x raw(2) d by (auto simp: floor_at_def)
        have at: "floor_at hal (content w) i x" by (rule floor_at_exact [where files = "content w", OF plat Some x])
        obtain ok w3 where wr: "?wrote w2 = (ok, w3)" by fastforce
        show ?thesis
          using val1 raw k stored c2 bound at wr floor_write(1,3) [OF plat i wr]
            floor_write_keeps [OF plat i wr, of N]
          by (cases ok) (auto simp: sizeof_ZfCounterFloorFile_def split: if_split_asm)
      qed
    qed
  qed
  then show "res = Some (m, h) \<Longrightarrow> h = m \<and> n \<le> m \<and> (m = n \<or> floor_at hal (content w') i m)"
    and "res = Some (m, h) \<Longrightarrow> floor_at hal (content w) i N \<Longrightarrow> N \<le> m"
    and "floor_at hal (content w) i N \<Longrightarrow> floor_at hal (content w') i N"
    and "q \<notin> floor_paths i \<Longrightarrow> content w' q = content w q" by blast+
qed

section \<open>Loading\<close>

text \<open>Between two states only the floor of one credential has changed, and its bounds still hold.\<close>

definition raises :: "'w hal \<Rightarrow> ('w \<Rightarrow> path \<rightharpoonup> bytes) \<Rightarrow> bytes \<Rightarrow> 'w \<Rightarrow> 'w \<Rightarrow> bool" where
  "raises hal content i w w' \<longleftrightarrow>
    (\<forall>N. floor_at hal (content w) i N \<longrightarrow> floor_at hal (content w') i N) \<and>
    (\<forall>q. q \<notin> floor_paths i \<longrightarrow> content w' q = content w q)"

lemma raises_same: "content w' = content w \<Longrightarrow> raises hal content i w w'"
  by (simp add: raises_def)

lemma raises_floor:
  assumes "raises hal content i w w'" "length i = 32" "length j = 32" "floor_at hal (content w) j N"
  shows "floor_at hal (content w') j N"
proof (cases "i = j")
  case False
  then have "cred_path j ''.counter'' \<notin> floor_paths i" using assms(2,3) by (simp add: floor_paths_def)
  then show ?thesis
    using assms(1,4) floor_at_cong [of "content w'" j "content w" hal] by (simp add: raises_def)
qed (use assms in \<open>simp add: raises_def\<close>)

lemma raises_low:
  assumes "raises hal content i w w'" "length i = 32" "length j = 32" "low hal (content w) j N"
  shows "low hal (content w') j N"
proof -
  have "cred_path j [] \<notin> floor_paths i" using assms(2,3) by (simp add: floor_paths_def)
  then have "record_at hal (content w') j N = record_at hal (content w) j N"
    using assms(1) record_at_cong [of "content w'" j "content w" hal] by (simp add: raises_def)
  then show ?thesis using assms raises_floor [OF assms(1-3)] by (auto simp: low_def)
qed

text \<open>Reading and decoding the record file, the part the two loads share.\<close>

lemma decoded_count:
  assumes "store_platform hal content" "content w (cred_path i []) = Some d"
    and "zf_record_decode hal d (zf_store_record_format_hex_encode i) v = (Some (r, e), v')"
  shows "record_at hal (content w) i N \<longleftrightarrow> N \<le> cr_sign_count r"
  using assms(2,3) decode_count_unique [of hal d "zf_store_record_format_hex_encode i" v r e]
  by (auto simp: record_at_def) (metis fst_conv)+

lemma load_index_spec:
  assumes plat: "store_platform hal content" and i: "length i = 32"
    and ld: "zf_store_record_format_load_index_with_buffer hal (zf_store_record_format_hex_encode i) buffer w = (res, w')"
  shows "raises hal content i w w'"
    and "res = Some e \<Longrightarrow> ie_credential_id e = i \<and> ie_in_use e \<and> ie_counter_high_water e = ie_sign_count e \<and>
      low hal (content w') i (ie_sign_count e) \<and> (low hal (content w) i N \<longrightarrow> N \<le> ie_sign_count e)"
proof -
  note lawful = store_platform_lawful(1) [OF plat]
  obtain rd w1 where rd: "zf_storage_read_file hal (cred_path i []) (length buffer) w = (rd, w1)" by fastforce
  note c1 = read_file_content [OF lawful rd]
  have "raises hal content i w w' \<and> (res = Some e \<longrightarrow> ie_credential_id e = i \<and> ie_in_use e \<and>
      ie_counter_high_water e = ie_sign_count e \<and> low hal (content w') i (ie_sign_count e) \<and>
      (low hal (content w) i N \<longrightarrow> N \<le> ie_sign_count e))"
  proof (cases "length buffer = 0 \<or> rd = None")
    case True
    then show ?thesis using ld rd c1(1)
      by (auto simp: zf_store_record_format_load_index_with_buffer_def cred_paths [OF i] intro: raises_same
          split: if_split_asm)
  next
    case False
    then obtain d where d: "rd = Some d" by blast
    obtain dec w2 where dec: "zf_record_decode hal d (zf_store_record_format_hex_encode i) w1 = (dec, w2)" by fastforce
    have c2: "content w2 = content w" using frame_record_decode [OF plat] dec c1(1) by (metis snd_conv)
    show ?thesis
    proof (cases dec)
      case None
      then show ?thesis using ld rd d dec c2 False
        by (auto simp: zf_store_record_format_load_index_with_buffer_def cred_paths [OF i] intro: raises_same)
    next
      case (Some re)
      obtain r emb where re: "re = (r, emb)" by fastforce
      note ident = decoded_identity [of hal d i w1 r emb]
      have dec': "fst (zf_record_decode hal d (zf_store_record_format_hex_encode i) w1) = Some (r, emb)"
        using dec Some re by simp
      note id = ident [OF dec' i]
      obtain val w3 where val: "zf_store_counter_floor_validate_fields hal (zf_store_record_format_hex_encode i) i
          (cr_created_at r) (cr_sign_count r) emb w2 = (val, w3)" by fastforce
      note v = validate_spec [OF plat i val]
      have held: "content w2 (cred_path i []) = Some d" using c1(2) [OF d] c2 by simp
      have same: "content w3 (cred_path i []) = content w2 (cred_path i [])"
        using v(4) [of "cred_path i []"] i by (simp add: floor_paths_def)
      have up: "raises hal content i w w3" using v(3,4) c2 by (simp add: raises_def)
      have res: "res = map_option (\<lambda>(n, h). (zf_store_index_entry_from_record r)
          \<lparr>ie_sign_count := n, ie_counter_high_water := h\<rparr>) val" "w' = w3"
        using ld rd d dec Some re val id False
        by (auto simp: zf_store_record_format_load_index_with_buffer_def cred_paths [OF i]
            zf_store_counter_floor_validate_index_def zf_store_index_entry_from_record_def
            split: option.split_asm prod.split_asm)
      show ?thesis
      proof (intro conjI impI)
        show "raises hal content i w w'" using up res(2) by simp
        assume "res = Some e"
        then obtain n h where nh: "val = Some (n, h)" "e = (zf_store_index_entry_from_record r)
            \<lparr>ie_sign_count := n, ie_counter_high_water := h\<rparr>" using res(1) by auto
        note vn = v(1) [OF nh(1)]
        show "ie_credential_id e = i" "ie_in_use e" "ie_counter_high_water e = ie_sign_count e"
          using nh(2) id vn by (simp_all add: zf_store_index_entry_from_record_def)
        have rec: "record_at hal (content w2) i M \<longleftrightarrow> M \<le> cr_sign_count r" for M
          using decoded_count [OF plat held] dec Some re by blast
        show "low hal (content w') i (ie_sign_count e)"
          using vn nh(2) rec record_at_cong [of "content w3" i "content w2" hal, OF same] res(2) by (auto simp: low_def)
        show "N \<le> ie_sign_count e" if "low hal (content w) i N"
          using that v(2) [OF nh(1), of N] rec vn nh(2) c2 by (auto simp: low_def)
      qed
    qed
  qed
  then show "raises hal content i w w'" and "res = Some e \<Longrightarrow> ie_credential_id e = i \<and> ie_in_use e \<and>
      ie_counter_high_water e = ie_sign_count e \<and> low hal (content w') i (ie_sign_count e) \<and>
      (low hal (content w) i N \<longrightarrow> N \<le> ie_sign_count e)" by blast+
qed

text \<open>Loading an index entry is loading the record, without the secrets.\<close>

lemma load_index_from_record:
  assumes plat: "store_platform hal content" and i: "length i = 32"
  shows "zf_store_record_format_load_index_with_buffer hal (zf_store_record_format_hex_encode i) buffer w =
    (case zf_store_record_format_load_record_with_buffer hal (zf_store_record_format_hex_encode i) buffer w of
       (r, w') \<Rightarrow> (map_option zf_store_index_entry_from_record r, w'))"
proof -
  let ?name = "zf_store_record_format_hex_encode i"
  note defs = zf_store_record_format_load_index_with_buffer_def zf_store_record_format_load_record_with_buffer_def
    zf_store_record_format_load_record_internal_with_buffer_def
  obtain rd w1 where rd: "zf_storage_read_file hal (zf_store_build_record_path ?name 128) (length buffer) w = (rd, w1)"
    by fastforce
  show ?thesis
  proof (cases "length buffer = 0 \<or> rd = None")
    case True
    then show ?thesis using rd by (cases "buffer = []") (simp_all add: defs)
  next
    case False
    then obtain d where d: "rd = Some d" by blast
    obtain dec w2 where dec: "zf_record_decode hal d ?name w1 = (dec, w2)" by fastforce
    show ?thesis
    proof (cases dec)
      case None
      then show ?thesis using rd d dec False by (simp add: defs)
    next
      case (Some re)
      obtain r emb where re: "re = (r, emb)" by fastforce
      have ident: "cr_credential_id r = i" "cr_file_name r = ?name"
        using decoded_identity [of hal d i w1 r emb] i dec Some re by simp_all
      obtain val w3 where val: "zf_store_counter_floor_validate_fields hal ?name i (cr_created_at r)
          (cr_sign_count r) emb w2 = (val, w3)" by fastforce
      show ?thesis
      proof (cases val)
        case None
        then show ?thesis using rd d dec False Some re ident val
          by (simp add: defs zf_store_counter_floor_validate_index_def zf_store_counter_floor_validate_def
              zf_store_index_entry_from_record_def)
      next
        case nh: (Some x)
        obtain n h where x: "x = (n, h)" by fastforce
        have "h = n" using validate_spec(1) [OF plat i val, of n h] nh x by simp
        then show ?thesis using rd d dec False Some re ident val nh x
          by (simp add: defs zf_store_counter_floor_validate_index_def zf_store_counter_floor_validate_def
              zf_store_index_entry_from_record_def)
      qed
    qed
  qed
qed

lemma load_record_spec:
  assumes plat: "store_platform hal content" and i: "length i = 32"
    and ld: "zf_store_record_format_load_record_with_buffer hal (zf_store_record_format_hex_encode i) buffer w = (res, w')"
  shows "raises hal content i w w'"
    and "res = Some r \<Longrightarrow> cr_credential_id r = i \<and> cr_file_name r = zf_store_record_format_hex_encode i \<and>
      cr_in_use r \<and> low hal (content w') i (cr_sign_count r) \<and> (low hal (content w) i N \<longrightarrow> N \<le> cr_sign_count r)"
proof -
  have idx: "zf_store_record_format_load_index_with_buffer hal (zf_store_record_format_hex_encode i) buffer w =
      (map_option zf_store_index_entry_from_record res, w')"
    using load_index_from_record [OF plat i, of buffer w] ld by simp
  show "raises hal content i w w'" by (rule load_index_spec(1) [OF plat i idx])
  assume r: "res = Some r"
  have "cr_file_name r = zf_store_record_format_hex_encode i"
    using ld r decoded_identity(2) [where hal = hal, OF _ i]
    by (auto simp: zf_store_record_format_load_record_with_buffer_def zf_store_counter_floor_validate_def
        zf_store_record_format_load_record_internal_with_buffer_def
        split: if_split_asm prod.split_asm option.split_asm) (metis fst_conv)
  then show "cr_credential_id r = i \<and> cr_file_name r = zf_store_record_format_hex_encode i \<and> cr_in_use r \<and>
      low hal (content w') i (cr_sign_count r) \<and> (low hal (content w) i N \<longrightarrow> N \<le> cr_sign_count r)"
    using load_index_spec(2) [OF plat i idx, of "zf_store_index_entry_from_record r" N] r
    by (simp add: zf_store_index_entry_from_record_def)
qed

section \<open>Writing and reserving\<close>

lemma frame_write_record:
  assumes plat: "store_platform hal content" and i: "length i = 32"
    and name: "cr_file_name r = zf_store_record_format_hex_encode i"
    and wr: "zf_store_record_format_write_record_with_buffer hal r buffer w = (ok, w')" and q: "q \<notin> record_paths i"
  shows "content w' q = content w q"
proof -
  obtain e w1 where e: "zf_store_record_format_encode hal r buffer w = (e, w1)" by fastforce
  have c1: "content w1 = content w" using frame_record_encode [OF plat] e by (metis snd_conv)
  show ?thesis
    using wr e c1 q backup_paths(1) [OF i] name
      frame_write_file [OF store_platform_lawful(1) [OF plat], of q "cred_path i []" "cred_path i ''.tmp''"]
    by (auto simp: zf_store_record_format_write_record_with_buffer_def cred_paths [OF i] record_paths_def
        split: if_split_asm option.split_asm) (metis snd_conv)+
qed

lemma high_water_bound: "n \<le> zf_counter_reserved_high_water n"
  using unsigned_less [of n, where ?'a = nat]
  unfolding zf_counter_reserved_high_water_def Let_def ZF_COUNTER_RESERVATION_WINDOW_def
  by (auto simp: not_less word_le_nat_alt word_less_nat_alt unat_sub_if_size unat_plus_if_size word_size)

text \<open>A successful reservation leaves the high-water mark in the companion file.\<close>

lemma reserve_spec:
  assumes plat: "store_platform hal content" and i: "length i = 32"
    and r: "cr_credential_id r = i" "cr_file_name r = zf_store_record_format_hex_encode i"
    and res: "zf_store_record_format_reserve_counter_with_buffer hal r buffer w = (res, w')"
  shows "res = Some h \<Longrightarrow> h = zf_counter_reserved_high_water (cr_sign_count r) \<and> floor_at hal (content w') i h"
    and "floor_at hal (content w) i N \<Longrightarrow> N \<le> cr_sign_count r \<Longrightarrow> floor_at hal (content w') i N"
    and "low hal (content w) i N \<Longrightarrow> N \<le> cr_sign_count r \<Longrightarrow> low hal (content w') i N"
    and "q \<notin> floor_paths i \<union> record_paths i \<Longrightarrow> content w' q = content w q"
proof -
  let ?h = "zf_counter_reserved_high_water (cr_sign_count r)"
  obtain ok w1 where fl: "zf_store_counter_floor_write_value_fields hal (zf_store_record_format_hex_encode i) i
      (cr_created_at r) ?h w = (ok, w1)" by fastforce
  note f = floor_write [OF plat i fl]
  have disj: "cred_path i ''.counter'' \<notin> record_paths i" "cred_path i [] \<notin> floor_paths i"
    using i by (simp_all add: record_paths_def floor_paths_def)
  have small: "length buffer < ZF_STORE_RECORD_MAX_SIZE \<Longrightarrow> res = None \<and> w' = w"
    using res by (simp add: zf_store_record_format_reserve_counter_with_buffer_def)
  have failed: "\<not> ok \<Longrightarrow> \<not> length buffer < ZF_STORE_RECORD_MAX_SIZE \<Longrightarrow> res = None \<and> w' = w1"
    using res fl r by (auto simp: zf_store_record_format_reserve_counter_with_buffer_def
        zf_store_counter_floor_write_value_def Let_def split: bool.split_asm)
  have wrote: "\<exists>ok2. zf_store_record_format_write_record_with_buffer hal (r\<lparr>cr_sign_count := ?h\<rparr>) buffer w1 = (ok2, w') \<and>
      res = (if ok2 then Some ?h else None)" if "ok" "\<not> length buffer < ZF_STORE_RECORD_MAX_SIZE"
    using res fl r that by (auto simp: zf_store_record_format_reserve_counter_with_buffer_def
        zf_store_counter_floor_write_value_def Let_def split: bool.split_asm prod.split_asm)
  have after: "content w' q = content w1 q"
    if "ok" "\<not> length buffer < ZF_STORE_RECORD_MAX_SIZE" "q \<notin> record_paths i" for q
    using wrote [OF that(1,2)] frame_write_record [OF plat i, of "r\<lparr>cr_sign_count := ?h\<rparr>"] r that(3) by auto
  have step: "floor_at hal (content w1) i M \<Longrightarrow> floor_at hal (content w') i M"
    if "\<not> length buffer < ZF_STORE_RECORD_MAX_SIZE" for M
    using that failed after [OF _ that disj(1)] floor_at_cong [of "content w'" i "content w1" hal M] by (cases ok) auto
  have count: "cr_sign_count r \<le> ?h" by (rule high_water_bound)
  show "h = ?h \<and> floor_at hal (content w') i h" if "res = Some h"
  proof -
    have ok: ok and big: "\<not> length buffer < ZF_STORE_RECORD_MAX_SIZE" using that small failed by auto
    then have "h = ?h" using wrote that by (auto split: if_split_asm)
    then show ?thesis using f(1) [OF ok] step [OF big] by simp
  qed
  show keep: "floor_at hal (content w') i M" if "floor_at hal (content w) i M" "M \<le> cr_sign_count r" for M
  proof (cases "length buffer < ZF_STORE_RECORD_MAX_SIZE")
    case False
    have "M \<le> ?h" using that(2) count by (rule order_trans)
    then show ?thesis using step [OF False] floor_write_keeps [OF plat i fl that(1)] by blast
  qed (use small that in simp)
  show "low hal (content w') i N" if "low hal (content w) i N" "N \<le> cr_sign_count r"
  proof (cases "floor_at hal (content w) i N")
    case False
    then have rec: "record_at hal (content w) i N" using that(1) by (simp add: low_def)
    have rec1: "record_at hal (content w1) i N"
      using rec record_at_cong [of "content w1" i "content w" hal N] f(3) [OF disj(2)] by simp
    show ?thesis
    proof (cases "length buffer < ZF_STORE_RECORD_MAX_SIZE \<or> \<not> ok")
      case True
      then show ?thesis using small failed rec rec1 by (auto simp: low_def)
    next
      case ok: False
      then have "floor_at hal (content w') i ?h" using f(1) step by blast
      then show ?thesis using floor_at_mono order_trans [OF that(2) count] by (auto simp: low_def)
    qed
  qed (use keep that in \<open>auto simp: low_def\<close>)
  show "content w' q = content w q" if "q \<notin> floor_paths i \<union> record_paths i"
    using that f(3) [of q] small failed after [of q] by (cases ok) auto
qed

section \<open>Reading back what was written\<close>

lemma record_written:
  assumes plat: "store_platform hal content" and wf: "record_wf r"
    and wr: "zf_store_record_format_write_record_with_buffer hal r buffer w = (True, w')"
  shows "\<exists>e. content w' (cred_path (cr_credential_id r) []) = Some e \<and> encodes hal e r"
proof -
  let ?i = "cr_credential_id r"
  have i: "length ?i = 32" "cr_file_name r = zf_store_record_format_hex_encode ?i"
    using wf by (simp_all add: record_wf_def ZF_CREDENTIAL_ID_LEN_def)
  obtain res w1 where e: "zf_store_record_format_encode hal r buffer w = (res, w1)" by fastforce
  with wr obtain d where d: "res = Some d" "ZF_STORE_RECORD_MAX_SIZE \<le> length buffer"
    "zf_storage_write_file_atomic hal (cred_path ?i []) (cred_path ?i ''.tmp'') d w1 = (True, w')"
    using i(2) cred_paths [OF i(1)]
    by (auto simp: zf_store_record_format_write_record_with_buffer_def split: if_split_asm option.split_asm)
  have "encodes hal d r" by (rule record_encoded(1) [OF store_platform_lawful(2) [OF plat] wf d(2) e d(1)])
  moreover have "content w' (cred_path ?i []) = Some d"
    by (rule atomic_file.written_present [OF record_file [OF i(1)] store_platform_lawful(1) [OF plat] d(3)])
  ultimately show ?thesis by blast
qed

lemma record_loaded:
  assumes plat: "store_platform hal content" and readable: "\<And>p v. fst (fs_read hal p v) = content v p"
    and e: "encodes hal e r" "content v (cred_path i []) = Some e" "length i = 32"
    and id: "cr_credential_id r = i" "cr_file_name r = zf_store_record_format_hex_encode i"
    and room: "ZF_STORE_RECORD_MAX_SIZE \<le> length buffer"
  shows "fst (zf_store_record_format_load_record_for_display_with_buffer hal (cr_file_name r) buffer v) = Some r"
    and "content v (cred_path i ''.counter'') = None \<Longrightarrow>
      fst (zf_store_record_format_load_record_with_buffer hal (cr_file_name r) buffer v) = Some r"
proof -
  obtain floor where fl: "floor_holds hal i (cr_created_at r) floor (cr_sign_count r)"
    "\<And>w. fst (zf_record_decode hal e (cr_file_name r) w) = Some (r, Some floor)" "e \<noteq> []" "length e \<le> 800"
    using e(1) id(1) by (auto simp: encodes_def ZF_STORE_RECORD_MAX_SIZE_def)
  have ne: "length buffer \<noteq> 0" "length e \<le> length buffer" using room fl(4) by (auto simp: ZF_STORE_RECORD_MAX_SIZE_def)
  obtain v1 where rd: "zf_storage_read_file hal (cred_path i []) (length buffer) v = (Some e, v1)"
    using readable [of "cred_path i []" v] e(2) fl(3) ne
    by (cases "fs_read hal (cred_path i []) v") (simp add: zf_storage_read_file_def)
  obtain v2 where dec: "zf_record_decode hal e (cr_file_name r) v1 = (Some (r, Some floor), v2)"
    using fl(2) [of v1] by (cases "zf_record_decode hal e (cr_file_name r) v1") simp
  have same: "content v2 = content v"
    using read_file_content(1) [OF store_platform_lawful(1) [OF plat] rd] frame_record_decode [OF plat, of e "cr_file_name r" v1] dec
    by simp
  note defs = zf_store_record_format_load_record_for_display_with_buffer_def
    zf_store_record_format_load_record_with_buffer_def zf_store_record_format_load_record_internal_with_buffer_def
  show "fst (zf_store_record_format_load_record_for_display_with_buffer hal (cr_file_name r) buffer v) = Some r"
    using ne rd dec id(2) cred_paths(1) [OF e(3)] by (simp add: defs)
  assume none: "content v (cred_path i ''.counter'') = None"
  have "\<not> fs_exists hal (cred_path i ''.counter'') v2"
    using none same store_platform_lawful(1) [OF plat] by (simp add: storage_lawful_def)
  moreover obtain v3 where "zf_counter_floor_decode_fields hal i (cr_created_at r) floor v2 = (Some (cr_sign_count r), v3)"
    using fl(1) unfolding floor_holds_def by (metis prod.collapse)
  ultimately show "fst (zf_store_record_format_load_record_with_buffer hal (cr_file_name r) buffer v) = Some r"
    using ne rd dec id cred_paths [OF e(3)]
    by (simp add: defs zf_store_counter_floor_validate_def zf_store_counter_floor_validate_fields_def Let_def)
qed

end
