(* ===== verification/Store_Exact.thy ===== *)
theory Store_Exact
  imports Store_Files
begin

text \<open>
  The index in memory. \<open>store_wf\<close> is its representation invariant; under it the array behaves as a
  finite map from credential identifiers to entries (\<open>index_view\<close>), and the two lookups by relying
  party return the matching positions, newest first. The locale \<open>credential_index\<close> states what the
  command handlers rely on; the store is its instance.
\<close>

section \<open>Representation\<close>

definition entry_wf :: "ZfCredentialIndexEntry \<Rightarrow> bool" where
  "entry_wf e \<longleftrightarrow> ie_in_use e \<and> length (ie_credential_id e) = ZF_CREDENTIAL_ID_LEN \<and>
    length (ie_rp_id_hash e) = 32 \<and> ie_sign_count e \<le> ie_counter_high_water e"

lemma load_index_hash:
  "zf_store_record_format_load_index_with_buffer hal f b w = (Some e, w') \<Longrightarrow> length (ie_rp_id_hash e) = 32"
  by (auto simp: zf_store_record_format_load_index_with_buffer_def zf_store_counter_floor_validate_index_def
      zf_store_index_entry_from_record_def split: if_split_asm prod.split_asm option.split_asm)

definition array_wf :: "ZfCredentialStore \<Rightarrow> bool" where
  "array_wf s \<longleftrightarrow> (case cs_records s of
      None \<Rightarrow> cs_count s = 0
    | Some xs \<Rightarrow> length xs = zf_store_effective_capacity s \<and> cs_count s \<le> length xs) \<and>
    zf_store_effective_capacity s \<le> ZF_MAX_CREDENTIALS"

definition store_wf :: "ZfCredentialStore \<Rightarrow> bool" where
  "store_wf s \<longleftrightarrow> array_wf s \<and> list_all entry_wf (cs_entries s) \<and>
    distinct (map ie_credential_id (cs_entries s))"

definition index_view :: "ZfCredentialStore \<Rightarrow> bytes \<rightharpoonup> ZfCredentialIndexEntry" where
  "index_view s = map_of (map (\<lambda>e. (ie_credential_id e, e)) (cs_entries s))"

lemma length_entries: "array_wf s \<Longrightarrow> length (cs_entries s) = cs_count s"
  by (auto simp: array_wf_def cs_entries_def split: option.split)

lemma entries_nth: "array_wf s \<Longrightarrow> i < cs_count s \<Longrightarrow> cs_entries s ! i = the (cs_records s) ! i"
  by (auto simp: array_wf_def cs_entries_def split: option.split_asm)

lemma count_bound: "array_wf s \<Longrightarrow> cs_count s \<le> ZF_MAX_CREDENTIALS"
  by (auto simp: array_wf_def split: option.split_asm)

subsection \<open>Growing the array\<close>

lemma grow_capacity_result:
  assumes "0 < n" "m \<le> ZF_MAX_CREDENTIALS"
  shows "m \<le> grow_capacity m n \<and> n \<le> grow_capacity m n \<and> (n \<le> m \<longrightarrow> grow_capacity m n \<le> 2 * m)"
  using assms
proof (induction m n rule: grow_capacity.induct)
  case (1 m n)
  show ?case
  proof (cases "n < m \<and> n < ZF_MAX_CREDENTIALS")
    case True
    with 1 have g: "grow_capacity m n = grow_capacity m (n * 2)" by (simp add: grow_capacity.simps [of m n])
    from 1 True have ih: "m \<le> grow_capacity m (n * 2)" "n * 2 \<le> grow_capacity m (n * 2)"
      "n * 2 \<le> m \<longrightarrow> grow_capacity m (n * 2) \<le> 2 * m" by auto
    have "grow_capacity m (n * 2) = n * 2" if "\<not> n * 2 \<le> m" using that by (simp add: grow_capacity.simps [of m "n * 2"])
    with ih True show ?thesis unfolding g by linarith
  next
    case False
    with 1(3) have "m \<le> n" by auto
    moreover have "grow_capacity m n = n" using False by (subst grow_capacity.simps) auto
    ultimately show ?thesis by (intro conjI impI) linarith+
  qed
qed

lemma ensure_capacity_spec:
  assumes wf: "array_wf s" and r: "zf_store_ensure_capacity heap s m = (ok, s')"
  shows "array_wf s' \<and> cs_entries s' = cs_entries s \<and> cs_count s' = cs_count s"
    and "ok \<Longrightarrow> cs_records s' \<noteq> None \<or> m = 0" "ok \<Longrightarrow> m \<le> zf_store_effective_capacity s'"
    and "m \<le> ZF_MAX_CREDENTIALS \<Longrightarrow> cs_capacity s \<noteq> 0 \<or> cs_records s = None \<Longrightarrow> (\<And>n. heap n) \<Longrightarrow> ok"
proof -
  let ?old = "zf_store_effective_capacity s"
  let ?new = "min ZF_MAX_CREDENTIALS (grow_capacity m (if ?old > 0 then ?old else 1))"
  show "array_wf s' \<and> cs_entries s' = cs_entries s \<and> cs_count s' = cs_count s"
    using wf r
    by (auto simp: zf_store_ensure_capacity_def Let_def array_wf_def cs_entries_def
        zf_store_effective_capacity_def ZF_MAX_CREDENTIALS_def split: if_split_asm option.split_asm)
  show "cs_records s' \<noteq> None \<or> m = 0" if ok
    using r that by (auto simp: zf_store_ensure_capacity_def Let_def zf_store_effective_capacity_def split: if_split_asm)
  show "m \<le> zf_store_effective_capacity s'" if ok
    using r that by (auto simp: zf_store_ensure_capacity_def Let_def zf_store_effective_capacity_def split: if_split_asm)
  show ok if "m \<le> ZF_MAX_CREDENTIALS" "cs_capacity s \<noteq> 0 \<or> cs_records s = None" "\<And>n. heap n"
    using r wf that grow_capacity_result [of "if ?old > 0 then ?old else 1" m]
    by (auto simp: zf_store_ensure_capacity_def Let_def array_wf_def split: if_split_asm)
qed

subsection \<open>Entries\<close>

lemma entries_append:
  assumes wf: "array_wf s" and r: "zf_store_ensure_capacity heap s (cs_count s + 1) = (True, s')"
  shows "cs_entries ((cs_put s' (cs_count s') e)\<lparr>cs_count := cs_count s' + 1\<rparr>) = cs_entries s @ [e]"
    and "array_wf ((cs_put s' (cs_count s') e)\<lparr>cs_count := cs_count s' + 1\<rparr>)"
proof -
  note spec = ensure_capacity_spec [OF wf r]
  obtain xs where xs: "cs_records s' = Some xs" using spec(2) by auto
  have len: "length xs = zf_store_effective_capacity s'" "cs_count s < length xs"
    using spec(1,3) xs by (auto simp: array_wf_def)
  have "cs_entries ((cs_put s' (cs_count s') e)\<lparr>cs_count := cs_count s' + 1\<rparr>) =
      take (cs_count s + 1) (xs[cs_count s := e])"
    using xs spec(1) by (simp add: cs_entries_def cs_put_def)
  also have "\<dots> = take (cs_count s) xs @ [e]"
    using len(2) by (simp add: take_Suc_conv_app_nth take_update_cancel)
  also have "take (cs_count s) xs = cs_entries s'" using xs spec(1) by (simp add: cs_entries_def)
  also have "cs_entries s' = cs_entries s" using spec(1) by blast
  finally show "cs_entries ((cs_put s' (cs_count s') e)\<lparr>cs_count := cs_count s' + 1\<rparr>) = cs_entries s @ [e]" .
  have "zf_store_effective_capacity ((cs_put s' (cs_count s') e)\<lparr>cs_count := cs_count s' + 1\<rparr>) =
      zf_store_effective_capacity s'"
    using xs by (simp add: zf_store_effective_capacity_def cs_put_def)
  then show "array_wf ((cs_put s' (cs_count s') e)\<lparr>cs_count := cs_count s' + 1\<rparr>)"
    using spec(1) xs len by (simp add: array_wf_def cs_put_def)
qed

lemma entries_put:
  assumes "array_wf s" "i < cs_count s"
  shows "cs_entries (cs_put s i e) = (cs_entries s)[i := e]" "array_wf (cs_put s i e)"
  using assms
  by (auto simp: cs_entries_def cs_put_def array_wf_def zf_store_effective_capacity_def take_update_swap
      split: option.split_asm if_split_asm)

lemma entries_compact:
  assumes "array_wf s" "i < cs_count s"
  shows "cs_entries (zf_store_compact_after_delete s i) = take i (cs_entries s) @ drop (i + 1) (cs_entries s)"
    "array_wf (zf_store_compact_after_delete s i)" "cs_count (zf_store_compact_after_delete s i) = cs_count s - 1"
proof -
  obtain xs where xs: "cs_records s = Some xs" "cs_count s \<le> length xs" using assms by (auto simp: array_wf_def split: option.split_asm)
  have "take i (take (cs_count s) xs) = take i xs"
    "drop (i + 1) (take (cs_count s) xs) = take (cs_count s - 1 - i) (drop (i + 1) xs)"
    using assms(2) by (simp_all add: min_def drop_take)
  then show "cs_entries (zf_store_compact_after_delete s i) = take i (cs_entries s) @ drop (i + 1) (cs_entries s)"
    using xs assms(2) by (simp add: cs_entries_def zf_store_compact_after_delete_def)
  show "array_wf (zf_store_compact_after_delete s i)"
    using assms xs by (auto simp: array_wf_def zf_store_compact_after_delete_def zf_store_effective_capacity_def
        split: if_split_asm)
qed (simp add: zf_store_compact_after_delete_def)

lemma entries_clear:
  assumes "zf_store_effective_capacity s \<le> ZF_MAX_CREDENTIALS"
  shows "cs_entries (zf_store_clear s) = []" "store_wf (zf_store_clear s)"
  using assms by (auto simp: cs_entries_def zf_store_clear_def store_wf_def array_wf_def
      zf_store_effective_capacity_def split: option.split if_split_asm)

lemma first_index_Some:
  "first_index P xs = Some i \<longleftrightarrow> i < length xs \<and> P (xs ! i) \<and> (\<forall>j<i. \<not> P (xs ! j))"
proof (induction xs arbitrary: i)
  case (Cons x xs)
  show ?case
  proof (cases i)
    case (Suc k)
    have "(\<forall>j<Suc k. \<not> P ((x # xs) ! j)) \<longleftrightarrow> \<not> P x \<and> (\<forall>j<k. \<not> P (xs ! j))"
      by (auto simp: less_Suc_eq_0_disj)
    then show ?thesis using Cons.IH [of k] Suc by auto
  qed (use Cons in auto)
qed simp

lemma first_index_None: "first_index P xs = None \<longleftrightarrow> (\<forall>x \<in> set xs. \<not> P x)"
  by (induction xs) auto

text \<open>In a well-formed index the first entry with an identifier is the only one.\<close>

lemma find_view:
  assumes wf: "store_wf s"
  shows "first_index (entry_has_id c) (cs_entries s) = Some i \<Longrightarrow>
      i < cs_count s \<and> ie_credential_id (cs_entries s ! i) = c \<and> index_view s c = Some (cs_entries s ! i)"
    and "first_index (entry_has_id c) (cs_entries s) = None \<longleftrightarrow> index_view s c = None"
proof -
  have len: "length (cs_entries s) = cs_count s" using wf length_entries by (simp add: store_wf_def)
  have d: "distinct (map fst (map (\<lambda>e. (ie_credential_id e, e)) (cs_entries s)))"
    using wf by (simp add: store_wf_def comp_def)
  have use: "e \<in> set (cs_entries s) \<Longrightarrow> ie_in_use e" for e
    using wf by (auto simp: store_wf_def list_all_iff entry_wf_def)
  show "i < cs_count s \<and> ie_credential_id (cs_entries s ! i) = c \<and> index_view s c = Some (cs_entries s ! i)"
    if "first_index (entry_has_id c) (cs_entries s) = Some i"
  proof -
    from that have i: "i < length (cs_entries s)" "entry_has_id c (cs_entries s ! i)"
      by (simp_all add: first_index_Some)
    then have "(c, cs_entries s ! i) \<in> set (map (\<lambda>e. (ie_credential_id e, e)) (cs_entries s))"
      by (auto simp: entry_has_id_def)
    then have "index_view s c = Some (cs_entries s ! i)" using map_of_is_SomeI [OF d] by (simp add: index_view_def)
    with i len show ?thesis by (simp add: entry_has_id_def)
  qed
  show "first_index (entry_has_id c) (cs_entries s) = None \<longleftrightarrow> index_view s c = None"
    using use by (auto simp: first_index_None entry_has_id_def index_view_def map_of_eq_None_iff image_image)
qed

lemma card_view:
  assumes "store_wf s"
  shows "card (dom (index_view s)) = cs_count s"
proof -
  have "dom (index_view s) = set (map ie_credential_id (cs_entries s))"
    by (simp add: index_view_def dom_map_of_conv_image_fst image_image)
  then show ?thesis
    using assms distinct_card [of "map ie_credential_id (cs_entries s)"] length_entries [of s]
    by (simp add: store_wf_def)
qed

section \<open>The index as a finite map\<close>

definition advanced :: "ZfCredentialIndexEntry \<Rightarrow> u32 \<Rightarrow> u32 \<Rightarrow> ZfCredentialIndexEntry" where
  "advanced e count high_water =
    (if count > ie_counter_high_water e then e\<lparr>ie_counter_high_water := high_water\<rparr> else e)
    \<lparr>ie_sign_count := count\<rparr>"

text \<open>
  The contract of the index towards the command handlers: a finite map with lookup, publication of a new
  record, publication of an advanced counter, and removal of a position that a lookup returned.
\<close>

locale credential_index =
  fixes valid :: "'s \<Rightarrow> bool"
    and view :: "'s \<Rightarrow> bytes \<rightharpoonup> ZfCredentialIndexEntry"
    and find :: "'s \<Rightarrow> bytes \<Rightarrow> nat option"
    and add :: "'s \<Rightarrow> ZfCredentialRecord \<Rightarrow> bool \<times> 's"
    and advance :: "'s \<Rightarrow> ZfCredentialRecord \<Rightarrow> u32 \<Rightarrow> bool \<times> 's"
    and remove_at :: "'s \<Rightarrow> nat \<Rightarrow> 's"
  assumes find_iff: "valid s \<Longrightarrow> find s c = None \<longleftrightarrow> view s c = None"
    and add_ok: "valid s \<Longrightarrow> cr_in_use r \<Longrightarrow> length (cr_credential_id r) = ZF_CREDENTIAL_ID_LEN \<Longrightarrow>
      view s (cr_credential_id r) = None \<Longrightarrow> add s r = (True, s') \<Longrightarrow>
      valid s' \<and> view s' = (view s)(cr_credential_id r \<mapsto> zf_store_index_entry_from_record r)"
    and add_failed: "valid s \<Longrightarrow> add s r = (False, s') \<Longrightarrow> valid s' \<and> view s' = view s"
    and advance_ok: "valid s \<Longrightarrow> advance s r h = (True, s') \<Longrightarrow>
      \<exists>e. view s (cr_credential_id r) = Some e \<and> ie_sign_count e \<le> cr_sign_count r \<and> cr_sign_count r \<le> h \<and>
        valid s' \<and> view s' = (view s)(cr_credential_id r \<mapsto> advanced e (cr_sign_count r) h)"
    and advance_failed: "advance s r h = (False, s') \<Longrightarrow> s' = s"
    and remove_found: "valid s \<Longrightarrow> find s c = Some i \<Longrightarrow>
      valid (remove_at s i) \<and> view (remove_at s i) = (view s)(c := None)"
begin

text \<open>Counters of an entry only grow while the entry stays, whatever is published for others.\<close>

inductive index_step :: "'s \<Rightarrow> 's \<Rightarrow> bool" where
  added: "add s r = (ok, s') \<Longrightarrow> cr_in_use r \<Longrightarrow> length (cr_credential_id r) = ZF_CREDENTIAL_ID_LEN \<Longrightarrow>
    view s (cr_credential_id r) = None \<Longrightarrow> index_step s s'"
| advanced: "advance s r h = (ok, s') \<Longrightarrow> index_step s s'"
| removed: "find s c = Some i \<Longrightarrow> index_step s (remove_at s i)"

lemma step_valid: "index_step s s' \<Longrightarrow> valid s \<Longrightarrow> valid s'"
proof (induction rule: index_step.induct)
  case (added s r ok s')
  then show ?case using add_ok [of s r s'] add_failed [of s r s'] by (cases ok) auto
next
  case (advanced s r h ok s')
  then show ?case using advance_ok [of s r h s'] advance_failed [of s r h s'] by (cases ok) auto
next
  case (removed s c i)
  then show ?case using remove_found by blast
qed

lemma step_counter:
  "index_step s s' \<Longrightarrow> valid s \<Longrightarrow> view s c = Some e \<Longrightarrow> view s' c = Some e' \<Longrightarrow>
    ie_sign_count e \<le> ie_sign_count e'"
proof (induction rule: index_step.induct)
  case (added s r ok s')
  then show ?case using add_ok [of s r s'] add_failed [of s r s'] by (cases ok) (auto split: if_split_asm)
next
  case (advanced s r h ok s')
  then show ?case using advance_ok [of s r h s'] advance_failed [of s r h s']
    by (cases ok) (auto simp: advanced_def split: if_split_asm)
next
  case (removed s d i)
  then show ?case using remove_found [of s d i] by (auto split: if_split_asm)
qed

lemma removed_not_found: "valid s \<Longrightarrow> find s c = Some i \<Longrightarrow> find (remove_at s i) c = None"
  using remove_found [of s c i] find_iff [of "remove_at s i" c] by simp

lemma added_is_found:
  "valid s \<Longrightarrow> cr_in_use r \<Longrightarrow> length (cr_credential_id r) = ZF_CREDENTIAL_ID_LEN \<Longrightarrow>
    view s (cr_credential_id r) = None \<Longrightarrow> add s r = (True, s') \<Longrightarrow> find s' (cr_credential_id r) \<noteq> None"
  using add_ok [of s r s'] find_iff [of s' "cr_credential_id r"] by simp

end

lemma publish_added_spec:
  assumes wf: "store_wf s" and r: "zf_store_publish_added_record heap s r = (ok, s')"
  shows "\<not> ok \<Longrightarrow> store_wf s' \<and> index_view s' = index_view s"
    and "ok \<Longrightarrow> cr_in_use r \<Longrightarrow> length (cr_credential_id r) = ZF_CREDENTIAL_ID_LEN \<Longrightarrow>
      index_view s (cr_credential_id r) = None \<Longrightarrow> store_wf s' \<and>
      index_view s' = (index_view s)(cr_credential_id r \<mapsto> zf_store_index_entry_from_record r)"
proof -
  have awf: "array_wf s" using wf by (simp add: store_wf_def)
  obtain ok1 s1 where e: "zf_store_ensure_capacity heap s (cs_count s + 1) = (ok1, s1)" by fastforce
  note spec = ensure_capacity_spec(1) [OF awf e]
  let ?e = "zf_store_index_entry_from_record r"
  show "store_wf s' \<and> index_view s' = index_view s" if "\<not> ok"
    using r e spec wf that
    by (auto simp: zf_store_publish_added_record_def store_wf_def index_view_def split: if_split_asm bool.split_asm)
  show "store_wf s' \<and> index_view s' = (index_view s)(cr_credential_id r \<mapsto> ?e)"
    if ok: ok and rec: "cr_in_use r" "length (cr_credential_id r) = ZF_CREDENTIAL_ID_LEN"
      "index_view s (cr_credential_id r) = None"
  proof -
    have s': "ok1" "s' = (cs_put s1 (cs_count s1) ?e)\<lparr>cs_count := cs_count s1 + 1\<rparr>"
      using r e ok by (auto simp: zf_store_publish_added_record_def split: if_split_asm bool.split_asm)
    note app = entries_append [OF awf e [unfolded eqTrueI [OF s'(1)]], where e = ?e]
    have ents: "cs_entries s' = cs_entries s @ [?e]" "array_wf s'" using app s'(2) by simp_all
    have id: "ie_credential_id ?e = cr_credential_id r" "entry_wf ?e"
      using rec by (simp_all add: zf_store_index_entry_from_record_def entry_wf_def)
    have fresh: "cr_credential_id r \<notin> ie_credential_id ` set (cs_entries s)"
      using rec(3) by (simp add: index_view_def map_of_eq_None_iff image_image)
    have "index_view s' = (index_view s)(cr_credential_id r \<mapsto> ?e)"
    proof
      fix c
      show "index_view s' c = ((index_view s)(cr_credential_id r \<mapsto> ?e)) c"
        using fresh id(1) ents(1) rec(3)
        by (auto simp: index_view_def map_add_def split: option.split)
    qed
    with ents id fresh wf show ?thesis by (simp add: store_wf_def)
  qed
qed

lemma view_update:
  assumes wf: "store_wf s" and i: "i < cs_count s" and e: "ie_credential_id e = ie_credential_id (cs_entries s ! i)"
  shows "index_view (cs_put s i e) = (index_view s)(ie_credential_id e \<mapsto> e)"
    and "entry_wf e \<Longrightarrow> store_wf (cs_put s i e)"
proof -
  let ?xs = "cs_entries s"
  have awf: "array_wf s" and d: "distinct (map ie_credential_id ?xs)" using wf by (simp_all add: store_wf_def)
  have len: "i < length ?xs" using length_entries [OF awf] i by simp
  have ents: "cs_entries (cs_put s i e) = ?xs[i := e]" by (rule entries_put(1) [OF awf i])
  have ids: "map ie_credential_id (?xs[i := e]) = map ie_credential_id ?xs"
    using len e by (simp add: map_update list_update_same_conv)
  have d': "distinct (map fst (map (\<lambda>e. (ie_credential_id e, e)) (?xs[i := e])))"
    using d ids by (simp add: comp_def)
  show "index_view (cs_put s i e) = (index_view s)(ie_credential_id e \<mapsto> e)"
  proof
    fix c
    show "index_view (cs_put s i e) c = ((index_view s)(ie_credential_id e \<mapsto> e)) c"
    proof (cases "c = ie_credential_id e")
      case True
      have "e \<in> set (?xs[i := e])" using len by (simp add: set_update_memI)
      then have "(c, e) \<in> set (map (\<lambda>e. (ie_credential_id e, e)) (?xs[i := e]))" using True by auto
      then show ?thesis using map_of_is_SomeI [OF d'] True ents by (simp add: index_view_def)
    next
      case False
      have "map_of (map (\<lambda>e. (ie_credential_id e, e)) (xs[k := e])) c = map_of (map (\<lambda>e. (ie_credential_id e, e)) xs) c"
        if "k < length xs" "ie_credential_id (xs ! k) = ie_credential_id e" for xs k
        using that False by (induction xs arbitrary: k) (auto split: nat.split simp: nth_Cons)
      then show ?thesis using False len e ents by (simp add: index_view_def)
    qed
  qed
  have "set (?xs[i := e]) \<subseteq> insert e (set ?xs)" by (rule set_update_subset_insert)
  then show "store_wf (cs_put s i e)" if "entry_wf e"
    using that wf ents entries_put(2) [OF awf i] ids by (auto simp: store_wf_def list_all_iff)
qed

lemma publish_advance_spec:
  assumes wf: "store_wf s" and r: "zf_store_publish_counter_advance s r h = (ok, s')"
  shows "\<not> ok \<Longrightarrow> s' = s"
    and "ok \<Longrightarrow> \<exists>e. index_view s (cr_credential_id r) = Some e \<and> ie_sign_count e \<le> cr_sign_count r \<and>
      cr_sign_count r \<le> h \<and> store_wf s' \<and>
      index_view s' = (index_view s)(cr_credential_id r \<mapsto> advanced e (cr_sign_count r) h)"
proof -
  show "\<not> ok \<Longrightarrow> s' = s"
    using r by (auto simp: zf_store_publish_counter_advance_def Let_def split: if_split_asm option.split_asm)
  assume ok
  with r obtain i where i: "first_index (entry_has_id (cr_credential_id r)) (cs_entries s) = Some i"
    and c: "cr_sign_count r \<le> h" "ie_sign_count (cs_entries s ! i) \<le> cr_sign_count r"
    and s': "s' = cs_put s i (advanced (cs_entries s ! i) (cr_sign_count r) h)"
    by (auto simp: zf_store_publish_counter_advance_def advanced_def Let_def split: if_split_asm option.split_asm)
  note at = find_view(1) [OF wf i]
  let ?e = "advanced (cs_entries s ! i) (cr_sign_count r) h"
  have "entry_wf (cs_entries s ! i)"
    using wf at length_entries [of s] by (simp add: store_wf_def list_all_length)
  then have "entry_wf ?e" using c by (auto simp: entry_wf_def advanced_def not_less)
  then show "\<exists>e. index_view s (cr_credential_id r) = Some e \<and> ie_sign_count e \<le> cr_sign_count r \<and>
      cr_sign_count r \<le> h \<and> store_wf s' \<and>
      index_view s' = (index_view s)(cr_credential_id r \<mapsto> advanced e (cr_sign_count r) h)"
    using at c s' view_update [OF wf, of i ?e] by (auto simp: advanced_def)
qed

lemma remove_spec:
  assumes wf: "store_wf s" and i: "i < cs_count s"
  shows "store_wf (zf_store_compact_after_delete s i)"
    and "index_view (zf_store_compact_after_delete s i) = (index_view s)(ie_credential_id (cs_entries s ! i) := None)"
proof -
  let ?xs = "cs_entries s"
  have awf: "array_wf s" and d: "distinct (map ie_credential_id ?xs)" using wf by (simp_all add: store_wf_def)
  have len: "i < length ?xs" using length_entries [OF awf] i by simp
  note ents = entries_compact [OF awf i]
  have split: "?xs = take i ?xs @ ?xs ! i # drop (i + 1) ?xs" using len by (simp add: id_take_nth_drop)
  show "store_wf (zf_store_compact_after_delete s i)"
  proof -
    have "distinct (map ie_credential_id (take i ?xs @ drop (i + 1) ?xs))"
      using d by (subst (asm) split) auto
    moreover have "list_all entry_wf (take i ?xs @ drop (i + 1) ?xs)"
      using wf by (auto simp: store_wf_def list_all_iff dest: in_set_takeD in_set_dropD)
    ultimately show ?thesis using ents(1,2) by (simp add: store_wf_def)
  qed
  show "index_view (zf_store_compact_after_delete s i) = (index_view s)(ie_credential_id (?xs ! i) := None)"
  proof
    fix c
    let ?m = "map (\<lambda>e. (ie_credential_id e, e))"
    have whole: "index_view s = map_of (?m (drop (i + 1) ?xs)) ++ [ie_credential_id (?xs ! i) \<mapsto> ?xs ! i] ++
        map_of (?m (take i ?xs))"
      unfolding index_view_def by (subst split) simp
    have "ie_credential_id (?xs ! i) \<notin> ie_credential_id ` set (take i ?xs) \<union> ie_credential_id ` set (drop (i + 1) ?xs)"
      using d by (subst (asm) split) auto
    then have "map_of (?m (drop (i + 1) ?xs)) (ie_credential_id (?xs ! i)) = None"
      "map_of (?m (take i ?xs)) (ie_credential_id (?xs ! i)) = None"
      by (simp_all add: map_of_eq_None_iff image_image)
    then show "index_view (zf_store_compact_after_delete s i) c = ((index_view s)(ie_credential_id (?xs ! i) := None)) c"
      unfolding whole using ents(1) by (auto simp: index_view_def map_add_def split: option.split)
  qed
qed

interpretation index: credential_index store_wf index_view zf_store_find_index_by_id
  "zf_store_publish_added_record heap" zf_store_publish_counter_advance zf_store_compact_after_delete for heap
proof (unfold_locales, goal_cases)
  case (1 s c)
  then show ?case using find_view(2) by (simp add: zf_store_find_index_by_id_def)
next
  case (2 s r s')
  then show ?case using publish_added_spec(2) [of s heap r True s'] by simp
next
  case (3 s r s')
  then show ?case using publish_added_spec(1) [of s heap r False s'] by simp
next
  case (4 s r h s')
  then show ?case using publish_advance_spec(2) [of s r h True s'] by simp
next
  case (5 s r h s')
  then show ?case
    by (auto simp: zf_store_publish_counter_advance_def Let_def split: if_split_asm option.split_asm)
next
  case (6 s c i)
  then show ?case using find_view(1) [of s c i] remove_spec [of s i] by (simp add: zf_store_find_index_by_id_def)
qed

section \<open>Lookup by relying party\<close>

text \<open>The order of \<^verbatim>\<open>zf_store_index_is_newer\<close> as a number: creation time, then identifier.\<close>

fun be_nat :: "bytes \<Rightarrow> nat" where
  "be_nat [] = 0"
| "be_nat (b # bs) = unat b * 256 ^ length bs + be_nat bs"

definition age_rank :: "ZfCredentialIndexEntry \<Rightarrow> nat" where
  "age_rank e = unat (ie_created_at e) * 256 ^ 32 + be_nat (ie_credential_id e)"

lemma be_nat_less: "be_nat bs < 256 ^ length bs"
proof (induction bs)
  case (Cons b bs)
  have "be_nat (b # bs) < (unat b + 1) * 256 ^ length bs" using Cons by simp
  also have "\<dots> \<le> 256 * 256 ^ length bs" using unat_byte_less [of b] by (intro mult_right_mono) simp_all
  finally show ?case by simp
qed simp

lemma radix_less:
  fixes a b x y k :: nat
  assumes "x < k" "y < k"
  shows "a * k + x < b * k + y \<longleftrightarrow> a < b \<or> a = b \<and> x < y"
proof -
  have "a * k + x < b * k + y" if "a < b"
  proof -
    have "a * k + x < (a + 1) * k" using assms(1) by simp
    also have "\<dots> \<le> b * k" using that by (intro mult_right_mono) simp_all
    finally show ?thesis by simp
  qed
  moreover have "b * k + y < a * k + x" if "b < a"
  proof -
    have "b * k + y < (b + 1) * k" using assms(2) by simp
    also have "\<dots> \<le> a * k" using that by (intro mult_right_mono) simp_all
    finally show ?thesis by simp
  qed
  ultimately show ?thesis by (cases a b rule: linorder_cases) auto
qed

lemma memcmp_be_nat: "length a = length b \<Longrightarrow> memcmp_less a b \<longleftrightarrow> be_nat a < be_nat b"
proof (induction a b rule: list_induct2)
  case (Cons x xs y ys)
  then show ?case
    using radix_less [OF be_nat_less [of xs] be_nat_less [of ys, folded Cons.hyps], of "unat x" "unat y"]
    by (auto simp: word_less_nat_alt byte_eq_iff)
qed simp

lemma newer_rank:
  assumes "length (ie_credential_id a) = 32" "length (ie_credential_id b) = 32"
  shows "zf_store_index_is_newer a b \<longleftrightarrow> age_rank b < age_rank a"
proof -
  have "be_nat (ie_credential_id a) < 256 ^ 32" "be_nat (ie_credential_id b) < 256 ^ 32"
    using be_nat_less [of "ie_credential_id a"] be_nat_less [of "ie_credential_id b"] assms by simp_all
  note less = radix_less [OF this(2,1), of "unat (ie_created_at b)" "unat (ie_created_at a)"]
  show ?thesis
    using memcmp_be_nat [of "ie_credential_id b" "ie_credential_id a"] assms
    unfolding zf_store_index_is_newer_def age_rank_def less
    by (auto simp: word_less_nat_alt word_unat_eq_iff)
qed

lemma shift_older_set: "set (shift_older P i js) = insert i (set js)"
  by (induction js) auto

lemma shift_older_distinct: "i \<notin> set js \<Longrightarrow> distinct js \<Longrightarrow> distinct (shift_older P i js)"
  by (induction js) (auto simp: shift_older_set)

lemma shift_older_sorted:
  assumes "sorted (map f js)" "\<And>j. j \<in> set js \<Longrightarrow> P j \<longleftrightarrow> f j < (f i :: nat)"
  shows "sorted (map f (shift_older P i js))"
  using assms by (induction js) (auto simp: shift_older_set)

text \<open>The selected positions, each once, newest first, when the output array is large enough.\<close>

lemma collect_sorted_spec:
  assumes wf: "store_wf s" and room: "cs_count s \<le> max_out"
  shows "set (collect_sorted sel s max_out) = {i. i < cs_count s \<and> sel (cs_entries s ! i)} \<and>
    distinct (collect_sorted sel s max_out) \<and>
    sorted_wrt (\<lambda>i j. age_rank (cs_entries s ! j) \<le> age_rank (cs_entries s ! i)) (collect_sorted sel s max_out)"
proof (cases "cs_records s")
  case None
  then show ?thesis using wf by (auto simp: collect_sorted_def store_wf_def array_wf_def)
next
  case (Some xs)
  have awf: "array_wf s" using wf by (simp add: store_wf_def)
  have nth: "cs_entries s ! i = xs ! i" if "i < cs_count s" for i using entries_nth [OF awf that] Some by simp
  have id: "length (ie_credential_id (xs ! i)) = 32" if "i < cs_count s" for i
    using wf that nth [OF that] length_entries [OF awf]
    by (auto simp: store_wf_def list_all_length entry_wf_def ZF_CREDENTIAL_ID_LEN_def)
  let ?f = "\<lambda>i. age_rank (xs ! i)"
  let ?g = "\<lambda>out i. if sel (xs ! i) then zf_store_insert_sorted_index out max_out xs (cs_count s) i else out"
  have "set (foldl ?g [] [0..<n]) = {i. i < n \<and> sel (xs ! i)} \<and> distinct (foldl ?g [] [0..<n]) \<and>
      sorted (map ?f (rev (foldl ?g [] [0..<n])))" if "n \<le> cs_count s" for n
    using that
  proof (induction n)
    case (Suc n)
    let ?out = "foldl ?g [] [0..<n]"
    from Suc have IH: "set ?out = {i. i < n \<and> sel (xs ! i)}" "distinct ?out" "sorted (map ?f (rev ?out))" by auto
    have "card (set ?out) \<le> n" using card_mono [of "{..<n}" "set ?out"] IH(1) by auto
    then have len: "length ?out < max_out" using IH(2) Suc.prems room distinct_card by fastforce
    have newer: "j \<in> set (rev ?out) \<Longrightarrow> zf_store_index_is_newer (xs ! n) (xs ! j) \<longleftrightarrow> ?f j < ?f n" for j
      using IH(1) id Suc.prems by (auto intro!: newer_rank)
    let ?new = "shift_older (\<lambda>j. zf_store_index_is_newer (xs ! n) (xs ! j)) n (rev ?out)"
    have fresh: "n \<notin> set (rev ?out)" using IH(1) by simp
    have new: "set ?new = insert n (set ?out)" "distinct ?new" "sorted (map ?f ?new)"
      using shift_older_set [of _ n "rev ?out"] shift_older_distinct [OF fresh, of]
        shift_older_sorted [OF IH(3) newer] IH(2) by simp_all
    have "foldl ?g [] [0..<Suc n] = (if sel (xs ! n) then rev ?new else ?out)"
      using len Suc.prems by (simp add: zf_store_insert_sorted_index_def)
    then show ?case using IH new by (auto simp: less_Suc_eq)
  qed simp
  from this [of "cs_count s"] have r: "set (collect_sorted sel s max_out) = {i. i < cs_count s \<and> sel (xs ! i)}"
    "distinct (collect_sorted sel s max_out)" "sorted (map ?f (rev (collect_sorted sel s max_out)))"
    using Some by (simp_all add: collect_sorted_def)
  have "sorted_wrt (\<lambda>i j. ?f j \<le> ?f i) (collect_sorted sel s max_out)"
    using r(3) by (simp add: sorted_map sorted_wrt_rev)
  then have "sorted_wrt (\<lambda>i j. age_rank (cs_entries s ! j) \<le> age_rank (cs_entries s ! i)) (collect_sorted sel s max_out)"
    using r(1) nth by (auto elim!: sorted_wrt_mono_rel [rotated])
  then show ?thesis using r(1,2) nth by auto
qed

end
