(* ===== verification/Store_Run.thy ===== *)
theory Store_Run
  imports Store_Exact
begin

text \<open>
  Credentials over time. \<open>store_run\<close> is every history of start-ups, assertions, creations and
  deletions, with any file operation failing at any point; it records the sign counters that assertions
  publish. The floor files bound every later load, so the recorded counters of a credential increase.
\<close>

section \<open>Record names\<close>

lemma hex_digit_index:
  assumes "CHR ''0'' \<le> ch \<and> ch \<le> CHR ''9'' \<or> CHR ''a'' \<le> ch \<and> ch \<le> CHR ''f''"
  shows "\<exists>k<16. ch = hex_digits ! k"
proof -
  let ?n = "of_char ch :: nat"
  have ch: "ch = char_of ?n" by simp
  from assms have n: "48 \<le> ?n \<and> ?n \<le> 57 \<or> 97 \<le> ?n \<and> ?n \<le> 102"
    by (auto simp: less_eq_char_def)
  then have "?n \<in> {48..57} \<union> {97..102}" by auto
  then have "?n \<in> set ([48..<58] @ [97..<103])" by (simp add: atLeastAtMost_upt disj_ac)
  then have "char_of ?n \<in> char_of ` set ([48..<58] @ [97..<103 :: nat])" by (rule imageI)
  moreover have "char_of ` set ([48..<58] @ [97..<103 :: nat]) \<subseteq> set hex_digits"
    by (simp add: hex_digits_def char_of_def bit_0)
  ultimately have "ch \<in> set hex_digits" by auto
  moreover have "length hex_digits = 16" by (simp add: hex_digits_def)
  ultimately show ?thesis by (metis in_set_conv_nth)
qed

lemma hex_pair:
  assumes "a < 16" "b < 16"
  shows "\<exists>x :: byte. unat (drop_bit 4 x AND 0x0F) = a \<and> unat (x AND 0x0F) = b"
proof -
  define x :: byte where "x = word_of_nat (a * 16 + b)"
  have m: "(0x0F :: byte) = mask 4" by (simp add: mask_eq_exp_minus_1)
  have x: "unat x = a * 16 + b" unfolding x_def by (rule unat_of_nat_byte) (use assms in simp)
  have "unat (x AND 0x0F) = b"
    unfolding m using x assms by (simp add: take_bit_eq_mask [symmetric] unsigned_take_bit_eq take_bit_nat_def)
  moreover have "unat (drop_bit 4 x AND 0x0F) = a"
    unfolding m using x assms
    by (simp add: take_bit_eq_mask [symmetric] unsigned_take_bit_eq take_bit_nat_def unsigned_drop_bit_eq
        drop_bit_nat_def)
  ultimately show ?thesis by blast
qed

lemma record_name_hex:
  assumes "zf_store_record_format_is_record_name name"
  shows "\<exists>i. length i = 32 \<and> name = zf_store_record_format_hex_encode i"
proof -
  have digits: "\<exists>i. length i = m \<and> name = zf_store_record_format_hex_encode i"
    if "list_all (\<lambda>ch. \<exists>k<16. ch = hex_digits ! k) name" "length name = 2 * m" for name m
    using that
  proof (induction m arbitrary: name)
    case 0
    then show ?case by (simp add: zf_store_record_format_hex_encode_def)
  next
    case (Suc m)
    then obtain x y rest where name: "name = x # y # rest" "length rest = 2 * m"
      by (cases name; cases "tl name") auto
    with Suc.prems obtain a b where ab: "a < 16" "x = hex_digits ! a" "b < 16" "y = hex_digits ! b" by auto
    obtain z :: byte where z: "unat (drop_bit 4 z AND 0x0F) = a" "unat (z AND 0x0F) = b"
      using hex_pair [OF ab(1,3)] by blast
    obtain i where i: "length i = m" "rest = zf_store_record_format_hex_encode i"
      using Suc.IH [of rest] Suc.prems(1) name by auto
    show ?case by (rule exI [of _ "z # i"]) (simp add: hex_encode_Cons z i name ab)
  qed
  have "list_all (\<lambda>ch. \<exists>k<16. ch = hex_digits ! k) name" "length name = 2 * 32"
    using assms hex_digit_index
    by (auto simp: zf_store_record_format_is_record_name_def ZF_CREDENTIAL_ID_LEN_def list_all_iff)
  then show ?thesis by (rule digits)
qed

section \<open>Start-up keeps the floors\<close>

definition keeps_floors :: "'w hal \<Rightarrow> ('w \<Rightarrow> path \<rightharpoonup> bytes) \<Rightarrow> 'w \<Rightarrow> 'w \<Rightarrow> bool" where
  "keeps_floors hal content w w' \<longleftrightarrow> (\<forall>j N. length j = 32 \<longrightarrow>
    floor_at hal (content w) j N \<longrightarrow> floor_at hal (content w') j N)"

lemma keeps_floors_refl [simp]: "keeps_floors hal content w w"
  by (simp add: keeps_floors_def)

lemma keeps_floors_trans:
  "keeps_floors hal content u v \<Longrightarrow> keeps_floors hal content v w \<Longrightarrow> keeps_floors hal content u w"
  by (simp add: keeps_floors_def)

lemma keeps_floors_raises: "raises hal content i w w' \<Longrightarrow> length i = 32 \<Longrightarrow> keeps_floors hal content w w'"
  unfolding keeps_floors_def using raises_floor [of hal content i w w'] by blast

lemma keeps_floors_frame:
  assumes "\<And>j. length j = 32 \<Longrightarrow> content w' (cred_path j ''.counter'') = content w (cred_path j ''.counter'')"
  shows "keeps_floors hal content w w'"
  unfolding keeps_floors_def
proof (intro allI impI)
  fix j N
  assume "length j = 32" "floor_at hal (content w) j N"
  then show "floor_at hal (content w') j N"
    using floor_at_cong [of "content w'" j "content w" hal N] assms [of j] by simp
qed

lemma visit_rel:
  assumes "\<And>name d w. R w (snd (visitor name d w))" "\<And>w. R w w" "\<And>u v w. R u v \<Longrightarrow> R v w \<Longrightarrow> R u w"
  shows "R w (snd (visit_entries visitor n entries w))"
proof (induction entries arbitrary: w)
  case (Cons x entries)
  obtain name d where x: "x = (name, d)" by fastforce
  let ?r = "visitor (take (n - 1) name) d w"
  have "R w (snd ?r)" by (rule assms(1))
  moreover have "R (snd ?r) (snd (visit_entries visitor n entries (snd ?r)))" by (rule Cons.IH)
  ultimately have "R w (snd (visit_entries visitor n entries (snd ?r)))" by (rule assms(3))
  with \<open>R w (snd ?r)\<close> show ?case using x by (simp add: and_then_def)
qed (simp add: assms(2))

text \<open>A child path ends with the name, so with each suffix of it.\<close>

lemma child_path:
  "zf_storage_build_child_path ZF_APP_DATA_DIR name n = Some p \<Longrightarrow> p = ZF_APP_DATA_DIR @ ''/'' @ name"
  by (auto simp: zf_storage_build_child_path_def ZF_APP_DATA_DIR_def Let_def split: if_split_asm)

lemma suffix_clash:
  assumes "drop (length name - length s) name = s" "s \<noteq> []" "length s \<le> length name" "last s \<noteq> CHR ''r''"
  shows "ZF_APP_DATA_DIR @ ''/'' @ name \<noteq> cred_path j ''.counter''"
proof
  assume "ZF_APP_DATA_DIR @ ''/'' @ name = cred_path j ''.counter''"
  then have "last (ZF_APP_DATA_DIR @ ''/'' @ name) = CHR ''r''" by (simp add: cred_path_def)
  moreover have ne: "0 < length s" "name \<noteq> []" using assms(2,3) by auto
  then have "last (drop (length name - length s) name) = last name" using assms(3) by (intro last_drop) linarith
  ultimately show False using assms(1,4) ne by simp
qed

lemma cleanup_temps_keep:
  assumes plat: "store_platform hal content"
  shows "keeps_floors hal content w (snd (zf_storage_remove_dir_entries_with_suffix hal ZF_APP_DATA_DIR ''.tmp'' n m w))"
proof -
  note lawful = store_platform_lawful(1) [OF plat]
  have step: "keeps_floors hal content w (snd (zf_storage_remove_suffix_visitor hal ZF_APP_DATA_DIR ''.tmp'' m name d w))" for name d w
  proof (rule keeps_floors_frame)
    fix j :: bytes
    show "content (snd (zf_storage_remove_suffix_visitor hal ZF_APP_DATA_DIR ''.tmp'' m name d w)) (cred_path j ''.counter'') =
        content w (cred_path j ''.counter'')"
      using suffix_clash [of name "''.tmp''" j] lawful
      by (auto simp: zf_storage_remove_suffix_visitor_def not_less dest!: child_path intro!: frame_remove_optional
          split: option.split)
  qed
  show ?thesis
    using visit_rel [of "keeps_floors hal content", OF step keeps_floors_refl keeps_floors_trans]
    by (auto simp: zf_storage_remove_dir_entries_with_suffix_def zf_storage_for_each_dir_entry_def split: option.split)
qed

lemma recover_record_keeps:
  assumes plat: "store_platform hal content" and i: "length i = 32"
  shows "keeps_floors hal content w (snd (zf_store_recovery_recover_record_backup hal buffer
    (zf_store_record_format_hex_encode i) (cred_path i ''.bak'') w))"
proof -
  let ?name = "zf_store_record_format_hex_encode i"
  note lawful = store_platform_lawful(1) [OF plat]
  have child: "zf_storage_build_child_path ZF_APP_DATA_DIR ?name 128 = Some (cred_path i [])"
    using i by (simp add: zf_storage_build_child_path_def cred_path_def ZF_APP_DATA_DIR_def)
  obtain ok w1 where v: "(if fs_exists hal (cred_path i []) w
      then zf_store_recovery_record_primary_is_valid hal buffer ?name w else (False, w)) = (ok, w1)" by fastforce
  have "keeps_floors hal content w w1"
  proof (cases "fs_exists hal (cred_path i []) w \<and> length buffer \<noteq> 0")
    case True
    obtain e v' where ld: "zf_store_record_format_load_index_with_buffer hal ?name buffer w = (e, v')" by fastforce
    have "w1 = v'" using v True ld by (simp add: zf_store_recovery_record_primary_is_valid_def)
    then show ?thesis using keeps_floors_raises [OF load_index_spec(1) [OF plat i ld] i] by simp
  next
    case False
    then show ?thesis using v by (auto simp: zf_store_recovery_record_primary_is_valid_def split: if_split_asm)
  qed
  moreover have "keeps_floors hal content w1 (snd (zf_store_recovery_recover_record_backup hal buffer ?name
      (cred_path i ''.bak'') w))"
  proof (rule keeps_floors_frame)
    fix j :: bytes
    assume "length j = 32"
    then show "content (snd (zf_store_recovery_recover_record_backup hal buffer ?name (cred_path i ''.bak'') w))
        (cred_path j ''.counter'') = content w1 (cred_path j ''.counter'')"
      using child v i lawful
      by (auto simp: zf_store_recovery_recover_record_backup_def and_then_def Let_def frame
          split: bool.split prod.split)
  qed
  ultimately show ?thesis by (rule keeps_floors_trans)
qed

lemma recover_counter_keeps:
  assumes plat: "store_platform hal content" and i: "length i = 32"
  shows "keeps_floors hal content w (snd (zf_store_recovery_recover_counter_backup hal
    (zf_store_record_format_hex_encode i) w))"
proof -
  note lawful = store_platform_lawful(1) [OF plat]
  let ?r = "zf_storage_recover_atomic_file hal (cred_path i ''.counter'') (cred_path i ''.counter.tmp'') w"
  have "content (snd ?r) (cred_path j ''.counter'') = Some d"
    if "length j = 32" "content w (cred_path j ''.counter'') = Some d" for j d
    using atomic_file.recover_present [OF floor_file [OF i] lawful, of w d] that i lawful
      frame_recover [OF lawful, of "cred_path j ''.counter''" "cred_path i ''.counter''" "cred_path i ''.counter.tmp''" w]
      backup_paths(2) [OF i]
    by (cases "i = j") auto
  then have "keeps_floors hal content w (snd ?r)" unfolding keeps_floors_def floor_at_def by blast
  then show ?thesis by (simp add: zf_store_recovery_recover_counter_backup_def cred_paths [OF i])
qed

lemma cleanup_visitor_keeps:
  assumes plat: "store_platform hal content"
  shows "keeps_floors hal content w (snd (zf_store_recovery_cleanup_visitor hal buffer name d w))"
proof (cases "d \<or> \<not> zf_store_has_suffix name ''.bak'' \<or> length name - 4 = 0 \<or> length name - 4 \<ge> 96")
  case True
  then show ?thesis by (auto simp: zf_store_recovery_cleanup_visitor_def Let_def)
next
  case False
  let ?base = "take (length name - 4) name"
  have name: "name = ?base @ ''.bak''"
    using False append_take_drop_id [of "length name - 4" name]
    by (simp add: zf_store_has_suffix_def eval_nat_numeral)
  show ?thesis
  proof (cases "zf_storage_build_child_path ZF_APP_DATA_DIR name 128")
    case None
    then show ?thesis using False by (simp add: zf_store_recovery_cleanup_visitor_def Let_def)
  next
    case (Some b)
    note b = child_path [OF Some]
    show ?thesis
    proof (cases "zf_store_record_format_is_record_name ?base")
      case True
      then obtain i where i: "length i = 32" "?base = zf_store_record_format_hex_encode i"
        using record_name_hex by blast
      have "b = cred_path i ''.bak''" using b name i(2) by (simp add: cred_path_def)
      then show ?thesis
        using False Some True i recover_record_keeps [OF plat i(1), of w buffer]
        by (simp add: zf_store_recovery_cleanup_visitor_def Let_def)
    next
      case no: False
      let ?rec = "take (length ?base - 8) ?base"
      show ?thesis
      proof (cases "zf_store_has_suffix ?base ''.counter'' \<and> ?rec \<noteq> [] \<and> zf_store_record_format_is_record_name ?rec")
        case True
        then obtain i where i: "length i = 32" "?rec = zf_store_record_format_hex_encode i"
          using record_name_hex by blast
        then show ?thesis
          using False Some no True recover_counter_keeps [OF plat i(1), of w]
          by (simp add: zf_store_recovery_cleanup_visitor_def Let_def)
      next
        case f: False
        have "zf_store_recovery_cleanup_visitor hal buffer name d w = (True, w)"
          using False Some no f by (auto simp: zf_store_recovery_cleanup_visitor_def Let_def)
        then show ?thesis by simp
      qed
    qed
  qed
qed

lemma cleanup_keeps_floors:
  assumes plat: "store_platform hal content"
  shows "keeps_floors hal content w (zf_store_recovery_cleanup_temp_files_with_buffer hal buffer w)"
proof -
  let ?w = "snd (zf_storage_remove_dir_entries_with_suffix hal ZF_APP_DATA_DIR ''.tmp'' 96 128 w)"
  have "keeps_floors hal content ?w (snd (zf_storage_for_each_dir_entry hal ZF_APP_DATA_DIR 96
      (zf_store_recovery_cleanup_visitor hal buffer) ?w))"
    using visit_rel [of "keeps_floors hal content", OF cleanup_visitor_keeps [OF plat] keeps_floors_refl keeps_floors_trans]
    by (auto simp: zf_storage_for_each_dir_entry_def split: option.split)
  with cleanup_temps_keep [OF plat, of w 96 128] show ?thesis
    unfolding zf_store_recovery_cleanup_temp_files_with_buffer_def Let_def by (rule keeps_floors_trans)
qed

section \<open>The index and the files\<close>

text \<open>Every entry is well-formed and its high-water mark bounds what a load of its record returns.\<close>

definition entries_low :: "'w hal \<Rightarrow> ('w \<Rightarrow> path \<rightharpoonup> bytes) \<Rightarrow> ZfCredentialStore \<Rightarrow> 'w \<Rightarrow> bool" where
  "entries_low hal content s w \<longleftrightarrow> array_wf s \<and> (\<forall>e \<in> set (cs_entries s). entry_wf e \<and>
    low hal (content w) (ie_credential_id e) (ie_counter_high_water e))"

lemma entries_low_raises:
  assumes "entries_low hal content s w" "raises hal content i w w'" "length i = 32"
  shows "entries_low hal content s w'"
  using assms raises_low [of hal content i w w']
  by (auto simp: entries_low_def entry_wf_def ZF_CREDENTIAL_ID_LEN_def)

lemma index_visitor_keeps:
  assumes plat: "store_platform hal content" and inv: "entries_low hal content s w"
    and r: "zf_store_bootstrap_index_visitor heap hal buffer name d (s, w) = (ok, s', w')"
  shows "entries_low hal content s' w' \<and> keeps_floors hal content w w'"
proof (cases "d \<or> \<not> zf_store_record_format_is_record_name name \<or> cs_count s \<ge> ZF_MAX_CREDENTIALS")
  case True
  then show ?thesis using r inv by (auto simp: zf_store_bootstrap_index_visitor_def split: if_split_asm)
next
  case False
  then obtain i where i: "length i = 32" "name = zf_store_record_format_hex_encode i" using record_name_hex by blast
  have awf: "array_wf s" using inv by (simp add: entries_low_def)
  obtain ok1 s1 where e: "zf_store_ensure_capacity heap s (cs_count s + 1) = (ok1, s1)" by fastforce
  note grown = ensure_capacity_spec(1) [OF awf e]
  have inv1: "entries_low hal content s1 w" using inv grown by (simp add: entries_low_def)
  show ?thesis
  proof (cases ok1)
    case nok: False
    then show ?thesis using r False e inv1 by (simp add: zf_store_bootstrap_index_visitor_def)
  next
    case ok1: True
    obtain res w1 where ld: "zf_store_record_format_load_index_with_buffer hal name buffer w = (res, w1)" by fastforce
    note spec = load_index_spec [OF plat i(1) ld [unfolded i(2)]]
    have up: "entries_low hal content s1 w1" by (rule entries_low_raises [OF inv1 spec(1) i(1)])
    have fl: "keeps_floors hal content w w1" by (rule keeps_floors_raises [OF spec(1) i(1)])
    show ?thesis
    proof (cases res)
      case None
      then show ?thesis using r False e ok1 ld up fl by (simp add: zf_store_bootstrap_index_visitor_def)
    next
      case (Some x)
      have s': "s' = (cs_put s1 (cs_count s1) x)\<lparr>cs_count := cs_count s1 + 1\<rparr>" "w' = w1"
        using r False e ok1 ld Some by (simp_all add: zf_store_bootstrap_index_visitor_def)
      note app = entries_append [OF awf e [unfolded eqTrueI [OF ok1]], where e = x]
      have "entry_wf x" "low hal (content w1) (ie_credential_id x) (ie_counter_high_water x)"
        using spec(2) [OF Some] i(1) load_index_hash [OF ld [unfolded Some]] by (simp_all add: entry_wf_def ZF_CREDENTIAL_ID_LEN_def)
      then show ?thesis using s' app up fl grown by (auto simp: entries_low_def)
    qed
  qed
qed

lemma visit_index_keeps:
  assumes plat: "store_platform hal content"
  shows "entries_low hal content s w \<Longrightarrow>
    visit_entries (zf_store_bootstrap_index_visitor heap hal buffer) n entries (s, w) = (ok, s', w') \<Longrightarrow>
    entries_low hal content s' w' \<and> keeps_floors hal content w w'"
proof (induction entries arbitrary: s w)
  case (Cons x entries)
  obtain name d where x: "x = (name, d)" by fastforce
  obtain ok1 s1 w1 where v: "zf_store_bootstrap_index_visitor heap hal buffer (take (n - 1) name) d (s, w) = (ok1, s1, w1)"
    using prod_cases3 by blast
  note step = index_visitor_keeps [OF plat Cons.prems(1) v]
  show ?case
  proof (cases ok1)
    case True
    then show ?thesis using Cons.prems(2) x v step Cons.IH [of s1 w1] keeps_floors_trans [of hal content w w1 w'] by auto
  next
    case False
    then show ?thesis using Cons.prems(2) x v step by simp
  qed
qed simp

lemma boot_keeps:
  assumes plat: "store_platform hal content" and cap: "zf_store_effective_capacity s0 \<le> ZF_MAX_CREDENTIALS"
    and size: "ZF_STORE_RECORD_IO_SIZE \<le> length buffer"
    and r: "zf_store_init_with_buffer heap hal s0 buffer w = (ok, s', w')"
  shows "entries_low hal content s' w' \<and> keeps_floors hal content w w'"
proof -
  note lawful = store_platform_lawful(1) [OF plat]
  have clear: "entries_low hal content (zf_store_clear s0) v" for v
    using entries_clear [OF cap] by (simp add: entries_low_def store_wf_def)
  obtain ok1 w1 where dir: "zf_storage_ensure_app_data_dir hal w = (ok1, w1)" by fastforce
  have k1: "keeps_floors hal content w w1"
    using frame_ensure_app_data_dir [OF lawful, of w] dir by (intro keeps_floors_frame) simp
  let ?w = "zf_store_recovery_cleanup_temp_files_with_buffer hal buffer w1"
  have k2: "keeps_floors hal content w ?w" by (rule keeps_floors_trans [OF k1 cleanup_keeps_floors [OF plat]])
  have size': "\<not> length buffer < ZF_STORE_RECORD_IO_SIZE" "\<not> length buffer < ZF_STORE_RECORD_MAX_SIZE"
    using size by (simp_all add: ZF_STORE_RECORD_IO_SIZE_def ZF_STORE_RECORD_MAX_SIZE_def)
  note defs = zf_store_init_with_buffer_def zf_store_bootstrap_init_with_buffer_def
    zf_store_bootstrap_ensure_app_data_dir_def Let_def
  show ?thesis
  proof (cases "ok1 \<and> fs_dir hal ZF_APP_DATA_DIR ?w \<noteq> None")
    case True
    then obtain entries where "fs_dir hal ZF_APP_DATA_DIR ?w = Some entries" by blast
    then have "visit_entries (zf_store_bootstrap_index_visitor heap hal buffer) 96 entries (zf_store_clear s0, ?w) =
        (ok, s', w')"
      using r size' dir True by (simp add: defs)
    from visit_index_keeps [OF plat clear this] keeps_floors_trans [OF k2] show ?thesis by blast
  next
    case False
    then show ?thesis using r size' dir clear k1 k2
      by (auto simp: defs split: bool.split_asm option.split_asm)
  qed
qed

section \<open>Histories\<close>

text \<open>
  A state is the index and the world. An assertion loads the record of an entry, reserves the next counter
  and publishes it, the way \<^verbatim>\<open>zf_ctap_finish_assertion\<close> and
  \<^verbatim>\<open>zf_ctap_assertion_queue_handle_next\<close> do; the pair of the identifier and the counter joins the
  history. A creation writes and publishes a new record with counter 0. A successful deletion ends the
  life of a credential and of its counters.
\<close>

inductive store_run ::
  "(nat \<Rightarrow> bool) \<Rightarrow> 'w hal \<Rightarrow> (bytes \<times> u32) list \<Rightarrow> ZfCredentialStore \<Rightarrow> 'w \<Rightarrow> bool" for heap hal where
  power_on: "zf_store_effective_capacity s0 \<le> ZF_MAX_CREDENTIALS \<Longrightarrow> ZF_STORE_RECORD_IO_SIZE \<le> length buffer \<Longrightarrow>
    zf_store_init_with_buffer heap hal s0 buffer w = (ok, s', w') \<Longrightarrow> store_run heap hal [] s' w'"
| restart: "store_run heap hal us s w \<Longrightarrow> zf_store_effective_capacity s0 \<le> ZF_MAX_CREDENTIALS \<Longrightarrow>
    ZF_STORE_RECORD_IO_SIZE \<le> length buffer \<Longrightarrow>
    zf_store_init_with_buffer heap hal s0 buffer w = (ok, s', w') \<Longrightarrow> store_run heap hal us s' w'"
| load_failed: "store_run heap hal us s w \<Longrightarrow> i < length (cs_entries s) \<Longrightarrow>
    zf_store_load_record_with_buffer hal (cs_entries s ! i) buffer w = (r, w') \<Longrightarrow> store_run heap hal us s w'"
| reserve_failed: "store_run heap hal us s w \<Longrightarrow> i < length (cs_entries s) \<Longrightarrow>
    zf_store_load_record_with_buffer hal (cs_entries s ! i) buffer w = (Some r, w1) \<Longrightarrow>
    cr_sign_count r \<noteq> 0xFFFFFFFF \<Longrightarrow>
    zf_store_prepare_counter_advance hal (cs_entries s ! i) (r\<lparr>cr_sign_count := cr_sign_count r + 1\<rparr>) buffer w1 =
      (h, w') \<Longrightarrow> store_run heap hal us s w'"
| asserted: "store_run heap hal us s w \<Longrightarrow> i < length (cs_entries s) \<Longrightarrow>
    zf_store_load_record_with_buffer hal (cs_entries s ! i) buffer w = (Some r, w1) \<Longrightarrow>
    cr_sign_count r \<noteq> 0xFFFFFFFF \<Longrightarrow> r' = r\<lparr>cr_sign_count := cr_sign_count r + 1\<rparr> \<Longrightarrow>
    zf_store_prepare_counter_advance hal (cs_entries s ! i) r' buffer w1 = (Some h, w') \<Longrightarrow>
    zf_store_publish_counter_advance s r' h = (True, s') \<Longrightarrow>
    store_run heap hal (us @ [(cr_credential_id r', cr_sign_count r')]) s' w'"
| created: "store_run heap hal us s w \<Longrightarrow> record_wf r \<Longrightarrow> cr_sign_count r = 0 \<Longrightarrow>
    index_view s (cr_credential_id r) = None \<Longrightarrow>
    zf_store_write_record_file_with_buffer hal r buffer w = (True, w') \<Longrightarrow>
    zf_store_publish_added_record heap s r = (ok, s') \<Longrightarrow> store_run heap hal us s' w'"
| create_failed: "store_run heap hal us s w \<Longrightarrow> record_wf r \<Longrightarrow>
    index_view s (cr_credential_id r) = None \<Longrightarrow>
    zf_store_write_record_file_with_buffer hal r buffer w = (False, w') \<Longrightarrow> store_run heap hal us s w'"
| deleted: "store_run heap hal us s w \<Longrightarrow> zf_store_delete_record hal s c w = (ZfStoreDeleteOk, s', w') \<Longrightarrow>
    store_run heap hal (filter (\<lambda>u. fst u \<noteq> c) us) s' w'"
| delete_failed: "store_run heap hal us s w \<Longrightarrow> zf_store_delete_record hal s c w = (x, s', w') \<Longrightarrow>
    x \<noteq> ZfStoreDeleteOk \<Longrightarrow> store_run heap hal us s' w'"

text \<open>
  Every counter in the history is guarded by the floor file of its credential, together with the range
  that was reserved for it; a later counter lies beyond that range.
\<close>

definition beyond :: "u32 \<Rightarrow> u32 \<Rightarrow> bool" where
  "beyond a b \<longleftrightarrow> zf_counter_reserved_high_water a < b"

definition run_inv ::
  "'w hal \<Rightarrow> ('w \<Rightarrow> path \<rightharpoonup> bytes) \<Rightarrow> (bytes \<times> u32) list \<Rightarrow> ZfCredentialStore \<Rightarrow> 'w \<Rightarrow> bool" where
  "run_inv hal content us s w \<longleftrightarrow> entries_low hal content s w \<and>
    (\<forall>(c, n) \<in> set us. length c = 32 \<and> floor_at hal (content w) c (zf_counter_reserved_high_water n)) \<and>
    (\<forall>c. sorted_wrt beyond (map snd (filter (\<lambda>u. fst u = c) us)))"

lemma run_inv_raises:
  assumes "run_inv hal content us s w" "raises hal content i w w'" "length i = 32"
  shows "run_inv hal content us s w'"
  using assms entries_low_raises [of hal content s w i w'] raises_floor [of hal content i w w']
  by (fastforce simp: run_inv_def)

text \<open>A change of other files, or of none, is calm.\<close>

definition calm :: "('w \<Rightarrow> path \<rightharpoonup> bytes) \<Rightarrow> 'w \<Rightarrow> 'w \<Rightarrow> bool" where
  "calm content w w' \<longleftrightarrow> (\<forall>j x. length j = 32 \<longrightarrow> content w' (cred_path j x) = content w (cred_path j x))"

lemma calm_refl [simp]: "calm content w w"
  by (simp add: calm_def)

lemma calm_trans: "calm content u v \<Longrightarrow> calm content v w \<Longrightarrow> calm content u w"
  by (simp add: calm_def)

lemma run_inv_calm:
  assumes "run_inv hal content us s w" "calm content w w'"
  shows "run_inv hal content us s w'"
proof -
  have fl: "floor_at hal (content w') j N = floor_at hal (content w) j N" if "length j = 32" for j N
    using assms(2) that floor_at_cong [of "content w'" j "content w" hal N] by (simp add: calm_def)
  have lo: "low hal (content w') j N = low hal (content w) j N" if "length j = 32" for j N
    using assms(2) that fl record_at_cong [of "content w'" j "content w" hal N] by (simp add: calm_def low_def)
  show ?thesis
    using assms(1) fl lo by (auto simp: run_inv_def entries_low_def entry_wf_def ZF_CREDENTIAL_ID_LEN_def)
qed

lemma load_entry:
  assumes plat: "store_platform hal content" and e: "entry_wf e"
    and ld: "zf_store_load_record_with_buffer hal e buffer w = (res, w')"
  shows "raises hal content (ie_credential_id e) w w'"
    and "res = Some r \<Longrightarrow> cr_credential_id r = ie_credential_id e \<and>
      cr_file_name r = zf_store_record_format_hex_encode (ie_credential_id e) \<and>
      (\<forall>N. low hal (content w) (ie_credential_id e) N \<longrightarrow> N \<le> cr_sign_count r)"
proof -
  have i: "length (ie_credential_id e) = 32" using e by (simp add: entry_wf_def ZF_CREDENTIAL_ID_LEN_def)
  have "raises hal content (ie_credential_id e) w w' \<and> (res = Some r \<longrightarrow> cr_credential_id r = ie_credential_id e \<and>
      cr_file_name r = zf_store_record_format_hex_encode (ie_credential_id e) \<and>
      (\<forall>N. low hal (content w) (ie_credential_id e) N \<longrightarrow> N \<le> cr_sign_count r))"
  proof (cases "length buffer < ZF_STORE_RECORD_IO_SIZE")
    case True
    then show ?thesis using ld
      by (auto simp: zf_store_load_record_with_buffer_def zf_store_load_record_internal_with_buffer_def raises_same)
  next
    case False
    then have "zf_store_record_format_load_record_with_buffer hal
        (zf_store_record_format_hex_encode (ie_credential_id e)) buffer w = (res, w')"
      using ld e by (simp add: zf_store_load_record_with_buffer_def zf_store_load_record_internal_with_buffer_def
          zf_store_index_entry_file_name_def entry_wf_def)
    note spec = load_record_spec [OF plat i this]
    show ?thesis using spec(1) spec(2) [of r] by blast
  qed
  then show "raises hal content (ie_credential_id e) w w'"
    and "res = Some r \<Longrightarrow> cr_credential_id r = ie_credential_id e \<and>
      cr_file_name r = zf_store_record_format_hex_encode (ie_credential_id e) \<and>
      (\<forall>N. low hal (content w) (ie_credential_id e) N \<longrightarrow> N \<le> cr_sign_count r)" by blast+
qed

text \<open>Reserving the counter after the loaded one: other credentials are untouched, bounds still hold.\<close>

lemma advance_keeps:
  assumes plat: "store_platform hal content" and i: "length i = 32"
    and r: "cr_credential_id r = i" "cr_file_name r = zf_store_record_format_hex_encode i"
    and used: "\<And>n. (i, n) \<in> set us \<Longrightarrow> zf_counter_reserved_high_water n \<le> cr_sign_count r"
    and marks: "\<And>e. e \<in> set (cs_entries s) \<Longrightarrow> ie_credential_id e = i \<Longrightarrow> ie_counter_high_water e \<le> cr_sign_count r"
    and adv: "zf_store_prepare_counter_advance hal e r buffer w = (h, w')"
    and inv: "run_inv hal content us s w"
  shows "run_inv hal content us s w'"
proof (cases "length buffer < ZF_STORE_RECORD_IO_SIZE \<or> cr_sign_count r < ie_sign_count e \<or>
    cr_sign_count r \<le> ie_counter_high_water e")
  case True
  then have "w' = w" using adv by (auto simp: zf_store_prepare_counter_advance_def split: if_split_asm)
  then show ?thesis using inv by simp
next
  case False
  then have res: "zf_store_record_format_reserve_counter_with_buffer hal r buffer w = (h, w')"
    using adv by (simp add: zf_store_prepare_counter_advance_def not_le)
  note spec = reserve_spec [OF plat i r res]
  have other: "content w' (cred_path j x) = content w (cred_path j x)" if "length j = 32" "j \<noteq> i" for j x
    using spec(4) that i by (simp add: floor_paths_def record_paths_def)
  have fl: "floor_at hal (content w') j N"
    if "length j = 32" "floor_at hal (content w) j N" "j = i \<Longrightarrow> N \<le> cr_sign_count r" for j N
    using that spec(2) [of N] other [of j "''.counter''"] floor_at_cong [of "content w'" j "content w" hal N]
    by (cases "j = i") auto
  have lo: "low hal (content w') j N"
    if "length j = 32" "low hal (content w) j N" "j = i \<Longrightarrow> N \<le> cr_sign_count r" for j N
  proof (cases "j = i")
    case True
    then show ?thesis using spec(3) [of N] that by simp
  next
    case ne: False
    then show ?thesis
      using that other [of j "''.counter''"] other [of j "[]"] floor_at_cong [of "content w'" j "content w" hal N]
        record_at_cong [of "content w'" j "content w" hal N] by (simp add: low_def)
  qed
  have "entries_low hal content s w'"
    using inv lo marks by (auto simp: run_inv_def entries_low_def entry_wf_def ZF_CREDENTIAL_ID_LEN_def)
  moreover have "length c = 32 \<and> floor_at hal (content w') c (zf_counter_reserved_high_water n)"
    if "(c, n) \<in> set us" for c n
    using inv that fl [of c "zf_counter_reserved_high_water n"] used [of n] by (auto simp: run_inv_def)
  ultimately show ?thesis using inv by (auto simp: run_inv_def)
qed

lemma deletion_keeps:
  assumes plat: "store_platform hal content" and c: "length c = 32"
    and r: "zf_store_recovery_remove_record_paths hal (zf_store_record_format_hex_encode c) w = (ok, w')"
  shows "length j = 32 \<Longrightarrow> low hal (content w) j N \<Longrightarrow> low hal (content w') j N"
    and "length j = 32 \<Longrightarrow> floor_at hal (content w) j N \<Longrightarrow> j \<noteq> c \<or> \<not> ok \<Longrightarrow> floor_at hal (content w') j N"
proof -
  note lawful = store_platform_lawful(1) [OF plat]
  let ?rm = "zf_storage_remove_optional hal"
  obtain ok1 w1 where rec: "zf_storage_remove_atomic_file hal (cred_path c []) (cred_path c ''.tmp'') w = (ok1, w1)" by fastforce
  have other1: "content w1 q = content w q" if "q \<notin> record_paths c" for q
    using frame_remove_atomic [OF lawful, of q "cred_path c []" "cred_path c ''.tmp''" w] rec that backup_paths(1) [OF c]
    by (auto simp: record_paths_def)
  have w': "\<not> ok1 \<Longrightarrow> w' = w1 \<and> \<not> ok"
    "ok1 \<Longrightarrow> zf_storage_remove_atomic_file hal (cred_path c ''.counter'') (cred_path c ''.counter.tmp'') w1 = (ok, w')"
    using r rec by (auto simp: zf_store_recovery_remove_record_paths_def cred_paths [OF c])
  have other2: "content w' q = content w1 q" if "q \<notin> floor_paths c" for q
    using frame_remove_atomic [OF lawful, of q "cred_path c ''.counter''" "cred_path c ''.counter.tmp''" w1] w' that
      backup_paths(2) [OF c] by (cases ok1) (auto simp: floor_paths_def)
  have gone1: "content w1 (cred_path c []) = None" if ok1
    using remove_atomic_gone [OF lawful backup_paths(1) [OF c], of "cred_path c ''.tmp''" w w1] rec that by simp
  have rest: "content w1 (cred_path c []) \<in> {None, content w (cred_path c [])}"
  proof -
    let ?w1 = "snd (?rm (cred_path c ''.tmp'') w)"
    let ?w2 = "snd (?rm (cred_path c ''.bak'') ?w1)"
    have "w1 \<in> {?w1, ?w2, snd (?rm (cred_path c []) ?w2)}"
      using rec backup_paths(1) [OF c] by (auto simp: zf_storage_remove_atomic_file_def and_then_def split: if_split_asm)
    moreover have "content ?w1 (cred_path c []) = content w (cred_path c [])"
      "content ?w2 (cred_path c []) = content w (cred_path c [])" using c lawful by (simp_all add: frame)
    ultimately show ?thesis using lawful_remove_optional [OF lawful, of "cred_path c []" ?w2] by auto
  qed
  have kept: "content w' (cred_path c ''.counter'') = content w1 (cred_path c ''.counter'')" if "\<not> ok" ok1
  proof -
    let ?w1 = "snd (?rm (cred_path c ''.counter.tmp'') w1)"
    let ?w2 = "snd (?rm (cred_path c ''.counter.bak'') ?w1)"
    let ?r3 = "?rm (cred_path c ''.counter'') ?w2"
    have "w' \<in> {?w1, ?w2} \<or> w' = snd ?r3 \<and> \<not> fst ?r3"
      using w'(2) that backup_paths(2) [OF c]
      by (auto simp: zf_storage_remove_atomic_file_def and_then_def split: if_split_asm)
    moreover have "content ?w1 (cred_path c ''.counter'') = content w1 (cred_path c ''.counter'')"
      "content ?w2 (cred_path c ''.counter'') = content w1 (cred_path c ''.counter'')" using c lawful by (simp_all add: frame)
    moreover have "\<not> fst ?r3 \<Longrightarrow> content (snd ?r3) = content ?w2"
      using lawful by (simp add: zf_storage_remove_optional_def Let_def storage_lawful_def)
    ultimately show ?thesis by auto
  qed
  show fl: "floor_at hal (content w') j N" if j: "length j = 32" "floor_at hal (content w) j N" "j \<noteq> c \<or> \<not> ok" for j N
  proof -
    have "content w1 (cred_path j ''.counter'') = content w (cred_path j ''.counter'')"
      using other1 j(1) c by (simp add: record_paths_def)
    moreover have "content w' (cred_path j ''.counter'') = content w1 (cred_path j ''.counter'')"
    proof (cases "j = c")
      case True
      then show ?thesis using j(3) kept w'(1) by (cases ok1) auto
    next
      case False
      then show ?thesis using other2 j(1) c by (simp add: floor_paths_def)
    qed
    ultimately show ?thesis using j(2) floor_at_cong [of "content w'" j "content w" hal N] by simp
  qed
  show "low hal (content w') j N" if j: "length j = 32" "low hal (content w) j N"
  proof (cases "j = c")
    case True
    show ?thesis
    proof (cases ok)
      case yes: True
      then have "content w' (cred_path c []) = None" using w' gone1 other2 [of "cred_path c []"] c
        by (cases ok1) (auto simp: floor_paths_def)
      then show ?thesis using True by (simp add: low_def record_at_def)
    next
      case False
      have "content w' (cred_path c []) = content w1 (cred_path c [])"
        using other2 [of "cred_path c []"] c by (simp add: floor_paths_def)
      then have "record_at hal (content w) c N \<Longrightarrow> record_at hal (content w') c N"
        using rest unfolding record_at_def by (metis insert_iff singletonD option.distinct(1))
      then show ?thesis using fl [of c N] j True False by (auto simp: low_def)
    qed
  next
    case False
    then have "content w' (cred_path j []) = content w (cred_path j [])"
      using other1 [of "cred_path j []"] other2 [of "cred_path j []"] j(1) c
      by (simp add: floor_paths_def record_paths_def)
    then show ?thesis
      using fl [of j N] j False record_at_cong [of "content w'" j "content w" hal N] by (auto simp: low_def)
  qed
qed

lemma run_floor:
  "run_inv hal content us s w \<Longrightarrow> (c, n) \<in> set us \<Longrightarrow> length c = 32 \<and>
    low hal (content w) c (zf_counter_reserved_high_water n)"
  by (auto simp: run_inv_def low_def)

lemma run_entry:
  assumes "run_inv hal content us s w" "i < length (cs_entries s)"
  shows "entry_wf (cs_entries s ! i)" "length (ie_credential_id (cs_entries s ! i)) = 32"
    "low hal (content w) (ie_credential_id (cs_entries s ! i)) (ie_counter_high_water (cs_entries s ! i))"
  using assms nth_mem [of i "cs_entries s"]
  by (auto simp: run_inv_def entries_low_def entry_wf_def ZF_CREDENTIAL_ID_LEN_def)

text \<open>The index changes, the files do not: the new entries must respect the bounds.\<close>

lemma run_inv_entries:
  assumes "run_inv hal content us s w" "array_wf s'"
    "\<And>e. e \<in> set (cs_entries s') \<Longrightarrow> e \<notin> set (cs_entries s) \<Longrightarrow> entry_wf e \<and>
      low hal (content w) (ie_credential_id e) (ie_counter_high_water e)"
  shows "run_inv hal content us s' w"
  using assms by (auto simp: run_inv_def entries_low_def)

lemma asserted_inv:
  assumes plat: "store_platform hal content" and inv: "run_inv hal content us s w"
    and i: "i < length (cs_entries s)"
    and ld: "zf_store_load_record_with_buffer hal (cs_entries s ! i) buffer w = (Some r, w1)"
    and max: "cr_sign_count r \<noteq> 0xFFFFFFFF" and r': "r' = r\<lparr>cr_sign_count := cr_sign_count r + 1\<rparr>"
    and adv: "zf_store_prepare_counter_advance hal (cs_entries s ! i) r' buffer w2 = (h, w')"
    and between: "calm content w1 w2"
  shows "run_inv hal content us s w'"
    and "h = Some k \<Longrightarrow> zf_store_publish_counter_advance s r' k = (True, s') \<Longrightarrow>
      run_inv hal content (us @ [(cr_credential_id r', cr_sign_count r')]) s' w'"
proof -
  let ?e = "cs_entries s ! i"
  let ?c = "ie_credential_id ?e"
  note e = run_entry [OF inv i]
  note load = load_entry [OF plat e(1) ld]
  note id = load(2) [OF refl]
  have inv1: "run_inv hal content us s w2" by (rule run_inv_calm [OF run_inv_raises [OF inv load(1) e(2)] between])
  have next_gt: "cr_sign_count r < cr_sign_count r'"
    using max r' unsigned_less [of "cr_sign_count r", where ?'a = nat]
    by (simp add: word_less_nat_alt unat_plus_if_size word_size word_unat_eq_iff)
  have used: "zf_counter_reserved_high_water n \<le> cr_sign_count r" if "(?c, n) \<in> set us" for n
    using id run_floor [OF inv that] by blast
  have marks: "ie_counter_high_water x \<le> cr_sign_count r" if "x \<in> set (cs_entries s)" "ie_credential_id x = ?c" for x
    using id inv that unfolding run_inv_def entries_low_def by metis
  have r'_id: "cr_credential_id r' = ?c" "cr_file_name r' = zf_store_record_format_hex_encode ?c"
    using id r' by simp_all
  show inv': "run_inv hal content us s w'"
    using advance_keeps [OF plat e(2) r'_id _ _ adv inv1] used marks next_gt by fastforce
  assume h: "h = Some k" and pub: "zf_store_publish_counter_advance s r' k = (True, s')"
  have over: "ie_counter_high_water ?e < cr_sign_count r'"
    using marks [of ?e] i next_gt by (simp add: order_le_less_trans)
  have res: "zf_store_record_format_reserve_counter_with_buffer hal r' buffer w2 = (Some k, w')"
    using adv h over by (auto simp: zf_store_prepare_counter_advance_def split: if_split_asm)
  note top = reserve_spec(1) [OF plat e(2) r'_id res refl]
  have floor: "floor_at hal (content w') ?c (zf_counter_reserved_high_water (cr_sign_count r'))" using top by blast
  have top': "cr_sign_count r' \<le> k" using top high_water_bound by blast
  obtain j where j: "j < length (cs_entries s)" "ie_credential_id (cs_entries s ! j) = ?c"
    and s': "s' = cs_put s j (advanced (cs_entries s ! j) (cr_sign_count r') k)"
    using pub r'_id(1)
    by (auto simp: zf_store_publish_counter_advance_def advanced_def Let_def first_index_Some entry_has_id_def
        split: if_split_asm option.split_asm)
  have awf: "array_wf s" using inv by (simp add: run_inv_def entries_low_def)
  have jc: "j < cs_count s" using j(1) length_entries [OF awf] by simp
  let ?a = "advanced (cs_entries s ! j) (cr_sign_count r') k"
  have over_j: "ie_counter_high_water (cs_entries s ! j) < cr_sign_count r'"
    using marks [OF nth_mem [OF j(1)] j(2)] next_gt by (rule order_le_less_trans)
  then have a: "entry_wf ?a" "ie_credential_id ?a = ?c" "ie_counter_high_water ?a = k"
    using run_entry(1) [OF inv j(1)] top' j(2) by (auto simp: advanced_def entry_wf_def)
  have "run_inv hal content us s' w'"
  proof (rule run_inv_entries [OF inv'])
    show "array_wf s'" using entries_put(2) [OF awf jc] s' by simp
    fix x
    assume "x \<in> set (cs_entries s')" "x \<notin> set (cs_entries s)"
    then have "x = ?a"
      using s' entries_put(1) [OF awf jc, of ?a] set_update_subset_insert [of "cs_entries s" j ?a] by auto
    then show "entry_wf x \<and> low hal (content w') (ie_credential_id x) (ie_counter_high_water x)"
      using a top floor by (auto simp: low_def)
  qed
  moreover have "beyond n (cr_sign_count r')" if "(?c, n) \<in> set us" for n
    unfolding beyond_def using used [OF that] next_gt by (rule order_le_less_trans)
  ultimately show "run_inv hal content (us @ [(cr_credential_id r', cr_sign_count r')]) s' w'"
    using floor e(2) r'_id(1) by (auto simp: run_inv_def sorted_wrt_append)
qed

text \<open>A record under its own name. A new one is written over no record that the index knows.\<close>

definition record_named :: "ZfCredentialRecord \<Rightarrow> bool" where
  "record_named r \<longleftrightarrow> cr_in_use r \<and> length (cr_credential_id r) = 32 \<and>
    cr_file_name r = zf_store_record_format_hex_encode (cr_credential_id r)"

lemma record_wf_named: "record_wf r \<Longrightarrow> record_named r"
  by (simp add: record_wf_def record_named_def ZF_CREDENTIAL_ID_LEN_def)

lemma written_inv:
  assumes plat: "store_platform hal content" and inv: "run_inv hal content us s w" and wf: "record_named r"
    and fresh: "index_view s (cr_credential_id r) = None"
    and wr: "zf_store_write_record_file_with_buffer hal r buffer w = (ok, w')"
  shows "run_inv hal content us s w'"
proof -
  let ?c = "cr_credential_id r"
  have c: "length ?c = 32" "cr_file_name r = zf_store_record_format_hex_encode ?c"
    using wf by (auto simp: record_named_def)
  have same: "content w' q = content w q" if "q \<notin> record_paths ?c" for q
    using frame_write_record [OF plat c(1,2) _ that] wr by (simp add: zf_store_write_record_file_with_buffer_def)
  have fl: "floor_at hal (content w') j N = floor_at hal (content w) j N" if "length j = 32" for j N
    using same [of "cred_path j ''.counter''"] that c(1) floor_at_cong [of "content w'" j "content w" hal N]
    by (simp add: record_paths_def)
  have new: "e \<in> set (cs_entries s) \<Longrightarrow> ie_credential_id e \<noteq> ?c" for e
    using fresh by (simp add: index_view_def map_of_eq_None_iff image_image) (metis imageI)
  have lo: "low hal (content w') j N = low hal (content w) j N" if "length j = 32" "j \<noteq> ?c" for j N
    using same [of "cred_path j []"] that c(1) record_at_cong [of "content w'" j "content w" hal N] fl [of j N]
    by (simp add: record_paths_def low_def)
  have "entries_low hal content s w'"
    using inv lo new by (auto simp: run_inv_def entries_low_def entry_wf_def ZF_CREDENTIAL_ID_LEN_def)
  then show ?thesis using inv fl by (auto simp: run_inv_def)
qed

lemma added_inv:
  assumes inv: "run_inv hal content us s w" and wf: "record_named r" and zero: "cr_sign_count r = 0"
    and pub: "zf_store_publish_added_record heap s r = (ok, s')"
  shows "run_inv hal content us s' w"
proof -
  have awf: "array_wf s" using inv by (simp add: run_inv_def entries_low_def)
  obtain ok1 s1 where e: "zf_store_ensure_capacity heap s (cs_count s + 1) = (ok1, s1)" by fastforce
  let ?e = "zf_store_index_entry_from_record r"
  have e_wf: "entry_wf ?e" "low hal (content w) (ie_credential_id ?e) (ie_counter_high_water ?e)"
    using wf zero by (simp_all add: zf_store_index_entry_from_record_def entry_wf_def record_named_def low_def
        record_at_def ZF_CREDENTIAL_ID_LEN_def)
  have cases: "array_wf s' \<and> set (cs_entries s') \<subseteq> insert ?e (set (cs_entries s))"
  proof (cases "cs_count s \<ge> ZF_MAX_CREDENTIALS \<or> \<not> ok1")
    case True
    then show ?thesis using pub e awf ensure_capacity_spec(1) [OF awf e]
      by (auto simp: zf_store_publish_added_record_def split: if_split_asm bool.split_asm)
  next
    case False
    then have s': "s' = (cs_put s1 (cs_count s1) ?e)\<lparr>cs_count := cs_count s1 + 1\<rparr>"
      using pub e by (auto simp: zf_store_publish_added_record_def)
    show ?thesis using entries_append [OF awf, of heap s1 ?e] e False s' by auto
  qed
  show ?thesis
    by (rule run_inv_entries [OF inv]) (use cases e_wf in auto)
qed

lemma deleted_inv:
  assumes plat: "store_platform hal content" and inv: "run_inv hal content us s w"
    and del: "zf_store_delete_record hal s c w = (x, s', w')"
  shows "x \<noteq> ZfStoreDeleteOk \<Longrightarrow> run_inv hal content us s' w'"
    and "x = ZfStoreDeleteOk \<Longrightarrow> run_inv hal content (filter (\<lambda>u. fst u \<noteq> c) us) s' w'"
proof -
  have "(x \<noteq> ZfStoreDeleteOk \<longrightarrow> run_inv hal content us s' w') \<and>
    (x = ZfStoreDeleteOk \<longrightarrow> run_inv hal content (filter (\<lambda>u. fst u \<noteq> c) us) s' w')"
  proof (cases "first_index (entry_has_id c) (cs_entries s)")
    case None
    then show ?thesis using del inv by (auto simp: zf_store_delete_record_def)
  next
    case (Some i)
    then have i: "i < length (cs_entries s)" "ie_credential_id (cs_entries s ! i) = c"
      by (simp_all add: first_index_Some entry_has_id_def)
    have c: "length c = 32" using run_entry(2) [OF inv i(1)] i(2) by simp
    obtain ok w1 where rm: "zf_store_recovery_remove_record_paths hal (zf_store_record_format_hex_encode c) w = (ok, w1)"
      by fastforce
    note keep = deletion_keeps [OF plat c rm]
    have ents: "entries_low hal content s w1"
      using inv keep(1) by (auto simp: run_inv_def entries_low_def entry_wf_def ZF_CREDENTIAL_ID_LEN_def)
    have awf: "array_wf s" using inv by (simp add: run_inv_def entries_low_def)
    show ?thesis
    proof (cases ok)
      case True
      then have x: "x = ZfStoreDeleteOk" "s' = zf_store_compact_after_delete s i" "w' = w1"
        using del Some i(2) rm by (simp_all add: zf_store_delete_record_def zf_store_index_entry_file_name_def)
      have "i < cs_count s" using i(1) length_entries [OF awf] by simp
      note comp = entries_compact [OF awf this]
      have "entries_low hal content s' w1"
        using ents comp(1,2) x(2) by (auto simp: entries_low_def dest: in_set_takeD in_set_dropD)
      moreover have "length d = 32 \<and> floor_at hal (content w1) d (zf_counter_reserved_high_water n)" if "(d, n) \<in> set us" "d \<noteq> c" for d n
        using inv that keep(2) [of d "zf_counter_reserved_high_water n"] by (auto simp: run_inv_def)
      moreover have "sorted_wrt beyond (map snd (filter (\<lambda>u. fst u = d) (filter (\<lambda>u. fst u \<noteq> c) us)))" for d
      proof (cases "d = c")
        case False
        then have "filter (\<lambda>u. fst u = d) (filter (\<lambda>u. fst u \<noteq> c) us) = filter (\<lambda>u. fst u = d) us"
          by (auto intro!: filter_cong)
        then show ?thesis using inv by (simp add: run_inv_def)
      qed simp
      ultimately show ?thesis using x by (auto simp: run_inv_def)
    next
      case False
      then have x: "x = ZfStoreDeleteRemoveFailed" "s' = s" "w' = w1"
        using del Some i(2) rm by (simp_all add: zf_store_delete_record_def zf_store_index_entry_file_name_def)
      have "length d = 32 \<and> floor_at hal (content w1) d (zf_counter_reserved_high_water n)" if "(d, n) \<in> set us" for d n
        using inv that keep(2) [of d "zf_counter_reserved_high_water n"] False by (auto simp: run_inv_def)
      then show ?thesis using x ents inv by (auto simp: run_inv_def)
    qed
  qed
  then show "x \<noteq> ZfStoreDeleteOk \<Longrightarrow> run_inv hal content us s' w'"
    and "x = ZfStoreDeleteOk \<Longrightarrow> run_inv hal content (filter (\<lambda>u. fst u \<noteq> c) us) s' w'" by blast+
qed

theorem store_run_invariant:
  assumes plat: "store_platform hal content" and run: "store_run heap hal us s w"
  shows "run_inv hal content us s w"
  using run
proof (induction rule: store_run.induct)
  case (power_on s0 buffer w ok s' w')
  then show ?case using boot_keeps [OF plat power_on] by (simp add: run_inv_def)
next
  case (restart us s w s0 buffer ok s' w')
  note boot = boot_keeps [OF plat restart(2-4)]
  have "length c = 32 \<and> floor_at hal (content w') c (zf_counter_reserved_high_water n)"
    if "(c, n) \<in> set us" for c n
    using boot restart.IH that by (auto simp: run_inv_def keeps_floors_def)
  then show ?case using boot restart.IH by (auto simp: run_inv_def)
next
  case (load_failed us s w i buffer r w')
  note e = run_entry [OF load_failed.IH load_failed(2)]
  show ?case by (rule run_inv_raises [OF load_failed.IH load_entry(1) [OF plat e(1) load_failed(3)] e(2)])
next
  case (reserve_failed us s w i buffer r w1 h w')
  show ?case by (rule asserted_inv(1) [OF plat reserve_failed.IH reserve_failed(2-4) refl reserve_failed(5) calm_refl])
next
  case (asserted us s w i buffer r w1 r' h w' s')
  show ?case by (rule asserted_inv(2) [OF plat asserted.IH asserted(2-6) calm_refl refl asserted(7)])
next
  case (created us s w r buffer w' ok s')
  note named = record_wf_named [OF created(2)]
  show ?case by (rule added_inv [OF written_inv [OF plat created.IH named created(4,5)] named created(3,6)])
next
  case (create_failed us s w r buffer w')
  show ?case by (rule written_inv [OF plat create_failed.IH record_wf_named [OF create_failed(2)] create_failed(3,4)])
next
  case (deleted us s w c s' w')
  show ?case by (rule deleted_inv(2) [OF plat deleted.IH deleted(2) refl])
next
  case (delete_failed us s w c x s' w')
  show ?case by (rule deleted_inv(1) [OF plat delete_failed.IH delete_failed(2,3)])
qed

section \<open>The index after start-up\<close>

text \<open>A directory lists a name once, so the index holds an identifier once.\<close>

lemma index_visitor_wf:
  assumes plat: "store_platform hal content" and wf: "store_wf s"
    and fresh: "\<And>e. e \<in> set (cs_entries s) \<Longrightarrow> zf_store_record_format_hex_encode (ie_credential_id e) \<noteq> name"
    and r: "zf_store_bootstrap_index_visitor heap hal buffer (take 95 name) d (s, w) = (ok, s', w')"
  shows "store_wf s' \<and> (\<forall>e \<in> set (cs_entries s'). e \<in> set (cs_entries s) \<or>
    zf_store_record_format_hex_encode (ie_credential_id e) = name)"
proof (cases "d \<or> \<not> zf_store_record_format_is_record_name (take 95 name) \<or> cs_count s \<ge> ZF_MAX_CREDENTIALS")
  case True
  then show ?thesis using r wf by (auto simp: zf_store_bootstrap_index_visitor_def split: if_split_asm)
next
  case False
  then obtain i where i: "length i = 32" "take 95 name = zf_store_record_format_hex_encode i" using record_name_hex by blast
  have "length (take 95 name) = 64" using i by simp
  then have "take 95 name = name" by (simp add: min_def split: if_split_asm)
  with i(2) have name: "name = zf_store_record_format_hex_encode i" by simp
  have awf: "array_wf s" using wf by (simp add: store_wf_def)
  obtain ok1 s1 where e: "zf_store_ensure_capacity heap s (cs_count s + 1) = (ok1, s1)" by fastforce
  note grown = ensure_capacity_spec(1) [OF awf e]
  have wf1: "store_wf s1" "cs_entries s1 = cs_entries s" using wf grown by (simp_all add: store_wf_def)
  obtain res w1 where ld: "zf_store_record_format_load_index_with_buffer hal (take 95 name) buffer w = (res, w1)" by fastforce
  show ?thesis
  proof (cases "ok1 \<and> res \<noteq> None")
    case False': False
    then show ?thesis using r False e ld wf1
      by (auto simp: zf_store_bootstrap_index_visitor_def split: bool.split_asm option.split_asm)
  next
    case True
    then obtain x where x: "res = Some x" by blast
    have s': "s' = (cs_put s1 (cs_count s1) x)\<lparr>cs_count := cs_count s1 + 1\<rparr>"
      using r False e ld True x by (simp add: zf_store_bootstrap_index_visitor_def)
    have "ok1 = True" using True by simp
    note app = entries_append [OF awf e [unfolded this], where e = x]
    have id: "ie_credential_id x = i" "entry_wf x"
      using load_index_spec(2) [OF plat i(1) ld [unfolded i(2)] x] i(1) load_index_hash [OF ld [unfolded x]]
      by (simp_all add: entry_wf_def ZF_CREDENTIAL_ID_LEN_def)
    have "i \<notin> ie_credential_id ` set (cs_entries s)" using fresh name by auto
    then show ?thesis using app id wf s' name by (auto simp: store_wf_def)
  qed
qed

lemma visit_index_wf:
  assumes plat: "store_platform hal content"
  shows "store_wf s \<Longrightarrow> distinct (map fst entries) \<Longrightarrow>
    (\<And>e. e \<in> set (cs_entries s) \<Longrightarrow> zf_store_record_format_hex_encode (ie_credential_id e) \<notin> fst ` set entries) \<Longrightarrow>
    visit_entries (zf_store_bootstrap_index_visitor heap hal buffer) 96 entries (s, w) = (ok, s', w') \<Longrightarrow> store_wf s'"
proof (induction entries arbitrary: s w)
  case (Cons x entries)
  obtain name d where x: "x = (name, d)" by fastforce
  obtain ok1 s1 w1 where v: "zf_store_bootstrap_index_visitor heap hal buffer (take 95 name) d (s, w) = (ok1, s1, w1)"
    using prod_cases3 by blast
  have "zf_store_record_format_hex_encode (ie_credential_id e) \<noteq> name" if "e \<in> set (cs_entries s)" for e
    using Cons.prems(3) [OF that] x by auto
  note step = index_visitor_wf [OF plat Cons.prems(1) this v]
  show ?case
  proof (cases ok1)
    case True
    have "zf_store_record_format_hex_encode (ie_credential_id e) \<notin> fst ` set entries" if "e \<in> set (cs_entries s1)" for e
      using step that Cons.prems(2) Cons.prems(3) [of e] x by (auto simp: image_iff)
    then show ?thesis using Cons.IH [of s1 w1] Cons.prems(2,4) x v step True by simp
  next
    case False
    then show ?thesis using Cons.prems(4) x v step by simp
  qed
qed simp

lemma boot_wf:
  assumes plat: "store_platform hal content" and cap: "zf_store_effective_capacity s0 \<le> ZF_MAX_CREDENTIALS"
    and size: "ZF_STORE_RECORD_IO_SIZE \<le> length buffer"
    and dir: "\<And>v entries. fs_dir hal ZF_APP_DATA_DIR v = Some entries \<Longrightarrow> distinct (map fst entries)"
    and r: "zf_store_init_with_buffer heap hal s0 buffer w = (ok, s', w')"
  shows "store_wf s'"
proof -
  note clear = entries_clear [OF cap]
  have size': "\<not> length buffer < ZF_STORE_RECORD_IO_SIZE" "\<not> length buffer < ZF_STORE_RECORD_MAX_SIZE"
    using size by (simp_all add: ZF_STORE_RECORD_IO_SIZE_def ZF_STORE_RECORD_MAX_SIZE_def)
  have "s' = zf_store_clear s0 \<or> (\<exists>v entries. fs_dir hal ZF_APP_DATA_DIR v = Some entries \<and>
      visit_entries (zf_store_bootstrap_index_visitor heap hal buffer) 96 entries (zf_store_clear s0, v) = (ok, s', w'))"
    using r size' by (auto simp: zf_store_init_with_buffer_def zf_store_bootstrap_init_with_buffer_def Let_def
        split: bool.split_asm option.split_asm prod.split_asm)
  then show ?thesis
    using clear visit_index_wf [OF plat clear(2)] dir by fastforce
qed

end
