(* ===== verification/Store_Properties.thy ===== *)
theory Store_Properties
  imports Store_Run Sim_Platform
begin

text \<open>
  The properties of the credential store, with witnesses on the simulated platform.
\<close>

section \<open>The simulated platform\<close>

lemma sim_store_platform: "store_platform sim_hal (\<lambda>w. w)"
  using sim_storage_lawful sim_enclave_lawful
  by (simp add: store_platform_def) (simp add: sim_hal_def)

definition sim_record :: ZfCredentialRecord where
  "sim_record = zero_record\<lparr>cr_in_use := True, cr_resident_key := True, cr_storage_version := 1,
    cr_credential_id := replicate 32 0xAB, cr_file_name := zf_store_record_format_hex_encode (replicate 32 0xAB),
    cr_rp_id := [0x61, 0x2E, 0x62], cr_user_id := [1, 2], cr_user_name := [0x75], cr_created_at := 7,
    cr_cred_protect := 1, cr_hmac_secret := True\<rparr>"

lemma sim_record_wf: "record_wf sim_record"
proof -
  have "zf_cbor_utf8_is_valid [0x61, 0x2E, 0x62]" "zf_cbor_utf8_is_valid [0x75]" "zf_cbor_utf8_is_valid []"
    by code_simp+
  then show ?thesis
    by (simp add: record_wf_def sim_record_def zero_record_def text_field_def ZF_STORE_FORMAT_VERSION_def
        ZF_CREDENTIAL_ID_LEN_def ZF_MAX_RP_ID_LEN_def ZF_MAX_USER_ID_LEN_def ZF_MAX_USER_NAME_LEN_def
        ZF_MAX_DISPLAY_NAME_LEN_def)
qed

lemma sim_encrypts: "fst (enclave_encrypt sim_hal iv d w) \<noteq> None"
  by (simp add: sim_hal_def)

lemma sim_write_record:
  assumes wf: "record_wf r" and room: "ZF_STORE_RECORD_MAX_SIZE \<le> length buffer"
  shows "\<exists>w'. zf_store_record_format_write_record_with_buffer sim_hal r buffer w = (True, w')"
proof -
  let ?i = "cr_credential_id r"
  have i: "length ?i = 32" "cr_file_name r = zf_store_record_format_hex_encode ?i"
    using wf by (simp_all add: record_wf_def ZF_CREDENTIAL_ID_LEN_def)
  obtain res w1 where e: "zf_store_record_format_encode sim_hal r buffer w = (res, w1)" by fastforce
  then obtain d where d: "res = Some d" "d \<noteq> []"
    using record_encoded [OF sim_enclave_lawful wf room e] sim_encrypts by (auto simp: encodes_def)
  then show ?thesis
    using e room i(2) cred_paths [OF i(1)] backup_paths(1) [OF i(1)]
      sim_write_atomic [OF d(2), of "cred_path ?i []" _ "cred_path ?i ''.tmp''"]
    by (simp add: zf_store_record_format_write_record_with_buffer_def)
qed

lemma sim_reserve:
  assumes wf: "record_wf r" and room: "ZF_STORE_RECORD_MAX_SIZE \<le> length buffer"
  shows "\<exists>h w'. zf_store_record_format_reserve_counter_with_buffer sim_hal r buffer w = (Some h, w')"
proof -
  let ?i = "cr_credential_id r" and ?h = "zf_counter_reserved_high_water (cr_sign_count r)"
  have i: "length ?i = 32" "cr_file_name r = zf_store_record_format_hex_encode ?i"
    using wf by (simp_all add: record_wf_def ZF_CREDENTIAL_ID_LEN_def)
  have enc: "\<exists>f. zf_counter_floor_encode_fields sim_hal ?i (cr_created_at r) ?h w = (Some f, w)"
    by (simp add: zf_counter_floor_encode_fields_def sim_hal_def)
  have ne: "counter_floor_bytes f \<noteq> []" for f
    by (auto simp: counter_floor_bytes_def dest: arg_cong [where f = length])
  have wr: "\<exists>w'. zf_storage_write_file_atomic sim_hal (cred_path ?i ''.counter'') (cred_path ?i ''.counter.tmp'')
      (counter_floor_bytes f) w = (True, w')" for f
    by (rule sim_write_atomic [OF ne backup_paths(2) [OF i(1)]]) simp
  obtain f where f: "zf_counter_floor_encode_fields sim_hal ?i (cr_created_at r) ?h w = (Some f, w)" using enc by blast
  obtain w1 where fl: "zf_store_counter_floor_write_value sim_hal r ?h w = (True, w1)"
    using f wr [of f] i(2) cred_paths [OF i(1)]
    by (auto simp: zf_store_counter_floor_write_value_def zf_store_counter_floor_write_value_fields_def)
  have wf': "record_wf (r\<lparr>cr_sign_count := ?h\<rparr>)" using wf by simp
  obtain w2 where "zf_store_record_format_write_record_with_buffer sim_hal (r\<lparr>cr_sign_count := ?h\<rparr>) buffer w1 = (True, w2)"
    using sim_write_record [OF wf' room] by blast
  then show ?thesis using fl room by (simp add: zf_store_record_format_reserve_counter_with_buffer_def Let_def)
qed

section \<open>Properties\<close>

text \<open>
  C10. What a record file keeps. A well-formed credential record that was written successfully is read back
  field by field, the two HMAC secrets and the sign counter included, by the load for signing (as long as no
  companion counter file exists) and by the load for display, for as long as the file is left alone; and a
  write can only fail where the medium or the enclave fails: every well-formed record fits the buffer.
\<close>

theorem record_roundtrip:
  assumes "store_platform hal content" and "\<And>p v. fst (fs_read hal p v) = content v p"
    and "record_wf r" and "ZF_STORE_RECORD_IO_SIZE \<le> length buffer"
    and "zf_store_write_record_file_with_buffer hal r buffer w = (True, w')"
    and "content v (cred_path (cr_credential_id r) []) = content w' (cred_path (cr_credential_id r) [])"
    and "content v (cred_path (cr_credential_id r) ''.counter'') = None"
  shows "fst (zf_store_record_format_load_record_with_buffer hal (cr_file_name r) buffer v) = Some r \<and>
    fst (zf_store_record_format_load_record_for_display_with_buffer hal (cr_file_name r) buffer v) = Some r \<and>
    (\<forall>u. (\<forall>iv d u. fst (enclave_encrypt hal iv d u) \<noteq> None) \<longrightarrow>
      fst (zf_store_record_format_encode hal r buffer u) \<noteq> None)"
proof -
  have room: "ZF_STORE_RECORD_MAX_SIZE \<le> length buffer"
    using assms(4) by (simp add: ZF_STORE_RECORD_IO_SIZE_def ZF_STORE_RECORD_MAX_SIZE_def)
  have i: "length (cr_credential_id r) = 32"
    "cr_file_name r = zf_store_record_format_hex_encode (cr_credential_id r)"
    using assms(3) by (simp_all add: record_wf_def ZF_CREDENTIAL_ID_LEN_def)
  obtain e where e: "content v (cred_path (cr_credential_id r) []) = Some e" "encodes hal e r"
    using record_written [OF assms(1,3), of buffer w w'] assms(5,6) by (auto simp: zf_store_write_record_file_with_buffer_def)
  note loaded = record_loaded [OF assms(1,2) e(2,1) i(1) refl i(2) room]
  have "fst (zf_store_record_format_encode hal r buffer u) \<noteq> None"
    if "\<forall>iv d u. fst (enclave_encrypt hal iv d u) \<noteq> None" for u
    using record_encoded(2) [OF store_platform_lawful(2) [OF assms(1)] assms(3) room, of u] that
    by (metis prod.collapse)
  with loaded assms(7) show ?thesis by blast
qed

theorem record_roundtrip_witness:
  "\<exists>w'. zf_store_write_record_file_with_buffer sim_hal sim_record (replicate 800 0) (\<lambda>_. None) = (True, w') \<and>
    fst (zf_store_record_format_load_record_with_buffer sim_hal (cr_file_name sim_record) (replicate 800 0) w') =
      Some sim_record"
proof -
  obtain w' where w': "zf_store_write_record_file_with_buffer sim_hal sim_record (replicate 800 0) (\<lambda>_. None) = (True, w')"
    using sim_write_record [OF sim_record_wf, of "replicate 800 0"]
    by (auto simp: zf_store_write_record_file_with_buffer_def ZF_STORE_RECORD_MAX_SIZE_def)
  have i: "length (cr_credential_id sim_record) = 32" by (simp add: sim_record_def)
  have none: "w' (cred_path (cr_credential_id sim_record) ''.counter'') = None"
    using frame_write_record [where content = "\<lambda>w. w" and q = "cred_path (cr_credential_id sim_record) ''.counter''",
        OF sim_store_platform i _ w' [unfolded zf_store_write_record_file_with_buffer_def]] i
    by (simp add: record_paths_def sim_record_def)
  show ?thesis
    using record_roundtrip [where content = "\<lambda>w. w" and hal = sim_hal and r = sim_record and v = w' and w' = w'
        and buffer = "replicate 800 0" and w = "\<lambda>_. None"] sim_store_platform sim_record_wf w' none
    by (simp add: ZF_STORE_RECORD_IO_SIZE_def)
qed

text \<open>
  C8. Over any history of start-ups, assertions, creations and deletions, and whichever file operations fail
  on the way, the sign counters published for one credential increase: each exceeds the whole range that was
  reserved for the one before, so it is larger, and no counter is ever repeated after a restart. (The record
  is loaded with the reserved high-water mark, so the range itself is skipped.)
\<close>

theorem sign_counters_increase:
  assumes "store_platform hal content" and "store_run heap hal us s w"
  shows "sorted_wrt (\<lambda>a b. zf_counter_reserved_high_water a < b) (map snd (filter (\<lambda>u. fst u = c) us)) \<and>
    sorted_wrt (<) (map snd (filter (\<lambda>u. fst u = c) us))"
proof -
  have "sorted_wrt beyond (map snd (filter (\<lambda>u. fst u = c) us))"
    using store_run_invariant [OF assms] by (simp add: run_inv_def)
  then show ?thesis
    using high_water_bound unfolding beyond_def
    by (auto elim!: sorted_wrt_mono_rel [rotated] intro: order_le_less_trans)
qed

lemma sim_history: "\<exists>us s w. store_run (\<lambda>_. True) sim_hal us s w \<and> us = [(replicate 32 0xAB, 1)]"
proof -
  let ?s0 = "\<lparr>cs_records = None, cs_count = 0, cs_capacity = 0\<rparr>" and ?b = "replicate 800 0 :: bytes"
  let ?i = "replicate 32 0xAB :: bytes" and ?r = sim_record
  have cap: "zf_store_effective_capacity ?s0 \<le> ZF_MAX_CREDENTIALS" by (simp add: zf_store_effective_capacity_def)
  have sizes: "ZF_STORE_RECORD_IO_SIZE \<le> length ?b" "ZF_STORE_RECORD_MAX_SIZE \<le> length ?b"
    by (simp_all add: ZF_STORE_RECORD_IO_SIZE_def ZF_STORE_RECORD_MAX_SIZE_def)
  have r: "cr_credential_id ?r = ?i" "length ?i = 32" "cr_sign_count ?r = 0" "cr_in_use ?r"
    "cr_file_name ?r = zf_store_record_format_hex_encode ?i"
    by (simp_all add: sim_record_def zero_record_def)
  have "fs_dir sim_hal p v = Some []" for p v by (simp add: sim_hal_def)
  then have boot: "zf_store_init_with_buffer (\<lambda>_. True) sim_hal ?s0 ?b (\<lambda>_. None) =
      (True, zf_store_clear ?s0, \<lambda>_. None)"
    using sizes by (simp add: zf_store_init_with_buffer_def zf_store_bootstrap_init_with_buffer_def Let_def
        zf_store_bootstrap_ensure_app_data_dir_def zf_store_recovery_cleanup_temp_files_with_buffer_def
        zf_storage_remove_dir_entries_with_suffix_def zf_storage_for_each_dir_entry_def)
  note run1 = store_run.power_on [OF cap sizes(1) boot]
  obtain w1 where w1: "zf_store_write_record_file_with_buffer sim_hal ?r ?b (\<lambda>_. None) = (True, w1)"
    using sim_write_record [OF sim_record_wf sizes(2)] by (auto simp: zf_store_write_record_file_with_buffer_def)
  let ?e = "zf_store_index_entry_from_record ?r"
  let ?s1 = "\<lparr>cs_records = Some [?e], cs_count = 1, cs_capacity = 1\<rparr>"
  have add: "zf_store_publish_added_record (\<lambda>_. True) (zf_store_clear ?s0) ?r = (True, ?s1)"
    by (simp add: zf_store_publish_added_record_def zf_store_clear_def zf_store_ensure_capacity_def cs_put_def
        zf_store_effective_capacity_def grow_capacity.simps ZF_MAX_CREDENTIALS_def Let_def)
  have "index_view (zf_store_clear ?s0) (cr_credential_id ?r) = None"
    by (simp add: index_view_def cs_entries_def zf_store_clear_def)
  note run2 = store_run.created [OF run1 sim_record_wf r(3) this w1 add]
  have ent: "cs_entries ?s1 = [?e]" by (simp add: cs_entries_def)
  have none: "w1 (cred_path ?i ''.counter'') = None"
    using frame_write_record [where content = "\<lambda>w. w" and q = "cred_path ?i ''.counter''",
        OF sim_store_platform r(2,5) w1 [unfolded zf_store_write_record_file_with_buffer_def]] r(2)
    by (simp add: record_paths_def)
  obtain e where e: "w1 (cred_path ?i []) = Some e" "encodes sim_hal e ?r"
    using record_written [where content = "\<lambda>w. w", OF sim_store_platform sim_record_wf
        w1 [unfolded zf_store_write_record_file_with_buffer_def]] r(1) by auto
  have "fst (zf_store_record_format_load_record_with_buffer sim_hal (cr_file_name ?r) ?b w1) = Some ?r"
    using record_loaded(2) [where content = "\<lambda>w. w", OF sim_store_platform _ e(2,1) r(2,1,5) sizes(2) none] by simp
  then obtain w2 where ld: "zf_store_load_record_with_buffer sim_hal ?e ?b w1 = (Some ?r, w2)"
    using r sizes(1)
    by (cases "zf_store_record_format_load_record_with_buffer sim_hal (cr_file_name ?r) ?b w1")
      (simp add: zf_store_load_record_with_buffer_def zf_store_load_record_internal_with_buffer_def
        zf_store_index_entry_from_record_def zf_store_index_entry_file_name_def)
  let ?r' = "?r\<lparr>cr_sign_count := cr_sign_count ?r + 1\<rparr>"
  obtain h w3 where res: "zf_store_record_format_reserve_counter_with_buffer sim_hal ?r' ?b w2 = (Some h, w3)"
    using sim_reserve [of ?r' ?b w2] sim_record_wf sizes(2) by auto
  have adv: "zf_store_prepare_counter_advance sim_hal ?e ?r' ?b w2 = (Some h, w3)"
    using res r sizes(1) by (simp add: zf_store_prepare_counter_advance_def zf_store_index_entry_from_record_def)
  have h: "h = zf_counter_reserved_high_water (cr_sign_count ?r')"
    using reserve_spec(1) [where content = "\<lambda>w. w", OF sim_store_platform r(2) _ _ res] r by simp
  have "\<exists>s2. zf_store_publish_counter_advance ?s1 ?r' h = (True, s2)"
  proof -
    have f: "first_index (entry_has_id ?i) (cs_entries ?s1) = Some 0"
      unfolding ent using r by (simp add: entry_has_id_def zf_store_index_entry_from_record_def)
    have z: "ie_sign_count (cs_entries ?s1 ! 0) = 0"
      unfolding ent using r by (simp add: zf_store_index_entry_from_record_def)
    have "\<not> h < cr_sign_count ?r'" using h high_water_bound [of "cr_sign_count ?r'"] by (simp add: not_less)
    then have "fst (zf_store_publish_counter_advance ?s1 ?r' h)"
      unfolding zf_store_publish_counter_advance_def using f z r(1,3) by (simp only: Let_def) simp
    then show ?thesis by (metis (full_types) prod.collapse)
  qed
  then obtain s2 where pub: "zf_store_publish_counter_advance ?s1 ?r' h = (True, s2)" by blast
  have "store_run (\<lambda>_. True) sim_hal ([] @ [(cr_credential_id ?r', cr_sign_count ?r')]) s2 w3"
  proof (rule store_run.asserted [OF run2, where i = 0])
    show "0 < length (cs_entries ?s1)" by (simp only: ent) simp
    show "zf_store_load_record_with_buffer sim_hal (cs_entries ?s1 ! 0) ?b w1 = (Some ?r, w2)"
      unfolding ent using ld by simp
    show "zf_store_prepare_counter_advance sim_hal (cs_entries ?s1 ! 0) ?r' ?b w2 = (Some h, w3)"
      unfolding ent using adv by simp
    show "cr_sign_count ?r \<noteq> 0xFFFFFFFF" using r(3) by simp
  qed (rule refl pub)+
  then show ?thesis using r by auto
qed

theorem sign_counters_increase_witness:
  "\<exists>us s w. store_run (\<lambda>_. True) sim_hal us s w \<and> us \<noteq> [] \<and>
    sorted_wrt (<) (map snd (filter (\<lambda>u. fst u = replicate 32 0xAB) us))"
proof -
  obtain us s w where run: "store_run (\<lambda>_. True) sim_hal us s w" "us = [(replicate 32 0xAB, 1)]"
    using sim_history by blast
  have "sorted_wrt (<) (map snd (filter (\<lambda>u. fst u = replicate 32 0xAB) us))"
    using sign_counters_increase [where content = "\<lambda>w. w", OF sim_store_platform run(1)] by blast
  with run show ?thesis by blast
qed

text \<open>
  C9. The index in memory refines a finite map from credential identifiers to entries. The lookup fails
  exactly outside the domain; publishing a new record inserts its entry, or leaves the map alone where it
  reports a failure (the array cannot grow); publishing a counter updates the one entry, never to a smaller
  counter and never above the reserved mark, or changes nothing at all; deleting a found position removes
  exactly that identifier. Each keeps the array well formed, and the number of credentials is the size of the map.
\<close>

theorem index_is_map:
  assumes "store_wf s"
  shows "(zf_store_find_index_by_id s c = None \<longleftrightarrow> index_view s c = None) \<and>
    card (dom (index_view s)) = cs_count s \<and> cs_count s \<le> ZF_MAX_CREDENTIALS \<and>
    (cr_in_use r \<and> length (cr_credential_id r) = ZF_CREDENTIAL_ID_LEN \<and> index_view s (cr_credential_id r) = None \<longrightarrow>
      (case zf_store_publish_added_record heap s r of (ok, s') \<Rightarrow> store_wf s' \<and>
        index_view s' = (if ok then (index_view s)(cr_credential_id r \<mapsto> zf_store_index_entry_from_record r)
          else index_view s))) \<and>
    (case zf_store_publish_counter_advance s r h of
       (False, s') \<Rightarrow> s' = s
     | (True, s') \<Rightarrow> store_wf s' \<and> (\<exists>e. index_view s (cr_credential_id r) = Some e \<and>
         ie_sign_count e \<le> cr_sign_count r \<and> cr_sign_count r \<le> h \<and>
         index_view s' = (index_view s)(cr_credential_id r \<mapsto> advanced e (cr_sign_count r) h))) \<and>
    (\<forall>i. zf_store_find_index_by_id s c = Some i \<longrightarrow> store_wf (zf_store_compact_after_delete s i) \<and>
      index_view (zf_store_compact_after_delete s i) = (index_view s)(c := None))"
proof -
  obtain ok s' where add: "zf_store_publish_added_record heap s r = (ok, s')" by fastforce
  obtain ok2 s2 where adv: "zf_store_publish_counter_advance s r h = (ok2, s2)" by fastforce
  have bound: "cs_count s \<le> ZF_MAX_CREDENTIALS" using assms count_bound by (simp add: store_wf_def)
  have 1: "store_wf s' \<and> index_view s' =
      (if ok then (index_view s)(cr_credential_id r \<mapsto> zf_store_index_entry_from_record r) else index_view s)"
    if "cr_in_use r \<and> length (cr_credential_id r) = ZF_CREDENTIAL_ID_LEN \<and> index_view s (cr_credential_id r) = None"
    using that add index.add_ok [OF assms, of r heap s'] index.add_failed [OF assms, of heap r s'] by (cases ok) auto
  have 2: "if ok2 then store_wf s2 \<and> (\<exists>e. index_view s (cr_credential_id r) = Some e \<and>
         ie_sign_count e \<le> cr_sign_count r \<and> cr_sign_count r \<le> h \<and>
         index_view s2 = (index_view s)(cr_credential_id r \<mapsto> advanced e (cr_sign_count r) h)) else s2 = s"
    using adv index.advance_ok [OF assms, of r h s2] index.advance_failed [of s r h s2] by (cases ok2) auto
  show ?thesis
    unfolding add adv using index.find_iff [OF assms] card_view [OF assms] bound 1 2 index.remove_found [OF assms]
    by (cases ok2) simp_all
qed

definition sim_store :: ZfCredentialStore where
  "sim_store = \<lparr>cs_records = Some [zf_store_index_entry_from_record sim_record, zero_entry], cs_count = 1,
    cs_capacity = 2\<rparr>"

lemma sim_store_wf: "store_wf sim_store"
  by (simp add: store_wf_def array_wf_def entry_wf_def cs_entries_def sim_store_def sim_record_def zero_record_def
      zf_store_effective_capacity_def zf_store_index_entry_from_record_def ZF_MAX_CREDENTIALS_def ZF_CREDENTIAL_ID_LEN_def)

theorem index_is_map_witness:
  "store_wf sim_store \<and> zf_store_find_index_by_id sim_store (replicate 32 0xAB) = Some 0 \<and>
    index_view (zf_store_compact_after_delete sim_store 0) (replicate 32 0xAB) = None"
proof -
  have f: "zf_store_find_index_by_id sim_store (replicate 32 0xAB) = Some 0"
    by (simp add: zf_store_find_index_by_id_def sim_store_def cs_entries_def entry_has_id_def sim_record_def
        zero_record_def zf_store_index_entry_from_record_def)
  then have "index_view (zf_store_compact_after_delete sim_store 0) = (index_view sim_store)(replicate 32 0xAB := None)"
    using index_is_map [OF sim_store_wf, of "replicate 32 0xAB"] by blast
  with f sim_store_wf show ?thesis by simp
qed

text \<open>
  C23. The lookup for a relying party returns the positions of exactly the matching entries, each once, newest
  first (creation time, then the identifier as a number), for the output array the callers pass: discoverable
  credentials only in the plain lookup, every credential the caller's filter accepts in the filtered one.
\<close>

theorem lookup_newest_first:
  assumes "store_wf s"
  shows "(set (zf_store_find_by_rp s rp_id ZF_MAX_CREDENTIALS) = {i. i < cs_count s \<and>
        ie_resident_key (cs_entries s ! i) \<and> ie_rp_id_hash (cs_entries s ! i) = zf_crypto_sha256 rp_id}) \<and>
    (set (zf_store_find_by_rp_filtered s rp_id (Some f) ZF_MAX_CREDENTIALS) = {i. i < cs_count s \<and>
        ie_rp_id_hash (cs_entries s ! i) = zf_crypto_sha256 rp_id \<and> f (cs_entries s ! i)}) \<and>
    list_all (\<lambda>out. distinct out \<and>
        sorted_wrt (\<lambda>i j. age_rank (cs_entries s ! j) \<le> age_rank (cs_entries s ! i)) out)
      [zf_store_find_by_rp s rp_id ZF_MAX_CREDENTIALS,
       zf_store_find_by_rp_filtered s rp_id (Some f) ZF_MAX_CREDENTIALS]"
proof -
  have room: "cs_count s \<le> ZF_MAX_CREDENTIALS" using assms count_bound by (simp add: store_wf_def)
  have use: "i < cs_count s \<Longrightarrow> ie_in_use (cs_entries s ! i) \<and> length (ie_rp_id_hash (cs_entries s ! i)) = 32" for i
    using assms length_entries [of s] by (auto simp: store_wf_def list_all_length entry_wf_def)
  note spec = collect_sorted_spec [OF assms room]
  show ?thesis
    using spec use
    by (auto simp: zf_store_find_by_rp_def zf_store_find_by_rp_filtered_def Let_def zf_store_index_entry_matches_rp_def
        zf_store_rp_matcher_init_def zf_store_index_entry_rp_hash_matches_def constant_time_equal_iff)
qed

theorem lookup_newest_first_witness:
  "store_wf sim_store \<and> set (zf_store_find_by_rp sim_store [0x61, 0x2E, 0x62] ZF_MAX_CREDENTIALS) = {0}"
proof -
  have "ie_resident_key (cs_entries sim_store ! 0) \<and>
      ie_rp_id_hash (cs_entries sim_store ! 0) = zf_crypto_sha256 [0x61, 0x2E, 0x62]" "cs_count sim_store = 1"
    by (simp_all add: cs_entries_def sim_store_def sim_record_def zero_record_def zf_store_index_entry_from_record_def)
  then show ?thesis
    using lookup_newest_first [OF sim_store_wf, of "[0x61, 0x2E, 0x62]"] sim_store_wf by auto
qed

text \<open>
  C24. Whatever files the application directory holds when the device starts, and whichever file operation or
  allocation fails on the way, the index that start-up builds is well formed: at most 32 entries, inside the
  allocated array, every identifier of full length and present once, every counter at most its reserved mark.
\<close>

theorem boot_index_wf:
  assumes "store_platform hal content" and "zf_store_effective_capacity s0 \<le> ZF_MAX_CREDENTIALS"
    and "ZF_STORE_RECORD_IO_SIZE \<le> length buffer"
    and "\<And>v entries. fs_dir hal ZF_APP_DATA_DIR v = Some entries \<Longrightarrow> distinct (map fst entries)"
    and "zf_store_init_with_buffer heap hal s0 buffer w = (ok, s', w')"
  shows "store_wf s'"
  by (rule boot_wf [OF assms])

theorem boot_index_wf_witness:
  "store_wf (fst (snd (zf_store_init_with_buffer (\<lambda>_. True) sim_hal
    \<lparr>cs_records = None, cs_count = 0, cs_capacity = 0\<rparr> (replicate 800 0) (\<lambda>_. None))))"
proof -
  let ?s0 = "\<lparr>cs_records = None, cs_count = 0, cs_capacity = 0\<rparr>"
  obtain ok s' w' where r: "zf_store_init_with_buffer (\<lambda>_. True) sim_hal ?s0 (replicate 800 0) (\<lambda>_. None) = (ok, s', w')"
    using prod_cases3 by blast
  have dir: "fs_dir sim_hal ZF_APP_DATA_DIR v = Some entries \<Longrightarrow> distinct (map fst entries)" for v entries
    by (simp add: sim_hal_def)
  have "store_wf s'"
    by (rule boot_index_wf [OF sim_store_platform _ _ dir r])
      (simp_all add: zf_store_effective_capacity_def ZF_STORE_RECORD_IO_SIZE_def)
  with r show ?thesis by simp
qed

text \<open>
  C39. The growth of the array ends, and does what it is for: started with at least one element, doubling
  reaches the requested size and less than twice of it; and a request of up to 32 entries succeeds whenever
  the allocator does, with the old entries unchanged and room for the requested number.
\<close>

theorem capacity_grows:
  assumes "array_wf s" and "m \<le> ZF_MAX_CREDENTIALS" and "cs_records s = None \<or> cs_capacity s \<noteq> 0"
  shows "(0 < n \<longrightarrow> m \<le> grow_capacity m n \<and> (n \<le> m \<longrightarrow> grow_capacity m n \<le> 2 * m)) \<and>
    (\<exists>s'. zf_store_ensure_capacity (\<lambda>_. True) s m = (True, s') \<and> array_wf s' \<and> cs_entries s' = cs_entries s \<and>
      m \<le> zf_store_effective_capacity s')"
proof -
  obtain ok s' where r: "zf_store_ensure_capacity (\<lambda>_. True) s m = (ok, s')" by fastforce
  note spec = ensure_capacity_spec [OF assms(1) r]
  have ok by (rule spec(4)) (use assms(2,3) in auto)
  then show ?thesis using spec r grow_capacity_result [of n m] assms(2) by auto
qed

theorem capacity_grows_witness:
  "array_wf sim_store \<and> (\<exists>s'. zf_store_ensure_capacity (\<lambda>_. True) sim_store 5 = (True, s') \<and>
    5 \<le> zf_store_effective_capacity s') \<and> grow_capacity 5 2 = 8"
proof -
  have wf: "array_wf sim_store" using sim_store_wf by (simp add: store_wf_def)
  have "\<exists>s'. zf_store_ensure_capacity (\<lambda>_. True) sim_store 5 = (True, s') \<and> 5 \<le> zf_store_effective_capacity s'"
    using capacity_grows [OF wf, of 5 2] by (auto simp: ZF_MAX_CREDENTIALS_def sim_store_def)
  moreover have "grow_capacity 5 2 = 8" by (simp add: grow_capacity.simps ZF_MAX_CREDENTIALS_def)
  ultimately show ?thesis using wf by blast
qed

end
