(* ===== verification/Ctap_Core.thy ===== *)
theory Ctap_Core
  imports Store Pin_Command U2f Usb_Hid
begin

text \<open>
  What the CTAP commands share: the part of the application state they use, the shape of a handler, and
  \<^verbatim>\<open>ctap/core/internal.c\<close>, \<^verbatim>\<open>ctap/policy.c\<close> and the credential keys of \<^verbatim>\<open>zerofido_crypto.c\<close>. A handler
  maps the application and the world to a status or a response, the application and the world. Other
  threads act where a handler waits for the user or polls the transport; those two calls are fields of the
  environment. The scratch arena of the handlers overlays the parsed descriptors, the response buffers and
  the I/O buffer; the descriptors are not read after the first use of another member, so the model passes
  values.
\<close>

section \<open>State\<close>

definition ZF_ASSERTION_QUEUE_TIMEOUT_MS :: u32 where "ZF_ASSERTION_QUEUE_TIMEOUT_MS = 30000"
definition ZF_MAX_ALLOW_LIST :: nat where "ZF_MAX_ALLOW_LIST = 32"
definition ZF_CRED_PROTECT_UV_REQUIRED :: byte where "ZF_CRED_PROTECT_UV_REQUIRED = 3"

record ZfAssertionQueue =
  aq_active :: bool
  aq_session_id :: u32
  aq_uv_verified :: bool
  aq_user_present :: bool
  aq_record_indices :: "nat list"
  aq_count :: nat
  aq_index :: nat
  aq_expires_at :: u32
  aq_request :: ZfAssertionRequestData

text \<open>The two static caches of \<^verbatim>\<open>zerofido_attestation.c\<close>.\<close>

record ZfAttestationCache =
  at_consistency :: int
  at_leaf_cert_len :: nat

record CtapApp = ZerofidoApp +
  app_store :: ZfCredentialStore
  app_store_records_owned :: bool
  app_assertion_queue :: ZfAssertionQueue
  app_u2f :: "U2fData option"
  app_command_scratch_in_use :: bool
  app_attestation :: ZfAttestationCache

definition aq_cleared :: ZfAssertionQueue where
  "aq_cleared = \<lparr>aq_active = False, aq_session_id = 0, aq_uv_verified = False, aq_user_present = False,
    aq_record_indices = [], aq_count = 0, aq_index = 0, aq_expires_at = 0, aq_request = assertion_cleared\<rparr>"

text \<open>
  The environment of a command: build flags, hardware, the wait for the user, the poll of the transport,
  the allocators, the clock and the buffers of the scratch arena and the response.
\<close>

record 'w ctap_env =
  ce_build :: zf_build
  ce_hal :: "'w hal"
  ce_wait :: "u32 \<Rightarrow> CtapApp \<Rightarrow> 'w \<Rightarrow> bool \<times> CtapApp \<times> 'w"
  ce_poll :: "u32 \<Rightarrow> CtapApp \<Rightarrow> 'w \<Rightarrow> ctap_status \<times> CtapApp \<times> 'w"
  ce_heap :: "nat \<Rightarrow> bool"
  ce_malloc :: "'w \<Rightarrow> bool"
  ce_rtc :: "'w \<Rightarrow> u32"
  ce_store_io :: bytes
  ce_out :: bytes
  ce_out_capacity :: nat

section \<open>Commands\<close>

type_synonym ('r, 'w) cmd = "CtapApp \<Rightarrow> 'w \<Rightarrow> 'r ctap_result \<times> CtapApp \<times> 'w"

text \<open>\<open>status = f(...); if (status != ZF_CTAP_SUCCESS) goto cleanup;\<close>\<close>

definition then_ok :: "('r, 'w) cmd \<Rightarrow> ('r \<Rightarrow> ('s, 'w) cmd) \<Rightarrow> ('s, 'w) cmd" where
  "then_ok m f app w =
    (case m app w of (Inl status, app, w) \<Rightarrow> (Inl status, app, w) | (Inr r, app, w) \<Rightarrow> f r app w)"

definition ret :: "'r \<Rightarrow> ('r, 'w) cmd" where "ret r app w = (Inr r, app, w)"
definition fail_with :: "ctap_status \<Rightarrow> ('r, 'w) cmd" where "fail_with status app w = (Inl status, app, w)"
definition fail_if :: "bool \<Rightarrow> ctap_status \<Rightarrow> (unit, 'w) cmd" where
  "fail_if c status = (if c then fail_with status else ret ())"
definition reading :: "(CtapApp \<Rightarrow> 'r) \<Rightarrow> ('r, 'w) cmd" where "reading f app w = (Inr (f app), app, w)"
definition updating :: "(CtapApp \<Rightarrow> CtapApp) \<Rightarrow> (unit, 'w) cmd" where
  "updating f app w = (Inr (), f app, w)"

text \<open>A call that returns a status; a call on the world alone; a label \<open>cleanup\<close>.\<close>

definition status_of :: "(CtapApp \<Rightarrow> 'w \<Rightarrow> ctap_status \<times> CtapApp \<times> 'w) \<Rightarrow> (unit, 'w) cmd" where
  "status_of f app w =
    (case f app w of (status, app, w) \<Rightarrow> (if status = ZF_CTAP_SUCCESS then Inr () else Inl status, app, w))"

text \<open>\<open>status = f(...); goto cleanup;\<close> for a call that never returns \<open>ZF_CTAP_SUCCESS\<close>.\<close>

definition leave_with :: "(CtapApp \<Rightarrow> 'w \<Rightarrow> ctap_status \<times> CtapApp \<times> 'w) \<Rightarrow> ('r, 'w) cmd" where
  "leave_with f app w = (case f app w of (status, app, w) \<Rightarrow> (Inl status, app, w))"

definition on_world :: "(CtapApp \<Rightarrow> 'w \<Rightarrow> 'r \<times> 'w) \<Rightarrow> ('r, 'w) cmd" where
  "on_world f app w = (case f app w of (r, w) \<Rightarrow> (Inr r, app, w))"

definition cleanup :: "(CtapApp \<Rightarrow> CtapApp) \<Rightarrow> ('r, 'w) cmd \<Rightarrow> ('r, 'w) cmd" where
  "cleanup f m app w = (case m app w of (r, app, w) \<Rightarrow> (r, f app, w))"

section \<open>The command scratch and the maintenance gate\<close>

definition zf_app_command_scratch_acquire ::
  "('w \<Rightarrow> bool) \<Rightarrow> CtapApp \<Rightarrow> 'w \<Rightarrow> bool \<times> CtapApp" where
  "zf_app_command_scratch_acquire malloc_ok app w =
    (if app_command_scratch_in_use app \<or> \<not> malloc_ok w then (False, app)
     else (True, app\<lparr>app_command_scratch_in_use := True\<rparr>))"

definition zf_app_command_scratch_release :: "CtapApp \<Rightarrow> CtapApp" where
  "zf_app_command_scratch_release app = app\<lparr>app_command_scratch_in_use := False\<rparr>"

definition zf_ctap_command_scratch :: "('w \<Rightarrow> bool) \<Rightarrow> CtapApp \<Rightarrow> 'w \<Rightarrow> bool \<times> CtapApp" where
  "zf_ctap_command_scratch malloc_ok app w = zf_app_command_scratch_acquire malloc_ok app w"

definition zf_ctap_begin_maintenance :: "CtapApp \<Rightarrow> bool \<times> CtapApp" where
  "zf_ctap_begin_maintenance app =
    (if app_maintenance_busy app then (False, app) else (True, app\<lparr>app_maintenance_busy := True\<rparr>))"

definition zf_ctap_end_maintenance :: "CtapApp \<Rightarrow> CtapApp" where
  "zf_ctap_end_maintenance app = app\<lparr>app_maintenance_busy := False\<rparr>"

text \<open>Acquire, run to the label \<open>cleanup\<close>, release.\<close>

definition with_scratch :: "'w ctap_env \<Rightarrow> ('r, 'w) cmd \<Rightarrow> ('r, 'w) cmd" where
  "with_scratch env m app w =
    (case zf_ctap_command_scratch (ce_malloc env) app w of
       (False, app) \<Rightarrow> (Inl ZF_CTAP_ERR_OTHER, app, w)
     | (True, app) \<Rightarrow> cleanup zf_app_command_scratch_release m app w)"

definition with_maintenance :: "('r, 'w) cmd \<Rightarrow> ('r, 'w) cmd" where
  "with_maintenance m app w =
    (case zf_ctap_begin_maintenance app of
       (False, app) \<Rightarrow> (Inl ZF_CTAP_ERR_NOT_ALLOWED, app, w)
     | (True, app) \<Rightarrow> cleanup zf_ctap_end_maintenance m app w)"

definition zf_ctap_require_pin_auth_with_state ::
  "'w ctap_env \<Rightarrow> bool \<Rightarrow> bool \<Rightarrow> bytes \<Rightarrow> bytes \<Rightarrow> bool \<Rightarrow> u64 \<Rightarrow> bytes \<Rightarrow> u64 \<Rightarrow>
    (ZfClientPinState \<times> bool, 'w) cmd" where
  "zf_ctap_require_pin_auth_with_state env uv_requested has_pin_auth client_data_hash pin_auth
      has_pin_protocol pin_protocol rp_id required_permissions =
    with_maintenance (\<lambda>app w.
      (case zerofido_pin_require_auth (ce_hal env) (app_pin_state app) uv_requested has_pin_auth
          client_data_hash pin_auth has_pin_protocol pin_protocol rp_id required_permissions w of
         (status, uv_verified, pin_state, w) \<Rightarrow>
           (if status = ZF_CTAP_SUCCESS then Inr (pin_state, uv_verified) else Inl status,
            app\<lparr>app_pin_state := pin_state\<rparr>, w)))"

definition zf_ctap_dispatch_require_idle :: "CtapApp \<Rightarrow> ctap_status" where
  "zf_ctap_dispatch_require_idle app =
    (if app_maintenance_busy app then ZF_CTAP_ERR_NOT_ALLOWED else ZF_CTAP_SUCCESS)"

section \<open>Policy\<close>

definition zf_ctap_request_uses_allow_list :: "ZfGetAssertionRequest \<Rightarrow> bool" where
  "zf_ctap_request_uses_allow_list request \<longleftrightarrow> length (dl_entries (ga_allow_list request)) > 0"

definition zf_ctap_validate_pin_auth_protocol :: "bool \<Rightarrow> bool \<Rightarrow> u64 \<Rightarrow> bool \<Rightarrow> ctap_status" where
  "zf_ctap_validate_pin_auth_protocol has_pin_auth has_pin_protocol pin_protocol allow_protocol2 =
    (if \<not> has_pin_auth then ZF_CTAP_SUCCESS
     else if \<not> has_pin_protocol then ZF_CTAP_ERR_MISSING_PARAMETER
     else if pin_protocol \<noteq> ZF_PIN_PROTOCOL_V1 \<and> (pin_protocol \<noteq> ZF_PIN_PROTOCOL_V2 \<or> \<not> allow_protocol2)
     then ZF_CTAP_ERR_INVALID_PARAMETER else ZF_CTAP_SUCCESS)"

definition zf_ctap_effective_uv_requested :: "bool \<Rightarrow> bool \<Rightarrow> bool \<Rightarrow> bool" where
  "zf_ctap_effective_uv_requested has_pin_auth has_uv uv \<longleftrightarrow> \<not> has_pin_auth \<and> has_uv \<and> uv"

definition zf_ctap_require_empty_payload :: "nat \<Rightarrow> ctap_status" where
  "zf_ctap_require_empty_payload request_len =
    (if request_len = 1 then ZF_CTAP_SUCCESS else ZF_CTAP_ERR_INVALID_LENGTH)"

definition zf_ctap_local_maintenance_busy :: "CtapApp \<Rightarrow> bool" where
  "zf_ctap_local_maintenance_busy app = app_maintenance_busy app"

definition zf_ctap_store_entry_matches_descriptor_list ::
  "ZfCredentialDescriptorList \<Rightarrow> ZfCredentialIndexEntry \<Rightarrow> bool" where
  "zf_ctap_store_entry_matches_descriptor_list list entry =
    zf_ctap_descriptor_list_contains_id list (ie_credential_id entry)"

text \<open>The loop over the matches of the exclude list.\<close>

fun visible_match ::
  "'w hal \<Rightarrow> ZfCredentialStore \<Rightarrow> bytes \<Rightarrow> bool \<Rightarrow> bytes \<Rightarrow> nat list \<Rightarrow> 'w \<Rightarrow> bool \<times> 'w" where
  "visible_match hal store rp_id uv_verified buffer [] w = (False, w)"
| "visible_match hal store rp_id uv_verified buffer (i # rest) w =
    (let entry = the (cs_records store) ! i in
     if \<not> uv_verified \<and> ie_cred_protect entry = ZF_CRED_PROTECT_UV_REQUIRED
     then visible_match hal store rp_id uv_verified buffer rest w
     else case zf_store_load_record_with_buffer hal entry buffer w of
         (Some record, w) \<Rightarrow>
           if cr_rp_id record \<noteq> rp_id then visible_match hal store rp_id uv_verified buffer rest w
           else (True, w)
       | (None, w) \<Rightarrow> (True, w))"

definition zf_ctap_exclude_list_has_visible_match ::
  "'w hal \<Rightarrow> ZfCredentialStore \<Rightarrow> bytes \<Rightarrow> ZfCredentialDescriptorList \<Rightarrow> bool \<Rightarrow> bytes \<Rightarrow> 'w \<Rightarrow>
    bool \<times> 'w" where
  "zf_ctap_exclude_list_has_visible_match hal store rp_id exclude_list uv_verified buffer w =
    (if cs_records store = None \<or> length (dl_entries exclude_list) = 0 \<or>
        length buffer < ZF_STORE_RECORD_IO_SIZE then (False, w)
     else visible_match hal store rp_id uv_verified buffer
       (zf_store_find_by_rp_filtered store rp_id
         (Some (zf_ctap_store_entry_matches_descriptor_list exclude_list)) ZF_MAX_CREDENTIALS) w)"

definition zf_ctap_credential_is_allowed_by_cred_protect ::
  "ZfGetAssertionRequest \<Rightarrow> ZfCredentialIndexEntry \<Rightarrow> bool \<Rightarrow> bool" where
  "zf_ctap_credential_is_allowed_by_cred_protect request record uv_verified =
    zf_ctap_cred_protect_allows_assertion (ie_cred_protect record) uv_verified
      (zf_ctap_request_uses_allow_list request)"

definition zf_ctap_resolve_assertion_matches ::
  "ZfCredentialStore \<Rightarrow> ZfGetAssertionRequest \<Rightarrow> bool \<Rightarrow> nat list" where
  "zf_ctap_resolve_assertion_matches store request uv_verified =
    (let rp_id = ar_rp_id (ga_assertion request);
         resolved = (if zf_ctap_request_uses_allow_list request
           then zf_store_find_by_rp_filtered store rp_id
             (Some (zf_ctap_store_entry_matches_descriptor_list (ga_allow_list request))) ZF_MAX_CREDENTIALS
           else zf_store_find_by_rp store rp_id ZF_MAX_CREDENTIALS)
     in filter (\<lambda>i. zf_ctap_credential_is_allowed_by_cred_protect request (the (cs_records store) ! i)
          uv_verified) resolved)"

section \<open>Credential keys\<close>

definition zf_unwrap_private_key :: "'w hal \<Rightarrow> ZfCredentialRecord \<Rightarrow> 'w \<Rightarrow> bytes option \<times> 'w" where
  "zf_unwrap_private_key hal record w = enclave_decrypt hal (cr_private_iv record) (cr_private_wrapped record) w"

definition zf_crypto_sign_hash ::
  "'w hal \<Rightarrow> ZfCredentialRecord \<Rightarrow> bytes \<Rightarrow> nat \<Rightarrow> 'w \<Rightarrow> bytes option \<times> 'w" where
  "zf_crypto_sign_hash hal record hash out_capacity w =
    (case zf_unwrap_private_key hal record w of
       (None, w) \<Rightarrow> (None, w)
     | (Some private_key, w) \<Rightarrow> zf_crypto_sign_hash_with_private_key hal private_key hash out_capacity w)"

definition zf_crypto_generate_credential_keypair ::
  "'w hal \<Rightarrow> ZfCredentialRecord \<Rightarrow> 'w \<Rightarrow> ZfCredentialRecord option \<times> 'w" where
  "zf_crypto_generate_credential_keypair hal record w =
    (case zf_p256_generate_keypair hal w of
       (None, w) \<Rightarrow> (None, w)
     | (Some (private_key, public_x, public_y), w) \<Rightarrow>
        (case random_fill hal ZF_WRAP_IV_LEN w of (iv, w) \<Rightarrow>
          (case enclave_encrypt hal iv private_key w of
             (None, w) \<Rightarrow> (None, w)
           | (Some wrapped, w) \<Rightarrow>
              (Some (record\<lparr>cr_public_x := public_x, cr_public_y := public_y, cr_private_iv := iv,
                 cr_private_wrapped := wrapped\<rparr>), w))))"

end
