(* ===== verification/Ctap_Response.thy ===== *)
theory Ctap_Response
  imports Ctap_Core
begin

text \<open>
  \<^verbatim>\<open>ctap/response.c\<close>, \<^verbatim>\<open>zerofido_attestation.c\<close> and the outputs of \<^verbatim>\<open>ctap/extensions/\<close>: authenticator
  data, the responses of getInfo, makeCredential and getAssertion, the hmac-secret output. A buffer with
  its length is the list of the used bytes, a failed builder returns the status.
\<close>

section \<open>The attestation of this authenticator\<close>

definition ZF_AAGUID_LEN :: nat where "ZF_AAGUID_LEN = 16"
definition ZF_FIRMWARE_VERSION :: u64 where "ZF_FIRMWARE_VERSION = 700"

definition zf_attestation_aaguid :: bytes where
  "zf_attestation_aaguid = [0xb5, 0x1a, 0x97, 0x6a, 0x0b, 0x02, 0x40, 0xaa, 0x9d, 0x8a, 0x36, 0xc8,
    0xb9, 0x1b, 0xbd, 0x1a]"

definition zf_attestation_local_subject :: bytes where
  "zf_attestation_local_subject =
    [0x30, 0x72, 0x31, 0x0B, 0x30, 0x09, 0x06, 0x03, 0x55, 0x04, 0x06, 0x13, 0x02] @ ascii ''BG'' @
    [0x31, 0x11, 0x30, 0x0F, 0x06, 0x03, 0x55, 0x04, 0x0A, 0x0C, 0x08] @ ascii ''ZeroFIDO'' @
    [0x31, 0x22, 0x30, 0x20, 0x06, 0x03, 0x55, 0x04, 0x0B, 0x0C, 0x19] @ ascii ''Authenticator Attestation'' @
    [0x31, 0x2C, 0x30, 0x2A, 0x06, 0x03, 0x55, 0x04, 0x03, 0x0C, 0x23] @
    ascii ''ZeroFIDO Local Software Attestation''"

definition zf_attestation_local_extensions :: bytes where
  "zf_attestation_local_extensions =
    [0x30, 0x41, 0x30, 0x0C, 0x06, 0x03, 0x55, 0x1D, 0x13, 0x01, 0x01, 0xFF, 0x04, 0x02,
     0x30, 0x00, 0x30, 0x0E, 0x06, 0x03, 0x55, 0x1D, 0x0F, 0x01, 0x01, 0xFF, 0x04, 0x04,
     0x03, 0x02, 0x07, 0x80, 0x30, 0x21, 0x06, 0x0B, 0x2B, 0x06, 0x01, 0x04, 0x01, 0x82,
     0xE5, 0x1C, 0x01, 0x01, 0x04, 0x04, 0x12, 0x04, 0x10, 0xb5, 0x1a, 0x97, 0x6a, 0x0b,
     0x02, 0x40, 0xaa, 0x9d, 0x8a, 0x36, 0xc8, 0xb9, 0x1b, 0xbd, 0x1a]"

definition zf_attestation_local_profile :: ZfLocalAttestationProfile where
  "zf_attestation_local_profile =
    \<lparr>pf_data_dir = ZF_APP_DATA_DIR @ ''/fido2'', pf_assets_dir = ZF_APP_DATA_DIR @ ''/fido2/attestation'',
     pf_cert_file = ZF_APP_DATA_DIR @ ''/fido2/attestation/cert.der'',
     pf_cert_temp_file = ZF_APP_DATA_DIR @ ''/fido2/attestation/cert.der.tmp'',
     pf_key_file = ZF_APP_DATA_DIR @ ''/fido2/attestation/cert_key.fido2'',
     pf_key_temp_file = ZF_APP_DATA_DIR @ ''/fido2/attestation/cert_key.fido2.tmp'',
     pf_key_file_type = ''ZeroFIDO FIDO2 Attestation Key File'',
     pf_subject_der = zf_attestation_local_subject, pf_extensions_der = zf_attestation_local_extensions,
     pf_identity = zf_attestation_aaguid\<rparr>"

definition zf_attestation_get_aaguid :: bytes where "zf_attestation_get_aaguid = zf_attestation_aaguid"

definition zf_attestation_get_leaf_cert_der_len ::
  "'w hal \<Rightarrow> ZfAttestationCache \<Rightarrow> 'w \<Rightarrow> nat option \<times> ZfAttestationCache \<times> 'w" where
  "zf_attestation_get_leaf_cert_der_len hal cache w =
    (if at_leaf_cert_len cache > 0 then (Some (at_leaf_cert_len cache), cache, w)
     else case zf_local_attestation_get_cert_size hal zf_attestation_local_profile w of
         (None, w) \<Rightarrow> (None, cache, w)
       | (Some cert_len, w) \<Rightarrow>
          if cert_len = 0 \<or> cert_len > ZF_ATTESTATION_CERT_MAX_SIZE then (None, cache, w)
          else (Some cert_len, cache\<lparr>at_leaf_cert_len := cert_len\<rparr>, w))"

definition zf_attestation_ensure_ready ::
  "'w hal \<Rightarrow> ZfAttestationCache \<Rightarrow> 'w \<Rightarrow> bool \<times> ZfAttestationCache \<times> 'w" where
  "zf_attestation_ensure_ready hal cache w =
    (if at_consistency cache > 0 then (True, cache, w)
     else case zf_local_attestation_ensure_assets hal zf_attestation_local_profile w of
         (False, w) \<Rightarrow> (False, cache, w)
       | (True, w) \<Rightarrow>
          (case zf_attestation_get_leaf_cert_der_len hal cache w of
             (None, cache, w) \<Rightarrow> (False, cache, w)
           | (Some _, cache, w) \<Rightarrow> (True, cache\<lparr>at_consistency := 1\<rparr>, w)))"

definition zf_attestation_load_leaf_cert_der :: "'w hal \<Rightarrow> nat \<Rightarrow> 'w \<Rightarrow> bytes option \<times> 'w" where
  "zf_attestation_load_leaf_cert_der hal out_capacity w =
    zf_local_attestation_load_cert hal zf_attestation_local_profile out_capacity w"

definition zf_attestation_sign_parts ::
  "'w hal \<Rightarrow> bytes \<Rightarrow> bytes \<Rightarrow> nat \<Rightarrow> 'w \<Rightarrow> bytes option \<times> 'w" where
  "zf_attestation_sign_parts hal first second out_capacity w =
    (if length first + length second = 0 then (None, w)
     else case zf_local_attestation_load_private_key hal zf_attestation_local_profile w of
         (None, w) \<Rightarrow> (None, w)
       | (Some private_key, w) \<Rightarrow>
          zf_crypto_sign_hash_with_private_key hal private_key (zf_crypto_sha256_concat first second)
            out_capacity w)"

definition zf_attestation_sign_input :: "'w hal \<Rightarrow> bytes \<Rightarrow> nat \<Rightarrow> 'w \<Rightarrow> bytes option \<times> 'w" where
  "zf_attestation_sign_input hal input out_capacity w =
    (if length input = 0 then (None, w)
     else case zf_local_attestation_load_private_key hal zf_attestation_local_profile w of
         (None, w) \<Rightarrow> (None, w)
       | (Some private_key, w) \<Rightarrow>
          zf_crypto_sign_hash_with_private_key hal private_key (zf_crypto_sha256 input) out_capacity w)"

definition zf_attestation_validate_consistency :: "ZfAttestationCache \<Rightarrow> bool \<times> ZfAttestationCache" where
  "zf_attestation_validate_consistency cache =
    (if at_consistency cache \<ge> 0 then (at_consistency cache \<noteq> 0, cache)
     else let valid = (length zf_attestation_aaguid = ZF_AAGUID_LEN)
          in (valid, cache\<lparr>at_consistency := (if valid then 1 else 0)\<rparr>))"

definition zf_attestation_reset_consistency_cache :: ZfAttestationCache where
  "zf_attestation_reset_consistency_cache = \<lparr>at_consistency = -1, at_leaf_cert_len = 0\<rparr>"

section \<open>Extensions\<close>

definition zf_ctap_cred_protect_encode_make_credential_output ::
  "zf_cbor_encoder \<Rightarrow> byte \<Rightarrow> bool \<times> zf_cbor_encoder" where
  "zf_ctap_cred_protect_encode_make_credential_output enc cred_protect =
    and_then (zf_cbor_encode_text enc (ascii ''credProtect'')) (\<lambda>enc.
    zf_cbor_encode_uint enc (ucast (zf_ctap_cred_protect_effective cred_protect)))"

definition zf_ctap_hmac_secret_encode_make_credential_output ::
  "zf_cbor_encoder \<Rightarrow> bool \<Rightarrow> bool \<times> zf_cbor_encoder" where
  "zf_ctap_hmac_secret_encode_make_credential_output enc created =
    and_then (zf_cbor_encode_text enc (ascii ''hmac-secret'')) (\<lambda>enc. zf_cbor_encode_bool enc created)"

definition ZF_HMAC_SECRET_OUTPUT_MAX_LEN :: nat where "ZF_HMAC_SECRET_OUTPUT_MAX_LEN = 80"

text \<open>
  No extension is the empty list. \<open>buffer\<close> is the array \<open>extension_data\<close> of the response scratch. The
  decrypted salts are checked to be 32 or 64 bytes long after \<open>zf_pin_protocol_decrypt\<close> has written them.
\<close>

definition zf_ctap_hmac_secret_build_extension ::
  "'w hal \<Rightarrow> ZfClientPinState \<Rightarrow> ZfAssertionRequestData \<Rightarrow> ZfCredentialRecord \<Rightarrow> bool \<Rightarrow> bytes \<Rightarrow> nat \<Rightarrow> 'w \<Rightarrow>
    bytes ctap_result \<times> 'w" where
  "zf_ctap_hmac_secret_build_extension hal pin_state request record user_verified buffer out_capacity w =
    (if \<not> ar_has_hmac_secret request \<or> \<not> cr_hmac_secret record then (Inr [], w)
     else if \<not> zf_pin_protocol_supported (ar_hmac_secret_pin_protocol request)
     then (Inl ZF_CTAP_ERR_INVALID_PARAMETER, w)
     else case zf_pin_protocol_derive_keys hal pin_state (ar_hmac_secret_pin_protocol request)
         (ar_hmac_secret_platform_x request) (ar_hmac_secret_platform_y request) w of
       (None, w) \<Rightarrow> (Inl ZF_CTAP_ERR_INVALID_PARAMETER, w)
     | (Some keys, w) \<Rightarrow>
       if \<not> zf_pin_protocol_hmac_matches (ar_hmac_secret_pin_protocol request) (fst keys)
           (ar_hmac_secret_salt_enc request) [] (ar_hmac_secret_salt_auth request)
       then (Inl ZF_CTAP_ERR_PIN_AUTH_INVALID, w)
       else case zf_pin_protocol_decrypt hal (ar_hmac_secret_pin_protocol request) keys
           (ar_hmac_secret_salt_enc request) w of
         (None, w) \<Rightarrow> (Inl ZF_CTAP_ERR_INVALID_PARAMETER, w)
       | (Some salt, w) \<Rightarrow>
         if length salt \<noteq> 32 \<and> length salt \<noteq> 64 then (Inl ZF_CTAP_ERR_INVALID_PARAMETER, w)
         else
           let cred_random = (if user_verified then cr_hmac_secret_with_uv record
                              else cr_hmac_secret_without_uv record);
               output = zf_hmac_sha256_parts cred_random (take 32 salt) [] @
                 (if length salt = 64 then zf_hmac_sha256_parts cred_random (drop 32 salt) [] else [])
           in case zf_pin_protocol_encrypt hal (ar_hmac_secret_pin_protocol request) keys output
                ZF_HMAC_SECRET_OUTPUT_MAX_LEN w of
             (None, w) \<Rightarrow> (Inl ZF_CTAP_ERR_OTHER, w)
           | (Some output_enc, w) \<Rightarrow>
               (run_encoder buffer out_capacity (\<lambda>enc.
                  and_then (zf_cbor_encode_map enc 1) (\<lambda>enc.
                  and_then (zf_cbor_encode_text enc (ascii ''hmac-secret'')) (\<lambda>enc.
                  zf_cbor_encode_bytes enc output_enc))), w))"

section \<open>Encoder chains\<close>

text \<open>A chain of encoder calls joined by \<open>&&\<close>, and a call that is skipped unless a condition holds.\<close>

fun encode_all :: "(zf_cbor_encoder \<Rightarrow> bool \<times> zf_cbor_encoder) list \<Rightarrow> zf_cbor_encoder \<Rightarrow> bool \<times> zf_cbor_encoder" where
  "encode_all [] enc = (True, enc)"
| "encode_all (f # fs) enc = and_then (f enc) (encode_all fs)"

definition when_set :: "bool \<Rightarrow> (zf_cbor_encoder \<Rightarrow> bool \<times> zf_cbor_encoder) list \<Rightarrow>
    (zf_cbor_encoder \<Rightarrow> bool \<times> zf_cbor_encoder) list" where
  "when_set c fs = (if c then fs else [])"

definition e_uint :: "u64 \<Rightarrow> zf_cbor_encoder \<Rightarrow> bool \<times> zf_cbor_encoder" where
  "e_uint v enc = zf_cbor_encode_uint enc v"
definition e_int :: "int \<Rightarrow> zf_cbor_encoder \<Rightarrow> bool \<times> zf_cbor_encoder" where
  "e_int v enc = zf_cbor_encode_int enc v"
definition e_bool :: "bool \<Rightarrow> zf_cbor_encoder \<Rightarrow> bool \<times> zf_cbor_encoder" where
  "e_bool v enc = zf_cbor_encode_bool enc v"
definition e_bytes :: "bytes \<Rightarrow> zf_cbor_encoder \<Rightarrow> bool \<times> zf_cbor_encoder" where
  "e_bytes d enc = zf_cbor_encode_bytes enc d"
definition e_str :: "bytes \<Rightarrow> zf_cbor_encoder \<Rightarrow> bool \<times> zf_cbor_encoder" where
  "e_str t enc = zf_cbor_encode_text enc t"
definition e_text :: "string \<Rightarrow> zf_cbor_encoder \<Rightarrow> bool \<times> zf_cbor_encoder" where
  "e_text t enc = zf_cbor_encode_text enc (ascii t)"
definition e_map :: "nat \<Rightarrow> zf_cbor_encoder \<Rightarrow> bool \<times> zf_cbor_encoder" where
  "e_map n enc = zf_cbor_encode_map enc n"
definition e_array :: "nat \<Rightarrow> zf_cbor_encoder \<Rightarrow> bool \<times> zf_cbor_encoder" where
  "e_array n enc = zf_cbor_encode_array enc n"

section \<open>Authenticator data\<close>

definition zf_write_be16 :: "u16 \<Rightarrow> bytes" where
  "zf_write_be16 v = [ucast (drop_bit 8 v), ucast v]"
definition zf_write_be32 :: "u32 \<Rightarrow> bytes" where
  "zf_write_be32 v = [ucast (drop_bit 24 v), ucast (drop_bit 16 v), ucast (drop_bit 8 v), ucast v]"

definition zf_encode_cose_key :: "ZfCredentialRecord \<Rightarrow> bytes \<Rightarrow> nat \<Rightarrow> bytes ctap_result" where
  "zf_encode_cose_key record out out_capacity =
    run_encoder out out_capacity
      (\<lambda>enc. zf_cbor_encode_p256_cose_key enc (- 7) (cr_public_x record) (cr_public_y record))"

definition zf_encode_make_credential_extensions ::
  "byte \<Rightarrow> bool \<Rightarrow> bool \<Rightarrow> bool \<Rightarrow> bytes \<Rightarrow> nat \<Rightarrow> bytes ctap_result" where
  "zf_encode_make_credential_extensions cred_protect include_cred_protect include_hmac_secret
      hmac_secret_created out out_capacity =
    run_encoder out out_capacity (encode_all
      ([e_map ((if include_cred_protect then 1 else 0) + (if include_hmac_secret then 1 else 0))] @
       when_set include_cred_protect
         [\<lambda>enc. zf_ctap_cred_protect_encode_make_credential_output enc cred_protect] @
       when_set include_hmac_secret
         [\<lambda>enc. zf_ctap_hmac_secret_encode_make_credential_output enc hmac_secret_created]))"

text \<open>The empty result stands for the returned length zero.\<close>

definition zf_build_auth_data ::
  "bytes \<Rightarrow> bool \<Rightarrow> bool \<Rightarrow> bool \<Rightarrow> bool \<Rightarrow> ZfCredentialRecord option \<Rightarrow> u32 \<Rightarrow> bytes \<Rightarrow> bytes \<Rightarrow> nat \<Rightarrow> bytes" where
  "zf_build_auth_data rp_id user_present user_verified include_attested_data include_extension_data
      record sign_count extension_data cose out_capacity =
    (let flags = (if user_present then 0x01 else 0x00) OR (if user_verified then 0x04 else 0x00) OR
                 (if include_attested_data then 0x40 else 0x00) OR
                 (if include_extension_data then 0x80 else 0x00);
         start = zf_crypto_sha256 rp_id @ [flags] @ zf_write_be32 sign_count;
         attested = (case record of None \<Rightarrow> []
           | Some r \<Rightarrow> zf_attestation_get_aaguid @ zf_write_be16 (word_of_nat (length (cr_credential_id r))) @
               cr_credential_id r @ cose)
     in if out_capacity < 37 then []
        else if include_attested_data \<and> (record = None \<or> cose = [] \<or>
                  length start + length attested > out_capacity) then []
        else let part = start @ (if include_attested_data then attested else [])
          in if \<not> include_extension_data then part
             else if length part + length extension_data > out_capacity then []
             else part @ extension_data)"

definition zf_make_credential_auth_data_size :: "ZfCredentialRecord \<Rightarrow> nat \<Rightarrow> nat \<Rightarrow> nat option" where
  "zf_make_credential_auth_data_size record cose_len extension_data_len =
    (if length (cr_credential_id record) > 0xFFFF \<or> cose_len = 0 then None
     else Some (37 + ZF_AAGUID_LEN + 2 + length (cr_credential_id record) + cose_len + extension_data_len))"

section \<open>getInfo\<close>

definition zf_ctap_build_get_info_response ::
  "zf_build \<Rightarrow> ZfResolvedCapabilities \<Rightarrow> bool \<Rightarrow> bytes \<Rightarrow> nat \<Rightarrow> bytes ctap_result" where
  "zf_ctap_build_get_info_response b capabilities client_pin_set out out_capacity =
    (let f21 = advertise_fido_2_1 capabilities;
         transports = (if ZF_NFC_ONLY b then True else if ZF_USB_ONLY b then f21
                       else f21 \<or> advertise_nfc_transport capabilities);
         count = (\<lambda>c. if c then 1 else 0 :: nat);
         pairs = 6 + count transports + count f21 + 2 * count f21;
         versions_count = 1 + count f21 + count (advertise_u2f_v2 capabilities);
         options_count = 4 + count (pin_uv_auth_token_enabled capabilities) +
           count (make_cred_uv_not_required capabilities);
         transports_count = count (advertise_usb_transport capabilities) +
           count (advertise_nfc_transport capabilities)
     in case zf_cbor_encoder_init out out_capacity of
          None \<Rightarrow> Inl ZF_CTAP_ERR_OTHER
        | Some enc \<Rightarrow>
          (case encode_all (
              [e_map pairs, e_uint 1, e_array versions_count] @ when_set f21 [e_text ''FIDO_2_1''] @
              [e_text ''FIDO_2_0''] @ when_set (advertise_u2f_v2 capabilities) [e_text ''U2F_V2''] @
              [e_uint 2, e_array 2, e_text ''credProtect'', e_text ''hmac-secret'',
               e_uint 3, e_bytes zf_attestation_get_aaguid,
               e_uint 4, e_map options_count, e_text ''rk'', e_bool True, e_text ''up'', e_bool True,
               e_text ''plat'', e_bool False, e_text ''clientPin'', e_bool client_pin_set] @
              when_set (pin_uv_auth_token_enabled capabilities) [e_text ''pinUvAuthToken'', e_bool True] @
              when_set (make_cred_uv_not_required capabilities) [e_text ''makeCredUvNotRqd'', e_bool True] @
              [e_uint 5, e_uint (word_of_nat ZF_MAX_MSG_SIZE), e_uint 6,
               e_array (if pin_uv_auth_protocol_2_enabled capabilities then 2 else 1)] @
              when_set (pin_uv_auth_protocol_2_enabled capabilities) [e_uint 2] @ [e_uint 1] @
              when_set transports ([e_uint 9] @
                (if ZF_NFC_ONLY b then [e_array 1, e_text ''nfc'']
                 else if ZF_USB_ONLY b then [e_array 1, e_text ''usb'']
                 else [e_array transports_count] @
                   when_set (advertise_usb_transport capabilities) [e_text ''usb''] @
                   when_set (advertise_nfc_transport capabilities) [e_text ''nfc''])) @
              when_set f21 [e_uint 10, e_array 1, e_map 2, e_text ''alg'', e_int (- 7), e_text ''type'',
                e_text ''public-key''] @
              when_set f21 [e_uint 13, e_uint (word_of_nat ZF_MIN_PIN_LENGTH), e_uint 14,
                e_uint ZF_FIRMWARE_VERSION]) enc of
             (False, _) \<Rightarrow> Inl ZF_CTAP_ERR_INVALID_CBOR
           | (True, enc) \<Rightarrow> Inr (take (zf_cbor_encoder_size enc) (enc_buf enc))))"

section \<open>makeCredential\<close>

text \<open>
  \<open>zf_cbor_reserve_bytes\<close> followed by the builder that fills the reserved bytes and must return their
  number.
\<close>

definition e_reserved :: "nat \<Rightarrow> bytes \<Rightarrow> zf_cbor_encoder \<Rightarrow> bool \<times> zf_cbor_encoder" where
  "e_reserved n built enc =
    (case zf_cbor_reserve_bytes enc n of
       (None, enc) \<Rightarrow> (False, enc)
     | (Some at, enc) \<Rightarrow>
        if length built = n then (True, enc\<lparr>enc_buf := write_at (enc_buf enc) at built\<rparr>) else (False, enc))"

text \<open>The extension data, the COSE key and the size of the authenticator data, common to both formats.\<close>

definition make_credential_parts ::
  "ZfCredentialRecord \<Rightarrow> bool \<Rightarrow> bool \<Rightarrow> (bytes \<times> bytes \<times> nat) ctap_result" where
  "make_credential_parts record include_cred_protect include_hmac_secret =
    then_status (if include_cred_protect \<or> include_hmac_secret
        then zf_encode_make_credential_extensions (cr_cred_protect record) include_cred_protect
          include_hmac_secret (cr_hmac_secret record) (replicate 32 0) 32
        else Inr []) (\<lambda>extension_data.
    then_status (zf_encode_cose_key record (replicate 128 0) 128) (\<lambda>cose.
    case zf_make_credential_auth_data_size record (length cose) (length extension_data) of
      None \<Rightarrow> Inl ZF_CTAP_ERR_OTHER
    | Some auth_data_len \<Rightarrow> Inr (extension_data, cose, auth_data_len)))"

definition make_credential_auth_data ::
  "bytes \<Rightarrow> ZfCredentialRecord \<Rightarrow> bool \<Rightarrow> bool \<Rightarrow> bytes \<times> bytes \<times> nat \<Rightarrow> bytes" where
  "make_credential_auth_data rp_id record user_verified include_extensions parts =
    (case parts of (extension_data, cose, auth_data_len) \<Rightarrow>
      zf_build_auth_data rp_id True user_verified True include_extensions (Some record)
        (cr_sign_count record) extension_data cose auth_data_len)"

definition zf_ctap_build_none_make_credential_response_with_scratch ::
  "bytes \<Rightarrow> ZfCredentialRecord \<Rightarrow> bool \<Rightarrow> bool \<Rightarrow> bool \<Rightarrow> bytes \<Rightarrow> nat \<Rightarrow> bytes ctap_result" where
  "zf_ctap_build_none_make_credential_response_with_scratch rp_id record user_verified
      include_cred_protect include_hmac_secret out out_capacity =
    then_status (make_credential_parts record include_cred_protect include_hmac_secret) (\<lambda>parts.
    run_encoder out out_capacity (encode_all
      [e_map 3, e_uint 1, e_text ''none'', e_uint 2,
       e_reserved (snd (snd parts)) (make_credential_auth_data rp_id record user_verified
         (include_cred_protect \<or> include_hmac_secret) parts),
       e_uint 3, e_map 0]))"

text \<open>The signature and the certificate of the packed format, after the authenticator data.\<close>

definition packed_statement ::
  "'w hal \<Rightarrow> bytes \<Rightarrow> bytes \<Rightarrow> zf_cbor_encoder \<Rightarrow> ZfAttestationCache \<Rightarrow> 'w \<Rightarrow>
    bytes ctap_result \<times> ZfAttestationCache \<times> 'w" where
  "packed_statement hal auth_data client_data_hash enc cache w =
    (case zf_attestation_ensure_ready hal cache w of
       (False, cache, w) \<Rightarrow> (Inl ZF_CTAP_ERR_OTHER, cache, w)
     | (True, cache, w) \<Rightarrow>
       (case zf_attestation_get_leaf_cert_der_len hal cache w of
          (None, cache, w) \<Rightarrow> (Inl ZF_CTAP_ERR_OTHER, cache, w)
        | (Some cert_len, cache, w) \<Rightarrow>
          (case zf_attestation_sign_parts hal auth_data client_data_hash 80 w of
             (None, w) \<Rightarrow> (Inl ZF_CTAP_ERR_OTHER, cache, w)
           | (Some signature, w) \<Rightarrow>
             (case encode_all [e_uint 3, e_map 3, e_text ''alg'', e_int (- 7), e_text ''sig'',
                  e_bytes signature, e_text ''x5c'', e_array 1] enc of
                (False, _) \<Rightarrow> (Inl ZF_CTAP_ERR_OTHER, cache, w)
              | (True, enc) \<Rightarrow>
                (case zf_cbor_reserve_bytes enc cert_len of
                   (None, _) \<Rightarrow> (Inl ZF_CTAP_ERR_OTHER, cache, w)
                 | (Some at, enc) \<Rightarrow>
                   (case zf_attestation_load_leaf_cert_der hal cert_len w of
                      (None, w) \<Rightarrow> (Inl ZF_CTAP_ERR_OTHER, cache, w)
                    | (Some cert, w) \<Rightarrow>
                      (if length cert = cert_len
                       then Inr (take (zf_cbor_encoder_size enc) (write_at (enc_buf enc) at cert))
                       else Inl ZF_CTAP_ERR_OTHER, cache, w)))))))"

definition zf_ctap_build_packed_make_credential_response_with_scratch ::
  "'w hal \<Rightarrow> bytes \<Rightarrow> ZfCredentialRecord \<Rightarrow> bytes \<Rightarrow> bool \<Rightarrow> bool \<Rightarrow> bool \<Rightarrow> bytes \<Rightarrow> nat \<Rightarrow>
    ZfAttestationCache \<Rightarrow> 'w \<Rightarrow> bytes ctap_result \<times> ZfAttestationCache \<times> 'w" where
  "zf_ctap_build_packed_make_credential_response_with_scratch hal rp_id record client_data_hash user_verified
      include_cred_protect include_hmac_secret out out_capacity cache w =
    (case make_credential_parts record include_cred_protect include_hmac_secret of
       Inl status \<Rightarrow> (Inl status, cache, w)
     | Inr parts \<Rightarrow>
       (let auth_data = make_credential_auth_data rp_id record user_verified
              (include_cred_protect \<or> include_hmac_secret) parts
        in case zf_cbor_encoder_init out out_capacity of
             None \<Rightarrow> (Inl ZF_CTAP_ERR_OTHER, cache, w)
           | Some enc \<Rightarrow>
             (case encode_all [e_map 3, e_uint 1, e_text ''packed'', e_uint 2,
                  e_reserved (snd (snd parts)) auth_data] enc of
                (False, _) \<Rightarrow> (Inl ZF_CTAP_ERR_OTHER, cache, w)
              | (True, enc) \<Rightarrow> packed_statement hal auth_data client_data_hash enc cache w)))"

section \<open>getAssertion\<close>

text \<open>
  The members after the user identifier. The number of credentials is encoded whether or not the names
  before it fitted, and its result replaces theirs.
\<close>

definition assertion_tail ::
  "ZfCredentialRecord \<Rightarrow> bool \<Rightarrow> bool \<Rightarrow> bool \<Rightarrow> nat \<Rightarrow> bool \<Rightarrow> zf_cbor_encoder \<Rightarrow> bool \<times> zf_cbor_encoder" where
  "assertion_tail record include_user_name include_display_name include_count match_count
      emit_user_selected enc =
    (let r = encode_all (when_set include_user_name [e_text ''name'', e_str (cr_user_name record)]) enc;
         r = (if fst r \<and> include_display_name
              then encode_all [e_text ''displayName'', e_str (cr_user_display_name record)] (snd r) else r);
         r = (if include_count then encode_all [e_uint 5, e_uint (word_of_nat match_count)] (snd r) else r)
     in if fst r \<and> emit_user_selected then encode_all [e_uint 6, e_bool True] (snd r) else r)"

definition zf_ctap_build_assertion_response_with_scratch ::
  "'w hal \<Rightarrow> ZfAssertionRequestData \<Rightarrow> ZfCredentialRecord \<Rightarrow> bool \<Rightarrow> bool \<Rightarrow> u32 \<Rightarrow> bool \<Rightarrow> bool \<Rightarrow> nat \<Rightarrow> bool \<Rightarrow>
    bool \<Rightarrow> bytes \<Rightarrow> bytes \<Rightarrow> nat \<Rightarrow> 'w \<Rightarrow> bytes ctap_result \<times> 'w" where
  "zf_ctap_build_assertion_response_with_scratch hal request record user_present user_verified sign_count
      include_user_details include_count match_count include_user_selected user_selected extension_data
      out out_capacity w =
    (let auth_data = zf_build_auth_data (ar_rp_id request) user_present user_verified False
           (extension_data \<noteq> []) None sign_count extension_data [] 160
     in if auth_data = [] then (Inl ZF_CTAP_ERR_OTHER, w)
        else case zf_crypto_sign_hash hal record
            (zf_crypto_sha256_concat auth_data (ar_client_data_hash request)) 80 w of
          (None, w) \<Rightarrow> (Inl ZF_CTAP_ERR_OTHER, w)
        | (Some signature, w) \<Rightarrow>
          (let include_user_name = include_user_details \<and> cr_user_name record \<noteq> [];
               include_display_name = include_user_details \<and> cr_user_display_name record \<noteq> [];
               emit_user_selected = include_user_selected \<and> user_selected;
               count = (\<lambda>c. if c then 1 else 0 :: nat)
           in (run_encoder out out_capacity (\<lambda>enc.
                 and_then (encode_all [e_map (4 + count include_count + count emit_user_selected),
                   e_uint 1, e_map 2, e_text ''id'', e_bytes (cr_credential_id record),
                   e_text ''type'', e_text ''public-key'', e_uint 2, e_bytes auth_data,
                   e_uint 3, e_bytes signature,
                   e_uint 4, e_map (1 + count include_user_name + count include_display_name),
                   e_text ''id'', e_bytes (cr_user_id record)] enc)
                 (assertion_tail record include_user_name include_display_name include_count match_count
                   emit_user_selected)), w)))"

end
