(* ===== verification/Ctap_Assertion.thy ===== *)
theory Ctap_Assertion
  imports Ctap_Response
begin

text \<open>
  \<^verbatim>\<open>ctap/commands/get_assertion.c\<close> and \<^verbatim>\<open>ctap/core/assertion_queue.c\<close>: the assertion of one credential,
  with or without the presence of the user, and the queue of further assertions that getNextAssertion
  serves. A record is signed with the counter after its own, the range of the counter is reserved in the
  files, and only then the counter is published and the response released.
\<close>

section \<open>The queue\<close>

definition zf_get_next_sign_count :: "ZfCredentialRecord \<Rightarrow> u32 option" where
  "zf_get_next_sign_count record =
    (if cr_sign_count record = 0xFFFFFFFF then None else Some (cr_sign_count record + 1))"

definition zf_ctap_queue_entry_matches_record :: "ZfCredentialIndexEntry \<Rightarrow> ZfCredentialRecord \<Rightarrow> bool" where
  "zf_ctap_queue_entry_matches_record entry record \<longleftrightarrow> ie_in_use entry \<and> cr_in_use record \<and>
    ie_credential_id entry = cr_credential_id record"

definition zf_ctap_assertion_queue_clear :: "CtapApp \<Rightarrow> CtapApp" where
  "zf_ctap_assertion_queue_clear app = app\<lparr>app_assertion_queue := aq_cleared\<rparr>"

definition zf_ctap_assertion_queue_begin_maintenance :: "CtapApp \<Rightarrow> bool \<times> CtapApp" where
  "zf_ctap_assertion_queue_begin_maintenance app =
    (if app_maintenance_busy app then (False, app) else (True, app\<lparr>app_maintenance_busy := True\<rparr>))"

definition zf_ctap_assertion_queue_end_maintenance :: "CtapApp \<Rightarrow> CtapApp" where
  "zf_ctap_assertion_queue_end_maintenance app = app\<lparr>app_maintenance_busy := False\<rparr>"

definition zerofido_ctap_invalidate_assertion_queue :: "CtapApp \<Rightarrow> CtapApp" where
  "zerofido_ctap_invalidate_assertion_queue app = zf_ctap_assertion_queue_clear app"

definition zf_ctap_assertion_queue_seed ::
  "'w hal \<Rightarrow> u32 \<Rightarrow> ZfGetAssertionRequest \<Rightarrow> bool \<Rightarrow> nat list \<Rightarrow> CtapApp \<Rightarrow> 'w \<Rightarrow> CtapApp" where
  "zf_ctap_assertion_queue_seed hal session_id request uv_verified match_indices app w =
    (let app = zf_ctap_assertion_queue_clear app in
     if length match_indices \<le> 1 then app
     else app\<lparr>app_assertion_queue :=
       \<lparr>aq_active = True, aq_session_id = session_id, aq_uv_verified = uv_verified,
        aq_user_present = \<not> (ga_has_up request \<and> \<not> ga_up request), aq_record_indices = match_indices,
        aq_count = length match_indices, aq_index = 1,
        aq_expires_at = furi_get_tick hal w + ZF_ASSERTION_QUEUE_TIMEOUT_MS,
        aq_request = ga_assertion request\<rparr>\<rparr>)"

definition zf_ctap_assertion_queue_snapshot_entry_locked :: "CtapApp \<Rightarrow> nat \<Rightarrow> ZfCredentialIndexEntry option" where
  "zf_ctap_assertion_queue_snapshot_entry_locked app record_index =
    (let entries = cs_entries (app_store app) in
     if record_index \<ge> length entries \<or> \<not> ie_in_use (entries ! record_index) then None
     else Some (entries ! record_index))"

definition zf_ctap_assertion_queue_still_current_locked ::
  "CtapApp \<Rightarrow> u32 \<Rightarrow> nat \<Rightarrow> nat \<Rightarrow> nat \<Rightarrow> bytes \<Rightarrow> bool" where
  "zf_ctap_assertion_queue_still_current_locked app session_id queue_index record_index count rp_id \<longleftrightarrow>
    (let q = app_assertion_queue app in
     aq_active q \<and> session_id = aq_session_id q \<and> queue_index = aq_index q \<and> count = aq_count q \<and>
     queue_index < aq_count q \<and> aq_record_indices q ! queue_index = record_index \<and>
     ar_rp_id (aq_request q) = rp_id)"

definition zf_ctap_assertion_queue_clear_if_current ::
  "u32 \<Rightarrow> nat \<Rightarrow> nat \<Rightarrow> nat \<Rightarrow> bytes \<Rightarrow> CtapApp \<Rightarrow> CtapApp" where
  "zf_ctap_assertion_queue_clear_if_current session_id queue_index record_index count rp_id app =
    (if zf_ctap_assertion_queue_still_current_locked app session_id queue_index record_index count rp_id
     then zf_ctap_assertion_queue_clear app else app)"

text \<open>What the first locked section takes from the queue.\<close>

definition queue_snapshot ::
  "'w hal \<Rightarrow> u32 \<Rightarrow> (ZfAssertionQueue \<times> ZfClientPinState \<times> ZfCredentialIndexEntry, 'w) cmd" where
  "queue_snapshot hal session_id app w =
    (let q = app_assertion_queue app in
     if \<not> aq_active q \<or> sint (furi_get_tick hal w - aq_expires_at q) \<ge> 0 \<or> aq_index q \<ge> aq_count q
     then (Inl ZF_CTAP_ERR_NOT_ALLOWED, zf_ctap_assertion_queue_clear app, w)
     else if session_id \<noteq> aq_session_id q then (Inl ZF_CTAP_ERR_INVALID_CHANNEL, app, w)
     else case zf_ctap_assertion_queue_snapshot_entry_locked app (aq_record_indices q ! aq_index q) of
         None \<Rightarrow> (Inl ZF_CTAP_ERR_NOT_ALLOWED, zf_ctap_assertion_queue_clear app, w)
       | Some entry \<Rightarrow> (Inr (q, app_pin_state app, entry), app, w))"

text \<open>The last locked section: the queue and the record are still the ones of the snapshot.\<close>

definition queue_publish ::
  "'w hal \<Rightarrow> u32 \<Rightarrow> ZfAssertionQueue \<Rightarrow> ZfCredentialRecord \<Rightarrow> u32 \<Rightarrow> (unit, 'w) cmd" where
  "queue_publish hal session_id q record high_water app w =
    (let record_index = aq_record_indices q ! aq_index q;
         queue_current = zf_ctap_assertion_queue_still_current_locked app session_id (aq_index q)
           record_index (aq_count q) (ar_rp_id (aq_request q));
         record_current = queue_current \<and> record_index < length (cs_entries (app_store app)) \<and>
           zf_ctap_queue_entry_matches_record (cs_entries (app_store app) ! record_index) record
     in if \<not> record_current
        then (Inl ZF_CTAP_ERR_NOT_ALLOWED,
              if queue_current then zf_ctap_assertion_queue_clear app else app, w)
        else case zf_store_publish_counter_advance (app_store app) record high_water of
            (False, _) \<Rightarrow> (Inl ZF_CTAP_ERR_OTHER, zf_ctap_assertion_queue_clear app, w)
          | (True, store) \<Rightarrow>
             (let app = app\<lparr>app_store := store, app_assertion_queue := (app_assertion_queue app)
                    \<lparr>aq_index := aq_index q + 1,
                     aq_expires_at := furi_get_tick hal w + ZF_ASSERTION_QUEUE_TIMEOUT_MS\<rparr>\<rparr>
              in (Inr (), if aq_index q + 1 \<ge> aq_count (app_assertion_queue app)
                          then zf_ctap_assertion_queue_clear app else app, w)))"

text \<open>A failure after which the queue is cleared if it is still the one of the snapshot.\<close>

definition or_drop_queue :: "u32 \<Rightarrow> ZfAssertionQueue \<Rightarrow> ('r, 'w) cmd \<Rightarrow> ('r, 'w) cmd" where
  "or_drop_queue session_id q m app w =
    (case m app w of
       (Inr r, app, w) \<Rightarrow> (Inr r, app, w)
     | (Inl status, app, w) \<Rightarrow>
        (Inl status, zf_ctap_assertion_queue_clear_if_current session_id (aq_index q)
           (aq_record_indices q ! aq_index q) (aq_count q) (ar_rp_id (aq_request q)) app, w))"

definition some_or :: "ctap_status \<Rightarrow> ('r option, 'w) cmd \<Rightarrow> ('r, 'w) cmd" where
  "some_or status m = then_ok m (\<lambda>r. case r of None \<Rightarrow> fail_with status | Some x \<Rightarrow> ret x)"

definition queue_load ::
  "'w ctap_env \<Rightarrow> ZfAssertionQueue \<Rightarrow> ZfCredentialIndexEntry \<Rightarrow> (ZfCredentialRecord, 'w) cmd" where
  "queue_load env q entry =
    then_ok (some_or ZF_CTAP_ERR_NOT_ALLOWED (on_world (\<lambda>_.
      zf_store_load_record_with_buffer (ce_hal env) entry (ce_store_io env)))) (\<lambda>record.
    if cr_rp_id record \<noteq> ar_rp_id (aq_request q) \<or> \<not> zf_ctap_queue_entry_matches_record entry record
    then fail_with ZF_CTAP_ERR_NOT_ALLOWED else ret record)"

definition lift_result :: "('w \<Rightarrow> 'r ctap_result \<times> 'w) \<Rightarrow> ('r, 'w) cmd" where
  "lift_result f app w = (case f w of (r, w) \<Rightarrow> (r, app, w))"

definition zf_ctap_assertion_queue_handle_next :: "'w ctap_env \<Rightarrow> u32 \<Rightarrow> (bytes, 'w) cmd" where
  "zf_ctap_assertion_queue_handle_next env session_id app w =
    (case ce_poll env session_id app w of
       (status, app, w) \<Rightarrow>
        if status \<noteq> ZF_CTAP_SUCCESS then (Inl status, zf_ctap_assertion_queue_clear app, w)
        else case zf_ctap_assertion_queue_begin_maintenance app of
            (False, app) \<Rightarrow> (Inl ZF_CTAP_ERR_NOT_ALLOWED, app, w)
          | (True, app) \<Rightarrow>
            cleanup (\<lambda>app. zf_app_command_scratch_release (zf_ctap_assertion_queue_end_maintenance app))
             (\<lambda>app w. case zf_app_command_scratch_acquire (ce_malloc env) app w of
                (False, app) \<Rightarrow> (Inl ZF_CTAP_ERR_OTHER, app, w)
              | (True, app) \<Rightarrow>
                then_ok (queue_snapshot (ce_hal env) session_id) (\<lambda>(q, pin_state, entry).
                then_ok (or_drop_queue session_id q (queue_load env q entry)) (\<lambda>record.
                then_ok (or_drop_queue session_id q
                  (some_or ZF_CTAP_ERR_OTHER (ret (zf_get_next_sign_count record)))) (\<lambda>next_sign_count.
                then_ok (lift_result (zf_ctap_hmac_secret_build_extension (ce_hal env) pin_state
                    (aq_request q) record (aq_uv_verified q) (replicate 112 0) 112)) (\<lambda>extension_data.
                then_ok (lift_result (zf_ctap_build_assertion_response_with_scratch (ce_hal env)
                    (aq_request q) record (aq_user_present q) (aq_uv_verified q) next_sign_count
                    (aq_uv_verified q) False (aq_count q) False False extension_data (ce_out env)
                    (ce_out_capacity env))) (\<lambda>response.
                then_ok (or_drop_queue session_id q (status_of (ce_poll env session_id))) (\<lambda>_.
                let record = record\<lparr>cr_sign_count := next_sign_count\<rparr> in
                then_ok (or_drop_queue session_id q (some_or ZF_CTAP_ERR_OTHER (on_world (\<lambda>_.
                    zf_store_prepare_counter_advance (ce_hal env) entry record (ce_store_io env)))))
                  (\<lambda>high_water.
                then_ok (queue_publish (ce_hal env) session_id q record high_water) (\<lambda>_.
                ret response)))))))) app w) app w)"

section \<open>getAssertion\<close>

definition zf_prepare_assertion_response ::
  "'w ctap_env \<Rightarrow> ZfAssertionRequestData \<Rightarrow> ZfClientPinState \<Rightarrow> ZfCredentialRecord \<Rightarrow> bool \<Rightarrow> bool \<Rightarrow> bool \<Rightarrow>
    bool \<Rightarrow> nat \<Rightarrow> bool \<Rightarrow> bool \<Rightarrow> 'w \<Rightarrow> (u32 \<times> bytes) ctap_result \<times> 'w" where
  "zf_prepare_assertion_response env request pin_state record user_present uv_verified include_user_details
      include_count match_count user_selected include_user_selected w =
    (if cr_sign_count record = 0xFFFFFFFF then (Inl ZF_CTAP_ERR_OTHER, w)
     else let next_sign_count = cr_sign_count record + 1 in
       case zf_ctap_hmac_secret_build_extension (ce_hal env) pin_state request record uv_verified
           (replicate 112 0) 112 w of
         (Inl status, w) \<Rightarrow> (Inl status, w)
       | (Inr extension_data, w) \<Rightarrow>
         (case zf_ctap_build_assertion_response_with_scratch (ce_hal env) request record user_present
             uv_verified next_sign_count include_user_details include_count match_count
             include_user_selected user_selected extension_data (ce_out env) (ce_out_capacity env) w of
            (Inl status, w) \<Rightarrow> (Inl status, w)
          | (Inr response, w) \<Rightarrow> (Inr (next_sign_count, response), w)))"

definition zf_ctap_index_entry_matches_record :: "ZfCredentialIndexEntry \<Rightarrow> ZfCredentialRecord \<Rightarrow> bool" where
  "zf_ctap_index_entry_matches_record entry record \<longleftrightarrow> ie_in_use entry \<and> cr_in_use record \<and>
    ie_credential_id entry = cr_credential_id record"

definition zf_ctap_snapshot_index_entry_locked :: "CtapApp \<Rightarrow> nat \<Rightarrow> ZfCredentialIndexEntry option" where
  "zf_ctap_snapshot_index_entry_locked app record_index =
    (let entries = cs_entries (app_store app) in
     if record_index \<ge> length entries \<or> \<not> ie_in_use (entries ! record_index) then None
     else Some (entries ! record_index))"

definition zf_ctap_selected_record_still_current_locked :: "CtapApp \<Rightarrow> nat \<Rightarrow> ZfCredentialRecord \<Rightarrow> bool" where
  "zf_ctap_selected_record_still_current_locked app record_index record \<longleftrightarrow>
    record_index < length (cs_entries (app_store app)) \<and>
    zf_ctap_index_entry_matches_record (cs_entries (app_store app) ! record_index) record"

definition zf_ctap_resolve_assertion_matches_snapshot ::
  "CtapApp \<Rightarrow> ZfGetAssertionRequest \<Rightarrow> bool \<Rightarrow> nat list" where
  "zf_ctap_resolve_assertion_matches_snapshot app request uv_verified =
    zf_ctap_resolve_assertion_matches (app_store app) request uv_verified"

definition zf_ctap_load_assertion_record ::
  "'w ctap_env \<Rightarrow> nat \<Rightarrow> bytes \<Rightarrow> CtapApp \<Rightarrow> 'w \<Rightarrow>
    (ZfCredentialRecord \<times> ZfCredentialIndexEntry) option \<times> 'w" where
  "zf_ctap_load_assertion_record env record_index rp_id app w =
    (case zf_ctap_snapshot_index_entry_locked app record_index of
       None \<Rightarrow> (None, w)
     | Some entry \<Rightarrow>
       (case zf_store_load_record_with_buffer (ce_hal env) entry (ce_store_io env) w of
          (None, w) \<Rightarrow> (None, w)
        | (Some record, w) \<Rightarrow>
           (if cr_rp_id record \<noteq> rp_id \<or> \<not> zf_ctap_index_entry_matches_record entry record then None
            else Some (record, entry), w)))"

definition zf_ctap_publish_assertion_counter ::
  "'w ctap_env \<Rightarrow> ZfCredentialIndexEntry \<Rightarrow> ZfCredentialRecord \<Rightarrow> nat \<Rightarrow> u32 \<Rightarrow> u32 \<Rightarrow> ZfGetAssertionRequest \<Rightarrow>
    bool \<Rightarrow> nat list \<Rightarrow> bool \<Rightarrow> (unit, 'w) cmd" where
  "zf_ctap_publish_assertion_counter env entry record record_index next_sign_count session_id request
      uv_verified match_indices seed_assertion_queue =
    (let record = record\<lparr>cr_sign_count := next_sign_count\<rparr> in
     then_ok (some_or ZF_CTAP_ERR_OTHER (on_world (\<lambda>_.
       zf_store_prepare_counter_advance (ce_hal env) entry record (ce_store_io env)))) (\<lambda>high_water app w.
     if \<not> zf_ctap_selected_record_still_current_locked app record_index record
     then (Inl ZF_CTAP_ERR_NO_CREDENTIALS, app, w)
     else case zf_store_publish_counter_advance (app_store app) record high_water of
         (False, _) \<Rightarrow> (Inl ZF_CTAP_ERR_OTHER, app, w)
       | (True, store) \<Rightarrow>
          (let app = zf_ctap_assertion_queue_clear (app\<lparr>app_store := store\<rparr>)
           in (Inr (), if seed_assertion_queue
                       then zf_ctap_assertion_queue_seed (ce_hal env) session_id request uv_verified
                         match_indices app w else app, w))))"

definition zf_ctap_load_and_prepare_assertion ::
  "'w ctap_env \<Rightarrow> ZfAssertionRequestData \<Rightarrow> ZfClientPinState \<Rightarrow> nat \<Rightarrow> bool \<Rightarrow> bool \<Rightarrow> bool \<Rightarrow> bool \<Rightarrow> nat \<Rightarrow>
    bool \<Rightarrow> bool \<Rightarrow> (ZfCredentialRecord \<times> ZfCredentialIndexEntry \<times> u32 \<times> bytes, 'w) cmd" where
  "zf_ctap_load_and_prepare_assertion env request pin_state record_index user_present uv_verified
      include_user_details include_count match_count user_selected include_user_selected =
    then_ok (some_or ZF_CTAP_ERR_NO_CREDENTIALS (on_world (\<lambda>app.
      zf_ctap_load_assertion_record env record_index (ar_rp_id request) app))) (\<lambda>(record, entry).
    then_ok (lift_result (zf_prepare_assertion_response env request pin_state record user_present
      uv_verified include_user_details include_count match_count user_selected include_user_selected))
      (\<lambda>(next_sign_count, response). ret (record, entry, next_sign_count, response)))"

text \<open>
  The rest of an assertion under the maintenance gate. \<open>selected\<close> is the record the user chose; without
  it the matches are resolved and the first one is taken.
\<close>

definition zf_ctap_finish_assertion ::
  "'w ctap_env \<Rightarrow> u32 \<Rightarrow> ZfGetAssertionRequest \<Rightarrow> ZfClientPinState \<Rightarrow> nat list \<Rightarrow> nat option \<Rightarrow> bool \<Rightarrow> bool \<Rightarrow> bool \<Rightarrow>
    bool \<Rightarrow> bool \<Rightarrow> (bytes, 'w) cmd" where
  "zf_ctap_finish_assertion env session_id request pin_state matches selected user_present uv_verified
      include_user_details include_user_selected poll_before_publish =
    with_maintenance (
      then_ok (case selected of
          Some record_index \<Rightarrow> ret (matches, record_index, 1)
        | None \<Rightarrow> then_ok (reading (\<lambda>app. zf_ctap_resolve_assertion_matches_snapshot app request uv_verified))
            (\<lambda>found. if found = [] then fail_with ZF_CTAP_ERR_NO_CREDENTIALS
                     else ret (found, found ! 0, length found))) (\<lambda>(matches, record_index, match_count).
      let include_count = ga_has_up request \<and> \<not> ga_up request \<and>
            \<not> zf_ctap_request_uses_allow_list request \<and> match_count > 1
      in
      then_ok (zf_ctap_load_and_prepare_assertion env (ga_assertion request) pin_state record_index
          user_present uv_verified include_user_details include_count match_count include_user_selected
          include_user_selected) (\<lambda>(record, entry, next_sign_count, response).
      then_ok (if poll_before_publish then status_of (ce_poll env session_id) else ret ()) (\<lambda>_.
      then_ok (zf_ctap_publish_assertion_counter env entry record record_index next_sign_count session_id
          request uv_verified (take match_count matches) include_count) (\<lambda>_.
      ret response)))))"

text \<open>The checks of the request and of the PIN, before anything is looked up.\<close>

definition get_assertion_checks ::
  "'w ctap_env \<Rightarrow> u32 \<Rightarrow> bytes \<Rightarrow> (ZfGetAssertionRequest \<times> ZfClientPinState \<times> bool, 'w) cmd" where
  "get_assertion_checks env session_id data =
    then_ok (\<lambda>app w. (zf_ctap_parse_get_assertion data
      (ga_cleared \<lparr>dl_entries = [], dl_capacity = ZF_MAX_ALLOW_LIST\<rparr>), app, w)) (\<lambda>request.
    then_ok (status_of (\<lambda>app w. (zf_ctap_validate_pin_auth_protocol (ga_has_pin_auth request)
      (ga_has_pin_protocol request) (ga_pin_protocol request)
      (pin_uv_auth_protocol_2_enabled (app_capabilities app)), app, w))) (\<lambda>_.
    let assertion = ga_assertion request; hmac_protocol = ar_hmac_secret_pin_protocol assertion in
    then_ok (\<lambda>app. fail_if (ar_has_hmac_secret assertion \<and>
      (\<not> zf_pin_protocol_supported hmac_protocol \<or> (hmac_protocol = ZF_PIN_PROTOCOL_V2 \<and>
        \<not> pin_uv_auth_protocol_2_enabled (app_capabilities app)))) ZF_CTAP_ERR_INVALID_PARAMETER app) (\<lambda>_.
    then_ok (fail_if (ar_has_hmac_secret assertion \<and> ga_has_up request \<and> \<not> ga_up request)
      ZF_CTAP_ERR_UNSUPPORTED_OPTION) (\<lambda>_.
    then_ok (updating zf_ctap_assertion_queue_clear) (\<lambda>_.
    then_ok (if ga_has_pin_auth request \<and> length (ga_pin_auth request) = 0
      then leave_with (\<lambda>app. zf_ctap_handle_empty_pin_auth_probe (ce_build env) (ce_hal env) (ce_wait env)
        app session_id (ascii ''Authenticate'') (ar_rp_id assertion) (ascii ''Touch required''))
      else ret ()) (\<lambda>_.
    then_ok (fail_if (zf_ctap_effective_uv_requested (ga_has_pin_auth request) (ga_has_uv request)
      (ga_uv request)) ZF_CTAP_ERR_UNSUPPORTED_OPTION) (\<lambda>_.
    then_ok (zf_ctap_require_pin_auth_with_state env (ga_has_uv request \<and> ga_uv request)
      (ga_has_pin_auth request) (ar_client_data_hash assertion) (ga_pin_auth request)
      (ga_has_pin_protocol request) (ga_pin_protocol request) (ar_rp_id assertion) ZF_PIN_PERMISSION_GA)
      (\<lambda>(pin_state, uv_verified). ret (request, pin_state, uv_verified)))))))))"

definition zf_ctap_handle_get_assertion :: "'w ctap_env \<Rightarrow> u32 \<Rightarrow> bytes \<Rightarrow> (bytes, 'w) cmd" where
  "zf_ctap_handle_get_assertion env session_id data =
    with_scratch env (
      then_ok (get_assertion_checks env session_id data) (\<lambda>(request, pin_state, uv_verified).
      then_ok (status_of (ce_poll env session_id)) (\<lambda>_.
      let uses_allow_list = zf_ctap_request_uses_allow_list request;
          rp_id = ar_rp_id (ga_assertion request) in
      if ga_has_up request \<and> \<not> ga_up request
      then zf_ctap_finish_assertion env session_id request pin_state [] None False uv_verified
        (uv_verified \<and> \<not> uses_allow_list) False False
      else
      then_ok (reading (\<lambda>app. zf_ctap_resolve_assertion_matches_snapshot app request uv_verified)) (\<lambda>matches.
      if \<not> uses_allow_list \<and> length matches > 1
      then
        then_ok (\<lambda>app. zf_ctap_request_assertion_selection (ce_hal env) (ce_wait env) app rp_id
          (map word_of_nat matches) session_id) (\<lambda>selected.
        then_ok (status_of (ce_poll env session_id)) (\<lambda>_.
        then_ok (reading (\<lambda>app. advertise_fido_2_1 (app_capabilities app))) (\<lambda>include_user_selected.
        zf_ctap_finish_assertion env session_id request pin_state matches (Some (unat selected)) True
          uv_verified uv_verified include_user_selected True)))
      else
        then_ok (status_of (\<lambda>app. zf_ctap_request_approval (ce_build env) (ce_hal env) (ce_wait env) app
          (ascii ''Authenticate'') rp_id (ascii ''Touch required'') session_id)) (\<lambda>_.
        then_ok (status_of (ce_poll env session_id)) (\<lambda>_.
        zf_ctap_finish_assertion env session_id request pin_state matches None True uv_verified
          (uv_verified \<and> \<not> uses_allow_list) False True))))))"

end
