(* ===== verification/Ctap_Credential.thy ===== *)
theory Ctap_Credential
  imports Ctap_Assertion
begin

text \<open>
  \<^verbatim>\<open>ctap/commands/make_credential.c\<close>, \<^verbatim>\<open>ctap/commands/reset.c\<close>, \<^verbatim>\<open>ctap/dispatch.c\<close> and
  \<^verbatim>\<open>zerofido_ctap_dispatch.c\<close>: the creation of a credential, the reset, and the dispatcher of all
  commands. Notifications, logs and the wiping of the scratch have no counterpart.
\<close>

section \<open>makeCredential\<close>

text \<open>\<^verbatim>\<open>snprintf(user_line, 96, "User: %s", ...)\<close>\<close>

definition user_line :: "bytes \<Rightarrow> bytes" where
  "user_line user_name =
    take 95 (ascii ''User: '' @ (if user_name \<noteq> [] then user_name else ascii ''(not provided)''))"

definition make_credential_checks ::
  "'w ctap_env \<Rightarrow> u32 \<Rightarrow> bytes \<Rightarrow> (ZfMakeCredentialRequest \<times> ZfResolvedCapabilities \<times> bool, 'w) cmd" where
  "make_credential_checks env session_id data =
    then_ok (\<lambda>app w. (zf_ctap_parse_make_credential data
      (mc_cleared \<lparr>dl_entries = [], dl_capacity = ZF_MAX_ALLOW_LIST\<rparr>), app, w)) (\<lambda>request.
    then_ok (reading (\<lambda>app. zf_runtime_get_effective_capabilities (ce_build env) app)) (\<lambda>capabilities.
    then_ok (status_of (\<lambda>app w. (zf_ctap_validate_pin_auth_protocol (mc_has_pin_auth request)
      (mc_has_pin_protocol request) (mc_pin_protocol request)
      (pin_uv_auth_protocol_2_enabled capabilities), app, w))) (\<lambda>_.
    then_ok (if mc_has_pin_auth request \<and> length (mc_pin_auth request) = 0
      then leave_with (\<lambda>app. zf_ctap_handle_empty_pin_auth_probe (ce_build env) (ce_hal env) (ce_wait env)
        app session_id (ascii ''Register'') (mc_rp_id request) (user_line (mc_user_name request)))
      else ret ()) (\<lambda>_.
    then_ok (fail_if (zf_ctap_effective_uv_requested (mc_has_pin_auth request) (mc_has_uv request)
      (mc_uv request)) ZF_CTAP_ERR_UNSUPPORTED_OPTION) (\<lambda>_.
    then_ok (\<lambda>app. fail_if (\<not> mc_has_pin_auth request \<and> zf_ctap_pin_is_set app \<and>
      mc_has_rk request \<and> mc_rk request) ZF_CTAP_ERR_PIN_REQUIRED app) (\<lambda>_.
    then_ok (zf_ctap_require_pin_auth_with_state env (mc_has_uv request \<and> mc_uv request)
      (mc_has_pin_auth request) (mc_client_data_hash request) (mc_pin_auth request)
      (mc_has_pin_protocol request) (mc_pin_protocol request) (mc_rp_id request) ZF_PIN_PERMISSION_MC)
      (\<lambda>(_, uv_verified). ret (request, capabilities, uv_verified))))))))"

definition make_credential_excluded ::
  "'w ctap_env \<Rightarrow> ZfMakeCredentialRequest \<Rightarrow> bool \<Rightarrow> (bool, 'w) cmd" where
  "make_credential_excluded env request uv_verified =
    with_maintenance (on_world (\<lambda>app. zf_ctap_exclude_list_has_visible_match (ce_hal env) (app_store app)
      (mc_rp_id request) (mc_exclude_list request) uv_verified (ce_store_io env)))"

definition make_credential_approval :: "'w ctap_env \<Rightarrow> u32 \<Rightarrow> ZfMakeCredentialRequest \<Rightarrow> CtapApp \<Rightarrow> 'w \<Rightarrow>
    ctap_status \<times> CtapApp \<times> 'w" where
  "make_credential_approval env session_id request app =
    zf_ctap_request_approval (ce_build env) (ce_hal env) (ce_wait env) app (ascii ''Register'')
      (mc_rp_id request) (user_line (mc_user_name request)) session_id"

definition make_credential_response ::
  "'w ctap_env \<Rightarrow> ZfMakeCredentialRequest \<Rightarrow> ZfResolvedCapabilities \<Rightarrow> ZfCredentialRecord \<Rightarrow> bool \<Rightarrow> (bytes, 'w) cmd" where
  "make_credential_response env request capabilities record uv_verified app w =
    (let mode = (if mc_has_attestation_format_preference request
                 then mc_preferred_attestation_mode request else attestation_mode capabilities)
     in if \<not> ZF_PACKED_ATTESTATION (ce_build env) \<or> mode = ZfAttestationModeNone
        then (zf_ctap_build_none_make_credential_response_with_scratch (mc_rp_id request) record uv_verified
            (mc_has_cred_protect request) (mc_hmac_secret_requested request) (ce_out env)
            (ce_out_capacity env), app, w)
        else case zf_ctap_build_packed_make_credential_response_with_scratch (ce_hal env)
            (mc_rp_id request) record (mc_client_data_hash request) uv_verified
            (mc_has_cred_protect request) (mc_hmac_secret_requested request) (ce_out env)
            (ce_out_capacity env) (app_attestation app) w of
          (r, cache, w) \<Rightarrow> (r, app\<lparr>app_attestation := cache\<rparr>, w))"

text \<open>Storage and index, under the maintenance gate. A new record replaces the user's resident ones.\<close>

definition make_credential_publish ::
  "'w ctap_env \<Rightarrow> ZfMakeCredentialRequest \<Rightarrow> ZfCredentialRecord \<Rightarrow> (unit, 'w) cmd" where
  "make_credential_publish env request record app w =
    (let hal = ce_hal env; resident_key = mc_has_rk request \<and> mc_rk request in
     case (if resident_key
           then zf_store_find_resident_credential_indices_for_user_with_buffer hal (app_store app)
             (mc_rp_id request) (mc_user_id request) ZF_MAX_CREDENTIALS (ce_store_io env) w
           else ((True, []), w)) of
       ((False, _), w) \<Rightarrow> (Inl ZF_CTAP_ERR_OTHER, app, w)
     | ((True, deleted), w) \<Rightarrow>
       let count = cs_count (app_store app);
           effective_count = (if count \<ge> length deleted then count - length deleted else count) in
       if \<not> effective_count < ZF_MAX_CREDENTIALS then (Inl ZF_CTAP_ERR_KEY_STORE_FULL, app, w)
       else case zf_store_write_record_file_with_buffer hal record (ce_store_io env) w of
         (False, w) \<Rightarrow> (Inl ZF_CTAP_ERR_KEY_STORE_FULL, app, w)
       | (True, w) \<Rightarrow>
         (case (if resident_key \<and> length deleted > 0
                then zf_store_remove_credential_files_by_indices hal (app_store app) deleted w
                else ((True, length deleted), w)) of
            ((False, removed), w) \<Rightarrow>
              (Inl ZF_CTAP_ERR_OTHER,
               if removed > 0 then zf_ctap_assertion_queue_clear (app\<lparr>app_store :=
                 zf_store_publish_deleted_indices (app_store app) (take removed deleted)\<rparr>) else app,
               snd (zf_store_remove_record_file hal record w))
          | ((True, removed), w) \<Rightarrow>
            (let store = (if removed > 0
                   then zf_store_publish_deleted_indices (app_store app) (take removed deleted)
                   else app_store app)
             in case zf_store_publish_added_record (ce_heap env) store record of
                  (False, store) \<Rightarrow>
                    (Inl ZF_CTAP_ERR_KEY_STORE_FULL, app\<lparr>app_store := store\<rparr>,
                     snd (zf_store_remove_record_file hal record w))
                | (True, store) \<Rightarrow>
                    (Inr (), zf_ctap_assertion_queue_clear (app\<lparr>app_store := store,
                       app_store_records_owned := (cs_capacity store > 0 \<or> app_store_records_owned app)\<rparr>),
                     w))))"

text \<open>The new record, up to the approval of the user; nothing is stored before it.\<close>

definition make_credential_prepared ::
  "'w ctap_env \<Rightarrow> u32 \<Rightarrow> bytes \<Rightarrow>
    (ZfMakeCredentialRequest \<times> ZfResolvedCapabilities \<times> bool \<times> ZfCredentialRecord, 'w) cmd" where
  "make_credential_prepared env session_id data =
    then_ok (make_credential_checks env session_id data) (\<lambda>(request, capabilities, uv_verified).
    then_ok (status_of (ce_poll env session_id)) (\<lambda>_.
    then_ok (make_credential_excluded env request uv_verified) (\<lambda>excluded.
    then_ok (if excluded
      then leave_with (\<lambda>app w. case make_credential_approval env session_id request app w of
          (status, app, w) \<Rightarrow>
            (if status = ZF_CTAP_ERR_KEEPALIVE_CANCEL then status else ZF_CTAP_ERR_CREDENTIAL_EXCLUDED,
             app, w))
      else ret ()) (\<lambda>_.
    then_ok (some_or ZF_CTAP_ERR_INVALID_PARAMETER (on_world (\<lambda>_. zf_store_prepare_credential (ce_rtc env)
        (ce_hal env) (mc_rp_id request) (mc_user_id request) (Some (mc_user_name request))
        (Some (mc_user_display_name request)) (mc_has_rk request \<and> mc_rk request)))) (\<lambda>record.
    ret (request, capabilities, uv_verified,
      if mc_has_cred_protect request then record\<lparr>cr_cred_protect := mc_cred_protect request\<rparr> else record))))))"

definition zf_ctap_handle_make_credential :: "'w ctap_env \<Rightarrow> u32 \<Rightarrow> bytes \<Rightarrow> (bytes, 'w) cmd" where
  "zf_ctap_handle_make_credential env session_id data =
    with_scratch env (
      then_ok (make_credential_prepared env session_id data) (\<lambda>(request, capabilities, uv_verified, record).
      then_ok (status_of (make_credential_approval env session_id request)) (\<lambda>_.
      then_ok (status_of (ce_poll env session_id)) (\<lambda>_.
      then_ok (some_or ZF_CTAP_ERR_KEY_STORE_FULL (on_world (\<lambda>_.
          zf_crypto_generate_credential_keypair (ce_hal env) record))) (\<lambda>record.
      then_ok (make_credential_response env request capabilities record uv_verified) (\<lambda>response.
      then_ok (status_of (ce_poll env session_id)) (\<lambda>_.
      then_ok (with_maintenance (make_credential_publish env request record)) (\<lambda>_.
      ret response))))))))"

section \<open>Reset\<close>

definition reset_wiped :: "'w ctap_env \<Rightarrow> 'w \<Rightarrow> bool \<times> 'w" where
  "reset_wiped env w =
    and_then (u2f_data_wipe (ce_hal env) w) (zf_store_wipe_app_data (ce_hal env))"

definition reset_under_maintenance :: "'w ctap_env \<Rightarrow> (bytes, 'w) cmd" where
  "reset_under_maintenance env app w =
    (let app = zf_ctap_assertion_queue_clear app;
         app = app\<lparr>app_u2f := zf_u2f_adapter_deinit (app_u2f app)\<rparr>
     in case reset_wiped env w of
          (False, w) \<Rightarrow> (Inl ZF_CTAP_ERR_OTHER, app, w)
        | (True, w) \<Rightarrow>
          (case zerofido_pin_init_with_result (ce_hal env) w of
             (pin_init, next_pin_state, w) \<Rightarrow>
               let app = app\<lparr>app_store := zf_store_clear (app_store app),
                     app_pin_state := (if pin_init = ZfPinInitOk then next_pin_state else zero_pin_state)\<rparr>;
                   app = zf_runtime_config_refresh_capabilities (ce_build env) app
               in if pin_init \<noteq> ZfPinInitOk then (Inl ZF_CTAP_ERR_OTHER, app, w)
                  else if u2f_enabled (app_capabilities app)
                  then (case zf_u2f_adapter_init (ce_build env) (ce_hal env) app (app_u2f app) w of
                          (_, u2f, w) \<Rightarrow> (Inr [], app\<lparr>app_u2f := u2f\<rparr>, w))
                  else (Inr [], app, w)))"

definition zf_ctap_handle_reset :: "'w ctap_env \<Rightarrow> u32 \<Rightarrow> nat \<Rightarrow> (bytes, 'w) cmd" where
  "zf_ctap_handle_reset env session_id request_len =
    then_ok (status_of (\<lambda>app w. (zf_ctap_require_empty_payload request_len, app, w))) (\<lambda>_.
    then_ok (status_of (\<lambda>app. zf_ctap_request_approval (ce_build env) (ce_hal env) (ce_wait env) app
      (ascii ''Reset'') (ascii ''ZeroFIDO'') (ascii ''Erase credentials and PIN'') session_id)) (\<lambda>_.
    with_maintenance (reset_under_maintenance env)))"

section \<open>The dispatcher\<close>

definition zf_handle_selection :: "'w ctap_env \<Rightarrow> u32 \<Rightarrow> nat \<Rightarrow> (bytes, 'w) cmd" where
  "zf_handle_selection env session_id request_len =
    then_ok (status_of (\<lambda>app w. (zf_ctap_require_empty_payload request_len, app, w))) (\<lambda>_.
    then_ok (status_of (\<lambda>app. zf_ctap_request_approval (ce_build env) (ce_hal env) (ce_wait env) app
      (ascii ''Select'') [] (ascii ''Touch required'') session_id)) (\<lambda>_.
    ret []))"

definition require_idle :: "(unit, 'w) cmd" where
  "require_idle = status_of (\<lambda>app w. (zf_ctap_dispatch_require_idle app, app, w))"

definition zf_ctap_dispatch_command ::
  "'w ctap_env \<Rightarrow> ZfResolvedCapabilities \<Rightarrow> u32 \<Rightarrow> byte \<Rightarrow> bytes \<Rightarrow> (bytes, 'w) cmd" where
  "zf_ctap_dispatch_command env capabilities session_id cmd request_body =
    (let empty_payload = status_of (\<lambda>app w. (zf_ctap_require_empty_payload (length request_body + 1), app, w)) in
     if cmd = ZfCtapeCmdGetInfo then
       then_ok empty_payload (\<lambda>_ app w.
         (zf_ctap_build_get_info_response (ce_build env) capabilities (zf_ctap_pin_is_set app) (ce_out env)
           (ce_out_capacity env), app, w))
     else if cmd = ZfCtapeCmdClientPin then
       then_ok require_idle (\<lambda>_.
         with_maintenance (\<lambda>app w.
           case zf_app_command_scratch_acquire (ce_malloc env) (zf_ctap_assertion_queue_clear app) w of
             (acquired, app) \<Rightarrow>
               cleanup (if acquired then zf_app_command_scratch_release else id) (\<lambda>app.
                 zerofido_pin_handle_command_with_session (ce_build env) (ce_hal env) (ce_wait env)
                   acquired app session_id request_body (ce_out env) (ce_out_capacity env)) app w))
     else if cmd = ZfCtapeCmdReset then
       then_ok require_idle (\<lambda>_. zf_ctap_handle_reset env session_id (length request_body + 1))
     else if cmd = ZfCtapeCmdMakeCredential then
       then_ok require_idle (\<lambda>_. zf_ctap_handle_make_credential env session_id request_body)
     else if cmd = ZfCtapeCmdGetAssertion then
       then_ok require_idle (\<lambda>_. zf_ctap_handle_get_assertion env session_id request_body)
     else if cmd = ZfCtapeCmdGetNextAssertion then
       then_ok require_idle (\<lambda>_. then_ok empty_payload (\<lambda>_.
         zf_ctap_assertion_queue_handle_next env session_id))
     else if cmd = ZfCtapeCmdSelection then
       then_ok require_idle (\<lambda>_. zf_handle_selection env session_id (length request_body + 1))
     else fail_with ZF_CTAP_ERR_INVALID_COMMAND)"

text \<open>The empty response stands for the returned length zero. The buffer of the body is behind the status.\<close>

definition zerofido_handle_ctap2 ::
  "'w ctap_env \<Rightarrow> u32 \<Rightarrow> bytes \<Rightarrow> nat \<Rightarrow> CtapApp \<Rightarrow> 'w \<Rightarrow> bytes \<times> CtapApp \<times> 'w" where
  "zerofido_handle_ctap2 env session_id request response_capacity app w =
    (if length request = 0 \<or> response_capacity \<le> 1 then ([], app, w)
     else let cmd = hd request;
              capabilities = zf_runtime_get_effective_capabilities (ce_build env) app in
       if \<not> zf_runtime_ctap_command_enabled (ce_build env) app cmd
       then ([ctap_status_byte ZF_CTAP_ERR_INVALID_COMMAND], app, w)
       else case zf_ctap_dispatch_command (env\<lparr>ce_out_capacity := response_capacity - 1\<rparr>) capabilities
           session_id cmd (tl request) app w of
         (Inl status, app, w) \<Rightarrow> ([ctap_status_byte status], app, w)
       | (Inr body, app, w) \<Rightarrow> (ctap_status_byte ZF_CTAP_SUCCESS # body, app, w))"

end
