(* ===== verification/Store_Resident.thy ===== *)
theory Store_Resident
  imports Store_Run
begin

text \<open>
  Credentials found, removed and withdrawn in batches: the search for the resident credentials of a user
  loads records, the removal deletes their files one after the other until one fails, and the publication
  withdraws from the index the ones whose files are gone.
\<close>

section \<open>Loading entries of the index\<close>

lemma run_inv_load:
  assumes plat: "store_platform hal content" and inv: "run_inv hal content us s w" and e: "e \<in> set (cs_entries s)"
    and ld: "zf_store_load_record_with_buffer hal e buffer w = (res, w')"
  shows "run_inv hal content us s w'"
proof -
  obtain i where i: "i < length (cs_entries s)" "e = cs_entries s ! i" using e by (auto simp: in_set_conv_nth)
  note entry = run_entry [OF inv i(1), folded i(2)]
  show ?thesis by (rule run_inv_raises [OF inv load_entry(1) [OF plat entry(1) ld] entry(2)])
qed

lemma resident_of_user_inv:
  assumes "store_platform hal content" "run_inv hal content us s w" "e \<in> set (cs_entries s)"
    and "resident_of_user hal rp_id user_id buffer e w = (b, w')"
  shows "run_inv hal content us s w'"
  using assms(4) assms(2) run_inv_load [OF assms(1-3)]
  by (auto simp: resident_of_user_def split: if_split_asm prod.split_asm option.split_asm)

lemma find_residents_inv:
  assumes plat: "store_platform hal content"
  shows "run_inv hal content us s w \<Longrightarrow> snd ` set entries \<subseteq> set (cs_entries s) \<Longrightarrow>
    find_residents hal rp_id user_id m buffer entries found w = (r, w') \<Longrightarrow> run_inv hal content us s w'"
proof (induction entries arbitrary: found w)
  case (Cons x entries)
  obtain i e where x: "x = (i, e)" by fastforce
  obtain b w1 where b: "resident_of_user hal rp_id user_id buffer e w = (b, w1)" by fastforce
  have "run_inv hal content us s w1" by (rule resident_of_user_inv [OF plat Cons.prems(1) _ b]) (use Cons.prems(2) x in auto)
  then show ?case using Cons.IH [of w1] Cons.prems(2,3) x b by (auto split: bool.split_asm if_split_asm)
qed simp

text \<open>The found positions are increasing.\<close>

lemma find_residents_sorted:
  "find_residents hal rp_id user_id m buffer (zip [n..<n + length es] es) found w = ((ok, found'), w') \<Longrightarrow>
    sorted_wrt (<) found \<Longrightarrow> (\<forall>i \<in> set found. i < n) \<Longrightarrow>
    sorted_wrt (<) found' \<and> (\<forall>i \<in> set found'. i < n + length es)"
proof (induction es arbitrary: n found w)
  case (Cons e es)
  have z: "zip [n..<n + length (e # es)] (e # es) = (n, e) # zip [Suc n..<Suc n + length es] es"
    by (simp add: upt_conv_Cons del: upt_Suc)
  obtain b w1 where b: "resident_of_user hal rp_id user_id buffer e w = (b, w1)" by fastforce
  show ?case
  proof (cases "b \<and> length found < m")
    case True
    then have "find_residents hal rp_id user_id m buffer (zip [Suc n..<Suc n + length es] es) (found @ [n]) w1 =
        ((ok, found'), w')"
      using Cons.prems(1) b unfolding z by (simp add: not_le)
    from Cons.IH [OF this] Cons.prems(2,3) show ?thesis by (force simp: sorted_wrt_append)
  next
    case False
    show ?thesis
    proof (cases b)
      case True
      then have "found' = found" using Cons.prems(1) False b unfolding z by (auto simp: not_less)
      then show ?thesis using Cons.prems(2,3) by auto
    next
      case no: False
      then have "find_residents hal rp_id user_id m buffer (zip [Suc n..<Suc n + length es] es) found w1 =
          ((ok, found'), w')"
        using Cons.prems(1) b unfolding z by simp
      from Cons.IH [OF this] Cons.prems(2,3) show ?thesis by force
    qed
  qed
qed simp

lemma found_residents:
  assumes plat: "store_platform hal content" and inv: "run_inv hal content us s w"
    and r: "zf_store_find_resident_credential_indices_for_user_with_buffer hal s rp_id user_id m buffer w =
      ((ok, found), w')"
  shows "run_inv hal content us s w'" "sorted_wrt (<) found" "\<forall>i \<in> set found. i < cs_count s"
proof -
  have awf: "array_wf s" using inv by (simp add: run_inv_def entries_low_def)
  note len = length_entries [OF awf]
  have "w' = w \<and> found = [] \<or>
    find_residents hal rp_id user_id m buffer (zip [0..<0 + length (cs_entries s)] (cs_entries s)) [] w = ((ok, found), w')"
    using r len by (auto simp: zf_store_find_resident_credential_indices_for_user_with_buffer_def split: if_split_asm)
  moreover have "snd ` set (zip [0..<0 + length (cs_entries s)] (cs_entries s)) \<subseteq> set (cs_entries s)"
    by (auto dest: set_zip_rightD)
  ultimately have "(w' = w \<or> run_inv hal content us s w') \<and> sorted_wrt (<) found \<and> (\<forall>i \<in> set found. i < cs_count s)"
    using find_residents_inv [OF plat inv, of "zip [0..<0 + length (cs_entries s)] (cs_entries s)"]
      find_residents_sorted [of hal rp_id user_id m buffer 0 "cs_entries s" "[]" w ok found w'] len by auto
  then show "run_inv hal content us s w'" "sorted_wrt (<) found" "\<forall>i \<in> set found. i < cs_count s"
    using inv by auto
qed

section \<open>Removing files\<close>

abbreviation ids_at :: "ZfCredentialStore \<Rightarrow> nat list \<Rightarrow> bytes set" where
  "ids_at s is \<equiv> (\<lambda>i. ie_credential_id (cs_entries s ! i)) ` set is"

lemma remove_files_keep:
  assumes plat: "store_platform hal content" and awf: "array_wf s" and ents: "list_all entry_wf (cs_entries s)"
  shows "remove_files hal s is n w = ((ok, n'), w') \<Longrightarrow>
    n \<le> n' \<and> n' - n \<le> length is \<and> (ok \<longrightarrow> n' - n = length is) \<and>
    (\<forall>j N. length j = 32 \<longrightarrow> low hal (content w) j N \<longrightarrow> low hal (content w') j N) \<and>
    (\<forall>j N. length j = 32 \<longrightarrow> j \<notin> ids_at s (take (n' - n) is) \<longrightarrow>
      floor_at hal (content w) j N \<longrightarrow> floor_at hal (content w') j N)"
proof (induction "is" arbitrary: n w)
  case (Cons i "is")
  let ?e = "the (cs_records s) ! i"
  show ?case
  proof (cases "i \<ge> cs_count s \<or> \<not> ie_in_use ?e")
    case True
    then show ?thesis using Cons.prems by auto
  next
    case False
    then have e: "cs_entries s ! i = ?e" using entries_nth [OF awf] by simp
    have "entry_wf (cs_entries s ! i)" using ents False length_entries [OF awf] by (simp add: list_all_length)
    then have wf: "entry_wf ?e" using e by simp
    let ?c = "ie_credential_id ?e"
    have c: "length ?c = 32" using wf by (simp add: entry_wf_def ZF_CREDENTIAL_ID_LEN_def)
    obtain b w1 where rm: "zf_store_recovery_remove_record_paths hal (zf_store_record_format_hex_encode ?c) w = (b, w1)"
      by fastforce
    note keep = deletion_keeps [OF plat c rm]
    have rm': "zf_store_recovery_remove_record_paths hal (zf_store_index_entry_file_name ?e) w = (b, w1)"
      using rm by (simp add: zf_store_index_entry_file_name_def)
    show ?thesis
    proof (cases b)
      case True
      then have "remove_files hal s is (n + 1) w1 = ((ok, n'), w')" using Cons.prems False rm' by simp
      note IH = Cons.IH [OF this]
      have n': "n' - n = Suc (n' - (n + 1))" using conjunct1 [OF IH] by linarith
      show ?thesis
      proof (intro conjI allI impI)
        fix j N
        assume "length j = 32" "j \<notin> ids_at s (take (n' - n) (i # is))" "floor_at hal (content w) j N"
        then show "floor_at hal (content w') j N"
          using IH keep(2) [of j N] e unfolding n' by (simp add: image_iff)
      qed (use IH keep(1) in auto)
    next
      case no: False
      then have "ok = False" "n' = n" "w' = w1" using Cons.prems False rm' by simp_all
      then show ?thesis using keep no by auto
    qed
  qed
qed simp

section \<open>Withdrawing entries\<close>

text \<open>Positions are withdrawn from the last one, so the others stay where they are.\<close>

lemma publish_deleted:
  assumes "store_wf s" "sorted_wrt (<) ds" "\<forall>d \<in> set ds. d < cs_count s"
  shows "store_wf (zf_store_publish_deleted_indices s ds) \<and>
    index_view (zf_store_publish_deleted_indices s ds) = index_view s |` (- ids_at s ds) \<and>
    set (cs_entries (zf_store_publish_deleted_indices s ds)) \<subseteq> set (cs_entries s)"
  using assms
proof (induction ds arbitrary: s rule: rev_induct)
  case Nil
  then show ?case by (simp add: zf_store_publish_deleted_indices_def)
next
  case (snoc d ds)
  have awf: "array_wf s" and d: "d < cs_count s" using snoc.prems by (auto simp: store_wf_def)
  let ?s = "zf_store_compact_after_delete s d"
  note comp = entries_compact [OF awf d] and wf = remove_spec [OF snoc.prems(1) d]
  have some: "cs_records s \<noteq> None" using awf d by (auto simp: array_wf_def split: option.split_asm)
  have some': "cs_records ?s \<noteq> None \<or> cs_count ?s = 0" using comp(2) by (auto simp: array_wf_def split: option.split_asm)
  have ds: "sorted_wrt (<) ds" "\<forall>i \<in> set ds. i < d" using snoc.prems(2) by (simp_all add: sorted_wrt_append)
  then have in_s: "\<forall>i \<in> set ds. i < cs_count ?s" using comp(3) d by force
  have at: "cs_entries ?s ! i = cs_entries s ! i" if "i \<in> set ds" for i
    using that ds(2) comp(1) length_entries [OF awf] d by (simp add: nth_append)
  have ids: "ids_at ?s ds = ids_at s ds" using at by auto
  have "zf_store_publish_deleted_indices s (ds @ [d]) = zf_store_publish_deleted_indices ?s ds"
    using some some' d in_s by (cases ds) (auto simp: zf_store_publish_deleted_indices_def)
  moreover have "set (cs_entries ?s) \<subseteq> set (cs_entries s)"
    using comp(1) by (auto dest: in_set_takeD in_set_dropD)
  ultimately show ?case using snoc.IH [OF wf(1) ds(1) in_s] wf(2) ids
    by (auto simp: restrict_map_def fun_eq_iff)
qed

end
