(* ===== verification/Ctap_Frame.thy ===== *)
theory Ctap_Frame
  imports Ctap_Credential Store_Resident Attestation_Exact
begin

text \<open>
  Which files a CTAP command leaves alone besides the ones it is about: the client PIN writes only its own
  file, the attestation only its assets, and the computations of keys, signatures and secrets no file at all.
  The rules of the collection \<open>still\<close> rewrite the contents of the files through such calls.
\<close>

named_theorems still \<open>files that a call leaves alone\<close>

definition ctap_platform :: "'w hal \<Rightarrow> ('w \<Rightarrow> path \<rightharpoonup> bytes) \<Rightarrow> bool" where
  "ctap_platform hal content \<longleftrightarrow> store_platform hal content \<and> signing_platform hal content \<and>
    (\<forall>k iv d w. content (snd (hal_aes_encrypt hal k iv d w)) = content w) \<and>
    (\<forall>k iv d w. content (snd (hal_aes_decrypt hal k iv d w)) = content w) \<and>
    (\<forall>p k w. content (snd (uECC_shared_secret hal p k w)) = content w)"

lemma ctap_platform_laws:
  assumes "ctap_platform hal content"
  shows "store_platform hal content" "signing_platform hal content" "storage_lawful hal content"
  using assms signing_platform_laws by (auto simp: ctap_platform_def)

section \<open>Computations\<close>

lemma still_hal [still]:
  assumes "ctap_platform hal content"
  shows "content (snd (random_fill hal n w)) = content w"
    "content (snd (enclave_encrypt hal iv d w)) = content w"
    "content (snd (enclave_decrypt hal iv d w)) = content w"
    "content (snd (hal_aes_encrypt hal k iv d w)) = content w"
    "content (snd (hal_aes_decrypt hal k iv d w)) = content w"
    "content (snd (uECC_shared_secret hal p k w)) = content w"
    "content (snd (uECC_sign hal k d w)) = content w"
    "content (snd (uECC_make_key hal w)) = content w"
  using assms by (simp_all add: ctap_platform_def store_platform_def signing_platform_def)

lemma still_aes [still]:
  assumes "ctap_platform hal content"
  shows "content (snd (zf_aes256_cbc_encrypt hal k iv d w)) = content w"
    "content (snd (zf_aes256_cbc_decrypt hal k iv d w)) = content w"
    "content (snd (zf_aes256_cbc_zero_iv_encrypt hal k d w)) = content w"
    "content (snd (zf_aes256_cbc_zero_iv_decrypt hal k d w)) = content w"
  by (simp_all add: zf_aes256_cbc_encrypt_def zf_aes256_cbc_decrypt_def zf_aes256_cbc_zero_iv_encrypt_def
      zf_aes256_cbc_zero_iv_decrypt_def zf_aes256_cbc_crypt_def Let_def still [OF assms])

lemma still_p256 [still]:
  assumes "ctap_platform hal content"
  shows "content (snd (zf_p256_generate_keypair hal w)) = content w"
    "content (snd (zf_crypto_generate_key_agreement_key hal w)) = content w"
    "content (snd (zf_p256_ecdh_raw_secret hal key x y w)) = content w"
    "content (snd (zf_crypto_ecdh_shared_secret hal key x y w)) = content w"
    "content (snd (zf_crypto_sign_hash_with_private_key hal pk h n w)) = content w"
  using frame_sign [OF ctap_platform_laws(2) [OF assms]]
  by (simp_all add: zf_p256_generate_keypair_def zf_crypto_generate_key_agreement_key_def zf_p256_ecdh_raw_secret_def
      zf_crypto_ecdh_shared_secret_def split_def still [OF assms] split: option.split)

lemma still_protocol [still]:
  assumes "ctap_platform hal content"
  shows "content (snd (zf_pin_protocol_derive_keys hal s p x y w)) = content w"
    "content (snd (zf_pin_protocol_decrypt hal p keys c w)) = content w"
    "content (snd (zf_pin_protocol_encrypt hal p keys c n w)) = content w"
  by (simp_all add: zf_pin_protocol_derive_keys_def zf_pin_protocol_decrypt_def zf_pin_protocol_encrypt_def
      split_def still [OF assms] split: option.split)

lemma still_keys [still]:
  assumes "ctap_platform hal content"
  shows "content (snd (zf_unwrap_private_key hal r w)) = content w"
    "content (snd (zf_crypto_sign_hash hal r h n w)) = content w"
    "content (snd (zf_crypto_generate_credential_keypair hal r w)) = content w"
  by (simp_all add: zf_unwrap_private_key_def zf_crypto_sign_hash_def zf_crypto_generate_credential_keypair_def
      split_def still [OF assms] split: option.split)

lemma still_response [still]:
  assumes "ctap_platform hal content"
  shows "content (snd (zf_ctap_hmac_secret_build_extension hal s rq r uv buf n w)) = content w"
    "content (snd (zf_ctap_build_assertion_response_with_scratch hal rq r up uv k ud ic m ius us ext out cap w)) =
      content w"
  by (simp_all add: zf_ctap_hmac_secret_build_extension_def zf_ctap_build_assertion_response_with_scratch_def
      split_def Let_def still [OF assms] split: option.split)

lemma still_prepare:
  assumes "ctap_platform (ce_hal env) content"
  shows "content (snd (zf_prepare_assertion_response env rq s r up uv ud ic m us ius w)) = content w"
  by (simp add: zf_prepare_assertion_response_def split_def Let_def still [OF assms] split: sum.split)

section \<open>The file of the PIN\<close>

definition pin_file_paths :: "path set" where
  "pin_file_paths = {ZF_PIN_FILE_PATH, ZF_PIN_FILE_TEMP_PATH} \<union> {q. zf_storage_backup_path ZF_PIN_FILE_PATH = Some q}"

lemma still_pin_file:
  assumes plat: "ctap_platform hal content" and q: "q \<notin> pin_file_paths"
  shows "content (snd (zf_pin_state_store_persist hal s w)) q = content w q"
    "content (snd (zf_pin_state_store_fail_closed hal s w)) q = content w q"
    "content (snd (zf_pin_state_store_load hal vars w)) q = content w q"
    "content (zf_pin_state_store_cleanup_temp hal w) q = content w q"
proof -
  note lawful = ctap_platform_laws(3) [OF plat] and paths = q [unfolded pin_file_paths_def]
  have seal: "content (snd (zf_pin_seal_retry_state hal h r m f w)) = content w" for h r m f w
    by (simp add: zf_pin_seal_retry_state_def split_def Let_def still [OF plat] split: option.split)
  show "content (snd (zf_pin_state_store_persist hal s w)) q = content w q"
    using paths lawful frame_write_file [OF lawful, of q ZF_PIN_FILE_PATH ZF_PIN_FILE_TEMP_PATH]
    by (simp add: zf_pin_state_store_persist_def and_then_def split_def Let_def still [OF plat] seal
        frame_ensure_app_data_dir split: option.split)
  show "content (snd (zf_pin_state_store_fail_closed hal s w)) q = content w q"
    using paths lawful
    by (simp add: zf_pin_state_store_fail_closed_def zf_pin_invalidate_persisted_state_def Let_def frame_write
        frame_remove_atomic)
  show "content (snd (zf_pin_state_store_load hal vars w)) q = content w q"
    using lawful by (simp add: zf_pin_state_store_load_def zf_pin_verify_retry_state_def split_def Let_def still [OF plat]
        frame_read_file split: option.split)
  show "content (zf_pin_state_store_cleanup_temp hal w) q = content w q"
    using paths lawful by (simp add: zf_pin_state_store_cleanup_temp_def frame_recover)
qed

lemma still_pin:
  assumes plat: "ctap_platform hal content" and q: "q \<notin> pin_file_paths"
  shows "content (snd (persist_or_block hal s w)) q = content w q"
    "content (snd (snd (zf_pin_note_pin_auth_mismatch hal s w))) q = content w q"
    "content (snd (snd (zf_pin_auth_failure hal s w))) q = content w q"
    "content (snd (snd (zf_pin_auth_success hal s w))) q = content w q"
    "content (snd (snd (zf_pin_verify_hash hal s h w))) q = content w q"
    "content (snd (snd (zf_pin_apply_plaintext hal s d u w))) q = content w q"
    "content (snd (snd (snd (zerofido_pin_require_auth hal s a b c d e f g k w)))) q = content w q"
proof -
  note pf = still_pin_file [OF plat q]
  have pers: "content (snd (zf_pin_persist_state hal s w)) q = content w q" for s w
    by (simp add: zf_pin_persist_state_def pf)
  show pb: "content (snd (persist_or_block hal s w)) q = content w q" for s w
    by (simp add: persist_or_block_def Let_def pers pf)
  show mis: "content (snd (snd (zf_pin_note_pin_auth_mismatch hal s w))) q = content w q" for s w
    by (simp add: zf_pin_note_pin_auth_mismatch_def split_def pb)
  show fail: "content (snd (snd (zf_pin_auth_failure hal s w))) q = content w q" for s w
    by (simp add: zf_pin_auth_failure_def zf_pin_refresh_key_agreement_def split_def Let_def pb still [OF plat]
        split: option.split)
  show succ: "content (snd (snd (zf_pin_auth_success hal s w))) q = content w q" for s w
    by (simp add: zf_pin_auth_success_def Let_def pers)
  show "content (snd (snd (zf_pin_verify_hash hal s h w))) q = content w q"
    by (simp add: zf_pin_verify_hash_def fail succ)
  show "content (snd (snd (zf_pin_apply_plaintext hal s d u w))) q = content w q"
    by (simp add: zf_pin_apply_plaintext_def zf_pin_refresh_pin_token_def split_def Let_def pers still [OF plat])
  show "content (snd (snd (snd (zerofido_pin_require_auth hal s a b c d e f g k w)))) q = content w q"
    by (simp add: zerofido_pin_require_auth_def split_def Let_def pers mis)
qed

end
