(* ===== verification/Ctap_Logic.thy ===== *)
theory Ctap_Logic
  imports Ctap_Frame
begin

text \<open>
  A small program logic for the CTAP handlers. \<open>triple P m Q E\<close>: from a state in \<open>P\<close> the handler \<open>m\<close> ends
  with a result in \<open>Q\<close> or with a status in \<open>E\<close>; one rule per way the handlers are put together. \<open>calm\<close>
  handlers leave the index and the files of the credentials alone, whatever they return.
\<close>

section \<open>Triples\<close>

definition triple :: "(CtapApp \<Rightarrow> 'w \<Rightarrow> bool) \<Rightarrow> ('r, 'w) cmd \<Rightarrow> ('r \<Rightarrow> CtapApp \<Rightarrow> 'w \<Rightarrow> bool) \<Rightarrow>
    (ctap_status \<Rightarrow> CtapApp \<Rightarrow> 'w \<Rightarrow> bool) \<Rightarrow> bool" where
  "triple P m Q E \<longleftrightarrow> (\<forall>app w app' w'. P app w \<longrightarrow>
    (\<forall>status. m app w = (Inl status, app', w') \<longrightarrow> E status app' w') \<and>
    (\<forall>r. m app w = (Inr r, app', w') \<longrightarrow> Q r app' w'))"

lemma tripleI:
  assumes "\<And>app w status app' w'. P app w \<Longrightarrow> m app w = (Inl status, app', w') \<Longrightarrow> E status app' w'"
    "\<And>app w r app' w'. P app w \<Longrightarrow> m app w = (Inr r, app', w') \<Longrightarrow> Q r app' w'"
  shows "triple P m Q E"
  using assms by (auto simp: triple_def)

lemma tripleD:
  assumes "triple P m Q E" "P app w"
  shows "m app w = (Inl status, app', w') \<Longrightarrow> E status app' w'"
    and "m app w = (Inr r, app', w') \<Longrightarrow> Q r app' w'"
  using assms by (auto simp: triple_def)

lemma triple_weaken:
  assumes "triple P m Q E" "\<And>app w. P' app w \<Longrightarrow> P app w" "\<And>r app w. Q r app w \<Longrightarrow> Q' r app w"
    "\<And>status app w. E status app w \<Longrightarrow> E' status app w"
  shows "triple P' m Q' E'"
  by (rule tripleI) (use assms tripleD [OF assms(1)] in blast)+

lemma then_ok_cases:
  assumes "then_ok m f app w = (x, app', w')"
  obtains status where "m app w = (Inl status, app', w')" "x = Inl status"
  | r app1 w1 where "m app w = (Inr r, app1, w1)" "f r app1 w1 = (x, app', w')"
  using assms by (auto simp: then_ok_def split: prod.split_asm sum.split_asm)

lemma triple_then_ok:
  assumes "triple P m Q E" "\<And>r. triple (Q r) (f r) R E"
  shows "triple P (then_ok m f) R E"
proof (rule tripleI)
  fix app w status app' w'
  assume p: "P app w" and "then_ok m f app w = (Inl status, app', w')"
  from this(2) show "E status app' w'"
  proof (cases rule: then_ok_cases)
    case (2 r app1 w1)
    show ?thesis by (rule tripleD(1) [OF assms(2) tripleD(2) [OF assms(1) p 2(1)] 2(2)])
  qed (use tripleD(1) [OF assms(1) p] in simp)
next
  fix app w r app' w'
  assume p: "P app w" and "then_ok m f app w = (Inr r, app', w')"
  from this(2) show "R r app' w'"
  proof (cases rule: then_ok_cases)
    case (2 r app1 w1)
    show ?thesis by (rule tripleD(2) [OF assms(2) tripleD(2) [OF assms(1) p 2(1)] 2(2)])
  qed simp
qed

lemma triple_ret: "(\<And>app w. P app w \<Longrightarrow> Q r app w) \<Longrightarrow> triple P (ret r) Q E"
  by (simp add: triple_def ret_def)

lemma triple_fail_with: "(\<And>app w. P app w \<Longrightarrow> E status app w) \<Longrightarrow> triple P (fail_with status) Q E"
  by (simp add: triple_def fail_with_def)

lemma triple_if:
  "(c \<Longrightarrow> triple P m Q E) \<Longrightarrow> (\<not> c \<Longrightarrow> triple P m' Q E) \<Longrightarrow> triple P (if c then m else m') Q E"
  by simp

lemma triple_case_prod: "(\<And>a b. triple P (f a b) Q E) \<Longrightarrow> triple P (case r of (a, b) \<Rightarrow> f a b) Q E"
  by (simp split: prod.split)

lemma triple_reading: "(\<And>app w. P app w \<Longrightarrow> Q (f app) app w) \<Longrightarrow> triple P (reading f) Q E"
  by (simp add: triple_def reading_def)

lemma triple_some_or:
  assumes "triple P m Q' E" "\<And>app w. Q' None app w \<Longrightarrow> E status app w" "\<And>x app w. Q' (Some x) app w \<Longrightarrow> Q x app w"
  shows "triple P (some_or status m) Q E"
  unfolding some_or_def
  by (rule triple_then_ok [OF assms(1)]) (auto intro: triple_ret triple_fail_with assms(2,3) split: option.split)

lemma triple_cleanup:
  "triple P m (\<lambda>r app w. Q r (f app) w) (\<lambda>status app w. E status (f app) w) \<Longrightarrow> triple P (cleanup f m) Q E"
  by (fastforce simp: triple_def cleanup_def split: prod.split)

lemma triple_with_maintenance:
  assumes "triple P m Q E" "\<And>app w. P app w \<Longrightarrow> E ZF_CTAP_ERR_NOT_ALLOWED app w"
    "\<And>b app w. P app w \<Longrightarrow> P (app\<lparr>app_maintenance_busy := b\<rparr>) w"
    "\<And>b r app w. Q r app w \<Longrightarrow> Q r (app\<lparr>app_maintenance_busy := b\<rparr>) w"
    "\<And>b status app w. E status app w \<Longrightarrow> E status (app\<lparr>app_maintenance_busy := b\<rparr>) w"
  shows "triple P (with_maintenance m) Q E"
proof -
  have c: "triple P (cleanup zf_ctap_end_maintenance m) Q E"
    by (rule triple_cleanup, rule triple_weaken [OF assms(1)]) (simp_all add: zf_ctap_end_maintenance_def assms(4,5))
  show ?thesis
    by (rule tripleI) (auto simp: with_maintenance_def zf_ctap_begin_maintenance_def assms(2)
        split: if_split_asm dest: assms(3) tripleD [OF c])
qed

lemma triple_with_scratch:
  assumes "triple P m Q E" "\<And>app w. P app w \<Longrightarrow> E ZF_CTAP_ERR_OTHER app w"
    "\<And>b app w. P app w \<Longrightarrow> P (app\<lparr>app_command_scratch_in_use := b\<rparr>) w"
    "\<And>b r app w. Q r app w \<Longrightarrow> Q r (app\<lparr>app_command_scratch_in_use := b\<rparr>) w"
    "\<And>b status app w. E status app w \<Longrightarrow> E status (app\<lparr>app_command_scratch_in_use := b\<rparr>) w"
  shows "triple P (with_scratch env m) Q E"
proof -
  have c: "triple P (cleanup zf_app_command_scratch_release m) Q E"
    by (rule triple_cleanup, rule triple_weaken [OF assms(1)])
      (simp_all add: zf_app_command_scratch_release_def assms(4,5))
  show ?thesis
    by (rule tripleI) (auto simp: with_scratch_def zf_ctap_command_scratch_def zf_app_command_scratch_acquire_def
        assms(2) split: if_split_asm dest: assms(3) tripleD [OF c])
qed

section \<open>Calm handlers\<close>

definition calm_cmd :: "('w \<Rightarrow> path \<rightharpoonup> bytes) \<Rightarrow> ('r, 'w) cmd \<Rightarrow> bool" where
  "calm_cmd content m \<longleftrightarrow> (\<forall>app w. app_store (fst (snd (m app w))) = app_store app \<and>
    calm content w (snd (snd (m app w))))"

named_theorems calm \<open>handlers that leave the credentials alone\<close>

lemma calm_cmdI:
  assumes "\<And>app w r app' w'. m app w = (r, app', w') \<Longrightarrow> app_store app' = app_store app \<and> calm content w w'"
  shows "calm_cmd content m"
  using assms by (simp add: calm_cmd_def) (metis prod.collapse)

lemma calm_cmdD:
  assumes "calm_cmd content m" "m app w = (r, app', w')"
  shows "app_store app' = app_store app" "calm content w w'"
  using assms by (simp_all add: calm_cmd_def) (metis fst_conv snd_conv)+

lemma calm_then_ok [calm]:
  assumes "calm_cmd content m" "\<And>r. calm_cmd content (f r)"
  shows "calm_cmd content (then_ok m f)"
proof (rule calm_cmdI)
  fix app w r app' w'
  assume "then_ok m f app w = (r, app', w')"
  then show "app_store app' = app_store app \<and> calm content w w'"
  proof (cases rule: then_ok_cases)
    case (2 r app1 w1)
    then show ?thesis using calm_cmdD [OF assms(1) 2(1)] calm_cmdD [OF assms(2) 2(2)] calm_trans by auto
  qed (use calm_cmdD [OF assms(1)] in simp)
qed

lemma calm_basic [calm]:
  "calm_cmd content (ret r)" "calm_cmd content (fail_with status)" "calm_cmd content (fail_if c status)"
  "calm_cmd content (reading g)"
  by (simp_all add: calm_cmd_def ret_def fail_with_def fail_if_def reading_def)

lemma calm_if [calm]: "calm_cmd content m \<Longrightarrow> calm_cmd content m' \<Longrightarrow> calm_cmd content (if c then m else m')"
  by simp

lemma calm_some_or [calm]: "calm_cmd content m \<Longrightarrow> calm_cmd content (some_or status m)"
  unfolding some_or_def by (intro calm allI) (auto intro: calm split: option.split)

lemma calm_on_world [calm]:
  "(\<And>app w. calm content w (snd (f app w))) \<Longrightarrow> calm_cmd content (on_world f)"
  by (simp add: calm_cmd_def on_world_def split_def)

lemma calm_lift_result [calm]: "(\<And>w. calm content w (snd (f w))) \<Longrightarrow> calm_cmd content (lift_result f)"
  by (simp add: calm_cmd_def lift_result_def split_def)

text \<open>A calm handler keeps what depends on the index and the files of the credentials only.\<close>

definition stable :: "('w \<Rightarrow> path \<rightharpoonup> bytes) \<Rightarrow> (ZfCredentialStore \<Rightarrow> 'w \<Rightarrow> bool) \<Rightarrow> bool" where
  "stable content J \<longleftrightarrow> (\<forall>s w w'. J s w \<longrightarrow> calm content w w' \<longrightarrow> J s w')"

lemma triple_calm:
  assumes "calm_cmd content m" "stable content J"
  shows "triple (\<lambda>app w. J (app_store app) w) m (\<lambda>_ app w. J (app_store app) w) (\<lambda>_ app w. J (app_store app) w)"
  by (rule tripleI) (use calm_cmdD [OF assms(1)] assms(2) in \<open>auto simp: stable_def\<close>)

end
