(* ===== verification/Ctap_Calm.thy ===== *)
theory Ctap_Calm
  imports Ctap_Logic
begin

text \<open>
  The calm parts of the CTAP commands: prompts, PIN checks and the clientPIN command, key generation and
  responses. \<open>quiet_env\<close> states that the other threads, which act while a command waits or polls, leave the
  credentials alone: they are changed by one command at a time.
\<close>

definition quiet_env :: "('w \<Rightarrow> path \<rightharpoonup> bytes) \<Rightarrow> 'w ctap_env \<Rightarrow> bool" where
  "quiet_env content env \<longleftrightarrow> ctap_platform (ce_hal env) content \<and>
    (\<forall>session_id app w. case ce_wait env session_id app w of (_, app', w') \<Rightarrow>
      app_store app' = app_store app \<and> calm content w w') \<and>
    (\<forall>session_id app w. case ce_poll env session_id app w of (_, app', w') \<Rightarrow>
      app_store app' = app_store app \<and> calm content w w')"

lemma quiet_env_laws:
  assumes "quiet_env content env"
  shows "ctap_platform (ce_hal env) content"
    "app_store (fst (snd (ce_wait env session_id app w))) = app_store app"
    "calm content w (snd (snd (ce_wait env session_id app w)))"
    "app_store (fst (snd (ce_poll env session_id app w))) = app_store app"
    "calm content w (snd (snd (ce_poll env session_id app w)))"
  using assms unfolding quiet_env_def by (auto split: prod.splits) (metis fst_conv snd_conv prod.collapse)+

lemma cred_path_not_pin: "length j = 32 \<Longrightarrow> cred_path j x \<notin> pin_file_paths"
  by (auto simp: pin_file_paths_def cred_path_def ZF_APP_DATA_DIR_def ZF_PIN_FILE_PATH_def ZF_PIN_FILE_TEMP_PATH_def
      zf_storage_backup_path_def zf_storage_build_suffixed_path_def ZF_STORAGE_BACKUP_SUFFIX_def
      ZF_STORAGE_PATH_BUFFER_SIZE_def dest!: arg_cong [where f = length])

text \<open>The directory of the attestation begins with \<open>fi\<close>, the name of a record with two hexadecimal digits.\<close>

lemma cred_path_not_attestation:
  assumes "length j = 32"
  shows "cred_path j x \<notin> profile_paths zf_attestation_local_profile"
proof
  assume p: "cred_path j x \<in> profile_paths zf_attestation_local_profile"
  then have "cred_path j x ! 25 = CHR ''i''"
    by (auto simp: profile_paths_def zf_attestation_local_profile_def ZF_APP_DATA_DIR_def ZF_STORAGE_TEMP_SUFFIX_def
        zf_storage_backup_path_def zf_storage_build_suffixed_path_def ZF_STORAGE_BACKUP_SUFFIX_def
        ZF_STORAGE_PATH_BUFFER_SIZE_def)
  moreover obtain b j' where j: "j = b # j'" using assms by (cases j) auto
  then have "cred_path j x ! 25 = hex_digits ! unat (b AND 0x0F)"
    by (simp add: cred_path_def ZF_APP_DATA_DIR_def hex_encode_Cons)
  moreover have "unat (b AND 0x0F) < 16"
    using word_and_le1 [of b "0x0F"] by (simp add: word_le_nat_alt)
  then have "hex_digits ! unat (b AND 0x0F) \<in> set hex_digits" by (intro nth_mem) (simp add: hex_digits_def)
  ultimately show False by (simp add: hex_digits_def)
qed

section \<open>Prompts and polls\<close>

lemma calm_poll [calm]: "quiet_env content env \<Longrightarrow> calm_cmd content (status_of (ce_poll env session_id))"
  by (simp add: calm_cmd_def status_of_def split_def quiet_env_laws)

lemma wait_calm:
  assumes "quiet_env content env"
  shows "app_store (fst (snd (zerofido_ui_wait_for_interaction_result (ce_wait env) session_id app w))) = app_store app"
    "calm content w (snd (snd (zerofido_ui_wait_for_interaction_result (ce_wait env) session_id app w)))"
  using quiet_env_laws(2) [OF assms, of session_id app w] quiet_env_laws(3) [OF assms, of w session_id app]
  by (auto simp: zerofido_ui_wait_for_interaction_result_def Let_def split: prod.split bool.split)

lemma prompt_store [simp]:
  "app_store (zerofido_ui_clear_interaction_signal app) = app_store (app :: CtapApp)"
  "app_store (zerofido_ui_prepare_interaction_locked hal app kind p op t u w) = app_store app"
  by (simp_all add: zerofido_ui_clear_interaction_signal_def zerofido_ui_prepare_interaction_locked_def)

lemma approval_calm:
  fixes env :: "'w ctap_env"
  assumes "quiet_env content env"
  defines "request \<equiv> zerofido_ui_request_approval (ce_build env) (ce_hal env) (ce_wait env)"
  shows "app_store (fst (snd (request app p op t u session_id w))) = app_store app"
    "calm content w (snd (snd (request app p op t u session_id w)))"
  by (simp_all add: request_def zerofido_ui_request_approval_def Let_def wait_calm [OF assms(1)])

lemma calm_approval [calm]:
  assumes "quiet_env content env"
  shows "calm_cmd content (status_of (\<lambda>app. zf_ctap_request_approval (ce_build env) (ce_hal env) (ce_wait env) app
      op t u session_id))"
    "calm_cmd content (leave_with (\<lambda>app. zf_ctap_handle_empty_pin_auth_probe (ce_build env) (ce_hal env)
      (ce_wait env) app session_id op t u))"
    "calm_cmd content (status_of (make_credential_approval env session_id request))"
    "calm_cmd content (leave_with (\<lambda>app w. case make_credential_approval env session_id request app w of
      (status, app, w) \<Rightarrow> (g status, app, w)))"
  using approval_calm [OF assms]
  by (simp_all add: calm_cmd_def status_of_def leave_with_def make_credential_approval_def
      zf_ctap_request_approval_def zf_ctap_handle_empty_pin_auth_probe_def split_def)

lemma calm_selection [calm]:
  assumes "quiet_env content env"
  shows "calm_cmd content (\<lambda>app. zf_ctap_request_assertion_selection (ce_hal env) (ce_wait env) app t m session_id)"
proof -
  have "app_store (fst (snd (zerofido_ui_request_assertion_selection (ce_hal env) (ce_wait env) app t m session_id w))) =
      app_store app \<and>
    calm content w (snd (snd (zerofido_ui_request_assertion_selection (ce_hal env) (ce_wait env) app t m session_id w)))"
    for app :: CtapApp and w
    by (simp add: zerofido_ui_request_assertion_selection_def Let_def split_def wait_calm [OF assms]
        split: approval_details.split)
  then show ?thesis
    by (simp add: calm_cmd_def zf_ctap_request_assertion_selection_def split_def split: option.split)
qed

section \<open>The PIN\<close>

lemma calm_pure [calm]:
  "calm_cmd content (\<lambda>app w. (g app, app, w))" "calm_cmd content (\<lambda>app w. (g' app w, app, w))"
  "calm_cmd content (status_of (\<lambda>app w. (g'' app, app, w)))"
  by (simp_all add: calm_cmd_def status_of_def)

lemma calm_with_maintenance [calm]: "calm_cmd content m \<Longrightarrow> calm_cmd content (with_maintenance m)"
  by (simp add: calm_cmd_def with_maintenance_def zf_ctap_begin_maintenance_def zf_ctap_end_maintenance_def
      cleanup_def split_def)

lemma calm_require_pin_auth [calm]:
  assumes "quiet_env content env"
  shows "calm_cmd content (zf_ctap_require_pin_auth_with_state env a b c d e f g h)"
proof -
  note pin = still_pin(7) [OF quiet_env_laws(1) [OF assms] cred_path_not_pin]
  show ?thesis
    unfolding zf_ctap_require_pin_auth_with_state_def
    by (intro calm) (simp add: calm_cmd_def calm_def split_def pin)
qed

lemma calm_client_pin:
  fixes env :: "'w ctap_env"
  assumes quiet: "quiet_env content env"
  defines "command \<equiv> zerofido_pin_handle_command_with_session (ce_build env) (ce_hal env) (ce_wait env)"
  shows "app_store (fst (snd (command scratch_ok app session_id request out n w))) = app_store app"
    "calm content w (snd (snd (command scratch_ok app session_id request out n w)))"
proof -
  let ?hal = "ce_hal env"
  note plat = quiet_env_laws(1) [OF quiet]
  have consented: "app_store (fst (snd (snd (zf_client_pin_request_permission_token_consent (ce_build env) ?hal
        (ce_wait env) app s rq h session_id w)))) = app_store app"
    "calm content w (snd (snd (snd (zf_client_pin_request_permission_token_consent (ce_build env) ?hal
        (ce_wait env) app s rq h session_id w))))" for app :: CtapApp and s rq h session_id w
    by (simp_all add: zf_client_pin_request_permission_token_consent_def Let_def split_def approval_calm [OF quiet])
  have issue: "content (snd (snd (issue_pin_token ?hal s rq keys pm rc out n w))) = content w" for s rq keys pm rc out n w
    by (simp add: issue_pin_token_def zf_pin_refresh_pin_token_def Let_def split_def still [OF plat]
        split: option.split sum.split)
  have decrypt: "content (snd (zf_client_pin_decrypt_new_pin ?hal rq keys m w)) = content w" for rq keys m w
    by (simp add: zf_client_pin_decrypt_new_pin_def split_def still [OF plat] split: option.split)
  have sub: "app_store (fst (snd (snd (client_pin_subcommand (ce_build env) ?hal (ce_wait env) app c s rq session_id
        out n w)))) = app_store app \<and>
      content (snd (snd (snd (client_pin_subcommand (ce_build env) ?hal (ce_wait env) app c s rq session_id
        out n w)))) q = content w q" if q: "q = cred_path j x" "length j = 32" for app :: CtapApp and c s rq w q j x
  proof -
    have "q \<notin> pin_file_paths" using q cred_path_not_pin by simp
    note pin = still_pin [OF plat this]
    have ask: "content (snd (snd (snd (zf_client_pin_request_permission_token_consent (ce_build env) ?hal
        (ce_wait env) app s rq h session_id w)))) q = content w q" for app :: CtapApp and s rq h w
      using consented(2) q by (simp add: calm_def)
    have set_pin: "content (snd (snd (zf_client_pin_handle_set_pin ?hal s rq w))) q = content w q" for s rq w
      by (simp add: zf_client_pin_handle_set_pin_def Let_def split_def decrypt pin still [OF plat]
          split: option.split sum.split)
    have change_pin: "content (snd (snd (zf_client_pin_handle_change_pin ?hal s rq w))) q = content w q" for s rq w
      by (simp add: zf_client_pin_handle_change_pin_def Let_def split_def decrypt pin still [OF plat]
          split: option.split sum.split)
    have token: "app_store (fst (snd (snd (zf_client_pin_handle_get_pin_token (ce_build env) ?hal (ce_wait env) app s rq
        pm rc session_id out n w)))) = app_store app \<and>
      content (snd (snd (snd (zf_client_pin_handle_get_pin_token (ce_build env) ?hal (ce_wait env) app s rq
        pm rc session_id out n w)))) q = content w q" for app :: CtapApp and s pm rc w
      by (simp add: zf_client_pin_handle_get_pin_token_def Let_def split_def issue pin ask consented(1) still [OF plat]
          split: option.split)
    show ?thesis
      by (simp add: client_pin_subcommand_def no_response_def Let_def split_def set_pin change_pin token)
  qed
  have refresh: "app_store (zf_runtime_config_refresh_capabilities b app) = app_store app" for b and app :: CtapApp
    by (simp add: zf_runtime_config_refresh_capabilities_def zf_runtime_config_resolve_app_capabilities_def Let_def)
  show "app_store (fst (snd (command scratch_ok app session_id request out n w))) = app_store app"
    using sub [OF refl, of "replicate 32 0"] by (simp add: command_def zerofido_pin_handle_command_with_session_def Let_def split_def
        zf_pin_publish_state_def refresh split: sum.split)
  show "calm content w (snd (snd (command scratch_ok app session_id request out n w)))"
    using sub by (simp add: calm_def command_def zerofido_pin_handle_command_with_session_def Let_def split_def
        split: sum.split)
qed

end
