(* ===== verification/Ctap_Response_Exact.thy ===== *)
theory Ctap_Response_Exact
  imports Ctap_Response Pin_Command_Exact Ctap_Parse_Exact
begin

text \<open>
  The responses of \<^verbatim>\<open>ctap/response.c\<close> as canonical encodings: chains of encoder calls write exactly the
  concatenation of what the calls write, if it fits, and fail otherwise.
\<close>

section \<open>Chains of encoder calls\<close>

definition writes :: "(zf_cbor_encoder \<Rightarrow> bool \<times> zf_cbor_encoder) \<Rightarrow> bytes \<Rightarrow> bool" where
  "writes op bs \<longleftrightarrow> (\<forall>e. enc_wf e \<longrightarrow>
    (if length bs \<le> enc_room e then op e = (True, enc_put e bs) else \<not> fst (op e)))"

named_theorems writes \<open>what an encoder call writes\<close>

lemma writes_emitter: "cbor_emitter op bs \<Longrightarrow> writes op bs"
  unfolding writes_def using cbor_emitter.emits cbor_emitter.succeeds_iff by fastforce

lemma writes_basic [writes]:
  "writes (e_uint v) (cbor_uint v)" "writes (e_int i) (cbor_int i)" "writes (e_bool b) (cbor_bool b)"
  "writes (e_bytes d) (cbor_bytes d)" "writes (e_str t) (cbor_text t)" "writes (e_text s) (cbor_text (ascii s))"
  "writes (e_map n) (cbor_map n)" "writes (e_array n) (cbor_array n)"
  unfolding e_uint_def e_int_def e_bool_def e_bytes_def e_str_def e_text_def e_map_def e_array_def
  by (rule writes_emitter emitters)+

lemma writes_and_then:
  assumes "writes f a" "writes g b"
  shows "writes (\<lambda>e. and_then (f e) g) (a @ b)"
  unfolding writes_def
proof (intro allI impI)
  fix e
  assume wf: "enc_wf e"
  show "if length (a @ b) \<le> enc_room e then and_then (f e) g = (True, enc_put e (a @ b)) else \<not> fst (and_then (f e) g)"
  proof (cases "length a \<le> enc_room e")
    case True
    then have f: "f e = (True, enc_put e a)" using assms(1) wf by (simp add: writes_def)
    have "enc_wf (enc_put e a)" by (rule enc_put_wf [OF wf True])
    then have "if length b \<le> enc_room e - length a then g (enc_put e a) = (True, enc_put (enc_put e a) b)
        else \<not> fst (g (enc_put e a))"
      using assms(2) by (simp add: writes_def enc_room_put)
    then show ?thesis using f True enc_put_put [OF wf, of a b] by (auto split: if_split_asm)
  next
    case False
    then have "\<not> fst (f e)" using assms(1) wf by (simp add: writes_def)
    then show ?thesis using False by (simp add: and_then_def)
  qed
qed

lemma writes_chain [writes]:
  "writes (encode_all []) []"
  "writes f a \<Longrightarrow> writes (encode_all fs) b \<Longrightarrow> writes (encode_all (f # fs)) (a @ b)"
proof -
  show "writes (encode_all []) []" by (simp add: writes_def)
  assume "writes f a" "writes (encode_all fs) b"
  from writes_and_then [OF this] show "writes (encode_all (f # fs)) (a @ b)"
    by (simp add: writes_def)
qed

lemma encode_all_append: "encode_all (fs @ gs) e = and_then (encode_all fs e) (encode_all gs)"
  by (induction fs arbitrary: e) (auto simp: and_then_def)

lemma writes_append [writes]:
  assumes "writes (encode_all fs) a" "writes (encode_all gs) b"
  shows "writes (encode_all (fs @ gs)) (a @ b)"
  using writes_and_then [OF assms] by (simp add: writes_def encode_all_append)

lemma writes_when [writes]:
  "writes (encode_all fs) a \<Longrightarrow> writes (encode_all (when_set c fs)) (if c then a else [])"
  by (simp add: when_set_def writes_chain(1))

lemma writes_if [writes]:
  "writes (encode_all fs) a \<Longrightarrow> writes (encode_all gs) b \<Longrightarrow>
    writes (encode_all (if c then fs else gs)) (if c then a else b)"
  by simp

lemma run_encoder_writes:
  assumes "writes steps bs" and "cap \<le> length out" and "0 < length bs"
  shows "run_encoder out cap steps = (if length bs \<le> cap then Inr bs else Inl ZF_CTAP_ERR_OTHER)"
proof (cases "cap = 0")
  case True
  then show ?thesis using assms(3) by (simp add: run_encoder_def zf_cbor_encoder_init_def)
next
  case False
  let ?e = "\<lparr>enc_buf = out, enc_capacity = cap, enc_offset = 0\<rparr>"
  have wf: "enc_wf ?e" using assms(2) by (simp add: enc_wf_def)
  have "if length bs \<le> cap then steps ?e = (True, enc_put ?e bs) else \<not> fst (steps ?e)"
    using assms(1) wf by (simp add: writes_def enc_room_def)
  then show ?thesis
    using False by (auto simp: run_encoder_def zf_cbor_encoder_init_def zf_cbor_encoder_size_def enc_put_def
        write_at_def split: if_split_asm)
qed

text \<open>Reserving bytes that the builder then fills.\<close>

lemma writes_reserved [writes]:
  assumes "length built = n"
  shows "writes (e_reserved n built) (cbor_bytes built)"
  unfolding writes_def
proof (intro allI impI)
  fix e
  assume wf: "enc_wf e"
  let ?h = "zf_cbor_head ZF_CBOR_MAJOR_BYTES (word_of_nat n)"
  have bs: "cbor_bytes built = ?h @ built" using assms by (simp add: cbor_bytes_def)
  show "if length (cbor_bytes built) \<le> enc_room e then e_reserved n built e = (True, enc_put e (cbor_bytes built))
      else \<not> fst (e_reserved n built e)"
  proof (cases "length ?h \<le> enc_room e")
    case True
    have h: "zf_cbor_encode_head e ZF_CBOR_MAJOR_BYTES (word_of_nat n) = (True, enc_put e ?h)"
      by (rule cbor_emitter.emits [OF head_emitter wf True])
    note wf' = enc_put_wf [OF wf True]
    show ?thesis
    proof (cases "length built \<le> enc_room e - length ?h")
      case True': True
      then have "e_reserved n built e = (True, enc_put (enc_put e ?h) built)"
        using h assms wf' True by (simp add: e_reserved_def zf_cbor_reserve_bytes_def Let_def enc_put_def enc_wf_def enc_room_def)
      then show ?thesis using True True' enc_put_put [OF wf, of ?h built] bs by simp
    next
      case False
      then show ?thesis using h assms wf' True bs
        by (auto simp: e_reserved_def zf_cbor_reserve_bytes_def Let_def enc_put_def enc_wf_def enc_room_def)
    qed
  next
    case False
    then have "\<not> fst (zf_cbor_encode_head e ZF_CBOR_MAJOR_BYTES (word_of_nat n))"
      using cbor_emitter.succeeds_iff [OF head_emitter wf] by simp
    then show ?thesis using False bs by (simp add: e_reserved_def zf_cbor_reserve_bytes_def Let_def)
  qed
qed

lemma writes_eq: "writes op a \<Longrightarrow> a = b \<Longrightarrow> writes op b"
  by simp

section \<open>The responses as data items\<close>

definition CBool :: "bool \<Rightarrow> cbor_item" where "CBool b = CSimple (if b then 21 else 20)"
abbreviation CStr :: "string \<Rightarrow> cbor_item" where "CStr s \<equiv> CText (ascii s)"

lemma item_bool [simp]: "item_bytes (CBool b) = cbor_bool b"
  by (simp add: CBool_def cbor_bool_def zf_cbor_head_def ZF_CBOR_MAJOR_SIMPLE_def)

lemma item_uint: "item_bytes (CUint v) = cbor_uint v"
  by (simp add: cbor_uint_def)

lemma item_minus_7: "item_bytes (CNegint 6) = cbor_int (- 7)"
  by (simp add: cbor_int_def)

definition only_if :: "bool \<Rightarrow> 'x list \<Rightarrow> 'x list" where "only_if c xs = (if c then xs else [])"

lemma only_if [simp]:
  "concat (map f (only_if c xs)) = (if c then concat (map f xs) else [])"
  "length (only_if c xs) = (if c then 1 else 0) * length xs"
  by (simp_all add: only_if_def)

definition get_info_item :: "zf_build \<Rightarrow> ZfResolvedCapabilities \<Rightarrow> bool \<Rightarrow> cbor_item" where
  "get_info_item b c client_pin_set =
    (let f21 = advertise_fido_2_1 c in
     CMap ([(CUint 1, CArray (only_if f21 [CStr ''FIDO_2_1''] @ [CStr ''FIDO_2_0''] @ only_if (advertise_u2f_v2 c) [CStr ''U2F_V2''])),
        (CUint 2, CArray [CStr ''credProtect'', CStr ''hmac-secret'']),
        (CUint 3, CBytes zf_attestation_aaguid),
        (CUint 4, CMap ([(CStr ''rk'', CBool True), (CStr ''up'', CBool True), (CStr ''plat'', CBool False),
            (CStr ''clientPin'', CBool client_pin_set)] @
          only_if (pin_uv_auth_token_enabled c) [(CStr ''pinUvAuthToken'', CBool True)] @
          only_if (make_cred_uv_not_required c) [(CStr ''makeCredUvNotRqd'', CBool True)])),
        (CUint 5, CUint (word_of_nat ZF_MAX_MSG_SIZE)),
        (CUint 6, CArray (only_if (pin_uv_auth_protocol_2_enabled c) [CUint 2] @ [CUint 1]))] @
       (if ZF_NFC_ONLY b then [(CUint 9, CArray [CStr ''nfc''])]
        else if ZF_USB_ONLY b then only_if f21 [(CUint 9, CArray [CStr ''usb''])]
        else only_if (f21 \<or> advertise_nfc_transport c)
          [(CUint 9, CArray (only_if (advertise_usb_transport c) [CStr ''usb''] @ only_if (advertise_nfc_transport c) [CStr ''nfc'']))]) @
       only_if f21 [(CUint 10, CArray [CMap [(CStr ''alg'', CNegint 6), (CStr ''type'', CStr ''public-key'')]]),
         (CUint 13, CUint (word_of_nat ZF_MIN_PIN_LENGTH)), (CUint 14, CUint ZF_FIRMWARE_VERSION)]))"

lemma get_info_response:
  assumes "cap \<le> length out" "0 < cap"
  shows "zf_ctap_build_get_info_response b c p out cap =
    (let bs = item_bytes (get_info_item b c p) in if length bs \<le> cap then Inr bs else Inl ZF_CTAP_ERR_INVALID_CBOR)"
proof -
  let ?e = "\<lparr>enc_buf = out, enc_capacity = cap, enc_offset = 0\<rparr>"
  have wf: "enc_wf ?e" using assms by (simp add: enc_wf_def)
  have init: "zf_cbor_encoder_init out cap = Some ?e" using assms by (simp add: zf_cbor_encoder_init_def)
  have run: "(case encode_all fs ?e of (False, _) \<Rightarrow> Inl ZF_CTAP_ERR_INVALID_CBOR
      | (True, enc) \<Rightarrow> Inr (take (zf_cbor_encoder_size enc) (enc_buf enc))) =
    (let bs = item_bytes (get_info_item b c p) in if length bs \<le> cap then Inr bs else Inl ZF_CTAP_ERR_INVALID_CBOR)"
    if "writes (encode_all fs) (item_bytes (get_info_item b c p))" for fs
    using that wf by (cases "encode_all fs ?e") (auto simp: writes_def enc_room_def Let_def enc_put_def write_at_def
        zf_cbor_encoder_size_def split: if_split_asm bool.split)
  show ?thesis
    unfolding zf_ctap_build_get_info_response_def Let_def init option.case
  proof (rule run [unfolded Let_def], goal_cases)
    case 1
    show ?case
      by (rule writes_eq,
          ((rule writes_append writes_chain writes_basic writes_when writes_if)+)[1],
          cases "ZF_NFC_ONLY b"; cases "ZF_USB_ONLY b"; cases "advertise_fido_2_1 c";
          cases "advertise_nfc_transport c"; cases "pin_uv_auth_protocol_2_enabled c")
        (simp_all add: get_info_item_def Let_def cbor_uint_def cbor_int_def eval_nat_numeral
          zf_attestation_get_aaguid_def split del: if_split cong del: if_weak_cong)
  qed
qed

section \<open>Assertions\<close>

lemma writesD: "writes op bs \<Longrightarrow> enc_wf e \<Longrightarrow> length bs \<le> enc_room e \<Longrightarrow> op e = (True, enc_put e bs)"
  by (simp add: writes_def)

lemma write_be32: "zf_write_be32 v = be_bytes 4 v"
  by (simp add: zf_write_be32_def eval_nat_numeral drop_bit_drop_bit)

text \<open>The authenticator data of an assertion and the item of its response.\<close>

definition assertion_auth_data :: "bytes \<Rightarrow> bool \<Rightarrow> bool \<Rightarrow> u32 \<Rightarrow> bytes \<Rightarrow> bytes" where
  "assertion_auth_data rp_id up uv count extensions =
    zf_crypto_sha256 rp_id @
    [(if up then 0x01 else 0x00) OR (if uv then 0x04 else 0x00) OR (if extensions \<noteq> [] then 0x80 else 0x00)] @
    be_bytes 4 count @ extensions"

definition assertion_item ::
  "ZfCredentialRecord \<Rightarrow> bytes \<Rightarrow> bytes \<Rightarrow> bool \<Rightarrow> nat option \<Rightarrow> bool \<Rightarrow> cbor_item" where
  "assertion_item r auth signature details count selected =
    CMap ([(CUint 1, CMap [(CStr ''id'', CBytes (cr_credential_id r)), (CStr ''type'', CStr ''public-key'')]),
      (CUint 2, CBytes auth), (CUint 3, CBytes signature),
      (CUint 4, CMap ([(CStr ''id'', CBytes (cr_user_id r))] @
        only_if (details \<and> cr_user_name r \<noteq> []) [(CStr ''name'', CText (cr_user_name r))] @
        only_if (details \<and> cr_user_display_name r \<noteq> []) [(CStr ''displayName'', CText (cr_user_display_name r))]))] @
      only_if (count \<noteq> None) [(CUint 5, CUint (word_of_nat (the count)))] @
      only_if selected [(CUint 6, CBool True)])"

lemma built_assertion_auth_data:
  "zf_build_auth_data rp_id up uv False (extensions \<noteq> []) None count extensions [] 160 =
    (if 37 + length extensions \<le> 160 then assertion_auth_data rp_id up uv count extensions else [])"
  by (cases "extensions = []") (auto simp: zf_build_auth_data_def Let_def assertion_auth_data_def write_be32)

text \<open>A failed call may leave a part of its output behind, but never changes what was written before.\<close>

definition grows :: "(zf_cbor_encoder \<Rightarrow> bool \<times> zf_cbor_encoder) \<Rightarrow> bool" where
  "grows op \<longleftrightarrow> (\<forall>e. enc_wf e \<longrightarrow> enc_wf (snd (op e)) \<and> enc_offset e \<le> enc_offset (snd (op e)) \<and>
    take (enc_offset e) (enc_buf (snd (op e))) = take (enc_offset e) (enc_buf e))"

lemma growsD:
  assumes "grows op" "enc_wf e"
  shows "enc_wf (snd (op e))" "enc_offset e \<le> enc_offset (snd (op e))"
    "take (enc_offset e) (enc_buf (snd (op e))) = take (enc_offset e) (enc_buf e)"
  using assms by (auto simp: grows_def)

lemma grows_emitter: "cbor_emitter op bs \<Longrightarrow> grows op"
  unfolding grows_def
proof (intro allI impI)
  fix e
  assume op: "cbor_emitter op bs" and wf: "enc_wf e"
  show "enc_wf (snd (op e)) \<and> enc_offset e \<le> enc_offset (snd (op e)) \<and>
    take (enc_offset e) (enc_buf (snd (op e))) = take (enc_offset e) (enc_buf e)"
    using cbor_emitter.keeps_wf [OF op wf] cbor_emitter.keeps_written [OF op wf]
    by (cases rule: cbor_emitter.result_cases [OF op wf]) (auto simp: enc_put_def)
qed

lemma grows_then:
  assumes f: "grows f" and g: "\<And>ok. grows (g ok)"
  shows "grows (\<lambda>e. g (fst (f e)) (snd (f e)))"
  unfolding grows_def
proof (intro allI impI)
  fix e
  assume wf: "enc_wf e"
  let ?e = "snd (f e)" and ?r = "snd (g (fst (f e)) (snd (f e)))"
  note a = growsD [OF f wf] and b = growsD [OF g a(1), of "fst (f e)"]
  have "take (enc_offset e) (enc_buf ?r) = take (enc_offset e) (take (enc_offset ?e) (enc_buf ?r))"
    using a(2) by simp
  also have "\<dots> = take (enc_offset e) (enc_buf ?e)" unfolding b(3) using a(2) by simp
  finally show "enc_wf ?r \<and> enc_offset e \<le> enc_offset ?r \<and> take (enc_offset e) (enc_buf ?r) = take (enc_offset e) (enc_buf e)"
    using a b by simp
qed

lemma emitter_chain: "\<forall>f \<in> set fs. \<exists>bs. cbor_emitter f bs \<Longrightarrow> \<exists>bs. cbor_emitter (encode_all fs) bs"
proof (induction fs)
  case Nil
  have "cbor_emitter (encode_all []) []" by unfold_locales auto
  then show ?case by blast
next
  case (Cons f fs)
  then obtain a b where "cbor_emitter f a" "cbor_emitter (encode_all fs) b" by auto
  from emitter_seq [OF this] show ?case by (auto simp: fun_eq_iff [symmetric] eta_contract_eq)
qed

lemma e_emitters:
  "cbor_emitter (e_uint v) (cbor_uint v)" "cbor_emitter (e_bool b) (cbor_bool b)" "cbor_emitter (e_bytes d) (cbor_bytes d)"
  "cbor_emitter (e_str t) (cbor_text t)" "cbor_emitter (e_text s) (cbor_text (ascii s))" "cbor_emitter (e_map n) (cbor_map n)"
  "cbor_emitter (e_int i) (cbor_int i)" "cbor_emitter (e_array n) (cbor_array n)"
  unfolding e_uint_def e_bool_def e_bytes_def e_str_def e_text_def e_map_def e_int_def e_array_def
  by (rule emitters)+

lemma e_emits:
  "Ex (cbor_emitter (e_uint v))" "Ex (cbor_emitter (e_bool b))" "Ex (cbor_emitter (e_bytes d))"
  "Ex (cbor_emitter (e_str t))" "Ex (cbor_emitter (e_text s))" "Ex (cbor_emitter (e_map n))"
  "Ex (cbor_emitter (e_int i))" "Ex (cbor_emitter (e_array n))"
  using e_emitters by blast+

lemma grows_chain: "\<forall>f \<in> set fs. \<exists>bs. cbor_emitter f bs \<Longrightarrow> grows (encode_all fs)"
  using emitter_chain grows_emitter by blast

lemma grows_or: "grows f \<Longrightarrow> grows (\<lambda>e. if c then f e else (b, e))"
  by (auto simp: grows_def)

text \<open>The stages of the tail: each sees whether the one before it succeeded.\<close>

definition tail_stages ::
  "ZfCredentialRecord \<Rightarrow> bool \<Rightarrow> bool \<Rightarrow> nat \<Rightarrow> bool \<Rightarrow> (bool \<Rightarrow> zf_cbor_encoder \<Rightarrow> bool \<times> zf_cbor_encoder) list" where
  "tail_stages r d c count sel =
    [\<lambda>ok e. if ok \<and> d then encode_all [e_text ''displayName'', e_str (cr_user_display_name r)] e else (ok, e),
     \<lambda>ok e. if c then encode_all [e_uint 5, e_uint (word_of_nat count)] e else (ok, e),
     \<lambda>ok e. if ok \<and> sel then encode_all [e_uint 6, e_bool True] e else (ok, e)]"

lemma tail_stages: "assertion_tail r n d c count sel =
    foldl (\<lambda>f g e. g (fst (f e)) (snd (f e))) (encode_all (when_set n [e_text ''name'', e_str (cr_user_name r)]))
      (tail_stages r d c count sel)"
  by (simp only: fun_eq_iff tail_stages_def foldl.simps assertion_tail_def Let_def prod.collapse simp_thms)

lemma grows_tail: "grows (assertion_tail r n d c count sel)"
  unfolding tail_stages tail_stages_def foldl.simps
  by (intro grows_then grows_or grows_chain; auto simp: when_set_def e_emits)

text \<open>The members of the response: the first ones are there whatever the capacity, and all of them if they fit.\<close>

abbreviation assertion_head :: "nat \<Rightarrow> bytes \<Rightarrow> bytes \<Rightarrow> bytes" where
  "assertion_head n cid auth \<equiv> cbor_map n @ cbor_uint 1 @ cbor_map 2 @ cbor_text (ascii ''id'') @ cbor_bytes cid @
    cbor_text (ascii ''type'') @ cbor_text (ascii ''public-key'') @ cbor_uint 2 @ cbor_bytes auth"

lemma run_encoder_head:
  assumes "run_encoder out cap (\<lambda>e. and_then (encode_all fs e) g) = Inr response" "cap \<le> length out"
    "writes (encode_all fs) bs" "grows g"
  shows "\<exists>rest. response = bs @ rest"
proof -
  let ?e = "\<lparr>enc_buf = out, enc_capacity = cap, enc_offset = 0\<rparr>"
  have wf: "enc_wf ?e" using assms(2) by (simp add: enc_wf_def)
  have cap: "cap \<noteq> 0" using assms(1) by (cases "cap = 0") (simp_all add: run_encoder_def zf_cbor_encoder_init_def)
  have fit: "length bs \<le> enc_room ?e" and eq: "encode_all fs ?e = (True, enc_put ?e bs)"
    using assms(1,3) wf cap
    by (auto simp: writes_def run_encoder_def zf_cbor_encoder_init_def Let_def and_then_def split: if_split_asm)
  let ?a = "enc_put ?e bs"
  note tail = growsD [OF assms(4) enc_put_wf [OF wf fit]]
  have "response = take (enc_offset (snd (g ?a))) (enc_buf (snd (g ?a)))"
    using assms(1) cap eq by (simp add: run_encoder_def zf_cbor_encoder_init_def Let_def zf_cbor_encoder_size_def
        split: if_split_asm)
  moreover have "take (length bs) (enc_buf ?a) = bs" by (simp add: enc_put_def write_at_def)
  moreover have "enc_offset ?a = length bs" by (simp add: enc_put_def)
  ultimately have "take (length bs) response = bs" using tail(2,3) by simp
  then show ?thesis by (metis append_take_drop_id)
qed

lemma assertion_response_head:
  assumes b: "zf_ctap_build_assertion_response_with_scratch hal request r up uv count details include_count matches
      include_selected selected extensions out cap w = (Inr response, w')" and cap: "cap \<le> length out"
  shows "\<exists>n rest. n \<le> 6 \<and> response = assertion_head n (cr_credential_id r)
      (assertion_auth_data (ar_rp_id request) up uv count extensions) @ rest \<and> length extensions \<le> 123"
proof -
  let ?auth = "assertion_auth_data (ar_rp_id request) up uv count extensions"
  obtain signature n m tail where run: "run_encoder out cap (\<lambda>e. and_then (encode_all
      [e_map n, e_uint 1, e_map 2, e_text ''id'', e_bytes (cr_credential_id r), e_text ''type'', e_text ''public-key'',
       e_uint 2, e_bytes ?auth, e_uint 3, e_bytes signature, e_uint 4, e_map m, e_text ''id'',
       e_bytes (cr_user_id r)] e) tail) = Inr response" "grows tail" "n \<le> 6" "length extensions \<le> 123"
    using b grows_tail
    by (auto simp: zf_ctap_build_assertion_response_with_scratch_def Let_def built_assertion_auth_data
        simp del: encode_all.simps split: if_split_asm option.split_asm prod.split_asm)
  have "writes (encode_all
      [e_map n, e_uint 1, e_map 2, e_text ''id'', e_bytes (cr_credential_id r), e_text ''type'', e_text ''public-key'',
       e_uint 2, e_bytes ?auth, e_uint 3, e_bytes signature, e_uint 4, e_map m, e_text ''id'', e_bytes (cr_user_id r)])
    (assertion_head n (cr_credential_id r) ?auth @ cbor_uint 3 @ cbor_bytes signature @ cbor_uint 4 @ cbor_map m @
      cbor_text (ascii ''id'') @ cbor_bytes (cr_user_id r))"
    by (rule writes_eq, (rule writes_chain writes_basic)+) simp
  from run_encoder_head [OF run(1) cap this run(2)] show ?thesis using run(3,4) by auto
qed

text \<open>What the client reads from an assertion: whose it is, its signature counter, and its flags.\<close>

definition assertion_parts :: "bytes \<Rightarrow> (bytes \<times> bytes) option" where
  "assertion_parts response =
    Option.bind (zf_cbor_read_map_start response) (\<lambda>(_, c).
    Option.bind (zf_cbor_read_uint c) (\<lambda>(_, c).
    Option.bind (zf_cbor_read_map_start c) (\<lambda>(_, c).
    Option.bind (zf_cbor_read_text_ptr c) (\<lambda>(_, c).
    Option.bind (zf_cbor_read_bytes_ptr c) (\<lambda>(credential_id, c).
    Option.bind (zf_cbor_read_text_ptr c) (\<lambda>(_, c).
    Option.bind (zf_cbor_read_text_ptr c) (\<lambda>(_, c).
    Option.bind (zf_cbor_read_uint c) (\<lambda>(_, c).
    Option.bind (zf_cbor_read_bytes_ptr c) (\<lambda>(auth_data, _).
    Some (credential_id, auth_data))))))))))"

definition assertion_release :: "bytes \<Rightarrow> (bytes \<times> u32) option" where
  "assertion_release response = map_option (\<lambda>(credential_id, auth_data).
    (credential_id, be_value (take 4 (drop 33 auth_data)))) (assertion_parts response)"

definition assertion_flags :: "bytes \<Rightarrow> byte option" where
  "assertion_flags response = map_option (\<lambda>(_, auth_data). auth_data ! 32) (assertion_parts response)"

lemma assertion_counter: "be_value (take 4 (drop 33 (assertion_auth_data rp_id up uv count extensions))) = count"
proof -
  have "take 4 (drop 33 (assertion_auth_data rp_id up uv count extensions)) = be_bytes 4 count"
    by (simp add: assertion_auth_data_def del: be_bytes.simps)
  then show ?thesis using be_value_be_bytes [of 4 count] by (simp add: take_bit_word_eq_self)
qed

lemma assertion_parts_head:
  assumes "n \<le> 6" "length cid < 2 ^ 64" "length extensions \<le> 123"
  shows "assertion_parts (assertion_head n cid (assertion_auth_data rp_id up uv count extensions) @ rest) =
    Some (cid, assertion_auth_data rp_id up uv count extensions)"
proof -
  let ?auth = "assertion_auth_data rp_id up uv count extensions"
  have auth: "length ?auth < 2 ^ 64" using assms(3) by (simp add: assertion_auth_data_def)
  have short: "length (ascii ''id'') < 2 ^ 64" "length (ascii ''type'') < 2 ^ 64" "length (ascii ''public-key'') < 2 ^ 64"
    by (simp_all add: ascii_def)
  have "n \<le> SIZE_MAX" "2 \<le> SIZE_MAX" using assms(1) by (simp_all add: SIZE_MAX_def)
  note reads = read_map_start_iff [THEN iffD2, OF conjI, OF _ refl] read_uint_iff [THEN iffD2, OF refl]
    read_text_iff [THEN iffD2, OF conjI [OF _ conjI [OF _ refl]]] read_bytes_iff [THEN iffD2, OF conjI, OF _ refl]
  show ?thesis
    unfolding assertion_parts_def append_assoc
    by (simp only: reads(1) [OF \<open>n \<le> SIZE_MAX\<close>] reads(1) [OF \<open>2 \<le> SIZE_MAX\<close>] reads(2) reads(3) [OF short(1) ascii_valid(1)]
        reads(3) [OF short(2) ascii_valid(3)] reads(3) [OF short(3) ascii_valid(4)] reads(4) [OF assms(2)] reads(4) [OF auth]
        Option.bind.simps prod.case)
qed

lemma assertion_release_head:
  assumes "n \<le> 6" "length cid < 2 ^ 64" "length extensions \<le> 123"
  shows "assertion_release (assertion_head n cid (assertion_auth_data rp_id up uv count extensions) @ rest) = Some (cid, count)"
  using assertion_parts_head [OF assms] by (simp add: assertion_release_def assertion_counter)

definition presence_flags :: "bool \<Rightarrow> bool \<Rightarrow> bytes \<Rightarrow> byte" where
  "presence_flags up uv extensions =
    (if up then 0x01 else 0x00) OR (if uv then 0x04 else 0x00) OR (if extensions \<noteq> [] then 0x80 else 0x00)"

lemma presence_flags_bits: "bit (presence_flags up uv extensions) 0 = up" "bit (presence_flags up uv extensions) 2 = uv"
  by (auto simp: presence_flags_def bit_or_iff bit_iff_odd)

lemma assertion_flags_head:
  assumes "n \<le> 6" "length cid < 2 ^ 64" "length extensions \<le> 123"
  shows "assertion_flags (assertion_head n cid (assertion_auth_data rp_id up uv count extensions) @ rest) =
    Some (presence_flags up uv extensions)"
  using assertion_parts_head [OF assms]
  by (simp add: assertion_flags_def assertion_auth_data_def nth_append presence_flags_def)

text \<open>If everything fits, the response is the item.\<close>

definition fits :: "(zf_cbor_encoder \<Rightarrow> bool \<times> zf_cbor_encoder) \<Rightarrow> bytes \<Rightarrow> bool" where
  "fits op bs \<longleftrightarrow> (\<forall>e. enc_wf e \<longrightarrow> length bs \<le> enc_room e \<longrightarrow> op e = (True, enc_put e bs))"

lemma writes_fits: "writes op bs \<Longrightarrow> fits op bs"
  by (simp add: writes_def fits_def)

lemma fits_stages:
  "fits f a \<Longrightarrow> list_all2 (\<lambda>g b. fits (g True) b) gs bs \<Longrightarrow>
    fits (foldl (\<lambda>f g e. g (fst (f e)) (snd (f e))) f gs) (a @ concat bs)"
proof (induction gs arbitrary: f a bs)
  case (Cons g gs)
  obtain b bs' where bs: "bs = b # bs'" "fits (g True) b" "list_all2 (\<lambda>g b. fits (g True) b) gs bs'"
    using Cons.prems(2) by (auto simp: list_all2_Cons1)
  have "fits (\<lambda>e. g (fst (f e)) (snd (f e))) (a @ b)"
    using Cons.prems(1) bs(2) by (auto simp: fits_def enc_put_wf enc_room_put enc_put_put)
  from Cons.IH [OF this bs(3)] show ?case using bs(1) by simp
qed simp

lemma fits_and_then: "fits f a \<Longrightarrow> fits g b \<Longrightarrow> fits (\<lambda>e. and_then (f e) g) (a @ b)"
  by (auto simp: fits_def enc_put_wf enc_room_put enc_put_put)

lemma run_encoder_fits:
  assumes "fits steps bs" "length bs \<le> cap" "cap \<le> length out" "0 < length bs"
  shows "run_encoder out cap steps = Inr bs"
proof -
  have "enc_wf \<lparr>enc_buf = out, enc_capacity = cap, enc_offset = 0\<rparr>" using assms(3) by (simp add: enc_wf_def)
  then have "steps \<lparr>enc_buf = out, enc_capacity = cap, enc_offset = 0\<rparr> =
      (True, enc_put \<lparr>enc_buf = out, enc_capacity = cap, enc_offset = 0\<rparr> bs)"
    using assms(1,2) by (simp add: fits_def enc_room_def)
  moreover have cap: "cap \<noteq> 0" using assms(2,4) by linarith
  ultimately show ?thesis
    by (simp add: run_encoder_def zf_cbor_encoder_init_def zf_cbor_encoder_size_def enc_put_def write_at_def)
qed

lemma fits_or: "(c \<Longrightarrow> fits f a) \<Longrightarrow> fits (\<lambda>e. if c then f e else (True, e)) (if c then a else [])"
  by (auto simp: fits_def)

lemma fits_tail:
  "fits (assertion_tail r n d c count sel)
    ((if n then cbor_text (ascii ''name'') @ cbor_text (cr_user_name r) @ [] else []) @ concat
      [if d then cbor_text (ascii ''displayName'') @ cbor_text (cr_user_display_name r) @ [] else [],
       if c then cbor_uint 5 @ cbor_uint (word_of_nat count) @ [] else [], if sel then cbor_uint 6 @ cbor_bool True @ [] else []])"
  unfolding tail_stages
proof (rule fits_stages)
  show "list_all2 (\<lambda>g b. fits (g True) b) (tail_stages r d c count sel)
    [if d then cbor_text (ascii ''displayName'') @ cbor_text (cr_user_display_name r) @ [] else [],
     if c then cbor_uint 5 @ cbor_uint (word_of_nat count) @ [] else [], if sel then cbor_uint 6 @ cbor_bool True @ [] else []]"
    unfolding tail_stages_def list_all2_Cons simp_thms
    by (intro conjI fits_or writes_fits writes) simp
qed (intro writes_fits writes)

lemma assertion_response_fits:
  assumes b: "zf_ctap_build_assertion_response_with_scratch hal request r up uv n details include_count matches
      include_selected selected extensions out cap w = (Inr response, w')" and cap: "cap \<le> length out"
  shows "\<exists>signature. fst (zf_crypto_sign_hash hal r (zf_crypto_sha256_concat
        (assertion_auth_data (ar_rp_id request) up uv n extensions) (ar_client_data_hash request)) 80 w) = Some signature \<and>
      (let bs = item_bytes (assertion_item r (assertion_auth_data (ar_rp_id request) up uv n extensions) signature
          details (if include_count then Some matches else None) (include_selected \<and> selected))
       in length bs \<le> cap \<longrightarrow> response = bs)"
proof -
  let ?auth = "assertion_auth_data (ar_rp_id request) up uv n extensions"
  let ?n = "details \<and> cr_user_name r \<noteq> []" and ?d = "details \<and> cr_user_display_name r \<noteq> []"
  let ?sel = "include_selected \<and> selected" and ?count = "\<lambda>c. if c then 1 else 0 :: nat"
  let ?body = "\<lambda>signature. encode_all
      [e_map (4 + ?count include_count + ?count ?sel), e_uint 1, e_map 2, e_text ''id'', e_bytes (cr_credential_id r),
       e_text ''type'', e_text ''public-key'', e_uint 2, e_bytes ?auth, e_uint 3, e_bytes signature, e_uint 4,
       e_map (1 + ?count ?n + ?count ?d), e_text ''id'', e_bytes (cr_user_id r)]"
  let ?tail = "assertion_tail r ?n ?d include_count matches ?sel"
  let ?steps = "\<lambda>signature e. and_then (?body signature e) ?tail"
  obtain signature where sig: "fst (zf_crypto_sign_hash hal r (zf_crypto_sha256_concat ?auth (ar_client_data_hash request)) 80 w) =
      Some signature" and run: "run_encoder out cap (?steps signature) = Inr response"
    using b
    by (auto simp: zf_ctap_build_assertion_response_with_scratch_def Let_def built_assertion_auth_data
        simp del: encode_all.simps split: if_split_asm option.split_asm prod.split_asm)
  let ?item = "assertion_item r ?auth signature details (if include_count then Some matches else None) ?sel"
  let ?head = "cbor_map (4 + ?count include_count + ?count ?sel) @ cbor_uint 1 @ cbor_map 2 @ cbor_text (ascii ''id'') @
      cbor_bytes (cr_credential_id r) @ cbor_text (ascii ''type'') @ cbor_text (ascii ''public-key'') @
      cbor_uint 2 @ cbor_bytes ?auth @ cbor_uint 3 @ cbor_bytes signature @ cbor_uint 4 @
      cbor_map (1 + ?count ?n + ?count ?d) @ cbor_text (ascii ''id'') @ cbor_bytes (cr_user_id r)"
  have head: "writes (?body signature) ?head"
    by (rule writes_eq, (rule writes_chain writes_basic)+) simp
  note whole = fits_and_then [OF writes_fits [OF head] fits_tail [of r ?n ?d include_count matches ?sel]]
  have "run_encoder out cap (?steps signature) = Inr (item_bytes ?item)" if "length (item_bytes ?item) \<le> cap"
  proof (rule run_encoder_fits [OF _ that cap])
    show "fits (?steps signature) (item_bytes ?item)"
      using whole by (rule back_subst [where P = "fits (?steps signature)"])
        (cases ?n; cases ?d; cases include_count; cases ?sel;
          simp add: assertion_item_def cbor_uint_def eval_nat_numeral split del: if_split cong del: if_weak_cong)
  qed (simp add: assertion_item_def cbor_map_def)
  then show ?thesis using sig run by (auto simp: Let_def)
qed

section \<open>Attestations of new credentials\<close>

text \<open>What the client reads from the response to makeCredential: the identifier of the new credential.\<close>

definition creation_release :: "bytes \<Rightarrow> bytes option" where
  "creation_release response =
    Option.bind (zf_cbor_read_map_start response) (\<lambda>(_, c).
    Option.bind (zf_cbor_read_uint c) (\<lambda>(_, c).
    Option.bind (zf_cbor_read_text_ptr c) (\<lambda>(_, c).
    Option.bind (zf_cbor_read_uint c) (\<lambda>(_, c).
    Option.bind (zf_cbor_read_bytes_ptr c) (\<lambda>(auth_data, _).
    Some (take 32 (drop 55 auth_data)))))))"

abbreviation creation_head :: "string \<Rightarrow> bytes \<Rightarrow> bytes" where
  "creation_head format auth \<equiv> cbor_map 3 @ cbor_uint 1 @ cbor_text (ascii format) @ cbor_uint 2 @ cbor_bytes auth"

lemma creation_release_head:
  assumes "format \<in> {''none'', ''packed''}" "length auth < 2 ^ 64"
  shows "creation_release (creation_head format auth @ rest) = Some (take 32 (drop 55 auth))"
proof -
  have f: "length (ascii format) < 2 ^ 64" "zf_cbor_utf8_is_valid (ascii format)" using assms(1) by (auto simp: ascii_def)
  have "3 \<le> SIZE_MAX" by (simp add: SIZE_MAX_def)
  note reads = read_map_start_iff [THEN iffD2, OF conjI, OF _ refl] read_uint_iff [THEN iffD2, OF refl]
    read_text_iff [THEN iffD2, OF conjI [OF _ conjI [OF _ refl]]] read_bytes_iff [THEN iffD2, OF conjI, OF _ refl]
  show ?thesis
    unfolding creation_release_def append_assoc
    by (simp only: reads(1) [OF \<open>3 \<le> SIZE_MAX\<close>] reads(2) reads(3) [OF f] reads(4) [OF assms(2)]
        Option.bind.simps prod.case)
qed

lemma prefix_shape:
  assumes "x = (if a then [] else if b then [] else if c then p @ q else if d then [] else (p @ q) @ e)" "x \<noteq> []"
  shows "\<exists>t. x = p @ q @ t"
  using assms by (auto split: if_split_asm)

lemma creation_auth_data:
  assumes "length (cr_credential_id r) = 32" "make_credential_auth_data rp r uv ext parts \<noteq> []"
  shows "take 32 (drop 55 (make_credential_auth_data rp r uv ext parts)) = cr_credential_id r"
proof -
  obtain x cose n where parts: "parts = (x, cose, n)" using prod_cases3 by blast
  let ?auth = "make_credential_auth_data rp r uv ext parts"
  let ?p = "zf_crypto_sha256 rp @ [(if True then 1 else 0) OR (if uv then 4 else 0) OR (if True then 64 else 0) OR
      (if ext then 128 else 0)] @ zf_write_be32 (cr_sign_count r)"
  let ?q = "zf_attestation_get_aaguid @ zf_write_be16 (word_of_nat (length (cr_credential_id r))) @ cr_credential_id r @ cose"
  have "\<exists>t. ?auth = ?p @ ?q @ t"
  proof (rule prefix_shape [OF _ assms(2)])
    show "?auth = (if n < 37 then [] else if True \<and> (Some r = None \<or> cose = [] \<or> length ?p + length ?q > n) then []
      else if \<not> ext then ?p @ ?q else if length (?p @ ?q) + length x > n then [] else (?p @ ?q) @ x)"
      unfolding parts make_credential_auth_data_def prod.case zf_build_auth_data_def Let_def if_True option.case by (rule refl)
  qed
  then obtain p q t where auth: "?auth = p @ q @ t" and p: "p = ?p" and q: "q = ?q" by blast
  have "length p = 37" using p by (auto simp: zf_write_be32_def)
  moreover have "length (zf_attestation_get_aaguid @ zf_write_be16 (word_of_nat (length (cr_credential_id r)))) = 18"
    by (simp add: zf_attestation_get_aaguid_def zf_attestation_aaguid_def zf_write_be16_def)
  moreover define a where "a = zf_attestation_get_aaguid @ zf_write_be16 (word_of_nat (length (cr_credential_id r)))"
  ultimately have "length (p @ a) = 55" by simp
  moreover have "?auth = (p @ a) @ cr_credential_id r @ cose @ t" unfolding auth q a_def append_assoc by (rule refl)
  ultimately show ?thesis using assms(1) by simp
qed

text \<open>Authenticator data of the wrong size are never released.\<close>

lemma reserved_wrong_size: "length built \<noteq> n \<Longrightarrow> \<not> fst (e_reserved n built e)"
  by (simp add: e_reserved_def split: prod.split option.split)

lemma creation_fields:
  assumes "fst (encode_all [e_map 3, e_uint 1, e_text format, e_uint 2, e_reserved n auth] e)"
  shows "length auth = n"
  using assms reserved_wrong_size [of auth n] by (auto simp: and_then_def split: if_split_asm prod.split_asm)

lemma run_encoder_emitted:
  assumes "run_encoder out cap steps = Inr y" "writes steps bs" "cap \<le> length out" "0 < length bs"
  shows "y = bs" "length bs \<le> cap"
  using assms(1) run_encoder_writes [OF assms(2,3,4)] by (auto split: if_split_asm)

lemma creation_parts:
  assumes "make_credential_parts r cp hs = Inr (x, cose, n)" "length (cr_credential_id r) = 32"
  shows "n = 87 + length cose + length x" "length cose \<le> 128" "length x \<le> 32"
proof -
  obtain xr cr where x: "(cp \<or> hs) \<and> zf_encode_make_credential_extensions (cr_cred_protect r) cp hs (cr_hmac_secret r)
      (replicate 32 0) 32 = Inr x \<or> x = []" and c: "zf_encode_cose_key r (replicate 128 0) 128 = Inr cose"
    and n: "zf_make_credential_auth_data_size r (length cose) (length x) = Some n"
    using assms(1) by (auto simp: make_credential_parts_def then_status_def split: sum.split_asm option.split_asm if_split_asm)
  show "n = 87 + length cose + length x"
    using n assms(2) by (simp add: zf_make_credential_auth_data_size_def ZF_AAGUID_LEN_def split: if_split_asm)
  have cose: "writes (\<lambda>e. zf_cbor_encode_p256_cose_key e (- 7) (cr_public_x r) (cr_public_y r))
      (cbor_cose_key (- 7) (cr_public_x r) (cr_public_y r))"
    by (rule writes_emitter [OF enc_cose.cbor_emitter_axioms])
  have "0 < length (cbor_cose_key (- 7) (cr_public_x r) (cr_public_y r))" by (simp add: cbor_cose_key_def cbor_map_def)
  from run_encoder_emitted [OF c [unfolded zf_encode_cose_key_def] cose _ this] show "length cose \<le> 128" by simp
  have outputs: "writes (\<lambda>e. zf_ctap_cred_protect_encode_make_credential_output e p)
      (cbor_text (ascii ''credProtect'') @ cbor_uint (ucast (zf_ctap_cred_protect_effective p)))"
    "writes (\<lambda>e. zf_ctap_hmac_secret_encode_make_credential_output e b) (cbor_text (ascii ''hmac-secret'') @ cbor_bool b)" for p b
    unfolding zf_ctap_cred_protect_encode_make_credential_output_def zf_ctap_hmac_secret_encode_make_credential_output_def
    by (intro writes_and_then writes_emitter emitters)+
  show "length x \<le> 32"
  proof (cases "x = []")
    case False
    then have run: "run_encoder (replicate 32 0) 32 (encode_all
      ([e_map ((if cp then 1 else 0) + (if hs then 1 else 0))] @
       when_set cp [\<lambda>enc. zf_ctap_cred_protect_encode_make_credential_output enc (cr_cred_protect r)] @
       when_set hs [\<lambda>enc. zf_ctap_hmac_secret_encode_make_credential_output enc (cr_hmac_secret r)])) = Inr x"
      using x by (simp add: zf_encode_make_credential_extensions_def)
    obtain bs where w: "writes (encode_all
      ([e_map ((if cp then 1 else 0) + (if hs then 1 else 0))] @
       when_set cp [\<lambda>enc. zf_ctap_cred_protect_encode_make_credential_output enc (cr_cred_protect r)] @
       when_set hs [\<lambda>enc. zf_ctap_hmac_secret_encode_make_credential_output enc (cr_hmac_secret r)]))
      (cbor_map ((if cp then 1 else 0) + (if hs then 1 else 0)) @ bs)"
    proof
      show "writes (encode_all
        ([e_map ((if cp then 1 else 0) + (if hs then 1 else 0))] @
         when_set cp [\<lambda>enc. zf_ctap_cred_protect_encode_make_credential_output enc (cr_cred_protect r)] @
         when_set hs [\<lambda>enc. zf_ctap_hmac_secret_encode_make_credential_output enc (cr_hmac_secret r)]))
        (cbor_map ((if cp then 1 else 0) + (if hs then 1 else 0)) @
          (if cp then (cbor_text (ascii ''credProtect'') @ cbor_uint (ucast (zf_ctap_cred_protect_effective (cr_cred_protect r)))) @ [] else []) @
          (if hs then (cbor_text (ascii ''hmac-secret'') @ cbor_bool (cr_hmac_secret r)) @ [] else []))"
        by (rule writes_eq, (rule writes_append writes_chain writes_basic writes_when outputs)+) simp
    qed
    have "0 < length (cbor_map ((if cp then 1 else 0) + (if hs then 1 else 0)) @ bs)" by (simp add: cbor_map_def)
    from run_encoder_emitted [OF run w _ this] show ?thesis by simp
  qed simp
qed

lemma none_response:
  assumes r: "zf_ctap_build_none_make_credential_response_with_scratch rp r uv cp hs out cap = Inr response"
    and cap: "cap \<le> length out" and id: "length (cr_credential_id r) = 32"
  shows "creation_release response = Some (cr_credential_id r)"
proof -
  obtain x cose n where parts: "make_credential_parts r cp hs = Inr (x, cose, n)"
    and run: "run_encoder out cap (encode_all [e_map 3, e_uint 1, e_text ''none'', e_uint 2,
      e_reserved n (make_credential_auth_data rp r uv (cp \<or> hs) (x, cose, n)), e_uint 3, e_map 0]) = Inr response"
    using r by (auto simp: zf_ctap_build_none_make_credential_response_with_scratch_def then_status_def
        simp del: encode_all.simps split: sum.split_asm)
  let ?auth = "make_credential_auth_data rp r uv (cp \<or> hs) (x, cose, n)"
  have n: "length ?auth = n"
  proof (rule ccontr)
    assume "length ?auth \<noteq> n"
    then have "\<not> fst (encode_all [e_map 3, e_uint 1, e_text ''none'', e_uint 2, e_reserved n ?auth, e_uint 3, e_map 0] e)" for e
      using reserved_wrong_size by (auto simp: and_then_def split: prod.split)
    then show False using run by (auto simp: run_encoder_def Let_def simp del: encode_all.simps split: option.split_asm)
  qed
  note bounds = creation_parts [OF parts id]
  have "writes (encode_all [e_map 3, e_uint 1, e_text ''none'', e_uint 2, e_reserved n ?auth, e_uint 3, e_map 0])
      (creation_head ''none'' ?auth @ cbor_uint 3 @ cbor_map 0)"
    by (rule writes_eq, (rule writes_chain writes_basic writes_reserved [OF n])+) simp
  from run_encoder_emitted(1) [OF run this cap] have "response = creation_head ''none'' ?auth @ cbor_uint 3 @ cbor_map 0"
    by (simp add: cbor_map_def)
  moreover have "?auth \<noteq> []" "length ?auth < 2 ^ 64" using n bounds by auto
  ultimately show ?thesis using creation_release_head [of "''none''" ?auth] creation_auth_data [OF id] by simp
qed

text \<open>The packed format: the statement and the certificate come behind the authenticator data.\<close>

lemma grows_reserve:
  assumes "zf_cbor_reserve_bytes e n = (Some at, e')" "enc_wf e"
  shows "enc_offset e \<le> at" "take (enc_offset e) (enc_buf e') = take (enc_offset e) (enc_buf e)" "enc_offset e' = at + n"
    "at + n \<le> length (enc_buf e')"
proof -
  let ?h = "zf_cbor_encode_head e ZF_CBOR_MAJOR_BYTES (word_of_nat n)"
  have h: "fst ?h" "at = enc_offset (snd ?h)" "e' = (snd ?h)\<lparr>enc_offset := at + n\<rparr>" "n \<le> enc_capacity (snd ?h) - at"
    "at \<le> enc_capacity (snd ?h)"
    using assms(1) by (auto simp: zf_cbor_reserve_bytes_def Let_def split: if_split_asm)
  note g = growsD [OF grows_emitter [OF head_emitter] assms(2), of ZF_CBOR_MAJOR_BYTES "word_of_nat n"]
  show "enc_offset e \<le> at" "take (enc_offset e) (enc_buf e') = take (enc_offset e) (enc_buf e)" "enc_offset e' = at + n"
    using g h by auto
  show "at + n \<le> length (enc_buf e')" using g(1) h by (auto simp: enc_wf_def)
qed

lemma statement_prefix:
  assumes r: "packed_statement hal auth hash e cache w = (Inr response, cache', w')" and wf: "enc_wf e"
  shows "take (enc_offset e) response = take (enc_offset e) (enc_buf e)"
proof -
  obtain signature e2 n at e3 cert where e2: "encode_all [e_uint 3, e_map 3, e_text ''alg'', e_int (- 7), e_text ''sig'',
      e_bytes signature, e_text ''x5c'', e_array 1] e = (True, e2)"
    and e3: "zf_cbor_reserve_bytes e2 n = (Some at, e3)" and cert: "length cert = n"
    and resp: "response = take (zf_cbor_encoder_size e3) (write_at (enc_buf e3) at cert)"
    using r by (auto simp: packed_statement_def simp del: encode_all.simps
        split: bool.split_asm prod.split_asm option.split_asm if_split_asm)
  have "grows (encode_all [e_uint 3, e_map 3, e_text ''alg'', e_int (- 7), e_text ''sig'',
      e_bytes signature, e_text ''x5c'', e_array 1])"
    by (rule grows_chain) (auto simp: e_emits)
  note g = growsD [OF this wf, unfolded e2 snd_conv]
  note h = grows_reserve [OF e3 g(1)]
  have k: "enc_offset e \<le> at" using g(2) h(1) by simp
  have "take (enc_offset e) response = take (enc_offset e) (enc_buf e3)"
    using k h(3,4) cert by (simp add: resp zf_cbor_encoder_size_def write_at_def min_def)
  also have "\<dots> = take (enc_offset e) (take (enc_offset e2) (enc_buf e3))" using g(2) by simp
  also have "\<dots> = take (enc_offset e) (enc_buf e2)" unfolding h(2) using g(2) by simp
  finally show ?thesis using g(3) by simp
qed

lemma packed_response:
  assumes r: "zf_ctap_build_packed_make_credential_response_with_scratch hal rp r hash uv cp hs out cap cache w =
      (Inr response, cache', w')"
    and cap: "cap \<le> length out" and id: "length (cr_credential_id r) = 32"
  shows "creation_release response = Some (cr_credential_id r)"
proof -
  let ?e = "\<lparr>enc_buf = out, enc_capacity = cap, enc_offset = 0\<rparr>"
  have wf: "enc_wf ?e" using cap by (simp add: enc_wf_def)
  obtain x cose n e1 where parts: "make_credential_parts r cp hs = Inr (x, cose, n)"
    and e1: "encode_all [e_map 3, e_uint 1, e_text ''packed'', e_uint 2,
      e_reserved n (make_credential_auth_data rp r uv (cp \<or> hs) (x, cose, n))] ?e = (True, e1)"
    and st: "packed_statement hal (make_credential_auth_data rp r uv (cp \<or> hs) (x, cose, n)) hash e1 cache w = (Inr response, cache', w')"
    using r by (auto simp: zf_ctap_build_packed_make_credential_response_with_scratch_def Let_def zf_cbor_encoder_init_def
        simp del: encode_all.simps split: sum.split_asm bool.split_asm prod.split_asm if_split_asm)
  let ?auth = "make_credential_auth_data rp r uv (cp \<or> hs) (x, cose, n)"
  have n: "length ?auth = n" by (rule creation_fields [of "''packed''" n ?auth ?e]) (simp only: e1 fst_conv)
  note bounds = creation_parts [OF parts id]
  have w: "writes (encode_all [e_map 3, e_uint 1, e_text ''packed'', e_uint 2, e_reserved n ?auth]) (creation_head ''packed'' ?auth)"
    by (rule writes_eq, (rule writes_chain writes_basic writes_reserved [OF n])+) simp
  let ?bs = "creation_head ''packed'' ?auth"
  have fit: "length ?bs \<le> enc_room ?e" and put: "e1 = enc_put ?e ?bs"
    using w wf e1 by (auto simp: writes_def simp del: encode_all.simps append_assoc split: if_split_asm)
  have "enc_offset e1 = length ?bs" "take (length ?bs) (enc_buf e1) = ?bs" by (simp_all add: put enc_put_def write_at_def)
  then have "take (length ?bs) response = ?bs" using statement_prefix [OF st] enc_put_wf [OF wf fit] put by simp
  then obtain rest where "response = ?bs @ rest" by (metis append_take_drop_id)
  moreover have "?auth \<noteq> []" "length ?auth < 2 ^ 64" using n bounds by auto
  ultimately show ?thesis using creation_release_head [of "''packed''" ?auth] creation_auth_data [OF id] by simp
qed

end
