(* ===== verification/Ctap_Run.thy ===== *)
theory Ctap_Run
  imports Ctap_Calm Ctap_Response_Exact
begin

text \<open>
  Sign counters over the histories of CTAP messages: every handler kept the invariant of the store
  histories, and the counter in a response is the one that was reserved and published.
\<close>

section \<open>The calm parts of the handlers\<close>

lemma calm_updating [calm]:
  "(\<And>app. app_store (g app) = app_store app) \<Longrightarrow> calm_cmd content (updating g)"
  by (simp add: calm_cmd_def updating_def)

lemma queue_clear_store [simp]:
  "app_store (zf_ctap_assertion_queue_clear app) = app_store app"
  "app_store (zf_ctap_assertion_queue_clear_if_current a b c d e app) = app_store app"
  by (simp_all add: zf_ctap_assertion_queue_clear_def zf_ctap_assertion_queue_clear_if_current_def)

lemma calm_fail_if [calm]: "calm_cmd content (\<lambda>app. fail_if (c app) status app)"
  by (simp add: calm_cmd_def fail_if_def fail_with_def ret_def)

lemma calm_get_assertion_checks:
  assumes "quiet_env content env"
  shows "calm_cmd content (get_assertion_checks env session_id data)"
  unfolding get_assertion_checks_def Let_def
  by (intro calm calm_approval [OF assms] calm_require_pin_auth [OF assms]) (auto intro: calm split: prod.split)

lemma calm_make_credential_checks:
  assumes "quiet_env content env"
  shows "calm_cmd content (make_credential_checks env session_id data)"
  unfolding make_credential_checks_def Let_def
  by (intro calm calm_approval [OF assms] calm_require_pin_auth [OF assms]) (auto intro: calm split: prod.split)

lemma still_attestation:
  assumes plat: "ctap_platform hal content" and q: "q \<notin> profile_paths zf_attestation_local_profile"
  shows "content (snd (snd (zf_attestation_ensure_ready hal cache w))) q = content w q"
    "content (snd (snd (zf_attestation_get_leaf_cert_der_len hal cache w))) q = content w q"
    "content (snd (zf_attestation_load_leaf_cert_der hal n w)) q = content w q"
    "content (snd (zf_attestation_sign_parts hal a b n w)) q = content w q"
proof -
  note laws = ctap_platform_laws [OF plat]
  show len: "content (snd (snd (zf_attestation_get_leaf_cert_der_len hal cache w))) q = content w q" for cache w
    using laws(3) by (simp add: zf_attestation_get_leaf_cert_der_len_def zf_local_attestation_get_cert_size_def split_def
        frame_read split: option.split)
  show "content (snd (snd (zf_attestation_ensure_ready hal cache w))) q = content w q"
    by (simp add: zf_attestation_ensure_ready_def split_def len frame_ensure_assets [OF laws(2) q]
        split: bool.split option.split)
  show "content (snd (zf_attestation_load_leaf_cert_der hal n w)) q = content w q"
    using laws(3) by (simp add: zf_attestation_load_leaf_cert_der_def zf_local_attestation_load_cert_def frame_read_file)
  show "content (snd (zf_attestation_sign_parts hal a b n w)) q = content w q"
    by (simp add: zf_attestation_sign_parts_def zf_local_attestation_load_private_key_def split_def
        profile_frame [OF laws(2) q] still [OF plat] split: option.split)
qed

lemma calm_make_credential_response:
  assumes "quiet_env content env"
  shows "calm_cmd content (make_credential_response env request capabilities record uv_verified)"
proof -
  note plat = quiet_env_laws(1) [OF assms]
  have st: "content (snd (snd (packed_statement (ce_hal env) a c enc cache w))) q = content w q"
    if "q \<notin> profile_paths zf_attestation_local_profile" for a c enc cache w q
    by (simp add: packed_statement_def split_def still_attestation [OF plat that] split: bool.split option.split)
  have "calm content w (snd (snd (zf_ctap_build_packed_make_credential_response_with_scratch (ce_hal env) rp record
      c uv cp hs out n cache w)))" for rp c uv cp hs out n cache w
    by (simp add: calm_def zf_ctap_build_packed_make_credential_response_with_scratch_def Let_def split_def
        st [OF cred_path_not_attestation] split: option.split sum.split bool.split)
  then show ?thesis by (simp add: calm_cmd_def make_credential_response_def Let_def split_def)
qed

section \<open>Creating a credential\<close>

text \<open>The history without the credentials that were removed from the index.\<close>

definition forget :: "ZfCredentialStore \<Rightarrow> ZfCredentialStore \<Rightarrow> (bytes \<times> u32) list \<Rightarrow> (bytes \<times> u32) list" where
  "forget s s' us = filter (\<lambda>u. index_view s' (fst u) \<noteq> None \<or> index_view s (fst u) = None) us"

lemma forget_same [simp]: "forget s s us = us"
  by (simp add: forget_def del: not_None_eq)

lemma run_inv_filter: "run_inv hal content us s w \<Longrightarrow> run_inv hal content (filter f us) s w"
proof -
  have "sorted_wrt beyond (map snd (filter (\<lambda>u. fst u = c) (filter f us)))"
    if "sorted_wrt beyond (map snd (filter (\<lambda>u. fst u = c) us))" for c
    using sorted_wrt_filter [of "\<lambda>a b. beyond (snd a) (snd b)" "filter (\<lambda>u. fst u = c) us" f] that
    by (simp add: sorted_wrt_map conj_commute)
  then show "run_inv hal content us s w \<Longrightarrow> ?thesis" by (auto simp: run_inv_def)
qed

definition good :: "'w hal \<Rightarrow> ('w \<Rightarrow> path \<rightharpoonup> bytes) \<Rightarrow> (bytes \<times> u32) list \<Rightarrow> ZfCredentialStore \<Rightarrow> 'w \<Rightarrow> bool" where
  "good hal content us s w \<longleftrightarrow> run_inv hal content us s w \<and> store_wf s"

lemma good_calm: "good hal content us s w \<Longrightarrow> calm content w w' \<Longrightarrow> good hal content us s w'"
  using run_inv_calm by (auto simp: good_def)

lemma run_inv_new_files:
  assumes "run_inv hal content us s w"
    and "\<And>j N. length j = 32 \<Longrightarrow> low hal (content w) j N \<Longrightarrow> low hal (content w') j N"
    and "\<And>j N. length j = 32 \<Longrightarrow> j \<in> fst ` set us \<Longrightarrow> floor_at hal (content w) j N \<Longrightarrow> floor_at hal (content w') j N"
  shows "run_inv hal content us s w'"
proof -
  have "entries_low hal content s w'"
    using assms(1,2) by (auto simp: run_inv_def entries_low_def entry_wf_def ZF_CREDENTIAL_ID_LEN_def)
  moreover have "length c = 32 \<and> floor_at hal (content w') c (zf_counter_reserved_high_water n)"
    if "(c, n) \<in> set us" for c n
  proof -
    have "length c = 32" "floor_at hal (content w) c (zf_counter_reserved_high_water n)"
      using assms(1) that by (auto simp: run_inv_def)
    moreover have "c \<in> fst ` set us" using that by force
    ultimately show ?thesis using assms(3) by blast
  qed
  ultimately show ?thesis using assms(1) by (auto simp: run_inv_def)
qed

lemma removed_own_file:
  assumes plat: "store_platform hal content" and inv: "run_inv hal content us s w" and r: "record_named r"
    and new: "cr_credential_id r \<notin> fst ` set us"
  shows "run_inv hal content us s (snd (zf_store_remove_record_file hal r w))"
proof -
  have c: "length (cr_credential_id r) = 32" "cr_in_use r"
    "cr_file_name r = zf_store_record_format_hex_encode (cr_credential_id r)"
    using r by (simp_all add: record_named_def)
  have "cr_file_name r \<noteq> []" "take 64 (cr_file_name r) = cr_file_name r"
    using c by (auto simp: length_0_conv [symmetric] simp del: length_0_conv)
  then have rm: "zf_store_remove_record_file hal r w =
      zf_store_recovery_remove_record_paths hal (zf_store_record_format_hex_encode (cr_credential_id r)) w"
    using c by (simp add: zf_store_remove_record_file_def)
  obtain ok w' where w': "zf_store_recovery_remove_record_paths hal
      (zf_store_record_format_hex_encode (cr_credential_id r)) w = (ok, w')" by fastforce
  note keep = deletion_keeps [OF plat c(1) w']
  have "run_inv hal content us s w'"
  proof (rule run_inv_new_files [OF inv])
    fix j :: bytes and N
    assume j: "length j = 32"
    show "low hal (content w) j N \<Longrightarrow> low hal (content w') j N" by (rule keep(1) [OF j])
    assume "j \<in> fst ` set us"
    then have "j \<noteq> cr_credential_id r" using new by blast
    then show "floor_at hal (content w) j N \<Longrightarrow> floor_at hal (content w') j N" using keep(2) [OF j] by blast
  qed
  then show ?thesis using rm w' by simp
qed

lemma removed_residents:
  assumes plat: "store_platform hal content" and inv: "good hal content us s w"
    and ds: "sorted_wrt (<) ds" "\<forall>d \<in> set ds. d < cs_count s"
    and rm: "zf_store_remove_credential_files_by_indices hal s ds w = ((ok, n), w')"
  defines "s' \<equiv> zf_store_publish_deleted_indices s (take n ds)"
  shows "good hal content (forget s s' us) s' w'" "ok \<Longrightarrow> n = length ds"
    "index_view s' = index_view s |` (- ids_at s (take n ds))" "n = 0 \<Longrightarrow> s' = s"
proof -
  have wf: "store_wf s" and run: "run_inv hal content us s w" using inv by (simp_all add: good_def)
  have awf: "array_wf s" "list_all entry_wf (cs_entries s)" using wf by (simp_all add: store_wf_def)
  have ds': "sorted_wrt (<) (take n ds)" "\<forall>d \<in> set (take n ds). d < cs_count s"
    using ds by (auto simp: sorted_wrt_take dest: in_set_takeD)
  note pub = publish_deleted [OF wf ds', folded s'_def]
  show view: "index_view s' = index_view s |` (- ids_at s (take n ds))" using pub by blast
  show "n = 0 \<Longrightarrow> s' = s" by (simp add: s'_def zf_store_publish_deleted_indices_def)
  have keep: "(\<forall>j N. length j = 32 \<longrightarrow> low hal (content w) j N \<longrightarrow> low hal (content w') j N) \<and>
    (\<forall>j N. length j = 32 \<longrightarrow> j \<notin> ids_at s (take n ds) \<longrightarrow>
      floor_at hal (content w) j N \<longrightarrow> floor_at hal (content w') j N) \<and> (ok \<longrightarrow> n = length ds)"
  proof (cases "cs_records s")
    case None
    then show ?thesis using rm by (auto simp: zf_store_remove_credential_files_by_indices_def)
  next
    case (Some xs)
    then have "remove_files hal s ds 0 w = ((ok, n), w')"
      using rm by (simp add: zf_store_remove_credential_files_by_indices_def)
    from remove_files_keep [OF plat awf this] show ?thesis by simp
  qed
  then show "ok \<Longrightarrow> n = length ds" by blast
  have gone: "c \<notin> ids_at s (take n ds)" if "c \<in> fst ` set (forget s s' us)" for c
  proof
    assume c: "c \<in> ids_at s (take n ds)"
    then have "index_view s' c = None" using view by simp
    moreover have "index_view s c \<noteq> None"
    proof -
      obtain i where "i \<in> set (take n ds)" and i: "c = ie_credential_id (cs_entries s ! i)" using c by blast
      then have "cs_entries s ! i \<in> set (cs_entries s)" using ds'(2) length_entries [OF awf(1)] by (intro nth_mem) simp
      then show ?thesis unfolding i index_view_def map_of_eq_None_iff by force
    qed
    ultimately show False using that by (auto simp: forget_def)
  qed
  have "run_inv hal content (forget s s' us) s w'"
    by (rule run_inv_new_files [OF run_inv_filter [OF run, of "\<lambda>u. index_view s' (fst u) \<noteq> None \<or> index_view s (fst u) = None",
      folded forget_def]]) (use keep gone in blast)+
  then have "run_inv hal content (forget s s' us) s' w'"
    by (rule run_inv_entries) (use pub in \<open>auto simp: store_wf_def\<close>)
  then show "good hal content (forget s s' us) s' w'" using pub by (simp add: good_def)
qed

text \<open>The publication: what ends up in the index is in order, whichever step fails.\<close>

definition fresh_record :: "(bytes \<times> u32) list \<Rightarrow> ZfCredentialStore \<Rightarrow> ZfCredentialRecord \<Rightarrow> bool" where
  "fresh_record us s r \<longleftrightarrow> record_named r \<and> cr_sign_count r = 0 \<and> index_view s (cr_credential_id r) = None \<and>
    cr_credential_id r \<notin> fst ` set us"

lemma added_good:
  assumes "good hal content us s w" "fresh_record us s r" "zf_store_publish_added_record heap s r = (ok, s')"
  shows "good hal content us s' w" "\<not> ok \<Longrightarrow> index_view s' = index_view s"
    "ok \<Longrightarrow> index_view s' = (index_view s)(cr_credential_id r \<mapsto> zf_store_index_entry_from_record r)"
proof -
  have wf: "store_wf s" and inv: "run_inv hal content us s w" using assms(1) by (simp_all add: good_def)
  have r: "record_named r" "cr_sign_count r = 0" "index_view s (cr_credential_id r) = None"
    "cr_in_use r" "length (cr_credential_id r) = ZF_CREDENTIAL_ID_LEN"
    using assms(2) by (simp_all add: fresh_record_def record_named_def ZF_CREDENTIAL_ID_LEN_def)
  note spec = publish_added_spec [OF wf assms(3)]
  show "good hal content us s' w"
    using added_inv [OF inv r(1,2) assms(3)] spec r by (cases ok) (simp_all add: good_def)
  show "\<not> ok \<Longrightarrow> index_view s' = index_view s" using spec(1) by blast
  show "ok \<Longrightarrow> index_view s' = (index_view s)(cr_credential_id r \<mapsto> zf_store_index_entry_from_record r)"
    using spec(2) r by blast
qed

text \<open>What a creation does to the index: residents may go, and a success adds exactly the new credential.\<close>

definition thinned :: "ZfCredentialStore \<Rightarrow> ZfCredentialStore \<Rightarrow> bool" where
  "thinned s s' \<longleftrightarrow> (\<exists>D. index_view s' = index_view s |` D)"

definition registered :: "ZfCredentialStore \<Rightarrow> ZfCredentialStore \<Rightarrow> ZfCredentialRecord \<Rightarrow> bool" where
  "registered s s' r \<longleftrightarrow> index_view s (cr_credential_id r) = None \<and>
    (\<exists>D. index_view s' = (index_view s |` D)(cr_credential_id r \<mapsto> zf_store_index_entry_from_record r))"

lemma thinned_refl [simp]: "thinned s s"
  unfolding thinned_def by (rule exI [of _ UNIV]) (simp add: restrict_map_def)

lemma published_credential:
  assumes plat: "store_platform (ce_hal env) content" and inv: "good (ce_hal env) content us (app_store app) w"
    and fresh: "fresh_record us (app_store app) r"
    and pub: "make_credential_publish env request r app w = (x, app', w')"
  shows "good (ce_hal env) content (forget (app_store app) (app_store app') us) (app_store app') w' \<and>
    (case x of Inl _ \<Rightarrow> thinned (app_store app) (app_store app') | Inr _ \<Rightarrow> registered (app_store app) (app_store app') r)"
proof -
  let ?hal = "ce_hal env" and ?s = "app_store app" and ?rk = "mc_has_rk request \<and> mc_rk request"
  have run: "run_inv ?hal content us ?s w" and wf: "store_wf ?s" using inv by (simp_all add: good_def)
  obtain found_ok ds w1 where find: "(if ?rk then zf_store_find_resident_credential_indices_for_user_with_buffer ?hal ?s
      (mc_rp_id request) (mc_user_id request) ZF_MAX_CREDENTIALS (ce_store_io env) w else ((True, []), w)) =
      ((found_ok, ds), w1)" by (metis prod.collapse)
  have ds: "run_inv ?hal content us ?s w1" "sorted_wrt (<) ds" "\<forall>d \<in> set ds. d < cs_count ?s"
    using find found_residents [OF plat run] run by (auto split: if_split_asm)
  let ?full = "\<not> (if cs_count ?s \<ge> length ds then cs_count ?s - length ds else cs_count ?s) < ZF_MAX_CREDENTIALS"
  show ?thesis
  proof (cases "\<not> found_ok \<or> ?full")
    case True
    then have "app' = app \<and> w' = w1 \<and> (\<exists>status. x = Inl status)"
      using pub unfolding make_credential_publish_def Let_def find by (cases found_ok) auto
    then show ?thesis using ds(1) wf by (auto simp: good_def)
  next
    case False
    obtain wrote w2 where wr: "zf_store_write_record_file_with_buffer ?hal r (ce_store_io env) w1 = (wrote, w2)" by fastforce
    have r: "record_named r" "cr_credential_id r \<notin> fst ` set us" "index_view ?s (cr_credential_id r) = None"
      using fresh by (simp_all add: fresh_record_def)
    note new = r(3)
    have g2: "good ?hal content us ?s w2"
      using written_inv [OF plat ds(1) r(1,3) wr] wf by (simp add: good_def)
    obtain rm_ok n w3 where rm: "(if ?rk \<and> length ds > 0 then zf_store_remove_credential_files_by_indices ?hal ?s ds w2
        else ((True, length ds), w2)) = ((rm_ok, n), w3)" by (metis prod.collapse)
    let ?s1 = "zf_store_publish_deleted_indices ?s (take n ds)"
    have "good ?hal content (forget ?s ?s1 us) ?s1 w3 \<and> index_view ?s1 = index_view ?s |` (- ids_at ?s (take n ds)) \<and>
      (n = 0 \<longrightarrow> ?s1 = ?s)"
    proof (cases "?rk \<and> length ds > 0")
      case True
      then show ?thesis using rm removed_residents [OF plat g2 ds(2,3), of rm_ok n w3] by simp
    next
      case f: False
      then have "ds = []" "w3 = w2" "n = 0" using rm find by (auto split: if_split_asm)
      then show ?thesis using g2 by (simp add: zf_store_publish_deleted_indices_def restrict_map_def)
    qed
    then have g3: "good ?hal content (forget ?s ?s1 us) ?s1 w3"
      and view: "index_view ?s1 = index_view ?s |` (- ids_at ?s (take n ds))" and none: "n = 0 \<Longrightarrow> ?s1 = ?s" by blast+
    have own: "cr_credential_id r \<notin> fst ` set (forget ?s ?s1 us)" using r(2) by (auto simp: forget_def)
    have fresh1: "fresh_record (forget ?s ?s1 us) ?s1 r"
      using fresh own view by (simp add: fresh_record_def restrict_map_def)
    obtain added s2 where add: "zf_store_publish_added_record (ce_heap env) ?s1 r = (added, s2)" by fastforce
    note a = added_good [OF g3 fresh1 add]
    have same: "forget ?s s2 us = forget ?s ?s1 us"
      using a(2,3) r(2,3) by (cases added) (auto simp: forget_def intro!: filter_cong)
    have after: "good ?hal content us' s' (snd (zf_store_remove_record_file ?hal r w3))"
      if "good ?hal content us' s' w3" "us' = forget ?s ?s1 us" for us' s'
      using that removed_own_file [OF plat _ r(1) own, of s'] by (simp add: good_def)
    note steps = pub [unfolded make_credential_publish_def Let_def find]
    show ?thesis
    proof (cases wrote)
      case nw: False
      then have "app' = app \<and> w' = w2 \<and> (\<exists>status. x = Inl status)" using steps False wr by auto
      then show ?thesis using g2 by auto
    next
      case w: True
      show ?thesis
      proof (cases rm_ok)
        case nr: False
        then have "app_store app' = ?s1 \<and> w' = snd (zf_store_remove_record_file ?hal r w3) \<and> (\<exists>status. x = Inl status)"
          using steps False wr rm w none by (auto split: if_split_asm)
        then show ?thesis using after [OF g3 refl] view by (auto simp: thinned_def)
      next
        case r: True
        have rmn: "(if 0 < n then ?s1 else ?s) = ?s1" using none by simp
        have end_state: "app_store app' = s2 \<and> w' = (if added then w3 else snd (zf_store_remove_record_file ?hal r w3)) \<and>
            (if added then x = Inr () else (\<exists>status. x = Inl status))"
          using steps False wr rm w r rmn add by (cases added) auto
        have views: "added \<Longrightarrow> registered ?s s2 r" "\<not> added \<Longrightarrow> thinned ?s s2"
          using a(2,3) view new by (auto simp: registered_def thinned_def)
        show ?thesis using end_state a(1) after [OF a(1) refl] same views by (cases added) auto
      qed
    qed
  qed
qed

text \<open>Up to the publication nothing happens to the credentials, except that their counter floors may rise.\<close>

definition kept :: "'w hal \<Rightarrow> ('w \<Rightarrow> path \<rightharpoonup> bytes) \<Rightarrow> (bytes \<times> u32) list \<Rightarrow> ZfCredentialStore \<Rightarrow> CtapApp \<Rightarrow> 'w \<Rightarrow> bool" where
  "kept hal content us s app w \<longleftrightarrow> app_store app = s \<and> good hal content us s w"

lemma kept_flags [simp]:
  "kept hal content us s (app\<lparr>app_maintenance_busy := b\<rparr>) w = kept hal content us s app w"
  "kept hal content us s (app\<lparr>app_command_scratch_in_use := b\<rparr>) w = kept hal content us s app w"
  by (simp_all add: kept_def)

lemma kept_calm:
  assumes "calm_cmd content m"
  shows "triple (kept hal content us s) m (\<lambda>_. kept hal content us s) (\<lambda>_. kept hal content us s)"
  by (rule tripleI) (use calm_cmdD [OF assms] good_calm [of hal content us] in \<open>auto simp: kept_def\<close>)

lemma visible_match_keeps:
  assumes plat: "store_platform hal content"
  shows "run_inv hal content us s w \<Longrightarrow> \<forall>i \<in> set is. i < cs_count s \<Longrightarrow>
    visible_match hal s rp_id uv buffer is w = (b, w') \<Longrightarrow> run_inv hal content us s w'"
proof (induction "is" arbitrary: w)
  case (Cons i "is")
  have awf: "array_wf s" using Cons.prems(1) by (simp add: run_inv_def entries_low_def)
  let ?e = "the (cs_records s) ! i"
  have "?e \<in> set (cs_entries s)"
    using Cons.prems(2) entries_nth [OF awf, of i] length_entries [OF awf] nth_mem [of i "cs_entries s"] by simp
  obtain r w1 where ld: "zf_store_load_record_with_buffer hal ?e buffer w = (r, w1)" by fastforce
  note inv = run_inv_load [OF plat Cons.prems(1) \<open>?e \<in> set (cs_entries s)\<close> ld]
  show ?case using Cons.prems ld inv Cons.IH [OF inv] Cons.IH [OF Cons.prems(1)]
    by (auto simp: Let_def split: if_split_asm option.split_asm)
qed simp

lemma excluded_keeps:
  assumes quiet: "quiet_env content env"
  shows "triple (kept (ce_hal env) content us s) (make_credential_excluded env request uv_verified)
    (\<lambda>_. kept (ce_hal env) content us s) (\<lambda>_. kept (ce_hal env) content us s)"
  unfolding make_credential_excluded_def
proof (rule triple_with_maintenance, rule tripleI)
  fix app w r app' w'
  note plat = ctap_platform_laws(1) [OF quiet_env_laws(1) [OF quiet]]
  assume k: "kept (ce_hal env) content us s app w"
    and r: "on_world (\<lambda>app. zf_ctap_exclude_list_has_visible_match (ce_hal env) (app_store app)
      (mc_rp_id request) (mc_exclude_list request) uv_verified (ce_store_io env)) app w = (Inr r, app', w')"
  have wf: "store_wf s" using k by (simp add: kept_def good_def)
  let ?is = "zf_store_find_by_rp_filtered s (mc_rp_id request)
    (Some (zf_ctap_store_entry_matches_descriptor_list (mc_exclude_list request))) ZF_MAX_CREDENTIALS"
  have bound: "\<forall>i \<in> set ?is. i < cs_count s"
    using collect_sorted_spec [OF wf] count_bound wf
    by (force simp: zf_store_find_by_rp_filtered_def Let_def store_wf_def)
  have "w' = w \<or> visible_match (ce_hal env) s (mc_rp_id request) uv_verified (ce_store_io env) ?is w = (r, w')"
    using r k by (auto simp: on_world_def zf_ctap_exclude_list_has_visible_match_def kept_def split: if_split_asm prod.split_asm)
  then have "run_inv (ce_hal env) content us s w'"
    using k visible_match_keeps [OF plat _ bound] by (auto simp: kept_def good_def)
  then show "kept (ce_hal env) content us s app' w'"
    using r wf k by (auto simp: on_world_def kept_def good_def split: prod.split_asm)
qed (simp_all add: on_world_def split_def)

lemma prepared_record:
  assumes "zf_store_prepare_credential rtc hal rp u n d rk w = (Some r, w')" and "enclave_lawful hal"
  shows "record_named r" "cr_sign_count r = 0"
proof -
  have "length (fst (random_fill hal k v)) = k" for k v using assms(2) by (simp add: enclave_lawful_def)
  then show "record_named r" "cr_sign_count r = 0"
    using assms(1) by (auto simp: zf_store_prepare_credential_def record_named_def ZF_CREDENTIAL_ID_LEN_def zero_record_def
        split: if_split_asm prod.split_asm) (metis fst_conv)+
qed

lemma prepared_keeps:
  assumes quiet: "quiet_env content env"
  shows "triple (kept (ce_hal env) content us s) (make_credential_prepared env session_id data)
    (\<lambda>(_, _, _, r) app w. kept (ce_hal env) content us s app w \<and> record_named r \<and> cr_sign_count r = 0)
    (\<lambda>_. kept (ce_hal env) content us s)"
proof -
  note plat = quiet_env_laws(1) [OF quiet]
  let ?K = "kept (ce_hal env) content us s"
  have new: "triple ?K (some_or ZF_CTAP_ERR_INVALID_PARAMETER (on_world (\<lambda>_. zf_store_prepare_credential (ce_rtc env)
      (ce_hal env) rp u n d rk))) (\<lambda>r app w. ?K app w \<and> record_named r \<and> cr_sign_count r = 0) (\<lambda>_. ?K)" for rp u n d rk
  proof (rule triple_some_or)
    show "triple ?K (on_world (\<lambda>_. zf_store_prepare_credential (ce_rtc env) (ce_hal env) rp u n d rk))
      (\<lambda>r app w. ?K app w \<and> (\<forall>x. r = Some x \<longrightarrow> record_named x \<and> cr_sign_count x = 0)) (\<lambda>_. ?K)"
    proof (rule tripleI)
      fix app w r app' w'
      assume k: "?K app w" and r: "on_world (\<lambda>_. zf_store_prepare_credential (ce_rtc env) (ce_hal env) rp u n d rk) app w =
        (Inr r, app', w')"
      then have p: "zf_store_prepare_credential (ce_rtc env) (ce_hal env) rp u n d rk w = (r, w')" "app' = app"
        by (auto simp: on_world_def split: prod.split_asm)
      have "content (snd (zf_store_prepare_credential (ce_rtc env) (ce_hal env) rp u n d rk w)) = content w"
        by (simp add: zf_store_prepare_credential_def split_def still [OF plat])
      then have "calm content w w'" using p by (simp add: calm_def)
      then show "?K app' w' \<and> (\<forall>x. r = Some x \<longrightarrow> record_named x \<and> cr_sign_count x = 0)"
        using k p prepared_record [of "ce_rtc env" "ce_hal env" rp u n d rk w _ w']
          store_platform_lawful(2) [OF ctap_platform_laws(1) [OF plat]] good_calm [of "ce_hal env" content us]
        by (auto simp: kept_def)
    qed (simp add: on_world_def split_def)
  qed auto
  note step = triple_then_ok [where Q = "\<lambda>_. ?K" and E = "\<lambda>_. ?K"]
  show ?thesis
    unfolding make_credential_prepared_def
    by (intro step triple_case_prod triple_then_ok [OF new] excluded_keeps [OF quiet]
        kept_calm [OF calm_make_credential_checks [OF quiet]] kept_calm [OF calm_poll [OF quiet]]
        kept_calm [OF calm_if [OF calm_approval(4) [OF quiet] calm_basic(1)]] triple_ret)
      (simp add: record_named_def)
qed

definition in_order :: "'w hal \<Rightarrow> ('w \<Rightarrow> path \<rightharpoonup> bytes) \<Rightarrow> (bytes \<times> u32) list \<Rightarrow> ZfCredentialStore \<Rightarrow> CtapApp \<Rightarrow> 'w \<Rightarrow> bool" where
  "in_order hal content us s app w \<longleftrightarrow> good hal content (forget s (app_store app) us) (app_store app) w \<and>
    thinned s (app_store app)"

definition created :: "'w hal \<Rightarrow> ('w \<Rightarrow> path \<rightharpoonup> bytes) \<Rightarrow> (bytes \<times> u32) list \<Rightarrow> ZfCredentialStore \<Rightarrow> bytes \<Rightarrow>
    CtapApp \<Rightarrow> 'w \<Rightarrow> bool" where
  "created hal content us s c app w \<longleftrightarrow> good hal content (forget s (app_store app) us) (app_store app) w \<and>
    (\<exists>r. cr_credential_id r = c \<and> registered s (app_store app) r)"

lemma in_order_flags [simp]:
  "in_order hal content us s (app\<lparr>app_maintenance_busy := b\<rparr>) w = in_order hal content us s app w"
  "in_order hal content us s (app\<lparr>app_command_scratch_in_use := b\<rparr>) w = in_order hal content us s app w"
  "created hal content us s c (app\<lparr>app_maintenance_busy := b\<rparr>) w = created hal content us s c app w"
  "created hal content us s c (app\<lparr>app_command_scratch_in_use := b\<rparr>) w = created hal content us s c app w"
  by (simp_all add: in_order_def created_def)

lemma kept_in_order: "kept hal content us s app w \<Longrightarrow> in_order hal content us s app w"
  by (auto simp: kept_def in_order_def)

lemma generated_fresh:
  assumes "zf_crypto_generate_credential_keypair hal r w = (Some r', w')"
  shows "fresh_record us s r' = fresh_record us s r"
proof -
  have "cr_credential_id r' = cr_credential_id r \<and> cr_in_use r' = cr_in_use r \<and> cr_file_name r' = cr_file_name r \<and>
    cr_sign_count r' = cr_sign_count r"
    using assms by (auto simp: zf_crypto_generate_credential_keypair_def split: prod.split_asm option.split_asm)
  then show ?thesis by (simp add: fresh_record_def record_named_def)
qed

text \<open>The record of a creation takes an identifier that is neither in the index nor in the history.\<close>

definition draws_unused :: "'w ctap_env \<Rightarrow> u32 \<Rightarrow> bytes \<Rightarrow> (bytes \<times> u32) list \<Rightarrow> CtapApp \<Rightarrow> 'w \<Rightarrow> bool" where
  "draws_unused env session_id data us app w \<longleftrightarrow>
    (case make_credential_prepared env session_id data (app\<lparr>app_command_scratch_in_use := True\<rparr>) w of
       (Inr (_, _, _, r), _, _) \<Rightarrow> index_view (app_store app) (cr_credential_id r) = None \<and>
         cr_credential_id r \<notin> fst ` set us
     | _ \<Rightarrow> True)"

text \<open>The response to a creation names the credential, in either format.\<close>

lemma response_names:
  assumes "make_credential_response env request capabilities record uv_verified app w = (Inr response, app', w')"
    and "ce_out_capacity env \<le> length (ce_out env)" and "length (cr_credential_id record) = 32"
  shows "creation_release response = Some (cr_credential_id record)"
  using assms(1) none_response [OF _ assms(2,3)] packed_response [OF _ assms(2,3)]
  by (auto simp: make_credential_response_def Let_def split: if_split_asm prod.split_asm)

lemma publish_step:
  assumes quiet: "quiet_env content env"
  shows "triple (\<lambda>a v. kept (ce_hal env) content us s a v \<and> fresh_record us s rec)
    (with_maintenance (make_credential_publish env rq rec))
    (\<lambda>_. created (ce_hal env) content us s (cr_credential_id rec)) (\<lambda>_. in_order (ce_hal env) content us s)"
proof (rule triple_with_maintenance)
  let ?hal = "ce_hal env"
  note plat = ctap_platform_laws(1) [OF quiet_env_laws(1) [OF quiet]]
  have "case y of Inl _ \<Rightarrow> in_order ?hal content us s a' v' | Inr _ \<Rightarrow> created ?hal content us s (cr_credential_id rec) a' v'"
    if "kept ?hal content us s a v \<and> fresh_record us s rec" "make_credential_publish env rq rec a v = (y, a', v')"
    for a v y a' v'
    using published_credential [OF plat _ _ that(2), of us] that(1)
    by (auto simp: kept_def in_order_def created_def split: sum.split)
  then show "triple (\<lambda>a v. kept ?hal content us s a v \<and> fresh_record us s rec) (make_credential_publish env rq rec)
      (\<lambda>_. created ?hal content us s (cr_credential_id rec)) (\<lambda>_. in_order ?hal content us s)"
    unfolding triple_def by fastforce
qed (use kept_in_order in auto)

lemma make_credential_in_order:
  fixes env :: "'w ctap_env"
  assumes quiet: "quiet_env content env" and cap: "ce_out_capacity env \<le> length (ce_out env)"
    and inv: "good (ce_hal env) content us (app_store app) w"
    and unused: "draws_unused env session_id data us app w"
    and r: "zf_ctap_handle_make_credential env session_id data app w = (x, app', w')"
  shows "case x of Inl _ \<Rightarrow> in_order (ce_hal env) content us (app_store app) app' w'
    | Inr response \<Rightarrow> \<exists>c. creation_release response = Some c \<and> created (ce_hal env) content us (app_store app) c app' w'"
proof -
  let ?hal = "ce_hal env" and ?s = "app_store app" and ?app = "app\<lparr>app_command_scratch_in_use := True\<rparr>"
  let ?K = "kept ?hal content us ?s" and ?G = "in_order ?hal content us ?s"
  let ?F = "\<lambda>rec a v. ?K a v \<and> fresh_record us ?s rec"
  let ?Q = "\<lambda>response a v. \<exists>c. creation_release response = Some c \<and> created ?hal content us ?s c a v"
  note plat = quiet_env_laws(1) [OF quiet]
  note weak = triple_weaken [where E' = "\<lambda>_. ?G"]
  have start: "triple (\<lambda>a v. a = ?app \<and> v = w) (make_credential_prepared env session_id data)
      (\<lambda>(_, _, _, rec). ?F rec) (\<lambda>_. ?G)"
  proof (rule tripleI, goal_cases)
    case (1 a v status a' v')
    have "?K ?app w" using inv by (simp add: kept_def)
    from kept_in_order [OF tripleD(1) [OF prepared_keeps [OF quiet] this]] show ?case using 1 by blast
  next
    case (2 a v y a' v')
    obtain rq c uv rec where y: "y = (rq, c, uv, rec)" by (cases y)
    show ?case using 2 tripleD(2) [OF prepared_keeps [OF quiet], of us ?s ?app w session_id data y a' v'] inv unused
      by (simp add: kept_def y fresh_record_def draws_unused_def)
  qed
  have calm_step: "triple (\<lambda>a v. ?F rec a v \<and> p) m (\<lambda>_ a v. ?F rec a v \<and> p) (\<lambda>_. ?G)"
    if "calm_cmd content m" for m :: "('r, 'w) cmd" and rec p
  proof (rule tripleI)
    note k = tripleD [OF kept_calm [OF that, of ?hal us ?s]]
    {
      fix a v status a' v'
      assume f: "?F rec a v \<and> p" and m: "m a v = (Inl status, a', v')"
      from f have "?K a v" by blast
      from k(1) [OF this m] show "?G a' v'" by (rule kept_in_order)
    next
      fix a v y a' v'
      assume f: "?F rec a v \<and> p" and m: "m a v = (Inr y, a', v')"
      from f have "?K a v" by blast
      from k(2) [OF this m] f show "?F rec a' v' \<and> p" by blast
    }
  qed
  have calm_step': "triple (?F rec) m (\<lambda>_. ?F rec) (\<lambda>_. ?G)" if "calm_cmd content m" for m :: "('r, 'w) cmd" and rec
    using calm_step [OF that, of rec True] by simp
  have gen: "triple (?F rec)
      (some_or ZF_CTAP_ERR_KEY_STORE_FULL (on_world (\<lambda>_. zf_crypto_generate_credential_keypair ?hal rec))) ?F (\<lambda>_. ?G)" for rec
  proof (rule triple_some_or, rule tripleI)
    fix a v y a' v'
    assume k: "?F rec a v"
      and "on_world (\<lambda>_. zf_crypto_generate_credential_keypair ?hal rec) a v = (Inr y, a', v')"
    then have g: "zf_crypto_generate_credential_keypair ?hal rec v = (y, v')" "a' = a"
      by (auto simp: on_world_def split: prod.split_asm)
    have "calm content v v'" using still_keys(3) [OF plat, of rec v] g by (simp add: calm_def)
    then show "?K a' v' \<and> (\<forall>z. y = Some z \<longrightarrow> fresh_record us ?s z)"
      using k g generated_fresh [of ?hal rec v] good_calm [of ?hal content us] by (auto simp: kept_def)
  qed (auto simp: on_world_def split_def kept_in_order)
  have respond: "triple (?F rec) (make_credential_response env rq cs rec uv)
      (\<lambda>response a v. ?F rec a v \<and> creation_release response = Some (cr_credential_id rec)) (\<lambda>_. ?G)" for rq cs rec uv
  proof (rule tripleI)
    fix a v response a' v'
    assume f: "?F rec a v" and m: "make_credential_response env rq cs rec uv a v = (Inr response, a', v')"
    have "length (cr_credential_id rec) = 32" using f by (simp add: fresh_record_def record_named_def)
    then show "?F rec a' v' \<and> creation_release response = Some (cr_credential_id rec)"
      using response_names [OF m cap] tripleD(2) [OF calm_step' [OF calm_make_credential_response [OF quiet], of rec] f m] by blast
  qed (use tripleD(1) [OF calm_step' [OF calm_make_credential_response [OF quiet]]] in blast)
  have publish: "triple (\<lambda>a v. ?F rec a v \<and> creation_release response = Some (cr_credential_id rec))
      (then_ok (with_maintenance (make_credential_publish env rq rec)) (\<lambda>_. ret response)) ?Q (\<lambda>_. ?G)" for rq rec response
  proof (cases "creation_release response = Some (cr_credential_id rec)")
    case True
    have "triple (?F rec) (then_ok (with_maintenance (make_credential_publish env rq rec)) (\<lambda>_. ret response)) ?Q (\<lambda>_. ?G)"
      by (rule triple_then_ok [OF publish_step [OF quiet]], rule triple_ret) (use True in blast)
    then show ?thesis unfolding triple_def by blast
  qed (simp add: triple_def)
  let ?rest = "\<lambda>(request, capabilities, uv_verified, record).
      then_ok (status_of (make_credential_approval env session_id request)) (\<lambda>_.
      then_ok (status_of (ce_poll env session_id)) (\<lambda>_.
      then_ok (some_or ZF_CTAP_ERR_KEY_STORE_FULL (on_world (\<lambda>_.
          zf_crypto_generate_credential_keypair (ce_hal env) record))) (\<lambda>record.
      then_ok (make_credential_response env request capabilities record uv_verified) (\<lambda>response.
      then_ok (status_of (ce_poll env session_id)) (\<lambda>_.
      then_ok (with_maintenance (make_credential_publish env request record)) (\<lambda>_.
      ret response))))))"
  let ?m = "then_ok (make_credential_prepared env session_id data) ?rest"
  have "triple (\<lambda>a v. a = ?app \<and> v = w) ?m ?Q (\<lambda>_. ?G)"
    by (rule triple_then_ok [OF start], clarsimp,
        rule triple_then_ok [OF calm_step' [OF calm_approval(3) [OF quiet]]],
        rule triple_then_ok [OF calm_step' [OF calm_poll [OF quiet]]],
        rule triple_then_ok [OF gen], rule triple_then_ok [OF respond],
        rule triple_then_ok [OF calm_step [OF calm_poll [OF quiet]]], rule publish)
  note inner = tripleD [OF this, of ?app w]
  show ?thesis
  proof (cases "app_command_scratch_in_use app \<or> \<not> ce_malloc env w")
    case True
    then have "(\<exists>status. x = Inl status) \<and> app' = app \<and> w' = w" using r
      by (auto simp: zf_ctap_handle_make_credential_def with_scratch_def zf_ctap_command_scratch_def
          zf_app_command_scratch_acquire_def)
    then show ?thesis using inv by (auto simp: in_order_def)
  next
    case False
    then obtain app1 where m: "?m ?app w = (x, app1, w')" "app' = zf_app_command_scratch_release app1"
      using r by (auto simp: zf_ctap_handle_make_credential_def with_scratch_def zf_ctap_command_scratch_def
          zf_app_command_scratch_acquire_def cleanup_def split: prod.split_asm)
    then show ?thesis using inner by (cases x) (auto simp: zf_app_command_scratch_release_def)
  qed
qed

end
