(* ===== verification/Ctap_History.thy ===== *)
theory Ctap_History
  imports Ctap_Run
begin

text \<open>
  Assertions in the history of CTAP messages: the counter a client reads in a response is the one that was
  reserved in the files and published in the index, and messages of every kind keep the history in order.
\<close>

section \<open>One assertion\<close>

text \<open>The record \<open>r\<close> was loaded from entry \<open>i\<close>, and since then nothing has happened to the credentials.\<close>

definition loaded :: "'w hal \<Rightarrow> ('w \<Rightarrow> path \<rightharpoonup> bytes) \<Rightarrow> bytes \<Rightarrow> (bytes \<times> u32) list \<Rightarrow> ZfCredentialStore \<Rightarrow>
    nat \<Rightarrow> ZfCredentialRecord \<Rightarrow> CtapApp \<Rightarrow> 'w \<Rightarrow> bool" where
  "loaded hal content buffer us s i r app w \<longleftrightarrow> app_store app = s \<and> store_wf s \<and> i < length (cs_entries s) \<and>
    cr_credential_id r = ie_credential_id (cs_entries s ! i) \<and>
    (\<exists>w0 w1. run_inv hal content us s w0 \<and>
      zf_store_load_record_with_buffer hal (cs_entries s ! i) buffer w0 = (Some r, w1) \<and> calm content w1 w)"

lemma loaded_keeps:
  assumes plat: "store_platform hal content" and l: "loaded hal content buffer us s i r app w"
  shows "kept hal content us s app w"
proof -
  obtain w0 w1 where w: "run_inv hal content us s w0" "calm content w1 w"
    and ld: "zf_store_load_record_with_buffer hal (cs_entries s ! i) buffer w0 = (Some r, w1)" and i: "i < length (cs_entries s)"
    using l by (auto simp: loaded_def)
  have "run_inv hal content us s w1" by (rule run_inv_load [OF plat w(1) nth_mem [OF i] ld])
  then show ?thesis using l w(2) run_inv_calm by (auto simp: kept_def good_def loaded_def)
qed

lemma loaded_calm:
  "loaded hal content buffer us s i r app w \<Longrightarrow> app_store app' = app_store app \<Longrightarrow> calm content w w' \<Longrightarrow>
    loaded hal content buffer us s i r app' w'"
  unfolding loaded_def using calm_trans by metis

text \<open>The index after an assertion: the counters of one credential have moved to the released value.\<close>

definition counted :: "ZfCredentialStore \<Rightarrow> ZfCredentialStore \<Rightarrow> bytes \<times> u32 \<Rightarrow> bool" where
  "counted s s' u \<longleftrightarrow> (\<exists>e k. index_view s (fst u) = Some e \<and> ie_sign_count e \<le> snd u \<and> snd u \<le> k \<and>
    index_view s' = (index_view s)(fst u \<mapsto> advanced e (snd u) k))"

lemma counted_dom: "counted s s' u \<Longrightarrow> dom (index_view s') = dom (index_view s)"
  unfolding counted_def by (elim exE conjE) (simp add: insert_absorb domI [of "index_view s"])

lemma advanced_counter:
  assumes plat: "store_platform hal content" and l: "loaded hal content buffer us s i r app w"
    and max: "cr_sign_count r \<noteq> 0xFFFFFFFF" and r': "r' = r\<lparr>cr_sign_count := cr_sign_count r + 1\<rparr>"
    and adv: "zf_store_prepare_counter_advance hal (cs_entries s ! i) r' buffer w = (h, w')"
  shows "kept hal content us s app w'"
    and "h = Some k \<Longrightarrow> zf_store_publish_counter_advance s r' k = (True, s') \<Longrightarrow>
      good hal content (us @ [(cr_credential_id r, cr_sign_count r + 1)]) s' w' \<and>
      counted s s' (cr_credential_id r, cr_sign_count r + 1)"
proof -
  obtain w0 w1 where w: "run_inv hal content us s w0" "calm content w1 w" and i: "i < length (cs_entries s)"
    and ld: "zf_store_load_record_with_buffer hal (cs_entries s ! i) buffer w0 = (Some r, w1)" and wf: "store_wf s"
    using l by (auto simp: loaded_def)
  note inv = asserted_inv [OF plat w(1) i ld max r' adv w(2)]
  show "kept hal content us s app w'" using l inv(1) wf by (simp add: kept_def good_def loaded_def)
  assume h: "h = Some k" and pub: "zf_store_publish_counter_advance s r' k = (True, s')"
  obtain e where spec: "index_view s (cr_credential_id r') = Some e" "store_wf s'"
    "index_view s' = (index_view s)(cr_credential_id r' \<mapsto> advanced e (cr_sign_count r') k)"
    using publish_advance_spec(2) [OF wf pub TrueI] by blast
  moreover have "ie_sign_count e \<le> cr_sign_count r'" "cr_sign_count r' \<le> k"
    using publish_advance_spec(2) [OF wf pub TrueI] spec(1) by auto
  ultimately show "good hal content (us @ [(cr_credential_id r, cr_sign_count r + 1)]) s' w' \<and>
      counted s s' (cr_credential_id r, cr_sign_count r + 1)"
    using inv(2) [OF h pub] r' by (auto simp: good_def counted_def)
qed

text \<open>What a handler leaves behind: the response released a counter that joins the history, or it failed.\<close>

definition released_from :: "'w hal \<Rightarrow> ('w \<Rightarrow> path \<rightharpoonup> bytes) \<Rightarrow> (bytes \<times> u32) list \<Rightarrow> ZfCredentialStore \<Rightarrow>
    bytes \<times> u32 \<Rightarrow> CtapApp \<Rightarrow> 'w \<Rightarrow> bool" where
  "released_from hal content us s u app w \<longleftrightarrow> good hal content (us @ [u]) (app_store app) w \<and>
    counted s (app_store app) u"

lemma released_flags [simp]:
  "released_from hal content us s u (app\<lparr>app_maintenance_busy := b\<rparr>) w = released_from hal content us s u app w"
  "released_from hal content us s u (app\<lparr>app_command_scratch_in_use := b\<rparr>) w = released_from hal content us s u app w"
  by (simp_all add: released_from_def)

lemma triple_loaded_calm:
  assumes plat: "store_platform hal content" and m: "calm_cmd content m"
  shows "triple (loaded hal content buffer us s i r) m (\<lambda>_. loaded hal content buffer us s i r) (\<lambda>_. kept hal content us s)"
proof (rule tripleI)
  fix app w status app' w'
  assume l: "loaded hal content buffer us s i r app w" and r: "m app w = (Inl status, app', w')"
  show "kept hal content us s app' w'" by (rule loaded_keeps [OF plat loaded_calm [OF l calm_cmdD [OF m r]]])
next
  fix app w x app' w'
  assume l: "loaded hal content buffer us s i r app w" and r: "m app w = (Inr x, app', w')"
  show "loaded hal content buffer us s i r app' w'" by (rule loaded_calm [OF l calm_cmdD [OF m r]])
qed

lemma still_assertion_response:
  assumes plat: "ctap_platform hal content"
  shows "content (snd (zf_ctap_hmac_secret_build_extension hal pin q r uv b n w)) = content w"
    "content (snd (zf_ctap_build_assertion_response_with_scratch hal q r up uv c d ic mc iu us ext out cap w)) = content w"
  by (simp_all add: zf_ctap_hmac_secret_build_extension_def zf_ctap_build_assertion_response_with_scratch_def Let_def
      split_def still [OF plat] split: option.split)

section \<open>getAssertion\<close>

lemma load_triple:
  assumes quiet: "quiet_env content env"
  shows "triple (kept (ce_hal env) content us s)
    (some_or status (on_world (zf_ctap_load_assertion_record env i rp)))
    (\<lambda>(r, e). \<lambda>app w. loaded (ce_hal env) content (ce_store_io env) us s i r app w \<and> e = cs_entries s ! i)
    (\<lambda>_. kept (ce_hal env) content us s)"
proof (rule triple_some_or)
  note plat = ctap_platform_laws(1) [OF quiet_env_laws(1) [OF quiet]]
  let ?K = "kept (ce_hal env) content us s" and ?L = "loaded (ce_hal env) content (ce_store_io env) us s i"
  show "triple ?K (on_world (zf_ctap_load_assertion_record env i rp))
    (\<lambda>x app w. ?K app w \<and> (\<forall>r e. x = Some (r, e) \<longrightarrow> ?L r app w \<and> e = cs_entries s ! i)) (\<lambda>_. ?K)"
  proof (rule tripleI)
    fix app w x app' w'
    assume k: "?K app w" and r: "on_world (zf_ctap_load_assertion_record env i rp) app w = (Inr x, app', w')"
    have app: "app' = app" "app_store app = s" "store_wf s" "run_inv (ce_hal env) content us s w"
      using k r by (auto simp: on_world_def kept_def good_def split: prod.split_asm)
    show "?K app' w' \<and> (\<forall>r e. x = Some (r, e) \<longrightarrow> ?L r app' w' \<and> e = cs_entries s ! i)"
    proof (cases "i \<ge> length (cs_entries s) \<or> \<not> ie_in_use (cs_entries s ! i)")
      case True
      then have "x = None \<and> w' = w" using r app
        by (simp add: on_world_def zf_ctap_load_assertion_record_def zf_ctap_snapshot_index_entry_locked_def Let_def)
      then show ?thesis using k app by simp
    next
      case False
      let ?e = "cs_entries s ! i"
      have i: "i < length (cs_entries s)" using False by simp
      obtain y w1 where ld: "zf_store_load_record_with_buffer (ce_hal env) ?e (ce_store_io env) w = (y, w1)" by fastforce
      have load: "zf_ctap_load_assertion_record env i rp app w = (case y of None \<Rightarrow> None | Some r \<Rightarrow>
          if cr_rp_id r \<noteq> rp \<or> \<not> zf_ctap_index_entry_matches_record ?e r then None else Some (r, ?e), w1)"
        using app False ld by (cases y) (simp_all add: zf_ctap_load_assertion_record_def
            zf_ctap_snapshot_index_entry_locked_def)
      then have w1: "w' = w1" using r by (simp add: on_world_def)
      have x: "y = Some r \<and> e = ?e \<and> cr_credential_id r = ie_credential_id ?e" if "x = Some (r, e)" for r e
        using r load that by (cases y) (auto simp: on_world_def zf_ctap_index_entry_matches_record_def split: if_split_asm)
      have "run_inv (ce_hal env) content us s w1" by (rule run_inv_load [OF plat app(4) nth_mem [OF i] ld])
      then have "?K app' w'" using w1 app by (simp add: kept_def good_def)
      moreover have "?L r app' w'" if "y = Some r" "cr_credential_id r = ie_credential_id ?e" for r
        unfolding loaded_def using that app i ld w1 by (intro conjI exI [of _ w] exI [of _ w1]) simp_all
      ultimately show ?thesis using x by blast
    qed
  qed (simp add: on_world_def split_def)
qed auto

lemma prepared_response:
  assumes plat: "ctap_platform (ce_hal env) content" and cap: "ce_out_capacity env \<le> length (ce_out env)"
    and p: "zf_prepare_assertion_response env q pin r up uv d c n us iu w = (x, w')"
  shows "calm content w w'" "x = Inr (count, response) \<Longrightarrow> length (cr_credential_id r) < 2 ^ 64 \<Longrightarrow>
    cr_sign_count r \<noteq> 0xFFFFFFFF \<and> count = cr_sign_count r + 1 \<and>
    assertion_release response = Some (cr_credential_id r, count)"
proof -
  have "content (snd (zf_prepare_assertion_response env q pin r up uv d c n us iu w)) = content w"
    by (simp add: zf_prepare_assertion_response_def Let_def split_def still_assertion_response [OF plat] split: sum.split)
  then show "calm content w w'" using p by (simp add: calm_def)
  assume x: "x = Inr (count, response)" and len: "length (cr_credential_id r) < 2 ^ 64"
  obtain ext w1 where b: "cr_sign_count r \<noteq> 0xFFFFFFFF" "count = cr_sign_count r + 1"
    "zf_ctap_build_assertion_response_with_scratch (ce_hal env) q r up uv count d c n iu us ext (ce_out env)
      (ce_out_capacity env) w1 = (Inr response, w')"
    using p x by (auto simp: zf_prepare_assertion_response_def Let_def split: if_split_asm sum.split_asm prod.split_asm)
  obtain m rest where "m \<le> 6" "length ext \<le> 123" "response = assertion_head m (cr_credential_id r)
      (assertion_auth_data (ar_rp_id q) up uv count ext) @ rest"
    using assertion_response_head [OF b(3) cap] by blast
  then have "assertion_release response = Some (cr_credential_id r, count)"
    using assertion_release_head [OF _ len] by blast
  then show "cr_sign_count r \<noteq> 0xFFFFFFFF \<and> count = cr_sign_count r + 1 \<and>
    assertion_release response = Some (cr_credential_id r, count)" using b by blast
qed

text \<open>A loaded record whose response carries the next counter.\<close>

definition answered :: "'w hal \<Rightarrow> ('w \<Rightarrow> path \<rightharpoonup> bytes) \<Rightarrow> bytes \<Rightarrow> (bytes \<times> u32) list \<Rightarrow> ZfCredentialStore \<Rightarrow>
    nat \<Rightarrow> ZfCredentialRecord \<Rightarrow> u32 \<Rightarrow> bytes \<Rightarrow> CtapApp \<Rightarrow> 'w \<Rightarrow> bool" where
  "answered hal content buffer us s i r count response app w \<longleftrightarrow> loaded hal content buffer us s i r app w \<and>
    cr_sign_count r \<noteq> 0xFFFFFFFF \<and> count = cr_sign_count r + 1 \<and>
    assertion_release response = Some (cr_credential_id r, count)"

lemma loaded_id:
  assumes "loaded hal content buffer us s i r app w"
  shows "length (cr_credential_id r) = 32" "index_view s (cr_credential_id r) \<noteq> None"
proof -
  have s: "store_wf s" "i < length (cs_entries s)" "cr_credential_id r = ie_credential_id (cs_entries s ! i)"
    using assms by (auto simp: loaded_def)
  have m: "cs_entries s ! i \<in> set (cs_entries s)" using s(2) by simp
  then show "length (cr_credential_id r) = 32"
    using s by (auto simp: store_wf_def list_all_iff entry_wf_def ZF_CREDENTIAL_ID_LEN_def)
  show "index_view s (cr_credential_id r) \<noteq> None"
    unfolding s(3) index_view_def map_of_eq_None_iff using m by force
qed

lemma load_and_prepare_triple:
  assumes quiet: "quiet_env content env" and cap: "ce_out_capacity env \<le> length (ce_out env)"
  shows "triple (kept (ce_hal env) content us s)
    (zf_ctap_load_and_prepare_assertion env q pin i up uv d c n us' iu)
    (\<lambda>(r, e, count, response). \<lambda>app w. answered (ce_hal env) content (ce_store_io env) us s i r count response app w \<and>
      e = cs_entries s ! i)
    (\<lambda>_. kept (ce_hal env) content us s)"
  unfolding zf_ctap_load_and_prepare_assertion_def
proof (rule triple_then_ok [OF load_triple [OF quiet]], clarify, rule triple_then_ok)
  note plat = quiet_env_laws(1) [OF quiet]
  let ?L = "loaded (ce_hal env) content (ce_store_io env) us s i"
  fix r e
  let ?m = "zf_prepare_assertion_response env q pin r up uv d c n us' iu"
  show "triple (\<lambda>app w. ?L r app w \<and> e = cs_entries s ! i) (lift_result ?m)
    (\<lambda>(count, response). \<lambda>app w. answered (ce_hal env) content (ce_store_io env) us s i r count response app w \<and>
      e = cs_entries s ! i) (\<lambda>_. kept (ce_hal env) content us s)"
  proof (rule tripleI)
    fix app w status app' w'
    assume l: "?L r app w \<and> e = cs_entries s ! i" and m: "lift_result ?m app w = (Inl status, app', w')"
    then have "?m w = (Inl status, w')" "app' = app" by (auto simp: lift_result_def split: prod.split_asm)
    from prepared_response(1) [OF plat cap this(1)] this(2)
    show "kept (ce_hal env) content us s app' w'"
      using loaded_keeps [OF ctap_platform_laws(1) [OF plat] loaded_calm [of "ce_hal env" content, OF conjunct1 [OF l] refl]] by simp
  next
    fix app w x app' w'
    assume l: "?L r app w \<and> e = cs_entries s ! i" and m: "lift_result ?m app w = (Inr x, app', w')"
    obtain count response where x: "x = (count, response)" by fastforce
    have p: "?m w = (Inr (count, response), w')" "app' = app" using m x by (auto simp: lift_result_def split: prod.split_asm)
    have len: "length (cr_credential_id r) < 2 ^ 64" using loaded_id(1) [OF conjunct1 [OF l]] by simp
    show "(case x of (count, response) \<Rightarrow> \<lambda>app w.
        answered (ce_hal env) content (ce_store_io env) us s i r count response app w \<and> e = cs_entries s ! i) app' w'"
      using prepared_response [OF plat cap p(1)] len loaded_calm [of "ce_hal env" content, OF conjunct1 [OF l] refl] l p(2) x
      by (simp add: answered_def)
  qed
qed (auto intro: triple_ret)

lemma answered_published:
  assumes plat: "store_platform hal content" and a: "answered hal content buffer us s i r count response app w"
    and adv: "zf_store_prepare_counter_advance hal (cs_entries s ! i) (r\<lparr>cr_sign_count := count\<rparr>) buffer w = (h, w')"
  shows "kept hal content us s app w'"
    and "h = Some k \<Longrightarrow> zf_store_publish_counter_advance s (r\<lparr>cr_sign_count := count\<rparr>) k = (True, app_store app') \<Longrightarrow>
      released_from hal content us s (cr_credential_id r, count) app' w'"
proof -
  have l: "loaded hal content buffer us s i r app w" and max: "cr_sign_count r \<noteq> 0xFFFFFFFF"
    and count: "count = cr_sign_count r + 1" using a by (simp_all add: answered_def)
  note adv' = advanced_counter [OF plat l max _ adv, folded count, OF refl]
  show "kept hal content us s app w'" by (rule adv'(1))
  show "h = Some k \<Longrightarrow> zf_store_publish_counter_advance s (r\<lparr>cr_sign_count := count\<rparr>) k = (True, app_store app') \<Longrightarrow>
      released_from hal content us s (cr_credential_id r, count) app' w'"
    unfolding released_from_def using adv'(2) [of k "app_store app'"] by blast
qed

lemma publish_triple:
  assumes quiet: "quiet_env content env"
  shows "triple (\<lambda>app w. answered (ce_hal env) content (ce_store_io env) us s i r count response app w)
    (zf_ctap_publish_assertion_counter env (cs_entries s ! i) r i count session_id request uv matches seed)
    (\<lambda>_. released_from (ce_hal env) content us s (cr_credential_id r, count)) (\<lambda>_. kept (ce_hal env) content us s)"
proof -
  note plat = ctap_platform_laws(1) [OF quiet_env_laws(1) [OF quiet]]
  let ?r = "r\<lparr>cr_sign_count := count\<rparr>" and ?hal = "ce_hal env"
  let ?m = "zf_ctap_publish_assertion_counter env (cs_entries s ! i) r i count session_id request uv matches seed"
  have "case x of Inl _ \<Rightarrow> kept ?hal content us s app' w'
      | Inr _ \<Rightarrow> released_from ?hal content us s (cr_credential_id r, count) app' w'"
    if a: "answered ?hal content (ce_store_io env) us s i r count response app w" and m: "?m app w = (x, app', w')"
    for app w x app' w'
  proof -
    have app: "app_store app = s" using a by (simp add: answered_def loaded_def)
    obtain h v where adv: "zf_store_prepare_counter_advance ?hal (cs_entries s ! i) ?r (ce_store_io env) w = (h, v)"
      by fastforce
    have "(\<exists>status. x = Inl status \<and> app' = app \<and> w' = v) \<or> (\<exists>k. x = Inr () \<and> h = Some k \<and> w' = v \<and>
        zf_store_publish_counter_advance s ?r k = (True, app_store app'))"
      using m adv app
      by (auto simp: zf_ctap_publish_assertion_counter_def Let_def some_or_def then_ok_def on_world_def ret_def fail_with_def
          zf_ctap_assertion_queue_seed_def split: option.split_asm if_split_asm prod.split_asm bool.split_asm)
    then show ?thesis using answered_published [OF plat a adv] by auto
  qed
  then show ?thesis unfolding triple_def by fastforce
qed

text \<open>The whole of an assertion under the maintenance gate.\<close>

abbreviation released_by :: "'w hal \<Rightarrow> ('w \<Rightarrow> path \<rightharpoonup> bytes) \<Rightarrow> (bytes \<times> u32) list \<Rightarrow> ZfCredentialStore \<Rightarrow> bytes \<Rightarrow>
    CtapApp \<Rightarrow> 'w \<Rightarrow> bool" where
  "released_by hal content us s response app w \<equiv>
    \<exists>u. assertion_release response = Some u \<and> released_from hal content us s u app w"

lemma finish_triple:
  assumes quiet: "quiet_env content env" and cap: "ce_out_capacity env \<le> length (ce_out env)"
  shows "triple (kept (ce_hal env) content us s)
    (zf_ctap_finish_assertion env session_id request pin matches selected up uv details sel poll)
    (released_by (ce_hal env) content us s) (\<lambda>_. kept (ce_hal env) content us s)"
proof -
  note plat = ctap_platform_laws(1) [OF quiet_env_laws(1) [OF quiet]]
  let ?K = "kept (ce_hal env) content us s"
  let ?A = "\<lambda>i r count response. answered (ce_hal env) content (ce_store_io env) us s i r count response"
  have choose: "triple ?K (case selected of Some record_index \<Rightarrow> ret (matches, record_index, 1)
        | None \<Rightarrow> then_ok (reading (\<lambda>app. zf_ctap_resolve_assertion_matches_snapshot app request uv))
            (\<lambda>found. if found = [] then fail_with ZF_CTAP_ERR_NO_CREDENTIALS
                     else ret (found, found ! 0, length found))) (\<lambda>_. ?K) (\<lambda>_. ?K)"
    by (rule kept_calm) (auto intro!: calm split: option.split)
  have polled: "triple (\<lambda>app w. ?A i r count response app w \<and> e = cs_entries s ! i)
      (if poll then status_of (ce_poll env session_id) else ret ())
      (\<lambda>_ app w. ?A i r count response app w \<and> e = cs_entries s ! i) (\<lambda>_. ?K)" for i r count response e
  proof -
    have "calm_cmd content (if poll then status_of (ce_poll env session_id) else ret ())" by (intro calm quiet)
    from triple_loaded_calm [OF plat this, of "ce_store_io env" us s i r] show ?thesis
      unfolding triple_def answered_def by blast
  qed
  have pub: "triple (\<lambda>app w. ?A i r count response app w \<and> e = cs_entries s ! i)
      (then_ok (zf_ctap_publish_assertion_counter env e r i count session_id request uv ms seed) (\<lambda>_. ret response))
      (released_by (ce_hal env) content us s) (\<lambda>_. ?K)" for i r count response e ms seed
  proof (cases "e = cs_entries s ! i \<and> assertion_release response = Some (cr_credential_id r, count)")
    case True
    have "triple (?A i r count response) (then_ok (zf_ctap_publish_assertion_counter env e r i count session_id request
        uv ms seed) (\<lambda>_. ret response)) (released_by (ce_hal env) content us s) (\<lambda>_. ?K)"
      by (rule triple_then_ok) (use True publish_triple [OF quiet] in \<open>auto intro: triple_ret\<close>)
    then show ?thesis unfolding triple_def by blast
  next
    case False
    then show ?thesis unfolding triple_def answered_def by blast
  qed
  show ?thesis
    unfolding zf_ctap_finish_assertion_def Let_def
    by (rule triple_with_maintenance, rule triple_then_ok [OF choose], clarify,
        rule triple_then_ok [OF load_and_prepare_triple [OF quiet cap]], clarify,
        rule triple_then_ok [OF polled], rule pub) simp_all
qed

lemma get_assertion_triple:
  assumes quiet: "quiet_env content env" and cap: "ce_out_capacity env \<le> length (ce_out env)"
  shows "triple (kept (ce_hal env) content us s) (zf_ctap_handle_get_assertion env session_id data)
    (released_by (ce_hal env) content us s) (\<lambda>_. kept (ce_hal env) content us s)"
  unfolding zf_ctap_handle_get_assertion_def Let_def
proof (rule triple_with_scratch, goal_cases)
  let ?K = "kept (ce_hal env) content us s"
  have step: "triple ?K m (\<lambda>_. ?K) (\<lambda>_. ?K)" if "calm_cmd content m" for m :: "('r, 'a) cmd"
    by (rule kept_calm [OF that])
  note finish = finish_triple [OF quiet cap] and poll = calm_poll [OF quiet]
  case 1
  show ?case
    by (intro triple_then_ok [OF step] triple_case_prod triple_if finish poll calm_basic(4)
        calm_get_assertion_checks [OF quiet] calm_approval(1) [OF quiet] calm_selection [OF quiet])
qed simp_all

section \<open>getNextAssertion\<close>

lemma triple_or_drop:
  assumes "triple P m Q E" "\<And>status app w a b c d. E status app w \<Longrightarrow> E status (zf_ctap_assertion_queue_clear app) w"
  shows "triple P (or_drop_queue session_id q m) Q E"
proof (rule tripleI)
  fix app w status app' w'
  assume p: "P app w" and "or_drop_queue session_id q m app w = (Inl status, app', w')"
  then obtain app1 where m: "m app w = (Inl status, app1, w')" and app': "app' = app1 \<or> app' = zf_ctap_assertion_queue_clear app1"
    by (auto simp: or_drop_queue_def zf_ctap_assertion_queue_clear_if_current_def split: prod.split_asm sum.split_asm if_split_asm)
  from tripleD(1) [OF assms(1) p m] show "E status app' w'" using app' assms(2) by blast
next
  fix app w x app' w'
  assume p: "P app w" and "or_drop_queue session_id q m app w = (Inr x, app', w')"
  then have "m app w = (Inr x, app', w')" by (auto simp: or_drop_queue_def split: prod.split_asm sum.split_asm)
  from tripleD(2) [OF assms(1) p this] show "Q x app' w'" .
qed

lemma kept_clear [simp]:
  "kept hal content us s (zf_ctap_assertion_queue_clear app) w = kept hal content us s app w"
  by (simp add: kept_def)

text \<open>What the snapshot took: the entry is the one the queue points at.\<close>

lemma snapshot_triple:
  "triple (kept hal content us s) (queue_snapshot hal' session_id)
    (\<lambda>(q, pin, e) app w. kept hal content us s app w \<and> e = cs_entries s ! (aq_record_indices q ! aq_index q) \<and>
      aq_record_indices q ! aq_index q < length (cs_entries s)) (\<lambda>_. kept hal content us s)"
proof (rule tripleI)
  fix app w x app' w'
  assume k: "kept hal content us s app w" and "queue_snapshot hal' session_id app w = (Inr x, app', w')"
  then show "(case x of (q, pin, e) \<Rightarrow> \<lambda>app w. kept hal content us s app w \<and>
      e = cs_entries s ! (aq_record_indices q ! aq_index q) \<and>
      aq_record_indices q ! aq_index q < length (cs_entries s)) app' w'"
    by (auto simp: queue_snapshot_def zf_ctap_assertion_queue_snapshot_entry_locked_def Let_def kept_def
        split: if_split_asm)
next
  fix app w status app' w'
  assume k: "kept hal content us s app w" and "queue_snapshot hal' session_id app w = (Inl status, app', w')"
  then have "(app' = app \<or> app' = zf_ctap_assertion_queue_clear app) \<and> w' = w"
    by (auto simp: queue_snapshot_def Let_def split: if_split_asm option.split_asm)
  then show "kept hal content us s app' w'" using k by auto
qed

lemma queue_load_triple:
  assumes quiet: "quiet_env content env" and i: "i < length (cs_entries s)"
  shows "triple (kept (ce_hal env) content us s) (queue_load env q (cs_entries s ! i))
    (\<lambda>r. loaded (ce_hal env) content (ce_store_io env) us s i r) (\<lambda>_. kept (ce_hal env) content us s)"
proof -
  note plat = ctap_platform_laws(1) [OF quiet_env_laws(1) [OF quiet]]
  let ?K = "kept (ce_hal env) content us s" and ?e = "cs_entries s ! i"
  let ?load = "zf_store_load_record_with_buffer (ce_hal env) ?e (ce_store_io env)"
  have "case x of Inl _ \<Rightarrow> ?K app' w' | Inr r \<Rightarrow> loaded (ce_hal env) content (ce_store_io env) us s i r app' w'"
    if k: "?K app w" and m: "queue_load env q ?e app w = (x, app', w')" for app w x app' w'
  proof -
    obtain y w1 where ld: "?load w = (y, w1)" by fastforce
    have s: "app_store app = s" "store_wf s" "run_inv (ce_hal env) content us s w" using k by (simp_all add: kept_def good_def)
    have inv: "run_inv (ce_hal env) content us s w1" by (rule run_inv_load [OF plat s(3) nth_mem [OF i] ld])
    have res: "app' = app \<and> w' = w1 \<and> ((\<exists>status. x = Inl status) \<or>
        (\<exists>r. x = Inr r \<and> y = Some r \<and> cr_credential_id r = ie_credential_id ?e))"
      using m ld by (cases y) (auto simp: queue_load_def some_or_def then_ok_def on_world_def ret_def fail_with_def
          zf_ctap_queue_entry_matches_record_def split: if_split_asm)
    have "?K app' w'" using res s inv by (simp add: kept_def good_def)
    moreover have "loaded (ce_hal env) content (ce_store_io env) us s i r app' w'"
      if "y = Some r" "cr_credential_id r = ie_credential_id ?e" for r
      unfolding loaded_def using that res s i ld by (intro conjI exI [of _ w] exI [of _ w1]) simp_all
    ultimately show ?thesis using res by (auto split: sum.split)
  qed
  then show ?thesis unfolding triple_def by fastforce
qed

lemma next_triple:
  assumes quiet: "quiet_env content env" and cap: "ce_out_capacity env \<le> length (ce_out env)"
  shows "triple (kept (ce_hal env) content us s) (zf_ctap_assertion_queue_handle_next env session_id)
    (released_by (ce_hal env) content us s) (\<lambda>_. kept (ce_hal env) content us s)"
proof -
  note plat = quiet_env_laws(1) [OF quiet] and store = ctap_platform_laws(1) [OF quiet_env_laws(1) [OF quiet]]
  let ?hal = "ce_hal env"
  let ?K = "kept ?hal content us s" and ?L = "loaded ?hal content (ce_store_io env) us s"
  let ?A = "answered ?hal content (ce_store_io env) us s"
  note drop = triple_or_drop [where E = "\<lambda>_. ?K"]
  have calm_L: "triple (?L i r) m (\<lambda>_. ?L i r) (\<lambda>_. ?K)" if "calm_cmd content m" for m :: "('r, 'a) cmd" and i r
    by (rule triple_loaded_calm [OF store that])
  have count: "triple (?L i r) (or_drop_queue session_id q (some_or ZF_CTAP_ERR_OTHER (ret (zf_get_next_sign_count r))))
      (\<lambda>n app w. ?L i r app w \<and> cr_sign_count r \<noteq> 0xFFFFFFFF \<and> n = cr_sign_count r + 1) (\<lambda>_. ?K)" for i r q
    by (rule drop, rule triple_some_or [where Q' = "\<lambda>n app w. ?L i r app w \<and> n = zf_get_next_sign_count r"])
      (auto simp: zf_get_next_sign_count_def loaded_keeps [OF store] intro!: triple_ret split: if_split_asm)
  let ?P = "\<lambda>i r n app w. ?L i r app w \<and> cr_sign_count r \<noteq> 0xFFFFFFFF \<and> n = cr_sign_count r + 1"
  have ext: "triple (?P i r n) (lift_result (zf_ctap_hmac_secret_build_extension ?hal pin q r uv b k))
      (\<lambda>_. ?P i r n) (\<lambda>_. ?K)" for i r n pin q uv b k
  proof -
    have "calm_cmd content (lift_result (zf_ctap_hmac_secret_build_extension ?hal pin q r uv b k))"
      by (rule calm_lift_result) (simp add: calm_def still_assertion_response [OF plat])
    from calm_L [OF this, of i r] show ?thesis unfolding triple_def by blast
  qed
  have resp: "triple (?P i r n) (lift_result (zf_ctap_build_assertion_response_with_scratch ?hal q r up uv n d c m iu us' x
      (ce_out env) (ce_out_capacity env))) (?A i r n) (\<lambda>_. ?K)" for i r n q up uv d c m iu us' x
  proof (rule tripleI)
    let ?f = "zf_ctap_build_assertion_response_with_scratch ?hal q r up uv n d c m iu us' x (ce_out env) (ce_out_capacity env)"
    have still: "calm content w (snd (?f w))" for w by (simp add: calm_def still_assertion_response [OF plat])
    {
      fix app w status app' w'
      assume p: "?P i r n app w" and f: "lift_result ?f app w = (Inl status, app', w')"
      then have "app' = app" "w' = snd (?f w)" by (auto simp: lift_result_def split: prod.split_asm)
      then show "?K app' w'"
        using loaded_keeps [OF store loaded_calm [of ?hal content, OF conjunct1 [OF p] refl still [of w]]] by simp
    next
      fix app w response app' w'
      assume p: "?P i r n app w" and f: "lift_result ?f app w = (Inr response, app', w')"
      then have b: "?f w = (Inr response, w')" and app': "app' = app" by (auto simp: lift_result_def split: prod.split_asm)
      have l: "?L i r app' w'" using loaded_calm [of ?hal content, OF conjunct1 [OF p] refl still [of w]] b app' by simp
      obtain k rest where "k \<le> 6" "length x \<le> 123" "response = assertion_head k (cr_credential_id r)
          (assertion_auth_data (ar_rp_id q) up uv n x) @ rest"
        using assertion_response_head [OF b cap] by blast
      then have "assertion_release response = Some (cr_credential_id r, n)"
        using assertion_release_head [of k "cr_credential_id r"] loaded_id(1) [OF l] by simp
      then show "?A i r n response app' w'" using l p by (simp add: answered_def)
    }
  qed
  have polled: "triple (?A i r n response) (or_drop_queue session_id q (status_of (ce_poll env session_id)))
      (\<lambda>_. ?A i r n response) (\<lambda>_. ?K)" for i r n response q
    by (rule drop) (use calm_L [OF calm_poll [OF quiet], of i r] in \<open>unfold triple_def answered_def, blast\<close>, simp)
  text \<open>After the reservation the counter is on the medium; the publication may still be refused.\<close>
  let ?B = "\<lambda>r n response h app w. app_store app = s \<and> ?K app w \<and> assertion_release response = Some (cr_credential_id r, n) \<and>
    (\<forall>app'. zf_store_publish_counter_advance s (r\<lparr>cr_sign_count := n\<rparr>) h = (True, app_store app') \<longrightarrow>
      released_from ?hal content us s (cr_credential_id r, n) app' w)"
  have prep: "triple (?A i r n response) (or_drop_queue session_id q (some_or ZF_CTAP_ERR_OTHER (on_world (\<lambda>_.
      zf_store_prepare_counter_advance ?hal (cs_entries s ! i) (r\<lparr>cr_sign_count := n\<rparr>) (ce_store_io env)))))
      (?B r n response) (\<lambda>_. ?K)" for i r n response q
  proof (rule drop, rule triple_some_or)
    show "triple (?A i r n response) (on_world (\<lambda>_. zf_store_prepare_counter_advance ?hal (cs_entries s ! i)
        (r\<lparr>cr_sign_count := n\<rparr>) (ce_store_io env)))
      (\<lambda>h app w. ?K app w \<and> (\<forall>k. h = Some k \<longrightarrow> ?B r n response k app w)) (\<lambda>_. ?K)"
    proof (rule tripleI)
      fix app w h app' w'
      assume a: "?A i r n response app w" and "on_world (\<lambda>_. zf_store_prepare_counter_advance ?hal (cs_entries s ! i)
        (r\<lparr>cr_sign_count := n\<rparr>) (ce_store_io env)) app w = (Inr h, app', w')"
      then have adv: "zf_store_prepare_counter_advance ?hal (cs_entries s ! i) (r\<lparr>cr_sign_count := n\<rparr>) (ce_store_io env) w = (h, w')"
        and app': "app' = app" by (auto simp: on_world_def split: prod.split_asm)
      note out = answered_published [OF store a adv]
      show "?K app' w' \<and> (\<forall>k. h = Some k \<longrightarrow> ?B r n response k app' w')"
        using out a app' by (auto simp: answered_def loaded_def)
    qed (simp add: on_world_def split_def)
  qed auto
  have pub: "triple (?B r n response h) (then_ok (queue_publish ?hal session_id q (r\<lparr>cr_sign_count := n\<rparr>) h) (\<lambda>_. ret response))
      (released_by ?hal content us s) (\<lambda>_. ?K)" for r n response h q
  proof (rule triple_then_ok, rule tripleI)
    fix app w status app' w'
    assume b: "?B r n response h app w" and "queue_publish ?hal session_id q (r\<lparr>cr_sign_count := n\<rparr>) h app w = (Inl status, app', w')"
    then have "(app' = app \<or> app' = zf_ctap_assertion_queue_clear app) \<and> w' = w"
      by (auto simp: queue_publish_def Let_def split: if_split_asm prod.split_asm bool.split_asm)
    then show "?K app' w'" using b by auto
  next
    fix app w x app' w'
    assume b: "?B r n response h app w" and m: "queue_publish ?hal session_id q (r\<lparr>cr_sign_count := n\<rparr>) h app w = (Inr x, app', w')"
    then have "w' = w" "zf_store_publish_counter_advance s (r\<lparr>cr_sign_count := n\<rparr>) h = (True, app_store app')"
      by (auto simp: queue_publish_def Let_def zf_ctap_assertion_queue_clear_def split: if_split_asm prod.split_asm bool.split_asm)
    then show "released_by ?hal content us s response app' w'" using b by blast
  qed (auto intro: triple_ret)
  let ?body = "then_ok (queue_snapshot ?hal session_id) (\<lambda>(q, pin_state, entry).
      then_ok (or_drop_queue session_id q (queue_load env q entry)) (\<lambda>record.
      then_ok (or_drop_queue session_id q (some_or ZF_CTAP_ERR_OTHER (ret (zf_get_next_sign_count record)))) (\<lambda>next_sign_count.
      then_ok (lift_result (zf_ctap_hmac_secret_build_extension ?hal pin_state
          (aq_request q) record (aq_uv_verified q) (replicate 112 0) 112)) (\<lambda>extension_data.
      then_ok (lift_result (zf_ctap_build_assertion_response_with_scratch ?hal
          (aq_request q) record (aq_user_present q) (aq_uv_verified q) next_sign_count
          (aq_uv_verified q) False (aq_count q) False False extension_data (ce_out env) (ce_out_capacity env))) (\<lambda>response.
      then_ok (or_drop_queue session_id q (status_of (ce_poll env session_id))) (\<lambda>_.
      then_ok (or_drop_queue session_id q (some_or ZF_CTAP_ERR_OTHER (on_world (\<lambda>_.
          zf_store_prepare_counter_advance ?hal entry (record\<lparr>cr_sign_count := next_sign_count\<rparr>) (ce_store_io env)))))
        (\<lambda>high_water. then_ok (queue_publish ?hal session_id q (record\<lparr>cr_sign_count := next_sign_count\<rparr>) high_water) (\<lambda>_.
      ret response))))))))"
  have rest: "triple (\<lambda>app w. ?K app w \<and> entry = cs_entries s ! i \<and> i < length (cs_entries s))
      (then_ok (or_drop_queue session_id q (queue_load env q entry)) f) Q (\<lambda>_. ?K)"
    if "\<And>r. entry = cs_entries s ! i \<Longrightarrow> triple (?L i r) (f r) Q (\<lambda>_. ?K)" for entry i q f and Q :: "bytes \<Rightarrow> CtapApp \<Rightarrow> 'a \<Rightarrow> bool"
  proof (cases "entry = cs_entries s ! i \<and> i < length (cs_entries s)")
    case True
    have "triple ?K (then_ok (or_drop_queue session_id q (queue_load env q entry)) f) Q (\<lambda>_. ?K)"
      by (rule triple_then_ok [OF drop that [OF conjunct1 [OF True]]]) (use True queue_load_triple [OF quiet, of i s us q] in auto)
    then show ?thesis unfolding triple_def by blast
  qed (auto simp: triple_def)
  have body: "triple ?K ?body (released_by ?hal content us s) (\<lambda>_. ?K)"
    by (rule triple_then_ok [OF snapshot_triple], clarify, rule rest, clarify, rule triple_then_ok [OF count],
        rule triple_then_ok [OF ext], rule triple_then_ok [OF resp], rule triple_then_ok [OF polled],
        rule triple_then_ok [OF prep], rule pub)
  let ?clean = "\<lambda>app. zf_app_command_scratch_release (zf_ctap_assertion_queue_end_maintenance app)"
  have flags: "?K (?clean app) w = ?K app w" "released_from ?hal content us s u (?clean app) w = released_from ?hal content us s u app w"
    for app u and w :: 'a
    by (simp_all add: zf_app_command_scratch_release_def zf_ctap_assertion_queue_end_maintenance_def)
  have "case x of Inl _ \<Rightarrow> ?K app' w' | Inr response \<Rightarrow> released_by ?hal content us s response app' w'"
    if k: "?K app w" and m: "zf_ctap_assertion_queue_handle_next env session_id app w = (x, app', w')" for app w x app' w'
  proof -
    obtain status app1 w1 where poll: "ce_poll env session_id app w = (status, app1, w1)" using prod_cases3 by blast
    have k1: "?K app1 w1"
      using k poll quiet_env_laws(4) [OF quiet, of session_id app w] quiet_env_laws(5) [OF quiet, of w session_id app]
        good_calm [of ?hal content us s w w1] by (simp add: kept_def)
    note steps = m [unfolded zf_ctap_assertion_queue_handle_next_def poll, simplified]
    let ?app2 = "app1\<lparr>app_maintenance_busy := True\<rparr>"
    consider "status \<noteq> ZF_CTAP_SUCCESS \<or> app_maintenance_busy app1"
      | "status = ZF_CTAP_SUCCESS" "\<not> app_maintenance_busy app1" by blast
    then show ?thesis
    proof cases
      case 1
      then have "(\<exists>e. x = Inl e) \<and> (app' = app1 \<or> app' = zf_ctap_assertion_queue_clear app1) \<and> w' = w1"
        using steps by (auto simp: zf_ctap_assertion_queue_begin_maintenance_def split: if_split_asm)
      then show ?thesis using k1 by auto
    next
      case 2
      show ?thesis
      proof (cases "app_command_scratch_in_use ?app2 \<or> \<not> ce_malloc env w1")
        case True
        then have "(\<exists>e. x = Inl e) \<and> app' = ?clean ?app2 \<and> w' = w1"
          using steps 2 by (auto simp: zf_ctap_assertion_queue_begin_maintenance_def cleanup_def zf_app_command_scratch_acquire_def)
        then show ?thesis using k1 flags by auto
      next
        case False
        let ?app3 = "?app2\<lparr>app_command_scratch_in_use := True\<rparr>"
        obtain app4 where b: "?body ?app3 w1 = (x, app4, w')" "app' = ?clean app4"
          using steps 2 False by (auto simp: zf_ctap_assertion_queue_begin_maintenance_def cleanup_def
              zf_app_command_scratch_acquire_def Let_def split: prod.split_asm)
        have "?K ?app3 w1" using k1 by simp
        note inner = tripleD [OF body this]
        show ?thesis using inner(1) [of _ app4 w'] inner(2) [of _ app4 w'] b flags by (cases x) auto
      qed
    qed
  qed
  then show ?thesis unfolding triple_def by fastforce
qed

section \<open>One message\<close>

definition released_by_body :: "byte \<Rightarrow> bytes \<Rightarrow> (bytes \<times> u32) list" where
  "released_by_body cmd body =
    (if cmd = ZfCtapeCmdGetAssertion \<or> cmd = ZfCtapeCmdGetNextAssertion
     then (case assertion_release body of None \<Rightarrow> [] | Some u \<Rightarrow> [u]) else [])"

definition released :: "bytes \<Rightarrow> bytes \<Rightarrow> (bytes \<times> u32) list" where
  "released request response =
    (case (request, response) of
       (cmd # _, status # body) \<Rightarrow>
         if status = ctap_status_byte ZF_CTAP_SUCCESS then released_by_body cmd body else []
     | _ \<Rightarrow> [])"

lemma released_by_nothing [simp]: "released_by_body cmd [] = []"
  by (simp add: released_by_body_def assertion_release_def assertion_parts_def zf_cbor_read_map_start_def zf_cbor_read_head_def)

lemma forget_dom: "dom (index_view s') = dom (index_view s) \<Longrightarrow> forget s s' us = us"
  by (auto simp: forget_def domIff set_eq_iff intro!: filter_True)

text \<open>What a command does to the history, as a function of its result.\<close>

definition command_outcome :: "'w hal \<Rightarrow> ('w \<Rightarrow> path \<rightharpoonup> bytes) \<Rightarrow> (bytes \<times> u32) list \<Rightarrow> ZfCredentialStore \<Rightarrow>
    byte \<Rightarrow> bytes ctap_result \<Rightarrow> CtapApp \<Rightarrow> 'w \<Rightarrow> bool" where
  "command_outcome hal content us s cmd x app w \<longleftrightarrow>
    good hal content (forget s (app_store app) us @ (case x of Inl _ \<Rightarrow> [] | Inr body \<Rightarrow> released_by_body cmd body))
      (app_store app) w"

lemma outcome_keeps:
  "kept hal content us s app w \<Longrightarrow> (\<And>body. x = Inr body \<Longrightarrow> released_by_body cmd body = []) \<Longrightarrow>
    command_outcome hal content us s cmd x app w"
  by (auto simp: command_outcome_def kept_def split: sum.split)

lemma outcome_calm:
  assumes "kept hal content us s app w" "calm_cmd content m" "m app w = (x, app', w')"
    "cmd \<noteq> ZfCtapeCmdGetAssertion" "cmd \<noteq> ZfCtapeCmdGetNextAssertion"
  shows "command_outcome hal content us s cmd x app' w'"
proof (rule outcome_keeps)
  show "kept hal content us s app' w'"
    using assms(1) calm_cmdD [OF assms(2,3)] good_calm [of hal content us s w w'] by (simp add: kept_def)
qed (use assms(4,5) in \<open>simp add: released_by_body_def\<close>)

lemma outcome_released:
  assumes "triple (kept hal content us s) m (released_by hal content us s) (\<lambda>_. kept hal content us s)"
    "kept hal content us s app w" "m app w = (x, app', w')"
    "cmd = ZfCtapeCmdGetAssertion \<or> cmd = ZfCtapeCmdGetNextAssertion"
  shows "command_outcome hal content us s cmd x app' w'"
proof (cases x)
  case (Inl status)
  show ?thesis by (rule outcome_keeps) (use tripleD(1) [OF assms(1,2)] assms(3) Inl in auto)
next
  case (Inr body)
  then obtain u where "assertion_release body = Some u" "released_from hal content us s u app' w'"
    using tripleD(2) [OF assms(1,2)] assms(3) by blast
  then show ?thesis using assms(4) Inr forget_dom [OF counted_dom, of s "app_store app'" u us]
    by (auto simp: command_outcome_def released_by_body_def released_from_def)
qed

lemma idle_first:
  assumes "then_ok require_idle f app w = (x, app', w')"
  shows "(\<exists>status. x = Inl status \<and> app' = app \<and> w' = w) \<or> f () app w = (x, app', w')"
  using assms by (cases rule: then_ok_cases) (auto simp: require_idle_def status_of_def split: if_split_asm)

lemma calm_pin_branch:
  assumes quiet: "quiet_env content env"
  shows "calm_cmd content (with_maintenance (\<lambda>app w.
    case zf_app_command_scratch_acquire (ce_malloc env) (zf_ctap_assertion_queue_clear app) w of
      (acquired, app) \<Rightarrow> cleanup (if acquired then zf_app_command_scratch_release else id) (\<lambda>app.
        zerofido_pin_handle_command_with_session (ce_build env) (ce_hal env) (ce_wait env)
          acquired app session_id request_body (ce_out env) (ce_out_capacity env)) app w))"
proof (rule calm_with_maintenance)
  note pin = calm_client_pin [OF quiet]
  show "calm_cmd content (\<lambda>app w.
    case zf_app_command_scratch_acquire (ce_malloc env) (zf_ctap_assertion_queue_clear app) w of
      (acquired, app) \<Rightarrow> cleanup (if acquired then zf_app_command_scratch_release else id) (\<lambda>app.
        zerofido_pin_handle_command_with_session (ce_build env) (ce_hal env) (ce_wait env)
          acquired app session_id request_body (ce_out env) (ce_out_capacity env)) app w)"
    by (auto simp: calm_cmd_def zf_app_command_scratch_acquire_def cleanup_def split_def pin zf_app_command_scratch_release_def)
qed

lemma dispatch_outcome:
  fixes env :: "'w ctap_env"
  assumes quiet: "quiet_env content env" and cap: "ce_out_capacity env \<le> length (ce_out env)"
    and inv: "good (ce_hal env) content us (app_store app) w"
    and unused: "cmd = ZfCtapeCmdMakeCredential \<Longrightarrow> draws_unused env session_id body us app w"
    and reset: "cmd \<noteq> ZfCtapeCmdReset"
    and r: "zf_ctap_dispatch_command env c session_id cmd body app w = (x, app', w')"
  shows "command_outcome (ce_hal env) content us (app_store app) cmd x app' w'"
proof -
  let ?s = "app_store app"
  have k: "kept (ce_hal env) content us ?s app w" using inv by (simp add: kept_def)
  note cmds = ZfCtapeCmdGetInfo_def ZfCtapeCmdClientPin_def ZfCtapeCmdReset_def ZfCtapeCmdMakeCredential_def
    ZfCtapeCmdGetAssertion_def ZfCtapeCmdGetNextAssertion_def ZfCtapeCmdSelection_def
  note steps = r [unfolded zf_ctap_dispatch_command_def Let_def]
  have same: ?thesis if "app' = app \<and> w' = w \<and> (\<exists>status. x = Inl status)"
    by (rule outcome_keeps) (use k that in auto)
  consider "cmd = ZfCtapeCmdGetInfo" | "cmd = ZfCtapeCmdClientPin" | "cmd = ZfCtapeCmdMakeCredential"
    | "cmd = ZfCtapeCmdGetAssertion" | "cmd = ZfCtapeCmdGetNextAssertion" | "cmd = ZfCtapeCmdSelection"
    | "cmd \<notin> {ZfCtapeCmdGetInfo, ZfCtapeCmdClientPin, ZfCtapeCmdMakeCredential, ZfCtapeCmdGetAssertion,
        ZfCtapeCmdGetNextAssertion, ZfCtapeCmdSelection, ZfCtapeCmdReset}" using reset by blast
  then show ?thesis
  proof cases
    case 1
    have "app' = app \<and> w' = w" using steps 1
      by (auto simp: then_ok_def status_of_def split: prod.split_asm sum.split_asm if_split_asm)
    then show ?thesis by (intro outcome_keeps) (use k 1 in \<open>simp_all add: released_by_body_def cmds\<close>)
  next
    case 2
    have "\<not> cmd = ZfCtapeCmdGetInfo" using 2 by (simp add: cmds)
    from idle_first [OF steps [unfolded if_not_P [OF this] if_P [OF 2]]] show ?thesis
    proof
      assume m: "with_maintenance (\<lambda>app w. case zf_app_command_scratch_acquire (ce_malloc env)
        (zf_ctap_assertion_queue_clear app) w of (acquired, app) \<Rightarrow> cleanup (if acquired then zf_app_command_scratch_release else id)
        (\<lambda>app. zerofido_pin_handle_command_with_session (ce_build env) (ce_hal env) (ce_wait env)
          acquired app session_id body (ce_out env) (ce_out_capacity env)) app w) app w = (x, app', w')"
      show ?thesis by (rule outcome_calm [OF k calm_pin_branch [OF quiet] m]) (simp_all add: 2 cmds)
    qed (use same in auto)
  next
    case 3
    have "then_ok require_idle (\<lambda>_. zf_ctap_handle_make_credential env session_id body) app w = (x, app', w')"
      using steps 3 by (simp add: cmds)
    from idle_first [OF this] show ?thesis
    proof
      assume m: "zf_ctap_handle_make_credential env session_id body app w = (x, app', w')"
      show ?thesis using make_credential_in_order [OF quiet cap inv unused [OF 3] m] 3
        by (auto simp: command_outcome_def in_order_def created_def released_by_body_def cmds split: sum.split_asm)
    qed (use same in auto)
  next
    case 4
    have "then_ok require_idle (\<lambda>_. zf_ctap_handle_get_assertion env session_id body) app w = (x, app', w')"
      using steps 4 by (simp add: cmds)
    from idle_first [OF this] show ?thesis
    proof
      assume m: "zf_ctap_handle_get_assertion env session_id body app w = (x, app', w')"
      show ?thesis by (rule outcome_released [OF get_assertion_triple [OF quiet cap] k m]) (simp add: 4)
    qed (use same in auto)
  next
    case 5
    have "then_ok require_idle (\<lambda>_. then_ok (status_of (\<lambda>app w. (zf_ctap_require_empty_payload (length body + 1), app, w)))
        (\<lambda>_. zf_ctap_assertion_queue_handle_next env session_id)) app w = (x, app', w')"
      using steps 5 by (simp add: cmds)
    from idle_first [OF this] show ?thesis
    proof
      assume "then_ok (status_of (\<lambda>app w. (zf_ctap_require_empty_payload (length body + 1), app, w)))
        (\<lambda>_. zf_ctap_assertion_queue_handle_next env session_id) app w = (x, app', w')"
      then show ?thesis
      proof (cases rule: then_ok_cases)
        case (2 u app1 w1)
        then have m: "zf_ctap_assertion_queue_handle_next env session_id app w = (x, app', w')"
          by (auto simp: status_of_def split: if_split_asm)
        show ?thesis by (rule outcome_released [OF next_triple [OF quiet cap] k m]) (simp add: 5)
      qed (use same in \<open>auto simp: status_of_def split: if_split_asm\<close>)
    qed (use same in auto)
  next
    case 6
    have "then_ok require_idle (\<lambda>_. zf_handle_selection env session_id (length body + 1)) app w = (x, app', w')"
      using steps 6 by (simp add: cmds)
    from idle_first [OF this] show ?thesis
    proof
      assume m: "zf_handle_selection env session_id (length body + 1) app w = (x, app', w')"
      have c: "calm_cmd content (zf_handle_selection env session_id (length body + 1))"
        unfolding zf_handle_selection_def by (intro calm calm_approval [OF quiet])
      show ?thesis by (rule outcome_calm [OF k c m]) (simp_all add: 6 cmds)
    qed (use same in auto)
  next
    case 7
    then have "x = Inl ZF_CTAP_ERR_INVALID_COMMAND \<and> app' = app \<and> w' = w" using steps by (simp add: fail_with_def)
    then show ?thesis using same by blast
  qed
qed

lemma quiet_capacity [simp]: "quiet_env content (env\<lparr>ce_out_capacity := n\<rparr>) = quiet_env content env"
  by (simp add: quiet_env_def)

lemma message_outcome:
  assumes quiet: "quiet_env content env" and cap: "response_capacity - 1 \<le> length (ce_out env)"
    and inv: "good (ce_hal env) content us (app_store app) w"
    and unused: "take 1 request = [ZfCtapeCmdMakeCredential] \<Longrightarrow>
      draws_unused (env\<lparr>ce_out_capacity := response_capacity - 1\<rparr>) session_id (tl request) us app w"
    and reset: "take 1 request \<noteq> [ZfCtapeCmdReset]"
    and r: "zerofido_handle_ctap2 env session_id request response_capacity app w = (response, app', w')"
  shows "good (ce_hal env) content (forget (app_store app) (app_store app') us @ released request response) (app_store app') w'"
proof (cases "request = [] \<or> response_capacity \<le> 1 \<or> \<not> zf_runtime_ctap_command_enabled (ce_build env) app (hd request)")
  case True
  have "ctap_status_byte ZF_CTAP_ERR_INVALID_COMMAND \<noteq> ctap_status_byte ZF_CTAP_SUCCESS"
    by simp
  then have "app' = app \<and> w' = w \<and> released request response = []"
    using True r by (auto simp: zerofido_handle_ctap2_def Let_def released_def split: list.split if_split_asm)
  then show ?thesis using inv by simp
next
  case False
  then obtain cmd body where req: "request = cmd # body" by (cases request) auto
  let ?env = "env\<lparr>ce_out_capacity := response_capacity - 1\<rparr>"
  obtain c x where d: "zf_ctap_dispatch_command ?env c session_id cmd body app w = (x, app', w')"
    and resp: "response = (case x of Inl status \<Rightarrow> [ctap_status_byte status] | Inr y \<Rightarrow> ctap_status_byte ZF_CTAP_SUCCESS # y)"
    using r False req by (auto simp: zerofido_handle_ctap2_def Let_def split: prod.split_asm sum.split_asm)
  have "command_outcome (ce_hal ?env) content us (app_store app) cmd x app' w'"
    by (rule dispatch_outcome [OF _ _ _ _ _ d]) (use quiet cap inv unused reset req in auto)
  moreover have "released request response = (case x of Inl _ \<Rightarrow> [] | Inr y \<Rightarrow> released_by_body cmd y)"
    by (cases x) (simp_all add: released_def resp req)
  ultimately show ?thesis by (simp add: command_outcome_def)
qed

section \<open>Histories of messages\<close>

text \<open>
  A state is the application and the world. A start-up takes its index from the files; a message is handled
  by the dispatcher, in any environment on the same platform, and what it released joins the history, while
  the credentials it removed leave it; a completed reset ends the history; a credential is deleted from the
  menu; anything else, U2F, prompts, the PIN, settings, refused resets, leaves the credentials alone.
\<close>

inductive ctap_run ::
  "(nat \<Rightarrow> bool) \<Rightarrow> 'w hal \<Rightarrow> ('w \<Rightarrow> path \<rightharpoonup> bytes) \<Rightarrow> (bytes \<times> u32) list \<Rightarrow> CtapApp \<Rightarrow> 'w \<Rightarrow> bool"
  for heap hal content where
  power_on: "zf_store_effective_capacity s0 \<le> ZF_MAX_CREDENTIALS \<Longrightarrow> ZF_STORE_RECORD_IO_SIZE \<le> length buffer \<Longrightarrow>
    zf_store_init_with_buffer heap hal s0 buffer w = (ok, app_store app, w') \<Longrightarrow> ctap_run heap hal content [] app w'"
| restart: "ctap_run heap hal content us app w \<Longrightarrow> zf_store_effective_capacity s0 \<le> ZF_MAX_CREDENTIALS \<Longrightarrow>
    ZF_STORE_RECORD_IO_SIZE \<le> length buffer \<Longrightarrow>
    zf_store_init_with_buffer heap hal s0 buffer w = (ok, app_store app', w') \<Longrightarrow> ctap_run heap hal content us app' w'"
| message: "ctap_run heap hal content us app w \<Longrightarrow> quiet_env content env \<Longrightarrow> ce_hal env = hal \<Longrightarrow>
    response_capacity - 1 \<le> length (ce_out env) \<Longrightarrow> take 1 request \<noteq> [ZfCtapeCmdReset] \<Longrightarrow>
    (take 1 request = [ZfCtapeCmdMakeCredential] \<Longrightarrow>
      draws_unused (env\<lparr>ce_out_capacity := response_capacity - 1\<rparr>) session_id (tl request) us app w) \<Longrightarrow>
    zerofido_handle_ctap2 env session_id request response_capacity app w = (response, app', w') \<Longrightarrow>
    ctap_run heap hal content (forget (app_store app) (app_store app') us @ released request response) app' w'"
| reset: "ctap_run heap hal content us app w \<Longrightarrow> quiet_env content env \<Longrightarrow> ce_hal env = hal \<Longrightarrow>
    zerofido_handle_ctap2 env session_id (ZfCtapeCmdReset # body) response_capacity app w =
      ([ctap_status_byte ZF_CTAP_SUCCESS], app', w') \<Longrightarrow> ctap_run heap hal content [] app' w'"
| deleted: "ctap_run heap hal content us app w \<Longrightarrow>
    zf_store_delete_record hal (app_store app) c w = (ZfStoreDeleteOk, app_store app', w') \<Longrightarrow>
    ctap_run heap hal content (filter (\<lambda>u. fst u \<noteq> c) us) app' w'"
| elsewhere: "ctap_run heap hal content us app w \<Longrightarrow> app_store app' = app_store app \<Longrightarrow> calm content w w' \<Longrightarrow>
    ctap_run heap hal content us app' w'"

lemma restart_inv:
  assumes plat: "store_platform hal content" and us: "run_inv hal content us s w"
    and cap: "zf_store_effective_capacity s0 \<le> ZF_MAX_CREDENTIALS" and size: "ZF_STORE_RECORD_IO_SIZE \<le> length buffer"
    and init: "zf_store_init_with_buffer heap hal s0 buffer w = (ok, s', w')"
  shows "run_inv hal content us s' w'"
proof -
  note boot = boot_keeps [OF plat cap size init]
  have "length c = 32 \<and> floor_at hal (content w') c (zf_counter_reserved_high_water n)" if "(c, n) \<in> set us" for c n
    using boot us that by (auto simp: run_inv_def keeps_floors_def)
  then show ?thesis using boot us by (auto simp: run_inv_def)
qed

lemma deleted_wf:
  assumes wf: "store_wf s" and del: "zf_store_delete_record hal s c w = (x, s', w')"
  shows "store_wf s'"
  using del wf remove_spec(1) [OF wf] find_view(1) [OF wf]
  by (auto simp: zf_store_delete_record_def split: option.split_asm prod.split_asm bool.split_asm)

lemma triple_status_of:
  assumes "calm_cmd content (status_of f)"
  shows "triple (\<lambda>app w. app_store app = s) (status_of f) (\<lambda>_ app w. app_store app = s) (\<lambda>status _ _. status \<noteq> ZF_CTAP_SUCCESS)"
  by (rule tripleI) (use calm_cmdD(1) [OF assms] in \<open>auto simp: status_of_def split: prod.split_asm if_split_asm\<close>)

lemma reset_triple:
  assumes quiet: "quiet_env content env"
  shows "triple (\<lambda>app w. app_store app = s) (then_ok require_idle (\<lambda>_. zf_ctap_handle_reset env session_id n))
    (\<lambda>_ app w. app_store app = zf_store_clear s) (\<lambda>status _ _. status \<noteq> ZF_CTAP_SUCCESS)"
proof -
  have wipe: "triple (\<lambda>app w. app_store app = s) (reset_under_maintenance env)
    (\<lambda>_ app w. app_store app = zf_store_clear s) (\<lambda>status _ _. status \<noteq> ZF_CTAP_SUCCESS)"
    by (rule tripleI) (auto simp: reset_under_maintenance_def zf_runtime_config_refresh_capabilities_def
        zf_runtime_config_resolve_app_capabilities_def Let_def split: prod.split_asm bool.split_asm if_split_asm)
  show ?thesis
    unfolding require_idle_def zf_ctap_handle_reset_def
    by (rule triple_then_ok [OF triple_status_of [OF calm_pure(3)]], rule triple_then_ok [OF triple_status_of [OF calm_pure(3)]],
        rule triple_then_ok [OF triple_status_of [OF calm_approval(1) [OF quiet]]],
        rule triple_with_maintenance [OF wipe]) simp_all
qed

lemma reset_clears:
  assumes quiet: "quiet_env content env"
    and r: "zerofido_handle_ctap2 env session_id (ZfCtapeCmdReset # body) response_capacity app w =
      ([ctap_status_byte ZF_CTAP_SUCCESS], app', w')"
  shows "app_store app' = zf_store_clear (app_store app)"
proof -
  let ?env = "env\<lparr>ce_out_capacity := response_capacity - 1\<rparr>"
  have neq: "ctap_status_byte status = ctap_status_byte ZF_CTAP_SUCCESS \<Longrightarrow> status = ZF_CTAP_SUCCESS" for status
    by (cases status) simp_all
  obtain c x where d: "zf_ctap_dispatch_command ?env c session_id ZfCtapeCmdReset body app w = (x, app', w')"
    and resp: "[ctap_status_byte ZF_CTAP_SUCCESS] =
      (case x of Inl status \<Rightarrow> [ctap_status_byte status] | Inr y \<Rightarrow> ctap_status_byte ZF_CTAP_SUCCESS # y)"
    using r by (auto simp: zerofido_handle_ctap2_def Let_def split: prod.split_asm sum.split_asm if_split_asm dest: neq)
  have m: "then_ok require_idle (\<lambda>_. zf_ctap_handle_reset ?env session_id (length body + 1)) app w = (x, app', w')"
    using d by (simp add: zf_ctap_dispatch_command_def Let_def ZfCtapeCmdGetInfo_def ZfCtapeCmdClientPin_def ZfCtapeCmdReset_def)
  have "quiet_env content ?env" using quiet by simp
  note t = tripleD [OF reset_triple [OF this, of "app_store app" session_id "length body + 1"], of app w, OF refl]
  show ?thesis
  proof (cases x)
    case (Inl status)
    then have "status = ZF_CTAP_SUCCESS" using neq resp by force
    then show ?thesis using t(1) m Inl by blast
  qed (use t(2) m in blast)
qed

theorem ctap_run_invariant:
  assumes plat: "store_platform hal content"
    and dir: "\<And>v entries. fs_dir hal ZF_APP_DATA_DIR v = Some entries \<Longrightarrow> distinct (map fst entries)"
    and run: "ctap_run heap hal content us app w"
  shows "good hal content us (app_store app) w"
  using run
proof (induction rule: ctap_run.induct)
  case (power_on s0 buffer w ok app w')
  have "run_inv hal content [] (app_store app) w'"
    using boot_keeps [OF plat power_on] by (simp add: run_inv_def)
  then show ?case using boot_wf [OF plat power_on(1,2) dir power_on(3)] by (simp add: good_def)
next
  case (restart us app w s0 buffer ok app' w')
  have "run_inv hal content us (app_store app) w" using restart.IH by (simp add: good_def)
  from restart_inv [OF plat this restart(2-4)] show ?case
    using boot_wf [OF plat restart(2,3) dir restart(4)] by (simp add: good_def)
next
  case (message us app w env response_capacity request session_id response app' w')
  have "good (ce_hal env) content us (app_store app) w" using message.IH message(3) by simp
  from message_outcome [OF message(2,4) this message(6,5,7)] show ?case using message(3) by simp
next
  case (reset us app w env session_id body response_capacity app' w')
  have wf: "store_wf (app_store app)" using reset.IH by (simp add: good_def)
  then have "zf_store_effective_capacity (app_store app) \<le> ZF_MAX_CREDENTIALS"
    by (simp add: store_wf_def array_wf_def)
  note clear = entries_clear [OF this]
  show ?case unfolding reset_clears [OF reset(2,4)]
    using clear by (simp add: good_def run_inv_def entries_low_def store_wf_def)
next
  case (deleted us app w c app' w')
  have g: "run_inv hal content us (app_store app) w" "store_wf (app_store app)" using deleted.IH by (simp_all add: good_def)
  show ?case using deleted_inv(2) [OF plat g(1) deleted(2) refl] deleted_wf [OF g(2) deleted(2)] by (simp add: good_def)
next
  case (elsewhere us app w app' w')
  show ?case using good_calm [of hal content us "app_store app" w w', OF elsewhere.IH elsewhere(3)] elsewhere(2) by simp
qed

end
