(* ===== verification/Sim_Ctap.thy ===== *)
theory Sim_Ctap
  imports Ctap_History Store_Properties U2f_Properties
begin

text \<open>
  CTAP commands on the simulated platform: from an empty medium, the registration of a discoverable credential
  and a silent getAssertion (option \<open>up\<close> false) for it, both answered. The properties take their
  witnesses from it. The transport has approved the transaction, and attestations have no statement.
\<close>

section \<open>The environment\<close>

lemma sim_ctap_platform: "ctap_platform sim_hal (\<lambda>w. w)"
  unfolding ctap_platform_def using sim_store_platform sim_signing_platform by (simp add: sim_hal_def)

definition sim_env :: "sim ctap_env" where
  "sim_env = \<lparr>ce_build = sim_build\<lparr>ZF_PACKED_ATTESTATION := False\<rparr>, ce_hal = sim_hal, ce_wait = (\<lambda>_ app w. (False, app, w)),
    ce_poll = (\<lambda>_ app w. (ZF_CTAP_SUCCESS, app, w)), ce_heap = (\<lambda>_. True), ce_malloc = (\<lambda>_. True),
    ce_rtc = (\<lambda>_. 7), ce_store_io = replicate 800 0, ce_out = replicate 2048 0, ce_out_capacity = 0\<rparr>"

lemma sim_env_simps [simp]:
  "ce_build sim_env = sim_build\<lparr>ZF_PACKED_ATTESTATION := False\<rparr>" "ce_hal sim_env = sim_hal" "ce_poll sim_env s app w = (ZF_CTAP_SUCCESS, app, w)"
  "ce_wait sim_env s app w = (False, app, w)" "ce_malloc sim_env w" "ce_store_io sim_env = replicate 800 0"
  "ce_out sim_env = replicate 2048 0"
  by (simp_all add: sim_env_def)

lemma sim_quiet: "quiet_env (\<lambda>w. w) sim_env"
  by (simp add: quiet_env_def sim_ctap_platform)

definition sim_ctap_app :: "ZfCredentialStore \<Rightarrow> CtapApp" where
  "sim_ctap_app s = ZerofidoApp.extend (sim_app\<lparr>app_pin_state := zero_pin_state, app_transport_auto_accept_transaction := True\<rparr>)
    \<lparr>app_store = s, app_store_records_owned = True, app_assertion_queue = aq_cleared, app_u2f = None,
     app_command_scratch_in_use = False, app_attestation = \<lparr>at_consistency = -1, at_leaf_cert_len = 0\<rparr>\<rparr>"

lemma sim_ctap_app_simps [simp]:
  "app_store (sim_ctap_app s) = s" "app_command_scratch_in_use (sim_ctap_app s) = False"
  "app_maintenance_busy (sim_ctap_app s) = False" "app_pin_state (sim_ctap_app s) = zero_pin_state"
  by (simp_all add: sim_ctap_app_def ZerofidoApp.defs sim_app_def)

lemma sim_enabled:
  "zf_runtime_ctap_command_enabled (sim_build\<lparr>ZF_PACKED_ATTESTATION := False\<rparr>) (sim_ctap_app s) 1"
  "zf_runtime_ctap_command_enabled (sim_build\<lparr>ZF_PACKED_ATTESTATION := False\<rparr>) (sim_ctap_app s) 2"
  by (simp_all add: sim_ctap_app_def ZerofidoApp.defs sim_app_def ZfCtapeCmdGetInfo_def ZfCtapeCmdClientPin_def
      ZfCtapeCmdMakeCredential_def ZfCtapeCmdGetAssertion_def zf_runtime_ctap_command_enabled_def Let_def
      zf_runtime_get_effective_capabilities_def sim_config_def zf_runtime_config_load_defaults_def
      zf_runtime_config_resolve_capabilities_def)

section \<open>A silent request\<close>

definition silent_request :: "bytes \<Rightarrow> bytes \<Rightarrow> bytes" where
  "silent_request hash rp_id = cbor_map 3 @ cbor_uint 1 @ cbor_text rp_id @ cbor_uint 2 @ cbor_bytes hash @
    cbor_uint 5 @ cbor_map 1 @ cbor_text (ascii ''up'') @ cbor_bool False"

definition silent_parsed :: "bytes \<Rightarrow> bytes \<Rightarrow> ZfGetAssertionRequest" where
  "silent_parsed hash rp_id = (ga_cleared \<lparr>dl_entries = [], dl_capacity = ZF_MAX_ALLOW_LIST\<rparr>)
    \<lparr>ga_assertion := assertion_cleared\<lparr>ar_rp_id := rp_id, ar_client_data_hash := hash, ar_has_client_data_hash := True\<rparr>,
     ga_up := False, ga_has_up := True\<rparr>"

lemma silent_accepted:
  assumes "length hash = 32" "text_ok 256 rp_id" "rp_id \<noteq> []"
  shows "zf_ctap_parse_get_assertion (silent_request hash rp_id)
    (ga_cleared \<lparr>dl_entries = [], dl_capacity = ZF_MAX_ALLOW_LIST\<rparr>) = Inr (silent_parsed hash rp_id)"
proof -
  have seen: "keyed_pair field (cbor_uint k @ c) (seen, r) =
      then_status (field k c r) (\<lambda>(r, c). Inr ((set_bit (unat k) seen, r), c))"
    if "k < 16" "\<not> bit seen (unat k)" for field k c seen and r :: ZfGetAssertionRequest
    using that by (simp add: keyed_pair_def mark_seen_small)
  have f1: "ga_field 1 (cbor_text rp_id @ c) r = Inr (r\<lparr>ga_assertion := (ga_assertion r)\<lparr>ar_rp_id := rp_id\<rparr>\<rparr>, c)" for r c
    using assms by (simp add: ga_field_def size_limits text_ok_def)
  have f2: "ga_field 2 (cbor_bytes hash @ c) r = Inr (r\<lparr>ga_assertion := (ga_assertion r)
      \<lparr>ar_client_data_hash := hash, ar_has_client_data_hash := True\<rparr>\<rparr>, c)" for r c
    using assms by (simp add: ga_field_def size_limits)
  have up: "zf_cbor_utf8_is_valid (ascii ''up'')" "zf_ctap_classify_text_key (ascii ''up'') = ZfCtapTextKeyUp"
    by (simp_all add: ascii_def zf_ctap_classify_text_key_def text_keys_def)
  have b: "zf_cbor_read_bool (cbor_bool False) = Some (False, [])" by (rule read_bool_iff [THEN iffD2]) simp
  have f5: "ga_field 5 (cbor_map 1 @ cbor_text (ascii ''up'') @ cbor_bool False) r =
      Inr (r\<lparr>ga_up := False, ga_has_up := True\<rparr>, [])" for r
    by (simp add: ga_field_def zf_ctap_parse_options_map_def SIZE_MAX_def options_pair_def up b)
  have one: "for_items 1 body c s = then_status (body c s) Inr" for body c and s :: "u16 \<times> ZfGetAssertionRequest"
    by (simp add: then_status_def split: sum.split)
  have "for_items 3 (keyed_pair ga_field) (cbor_uint 1 @ cbor_text rp_id @ cbor_uint 2 @ cbor_bytes hash @
      cbor_uint 5 @ cbor_map 1 @ cbor_text (ascii ''up'') @ cbor_bool False)
      (0, ga_cleared \<lparr>dl_entries = [], dl_capacity = ZF_MAX_ALLOW_LIST\<rparr>) =
    Inr ((set_bit 5 (set_bit 2 (set_bit 1 0)), silent_parsed hash rp_id), [])"
    by (simp add: seen f1 f2 f5 one bit_iff_odd silent_parsed_def ga_cleared_def
        del: readers_complete then_status_Inr One_nat_def)
  then show ?thesis
    using assms by (simp add: zf_ctap_parse_get_assertion_def silent_request_def SIZE_MAX_def silent_parsed_def ga_cleared_def
        del: for_items_numeral)
qed

section \<open>A registration\<close>

definition registration_request :: "bytes \<Rightarrow> bytes \<Rightarrow> bytes \<Rightarrow> bytes" where
  "registration_request hash rp_id user_id =
    cbor_map 5 @
    cbor_uint 1 @ cbor_bytes hash @
    cbor_uint 2 @ cbor_map 1 @ cbor_text (ascii ''id'') @ cbor_text rp_id @
    cbor_uint 3 @ cbor_map 1 @ cbor_text (ascii ''id'') @ cbor_bytes user_id @
    cbor_uint 4 @ cbor_array 1 @ cbor_map 2 @ cbor_text (ascii ''alg'') @ cbor_int (- 7) @
      cbor_text (ascii ''type'') @ cbor_text (ascii ''public-key'') @
    cbor_uint 7 @ cbor_map 1 @ cbor_text (ascii ''rk'') @ cbor_bool True"

definition registration_parsed :: "bytes \<Rightarrow> bytes \<Rightarrow> bytes \<Rightarrow> ZfMakeCredentialRequest" where
  "registration_parsed hash rp_id user_id = (mc_cleared \<lparr>dl_entries = [], dl_capacity = ZF_MAX_ALLOW_LIST\<rparr>)
    \<lparr>mc_client_data_hash := hash, mc_has_client_data_hash := True, mc_rp_id := rp_id, mc_user_id := user_id,
     mc_has_user_id := True, mc_has_pubkey_cred_params := True, mc_es256_supported := True, mc_rk := True, mc_has_rk := True\<rparr>"

lemma registration_accepted:
  assumes "length hash = 32" "text_ok 256 rp_id" "rp_id \<noteq> []" "length user_id \<le> 64" "user_id \<noteq> []"
  shows "zf_ctap_parse_make_credential (registration_request hash rp_id user_id)
    (mc_cleared \<lparr>dl_entries = [], dl_capacity = ZF_MAX_ALLOW_LIST\<rparr>) = Inr (registration_parsed hash rp_id user_id)"
proof -
  let ?r = "mc_cleared \<lparr>dl_entries = [], dl_capacity = ZF_MAX_ALLOW_LIST\<rparr>"
  have seen: "keyed_pair field (cbor_uint k @ c) (seen, r) =
      then_status (field k c r) (\<lambda>(r, c). Inr ((set_bit (unat k) seen, r), c))"
    if "k < 16" "\<not> bit seen (unat k)" for field k c seen and r :: ZfMakeCredentialRequest
    using that by (simp add: keyed_pair_def mark_seen_small)
  have f1: "zf_parse_make_credential_field 1 (cbor_bytes hash @ c) r =
      Inr (r\<lparr>mc_client_data_hash := hash, mc_has_client_data_hash := True\<rparr>, c)" for r c
    using assms by (simp add: zf_parse_make_credential_field_def zf_parse_make_credential_client_data_hash_def size_limits)
  have f2: "zf_parse_make_credential_field 2 (cbor_map 1 @ cbor_text (ascii ''id'') @ cbor_text rp_id @ c) r =
      Inr (r\<lparr>mc_rp_id := rp_id\<rparr>, c)" for r c
    using assms by (simp add: zf_parse_make_credential_field_def zf_parse_make_credential_rp_def
        rp_pair_def size_limits text_ok_def SIZE_MAX_def)
  have f3: "zf_parse_make_credential_field 3 (cbor_map 1 @ cbor_text (ascii ''id'') @ cbor_bytes user_id @ c) r =
      Inr (r\<lparr>mc_user_id := user_id, mc_has_user_id := True\<rparr>, c)" for r c
    using assms by (simp add: zf_parse_make_credential_field_def zf_parse_make_credential_user_def
        user_pair_def size_limits SIZE_MAX_def)
  have f4: "zf_parse_make_credential_field 4 (cbor_array 1 @ cbor_map 2 @ cbor_text (ascii ''alg'') @ cbor_int (- 7) @
        cbor_text (ascii ''type'') @ cbor_text (ascii ''public-key'') @ c) r =
      Inr (r\<lparr>mc_has_pubkey_cred_params := True, mc_es256_supported := True\<rparr>, c)" for r c
    by (simp add: zf_parse_make_credential_field_def SIZE_MAX_def cred_param_item_def cred_param_pair_def
        zf_parse_make_credential_pubkey_cred_params_def zf_ctap_parse_pubkey_cred_params_def)
  have rk: "zf_cbor_utf8_is_valid (ascii ''rk'')" "zf_ctap_classify_text_key (ascii ''rk'') = ZfCtapTextKeyRk"
    by (simp_all add: ascii_def zf_ctap_classify_text_key_def text_keys_def)
  have b: "zf_cbor_read_bool (cbor_bool True) = Some (True, [])" by (rule read_bool_iff [THEN iffD2]) simp
  have f7: "zf_parse_make_credential_field 7 (cbor_map 1 @ cbor_text (ascii ''rk'') @ cbor_bool True) r =
      Inr (r\<lparr>mc_rk := True, mc_has_rk := True\<rparr>, [])" for r
    by (simp add: zf_parse_make_credential_field_def zf_parse_make_credential_options_def zf_ctap_parse_options_map_def
        SIZE_MAX_def options_pair_def rk b)
  have one: "for_items 1 body c s = then_status (body c s) Inr" for body c and s :: "u16 \<times> ZfMakeCredentialRequest"
    by (simp add: then_status_def split: sum.split)
  have "for_items 5 (keyed_pair zf_parse_make_credential_field)
      (cbor_uint 1 @ cbor_bytes hash @
       cbor_uint 2 @ cbor_map 1 @ cbor_text (ascii ''id'') @ cbor_text rp_id @
       cbor_uint 3 @ cbor_map 1 @ cbor_text (ascii ''id'') @ cbor_bytes user_id @
       cbor_uint 4 @ cbor_array 1 @ cbor_map 2 @ cbor_text (ascii ''alg'') @ cbor_int (- 7) @
         cbor_text (ascii ''type'') @ cbor_text (ascii ''public-key'') @
       cbor_uint 7 @ cbor_map 1 @ cbor_text (ascii ''rk'') @ cbor_bool True) (0, ?r) =
    Inr ((set_bit 7 (set_bit 4 (set_bit 3 (set_bit 2 (set_bit 1 0)))), registration_parsed hash rp_id user_id), [])"
    by (simp add: seen f1 f2 f3 f4 f7 one bit_iff_odd registration_parsed_def mc_cleared_def
        del: readers_complete then_status_Inr One_nat_def)
  then show ?thesis
    using assms by (simp add: zf_ctap_parse_make_credential_def registration_request_def SIZE_MAX_def registration_parsed_def
        zf_validate_make_credential_request_def mc_cleared_def del: for_items_numeral)
qed

section \<open>Its credential\<close>

abbreviation sim_rp :: bytes where "sim_rp \<equiv> [0x61, 0x2E, 0x62]"

definition sim_created :: ZfCredentialRecord where
  "sim_created = zero_record\<lparr>cr_credential_id := replicate 32 7, cr_storage_version := ZF_STORE_FORMAT_VERSION,
    cr_file_name := zf_store_record_format_hex_encode (replicate 32 7), cr_rp_id := sim_rp, cr_user_id := [1, 2],
    cr_created_at := 7, cr_resident_key := True, cr_cred_protect := 1, cr_hmac_secret := True,
    cr_hmac_secret_without_uv := replicate 32 7, cr_hmac_secret_with_uv := replicate 32 7, cr_in_use := True,
    cr_public_x := replicate 32 2, cr_public_y := replicate 32 2, cr_private_iv := replicate 16 7,
    cr_private_wrapped := sim_xor 0x5A (replicate 32 1)\<rparr>"

lemma sim_created_simps [simp]:
  "cr_credential_id sim_created = replicate 32 7" "cr_rp_id sim_created = sim_rp" "cr_user_id sim_created = [1, 2]"
  "cr_file_name sim_created = zf_store_record_format_hex_encode (replicate 32 7)" "cr_in_use sim_created"
  "cr_resident_key sim_created" "cr_cred_protect sim_created = 1" "cr_sign_count sim_created = 0"
  "cr_user_name sim_created = []" "cr_user_display_name sim_created = []" "cr_storage_version sim_created = ZF_STORE_FORMAT_VERSION"
  "cr_private_wrapped sim_created = sim_xor 0x5A (replicate 32 1)"
  "cr_public_x sim_created = replicate 32 2" "cr_public_y sim_created = replicate 32 2"
  by (simp_all add: sim_created_def zero_record_def)

lemma sim_rp_ok: "text_ok 256 sim_rp"
  unfolding text_ok_def by code_simp

lemma sim_created_wf: "record_wf sim_created"
proof -
  have "zf_cbor_utf8_is_valid sim_rp" "zf_cbor_utf8_is_valid []" by code_simp+
  then show ?thesis
    by (simp add: record_wf_def sim_created_def zero_record_def text_field_def ZF_CREDENTIAL_ID_LEN_def ZF_MAX_RP_ID_LEN_def
        ZF_MAX_USER_ID_LEN_def ZF_MAX_USER_NAME_LEN_def ZF_MAX_DISPLAY_NAME_LEN_def)
qed

abbreviation sim_entry :: ZfCredentialIndexEntry where "sim_entry \<equiv> zf_store_index_entry_from_record sim_created"

definition sim_empty :: ZfCredentialStore where "sim_empty = \<lparr>cs_records = None, cs_count = 0, cs_capacity = 0\<rparr>"
definition sim_indexed :: ZfCredentialStore where
  "sim_indexed = \<lparr>cs_records = Some [sim_entry], cs_count = 1, cs_capacity = 1\<rparr>"

lemma sim_added: "zf_store_publish_added_record heap sim_empty sim_created = (True, sim_indexed)" if "\<And>n. heap n"
  using that by (simp add: zf_store_publish_added_record_def sim_empty_def sim_indexed_def zf_store_ensure_capacity_def cs_put_def
      zf_store_effective_capacity_def grow_capacity.simps ZF_MAX_CREDENTIALS_def Let_def)

lemma sim_indexed_entries: "cs_entries sim_indexed = [sim_entry]"
  by (simp add: cs_entries_def sim_indexed_def)

lemma sim_written:
  obtains w w' where "zf_store_write_record_file_with_buffer sim_hal sim_created (replicate 800 0) (\<lambda>_. None) = (True, w)"
    "zf_store_load_record_with_buffer sim_hal sim_entry (replicate 800 0) w = (Some sim_created, w')"
proof -
  let ?b = "replicate 800 0 :: bytes" and ?r = sim_created and ?i = "replicate 32 7 :: bytes"
  have sizes: "ZF_STORE_RECORD_IO_SIZE \<le> length ?b" "ZF_STORE_RECORD_MAX_SIZE \<le> length ?b"
    by (simp_all add: ZF_STORE_RECORD_IO_SIZE_def ZF_STORE_RECORD_MAX_SIZE_def)
  have r: "cr_credential_id ?r = ?i" "length ?i = 32" "cr_file_name ?r = zf_store_record_format_hex_encode ?i" by simp_all
  obtain w where w: "zf_store_write_record_file_with_buffer sim_hal ?r ?b (\<lambda>_. None) = (True, w)"
    using sim_write_record [OF sim_created_wf sizes(2)] by (auto simp: zf_store_write_record_file_with_buffer_def)
  have none: "w (cred_path ?i ''.counter'') = None"
    using frame_write_record [where content = "\<lambda>w. w" and q = "cred_path ?i ''.counter''",
        OF sim_store_platform r(2,3) w [unfolded zf_store_write_record_file_with_buffer_def]] r(2)
    by (simp add: record_paths_def)
  obtain e where e: "w (cred_path ?i []) = Some e" "encodes sim_hal e ?r"
    using record_written [where content = "\<lambda>w. w", OF sim_store_platform sim_created_wf
        w [unfolded zf_store_write_record_file_with_buffer_def]] r(1) by auto
  have "fst (zf_store_record_format_load_record_with_buffer sim_hal (cr_file_name ?r) ?b w) = Some ?r"
    using record_loaded(2) [where content = "\<lambda>w. w", OF sim_store_platform _ e(2,1) r(2,1,3) sizes(2) none] by simp
  then have "\<exists>w'. zf_store_load_record_with_buffer sim_hal sim_entry ?b w = (Some ?r, w')"
    using sizes(1)
    by (cases "zf_store_record_format_load_record_with_buffer sim_hal (cr_file_name ?r) ?b w")
      (simp add: zf_store_load_record_with_buffer_def zf_store_load_record_internal_with_buffer_def
        zf_store_index_entry_from_record_def zf_store_index_entry_file_name_def)
  with w show thesis using that by blast
qed

section \<open>The answer to the registration\<close>

lemma sim_attested:
  "\<exists>response. zf_ctap_build_none_make_credential_response_with_scratch sim_rp sim_created False False False
    (replicate 2048 0) 1023 = Inr response \<and> response \<noteq> []"
proof -
  define cose where "cose = cbor_cose_key (- 7) (replicate 32 2) (replicate 32 2)"
  have cose: "length cose = 77" unfolding cose_def by (simp add: cbor_cose_key_def cbor_encodings zf_cbor_head_def)
  have emit: "writes (\<lambda>e. zf_cbor_encode_p256_cose_key e (- 7) (cr_public_x sim_created) (cr_public_y sim_created)) cose"
    unfolding cose_def using writes_emitter [OF enc_cose.cbor_emitter_axioms] by simp
  have key: "zf_encode_cose_key sim_created (replicate 128 0) 128 = Inr cose"
    unfolding zf_encode_cose_key_def
    by (rule run_encoder_fits [OF writes_fits [OF emit]]) (simp_all add: cose)
  have ne: "cose \<noteq> []" using cose by auto
  have parts: "make_credential_parts sim_created False False = Inr ([], cose, 164)"
    by (simp add: make_credential_parts_def key zf_make_credential_auth_data_size_def cose ne ZF_AAGUID_LEN_def)
  let ?auth = "make_credential_auth_data sim_rp sim_created False False ([], cose, 164)"
  have auth: "length ?auth = 164"
    using ne by (simp add: make_credential_auth_data_def zf_build_auth_data_def Let_def cose write_be32 zf_write_be16_def
        zf_attestation_get_aaguid_def zf_attestation_aaguid_def)
  let ?body = "cbor_map 3 @ cbor_uint 1 @ cbor_text (ascii ''none'') @ cbor_uint 2 @ cbor_bytes ?auth @ cbor_uint 3 @ cbor_map 0"
  have w: "writes (encode_all [e_map 3, e_uint 1, e_text ''none'', e_uint 2, e_reserved 164 ?auth, e_uint 3, e_map 0]) ?body"
    by (rule writes_eq, (rule writes_chain writes_basic writes_reserved [OF auth])+) simp
  have small: "length (zf_cbor_head t v) \<le> 9" for t v by (simp add: zf_cbor_head_def Let_def)
  have len: "length ?body \<le> 1023" "0 < length ?body"
    using small [of ZF_CBOR_MAJOR_MAP 3] small [of ZF_CBOR_MAJOR_UINT 1] small [of ZF_CBOR_MAJOR_UINT 2] small [of ZF_CBOR_MAJOR_UINT 3]
      small [of ZF_CBOR_MAJOR_MAP 0] small [of ZF_CBOR_MAJOR_TEXT 4] small [of ZF_CBOR_MAJOR_BYTES 164] auth
    by (simp_all add: cbor_encodings ascii_def)
  have "run_encoder (replicate 2048 0) 1023 (encode_all [e_map 3, e_uint 1, e_text ''none'', e_uint 2,
      e_reserved 164 ?auth, e_uint 3, e_map 0]) = Inr ?body"
    by (rule run_encoder_fits [OF writes_fits [OF w] len(1)]) (use len(2) in simp_all)
  moreover have "?body \<noteq> []" using len(2) by (simp only: length_greater_0_conv) simp
  ultimately show ?thesis
    by (simp add: zf_ctap_build_none_make_credential_response_with_scratch_def parts del: encode_all.simps)
qed

lemma sim_key: "zf_crypto_generate_credential_keypair sim_hal r w =
    (Some (r\<lparr>cr_public_x := replicate 32 2, cr_public_y := replicate 32 2, cr_private_iv := replicate 16 7,
      cr_private_wrapped := sim_xor 0x5A (replicate 32 1)\<rparr>), w)"
proof -
  have "random_fill sim_hal n w = (replicate n 7, w)" for n by (simp add: sim_hal_def)
  then show ?thesis by (simp add: zf_crypto_generate_credential_keypair_def zf_p256_generate_keypair_def ZF_WRAP_IV_LEN_def)
qed

definition sim_draft :: ZfCredentialRecord where
  "sim_draft = sim_created\<lparr>cr_public_x := replicate 32 0, cr_public_y := replicate 32 0, cr_private_iv := replicate 16 0,
    cr_private_wrapped := replicate 32 0\<rparr>"

abbreviation sim_registration :: ZfMakeCredentialRequest where
  "sim_registration \<equiv> registration_parsed (replicate 32 0) sim_rp [1, 2]"

abbreviation sim_message :: bytes where
  "sim_message \<equiv> registration_request (replicate 32 0) sim_rp [1, 2]"

lemma sim_draft:
  "zf_store_prepare_credential (\<lambda>_. 7) sim_hal sim_rp [1, 2] (Some []) (Some []) True w = (Some sim_draft, w)"
proof -
  have "random_fill sim_hal n w = (replicate n 7, w)" for n by (simp add: sim_hal_def)
  then show ?thesis
    by (simp add: zf_store_prepare_credential_def sim_draft_def sim_created_def zero_record_def ZF_MAX_USER_ID_LEN_def
      ZF_CREDENTIAL_ID_LEN_def ZF_HMAC_SECRET_LEN_def ZF_MAX_RP_ID_LEN_def)
qed

lemma sim_registration_simps [simp]:
  "\<not> mc_has_pin_auth sim_registration" "\<not> mc_has_uv sim_registration" "mc_has_rk sim_registration" "mc_rk sim_registration"
  "mc_rp_id sim_registration = sim_rp" "mc_user_id sim_registration = [1, 2]" "mc_user_name sim_registration = []"
  "mc_user_display_name sim_registration = []" "\<not> mc_has_cred_protect sim_registration" "\<not> mc_hmac_secret_requested sim_registration"
  by (simp_all add: registration_parsed_def mc_cleared_def)

lemma sim_draft_prepared:
  "\<exists>capabilities. make_credential_prepared (sim_env\<lparr>ce_out_capacity := n\<rparr>) 1 sim_message
      ((sim_ctap_app sim_empty)\<lparr>app_command_scratch_in_use := True\<rparr>) w =
    (Inr (sim_registration, capabilities, False, sim_draft), (sim_ctap_app sim_empty)\<lparr>app_command_scratch_in_use := True\<rparr>, w)"
proof -
  have req: "zf_ctap_parse_make_credential sim_message (mc_cleared \<lparr>dl_entries = [], dl_capacity = ZF_MAX_ALLOW_LIST\<rparr>) =
      Inr sim_registration"
    by (rule registration_accepted) (simp_all add: sim_rp_ok)
  have free: "(sim_ctap_app sim_empty)\<lparr>app_command_scratch_in_use := True, app_maintenance_busy := True, app_maintenance_busy := False\<rparr> =
      (sim_ctap_app sim_empty)\<lparr>app_command_scratch_in_use := True\<rparr>"
    "(sim_ctap_app sim_empty)\<lparr>app_command_scratch_in_use := True, app_maintenance_busy := False, app_pin_state := zero_pin_state\<rparr> =
      (sim_ctap_app sim_empty)\<lparr>app_command_scratch_in_use := True\<rparr>"
    by (simp_all add: sim_ctap_app_def ZerofidoApp.defs sim_app_def)
  have rtc: "ce_rtc sim_env = (\<lambda>_. 7)" by (simp add: sim_env_def)
  have checks: "\<exists>capabilities. make_credential_checks (sim_env\<lparr>ce_out_capacity := n\<rparr>) 1 sim_message
      ((sim_ctap_app sim_empty)\<lparr>app_command_scratch_in_use := True\<rparr>) w =
    (Inr (sim_registration, capabilities, False), (sim_ctap_app sim_empty)\<lparr>app_command_scratch_in_use := True\<rparr>, w)"
    by (simp add: make_credential_checks_def req then_ok_def status_of_def fail_if_def ret_def reading_def Let_def
      zf_ctap_validate_pin_auth_protocol_def zf_ctap_effective_uv_requested_def zf_ctap_require_pin_auth_with_state_def
      with_maintenance_def zf_ctap_begin_maintenance_def cleanup_def zf_ctap_end_maintenance_def free
      zerofido_pin_require_auth_def zf_ctap_pin_is_set_def zero_pin_state_def)
  have "zf_ctap_exclude_list_has_visible_match sim_hal sim_empty rp l uv b w = (False, w)" for rp l uv b
    by (simp add: zf_ctap_exclude_list_has_visible_match_def sim_empty_def)
  with checks show ?thesis
    by (auto simp: make_credential_prepared_def then_ok_def status_of_def make_credential_excluded_def ret_def some_or_def on_world_def
      with_maintenance_def zf_ctap_begin_maintenance_def cleanup_def zf_ctap_end_maintenance_def free sim_draft rtc)
qed

lemma sim_registered:
  obtains response w w' where "zerofido_handle_ctap2 sim_env 1 (ZfCtapeCmdMakeCredential # sim_message) 1024
      (sim_ctap_app sim_empty) (\<lambda>_. None) = (response, sim_ctap_app sim_indexed, w)" "1 < length response"
    "zf_store_load_record_with_buffer sim_hal sim_entry (replicate 800 0) w = (Some sim_created, w')"
proof -
  let ?env = "sim_env\<lparr>ce_out_capacity := 1023\<rparr>" and ?app = "(sim_ctap_app sim_empty)\<lparr>app_command_scratch_in_use := True\<rparr>"
  obtain w w' where w: "zf_store_write_record_file_with_buffer sim_hal sim_created (replicate 800 0) (\<lambda>_. None) = (True, w)"
    "zf_store_load_record_with_buffer sim_hal sim_entry (replicate 800 0) w = (Some sim_created, w')" by (rule sim_written)
  obtain capabilities where prepared: "make_credential_prepared ?env 1 sim_message ?app (\<lambda>_. None) =
      (Inr (sim_registration, capabilities, False, sim_draft), ?app, \<lambda>_. None)" using sim_draft_prepared by blast
  obtain response where resp: "zf_ctap_build_none_make_credential_response_with_scratch sim_rp sim_created False False False
    (replicate 2048 0) 1023 = Inr response" "response \<noteq> []" using sim_attested by blast
  have key: "zf_crypto_generate_credential_keypair sim_hal sim_draft v = (Some sim_created, v)" for v
    by (simp add: sim_key sim_draft_def) (simp add: sim_created_def)
  have approval: "make_credential_approval ?env 1 sim_registration ?app v = (ZF_CTAP_SUCCESS, ?app, v)" for v
    by (simp add: make_credential_approval_def zf_ctap_request_approval_def zerofido_ui_request_approval_def
      sim_ctap_app_def ZerofidoApp.defs sim_app_def)
  have publish: "make_credential_publish ?env sim_registration sim_created (?app\<lparr>app_maintenance_busy := True\<rparr>) (\<lambda>_. None) =
      (Inr (), (sim_ctap_app sim_indexed)\<lparr>app_command_scratch_in_use := True, app_maintenance_busy := True\<rparr>, w)"
  proof -
    have heap: "\<And>n. ce_heap sim_env n" by (simp add: sim_env_def)
    have found: "zf_store_find_resident_credential_indices_for_user_with_buffer sim_hal sim_empty rp u n b v = ((True, []), v)" for rp u n b v
      by (simp add: zf_store_find_resident_credential_indices_for_user_with_buffer_def sim_empty_def)
    have added: "zf_store_publish_added_record (ce_heap sim_env) sim_empty sim_created = (True, sim_indexed)"
      by (rule sim_added [OF heap])
    show ?thesis
      by (simp add: make_credential_publish_def Let_def found w(1) added)
        (simp add: sim_ctap_app_def ZerofidoApp.defs sim_app_def zf_ctap_assertion_queue_clear_def sim_empty_def ZF_MAX_CREDENTIALS_def)
  qed
  have free: "(sim_ctap_app sim_indexed)\<lparr>app_command_scratch_in_use := False, app_maintenance_busy := False\<rparr> = sim_ctap_app sim_indexed"
    by (simp add: sim_ctap_app_def ZerofidoApp.defs sim_app_def)
  have response: "make_credential_response ?env sim_registration capabilities sim_created False ?app v = (Inr response, ?app, v)" for v
    using resp by (simp add: make_credential_response_def)
  have "zf_ctap_handle_make_credential ?env 1 sim_message (sim_ctap_app sim_empty) (\<lambda>_. None) = (Inr response, sim_ctap_app sim_indexed, w)"
    by (simp add: zf_ctap_handle_make_credential_def with_scratch_def zf_ctap_command_scratch_def zf_app_command_scratch_acquire_def
      cleanup_def then_ok_def status_of_def prepared approval some_or_def on_world_def key ret_def response with_maintenance_def
      zf_ctap_begin_maintenance_def publish zf_ctap_end_maintenance_def zf_app_command_scratch_release_def free)
  then have "zerofido_handle_ctap2 sim_env 1 (ZfCtapeCmdMakeCredential # sim_message) 1024 (sim_ctap_app sim_empty) (\<lambda>_. None) =
      (ctap_status_byte ZF_CTAP_SUCCESS # response, sim_ctap_app sim_indexed, w)"
    by (simp add: zerofido_handle_ctap2_def sim_enabled Let_def zf_ctap_dispatch_command_def ZfCtapeCmdGetInfo_def ZfCtapeCmdClientPin_def
      ZfCtapeCmdReset_def ZfCtapeCmdMakeCredential_def require_idle_def zf_ctap_dispatch_require_idle_def then_ok_def status_of_def)
  then show thesis using w(2) resp(2) by (intro that) auto
qed

section \<open>The answer to the assertion\<close>

lemma sim_indexed_wf:
  "store_wf sim_indexed" "cs_count sim_indexed = 1" "cs_count sim_indexed \<le> ZF_MAX_CREDENTIALS"
  using sim_indexed_entries by (simp_all add: sim_indexed_def ZF_MAX_CREDENTIALS_def store_wf_def zf_store_effective_capacity_def
      array_wf_def zf_store_index_entry_from_record_def entry_wf_def ZF_CREDENTIAL_ID_LEN_def)

lemma sim_matches:
  "zf_ctap_resolve_assertion_matches sim_indexed (silent_parsed hash sim_rp) uv = [0]"
proof -
  let ?rp = "sim_rp :: bytes"
  note wf = sim_indexed_wf
  have e: "ie_in_use (cs_entries sim_indexed ! 0) \<and> ie_resident_key (cs_entries sim_indexed ! 0) \<and>
      zf_store_index_entry_matches_rp (cs_entries sim_indexed ! 0) (zf_store_rp_matcher_init ?rp)"
    by (simp add: sim_indexed_entries zf_store_index_entry_from_record_def
        zf_store_index_entry_matches_rp_def zf_store_rp_matcher_init_def zf_store_index_entry_rp_hash_matches_def
        constant_time_equal_iff)
  have "set (zf_store_find_by_rp sim_indexed ?rp ZF_MAX_CREDENTIALS) = {0}"
    "distinct (zf_store_find_by_rp sim_indexed ?rp ZF_MAX_CREDENTIALS)"
    using collect_sorted_spec [OF wf(1,3)] e wf(2) by (auto simp: zf_store_find_by_rp_def Let_def)
  then have "zf_store_find_by_rp sim_indexed ?rp ZF_MAX_CREDENTIALS = [0]"
    by (cases "zf_store_find_by_rp sim_indexed ?rp ZF_MAX_CREDENTIALS" rule: remdups_adj.cases) auto
  then show ?thesis
    by (simp add: zf_ctap_resolve_assertion_matches_def silent_parsed_def zf_ctap_request_uses_allow_list_def ga_cleared_def
        zf_ctap_credential_is_allowed_by_cred_protect_def sim_indexed_def sim_record_def zf_store_index_entry_from_record_def
        zf_ctap_cred_protect_allows_assertion_def zf_ctap_cred_protect_effective_def)
qed

definition sim_signature :: bytes where
  "sim_signature = zf_ecdsa_der_encode_signature (replicate 32 3) (replicate 32 3) 80"

lemma sim_signature_length: "0 < length sim_signature" "length sim_signature \<le> 80"
  unfolding sim_signature_def by code_simp+

lemma sim_signs: "zf_crypto_sign_hash sim_hal sim_created hash 80 w = (Some sim_signature, w)"
proof -
  have k: "zf_p256_private_key_valid (replicate 32 1)" by code_simp
  have d: "enclave_decrypt sim_hal iv d w = (Some (sim_xor 0x5A d), w)" for iv d by (simp add: sim_hal_def)
  have s: "uECC_sign sim_hal k h w = (Some (replicate 64 3), w)" for k h by (simp add: sim_hal_def)
  have l: "sim_signature \<noteq> []" using sim_signature_length by auto
  show ?thesis
    using k l by (simp add: zf_crypto_sign_hash_def zf_unwrap_private_key_def d zf_crypto_sign_hash_with_private_key_def
        zf_p256_sign_hash_raw_def s flip: sim_signature_def)
qed

lemma sim_response:
  "\<exists>response. zf_ctap_build_assertion_response_with_scratch sim_hal request sim_created up uv n False False m False False []
    (replicate 2048 0) 1023 w = (Inr response, w) \<and> response \<noteq> []"
proof -
  let ?auth = "assertion_auth_data (ar_rp_id request) up uv n []"
  let ?body = "encode_all
      [e_map 4, e_uint 1, e_map 2, e_text ''id'', e_bytes (cr_credential_id sim_created),
       e_text ''type'', e_text ''public-key'', e_uint 2, e_bytes ?auth, e_uint 3, e_bytes sim_signature, e_uint 4,
       e_map 1, e_text ''id'', e_bytes (cr_user_id sim_created)]"
  let ?head = "cbor_map 4 @ cbor_uint 1 @ cbor_map 2 @ cbor_text (ascii ''id'') @
      cbor_bytes (cr_credential_id sim_created) @ cbor_text (ascii ''type'') @ cbor_text (ascii ''public-key'') @
      cbor_uint 2 @ cbor_bytes ?auth @ cbor_uint 3 @ cbor_bytes sim_signature @ cbor_uint 4 @
      cbor_map 1 @ cbor_text (ascii ''id'') @ cbor_bytes (cr_user_id sim_created)"
  have head: "writes ?body ?head"
    by (rule writes_eq, (rule writes_chain writes_basic)+) simp
  have small: "length (zf_cbor_head t v) \<le> 9" for t v by (simp add: zf_cbor_head_def Let_def)
  have parts: "length (cbor_bytes d) \<le> 9 + length d" "length (cbor_text d) \<le> 9 + length d" "length (cbor_uint v) \<le> 9"
    "length (cbor_map k) \<le> 9" for d v k
    using small by (simp_all add: cbor_bytes_def cbor_text_def cbor_uint_def cbor_map_def)
  have sizes: "length (cr_credential_id sim_created) = 32" "length (cr_user_id sim_created) = 2" "length ?auth = 37"
    "length (ascii ''id'') = 2" "length (ascii ''type'') = 4" "length (ascii ''public-key'') = 10"
    by (simp_all add: assertion_auth_data_def ascii_def)
  have len: "length ?head \<le> 1023" "0 < length ?head"
    using parts(4) [of 4] parts(3) [of 1] parts(4) [of 2] parts(2) [of "ascii ''id''"] parts(1) [of "cr_credential_id sim_created"]
      parts(2) [of "ascii ''type''"] parts(2) [of "ascii ''public-key''"] parts(3) [of 2] parts(1) [of ?auth] parts(3) [of 3]
      parts(1) [of sim_signature] parts(3) [of 4] parts(4) [of 1] parts(1) [of "cr_user_id sim_created"] sim_signature_length(2)
    unfolding sizes length_append by linarith (simp add: cbor_map_def)
  have "run_encoder (replicate 2048 0) 1023 (\<lambda>e. and_then (?body e) (assertion_tail sim_created False False False m False)) = Inr ?head"
    using run_encoder_fits [OF fits_and_then [OF writes_fits [OF head] fits_tail [of sim_created False False False m False]], of 1023 "replicate 2048 0"]
      len by simp
  moreover have "zf_build_auth_data (ar_rp_id request) up uv False False None n [] [] 160 = ?auth" "?auth \<noteq> []"
    using built_assertion_auth_data [of "ar_rp_id request" up uv "[]" n] sizes(3) by auto
  moreover have "?head \<noteq> []" using len(2) by (simp only: length_greater_0_conv) simp
  ultimately show ?thesis
    by (simp add: zf_ctap_build_assertion_response_with_scratch_def Let_def sim_signs del: encode_all.simps)
qed

lemma sim_prepared:
  assumes "\<not> ar_has_hmac_secret request" "ce_out_capacity env = 1023" "ce_out env = replicate 2048 0" "ce_hal env = sim_hal"
  shows "\<exists>response. zf_prepare_assertion_response env request pin_state sim_created up uv False False m False False w =
      (Inr (1, response), w) \<and> response \<noteq> []"
proof -
  have "cr_sign_count sim_created = 0" by (simp add:)
  then show ?thesis
    using sim_response [of request up uv 1 m w] assms
    by (auto simp: zf_prepare_assertion_response_def Let_def zf_ctap_hmac_secret_build_extension_def)
qed

text \<open>The counter after the first assertion.\<close>

lemma sim_advance:
  assumes "cs_entries s = [zf_store_index_entry_from_record sim_created]"
  shows "\<exists>h w' s'. zf_store_prepare_counter_advance sim_hal (zf_store_index_entry_from_record sim_created)
      (sim_created\<lparr>cr_sign_count := 1\<rparr>) (replicate 800 0) w = (Some h, w') \<and>
    zf_store_publish_counter_advance s (sim_created\<lparr>cr_sign_count := 1\<rparr>) h = (True, s')"
proof -
  let ?b = "replicate 800 0 :: bytes" and ?r = "sim_created\<lparr>cr_sign_count := 1\<rparr>"
  have sizes: "ZF_STORE_RECORD_IO_SIZE \<le> length ?b" "ZF_STORE_RECORD_MAX_SIZE \<le> length ?b"
    by (simp_all add: ZF_STORE_RECORD_IO_SIZE_def ZF_STORE_RECORD_MAX_SIZE_def)
  have r: "cr_credential_id ?r = replicate 32 7" "cr_in_use ?r" "length (cr_credential_id ?r) = 32"
    "cr_file_name ?r = zf_store_record_format_hex_encode (cr_credential_id ?r)" "cr_sign_count ?r = 1"
    by (simp_all add:)
  obtain h w' where res: "zf_store_record_format_reserve_counter_with_buffer sim_hal ?r ?b w = (Some h, w')"
    using sim_reserve [of ?r ?b w] sim_created_wf sizes(2) by auto
  have adv: "zf_store_prepare_counter_advance sim_hal (zf_store_index_entry_from_record sim_created) ?r ?b w = (Some h, w')"
    using res r sizes(1) by (simp add: zf_store_prepare_counter_advance_def zf_store_index_entry_from_record_def)
  have "h = zf_counter_reserved_high_water 1"
    using reserve_spec(1) [where content = "\<lambda>w. w", OF sim_store_platform r(3) _ _ res] r by simp
  then have low: "\<not> h < 1" using high_water_bound [of 1] by (simp only: not_less)
  have "fst (zf_store_publish_counter_advance s ?r h)"
    unfolding zf_store_publish_counter_advance_def using low assms r by (simp add: Let_def entry_has_id_def zf_store_index_entry_from_record_def
       )
  then show ?thesis using adv by (metis prod.collapse)
qed

lemma sim_answered:
  assumes w: "zf_store_load_record_with_buffer sim_hal (zf_store_index_entry_from_record sim_created) (replicate 800 0) w =
      (Some sim_created, w')"
  shows "\<exists>response app' w'. zerofido_handle_ctap2 sim_env 1 (ZfCtapeCmdGetAssertion # silent_request (replicate 32 0) sim_rp)
      1024 (sim_ctap_app sim_indexed) w = (response, app', w') \<and> 1 < length response"
proof -
  let ?env = "sim_env\<lparr>ce_out_capacity := 1023\<rparr>" and ?app = "sim_ctap_app sim_indexed"
  let ?req = "silent_parsed (replicate 32 0) sim_rp" and ?e = "zf_store_index_entry_from_record sim_created"
  have req: "zf_ctap_parse_get_assertion (silent_request (replicate 32 0) sim_rp)
    (ga_cleared \<lparr>dl_entries = [], dl_capacity = ZF_MAX_ALLOW_LIST\<rparr>) = Inr ?req"
  proof (rule silent_accepted)
    show "text_ok 256 sim_rp" unfolding text_ok_def by code_simp
  qed simp_all
  have f: "\<not> ga_has_pin_auth ?req" "\<not> ga_has_uv ?req" "\<not> ar_has_hmac_secret (ga_assertion ?req)" "ga_has_up ?req" "\<not> ga_up ?req"
    "ar_rp_id (ga_assertion ?req) = sim_rp" "\<not> zf_ctap_request_uses_allow_list ?req"
    by (simp_all add: silent_parsed_def ga_cleared_def assertion_cleared_def zf_ctap_request_uses_allow_list_def)
  let ?app1 = "(zf_ctap_assertion_queue_clear (?app\<lparr>app_command_scratch_in_use := True\<rparr>))"
  have checks: "get_assertion_checks ?env 1 (silent_request (replicate 32 0) sim_rp) (?app\<lparr>app_command_scratch_in_use := True\<rparr>) w =
      (Inr (?req, zero_pin_state, False), ?app1, w)"
    using f by (simp add: get_assertion_checks_def req then_ok_def status_of_def fail_if_def updating_def ret_def Let_def
      zf_ctap_validate_pin_auth_protocol_def zf_ctap_effective_uv_requested_def zf_ctap_require_pin_auth_with_state_def
      with_maintenance_def zf_ctap_begin_maintenance_def zf_ctap_assertion_queue_clear_def cleanup_def zf_ctap_end_maintenance_def
      zerofido_pin_require_auth_def)
  let ?app2 = "?app1\<lparr>app_maintenance_busy := True\<rparr>"
  have store: "app_store ?app2 = sim_indexed" "\<not> app_maintenance_busy ?app1" by (simp_all add: zf_ctap_assertion_queue_clear_def)
  have e: "cs_entries sim_indexed = [?e]" "ie_in_use ?e" "zf_ctap_index_entry_matches_record ?e sim_created"
    "cr_rp_id sim_created = sim_rp"
    by (simp_all add: sim_indexed_entries zf_ctap_index_entry_matches_record_def zf_store_index_entry_from_record_def)
  obtain response where resp: "zf_prepare_assertion_response ?env (ga_assertion ?req) zero_pin_state sim_created False False False False 1
      False False w' = (Inr (1, response), w')" "response \<noteq> []"
    using sim_prepared [of "ga_assertion ?req" ?env zero_pin_state False False 1 w'] f(3) by auto
  obtain h w2 s2 where adv: "zf_store_prepare_counter_advance sim_hal ?e (sim_created\<lparr>cr_sign_count := 1\<rparr>) (replicate 800 0) w' = (Some h, w2)"
    "zf_store_publish_counter_advance sim_indexed (sim_created\<lparr>cr_sign_count := 1\<rparr>) h = (True, s2)"
    using sim_advance [OF e(1)] by blast
  have current: "zf_ctap_selected_record_still_current_locked ?app2 0 (sim_created\<lparr>cr_sign_count := 1\<rparr>)"
    using e by (simp add: zf_ctap_selected_record_still_current_locked_def store zf_ctap_index_entry_matches_record_def)
  have loaded: "zf_ctap_load_assertion_record ?env 0 sim_rp ?app2 w = (Some (sim_created, ?e), w')"
    using e w by (simp add: zf_ctap_load_assertion_record_def zf_ctap_snapshot_index_entry_locked_def store Let_def)
  have "fst (zf_ctap_finish_assertion ?env 1 ?req zero_pin_state [] None False False False False False ?app1 w) = Inr response"
    using resp adv(2)
    by (simp add: zf_ctap_finish_assertion_def with_maintenance_def zf_ctap_begin_maintenance_def store cleanup_def then_ok_def
      reading_def zf_ctap_resolve_assertion_matches_snapshot_def sim_matches ret_def fail_with_def f loaded Let_def
      zf_ctap_load_and_prepare_assertion_def some_or_def on_world_def lift_result_def zf_ctap_publish_assertion_counter_def adv(1) current)
  then obtain app' w3 where fin: "zf_ctap_finish_assertion ?env 1 ?req zero_pin_state [] None False False False False False ?app1 w =
      (Inr response, app', w3)" by (metis prod.collapse)
  have idle: "\<not> app_maintenance_busy ?app" by simp
  show ?thesis
    using resp(2) idle f(4,5)
    by (simp add: zerofido_handle_ctap2_def sim_enabled [unfolded ZfCtapeCmdGetAssertion_def] Let_def zf_ctap_dispatch_command_def ZfCtapeCmdGetInfo_def ZfCtapeCmdClientPin_def
      ZfCtapeCmdReset_def ZfCtapeCmdMakeCredential_def ZfCtapeCmdGetAssertion_def require_idle_def zf_ctap_dispatch_require_idle_def
      zf_ctap_handle_get_assertion_def with_scratch_def zf_ctap_command_scratch_def zf_app_command_scratch_acquire_def cleanup_def
      then_ok_def status_of_def checks fin)
qed

section \<open>A next assertion\<close>

definition sim_queue :: ZfAssertionQueue where
  "sim_queue = \<lparr>aq_active = True, aq_session_id = 1, aq_uv_verified = False, aq_user_present = False,
    aq_record_indices = [0, 0], aq_count = 2, aq_index = 1, aq_expires_at = 2000,
    aq_request = assertion_cleared\<lparr>ar_rp_id := sim_rp\<rparr>\<rparr>"

definition sim_queued :: CtapApp where
  "sim_queued = (sim_ctap_app sim_indexed)\<lparr>app_assertion_queue := sim_queue\<rparr>"

lemma sim_next_answered:
  assumes w: "zf_store_load_record_with_buffer sim_hal (zf_store_index_entry_from_record sim_created) (replicate 800 0) w =
      (Some sim_created, w')"
  shows "\<exists>response app' w'. zerofido_handle_ctap2 sim_env 1 [ZfCtapeCmdGetNextAssertion] 1024 sim_queued w =
    (response, app', w') \<and> 1 < length response"
proof -
  let ?env = "sim_env\<lparr>ce_out_capacity := 1023\<rparr>" and ?e = sim_entry and ?r = sim_created
  let ?app = "sim_queued\<lparr>app_maintenance_busy := True, app_command_scratch_in_use := True\<rparr>"
  have enabled: "zf_runtime_ctap_command_enabled (sim_build\<lparr>ZF_PACKED_ATTESTATION := False\<rparr>) sim_queued 8"
    by (simp add: sim_queued_def sim_ctap_app_def ZerofidoApp.defs sim_app_def ZfCtapeCmdGetInfo_def ZfCtapeCmdClientPin_def
      ZfCtapeCmdReset_def ZfCtapeCmdMakeCredential_def ZfCtapeCmdGetAssertion_def ZfCtapeCmdGetNextAssertion_def
      zf_runtime_ctap_command_enabled_def Let_def
      zf_runtime_get_effective_capabilities_def sim_config_def zf_runtime_config_load_defaults_def
      zf_runtime_config_resolve_capabilities_def)
  have free: "\<not> app_maintenance_busy sim_queued" "\<not> app_command_scratch_in_use sim_queued" "app_store ?app = sim_indexed"
    "app_assertion_queue ?app = sim_queue"
    by (simp_all add: sim_queued_def)
  have q: "aq_request sim_queue = assertion_cleared\<lparr>ar_rp_id := sim_rp\<rparr>" "aq_record_indices sim_queue ! aq_index sim_queue = 0"
    "aq_active sim_queue" "aq_session_id sim_queue = 1" "aq_expires_at sim_queue = 2000" "aq_index sim_queue = 1" "aq_count sim_queue = 2"
    "\<not> aq_uv_verified sim_queue" "\<not> aq_user_present sim_queue" "aq_record_indices sim_queue = [0, 0]"
    by (simp_all add: sim_queue_def)
  have e: "cs_entries sim_indexed = [?e]" "ie_in_use ?e" "zf_ctap_queue_entry_matches_record ?e ?r"
    "zf_ctap_queue_entry_matches_record ?e (?r\<lparr>cr_sign_count := 1\<rparr>)"
    by (simp_all add: sim_indexed_entries zf_ctap_queue_entry_matches_record_def zf_store_index_entry_from_record_def)
  have snap: "queue_snapshot sim_hal 1 ?app w = (Inr (sim_queue, zero_pin_state, ?e), ?app, w)"
    using q e free(3,4) by (simp add: queue_snapshot_def zf_ctap_assertion_queue_snapshot_entry_locked_def Let_def)
      (simp add: sim_queued_def)
  have load: "queue_load ?env sim_queue ?e ?app w = (Inr ?r, ?app, w')"
    using q(1) e(3) w by (simp add: queue_load_def some_or_def then_ok_def on_world_def ret_def)
  have count: "zf_get_next_sign_count ?r = Some 1" by (simp add: zf_get_next_sign_count_def)
  have ext: "zf_ctap_hmac_secret_build_extension sim_hal p (assertion_cleared\<lparr>ar_rp_id := sim_rp\<rparr>) ?r u b n v = (Inr [], v)" for p u b n v
    by (simp add: zf_ctap_hmac_secret_build_extension_def assertion_cleared_def)
  obtain response where resp: "zf_ctap_build_assertion_response_with_scratch sim_hal (assertion_cleared\<lparr>ar_rp_id := sim_rp\<rparr>) ?r False
      False 1 False False 2 False False [] (replicate 2048 0) 1023 w' = (Inr response, w')" "response \<noteq> []"
    using sim_response by blast
  obtain h w2 s2 where adv: "zf_store_prepare_counter_advance sim_hal ?e (?r\<lparr>cr_sign_count := 1\<rparr>) (replicate 800 0) w' = (Some h, w2)"
    "zf_store_publish_counter_advance sim_indexed (?r\<lparr>cr_sign_count := 1\<rparr>) h = (True, s2)"
    using sim_advance [OF e(1)] by blast
  have publish: "\<exists>app'. queue_publish sim_hal 1 sim_queue (?r\<lparr>cr_sign_count := 1\<rparr>) h ?app w2 = (Inr (), app', w2)"
    using adv(2) e free(3,4) q by (simp add: queue_publish_def Let_def zf_ctap_assertion_queue_still_current_locked_def)
  have "\<exists>app'. zf_ctap_assertion_queue_handle_next ?env 1 sim_queued w = (Inr response, app', w2)"
    using publish free(1,2) q
    by (auto simp: zf_ctap_assertion_queue_handle_next_def zf_ctap_assertion_queue_begin_maintenance_def
      zf_app_command_scratch_acquire_def cleanup_def then_ok_def snap load count ext resp(1) adv(1) or_drop_queue_def some_or_def
      ret_def lift_result_def on_world_def status_of_def Let_def split: prod.split)
  then show ?thesis
    using resp(2) free(1)
    by (auto simp: zerofido_handle_ctap2_def enabled Let_def zf_ctap_dispatch_command_def ZfCtapeCmdGetInfo_def ZfCtapeCmdClientPin_def
      ZfCtapeCmdReset_def ZfCtapeCmdMakeCredential_def ZfCtapeCmdGetAssertion_def ZfCtapeCmdGetNextAssertion_def require_idle_def
      zf_ctap_dispatch_require_idle_def then_ok_def status_of_def zf_ctap_require_empty_payload_def)
qed

end
