(* ===== verification/Ctap_Gate.thy ===== *)
theory Ctap_Gate
  imports Ctap_Logic
begin

text \<open>
  The maintenance gate and the command scratch: a handler that finds both free leaves both free, whatever
  status or response it ends with, so no command locks the authenticator. A handler is \<open>steady\<close> if it leaves
  the two flags as it found them.
\<close>

section \<open>Steady handlers\<close>

definition occupied :: "CtapApp \<Rightarrow> bool \<times> bool" where
  "occupied app = (app_maintenance_busy app, app_command_scratch_in_use app)"

definition steady_cmd :: "('r, 'w) cmd \<Rightarrow> bool" where
  "steady_cmd m \<longleftrightarrow> (\<forall>app w. occupied (fst (snd (m app w))) = occupied app)"

text \<open>The other threads, which act while a command waits or polls, respect the gate and the scratch.\<close>

definition steady_env :: "'w ctap_env \<Rightarrow> bool" where
  "steady_env env \<longleftrightarrow>
    (\<forall>session_id app w. occupied (fst (snd (ce_wait env session_id app w))) = occupied app) \<and>
    (\<forall>session_id app w. occupied (fst (snd (ce_poll env session_id app w))) = occupied app)"

named_theorems steady \<open>handlers that leave the gate and the scratch as they were\<close>

lemma steadyD: "steady_cmd m \<Longrightarrow> m app w = (r, app', w') \<Longrightarrow> occupied app' = occupied app"
  by (simp add: steady_cmd_def) (metis fst_conv snd_conv)

lemma steadyI: "(\<And>app w r app' w'. m app w = (r, app', w') \<Longrightarrow> occupied app' = occupied app) \<Longrightarrow> steady_cmd m"
  by (simp add: steady_cmd_def) (metis prod.collapse)

lemma steady_then_ok [steady]:
  assumes "steady_cmd m" "\<And>r. steady_cmd (f r)"
  shows "steady_cmd (then_ok m f)"
proof (rule steadyI)
  fix app w r app' w'
  assume "then_ok m f app w = (r, app', w')"
  then show "occupied app' = occupied app"
  proof (cases rule: then_ok_cases)
    case (2 r app1 w1)
    then show ?thesis using steadyD [OF assms(1)] steadyD [OF assms(2)] by metis
  qed (use steadyD [OF assms(1)] in metis)
qed

lemma steady_basic [steady]:
  "steady_cmd (ret r)" "steady_cmd (fail_with status)" "steady_cmd (fail_if c status)" "steady_cmd (reading g)"
  by (simp_all add: steady_cmd_def ret_def fail_with_def fail_if_def reading_def)

lemma steady_pure [steady]:
  "steady_cmd (\<lambda>app w. (g app, app, w))" "steady_cmd (\<lambda>app w. (g' app w, app, w))"
  "steady_cmd (status_of (\<lambda>app w. (g'' app, app, w)))" "steady_cmd (\<lambda>app. fail_if (c app) status app)"
  by (simp_all add: steady_cmd_def status_of_def fail_if_def fail_with_def ret_def)

lemma steady_if [steady]: "steady_cmd m \<Longrightarrow> steady_cmd m' \<Longrightarrow> steady_cmd (if c then m else m')"
  by simp

lemma steady_case_prod [steady]: "(\<And>a b. steady_cmd (f a b)) \<Longrightarrow> steady_cmd (case r of (a, b) \<Rightarrow> f a b)"
  by (simp split: prod.split)

lemma steady_some_or [steady]: "steady_cmd m \<Longrightarrow> steady_cmd (some_or status m)"
  unfolding some_or_def by (intro steady allI) (auto intro: steady split: option.split)

lemma steady_on_world [steady]: "steady_cmd (on_world f)" "steady_cmd (lift_result g)"
  by (simp_all add: steady_cmd_def on_world_def lift_result_def split_def)

lemma steady_updating [steady]: "(\<And>app. occupied (g app) = occupied app) \<Longrightarrow> steady_cmd (updating g)"
  by (simp add: steady_cmd_def updating_def)

text \<open>The gate and the scratch are taken and given back.\<close>

lemma steady_under_gate:
  assumes "\<And>app w. app_command_scratch_in_use (fst (snd (m app w))) = app_command_scratch_in_use app"
  shows "steady_cmd (with_maintenance m)"
proof (rule steadyI)
  fix app w r app' w'
  assume m: "with_maintenance m app w = (r, app', w')"
  show "occupied app' = occupied app"
  proof (cases "app_maintenance_busy app")
    case False
    then obtain app1 where "m (app\<lparr>app_maintenance_busy := True\<rparr>) w = (r, app1, w')" "app' = zf_ctap_end_maintenance app1"
      using m by (auto simp: with_maintenance_def zf_ctap_begin_maintenance_def cleanup_def split: prod.split_asm)
    then show ?thesis using assms [of "app\<lparr>app_maintenance_busy := True\<rparr>" w] False
      by (simp add: occupied_def zf_ctap_end_maintenance_def)
  qed (use m in \<open>auto simp: with_maintenance_def zf_ctap_begin_maintenance_def\<close>)
qed

lemma steady_with_maintenance [steady]: "steady_cmd m \<Longrightarrow> steady_cmd (with_maintenance m)"
  by (rule steady_under_gate) (simp add: steady_cmd_def occupied_def)

lemma steady_with_scratch [steady]:
  assumes "steady_cmd m"
  shows "steady_cmd (with_scratch env m)"
proof (rule steadyI)
  fix app w r app' w'
  assume m: "with_scratch env m app w = (r, app', w')"
  show "occupied app' = occupied app"
  proof (cases "app_command_scratch_in_use app \<or> \<not> ce_malloc env w")
    case False
    then obtain app1 where "m (app\<lparr>app_command_scratch_in_use := True\<rparr>) w = (r, app1, w')"
      "app' = zf_app_command_scratch_release app1"
      using m by (auto simp: with_scratch_def zf_ctap_command_scratch_def zf_app_command_scratch_acquire_def cleanup_def
          split: prod.split_asm)
    then show ?thesis using steadyD [OF assms] False by (auto simp: occupied_def zf_app_command_scratch_release_def)
  qed (use m in \<open>auto simp: with_scratch_def zf_ctap_command_scratch_def zf_app_command_scratch_acquire_def\<close>)
qed

section \<open>Prompts, polls and the PIN\<close>

lemma occupied_prompt [simp]:
  "occupied (zerofido_ui_clear_interaction_signal app) = occupied app"
  "occupied (zerofido_ui_prepare_interaction_locked hal app kind p op t u w) = occupied app"
  "occupied (app\<lparr>app_pin_state := s\<rparr>) = occupied app" "occupied (app\<lparr>app_store := st\<rparr>) = occupied app"
  "occupied (app\<lparr>app_attestation := at\<rparr>) = occupied app" "occupied (app\<lparr>app_u2f := u2\<rparr>) = occupied app"
  "occupied (app\<lparr>app_approval := ap\<rparr>) = occupied app" "occupied (app\<lparr>app_store_records_owned := ow\<rparr>) = occupied app"
  "occupied (zf_ctap_assertion_queue_clear app) = occupied app"
  "occupied (zf_runtime_config_refresh_capabilities b app) = occupied app"
  by (simp_all add: occupied_def zerofido_ui_clear_interaction_signal_def zerofido_ui_prepare_interaction_locked_def
      zf_ctap_assertion_queue_clear_def zf_runtime_config_refresh_capabilities_def
      zf_runtime_config_resolve_app_capabilities_def Let_def)

lemma steady_poll [steady]: "steady_env env \<Longrightarrow> steady_cmd (status_of (ce_poll env session_id))"
  by (simp add: steady_cmd_def status_of_def split_def steady_env_def)

lemma wait_steady:
  "steady_env env \<Longrightarrow>
    occupied (fst (snd (zerofido_ui_wait_for_interaction_result (ce_wait env) session_id app w))) = occupied app"
  by (auto simp: zerofido_ui_wait_for_interaction_result_def Let_def steady_env_def split: prod.split bool.split)
    (metis fst_conv snd_conv)+

lemma approval_steady:
  "steady_env env \<Longrightarrow>
    occupied (fst (snd (zerofido_ui_request_approval (ce_build env) (ce_hal env) (ce_wait env) app p op t u session_id w))) =
    occupied app"
  by (simp add: zerofido_ui_request_approval_def Let_def wait_steady)

lemma steady_approval [steady]:
  assumes "steady_env env"
  shows "steady_cmd (status_of (\<lambda>app. zf_ctap_request_approval (ce_build env) (ce_hal env) (ce_wait env) app
      op t u session_id))"
    "steady_cmd (leave_with (\<lambda>app. zf_ctap_handle_empty_pin_auth_probe (ce_build env) (ce_hal env)
      (ce_wait env) app session_id op t u))"
    "steady_cmd (status_of (make_credential_approval env session_id request))"
    "steady_cmd (leave_with (\<lambda>app w. case make_credential_approval env session_id request app w of
      (status, app, w) \<Rightarrow> (g status, app, w)))"
  using approval_steady [OF assms]
  by (simp_all add: steady_cmd_def status_of_def leave_with_def make_credential_approval_def
      zf_ctap_request_approval_def zf_ctap_handle_empty_pin_auth_probe_def split_def)

lemma steady_selection [steady]:
  assumes "steady_env env"
  shows "steady_cmd (\<lambda>app. zf_ctap_request_assertion_selection (ce_hal env) (ce_wait env) app t m session_id)"
proof -
  have "occupied (fst (snd (zerofido_ui_request_assertion_selection (ce_hal env) (ce_wait env) app t m session_id w))) =
      occupied app" for app w
    by (simp add: zerofido_ui_request_assertion_selection_def Let_def split_def wait_steady [OF assms]
        split: approval_details.split)
  then show ?thesis
    by (simp add: steady_cmd_def zf_ctap_request_assertion_selection_def split_def split: option.split)
qed

lemma steady_require_pin_auth [steady]: "steady_cmd (zf_ctap_require_pin_auth_with_state env a b c d e f g h)"
  unfolding zf_ctap_require_pin_auth_with_state_def by (intro steady) (simp add: steady_cmd_def split_def)

text \<open>The consent of the user is asked for outside the gate, which is taken again afterwards.\<close>

lemma client_pin_scratch:
  assumes "steady_env env"
  shows "app_command_scratch_in_use (fst (snd (zerofido_pin_handle_command_with_session (ce_build env) (ce_hal env)
    (ce_wait env) scratch_ok app session_id request out n w))) = app_command_scratch_in_use app"
proof -
  let ?hal = "ce_hal env" and ?f = "app_command_scratch_in_use :: CtapApp \<Rightarrow> bool"
  have asked: "?f (fst (snd (zerofido_ui_request_approval (ce_build env) (ce_hal env) (ce_wait env) app p op t u session_id w))) =
      ?f app" for app p op t u session_id w
    using approval_steady [OF assms, of app p op t u session_id w] by (simp add: occupied_def)
  have consented: "?f (fst (snd (snd (zf_client_pin_request_permission_token_consent (ce_build env) ?hal
        (ce_wait env) app s rq h session_id w)))) = ?f app" for app s rq h session_id w
    by (simp add: zf_client_pin_request_permission_token_consent_def Let_def split_def asked)
  have token: "?f (fst (snd (snd (zf_client_pin_handle_get_pin_token (ce_build env) ?hal (ce_wait env) app s rq
        pm rc session_id out n w)))) = ?f app" for app s rq pm rc session_id out n w
    by (simp add: zf_client_pin_handle_get_pin_token_def Let_def split_def consented split: option.split)
  have sub: "?f (fst (snd (snd (client_pin_subcommand (ce_build env) ?hal (ce_wait env) app c s rq session_id
        out n w)))) = ?f app" for app c s rq session_id out n w
    by (simp add: client_pin_subcommand_def no_response_def Let_def split_def token)
  have refresh: "?f (zf_runtime_config_refresh_capabilities b app) = ?f app" for b app
    by (simp add: zf_runtime_config_refresh_capabilities_def zf_runtime_config_resolve_app_capabilities_def Let_def)
  show ?thesis
    using sub by (simp add: zerofido_pin_handle_command_with_session_def Let_def split_def zf_pin_publish_state_def refresh
        split: sum.split)
qed

section \<open>The commands\<close>

lemma steady_make_credential [steady]:
  assumes env: "steady_env env"
  shows "steady_cmd (zf_ctap_handle_make_credential env session_id data)"
proof -
  have publish: "steady_cmd (make_credential_publish env rq r)" for rq r
    by (simp add: steady_cmd_def make_credential_publish_def Let_def split_def split: bool.split prod.split)
  have response: "steady_cmd (make_credential_response env rq c r uv)" for rq c r uv
    by (simp add: steady_cmd_def make_credential_response_def Let_def split_def)
  have checks: "steady_cmd (make_credential_checks env session_id data)"
    unfolding make_credential_checks_def Let_def by (intro steady env)
  have excluded: "steady_cmd (make_credential_excluded env rq uv)" for rq uv
    unfolding make_credential_excluded_def by (intro steady)
  have prepared: "steady_cmd (make_credential_prepared env session_id data)"
    unfolding make_credential_prepared_def by (intro steady env checks excluded)
  show ?thesis
    unfolding zf_ctap_handle_make_credential_def by (intro steady env prepared response publish)
qed

lemma steady_get_assertion [steady]:
  assumes env: "steady_env env"
  shows "steady_cmd (zf_ctap_handle_get_assertion env session_id data)"
proof -
  have checks: "steady_cmd (get_assertion_checks env session_id data)"
    unfolding get_assertion_checks_def Let_def by (intro steady env) (auto intro: steady split: prod.split)
  have seed: "occupied (zf_ctap_assertion_queue_seed hal sid rq uv ms app w) = occupied app" for hal sid rq uv ms app w
    by (simp add: zf_ctap_assertion_queue_seed_def Let_def) (simp add: occupied_def zf_ctap_assertion_queue_clear_def)
  have publish: "steady_cmd (zf_ctap_publish_assertion_counter env e r i n sid rq uv ms sd)" for e r i n sid rq uv ms sd
  proof -
    have "steady_cmd (\<lambda>app w. if \<not> zf_ctap_selected_record_still_current_locked app i r' then (Inl a, app, w)
       else case zf_store_publish_counter_advance (app_store app) r' h of (False, _) \<Rightarrow> (Inl b, app, w)
         | (True, store) \<Rightarrow> let app = zf_ctap_assertion_queue_clear (app\<lparr>app_store := store\<rparr>)
           in (Inr (), if sd then zf_ctap_assertion_queue_seed (ce_hal env) sid rq uv ms app w else app, w))" for r' h a b
      by (simp add: steady_cmd_def Let_def split_def seed split: bool.split)
    then show ?thesis unfolding zf_ctap_publish_assertion_counter_def Let_def by (intro steady) (simp_all add: Let_def)
  qed
  have prepare: "steady_cmd (zf_ctap_load_and_prepare_assertion env q p i up uv d c n us iu)" for q p i up uv d c n us iu
    unfolding zf_ctap_load_and_prepare_assertion_def by (intro steady)
  have finish: "steady_cmd (zf_ctap_finish_assertion env session_id rq p ms sel up uv d us poll)" for rq p ms sel up uv d us poll
    unfolding zf_ctap_finish_assertion_def Let_def
    by (intro steady env prepare publish) (auto intro!: steady split: option.split)
  show ?thesis
    unfolding zf_ctap_handle_get_assertion_def Let_def by (intro steady env checks finish)
qed

text \<open>getNextAssertion gives the scratch back even when it could not take it, so it is steady from a free scratch only.\<close>

lemma next_steady:
  assumes env: "steady_env env" and free: "\<not> app_command_scratch_in_use app"
    and r: "zf_ctap_assertion_queue_handle_next env session_id app w = (x, app', w')"
  shows "occupied app' = occupied app"
proof -
  obtain status app1 w1 where poll: "ce_poll env session_id app w = (status, app1, w1)" using prod_cases3 by blast
  have app1: "occupied app1 = occupied app" using env poll by (simp add: steady_env_def) (metis fst_conv snd_conv)
  note steps = r [unfolded zf_ctap_assertion_queue_handle_next_def poll, simplified]
  show ?thesis
  proof (cases "status \<noteq> ZF_CTAP_SUCCESS \<or> app_maintenance_busy app1")
    case True
    then have "app' = app1 \<or> app' = zf_ctap_assertion_queue_clear app1"
      using steps by (auto simp: zf_ctap_assertion_queue_begin_maintenance_def split: if_split_asm)
    then show ?thesis using app1 by auto
  next
    case False
    let ?clean = "\<lambda>app. zf_app_command_scratch_release (zf_ctap_assertion_queue_end_maintenance app)"
    have "\<exists>app2. app' = ?clean app2"
      using steps False by (auto simp: zf_ctap_assertion_queue_begin_maintenance_def cleanup_def split: prod.split_asm)
    then have "occupied app' = (False, False)"
      by (auto simp: occupied_def zf_app_command_scratch_release_def zf_ctap_assertion_queue_end_maintenance_def)
    moreover have "occupied app = (False, False)" using False free app1 by (simp add: occupied_def)
    ultimately show ?thesis by simp
  qed
qed

theorem next_frees_foreign_scratch:
  assumes "app_command_scratch_in_use app" "\<not> app_maintenance_busy app"
    "ce_poll env session_id app w = (ZF_CTAP_SUCCESS, app, w)"
  shows "zf_ctap_assertion_queue_handle_next env session_id app w =
    (Inl ZF_CTAP_ERR_OTHER, app\<lparr>app_maintenance_busy := False, app_command_scratch_in_use := False\<rparr>, w)"
  using assms by (simp add: zf_ctap_assertion_queue_handle_next_def zf_ctap_assertion_queue_begin_maintenance_def cleanup_def
      zf_app_command_scratch_acquire_def zf_app_command_scratch_release_def zf_ctap_assertion_queue_end_maintenance_def)

lemma reset_steady:
  assumes "steady_env env"
  shows "steady_cmd (zf_ctap_handle_reset env session_id n)"
proof -
  have "steady_cmd (reset_under_maintenance env)"
    by (simp add: steady_cmd_def reset_under_maintenance_def Let_def split_def split: bool.split)
  then show ?thesis unfolding zf_ctap_handle_reset_def by (intro steady assms)
qed

lemma pin_branch_steady:
  assumes "steady_env env"
  shows "steady_cmd (with_maintenance (\<lambda>app w.
    case zf_app_command_scratch_acquire (ce_malloc env) (zf_ctap_assertion_queue_clear app) w of
      (acquired, app) \<Rightarrow> cleanup (if acquired then zf_app_command_scratch_release else id) (\<lambda>app.
        zerofido_pin_handle_command_with_session (ce_build env) (ce_hal env) (ce_wait env)
          acquired app session_id request_body (ce_out env) (ce_out_capacity env)) app w))"
proof (rule steady_under_gate)
  have clear: "app_command_scratch_in_use (zf_ctap_assertion_queue_clear app) = app_command_scratch_in_use app" for app
    by (simp add: zf_ctap_assertion_queue_clear_def)
  show "app_command_scratch_in_use (fst (snd (case zf_app_command_scratch_acquire (ce_malloc env)
      (zf_ctap_assertion_queue_clear app) w of (acquired, app) \<Rightarrow>
        cleanup (if acquired then zf_app_command_scratch_release else id) (\<lambda>app.
        zerofido_pin_handle_command_with_session (ce_build env) (ce_hal env) (ce_wait env)
          acquired app session_id request_body (ce_out env) (ce_out_capacity env)) app w))) = app_command_scratch_in_use app"
    for app and w :: 'a
    by (auto simp: zf_app_command_scratch_acquire_def cleanup_def split_def clear zf_app_command_scratch_release_def
        client_pin_scratch [OF assms])
qed

lemma dispatch_steady:
  assumes env: "steady_env env" and free: "\<not> app_command_scratch_in_use app"
    and r: "zf_ctap_dispatch_command env c session_id cmd body app w = (x, app', w')"
  shows "occupied app' = occupied app"
proof (cases "cmd = ZfCtapeCmdGetNextAssertion")
  case True
  have cmds: "ZfCtapeCmdGetNextAssertion \<noteq> ZfCtapeCmdGetInfo" "ZfCtapeCmdGetNextAssertion \<noteq> ZfCtapeCmdClientPin"
    "ZfCtapeCmdGetNextAssertion \<noteq> ZfCtapeCmdReset" "ZfCtapeCmdGetNextAssertion \<noteq> ZfCtapeCmdMakeCredential"
    "ZfCtapeCmdGetNextAssertion \<noteq> ZfCtapeCmdGetAssertion"
    by (simp_all add: ZfCtapeCmdGetInfo_def ZfCtapeCmdClientPin_def ZfCtapeCmdReset_def ZfCtapeCmdMakeCredential_def
        ZfCtapeCmdGetAssertion_def ZfCtapeCmdGetNextAssertion_def)
  have "app' = app \<or> zf_ctap_assertion_queue_handle_next env session_id app w = (x, app', w')"
    using r True cmds by (auto simp: zf_ctap_dispatch_command_def Let_def require_idle_def then_ok_def status_of_def
        split: if_split_asm)
  then show ?thesis using next_steady [OF env free] by auto
next
  case False
  have "steady_cmd (zf_ctap_dispatch_command env c session_id cmd body)"
  proof -
    have sel: "steady_cmd (zf_handle_selection env session_id n)" for n
      unfolding zf_handle_selection_def by (intro steady env)
    show ?thesis
      unfolding zf_ctap_dispatch_command_def Let_def if_not_P [OF False] require_idle_def
      by (intro steady env reset_steady pin_branch_steady sel)
  qed
  from steadyD [OF this r] show ?thesis .
qed

end
