(* ===== verification/Ctap_Consent.thy ===== *)
theory Ctap_Consent
  imports Ctap_History
begin

text \<open>
  What the user has to do with a command: a registration, a reset or a selection succeeds only if an approval
  does, and the flags of an assertion say whether the user was present and whether the platform knew the PIN.
  The user is whatever acts while a prompt is open: \<open>nobody_approves\<close> says that no wait ends with an approval
  and that nothing turns automatic approval on.
\<close>

section \<open>Prompts that nobody answers\<close>

definition manual :: "CtapApp \<Rightarrow> bool" where
  "manual app \<longleftrightarrow> \<not> app_transport_auto_accept_transaction app"

definition nobody_approves :: "'w ctap_env \<Rightarrow> bool" where
  "nobody_approves env \<longleftrightarrow> \<not> ZF_AUTO_ACCEPT_REQUESTS (ce_build env) \<and>
    (\<forall>session_id app w app' w'. manual app \<longrightarrow> ce_wait env session_id app w = (True, app', w') \<longrightarrow>
      ap_state (app_approval app') \<noteq> ZfApprovalApproved) \<and>
    (\<forall>session_id app w. manual app \<longrightarrow> manual (fst (snd (ce_poll env session_id app w))))"

lemma manual_prompt [simp]:
  "manual (zerofido_ui_clear_interaction_signal app) = manual app"
  "manual (zerofido_ui_prepare_interaction_locked hal app kind p op t u w) = manual app"
  "manual (app\<lparr>app_approval := ap\<rparr>) = manual app" "manual (app\<lparr>app_pin_state := s\<rparr>) = manual app"
  "manual (app\<lparr>app_maintenance_busy := b\<rparr>) = manual app" "manual (app\<lparr>app_command_scratch_in_use := b\<rparr>) = manual app"
  "manual (zf_ctap_assertion_queue_clear app) = manual app"
  by (simp_all add: manual_def zerofido_ui_clear_interaction_signal_def zerofido_ui_prepare_interaction_locked_def
      zf_ctap_assertion_queue_clear_def)

lemma no_approval:
  assumes "nobody_approves env" "manual app"
  shows "snd (fst (zerofido_ui_wait_for_interaction_result (ce_wait env) session_id app w)) = False"
  using assms by (auto simp: zerofido_ui_wait_for_interaction_result_def Let_def nobody_approves_def
      split: prod.split bool.split)

lemma not_approved:
  assumes "nobody_approves env" "manual app"
  shows "fst (zf_ctap_request_approval (ce_build env) (ce_hal env) (ce_wait env) app op t u session_id w) \<noteq> ZF_CTAP_SUCCESS"
proof -
  have "snd (fst (zerofido_ui_request_approval (ce_build env) (ce_hal env) (ce_wait env) app p op t u session_id w)) = False" for p
    using assms(2) no_approval [OF assms(1)] assms [unfolded nobody_approves_def manual_def]
    by (simp add: zerofido_ui_request_approval_def Let_def)
  then show ?thesis
    by (auto simp: zf_ctap_request_approval_def zf_ctap_status_from_interaction_state_def split_def
        split: ZfApprovalState.split)
qed

lemma not_selected:
  assumes "nobody_approves env" "manual app"
  shows "\<exists>status. fst (zf_ctap_request_assertion_selection (ce_hal env) (ce_wait env) app t m session_id w) = Inl status"
proof -
  have "fst (zerofido_ui_request_assertion_selection (ce_hal env) (ce_wait env) app t m session_id w) = None"
    using no_approval [OF assms(1)] assms(2)
    by (simp add: zerofido_ui_request_assertion_selection_def Let_def split_def)
  then show ?thesis by (simp add: zf_ctap_request_assertion_selection_def split_def)
qed

text \<open>Steps that come before the user is asked keep the mode; \<open>unasked\<close> says that nothing happened yet.\<close>

definition unasked :: "'w hal \<Rightarrow> ('w \<Rightarrow> path \<rightharpoonup> bytes) \<Rightarrow> (bytes \<times> u32) list \<Rightarrow> ZfCredentialStore \<Rightarrow> CtapApp \<Rightarrow> 'w \<Rightarrow> bool" where
  "unasked hal content us s app w \<longleftrightarrow> manual app \<and> kept hal content us s app w"

definition early :: "('r, 'w) cmd \<Rightarrow> bool" where
  "early m \<longleftrightarrow> (\<forall>app w r app' w'. manual app \<longrightarrow> m app w = (Inr r, app', w') \<longrightarrow> manual app')"

named_theorems early \<open>steps that keep the manual mode\<close>

lemma earlyD: "early m \<Longrightarrow> m app w = (Inr r, app', w') \<Longrightarrow> manual app \<Longrightarrow> manual app'"
  unfolding early_def by blast

lemma earlyI: "(\<And>app w r app' w'. manual app \<Longrightarrow> m app w = (Inr r, app', w') \<Longrightarrow> manual app') \<Longrightarrow> early m"
  unfolding early_def by blast

lemma early_then_ok [early]:
  assumes "early m" "\<And>r. early (f r)"
  shows "early (then_ok m f)"
proof (rule earlyI)
  fix app w r app' w'
  assume app: "manual app" and "then_ok m f app w = (Inr r, app', w')"
  from this(2) show "manual app'"
    by (cases rule: then_ok_cases) (auto intro: earlyD [OF assms(2)] earlyD [OF assms(1) _ app])
qed

lemma early_basic [early]:
  "early (ret r)" "early (fail_with status)" "early (fail_if c status)" "early (reading g)" "early (leave_with l)"
  "early (on_world h)" "early (\<lambda>app. fail_if (d app) status app)"
  "early (\<lambda>app w. (k app, app, w))" "early (status_of (\<lambda>app w. (j app, app, w)))"
  by (auto simp: early_def ret_def fail_with_def fail_if_def reading_def leave_with_def on_world_def status_of_def
      split: prod.split_asm if_split_asm)

lemma early_if [early]: "early m \<Longrightarrow> early m' \<Longrightarrow> early (if c then m else m')"
  by simp

lemma early_case_prod [early]: "(\<And>a b. early (f a b)) \<Longrightarrow> early (case r of (a, b) \<Rightarrow> f a b)"
  by (simp split: prod.split)

lemma early_some_or [early]: "early m \<Longrightarrow> early (some_or status m)"
  unfolding some_or_def by (intro early) (auto intro: early split: option.split)

lemma early_updating [early]: "(\<And>app. manual (g app) = manual app) \<Longrightarrow> early (updating g)"
  by (auto simp: early_def updating_def)

lemma early_with_maintenance [early]:
  assumes "early m"
  shows "early (with_maintenance m)"
proof (rule earlyI)
  fix app w r app' w'
  assume app: "manual app" and "with_maintenance m app w = (Inr r, app', w')"
  then obtain app1 where "m (app\<lparr>app_maintenance_busy := True\<rparr>) w = (Inr r, app1, w')" "app' = zf_ctap_end_maintenance app1"
    by (auto simp: with_maintenance_def zf_ctap_begin_maintenance_def cleanup_def split: prod.split_asm if_split_asm)
  then show "manual app'" using earlyD [OF assms] app by (simp add: zf_ctap_end_maintenance_def)
qed

lemma early_poll [early]: "nobody_approves env \<Longrightarrow> early (status_of (ce_poll env session_id))"
  by (auto simp: early_def status_of_def nobody_approves_def split: prod.split_asm if_split_asm) (metis fst_conv snd_conv)

lemma early_require_pin_auth [early]: "early (zf_ctap_require_pin_auth_with_state env a b c d e f g h)"
  unfolding zf_ctap_require_pin_auth_with_state_def
  by (rule early_with_maintenance) (auto simp: early_def split: prod.split_asm if_split_asm)

lemma early_assertion_checks [early]: "early (get_assertion_checks env session_id data)"
  unfolding get_assertion_checks_def Let_def by (intro early) simp_all

lemma early_prepared [early]: "nobody_approves env \<Longrightarrow> early (make_credential_prepared env session_id data)"
  unfolding make_credential_prepared_def make_credential_checks_def make_credential_excluded_def by (intro early)

lemma unasked_triple:
  assumes "triple (kept hal content us s) m (\<lambda>_. kept hal content us s) (\<lambda>_. kept hal content us s)" "early m"
  shows "triple (unasked hal content us s) m (\<lambda>_. unasked hal content us s) (\<lambda>_. kept hal content us s)"
  unfolding unasked_def
  by (rule tripleI) (use tripleD [OF assms(1)] earlyD [OF assms(2)] in blast)+

lemma unasked_step:
  assumes "calm_cmd content m" "early m"
  shows "triple (unasked hal content us s) m (\<lambda>_. unasked hal content us s) (\<lambda>_. kept hal content us s)"
  by (rule unasked_triple [OF kept_calm [OF assms(1)] assms(2)])

section \<open>Commands that need an approval\<close>

lemma unasked_flags [simp]:
  "unasked hal content us s (app\<lparr>app_maintenance_busy := b\<rparr>) w = unasked hal content us s app w"
  "unasked hal content us s (app\<lparr>app_command_scratch_in_use := b\<rparr>) w = unasked hal content us s app w"
  by (simp_all add: unasked_def)

lemma asked:
  assumes quiet: "quiet_env content env" and none: "nobody_approves env"
  shows "triple (unasked hal content us s) (status_of (\<lambda>app. zf_ctap_request_approval (ce_build env) (ce_hal env) (ce_wait env) app
    op t u session_id)) (\<lambda>_ _ _. False) (\<lambda>_. kept hal content us s)"
proof (rule tripleI)
  let ?m = "status_of (\<lambda>app. zf_ctap_request_approval (ce_build env) (ce_hal env) (ce_wait env) app op t u session_id)"
  note k = kept_calm [OF calm_approval(1) [OF quiet, of op t u session_id], of hal us s]
  {
    fix app w status app' w'
    assume u: "unasked hal content us s app w" and m: "?m app w = (Inl status, app', w')"
    have "kept hal content us s app w" using u by (simp add: unasked_def)
    from tripleD(1) [OF k this m] show "kept hal content us s app' w'" .
  next
    fix app w r app' w'
    assume "unasked hal content us s app w" "?m app w = (Inr r, app', w')"
    then show False using not_approved [OF none, of app op t u session_id w]
      by (auto simp: unasked_def status_of_def split: prod.split_asm if_split_asm)
  }
qed

lemma never: "triple (\<lambda>_ _. False) m Q E"
  by (simp add: triple_def)

lemma refused:
  assumes quiet: "quiet_env content env" and none: "nobody_approves env"
    and cmd: "cmd \<in> {ZfCtapeCmdMakeCredential, ZfCtapeCmdReset, ZfCtapeCmdSelection}"
  shows "triple (unasked (ce_hal env) content us s) (zf_ctap_dispatch_command env c session_id cmd data)
    (\<lambda>_ _ _. False) (\<lambda>_. kept (ce_hal env) content us s)"
proof -
  let ?U = "unasked (ce_hal env) content us s" and ?K = "kept (ce_hal env) content us s"
  note ask = asked [OF quiet none, of "ce_hal env" us s]
  have pure: "triple ?U (status_of (\<lambda>app w. (g app, app, w))) (\<lambda>_. ?U) (\<lambda>_. ?K)" for g
    by (rule unasked_step [OF calm_pure(3) early_basic(9)])
  have prepared: "triple ?U (make_credential_prepared env session_id data) (\<lambda>_. ?U) (\<lambda>_. ?K)"
    by (rule unasked_triple [OF triple_weaken [OF prepared_keeps [OF quiet]] early_prepared [OF none]]) auto
  have credential: "triple ?U (zf_ctap_handle_make_credential env session_id data) (\<lambda>_ _ _. False) (\<lambda>_. ?K)"
    unfolding zf_ctap_handle_make_credential_def
    by (rule triple_with_scratch, rule triple_then_ok [OF prepared], clarify, rule triple_then_ok [OF _ never],
        unfold make_credential_approval_def, rule ask) (simp_all add: unasked_def)
  have reset: "triple ?U (zf_ctap_handle_reset env session_id n) (\<lambda>_ _ _. False) (\<lambda>_. ?K)" for n
    unfolding zf_ctap_handle_reset_def by (rule triple_then_ok [OF pure], rule triple_then_ok [OF ask never])
  have sel: "triple ?U (zf_handle_selection env session_id n) (\<lambda>_ _ _. False) (\<lambda>_. ?K)" for n
    unfolding zf_handle_selection_def by (rule triple_then_ok [OF pure], rule triple_then_ok [OF ask never])
  have "zf_ctap_dispatch_command env c session_id cmd data = then_ok require_idle (\<lambda>_.
      if cmd = ZfCtapeCmdReset then zf_ctap_handle_reset env session_id (length data + 1)
      else if cmd = ZfCtapeCmdMakeCredential then zf_ctap_handle_make_credential env session_id data
      else zf_handle_selection env session_id (length data + 1))"
    using cmd by (auto simp: zf_ctap_dispatch_command_def Let_def ZfCtapeCmdGetInfo_def ZfCtapeCmdClientPin_def
        ZfCtapeCmdReset_def ZfCtapeCmdMakeCredential_def ZfCtapeCmdGetAssertion_def ZfCtapeCmdGetNextAssertion_def
        ZfCtapeCmdSelection_def)
  then show ?thesis
    unfolding require_idle_def by (simp only:, intro triple_then_ok [OF pure] triple_if credential reset sel)
qed

text \<open>A failed reset or selection does not report success.\<close>

definition honest :: "('r, 'w) cmd \<Rightarrow> bool" where
  "honest m \<longleftrightarrow> (\<forall>app w. fst (m app w) \<noteq> Inl ZF_CTAP_SUCCESS)"

lemma honest_then_ok: "honest m \<Longrightarrow> (\<And>r. honest (f r)) \<Longrightarrow> honest (then_ok m f)"
  by (auto simp: honest_def then_ok_def split: prod.split sum.split) (metis fst_conv)

lemma honest_basic: "honest (ret r)" "honest (status_of g)"
  by (simp_all add: honest_def ret_def status_of_def split_def)

lemma honest_with_maintenance: "honest m \<Longrightarrow> honest (with_maintenance m)"
  by (auto simp: honest_def with_maintenance_def zf_ctap_begin_maintenance_def cleanup_def split_def)

lemma honest_reset: "honest (zf_ctap_handle_reset env session_id n)"
proof -
  have "honest (reset_under_maintenance env)"
    by (simp add: honest_def reset_under_maintenance_def Let_def split_def split: bool.split)
  then show ?thesis
    unfolding zf_ctap_handle_reset_def by (intro honest_then_ok honest_basic honest_with_maintenance)
qed

lemma honest_dispatch:
  assumes "cmd \<in> {ZfCtapeCmdReset, ZfCtapeCmdSelection}"
  shows "honest (zf_ctap_dispatch_command env c session_id cmd data)"
proof -
  have "zf_ctap_dispatch_command env c session_id cmd data = then_ok require_idle (\<lambda>_.
      if cmd = ZfCtapeCmdReset then zf_ctap_handle_reset env session_id (length data + 1)
      else zf_handle_selection env session_id (length data + 1))"
    using assms by (auto simp: zf_ctap_dispatch_command_def Let_def ZfCtapeCmdGetInfo_def ZfCtapeCmdClientPin_def
        ZfCtapeCmdReset_def ZfCtapeCmdMakeCredential_def ZfCtapeCmdGetAssertion_def ZfCtapeCmdGetNextAssertion_def
        ZfCtapeCmdSelection_def)
  moreover have "honest (zf_handle_selection env session_id n)" for n
    unfolding zf_handle_selection_def by (intro honest_then_ok honest_basic)
  ultimately show ?thesis
    using honest_reset by (auto simp: require_idle_def intro!: honest_then_ok honest_basic)
qed

section \<open>The flags of an assertion\<close>

text \<open>The platform knew the PIN: the message authentication code of the request is right for the token.\<close>

definition pin_verified :: "ZfClientPinState \<Rightarrow> ZfGetAssertionRequest \<Rightarrow> bool" where
  "pin_verified p request \<longleftrightarrow> ga_has_pin_auth request \<and> pin_set p \<and> \<not> pin_auth_blocked p \<and> pin_token_active p \<and>
    ga_pin_auth request = take (if ga_pin_protocol request = ZF_PIN_PROTOCOL_V2 then 32 else 16)
      (hmac_reference (pin_token p) (ar_client_data_hash (ga_assertion request))) \<and>
    pin_token_permissions p AND ZF_PIN_PERMISSION_GA = ZF_PIN_PERMISSION_GA"

definition flagged :: "bool \<Rightarrow> bool \<Rightarrow> bytes \<Rightarrow> bool" where
  "flagged up uv response \<longleftrightarrow> (\<exists>e. assertion_flags response = Some (presence_flags up uv e))"

lemma prepared_flags:
  assumes cap: "ce_out_capacity env \<le> length (ce_out env)" and len: "length (cr_credential_id r) < 2 ^ 64"
    and p: "zf_prepare_assertion_response env q pin r up uv d c n us iu w = (Inr (count, response), w')"
  shows "flagged up uv response"
proof -
  obtain ext w1 where b: "zf_ctap_build_assertion_response_with_scratch (ce_hal env) q r up uv count d c n iu us ext (ce_out env)
      (ce_out_capacity env) w1 = (Inr response, w')"
    using p by (auto simp: zf_prepare_assertion_response_def Let_def split: if_split_asm sum.split_asm prod.split_asm)
  obtain m rest where "m \<le> 6" "length ext \<le> 123" "response = assertion_head m (cr_credential_id r)
      (assertion_auth_data (ar_rp_id q) up uv count ext) @ rest"
    using assertion_response_head [OF b cap] by blast
  then show ?thesis using assertion_flags_head [OF _ len] unfolding flagged_def by blast
qed

lemma triple_always: "triple (\<lambda>_ _. b) m (\<lambda>_ _ _. b) (\<lambda>_ _ _. True)"
  by (simp add: triple_def)

lemma finish_flags:
  assumes quiet: "quiet_env content env" and cap: "ce_out_capacity env \<le> length (ce_out env)"
  shows "triple (kept (ce_hal env) content us s)
    (zf_ctap_finish_assertion env session_id request pin matches selected up uv details sel poll)
    (\<lambda>response _ _. flagged up uv response) (\<lambda>_ _ _. True)"
proof -
  let ?K = "kept (ce_hal env) content us s" and ?T = "\<lambda>_ _ _. True"
  have choose: "triple ?K (case selected of Some record_index \<Rightarrow> ret (matches, record_index, 1)
        | None \<Rightarrow> then_ok (reading (\<lambda>app. zf_ctap_resolve_assertion_matches_snapshot app request uv))
            (\<lambda>found. if found = [] then fail_with ZF_CTAP_ERR_NO_CREDENTIALS
                     else ret (found, found ! 0, length found))) (\<lambda>_. ?K) ?T"
    by (rule triple_weaken [OF kept_calm]) (auto intro!: calm split: option.split)
  have prepare: "triple ?K (zf_ctap_load_and_prepare_assertion env q pin i up uv d c n us' iu)
    (\<lambda>(_, _, _, response) _ _. flagged up uv response) ?T" for q i d c n us' iu
    unfolding zf_ctap_load_and_prepare_assertion_def
  proof (rule triple_then_ok [OF triple_weaken [OF load_triple [OF quiet]]], assumption, assumption, simp, clarify,
      rule triple_then_ok)
    fix r e
    show "triple (\<lambda>app w. loaded (ce_hal env) content (ce_store_io env) us s i r app w \<and> e = cs_entries s ! i)
      (lift_result (zf_prepare_assertion_response env q pin r up uv d c n us' iu))
      (\<lambda>(_, response) _ _. flagged up uv response) ?T"
    proof (rule tripleI)
      fix app w x app' w'
      assume l: "loaded (ce_hal env) content (ce_store_io env) us s i r app w \<and> e = cs_entries s ! i"
        and m: "lift_result (zf_prepare_assertion_response env q pin r up uv d c n us' iu) app w = (Inr x, app', w')"
      obtain count response where x: "x = (count, response)" by fastforce
      have p: "zf_prepare_assertion_response env q pin r up uv d c n us' iu w = (Inr (count, response), w')"
        using m x by (auto simp: lift_result_def split: prod.split_asm)
      have "length (cr_credential_id r) < 2 ^ 64" using loaded_id(1) [OF conjunct1 [OF l]] by simp
      from prepared_flags [OF cap this p] show "(\<lambda>(_, response) _ _. flagged up uv response) x app' w'" by (simp add: x)
    qed simp
  qed (auto intro: triple_ret)
  show ?thesis
    unfolding zf_ctap_finish_assertion_def Let_def
  proof (rule triple_with_maintenance, rule triple_then_ok [OF choose], clarify, rule triple_then_ok [OF prepare], clarify,
      rule triple_then_ok [OF triple_always], rule triple_then_ok [OF triple_always])
  qed (simp_all add: triple_ret)
qed

lemma checks_facts:
  assumes "get_assertion_checks env session_id data app w = (Inr (request, pin, uv), app', w')"
  shows "zf_ctap_parse_get_assertion data (ga_cleared \<lparr>dl_entries = [], dl_capacity = ZF_MAX_ALLOW_LIST\<rparr>) = Inr request"
    "uv \<Longrightarrow> pin_verified (app_pin_state app) request"
proof -
  have "zf_ctap_parse_get_assertion data (ga_cleared \<lparr>dl_entries = [], dl_capacity = ZF_MAX_ALLOW_LIST\<rparr>) = Inr request \<and>
    (\<exists>s' v w1. zerofido_pin_require_auth (ce_hal env) (app_pin_state app) (ga_has_uv request \<and> ga_uv request)
      (ga_has_pin_auth request) (ar_client_data_hash (ga_assertion request)) (ga_pin_auth request)
      (ga_has_pin_protocol request) (ga_pin_protocol request) (ar_rp_id (ga_assertion request)) ZF_PIN_PERMISSION_GA w1 =
      (ZF_CTAP_SUCCESS, uv, s', v))"
    using assms
    by (auto simp: get_assertion_checks_def then_ok_def status_of_def fail_if_def fail_with_def ret_def updating_def leave_with_def
        Let_def zf_ctap_require_pin_auth_with_state_def with_maintenance_def zf_ctap_begin_maintenance_def cleanup_def
        zf_ctap_assertion_queue_clear_def split: sum.split_asm prod.split_asm if_split_asm) blast+
  then have parsed: "zf_ctap_parse_get_assertion data (ga_cleared \<lparr>dl_entries = [], dl_capacity = ZF_MAX_ALLOW_LIST\<rparr>) = Inr request"
    and checked: "\<exists>s' v w1. zerofido_pin_require_auth (ce_hal env) (app_pin_state app) (ga_has_uv request \<and> ga_uv request)
      (ga_has_pin_auth request) (ar_client_data_hash (ga_assertion request)) (ga_pin_auth request)
      (ga_has_pin_protocol request) (ga_pin_protocol request) (ar_rp_id (ga_assertion request)) ZF_PIN_PERMISSION_GA w1 =
      (ZF_CTAP_SUCCESS, uv, s', v)" by (rule conjunct1, rule conjunct2)
  show "zf_ctap_parse_get_assertion data (ga_cleared \<lparr>dl_entries = [], dl_capacity = ZF_MAX_ALLOW_LIST\<rparr>) = Inr request" by (rule parsed)
  from checked show "pin_verified (app_pin_state app) request" if uv
  proof (elim exE)
    fix s' v w1
    assume r: "zerofido_pin_require_auth (ce_hal env) (app_pin_state app) (ga_has_uv request \<and> ga_uv request)
      (ga_has_pin_auth request) (ar_client_data_hash (ga_assertion request)) (ga_pin_auth request)
      (ga_has_pin_protocol request) (ga_pin_protocol request) (ar_rp_id (ga_assertion request)) ZF_PIN_PERMISSION_GA w1 =
      (ZF_CTAP_SUCCESS, uv, s', v)"
    note r = r [unfolded eqTrueI [OF that]]
    show "pin_verified (app_pin_state app) request"
      using require_auth_uv_guards [OF r] require_auth_uv_mac [OF r]
      by (simp add: pin_verified_def zf_pin_uv_auth_param_len_def ZF_PIN_AUTH_MAX_LEN_def ZF_PIN_AUTH_LEN_def)
  qed
qed

text \<open>What the flags of a response mean, in the state in which the request arrived.\<close>

definition meant :: "bool \<Rightarrow> ZfClientPinState \<Rightarrow> bytes \<Rightarrow> bytes \<Rightarrow> bool" where
  "meant none p data response \<longleftrightarrow> (\<exists>request up uv. flagged up uv response \<and>
    zf_ctap_parse_get_assertion data (ga_cleared \<lparr>dl_entries = [], dl_capacity = ZF_MAX_ALLOW_LIST\<rparr>) = Inr request \<and>
    (uv \<longrightarrow> pin_verified p request) \<and> (none \<longrightarrow> \<not> up))"

text \<open>Steps before the prompt, and the prompt: without an approval it has no result.\<close>

lemma before_prompt:
  assumes "calm_cmd content m" "none \<Longrightarrow> early m"
  shows "triple (\<lambda>a v. kept hal content us s a v \<and> (none \<longrightarrow> manual a)) m
    (\<lambda>_ a v. kept hal content us s a v \<and> (none \<longrightarrow> manual a)) (\<lambda>_ _ _. True)"
proof (rule tripleI)
  fix a v x a' v'
  assume u: "kept hal content us s a v \<and> (none \<longrightarrow> manual a)" and m: "m a v = (Inr x, a', v')"
  have "kept hal content us s a' v'" by (rule tripleD(2) [OF kept_calm [OF assms(1)] conjunct1 [OF u] m])
  then show "kept hal content us s a' v' \<and> (none \<longrightarrow> manual a')" using earlyD [OF assms(2) m] u by blast
qed simp

lemma at_prompt:
  assumes "calm_cmd content m" "\<And>a v. none \<Longrightarrow> manual a \<Longrightarrow> \<exists>status. fst (m a v) = Inl status"
  shows "triple (\<lambda>a v. kept hal content us s a v \<and> (none \<longrightarrow> manual a)) m
    (\<lambda>_ a v. kept hal content us s a v \<and> \<not> none) (\<lambda>_ _ _. True)"
proof (rule tripleI)
  fix a v x a' v'
  assume u: "kept hal content us s a v \<and> (none \<longrightarrow> manual a)" and m: "m a v = (Inr x, a', v')"
  have "kept hal content us s a' v'" by (rule tripleD(2) [OF kept_calm [OF assms(1)] conjunct1 [OF u] m])
  then show "kept hal content us s a' v' \<and> \<not> none" using assms(2) [of a v] m u by auto
qed simp

lemma after_prompt:
  assumes "calm_cmd content m"
  shows "triple (\<lambda>a v. kept hal content us s a v \<and> p) m (\<lambda>_ a v. kept hal content us s a v \<and> p) (\<lambda>_ _ _. True)"
proof (rule tripleI)
  fix a v x a' v'
  assume u: "kept hal content us s a v \<and> p" and m: "m a v = (Inr x, a', v')"
  have "kept hal content us s a' v'" by (rule tripleD(2) [OF kept_calm [OF assms(1)] conjunct1 [OF u] m])
  with u show "kept hal content us s a' v' \<and> p" by blast
qed simp

lemma assertion_flags_triple:
  assumes quiet: "quiet_env content env" and cap: "ce_out_capacity env \<le> length (ce_out env)"
    and none: "none \<Longrightarrow> nobody_approves env"
  shows "triple (\<lambda>a v. kept (ce_hal env) content us s a v \<and> (none \<longrightarrow> manual a) \<and> app_pin_state a = p)
    (zf_ctap_handle_get_assertion env session_id data) (\<lambda>response _ _. meant none p data response) (\<lambda>_ _ _. True)"
proof -
  let ?K = "kept (ce_hal env) content us s" and ?T = "\<lambda>_ _ _. True"
  let ?U = "\<lambda>a v. ?K a v \<and> (none \<longrightarrow> manual a)"
  let ?N = "\<lambda>a v. ?K a v \<and> \<not> none"
  let ?F = "\<lambda>request uv. zf_ctap_parse_get_assertion data (ga_cleared \<lparr>dl_entries = [], dl_capacity = ZF_MAX_ALLOW_LIST\<rparr>) =
    Inr request \<and> (uv \<longrightarrow> pin_verified p request)"
  let ?P = "\<lambda>a v. ?K a v \<and> (none \<longrightarrow> manual a) \<and> app_pin_state a = p"
  have checks: "triple ?P (get_assertion_checks env session_id data)
    (\<lambda>(request, _, uv) a v. ?U a v \<and> ?F request uv) ?T"
  proof (rule tripleI)
    fix a v x a' v'
    assume u: "?K a v \<and> (none \<longrightarrow> manual a) \<and> app_pin_state a = p" and m: "get_assertion_checks env session_id data a v = (Inr x, a', v')"
    obtain request pin uv where x: "x = (request, pin, uv)" by (cases x)
    have "?K a' v'" by (rule tripleD(2) [OF kept_calm [OF calm_get_assertion_checks [OF quiet]] conjunct1 [OF u] m])
    then show "(\<lambda>(request, _, uv) a v. ?U a v \<and> ?F request uv) x a' v'"
      using checks_facts [OF m [unfolded x]] earlyD [OF early_assertion_checks m] u x by simp
  qed simp
  have rest: "triple (\<lambda>a v. ?U a v \<and> ?F request uv) (then_ok (status_of (ce_poll env session_id)) (\<lambda>_.
      if ga_has_up request \<and> \<not> ga_up request
      then zf_ctap_finish_assertion env session_id request pin [] None False uv
        (uv \<and> \<not> zf_ctap_request_uses_allow_list request) False False
      else
      then_ok (reading (\<lambda>app. zf_ctap_resolve_assertion_matches_snapshot app request uv)) (\<lambda>matches.
      if \<not> zf_ctap_request_uses_allow_list request \<and> length matches > 1
      then
        then_ok (\<lambda>app. zf_ctap_request_assertion_selection (ce_hal env) (ce_wait env) app (ar_rp_id (ga_assertion request))
          (map word_of_nat matches) session_id) (\<lambda>selected.
        then_ok (status_of (ce_poll env session_id)) (\<lambda>_.
        then_ok (reading (\<lambda>app. advertise_fido_2_1 (app_capabilities app))) (\<lambda>include_user_selected.
        zf_ctap_finish_assertion env session_id request pin matches (Some (unat selected)) True
          uv uv include_user_selected True)))
      else
        then_ok (status_of (\<lambda>app. zf_ctap_request_approval (ce_build env) (ce_hal env) (ce_wait env) app
          (ascii ''Authenticate'') (ar_rp_id (ga_assertion request)) (ascii ''Touch required'') session_id)) (\<lambda>_.
        then_ok (status_of (ce_poll env session_id)) (\<lambda>_.
        zf_ctap_finish_assertion env session_id request pin matches None True uv
          (uv \<and> \<not> zf_ctap_request_uses_allow_list request) False True)))))
      (\<lambda>response _ _. meant none p data response) ?T" for request pin uv
  proof (cases "?F request uv")
    case False
    then show ?thesis by (auto simp: triple_def)
  next
    case True
    have final: "triple ?U (zf_ctap_finish_assertion env session_id request pin ms sel up uv d us poll)
        (\<lambda>response _ _. meant none p data response) ?T" if "none \<longrightarrow> \<not> up" for ms sel up d us poll
      by (rule triple_weaken [OF finish_flags [OF quiet cap]]) (use True that in \<open>auto simp: meant_def\<close>)
    have present: "triple ?N (zf_ctap_finish_assertion env session_id request pin ms sel up uv d us poll)
        (\<lambda>response _ _. meant none p data response) ?T" for ms sel up d us poll
      using final [of up] by (cases none) (simp_all add: triple_def)
    have approve: "triple ?U (status_of (\<lambda>app. zf_ctap_request_approval (ce_build env) (ce_hal env) (ce_wait env) app op t u session_id))
        (\<lambda>_. ?N) ?T" for op t u
    proof (rule at_prompt [OF calm_approval(1) [OF quiet]])
      fix a v
      assume "none" "manual a"
      then show "\<exists>status. fst (status_of (\<lambda>app. zf_ctap_request_approval (ce_build env) (ce_hal env) (ce_wait env) app op t u
          session_id) a v) = Inl status"
        using not_approved [OF none, of a op t u session_id v] by (simp add: status_of_def split_def)
    qed
    have select: "triple ?U (\<lambda>app. zf_ctap_request_assertion_selection (ce_hal env) (ce_wait env) app t m session_id) (\<lambda>_. ?N) ?T"
      for t m by (rule at_prompt [OF calm_selection [OF quiet]]) (rule not_selected [OF none])
    have poll: "triple ?U (status_of (ce_poll env session_id)) (\<lambda>_. ?U) ?T"
      by (rule before_prompt [OF calm_poll [OF quiet] early_poll [OF none]])
    have poll': "triple ?N (status_of (ce_poll env session_id)) (\<lambda>_. ?N) ?T" by (rule after_prompt [OF calm_poll [OF quiet]])
    have read: "triple P (reading g) (\<lambda>_. P) ?T" for P and g :: "CtapApp \<Rightarrow> 'c" by (rule triple_reading)
    show ?thesis
      by (rule triple_weaken [where P = ?U and E = ?T], rule triple_then_ok [OF poll], rule triple_if, rule final, simp,
        rule triple_then_ok [OF read], rule triple_if,
        (rule triple_then_ok [OF select], rule triple_then_ok [OF poll'], rule triple_then_ok [OF read], rule present),
        (rule triple_then_ok [OF approve], rule triple_then_ok [OF poll'], rule present)) simp_all
  qed
  show ?thesis
    unfolding zf_ctap_handle_get_assertion_def Let_def
    by (rule triple_with_scratch, rule triple_then_ok [OF checks], clarify, rule rest) simp_all
qed

end
