(* ===== verification/Ctap_Outputs.thy ===== *)
theory Ctap_Outputs
  imports Ctap_History
begin

text \<open>
  What getNextAssertion answers, in terms of the queue it finds, and the output of the hmac-secret extension:
  the platform that shares the keys decrypts it to the codes of its salts under the secret of the credential.
\<close>

section \<open>What getNextAssertion answers\<close>

lemma next_facts:
  assumes r: "zf_ctap_assertion_queue_handle_next env session_id app w = (Inr response, app', w')"
    and cap: "ce_out_capacity env \<le> length (ce_out env)"
  obtains app1 w1 q e where "ce_poll env session_id app w = (ZF_CTAP_SUCCESS, app1, w1)" "q = app_assertion_queue app1"
    "aq_active q" "aq_session_id q = session_id" "sint (furi_get_tick (ce_hal env) w1 - aq_expires_at q) < 0"
    "aq_index q < aq_count q" "aq_record_indices q ! aq_index q < length (cs_entries (app_store app1))"
    "e = cs_entries (app_store app1) ! (aq_record_indices q ! aq_index q)"
    "length (ie_credential_id e) < 2 ^ 64 \<Longrightarrow> \<exists>n. assertion_release response = Some (ie_credential_id e, n)"
proof -
  obtain app1 w1 where poll: "ce_poll env session_id app w = (ZF_CTAP_SUCCESS, app1, w1)"
    using r by (auto simp: zf_ctap_assertion_queue_handle_next_def split: prod.split_asm if_split_asm)
  let ?app = "app1\<lparr>app_maintenance_busy := True, app_command_scratch_in_use := True\<rparr>"
  obtain y app2 w2 where m: "then_ok (queue_snapshot (ce_hal env) session_id) (\<lambda>(q, pin_state, entry).
                then_ok (or_drop_queue session_id q (queue_load env q entry)) (\<lambda>record.
                then_ok (or_drop_queue session_id q
                  (some_or ZF_CTAP_ERR_OTHER (ret (zf_get_next_sign_count record)))) (\<lambda>next_sign_count.
                then_ok (lift_result (zf_ctap_hmac_secret_build_extension (ce_hal env) pin_state
                    (aq_request q) record (aq_uv_verified q) (replicate 112 0) 112)) (\<lambda>extension_data.
                then_ok (lift_result (zf_ctap_build_assertion_response_with_scratch (ce_hal env)
                    (aq_request q) record (aq_user_present q) (aq_uv_verified q) next_sign_count
                    (aq_uv_verified q) False (aq_count q) False False extension_data (ce_out env)
                    (ce_out_capacity env))) (\<lambda>response.
                then_ok (or_drop_queue session_id q (status_of (ce_poll env session_id))) (\<lambda>_.
                let record = record\<lparr>cr_sign_count := next_sign_count\<rparr> in
                then_ok (or_drop_queue session_id q (some_or ZF_CTAP_ERR_OTHER (on_world (\<lambda>_.
                    zf_store_prepare_counter_advance (ce_hal env) entry record (ce_store_io env)))))
                  (\<lambda>high_water.
                then_ok (queue_publish (ce_hal env) session_id q record high_water) (\<lambda>_.
                ret response)))))))) ?app w1 = (Inr response, app2, w')"
    using r poll by (auto simp: zf_ctap_assertion_queue_handle_next_def zf_ctap_assertion_queue_begin_maintenance_def cleanup_def
        zf_app_command_scratch_acquire_def split: if_split_asm prod.split_asm)
  have or_drop: "m app w = (Inr x, app', w')" if "or_drop_queue session_id q m app w = (Inr x, app', w')"
    for q and m :: "('r, 'a) cmd" and app w x app' w'
    using that by (auto simp: or_drop_queue_def split: prod.split_asm sum.split_asm)
  from m show thesis
  proof (cases rule: then_ok_cases)
    case (2 x app3 w3)
    obtain q pin e where x: "x = (q, pin, e)" by (cases x)
    have snap: "q = app_assertion_queue app1" "aq_active q" "aq_session_id q = session_id" "aq_index q < aq_count q"
      "sint (furi_get_tick (ce_hal env) w1 - aq_expires_at q) < 0"
      "aq_record_indices q ! aq_index q < length (cs_entries (app_store app1))"
      "e = cs_entries (app_store app1) ! (aq_record_indices q ! aq_index q)"
      using 2(1) x by (auto simp: queue_snapshot_def Let_def zf_ctap_assertion_queue_snapshot_entry_locked_def
          split: if_split_asm option.split_asm)
    have "length (ie_credential_id e) < 2 ^ 64 \<Longrightarrow> \<exists>n. assertion_release response = Some (ie_credential_id e, n)"
      using 2(2) unfolding x prod.case
    proof (cases rule: then_ok_cases)
      case (2 rc app4 w4)
      have id: "cr_credential_id rc = ie_credential_id e"
        using or_drop [OF 2(1)] by (auto simp: queue_load_def then_ok_def some_or_def on_world_def ret_def fail_with_def
            zf_ctap_queue_entry_matches_record_def split: prod.split_asm option.split_asm if_split_asm)
      assume len: "length (ie_credential_id e) < 2 ^ 64"
      from 2(2) show ?thesis
      proof (cases rule: then_ok_cases)
        case (2 n app5 w5)
        from 2(2) show ?thesis
        proof (cases rule: then_ok_cases)
          case (2 ext app6 w6)
          from 2(2) show ?thesis
          proof (cases rule: then_ok_cases)
            case (2 response' app7 w7)
            have "response' = response" using 2(2)
              by (auto simp: then_ok_def ret_def Let_def split: sum.split_asm prod.split_asm)
            then have "zf_ctap_build_assertion_response_with_scratch (ce_hal env) (aq_request q) rc (aq_user_present q)
                (aq_uv_verified q) n (aq_uv_verified q) False (aq_count q) False False ext (ce_out env)
                    (ce_out_capacity env) w6 = (Inr response, w7)"
              using 2(1) by (auto simp: lift_result_def split: prod.split_asm)
            from assertion_response_head [OF this cap] show ?thesis
              using assertion_release_head [of _ "cr_credential_id rc"] id len by (metis)
          qed simp
        qed simp
      qed simp
    qed simp
    with poll snap show thesis by (intro that)
  qed simp
qed

section \<open>The output of hmac-secret\<close>

text \<open>The AES engine: decryption under the same key and vector inverts encryption.\<close>

definition aes_lawful :: "'w hal \<Rightarrow> bool" where
  "aes_lawful hal \<longleftrightarrow> (\<forall>key iv d w c. fst (hal_aes_encrypt hal key iv d w) = Some c \<longrightarrow>
    length c = length d \<and> (\<forall>w'. fst (hal_aes_decrypt hal key iv c w') = Some d))"

lemma aes_lawful_roundtrip:
  assumes "aes_lawful hal" "fst (zf_aes256_cbc_encrypt hal key iv d w) = Some c"
  shows "fst (zf_aes256_cbc_decrypt hal key iv c w') = Some d" "length c = length d"
proof -
  show "fst (zf_aes256_cbc_decrypt hal key iv c w') = Some d"
    by (rule aes_roundtrip [OF _ assms(2)]) (use assms(1) in \<open>simp add: aes_lawful_def\<close>)
  obtain c0 where "fst (hal_aes_encrypt hal (zf_aes_bswap_words key) (zf_aes_bswap_words iv) (zf_aes_bswap_words d) w) = Some c0"
    "c = zf_aes_bswap_words c0"
    using assms(2) by (auto simp: zf_aes256_cbc_encrypt_def zf_aes256_cbc_crypt_def Let_def split: if_splits)
  then show "length c = length d" using assms(1) by (simp add: aes_lawful_def)
qed

lemma protocol_roundtrip:
  assumes law: "aes_lawful hal" "\<And>n w. length (fst (random_fill hal n w)) = n"
    and enc: "zf_pin_protocol_encrypt hal protocol keys d cap w = (Some c, w')"
  shows "fst (zf_pin_protocol_decrypt hal protocol keys c v) = Some d"
proof (cases "protocol = ZF_PIN_PROTOCOL_V1")
  case True
  then have "fst (zf_aes256_cbc_encrypt hal (snd keys) (replicate 16 0) d w) = Some c"
    using enc by (auto simp: zf_pin_protocol_encrypt_def zf_aes256_cbc_zero_iv_encrypt_def split: if_split_asm)
  from aes_lawful_roundtrip(1) [OF law(1) this] show ?thesis
    using True by (simp add: zf_pin_protocol_decrypt_def zf_aes256_cbc_zero_iv_decrypt_def)
next
  case False
  obtain iv w1 where iv: "random_fill hal 16 w = (iv, w1)" by fastforce
  then have len: "length iv = 16" using law(2) [of 16 w] by simp
  obtain x where x: "fst (zf_aes256_cbc_encrypt hal (snd keys) iv d w1) = Some x" "c = iv @ x" "protocol = ZF_PIN_PROTOCOL_V2"
    and d: "length d \<noteq> 0" "length d mod 16 = 0"
    using enc False iv by (auto simp: zf_pin_protocol_encrypt_def split: if_split_asm prod.split_asm option.split_asm)
  note inverse = aes_lawful_roundtrip [OF law(1) x(1)]
  show ?thesis
    using inverse x(2,3) False len d by (simp add: zf_pin_protocol_decrypt_def)
qed

lemma hmac_output:
  assumes law: "aes_lawful hal" "\<And>n w. length (fst (random_fill hal n w)) = n"
    and b: "zf_ctap_hmac_secret_build_extension hal pin request r uv buffer cap w = (Inr ext, w')" and cap: "cap \<le> length buffer"
    and asked: "ar_has_hmac_secret request" "cr_hmac_secret r"
  obtains keys w1 salt w2 c where
    "zf_pin_protocol_derive_keys hal pin (ar_hmac_secret_pin_protocol request) (ar_hmac_secret_platform_x request)
      (ar_hmac_secret_platform_y request) w = (Some keys, w1)"
    "ar_hmac_secret_salt_auth request = take (zf_pin_protocol_auth_len (ar_hmac_secret_pin_protocol request))
      (hmac_reference (fst keys) (ar_hmac_secret_salt_enc request))"
    "zf_pin_protocol_decrypt hal (ar_hmac_secret_pin_protocol request) keys (ar_hmac_secret_salt_enc request) w1 = (Some salt, w2)"
    "length salt = 32 \<or> length salt = 64" "ext = item_bytes (CMap [(CStr ''hmac-secret'', CBytes c)])"
    "\<And>v. fst (zf_pin_protocol_decrypt hal (ar_hmac_secret_pin_protocol request) keys c v) = Some
      (let secret = (if uv then cr_hmac_secret_with_uv r else cr_hmac_secret_without_uv r)
       in hmac_reference secret (take 32 salt) @ (if length salt = 64 then hmac_reference secret (drop 32 salt) else []))"
proof -
  let ?p = "ar_hmac_secret_pin_protocol request" and ?enc = "ar_hmac_secret_salt_enc request"
  let ?secret = "if uv then cr_hmac_secret_with_uv r else cr_hmac_secret_without_uv r"
  have "zf_pin_protocol_supported ?p" using b asked by (auto simp: zf_ctap_hmac_secret_build_extension_def split: if_split_asm)
  moreover obtain keys w1 where keys: "zf_pin_protocol_derive_keys hal pin ?p (ar_hmac_secret_platform_x request)
      (ar_hmac_secret_platform_y request) w = (Some keys, w1)"
    using b asked calculation by (auto simp: zf_ctap_hmac_secret_build_extension_def split: prod.split_asm option.split_asm)
  moreover have mac: "zf_pin_protocol_hmac_matches ?p (fst keys) ?enc [] (ar_hmac_secret_salt_auth request)"
    using b asked calculation by (auto simp: zf_ctap_hmac_secret_build_extension_def split: if_split_asm)
  moreover obtain salt w2 where salt: "zf_pin_protocol_decrypt hal ?p keys ?enc w1 = (Some salt, w2)"
    using b asked calculation by (auto simp: zf_ctap_hmac_secret_build_extension_def split: prod.split_asm option.split_asm)
  moreover have len: "length salt = 32 \<or> length salt = 64"
    using b asked calculation by (auto simp: zf_ctap_hmac_secret_build_extension_def split: if_split_asm)
  ultimately obtain c w3 where c: "zf_pin_protocol_encrypt hal ?p keys (zf_hmac_sha256_parts ?secret (take 32 salt) [] @
      (if length salt = 64 then zf_hmac_sha256_parts ?secret (drop 32 salt) [] else [])) ZF_HMAC_SECRET_OUTPUT_MAX_LEN w2 = (Some c, w3)"
    and run: "run_encoder buffer cap (\<lambda>enc. and_then (zf_cbor_encode_map enc 1) (\<lambda>enc.
      and_then (zf_cbor_encode_text enc (ascii ''hmac-secret'')) (\<lambda>enc. zf_cbor_encode_bytes enc c))) = Inr ext"
    using b asked by (auto simp: zf_ctap_hmac_secret_build_extension_def Let_def simp del: disj_not1
      split: prod.split_asm option.split_asm)
  have w: "writes (\<lambda>enc. and_then (zf_cbor_encode_map enc 1) (\<lambda>enc.
      and_then (zf_cbor_encode_text enc (ascii ''hmac-secret'')) (\<lambda>enc. zf_cbor_encode_bytes enc c)))
    (cbor_map 1 @ cbor_text (ascii ''hmac-secret'') @ cbor_bytes c)"
    by (intro writes_and_then writes_emitter emitters)
  have "ext = cbor_map 1 @ cbor_text (ascii ''hmac-secret'') @ cbor_bytes c"
    by (rule run_encoder_emitted(1) [OF run w cap]) (simp add: cbor_map_def)
  then have ext: "ext = item_bytes (CMap [(CStr ''hmac-secret'', CBytes c)])" by simp
  have "fst (zf_pin_protocol_decrypt hal ?p keys c v) = Some (let secret = ?secret
       in hmac_reference secret (take 32 salt) @ (if length salt = 64 then hmac_reference secret (drop 32 salt) else []))" for v
    using protocol_roundtrip [OF law c] by (simp add: hmac_parts_correct Let_def)
  from that [OF keys mac [unfolded hmac_matches_iff append_Nil2] salt len ext this] show thesis .
qed

end
