(* ===== verification/Ctap_Properties.thy ===== *)
theory Ctap_Properties
  imports Sim_Ctap Ctap_Gate Ctap_Consent Ctap_Outputs Pin_Properties
begin

text \<open>
  The properties of the CTAP2 commands, with witnesses on the simulated platform.
\<close>

section \<open>The dispatcher, command by command\<close>

lemma dispatch_assertion:
  fixes env :: "'w ctap_env"
  assumes quiet: "quiet_env content env" and cap: "ce_out_capacity env \<le> length (ce_out env)"
    and cmd: "cmd = ZfCtapeCmdGetAssertion \<or> cmd = ZfCtapeCmdGetNextAssertion"
  shows "triple (kept (ce_hal env) content us s) (zf_ctap_dispatch_command env c session_id cmd data)
    (released_by (ce_hal env) content us s) (\<lambda>_. kept (ce_hal env) content us s)"
proof -
  let ?K = "kept (ce_hal env) content us s"
  have pure: "triple ?K (status_of (\<lambda>app w. (g app, app, w))) (\<lambda>_. ?K) (\<lambda>_. ?K)" for g
    by (rule kept_calm [OF calm_pure(3)])
  have "zf_ctap_dispatch_command env c session_id cmd data =
      then_ok require_idle (\<lambda>_. if cmd = ZfCtapeCmdGetAssertion then zf_ctap_handle_get_assertion env session_id data
        else then_ok (status_of (\<lambda>app w. (zf_ctap_require_empty_payload (length data + 1), app, w)))
          (\<lambda>_. zf_ctap_assertion_queue_handle_next env session_id))"
    using cmd by (auto simp: zf_ctap_dispatch_command_def Let_def ZfCtapeCmdGetInfo_def ZfCtapeCmdClientPin_def
        ZfCtapeCmdReset_def ZfCtapeCmdMakeCredential_def ZfCtapeCmdGetAssertion_def ZfCtapeCmdGetNextAssertion_def)
  then show ?thesis
    unfolding require_idle_def
    by (simp only:, intro triple_then_ok [OF pure] triple_if get_assertion_triple [OF quiet cap] next_triple [OF quiet cap])
qed

lemma handled:
  assumes "zerofido_handle_ctap2 env session_id (cmd # data) response_capacity app w = (response, app', w')"
  obtains (refused) "length response \<le> 1" "app' = app" "w' = w"
  | (dispatched) c x where "zf_ctap_dispatch_command (env\<lparr>ce_out_capacity := response_capacity - 1\<rparr>) c session_id cmd data app w =
      (x, app', w')" "response = (case x of Inl status \<Rightarrow> [ctap_status_byte status] | Inr y \<Rightarrow> ctap_status_byte ZF_CTAP_SUCCESS # y)"
  using assms by (auto simp: zerofido_handle_ctap2_def Let_def split: if_split_asm prod.split_asm sum.split_asm)

text \<open>What an assertion releases joins the history of the store.\<close>

lemma message_released:
  assumes "quiet_env content env" and "response_capacity - 1 \<le> length (ce_out env)"
    and "good (ce_hal env) content us (app_store app) w"
    and "cmd = ZfCtapeCmdGetAssertion \<or> cmd = ZfCtapeCmdGetNextAssertion"
    and "zerofido_handle_ctap2 env session_id (cmd # data) response_capacity app w = (response, app', w')"
  shows "(length response \<le> 1 \<and> app_store app' = app_store app) \<or>
    (\<exists>cid n. released (cmd # data) response = [(cid, n)] \<and>
      released_from (ce_hal env) content us (app_store app) (cid, n) app' w')"
  using assms(5)
proof (cases rule: handled)
  case (dispatched c x)
  let ?env = "env\<lparr>ce_out_capacity := response_capacity - 1\<rparr>"
  have "quiet_env content ?env" "ce_out_capacity ?env \<le> length (ce_out ?env)" using assms(1,2) by simp_all
  note t = dispatch_assertion [OF this assms(4), of us "app_store app" c session_id data]
  have k: "kept (ce_hal ?env) content us (app_store app) app w" using assms(3) by (simp add: kept_def)
  show ?thesis
  proof (cases x)
    case (Inl status)
    then show ?thesis using tripleD(1) [OF t k] dispatched by (simp add: kept_def)
  next
    case (Inr body)
    obtain u where u: "assertion_release body = Some u" "released_from (ce_hal env) content us (app_store app) u app' w'"
      using tripleD(2) [OF t k] dispatched Inr by fastforce
    have "released (cmd # data) response = [u]"
      using u(1) dispatched(2) Inr assms(4) by (simp add: released_def released_by_body_def)
    then show ?thesis using u(2) by (cases u) blast
  qed
qed simp

text \<open>A new release lies above everything that was released for its credential before.\<close>

lemma released_above:
  assumes "released_from hal content us s (cid, n) app w"
  shows "floor_at hal (content w) cid (zf_counter_reserved_high_water n)"
    "(cid, m) \<in> set us \<Longrightarrow> zf_counter_reserved_high_water m < n"
proof -
  have inv: "run_inv hal content (us @ [(cid, n)]) (app_store app) w" using assms by (simp add: released_from_def good_def)
  then show "floor_at hal (content w) cid (zf_counter_reserved_high_water n)" by (simp add: run_inv_def)
  have "sorted_wrt beyond (map snd (filter (\<lambda>u. fst u = cid) us) @ [n])"
    using spec [OF conjunct2 [OF conjunct2 [OF inv [unfolded run_inv_def]]], of cid] by simp
  then have all: "\<forall>k \<in> set (map snd (filter (\<lambda>u. fst u = cid) us)). beyond k n" by (simp add: sorted_wrt_append)
  assume "(cid, m) \<in> set us"
  then have "(cid, m) \<in> set (filter (\<lambda>u. fst u = cid) us)" by simp
  then have "m \<in> set (map snd (filter (\<lambda>u. fst u = cid) us))" unfolding set_map by (rule image_eqI [rotated]) simp
  with all show "zf_counter_reserved_high_water m < n" by (simp only: beyond_def)
qed

text \<open>The run of the simulated platform: a start-up, a registration and an assertion.\<close>

lemma sim_run:
  obtains w w' response where "ctap_run (\<lambda>_. True) sim_hal (\<lambda>w. w) [] (sim_ctap_app sim_empty) (\<lambda>_. None)"
    "zerofido_handle_ctap2 sim_env 1 (ZfCtapeCmdMakeCredential # sim_message) 1024 (sim_ctap_app sim_empty) (\<lambda>_. None) =
      (response, sim_ctap_app sim_indexed, w)" "1 < length response"
    "ctap_run (\<lambda>_. True) sim_hal (\<lambda>w. w) [] (sim_ctap_app sim_indexed) w"
    "zf_store_load_record_with_buffer sim_hal sim_entry (replicate 800 0) w = (Some sim_created, w')"
proof -
  let ?b = "replicate 800 0 :: bytes" and ?app = "sim_ctap_app sim_empty"
  have room: "ZF_STORE_RECORD_IO_SIZE \<le> length ?b" and "ZF_STORE_RECORD_MAX_SIZE \<le> length ?b"
    by (simp_all add: ZF_STORE_RECORD_IO_SIZE_def ZF_STORE_RECORD_MAX_SIZE_def)
  have cap: "zf_store_effective_capacity sim_empty \<le> ZF_MAX_CREDENTIALS" by (simp add: zf_store_effective_capacity_def sim_empty_def)
  have "fs_dir sim_hal p v = Some []" for p v by (simp add: sim_hal_def)
  with \<open>ZF_STORE_RECORD_MAX_SIZE \<le> length ?b\<close>
  have "zf_store_init_with_buffer (\<lambda>_. True) sim_hal sim_empty ?b (\<lambda>_. None) = (True, app_store ?app, \<lambda>_. None)"
    using room by (simp add: zf_store_init_with_buffer_def zf_store_bootstrap_init_with_buffer_def Let_def
        zf_store_bootstrap_ensure_app_data_dir_def zf_store_recovery_cleanup_temp_files_with_buffer_def
        zf_storage_remove_dir_entries_with_suffix_def zf_storage_for_each_dir_entry_def sim_empty_def zf_store_clear_def)
  note on = ctap_run.power_on [where content = "\<lambda>w. w", OF cap room this]
  obtain response w w' where m: "zerofido_handle_ctap2 sim_env 1 (ZfCtapeCmdMakeCredential # sim_message) 1024 ?app (\<lambda>_. None) =
      (response, sim_ctap_app sim_indexed, w)" "1 < length response"
    "zf_store_load_record_with_buffer sim_hal sim_entry ?b w = (Some sim_created, w')" by (rule sim_registered)
  have hal: "ce_hal sim_env = sim_hal" "1024 - 1 \<le> length (ce_out sim_env)" by simp_all
  have "draws_unused (sim_env\<lparr>ce_out_capacity := 1024 - 1\<rparr>) 1 sim_message [] ?app (\<lambda>_. None)"
    using sim_draft_prepared [of "1024 - 1" "\<lambda>_. None"] by (auto simp: draws_unused_def index_view_def cs_entries_def sim_empty_def)
  then have "ctap_run (\<lambda>_. True) sim_hal (\<lambda>w. w) (forget (app_store ?app) (app_store (sim_ctap_app sim_indexed)) [] @
      released (ZfCtapeCmdMakeCredential # sim_message) response) (sim_ctap_app sim_indexed) w"
    by (intro ctap_run.message [OF on sim_quiet hal _ _ m(1)]) (simp_all add: ZfCtapeCmdMakeCredential_def ZfCtapeCmdReset_def)
  moreover have "released (ZfCtapeCmdMakeCredential # sim_message) response = []"
    by (simp add: released_def released_by_body_def ZfCtapeCmdMakeCredential_def ZfCtapeCmdGetAssertion_def
        ZfCtapeCmdGetNextAssertion_def split: list.split)
  ultimately show thesis using that on m by (simp add: forget_def)
qed

lemma sim_good:
  "ctap_run (\<lambda>_. True) sim_hal (\<lambda>w. w) us app w \<Longrightarrow> good sim_hal (\<lambda>w. w) us (app_store app) w"
  by (rule ctap_run_invariant [OF sim_store_platform]) (simp_all add: sim_hal_def)

section \<open>Properties\<close>

text \<open>
  C1. Over any history of CTAP messages, start-ups, completed resets, deletions and work of other components,
  and whichever operations of the medium, the heap or the user fail on the way, the signature counters that
  clients read in the responses for one credential increase: each exceeds the whole range that was reserved
  for the one before, also across power losses. A new credential is taken to draw an identifier not used before,
  and a reset either completes or leaves the credentials alone.
\<close>

theorem ctap_counters_increase:
  assumes "store_platform hal content"
    and "\<And>v entries. fs_dir hal ZF_APP_DATA_DIR v = Some entries \<Longrightarrow> distinct (map fst entries)"
    and "ctap_run heap hal content us app w"
  shows "sorted_wrt (\<lambda>a b. zf_counter_reserved_high_water a < b) (map snd (filter (\<lambda>u. fst u = c) us)) \<and>
    sorted_wrt (<) (map snd (filter (\<lambda>u. fst u = c) us))"
proof -
  have "good hal content us (app_store app) w" by (rule ctap_run_invariant [OF assms])
  then have "sorted_wrt beyond (map snd (filter (\<lambda>u. fst u = c) us))" by (simp add: good_def run_inv_def)
  then show ?thesis
    using high_water_bound unfolding beyond_def
    by (auto elim!: sorted_wrt_mono_rel [rotated] intro: order_le_less_trans)
qed

theorem ctap_counters_increase_witness:
  "\<exists>us app w. ctap_run (\<lambda>_. True) sim_hal (\<lambda>w. w) us app w \<and> us \<noteq> [] \<and>
    sorted_wrt (<) (map snd (filter (\<lambda>u. fst u = fst (hd us)) us))"
proof -
  let ?app = "sim_ctap_app sim_indexed" and ?data = "silent_request (replicate 32 0) sim_rp"
  obtain w w2 response where run: "ctap_run (\<lambda>_. True) sim_hal (\<lambda>w. w) [] ?app w"
    and load: "zf_store_load_record_with_buffer sim_hal sim_entry (replicate 800 0) w = (Some sim_created, w2)" by (rule sim_run)
  obtain response app' w' where m: "zerofido_handle_ctap2 sim_env 1 (ZfCtapeCmdGetAssertion # ?data) 1024 ?app w = (response, app', w')"
    "1 < length response" using sim_answered [OF load] by blast
  have hal: "ce_hal sim_env = sim_hal" "1024 - 1 \<le> length (ce_out sim_env)" by simp_all
  have good: "good (ce_hal sim_env) (\<lambda>w. w) [] (app_store ?app) w" using sim_good [OF run] by simp
  obtain cid n where "released (ZfCtapeCmdGetAssertion # ?data) response = [(cid, n)]"
    using message_released [OF sim_quiet hal(2) good _ m(1)] m(2) by auto
  moreover have "ctap_run (\<lambda>_. True) sim_hal (\<lambda>w. w) (forget (app_store ?app) (app_store app') [] @
      released (ZfCtapeCmdGetAssertion # ?data) response) app' w'"
    by (rule ctap_run.message [OF run sim_quiet hal _ _ m(1)]) (simp_all add: ZfCtapeCmdGetAssertion_def
        ZfCtapeCmdMakeCredential_def ZfCtapeCmdReset_def)
  ultimately have run': "ctap_run (\<lambda>_. True) sim_hal (\<lambda>w. w) [(cid, n)] app' w'" by (simp add: forget_def)
  have "fs_dir sim_hal p v = Some []" for p v by (simp add: sim_hal_def)
  then have "sorted_wrt (<) (map snd (filter (\<lambda>u. fst u = fst (hd [(cid, n)])) [(cid, n)]))"
    using ctap_counters_increase [OF sim_store_platform _ run', of cid] by simp
  with run' show ?thesis by blast
qed

text \<open>
  C6. An assertion, the first or a next one, either fails with at most a status byte and leaves the index as
  it was, or its response carries the identifier of a credential of the index and a counter that is larger
  than everything released for that credential before; the index then holds that counter, every other entry
  is unchanged, and the reserved range is on the medium, so that it survives a power loss.
\<close>

theorem assertion_releases_counter:
  assumes "quiet_env content env" and "response_capacity - 1 \<le> length (ce_out env)"
    and "good (ce_hal env) content us (app_store app) w"
    and "cmd = ZfCtapeCmdGetAssertion \<or> cmd = ZfCtapeCmdGetNextAssertion"
    and "zerofido_handle_ctap2 env session_id (cmd # data) response_capacity app w = (response, app', w')"
  shows "(length response \<le> 1 \<and> app_store app' = app_store app) \<or>
    (\<exists>cid n. released (cmd # data) response = [(cid, n)] \<and> counted (app_store app) (app_store app') (cid, n) \<and>
      floor_at (ce_hal env) (content w') cid (zf_counter_reserved_high_water n) \<and>
      (\<forall>m. (cid, m) \<in> set us \<longrightarrow> zf_counter_reserved_high_water m < n))"
  using message_released [OF assms] released_above by (fastforce simp: released_from_def)

theorem assertion_releases_counter_witness:
  "\<exists>w response app' w' cid n. good sim_hal (\<lambda>w. w) [] (app_store (sim_ctap_app sim_indexed)) w \<and>
    zerofido_handle_ctap2 sim_env 1 (ZfCtapeCmdGetAssertion # silent_request (replicate 32 0) sim_rp) 1024
      (sim_ctap_app sim_indexed) w = (response, app', w') \<and>
    released (ZfCtapeCmdGetAssertion # silent_request (replicate 32 0) sim_rp) response = [(cid, n)] \<and>
    counted sim_indexed (app_store app') (cid, n) \<and> floor_at sim_hal w' cid (zf_counter_reserved_high_water n)"
proof -
  obtain w w2 response where run: "ctap_run (\<lambda>_. True) sim_hal (\<lambda>w. w) [] (sim_ctap_app sim_indexed) w"
    and load: "zf_store_load_record_with_buffer sim_hal sim_entry (replicate 800 0) w = (Some sim_created, w2)" by (rule sim_run)
  obtain response app' w' where m: "zerofido_handle_ctap2 sim_env 1 (ZfCtapeCmdGetAssertion # silent_request (replicate 32 0) sim_rp)
      1024 (sim_ctap_app sim_indexed) w = (response, app', w')" "1 < length response" using sim_answered [OF load] by blast
  have "good (ce_hal sim_env) (\<lambda>w. w) [] (app_store (sim_ctap_app sim_indexed)) w" using sim_good [OF run] by simp
  from assertion_releases_counter [OF sim_quiet _ this _ m(1)] show ?thesis using sim_good [OF run] m by fastforce
qed

text \<open>
  C7. A registration, given that it draws an unused identifier, either fails with at most a status byte and
  adds nothing to the index, or its response names a credential that was not in the index before and now is,
  with the entry of its record; the other entries are unchanged or, replaced residents, gone.
\<close>

theorem registration_adds_one:
  assumes "quiet_env content env" and "response_capacity - 1 \<le> length (ce_out env)"
    and "good (ce_hal env) content us (app_store app) w"
    and "draws_unused (env\<lparr>ce_out_capacity := response_capacity - 1\<rparr>) session_id data us app w"
    and "zerofido_handle_ctap2 env session_id (ZfCtapeCmdMakeCredential # data) response_capacity app w = (response, app', w')"
  shows "(length response \<le> 1 \<and> (\<exists>D. index_view (app_store app') = index_view (app_store app) |` D)) \<or>
    (\<exists>r D. creation_release (tl response) = Some (cr_credential_id r) \<and>
      index_view (app_store app) (cr_credential_id r) = None \<and>
      index_view (app_store app') =
        (index_view (app_store app) |` D)(cr_credential_id r \<mapsto> zf_store_index_entry_from_record r))"
proof -
  have same: "\<exists>D. index_view (app_store app) = index_view (app_store app) |` D"
    using thinned_refl [of "app_store app"] unfolding thinned_def .
  show ?thesis
    using assms(5)
  proof (cases rule: handled)
    case refused
    then show ?thesis using same by blast
  next
    case (dispatched c x)
    let ?env = "env\<lparr>ce_out_capacity := response_capacity - 1\<rparr>"
    have "then_ok require_idle (\<lambda>_. zf_ctap_handle_make_credential ?env session_id data) app w = (x, app', w')"
      using dispatched(1) by (simp add: zf_ctap_dispatch_command_def Let_def ZfCtapeCmdGetInfo_def ZfCtapeCmdClientPin_def
        ZfCtapeCmdReset_def ZfCtapeCmdMakeCredential_def)
    from idle_first [OF this] show ?thesis
    proof
      assume m: "zf_ctap_handle_make_credential ?env session_id data app w = (x, app', w')"
      have "case x of Inl _ \<Rightarrow> in_order (ce_hal ?env) content us (app_store app) app' w'
        | Inr response \<Rightarrow> \<exists>c. creation_release response = Some c \<and> created (ce_hal ?env) content us (app_store app) c app' w'"
        by (rule make_credential_in_order [OF _ _ _ assms(4) m]) (use assms(1-3) in simp_all)
      then show ?thesis using dispatched(2)
        by (auto simp: in_order_def created_def thinned_def registered_def split: sum.split_asm)
    next
      assume "\<exists>status. x = Inl status \<and> app' = app \<and> w' = w"
      then have "length response \<le> 1" "app' = app" using dispatched(2) by auto
      then show ?thesis using same by blast
    qed
  qed
qed

theorem registration_adds_one_witness:
  "\<exists>response app' w'. zerofido_handle_ctap2 sim_env 1 (ZfCtapeCmdMakeCredential # sim_message) 1024 (sim_ctap_app sim_empty)
      (\<lambda>_. None) = (response, app', w') \<and>
    (\<exists>c. creation_release (tl response) = Some c \<and> index_view (app_store app') c \<noteq> None)"
proof -
  obtain w w2 response where run: "ctap_run (\<lambda>_. True) sim_hal (\<lambda>w. w) [] (sim_ctap_app sim_empty) (\<lambda>_. None)"
    and m: "zerofido_handle_ctap2 sim_env 1 (ZfCtapeCmdMakeCredential # sim_message) 1024 (sim_ctap_app sim_empty) (\<lambda>_. None) =
      (response, sim_ctap_app sim_indexed, w)" "1 < length response" by (rule sim_run)
  have "good (ce_hal sim_env) (\<lambda>w. w) [] (app_store (sim_ctap_app sim_empty)) (\<lambda>_. None)" using sim_good [OF run] by simp
  moreover have "draws_unused (sim_env\<lparr>ce_out_capacity := 1024 - 1\<rparr>) 1 sim_message [] (sim_ctap_app sim_empty) (\<lambda>_. None)"
    using sim_draft_prepared [of "1024 - 1" "\<lambda>_. None"] by (auto simp: draws_unused_def index_view_def cs_entries_def sim_empty_def)
  ultimately have "\<exists>c. creation_release (tl response) = Some c \<and> index_view (app_store (sim_ctap_app sim_indexed)) c \<noteq> None"
    using registration_adds_one [OF sim_quiet _ _ _ m(1), of "[]"] m(2) by fastforce
  with m(1) show ?thesis by blast
qed

text \<open>
  C4. Nothing is registered, reset or selected without the user: while no prompt is approved and nothing
  approves automatically, makeCredential answers with at most a status byte, reset and selection never
  answer success, whatever the request and the PIN, and the index of credentials stays as it was.
\<close>

theorem user_must_approve:
  assumes "quiet_env content env" and "good (ce_hal env) content us (app_store app) w"
    and "nobody_approves env" and "manual app"
    and "cmd \<in> {ZfCtapeCmdMakeCredential, ZfCtapeCmdReset, ZfCtapeCmdSelection}"
    and "zerofido_handle_ctap2 env session_id (cmd # data) response_capacity app w = (response, app', w')"
  shows "length response \<le> 1 \<and> (cmd \<noteq> ZfCtapeCmdMakeCredential \<longrightarrow> response \<noteq> [ctap_status_byte ZF_CTAP_SUCCESS]) \<and>
    app_store app' = app_store app"
proof -
  let ?env = "env\<lparr>ce_out_capacity := response_capacity - 1\<rparr>"
  have "quiet_env content ?env" "nobody_approves ?env" using assms(1,3) by (simp_all add: nobody_approves_def)
  note t = refused [OF this assms(5), of us "app_store app" _ session_id data]
  have u: "unasked (ce_hal ?env) content us (app_store app) app w" using assms(2,4) by (simp add: unasked_def kept_def)
  show ?thesis
  proof (cases "response = [] \<or> response = [ctap_status_byte ZF_CTAP_ERR_INVALID_COMMAND] \<and> app' = app")
    case True
    then show ?thesis using assms(6) by (auto simp: zerofido_handle_ctap2_def Let_def split: if_split_asm prod.split_asm sum.split_asm)
  next
    case False
    then obtain c x where d: "zf_ctap_dispatch_command ?env c session_id cmd data app w = (x, app', w')"
      and r: "response = (case x of Inl status \<Rightarrow> [ctap_status_byte status] | Inr y \<Rightarrow> ctap_status_byte ZF_CTAP_SUCCESS # y)"
      using assms(6) by (auto simp: zerofido_handle_ctap2_def Let_def split: if_split_asm prod.split_asm sum.split_asm)
    obtain status where x: "x = Inl status" using tripleD(2) [OF t u, of c _ app' w'] d by (cases x) auto
    have "status \<noteq> ZF_CTAP_SUCCESS" if "cmd \<noteq> ZfCtapeCmdMakeCredential"
    proof -
      have reset: "cmd \<in> {ZfCtapeCmdReset, ZfCtapeCmdSelection}" using assms(5) that by simp
      have "fst (zf_ctap_dispatch_command ?env c session_id cmd data app w) \<noteq> Inl ZF_CTAP_SUCCESS"
        using honest_dispatch [OF reset, of ?env c session_id data] by (simp only: honest_def) simp
      then show ?thesis using d x by simp
    qed
    then have "cmd \<noteq> ZfCtapeCmdMakeCredential \<longrightarrow> ctap_status_byte status \<noteq> ctap_status_byte ZF_CTAP_SUCCESS"
      by (cases status) auto
    moreover have "app_store app' = app_store app" using tripleD(1) [OF t u] d x by (simp add: kept_def)
    ultimately show ?thesis using r x by simp
  qed
qed

text \<open>
  C5. The flags of an assertion tell the truth. The verified flag is only set when the request carries the
  message authentication code of its client data hash under the token of the PIN that the authenticator held
  when the request arrived, with the permission; the present flag is never set while no prompt is approved and
  nothing approves automatically.
\<close>

theorem assertion_flags_true:
  assumes "quiet_env content env" and "response_capacity - 1 \<le> length (ce_out env)"
    and "good (ce_hal env) content us (app_store app) w"
    and "zerofido_handle_ctap2 env session_id (ZfCtapeCmdGetAssertion # data) response_capacity app w = (response, app', w')"
    and "1 < length response"
  shows "\<exists>request flags. assertion_flags (tl response) = Some flags \<and>
    zf_ctap_parse_get_assertion data (ga_cleared \<lparr>dl_entries = [], dl_capacity = ZF_MAX_ALLOW_LIST\<rparr>) = Inr request \<and>
    (bit flags 2 \<longrightarrow> pin_verified (app_pin_state app) request) \<and>
    (bit flags 0 \<longrightarrow> \<not> (nobody_approves env \<and> manual app))"
  using assms(4)
proof (cases rule: handled)
  case (dispatched c x)
  let ?env = "env\<lparr>ce_out_capacity := response_capacity - 1\<rparr>" and ?none = "nobody_approves env \<and> manual app"
  obtain y where y: "x = Inr y" using dispatched(2) assms(5) by (cases x) auto
  have "then_ok require_idle (\<lambda>_. zf_ctap_handle_get_assertion ?env session_id data) app w = (Inr y, app', w')"
    using dispatched(1) y by (simp add: zf_ctap_dispatch_command_def Let_def ZfCtapeCmdGetInfo_def ZfCtapeCmdClientPin_def
      ZfCtapeCmdReset_def ZfCtapeCmdMakeCredential_def ZfCtapeCmdGetAssertion_def)
  from idle_first [OF this] have m: "zf_ctap_handle_get_assertion ?env session_id data app w = (Inr y, app', w')" by simp
  have q: "quiet_env content ?env" "ce_out_capacity ?env \<le> length (ce_out ?env)"
    and n: "?none \<Longrightarrow> nobody_approves ?env" using assms(1,2) by (simp_all add: nobody_approves_def)
  have k: "kept (ce_hal ?env) content us (app_store app) app w \<and> (?none \<longrightarrow> manual app) \<and> app_pin_state app = app_pin_state app"
    using assms(3) by (simp add: kept_def)
  have "meant ?none (app_pin_state app) data y"
    by (rule tripleD(2) [OF assertion_flags_triple [OF q n] k m]) 
  then show ?thesis using dispatched(2) y presence_flags_bits by (auto simp: meant_def flagged_def)
qed (use assms(5) in simp)

theorem user_must_approve_witness:
  "\<exists>response app' w'. zerofido_handle_ctap2 sim_env 1 (ZfCtapeCmdMakeCredential # sim_message) 1024
      ((sim_ctap_app sim_empty)\<lparr>app_transport_auto_accept_transaction := False\<rparr>) (\<lambda>_. None) = (response, app', w') \<and>
    length response \<le> 1 \<and> app_store app' = sim_empty"
proof -
  let ?app = "(sim_ctap_app sim_empty)\<lparr>app_transport_auto_accept_transaction := False\<rparr>"
  obtain response app' w' where r: "zerofido_handle_ctap2 sim_env 1 (ZfCtapeCmdMakeCredential # sim_message) 1024 ?app (\<lambda>_. None) =
      (response, app', w')" using prod_cases3 by blast
  have "app_store ?app = sim_empty" "manual ?app" by (simp_all add: sim_ctap_app_def ZerofidoApp.defs manual_def)
  moreover have "nobody_approves sim_env" by (simp add: nobody_approves_def sim_build_def)
  moreover have "ctap_run (\<lambda>_. True) sim_hal (\<lambda>w. w) [] (sim_ctap_app sim_empty) (\<lambda>_. None)" by (rule sim_run)
  then have "good (ce_hal sim_env) (\<lambda>w. w) [] (app_store ?app) (\<lambda>_. None)" using sim_good calculation(1) by fastforce
  ultimately show ?thesis using user_must_approve [OF sim_quiet _ _ _ _ r, of "[]"] r by simp
qed

theorem assertion_flags_true_witness:
  "\<exists>w response app' w' flags. zerofido_handle_ctap2 sim_env 1 (ZfCtapeCmdGetAssertion # silent_request (replicate 32 0) sim_rp) 1024
      (sim_ctap_app sim_indexed) w = (response, app', w') \<and> assertion_flags (tl response) = Some flags \<and> \<not> bit flags 2"
proof -
  let ?data = "silent_request (replicate 32 0) sim_rp"
  obtain w w2 response where run: "ctap_run (\<lambda>_. True) sim_hal (\<lambda>w. w) [] (sim_ctap_app sim_indexed) w"
    and load: "zf_store_load_record_with_buffer sim_hal sim_entry (replicate 800 0) w = (Some sim_created, w2)" by (rule sim_run)
  obtain response app' w' where m: "zerofido_handle_ctap2 sim_env 1 (ZfCtapeCmdGetAssertion # ?data)
      1024 (sim_ctap_app sim_indexed) w = (response, app', w')" "1 < length response" using sim_answered [OF load] by blast
  have "good (ce_hal sim_env) (\<lambda>w. w) [] (app_store (sim_ctap_app sim_indexed)) w" using sim_good [OF run] by simp
  from assertion_flags_true [OF sim_quiet _ this m] obtain request flags where f: "assertion_flags (tl response) = Some flags"
    "bit flags 2 \<longrightarrow> pin_verified (app_pin_state (sim_ctap_app sim_indexed)) request" by auto
  then have "\<not> bit flags 2" by (simp add: pin_verified_def zero_pin_state_def)
  with m f show ?thesis by blast
qed

text \<open>
  A command that finds the maintenance gate open and the command scratch free leaves both so, whatever
  its request, its answer and the failures of storage, memory, transport and user on the way: no command
  locks the commands after it out.
\<close>

theorem commands_free_gate:
  assumes "steady_env env" and "\<not> app_maintenance_busy app" and "\<not> app_command_scratch_in_use app"
    and "zerofido_handle_ctap2 env session_id request response_capacity app w = (response, app', w')"
  shows "\<not> app_maintenance_busy app' \<and> \<not> app_command_scratch_in_use app'"
proof (cases request)
  case Nil
  then show ?thesis using assms by (simp add: zerofido_handle_ctap2_def)
next
  case (Cons cmd data)
  have e: "steady_env (env\<lparr>ce_out_capacity := response_capacity - 1\<rparr>)" using assms(1) by (simp add: steady_env_def)
  from assms(4) [unfolded Cons] show ?thesis
  proof (cases rule: handled)
    case (dispatched c x)
    then show ?thesis using dispatch_steady [OF e assms(3)] assms(2,3) by (simp add: occupied_def)
  qed (use assms(2,3) in simp)
qed

theorem commands_free_gate_witness:
  "\<exists>response app' w'. zerofido_handle_ctap2 sim_env 1 (ZfCtapeCmdMakeCredential # sim_message) 1024 (sim_ctap_app sim_empty)
      (\<lambda>_. None) = (response, app', w') \<and> 1 < length response \<and> \<not> app_maintenance_busy app' \<and> \<not> app_command_scratch_in_use app'"
proof -
  have "steady_env sim_env" by (simp add: steady_env_def)
  then show ?thesis
    using commands_free_gate [of sim_env "sim_ctap_app sim_empty"] by (rule_tac sim_registered) auto
qed

text \<open>
  What is refused is refused without an effect, and with the right status: an empty message is not
  answered, a command that the build, the profile or the capabilities do not offer is answered INVALID_COMMAND,
  and while the maintenance gate is closed every offered command but getInfo is answered NOT_ALLOWED.
\<close>

theorem refusals_have_no_effect:
  "(zerofido_handle_ctap2 env session_id [] response_capacity app w = ([], app, w)) \<and>
   (1 < response_capacity \<longrightarrow> \<not> zf_runtime_ctap_command_enabled (ce_build env) app cmd \<longrightarrow>
     zerofido_handle_ctap2 env session_id (cmd # data) response_capacity app w =
       ([ctap_status_byte ZF_CTAP_ERR_INVALID_COMMAND], app, w)) \<and>
   (1 < response_capacity \<longrightarrow> zf_runtime_ctap_command_enabled (ce_build env) app cmd \<longrightarrow> cmd \<noteq> ZfCtapeCmdGetInfo \<longrightarrow>
     app_maintenance_busy app \<longrightarrow> zerofido_handle_ctap2 env session_id (cmd # data) response_capacity app w =
       ([ctap_status_byte ZF_CTAP_ERR_NOT_ALLOWED], app, w))"
proof -
  have "zf_runtime_ctap_command_enabled b app cmd \<Longrightarrow> cmd \<in> {ZfCtapeCmdGetInfo, ZfCtapeCmdMakeCredential,
      ZfCtapeCmdGetAssertion, ZfCtapeCmdReset, ZfCtapeCmdGetNextAssertion, ZfCtapeCmdClientPin, ZfCtapeCmdSelection}" for b
    by (auto simp: zf_runtime_ctap_command_enabled_def Let_def split: if_split_asm)
  then show ?thesis
    by (auto simp: zerofido_handle_ctap2_def Let_def zf_ctap_dispatch_command_def require_idle_def then_ok_def status_of_def
      zf_ctap_dispatch_require_idle_def)
qed

theorem refusals_have_no_effect_witness:
  "zerofido_handle_ctap2 sim_env 1 [0x7F] 64 (sim_ctap_app sim_empty) (\<lambda>_. None) =
      ([ctap_status_byte ZF_CTAP_ERR_INVALID_COMMAND], sim_ctap_app sim_empty, \<lambda>_. None) \<and>
    zerofido_handle_ctap2 sim_env 1 (ZfCtapeCmdMakeCredential # sim_message) 64 ((sim_ctap_app sim_empty)\<lparr>app_maintenance_busy := True\<rparr>)
      (\<lambda>_. None) = ([ctap_status_byte ZF_CTAP_ERR_NOT_ALLOWED], (sim_ctap_app sim_empty)\<lparr>app_maintenance_busy := True\<rparr>, \<lambda>_. None)"
proof -
  have "\<not> zf_runtime_ctap_command_enabled (ce_build sim_env) (sim_ctap_app sim_empty) 0x7F"
    by (simp add: zf_runtime_ctap_command_enabled_def Let_def ZfCtapeCmdGetInfo_def ZfCtapeCmdClientPin_def ZfCtapeCmdReset_def
      ZfCtapeCmdMakeCredential_def ZfCtapeCmdGetAssertion_def ZfCtapeCmdGetNextAssertion_def ZfCtapeCmdSelection_def)
  moreover have "zf_runtime_ctap_command_enabled (ce_build sim_env) ((sim_ctap_app sim_empty)\<lparr>app_maintenance_busy := True\<rparr>)
      ZfCtapeCmdMakeCredential"
    using sim_enabled(1) [of sim_empty] by (simp add: zf_runtime_ctap_command_enabled_def zf_runtime_get_effective_capabilities_def
      ZfCtapeCmdMakeCredential_def cong: if_cong split del: if_split)
  moreover have "ZfCtapeCmdMakeCredential \<noteq> ZfCtapeCmdGetInfo" by (simp add: ZfCtapeCmdMakeCredential_def ZfCtapeCmdGetInfo_def)
  ultimately show ?thesis
    using refusals_have_no_effect [of sim_env 1 64 "sim_ctap_app sim_empty" "\<lambda>_. None" "0x7F" "[]"]
      refusals_have_no_effect [of sim_env 1 64 "(sim_ctap_app sim_empty)\<lparr>app_maintenance_busy := True\<rparr>" "\<lambda>_. None"
        ZfCtapeCmdMakeCredential sim_message] by simp
qed

text \<open>
  getInfo is answered at any time, also while the maintenance gate is closed, with exactly the item of
  the capabilities: versions, extensions, options, whether a PIN is set, PIN protocols in order of preference,
  transports; a response that does not fit the buffer is replaced by a status.
\<close>

theorem get_info_exact:
  assumes "zf_runtime_ctap_command_enabled (ce_build env) app ZfCtapeCmdGetInfo"
    and "1 < response_capacity" and "response_capacity - 1 \<le> length (ce_out env)"
  shows "zerofido_handle_ctap2 env session_id [ZfCtapeCmdGetInfo] response_capacity app w =
    (let item = item_bytes (get_info_item (ce_build env) (zf_runtime_get_effective_capabilities (ce_build env) app)
        (pin_set (app_pin_state app)))
     in (if length item < response_capacity then ctap_status_byte ZF_CTAP_SUCCESS # item
         else [ctap_status_byte ZF_CTAP_ERR_INVALID_CBOR], app, w))"
  using assms get_info_response [of "response_capacity - 1" "ce_out env"]
  by (auto simp: zerofido_handle_ctap2_def Let_def zf_ctap_dispatch_command_def then_ok_def status_of_def
      zf_ctap_require_empty_payload_def zf_ctap_pin_is_set_def)

theorem get_info_exact_witness:
  "\<exists>item. zerofido_handle_ctap2 sim_env 1 [ZfCtapeCmdGetInfo] 1024 (sim_ctap_app sim_empty) (\<lambda>_. None) =
    (ctap_status_byte ZF_CTAP_SUCCESS # item_bytes item, sim_ctap_app sim_empty, \<lambda>_. None)"
proof -
  have "zf_runtime_ctap_command_enabled (ce_build sim_env) (sim_ctap_app sim_empty) ZfCtapeCmdGetInfo" 
    by (simp add: sim_ctap_app_def ZerofidoApp.defs sim_app_def ZfCtapeCmdGetInfo_def zf_runtime_ctap_command_enabled_def Let_def
      zf_runtime_get_effective_capabilities_def sim_config_def zf_runtime_config_load_defaults_def
      zf_runtime_config_resolve_capabilities_def)
  moreover have "length (item_bytes (get_info_item (ce_build sim_env) (zf_runtime_get_effective_capabilities (ce_build sim_env)
      (sim_ctap_app sim_empty)) (pin_set (app_pin_state (sim_ctap_app sim_empty))))) < 1024"
    by code_simp
  ultimately show ?thesis using get_info_exact [of sim_env "sim_ctap_app sim_empty" 1024] by (auto simp: Let_def)
qed



text \<open>
  C15. A next assertion is only given to the channel that the queue of the first one belongs to, while the
  queue is active, within its time and with an account left, as the queue stands after the poll for a cancel;
  its response is for the account at the position of the queue.
\<close>

theorem next_assertion_bound:
  assumes "quiet_env content env" and "response_capacity - 1 \<le> length (ce_out env)" and "store_wf (app_store app)"
    and "zerofido_handle_ctap2 env session_id [ZfCtapeCmdGetNextAssertion] response_capacity app w = (response, app', w')"
    and "1 < length response"
  shows "\<exists>app1 w1. ce_poll env session_id app w = (ZF_CTAP_SUCCESS, app1, w1) \<and>
    (let q = app_assertion_queue app1 in
      aq_active q \<and> aq_session_id q = session_id \<and> sint (furi_get_tick (ce_hal env) w1 - aq_expires_at q) < 0 \<and>
      aq_index q < aq_count q \<and>
      (\<exists>n. assertion_release (tl response) =
        Some (ie_credential_id (cs_entries (app_store app) ! (aq_record_indices q ! aq_index q)), n)))"
  using assms(4)
proof (cases rule: handled)
  case (dispatched c x)
  let ?env = "env\<lparr>ce_out_capacity := response_capacity - 1\<rparr>"
  obtain y where y: "x = Inr y" using dispatched(2) assms(5) by (cases x) auto
  have m: "zf_ctap_assertion_queue_handle_next ?env session_id app w = (Inr y, app', w')"
    using dispatched(1) y by (auto simp: zf_ctap_dispatch_command_def Let_def ZfCtapeCmdGetInfo_def ZfCtapeCmdClientPin_def
      ZfCtapeCmdReset_def ZfCtapeCmdMakeCredential_def ZfCtapeCmdGetAssertion_def ZfCtapeCmdGetNextAssertion_def require_idle_def
      then_ok_def status_of_def split: if_split_asm)
  from m show ?thesis
  proof (rule next_facts)
    fix app1 w1 q e
    assume f: "ce_poll ?env session_id app w = (ZF_CTAP_SUCCESS, app1, w1)" "q = app_assertion_queue app1"
      "aq_active q" "aq_session_id q = session_id" "sint (furi_get_tick (ce_hal ?env) w1 - aq_expires_at q) < 0"
      "aq_index q < aq_count q" "aq_record_indices q ! aq_index q < length (cs_entries (app_store app1))"
      "e = cs_entries (app_store app1) ! (aq_record_indices q ! aq_index q)"
      "length (ie_credential_id e) < 2 ^ 64 \<Longrightarrow> \<exists>n. assertion_release y = Some (ie_credential_id e, n)"
    have store: "app_store app1 = app_store app"
      using calm_cmdD(1) [OF calm_poll [OF assms(1)], of session_id app w "Inr ()" app1 w1] f(1) by (simp add: status_of_def)
    have "length (ie_credential_id e) = 32"
      using assms(3) f(7,8) by (auto simp: store store_wf_def list_all_length entry_wf_def ZF_CREDENTIAL_ID_LEN_def)
    then show ?thesis using f dispatched(2) y by (auto simp: store Let_def)
  qed (use assms(2) in simp)
qed (use assms(5) in simp)

theorem next_assertion_bound_witness:
  "\<exists>w response app' w' n. zerofido_handle_ctap2 sim_env 1 [ZfCtapeCmdGetNextAssertion] 1024 sim_queued w = (response, app', w') \<and>
    assertion_release (tl response) = Some (replicate 32 7, n)"
proof -
  obtain w w2 where load: "zf_store_load_record_with_buffer sim_hal sim_entry (replicate 800 0) w = (Some sim_created, w2)"
    by (rule sim_run)
  obtain response app' w' where m: "zerofido_handle_ctap2 sim_env 1 [ZfCtapeCmdGetNextAssertion] 1024 sim_queued w =
      (response, app', w')" "1 < length response" using sim_next_answered [OF load] by blast
  have q: "app_store sim_queued = sim_indexed" "app_assertion_queue sim_queued = sim_queue" by (simp_all add: sim_queued_def)
  have "store_wf (app_store sim_queued)" using sim_indexed_wf q by simp
  from next_assertion_bound [OF sim_quiet _ this m] obtain n where "assertion_release (tl response) =
      Some (ie_credential_id (cs_entries sim_indexed ! (aq_record_indices sim_queue ! aq_index sim_queue)), n)"
    by (auto simp: Let_def q)
  then have "assertion_release (tl response) = Some (replicate 32 7, n)"
    by (simp add: sim_queue_def sim_indexed_entries zf_store_index_entry_from_record_def)
  with m(1) show ?thesis by blast
qed

definition sim_salted :: ZfAssertionRequestData where
  "sim_salted = assertion_cleared\<lparr>ar_has_hmac_secret := True, ar_hmac_secret_pin_protocol := 1,
    ar_hmac_secret_salt_enc := replicate 32 0x33,
    ar_hmac_secret_salt_auth := take 16 (hmac_reference (zf_crypto_sha256 (replicate 32 9)) (replicate 32 0x33))\<rparr>"

lemma sim_aes_lawful: "aes_lawful sim_hal"
  by (simp add: aes_lawful_def)

lemma sim_hmac_output:
  "\<exists>ext w'. zf_ctap_hmac_secret_build_extension sim_hal sim_keyed sim_salted sim_created False (replicate 112 0) 112 w = (Inr ext, w')"
proof -
  let ?k = "zf_crypto_sha256 (replicate 32 9)"
  have derive: "zf_pin_protocol_derive_keys sim_hal sim_keyed 1 x y w = (Some (?k, ?k), w)" for x y w
    by (rule sim_derive) simp
  have d: "zf_pin_protocol_decrypt sim_hal 1 keys (replicate 32 0x33) w = (Some (replicate 32 0), w)" for keys w
  proof -
    have "zf_aes_bswap_words (sim_xor 0x33 (zf_aes_bswap_words (replicate 32 0x33))) = replicate 32 0" by code_simp
    then show ?thesis
      by (simp del: zf_aes_bswap_words.simps add: zf_pin_protocol_decrypt_def
        ZF_PIN_PROTOCOL_V1_def zf_aes256_cbc_zero_iv_decrypt_def zf_aes256_cbc_decrypt_def zf_aes256_cbc_crypt_def Let_def)
  qed
  have mac: "zf_pin_protocol_hmac_matches 1 ?k (replicate 32 0x33) [] (ar_hmac_secret_salt_auth sim_salted)"
    by (simp add: hmac_matches_iff sim_salted_def zf_pin_protocol_auth_len_def ZF_PIN_PROTOCOL_V1_def ZF_PIN_PROTOCOL_V2_def ZF_PIN_AUTH_LEN_def)
  have len: "length (zf_hmac_sha256_parts a b c) = 32" for a b c by simp
  obtain c where enc: "zf_pin_protocol_encrypt sim_hal 1 (?k, ?k) (zf_hmac_sha256_parts (replicate 32 7) (replicate 32 0) []) 80 w = (Some c, w)"
      "length c = 32"
    by (simp add: zf_pin_protocol_encrypt_def ZF_PIN_PROTOCOL_V1_def zf_aes256_cbc_zero_iv_encrypt_def zf_aes256_cbc_encrypt_def
        zf_aes256_cbc_crypt_def Let_def)
  have wr: "writes (\<lambda>enc. and_then (zf_cbor_encode_map enc 1) (\<lambda>enc.
      and_then (zf_cbor_encode_text enc (ascii ''hmac-secret'')) (\<lambda>enc. zf_cbor_encode_bytes enc c)))
    (cbor_map 1 @ cbor_text (ascii ''hmac-secret'') @ cbor_bytes c)"
    by (intro writes_and_then writes_emitter emitters)
  have small: "length (zf_cbor_head t v) \<le> 9" for t v by (simp add: zf_cbor_head_def Let_def)
  have "\<exists>ext. run_encoder (replicate 112 0) 112 (\<lambda>enc. and_then (zf_cbor_encode_map enc 1) (\<lambda>enc.
      and_then (zf_cbor_encode_text enc (ascii ''hmac-secret'')) (\<lambda>enc. zf_cbor_encode_bytes enc c))) = Inr ext"
    by (rule exI, rule run_encoder_fits [OF writes_fits [OF wr]])
      (use enc(2) small [of ZF_CBOR_MAJOR_MAP 1] small [of ZF_CBOR_MAJOR_TEXT 11] small [of ZF_CBOR_MAJOR_BYTES 32] in
        \<open>simp_all add: cbor_encodings ascii_def\<close>)
  moreover have r: "cr_hmac_secret sim_created" "cr_hmac_secret_without_uv sim_created = replicate 32 7"
    by (simp_all add: sim_created_def)
  moreover have q: "ar_has_hmac_secret sim_salted" "ar_hmac_secret_pin_protocol sim_salted = 1"
    "ar_hmac_secret_salt_enc sim_salted = replicate 32 0x33" "zf_pin_protocol_supported 1"
    by (simp_all add: sim_salted_def zf_pin_protocol_supported_def ZF_PIN_PROTOCOL_V1_def)
  ultimately show ?thesis
    using enc(1) mac by (auto simp: zf_ctap_hmac_secret_build_extension_def derive d Let_def ZF_HMAC_SECRET_OUTPUT_MAX_LEN_def)
qed

text \<open>
  C16. What the hmac-secret extension gives away: only to a platform whose salts carry the right message
  authentication code under the shared key, and only the codes of those salts under the secret of the credential
  for the verification that took place; with the shared keys the platform reads them from the output.
\<close>

theorem hmac_secret_output:
  assumes "aes_lawful hal" and "\<And>n w. length (fst (random_fill hal n w)) = n"
    and "zf_ctap_hmac_secret_build_extension hal pin request r uv buffer cap w = (Inr ext, w')" and "cap \<le> length buffer"
    and "ar_has_hmac_secret request" and "cr_hmac_secret r"
  shows "\<exists>keys w1 salt w2 c.
    zf_pin_protocol_derive_keys hal pin (ar_hmac_secret_pin_protocol request) (ar_hmac_secret_platform_x request)
      (ar_hmac_secret_platform_y request) w = (Some keys, w1) \<and>
    ar_hmac_secret_salt_auth request = take (zf_pin_protocol_auth_len (ar_hmac_secret_pin_protocol request))
      (hmac_reference (fst keys) (ar_hmac_secret_salt_enc request)) \<and>
    zf_pin_protocol_decrypt hal (ar_hmac_secret_pin_protocol request) keys (ar_hmac_secret_salt_enc request) w1 = (Some salt, w2) \<and>
    length salt \<in> {32, 64} \<and> ext = item_bytes (CMap [(CStr ''hmac-secret'', CBytes c)]) \<and>
    (\<forall>v. fst (zf_pin_protocol_decrypt hal (ar_hmac_secret_pin_protocol request) keys c v) = Some
      (let secret = (if uv then cr_hmac_secret_with_uv r else cr_hmac_secret_without_uv r)
       in hmac_reference secret (take 32 salt) @ (if length salt = 64 then hmac_reference secret (drop 32 salt) else [])))"
proof (rule hmac_output [OF assms], goal_cases)
  case (1 keys w1 salt w2 c)
  then show ?case by (intro exI [of _ keys] exI [of _ w1] exI [of _ salt] exI [of _ w2] exI [of _ c] conjI allI) auto
qed

theorem hmac_secret_output_witness:
  "\<exists>ext w' c. zf_ctap_hmac_secret_build_extension sim_hal sim_keyed sim_salted sim_created False (replicate 112 0) 112
      Map.empty = (Inr ext, w') \<and> ext = item_bytes (CMap [(CStr ''hmac-secret'', CBytes c)])"
proof -
  obtain ext w' where b: "zf_ctap_hmac_secret_build_extension sim_hal sim_keyed sim_salted sim_created False (replicate 112 0) 112
      Map.empty = (Inr ext, w')" using sim_hmac_output by blast
  have "length (fst (random_fill sim_hal n w)) = n" for n w by simp
  from hmac_secret_output [OF sim_aes_lawful this b] show ?thesis
    using b by (auto simp: sim_salted_def sim_created_def)
qed

end
