(* ===== verification/Spec2Isabelle.thy ===== *)
theory Spec2Isabelle
  imports Codec_Properties Pin_Properties Usb_Properties U2f_Properties Store_Properties Ctap_Properties Ctap_Gate
begin

text \<open>
  A verification library of ZeroFIDO, a FIDO2/U2F authenticator application for the Flipper Zero. The sources
  are under \<^verbatim>\<open>src/src\<close>; file names below are relative to that directory.

  \<^bold>\<open>The program.\<close> A host talks to the device in 64-byte USB HID reports. The transport
  (\<^verbatim>\<open>transport/\<close>) allocates channels, reassembles messages and hands them to the protocol handlers: CTAP2
  requests, which are CBOR maps (\<^verbatim>\<open>ctap/\<close>, \<^verbatim>\<open>pin/\<close>), and U2F requests, which are APDUs
  (\<^verbatim>\<open>u2f/\<close>). Handlers ask the user for approval (\<^verbatim>\<open>ui/approval_state.c\<close>) and keep their state in
  files: the client PIN, the credentials, the U2F device key and counter, the attestation key and
  certificate, the configuration. All files go through \<^verbatim>\<open>zerofido_storage.c\<close>, secrets are sealed by the
  secure enclave.

  \<^bold>\<open>Theories and sources.\<close>
  \<^item> \<open>ZF_Prelude\<close>: machine types, the option and result combinators, \<open>and_then\<close>, list and word lemmas,
    the collections of simplification rules.
  \<^item> \<open>Utf8\<close>, \<open>Cbor\<close> (\<^verbatim>\<open>zerofido_cbor.c\<close>): the UTF-8 validators, the encoder over a bounded buffer, the
    strict readers over a cursor, the lenient skipper. \<open>Cbor_Exact\<close>: readers against the canonical encoding,
    the locale of emitters. \<open>Cbor_Items\<close>: data items, maps and arrays.
  \<^item> \<open>Sha256\<close> (\<^verbatim>\<open>crypto/sha256.c\<close>, \<^verbatim>\<open>crypto/hmac_sha256.c\<close>), \<open>Sha256_Exact\<close>: the incremental hash against the
    definition of the standard.
  \<^item> \<open>Ctap_Parse\<close>, \<open>Ctap_Parse_Exact\<close> (\<^verbatim>\<open>ctap/parse/\<close>, \<^verbatim>\<open>pin/client_pin/parse.c\<close>,
    \<^verbatim>\<open>ctap/extensions/\<close>): the request parsers and what they accept.
  \<^item> \<open>Hal\<close>: the parameters of the model, one record of functions over a world \<open>'w\<close>: file system calls, enclave,
    AES engine, random numbers, elliptic-curve operations, FlipperFormat; and the wrappers of
    \<^verbatim>\<open>zerofido_crypto.c\<close>, \<^verbatim>\<open>crypto/aes256.c\<close>, \<^verbatim>\<open>crypto/p256.c\<close>. The laws the proofs use are the predicates
    \<open>storage_lawful\<close> (files change only where an operation names them, whether it succeeds or fails) and
    \<open>enclave_lawful\<close> (decryption inverts encryption under one key).
  \<^item> \<open>Storage\<close>, \<open>Storage_Frame\<close>, \<open>Encrypted_Blob\<close> (\<^verbatim>\<open>zerofido_storage.c\<close>): path building, atomic replacement with
    backup and recovery, directory iteration, encrypted blobs, and what each leaves unchanged. The locale
    \<open>atomic_file\<close> states crash safety of one file and its two companions; it is interpreted for each file.
  \<^item> \<open>Pin\<close>, \<open>Pin_Exact\<close>, \<open>Pin_Command\<close>, \<open>Pin_Command_Exact\<close> (\<^verbatim>\<open>pin/\<close>): the PIN state with retries,
    blocks and tokens, its sealed file, the two PIN protocols, the clientPIN command.
  \<^item> \<open>Runtime_Config\<close> (\<^verbatim>\<open>zerofido_runtime_config.c\<close>), \<open>Approval\<close> (\<^verbatim>\<open>ui/approval_state.c\<close>,
    \<^verbatim>\<open>ctap/core/approval.c\<close>): capabilities of the build, and the prompt that one event settles.
  \<^item> \<open>Usb_Hid\<close>, \<open>Usb_Hid_Exact\<close>, \<open>Usb_Worker\<close> (\<^verbatim>\<open>transport/usb_hid_session.c\<close>,
    \<^verbatim>\<open>transport/dispatch.c\<close>, \<^verbatim>\<open>transport/usb_hid_worker.c\<close>): channels, locks, fragmentation, dispatch and
    the worker thread with its nested waits.
  \<^item> \<open>U2f_Apdu\<close>, \<open>U2f\<close>, \<open>U2f_Exact\<close> (\<^verbatim>\<open>u2f/\<close>): validation, files, start-up, presence, registration and
    authentication. \<open>Ecdsa_Der\<close> (\<^verbatim>\<open>crypto/ecdsa_der.c\<close>). \<open>Attestation\<close>, \<open>Attestation_Exact\<close>
    (\<^verbatim>\<open>attestation/local.c\<close>): the certificate and its files.
  \<^item> \<open>Store_Record\<close>, \<open>Store\<close> (\<^verbatim>\<open>store/\<close>, \<^verbatim>\<open>zerofido_store.c\<close>): the record codec with the sealed counter
    floors, recovery, start-up, the index in memory. \<open>Store_Record_Exact\<close>: codec lemmas; \<open>Store_Files\<close>:
    the files of one credential and the floors they hold; \<open>Store_Exact\<close>: the index as a finite map (locale
    \<open>credential_index\<close>); \<open>Store_Run\<close>: histories of store operations as an inductive relation and their invariant.
    \<open>Store_Resident\<close>: batches of resident credentials found, removed and withdrawn.
  \<^item> \<open>Ctap_Core\<close>, \<open>Ctap_Response\<close>, \<open>Ctap_Assertion\<close>, \<open>Ctap_Credential\<close> (\<^verbatim>\<open>ctap/core/\<close>, \<^verbatim>\<open>ctap/policy.c\<close>,
    \<^verbatim>\<open>ctap/response.c\<close>, \<^verbatim>\<open>zerofido_attestation.c\<close>, \<^verbatim>\<open>ctap/commands/\<close>, \<^verbatim>\<open>ctap/dispatch.c\<close>,
    \<^verbatim>\<open>zerofido_ctap_dispatch.c\<close>): the CTAP2 commands. A handler maps the application and the world to a status
    or a response and the changed state; \<open>then_ok\<close>, \<open>with_maintenance\<close> and \<open>with_scratch\<close> are the early returns
    and the clean-up labels of the code. The environment \<open>ctap_env\<close> holds the build, the platform, the heap,
    the buffers, and the two calls in which other threads act, the wait for the user and the poll of the
    transport.
  \<^item> \<open>Ctap_Response_Exact\<close>: the responses as canonical items, and what a client reads from them.
    \<open>Ctap_Logic\<close>: triples for handlers. \<open>Ctap_Frame\<close>, \<open>Ctap_Calm\<close>: what leaves the credentials and their
    files alone; \<open>quiet_env\<close> is the assumption that other threads do. \<open>Ctap_Run\<close>, \<open>Ctap_History\<close>: creations
    and assertions in the history of the store, and the relation \<open>ctap_run\<close> of histories of messages.
    \<open>Ctap_Gate\<close>: the maintenance gate and the scratch are free again after every command. \<open>Ctap_Consent\<close>:
    approvals and the flags of assertions. \<open>Ctap_Outputs\<close>: the assertion queue and hmac-secret.
  \<^item> \<open>Sim_Platform\<close>, \<open>Sim_Ctap\<close>: a file system, an enclave and an AES engine that satisfy the laws, and a
    registration and assertions on them, for the witnesses.

  \<^bold>\<open>State and operations.\<close> A struct is a record, an enum a datatype, \<open>uint8_t\<close> to \<open>uint64_t\<close> are words, a
  buffer with its length field is the list of the used bytes. A function that changes state returns the
  changed state; the world of files and devices is threaded through as \<open>w\<close>. A function that fails returns
  \<open>False\<close>, \<open>None\<close> or \<open>Inl\<close> of the status the code returns. Wiping of secrets is modelled where it is visible in a
  returned state. \<open>size_t\<close> has 32 bits on the target; it is \<open>nat\<close> where the bounds of the code exclude an
  overflow, and a word where they do not. Code of other threads that runs while a handler waits is a
  parameter of the wait.

  \<^bold>\<open>Fuel.\<close> Loops over buffers are structural or have a measure. The skipper carries the nesting limit of the
  code. The loops of the USB worker run until an event of the environment, and are given the number of
  events to process; nothing is claimed of an infinite run.

  \<^bold>\<open>What the theorems show.\<close> \<open>Codec_Properties\<close>: exactness of the codecs, hashes and parsers.
  \<open>Pin_Properties\<close>: crash safety of the PIN file, retry accounting, tokens and permissions, configuration,
  approval. \<open>Usb_Properties\<close>: reassembly, isolation of channels, cancellation, invariants of the worker.
  \<open>U2f_Properties\<close>: counters, presence, key handles, device key, certificate. \<open>Store_Properties\<close>: records
  read back, counters increase over every history, the index is a map, lookup order, start-up.
  \<open>Ctap_Properties\<close>: the CTAP2 commands from the message to the response: counters that clients read
  increase over every history of messages, what an assertion and a registration answer and change, no
  success without the user, true flags, the candidates of an assertion, the queue, hmac-secret, refusals,
  getInfo, and no command keeps the others out.

  \<^bold>\<open>Not modelled.\<close> The NFC transport (\<^verbatim>\<open>transport/nfc_*.c\<close>), drawing and notifications, the lifecycle
  of threads, the claiming of the USB interface, and tracing: input and output, or driven by the firmware's
  NFC stack. The USB transport takes the protocol handlers as fields of its environment, with the shape of
  \<open>zerofido_handle_ctap2\<close> and \<open>zf_u2f_adapter_handle_msg\<close>. micro-ecc is vendored; its functions are
  parameters, and may fail. Two threads interleave only where one waits or polls, as the code's mutex has it.
\<close>

end
